(* ===== verification/Prelude.thy ===== *)
theory Prelude
  imports Main "HOL-Library.Finite_Map" "HOL-Library.List_Lexorder" "HOL-Library.Char_ord"
begin

text \<open>
  Vocabulary shared by every component: Go slices that may be nil, Go maps that may be nil,
  signed 64-bit arithmetic, validators as lists of guards, and the generic facts about them.
\<close>

named_theorems guard_simps \<open>what it means for a chain of guards to pass\<close>
named_theorems slice_simps \<open>reading and appending Go slices\<close>
named_theorems frame_simps \<open>fields an operation leaves alone\<close>

section \<open>Validators: a chain of guarded returns\<close>

text \<open>
  A Go validator is a sequence of \<^verbatim>\<open>if cond { return err }\<close> statements and of
  \<^verbatim>\<open>if err := f(); err != nil { return err }\<close> calls. \<open>first_err\<close> is that sequence:
  the first error wins, and None is the nil error.
\<close>

definition guard :: "bool \<Rightarrow> 'e \<Rightarrow> 'e option" where
  "guard bad e = (if bad then Some e else None)"

fun first_err :: "'e option list \<Rightarrow> 'e option" where
  "first_err [] = None"
| "first_err (c # cs) = (case c of Some e \<Rightarrow> Some e | None \<Rightarrow> first_err cs)"

definition as_err :: "'e \<Rightarrow> 'a option \<Rightarrow> 'e option" where
  \<comment> \<open>a nested failure reported under the caller's own error\<close>
  "as_err e r = (case r of None \<Rightarrow> None | Some _ \<Rightarrow> Some e)"

lemma guard_None [simp, guard_simps]: "guard b e = None \<longleftrightarrow> \<not> b"
  by (simp add: guard_def)

lemma guard_Some: "guard b e = Some e' \<longleftrightarrow> b \<and> e' = e"
  by (auto simp: guard_def)

lemma first_err_Cons_None [simp, guard_simps]:
  "first_err (c # cs) = None \<longleftrightarrow> c = None \<and> first_err cs = None"
  by (cases c) auto

declare first_err.simps(2) [simp del]

lemma first_err_None_iff: "first_err cs = None \<longleftrightarrow> (\<forall>c \<in> set cs. c = None)"
  by (induction cs) simp_all

lemma as_err_None [simp, guard_simps]: "as_err e r = None \<longleftrightarrow> r = None"
  by (cases r) (simp_all add: as_err_def)

section \<open>Slices\<close>

text \<open>A Go slice distinguishes nil from empty; most code reads both alike.\<close>

type_synonym 'a slice = "'a list option"

definition elems :: "'a slice \<Rightarrow> 'a list" where
  "elems s = (case s of None \<Rightarrow> [] | Some xs \<Rightarrow> xs)"

definition append_slice :: "'a slice \<Rightarrow> 'a list \<Rightarrow> 'a slice" where
  \<comment> \<open>Go's \<^verbatim>\<open>append\<close>: appending nothing to nil is still nil\<close>
  "append_slice s xs = (if xs = [] then s else Some (elems s @ xs))"

lemma elems_Some [simp, slice_simps]: "elems (Some xs) = xs"
  by (simp add: elems_def)

lemma elems_None [simp, slice_simps]: "elems None = []"
  by (simp add: elems_def)

lemma elems_append_slice [simp, slice_simps]: "elems (append_slice s xs) = elems s @ xs"
  by (simp add: append_slice_def)

lemma append_slice_None_iff [simp, slice_simps]:
  "append_slice s xs = None \<longleftrightarrow> s = None \<and> xs = []"
  by (simp add: append_slice_def)

lemma append_slice_Some [simp, slice_simps]: "append_slice (Some ys) xs = Some (ys @ xs)"
  by (simp add: append_slice_def)

section \<open>Maps keyed by strings\<close>

text \<open>A Go map is a finite map that may be nil; a nil map reads as empty.\<close>

type_synonym 'v gomap = "(string, 'v) fmap option"

definition entries :: "'v gomap \<Rightarrow> (string, 'v) fmap" where
  "entries m = (case m of None \<Rightarrow> fmempty | Some f \<Rightarrow> f)"

definition map_len :: "'v gomap \<Rightarrow> nat" where
  "map_len m = fcard (fmdom (entries m))"

lemma entries_Some [simp, slice_simps]: "entries (Some f) = f"
  by (simp add: entries_def)

lemma entries_None [simp, slice_simps]: "entries None = fmempty"
  by (simp add: entries_def)

lemma map_len_0_iff [simp]: "map_len m = 0 \<longleftrightarrow> entries m = fmempty"
proof -
  have "fmdom f = {||} \<longleftrightarrow> f = fmempty" for f :: "(string, 'a) fmap"
    by (metis fmdom_empty fmrestrict_fset_dom fmrestrict_fset_null)
  then show ?thesis by (simp add: map_len_def)
qed

lemma fmdom_subset_card_eq:
  assumes "fset (fmdom f) \<subseteq> S" "finite S" "fcard (fmdom f) = card S"
  shows "fset (fmdom f) = S"
  using assms by (metis card_subset_eq fcard.rep_eq)

section \<open>Signed 64-bit arithmetic\<close>

definition int_min :: int where "int_min = - (2 ^ 63)"
definition int_max :: int where "int_max = 2 ^ 63 - 1"

definition go_int :: "int \<Rightarrow> bool" where
  "go_int n \<longleftrightarrow> int_min \<le> n \<and> n \<le> int_max"

definition wrap64 :: "int \<Rightarrow> int" where
  \<comment> \<open>two's complement reduction of an exact result\<close>
  "wrap64 n = (n + 2 ^ 63) mod 2 ^ 64 - 2 ^ 63"

definition go_add :: "int \<Rightarrow> int \<Rightarrow> int" where
  "go_add a b = wrap64 (a + b)"

lemma wrap64_id: "go_int n \<Longrightarrow> wrap64 n = n"
  by (simp add: go_int_def int_min_def int_max_def wrap64_def)

lemma go_int_wrap64: "go_int (wrap64 n)"
  by (simp add: go_int_def int_min_def int_max_def wrap64_def)

lemma go_add_exact: "go_int (a + b) \<Longrightarrow> go_add a b = a + b"
  by (simp add: go_add_def wrap64_id)

lemma go_add_0 [simp]: "go_int b \<Longrightarrow> go_add 0 b = b"
  by (simp add: go_add_exact)

section \<open>Lists\<close>

fun first_dup :: "'a list \<Rightarrow> bool" where
  \<comment> \<open>two equal neighbours, the duplicate test of a sorted slice\<close>
  "first_dup (x # y # zs) = (x = y \<or> first_dup (y # zs))"
| "first_dup _ = False"

lemma sorted_first_dup:
  fixes xs :: "'a::linorder list"
  shows "sorted xs \<Longrightarrow> first_dup xs \<longleftrightarrow> \<not> distinct xs"
proof (induction xs rule: first_dup.induct)
  case (1 x y zs)
  have "x \<in> set zs \<Longrightarrow> x = y"
    using 1(2) by (meson antisym list.set_intros(1,2) sorted_simps(2))
  with 1 show ?case by auto
qed auto

fun traverse :: "('a \<Rightarrow> 'e + 'b) \<Rightarrow> 'a list \<Rightarrow> 'e + 'b list" where
  \<comment> \<open>a loop that fills an output slice and returns at the first error\<close>
  "traverse f [] = Inr []"
| "traverse f (x # xs) =
     (case f x of Inl e \<Rightarrow> Inl e
      | Inr y \<Rightarrow> (case traverse f xs of Inl e \<Rightarrow> Inl e | Inr ys \<Rightarrow> Inr (y # ys)))"

lemma traverse_Inr_iff:
  "traverse f xs = Inr ys \<longleftrightarrow> list_all2 (\<lambda>x y. f x = Inr y) xs ys"
proof (induction xs arbitrary: ys)
  case (Cons x xs)
  have "traverse f (x # xs) = Inr ys \<longleftrightarrow>
      (\<exists>z zs. ys = z # zs \<and> f x = Inr z \<and> traverse f xs = Inr zs)"
    by (cases "f x"; cases "traverse f xs") auto
  then show ?case by (simp only: Cons.IH list_all2_Cons1)
qed auto

lemma traverse_id:
  "(\<And>x. x \<in> set xs \<Longrightarrow> f x = Inr x) \<Longrightarrow> traverse f xs = Inr xs"
  by (induction xs) simp_all

lemma traverse_length: "traverse f xs = Inr ys \<Longrightarrow> length ys = length xs"
  by (simp add: traverse_Inr_iff list_all2_lengthD)

lemma traverse_image:
  "traverse f xs = Inr ys \<Longrightarrow> y \<in> set ys \<Longrightarrow> \<exists>x \<in> set xs. f x = Inr y"
  unfolding traverse_Inr_iff by (induction xs ys rule: list_all2_induct) auto

lemma traverse_perm_ex:
  "(\<forall>x \<in> set xs. \<exists>y. f x = Inr y) \<longleftrightarrow> (\<exists>ys. traverse f xs = Inr ys)"
proof (induction xs)
  case (Cons x xs)
  then show ?case by (auto split: sum.splits)
qed simp

section \<open>Step relations that cannot go on for ever\<close>

text \<open>
  The contract of a paced step relation: every step keeps validity and the frozen scope, and lowers
  a rank by one more than the credit it earns. A bounded lifecycle is one that earns nothing. What
  follows for runs is proved once here; the compact machine, the compact machine with reopened
  results and the v1 transaction machine are interpreted.
\<close>

locale paced =
  fixes valid :: "'s \<Rightarrow> bool"
    and step :: "'s \<Rightarrow> 's \<Rightarrow> bool"
    and scope :: "'s \<Rightarrow> 'k"
    and rank :: "'s \<Rightarrow> nat"
    and credit :: "'s \<Rightarrow> nat"
  assumes step_valid: "valid s \<Longrightarrow> step s t \<Longrightarrow> valid t"
    and step_scope: "valid s \<Longrightarrow> step s t \<Longrightarrow> scope t = scope s"
    and step_pace: "valid s \<Longrightarrow> step s t \<Longrightarrow> rank t + credit s < rank s + credit t"
begin

lemma run_keeps:
  assumes "step\<^sup>*\<^sup>* s t" "valid s"
  shows "valid t \<and> scope t = scope s"
  using assms
proof (induction rule: rtranclp_induct)
  case (step t u)
  with step_valid step_scope show ?case by metis
qed simp

lemma run_paced:
  assumes "(step ^^ n) s t" "valid s"
  shows "n + rank t + credit s \<le> rank s + credit t"
  using assms
proof (induction n arbitrary: t)
  case (Suc n)
  then obtain u where u: "(step ^^ n) s u" "step u t" by auto
  have "valid u" using run_keeps [OF relpowp_imp_rtranclp [OF u(1)] Suc.prems(2)] by simp
  with Suc.IH [OF u(1) Suc.prems(2)] step_pace [OF _ u(2)] show ?case by simp
qed simp

end

locale lifecycle =
  fixes valid :: "'s \<Rightarrow> bool"
    and step :: "'s \<Rightarrow> 's \<Rightarrow> bool"
    and scope :: "'s \<Rightarrow> 'k"
    and rank :: "'s \<Rightarrow> nat"
  assumes step_valid: "valid s \<Longrightarrow> step s t \<Longrightarrow> valid t"
    and step_scope: "valid s \<Longrightarrow> step s t \<Longrightarrow> scope t = scope s"
    and step_rank: "valid s \<Longrightarrow> step s t \<Longrightarrow> rank t < rank s"

sublocale lifecycle \<subseteq> pace: paced valid step scope rank "\<lambda>_. 0"
  by unfold_locales (simp_all add: step_valid step_scope step_rank)

context lifecycle
begin

lemma run_bounded: "(step ^^ n) s t \<Longrightarrow> valid s \<Longrightarrow> n + rank t \<le> rank s"
  using pace.run_paced by simp

lemma run_keeps:
  assumes "step\<^sup>*\<^sup>* s t" "valid s"
  shows "valid t \<and> scope t = scope s \<and> rank t \<le> rank s"
proof -
  from rtranclp_imp_relpowp [OF assms(1)] obtain n where "(step ^^ n) s t" by blast
  from run_bounded [OF this assms(2)] pace.run_keeps [OF assms] show ?thesis by simp
qed

lemma stuck: "valid s \<Longrightarrow> rank s = 0 \<Longrightarrow> \<not> step s t"
  using step_rank by fastforce

lemma runs_end: "valid (run 0) \<Longrightarrow> \<exists>n. \<not> step (run n) (run (Suc n))"
proof (rule ccontr)
  assume v: "valid (run 0)" and "\<not> (\<exists>n. \<not> step (run n) (run (Suc n)))"
  then have s: "\<And>n. step (run n) (run (Suc n))" by blast
  have "(step ^^ n) (run 0) (run n)" for n by (induction n) (use s in auto)
  from run_bounded [OF this v, of "Suc (rank (run 0))"] show False by simp
qed

end

end
