(* ===== verification/GoText.thy ===== *)
theory GoText
  imports Prelude "HOL-Library.Sublist"
begin

text \<open>
  Go strings as byte lists (Isabelle's \<open>string\<close> is a list of 8-bit characters) and the
  functions of the packages \<^verbatim>\<open>strings\<close>, \<^verbatim>\<open>sort\<close> and \<^verbatim>\<open>path\<close> that the
  review code calls. Case mapping is exact on every rune that can map to or from ASCII, which is
  all the callers compare with; other runes are left alone.
\<close>

section \<open>Bytes\<close>

definition byte :: "char \<Rightarrow> nat" where
  "byte c = of_char c"

definition between :: "nat \<Rightarrow> char \<Rightarrow> nat \<Rightarrow> bool" where
  "between lo c hi \<longleftrightarrow> lo \<le> byte c \<and> byte c \<le> hi"

definition is_digit :: "char \<Rightarrow> bool" where
  "is_digit c \<longleftrightarrow> between 48 c 57"

definition is_lower_alpha :: "char \<Rightarrow> bool" where
  "is_lower_alpha c \<longleftrightarrow> between 97 c 122"

definition is_upper_alpha :: "char \<Rightarrow> bool" where
  "is_upper_alpha c \<longleftrightarrow> between 65 c 90"

definition is_lower_hex :: "char \<Rightarrow> bool" where
  "is_lower_hex c \<longleftrightarrow> is_digit c \<or> between 97 c 102"

definition is_hex_digit :: "char \<Rightarrow> bool" where
  "is_hex_digit c \<longleftrightarrow> is_lower_hex c \<or> between 65 c 70"

section \<open>White space\<close>

text \<open>The UTF-8 encodings of the runes \<^verbatim>\<open>unicode.IsSpace\<close> accepts.\<close>

definition space_runes :: "string list" where
  "space_runes =
     [[CHR 0x09], [CHR 0x0A], [CHR 0x0B], [CHR 0x0C], [CHR 0x0D], [CHR 0x20],
      [CHR 0xC2, CHR 0x85], [CHR 0xC2, CHR 0xA0], [CHR 0xE1, CHR 0x9A, CHR 0x80],
      [CHR 0xE2, CHR 0x80, CHR 0x80], [CHR 0xE2, CHR 0x80, CHR 0x81],
      [CHR 0xE2, CHR 0x80, CHR 0x82], [CHR 0xE2, CHR 0x80, CHR 0x83],
      [CHR 0xE2, CHR 0x80, CHR 0x84], [CHR 0xE2, CHR 0x80, CHR 0x85],
      [CHR 0xE2, CHR 0x80, CHR 0x86], [CHR 0xE2, CHR 0x80, CHR 0x87],
      [CHR 0xE2, CHR 0x80, CHR 0x88], [CHR 0xE2, CHR 0x80, CHR 0x89],
      [CHR 0xE2, CHR 0x80, CHR 0x8A], [CHR 0xE2, CHR 0x80, CHR 0xA8],
      [CHR 0xE2, CHR 0x80, CHR 0xA9], [CHR 0xE2, CHR 0x80, CHR 0xAF],
      [CHR 0xE2, CHR 0x81, CHR 0x9F], [CHR 0xE3, CHR 0x80, CHR 0x80]]"

definition strip_one :: "string list \<Rightarrow> string \<Rightarrow> string option" where
  \<comment> \<open>drop one leading member of the given encodings\<close>
  "strip_one runes s =
     map_option (\<lambda>r. drop (length r) s) (List.find (\<lambda>r. prefix r s) runes)"

fun strip_all :: "nat \<Rightarrow> string list \<Rightarrow> string \<Rightarrow> string" where
  "strip_all 0 runes s = s"
| "strip_all (Suc n) runes s =
     (case strip_one runes s of None \<Rightarrow> s | Some s' \<Rightarrow> strip_all n runes s')"

definition trim_left :: "string \<Rightarrow> string" where
  \<comment> \<open>each step drops a byte or more, so the length is fuel enough\<close>
  "trim_left s = strip_all (length s) space_runes s"

definition trim_right :: "string \<Rightarrow> string" where
  "trim_right s = rev (strip_all (length s) (map rev space_runes) (rev s))"

definition trim_space :: "string \<Rightarrow> string" where
  \<comment> \<open>\<^verbatim>\<open>strings.TrimSpace\<close>\<close>
  "trim_space s = trim_right (trim_left s)"

definition blank :: "string \<Rightarrow> bool" where
  "blank s \<longleftrightarrow> trim_space s = []"

lemma space_runes_nonempty: "r \<in> set space_runes \<Longrightarrow> r \<noteq> []"
  by (auto simp: space_runes_def)

lemma strip_one_Some:
  assumes "strip_one runes s = Some s'"
  shows "\<exists>r \<in> set runes. s = r @ s'"
  using assms by (auto simp: strip_one_def find_Some_iff prefix_def in_set_conv_nth)

lemma strip_one_None: "strip_one runes s = None \<longleftrightarrow> (\<forall>r \<in> set runes. \<not> prefix r s)"
  by (auto simp: strip_one_def find_None_iff)

lemma strip_all_suffix: "suffix (strip_all n runes s) s"
proof (induction n arbitrary: s)
  case (Suc n)
  show ?case
  proof (cases "strip_one runes s")
    case (Some s')
    then obtain r where "s = r @ s'" using strip_one_Some by blast
    then show ?thesis using Suc.IH [of s'] Some by (simp add: suffix_appendI)
  qed simp
qed simp

lemma strip_all_done:
  assumes "\<And>r. r \<in> set runes \<Longrightarrow> r \<noteq> []" and "length s \<le> n"
  shows "strip_one runes (strip_all n runes s) = None"
  using assms(2)
proof (induction n arbitrary: s)
  case 0
  then show ?case using assms(1) by (auto simp: strip_one_None)
next
  case (Suc n)
  show ?case
  proof (cases "strip_one runes s")
    case (Some s')
    then obtain r where "r \<in> set runes" "s = r @ s'" using strip_one_Some by blast
    moreover have "0 < length r" using assms(1) \<open>r \<in> set runes\<close> by simp
    ultimately have "length s' \<le> n" using Suc.prems by (simp del: length_greater_0_conv)
    then show ?thesis using Suc.IH Some by simp
  qed simp
qed

lemma strip_all_fixpoint: "strip_one runes s = None \<Longrightarrow> strip_all n runes s = s"
  by (cases n) simp_all

lemma trim_left_idem [simp]: "trim_left (trim_left s) = trim_left s"
  unfolding trim_left_def
  by (rule strip_all_fixpoint, rule strip_all_done) (use space_runes_nonempty in auto)

lemma trim_right_idem [simp]: "trim_right (trim_right s) = trim_right s"
proof -
  let ?rs = "map rev space_runes"
  have "strip_one ?rs (strip_all (length s) ?rs (rev s)) = None"
    by (rule strip_all_done) (auto dest: space_runes_nonempty)
  then show ?thesis by (simp add: trim_right_def strip_all_fixpoint)
qed

lemma trim_right_prefix: "prefix (trim_right s) s"
proof -
  have "suffix (strip_all (length s) (map rev space_runes) (rev s)) (rev s)"
    by (rule strip_all_suffix)
  then show ?thesis by (simp add: trim_right_def suffix_to_prefix)
qed

lemma trim_left_trim_right:
  assumes "trim_left s = s"
  shows "trim_left (trim_right s) = trim_right s"
proof -
  have "strip_one space_runes s = None"
    using strip_all_done [of space_runes s "length s"] assms space_runes_nonempty
    by (simp add: trim_left_def)
  then have "\<forall>r \<in> set space_runes. \<not> prefix r (trim_right s)"
    using prefix_order.trans [OF _ trim_right_prefix] by (auto simp: strip_one_None)
  then show ?thesis
    by (simp add: trim_left_def strip_all_fixpoint strip_one_None)
qed

lemma trim_space_idem [simp]: "trim_space (trim_space s) = trim_space s"
  by (simp add: trim_space_def trim_left_trim_right)

lemma blank_trim [simp]: "blank (trim_space s) \<longleftrightarrow> blank s"
  by (simp add: blank_def)

lemma trim_space_Nil [simp]: "trim_space [] = []"
  by (simp add: trim_space_def trim_left_def trim_right_def)

lemma blank_Nil [simp]: "blank []"
  by (simp add: blank_def)

lemma not_blank_nonempty: "\<not> blank s \<Longrightarrow> s \<noteq> []"
  by auto

section \<open>Case\<close>

definition lower_byte :: "char \<Rightarrow> char" where
  "lower_byte c = (if is_upper_alpha c then char_of (byte c + 32) else c)"

definition upper_byte :: "char \<Rightarrow> char" where
  "upper_byte c = (if is_lower_alpha c then char_of (byte c - 32) else c)"

fun to_lower :: "string \<Rightarrow> string" where
  \<comment> \<open>\<^verbatim>\<open>strings.ToLower\<close>; U+212A and U+0130 are the runes that lower to ASCII\<close>
  "to_lower [] = []"
| "to_lower (c # s) =
     (if prefix [CHR 0xE2, CHR 0x84, CHR 0xAA] (c # s) then CHR ''k'' # to_lower (drop 2 s)
      else if prefix [CHR 0xC4, CHR 0xB0] (c # s) then CHR ''i'' # to_lower (drop 1 s)
      else lower_byte c # to_lower s)"

fun to_upper :: "string \<Rightarrow> string" where
  \<comment> \<open>\<^verbatim>\<open>strings.ToUpper\<close>; U+0131 and U+017F are the runes that upper to ASCII\<close>
  "to_upper [] = []"
| "to_upper (c # s) =
     (if prefix [CHR 0xC4, CHR 0xB1] (c # s) then CHR ''I'' # to_upper (drop 1 s)
      else if prefix [CHR 0xC5, CHR 0xBF] (c # s) then CHR ''S'' # to_upper (drop 1 s)
      else upper_byte c # to_upper s)"

section \<open>Searching and splitting\<close>

definition has_prefix :: "string \<Rightarrow> string \<Rightarrow> bool" where
  "has_prefix s p \<longleftrightarrow> prefix p s"

definition contains :: "string \<Rightarrow> string \<Rightarrow> bool" where
  "contains s sub \<longleftrightarrow> sublist sub s"

definition trim_prefix :: "string \<Rightarrow> string \<Rightarrow> string" where
  "trim_prefix s p = (if prefix p s then drop (length p) s else s)"

definition index_of :: "'a list \<Rightarrow> 'a \<Rightarrow> nat option" where
  \<comment> \<open>\<^verbatim>\<open>stringIndex\<close>, with None for -1\<close>
  "index_of xs x = (if x \<in> set xs then Some (length (takeWhile (\<lambda>y. y \<noteq> x) xs)) else None)"

lemma index_of_None [simp]: "index_of xs x = None \<longleftrightarrow> x \<notin> set xs"
  by (simp add: index_of_def)

lemma index_of_nth:
  assumes "index_of xs x = Some i"
  shows "i < length xs \<and> xs ! i = x"
proof -
  from assms have x: "x \<in> set xs" and i: "i = length (takeWhile (\<lambda>y. y \<noteq> x) xs)"
    by (auto simp: index_of_def split: if_splits)
  from x obtain ys zs where xs: "xs = ys @ x # zs" "x \<notin> set ys"
    by (meson split_list_first)
  then have "takeWhile (\<lambda>y. y \<noteq> x) xs = ys" by (auto simp: takeWhile_append)
  with i xs show ?thesis by simp
qed

fun split_on :: "char \<Rightarrow> string \<Rightarrow> string list" where
  \<comment> \<open>\<^verbatim>\<open>strings.Split\<close> on one byte: never empty, joins back to the input\<close>
  "split_on sep [] = [[]]"
| "split_on sep (c # s) =
     (if c = sep then [] # split_on sep s
      else (case split_on sep s of [] \<Rightarrow> [[c]] | w # ws \<Rightarrow> (c # w) # ws))"

fun join_with :: "string \<Rightarrow> string list \<Rightarrow> string" where
  "join_with sep [] = []"
| "join_with sep [w] = w"
| "join_with sep (w # v # ws) = w @ sep @ join_with sep (v # ws)"

lemma split_on_nonempty [simp]: "split_on sep s \<noteq> []"
  by (cases s) (auto split: list.splits)

lemma join_split: "join_with [sep] (split_on sep s) = s"
proof (induction s)
  case (Cons c s)
  then show ?case
    by (cases "split_on sep s"; cases "tl (split_on sep s)") auto
qed simp

lemma split_on_no_sep: "w \<in> set (split_on sep s) \<Longrightarrow> sep \<notin> set w"
proof (induction s arbitrary: w)
  case (Cons c s)
  then show ?case by (cases "split_on sep s") (auto split: if_splits)
qed simp

text \<open>\<^verbatim>\<open>strings.Fields\<close>: maximal runs of bytes outside white space.\<close>

fun split_fields_acc :: "nat \<Rightarrow> string \<Rightarrow> string \<Rightarrow> string list" where
  "split_fields_acc 0 acc s = (if acc = [] then [] else [rev acc])"
| "split_fields_acc (Suc n) acc s =
     (case s of [] \<Rightarrow> (if acc = [] then [] else [rev acc])
      | c # s' \<Rightarrow>
        (case strip_one space_runes s of
           Some rest \<Rightarrow> (if acc = [] then [] else [rev acc]) @ split_fields_acc n [] rest
         | None \<Rightarrow> split_fields_acc n (c # acc) s'))"

definition split_fields :: "string \<Rightarrow> string list" where
  "split_fields s = split_fields_acc (Suc (length s)) [] s"

end
