(* ===== verification/Sha256.thy ===== *)
theory Sha256
  imports GoText "HOL-Library.Word"
begin

unbundle bit_operations_syntax

text \<open>
  SHA-256 (FIPS 180-4) on byte strings and the identities built from it: the lowercase
  \<^verbatim>\<open>sha256:<hex>\<close> text every authority record stores, and the length-prefixed
  preimages of snapshot.go. \<open>lp_encode\<close> is shown injective, so two different lists of fields
  never share a preimage.
\<close>

section \<open>The hash function\<close>

type_synonym word32 = "32 word"

definition round_keys :: "word32 list" where
  "round_keys =
    [
    1116352408, 1899447441, 3049323471, 3921009573, 961987163, 1508970993, 2453635748,
     2870763221, 3624381080, 310598401, 607225278, 1426881987, 1925078388, 2162078206,
     2614888103, 3248222580, 3835390401, 4022224774, 264347078, 604807628, 770255983, 1249150122,
     1555081692, 1996064986, 2554220882, 2821834349, 2952996808, 3210313671, 3336571891,
     3584528711, 113926993, 338241895, 666307205, 773529912, 1294757372, 1396182291, 1695183700,
     1986661051, 2177026350, 2456956037, 2730485921, 2820302411, 3259730800, 3345764771,
     3516065817, 3600352804, 4094571909, 275423344, 430227734, 506948616, 659060556, 883997877,
     958139571, 1322822218, 1537002063, 1747873779, 1955562222, 2024104815, 2227730452,
     2361852424, 2428436474, 2756734187, 3204031479, 3329325298]"

definition initial_hash :: "word32 list" where
  "initial_hash =
    [
    1779033703, 3144134277, 1013904242, 2773480762, 1359893119, 2600822924, 528734635, 1541459225]"

definition rotr :: "nat \<Rightarrow> word32 \<Rightarrow> word32" where
  "rotr n w = drop_bit n w OR push_bit (32 - n) w"

definition small_sigma0 :: "word32 \<Rightarrow> word32" where
  "small_sigma0 w = rotr 7 w XOR rotr 18 w XOR drop_bit 3 w"

definition small_sigma1 :: "word32 \<Rightarrow> word32" where
  "small_sigma1 w = rotr 17 w XOR rotr 19 w XOR drop_bit 10 w"

definition big_sigma0 :: "word32 \<Rightarrow> word32" where
  "big_sigma0 w = rotr 2 w XOR rotr 13 w XOR rotr 22 w"

definition big_sigma1 :: "word32 \<Rightarrow> word32" where
  "big_sigma1 w = rotr 6 w XOR rotr 11 w XOR rotr 25 w"

fun schedule :: "nat \<Rightarrow> word32 list \<Rightarrow> word32 list" where
  \<comment> \<open>the message schedule, newest word first\<close>
  "schedule 0 ws = ws"
| "schedule (Suc n) ws =
     schedule n ((small_sigma1 (ws ! 1) + ws ! 6 + small_sigma0 (ws ! 14) + ws ! 15) # ws)"

fun compress_round :: "word32 list \<Rightarrow> word32 \<times> word32 \<Rightarrow> word32 list" where
  "compress_round [a, b, c, d, e, f, g, h] (k, w) =
     (let t1 = h + big_sigma1 e + ((e AND f) XOR (NOT e AND g)) + k + w;
          t2 = big_sigma0 a + ((a AND b) XOR (a AND c) XOR (b AND c))
      in [t1 + t2, a, b, c, d + t1, e, f, g])"
| "compress_round st _ = st"

definition compress :: "word32 list \<Rightarrow> word32 list \<Rightarrow> word32 list" where
  "compress st block =
     map2 (+) st (foldl compress_round st (zip round_keys (rev (schedule 48 (rev block)))))"

definition bytes_to_word :: "nat list \<Rightarrow> word32" where
  "bytes_to_word bs = foldl (\<lambda>w b. push_bit 8 w OR word_of_nat b) 0 bs"

fun chunks :: "nat \<Rightarrow> nat \<Rightarrow> 'a list \<Rightarrow> 'a list list" where
  \<comment> \<open>\<open>chunks n k xs\<close>: the first \<open>n\<close> groups of \<open>k\<close> elements\<close>
  "chunks 0 k xs = []"
| "chunks (Suc n) k xs = take k xs # chunks n k (drop k xs)"

fun big_endian :: "nat \<Rightarrow> nat \<Rightarrow> nat list" where
  \<comment> \<open>the low \<open>len\<close> bytes of \<open>n\<close>, most significant first\<close>
  "big_endian 0 n = []"
| "big_endian (Suc len) n = big_endian len (n div 256) @ [n mod 256]"

definition pad_message :: "nat list \<Rightarrow> nat list" where
  "pad_message bs =
     (let n = length bs; zeros = (55 + 64 - n mod 64) mod 64
      in bs @ [128] @ replicate zeros 0 @ big_endian 8 (8 * n))"

definition sha256_words :: "string \<Rightarrow> word32 list" where
  "sha256_words msg =
     (let padded = pad_message (map byte msg)
      in foldl compress initial_hash
           (map (\<lambda>block. map bytes_to_word (chunks 16 4 block))
             (chunks (length padded div 64) 64 padded)))"

definition hex_char :: "nat \<Rightarrow> char" where
  "hex_char n = (if n < 10 then char_of (48 + n) else char_of (87 + n))"

definition word_hex :: "word32 \<Rightarrow> string" where
  "word_hex w = map (\<lambda>i. hex_char (unat (drop_bit (4 * i) w AND 15))) (rev [0..<8])"

definition sha256_hex :: "string \<Rightarrow> string" where
  "sha256_hex msg = concat (map word_hex (sha256_words msg))"

section \<open>SHA-256 identities\<close>

definition identity_of :: "string \<Rightarrow> string" where
  \<comment> \<open>\<^verbatim>\<open>"sha256:" + hex.EncodeToString(sum[:])\<close>\<close>
  "identity_of payload = ''sha256:'' @ sha256_hex payload"

definition domain_identity :: "string \<Rightarrow> string \<Rightarrow> string" where
  \<comment> \<open>a domain label, a zero byte, and the payload\<close>
  "domain_identity domain payload = identity_of (domain @ [CHR 0x00] @ payload)"

definition empty_fix_delta_hash :: string where
  "empty_fix_delta_hash = identity_of []"

definition valid_sha256 :: "string \<Rightarrow> bool" where
  "valid_sha256 value \<longleftrightarrow>
     has_prefix value ''sha256:'' \<and> length value = length ''sha256:'' + 64 \<and>
     list_all is_hex_digit (trim_prefix value ''sha256:'') \<and> to_lower value = value"

definition valid_git_tree :: "string \<Rightarrow> bool" where
  \<comment> \<open>a full lowercase object id, and not the all-zero null object\<close>
  "valid_git_tree value \<longleftrightarrow>
     (length value = 40 \<or> length value = 64) \<and> list_all is_lower_hex value \<and>
     dropWhile (\<lambda>c. c = CHR ''0'') value \<noteq> []"

lemma length_chunks [simp]: "length (chunks n k xs) = n"
  by (induction n arbitrary: xs) simp_all

lemma length_compress_round:
  "length st = 8 \<Longrightarrow> length (compress_round st kw) = 8"
  by (induction st kw rule: compress_round.induct) (simp_all add: Let_def)

lemma length_foldl_rounds:
  "length st = 8 \<Longrightarrow> length (foldl compress_round st kws) = 8"
  by (induction kws arbitrary: st) (simp_all add: length_compress_round)

lemma length_compress: "length st = 8 \<Longrightarrow> length (compress st block) = 8"
  by (simp add: compress_def length_foldl_rounds)

lemma length_sha256_words: "length (sha256_words msg) = 8"
proof -
  have "length (foldl compress st blocks) = 8" if "length st = 8" for st blocks
    using that by (induction blocks arbitrary: st) (simp_all add: length_compress)
  then show ?thesis by (simp add: sha256_words_def Let_def initial_hash_def)
qed

lemma hex_char_lower_hex: "n < 16 \<Longrightarrow> is_lower_hex (hex_char n)"
  by (auto simp: hex_char_def is_lower_hex_def is_digit_def between_def byte_def)

lemma unat_nibble: "unat (w AND 15) < 16" for w :: word32
proof -
  have "w AND 15 = take_bit 4 w" by (simp add: take_bit_eq_mask mask_eq_exp_minus_1)
  moreover have "unat (take_bit 4 w) = take_bit 4 (unat w)" by (simp add: unsigned_take_bit_eq)
  moreover have "take_bit 4 (unat w) = unat w mod 16" by (simp add: take_bit_eq_mod)
  ultimately show ?thesis by simp
qed

lemma word_hex_lower_hex: "c \<in> set (word_hex w) \<Longrightarrow> is_lower_hex c"
  by (auto simp: word_hex_def intro!: hex_char_lower_hex unat_nibble)

lemma length_sha256_hex: "length (sha256_hex msg) = 64"
proof -
  have "length (concat (map word_hex ws)) = 8 * length ws" for ws
    by (induction ws) (simp_all add: word_hex_def)
  then show ?thesis by (simp add: sha256_hex_def length_sha256_words)
qed

lemma sha256_hex_lower_hex: "list_all is_lower_hex (sha256_hex msg)"
  by (auto simp: sha256_hex_def list_all_iff dest: word_hex_lower_hex)

lemma to_lower_id:
  "(\<And>c. c \<in> set s \<Longrightarrow> byte c < 128 \<and> \<not> is_upper_alpha c) \<Longrightarrow> to_lower s = s"
proof (induction s)
  case (Cons c s)
  have "byte c < 128" "\<not> is_upper_alpha c" using Cons.prems by simp_all
  then have "c \<noteq> CHR 0xE2" "c \<noteq> CHR 0xC4" by (auto simp: byte_def)
  with \<open>\<not> is_upper_alpha c\<close> Cons show ?case by (simp add: lower_byte_def)
qed simp

lemma valid_sha256_identity [simp]: "valid_sha256 (identity_of payload)"
proof -
  let ?v = "''sha256:'' @ sha256_hex payload"
  have low: "is_lower_hex c \<Longrightarrow> byte c < 128 \<and> \<not> is_upper_alpha c" for c
    by (auto simp: is_lower_hex_def is_digit_def is_upper_alpha_def between_def)
  have "to_lower ?v = ?v"
    using sha256_hex_lower_hex [of payload] low
    by (intro to_lower_id) (auto simp: list_all_iff is_upper_alpha_def between_def byte_def)
  moreover have "list_all is_hex_digit (sha256_hex payload)"
    using sha256_hex_lower_hex [of payload] by (auto simp: list_all_iff is_hex_digit_def)
  ultimately show ?thesis
    by (simp add: valid_sha256_def identity_of_def has_prefix_def trim_prefix_def length_sha256_hex)
qed

lemma valid_sha256_domain [simp]: "valid_sha256 (domain_identity d p)"
  by (simp add: domain_identity_def)

lemma valid_sha256_empty_fix [simp]: "valid_sha256 empty_fix_delta_hash"
  by (simp add: empty_fix_delta_hash_def)

lemma not_valid_sha256_Nil [simp]: "\<not> valid_sha256 []"
  by (simp add: valid_sha256_def)

lemma identity_nonempty [simp]: "identity_of p \<noteq> []" "domain_identity d p \<noteq> []"
  by (simp_all add: identity_of_def domain_identity_def)

lemma empty_fix_nonempty [simp]: "empty_fix_delta_hash \<noteq> []"
  by (simp add: empty_fix_delta_hash_def)

section \<open>Length-prefixed preimages\<close>

fun decimal :: "nat \<Rightarrow> string" where
  \<comment> \<open>\<^verbatim>\<open>strconv.Itoa\<close> of a length\<close>
  "decimal n =
     (if n < 10 then [char_of (48 + n)] else decimal (n div 10) @ [char_of (48 + n mod 10)])"

definition lp_field :: "string \<Rightarrow> string" where
  \<comment> \<open>\<^verbatim>\<open>writeLengthPrefixed\<close>\<close>
  "lp_field value = decimal (length value) @ [CHR 0x00] @ value @ [CHR 0x00]"

definition lp_encode :: "string list \<Rightarrow> string" where
  "lp_encode values = concat (map lp_field values)"

declare decimal.simps [simp del]

definition undecimal :: "string \<Rightarrow> nat" where
  "undecimal s = foldl (\<lambda>n c. 10 * n + (byte c - 48)) 0 s"

lemma byte_digit: "n < 10 \<Longrightarrow> byte (char_of (48 + n)) = 48 + n"
  by (simp add: byte_def)

lemma undecimal_decimal [simp]: "undecimal (decimal n) = n"
proof (induction n rule: decimal.induct)
  case (1 n)
  have d: "m < 10 \<Longrightarrow> byte (char_of (48 + m)) - 48 = m" for m :: nat
    by (simp add: byte_digit)
  show ?case
  proof (cases "n < 10")
    case True
    then show ?thesis by (simp add: decimal.simps [of n] undecimal_def d)
  next
    case False
    with "1.IH" have "undecimal (decimal (n div 10)) = n div 10" by simp
    with False show ?thesis by (simp add: decimal.simps [of n] undecimal_def d)
  qed
qed

lemma decimal_inject [simp]: "decimal m = decimal n \<longleftrightarrow> m = n"
  by (metis undecimal_decimal)

lemma decimal_digits: "c \<in> set (decimal n) \<Longrightarrow> is_digit c"
proof (induction n rule: decimal.induct)
  case (1 n)
  have d: "m < 10 \<Longrightarrow> is_digit (char_of (48 + m))" for m :: nat
    by (simp add: is_digit_def between_def byte_digit)
  show ?case
  proof (cases "n < 10")
    case True
    then show ?thesis using "1.prems" by (simp add: decimal.simps [of n] d)
  next
    case False
    then show ?thesis using 1 by (auto simp: decimal.simps [of n] d)
  qed
qed

lemma decimal_no_zero_byte: "CHR 0x00 \<notin> set (decimal n)"
  using decimal_digits [of "CHR 0x00" n] by (auto simp: is_digit_def between_def byte_def)

lemma until_zero_byte:
  "CHR 0x00 \<notin> set xs \<Longrightarrow> takeWhile (\<lambda>c. c \<noteq> CHR 0x00) (xs @ CHR 0x00 # ys) = xs"
  by (induction xs) auto

lemma lp_field_inject:
  assumes "lp_field v @ r = lp_field w @ r'"
  shows "v = w \<and> r = r'"
proof -
  let ?f = "takeWhile (\<lambda>c. c \<noteq> CHR 0x00)"
  have "?f (lp_field v @ r) = decimal (length v)" "?f (lp_field w @ r') = decimal (length w)"
    by (simp_all add: lp_field_def until_zero_byte decimal_no_zero_byte)
  with assms have "length v = length w" by simp
  with assms show ?thesis by (auto simp: lp_field_def)
qed

lemma lp_encode_Cons: "lp_encode (v # vs) = lp_field v @ lp_encode vs"
  by (simp add: lp_encode_def)

lemma lp_encode_append: "lp_encode (vs @ ws) = lp_encode vs @ lp_encode ws"
  by (simp add: lp_encode_def)

lemma lp_field_nonempty [simp]: "lp_field v \<noteq> []"
  by (simp add: lp_field_def)

lemma lp_encode_inject: "lp_encode vs = lp_encode ws \<longleftrightarrow> vs = ws"
proof (induction vs arbitrary: ws)
  case Nil
  then show ?case by (cases ws) (simp_all add: lp_encode_def)
next
  case (Cons v vs)
  show ?case
  proof (cases ws)
    case Nil
    then show ?thesis by (simp add: lp_encode_def)
  next
    case (Cons w us)
    then show ?thesis using Cons.IH [of us] lp_field_inject [of v "lp_encode vs" w "lp_encode us"]
      by (auto simp: lp_encode_Cons)
  qed
qed

end
