(* ===== verification/Json.thy ===== *)
theory Json
  imports Sha256
begin

text \<open>
  \<^verbatim>\<open>encoding/json\<close> as the review code uses it to build hash preimages: compact output,
  HTML escaping on, struct fields in declaration order, map keys sorted, invalid UTF-8 replaced.
  Every persisted identity hashes the text \<open>render\<close> produces.
\<close>

section \<open>UTF-8\<close>

definition continuation :: "char \<Rightarrow> bool" where
  "continuation c \<longleftrightarrow> between 0x80 c 0xBF"

definition second_byte_ok :: "char \<Rightarrow> char \<Rightarrow> bool" where
  \<comment> \<open>the second byte's range depends on the first: no overlong forms, no surrogates\<close>
  "second_byte_ok a b \<longleftrightarrow>
     (if byte a = 0xE0 then between 0xA0 b 0xBF
      else if byte a = 0xED then between 0x80 b 0x9F
      else if byte a = 0xF0 then between 0x90 b 0xBF
      else if byte a = 0xF4 then between 0x80 b 0x8F
      else continuation b)"

fun rune_len :: "string \<Rightarrow> nat" where
  \<comment> \<open>bytes of the rune at the front, 0 when it does not decode\<close>
  "rune_len [] = 0"
| "rune_len (a # s) =
     (if byte a < 0x80 then 1
      else case s of [] \<Rightarrow> 0
      | b # s' \<Rightarrow>
        if between 0xC2 a 0xDF then (if continuation b then 2 else 0)
        else if \<not> second_byte_ok a b then 0
        else case s' of [] \<Rightarrow> 0
        | c # s'' \<Rightarrow>
          if between 0xE0 a 0xEF then (if continuation c then 3 else 0)
          else if between 0xF0 a 0xF4 then
            (case s'' of [] \<Rightarrow> 0
             | d # _ \<Rightarrow> if continuation c \<and> continuation d then 4 else 0)
          else 0)"

fun valid_utf8_fuel :: "nat \<Rightarrow> string \<Rightarrow> bool" where
  "valid_utf8_fuel 0 s = (s = [])"
| "valid_utf8_fuel (Suc n) s =
     (s = [] \<or> (rune_len s \<noteq> 0 \<and> valid_utf8_fuel n (drop (rune_len s) s)))"

definition valid_utf8 :: "string \<Rightarrow> bool" where
  \<comment> \<open>\<^verbatim>\<open>utf8.ValidString\<close>; a rune has a byte or more\<close>
  "valid_utf8 s = valid_utf8_fuel (length s) s"

section \<open>Strings\<close>

definition unicode_escape :: "nat \<Rightarrow> string" where
  "unicode_escape n =
     [CHR 0x5C, CHR ''u'', hex_char (n div 4096 mod 16), hex_char (n div 256 mod 16),
      hex_char (n div 16 mod 16), hex_char (n mod 16)]"

definition escape_byte :: "char \<Rightarrow> string" where
  "escape_byte c =
     (if c = CHR 0x22 \<or> c = CHR 0x5C then [CHR 0x5C, c]
      else if c = CHR 0x08 then [CHR 0x5C, CHR ''b'']
      else if c = CHR 0x0C then [CHR 0x5C, CHR ''f'']
      else if c = CHR 0x0A then [CHR 0x5C, CHR ''n'']
      else if c = CHR 0x0D then [CHR 0x5C, CHR ''r'']
      else if c = CHR 0x09 then [CHR 0x5C, CHR ''t'']
      else if byte c < 0x20 \<or> c = CHR ''<'' \<or> c = CHR ''>'' \<or> c = CHR ''&''
        then unicode_escape (byte c)
      else [c])"

fun escape_fuel :: "nat \<Rightarrow> string \<Rightarrow> string" where
  "escape_fuel 0 s = []"
| "escape_fuel (Suc n) s =
     (case s of [] \<Rightarrow> []
      | c # rest \<Rightarrow>
        if byte c < 0x80 then escape_byte c @ escape_fuel n rest
        else if rune_len s = 0 then unicode_escape 0xFFFD @ escape_fuel n rest
        else if prefix [CHR 0xE2, CHR 0x80, CHR 0xA8] s then
          unicode_escape 0x2028 @ escape_fuel n (drop 3 s)
        else if prefix [CHR 0xE2, CHR 0x80, CHR 0xA9] s then
          unicode_escape 0x2029 @ escape_fuel n (drop 3 s)
        else take (rune_len s) s @ escape_fuel n (drop (rune_len s) s))"

definition quote :: "string \<Rightarrow> string" where
  "quote s = [CHR 0x22] @ escape_fuel (length s) s @ [CHR 0x22]"

section \<open>Values\<close>

datatype json =
    JNull | JBool bool | JInt int | JStr string | JArr "json list" | JObj "(string \<times> json) list"

definition int_text :: "int \<Rightarrow> string" where
  "int_text n = (if n < 0 then CHR ''-'' # decimal (nat (- n)) else decimal (nat n))"

fun render :: "json \<Rightarrow> string" where
  "render JNull = ''null''"
| "render (JBool b) = (if b then ''true'' else ''false'')"
| "render (JInt n) = int_text n"
| "render (JStr s) = quote s"
| "render (JArr vs) = ''['' @ join_with '','' (map render vs) @ '']''"
| "render (JObj fs) = ''{'' @ join_with '','' (map (\<lambda>(k, v). quote k @ '':'' @ render v) fs) @ ''}''"

definition json_slice :: "('a \<Rightarrow> json) \<Rightarrow> 'a slice \<Rightarrow> json" where
  "json_slice f s = (case s of None \<Rightarrow> JNull | Some xs \<Rightarrow> JArr (map f xs))"

definition json_map :: "('v \<Rightarrow> json) \<Rightarrow> 'v gomap \<Rightarrow> json" where
  "json_map f m =
     (case m of None \<Rightarrow> JNull
      | Some g \<Rightarrow>
        JObj (map (\<lambda>k. (k, case fmlookup g k of None \<Rightarrow> JNull | Some v \<Rightarrow> f v))
          (sorted_list_of_fset (fmdom g))))"

definition json_opt :: "('a \<Rightarrow> json) \<Rightarrow> 'a option \<Rightarrow> json" where
  "json_opt f p = (case p of None \<Rightarrow> JNull | Some x \<Rightarrow> f x)"

definition field :: "string \<Rightarrow> json \<Rightarrow> (string \<times> json) list" where
  "field name v = [(name, v)]"

definition omit_empty :: "string \<Rightarrow> string \<Rightarrow> (string \<times> json) list" where
  \<comment> \<open>a string field tagged \<^verbatim>\<open>omitempty\<close>\<close>
  "omit_empty name s = (if s = [] then [] else [(name, JStr s)])"

definition omit_zero :: "string \<Rightarrow> int \<Rightarrow> (string \<times> json) list" where
  "omit_zero name n = (if n = 0 then [] else [(name, JInt n)])"

definition omit_false :: "string \<Rightarrow> bool \<Rightarrow> (string \<times> json) list" where
  "omit_false name b = (if b then [(name, JBool b)] else [])"

definition omit_nil :: "string \<Rightarrow> ('a \<Rightarrow> json) \<Rightarrow> 'a option \<Rightarrow> (string \<times> json) list" where
  \<comment> \<open>a pointer field tagged \<^verbatim>\<open>omitempty\<close>\<close>
  "omit_nil name f p = (case p of None \<Rightarrow> [] | Some x \<Rightarrow> [(name, f x)])"

definition omit_slice :: "string \<Rightarrow> ('a \<Rightarrow> json) \<Rightarrow> 'a slice \<Rightarrow> (string \<times> json) list" where
  \<comment> \<open>an empty slice is omitted too\<close>
  "omit_slice name f s = (if elems s = [] then [] else [(name, JArr (map f (elems s)))])"

end
