(* ===== verification/Canonical.thy ===== *)
theory Canonical
  imports GoText "HOL-Library.Multiset"
begin

text \<open>
  Canonical string lists and logical paths: \<^verbatim>\<open>canonicalPaths\<close>, \<^verbatim>\<open>canonicalStrings\<close>
  and \<^verbatim>\<open>pathsAreSubset\<close> of snapshot.go and \<^verbatim>\<open>normalizeLogicalPath\<close> of risk.go.
  Both list functions normalise each entry, sort the result and refuse duplicates; the
  locale \<open>canonical_form\<close> states what they promise and is interpreted on each.
\<close>

datatype canon_error =
    InvalidPath string | NonCanonicalPath string | DuplicateEntry | EmptyEntry
  | PathsNotCanonical | GenesisNotCanonical | OutsideGenesis string

section \<open>Logical paths\<close>

fun clean_segments :: "bool \<Rightarrow> string list \<Rightarrow> string list \<Rightarrow> string list" where
  \<comment> \<open>the segments kept so far, last first; a rooted path cannot climb above its root\<close>
  "clean_segments rooted acc [] = rev acc"
| "clean_segments rooted acc (w # ws) =
     (if w = [] \<or> w = ''.'' then clean_segments rooted acc ws
      else if w = ''..'' then
        (case acc of
           [] \<Rightarrow> clean_segments rooted (if rooted then [] else [''..'']) ws
         | a # acc' \<Rightarrow>
             if a = ''..'' then clean_segments rooted (''..'' # acc) ws
             else clean_segments rooted acc' ws)
      else clean_segments rooted (w # acc) ws)"

definition path_clean :: "string \<Rightarrow> string" where
  \<comment> \<open>\<^verbatim>\<open>path.Clean\<close>\<close>
  "path_clean p =
     (let rooted = prefix ''/'' p;
          kept = join_with ''/'' (clean_segments rooted [] (split_on CHR ''/'' p))
      in if p = [] then ''.''
         else if rooted then ''/'' @ kept
         else if kept = [] then ''.'' else kept)"

definition normalize_logical_path :: "string \<Rightarrow> canon_error + string" where
  "normalize_logical_path value =
     (if value = [] \<or> CHR 0x00 \<in> set value \<or> CHR 0x5C \<in> set value \<or> has_prefix value ''/''
      then Inl (InvalidPath value)
      else let cleaned = path_clean value in
        if cleaned = ''.'' \<or> cleaned = ''..'' \<or> has_prefix cleaned ''../'' \<or> cleaned \<noteq> value
        then Inl (NonCanonicalPath value)
        else Inr cleaned)"

section \<open>Canonical lists\<close>

definition canonical_by :: "(string \<Rightarrow> canon_error + string) \<Rightarrow> string list \<Rightarrow> canon_error + string list" where
  \<comment> \<open>normalise every entry, sort, then reject equal neighbours\<close>
  "canonical_by norm values =
     (case traverse norm values of
        Inl e \<Rightarrow> Inl e
      | Inr normalized \<Rightarrow>
          (let sorted_values = sort normalized in
           if first_dup sorted_values then Inl DuplicateEntry else Inr sorted_values))"

definition normalize_entry :: "string \<Rightarrow> canon_error + string" where
  "normalize_entry value =
     (let trimmed = trim_space value in
      if trimmed = [] \<or> CHR 0x00 \<in> set trimmed then Inl EmptyEntry else Inr trimmed)"

definition canonical_paths :: "string list \<Rightarrow> canon_error + string list" where
  "canonical_paths values = canonical_by normalize_logical_path values"

definition canonical_strings :: "string list \<Rightarrow> canon_error + string list" where
  "canonical_strings values = canonical_by normalize_entry values"

definition is_canonical_paths :: "string list \<Rightarrow> bool" where
  \<comment> \<open>the test the validators make: canonicalising succeeds and changes nothing\<close>
  "is_canonical_paths xs \<longleftrightarrow> canonical_paths xs = Inr xs"

definition is_canonical_strings :: "string list \<Rightarrow> bool" where
  "is_canonical_strings xs \<longleftrightarrow> canonical_strings xs = Inr xs"

definition paths_are_subset :: "string list \<Rightarrow> string list \<Rightarrow> canon_error option" where
  "paths_are_subset paths genesis =
     first_err
       [guard (\<not> is_canonical_paths paths) PathsNotCanonical,
        guard (\<not> is_canonical_paths genesis) GenesisNotCanonical,
        (case List.find (\<lambda>p. p \<notin> set genesis) paths of
           None \<Rightarrow> None | Some p \<Rightarrow> Some (OutsideGenesis p))]"

section \<open>What canonicalisation promises\<close>

locale canonical_form =
  fixes norm :: "string \<Rightarrow> canon_error + string"
    and canonical :: "string list \<Rightarrow> canon_error + string list"
  assumes norm_fixpoint: "norm x = Inr y \<Longrightarrow> norm y = Inr y"
    and canonical_unfold: "canonical xs = canonical_by norm xs"
begin

lemma canonical_Inr:
  "canonical xs = Inr ys \<longleftrightarrow>
     (\<exists>zs. traverse norm xs = Inr zs \<and> ys = sort zs \<and> distinct zs)"
  by (auto simp: canonical_unfold canonical_by_def Let_def sorted_first_dup split: sum.splits)

lemma sorted_distinct: "canonical xs = Inr ys \<Longrightarrow> sorted ys \<and> distinct ys"
  by (auto simp: canonical_Inr)

lemma fixpoint_iff:
  "canonical xs = Inr xs \<longleftrightarrow> sorted xs \<and> distinct xs \<and> (\<forall>x \<in> set xs. norm x = Inr x)"
proof
  assume c: "canonical xs = Inr xs"
  then obtain zs where zs: "traverse norm xs = Inr zs" "xs = sort zs" "distinct zs"
    by (auto simp: canonical_Inr)
  have "norm x = Inr x" if "x \<in> set xs" for x
  proof -
    from that zs(2) have "x \<in> set zs" by (metis set_sort)
    with zs(1) obtain w where "norm w = Inr x" by (meson traverse_image)
    then show ?thesis by (rule norm_fixpoint)
  qed
  with sorted_distinct [OF c] show "sorted xs \<and> distinct xs \<and> (\<forall>x \<in> set xs. norm x = Inr x)"
    by blast
next
  assume "sorted xs \<and> distinct xs \<and> (\<forall>x \<in> set xs. norm x = Inr x)"
  then show "canonical xs = Inr xs"
    by (auto simp: canonical_Inr traverse_id sorted_sort_id)
qed

lemma idempotent: "canonical xs = Inr ys \<Longrightarrow> canonical ys = Inr ys"
proof -
  assume c: "canonical xs = Inr ys"
  then obtain zs where zs: "traverse norm xs = Inr zs" "ys = sort zs" "distinct zs"
    by (auto simp: canonical_Inr)
  have "\<forall>y \<in> set ys. norm y = Inr y"
    using zs by (auto dest!: traverse_image intro: norm_fixpoint)
  with sorted_distinct [OF c] show ?thesis by (simp add: fixpoint_iff)
qed

lemma order_irrelevant:
  assumes "canonical xs = Inr ys" and "mset xs' = mset xs"
  shows "canonical xs' = Inr ys"
proof -
  from assms(1) obtain zs where zs: "traverse norm xs = Inr zs" "ys = sort zs" "distinct zs"
    by (auto simp: canonical_Inr)
  let ?f = "\<lambda>x. case norm x of Inl _ \<Rightarrow> undefined | Inr y \<Rightarrow> y"
  have all: "\<forall>x \<in> set xs. norm x = Inr (?f x)" "zs = map ?f xs"
    using zs(1) unfolding traverse_Inr_iff
    by (induction xs zs rule: list_all2_induct) auto
  have "set xs' = set xs" using assms(2) by (metis mset_eq_setD)
  with all(1) have "traverse norm xs' = Inr (map ?f xs')"
    unfolding traverse_Inr_iff list_all2_map2 by (auto simp: list_all2_same)
  moreover have "mset (map ?f xs') = mset zs"
    using assms(2) all(2) by simp
  moreover from this have "distinct (map ?f xs')" "sort (map ?f xs') = ys"
    using zs by (metis mset_eq_imp_distinct_iff, metis mset_sort properties_for_sort sorted_sort)
  ultimately show ?thesis by (simp only: canonical_Inr) blast
qed

end

lemma normalize_logical_path_id: "normalize_logical_path x = Inr y \<Longrightarrow> y = x"
  by (auto simp: normalize_logical_path_def Let_def split: if_splits)

lemma normalize_entry_Inr:
  "normalize_entry x = Inr y \<longleftrightarrow> y = trim_space x \<and> y \<noteq> [] \<and> CHR 0x00 \<notin> set y"
  by (auto simp: normalize_entry_def Let_def)

interpretation paths: canonical_form normalize_logical_path canonical_paths
  by unfold_locales (auto dest: normalize_logical_path_id simp: canonical_paths_def)

interpretation labels: canonical_form normalize_entry canonical_strings
  by unfold_locales (auto simp: normalize_entry_Inr canonical_strings_def)

lemma paths_are_subset_None:
  "paths_are_subset ps gs = None \<longleftrightarrow>
     is_canonical_paths ps \<and> is_canonical_paths gs \<and> set ps \<subseteq> set gs"
proof -
  have "List.find (\<lambda>p. p \<notin> set gs) ps = None \<longleftrightarrow> set ps \<subseteq> set gs"
    by (auto simp: find_None_iff)
  then show ?thesis by (auto simp: paths_are_subset_def split: option.split)
qed

lemma is_canonical_strings_iff:
  "is_canonical_strings xs \<longleftrightarrow>
     sorted xs \<and> distinct xs \<and> (\<forall>x \<in> set xs. trim_space x = x \<and> x \<noteq> [] \<and> CHR 0x00 \<notin> set x)"
  by (auto simp: is_canonical_strings_def labels.fixpoint_iff normalize_entry_Inr)

lemma is_canonical_Nil [simp]: "is_canonical_strings []" "is_canonical_paths []"
  by (simp_all add: is_canonical_strings_def is_canonical_paths_def labels.fixpoint_iff
      paths.fixpoint_iff)

end
