(* ===== verification/ReviewTypes.thy ===== *)
theory ReviewTypes
  imports Json Canonical
begin

text \<open>
  The data of internal/reviewtransaction shared by the v1 transaction and the compact v2 state:
  the enumerations of transaction.go, snapshot.go and risk.go, the structs Finding, LensResult,
  Snapshot, Counters, Start and the evidence records, and their JSON forms (struct tags included).
  A Go string type with constants is a datatype of those constants, a constructor for the empty
  string where the code reads it, and one for every other text a persisted record may hold.
\<close>

section \<open>Enumerations\<close>

datatype mode = Ordinary4R | OrdinaryBounded | JudgmentDay | OtherMode string

datatype review_state =
    Unreviewed | Reviewing | JudgesConfirmed | FindingsFrozen | EvidenceClassified
  | FixRequired | Fixing | FixValidating | ReadyFinalVerification | FinalVerifying
  | Approved | Escalated | Invalidated | CorrectionRequired | Validating | OtherState string

datatype evidence_class = Deterministic | Inferential | Insufficient | NoClass | OtherClass string

datatype causality =
    Introduced | BehaviorActivated | Worsened | PreExisting | BaseOnly | UnknownCause
  | NoCausality | OtherCausality string

datatype outcome = Corroborated | Refuted | Inconclusive | Info | OtherOutcome string

datatype risk_level = RiskLow | RiskMedium | RiskHigh | NoRisk | OtherRisk string

datatype target_kind =
    CurrentChanges | BaseDiff | BaseWorkspaceOverlay | ExactRevision | FixDiff | NoKind
  | OtherKind string

datatype projection = NoProjection | Workspace | Staged | OtherProjection string

fun evidence_class_text :: "evidence_class \<Rightarrow> string" where
  "evidence_class_text Deterministic = ''deterministic''"
| "evidence_class_text Inferential = ''inferential''"
| "evidence_class_text Insufficient = ''insufficient''"
| "evidence_class_text NoClass = []"
| "evidence_class_text (OtherClass s) = s"

fun causality_text :: "causality \<Rightarrow> string" where
  "causality_text Introduced = ''introduced''"
| "causality_text BehaviorActivated = ''behavior-activated''"
| "causality_text Worsened = ''worsened''"
| "causality_text PreExisting = ''pre-existing''"
| "causality_text BaseOnly = ''base-only''"
| "causality_text UnknownCause = ''unknown''"
| "causality_text NoCausality = []"
| "causality_text (OtherCausality s) = s"

fun outcome_text :: "outcome \<Rightarrow> string" where
  "outcome_text Corroborated = ''corroborated''"
| "outcome_text Refuted = ''refuted''"
| "outcome_text Inconclusive = ''inconclusive''"
| "outcome_text Info = ''info''"
| "outcome_text (OtherOutcome s) = s"

fun risk_text :: "risk_level \<Rightarrow> string" where
  "risk_text RiskLow = ''low''"
| "risk_text RiskMedium = ''medium''"
| "risk_text RiskHigh = ''high''"
| "risk_text NoRisk = []"
| "risk_text (OtherRisk s) = s"

fun kind_text :: "target_kind \<Rightarrow> string" where
  "kind_text CurrentChanges = ''current-changes''"
| "kind_text BaseDiff = ''base-diff''"
| "kind_text BaseWorkspaceOverlay = ''base-workspace-overlay''"
| "kind_text ExactRevision = ''commit-range''"
| "kind_text FixDiff = ''fix-diff''"
| "kind_text NoKind = []"
| "kind_text (OtherKind s) = s"

fun projection_text :: "projection \<Rightarrow> string" where
  "projection_text NoProjection = []"
| "projection_text Workspace = ''workspace''"
| "projection_text Staged = ''staged''"
| "projection_text (OtherProjection s) = s"

fun state_text :: "review_state \<Rightarrow> string" where
  "state_text Unreviewed = ''unreviewed''"
| "state_text Reviewing = ''reviewing''"
| "state_text JudgesConfirmed = ''judges_confirmed''"
| "state_text FindingsFrozen = ''findings_frozen''"
| "state_text EvidenceClassified = ''evidence_classified''"
| "state_text FixRequired = ''fix_required''"
| "state_text Fixing = ''fixing''"
| "state_text FixValidating = ''fix_validating''"
| "state_text ReadyFinalVerification = ''ready_final_verification''"
| "state_text FinalVerifying = ''final_verifying''"
| "state_text Approved = ''approved''"
| "state_text Escalated = ''escalated''"
| "state_text Invalidated = ''invalidated''"
| "state_text CorrectionRequired = ''correction_required''"
| "state_text Validating = ''validating''"
| "state_text (OtherState s) = s"

section \<open>Lenses and severities\<close>

definition lens_risk :: string where "lens_risk = ''review-risk''"
definition lens_resilience :: string where "lens_resilience = ''review-resilience''"
definition lens_readability :: string where "lens_readability = ''review-readability''"
definition lens_reliability :: string where "lens_reliability = ''review-reliability''"

definition supported_lenses :: "string list" where
  "supported_lenses = [lens_risk, lens_resilience, lens_readability, lens_reliability]"

lemmas lens_defs = lens_risk_def lens_resilience_def lens_readability_def lens_reliability_def

definition is_supported_lens :: "string \<Rightarrow> bool" where
  "is_supported_lens lens \<longleftrightarrow> index_of supported_lenses lens \<noteq> None"

definition is_supported_severity :: "string \<Rightarrow> bool" where
  "is_supported_severity s \<longleftrightarrow> s \<in> {''BLOCKER'', ''CRITICAL'', ''WARNING'', ''SUGGESTION''}"

definition is_severe :: "string \<Rightarrow> bool" where
  "is_severe s \<longleftrightarrow> s = ''BLOCKER'' \<or> s = ''CRITICAL''"

definition is_ordinary_mode :: "mode \<Rightarrow> bool" where
  "is_ordinary_mode m \<longleftrightarrow> m = Ordinary4R \<or> m = OrdinaryBounded"

section \<open>Structs\<close>

record finding =
  f_id :: string
  f_lens :: string
  f_location :: string
  f_severity :: string
  f_claim :: string
  f_proof_refs :: "string slice"
  f_class :: evidence_class
  f_causality :: causality

record lens_result =
  lr_lens :: string
  lr_findings :: "finding slice"
  lr_evidence :: "string slice"
  lr_hash :: string

record finding_evidence =
  fe_finding :: string
  fe_class :: evidence_class
  fe_causality :: causality
  fe_proof :: string

record evidence_result =
  er_finding :: string
  er_outcome :: outcome
  er_proof :: string

record follow_up =
  fu_observation :: string
  fu_proof_refs :: "string slice"

record validation_check =
  vc_evidence :: string
  vc_fix_delta :: string
  vc_passed :: bool

record scoped_validation =
  sv_ledger_ids :: "string list"
  sv_approved :: bool
  sv_fix_caused :: "finding slice"
  sv_original :: validation_check
  sv_regression :: validation_check
  sv_follow_ups :: "follow_up slice"
  sv_request_hash :: string
  sv_target_identity :: string

record snapshot =
  sn_kind :: target_kind
  sn_projection :: projection
  sn_unborn :: bool
  sn_base :: string
  sn_candidate :: string
  sn_paths_digest :: string
  sn_intended :: "string slice"
  sn_intended_proof :: string
  sn_ledger_ids :: "string slice"
  sn_paths :: "string slice"
  sn_identity :: string

record start =
  st_lineage :: string
  st_mode :: mode
  st_generation :: int
  st_snapshot :: snapshot
  st_policy :: string
  st_risk :: risk_level
  st_lenses :: "string list"
  st_original_lines :: "int option"

section \<open>JSON forms\<close>

definition json_strings :: "string slice \<Rightarrow> json" where
  "json_strings s = json_slice JStr s"

definition json_finding :: "finding \<Rightarrow> json" where
  "json_finding f = JObj
     (field ''id'' (JStr (f_id f)) @ omit_empty ''lens'' (f_lens f) @
      omit_empty ''location'' (f_location f) @ omit_empty ''severity'' (f_severity f) @
      omit_empty ''claim'' (f_claim f) @ omit_slice ''proof_refs'' JStr (f_proof_refs f) @
      omit_empty ''evidence_class'' (evidence_class_text (f_class f)) @
      omit_empty ''causal_disposition'' (causality_text (f_causality f)))"

definition json_lens_result :: "lens_result \<Rightarrow> json" where
  "json_lens_result r = JObj
     (field ''lens'' (JStr (lr_lens r)) @ field ''findings'' (json_slice json_finding (lr_findings r)) @
      field ''evidence'' (json_strings (lr_evidence r)) @ field ''result_hash'' (JStr (lr_hash r)))"

definition json_finding_evidence :: "finding_evidence \<Rightarrow> json" where
  "json_finding_evidence e = JObj
     (field ''finding_id'' (JStr (fe_finding e)) @
      field ''class'' (JStr (evidence_class_text (fe_class e))) @
      omit_empty ''causal_disposition'' (causality_text (fe_causality e)) @
      field ''proof'' (JStr (fe_proof e)))"

definition json_follow_up :: "follow_up \<Rightarrow> json" where
  "json_follow_up u = JObj
     (field ''observation'' (JStr (fu_observation u)) @
      field ''proof_refs'' (json_strings (fu_proof_refs u)))"

definition json_check :: "validation_check \<Rightarrow> json" where
  "json_check c = JObj
     (field ''evidence_hash'' (JStr (vc_evidence c)) @ field ''fix_delta_hash'' (JStr (vc_fix_delta c)) @
      field ''passed'' (JBool (vc_passed c)))"

definition json_snapshot :: "snapshot \<Rightarrow> json" where
  "json_snapshot s = JObj
     (field ''kind'' (JStr (kind_text (sn_kind s))) @
      omit_empty ''projection'' (projection_text (sn_projection s)) @
      omit_false ''unborn_head'' (sn_unborn s) @ field ''base_tree'' (JStr (sn_base s)) @
      field ''candidate_tree'' (JStr (sn_candidate s)) @
      field ''paths_digest'' (JStr (sn_paths_digest s)) @
      field ''intended_untracked'' (json_strings (sn_intended s)) @
      field ''intended_untracked_proof'' (JStr (sn_intended_proof s)) @
      omit_slice ''ledger_ids'' JStr (sn_ledger_ids s) @
      field ''paths'' (json_strings (sn_paths s)) @ field ''identity'' (JStr (sn_identity s)))"

lemma not_severe_Nil [simp]: "\<not> is_severe []"
  by (simp add: is_severe_def)

lemma severe_supported: "is_severe s \<Longrightarrow> is_supported_severity s"
  by (auto simp: is_severe_def is_supported_severity_def)

lemma supported_lens_iff [simp]: "is_supported_lens l \<longleftrightarrow> l \<in> set supported_lenses"
  by (simp add: is_supported_lens_def)

end
