(* ===== verification/ReviewChecks.thy ===== *)
theory ReviewChecks
  imports ReviewTypes
begin

text \<open>
  The validators and identity functions both lifecycles call: lineage ids, projections,
  snapshots, lenses, budgets, findings, follow-ups and targeted validation (transaction.go,
  snapshot.go, store.go, risk.go, artifact_admission.go), with the identities snapshot.go
  derives from length-prefixed preimages.
\<close>

datatype check_error = CheckRefused string | FindingAt nat check_error | FindingLens nat | VagueEvidence nat

abbreviation BadLineage :: check_error where "BadLineage \<equiv> CheckRefused ''bad lineage''"
abbreviation BadProjection :: check_error where "BadProjection \<equiv> CheckRefused ''bad projection''"
abbreviation StagedKind :: check_error where "StagedKind \<equiv> CheckRefused ''staged kind''"
abbreviation StagedIntended :: check_error where "StagedIntended \<equiv> CheckRefused ''staged intended''"
abbreviation SnapshotShape :: check_error where "SnapshotShape \<equiv> CheckRefused ''snapshot shape''"
abbreviation SnapshotDigests :: check_error where "SnapshotDigests \<equiv> CheckRefused ''snapshot digests''"
abbreviation SnapshotNilPaths :: check_error where "SnapshotNilPaths \<equiv> CheckRefused ''snapshot nil paths''"
abbreviation MetadataPaths :: check_error where "MetadataPaths \<equiv> CheckRefused ''metadata paths''"
abbreviation MetadataIntended :: check_error where "MetadataIntended \<equiv> CheckRefused ''metadata intended''"
abbreviation MetadataLedger :: check_error where "MetadataLedger \<equiv> CheckRefused ''metadata ledger''"
abbreviation MetadataIdentity :: check_error where "MetadataIdentity \<equiv> CheckRefused ''metadata identity''"
abbreviation LensesNeedBounded :: check_error where "LensesNeedBounded \<equiv> CheckRefused ''lenses need bounded''"
abbreviation NoRiskClass :: check_error where "NoRiskClass \<equiv> CheckRefused ''no risk class''"
abbreviation LensCount :: check_error where "LensCount \<equiv> CheckRefused ''lens count''"
abbreviation UnknownLens :: check_error where "UnknownLens \<equiv> CheckRefused ''unknown lens''"
abbreviation LensOrder :: check_error where "LensOrder \<equiv> CheckRefused ''lens order''"
abbreviation NegativeLines :: check_error where "NegativeLines \<equiv> CheckRefused ''negative lines''"
abbreviation FindingFields :: check_error where "FindingFields \<equiv> CheckRefused ''finding fields''"
abbreviation NoProofRefs :: check_error where "NoProofRefs \<equiv> CheckRefused ''no proof refs''"
abbreviation BadSeverity :: check_error where "BadSeverity \<equiv> CheckRefused ''bad severity''"
abbreviation VagueProof :: check_error where "VagueProof \<equiv> CheckRefused ''vague proof''"
abbreviation LensShape :: check_error where "LensShape \<equiv> CheckRefused ''lens shape''"
abbreviation BadClass :: check_error where "BadClass \<equiv> CheckRefused ''bad class''"
abbreviation BadCausality :: check_error where "BadCausality \<equiv> CheckRefused ''bad causality''"
abbreviation LensHash :: check_error where "LensHash \<equiv> CheckRefused ''lens hash''"
abbreviation CheckHashes :: check_error where "CheckHashes \<equiv> CheckRefused ''check hashes''"
abbreviation CheckStale :: check_error where "CheckStale \<equiv> CheckRefused ''check stale''"
abbreviation PartialBinding :: check_error where "PartialBinding \<equiv> CheckRefused ''partial binding''"
abbreviation BadBinding :: check_error where "BadBinding \<equiv> CheckRefused ''bad binding''"
abbreviation FollowUpAt :: check_error where "FollowUpAt \<equiv> CheckRefused ''follow up at''"

section \<open>Identifiers and projections\<close>

definition is_lower_alnum :: "char \<Rightarrow> bool" where
  "is_lower_alnum c \<longleftrightarrow> is_lower_alpha c \<or> is_digit c"

definition matches_lineage_pattern :: "string \<Rightarrow> bool" where
  \<comment> \<open>\<^verbatim>\<open>^[a-z0-9]+(?:-[a-z0-9]+)*$\<close>\<close>
  "matches_lineage_pattern s \<longleftrightarrow>
     list_all (\<lambda>w. w \<noteq> [] \<and> list_all is_lower_alnum w) (split_on CHR ''-'' s)"

definition validate_lineage_id :: "string \<Rightarrow> check_error option" where
  "validate_lineage_id lineage =
     guard (length lineage = 0 \<or> length lineage > 128 \<or> \<not> matches_lineage_pattern lineage) BadLineage"

fun canonical_projection :: "projection \<Rightarrow> check_error + projection" where
  "canonical_projection NoProjection = Inr NoProjection"
| "canonical_projection Workspace = Inr NoProjection"
| "canonical_projection Staged = Inr Staged"
| "canonical_projection (OtherProjection _) = Inl BadProjection"

section \<open>Snapshots\<close>

definition validate_snapshot_kinds :: "snapshot \<Rightarrow> bool \<Rightarrow> check_error option" where
  "validate_snapshot_kinds s allow_staged_overlay = first_err
     [guard (canonical_projection (sn_projection s) \<noteq> Inr (sn_projection s)) BadProjection,
      guard (sn_projection s = Staged \<and> sn_kind s \<noteq> CurrentChanges \<and> sn_kind s \<noteq> BaseDiff \<and>
             sn_kind s \<noteq> FixDiff \<and>
             (\<not> allow_staged_overlay \<or> sn_kind s \<noteq> BaseWorkspaceOverlay)) StagedKind,
      guard (sn_projection s = Staged \<and> elems (sn_intended s) \<noteq> []) StagedIntended,
      guard (sn_kind s = NoKind \<or> \<not> valid_git_tree (sn_base s) \<or>
             \<not> valid_git_tree (sn_candidate s)) SnapshotShape,
      guard (\<not> list_all valid_sha256 [sn_paths_digest s, sn_intended_proof s, sn_identity s])
        SnapshotDigests,
      guard (sn_intended s = None \<or> sn_paths s = None) SnapshotNilPaths]"

definition validate_snapshot :: "snapshot \<Rightarrow> check_error option" where
  "validate_snapshot s = validate_snapshot_kinds s False"

definition validate_compact_snapshot :: "snapshot \<Rightarrow> check_error option" where
  "validate_compact_snapshot s = validate_snapshot_kinds s True"

definition digest_paths :: "string list \<Rightarrow> string" where
  "digest_paths paths = domain_identity ''gentle-ai.paths/v1'' (lp_encode paths)"

definition snapshot_domain :: "target_kind \<Rightarrow> projection \<Rightarrow> string" where
  "snapshot_domain kind proj =
     (if kind = BaseWorkspaceOverlay then ''gentle-ai.review-snapshot/base-workspace-overlay/v1''
      else if proj = Staged then ''gentle-ai.review-snapshot/v2''
      else ''gentle-ai.review-snapshot/v1'')"

definition snapshot_fields ::
  "target_kind \<Rightarrow> projection \<Rightarrow> string \<Rightarrow> string \<Rightarrow> string \<Rightarrow> string \<Rightarrow> string list \<Rightarrow> string list
   \<Rightarrow> string list" where
  "snapshot_fields kind proj base candidate digest proof intended ledger_ids =
     (if proj = Staged
      then [kind_text kind, projection_text proj, base, candidate, digest, proof]
      else [kind_text kind, base, candidate, digest, proof]) @ intended @ ledger_ids"

definition snapshot_identity ::
  "target_kind \<Rightarrow> projection \<Rightarrow> string \<Rightarrow> string \<Rightarrow> string \<Rightarrow> string \<Rightarrow> string list \<Rightarrow> string list
   \<Rightarrow> string" where
  \<comment> \<open>\<^verbatim>\<open>snapshotIdentityForProjection\<close>\<close>
  "snapshot_identity kind proj base candidate digest proof intended ledger_ids =
     domain_identity (snapshot_domain kind proj)
       (lp_encode (snapshot_fields kind proj base candidate digest proof intended ledger_ids))"

definition validate_snapshot_metadata :: "snapshot \<Rightarrow> check_error option" where
  "validate_snapshot_metadata s = first_err
     [guard (\<not> is_canonical_paths (elems (sn_paths s)) \<or>
             sn_paths_digest s \<noteq> digest_paths (elems (sn_paths s))) MetadataPaths,
      guard (\<not> is_canonical_paths (elems (sn_intended s))) MetadataIntended,
      guard (\<not> is_canonical_strings (elems (sn_ledger_ids s))) MetadataLedger,
      guard (sn_identity s \<noteq> snapshot_identity (sn_kind s) (sn_projection s) (sn_base s)
               (sn_candidate s) (sn_paths_digest s) (sn_intended_proof s)
               (elems (sn_intended s)) (elems (sn_ledger_ids s))) MetadataIdentity]"

definition fix_delta_hash :: "snapshot \<Rightarrow> string" where
  "fix_delta_hash s = domain_identity ''gentle-ai.fix-delta/v1''
     (lp_encode ([sn_base s, sn_candidate s, sn_paths_digest s, sn_intended_proof s] @
                 elems (sn_ledger_ids s)))"

definition snapshots_equal :: "snapshot \<Rightarrow> snapshot \<Rightarrow> bool" where
  "snapshots_equal a b \<longleftrightarrow>
     sn_kind a = sn_kind b \<and> sn_projection a = sn_projection b \<and> sn_base a = sn_base b \<and>
     sn_candidate a = sn_candidate b \<and> sn_paths_digest a = sn_paths_digest b \<and>
     sn_intended_proof a = sn_intended_proof b \<and> sn_identity a = sn_identity b \<and>
     elems (sn_intended a) = elems (sn_intended b) \<and>
     elems (sn_ledger_ids a) = elems (sn_ledger_ids b) \<and> elems (sn_paths a) = elems (sn_paths b)"

lemma snapshots_equal_refl [simp]: "snapshots_equal s s"
  by (simp add: snapshots_equal_def)

section \<open>Lenses and budget\<close>

definition validate_selected_lenses :: "mode \<Rightarrow> risk_level \<Rightarrow> string list \<Rightarrow> check_error + string list" where
  "validate_selected_lenses m risk lenses =
     (if m \<noteq> OrdinaryBounded then
        (if risk \<noteq> NoRisk \<or> lenses \<noteq> [] then Inl LensesNeedBounded else Inr [])
      else
        (let want = (case risk of RiskLow \<Rightarrow> Some 0 | RiskMedium \<Rightarrow> Some 1
                     | RiskHigh \<Rightarrow> Some (length supported_lenses) | _ \<Rightarrow> None) in
         case want of None \<Rightarrow> Inl NoRiskClass
         | Some n \<Rightarrow>
           if length lenses \<noteq> n then Inl LensCount
           else if \<not> list_all (\<lambda>l. trim_space l = l \<and> is_supported_lens l) lenses then Inl UnknownLens
           else if length lenses = length supported_lenses \<and> lenses \<noteq> supported_lenses
             then Inl LensOrder
           else Inr lenses))"

definition max_correction_lines :: int where "max_correction_lines = 200"

definition correction_budget :: "int \<Rightarrow> check_error + int" where
  "correction_budget lines =
     (if lines < 0 then Inl NegativeLines
      else Inr (min max_correction_lines (lines div 2 + lines mod 2)))"

section \<open>Findings and evidence\<close>

definition is_concrete_evidence :: "string \<Rightarrow> bool" where
  "is_concrete_evidence value \<longleftrightarrow>
     (let trimmed = trim_space value in
      trimmed \<noteq> [] \<and>
      to_lower trimmed \<notin> {''n/a'', ''na'', ''none'', ''todo'', ''tbd'', ''pass'', ''passed'',
                          ''success'', ''placeholder''})"

fun is_supported_causality :: "causality \<Rightarrow> bool" where
  "is_supported_causality NoCausality = False"
| "is_supported_causality (OtherCausality _) = False"
| "is_supported_causality _ = True"

fun is_supported_class :: "evidence_class \<Rightarrow> bool" where
  "is_supported_class NoClass = False"
| "is_supported_class (OtherClass _) = False"
| "is_supported_class _ = True"

definition validate_structured_finding :: "finding \<Rightarrow> check_error option" where
  "validate_structured_finding f = first_err
     [guard (blank (f_id f) \<or> blank (f_lens f) \<or> blank (f_location f) \<or> blank (f_severity f) \<or>
             blank (f_claim f)) FindingFields,
      guard (elems (f_proof_refs f) = []) NoProofRefs,
      guard (\<not> is_supported_severity (f_severity f)) BadSeverity,
      guard (\<not> list_all is_concrete_evidence (elems (f_proof_refs f))) VagueProof]"

definition validate_lens_finding :: "finding \<Rightarrow> bool \<Rightarrow> check_error option" where
  "validate_lens_finding f allow_missing_location =
     (if allow_missing_location \<and> is_severe (f_severity f) \<and> f_location f = []
      then validate_structured_finding (f\<lparr>f_location := ''<missing>''\<rparr>)
      else validate_structured_finding f)"

definition causal_follow_up :: "finding \<Rightarrow> string \<Rightarrow> follow_up" where
  "causal_follow_up f proof =
     (let claim = trim_space (f_claim f); refs = elems (f_proof_refs f) in
      \<lparr>fu_observation = (if claim = [] then f_id f else claim),
       fu_proof_refs = Some (if proof \<in> set refs then refs else refs @ [proof])\<rparr>)"

definition has_follow_up :: "follow_up list \<Rightarrow> follow_up \<Rightarrow> bool" where
  "has_follow_up us want \<longleftrightarrow>
     list_ex (\<lambda>u. fu_observation u = fu_observation want \<and>
                  elems (fu_proof_refs u) = elems (fu_proof_refs want)) us"

definition validate_follow_ups :: "follow_up list \<Rightarrow> check_error option" where
  "validate_follow_ups us =
     guard (list_ex (\<lambda>u. blank (fu_observation u) \<or> elems (fu_proof_refs u) = []) us) FollowUpAt"

definition validate_targeted_validation ::
  "validation_check \<Rightarrow> validation_check \<Rightarrow> string \<Rightarrow> string \<Rightarrow> string \<Rightarrow> check_error option" where
  \<comment> \<open>original criteria, correction regression, request hash, target identity, fix delta\<close>
  "validate_targeted_validation original regression request_hash target fix_hash = first_err
     [guard (list_ex (\<lambda>c. \<not> valid_sha256 (vc_evidence c) \<or> \<not> valid_sha256 (vc_fix_delta c))
               [original, regression]) CheckHashes,
      guard (list_ex (\<lambda>c. vc_fix_delta c \<noteq> fix_hash) [original, regression]) CheckStale,
      guard ((request_hash = []) \<noteq> (target = [])) PartialBinding,
      guard (request_hash \<noteq> [] \<and> (\<not> valid_sha256 request_hash \<or> \<not> valid_sha256 target)) BadBinding]"

definition evidence_reports_unavailable :: "string \<Rightarrow> bool" where
  "evidence_reports_unavailable value =
     (let text = to_lower (join_with '' '' (split_fields value)) in
      list_ex (\<lambda>phrase. contains text phrase)
       [''inspection blocked'', ''inspection was blocked'', ''access denied'', ''permission denied'',
        ''candidate unavailable'', ''candidate was unavailable'', ''immutable candidate unavailable'',
        ''could not inspect'', ''unable to inspect'', ''was not inspected'', ''not inspected'',
        ''no candidate contents were available'', ''no candidate content was available''])"

definition last_index_byte :: "string \<Rightarrow> char \<Rightarrow> nat option" where
  "last_index_byte s c =
     (if c \<in> set s then Some (length s - 1 - length (takeWhile (\<lambda>d. d \<noteq> c) (rev s))) else None)"

definition drive_prefixed :: "string \<Rightarrow> bool" where
  \<comment> \<open>a Windows drive such as \<^verbatim>\<open>C:/\<close>\<close>
  "drive_prefixed p =
     (case p of a # b # c # _ \<Rightarrow>
        b = CHR '':'' \<and> c = CHR ''/'' \<and> (is_upper_alpha a \<or> is_lower_alpha a)
      | _ \<Rightarrow> False)"

definition finding_location_in_genesis :: "string \<Rightarrow> string list \<Rightarrow> bool" where
  "finding_location_in_genesis location genesis =
     (case last_index_byte location CHR '':'' of
        None \<Rightarrow> False
      | Some sep \<Rightarrow>
        if sep = 0 \<or> sep = length location - 1 then False
        else
          let line = drop (sep + 1) location; logical = take sep location in
          list_all is_digit line \<and> \<not> drive_prefixed logical \<and>
          normalize_logical_path logical = Inr logical \<and> list_ex (\<lambda>c. c \<noteq> CHR ''0'') line \<and>
          logical \<in> set genesis)"

section \<open>Lens results\<close>

definition pad3 :: "nat \<Rightarrow> string" where
  \<comment> \<open>\<^verbatim>\<open>%03d\<close>\<close>
  "pad3 n = (let d = decimal n in replicate (3 - length d) CHR ''0'' @ d)"

definition lens_id_prefix :: "string \<Rightarrow> string" where
  "lens_id_prefix lens =
     (if lens = lens_risk then ''R1'' else if lens = lens_readability then ''R2''
      else if lens = lens_reliability then ''R3'' else if lens = lens_resilience then ''R4'' else [])"

definition lens_result_hash :: "lens_result \<Rightarrow> string" where
  "lens_result_hash r = domain_identity ''gentle-ai.lens-result/v1''
     (render (JObj (field ''lens'' (JStr (lr_lens r)) @
        field ''findings'' (json_slice json_finding (lr_findings r)) @
        field ''evidence'' (json_strings (lr_evidence r)))))"

definition trim_finding :: "string \<Rightarrow> nat \<Rightarrow> finding \<Rightarrow> finding" where
  \<comment> \<open>the field normalisation of \<^verbatim>\<open>canonicalLensResult\<close>, with the default id and lens\<close>
  "trim_finding lens index f =
     (let id = trim_space (f_id f); fl = trim_space (f_lens f) in
      f\<lparr>f_id := (if id = [] then lens_id_prefix lens @ ''-'' @ pad3 (index + 1) else id),
        f_lens := (if fl = [] then trim_prefix lens ''review-'' else fl),
        f_location := trim_space (f_location f),
        f_severity := to_upper (trim_space (f_severity f)),
        f_claim := trim_space (f_claim f),
        f_proof_refs := append_slice None (map trim_space (elems (f_proof_refs f)))\<rparr>)"

definition canonical_finding ::
  "string \<Rightarrow> bool \<Rightarrow> nat \<times> finding \<Rightarrow> check_error + finding" where
  "canonical_finding lens allow_missing = (\<lambda>(index, raw).
     (let f = trim_finding lens index raw in
      if f_class f \<noteq> NoClass \<and> \<not> is_supported_class (f_class f) then Inl BadClass
      else if f_causality f \<noteq> NoCausality \<and> \<not> is_supported_causality (f_causality f)
        then Inl BadCausality
      else (case validate_lens_finding f allow_missing of
              Some e \<Rightarrow> Inl (FindingAt index e)
            | None \<Rightarrow> if f_lens f \<noteq> trim_prefix lens ''review-'' then Inl (FindingLens index)
                      else Inr f)))"

definition canonical_evidence :: "nat \<times> string \<Rightarrow> check_error + string" where
  "canonical_evidence = (\<lambda>(index, item).
     (let trimmed = trim_space item in
      if \<not> is_concrete_evidence trimmed then Inl (VagueEvidence index) else Inr trimmed))"

definition canonical_lens_result :: "lens_result \<Rightarrow> bool \<Rightarrow> check_error + lens_result" where
  "canonical_lens_result raw allow_missing =
     (let lens = trim_space (lr_lens raw) in
      if \<not> is_supported_lens lens then Inl UnknownLens
      else if lr_findings raw = None \<or> lr_evidence raw = None \<or> elems (lr_evidence raw) = []
        then Inl LensShape
      else case traverse (canonical_finding lens allow_missing) (enumerate 0 (elems (lr_findings raw))) of
        Inl e \<Rightarrow> Inl e
      | Inr findings \<Rightarrow>
        (case traverse canonical_evidence (enumerate 0 (elems (lr_evidence raw))) of
           Inl e \<Rightarrow> Inl e
         | Inr evidence \<Rightarrow>
           let r = raw\<lparr>lr_lens := lens, lr_findings := Some findings, lr_evidence := Some evidence\<rparr>;
               derived = lens_result_hash r
           in if lr_hash raw \<noteq> [] \<and> lr_hash raw \<noteq> derived then Inl LensHash
              else Inr (r\<lparr>lr_hash := derived\<rparr>)))"

definition validate_lens_result :: "lens_result \<Rightarrow> check_error + lens_result" where
  "validate_lens_result r = canonical_lens_result r False"

definition canonical_compact_lens_result :: "lens_result \<Rightarrow> check_error + lens_result" where
  "canonical_compact_lens_result r = canonical_lens_result r True"

end
