(* ===== verification/RecoveryProofs.thy ===== *)
theory RecoveryProofs
  imports ReviewChecks
begin

text \<open>
  The evidence a recovered compact lineage carries: the targeted validation request
  (targeted_validation_request.go), the final-verification incident and the retry proof
  (final_verification_retry.go) and the FINALIZE attempt it quotes (finalize_attempt_journal.go).
  A Go time is the RFC 3339 text it persists as.
\<close>

type_synonym go_time = string

definition zero_time :: "go_time \<Rightarrow> bool" where
  "zero_time t \<longleftrightarrow> t = ''0001-01-01T00:00:00Z''"

datatype recovery_error =
    RequestIdentity | RequestBinding | RequestTree | RequestProjection | RequestIds | RequestPaths
  | RequestPathForm | RequestHash | IncidentClass | IncidentLineage | IncidentHashes
  | RetryLineage | RetryActor | RetryIncident | RetryProof | RetryProofIncident
  | RetryAttempt | RetryDigests | RetryAuthorization

section \<open>Targeted validation requests\<close>

record targeted_request =
  tq_schema :: string
  tq_hash :: string
  tq_lineage :: string
  tq_revision :: string
  tq_target :: string
  tq_fix_ids :: "string slice"
  tq_projection :: projection
  tq_candidate :: string
  tq_correction_target :: string
  tq_paths :: "string slice"
  tq_paths_digest :: string

definition targeted_request_schema :: string where
  "targeted_request_schema = ''gentle-ai.review-targeted-validation-request/v1''"

definition targeted_request_preimage :: "targeted_request \<Rightarrow> (string \<times> json) list" where
  "targeted_request_preimage q =
     field ''lineage_id'' (JStr (tq_lineage q)) @ field ''expected_revision'' (JStr (tq_revision q)) @
     field ''target_identity'' (JStr (tq_target q)) @
     field ''fix_finding_ids'' (json_strings (tq_fix_ids q)) @
     field ''projection'' (JStr (projection_text (tq_projection q))) @
     field ''correction_candidate_tree'' (JStr (tq_candidate q)) @
     field ''correction_target_identity'' (JStr (tq_correction_target q)) @
     field ''correction_paths'' (json_strings (tq_paths q)) @
     field ''correction_paths_digest'' (JStr (tq_paths_digest q))"

definition targeted_request_hash :: "targeted_request \<Rightarrow> string" where
  "targeted_request_hash q = domain_identity targeted_request_schema
     (render (JObj (field ''schema'' (JStr (tq_schema q)) @ targeted_request_preimage q)))"

definition json_targeted_request :: "targeted_request \<Rightarrow> json" where
  "json_targeted_request q = JObj
     (field ''schema'' (JStr (tq_schema q)) @ field ''request_hash'' (JStr (tq_hash q)) @
      targeted_request_preimage q)"

definition validate_targeted_request :: "targeted_request \<Rightarrow> recovery_error option" where
  "validate_targeted_request q = first_err
     [guard (tq_schema q \<noteq> targeted_request_schema \<or> validate_lineage_id (tq_lineage q) \<noteq> None)
        RequestIdentity,
      guard (\<not> list_all valid_sha256 [tq_hash q, tq_revision q, tq_target q,
               tq_correction_target q, tq_paths_digest q]) RequestBinding,
      guard (\<not> valid_git_tree (tq_candidate q)) RequestTree,
      guard (tq_projection q \<noteq> Workspace \<and> tq_projection q \<noteq> Staged) RequestProjection,
      guard (tq_fix_ids q = None \<or> \<not> is_canonical_strings (elems (tq_fix_ids q)) \<or>
             elems (tq_fix_ids q) = []) RequestIds,
      guard (tq_paths q = None \<or> \<not> is_canonical_strings (elems (tq_paths q)) \<or>
             elems (tq_paths q) = [] \<or> digest_paths (elems (tq_paths q)) \<noteq> tq_paths_digest q)
        RequestPaths,
      guard (list_ex (\<lambda>p. normalize_logical_path p \<noteq> Inr p) (elems (tq_paths q))) RequestPathForm,
      guard (targeted_request_hash q \<noteq> tq_hash q) RequestHash]"

section \<open>The final-verification incident\<close>

record incident =
  in_schema :: string
  in_class :: string
  in_lineage :: string
  in_terminal :: string
  in_validating :: string
  in_target :: string
  in_failed_evidence :: string
  in_request_digest :: string

definition validate_incident :: "incident \<Rightarrow> recovery_error option" where
  "validate_incident i = first_err
     [guard (in_schema i \<noteq> ''gentle-ai.review-final-verification-incident/v1'' \<or>
             in_class i \<noteq> ''procedural_tooling_failure'') IncidentClass,
      as_err IncidentLineage (validate_lineage_id (in_lineage i)),
      guard (\<not> list_all valid_sha256 [in_terminal i, in_validating i, in_target i,
               in_failed_evidence i, in_request_digest i]) IncidentHashes]"

definition json_incident :: "incident \<Rightarrow> json" where
  "json_incident i = JObj
     (field ''schema'' (JStr (in_schema i)) @ field ''class'' (JStr (in_class i)) @
      field ''lineage_id'' (JStr (in_lineage i)) @
      field ''terminal_revision'' (JStr (in_terminal i)) @
      field ''validating_revision'' (JStr (in_validating i)) @
      field ''target_identity'' (JStr (in_target i)) @
      field ''failed_evidence_hash'' (JStr (in_failed_evidence i)) @
      field ''finalize_request_digest'' (JStr (in_request_digest i)))"

definition incident_digest :: "incident \<Rightarrow> string" where
  \<comment> \<open>the empty string when the incident does not validate\<close>
  "incident_digest i =
     (if validate_incident i \<noteq> None then []
      else identity_of (render (json_incident i) @ [CHR 0x0A]))"

section \<open>FINALIZE attempts\<close>

record finalize_request =
  fr_lineage :: string
  fr_revision :: string
  fr_candidate :: string
  fr_results :: string
  fr_forecast :: string
  fr_validation :: string
  fr_refuter :: string
  fr_evidence :: string
  fr_failed :: string
  fr_digest :: string

record finalize_transition =
  ft_operation :: string
  ft_expected :: string
  ft_revision :: string

record finalize_attempt =
  fa_request :: finalize_request
  fa_transitions :: "finalize_transition slice"
  fa_published :: bool
  fa_completed :: bool

definition finalize_value_digest :: "string \<Rightarrow> json \<Rightarrow> string" where
  "finalize_value_digest domain v =
     domain_identity (''gentle-ai.finalize-input/'' @ domain) (render v)"

fun revision_chain :: "string \<Rightarrow> finalize_transition list \<Rightarrow> bool" where
  "revision_chain expected [] = True"
| "revision_chain expected (t # ts) =
     (ft_expected t = expected \<and> revision_chain (ft_revision t) ts)"

definition attempt_has_continuity :: "finalize_attempt \<Rightarrow> bool" where
  "attempt_has_continuity a =
     revision_chain (fr_revision (fa_request a)) (elems (fa_transitions a))"

definition json_finalize_request :: "finalize_request \<Rightarrow> json" where
  "json_finalize_request r = JObj
     (field ''lineage_id'' (JStr (fr_lineage r)) @ field ''expected_revision'' (JStr (fr_revision r)) @
      field ''candidate_digest'' (JStr (fr_candidate r)) @
      field ''reviewer_results_digest'' (JStr (fr_results r)) @
      field ''correction_forecast_digest'' (JStr (fr_forecast r)) @
      field ''validation_digest'' (JStr (fr_validation r)) @
      field ''refuter_digest'' (JStr (fr_refuter r)) @ field ''evidence_digest'' (JStr (fr_evidence r)) @
      field ''failed_digest'' (JStr (fr_failed r)) @ field ''request_digest'' (JStr (fr_digest r)))"

definition finalize_request_digest :: "finalize_request \<Rightarrow> string" where
  "finalize_request_digest r =
     finalize_value_digest ''request'' (json_finalize_request (r\<lparr>fr_digest := []\<rparr>))"

definition json_finalize_attempt :: "finalize_attempt \<Rightarrow> json" where
  "json_finalize_attempt a = JObj
     (field ''request'' (json_finalize_request (fa_request a)) @
      field ''transitions'' (json_slice
        (\<lambda>t. JObj (field ''operation'' (JStr (ft_operation t)) @
                   field ''expected_revision'' (JStr (ft_expected t)) @
                   field ''revision'' (JStr (ft_revision t)))) (fa_transitions a)) @
      field ''receipt_published'' (JBool (fa_published a)) @
      field ''completed'' (JBool (fa_completed a)))"

section \<open>The retry proof\<close>

record retry_proof =
  rp_schema :: string
  rp_terminal :: string
  rp_validating :: string
  rp_target :: string
  rp_failed_evidence :: string
  rp_request_digest :: string
  rp_incident :: incident
  rp_incident_digest :: string
  rp_attempt :: finalize_attempt

definition json_retry_proof :: "retry_proof \<Rightarrow> json" where
  "json_retry_proof p = JObj
     (field ''schema'' (JStr (rp_schema p)) @ field ''terminal_revision'' (JStr (rp_terminal p)) @
      field ''validating_revision'' (JStr (rp_validating p)) @
      field ''target_identity'' (JStr (rp_target p)) @
      field ''failed_evidence_hash'' (JStr (rp_failed_evidence p)) @
      field ''finalize_request_digest'' (JStr (rp_request_digest p)) @
      field ''incident'' (json_incident (rp_incident p)) @
      field ''incident_digest'' (JStr (rp_incident_digest p)) @
      field ''source_finalize_attempt'' (json_finalize_attempt (rp_attempt p)))"

definition control_free :: "string \<Rightarrow> bool" where
  \<comment> \<open>no C0 or C1 control, no DEL, no line or paragraph separator\<close>
  "control_free s \<longleftrightarrow>
     \<not> list_ex (\<lambda>c. byte c < 0x20 \<or> byte c = 0x7F) s \<and>
     \<not> list_ex (\<lambda>k. sublist [CHR 0xC2, char_of (0x80 + k)] s) [0..<32] \<and>
     \<not> sublist [CHR 0xE2, CHR 0x80, CHR 0xA8] s \<and> \<not> sublist [CHR 0xE2, CHR 0x80, CHR 0xA9] s"

definition valid_authorization_field :: "string \<Rightarrow> bool" where
  "valid_authorization_field s \<longleftrightarrow>
     s \<noteq> [] \<and> trim_space s = s \<and> valid_utf8 s \<and> control_free s"

record retry_request =
  rq_predecessor :: string
  rq_revision :: string
  rq_successor :: string
  rq_incident :: incident
  rq_actor :: string
  rq_reason :: string

definition validate_retry_request :: "retry_request \<Rightarrow> recovery_error option" where
  "validate_retry_request r = first_err
     [guard (validate_lineage_id (rq_predecessor r) \<noteq> None \<or>
             validate_lineage_id (rq_successor r) \<noteq> None \<or>
             rq_predecessor r = rq_successor r \<or> \<not> valid_sha256 (rq_revision r)) RetryLineage,
      guard (\<not> valid_authorization_field (rq_actor r) \<or> \<not> valid_authorization_field (rq_reason r))
        RetryActor,
      validate_incident (rq_incident r),
      guard (in_lineage (rq_incident r) \<noteq> rq_predecessor r \<or>
             in_terminal (rq_incident r) \<noteq> rq_revision r) RetryIncident]"

definition binding_line :: "string \<Rightarrow> string \<Rightarrow> string" where
  "binding_line name value = [CHR 0x0A] @ name @ ''='' @ value"

definition retry_authorization :: "retry_request \<Rightarrow> recovery_error + string" where
  "retry_authorization r =
     (case validate_retry_request r of Some e \<Rightarrow> Inl e
      | None \<Rightarrow> let i = rq_incident r in
        Inr (''gentle-ai.review-final-verification-retry-authorization/v1'' @
             binding_line ''predecessor_lineage'' (rq_predecessor r) @
             binding_line ''predecessor_revision'' (rq_revision r) @
             binding_line ''successor_lineage'' (rq_successor r) @
             binding_line ''validating_revision'' (in_validating i) @
             binding_line ''target_identity'' (in_target i) @
             binding_line ''failed_evidence_hash'' (in_failed_evidence i) @
             binding_line ''finalize_request_digest'' (in_request_digest i) @
             binding_line ''incident_class'' (in_class i) @
             binding_line ''incident_digest'' (incident_digest i) @
             binding_line ''actor'' (rq_actor r) @ binding_line ''reason'' (rq_reason r)))"

end
