(* ===== verification/GateContext.thy ===== *)
theory GateContext
  imports ReviewChecks
begin

text \<open>
  Release evidence, gate contexts and the base-advance proof: the record types of receipt.go,
  gate.go and prepr.go with \<^verbatim>\<open>validateReleaseEvidence\<close>, \<^verbatim>\<open>BaseAdvanceCompatibility.valid\<close> and the
  checks \<^verbatim>\<open>ParseGateContext\<close> makes on a decoded context.
\<close>

datatype gate_error =
    ReleaseTree | ReleaseHashes | ReleaseNotSealed | ReleaseStale
  | ContextIdentity | ContextHashes | ContextAdvance | ContextBoundary | ContextDenial
  | ContextExternal

datatype gate_kind = PostApply | PreCommit | PrePush | PrePR | ReleaseGate | OtherGate string

datatype gate_result = GateAllow | GateScopeChanged | GateInvalidated | GateEscalated

datatype external_evidence =
    ExternalNone | ExternalInvalidating | ExternalEscalating | OtherExternal string

fun gate_kind_text :: "gate_kind \<Rightarrow> string" where
  "gate_kind_text PostApply = ''post-apply''"
| "gate_kind_text PreCommit = ''pre-commit''"
| "gate_kind_text PrePush = ''pre-push''"
| "gate_kind_text PrePR = ''pre-pr''"
| "gate_kind_text ReleaseGate = ''release''"
| "gate_kind_text (OtherGate s) = s"

fun external_text :: "external_evidence \<Rightarrow> string" where
  "external_text ExternalNone = []"
| "external_text ExternalInvalidating = ''invalidating''"
| "external_text ExternalEscalating = ''escalating''"
| "external_text (OtherExternal s) = s"

section \<open>Release evidence\<close>

record release_evidence =
  re_tree :: string
  re_configuration :: string
  re_generated :: string
  re_provenance :: string
  re_boundary :: string
  re_publication_state :: string
  re_freshness :: string
  re_freshness_state :: string

definition validate_release_evidence :: "release_evidence \<Rightarrow> gate_error option" where
  "validate_release_evidence r = first_err
     [guard (\<not> valid_git_tree (re_tree r)) ReleaseTree,
      guard (\<not> list_all valid_sha256 [re_configuration r, re_generated r, re_provenance r,
               re_boundary r, re_freshness r]) ReleaseHashes,
      guard (re_publication_state r \<noteq> ''sealed'') ReleaseNotSealed,
      guard (re_freshness_state r \<noteq> ''current'') ReleaseStale]"

definition json_release :: "release_evidence \<Rightarrow> json" where
  "json_release r = JObj
     (field ''release_tree'' (JStr (re_tree r)) @
      field ''configuration_hash'' (JStr (re_configuration r)) @
      field ''generated_artifact_hash'' (JStr (re_generated r)) @
      field ''provenance_hash'' (JStr (re_provenance r)) @
      field ''publication_boundary_hash'' (JStr (re_boundary r)) @
      field ''publication_state'' (JStr (re_publication_state r)) @
      field ''evidence_freshness_hash'' (JStr (re_freshness r)) @
      field ''evidence_freshness_state'' (JStr (re_freshness_state r)))"

section \<open>Base advance\<close>

record base_advance =
  ba_status :: string
  ba_compatible :: bool
  ba_old_base :: string
  ba_new_base :: string
  ba_original_patch :: string
  ba_delivered_patch :: string
  ba_delivered_paths :: string
  ba_advance_paths :: string
  ba_disjoint :: bool
  ba_merged_tree :: string
  ba_ci_hash :: string
  ba_ci_issuer :: string
  ba_ci_status :: string

definition base_advance_valid :: "base_advance \<Rightarrow> bool" where
  "base_advance_valid p =
     (let core = ba_compatible p \<and> valid_git_tree (ba_old_base p) \<and> valid_git_tree (ba_new_base p) \<and>
            valid_sha256 (ba_original_patch p) \<and> ba_original_patch p = ba_delivered_patch p \<and>
            valid_sha256 (ba_delivered_paths p) \<and> valid_sha256 (ba_advance_paths p) \<and>
            ba_disjoint p \<and> valid_git_tree (ba_merged_tree p)
      in if ba_status p = ''base-advanced-compatible'' then
           core \<and> valid_sha256 (ba_ci_hash p) \<and> \<not> blank (ba_ci_issuer p) \<and>
           ba_ci_status p = ''success''
         else if ba_status p = ''current-changes-boundary-compatible'' then
           core \<and> ba_ci_hash p = [] \<and> ba_ci_issuer p = [] \<and> ba_ci_status p = ''not-required''
         else False)"

definition json_base_advance :: "base_advance \<Rightarrow> json" where
  "json_base_advance p = JObj
     (field ''status'' (JStr (ba_status p)) @ field ''compatible'' (JBool (ba_compatible p)) @
      field ''old_base_tree'' (JStr (ba_old_base p)) @ field ''new_base_tree'' (JStr (ba_new_base p)) @
      field ''original_patch_identity'' (JStr (ba_original_patch p)) @
      field ''delivered_patch_identity'' (JStr (ba_delivered_patch p)) @
      field ''delivered_paths_digest'' (JStr (ba_delivered_paths p)) @
      field ''base_advance_paths_digest'' (JStr (ba_advance_paths p)) @
      field ''paths_disjoint'' (JBool (ba_disjoint p)) @
      field ''merged_result_tree'' (JStr (ba_merged_tree p)) @
      field ''ci_attestation_artifact_hash'' (JStr (ba_ci_hash p)) @
      field ''ci_attestation_issuer'' (JStr (ba_ci_issuer p)) @
      field ''ci_status'' (JStr (ba_ci_status p)))"

section \<open>Gate contexts\<close>

record pre_pr_boundary =
  pb_source :: string
  pb_selector :: string
  pb_commit :: string
  pb_remote :: string
  pb_remote_ref :: string
  pb_remote_identity :: string

record gate_denial =
  gd_stage :: string
  gd_code :: string

record gate_target =
  gt_base :: string
  gt_candidate :: string
  gt_digest :: string
  gt_paths :: "string slice"

record scope_change =
  sc_expected :: gate_target
  sc_actual :: gate_target
  sc_paths :: "string slice"
  sc_count :: int
  sc_digest :: string
  sc_lineage :: string
  sc_revision :: string
  sc_operation :: string
  sc_inputs :: "string slice"

record gate_context =
  gc_gate :: gate_kind
  gc_lineage :: string
  gc_generation :: int
  gc_store_revision :: string
  gc_genesis_revision :: string
  gc_chain :: string
  gc_bundle :: string
  gc_base :: string
  gc_candidate :: string
  gc_paths_digest :: string
  gc_fix_delta :: string
  gc_policy :: string
  gc_ledger :: string
  gc_evidence :: string
  gc_base_related :: bool
  gc_external :: external_evidence
  gc_advance :: "base_advance option"
  gc_release :: "release_evidence option"
  gc_boundary :: "pre_pr_boundary option"
  gc_denial :: "gate_denial option"
  gc_scope :: "scope_change option"

definition json_gate_target :: "gate_target \<Rightarrow> json" where
  "json_gate_target t = JObj
     (field ''base_tree'' (JStr (gt_base t)) @ field ''candidate_tree'' (JStr (gt_candidate t)) @
      field ''paths_digest'' (JStr (gt_digest t)) @ field ''paths'' (json_strings (gt_paths t)))"

definition json_gate_context :: "gate_context \<Rightarrow> json" where
  "json_gate_context c = JObj
     (field ''gate'' (JStr (gate_kind_text (gc_gate c))) @ field ''lineage_id'' (JStr (gc_lineage c)) @
      field ''generation'' (JInt (gc_generation c)) @
      omit_empty ''store_revision'' (gc_store_revision c) @
      omit_empty ''genesis_revision'' (gc_genesis_revision c) @
      omit_empty ''chain_identity'' (gc_chain c) @ omit_empty ''bundle_digest'' (gc_bundle c) @
      field ''base_tree'' (JStr (gc_base c)) @ field ''candidate_tree'' (JStr (gc_candidate c)) @
      field ''paths_digest'' (JStr (gc_paths_digest c)) @
      field ''fix_delta_hash'' (JStr (gc_fix_delta c)) @ field ''policy_hash'' (JStr (gc_policy c)) @
      field ''ledger_hash'' (JStr (gc_ledger c)) @ field ''evidence_hash'' (JStr (gc_evidence c)) @
      field ''base_relationship_valid'' (JBool (gc_base_related c)) @
      omit_empty ''external_evidence'' (external_text (gc_external c)) @
      omit_nil ''base_advanced_compatible'' json_base_advance (gc_advance c) @
      omit_nil ''release'' json_release (gc_release c) @
      omit_nil ''pre_pr_boundary'' (\<lambda>b. JObj
        (field ''source'' (JStr (pb_source b)) @ field ''selector'' (JStr (pb_selector b)) @
         field ''commit'' (JStr (pb_commit b)) @ omit_empty ''remote'' (pb_remote b) @
         omit_empty ''remote_ref'' (pb_remote_ref b) @
         omit_empty ''remote_identity'' (pb_remote_identity b))) (gc_boundary c) @
      omit_nil ''denial'' (\<lambda>d. JObj (field ''stage'' (JStr (gd_stage d)) @
         field ''code'' (JStr (gd_code d)))) (gc_denial c) @
      omit_nil ''scope_change'' (\<lambda>s. JObj
        (field ''expected'' (json_gate_target (sc_expected s)) @
         field ''actual'' (json_gate_target (sc_actual s)) @
         field ''differing_paths'' (json_strings (sc_paths s)) @
         field ''differing_path_count'' (JInt (sc_count s)) @
         field ''differing_paths_digest'' (JStr (sc_digest s)) @
         field ''predecessor_lineage_id'' (JStr (sc_lineage s)) @
         field ''predecessor_revision'' (JStr (sc_revision s)) @
         field ''recovery_operation'' (JStr (sc_operation s)) @
         field ''recovery_required_inputs'' (json_strings (sc_inputs s)))) (gc_scope c))"

definition validate_gate_context :: "gate_context \<Rightarrow> gate_error option" where
  \<comment> \<open>\<^verbatim>\<open>ParseGateContext\<close> after decoding\<close>
  "validate_gate_context c = first_err
     [guard (validate_lineage_id (gc_lineage c) \<noteq> None \<or> gc_generation c < 1 \<or>
             \<not> valid_git_tree (gc_base c) \<or> \<not> valid_git_tree (gc_candidate c)) ContextIdentity,
      guard (\<not> list_all valid_sha256 [gc_store_revision c, gc_genesis_revision c, gc_chain c,
               gc_bundle c, gc_paths_digest c, gc_fix_delta c, gc_policy c, gc_ledger c,
               gc_evidence c]) ContextHashes,
      (case gc_release c of None \<Rightarrow> None | Some r \<Rightarrow> validate_release_evidence r),
      (case gc_advance c of None \<Rightarrow> None
       | Some p \<Rightarrow> guard (gc_gate c \<noteq> PrePR \<or> \<not> base_advance_valid p) ContextAdvance),
      (case gc_boundary c of None \<Rightarrow> None
       | Some b \<Rightarrow>
         let unavailable = pb_commit b = [] \<and> (case gc_denial c of None \<Rightarrow> False
               | Some d \<Rightarrow> gd_stage d = ''boundary-selection'' \<and> gd_code d = ''unavailable'')
         in guard (gc_gate c \<noteq> PrePR \<or> (\<not> valid_git_tree (pb_commit b) \<and> \<not> unavailable) \<or>
              blank (pb_selector b) \<or>
              (pb_source b \<noteq> ''explicit'' \<and> pb_source b \<noteq> ''publication-default'')) ContextBoundary),
      (case gc_denial c of None \<Rightarrow> None
       | Some d \<Rightarrow> guard (blank (gd_stage d) \<or> blank (gd_code d)) ContextDenial),
      guard (case gc_external c of OtherExternal _ \<Rightarrow> True | _ \<Rightarrow> False) ContextExternal]"

fun json_utf8 :: "json \<Rightarrow> bool" where
  \<comment> \<open>every string of the value survives encoding; others come back with U+FFFD in them\<close>
  "json_utf8 (JStr s) = valid_utf8 s"
| "json_utf8 (JArr vs) = list_all json_utf8 vs"
| "json_utf8 (JObj fs) = list_all (\<lambda>(k, v). json_utf8 v) fs"
| "json_utf8 _ = True"

definition gate_context_survives :: "gate_context \<Rightarrow> bool" where
  \<comment> \<open>marshalling a context, parsing it back and comparing: it decodes to itself exactly when
    every string is UTF-8, since no slice of it is tagged \<open>omitempty\<close>\<close>
  "gate_context_survives c \<longleftrightarrow>
     json_utf8 (json_gate_context c) \<and> validate_gate_context c = None"

end
