(* ===== verification/CompactState.thy ===== *)
theory CompactState
  imports RecoveryProofs GateContext
begin

text \<open>
  The compact v2 review authority of compact.go: its state record, its JSON form, the
  content-addressed revision of compact_store.go, and \<^verbatim>\<open>CompactState.Validate\<close> with every
  validator it calls. Validation of a state invalidated after approval re-validates the approved
  state it came from, so it is split into the header checks and the body checks both use.
\<close>

datatype compact_error = StateRefused string | Shared check_error | Recovered recovery_error | PathScope
    canon_error | RoutingBad string

abbreviation BadSchema :: compact_error where "BadSchema \<equiv> StateRefused ''bad schema''"
abbreviation Generation :: compact_error where "Generation \<equiv> StateRefused ''generation''"
abbreviation RecoveryIncomplete :: compact_error where "RecoveryIncomplete \<equiv> StateRefused ''recovery incomplete''"
abbreviation RecoveryUnauthorized :: compact_error where "RecoveryUnauthorized \<equiv> StateRefused ''recovery unauthorized''"
abbreviation RecoveryDispositionBad :: compact_error where "RecoveryDispositionBad \<equiv> StateRefused ''recovery disposition bad''"
abbreviation RecoveryEvidencePlace :: compact_error where "RecoveryEvidencePlace \<equiv> StateRefused ''recovery evidence place''"
abbreviation RecoveryRetryPlace :: compact_error where "RecoveryRetryPlace \<equiv> StateRefused ''recovery retry place''"
abbreviation DispositionState :: compact_error where "DispositionState \<equiv> StateRefused ''disposition state''"
abbreviation DispositionBinding :: compact_error where "DispositionBinding \<equiv> StateRefused ''disposition binding''"
abbreviation DispositionTwice :: compact_error where "DispositionTwice \<equiv> StateRefused ''disposition twice''"
abbreviation DispositionTarget :: compact_error where "DispositionTarget \<equiv> StateRefused ''disposition target''"
abbreviation DispositionFields :: compact_error where "DispositionFields \<equiv> StateRefused ''disposition fields''"
abbreviation DispositionTransport :: compact_error where "DispositionTransport \<equiv> StateRefused ''disposition transport''"
abbreviation DispositionWrongTarget :: compact_error where "DispositionWrongTarget \<equiv> StateRefused ''disposition wrong target''"
abbreviation DispositionClass :: compact_error where "DispositionClass \<equiv> StateRefused ''disposition class''"
abbreviation ReopenRecord :: compact_error where "ReopenRecord \<equiv> StateRefused ''reopen record''"
abbreviation ReopenSlot :: compact_error where "ReopenSlot \<equiv> StateRefused ''reopen slot''"
abbreviation EvidenceNotInvalidated :: compact_error where "EvidenceNotInvalidated \<equiv> StateRefused ''evidence not invalidated''"
abbreviation InvalidationEvidenceBad :: compact_error where "InvalidationEvidenceBad \<equiv> StateRefused ''invalidation evidence bad''"
abbreviation ProjectionChanged :: compact_error where "ProjectionChanged \<equiv> StateRefused ''projection changed''"
abbreviation BaseChanged :: compact_error where "BaseChanged \<equiv> StateRefused ''base changed''"
abbreviation GenesisPaths :: compact_error where "GenesisPaths \<equiv> StateRefused ''genesis paths''"
abbreviation CoreHashes :: compact_error where "CoreHashes \<equiv> StateRefused ''core hashes''"
abbreviation SelectedLenses :: compact_error where "SelectedLenses \<equiv> StateRefused ''selected lenses''"
abbreviation BudgetMismatch :: compact_error where "BudgetMismatch \<equiv> StateRefused ''budget mismatch''"
abbreviation NilCollections :: compact_error where "NilCollections \<equiv> StateRefused ''nil collections''"
abbreviation TooManyResults :: compact_error where "TooManyResults \<equiv> StateRefused ''too many results''"
abbreviation ResultsNotCanonical :: compact_error where "ResultsNotCanonical \<equiv> StateRefused ''results not canonical''"
abbreviation DisposedContent :: compact_error where "DisposedContent \<equiv> StateRefused ''disposed content''"
abbreviation LensesMissing :: compact_error where "LensesMissing \<equiv> StateRefused ''lenses missing''"
abbreviation FindingsMismatch :: compact_error where "FindingsMismatch \<equiv> StateRefused ''findings mismatch''"
abbreviation DuplicateFinding :: compact_error where "DuplicateFinding \<equiv> StateRefused ''duplicate finding''"
abbreviation FixIdsNotCanonical :: compact_error where "FixIdsNotCanonical \<equiv> StateRefused ''fix ids not canonical''"
abbreviation RoutingCount :: compact_error where "RoutingCount \<equiv> StateRefused ''routing count''"
abbreviation FixIdsMismatch :: compact_error where "FixIdsMismatch \<equiv> StateRefused ''fix ids mismatch''"
abbreviation UnresolvedNotEscalated :: compact_error where "UnresolvedNotEscalated \<equiv> StateRefused ''unresolved not escalated''"
abbreviation DanglingKey :: compact_error where "DanglingKey \<equiv> StateRefused ''dangling key''"

datatype correction_error = CorrectionRefused string | InCorrection check_error | InState compact_error

abbreviation CumulativeWithoutAttempts :: correction_error where "CumulativeWithoutAttempts \<equiv> CorrectionRefused ''cumulative without attempts''"
abbreviation AttemptScope :: correction_error where "AttemptScope \<equiv> CorrectionRefused ''attempt scope''"
abbreviation AttemptTarget :: correction_error where "AttemptTarget \<equiv> CorrectionRefused ''attempt target''"
abbreviation CumulativeBad :: correction_error where "CumulativeBad \<equiv> CorrectionRefused ''cumulative bad''"
abbreviation ForecastRemaining :: correction_error where "ForecastRemaining \<equiv> CorrectionRefused ''forecast remaining''"
abbreviation FailedRetained :: correction_error where "FailedRetained \<equiv> CorrectionRefused ''failed retained''"
abbreviation UncorrectedOutput :: correction_error where "UncorrectedOutput \<equiv> CorrectionRefused ''uncorrected output''"
abbreviation ForecastPending :: correction_error where "ForecastPending \<equiv> CorrectionRefused ''forecast pending''"
abbreviation ForecastWithinBudget :: correction_error where "ForecastWithinBudget \<equiv> CorrectionRefused ''forecast within budget''"
abbreviation BypassCorrection :: correction_error where "BypassCorrection \<equiv> CorrectionRefused ''bypass correction''"
abbreviation CompletedState :: correction_error where "CompletedState \<equiv> CorrectionRefused ''completed state''"
abbreviation CompletedSize :: correction_error where "CompletedSize \<equiv> CorrectionRefused ''completed size''"
abbreviation CompletedSnapshot :: correction_error where "CompletedSnapshot \<equiv> CorrectionRefused ''completed snapshot''"
abbreviation CompletedHash :: correction_error where "CompletedHash \<equiv> CorrectionRefused ''completed hash''"
abbreviation CompletedChecks :: correction_error where "CompletedChecks \<equiv> CorrectionRefused ''completed checks''"
abbreviation CompletedLatest :: correction_error where "CompletedLatest \<equiv> CorrectionRefused ''completed latest''"
abbreviation ChecksNotPassed :: correction_error where "ChecksNotPassed \<equiv> CorrectionRefused ''checks not passed''"
abbreviation RecoveredBinding :: correction_error where "RecoveredBinding \<equiv> CorrectionRefused ''recovered binding''"
abbreviation RecoveredShape :: correction_error where "RecoveredShape \<equiv> CorrectionRefused ''recovered shape''"
abbreviation RecoveredAttempt :: correction_error where "RecoveredAttempt \<equiv> CorrectionRefused ''recovered attempt''"
abbreviation RecoveredValidator :: correction_error where "RecoveredValidator \<equiv> CorrectionRefused ''recovered validator''"
abbreviation RecoveredRequest :: correction_error where "RecoveredRequest \<equiv> CorrectionRefused ''recovered request''"
abbreviation RecoveredReview :: correction_error where "RecoveredReview \<equiv> CorrectionRefused ''recovered review''"
abbreviation RecoveredEvidence :: correction_error where "RecoveredEvidence \<equiv> CorrectionRefused ''recovered evidence''"
abbreviation ForecastPositive :: correction_error where "ForecastPositive \<equiv> CorrectionRefused ''forecast positive''"
abbreviation ForecastOverBudget :: correction_error where "ForecastOverBudget \<equiv> CorrectionRefused ''forecast over budget''"
abbreviation ActualBounds :: correction_error where "ActualBounds \<equiv> CorrectionRefused ''actual bounds''"
abbreviation ReviewingData :: correction_error where "ReviewingData \<equiv> CorrectionRefused ''reviewing data''"
abbreviation ReviewingReason :: correction_error where "ReviewingReason \<equiv> CorrectionRefused ''reviewing reason''"
abbreviation InvalidatedNotPristine :: correction_error where "InvalidatedNotPristine \<equiv> CorrectionRefused ''invalidated not pristine''"
abbreviation CorrectionIncomplete :: correction_error where "CorrectionIncomplete \<equiv> CorrectionRefused ''correction incomplete''"
abbreviation ValidatingIncomplete :: correction_error where "ValidatingIncomplete \<equiv> CorrectionRefused ''validating incomplete''"
abbreviation ApprovedNoEvidence :: correction_error where "ApprovedNoEvidence \<equiv> CorrectionRefused ''approved no evidence''"
abbreviation UnknownState :: correction_error where "UnknownState \<equiv> CorrectionRefused ''unknown state''"

section \<open>State\<close>

datatype disposition_class = TransportSyntax | WrongTarget | OtherDisposition string

datatype recovery_disposition =
    RecoveryScopeChanged | RecoveryInvalidated | RecoveryEscalated | RecoveryFinalRetry
  | OtherRecovery string

record reopen_slot =
  rs_lens :: string
  rs_order :: int
  rs_artifact :: string
  rs_result :: string
  rs_subject :: string
  rs_authority :: string

record result_reopen =
  ro_previous :: string
  ro_target :: string
  ro_quarantined :: "reopen_slot slice"
  ro_retained :: "reopen_slot slice"
  ro_reason :: string
  ro_actor :: string
  ro_at :: go_time
  ro_authorization :: string

record result_disposition =
  rd_lens :: string
  rd_order :: int
  rd_target :: string
  rd_artifact :: string
  rd_class :: disposition_class
  rd_decodable :: bool
  rd_diagnostic :: string
  rd_absent :: "string slice"
  rd_reason :: string
  rd_actor :: string
  rd_at :: go_time
  rd_authorization :: string

record correction_attempt =
  ca_snapshot :: snapshot
  ca_proposed :: int
  ca_actual :: int
  ca_fix_delta :: string
  ca_original :: validation_check
  ca_regression :: validation_check
  ca_request_hash :: string
  ca_target :: string

record recovered_evidence =
  rv_schema :: string
  rv_relation :: string
  rv_path_relation :: string
  rv_target :: string
  rv_review_hash :: string
  rv_attempt :: correction_attempt
  rv_native_lines :: int
  rv_request :: targeted_request

record recovery_provenance =
  rc_predecessor :: string
  rc_revision :: string
  rc_disposition :: recovery_disposition
  rc_reason :: string
  rc_actor :: string
  rc_at :: go_time
  rc_authorization :: string
  rc_evidence :: "recovered_evidence option"
  rc_retry :: "retry_proof option"

record invalidation_evidence =
  ie_gate :: gate_kind
  ie_reason :: string
  ie_context :: gate_context

record compact_state =
  cs_schema :: string
  cs_lineage :: string
  cs_generation :: int
  cs_state :: review_state
  cs_initial :: snapshot
  cs_current :: snapshot
  cs_genesis :: "string slice"
  cs_policy :: string
  cs_risk :: risk_level
  cs_lenses :: "string slice"
  cs_original_lines :: int
  cs_budget :: int
  cs_results :: "lens_result slice"
  cs_findings :: "finding slice"
  cs_classifications :: "finding_evidence gomap"
  cs_outcomes :: "outcome gomap"
  cs_fix_ids :: "string slice"
  cs_follow_ups :: "follow_up slice"
  cs_proposed :: "int option"
  cs_actual :: "int option"
  cs_fix_delta :: string
  cs_original_check :: "validation_check option"
  cs_regression_check :: "validation_check option"
  cs_evidence :: string
  cs_invalidation :: string
  cs_invalidation_evidence :: "invalidation_evidence option"
  cs_recovery :: "recovery_provenance option"
  cs_attempts :: "correction_attempt slice"
  cs_cumulative :: int
  cs_dispositions :: "result_disposition slice"
  cs_reopens :: "result_reopen slice"

definition compact_schema :: string where
  "compact_schema = ''gentle-ai.review-state/v2''"

definition max_compact_attempts :: nat where "max_compact_attempts = 1"
definition historical_compact_attempts :: nat where "historical_compact_attempts = 3"

end
