(* ===== verification/CompactValidate.thy ===== *)
theory CompactValidate
  imports CompactState
begin

text \<open>
  \<^verbatim>\<open>CompactState.Validate\<close> (compact.go) with the validators it calls, the JSON form of the state
  and \<^verbatim>\<open>makeCompactRecord\<close>'s revision. The checks are listed in the order the code makes them.
\<close>

section \<open>JSON and the content-addressed revision\<close>

fun disposition_class_text :: "disposition_class \<Rightarrow> string" where
  "disposition_class_text TransportSyntax = ''transport_syntax''"
| "disposition_class_text WrongTarget = ''wrong_target''"
| "disposition_class_text (OtherDisposition s) = s"

fun recovery_text :: "recovery_disposition \<Rightarrow> string" where
  "recovery_text RecoveryScopeChanged = ''scope_changed''"
| "recovery_text RecoveryInvalidated = ''invalidated''"
| "recovery_text RecoveryEscalated = ''escalated''"
| "recovery_text RecoveryFinalRetry = ''final_verification_retry''"
| "recovery_text (OtherRecovery s) = s"

definition json_attempt :: "correction_attempt \<Rightarrow> json" where
  "json_attempt a = JObj
     (field ''snapshot'' (json_snapshot (ca_snapshot a)) @
      field ''proposed_lines'' (JInt (ca_proposed a)) @ field ''actual_lines'' (JInt (ca_actual a)) @
      field ''fix_delta_hash'' (JStr (ca_fix_delta a)) @
      field ''original_criteria'' (json_check (ca_original a)) @
      field ''correction_regression'' (json_check (ca_regression a)) @
      omit_empty ''targeted_validation_request_hash'' (ca_request_hash a) @
      omit_empty ''correction_target_identity'' (ca_target a))"

definition json_recovered :: "recovered_evidence \<Rightarrow> json" where
  "json_recovered v = JObj
     (field ''schema'' (JStr (rv_schema v)) @ field ''relation'' (JStr (rv_relation v)) @
      field ''path_relation'' (JStr (rv_path_relation v)) @
      field ''successor_target_identity'' (JStr (rv_target v)) @
      field ''review_evidence_hash'' (JStr (rv_review_hash v)) @
      field ''source_correction_attempt'' (json_attempt (rv_attempt v)) @
      field ''native_correction_lines'' (JInt (rv_native_lines v)) @
      field ''targeted_validation_request'' (json_targeted_request (rv_request v)))"

definition json_recovery :: "recovery_provenance \<Rightarrow> json" where
  "json_recovery r = JObj
     (field ''predecessor_lineage_id'' (JStr (rc_predecessor r)) @
      field ''predecessor_revision'' (JStr (rc_revision r)) @
      field ''disposition'' (JStr (recovery_text (rc_disposition r))) @
      field ''reason'' (JStr (rc_reason r)) @ field ''actor'' (JStr (rc_actor r)) @
      field ''recovered_at'' (JStr (rc_at r)) @
      omit_empty ''maintainer_authorization'' (rc_authorization r) @
      omit_nil ''evidence'' json_recovered (rc_evidence r) @
      omit_nil ''final_verification_retry'' json_retry_proof (rc_retry r))"

definition json_disposition :: "result_disposition \<Rightarrow> json" where
  "json_disposition d = JObj
     (field ''lens'' (JStr (rd_lens d)) @ field ''selected_order'' (JInt (rd_order d)) @
      field ''target_identity'' (JStr (rd_target d)) @ field ''artifact_digest'' (JStr (rd_artifact d)) @
      field ''class'' (JStr (disposition_class_text (rd_class d))) @
      omit_false ''payload_decodable'' (rd_decodable d) @ field ''diagnostic'' (JStr (rd_diagnostic d)) @
      omit_slice ''absent_paths'' JStr (rd_absent d) @ field ''reason'' (JStr (rd_reason d)) @
      field ''actor'' (JStr (rd_actor d)) @ field ''disposed_at'' (JStr (rd_at d)) @
      field ''maintainer_authorization'' (JStr (rd_authorization d)))"

definition json_slot :: "reopen_slot \<Rightarrow> json" where
  "json_slot s = JObj
     (field ''lens'' (JStr (rs_lens s)) @ field ''selected_order'' (JInt (rs_order s)) @
      field ''artifact_digest'' (JStr (rs_artifact s)) @ field ''result_hash'' (JStr (rs_result s)) @
      omit_empty ''subject_hash'' (rs_subject s) @ omit_empty ''authority_revision'' (rs_authority s))"

definition json_reopen :: "result_reopen \<Rightarrow> json" where
  "json_reopen r = JObj
     (field ''previous_revision'' (JStr (ro_previous r)) @ field ''target_identity'' (JStr (ro_target r)) @
      field ''quarantined'' (json_slice json_slot (ro_quarantined r)) @
      field ''retained'' (json_slice json_slot (ro_retained r)) @
      field ''reason'' (JStr (ro_reason r)) @ field ''actor'' (JStr (ro_actor r)) @
      field ''reopened_at'' (JStr (ro_at r)) @
      field ''maintainer_authorization'' (JStr (ro_authorization r)))"

definition json_compact_state :: "compact_state \<Rightarrow> json" where
  "json_compact_state s = JObj
     (field ''schema'' (JStr (cs_schema s)) @ field ''lineage_id'' (JStr (cs_lineage s)) @
      field ''generation'' (JInt (cs_generation s)) @ field ''state'' (JStr (state_text (cs_state s))) @
      field ''initial_snapshot'' (json_snapshot (cs_initial s)) @
      field ''current_snapshot'' (json_snapshot (cs_current s)) @
      field ''genesis_paths'' (json_strings (cs_genesis s)) @
      field ''policy_hash'' (JStr (cs_policy s)) @ field ''risk_level'' (JStr (risk_text (cs_risk s))) @
      field ''selected_lenses'' (json_strings (cs_lenses s)) @
      field ''original_changed_lines'' (JInt (cs_original_lines s)) @
      field ''correction_budget'' (JInt (cs_budget s)) @
      field ''lens_results'' (json_slice json_lens_result (cs_results s)) @
      field ''findings'' (json_slice json_finding (cs_findings s)) @
      field ''classifications'' (json_map json_finding_evidence (cs_classifications s)) @
      field ''outcomes'' (json_map (\<lambda>v. JStr (outcome_text v)) (cs_outcomes s)) @
      field ''fix_finding_ids'' (json_strings (cs_fix_ids s)) @
      field ''follow_ups'' (json_slice json_follow_up (cs_follow_ups s)) @
      omit_nil ''proposed_correction_lines'' JInt (cs_proposed s) @
      omit_nil ''actual_correction_lines'' JInt (cs_actual s) @
      field ''fix_delta_hash'' (JStr (cs_fix_delta s)) @
      omit_nil ''original_criteria'' json_check (cs_original_check s) @
      omit_nil ''correction_regression'' json_check (cs_regression_check s) @
      omit_empty ''evidence_hash'' (cs_evidence s) @
      omit_empty ''invalidation_reason'' (cs_invalidation s) @
      omit_nil ''invalidation_evidence'' (\<lambda>e. JObj
        (field ''gate'' (JStr (gate_kind_text (ie_gate e))) @ field ''reason'' (JStr (ie_reason e)) @
         field ''context'' (json_gate_context (ie_context e)))) (cs_invalidation_evidence s) @
      omit_nil ''recovery'' json_recovery (cs_recovery s) @
      omit_slice ''correction_attempts'' json_attempt (cs_attempts s) @
      omit_zero ''cumulative_correction_lines'' (cs_cumulative s) @
      omit_slice ''result_dispositions'' json_disposition (cs_dispositions s) @
      omit_slice ''result_reopens'' json_reopen (cs_reopens s))"

definition compact_revision :: "compact_state \<Rightarrow> string" where
  "compact_revision s = domain_identity compact_schema (render (json_compact_state s))"

definition compact_review_evidence_hash :: "compact_state \<Rightarrow> string" where
  "compact_review_evidence_hash s =
     domain_identity ''gentle-ai.review-recovered-evidence/v1/review''
       (render (JObj (field ''lens_results'' (json_slice json_lens_result (cs_results s)) @
          field ''findings'' (json_slice json_finding (cs_findings s)) @
          field ''classifications'' (json_map json_finding_evidence (cs_classifications s)) @
          field ''outcomes'' (json_map (\<lambda>v. JStr (outcome_text v)) (cs_outcomes s)) @
          field ''fix_finding_ids'' (json_strings (cs_fix_ids s)) @
          field ''follow_ups'' (json_slice json_follow_up (cs_follow_ups s)))))"

section \<open>Recovery provenance\<close>

definition validate_retry_shape :: "compact_state \<Rightarrow> recovery_provenance \<Rightarrow> recovery_error option" where
  "validate_retry_shape s r =
     (case rc_retry r of None \<Rightarrow> Some RetryProof
      | Some p \<Rightarrow> first_err
         [guard (rp_schema p \<noteq> ''gentle-ai.review-final-verification-retry-proof/v1'' \<or>
            rc_evidence r \<noteq> None \<or> rp_terminal p \<noteq> rc_revision r \<or>
            rp_target p \<noteq> sn_identity (cs_current s) \<or> rp_failed_evidence p = [] \<or>
            rp_incident_digest p \<noteq> incident_digest (rp_incident p) \<or>
            rp_request_digest p \<noteq> fr_digest (fa_request (rp_attempt p))) RetryProof,
          validate_incident (rp_incident p),
          guard (in_lineage (rp_incident p) \<noteq> rc_predecessor r \<or>
            in_terminal (rp_incident p) \<noteq> rc_revision r \<or>
            in_validating (rp_incident p) \<noteq> rp_validating p \<or>
            in_target (rp_incident p) \<noteq> rp_target p \<or>
            in_failed_evidence (rp_incident p) \<noteq> rp_failed_evidence p \<or>
            in_request_digest (rp_incident p) \<noteq> rp_request_digest p) RetryProofIncident,
          guard (\<not> fa_completed (rp_attempt p) \<or> \<not> fa_published (rp_attempt p) \<or>
            elems (fa_transitions (rp_attempt p)) = [] \<or>
            \<not> attempt_has_continuity (rp_attempt p)) RetryAttempt,
          (let t = last (elems (fa_transitions (rp_attempt p))) in
           guard (ft_operation t \<noteq> ''review/complete-verification'' \<or>
             ft_expected t \<noteq> rp_validating p \<or> ft_revision t \<noteq> rp_terminal p \<or>
             fr_candidate (fa_request (rp_attempt p)) \<noteq>
               finalize_value_digest ''candidate'' (json_snapshot (cs_current s)) \<or>
             fr_failed (fa_request (rp_attempt p)) \<noteq> finalize_value_digest ''failed'' (JBool True))
             RetryDigests),
          guard (retry_authorization
              \<lparr>rq_predecessor = rc_predecessor r, rq_revision = rc_revision r,
               rq_successor = cs_lineage s, rq_incident = rp_incident p,
               rq_actor = rc_actor r, rq_reason = rc_reason r\<rparr> \<noteq> Inr (rc_authorization r))
            RetryAuthorization])"

definition validate_recovery :: "compact_state \<Rightarrow> recovery_provenance \<Rightarrow> compact_error option" where
  "validate_recovery s r = first_err
     [guard (validate_lineage_id (rc_predecessor r) \<noteq> None \<or> rc_predecessor r = cs_lineage s \<or>
             \<not> valid_sha256 (rc_revision r) \<or> blank (rc_reason r) \<or> blank (rc_actor r) \<or>
             zero_time (rc_at r)) RecoveryIncomplete,
      (case rc_disposition r of
         RecoveryScopeChanged \<Rightarrow> None
       | RecoveryInvalidated \<Rightarrow> None
       | RecoveryEscalated \<Rightarrow> guard (blank (rc_authorization r)) RecoveryUnauthorized
       | RecoveryFinalRetry \<Rightarrow> first_err
           [guard (rc_retry r = None \<or> rc_authorization r = []) RecoveryUnauthorized,
            map_option Recovered (validate_retry_shape s r)]
       | OtherRecovery _ \<Rightarrow> Some RecoveryDispositionBad),
      guard (rc_evidence r \<noteq> None \<and> rc_disposition r \<noteq> RecoveryEscalated) RecoveryEvidencePlace,
      guard (rc_retry r \<noteq> None \<and> rc_disposition r \<noteq> RecoveryFinalRetry) RecoveryRetryPlace]"

section \<open>Dispositions and reopens\<close>

definition selects :: "string list \<Rightarrow> int \<Rightarrow> string \<Rightarrow> bool" where
  \<comment> \<open>an in-range order that names this lens\<close>
  "selects lenses order lens \<longleftrightarrow>
     0 \<le> order \<and> order < int (length lenses) \<and> lenses ! nat order = lens"

definition validate_disposition :: "compact_state \<Rightarrow> result_disposition \<Rightarrow> compact_error option" where
  "validate_disposition s d = first_err
     [guard (rd_target d \<noteq> sn_identity (cs_initial s) \<or> \<not> valid_sha256 (rd_artifact d))
        DispositionTarget,
      guard (blank (rd_diagnostic d) \<or> blank (rd_reason d) \<or> blank (rd_actor d) \<or>
             blank (rd_authorization d) \<or> zero_time (rd_at d)) DispositionFields,
      (case rd_class d of
         TransportSyntax \<Rightarrow>
           guard (elems (rd_absent d) \<noteq> [] \<or> rd_decodable d) DispositionTransport
       | WrongTarget \<Rightarrow>
           guard (\<not> is_canonical_paths (elems (rd_absent d)) \<or> elems (rd_absent d) = [] \<or>
                  set (elems (rd_absent d)) \<inter> set (elems (sn_paths (cs_initial s))) \<noteq> {} \<or>
                  \<not> rd_decodable d) DispositionWrongTarget
       | OtherDisposition _ \<Rightarrow> Some DispositionClass)]"

fun validate_disposition_list ::
  "compact_state \<Rightarrow> int list \<Rightarrow> result_disposition list \<Rightarrow> compact_error option" where
  \<comment> \<open>the orders seen so far grow along the loop\<close>
  "validate_disposition_list s seen [] = None"
| "validate_disposition_list s seen (d # ds) = first_err
     [guard (\<not> selects (elems (cs_lenses s)) (rd_order d) (rd_lens d)) DispositionBinding,
      guard (rd_order d \<in> set seen) DispositionTwice,
      validate_disposition s d,
      validate_disposition_list s (rd_order d # seen) ds]"

definition validate_dispositions :: "compact_state \<Rightarrow> compact_error option" where
  "validate_dispositions s =
     (if elems (cs_dispositions s) = [] then None
      else first_err
        [guard (cs_state s \<noteq> Escalated) DispositionState,
         validate_disposition_list s [] (elems (cs_dispositions s))])"

fun validate_slots ::
  "string list \<Rightarrow> bool \<Rightarrow> int list \<Rightarrow> reopen_slot list \<Rightarrow> compact_error + int list" where
  \<comment> \<open>returns the orders seen, which the retained slots continue from\<close>
  "validate_slots lenses retained seen [] = Inr seen"
| "validate_slots lenses retained seen (t # ts) =
     (if \<not> selects lenses (rs_order t) (rs_lens t) \<or> \<not> valid_sha256 (rs_artifact t) \<or>
         \<not> valid_sha256 (rs_result t) then Inl ReopenSlot
      else if rs_order t \<in> set seen then Inl ReopenSlot
      else if retained \<and> (\<not> valid_sha256 (rs_subject t) \<or> \<not> valid_sha256 (rs_authority t))
        then Inl ReopenSlot
      else if \<not> retained \<and> ((rs_subject t = []) \<noteq> (rs_authority t = []) \<or>
          rs_subject t \<noteq> [] \<and> (\<not> valid_sha256 (rs_subject t) \<or> \<not> valid_sha256 (rs_authority t)))
        then Inl ReopenSlot
      else validate_slots lenses retained (rs_order t # seen) ts)"

definition validate_reopen :: "compact_state \<Rightarrow> result_reopen \<Rightarrow> compact_error option" where
  "validate_reopen s r = first_err
     [guard (\<not> valid_sha256 (ro_previous r) \<or> ro_target r \<noteq> sn_identity (cs_initial s) \<or>
             blank (ro_reason r) \<or> blank (ro_actor r) \<or> blank (ro_authorization r) \<or>
             zero_time (ro_at r) \<or> elems (ro_quarantined r) = []) ReopenRecord,
      (case validate_slots (elems (cs_lenses s)) False [] (elems (ro_quarantined r)) of
         Inl e \<Rightarrow> Some e
       | Inr seen \<Rightarrow>
         (case validate_slots (elems (cs_lenses s)) True seen (elems (ro_retained r)) of
            Inl e \<Rightarrow> Some e
          | Inr seen' \<Rightarrow> guard (length seen' \<noteq> length (elems (cs_lenses s))) ReopenRecord))]"

definition validate_reopens :: "compact_state \<Rightarrow> compact_error option" where
  "validate_reopens s = first_err (map (validate_reopen s) (elems (cs_reopens s)))"

section \<open>Frozen findings and their routing\<close>

text \<open>
  \<^verbatim>\<open>validateCompactFindings\<close> walks the findings once, checking each one's classification and
  outcome and collecting the ids that must be fixed and whether one is unresolved. Here a
  finding's share of that walk is its \<open>route\<close>.
\<close>

datatype route = RouteInfo | RouteFix | RouteUnresolved | RouteRefuted

definition candidate_causal :: "causality \<Rightarrow> bool" where
  "candidate_causal c \<longleftrightarrow> c = Introduced \<or> c = BehaviorActivated \<or> c = Worsened"

definition route_severe ::
  "finding \<Rightarrow> finding_evidence \<Rightarrow> outcome option \<Rightarrow> follow_up list \<Rightarrow> compact_error + route" where
  "route_severe f e out us =
     (let bad = Inl (RoutingBad (f_id f)) in
      if fe_finding e \<noteq> f_id f \<or> \<not> is_concrete_evidence (fe_proof e) then bad
      else if \<not> is_supported_class (fe_class e) then bad
      else if \<not> is_supported_causality (fe_causality e) \<or> out = None then bad
      else if fe_class e = Insufficient then
        (if out \<noteq> Some Inconclusive then bad else Inr RouteUnresolved)
      else if fe_causality e = PreExisting \<or> fe_causality e = BaseOnly then
        (if out \<noteq> Some Info \<or> \<not> has_follow_up us (causal_follow_up f (fe_proof e)) then bad
         else Inr RouteInfo)
      else if fe_causality e = UnknownCause then
        (if out \<noteq> Some Inconclusive then bad else Inr RouteUnresolved)
      else if fe_class e = Deterministic then
        (if out \<noteq> Some Corroborated then bad else Inr RouteFix)
      else (case out of
              Some Corroborated \<Rightarrow> Inr RouteFix
            | Some Refuted \<Rightarrow> Inr RouteRefuted
            | Some Inconclusive \<Rightarrow> Inr RouteUnresolved
            | _ \<Rightarrow> bad))"

definition route_of :: "compact_state \<Rightarrow> finding \<Rightarrow> compact_error + route" where
  "route_of s f =
     (let class = fmlookup (entries (cs_classifications s)) (f_id f);
          out = fmlookup (entries (cs_outcomes s)) (f_id f)
      in if \<not> is_severe (f_severity f) then
           (if class \<noteq> None \<or> out \<noteq> Some Info \<or> f_id f \<in> set (elems (cs_fix_ids s))
            then Inl (RoutingBad (f_id f)) else Inr RouteInfo)
         else (case class of
                 None \<Rightarrow> Inl (RoutingBad (f_id f))
               | Some e \<Rightarrow> route_severe f e out (elems (cs_follow_ups s))))"

fun validate_frozen :: "string list \<Rightarrow> finding list \<Rightarrow> compact_error option" where
  "validate_frozen seen [] = None"
| "validate_frozen seen (f # fs) = first_err
     [map_option Shared (validate_lens_finding f True),
      guard (f_id f \<in> set seen) DuplicateFinding,
      validate_frozen (f_id f # seen) fs]"

definition severe_count :: "finding list \<Rightarrow> nat" where
  "severe_count fs = length (filter (\<lambda>f. is_severe (f_severity f)) fs)"

definition fix_ids_of :: "(finding \<times> route) list \<Rightarrow> string list" where
  "fix_ids_of frs = sort (map (\<lambda>p. f_id (fst p)) (filter (\<lambda>p. snd p = RouteFix) frs))"

definition validate_routing :: "compact_state \<Rightarrow> compact_error option" where
  "validate_routing s =
     (let fs = elems (cs_findings s); ids = set (map f_id fs) in
      case traverse (route_of s) fs of
        Inl e \<Rightarrow> Some e
      | Inr routes \<Rightarrow> first_err
         [guard (map_len (cs_classifications s) \<noteq> severe_count fs \<or>
                 map_len (cs_outcomes s) \<noteq> length fs) RoutingCount,
          guard (fix_ids_of (zip fs routes) \<noteq> elems (cs_fix_ids s)) FixIdsMismatch,
          guard (RouteUnresolved \<in> set routes \<and> cs_state s \<noteq> Escalated) UnresolvedNotEscalated,
          guard (\<not> fset (fmdom (entries (cs_classifications s))) \<subseteq> ids) DanglingKey,
          guard (\<not> fset (fmdom (entries (cs_outcomes s))) \<subseteq> ids) DanglingKey,
          map_option Shared (validate_follow_ups (elems (cs_follow_ups s)))])"

definition validate_compact_findings :: "compact_state \<Rightarrow> compact_error option" where
  "validate_compact_findings s =
     (if cs_state s = Reviewing \<or> cs_state s = Invalidated then None
      else if cs_state s = Escalated \<and> elems (cs_dispositions s) \<noteq> [] then
        guard (elems (cs_results s) \<noteq> [] \<or> elems (cs_findings s) \<noteq> [] \<or>
               map_len (cs_classifications s) \<noteq> 0 \<or> map_len (cs_outcomes s) \<noteq> 0 \<or>
               elems (cs_fix_ids s) \<noteq> [] \<or> cs_evidence s \<noteq> []) DisposedContent
      else first_err
        [guard (length (elems (cs_results s)) \<noteq> length (elems (cs_lenses s))) LensesMissing,
         guard (cs_findings s \<noteq>
                Some (concat (map (\<lambda>r. elems (lr_findings r)) (elems (cs_results s)))))
           FindingsMismatch,
         validate_frozen [] (elems (cs_findings s)),
         guard (\<not> is_canonical_strings (elems (cs_fix_ids s))) FixIdsNotCanonical,
         validate_routing s])"

end
