(* ===== verification/CompactCorrection.thy ===== *)
theory CompactCorrection
  imports CompactValidate
begin

text \<open>
  The second half of \<^verbatim>\<open>CompactState.Validate\<close> (compact.go): the correction attempts, the
  correction recovered from an escalated predecessor, the data each state may hold, and the
  whole validator. A state invalidated after approval is valid when the approved state it
  records is.
\<close>

section \<open>Correction attempts\<close>

definition attempt_in_scope :: "compact_state \<Rightarrow> string \<Rightarrow> correction_attempt \<Rightarrow> bool" where
  \<comment> \<open>the candidate tree the attempt must start from is the second argument\<close>
  "attempt_in_scope s base a \<longleftrightarrow>
     ca_proposed a > 0 \<and> ca_actual a \<ge> 0 \<and> sn_kind (ca_snapshot a) = FixDiff \<and>
     sn_projection (ca_snapshot a) = sn_projection (cs_initial s) \<and>
     sn_base (ca_snapshot a) = base \<and>
     elems (sn_ledger_ids (ca_snapshot a)) = elems (cs_fix_ids s) \<and>
     paths_are_subset (elems (sn_paths (ca_snapshot a))) (elems (cs_genesis s)) = None \<and>
     ca_fix_delta a = fix_delta_hash (ca_snapshot a)"

fun walk_attempts ::
  "compact_state \<Rightarrow> string \<Rightarrow> int \<Rightarrow> correction_attempt list \<Rightarrow> correction_error + int" where
  \<comment> \<open>returns the accumulated actual lines\<close>
  "walk_attempts s base cumulative [] = Inr cumulative"
| "walk_attempts s base cumulative (a # as) =
     (if \<not> attempt_in_scope s base a then Inl AttemptScope
      else case validate_targeted_validation (ca_original a) (ca_regression a)
                  (ca_request_hash a) (ca_target a) (ca_fix_delta a) of
        Some e \<Rightarrow> Inl (InCorrection e)
      | None \<Rightarrow>
        if ca_target a \<noteq> [] \<and> ca_target a \<noteq> sn_identity (ca_snapshot a) then Inl AttemptTarget
        else walk_attempts s (sn_candidate (ca_snapshot a)) (go_add cumulative (ca_actual a)) as)"

definition correction_output :: "compact_state \<Rightarrow> bool" where
  "correction_output s \<longleftrightarrow>
     \<not> snapshots_equal (cs_current s) (cs_initial s) \<or> cs_fix_delta s \<noteq> empty_fix_delta_hash \<or>
     cs_actual s \<noteq> None \<or> cs_original_check s \<noteq> None \<or> cs_regression_check s \<noteq> None"

definition over_budget :: "compact_state \<Rightarrow> bool" where
  \<comment> \<open>the forecast does not fit what the attempts left of the budget\<close>
  "over_budget s =
     (case cs_proposed s of None \<Rightarrow> False
      | Some p \<Rightarrow> go_add (cs_cumulative s) p > cs_budget s)"

definition validate_uncorrected :: "compact_state \<Rightarrow> correction_error option" where
  "validate_uncorrected s = first_err
     [(case cs_proposed s of None \<Rightarrow> None
       | Some p \<Rightarrow> first_err
           [guard (elems (cs_fix_ids s) = [] \<or>
                   cs_state s \<noteq> CorrectionRequired \<and> cs_state s \<noteq> Escalated) ForecastPending,
            guard (cs_state s = Escalated \<and> p \<le> cs_budget s) ForecastWithinBudget]),
      guard (elems (cs_fix_ids s) \<noteq> [] \<and>
             cs_state s \<noteq> CorrectionRequired \<and> cs_state s \<noteq> Escalated) BypassCorrection]"

definition validate_corrected :: "compact_state \<Rightarrow> correction_error option" where
  "validate_corrected s =
     (let attempts = elems (cs_attempts s) in first_err
        [guard (elems (cs_fix_ids s) = [] \<or> cs_state s = Reviewing \<or>
                cs_state s = CorrectionRequired) CompletedState,
         guard (case cs_proposed s of None \<Rightarrow> True | Some p \<Rightarrow> p > cs_budget s \<or> cs_actual s = None)
           CompletedSize,
         guard (sn_kind (cs_current s) \<noteq> FixDiff \<or>
                attempts = [] \<and> sn_base (cs_current s) \<noteq> sn_candidate (cs_initial s) \<or>
                elems (sn_ledger_ids (cs_current s)) \<noteq> elems (cs_fix_ids s) \<or>
                elems (sn_intended (cs_current s)) \<noteq> elems (sn_intended (cs_initial s)))
           CompletedSnapshot,
         guard (cs_fix_delta s \<noteq> fix_delta_hash (cs_current s)) CompletedHash,
         (case (cs_original_check s, cs_regression_check s) of
            (Some original, Some regression) \<Rightarrow> first_err
              [guard (attempts \<noteq> [] \<and> (let a = last attempts in
                  cs_proposed s \<noteq> Some (ca_proposed a) \<or> cs_actual s \<noteq> Some (ca_actual a) \<or>
                  cs_fix_delta s \<noteq> ca_fix_delta a \<or> original \<noteq> ca_original a \<or>
                  regression \<noteq> ca_regression a)) CompletedLatest,
               map_option InCorrection
                 (validate_targeted_validation original regression
                    (if attempts = [] then [] else ca_request_hash (last attempts))
                    (if attempts = [] then [] else ca_target (last attempts)) (cs_fix_delta s)),
               guard ((cs_state s = Validating \<or> cs_state s = Approved) \<and>
                      (\<not> vc_passed original \<or> \<not> vc_passed regression)) ChecksNotPassed]
          | _ \<Rightarrow> Some CompletedChecks)])"

definition validate_attempts :: "compact_state \<Rightarrow> correction_error option" where
  \<comment> \<open>the accounting of the attempts made so far\<close>
  "validate_attempts s =
     (let attempts = elems (cs_attempts s) in
      if attempts = [] then guard (cs_cumulative s \<noteq> 0) CumulativeWithoutAttempts
      else case walk_attempts s (sn_candidate (cs_initial s)) 0 attempts of
        Inl e \<Rightarrow> Some e
      | Inr cumulative \<Rightarrow>
          guard (cumulative \<noteq> cs_cumulative s \<or>
                 cumulative > cs_budget s \<and> cs_state s \<noteq> Escalated \<or>
                 \<not> snapshots_equal (cs_current s) (ca_snapshot (last attempts))) CumulativeBad)"

definition correction_returns_early :: "compact_state \<Rightarrow> bool" where
  \<comment> \<open>the escalated shapes the validator accepts without the completed-correction checks\<close>
  "correction_returns_early s \<longleftrightarrow> cs_state s = Escalated \<and> elems (cs_attempts s) \<noteq> [] \<and>
     (over_budget s \<and> cs_actual s = None \<or>
      length (elems (cs_attempts s)) \<ge> historical_compact_attempts \<and> cs_proposed s = None \<and>
      cs_actual s = None \<and> cs_fix_delta s = empty_fix_delta_hash \<and> cs_original_check s = None \<and>
      cs_regression_check s = None \<and> cs_evidence s = [])"

definition validate_ordinary_correction :: "compact_state \<Rightarrow> correction_error option" where
  "validate_ordinary_correction s = first_err
     [validate_attempts s,
      (if elems (cs_attempts s) \<noteq> [] \<and> cs_state s = CorrectionRequired then first_err
         [guard (over_budget s) ForecastRemaining,
          guard (cs_actual s \<noteq> None \<or> cs_original_check s \<noteq> None \<or>
                 cs_regression_check s \<noteq> None \<or> cs_fix_delta s \<noteq> empty_fix_delta_hash)
            FailedRetained]
       else if correction_returns_early s then None
       else if \<not> correction_output s then validate_uncorrected s
       else validate_corrected s)]"

section \<open>A correction imported from an escalated predecessor\<close>

definition recovered_request_bound ::
  "compact_state \<Rightarrow> recovery_provenance \<Rightarrow> targeted_request \<Rightarrow> snapshot \<Rightarrow> bool" where
  "recovered_request_bound s r q snap \<longleftrightarrow>
     validate_targeted_request q = None \<and> tq_lineage q = rc_predecessor r \<and>
     tq_revision q = rc_revision r \<and> tq_candidate q = sn_candidate snap \<and>
     tq_correction_target q = sn_identity snap \<and> elems (tq_paths q) = elems (sn_paths snap) \<and>
     tq_paths_digest q = sn_paths_digest snap \<and> elems (tq_fix_ids q) = elems (cs_fix_ids s)"

definition validate_recovered_correction ::
  "compact_state \<Rightarrow> recovery_provenance \<Rightarrow> recovered_evidence \<Rightarrow> correction_error option" where
  "validate_recovered_correction s r v =
     (let a = rv_attempt v; snap = ca_snapshot a in first_err
        [guard (rv_schema v \<noteq> ''gentle-ai.review-recovered-evidence/v1'' \<or>
                rv_relation v \<noteq> ''changed-scope'' \<or> rv_path_relation v \<noteq> ''same'' \<or>
                rv_target v \<noteq> sn_identity (cs_initial s) \<or> \<not> valid_sha256 (rv_review_hash v) \<or>
                rv_native_lines v \<le> 0) RecoveredBinding,
         guard (cs_state s \<noteq> Validating \<and> cs_state s \<noteq> Approved \<and> cs_state s \<noteq> Escalated \<or>
                \<not> snapshots_equal (cs_current s) (cs_initial s) \<or> elems (cs_attempts s) \<noteq> [] \<or>
                cs_cumulative s \<noteq> 0 \<or> cs_proposed s \<noteq> Some (ca_proposed a) \<or>
                cs_actual s \<noteq> Some (rv_native_lines v) \<or> elems (cs_fix_ids s) = []) RecoveredShape,
         guard (ca_proposed a \<le> 0 \<or> ca_actual a \<le> rv_native_lines v \<or>
                rv_native_lines v > ca_proposed a \<or> sn_kind snap \<noteq> FixDiff \<or>
                sn_candidate snap \<noteq> sn_candidate (cs_initial s) \<or>
                sn_projection snap \<noteq> sn_projection (cs_initial s) \<or>
                elems (sn_ledger_ids snap) \<noteq> elems (cs_fix_ids s) \<or>
                paths_are_subset (elems (sn_paths snap)) (elems (cs_genesis s)) \<noteq> None \<or>
                ca_fix_delta a \<noteq> fix_delta_hash snap \<or> cs_fix_delta s \<noteq> ca_fix_delta a \<or>
                cs_original_check s \<noteq> Some (ca_original a) \<or>
                cs_regression_check s \<noteq> Some (ca_regression a) \<or>
                \<not> vc_passed (ca_original a) \<or> \<not> vc_passed (ca_regression a)) RecoveredAttempt,
         map_option InCorrection (validate_compact_snapshot snap),
         map_option InCorrection (validate_snapshot_metadata snap),
         guard (validate_targeted_validation (ca_original a) (ca_regression a)
                  (ca_request_hash a) (ca_target a) (ca_fix_delta a) \<noteq> None \<or>
                ca_target a \<noteq> [] \<and> ca_target a \<noteq> sn_identity snap) RecoveredValidator,
         guard (\<not> recovered_request_bound s r (rv_request v) snap) RecoveredRequest,
         guard (compact_review_evidence_hash s \<noteq> rv_review_hash v) RecoveredReview,
         guard (cs_state s = Validating \<and> cs_evidence s \<noteq> [] \<or>
                (cs_state s = Approved \<or> cs_state s = Escalated) \<and> \<not> valid_sha256 (cs_evidence s))
           RecoveredEvidence])"

definition recovered_from :: "compact_state \<Rightarrow> (recovery_provenance \<times> recovered_evidence) option" where
  "recovered_from s =
     (case cs_recovery s of None \<Rightarrow> None
      | Some r \<Rightarrow> map_option (\<lambda>v. (r, v)) (rc_evidence r))"

definition validate_compact_correction :: "compact_state \<Rightarrow> correction_error option" where
  "validate_compact_correction s =
     (case recovered_from s of
        Some (r, v) \<Rightarrow> validate_recovered_correction s r v
      | None \<Rightarrow> validate_ordinary_correction s)"

section \<open>The data each state may hold\<close>

definition compact_pristine_reviewing :: "compact_state \<Rightarrow> bool" where
  "compact_pristine_reviewing s \<longleftrightarrow>
     cs_state s = Reviewing \<and> elems (cs_dispositions s) = [] \<and>
     snapshots_equal (cs_current s) (cs_initial s) \<and> elems (cs_results s) = [] \<and>
     elems (cs_findings s) = [] \<and> map_len (cs_classifications s) = 0 \<and>
     map_len (cs_outcomes s) = 0 \<and> elems (cs_fix_ids s) = [] \<and> elems (cs_follow_ups s) = [] \<and>
     cs_proposed s = None \<and> cs_actual s = None \<and> cs_fix_delta s = empty_fix_delta_hash \<and>
     cs_original_check s = None \<and> cs_regression_check s = None \<and> cs_evidence s = [] \<and>
     cs_invalidation s = [] \<and> elems (cs_attempts s) = [] \<and> cs_cumulative s = 0"

fun validate_state_data :: "review_state \<Rightarrow> compact_state \<Rightarrow> correction_error option" where
  "validate_state_data Reviewing s = first_err
     [guard (elems (cs_findings s) \<noteq> [] \<or> map_len (cs_classifications s) \<noteq> 0 \<or>
             map_len (cs_outcomes s) \<noteq> 0 \<or> elems (cs_fix_ids s) \<noteq> [] \<or> cs_proposed s \<noteq> None \<or>
             cs_actual s \<noteq> None \<or> cs_evidence s \<noteq> []) ReviewingData,
      guard (cs_invalidation s \<noteq> []) ReviewingReason]"
| "validate_state_data Invalidated s =
     guard (blank (cs_invalidation s) \<or>
            \<not> compact_pristine_reviewing (s\<lparr>cs_state := Reviewing, cs_invalidation := []\<rparr>))
       InvalidatedNotPristine"
| "validate_state_data CorrectionRequired s =
     guard (length (elems (cs_results s)) \<noteq> length (elems (cs_lenses s)) \<or>
            elems (cs_fix_ids s) = [] \<or> cs_evidence s \<noteq> []) CorrectionIncomplete"
| "validate_state_data Validating s =
     guard (length (elems (cs_results s)) \<noteq> length (elems (cs_lenses s)) \<or> cs_evidence s \<noteq> [])
       ValidatingIncomplete"
| "validate_state_data Approved s = guard (\<not> valid_sha256 (cs_evidence s)) ApprovedNoEvidence"
| "validate_state_data Escalated s = None"
| "validate_state_data _ s = Some UnknownState"

section \<open>Validate\<close>

definition validate_header :: "compact_state \<Rightarrow> compact_error option" where
  \<comment> \<open>identity, recovery provenance, dispositions and reopens\<close>
  "validate_header s = first_err
     [guard (cs_schema s \<noteq> compact_schema) BadSchema,
      map_option Shared (validate_lineage_id (cs_lineage s)),
      guard (cs_generation s < 1) Generation,
      (case cs_recovery s of None \<Rightarrow> None | Some r \<Rightarrow> validate_recovery s r),
      validate_dispositions s,
      validate_reopens s,
      guard (cs_state s \<noteq> Invalidated \<and> cs_invalidation_evidence s \<noteq> None)
        EvidenceNotInvalidated]"

fun validate_results :: "string list \<Rightarrow> lens_result list \<Rightarrow> bool" where
  \<comment> \<open>every result is its own canonical form and stands at its lens's place\<close>
  "validate_results lenses [] = True"
| "validate_results [] (r # rs) = False"
| "validate_results (l # ls) (r # rs) =
     (canonical_compact_lens_result r = Inr r \<and> lr_lens r = l \<and> validate_results ls rs)"

definition validate_scope :: "compact_state \<Rightarrow> compact_error option" where
  "validate_scope s = first_err
     [map_option Shared (validate_compact_snapshot (cs_initial s)),
      map_option Shared (validate_compact_snapshot (cs_current s)),
      map_option Shared (validate_snapshot_metadata (cs_initial s)),
      map_option Shared (validate_snapshot_metadata (cs_current s)),
      guard (sn_projection (cs_current s) \<noteq> sn_projection (cs_initial s)) ProjectionChanged,
      guard (sn_base (cs_current s) \<noteq> sn_base (cs_initial s) \<and> sn_kind (cs_current s) \<noteq> FixDiff)
        BaseChanged,
      guard (\<not> is_canonical_paths (elems (cs_genesis s)) \<or>
             elems (cs_genesis s) \<noteq> elems (sn_paths (cs_initial s))) GenesisPaths,
      map_option PathScope
        (paths_are_subset (elems (sn_paths (cs_current s))) (elems (cs_genesis s))),
      guard (\<not> valid_sha256 (cs_policy s) \<or> \<not> valid_sha256 (cs_fix_delta s)) CoreHashes,
      guard (validate_selected_lenses OrdinaryBounded (cs_risk s) (elems (cs_lenses s)) \<noteq>
             Inr (elems (cs_lenses s))) SelectedLenses,
      guard (correction_budget (cs_original_lines s) \<noteq> Inr (cs_budget s)) BudgetMismatch,
      guard (cs_results s = None \<or> cs_findings s = None \<or> cs_classifications s = None \<or>
             cs_outcomes s = None \<or> cs_fix_ids s = None \<or> cs_follow_ups s = None) NilCollections,
      guard (length (elems (cs_results s)) > length (elems (cs_lenses s))) TooManyResults,
      guard (\<not> validate_results (elems (cs_lenses s)) (elems (cs_results s))) ResultsNotCanonical,
      validate_compact_findings s]"

definition validate_body :: "compact_state \<Rightarrow> correction_error option" where
  "validate_body s = first_err
     [map_option InState (validate_scope s),
      (case cs_proposed s of None \<Rightarrow> None | Some p \<Rightarrow> first_err
         [guard (p \<le> 0) ForecastPositive,
          guard (p > cs_budget s \<and> (cs_state s \<noteq> Escalated \<or> cs_actual s \<noteq> None))
            ForecastOverBudget]),
      (case cs_actual s of None \<Rightarrow> None
       | Some a \<Rightarrow> guard (a < 0 \<or> a > cs_budget s \<and> cs_state s \<noteq> Escalated) ActualBounds),
      validate_compact_correction s,
      validate_state_data (cs_state s) s]"

definition approved_before_invalidation :: "compact_state \<Rightarrow> compact_state" where
  "approved_before_invalidation s =
     s\<lparr>cs_state := Approved, cs_invalidation := [], cs_invalidation_evidence := None\<rparr>"

definition invalidation_bound :: "compact_state \<Rightarrow> invalidation_evidence \<Rightarrow> bool" where
  "invalidation_bound s e \<longleftrightarrow>
     gate_context_survives (ie_context e) \<and> ie_gate e = gc_gate (ie_context e) \<and>
     ie_reason e = cs_invalidation s \<and> gc_lineage (ie_context e) = cs_lineage s \<and>
     gc_generation (ie_context e) = cs_generation s"

definition validate_plain :: "compact_state \<Rightarrow> correction_error option" where
  \<comment> \<open>the validator on a state that carries no approved-invalidation evidence\<close>
  "validate_plain s = first_err [map_option InState (validate_header s), validate_body s]"

definition invalidated_approved :: "compact_state \<Rightarrow> invalidation_evidence option" where
  "invalidated_approved s =
     (if cs_state s = Invalidated \<and> \<not> blank (cs_invalidation s)
      then cs_invalidation_evidence s else None)"

definition compact_validate :: "compact_state \<Rightarrow> correction_error option" where
  "compact_validate s =
     (case invalidated_approved s of
        None \<Rightarrow> validate_plain s
      | Some e \<Rightarrow>
        (let approved = approved_before_invalidation s in first_err
          [map_option InState (validate_header s),
           guard (\<not> invalidation_bound s e) (InState InvalidationEvidenceBad),
           guard (validate_plain approved \<noteq> None \<or>
                  gc_store_revision (ie_context e) \<noteq> compact_revision approved)
             (InState InvalidationEvidenceBad)]))"

end
