(* ===== verification/CompactOps.thy ===== *)
theory CompactOps
  imports CompactCorrection
begin

text \<open>
  The operations of compact.go on a \<^verbatim>\<open>*CompactState\<close>: construction, review completion,
  invalidation, the bounded correction and the final verification, with the receipt they end in.
  A method with a pointer receiver is a function from the state to the state it leaves behind and
  the error it returns, so a write made before a failure is visible.
\<close>

datatype op_error = OpRefused string | WrongState review_state | StartRejected check_error |
    UnavailableInspection nat | LensRejected nat check_error | DuplicateEvidence string | BadEvidence string
    | BadRefuter string | MissingRefuter string | BadRefuterOutcome string | BadItemClass string |
    ScopeEscape canon_error | ValidationRejected check_error | StateInvalid correction_error

abbreviation NotOrdinaryBounded :: op_error where "NotOrdinaryBounded \<equiv> OpRefused ''not ordinary bounded''"
abbreviation NoChangedLines :: op_error where "NoChangedLines \<equiv> OpRefused ''no changed lines''"
abbreviation BadGeneration :: op_error where "BadGeneration \<equiv> OpRefused ''bad generation''"
abbreviation BadPolicyHash :: op_error where "BadPolicyHash \<equiv> OpRefused ''bad policy hash''"
abbreviation ResultCount :: op_error where "ResultCount \<equiv> OpRefused ''result count''"
abbreviation UncoveredSevere :: op_error where "UncoveredSevere \<equiv> OpRefused ''uncovered severe''"
abbreviation NilMap :: op_error where "NilMap \<equiv> OpRefused ''nil map''"
abbreviation NoReason :: op_error where "NoReason \<equiv> OpRefused ''no reason''"
abbreviation NotPristine :: op_error where "NotPristine \<equiv> OpRefused ''not pristine''"
abbreviation NotInvalidatedResult :: op_error where "NotInvalidatedResult \<equiv> OpRefused ''not invalidated result''"
abbreviation CorrectionConsumed :: op_error where "CorrectionConsumed \<equiv> OpRefused ''correction consumed''"
abbreviation NoForecast :: op_error where "NoForecast \<equiv> OpRefused ''no forecast''"
abbreviation SnapshotUnbound :: op_error where "SnapshotUnbound \<equiv> OpRefused ''snapshot unbound''"
abbreviation UnchangedCandidate :: op_error where "UnchangedCandidate \<equiv> OpRefused ''unchanged candidate''"
abbreviation NegativeActual :: op_error where "NegativeActual \<equiv> OpRefused ''negative actual''"
abbreviation ValidationScope :: op_error where "ValidationScope \<equiv> OpRefused ''validation scope''"
abbreviation ValidationUnbound :: op_error where "ValidationUnbound \<equiv> OpRefused ''validation unbound''"
abbreviation NoEvidence :: op_error where "NoEvidence \<equiv> OpRefused ''no evidence''"
abbreviation NotTerminal :: op_error where "NotTerminal \<equiv> OpRefused ''not terminal''"
abbreviation ReceiptBad :: op_error where "ReceiptBad \<equiv> OpRefused ''receipt bad''"

type_synonym compact_step = "compact_state \<times> op_error option"

definition op_ok :: "'s \<times> 'e option \<Rightarrow> bool" where
  "op_ok r \<longleftrightarrow> snd r = None"

definition revalidated :: "compact_state \<Rightarrow> compact_step" where
  \<comment> \<open>\<^verbatim>\<open>return state.Validate()\<close>\<close>
  "revalidated s = (s, map_option StateInvalid (compact_validate s))"

lemma revalidated_ok [simp]: "revalidated s = (t, None) \<longleftrightarrow> t = s \<and> compact_validate s = None"
  by (auto simp: revalidated_def)

section \<open>NewCompactState\<close>

definition fresh_compact_state :: "start \<Rightarrow> string list \<Rightarrow> int \<Rightarrow> int \<Rightarrow> compact_state" where
  "fresh_compact_state st lenses lines budget =
     \<lparr>cs_schema = compact_schema, cs_lineage = st_lineage st, cs_generation = st_generation st,
      cs_state = Reviewing, cs_initial = st_snapshot st, cs_current = st_snapshot st,
      cs_genesis = append_slice None (elems (sn_paths (st_snapshot st))), cs_policy = st_policy st,
      cs_risk = st_risk st, cs_lenses = Some lenses, cs_original_lines = lines, cs_budget = budget,
      cs_results = Some [], cs_findings = Some [], cs_classifications = Some fmempty,
      cs_outcomes = Some fmempty, cs_fix_ids = Some [], cs_follow_ups = Some [],
      cs_proposed = None, cs_actual = None, cs_fix_delta = empty_fix_delta_hash,
      cs_original_check = None, cs_regression_check = None, cs_evidence = [],
      cs_invalidation = [], cs_invalidation_evidence = None, cs_recovery = None,
      cs_attempts = None, cs_cumulative = 0, cs_dispositions = None, cs_reopens = None\<rparr>"

definition new_compact_state :: "start \<Rightarrow> op_error + compact_state" where
  "new_compact_state st =
     (if st_mode st \<noteq> OrdinaryBounded then Inl NotOrdinaryBounded
      else case st_original_lines st of None \<Rightarrow> Inl NoChangedLines
      | Some lines \<Rightarrow>
        (case validate_lineage_id (st_lineage st) of Some e \<Rightarrow> Inl (StartRejected e)
         | None \<Rightarrow>
           if st_generation st < 1 then Inl BadGeneration
           else case validate_compact_snapshot (st_snapshot st) of
             Some e \<Rightarrow> Inl (StartRejected e)
           | None \<Rightarrow>
             if \<not> valid_sha256 (st_policy st) then Inl BadPolicyHash
             else case validate_selected_lenses (st_mode st) (st_risk st) (st_lenses st) of
               Inl e \<Rightarrow> Inl (StartRejected e)
             | Inr lenses \<Rightarrow>
               (case correction_budget lines of Inl e \<Rightarrow> Inl (StartRejected e)
                | Inr budget \<Rightarrow>
                  let s = fresh_compact_state st lenses lines budget in
                  case compact_validate s of Some e \<Rightarrow> Inl (StateInvalid e) | None \<Rightarrow> Inr s)))"

section \<open>CompleteReview\<close>

record review_input =
  ri_results :: "lens_result list"
  ri_classifications :: "finding_evidence list"
  ri_refuted :: "evidence_result list"

fun unavailable_result :: "nat \<Rightarrow> lens_result list \<Rightarrow> nat option" where
  \<comment> \<open>the first result whose evidence says the candidate was never inspected\<close>
  "unavailable_result i [] = None"
| "unavailable_result i (r # rs) =
     (if list_ex evidence_reports_unavailable (elems (lr_evidence r)) then Some i
      else unavailable_result (Suc i) rs)"

fun admit_results :: "nat \<Rightarrow> string list \<Rightarrow> lens_result list \<Rightarrow> compact_state \<Rightarrow> compact_step" where
  \<comment> \<open>canonicalise each result under its selected lens and append it with its findings\<close>
  "admit_results i (l # ls) (r # rs) s =
     (case canonical_compact_lens_result (r\<lparr>lr_lens := l\<rparr>) of
        Inl e \<Rightarrow> (s, Some (LensRejected i e))
      | Inr c \<Rightarrow> admit_results (Suc i) ls rs
          (s\<lparr>cs_results := append_slice (cs_results s) [c],
             cs_findings := append_slice (cs_findings s) (elems (lr_findings c))\<rparr>))"
| "admit_results i _ _ s = (s, None)"

definition severe_ids :: "finding list \<Rightarrow> string list" where
  \<comment> \<open>the keys of the severe map\<close>
  "severe_ids fs = remdups (map f_id (filter (\<lambda>f. is_severe (f_severity f)) fs))"

definition set_outcome :: "string \<Rightarrow> outcome \<Rightarrow> compact_state \<Rightarrow> compact_step" where
  \<comment> \<open>writing to a nil map panics\<close>
  "set_outcome fid out s =
     (case cs_outcomes s of None \<Rightarrow> (s, Some NilMap)
      | Some m \<Rightarrow> (s\<lparr>cs_outcomes := Some (fmupd fid out m)\<rparr>, None))"

fun mark_informational :: "finding list \<Rightarrow> compact_state \<Rightarrow> compact_step" where
  "mark_informational [] s = (s, None)"
| "mark_informational (f # fs) s =
     (if is_severe (f_severity f) then mark_informational fs s
      else case set_outcome (f_id f) Info s of
        (s', Some e) \<Rightarrow> (s', Some e)
      | (s', None) \<Rightarrow> mark_informational fs s')"

fun collect_classifications ::
  "string list \<Rightarrow> (string, finding_evidence) fmap \<Rightarrow> finding_evidence list \<Rightarrow>
   op_error + (string, finding_evidence) fmap" where
  "collect_classifications severe m [] = Inr m"
| "collect_classifications severe m (e # es) =
     (if fe_finding e |\<in>| fmdom m then Inl (DuplicateEvidence (fe_finding e))
      else if fe_finding e \<notin> set severe \<or> \<not> is_supported_causality (fe_causality e) \<or>
              \<not> is_concrete_evidence (fe_proof e)
        then Inl (BadEvidence (fe_finding e))
      else collect_classifications severe (fmupd (fe_finding e) e m) es)"

fun collect_refuted ::
  "(string, evidence_result) fmap \<Rightarrow> evidence_result list \<Rightarrow>
   op_error + (string, evidence_result) fmap" where
  "collect_refuted m [] = Inr m"
| "collect_refuted m (r # rs) =
     (if er_finding r |\<in>| fmdom m \<or> \<not> is_concrete_evidence (er_proof r)
      then Inl (BadRefuter (er_finding r))
      else collect_refuted (fmupd (er_finding r) r m) rs)"

definition located_item :: "string list \<Rightarrow> finding \<Rightarrow> finding_evidence \<Rightarrow> finding_evidence" where
  \<comment> \<open>a candidate cause cannot be claimed for a line outside the genesis paths\<close>
  "located_item genesis f e =
     (if candidate_causal (fe_causality e) \<and>
         \<not> finding_location_in_genesis (f_location f) genesis
      then e\<lparr>fe_causality := UnknownCause\<rparr> else e)"

definition route_item ::
  "(string, evidence_result) fmap \<Rightarrow> finding \<Rightarrow> finding_evidence \<Rightarrow> compact_state \<Rightarrow>
   compact_state \<times> op_error option \<times> bool" where
  \<comment> \<open>the loop body after the classification is recorded; the flag is \<^verbatim>\<open>escalate\<close>\<close>
  "route_item refuted f e s =
     (let fid = f_id f;
          settle = (\<lambda>out escalate s. case set_outcome fid out s of (t, err) \<Rightarrow> (t, err, escalate));
          to_fix = (\<lambda>out. case set_outcome fid out s of
             (t, Some err) \<Rightarrow> (t, Some err, False)
           | (t, None) \<Rightarrow> (t\<lparr>cs_fix_ids := append_slice (cs_fix_ids t) [fid]\<rparr>, None, False))
      in if fe_class e = Insufficient then settle Inconclusive True s
         else if fe_causality e = PreExisting \<or> fe_causality e = BaseOnly then
           (case set_outcome fid Info s of
              (t, Some err) \<Rightarrow> (t, Some err, False)
            | (t, None) \<Rightarrow>
               (t\<lparr>cs_follow_ups :=
                  append_slice (cs_follow_ups t) [causal_follow_up f (fe_proof e)]\<rparr>, None, False))
         else if fe_causality e = UnknownCause then settle Inconclusive True s
         else if fe_class e = Deterministic then to_fix Corroborated
         else if fe_class e = Inferential then
           (case fmlookup refuted fid of
              None \<Rightarrow> (s, Some (MissingRefuter fid), False)
            | Some r \<Rightarrow>
              (case er_outcome r of
                 Corroborated \<Rightarrow> to_fix Corroborated
               | Refuted \<Rightarrow> settle Refuted False s
               | Inconclusive \<Rightarrow> settle Inconclusive True s
               | _ \<Rightarrow> (s, Some (BadRefuterOutcome fid), False)))
         else (s, Some (BadItemClass fid), False))"

definition record_item ::
  "(string, evidence_result) fmap \<Rightarrow> finding \<Rightarrow> finding_evidence \<Rightarrow> compact_state \<Rightarrow>
   compact_state \<times> op_error option \<times> bool" where
  "record_item refuted f e0 s =
     (let e = located_item (elems (cs_genesis s)) f e0 in
      case cs_classifications s of
        None \<Rightarrow> (s, Some NilMap, False)
      | Some m \<Rightarrow> route_item refuted f e (s\<lparr>cs_classifications := Some (fmupd (f_id f) e m)\<rparr>))"

fun route_findings ::
  "(string, finding_evidence) fmap \<Rightarrow> (string, evidence_result) fmap \<Rightarrow> finding list \<Rightarrow> bool \<Rightarrow>
   compact_state \<Rightarrow> compact_state \<times> op_error option \<times> bool" where
  "route_findings class refuted [] escalate s = (s, None, escalate)"
| "route_findings class refuted (f # fs) escalate s =
     (case fmlookup class (f_id f) of
        None \<Rightarrow> route_findings class refuted fs escalate s
      | Some e \<Rightarrow>
        (case record_item refuted f e s of
           (t, Some err, _) \<Rightarrow> (t, Some err, escalate)
         | (t, None, esc) \<Rightarrow> route_findings class refuted fs (escalate \<or> esc) t))"

definition settle_review :: "bool \<Rightarrow> compact_state \<Rightarrow> compact_state" where
  "settle_review escalate s =
     (let t = s\<lparr>cs_fix_ids := map_option sort (cs_fix_ids s)\<rparr> in
      t\<lparr>cs_state := (if escalate then Escalated
                     else if elems (cs_fix_ids t) \<noteq> [] then CorrectionRequired
                     else Validating)\<rparr>)"

definition classify_and_route :: "review_input \<Rightarrow> compact_state \<Rightarrow> compact_step" where
  \<comment> \<open>the part of \<^verbatim>\<open>CompleteReview\<close> after the lens results are admitted\<close>
  "classify_and_route input s =
     (let severe = severe_ids (elems (cs_findings s)) in
      case mark_informational (elems (cs_findings s)) s of
        (s', Some e) \<Rightarrow> (s', Some e)
      | (s', None) \<Rightarrow>
        (case collect_classifications severe fmempty (ri_classifications input) of
           Inl e \<Rightarrow> (s', Some e)
         | Inr class \<Rightarrow>
           if fcard (fmdom class) \<noteq> length severe then (s', Some UncoveredSevere)
           else case collect_refuted fmempty (ri_refuted input) of
             Inl e \<Rightarrow> (s', Some e)
           | Inr refuted \<Rightarrow>
             (case route_findings class refuted (elems (cs_findings s')) False s' of
                (t, Some e, _) \<Rightarrow> (t, Some e)
              | (t, None, escalate) \<Rightarrow> revalidated (settle_review escalate t))))"

definition complete_review :: "review_input \<Rightarrow> compact_state \<Rightarrow> compact_step" where
  "complete_review input s =
     (if cs_state s \<noteq> Reviewing then (s, Some (WrongState (cs_state s)))
      else if length (ri_results input) \<noteq> length (elems (cs_lenses s)) then (s, Some ResultCount)
      else case unavailable_result 0 (ri_results input) of
        Some i \<Rightarrow> (s, Some (UnavailableInspection i))
      | None \<Rightarrow>
        (case admit_results 0 (elems (cs_lenses s)) (ri_results input)
                (s\<lparr>cs_results := Some [], cs_findings := Some []\<rparr>) of
           (s', Some e) \<Rightarrow> (s', Some e)
         | (s', None) \<Rightarrow> classify_and_route input s'))"

section \<open>Invalidate\<close>

definition invalidate :: "string \<Rightarrow> compact_state \<Rightarrow> compact_step" where
  "invalidate raw s =
     (let reason = trim_space raw in
      if reason = [] then (s, Some NoReason)
      else if \<not> compact_pristine_reviewing s then (s, Some NotPristine)
      else (s\<lparr>cs_state := Invalidated, cs_invalidation := reason\<rparr>, None))"

record gate_evaluation =
  ge_result :: gate_result
  ge_reason :: string
  ge_context :: gate_context

definition invalidate_approved :: "gate_evaluation \<Rightarrow> compact_state \<Rightarrow> compact_step" where
  "invalidate_approved ev s =
     (let reason = trim_space (ge_reason ev) in
      if reason = [] then (s, Some NoReason)
      else if ge_result ev \<noteq> GateInvalidated then (s, Some NotInvalidatedResult)
      else if cs_state s \<noteq> Approved then (s, Some (WrongState (cs_state s)))
      else revalidated
        (s\<lparr>cs_state := Invalidated, cs_invalidation := reason,
           cs_invalidation_evidence := Some
             \<lparr>ie_gate = gc_gate (ge_context ev), ie_reason = reason, ie_context = ge_context ev\<rparr>\<rparr>))"

section \<open>The bounded correction\<close>

definition correction_consumed :: "compact_state \<Rightarrow> bool" where
  "correction_consumed s \<longleftrightarrow> length (elems (cs_attempts s)) \<ge> max_compact_attempts"

definition begin_correction :: "int \<Rightarrow> compact_state \<Rightarrow> compact_step" where
  "begin_correction proposed s =
     (if correction_consumed s then (s, Some CorrectionConsumed)
      else if cs_state s \<noteq> CorrectionRequired \<or> cs_proposed s \<noteq> None
        then (s, Some (WrongState (cs_state s)))
      else if proposed \<le> 0 then (s, Some NoForecast)
      else let t = s\<lparr>cs_proposed := Some proposed\<rparr> in
        revalidated (if go_add (cs_cumulative t) proposed > cs_budget t
                     then t\<lparr>cs_state := Escalated\<rparr> else t))"

definition correction_attempt_of ::
  "snapshot \<Rightarrow> int \<Rightarrow> int \<Rightarrow> scoped_validation \<Rightarrow> correction_attempt" where
  "correction_attempt_of snap proposed actual v =
     \<lparr>ca_snapshot = snap, ca_proposed = proposed, ca_actual = actual,
      ca_fix_delta = fix_delta_hash snap, ca_original = sv_original v,
      ca_regression = sv_regression v, ca_request_hash = sv_request_hash v,
      ca_target = sv_target_identity v\<rparr>"

definition corrected_state ::
  "snapshot \<Rightarrow> int \<Rightarrow> int \<Rightarrow> scoped_validation \<Rightarrow> compact_state \<Rightarrow> compact_state" where
  "corrected_state snap proposed actual v s =
     (let t = s\<lparr>cs_attempts :=
                  append_slice (cs_attempts s) [correction_attempt_of snap proposed actual v],
                cs_cumulative := go_add (cs_cumulative s) actual, cs_current := snap,
                cs_follow_ups := append_slice (cs_follow_ups s) (elems (sv_follow_ups v)),
                cs_fix_delta := fix_delta_hash snap, cs_actual := Some actual,
                cs_original_check := Some (sv_original v),
                cs_regression_check := Some (sv_regression v)\<rparr>
      in t\<lparr>cs_state := (if cs_cumulative t > cs_budget t \<or> \<not> vc_passed (sv_original v) \<or>
                           \<not> vc_passed (sv_regression v) then Escalated else Validating)\<rparr>)"

definition complete_correction ::
  "snapshot \<Rightarrow> int \<Rightarrow> scoped_validation \<Rightarrow> compact_state \<Rightarrow> compact_step" where
  "complete_correction snap actual v s =
     (if correction_consumed s then (s, Some CorrectionConsumed)
      else case cs_proposed s of
        None \<Rightarrow> (s, Some (WrongState (cs_state s)))
      | Some proposed \<Rightarrow>
        if cs_state s \<noteq> CorrectionRequired then (s, Some (WrongState (cs_state s)))
        else if sn_kind snap \<noteq> FixDiff \<or> sn_projection snap \<noteq> sn_projection (cs_initial s) \<or>
                sn_base snap \<noteq> sn_candidate (cs_current s) \<or>
                elems (sn_ledger_ids snap) \<noteq> elems (cs_fix_ids s)
          then (s, Some SnapshotUnbound)
        else if sn_candidate snap = sn_base snap then (s, Some UnchangedCandidate)
        else case paths_are_subset (elems (sn_paths snap)) (elems (cs_genesis s)) of
          Some e \<Rightarrow> (s, Some (ScopeEscape e))
        | None \<Rightarrow>
          if actual < 0 then (s, Some NegativeActual)
          else if sv_ledger_ids v \<noteq> elems (cs_fix_ids s) \<or> elems (sv_fix_caused v) \<noteq> [] \<or>
                  sv_follow_ups v = None then (s, Some ValidationScope)
          else case validate_targeted_validation (sv_original v) (sv_regression v)
                      (sv_request_hash v) (sv_target_identity v) (fix_delta_hash snap) of
            Some e \<Rightarrow> (s, Some (ValidationRejected e))
          | None \<Rightarrow>
            if \<not> valid_sha256 (sv_request_hash v) \<or> sv_target_identity v \<noteq> sn_identity snap
              then (s, Some ValidationUnbound)
            else revalidated (corrected_state snap proposed actual v s))"

section \<open>Final verification\<close>

definition complete_verification :: "string \<Rightarrow> bool \<Rightarrow> compact_state \<Rightarrow> compact_step" where
  "complete_verification evidence approved s =
     (if cs_state s \<noteq> Validating then (s, Some (WrongState (cs_state s)))
      else if evidence = [] then (s, Some NoEvidence)
      else revalidated (s\<lparr>cs_evidence := identity_of evidence,
                          cs_state := (if approved then Approved else Escalated)\<rparr>))"

section \<open>Receipts\<close>

datatype terminal_state = TerminalApproved | TerminalEscalated | OtherTerminal string

record compact_receipt =
  cr_schema :: string
  cr_lineage :: string
  cr_projection :: projection
  cr_generation :: int
  cr_base :: string
  cr_initial :: string
  cr_final :: string
  cr_paths_digest :: string
  cr_fix_delta :: string
  cr_policy :: string
  cr_evidence :: string
  cr_risk :: risk_level
  cr_lenses :: "string slice"
  cr_resolved :: "string slice"
  cr_terminal :: terminal_state

definition compact_receipt_schema :: string where
  "compact_receipt_schema = ''gentle-ai.review-receipt/v2''"

definition validate_compact_receipt :: "compact_receipt \<Rightarrow> bool" where
  "validate_compact_receipt r \<longleftrightarrow>
     canonical_projection (cr_projection r) = Inr (cr_projection r) \<and>
     cr_schema r = compact_receipt_schema \<and> validate_lineage_id (cr_lineage r) = None \<and>
     cr_generation r \<ge> 1 \<and>
     list_all valid_git_tree [cr_base r, cr_initial r, cr_final r] \<and>
     list_all valid_sha256 [cr_paths_digest r, cr_fix_delta r, cr_policy r, cr_evidence r] \<and>
     \<not> isl (validate_selected_lenses OrdinaryBounded (cr_risk r) (elems (cr_lenses r))) \<and>
     is_canonical_strings (elems (cr_resolved r)) \<and>
     (cr_terminal r = TerminalApproved \<or> cr_terminal r = TerminalEscalated)"

definition terminal_of :: "review_state \<Rightarrow> terminal_state option" where
  "terminal_of st =
     (if st = Approved then Some TerminalApproved
      else if st = Escalated then Some TerminalEscalated else None)"

definition compact_receipt_of :: "compact_state \<Rightarrow> op_error + compact_receipt" where
  "compact_receipt_of s =
     (case terminal_of (cs_state s) of None \<Rightarrow> Inl NotTerminal
      | Some terminal \<Rightarrow>
        (let r = \<lparr>cr_schema = compact_receipt_schema, cr_lineage = cs_lineage s,
                  cr_projection = sn_projection (cs_initial s), cr_generation = cs_generation s,
                  cr_base = sn_base (cs_initial s), cr_initial = sn_candidate (cs_initial s),
                  cr_final = sn_candidate (cs_current s),
                  cr_paths_digest = sn_paths_digest (cs_initial s),
                  cr_fix_delta = cs_fix_delta s, cr_policy = cs_policy s,
                  cr_evidence = (if cs_evidence s = [] then empty_fix_delta_hash else cs_evidence s),
                  cr_risk = cs_risk s, cr_lenses = Some (elems (cs_lenses s)),
                  cr_resolved = append_slice None (elems (cs_fix_ids s)), cr_terminal = terminal\<rparr>
         in if validate_compact_receipt r then Inr r else Inl ReceiptBad))"

end
