(* ===== verification/CompactStore.thy ===== *)
theory CompactStore
  imports CompactOps
begin

text \<open>
  The compact authority store of compact_store.go: \<^verbatim>\<open>validateCompactSuccessor\<close>, the
  repository checks of \<^verbatim>\<open>validateCompactRepositoryEvidence\<close>, the compare-and-swap commit
  \<^verbatim>\<open>replaceContextGuarded\<close>, and the two audited transitions of compact_result_disposition.go
  and compact_result_reopen.go. The store holds at most one decoded record per lineage.
\<close>

section \<open>Equality up to nil slices\<close>

definition explicit :: "'a slice \<Rightarrow> 'a slice" where
  \<comment> \<open>a nil slice becomes the empty one\<close>
  "explicit s = Some (elems s)"

definition normalize_snapshot :: "snapshot \<Rightarrow> snapshot" where
  "normalize_snapshot s =
     s\<lparr>sn_intended := explicit (sn_intended s), sn_ledger_ids := explicit (sn_ledger_ids s),
       sn_paths := explicit (sn_paths s)\<rparr>"

definition normalize_result :: "lens_result \<Rightarrow> lens_result" where
  "normalize_result r =
     r\<lparr>lr_findings := explicit (lr_findings r), lr_evidence := explicit (lr_evidence r)\<rparr>"

definition normalize_compact_state :: "compact_state \<Rightarrow> compact_state" where
  "normalize_compact_state s =
     s\<lparr>cs_initial := normalize_snapshot (cs_initial s),
       cs_current := normalize_snapshot (cs_current s),
       cs_genesis := explicit (cs_genesis s), cs_lenses := explicit (cs_lenses s),
       cs_results := Some (map normalize_result (elems (cs_results s))),
       cs_findings := explicit (cs_findings s),
       cs_classifications := Some (entries (cs_classifications s)),
       cs_outcomes := Some (entries (cs_outcomes s)), cs_fix_ids := explicit (cs_fix_ids s),
       cs_follow_ups := explicit (cs_follow_ups s)\<rparr>"

definition compact_state_equal :: "compact_state \<Rightarrow> compact_state \<Rightarrow> bool" where
  "compact_state_equal a b \<longleftrightarrow> normalize_compact_state a = normalize_compact_state b"

lemma compact_state_equal_refl [simp]: "compact_state_equal s s"
  by (simp add: compact_state_equal_def)

section \<open>Successors\<close>

datatype operation =
    OpStart | OpInvalidate | OpCompleteReview | OpBeginFix | OpCompleteFix | OpDisposeResult
  | OpReopenResults | OpCompleteVerification | OpOther string

datatype successor_error =
    ImmutableScope | BadInvalidation | BadCompletion | CompletionTouched | AlreadyConsumed
  | BadCorrectionStart | StartTouched | BadCorrectionEnd | HistoryChanged | ReviewChanged
  | BadDisposal | DisposalCount | DisposalTouched | BadReopen | ReopenUnbound | ReopenTouched
  | BadVerification | VerificationTouched | UnsupportedOperation

definition same_scope :: "compact_state \<Rightarrow> compact_state \<Rightarrow> bool" where
  \<comment> \<open>what no transition may change\<close>
  "same_scope p n \<longleftrightarrow>
     cs_lineage p = cs_lineage n \<and> cs_generation p = cs_generation n \<and>
     snapshots_equal (cs_initial p) (cs_initial n) \<and> elems (cs_genesis p) = elems (cs_genesis n) \<and>
     cs_policy p = cs_policy n \<and> cs_risk p = cs_risk n \<and>
     elems (cs_lenses p) = elems (cs_lenses n) \<and> cs_original_lines p = cs_original_lines n \<and>
     cs_budget p = cs_budget n"

definition same_review_data :: "compact_state \<Rightarrow> compact_state \<Rightarrow> bool" where
  \<comment> \<open>\<^verbatim>\<open>reflectCompactReviewData\<close>\<close>
  "same_review_data p n \<longleftrightarrow>
     cs_results p = cs_results n \<and> cs_findings p = cs_findings n \<and>
     cs_classifications p = cs_classifications n \<and> cs_outcomes p = cs_outcomes n \<and>
     elems (cs_fix_ids p) = elems (cs_fix_ids n) \<and>
     length (elems (cs_follow_ups p)) \<le> length (elems (cs_follow_ups n)) \<and>
     (case cs_follow_ups n of
        None \<Rightarrow> cs_follow_ups p = None
      | Some us \<Rightarrow> cs_follow_ups p = Some (take (length (elems (cs_follow_ups p))) us))"

definition cleared_review :: "compact_state \<Rightarrow> compact_state" where
  \<comment> \<open>a reopened authority: reviewing again, with nothing frozen\<close>
  "cleared_review p =
     p\<lparr>cs_state := Reviewing, cs_results := Some [], cs_findings := Some [],
       cs_classifications := Some fmempty, cs_outcomes := Some fmempty, cs_fix_ids := Some [],
       cs_follow_ups := Some [], cs_proposed := None, cs_actual := None,
       cs_fix_delta := empty_fix_delta_hash, cs_original_check := None,
       cs_regression_check := None, cs_evidence := []\<rparr>"

definition one_more :: "'a slice \<Rightarrow> 'a slice \<Rightarrow> bool" where
  \<comment> \<open>one element longer, and the old ones are its prefix\<close>
  "one_more p n \<longleftrightarrow>
     length (elems n) = length (elems p) + 1 \<and>
     (elems p \<noteq> [] \<longrightarrow> elems p = take (length (elems p)) (elems n))"

definition successor_of_invalidate where
  "successor_of_invalidate p n =
     (case invalidate (cs_invalidation n) p of
        (expected, err) \<Rightarrow>
          guard (err \<noteq> None \<or> \<not> compact_state_equal expected n) BadInvalidation)"

definition successor_of_review where
  "successor_of_review p n = first_err
     [guard (cs_state p \<noteq> Reviewing \<or>
             cs_state n \<noteq> CorrectionRequired \<and> cs_state n \<noteq> Validating \<and> cs_state n \<noteq> Escalated)
        BadCompletion,
      guard (\<not> snapshots_equal (cs_current p) (cs_current n) \<or> cs_proposed n \<noteq> None \<or>
             cs_actual n \<noteq> None \<or> cs_fix_delta n \<noteq> empty_fix_delta_hash \<or>
             cs_original_check n \<noteq> None \<or> cs_evidence n \<noteq> []) CompletionTouched]"

definition successor_of_begin_fix where
  "successor_of_begin_fix p n = first_err
     [guard (correction_consumed p) AlreadyConsumed,
      guard (cs_state p \<noteq> CorrectionRequired \<or>
             cs_state n \<noteq> CorrectionRequired \<and> cs_state n \<noteq> Escalated \<or>
             cs_proposed p \<noteq> None \<or> cs_proposed n = None) BadCorrectionStart,
      guard (\<not> compact_state_equal (p\<lparr>cs_state := cs_state n, cs_proposed := cs_proposed n\<rparr>) n)
        StartTouched]"

definition successor_of_complete_fix where
  "successor_of_complete_fix p n = first_err
     [guard (correction_consumed p) AlreadyConsumed,
      guard (cs_state p \<noteq> CorrectionRequired \<or> cs_proposed p = None \<or>
             cs_state n \<noteq> Validating \<and> cs_state n \<noteq> CorrectionRequired \<and> cs_state n \<noteq> Escalated \<or>
             length (elems (cs_attempts n)) \<noteq> length (elems (cs_attempts p)) + 1) BadCorrectionEnd,
      guard (\<not> one_more (cs_attempts p) (cs_attempts n)) HistoryChanged,
      guard (\<not> same_review_data p n \<or> cs_evidence p \<noteq> cs_evidence n) ReviewChanged]"

definition successor_of_disposal where
  "successor_of_disposal p n = first_err
     [guard (cs_state p \<noteq> Reviewing \<or> cs_state n \<noteq> Escalated) BadDisposal,
      guard (length (elems (cs_dispositions n)) \<noteq> length (elems (cs_dispositions p)) + 1)
        DisposalCount,
      guard (\<not> compact_state_equal
               (p\<lparr>cs_state := Escalated, cs_dispositions := cs_dispositions n\<rparr>) n) DisposalTouched]"

definition successor_of_reopen where
  "successor_of_reopen revision p n = first_err
     [guard (cs_state p \<noteq> Validating \<or> cs_state n \<noteq> Reviewing \<or>
             \<not> one_more (cs_reopens p) (cs_reopens n)) BadReopen,
      (let r = last (elems (cs_reopens n)) in
       guard (ro_previous r \<noteq> revision \<or> ro_target r \<noteq> sn_identity (cs_initial p)) ReopenUnbound),
      guard (\<not> compact_state_equal ((cleared_review p)\<lparr>cs_reopens := cs_reopens n\<rparr>) n)
        ReopenTouched]"

definition successor_of_verification where
  "successor_of_verification p n = first_err
     [guard (cs_state p \<noteq> Validating \<or> cs_state n \<noteq> Approved \<and> cs_state n \<noteq> Escalated \<or>
             \<not> valid_sha256 (cs_evidence n)) BadVerification,
      guard (\<not> compact_state_equal (p\<lparr>cs_state := cs_state n, cs_evidence := cs_evidence n\<rparr>) n)
        VerificationTouched]"

fun validate_by_operation ::
  "string \<Rightarrow> compact_state \<Rightarrow> compact_state \<Rightarrow> operation \<Rightarrow> successor_error option" where
  "validate_by_operation revision p n OpInvalidate = successor_of_invalidate p n"
| "validate_by_operation revision p n OpCompleteReview = successor_of_review p n"
| "validate_by_operation revision p n OpBeginFix = successor_of_begin_fix p n"
| "validate_by_operation revision p n OpCompleteFix = successor_of_complete_fix p n"
| "validate_by_operation revision p n OpDisposeResult = successor_of_disposal p n"
| "validate_by_operation revision p n OpReopenResults = successor_of_reopen revision p n"
| "validate_by_operation revision p n OpCompleteVerification = successor_of_verification p n"
| "validate_by_operation revision p n OpStart = Some UnsupportedOperation"
| "validate_by_operation revision p n (OpOther s) = Some UnsupportedOperation"

definition validate_compact_successor ::
  "string \<Rightarrow> compact_state \<Rightarrow> compact_state \<Rightarrow> operation \<Rightarrow> successor_error option" where
  "validate_compact_successor revision p n op = first_err
     [guard (\<not> same_scope p n) ImmutableScope, validate_by_operation revision p n op]"

section \<open>What the repository says\<close>

text \<open>
  The commit asks git, through \<^verbatim>\<open>SnapshotBuilder\<close>, whether snapshots and line counts are derived
  from the repository. Those answers are the fields of this record.
\<close>

record repository =
  rp_root :: string
  rp_evidence_ok :: "snapshot \<Rightarrow> bool"
  rp_risk :: "snapshot \<Rightarrow> (risk_level \<times> int) option"
  rp_changed_lines :: "snapshot \<Rightarrow> int option"
  rp_location_changed :: "snapshot \<Rightarrow> string \<Rightarrow> causality \<Rightarrow> bool"
  rp_rebuilds :: "snapshot \<Rightarrow> bool"

datatype evidence_error =
    NotDerived | RiskMismatch | CorrectionNotDerived | SizeMismatch | UnchangedLine
  | ReopenWithoutPredecessor | ReopenUnauthorized | NotRebuilt

record compact_record =
  cp_revision :: string
  cp_state :: compact_state
  cp_historical :: bool \<comment> \<open>\<^verbatim>\<open>HistoricalCompat\<close>: loaded from a file of an older build\<close>

definition slot_entry :: "reopen_slot \<Rightarrow> string" where
  "slot_entry s =
     int_text (rs_order s) @ '':'' @ rs_lens s @ '':'' @ rs_artifact s @ '':'' @ rs_result s"

definition reopen_authorization ::
  "string \<Rightarrow> string \<Rightarrow> string \<Rightarrow> string \<Rightarrow> string \<Rightarrow> string \<Rightarrow> reopen_slot list \<Rightarrow>
   reopen_slot list \<Rightarrow> string" where
  \<comment> \<open>repository, lineage, revision, target, actor, reason, quarantined, retained\<close>
  "reopen_authorization repo lineage revision target actor reason quarantined retained =
     ''gentle-ai.review-result-reopen-authorization/v1'' @
     binding_line ''repository'' repo @ binding_line ''lineage'' lineage @
     binding_line ''revision'' revision @ binding_line ''target_identity'' target @
     binding_line ''quarantined'' (join_with '','' (map slot_entry quarantined)) @
     binding_line ''retained'' (join_with '','' (map slot_entry retained)) @
     binding_line ''actor'' (trim_space actor) @ binding_line ''reason'' (trim_space reason)"

definition finding_on_changed_line :: "repository \<Rightarrow> compact_state \<Rightarrow> finding \<Rightarrow> bool" where
  \<comment> \<open>a missing classification reads as the zero value, which claims no cause\<close>
  "finding_on_changed_line repo n f =
     (case fmlookup (entries (cs_classifications n)) (f_id f) of
        None \<Rightarrow> True
      | Some e \<Rightarrow> candidate_causal (fe_causality e) \<longrightarrow>
          rp_location_changed repo (cs_initial n) (f_location f) (fe_causality e))"

definition start_evidence :: "repository \<Rightarrow> compact_state \<Rightarrow> evidence_error option" where
  "start_evidence repo n = first_err
     [guard (\<not> rp_evidence_ok repo (cs_initial n)) NotDerived,
      guard (rp_risk repo (cs_initial n) \<noteq> Some (cs_risk n, cs_original_lines n)) RiskMismatch]"

definition reopen_evidence ::
  "repository \<Rightarrow> compact_record option \<Rightarrow> compact_state \<Rightarrow> evidence_error option" where
  "reopen_evidence repo current n =
     (case current of None \<Rightarrow> Some ReopenWithoutPredecessor
      | Some c \<Rightarrow>
        if length (elems (cs_reopens n)) \<noteq> length (elems (cs_reopens (cp_state c))) + 1
        then Some ReopenWithoutPredecessor
        else let r = last (elems (cs_reopens n)) in
          guard (ro_authorization r \<noteq>
            reopen_authorization (rp_root repo) (cs_lineage (cp_state c)) (cp_revision c)
              (sn_identity (cs_initial (cp_state c))) (ro_actor r) (ro_reason r)
              (elems (ro_quarantined r)) (elems (ro_retained r))) ReopenUnauthorized)"

definition validate_repository_evidence ::
  "repository \<Rightarrow> compact_record option \<Rightarrow> compact_state \<Rightarrow> operation \<Rightarrow> evidence_error option" where
  "validate_repository_evidence repo current n op = first_err
     [(if current = None then start_evidence repo n else None),
      (if op = OpCompleteFix then
         (let a = last (elems (cs_attempts n)) in first_err
            [guard (\<not> rp_evidence_ok repo (ca_snapshot a)) CorrectionNotDerived,
             guard (rp_changed_lines repo (ca_snapshot a) \<noteq> Some (ca_actual a)) SizeMismatch])
       else None),
      guard (op = OpCompleteReview \<and>
             \<not> list_all (finding_on_changed_line repo n) (elems (cs_findings n))) UnchangedLine,
      (if op = OpReopenResults then reopen_evidence repo current n else None),
      guard (op = OpInvalidate \<and> \<not> rp_rebuilds repo (cs_initial n)) NotRebuilt]"

section \<open>The commit\<close>

datatype store_error =
    OperationMissing | BadNext correction_error | WrongLineage | HistoricalReadOnly | StaleRevision | NotReviewing
  | StagedOverlay | NotSuccessor successor_error | NoEvidenceFor evidence_error | GuardRefused

record compact_store =
  ct_lineage :: string
  ct_repo :: "repository option"
  ct_record :: "compact_record option"

definition operation_blank :: "operation \<Rightarrow> bool" where
  "operation_blank op = (case op of OpOther s \<Rightarrow> blank s | _ \<Rightarrow> False)"

definition compact_record_of :: "compact_state \<Rightarrow> compact_record" where
  "compact_record_of s = \<lparr>cp_revision = compact_revision s, cp_state = s, cp_historical = False\<rparr>"

definition stored_revision :: "compact_store \<Rightarrow> string" where
  "stored_revision st = (case ct_record st of None \<Rightarrow> [] | Some c \<Rightarrow> cp_revision c)"

definition validate_first :: "compact_state \<Rightarrow> operation \<Rightarrow> store_error option" where
  "validate_first n op = first_err
     [guard (op \<noteq> OpStart \<or> cs_state n \<noteq> Reviewing) NotReviewing,
      guard (sn_kind (cs_initial n) = BaseWorkspaceOverlay \<and>
             sn_projection (cs_initial n) = Staged) StagedOverlay]"

definition validate_commit ::
  "compact_store \<Rightarrow> string \<Rightarrow> operation \<Rightarrow> compact_state \<Rightarrow> bool \<Rightarrow> store_error option" where
  \<comment> \<open>the checks between the compare-and-swap and the write; the flag is the guard's answer\<close>
  "validate_commit st expected op n guard_ok = first_err
     [guard (stored_revision st \<noteq> expected) StaleRevision,
      (case ct_record st of
         None \<Rightarrow> validate_first n op
       | Some c \<Rightarrow> map_option NotSuccessor
           (validate_compact_successor (cp_revision c) (cp_state c) n op)),
      (case ct_repo st of None \<Rightarrow> None
       | Some repo \<Rightarrow> map_option NoEvidenceFor
           (validate_repository_evidence repo (ct_record st) n op)),
      guard (\<not> guard_ok) GuardRefused]"

definition historical_store :: "compact_store \<Rightarrow> bool" where
  \<comment> \<open>the stored record is read-only\<close>
  "historical_store st = (case ct_record st of None \<Rightarrow> False | Some c \<Rightarrow> cp_historical c)"

definition already_stored :: "compact_store \<Rightarrow> compact_state \<Rightarrow> bool" where
  "already_stored st n =
     (case ct_record st of None \<Rightarrow> False
      | Some c \<Rightarrow> cp_revision c = compact_revision n \<and> compact_state_equal (cp_state c) n)"

definition replace ::
  "string \<Rightarrow> operation \<Rightarrow> compact_state \<Rightarrow> bool \<Rightarrow> compact_store \<Rightarrow>
   compact_store \<times> store_error option" where
  "replace expected op n guard_ok st =
     (case first_err [guard (operation_blank op) OperationMissing,
                      map_option BadNext (compact_validate n),
                      guard (ct_lineage st \<noteq> [] \<and> cs_lineage n \<noteq> ct_lineage st) WrongLineage,
                      guard (historical_store st) HistoricalReadOnly] of
        Some e \<Rightarrow> (st, Some e)
      | None \<Rightarrow>
        if already_stored st n then (st, None)
        else case validate_commit st expected op n guard_ok of
          Some e \<Rightarrow> (st, Some e)
        | None \<Rightarrow> (st\<lparr>ct_record := Some (compact_record_of n)\<rparr>, None))"

end
