(* ===== verification/ReviewLaws.thy ===== *)
theory ReviewLaws
  imports ReviewChecks
begin

text \<open>
  What the shared validators promise: canonical lens results are fixpoints of their own
  canonicalisation, identities are always well formed, a snapshot's hash preimage determines its
  fields, budgets stay within their cap, and a causal follow-up always passes the follow-up check.
\<close>

section \<open>Text that trimming leaves alone\<close>

definition solid_ends :: "string \<Rightarrow> bool" where
  \<comment> \<open>first and last byte are ASCII and above the blank\<close>
  "solid_ends s \<longleftrightarrow> s \<noteq> [] \<and> between 0x21 (hd s) 0x7F \<and> between 0x21 (last s) 0x7F"

lemma space_rune_ends:
  assumes "r \<in> set space_runes"
  shows "\<not> between 0x21 (hd r) 0x7F" "\<not> between 0x21 (last r) 0x7F"
  using assms by (auto simp: space_runes_def between_def byte_def)

lemma strip_one_solid:
  assumes "between 0x21 (hd s) 0x7F" and "s \<noteq> []"
    and "\<And>r. r \<in> set runes \<Longrightarrow> r \<noteq> [] \<and> \<not> between 0x21 (hd r) 0x7F"
  shows "strip_one runes s = None"
proof -
  have "\<not> prefix r s" if "r \<in> set runes" for r
    using assms(1,2) assms(3) [OF that] by (auto simp: prefix_def)
  then show ?thesis by (simp add: strip_one_None)
qed

lemma strip_spaces_solid:
  assumes "s \<noteq> []" "between 0x21 (hd s) 0x7F"
  shows "strip_one space_runes s = None"
  by (rule strip_one_solid [OF assms(2,1)]) (simp add: space_rune_ends space_runes_nonempty)

lemma strip_spaces_rev_solid:
  assumes "s \<noteq> []" "between 0x21 (last s) 0x7F"
  shows "strip_one (map rev space_runes) (rev s) = None"
proof (rule strip_one_solid)
  show "between 0x21 (hd (rev s)) 0x7F" "rev s \<noteq> []" using assms by (simp_all add: hd_rev)
  fix r assume "r \<in> set (map rev space_runes)"
  then obtain q where "r = rev q" "q \<in> set space_runes" by auto
  then show "r \<noteq> [] \<and> \<not> between 0x21 (hd r) 0x7F"
    by (simp add: hd_rev space_rune_ends space_runes_nonempty)
qed

lemma trim_solid [simp]:
  assumes "solid_ends s"
  shows "trim_space s = s"
proof -
  from assms have s: "s \<noteq> []" "between 0x21 (hd s) 0x7F" "between 0x21 (last s) 0x7F"
    by (simp_all add: solid_ends_def)
  have "trim_left s = s"
    unfolding trim_left_def by (rule strip_all_fixpoint, rule strip_spaces_solid [OF s(1,2)])
  moreover have "trim_right s = s"
    unfolding trim_right_def
    by (subst strip_all_fixpoint, rule strip_spaces_rev_solid [OF s(1,3)], simp)
  ultimately show ?thesis by (simp add: trim_space_def)
qed

lemma decimal_nonempty [simp]: "decimal n \<noteq> []"
  by (cases "n < 10") (simp_all add: decimal.simps [of n])

lemma last_decimal: "is_digit (last (decimal n))"
  by (rule decimal_digits [of _ n]) simp

lemma default_id_solid:
  assumes "lens \<in> set supported_lenses"
  shows "solid_ends (lens_id_prefix lens @ ''-'' @ pad3 n)"
proof -
  have "last (pad3 n) = last (decimal n)" "pad3 n \<noteq> []" by (simp_all add: pad3_def Let_def)
  moreover have "between 0x21 (last (decimal n)) 0x7F"
    using last_decimal [of n] by (auto simp: is_digit_def between_def)
  moreover have "lens_id_prefix lens \<noteq> [] \<and> hd (lens_id_prefix lens) = CHR ''R''"
    using assms by (auto simp: supported_lenses_def lens_id_prefix_def)
  ultimately show ?thesis
    by (auto simp: solid_ends_def between_def byte_def)
qed

lemma default_lens_solid:
  "lens \<in> set supported_lenses \<Longrightarrow> solid_ends (trim_prefix lens ''review-'')"
  by (auto simp: supported_lenses_def lens_defs trim_prefix_def solid_ends_def between_def byte_def)

lemma supported_lens_solid: "lens \<in> set supported_lenses \<Longrightarrow> solid_ends lens"
  by (auto simp: supported_lenses_def lens_defs solid_ends_def between_def byte_def)

lemma severity_fixpoint:
  "is_supported_severity s \<Longrightarrow> to_upper (trim_space s) = s"
  by (auto simp: is_supported_severity_def solid_ends_def between_def byte_def upper_byte_def
      is_lower_alpha_def)

section \<open>Canonical lens results\<close>

lemma validate_lens_finding_severity:
  "validate_lens_finding f b = None \<Longrightarrow> is_supported_severity (f_severity f)"
  by (auto simp: validate_lens_finding_def validate_structured_finding_def split: if_splits)

lemma validate_lens_finding_refs:
  "validate_lens_finding f b = None \<Longrightarrow>
     elems (f_proof_refs f) \<noteq> [] \<and> list_all is_concrete_evidence (elems (f_proof_refs f))"
  by (auto simp: validate_lens_finding_def validate_structured_finding_def split: if_splits)

lemma validate_lens_finding_id:
  "validate_lens_finding f b = None \<Longrightarrow> \<not> blank (f_id f)"
  by (auto simp: validate_lens_finding_def validate_structured_finding_def split: if_splits)

lemma canonical_finding_Inr:
  "canonical_finding lens b (i, raw) = Inr f \<longleftrightarrow>
     f = trim_finding lens i raw \<and>
     (f_class f = NoClass \<or> is_supported_class (f_class f)) \<and>
     (f_causality f = NoCausality \<or> is_supported_causality (f_causality f)) \<and>
     validate_lens_finding f b = None \<and> f_lens f = trim_prefix lens ''review-''"
proof -
  define g where "g = trim_finding lens i raw"
  have "canonical_finding lens b (i, raw) = Inr f \<longleftrightarrow> f = g \<and>
       (f_class g = NoClass \<or> is_supported_class (f_class g)) \<and>
       (f_causality g = NoCausality \<or> is_supported_causality (f_causality g)) \<and>
       validate_lens_finding g b = None \<and> f_lens g = trim_prefix lens ''review-''"
    unfolding canonical_finding_def Let_def prod.case g_def [symmetric]
    by (cases "validate_lens_finding g b") auto
  then show ?thesis unfolding g_def by metis
qed

lemma trim_finding_fixpoint:
  assumes "canonical_finding lens b (i, raw) = Inr f" and "lens \<in> set supported_lenses"
  shows "trim_finding lens j f = f"
proof -
  from assms(1) have f: "f = trim_finding lens i raw"
    and v: "validate_lens_finding f b = None" and l: "f_lens f = trim_prefix lens ''review-''"
    unfolding canonical_finding_Inr by blast+
  have id: "trim_space (f_id f) = f_id f"
    using f default_id_solid [OF assms(2)] by (simp add: trim_finding_def Let_def)
  moreover have "f_id f \<noteq> []"
    using validate_lens_finding_id [OF v] by auto
  moreover have "trim_space (f_lens f) = f_lens f"
    using l default_lens_solid [OF assms(2)] by simp
  moreover have "f_lens f \<noteq> []"
    using l default_lens_solid [OF assms(2)] by (auto simp: solid_ends_def)
  moreover have "to_upper (trim_space (f_severity f)) = f_severity f"
    using validate_lens_finding_severity [OF v] by (rule severity_fixpoint)
  moreover have "trim_space (f_location f) = f_location f" "trim_space (f_claim f) = f_claim f"
    using f by (simp_all add: trim_finding_def Let_def)
  moreover have "append_slice None (map trim_space (elems (f_proof_refs f))) = f_proof_refs f"
    using f by (simp add: trim_finding_def Let_def append_slice_def)
  ultimately show ?thesis by (simp add: trim_finding_def Let_def)
qed

lemma canonical_finding_fixpoint:
  assumes "canonical_finding lens b (i, raw) = Inr f" and "lens \<in> set supported_lenses"
  shows "canonical_finding lens b (j, f) = Inr f"
proof -
  from assms(1) have "(f_class f = NoClass \<or> is_supported_class (f_class f)) \<and>
     (f_causality f = NoCausality \<or> is_supported_causality (f_causality f)) \<and>
     validate_lens_finding f b = None \<and> f_lens f = trim_prefix lens ''review-''"
    unfolding canonical_finding_Inr by blast
  then show ?thesis
    unfolding canonical_finding_Inr using trim_finding_fixpoint [OF assms, of j] by simp
qed

lemma canonical_evidence_fixpoint:
  "canonical_evidence (i, raw) = Inr e \<Longrightarrow> canonical_evidence (j, e) = Inr e"
  by (auto simp: canonical_evidence_def Let_def split: if_splits)

lemma traverse_enumerate_fixpoint:
  assumes "traverse f (enumerate i xs) = Inr ys"
    and "\<And>i x y j. f (i, x) = Inr y \<Longrightarrow> f (j, y) = Inr y"
  shows "traverse f (enumerate j ys) = Inr ys"
  using assms(1)
proof (induction xs arbitrary: i j ys)
  case (Cons x xs)
  then obtain z zs where ys: "ys = z # zs" "f (i, x) = Inr z" "traverse f (enumerate (Suc i) xs) = Inr zs"
    by (auto split: sum.splits)
  from assms(2) [OF ys(2)] have "f (j, z) = Inr z" .
  with ys Cons.IH [OF ys(3)] show ?case by simp
qed simp

lemma traverse_enumerate_image:
  assumes "traverse f (enumerate i xs) = Inr ys" and "y \<in> set ys"
  shows "\<exists>j x. x \<in> set xs \<and> f (j, x) = Inr y"
proof -
  from traverse_image [OF assms] obtain p where p: "p \<in> set (enumerate i xs)" "f p = Inr y" by blast
  then have "snd p \<in> set xs" by (metis in_set_conv_nth length_map map_snd_enumerate nth_map length_enumerate)
  with p(2) show ?thesis by (metis prod.collapse)
qed

lemma canonical_lens_result_Inr:
  "canonical_lens_result raw b = Inr r \<longleftrightarrow>
     trim_space (lr_lens raw) \<in> set supported_lenses \<and> lr_findings raw \<noteq> None \<and>
     elems (lr_evidence raw) \<noteq> [] \<and>
     (\<exists>fs es. traverse (canonical_finding (trim_space (lr_lens raw)) b)
                (enumerate 0 (elems (lr_findings raw))) = Inr fs \<and>
        traverse canonical_evidence (enumerate 0 (elems (lr_evidence raw))) = Inr es \<and>
        (let c = raw\<lparr>lr_lens := trim_space (lr_lens raw), lr_findings := Some fs,
                      lr_evidence := Some es\<rparr>
         in (lr_hash raw = [] \<or> lr_hash raw = lens_result_hash c) \<and>
            r = c\<lparr>lr_hash := lens_result_hash c\<rparr>))"
proof -
  have "lr_evidence raw = None \<Longrightarrow> elems (lr_evidence raw) = []" by simp
  then show ?thesis
    unfolding canonical_lens_result_def Let_def by (auto split: sum.splits)
qed

lemma lens_result_hash_cong:
  "lr_lens r = lr_lens q \<Longrightarrow> lr_findings r = lr_findings q \<Longrightarrow> lr_evidence r = lr_evidence q \<Longrightarrow>
   lens_result_hash r = lens_result_hash q"
  by (simp add: lens_result_hash_def)

lemma canonical_lens_result_fixpoint:
  assumes "canonical_lens_result raw b = Inr r"
  shows "canonical_lens_result r b = Inr r"
proof -
  let ?lens = "trim_space (lr_lens raw)"
  from assms obtain fs es c where l: "?lens \<in> set supported_lenses"
    and fs: "traverse (canonical_finding ?lens b) (enumerate 0 (elems (lr_findings raw))) = Inr fs"
    and es: "traverse canonical_evidence (enumerate 0 (elems (lr_evidence raw))) = Inr es"
    and ne: "elems (lr_evidence raw) \<noteq> []"
    and c: "c = raw\<lparr>lr_lens := ?lens, lr_findings := Some fs, lr_evidence := Some es\<rparr>"
      "r = c\<lparr>lr_hash := lens_result_hash c\<rparr>"
    unfolding canonical_lens_result_Inr Let_def by blast
  have r: "lr_lens r = ?lens" "lr_findings r = Some fs" "lr_evidence r = Some es"
    by (simp_all add: c)
  have "lens_result_hash c = lens_result_hash r"
    by (rule lens_result_hash_cong) (simp_all add: c(2))
  then have h: "lr_hash r = lens_result_hash r" by (simp add: c(2))
  have "traverse (canonical_finding ?lens b) (enumerate 0 fs) = Inr fs"
    by (rule traverse_enumerate_fixpoint [OF fs]) (rule canonical_finding_fixpoint [OF _ l])
  moreover have "traverse canonical_evidence (enumerate 0 es) = Inr es"
    by (rule traverse_enumerate_fixpoint [OF es]) (rule canonical_evidence_fixpoint)
  moreover have "es \<noteq> []" using traverse_length [OF es] ne by (cases es) auto
  moreover obtain H where
    "r = \<lparr>lr_lens = ?lens, lr_findings = Some fs, lr_evidence = Some es, lr_hash = H\<rparr>"
    using r by (cases r) simp
  ultimately show ?thesis
    using l h by (simp add: canonical_lens_result_Inr lens_result_hash_def)
qed

lemma canonical_lens_result_findings:
  assumes "canonical_lens_result raw b = Inr r" and "f \<in> set (elems (lr_findings r))"
  shows "validate_lens_finding f b = None \<and> \<not> blank (f_id f)"
proof -
  from assms obtain fs where
    fs: "traverse (canonical_finding (trim_space (lr_lens raw)) b)
           (enumerate 0 (elems (lr_findings raw))) = Inr fs"
    and "elems (lr_findings r) = fs"
    by (auto simp: canonical_lens_result_Inr Let_def)
  with assms(2) obtain j x where "canonical_finding (trim_space (lr_lens raw)) b (j, x) = Inr f"
    using traverse_enumerate_image [OF fs] by blast
  then have "validate_lens_finding f b = None" unfolding canonical_finding_Inr by blast
  then show ?thesis using validate_lens_finding_id by blast
qed

lemma canonical_lens_result_Some:
  assumes "canonical_lens_result raw b = Inr r"
  shows "lr_lens r = trim_space (lr_lens raw) \<and> lr_lens r \<in> set supported_lenses \<and>
    lr_findings r \<noteq> None"
  using assms by (auto simp: canonical_lens_result_Inr Let_def)

section \<open>Lens selection and budget\<close>

lemma validate_selected_lenses_id:
  "validate_selected_lenses OrdinaryBounded risk lenses = Inr ls \<Longrightarrow> ls = lenses"
  by (auto simp: validate_selected_lenses_def Let_def split: option.splits if_splits)

lemma validate_selected_lenses_trim:
  assumes "validate_selected_lenses OrdinaryBounded risk lenses = Inr ls" and "l \<in> set ls"
  shows "l \<in> set supported_lenses \<and> trim_space l = l"
  using assms validate_selected_lenses_id [OF assms(1)]
  by (auto simp: validate_selected_lenses_def Let_def list_all_iff split: option.splits if_splits)

lemma correction_budget_bounds:
  "correction_budget n = Inr b \<Longrightarrow> 0 \<le> n \<and> 0 \<le> b \<and> b \<le> 200"
  by (auto simp: correction_budget_def max_correction_lines_def split: if_splits)

section \<open>Follow-ups\<close>

lemma causal_follow_up_valid:
  "\<not> blank (f_id f) \<Longrightarrow> validate_follow_ups [causal_follow_up f proof] = None"
  by (auto simp: validate_follow_ups_def causal_follow_up_def Let_def blank_def)

lemma validate_follow_ups_append:
  "validate_follow_ups (us @ ws) = None \<longleftrightarrow>
     validate_follow_ups us = None \<and> validate_follow_ups ws = None"
  by (auto simp: validate_follow_ups_def)

lemma validate_follow_ups_Nil [simp]: "validate_follow_ups [] = None"
  by (simp add: validate_follow_ups_def)

lemma has_follow_up_member: "u \<in> set us \<Longrightarrow> has_follow_up us u"
  by (auto simp: has_follow_up_def list_ex_iff)

lemma has_follow_up_append:
  "has_follow_up us u \<Longrightarrow> has_follow_up (us @ ws) u"
  by (simp add: has_follow_up_def)

section \<open>Identities\<close>

lemma fix_delta_hash_valid [simp]: "valid_sha256 (fix_delta_hash s)"
  by (simp add: fix_delta_hash_def)

lemma staged_not_a_tree: "\<not> valid_git_tree ''staged''"
  by (simp add: valid_git_tree_def)

end
