(* ===== verification/CompactRouting.thy ===== *)
theory CompactRouting
  imports CompactStore ReviewLaws
begin

text \<open>
  What validity of a compact state says state by state, and the fields each operation of
  compact.go leaves alone. The bundles \<open>valid_defs\<close> and \<open>op_defs\<close> open the validator and the
  operations; \<open>frame_simps\<close> collects the frame facts.

  What \<^verbatim>\<open>CompleteReview\<close> computes. Its loops write maps and append to slices one finding at a
  time; here each loop is a closed expression of its input: the canonical results, the decision
  taken for each severe finding, and the state \<open>routed_state\<close> they leave. With distinct finding
  ids that state passes the validator, so a review with complete evidence always completes.
\<close>

section \<open>Validity, opened\<close>

lemmas valid_defs = validate_plain_def validate_header_def validate_body_def validate_scope_def

lemma invalidated_approved_None [simp]:
  "cs_state s \<noteq> Invalidated \<Longrightarrow> invalidated_approved s = None"
  by (simp add: invalidated_approved_def)

lemma validate_not_invalidated:
  "cs_state s \<noteq> Invalidated \<Longrightarrow> compact_validate s = validate_plain s"
  by (simp add: compact_validate_def)

lemma plain_parts:
  "validate_plain s = None \<longleftrightarrow> validate_header s = None \<and> validate_body s = None"
  by (simp add: validate_plain_def)

lemma body_parts:
  "validate_body s = None \<longleftrightarrow> validate_scope s = None \<and>
     (\<forall>p. cs_proposed s = Some p \<longrightarrow> 0 < p \<and>
        (p \<le> cs_budget s \<or> cs_state s = Escalated \<and> cs_actual s = None)) \<and>
     (\<forall>a. cs_actual s = Some a \<longrightarrow> 0 \<le> a \<and> (a \<le> cs_budget s \<or> cs_state s = Escalated)) \<and>
     validate_compact_correction s = None \<and> validate_state_data (cs_state s) s = None"
  unfolding validate_body_def
  by (cases "cs_proposed s"; cases "cs_actual s") auto

lemma validate_header_evidence:
  "validate_header s = None \<Longrightarrow> cs_state s \<noteq> Invalidated \<Longrightarrow> cs_invalidation_evidence s = None"
  by (simp add: validate_header_def)

lemma validate_dispositions_state:
  "validate_dispositions s = None \<Longrightarrow> cs_state s \<noteq> Escalated \<Longrightarrow> elems (cs_dispositions s) = []"
  by (auto simp: validate_dispositions_def split: if_splits)

lemma header_dispositions:
  "validate_header s = None \<Longrightarrow> cs_state s \<noteq> Escalated \<Longrightarrow> elems (cs_dispositions s) = []"
  by (simp add: validate_header_def validate_dispositions_state)

lemma recovered_state:
  assumes "recovered_from s = Some (r, v)" "validate_compact_correction s = None"
  shows "cs_state s = Validating \<or> cs_state s = Approved \<or> cs_state s = Escalated"
  using assms by (auto simp: validate_compact_correction_def validate_recovered_correction_def Let_def)

lemma not_recovered:
  assumes "validate_compact_correction s = None"
    and "cs_state s \<noteq> Validating" "cs_state s \<noteq> Approved" "cs_state s \<noteq> Escalated"
  shows "recovered_from s = None"
  using assms recovered_state by (metis option.exhaust surj_pair)

lemma reviewing_uncorrected:
  assumes "validate_compact_correction s = None" "cs_state s = Reviewing"
  shows "\<not> correction_output s" "recovered_from s = None"
proof -
  show r: "recovered_from s = None" using not_recovered [OF assms(1)] assms(2) by simp
  show "\<not> correction_output s"
  proof
    assume o: "correction_output s"
    from assms r have "validate_ordinary_correction s = None"
      by (simp add: validate_compact_correction_def)
    with o assms(2) have "validate_corrected s = None"
      by (simp add: validate_ordinary_correction_def correction_returns_early_def)
    with assms(2) show False by (simp add: validate_corrected_def Let_def)
  qed
qed

lemma reviewing_valid:
  assumes "compact_validate s = None" "cs_state s = Reviewing"
  shows "elems (cs_findings s) = []" "entries (cs_classifications s) = fmempty"
    "entries (cs_outcomes s) = fmempty" "elems (cs_fix_ids s) = []" "cs_proposed s = None"
    "cs_actual s = None" "cs_evidence s = []" "cs_invalidation s = []"
    "cs_invalidation_evidence s = None" "elems (cs_dispositions s) = []"
    "cs_fix_delta s = empty_fix_delta_hash" "cs_original_check s = None"
    "cs_regression_check s = None" "snapshots_equal (cs_current s) (cs_initial s)"
    "recovered_from s = None"
proof -
  from assms have h: "validate_header s = None" and b: "validate_body s = None"
    by (simp_all add: validate_not_invalidated plain_parts)
  from b have c: "validate_compact_correction s = None"
    and d: "validate_state_data Reviewing s = None"
    using assms(2) by (simp_all add: body_parts)
  from d show "elems (cs_findings s) = []" "entries (cs_classifications s) = fmempty"
    "entries (cs_outcomes s) = fmempty" "elems (cs_fix_ids s) = []" "cs_proposed s = None"
    "cs_actual s = None" "cs_evidence s = []" "cs_invalidation s = []" by auto
  show "cs_invalidation_evidence s = None" "elems (cs_dispositions s) = []"
    using validate_header_evidence [OF h] header_dispositions [OF h] assms(2) by simp_all
  from reviewing_uncorrected [OF c assms(2)]
  show "cs_fix_delta s = empty_fix_delta_hash" "cs_original_check s = None"
    "cs_regression_check s = None" "snapshots_equal (cs_current s) (cs_initial s)"
    "recovered_from s = None"
    by (simp_all add: correction_output_def)
qed

lemma valid_state_kind:
  assumes "compact_validate s = None"
  shows "cs_state s \<in> {Reviewing, CorrectionRequired, Validating, Approved, Escalated, Invalidated}"
proof (cases "cs_state s = Invalidated")
  case False
  with assms have "validate_state_data (cs_state s) s = None"
    by (simp add: validate_not_invalidated plain_parts body_parts)
  then show ?thesis by (cases "cs_state s") simp_all
qed simp

section \<open>Frames\<close>

definition frozen_scope where
  \<comment> \<open>the fields fixed when the authority starts\<close>
  "frozen_scope s =
     (cs_schema s, cs_lineage s, cs_generation s, cs_initial s, cs_genesis s, cs_policy s,
      cs_risk s, cs_lenses s, cs_original_lines s, cs_budget s, cs_recovery s)"

lemma same_scope_frozen: "frozen_scope s = frozen_scope t \<Longrightarrow> same_scope s t"
  by (simp add: frozen_scope_def same_scope_def)

definition review_frame :: "compact_state \<Rightarrow> compact_state" where
  \<comment> \<open>everything a review completion must not touch\<close>
  "review_frame s =
     s\<lparr>cs_state := Reviewing, cs_results := None, cs_findings := None, cs_classifications := None,
       cs_outcomes := None, cs_fix_ids := None, cs_follow_ups := None\<rparr>"

lemma review_frame_fields:
  assumes "review_frame t = review_frame s"
  shows "frozen_scope t = frozen_scope s" "cs_current t = cs_current s" "cs_proposed t = cs_proposed s"
    "cs_actual t = cs_actual s" "cs_fix_delta t = cs_fix_delta s"
    "cs_original_check t = cs_original_check s" "cs_regression_check t = cs_regression_check s"
    "cs_evidence t = cs_evidence s" "cs_invalidation t = cs_invalidation s"
    "cs_invalidation_evidence t = cs_invalidation_evidence s" "cs_attempts t = cs_attempts s"
    "cs_cumulative t = cs_cumulative s" "cs_dispositions t = cs_dispositions s"
    "cs_reopens t = cs_reopens s"
  using assms by (cases s; cases t; simp add: review_frame_def frozen_scope_def)+

lemma admit_results_frame [frame_simps]:
  "review_frame (fst (admit_results i ls rs s)) = review_frame s \<and>
   cs_state (fst (admit_results i ls rs s)) = cs_state s"
  by (induction i ls rs s rule: admit_results.induct)
    (auto simp: review_frame_def split: sum.splits)

lemma set_outcome_frame [frame_simps]:
  "review_frame (fst (set_outcome fid out s)) = review_frame s"
  by (simp add: set_outcome_def review_frame_def split: option.splits)

lemma mark_informational_frame [frame_simps]:
  "review_frame (fst (mark_informational fs s)) = review_frame s"
proof (induction fs s rule: mark_informational.induct)
  case (2 f fs s)
  then show ?case
    using set_outcome_frame [of "f_id f" Info s] by (auto split: prod.splits option.splits)
qed simp

lemma route_item_frame [frame_simps]:
  "review_frame (fst (route_item refuted f e s)) = review_frame s"
  by (auto simp: route_item_def set_outcome_def review_frame_def Let_def
      split: option.splits outcome.splits prod.splits)

lemma record_item_frame [frame_simps]:
  "review_frame (fst (record_item refuted f e s)) = review_frame s"
  by (auto simp: record_item_def Let_def route_item_frame split: option.splits)
    (simp add: review_frame_def)

lemma route_findings_frame [frame_simps]:
  "review_frame (fst (route_findings cl refuted fs esc s)) = review_frame s"
proof (induction cl refuted fs esc s rule: route_findings.induct)
  case (2 cl refuted f fs escalate s)
  show ?case
  proof (cases "fmlookup cl (f_id f)")
    case None
    with 2(1) show ?thesis by simp
  next
    case (Some e)
    obtain t err esc where r: "record_item refuted f e s = (t, err, esc)" by (metis prod_cases3)
    have "review_frame t = review_frame s" using record_item_frame [of refuted f e s] r by simp
    with 2(2) [OF Some r [symmetric] refl] show ?thesis by (cases err) (simp_all add: Some r)
  qed
qed simp

section \<open>Writing a list of bindings into a map\<close>

definition put_all :: "(string \<times> 'v) list \<Rightarrow> (string, 'v) fmap \<Rightarrow> (string, 'v) fmap" where
  "put_all kvs m = fold (\<lambda>(k, v). fmupd k v) kvs m"

lemma put_all_Nil [simp]: "put_all [] m = m"
  by (simp add: put_all_def)

lemma put_all_Cons [simp]: "put_all ((k, v) # kvs) m = put_all kvs (fmupd k v m)"
  by (simp add: put_all_def)

lemma put_all_dom [simp]: "fset (fmdom (put_all kvs m)) = fset (fmdom m) \<union> fst ` set kvs"
proof (induction kvs arbitrary: m)
  case (Cons kv kvs) then show ?case by (cases kv) simp
qed simp

lemma put_all_other: "k \<notin> fst ` set kvs \<Longrightarrow> fmlookup (put_all kvs m) k = fmlookup m k"
  by (induction kvs arbitrary: m) auto

lemma put_all_member:
  "distinct (map fst kvs) \<Longrightarrow> (k, v) \<in> set kvs \<Longrightarrow> fmlookup (put_all kvs m) k = Some v"
  by (induction kvs arbitrary: m) (auto simp: put_all_other)

lemma fmap_card: "fcard (fmdom m) = card (fset (fmdom m))"
  by (simp add: fcard.rep_eq)

section \<open>Lens results\<close>

definition canonical_inputs :: "string list \<Rightarrow> lens_result list \<Rightarrow> check_error + lens_result list" where
  \<comment> \<open>every result canonicalised under the lens selected at its place\<close>
  "canonical_inputs lenses results =
     traverse (\<lambda>(l, r). canonical_compact_lens_result (r\<lparr>lr_lens := l\<rparr>)) (zip lenses results)"

definition all_findings :: "lens_result list \<Rightarrow> finding list" where
  "all_findings rs = concat (map (\<lambda>r. elems (lr_findings r)) rs)"

lemma unchanged_results:
  "cs_results s = Some a \<Longrightarrow> cs_findings s = Some b \<Longrightarrow>
   s\<lparr>cs_results := Some a, cs_findings := Some b\<rparr> = s"
  by (cases s) simp

lemma admit_results_Inr:
  assumes "cs_results s = Some a" "cs_findings s = Some b" "canonical_inputs ls rs = Inr cs"
  shows "admit_results i ls rs s =
    (s\<lparr>cs_results := Some (a @ cs), cs_findings := Some (b @ all_findings cs)\<rparr>, None)"
  using assms
proof (induction i ls rs s arbitrary: a b cs rule: admit_results.induct)
  case (1 i l ls r rs s)
  then obtain c ds where c: "canonical_compact_lens_result (r\<lparr>lr_lens := l\<rparr>) = Inr c"
    "canonical_inputs ls rs = Inr ds" "cs = c # ds"
    by (auto simp: canonical_inputs_def split: sum.splits)
  show ?case using 1(2,3) 1(1) [OF c(1) _ _ c(2)] by (simp add: c all_findings_def)
qed (simp_all add: canonical_inputs_def all_findings_def unchanged_results)

lemma admit_results_Inl:
  "canonical_inputs ls rs = Inl e \<Longrightarrow> snd (admit_results i ls rs s) \<noteq> None"
proof (induction i ls rs s rule: admit_results.induct)
  case (1 i l ls r rs s)
  then show ?case
    by (cases "canonical_compact_lens_result (r\<lparr>lr_lens := l\<rparr>)")
      (auto simp: canonical_inputs_def split: sum.splits)
qed (simp_all add: canonical_inputs_def)

lemma admit_results_ok:
  assumes "admit_results i ls rs (s\<lparr>cs_results := Some [], cs_findings := Some []\<rparr>) = (t, None)"
  obtains cs where "canonical_inputs ls rs = Inr cs"
    "t = s\<lparr>cs_results := Some cs, cs_findings := Some (all_findings cs)\<rparr>"
proof (cases "canonical_inputs ls rs")
  case (Inl e) with assms admit_results_Inl show thesis by (metis snd_conv)
next
  case (Inr cs)
  then have "t = s\<lparr>cs_results := Some cs, cs_findings := Some (all_findings cs)\<rparr>"
    using assms by (simp add: admit_results_Inr)
  with Inr show thesis by (rule that)
qed

lemma canonical_inputs_validate:
  assumes "canonical_inputs ls rs = Inr cs" "length ls = length rs"
    and "\<And>l. l \<in> set ls \<Longrightarrow> trim_space l = l"
  shows "validate_results ls cs \<and> length cs = length ls"
  using assms
proof (induction ls arbitrary: rs cs)
  case (Cons l ls)
  then obtain r rs' c ds where c: "rs = r # rs'" "cs = c # ds"
    "canonical_compact_lens_result (r\<lparr>lr_lens := l\<rparr>) = Inr c" "canonical_inputs ls rs' = Inr ds"
    by (cases rs) (auto simp: canonical_inputs_def split: sum.splits)
  have "lr_lens c = l" "canonical_compact_lens_result c = Inr c"
    using canonical_lens_result_Some [OF c(3) [unfolded canonical_compact_lens_result_def]]
      canonical_lens_result_fixpoint [OF c(3) [unfolded canonical_compact_lens_result_def]] Cons.prems(3)
    by (simp_all add: canonical_compact_lens_result_def)
  with Cons.IH [OF c(4)] Cons.prems(2,3) show ?case by (simp add: c)
qed (auto simp: canonical_inputs_def)

lemma canonical_inputs_findings:
  assumes "canonical_inputs ls rs = Inr cs" "f \<in> set (all_findings cs)"
  shows "validate_lens_finding f True = None \<and> \<not> blank (f_id f)"
proof -
  from assms(2) obtain c where c: "c \<in> set cs" "f \<in> set (elems (lr_findings c))"
    by (auto simp: all_findings_def)
  from traverse_image [OF assms(1) [unfolded canonical_inputs_def] c(1)]
  obtain p where "canonical_compact_lens_result ((snd p)\<lparr>lr_lens := fst p\<rparr>) = Inr c"
    by (auto simp: case_prod_beta)
  from canonical_lens_result_findings [OF this [unfolded canonical_compact_lens_result_def] c(2)]
  show ?thesis .
qed

section \<open>Informational findings\<close>

definition info_bindings :: "finding list \<Rightarrow> (string \<times> outcome) list" where
  "info_bindings fs = map (\<lambda>f. (f_id f, Info)) (filter (\<lambda>f. \<not> is_severe (f_severity f)) fs)"

lemma mark_informational_eq:
  "cs_outcomes s = Some m \<Longrightarrow>
   mark_informational fs s = (s\<lparr>cs_outcomes := Some (put_all (info_bindings fs) m)\<rparr>, None)"
proof (induction fs arbitrary: s m)
  case Nil then show ?case by (cases s) (simp add: info_bindings_def)
next
  case (Cons f fs)
  then show ?case by (simp add: info_bindings_def set_outcome_def)
qed

section \<open>Classifications and refuter outcomes\<close>

lemma collect_classifications_Inr:
  assumes "collect_classifications sev m es = Inr c"
  shows "\<And>k e. fmlookup c k = Some e \<longleftrightarrow> fmlookup m k = Some e \<or> e \<in> set es \<and> fe_finding e = k"
    and "\<And>e. e \<in> set es \<Longrightarrow> fe_finding e \<in> set sev \<and> is_supported_causality (fe_causality e) \<and>
           is_concrete_evidence (fe_proof e) \<and> fe_finding e |\<notin>| fmdom m"
    and "distinct (map fe_finding es)"
proof -
  have "(\<forall>k e. fmlookup c k = Some e \<longleftrightarrow> fmlookup m k = Some e \<or> e \<in> set es \<and> fe_finding e = k) \<and>
    (\<forall>e \<in> set es. fe_finding e \<in> set sev \<and> is_supported_causality (fe_causality e) \<and>
       is_concrete_evidence (fe_proof e) \<and> fe_finding e |\<notin>| fmdom m) \<and> distinct (map fe_finding es)"
    using assms
  proof (induction es arbitrary: m)
    case (Cons e es)
    from Cons.prems have h: "fe_finding e |\<notin>| fmdom m" "fe_finding e \<in> set sev"
      "is_supported_causality (fe_causality e)" "is_concrete_evidence (fe_proof e)"
      "collect_classifications sev (fmupd (fe_finding e) e m) es = Inr c"
      by (auto split: if_splits)
    note ih = Cons.IH [OF h(5)]
    from h(1) have "fmlookup m (fe_finding e) = None" by (simp add: fmdom_notD)
    with ih h(1-4) show ?case by (auto split: if_splits)
  qed simp
  then show "\<And>k e. fmlookup c k = Some e \<longleftrightarrow> fmlookup m k = Some e \<or> e \<in> set es \<and> fe_finding e = k"
    "\<And>e. e \<in> set es \<Longrightarrow> fe_finding e \<in> set sev \<and> is_supported_causality (fe_causality e) \<and>
           is_concrete_evidence (fe_proof e) \<and> fe_finding e |\<notin>| fmdom m"
    "distinct (map fe_finding es)" by blast+
qed

lemma collect_classifications_total:
  assumes "distinct (map fe_finding es)"
    and "\<And>e. e \<in> set es \<Longrightarrow> fe_finding e \<in> set sev \<and> is_supported_causality (fe_causality e) \<and>
           is_concrete_evidence (fe_proof e) \<and> fe_finding e |\<notin>| fmdom m"
  shows "\<exists>c. collect_classifications sev m es = Inr c"
  using assms
proof (induction es arbitrary: m)
  case (Cons e es)
  have "\<exists>c. collect_classifications sev (fmupd (fe_finding e) e m) es = Inr c"
    using Cons.prems by (intro Cons.IH) (auto simp: image_iff)
  then show ?case using Cons.prems(2) [of e] by simp
qed simp

lemma collect_refuted_Inr:
  assumes "collect_refuted m rs = Inr c"
  shows "\<And>k r. fmlookup c k = Some r \<longleftrightarrow> fmlookup m k = Some r \<or> r \<in> set rs \<and> er_finding r = k"
proof -
  have "(\<forall>k r. fmlookup c k = Some r \<longleftrightarrow> fmlookup m k = Some r \<or> r \<in> set rs \<and> er_finding r = k) \<and>
    (\<forall>r \<in> set rs. er_finding r |\<notin>| fmdom m)"
    using assms
  proof (induction rs arbitrary: m)
    case (Cons r rs)
    from Cons.prems have h: "er_finding r |\<notin>| fmdom m"
      "collect_refuted (fmupd (er_finding r) r m) rs = Inr c" by (auto split: if_splits)
    note ih = Cons.IH [OF h(2)]
    from h(1) have "fmlookup m (er_finding r) = None" by (simp add: fmdom_notD)
    with ih h(1) show ?case by (auto split: if_splits)
  qed simp
  then show "\<And>k r. fmlookup c k = Some r \<longleftrightarrow> fmlookup m k = Some r \<or> r \<in> set rs \<and> er_finding r = k"
    by blast
qed

lemma collect_refuted_total:
  assumes "distinct (map er_finding rs)"
    and "\<And>r. r \<in> set rs \<Longrightarrow> is_concrete_evidence (er_proof r) \<and> er_finding r |\<notin>| fmdom m"
  shows "\<exists>c. collect_refuted m rs = Inr c"
  using assms
proof (induction rs arbitrary: m)
  case (Cons r rs)
  have "\<exists>c. collect_refuted (fmupd (er_finding r) r m) rs = Inr c"
    using Cons.prems by (intro Cons.IH) (auto simp: image_iff)
  then show ?case using Cons.prems(2) [of r] by simp
qed simp

section \<open>The routing loop\<close>

definition decide ::
  "(string, evidence_result) fmap \<Rightarrow> finding \<Rightarrow> finding_evidence \<Rightarrow> (outcome \<times> route) option" where
  "decide refuted f e =
     (if fe_class e = Insufficient then Some (Inconclusive, RouteUnresolved)
      else if fe_causality e = PreExisting \<or> fe_causality e = BaseOnly then Some (Info, RouteInfo)
      else if fe_causality e = UnknownCause then Some (Inconclusive, RouteUnresolved)
      else if fe_class e = Deterministic then Some (Corroborated, RouteFix)
      else if fe_class e = Inferential then
        (case fmlookup refuted (f_id f) of None \<Rightarrow> None
         | Some r \<Rightarrow> (case er_outcome r of
              Corroborated \<Rightarrow> Some (Corroborated, RouteFix)
            | Refuted \<Rightarrow> Some (Refuted, RouteRefuted)
            | Inconclusive \<Rightarrow> Some (Inconclusive, RouteUnresolved)
            | _ \<Rightarrow> None))
      else None)"

definition decided where
  "decided refuted p = the (decide refuted (fst p) (snd p))"

definition routed_items ::
  "(string, finding_evidence) fmap \<Rightarrow> string list \<Rightarrow> finding list \<Rightarrow> (finding \<times> finding_evidence) list" where
  \<comment> \<open>the classified findings with the classification recorded for them\<close>
  "routed_items cl genesis fs =
     List.map_filter
       (\<lambda>f. map_option (\<lambda>e. (f, located_item genesis f e)) (fmlookup cl (f_id f))) fs"

definition routed_state ::
  "(string, evidence_result) fmap \<Rightarrow> (finding \<times> finding_evidence) list \<Rightarrow> compact_state \<Rightarrow> compact_state" where
  "routed_state refuted items s =
     s\<lparr>cs_classifications := Some (put_all (map (\<lambda>p. (f_id (fst p), snd p)) items)
         (entries (cs_classifications s))),
       cs_outcomes := Some (put_all (map (\<lambda>p. (f_id (fst p), fst (decided refuted p))) items)
         (entries (cs_outcomes s))),
       cs_fix_ids := append_slice (cs_fix_ids s)
         (map (\<lambda>p. f_id (fst p)) (filter (\<lambda>p. snd (decided refuted p) = RouteFix) items)),
       cs_follow_ups := append_slice (cs_follow_ups s)
         (map (\<lambda>p. causal_follow_up (fst p) (fe_proof (snd p)))
           (filter (\<lambda>p. snd (decided refuted p) = RouteInfo) items))\<rparr>"

lemma routed_state_Nil:
  "cs_classifications s = Some cm \<Longrightarrow> cs_outcomes s = Some om \<Longrightarrow> routed_state refuted [] s = s"
  by (cases s) (simp add: routed_state_def append_slice_def)

definition settled where
  \<comment> \<open>one decision written into the state\<close>
  "settled f e d om s =
     s\<lparr>cs_outcomes := Some (fmupd (f_id f) (fst d) om),
       cs_fix_ids := append_slice (cs_fix_ids s) (if snd d = RouteFix then [f_id f] else []),
       cs_follow_ups := append_slice (cs_follow_ups s)
         (if snd d = RouteInfo then [causal_follow_up f (fe_proof e)] else [])\<rparr>"

lemma append_slice_Nil [simp, slice_simps]: "append_slice s [] = s"
  by (simp add: append_slice_def)

lemmas settle_defs = route_item_def set_outcome_def settled_def

lemma decide_refuted:
  assumes "fe_class e = Inferential" "fe_causality e \<notin> {PreExisting, BaseOnly, UnknownCause}"
    and "decide refuted f e = Some d"
  obtains r where "fmlookup refuted (f_id f) = Some r"
    "(er_outcome r, d) \<in> {(Corroborated, (Corroborated, RouteFix)), (Refuted, (Refuted, RouteRefuted)),
       (Inconclusive, (Inconclusive, RouteUnresolved))}"
proof (cases "fmlookup refuted (f_id f)")
  case None with assms show thesis by (simp add: decide_def)
next
  case (Some r)
  with assms have "(er_outcome r, d) \<in> {(Corroborated, (Corroborated, RouteFix)),
      (Refuted, (Refuted, RouteRefuted)), (Inconclusive, (Inconclusive, RouteUnresolved))}"
    by (cases "er_outcome r") (simp_all add: decide_def)
  with Some show thesis by (rule that)
qed

lemma route_item_refuted:
  assumes "cs_outcomes s = Some om" "fe_class e = Inferential"
    and "fe_causality e \<notin> {PreExisting, BaseOnly, UnknownCause}" "decide refuted f e = Some d"
  shows "route_item refuted f e s = (settled f e d om s, None, snd d = RouteUnresolved)"
proof -
  obtain r where r: "fmlookup refuted (f_id f) = Some r"
    and d: "(er_outcome r, d) \<in> {(Corroborated, (Corroborated, RouteFix)),
      (Refuted, (Refuted, RouteRefuted)), (Inconclusive, (Inconclusive, RouteUnresolved))}"
    using assms(2-4) by (rule decide_refuted)
  from d consider "er_outcome r = Corroborated" "d = (Corroborated, RouteFix)"
    | "er_outcome r = Refuted" "d = (Refuted, RouteRefuted)"
    | "er_outcome r = Inconclusive" "d = (Inconclusive, RouteUnresolved)" by blast
  then show ?thesis
    by cases (use assms(1-3) r in \<open>simp_all add: settle_defs Let_def\<close>)
qed

lemma decide_cases:
  assumes "decide refuted f e = Some d"
  obtains "fe_class e = Insufficient" "d = (Inconclusive, RouteUnresolved)"
    | "fe_class e \<noteq> Insufficient" "fe_causality e = PreExisting \<or> fe_causality e = BaseOnly"
      "d = (Info, RouteInfo)"
    | "fe_class e \<noteq> Insufficient" "fe_causality e = UnknownCause" "d = (Inconclusive, RouteUnresolved)"
    | "fe_class e = Deterministic" "fe_causality e \<notin> {PreExisting, BaseOnly, UnknownCause}"
      "d = (Corroborated, RouteFix)"
    | "fe_class e = Inferential" "fe_causality e \<notin> {PreExisting, BaseOnly, UnknownCause}"
  using assms unfolding decide_def by (auto split: if_splits)

lemma route_item_decided:
  assumes "cs_outcomes s = Some om" and d: "decide refuted f e = Some d"
  shows "route_item refuted f e s = (settled f e d om s, None, snd d = RouteUnresolved)"
  using d
proof (cases rule: decide_cases)
  case 5 with assms show ?thesis by (intro route_item_refuted)
qed (use assms(1) in \<open>auto simp: settle_defs Let_def\<close>)

lemma record_item_decided:
  assumes "cs_classifications s = Some cm" "cs_outcomes s = Some om"
    and "decide refuted f (located_item (elems (cs_genesis s)) f e) = Some d"
  shows "record_item refuted f e s =
    (routed_state refuted [(f, located_item (elems (cs_genesis s)) f e)] s, None,
     snd d = RouteUnresolved)"
proof -
  define g where "g = located_item (elems (cs_genesis s)) f e"
  have d: "decide refuted f g = Some d" using assms(3) by (simp add: g_def)
  have "record_item refuted f e s =
      route_item refuted f g (s\<lparr>cs_classifications := Some (fmupd (f_id f) g cm)\<rparr>)"
    by (simp add: record_item_def Let_def g_def assms(1))
  also have "\<dots> = (settled f g d om (s\<lparr>cs_classifications := Some (fmupd (f_id f) g cm)\<rparr>), None,
      snd d = RouteUnresolved)"
    by (rule route_item_decided) (simp_all add: assms(2) d)
  also have "settled f g d om (s\<lparr>cs_classifications := Some (fmupd (f_id f) g cm)\<rparr>) =
      routed_state refuted [(f, g)] s"
    by (simp add: settled_def routed_state_def decided_def d assms(1,2))
  finally show ?thesis by (simp add: g_def)
qed

lemma record_item_undecided:
  assumes "cs_classifications s = Some cm" "cs_outcomes s = Some om"
    and "decide refuted f (located_item (elems (cs_genesis s)) f e) = None"
  shows "fst (snd (record_item refuted f e s)) \<noteq> None"
  using assms
  by (auto simp: record_item_def Let_def route_item_def decide_def
      split: if_splits option.splits outcome.splits)

lemma routed_items_Nil [simp]: "routed_items cl genesis [] = []"
  by (simp add: routed_items_def List.map_filter_def)

lemma routed_items_Cons:
  "routed_items cl genesis (f # fs) =
     (case fmlookup cl (f_id f) of None \<Rightarrow> routed_items cl genesis fs
      | Some e \<Rightarrow> (f, located_item genesis f e) # routed_items cl genesis fs)"
  by (simp add: routed_items_def List.map_filter_def split: option.splits)

lemma routed_state_Cons:
  "routed_state refuted items (routed_state refuted [p] s) = routed_state refuted (p # items) s"
  by (cases s) (simp add: routed_state_def append_slice_def)

lemma routed_state_fields [simp]:
  "cs_genesis (routed_state refuted items s) = cs_genesis s"
  "cs_classifications (routed_state refuted items s) \<noteq> None"
  "cs_outcomes (routed_state refuted items s) \<noteq> None"
  by (simp_all add: routed_state_def)

lemma route_findings_Some:
  assumes "cs_classifications s \<noteq> None" "cs_outcomes s \<noteq> None"
    and "\<And>p. p \<in> set (routed_items cl (elems (cs_genesis s)) fs) \<Longrightarrow>
           decide refuted (fst p) (snd p) \<noteq> None"
  shows "route_findings cl refuted fs esc s =
    (let items = routed_items cl (elems (cs_genesis s)) fs in
     (routed_state refuted items s, None,
      esc \<or> RouteUnresolved \<in> set (map (\<lambda>p. snd (decided refuted p)) items)))"
  using assms
proof (induction fs arbitrary: s esc)
  case Nil then show ?case by (auto simp: routed_state_Nil)
next
  case (Cons f fs)
  obtain cm om where m: "cs_classifications s = Some cm" "cs_outcomes s = Some om"
    using Cons.prems(1,2) by auto
  show ?case
  proof (cases "fmlookup cl (f_id f)")
    case None
    with Cons.IH [OF Cons.prems(1,2), of esc] Cons.prems(3) show ?thesis
      by (simp add: routed_items_Cons)
  next
    case (Some e)
    define g where "g = located_item (elems (cs_genesis s)) f e"
    have d: "decide refuted f g \<noteq> None" "\<And>p. p \<in> set (routed_items cl (elems (cs_genesis s)) fs) \<Longrightarrow>
           decide refuted (fst p) (snd p) \<noteq> None"
      using Cons.prems(3) by (auto simp: routed_items_Cons Some g_def)
    then obtain v where v: "decide refuted f g = Some v" by blast
    have r: "record_item refuted f e s = (routed_state refuted [(f, g)] s, None, snd v = RouteUnresolved)"
      using record_item_decided [OF m] v by (simp add: g_def)
    have ih: "route_findings cl refuted fs (esc \<or> snd v = RouteUnresolved) (routed_state refuted [(f, g)] s) =
      (let items = routed_items cl (elems (cs_genesis s)) fs in
       (routed_state refuted items (routed_state refuted [(f, g)] s), None,
        (esc \<or> snd v = RouteUnresolved) \<or>
        RouteUnresolved \<in> set (map (\<lambda>p. snd (decided refuted p)) items)))"
      using Cons.IH [of "routed_state refuted [(f, g)] s" "esc \<or> snd v = RouteUnresolved"] d(2) by simp
    have "snd (decided refuted (f, g)) = snd v" by (simp add: decided_def v)
    with r ih show ?thesis
      unfolding routed_items_Cons Some option.case g_def [symmetric]
      by (auto simp: Some Let_def routed_state_Cons)
  qed
qed

lemma route_findings_None:
  assumes "cs_classifications s \<noteq> None" "cs_outcomes s \<noteq> None"
    and "route_findings cl refuted fs esc s = (t, None, esc')"
  shows "\<forall>p \<in> set (routed_items cl (elems (cs_genesis s)) fs). decide refuted (fst p) (snd p) \<noteq> None"
  using assms
proof (induction fs arbitrary: s esc)
  case (Cons f fs)
  obtain cm om where m: "cs_classifications s = Some cm" "cs_outcomes s = Some om"
    using Cons.prems(1,2) by auto
  show ?case
  proof (cases "fmlookup cl (f_id f)")
    case None
    with Cons.IH [OF Cons.prems(1,2), of esc] Cons.prems(3) show ?thesis
      by (simp add: routed_items_Cons)
  next
    case (Some e)
    define g where "g = located_item (elems (cs_genesis s)) f e"
    have "decide refuted f g \<noteq> None"
    proof
      assume "decide refuted f g = None"
      then have "fst (snd (record_item refuted f e s)) \<noteq> None"
        using record_item_undecided [OF m] by (simp add: g_def)
      with Cons.prems(3) show False by (auto simp: Some split: prod.splits option.splits)
    qed
    then obtain v where v: "decide refuted f g = Some v" by blast
    have r: "record_item refuted f e s = (routed_state refuted [(f, g)] s, None, snd v = RouteUnresolved)"
      using record_item_decided [OF m] v by (simp add: g_def)
    have "route_findings cl refuted fs (esc \<or> snd v = RouteUnresolved)
        (routed_state refuted [(f, g)] s) = (t, None, esc')"
      using Cons.prems(3) by (simp add: Some r)
    from Cons.IH [OF _ _ this] v show ?thesis
      by (auto simp: routed_items_Cons Some g_def)
  qed
qed simp

end
