(* ===== verification/CompactReview.thy ===== *)
theory CompactReview
  imports CompactRouting
begin

text \<open>
  \<^verbatim>\<open>CompleteReview\<close> as a whole: the closed form of a successful completion, what it decides for
  every finding, and the converse that complete evidence is always accepted.
\<close>

section \<open>The closed form of a completion\<close>

definition admitted_state :: "lens_result list \<Rightarrow> compact_state \<Rightarrow> compact_state" where
  "admitted_state cs s =
     s\<lparr>cs_results := Some cs, cs_findings := Some (all_findings cs),
       cs_outcomes := Some (put_all (info_bindings (all_findings cs)) fmempty)\<rparr>"

definition unresolved_item where
  "unresolved_item refuted items \<longleftrightarrow>
     RouteUnresolved \<in> set (map (\<lambda>p. snd (decided refuted p)) items)"

definition reviewed_state where
  \<comment> \<open>the state a completion leaves, from the canonical results and the collected evidence\<close>
  "reviewed_state cs cl refuted s =
     (let items = routed_items cl (elems (cs_genesis s)) (all_findings cs) in
      settle_review (unresolved_item refuted items)
        (routed_state refuted items (admitted_state cs s)))"

lemma reviewing_maps:
  assumes "compact_validate s = None" "cs_state s = Reviewing"
  shows "cs_outcomes s = Some fmempty" "cs_classifications s = Some fmempty"
    "cs_fix_ids s = Some []" "\<exists>us. cs_follow_ups s = Some us"
proof -
  from assms have "validate_scope s = None"
    by (simp add: validate_not_invalidated plain_parts body_parts)
  then have "cs_outcomes s \<noteq> None" "cs_classifications s \<noteq> None" "cs_fix_ids s \<noteq> None"
    "cs_follow_ups s \<noteq> None" by (simp_all add: validate_scope_def)
  with reviewing_valid(2-4) [OF assms]
  show "cs_outcomes s = Some fmempty" "cs_classifications s = Some fmempty"
    "cs_fix_ids s = Some []" "\<exists>us. cs_follow_ups s = Some us" by auto
qed

lemma classify_and_route_eq:
  assumes "compact_validate s = None" "cs_state s = Reviewing"
    and "collect_classifications (severe_ids (all_findings cs)) fmempty (ri_classifications input) = Inr cl"
    and "fcard (fmdom cl) = length (severe_ids (all_findings cs))"
    and "collect_refuted fmempty (ri_refuted input) = Inr refuted"
    and "\<forall>p \<in> set (routed_items cl (elems (cs_genesis s)) (all_findings cs)).
           decide refuted (fst p) (snd p) \<noteq> None"
  shows "classify_and_route input (s\<lparr>cs_results := Some cs, cs_findings := Some (all_findings cs)\<rparr>) =
    revalidated (reviewed_state cs cl refuted s)"
proof -
  let ?s = "s\<lparr>cs_results := Some cs, cs_findings := Some (all_findings cs)\<rparr>"
  have m: "mark_informational (all_findings cs) ?s = (admitted_state cs s, None)"
    using mark_informational_eq [of ?s fmempty] reviewing_maps [OF assms(1,2)]
    by (simp add: admitted_state_def)
  have r: "route_findings cl refuted (all_findings cs) False (admitted_state cs s) =
      (let items = routed_items cl (elems (cs_genesis s)) (all_findings cs) in
        (routed_state refuted items (admitted_state cs s), None, unresolved_item refuted items))"
    using route_findings_Some [of "admitted_state cs s" cl "all_findings cs" refuted False]
      reviewing_maps [OF assms(1,2)] assms(6)
    by (simp add: admitted_state_def unresolved_item_def)
  have f: "cs_findings (admitted_state cs s) = Some (all_findings cs)" by (simp add: admitted_state_def)
  show ?thesis
    by (simp add: classify_and_route_def m r f assms(3-5) reviewed_state_def Let_def)
qed

lemma complete_review_total:
  assumes "compact_validate s = None" "cs_state s = Reviewing"
    and "length (ri_results input) = length (elems (cs_lenses s))"
    and "unavailable_result 0 (ri_results input) = None"
    and "canonical_inputs (elems (cs_lenses s)) (ri_results input) = Inr cs"
    and "collect_classifications (severe_ids (all_findings cs)) fmempty (ri_classifications input) = Inr cl"
    and "fcard (fmdom cl) = length (severe_ids (all_findings cs))"
    and "collect_refuted fmempty (ri_refuted input) = Inr refuted"
    and "\<forall>p \<in> set (routed_items cl (elems (cs_genesis s)) (all_findings cs)).
           decide refuted (fst p) (snd p) \<noteq> None"
  shows "complete_review input s = revalidated (reviewed_state cs cl refuted s)"
proof -
  have "admit_results 0 (elems (cs_lenses s)) (ri_results input)
      (s\<lparr>cs_results := Some [], cs_findings := Some []\<rparr>) =
      (s\<lparr>cs_results := Some cs, cs_findings := Some (all_findings cs)\<rparr>, None)"
    using admit_results_Inr [OF _ _ assms(5), of "s\<lparr>cs_results := Some [], cs_findings := Some []\<rparr>" "[]" "[]"]
    by simp
  with classify_and_route_eq [OF assms(1,2,6-9)] assms(2-4) show ?thesis
    by (simp add: complete_review_def)
qed

lemma complete_review_ok:
  assumes ok: "complete_review input s = (t, None)" and valid: "compact_validate s = None"
  obtains cs cl refuted where "cs_state s = Reviewing"
    "length (ri_results input) = length (elems (cs_lenses s))"
    "unavailable_result 0 (ri_results input) = None"
    "canonical_inputs (elems (cs_lenses s)) (ri_results input) = Inr cs"
    "collect_classifications (severe_ids (all_findings cs)) fmempty (ri_classifications input) = Inr cl"
    "fcard (fmdom cl) = length (severe_ids (all_findings cs))"
    "collect_refuted fmempty (ri_refuted input) = Inr refuted"
    "\<forall>p \<in> set (routed_items cl (elems (cs_genesis s)) (all_findings cs)).
       decide refuted (fst p) (snd p) \<noteq> None"
    "t = reviewed_state cs cl refuted s" "compact_validate t = None"
proof -
  from ok have pre: "cs_state s = Reviewing" "length (ri_results input) = length (elems (cs_lenses s))"
    "unavailable_result 0 (ri_results input) = None"
    by (auto simp: complete_review_def split: if_splits option.splits)
  then obtain u where u: "admit_results 0 (elems (cs_lenses s)) (ri_results input)
      (s\<lparr>cs_results := Some [], cs_findings := Some []\<rparr>) = (u, None)"
    "classify_and_route input u = (t, None)"
    using ok by (auto simp: complete_review_def split: prod.splits option.splits)
  from u(1) obtain cs where cs: "canonical_inputs (elems (cs_lenses s)) (ri_results input) = Inr cs"
    "u = s\<lparr>cs_results := Some cs, cs_findings := Some (all_findings cs)\<rparr>" by (rule admit_results_ok)
  have m: "mark_informational (all_findings cs) u = (admitted_state cs s, None)"
    using mark_informational_eq [of u fmempty] reviewing_maps [OF valid pre(1)]
    by (simp add: admitted_state_def cs(2))
  have fu: "cs_findings u = Some (all_findings cs)" "cs_findings (admitted_state cs s) = Some (all_findings cs)"
    by (simp_all add: cs(2) admitted_state_def)
  from u(2) obtain cl refuted w esc where cl:
    "collect_classifications (severe_ids (all_findings cs)) fmempty (ri_classifications input) = Inr cl"
    "fcard (fmdom cl) = length (severe_ids (all_findings cs))"
    "collect_refuted fmempty (ri_refuted input) = Inr refuted"
    "route_findings cl refuted (all_findings cs) False (admitted_state cs s) = (w, None, esc)"
    by (auto simp: classify_and_route_def m fu Let_def split: sum.splits if_splits prod.splits option.splits)
  have "\<forall>p \<in> set (routed_items cl (elems (cs_genesis s)) (all_findings cs)).
       decide refuted (fst p) (snd p) \<noteq> None"
    using route_findings_None [OF _ _ cl(4)] reviewing_maps [OF valid pre(1)]
    by (simp add: admitted_state_def)
  moreover have "revalidated (reviewed_state cs cl refuted s) = (t, None)"
    using ok complete_review_total [OF valid pre cs(1) cl(1-3) calculation] by metis
  then have "t = reviewed_state cs cl refuted s" "compact_validate t = None"
    by simp_all
  ultimately show thesis using that pre cs(1) cl(1-3) by blast
qed

section \<open>Fields of the completed state\<close>

lemma reviewed_frame [frame_simps]: "review_frame (reviewed_state cs cl refuted s) = review_frame s"
  by (simp add: reviewed_state_def settle_review_def routed_state_def admitted_state_def
      review_frame_def Let_def)

lemma sort_Nil: "sort xs = [] \<longleftrightarrow> xs = []"
  by (metis length_0_conv length_sort)

lemma reviewed_fields:
  fixes cs cl s
  assumes "cs_fix_ids s = Some []" "cs_follow_ups s = Some us" "cs_classifications s = Some fmempty"
  defines "items \<equiv> routed_items cl (elems (cs_genesis s)) (all_findings cs)"
  shows "cs_results (reviewed_state cs cl refuted s) = Some cs"
    "cs_findings (reviewed_state cs cl refuted s) = Some (all_findings cs)"
    "cs_classifications (reviewed_state cs cl refuted s) =
       Some (put_all (map (\<lambda>p. (f_id (fst p), snd p)) items) fmempty)"
    "cs_outcomes (reviewed_state cs cl refuted s) =
       Some (put_all (map (\<lambda>p. (f_id (fst p), fst (decided refuted p))) items)
         (put_all (info_bindings (all_findings cs)) fmempty))"
    "cs_fix_ids (reviewed_state cs cl refuted s) =
       Some (sort (map (\<lambda>p. f_id (fst p)) (filter (\<lambda>p. snd (decided refuted p) = RouteFix) items)))"
    "cs_follow_ups (reviewed_state cs cl refuted s) =
       Some (us @ map (\<lambda>p. causal_follow_up (fst p) (fe_proof (snd p)))
         (filter (\<lambda>p. snd (decided refuted p) = RouteInfo) items))"
    "cs_state (reviewed_state cs cl refuted s) =
       (if unresolved_item refuted items then Escalated
        else if \<exists>p \<in> set items. snd (decided refuted p) = RouteFix then CorrectionRequired
        else Validating)"
  using assms
  by (simp_all add: reviewed_state_def settle_review_def routed_state_def admitted_state_def Let_def
      sort_Nil filter_empty_conv)

section \<open>Lookups\<close>

lemma validate_frozen_None:
  "validate_frozen seen fs = None \<longleftrightarrow>
     (\<forall>f \<in> set fs. validate_lens_finding f True = None) \<and> distinct (map f_id fs) \<and>
     f_id ` set fs \<inter> set seen = {}"
  by (induction fs arbitrary: seen) auto

lemma frozen_ids_distinct:
  assumes "compact_validate t = None" "cs_state t \<notin> {Reviewing, Invalidated}"
    and "elems (cs_dispositions t) = []"
  shows "distinct (map f_id (elems (cs_findings t)))"
proof -
  from assms have "validate_compact_findings t = None"
    by (simp add: validate_not_invalidated plain_parts body_parts validate_scope_def)
  with assms(2,3) have "first_err
      [guard (length (elems (cs_results t)) \<noteq> length (elems (cs_lenses t))) LensesMissing,
       guard (cs_findings t \<noteq> Some (all_findings (elems (cs_results t)))) FindingsMismatch,
       validate_frozen [] (elems (cs_findings t)),
       guard (\<not> is_canonical_strings (elems (cs_fix_ids t))) FixIdsNotCanonical,
       validate_routing t] = None"
    by (auto simp only: validate_compact_findings_def all_findings_def split: if_splits)
  then have "validate_frozen [] (elems (cs_findings t)) = None"
    by (simp only: first_err_Cons_None)
  then show ?thesis by (simp only: validate_frozen_None)
qed

lemma routed_items_fst:
  "map fst (routed_items cl g fs) = filter (\<lambda>f. fmlookup cl (f_id f) \<noteq> None) fs"
  by (induction fs) (auto simp: routed_items_Cons split: option.splits)

lemma routed_items_iff:
  "(f, e) \<in> set (routed_items cl g fs) \<longleftrightarrow>
     f \<in> set fs \<and> (\<exists>e0. fmlookup cl (f_id f) = Some e0 \<and> e = located_item g f e0)"
  by (induction fs) (auto simp: routed_items_Cons split: option.splits)

lemma distinct_map_filter: "distinct (map h xs) \<Longrightarrow> distinct (map h (filter P xs))"
  by (simp add: distinct_map inj_on_def)

lemma routed_keys_distinct:
  assumes "distinct (map f_id fs)"
  shows "distinct (map (\<lambda>p. f_id (fst p)) (routed_items cl g fs))"
proof -
  have "map (\<lambda>p. f_id (fst p)) (routed_items cl g fs) = map f_id (map fst (routed_items cl g fs))"
    by simp
  then show ?thesis using distinct_map_filter [OF assms] by (simp add: routed_items_fst)
qed

lemma classification_keys:
  assumes "collect_classifications sev fmempty es = Inr cl" "fcard (fmdom cl) = length sev" "distinct sev"
  shows "fset (fmdom cl) = set sev"
proof (rule fmdom_subset_card_eq)
  show "fset (fmdom cl) \<subseteq> set sev"
  proof
    fix k assume "k \<in> fset (fmdom cl)"
    then obtain e where "fmlookup cl k = Some e" by (auto simp: fmlookup_dom_iff)
    then have "e \<in> set es \<and> fe_finding e = k"
      using collect_classifications_Inr(1) [OF assms(1)] by simp
    then show "k \<in> set sev" using collect_classifications_Inr(2) [OF assms(1)] by blast
  qed
  show "fcard (fmdom cl) = card (set sev)" using assms(2,3) by (simp add: distinct_card)
qed simp

lemma severe_ids_distinct [simp]: "distinct (severe_ids fs)"
  by (simp add: severe_ids_def)

lemma severe_ids_set: "set (severe_ids fs) = f_id ` {f \<in> set fs. is_severe (f_severity f)}"
  by (auto simp: severe_ids_def)

lemma distinct_ids_inj:
  "distinct (map f_id fs) \<Longrightarrow> f \<in> set fs \<Longrightarrow> g \<in> set fs \<Longrightarrow> f_id f = f_id g \<Longrightarrow> f = g"
  by (auto simp: distinct_map inj_on_def)

text \<open>The facts a successful completion establishes before it settles the state.\<close>

definition completes ::
  "review_input \<Rightarrow> compact_state \<Rightarrow> lens_result list \<Rightarrow> (string, finding_evidence) fmap \<Rightarrow>
   (string, evidence_result) fmap \<Rightarrow> bool" where
  "completes input s cs cl refuted \<longleftrightarrow>
     cs_fix_ids s = Some [] \<and> (\<exists>us. cs_follow_ups s = Some us) \<and>
     cs_classifications s = Some fmempty \<and>
     collect_classifications (severe_ids (all_findings cs)) fmempty (ri_classifications input) = Inr cl \<and>
     fcard (fmdom cl) = length (severe_ids (all_findings cs)) \<and>
     collect_refuted fmempty (ri_refuted input) = Inr refuted \<and>
     (\<forall>p \<in> set (routed_items cl (elems (cs_genesis s)) (all_findings cs)).
        decide refuted (fst p) (snd p) \<noteq> None) \<and>
     distinct (map f_id (all_findings cs))"

abbreviation items_of where
  "items_of cs cl s \<equiv> routed_items cl (elems (cs_genesis s)) (all_findings cs)"

lemma completed_fields:
  assumes "completes input s cs cl refuted"
  shows "elems (cs_findings (reviewed_state cs cl refuted s)) = all_findings cs"
    "entries (cs_classifications (reviewed_state cs cl refuted s)) =
       put_all (map (\<lambda>p. (f_id (fst p), snd p)) (items_of cs cl s)) fmempty"
    "entries (cs_outcomes (reviewed_state cs cl refuted s)) =
       put_all (map (\<lambda>p. (f_id (fst p), fst (decided refuted p))) (items_of cs cl s))
         (put_all (info_bindings (all_findings cs)) fmempty)"
    "elems (cs_fix_ids (reviewed_state cs cl refuted s)) =
       sort (map (\<lambda>p. f_id (fst p))
         (filter (\<lambda>p. snd (decided refuted p) = RouteFix) (items_of cs cl s)))"
    "cs_state (reviewed_state cs cl refuted s) =
       (if unresolved_item refuted (items_of cs cl s) then Escalated
        else if \<exists>p \<in> set (items_of cs cl s). snd (decided refuted p) = RouteFix
        then CorrectionRequired else Validating)"
  using assms by (auto simp: completes_def reviewed_fields)

lemma classified_iff:
  assumes "completes input s cs cl refuted" "f \<in> set (all_findings cs)"
  shows "fmlookup cl (f_id f) \<noteq> None \<longleftrightarrow> is_severe (f_severity f)"
proof -
  from assms(1) have c: "collect_classifications (severe_ids (all_findings cs)) fmempty
      (ri_classifications input) = Inr cl" "fcard (fmdom cl) = length (severe_ids (all_findings cs))"
    and d: "distinct (map f_id (all_findings cs))" by (simp_all add: completes_def)
  have "fmlookup cl (f_id f) \<noteq> None \<longleftrightarrow> f_id f \<in> set (severe_ids (all_findings cs))"
    unfolding classification_keys [OF c severe_ids_distinct, symmetric]
    by (metis fmdom_notD fmdom_notI)
  also have "\<dots> \<longleftrightarrow> is_severe (f_severity f)"
    unfolding severe_ids_set using distinct_ids_inj [OF d assms(2)] assms(2) by blast
  finally show ?thesis .
qed

lemma classification_of:
  "completes input s cs cl refuted \<Longrightarrow>
   fmlookup cl k = Some e \<longleftrightarrow> e \<in> set (ri_classifications input) \<and> fe_finding e = k"
  using collect_classifications_Inr(1) [of "severe_ids (all_findings cs)" fmempty _ cl k e]
  by (simp add: completes_def)

lemma refuter_of:
  "completes input s cs cl refuted \<Longrightarrow>
   fmlookup refuted k = Some r \<longleftrightarrow> r \<in> set (ri_refuted input) \<and> er_finding r = k"
  using collect_refuted_Inr [of fmempty _ refuted k r] by (simp add: completes_def)

lemma item_keys_distinct:
  "completes input s cs cl refuted \<Longrightarrow> distinct (map (\<lambda>p. f_id (fst p)) (items_of cs cl s))"
  unfolding completes_def by (blast intro: routed_keys_distinct)

lemma put_items:
  assumes "distinct (map (\<lambda>p. f_id (fst p)) items)" "p \<in> set items"
  shows "fmlookup (put_all (map (\<lambda>p. (f_id (fst p), h p)) items) m) (f_id (fst p)) = Some (h p)"
  by (rule put_all_member) (use assms in \<open>simp_all add: comp_def\<close>)

lemma item_lookup:
  assumes "completes input s cs cl refuted" "(f, e) \<in> set (items_of cs cl s)"
  shows "fmlookup (entries (cs_classifications (reviewed_state cs cl refuted s))) (f_id f) = Some e"
    "fmlookup (entries (cs_outcomes (reviewed_state cs cl refuted s))) (f_id f) =
       Some (fst (decided refuted (f, e)))"
  using put_items [OF item_keys_distinct [OF assms(1)] assms(2), of snd]
    put_items [OF item_keys_distinct [OF assms(1)] assms(2), of "\<lambda>p. fst (decided refuted p)"]
  by (simp_all add: completed_fields [OF assms(1)])

lemma informational_key:
  assumes "completes input s cs cl refuted" "f \<in> set (all_findings cs)" "\<not> is_severe (f_severity f)"
    and "p \<in> set (items_of cs cl s)"
  shows "f_id (fst p) \<noteq> f_id f"
proof
  assume eq: "f_id (fst p) = f_id f"
  from assms(4) have "fmlookup cl (f_id (fst p)) \<noteq> None"
    using routed_items_iff [of "fst p" "snd p"] by auto
  with eq classified_iff [OF assms(1,2)] assms(3) show False by simp
qed

lemma informational_lookup:
  assumes "completes input s cs cl refuted" "f \<in> set (all_findings cs)" "\<not> is_severe (f_severity f)"
  shows "fmlookup (entries (cs_classifications (reviewed_state cs cl refuted s))) (f_id f) = None"
    "fmlookup (entries (cs_outcomes (reviewed_state cs cl refuted s))) (f_id f) = Some Info"
    "f_id f \<notin> set (elems (cs_fix_ids (reviewed_state cs cl refuted s)))"
proof -
  note n = informational_key [OF assms]
  have o: "f_id f \<notin> fst ` set (map (\<lambda>p. (f_id (fst p), h p)) (items_of cs cl s))" for h :: "_ \<Rightarrow> 'c"
    using n by force
  show "fmlookup (entries (cs_classifications (reviewed_state cs cl refuted s))) (f_id f) = None"
    unfolding completed_fields [OF assms(1)] put_all_other [OF o] by simp
  have "distinct (map f_id (all_findings cs))" using assms(1) by (simp add: completes_def)
  then have "distinct (map fst (info_bindings (all_findings cs)))"
    using distinct_map_filter [of f_id "all_findings cs"] by (simp add: info_bindings_def comp_def)
  moreover have "(f_id f, Info) \<in> set (info_bindings (all_findings cs))"
    using assms by (auto simp: info_bindings_def)
  ultimately show "fmlookup (entries (cs_outcomes (reviewed_state cs cl refuted s))) (f_id f) = Some Info"
    unfolding completed_fields [OF assms(1)] put_all_other [OF o] by (rule put_all_member)
  show "f_id f \<notin> set (elems (cs_fix_ids (reviewed_state cs cl refuted s)))"
  proof
    assume "f_id f \<in> set (elems (cs_fix_ids (reviewed_state cs cl refuted s)))"
    then obtain p where "p \<in> set (items_of cs cl s)" "f_id (fst p) = f_id f"
      unfolding completed_fields [OF assms(1)] by auto
    then show False using n by blast
  qed
qed

lemma item_of:
  assumes "completes input s cs cl refuted" "f \<in> set (all_findings cs)" "is_severe (f_severity f)"
  obtains e where "e \<in> set (ri_classifications input)" "fe_finding e = f_id f"
    "(f, located_item (elems (cs_genesis s)) f e) \<in> set (items_of cs cl s)"
proof -
  from classified_iff [OF assms(1,2)] assms(3) obtain e where e: "fmlookup cl (f_id f) = Some e" by auto
  with assms(2) have "(f, located_item (elems (cs_genesis s)) f e) \<in> set (items_of cs cl s)"
    by (auto simp: routed_items_iff)
  with e classification_of [OF assms(1)] that show thesis by blast
qed

lemma decision:
  assumes "completes input s cs cl refuted" "(f, e) \<in> set (items_of cs cl s)"
  shows "decide refuted f e = Some (decided refuted (f, e))"
proof -
  from assms have "decide refuted f e \<noteq> None" unfolding completes_def by (metis fst_conv snd_conv)
  then show ?thesis by (auto simp: decided_def)
qed

lemma fix_id_iff:
  assumes "completes input s cs cl refuted" "(f, e) \<in> set (items_of cs cl s)"
  shows "f_id f \<in> set (elems (cs_fix_ids (reviewed_state cs cl refuted s))) \<longleftrightarrow>
    snd (decided refuted (f, e)) = RouteFix"
proof
  assume "f_id f \<in> set (elems (cs_fix_ids (reviewed_state cs cl refuted s)))"
  then obtain p where p: "p \<in> set (items_of cs cl s)" "snd (decided refuted p) = RouteFix"
    "f_id (fst p) = f_id f" unfolding completed_fields [OF assms(1)] by auto
  have "inj_on (\<lambda>p. f_id (fst p)) (set (items_of cs cl s))"
    using item_keys_distinct [OF assms(1)] by (simp add: distinct_map)
  from inj_onD [OF this _ p(1) assms(2)] p(3) have "p = (f, e)" by simp
  with p(2) show "snd (decided refuted (f, e)) = RouteFix" by simp
next
  assume "snd (decided refuted (f, e)) = RouteFix"
  with assms(2) show "f_id f \<in> set (elems (cs_fix_ids (reviewed_state cs cl refuted s)))"
    unfolding completed_fields [OF assms(1)] by force
qed

end
