(* ===== verification/ReviewSpec.thy ===== *)
theory ReviewSpec
  imports CompactReview
begin

text \<open>
  The rule a review completion implements, stated on its input alone: which severe findings must
  be fixed (\<open>must_fix\<close>), which are left open and escalate (\<open>left_open\<close>), and when the evidence is
  complete. The lemmas relate \<^verbatim>\<open>CompleteReview\<close> to that rule in both directions.
\<close>

definition evidence_for :: "review_input \<Rightarrow> finding \<Rightarrow> finding_evidence \<Rightarrow> bool" where
  "evidence_for input f e \<longleftrightarrow> e \<in> set (ri_classifications input) \<and> fe_finding e = f_id f"

definition refuter_says :: "review_input \<Rightarrow> finding \<Rightarrow> outcome \<Rightarrow> bool" where
  "refuter_says input f out \<longleftrightarrow>
     list_ex (\<lambda>r. er_finding r = f_id f \<and> er_outcome r = out) (ri_refuted input)"

definition must_fix :: "review_input \<Rightarrow> string list \<Rightarrow> finding \<Rightarrow> bool" where
  \<comment> \<open>a severe defect the candidate caused on a reviewed line, proved or not refuted\<close>
  "must_fix input genesis f \<longleftrightarrow> is_severe (f_severity f) \<and>
     finding_location_in_genesis (f_location f) genesis \<and>
     list_ex (\<lambda>e. fe_finding e = f_id f \<and> candidate_causal (fe_causality e) \<and>
        (fe_class e = Deterministic \<or>
         fe_class e = Inferential \<and> refuter_says input f Corroborated)) (ri_classifications input)"

definition left_open :: "review_input \<Rightarrow> string list \<Rightarrow> finding \<Rightarrow> bool" where
  "left_open input genesis f \<longleftrightarrow> is_severe (f_severity f) \<and>
     list_ex (\<lambda>e. fe_finding e = f_id f \<and>
        (fe_class e = Insufficient \<or> fe_causality e = UnknownCause \<or>
         candidate_causal (fe_causality e) \<and>
           (\<not> finding_location_in_genesis (f_location f) genesis \<or>
            fe_class e = Inferential \<and> refuter_says input f Inconclusive)))
       (ri_classifications input)"

section \<open>Decisions against the rule\<close>

lemma candidate_causal_cases:
  "is_supported_causality c \<Longrightarrow>
     candidate_causal c \<longleftrightarrow> c \<noteq> PreExisting \<and> c \<noteq> BaseOnly \<and> c \<noteq> UnknownCause"
  by (cases c) (simp_all add: candidate_causal_def)

lemma located_fields [simp]:
  "fe_finding (located_item g f e) = fe_finding e" "fe_class (located_item g f e) = fe_class e"
  "fe_proof (located_item g f e) = fe_proof e"
  by (simp_all add: located_item_def)

lemma located_causality:
  "fe_causality (located_item g f e) =
     (if candidate_causal (fe_causality e) \<and> \<not> finding_location_in_genesis (f_location f) g
      then UnknownCause else fe_causality e)"
  by (simp add: located_item_def)

lemma refuter_says_lookup:
  assumes "completes input s cs cl refuted"
  shows "refuter_says input f out \<longleftrightarrow>
    (\<exists>r. fmlookup refuted (f_id f) = Some r \<and> er_outcome r = out)"
  using refuter_of [OF assms] by (auto simp: refuter_says_def list_ex_iff)

lemma decided_route:
  assumes c: "completes input s cs cl refuted"
    and e: "e \<in> set (ri_classifications input)" "fe_finding e = f_id f"
    and g: "g = elems (cs_genesis s)"
    and d: "decide refuted f (located_item g f e) = Some d"
    and causal: "is_supported_causality (fe_causality e)"
  shows "snd d = RouteFix \<longleftrightarrow> candidate_causal (fe_causality e) \<and>
      finding_location_in_genesis (f_location f) g \<and>
      (fe_class e = Deterministic \<or> fe_class e = Inferential \<and> refuter_says input f Corroborated)"
    and "snd d = RouteUnresolved \<longleftrightarrow> fe_class e = Insufficient \<or> fe_causality e = UnknownCause \<or>
      candidate_causal (fe_causality e) \<and> (\<not> finding_location_in_genesis (f_location f) g \<or>
        fe_class e = Inferential \<and> refuter_says input f Inconclusive)"
proof -
  note cc = candidate_causal_cases [OF causal] located_causality
  have "(snd d = RouteFix \<longleftrightarrow> candidate_causal (fe_causality e) \<and>
      finding_location_in_genesis (f_location f) g \<and>
      (fe_class e = Deterministic \<or> fe_class e = Inferential \<and> refuter_says input f Corroborated)) \<and>
    (snd d = RouteUnresolved \<longleftrightarrow> fe_class e = Insufficient \<or> fe_causality e = UnknownCause \<or>
      candidate_causal (fe_causality e) \<and> (\<not> finding_location_in_genesis (f_location f) g \<or>
        fe_class e = Inferential \<and> refuter_says input f Inconclusive))"
    using d
  proof (cases rule: decide_cases)
    case 5
    from decide_refuted [OF 5 d] obtain r where r: "fmlookup refuted (f_id f) = Some r"
      "(er_outcome r, d) \<in> {(Corroborated, (Corroborated, RouteFix)), (Refuted, (Refuted, RouteRefuted)),
         (Inconclusive, (Inconclusive, RouteUnresolved))}" .
    have cl: "fe_class e = Inferential" using 5 by simp
    have cand: "candidate_causal (fe_causality e) \<and> finding_location_in_genesis (f_location f) g"
      using 5(2) by (auto simp: cc split: if_splits)
    then have "fe_causality e \<noteq> UnknownCause" by (auto simp: candidate_causal_def)
    with cl cand r show ?thesis by (auto simp: refuter_says_lookup [OF c])
  qed (auto simp: cc split: if_splits)
  then show "snd d = RouteFix \<longleftrightarrow> candidate_causal (fe_causality e) \<and>
      finding_location_in_genesis (f_location f) g \<and>
      (fe_class e = Deterministic \<or> fe_class e = Inferential \<and> refuter_says input f Corroborated)"
    "snd d = RouteUnresolved \<longleftrightarrow> fe_class e = Insufficient \<or> fe_causality e = UnknownCause \<or>
      candidate_causal (fe_causality e) \<and> (\<not> finding_location_in_genesis (f_location f) g \<or>
        fe_class e = Inferential \<and> refuter_says input f Inconclusive)" by blast+
qed

lemma supported_evidence:
  assumes "completes input s cs cl refuted" "e \<in> set (ri_classifications input)"
  shows "is_supported_causality (fe_causality e) \<and> is_concrete_evidence (fe_proof e)"
  using assms collect_classifications_Inr(2) [of "severe_ids (all_findings cs)" fmempty]
  by (auto simp: completes_def)

lemma unique_evidence:
  assumes "completes input s cs cl refuted" "e \<in> set (ri_classifications input)"
    "e' \<in> set (ri_classifications input)" "fe_finding e = fe_finding e'"
  shows "e = e'"
  using classification_of [OF assms(1), of "fe_finding e"] assms by (metis option.inject)

lemma item_route:
  assumes "completes input s cs cl refuted" "p \<in> set (items_of cs cl s)"
  shows "snd (decided refuted p) = RouteFix \<longleftrightarrow> must_fix input (elems (cs_genesis s)) (fst p)"
    and "snd (decided refuted p) = RouteUnresolved \<longleftrightarrow> left_open input (elems (cs_genesis s)) (fst p)"
proof -
  let ?g = "elems (cs_genesis s)"
  obtain f g where p: "p = (f, g)" by (cases p)
  from assms(2) obtain e where e: "f \<in> set (all_findings cs)" "fmlookup cl (f_id f) = Some e"
    "g = located_item ?g f e" by (auto simp: p routed_items_iff)
  then have m: "e \<in> set (ri_classifications input)" "fe_finding e = f_id f"
    using classification_of [OF assms(1)] by simp_all
  have sev: "is_severe (f_severity f)" using classified_iff [OF assms(1) e(1)] e(2) by simp
  have u: "list_ex (\<lambda>e'. fe_finding e' = f_id f \<and> P e') (ri_classifications input) \<longleftrightarrow> P e" for P
    unfolding list_ex_iff using unique_evidence [OF assms(1) m(1)] m by metis
  have d: "decide refuted f (located_item ?g f e) = Some (decided refuted p)"
    using decision [OF assms(1), of f g] assms(2) by (simp add: p e(3))
  note r = decided_route [OF assms(1) m refl d]
  have "is_supported_causality (fe_causality e)" using supported_evidence [OF assms(1) m(1)] by simp
  note r = r [OF this]
  have fp: "fst p = f" by (simp add: p)
  show "snd (decided refuted p) = RouteFix \<longleftrightarrow> must_fix input ?g (fst p)"
    unfolding r(1) fp must_fix_def u using sev by blast
  show "snd (decided refuted p) = RouteUnresolved \<longleftrightarrow> left_open input ?g (fst p)"
    unfolding r(2) fp left_open_def u using sev by blast
qed

lemma must_fix_severe: "must_fix input g f \<Longrightarrow> is_severe (f_severity f)"
  by (simp add: must_fix_def)

lemma left_open_severe: "left_open input g f \<Longrightarrow> is_severe (f_severity f)"
  by (simp add: left_open_def)

lemma classified_filter:
  assumes "completes input s cs cl refuted" "\<And>f. P f \<Longrightarrow> is_severe (f_severity f)"
  shows "map fst (filter (\<lambda>p. P (fst p)) (items_of cs cl s)) = filter P (all_findings cs)"
proof -
  have "map fst (filter (\<lambda>p. P (fst p)) (items_of cs cl s)) = filter P (map fst (items_of cs cl s))"
    by (simp add: filter_map comp_def)
  also have "\<dots> = filter P (all_findings cs)"
    unfolding routed_items_fst filter_filter
    by (rule filter_cong) (use assms(2) classified_iff [OF assms(1)] in auto)
  finally show ?thesis .
qed

lemma completed_fix_ids:
  assumes "completes input s cs cl refuted"
  shows "elems (cs_fix_ids (reviewed_state cs cl refuted s)) =
    sort (map f_id (filter (must_fix input (elems (cs_genesis s))) (all_findings cs)))"
proof -
  let ?P = "must_fix input (elems (cs_genesis s))"
  have "filter (\<lambda>p. snd (decided refuted p) = RouteFix) (items_of cs cl s) =
      filter (\<lambda>p. ?P (fst p)) (items_of cs cl s)"
    by (rule filter_cong) (simp_all add: item_route [OF assms])
  moreover have "map (\<lambda>p. f_id (fst p)) (filter (\<lambda>p. ?P (fst p)) (items_of cs cl s)) =
      map f_id (map fst (filter (\<lambda>p. ?P (fst p)) (items_of cs cl s)))" by simp
  ultimately show ?thesis
    unfolding completed_fields [OF assms] by (simp only: classified_filter [OF assms must_fix_severe])
qed

lemma completed_state:
  assumes "completes input s cs cl refuted"
  shows "cs_state (reviewed_state cs cl refuted s) =
    (if \<exists>f \<in> set (all_findings cs). left_open input (elems (cs_genesis s)) f then Escalated
     else if \<exists>f \<in> set (all_findings cs). must_fix input (elems (cs_genesis s)) f
     then CorrectionRequired else Validating)"
proof -
  have fsts: "(\<exists>p \<in> set (items_of cs cl s). P (fst p)) \<longleftrightarrow> (\<exists>f \<in> set (all_findings cs). P f)"
    if "\<And>f. P f \<Longrightarrow> is_severe (f_severity f)" for P
  proof -
    have "fst ` {p \<in> set (items_of cs cl s). P (fst p)} = {f \<in> set (all_findings cs). P f}"
      using arg_cong [where f = set, OF classified_filter [OF assms that]] by simp
    then show ?thesis by blast
  qed
  have "unresolved_item refuted (items_of cs cl s) \<longleftrightarrow>
      (\<exists>p \<in> set (items_of cs cl s). snd (decided refuted p) = RouteUnresolved)"
    by (force simp: unresolved_item_def)
  also have "\<dots> \<longleftrightarrow> (\<exists>p \<in> set (items_of cs cl s). left_open input (elems (cs_genesis s)) (fst p))"
    by (simp cong: bex_cong add: item_route [OF assms])
  also have "\<dots> \<longleftrightarrow> (\<exists>f \<in> set (all_findings cs). left_open input (elems (cs_genesis s)) f)"
    by (rule fsts) (rule left_open_severe)
  finally have "unresolved_item refuted (items_of cs cl s) \<longleftrightarrow>
      (\<exists>f \<in> set (all_findings cs). left_open input (elems (cs_genesis s)) f)" .
  moreover have "(\<exists>p \<in> set (items_of cs cl s). snd (decided refuted p) = RouteFix) \<longleftrightarrow>
      (\<exists>p \<in> set (items_of cs cl s). must_fix input (elems (cs_genesis s)) (fst p))"
    by (simp cong: bex_cong add: item_route [OF assms])
  moreover have "\<dots> \<longleftrightarrow> (\<exists>f \<in> set (all_findings cs). must_fix input (elems (cs_genesis s)) f)"
    by (rule fsts) (rule must_fix_severe)
  ultimately show ?thesis unfolding completed_fields [OF assms] by simp
qed

section \<open>From an operation to the facts of its completion\<close>

lemma review_state_cases:
  "cs_state (reviewed_state cs cl refuted s) \<in> {Escalated, CorrectionRequired, Validating}"
  by (simp add: reviewed_state_def settle_review_def Let_def)

lemma complete_review_completes:
  assumes "complete_review input s = (t, None)" "compact_validate s = None"
  obtains cs cl refuted where "completes input s cs cl refuted" "t = reviewed_state cs cl refuted s"
    "canonical_inputs (elems (cs_lenses s)) (ri_results input) = Inr cs"
    "cs_state s = Reviewing" "compact_validate t = None" "elems (cs_findings t) = all_findings cs"
proof -
  from assms obtain cs cl refuted where c: "cs_state s = Reviewing"
    "canonical_inputs (elems (cs_lenses s)) (ri_results input) = Inr cs"
    "collect_classifications (severe_ids (all_findings cs)) fmempty (ri_classifications input) = Inr cl"
    "fcard (fmdom cl) = length (severe_ids (all_findings cs))"
    "collect_refuted fmempty (ri_refuted input) = Inr refuted"
    "\<forall>p \<in> set (items_of cs cl s). decide refuted (fst p) (snd p) \<noteq> None"
    "t = reviewed_state cs cl refuted s" "compact_validate t = None"
    by (rule complete_review_ok)
  note m = reviewing_maps [OF assms(2) c(1)]
  have f: "elems (cs_findings t) = all_findings cs"
    using reviewed_fields(2) [OF m(3) _ m(2)] m(4) by (auto simp: c(7))
  have "elems (cs_dispositions t) = []"
    using review_frame_fields(13) [OF reviewed_frame] reviewing_valid(10) [OF assms(2) c(1)] by (simp add: c(7))
  moreover have "cs_state t \<notin> {Reviewing, Invalidated}"
    using review_state_cases [of cs cl refuted s] by (auto simp: c(7))
  ultimately have "distinct (map f_id (all_findings cs))"
    using frozen_ids_distinct [OF c(8)] f by simp
  with c(3-6) m have "completes input s cs cl refuted" by (simp add: completes_def)
  then show thesis using that c f by blast
qed

end
