(* ===== verification/ReviewAccepted.thy ===== *)
theory ReviewAccepted
  imports ReviewSpec
begin

text \<open>
  A review whose evidence is complete is accepted: \<^verbatim>\<open>CompleteReview\<close> reaches the end of its loops
  and the state it leaves passes \<^verbatim>\<open>CompactState.Validate\<close>. The proof discharges the validator's
  checks one group at a time: header, scope, routing, correction, state data.
\<close>

section \<open>Complete evidence\<close>

definition adjudicated :: "review_input \<Rightarrow> string list \<Rightarrow> finding \<Rightarrow> finding_evidence \<Rightarrow> bool" where
  \<comment> \<open>an inferred defect on a reviewed line needs a refuter's answer\<close>
  "adjudicated input genesis f e \<longleftrightarrow>
     fe_class e = Inferential \<and> candidate_causal (fe_causality e) \<and>
     finding_location_in_genesis (f_location f) genesis \<longrightarrow>
     list_ex (refuter_says input f) [Corroborated, Refuted, Inconclusive]"

definition evidence_covers :: "review_input \<Rightarrow> string list \<Rightarrow> finding list \<Rightarrow> bool" where
  "evidence_covers input genesis fs \<longleftrightarrow>
     distinct (map f_id fs) \<and> list_all (\<lambda>f. CHR 0x00 \<notin> set (f_id f)) fs \<and>
     distinct (map fe_finding (ri_classifications input)) \<and>
     fe_finding ` set (ri_classifications input) = set (severe_ids fs) \<and>
     list_all (\<lambda>e. is_supported_class (fe_class e) \<and> is_supported_causality (fe_causality e) \<and>
         is_concrete_evidence (fe_proof e)) (ri_classifications input) \<and>
     distinct (map er_finding (ri_refuted input)) \<and>
     list_all (\<lambda>r. is_concrete_evidence (er_proof r)) (ri_refuted input) \<and>
     list_all (\<lambda>f. list_all (\<lambda>e. fe_finding e = f_id f \<longrightarrow> adjudicated input genesis f e)
         (ri_classifications input)) fs"

definition complete_evidence :: "review_input \<Rightarrow> compact_state \<Rightarrow> bool" where
  "complete_evidence input s \<longleftrightarrow>
     length (ri_results input) = length (elems (cs_lenses s)) \<and>
     unavailable_result 0 (ri_results input) = None \<and>
     (case canonical_inputs (elems (cs_lenses s)) (ri_results input) of Inl _ \<Rightarrow> False
      | Inr cs \<Rightarrow> evidence_covers input (elems (cs_genesis s)) (all_findings cs))"

section \<open>The loops reach their end\<close>

lemma covered_collects:
  assumes "evidence_covers input g fs"
  obtains cl refuted where
    "collect_classifications (severe_ids fs) fmempty (ri_classifications input) = Inr cl"
    "fcard (fmdom cl) = length (severe_ids fs)"
    "collect_refuted fmempty (ri_refuted input) = Inr refuted"
proof -
  let ?es = "ri_classifications input"
  from assms have d: "distinct (map fe_finding ?es)" "fe_finding ` set ?es = set (severe_ids fs)"
    and a: "\<And>e. e \<in> set ?es \<Longrightarrow> is_supported_causality (fe_causality e) \<and> is_concrete_evidence (fe_proof e)"
    and r: "distinct (map er_finding (ri_refuted input))"
      "\<And>r. r \<in> set (ri_refuted input) \<Longrightarrow> is_concrete_evidence (er_proof r)"
    by (simp_all add: evidence_covers_def list_all_iff)
  have m: "\<And>e. e \<in> set ?es \<Longrightarrow> fe_finding e \<in> set (severe_ids fs)" using d(2) by blast
  obtain cl where cl: "collect_classifications (severe_ids fs) fmempty ?es = Inr cl"
    using collect_classifications_total [of ?es "severe_ids fs" fmempty] d(1) a m by auto
  obtain refuted where rf: "collect_refuted fmempty (ri_refuted input) = Inr refuted"
    using collect_refuted_total [of "ri_refuted input" fmempty] r by auto
  have "fset (fmdom cl) = fe_finding ` set ?es"
  proof (rule set_eqI)
    fix k
    have "k \<in> fset (fmdom cl) \<longleftrightarrow> (\<exists>e. fmlookup cl k = Some e)" by (metis fmdom_notD fmdom_notI option.exhaust option.distinct(1))
    also have "\<dots> \<longleftrightarrow> k \<in> fe_finding ` set ?es"
      using collect_classifications_Inr(1) [OF cl] by auto
    finally show "k \<in> fset (fmdom cl) \<longleftrightarrow> k \<in> fe_finding ` set ?es" .
  qed
  then have "fcard (fmdom cl) = length (severe_ids fs)"
    by (simp add: fmap_card d(2) distinct_card)
  with cl rf show thesis by (blast intro: that)
qed

lemma adjudicated_decides:
  assumes a: "adjudicated input g f e" and s: "is_supported_class (fe_class e)"
    and r: "\<And>k r. fmlookup refuted k = Some r \<longleftrightarrow> r \<in> set (ri_refuted input) \<and> er_finding r = k"
    and c: "is_supported_causality (fe_causality e)"
  shows "decide refuted f (located_item g f e) \<noteq> None"
proof (cases "fe_class e = Inferential \<and> candidate_causal (fe_causality e) \<and>
     finding_location_in_genesis (f_location f) g")
  case True
  with a obtain q where "q \<in> set (ri_refuted input)" "er_finding q = f_id f"
    "er_outcome q \<in> {Corroborated, Refuted, Inconclusive}"
    by (auto simp: adjudicated_def refuter_says_def list_ex_iff)
  with r have "fmlookup refuted (f_id f) = Some q" "er_outcome q \<in> {Corroborated, Refuted, Inconclusive}"
    by simp_all
  with True show ?thesis by (auto simp: decide_def)
next
  case False
  have "fe_class e = Deterministic \<or> fe_class e = Inferential \<or> fe_class e = Insufficient"
    using s by (cases "fe_class e") simp_all
  with False show ?thesis
    using candidate_causal_cases [OF c] by (auto simp: decide_def located_causality)
qed

lemma complete_evidence_completes:
  assumes "compact_validate s = None" "cs_state s = Reviewing" "complete_evidence input s"
  obtains cs cl refuted where "completes input s cs cl refuted"
    "complete_review input s = revalidated (reviewed_state cs cl refuted s)"
    "canonical_inputs (elems (cs_lenses s)) (ri_results input) = Inr cs"
    "evidence_covers input (elems (cs_genesis s)) (all_findings cs)"
proof -
  from assms(3) obtain cs where cs: "length (ri_results input) = length (elems (cs_lenses s))"
    "unavailable_result 0 (ri_results input) = None"
    "canonical_inputs (elems (cs_lenses s)) (ri_results input) = Inr cs"
    "evidence_covers input (elems (cs_genesis s)) (all_findings cs)"
    by (auto simp: complete_evidence_def split: sum.splits)
  from cs(4) obtain cl refuted where cl:
    "collect_classifications (severe_ids (all_findings cs)) fmempty (ri_classifications input) = Inr cl"
    "fcard (fmdom cl) = length (severe_ids (all_findings cs))"
    "collect_refuted fmempty (ri_refuted input) = Inr refuted" by (rule covered_collects)
  have "decide refuted (fst p) (snd p) \<noteq> None" if p: "p \<in> set (items_of cs cl s)" for p
  proof -
    obtain f g where fg: "p = (f, g)" by (cases p)
    from p obtain e where e: "f \<in> set (all_findings cs)" "fmlookup cl (f_id f) = Some e"
      "g = located_item (elems (cs_genesis s)) f e" by (auto simp: fg routed_items_iff)
    then have m: "e \<in> set (ri_classifications input)" "fe_finding e = f_id f"
      using collect_classifications_Inr(1) [OF cl(1)] by simp_all
    with cs(4) e(1) have "adjudicated input (elems (cs_genesis s)) f e"
      "is_supported_class (fe_class e)" "is_supported_causality (fe_causality e)"
      by (simp_all add: evidence_covers_def list_all_iff)
    from adjudicated_decides [OF this(1,2) _ this(3), of refuted] collect_refuted_Inr [OF cl(3)]
    show ?thesis by (simp add: fg e(3))
  qed
  then have d: "\<forall>p \<in> set (items_of cs cl s). decide refuted (fst p) (snd p) \<noteq> None" by blast
  have "distinct (map f_id (all_findings cs))" using cs(4) by (simp add: evidence_covers_def)
  then have "completes input s cs cl refuted"
    using reviewing_maps [OF assms(1,2)] cl d by (simp add: completes_def)
  from that [OF this complete_review_total [OF assms(1,2) cs(1-3) cl d] cs(3,4)] show thesis .
qed

section \<open>The header and the scope do not notice\<close>

lemma validate_recovery_cong:
  assumes "cs_lineage t = cs_lineage s" "cs_current t = cs_current s"
  shows "validate_recovery t r = validate_recovery s r"
  unfolding validate_recovery_def validate_retry_shape_def assms ..

lemma validate_reopens_cong:
  "cs_lenses t = cs_lenses s \<Longrightarrow> cs_initial t = cs_initial s \<Longrightarrow> cs_reopens t = cs_reopens s \<Longrightarrow>
   validate_reopens t = validate_reopens s"
proof -
  assume a: "cs_lenses t = cs_lenses s" "cs_initial t = cs_initial s" "cs_reopens t = cs_reopens s"
  have "validate_reopen t = validate_reopen s" unfolding validate_reopen_def a ..
  with a show ?thesis by (simp add: validate_reopens_def)
qed

lemma validate_header_cong:
  assumes "frozen_scope t = frozen_scope s" "cs_current t = cs_current s"
    "cs_reopens t = cs_reopens s" "elems (cs_dispositions t) = []"
    "cs_state t = Invalidated \<or> cs_invalidation_evidence t = None" "validate_header s = None"
  shows "validate_header t = None"
proof -
  have "validate_recovery t = validate_recovery s"
    using assms(1,2) by (intro ext validate_recovery_cong) (simp_all add: frozen_scope_def)
  moreover have "validate_reopens t = validate_reopens s"
    using assms(1,3) by (intro validate_reopens_cong) (simp_all add: frozen_scope_def)
  moreover have "validate_dispositions t = None" using assms(4) by (simp add: validate_dispositions_def)
  ultimately show ?thesis
    using assms by (auto simp: validate_header_def frozen_scope_def split: option.splits)
qed

lemma validate_scope_cong:
  assumes "frozen_scope t = frozen_scope s" "cs_current t = cs_current s"
    "cs_fix_delta t = cs_fix_delta s" "validate_scope s = None"
    "cs_results t \<noteq> None" "cs_findings t \<noteq> None" "cs_classifications t \<noteq> None"
    "cs_outcomes t \<noteq> None" "cs_fix_ids t \<noteq> None" "cs_follow_ups t \<noteq> None"
    "length (elems (cs_results t)) \<le> length (elems (cs_lenses t))"
    "validate_results (elems (cs_lenses t)) (elems (cs_results t))"
    "validate_compact_findings t = None"
  shows "validate_scope t = None"
  using assms by (auto simp: validate_scope_def frozen_scope_def not_less)

section \<open>The routing passes its own check\<close>

lemma route_severe_decided:
  assumes "decide refuted f e = Some d" "fe_finding e = f_id f" "is_concrete_evidence (fe_proof e)"
    and "is_supported_class (fe_class e)" "is_supported_causality (fe_causality e)"
    and "snd d = RouteInfo \<Longrightarrow> has_follow_up us (causal_follow_up f (fe_proof e))"
  shows "route_severe f e (Some (fst d)) us = Inr (snd d)"
  using assms(1)
proof (cases rule: decide_cases)
  case 5
  from decide_refuted [OF 5 assms(1)] obtain r where r: "fmlookup refuted (f_id f) = Some r"
    "(er_outcome r, d) \<in> {(Corroborated, (Corroborated, RouteFix)), (Refuted, (Refuted, RouteRefuted)),
       (Inconclusive, (Inconclusive, RouteUnresolved))}" .
  from r(2) consider "d = (Corroborated, RouteFix)" | "d = (Refuted, RouteRefuted)"
    | "d = (Inconclusive, RouteUnresolved)" by auto
  then show ?thesis
    by cases (use 5 assms(2-5) in \<open>simp_all add: route_severe_def\<close>)
qed (use assms(2-6) in \<open>auto simp: route_severe_def\<close>)

lemma located_supported:
  "is_supported_causality (fe_causality e) \<Longrightarrow> is_supported_causality (fe_causality (located_item g f e))"
  by (simp add: located_causality)

lemma follow_up_recorded:
  assumes "completes input s cs cl refuted" "p \<in> set (items_of cs cl s)"
    and "snd (decided refuted p) = RouteInfo"
  shows "has_follow_up (elems (cs_follow_ups (reviewed_state cs cl refuted s)))
    (causal_follow_up (fst p) (fe_proof (snd p)))"
proof -
  from assms(1) obtain us where us: "cs_follow_ups s = Some us" "cs_fix_ids s = Some []"
    "cs_classifications s = Some fmempty" by (auto simp: completes_def)
  show ?thesis
    using assms(2,3) by (intro has_follow_up_member) (force simp: reviewed_fields(6) [OF us(2,1,3)])
qed

lemma route_of_severe:
  assumes c: "completes input s cs cl refuted" and p: "(f, e) \<in> set (items_of cs cl s)"
    and cls: "\<And>e. e \<in> set (ri_classifications input) \<Longrightarrow> is_supported_class (fe_class e)"
  shows "route_of (reviewed_state cs cl refuted s) f = Inr (snd (decided refuted (f, e)))"
proof -
  from p obtain e0 where e0: "f \<in> set (all_findings cs)" "fmlookup cl (f_id f) = Some e0"
    "e = located_item (elems (cs_genesis s)) f e0" by (auto simp: routed_items_iff)
  then have m: "e0 \<in> set (ri_classifications input)" "fe_finding e0 = f_id f"
    using classification_of [OF c] by simp_all
  have sev: "is_severe (f_severity f)" using classified_iff [OF c e0(1)] e0(2) by simp
  have "route_severe f e (Some (fst (decided refuted (f, e))))
      (elems (cs_follow_ups (reviewed_state cs cl refuted s))) = Inr (snd (decided refuted (f, e)))"
    using supported_evidence [OF c m(1)] cls [OF m(1)] follow_up_recorded [OF c p] m(2)
    by (intro route_severe_decided [OF decision [OF c p]]) (simp_all add: e0(3) located_supported)
  then show ?thesis
    by (simp add: route_of_def sev item_lookup [OF c p])
qed

lemma route_of_informational:
  assumes "completes input s cs cl refuted" "f \<in> set (all_findings cs)" "\<not> is_severe (f_severity f)"
  shows "route_of (reviewed_state cs cl refuted s) f = Inr RouteInfo"
  by (simp add: route_of_def assms(3) informational_lookup [OF assms])

lemma routes_exist:
  assumes c: "completes input s cs cl refuted"
    and cls: "\<forall>e \<in> set (ri_classifications input). is_supported_class (fe_class e)"
  shows "\<exists>route. \<forall>f \<in> set (all_findings cs).
    route_of (reviewed_state cs cl refuted s) f = Inr (route f) \<and>
    (route f = RouteFix \<longleftrightarrow> must_fix input (elems (cs_genesis s)) f) \<and>
    (route f = RouteUnresolved \<longleftrightarrow> left_open input (elems (cs_genesis s)) f)"
proof (intro exI ballI)
  let ?route = "\<lambda>f. projr (route_of (reviewed_state cs cl refuted s) f)"
  fix f assume f: "f \<in> set (all_findings cs)"
  let ?g = "elems (cs_genesis s)"
  show "route_of (reviewed_state cs cl refuted s) f = Inr (?route f) \<and>
    (?route f = RouteFix \<longleftrightarrow> must_fix input ?g f) \<and> (?route f = RouteUnresolved \<longleftrightarrow> left_open input ?g f)"
  proof (cases "is_severe (f_severity f)")
    case False
    then have "\<not> must_fix input ?g f" "\<not> left_open input ?g f"
      using must_fix_severe left_open_severe by blast+
    then show ?thesis by (simp add: route_of_informational [OF c f False])
  next
    case True
    from item_of [OF c f True] obtain e where e: "(f, located_item ?g f e) \<in> set (items_of cs cl s)" .
    have "route_of (reviewed_state cs cl refuted s) f =
        Inr (snd (decided refuted (f, located_item ?g f e)))"
      by (rule route_of_severe [OF c e]) (use cls in blast)
    with item_route [OF c e] show ?thesis by simp
  qed
qed

lemma traverse_map: "(\<And>x. x \<in> set xs \<Longrightarrow> f x = Inr (g x)) \<Longrightarrow> traverse f xs = Inr (map g xs)"
  by (induction xs) simp_all

lemma filter_zip_map:
  "map fst (filter (\<lambda>p. snd p = r) (zip fs (map g fs))) = filter (\<lambda>f. g f = r) fs"
  by (induction fs) simp_all

lemma completed_keys:
  assumes c: "completes input s cs cl refuted"
  shows "map_len (cs_classifications (reviewed_state cs cl refuted s)) = severe_count (all_findings cs)"
    "map_len (cs_outcomes (reviewed_state cs cl refuted s)) = length (all_findings cs)"
    "fset (fmdom (entries (cs_classifications (reviewed_state cs cl refuted s)))) \<subseteq> f_id ` set (all_findings cs)"
    "fset (fmdom (entries (cs_outcomes (reviewed_state cs cl refuted s)))) \<subseteq> f_id ` set (all_findings cs)"
proof -
  let ?fs = "all_findings cs" and ?sev = "filter (\<lambda>f. is_severe (f_severity f)) (all_findings cs)"
  have d: "distinct (map f_id ?fs)" using c by (simp add: completes_def)
  have "map fst (items_of cs cl s) = ?sev"
    unfolding routed_items_fst by (rule filter_cong) (use classified_iff [OF c] in auto)
  then have k: "(\<lambda>p. f_id (fst p)) ` set (items_of cs cl s) = f_id ` set ?sev"
    by (metis image_image list.set_map)
  have e1: "fset (fmdom (entries (cs_classifications (reviewed_state cs cl refuted s)))) = f_id ` set ?sev"
    by (simp add: completed_fields [OF c] image_image k)
  have e2: "fset (fmdom (entries (cs_outcomes (reviewed_state cs cl refuted s)))) = f_id ` set ?fs"
    by (auto simp: completed_fields [OF c] image_image k info_bindings_def)
  have "card (f_id ` set ?sev) = severe_count ?fs"
    using distinct_card [OF distinct_map_filter [OF d]] by (simp add: severe_count_def)
  then show "map_len (cs_classifications (reviewed_state cs cl refuted s)) = severe_count ?fs"
    by (simp add: map_len_def fmap_card e1)
  show "map_len (cs_outcomes (reviewed_state cs cl refuted s)) = length ?fs"
    using distinct_card [OF d] by (simp add: map_len_def fmap_card e2)
  show "fset (fmdom (entries (cs_classifications (reviewed_state cs cl refuted s)))) \<subseteq> f_id ` set ?fs"
    unfolding e1 by auto
  show "fset (fmdom (entries (cs_outcomes (reviewed_state cs cl refuted s)))) \<subseteq> f_id ` set ?fs"
    unfolding e2 by simp
qed

lemma completed_routing:
  assumes c: "completes input s cs cl refuted"
    and cls: "\<forall>e \<in> set (ri_classifications input). is_supported_class (fe_class e)"
    and follow: "validate_follow_ups (elems (cs_follow_ups (reviewed_state cs cl refuted s))) = None"
  shows "validate_routing (reviewed_state cs cl refuted s) = None"
proof -
  let ?t = "reviewed_state cs cl refuted s" and ?g = "elems (cs_genesis s)" and ?fs = "all_findings cs"
  obtain route where route: "\<forall>f \<in> set ?fs. route_of ?t f = Inr (route f) \<and>
      (route f = RouteFix \<longleftrightarrow> must_fix input ?g f) \<and> (route f = RouteUnresolved \<longleftrightarrow> left_open input ?g f)"
    using routes_exist [OF c cls] by blast
  then have r: "\<And>f. f \<in> set ?fs \<Longrightarrow> route_of ?t f = Inr (route f)"
    "\<And>f. f \<in> set ?fs \<Longrightarrow> route f = RouteFix \<longleftrightarrow> must_fix input ?g f"
    "\<And>f. f \<in> set ?fs \<Longrightarrow> route f = RouteUnresolved \<longleftrightarrow> left_open input ?g f" by blast+
  have "map (\<lambda>p. f_id (fst p)) (filter (\<lambda>p. snd p = RouteFix) (zip ?fs (map route ?fs))) =
      map f_id (map fst (filter (\<lambda>p. snd p = RouteFix) (zip ?fs (map route ?fs))))" by simp
  also have "\<dots> = map f_id (filter (must_fix input ?g) ?fs)"
    unfolding filter_zip_map by (simp cong: filter_cong add: r(2))
  finally have fixed: "fix_ids_of (zip ?fs (map route ?fs)) = elems (cs_fix_ids ?t)"
    by (simp add: fix_ids_of_def completed_fix_ids [OF c])
  have un: "RouteUnresolved \<in> set (map route ?fs) \<Longrightarrow> cs_state ?t = Escalated"
  proof -
    assume "RouteUnresolved \<in> set (map route ?fs)"
    then obtain f where "f \<in> set ?fs" "route f = RouteUnresolved" by auto
    with r(3) have "\<exists>f \<in> set ?fs. left_open input ?g f" by blast
    then show "cs_state ?t = Escalated" by (simp add: completed_state [OF c])
  qed
  have t: "traverse (route_of ?t) ?fs = Inr (map route ?fs)" by (rule traverse_map) (rule r(1))
  show ?thesis
    unfolding validate_routing_def Let_def completed_fields(1) [OF c] t sum.case
    using completed_keys [OF c] follow fixed un by simp
qed

section \<open>The completed state is valid\<close>

lemma canonical_inputs_ids:
  assumes "canonical_inputs ls rs = Inr cs" "f \<in> set (all_findings cs)"
  shows "trim_space (f_id f) = f_id f"
proof -
  from assms(2) obtain c where c: "c \<in> set cs" "f \<in> set (elems (lr_findings c))"
    by (auto simp: all_findings_def)
  from traverse_image [OF assms(1) [unfolded canonical_inputs_def] c(1)]
  obtain raw where "canonical_lens_result raw True = Inr c"
    by (auto simp: case_prod_beta canonical_compact_lens_result_def)
  then obtain fs where l: "trim_space (lr_lens raw) \<in> set supported_lenses"
    and fs: "traverse (canonical_finding (trim_space (lr_lens raw)) True)
       (enumerate 0 (elems (lr_findings raw))) = Inr fs" "elems (lr_findings c) = fs"
    by (auto simp: canonical_lens_result_Inr Let_def)
  from traverse_enumerate_image [OF fs(1)] c(2) fs(2) obtain i x where
    "canonical_finding (trim_space (lr_lens raw)) True (i, x) = Inr f" by metis
  then have eq: "trim_finding (trim_space (lr_lens raw)) 0 f = f" using l by (rule trim_finding_fixpoint)
  have "trim_space (f_id f) \<noteq> []"
    using canonical_inputs_findings [OF assms] by (simp add: blank_def)
  then show ?thesis using arg_cong [where f = f_id, OF eq] by (simp add: trim_finding_def Let_def)
qed

lemma covered_fix_ids_canonical:
  assumes "completes input s cs cl refuted"
    and "evidence_covers input g (all_findings cs)" "canonical_inputs ls rs = Inr cs"
  shows "is_canonical_strings (elems (cs_fix_ids (reviewed_state cs cl refuted s)))"
proof -
  let ?fs = "filter (must_fix input (elems (cs_genesis s))) (all_findings cs)"
  have "distinct (map f_id ?fs)"
    using assms(1) by (intro distinct_map_filter) (simp add: completes_def)
  moreover have "\<forall>f \<in> set ?fs. trim_space (f_id f) = f_id f \<and> f_id f \<noteq> [] \<and> CHR 0x00 \<notin> set (f_id f)"
    using assms(2) canonical_inputs_ids [OF assms(3)] canonical_inputs_findings [OF assms(3)]
    by (auto simp: evidence_covers_def list_all_iff blank_def)
  ultimately show ?thesis
    by (simp add: is_canonical_strings_iff completed_fix_ids [OF assms(1)])
qed

lemma pristine_follow_ups:
  assumes "compact_pristine_reviewing s" "completes input s cs cl refuted"
    and "canonical_inputs ls rs = Inr cs"
  shows "validate_follow_ups (elems (cs_follow_ups (reviewed_state cs cl refuted s))) = None"
proof -
  from assms(2) obtain us where us: "cs_follow_ups s = Some us" "cs_fix_ids s = Some []"
    "cs_classifications s = Some fmempty" by (auto simp: completes_def)
  have u: "us = []" using assms(1) us(1) by (simp add: compact_pristine_reviewing_def)
  have "validate_follow_ups (map (\<lambda>p. causal_follow_up (fst p) (fe_proof (snd p))) ps) = None"
    if "\<forall>p \<in> set ps. \<not> blank (f_id (fst p))" for ps :: "(finding \<times> finding_evidence) list"
    using that
  proof (induction ps)
    case (Cons p ps)
    have "validate_follow_ups ([causal_follow_up (fst p) (fe_proof (snd p))] @
        map (\<lambda>p. causal_follow_up (fst p) (fe_proof (snd p))) ps) = None"
      unfolding validate_follow_ups_append using Cons causal_follow_up_valid by auto
    then show ?case by simp
  qed simp
  moreover have "\<not> blank (f_id (fst p))" if "p \<in> set (items_of cs cl s)" for p
    using that canonical_inputs_findings [OF assms(3), of "fst p"] routed_items_iff [of "fst p" "snd p"]
    by auto
  ultimately show ?thesis by (simp add: reviewed_fields(6) [OF us(2,1,3)] u)
qed

lemma completed_findings_valid:
  assumes c: "completes input s cs cl refuted" and p: "compact_pristine_reviewing s"
    and cs: "canonical_inputs (elems (cs_lenses s)) rs = Inr cs" "length rs = length (elems (cs_lenses s))"
      "\<And>l. l \<in> set (elems (cs_lenses s)) \<Longrightarrow> trim_space l = l"
    and e: "evidence_covers input (elems (cs_genesis s)) (all_findings cs)"
  shows "validate_compact_findings (reviewed_state cs cl refuted s) = None"
proof -
  let ?t = "reviewed_state cs cl refuted s"
  from c obtain us where us: "cs_follow_ups s = Some us" "cs_fix_ids s = Some []"
    "cs_classifications s = Some fmempty" by (auto simp: completes_def)
  note f = reviewed_fields [OF us(2,1,3), of cs cl refuted]
  have fr: "cs_lenses ?t = cs_lenses s" "cs_dispositions ?t = cs_dispositions s"
    using review_frame_fields(1,13) [OF reviewed_frame [of cs cl refuted s]]
    by (simp_all add: frozen_scope_def)
  have "validate_frozen [] (all_findings cs) = None"
    using canonical_inputs_findings [OF cs(1)] c by (auto simp: validate_frozen_None completes_def)
  moreover have "validate_routing ?t = None"
    using e by (intro completed_routing [OF c] pristine_follow_ups [OF p c cs(1)])
      (auto simp: evidence_covers_def list_all_iff)
  moreover have "elems (cs_dispositions ?t) = []"
    using p fr(2) by (simp add: compact_pristine_reviewing_def)
  moreover have "length cs = length (elems (cs_lenses s))"
    using canonical_inputs_validate [OF cs(1)] cs(2,3) by simp
  moreover have "cs_state ?t \<notin> {Reviewing, Invalidated}"
    using review_state_cases [of cs cl refuted s] by auto
  ultimately show ?thesis
    using covered_fix_ids_canonical [OF c e cs(1)] f(1,2) fr(1)
    by (simp add: validate_compact_findings_def all_findings_def [symmetric])
qed

lemma completed_correction_valid:
  assumes "compact_pristine_reviewing s" "recovered_from s = None"
    and "completes input s cs cl refuted"
  shows "validate_compact_correction (reviewed_state cs cl refuted s) = None"
proof -
  let ?t = "reviewed_state cs cl refuted s"
  note fr = review_frame_fields [OF reviewed_frame [of cs cl refuted s]]
  have sc: "cs_recovery ?t = cs_recovery s" "cs_initial ?t = cs_initial s"
    using fr(1) by (simp_all add: frozen_scope_def)
  have r: "recovered_from ?t = None" using assms(2) sc(1) by (simp add: recovered_from_def)
  have o: "\<not> correction_output ?t" "elems (cs_attempts ?t) = []" "cs_cumulative ?t = 0" "cs_proposed ?t = None"
    using assms(1) fr sc by (simp_all add: correction_output_def compact_pristine_reviewing_def)
  have "elems (cs_fix_ids ?t) \<noteq> [] \<Longrightarrow> cs_state ?t = CorrectionRequired \<or> cs_state ?t = Escalated"
    unfolding completed_fix_ids [OF assms(3)] completed_state [OF assms(3)]
    by (auto simp: sort_Nil filter_empty_conv)
  with o r show ?thesis
    by (auto simp: validate_compact_correction_def validate_ordinary_correction_def
        validate_attempts_def validate_uncorrected_def correction_returns_early_def)
qed

lemma completed_data_valid:
  assumes "completes input s cs cl refuted" "length cs = length (elems (cs_lenses s))"
    and "cs_evidence s = []"
  shows "validate_state_data (cs_state (reviewed_state cs cl refuted s)) (reviewed_state cs cl refuted s) = None"
proof -
  let ?t = "reviewed_state cs cl refuted s"
  note fr = review_frame_fields [OF reviewed_frame [of cs cl refuted s]]
  have l: "cs_lenses ?t = cs_lenses s" "cs_evidence ?t = []" using fr assms(3) by (simp_all add: frozen_scope_def)
  from assms(1) have "cs_results ?t = Some cs" by (auto simp: completes_def reviewed_fields)
  moreover have "cs_state ?t = CorrectionRequired \<Longrightarrow> elems (cs_fix_ids ?t) \<noteq> []"
    unfolding completed_fix_ids [OF assms(1)] completed_state [OF assms(1)]
    by (auto simp: sort_Nil filter_empty_conv split: if_splits)
  ultimately show ?thesis
    using review_state_cases [of cs cl refuted s] l assms(2) by auto
qed

lemma complete_review_accepted:
  assumes v: "compact_validate s = None" and p: "compact_pristine_reviewing s"
    and e: "complete_evidence input s"
  shows "snd (complete_review input s) = None"
proof -
  have st: "cs_state s = Reviewing" using p by (simp add: compact_pristine_reviewing_def)
  from complete_evidence_completes [OF v st e] obtain cs cl refuted where
    c: "completes input s cs cl refuted"
      "complete_review input s = revalidated (reviewed_state cs cl refuted s)"
      "canonical_inputs (elems (cs_lenses s)) (ri_results input) = Inr cs"
      "evidence_covers input (elems (cs_genesis s)) (all_findings cs)" .
  let ?t = "reviewed_state cs cl refuted s"
  note fr = review_frame_fields [OF reviewed_frame [of cs cl refuted s]]
  note rv = reviewing_valid [OF v st]
  from v st have h: "validate_header s = None" and sc: "validate_scope s = None"
    by (simp_all add: validate_not_invalidated plain_parts body_parts)
  have ls: "\<And>l. l \<in> set (elems (cs_lenses s)) \<Longrightarrow> trim_space l = l"
    using sc validate_selected_lenses_trim by (auto simp: validate_scope_def)
  have len: "length (ri_results input) = length (elems (cs_lenses s))"
    using e by (simp add: complete_evidence_def)
  have cv: "validate_results (elems (cs_lenses s)) cs" "length cs = length (elems (cs_lenses s))"
    using canonical_inputs_validate [OF c(3)] len ls by simp_all
  from c(1) obtain us where us: "cs_follow_ups s = Some us" "cs_fix_ids s = Some []"
    "cs_classifications s = Some fmempty" by (auto simp: completes_def)
  note f = reviewed_fields [OF us(2,1,3), of cs cl refuted]
  have lens: "cs_lenses ?t = cs_lenses s" using fr(1) by (simp add: frozen_scope_def)
  have "validate_header ?t = None"
    using fr rv(9,10) by (intro validate_header_cong [OF _ _ _ _ _ h]) simp_all
  moreover have "validate_scope ?t = None"
    using fr f cv lens completed_findings_valid [OF c(1) p c(3) len ls c(4)]
    by (intro validate_scope_cong [OF _ _ _ sc]) simp_all
  moreover have "validate_compact_correction ?t = None"
    by (rule completed_correction_valid [OF p rv(15) c(1)])
  moreover have "validate_state_data (cs_state ?t) ?t = None"
    using cv(2) rv(7) by (intro completed_data_valid [OF c(1)]) simp_all
  moreover have "cs_proposed ?t = None" "cs_actual ?t = None" using fr rv(5,6) by simp_all
  moreover have "cs_state ?t \<noteq> Invalidated" using review_state_cases [of cs cl refuted s] by auto
  ultimately have "compact_validate ?t = None"
    by (simp add: validate_not_invalidated plain_parts body_parts)
  with c(2) show ?thesis by (simp add: revalidated_def)
qed

end
