(* ===== verification/CompactMachine.thy ===== *)
theory CompactMachine
  imports ReviewAccepted
begin

text \<open>
  The operations of a compact review as one step relation. Its steps keep the authority valid and
  its scope frozen, and every run is short, so it interprets the \<open>lifecycle\<close> contract; what
  approval guarantees is read off the validity of the approved state.
\<close>

inductive compact_move :: "compact_state \<Rightarrow> compact_state \<Rightarrow> bool" where
  review: "complete_review input s = (t, None) \<Longrightarrow> compact_move s t"
| invalidation: "invalidate reason s = (t, None) \<Longrightarrow> compact_move s t"
| begin_fix: "begin_correction proposed s = (t, None) \<Longrightarrow> compact_move s t"
| complete_fix: "complete_correction snap actual v s = (t, None) \<Longrightarrow> compact_move s t"
| verification: "complete_verification evidence approved s = (t, None) \<Longrightarrow> compact_move s t"
| approved_invalidation: "invalidate_approved ev s = (t, None) \<Longrightarrow> compact_move s t"

definition compact_rank :: "compact_state \<Rightarrow> nat" where
  \<comment> \<open>a bound of the operations that can follow before the results are reopened\<close>
  "compact_rank s =
     (case cs_state s of
        Reviewing \<Rightarrow> 5
      | CorrectionRequired \<Rightarrow> (if cs_proposed s = None then 4 else 3)
      | Validating \<Rightarrow> (if elems (cs_attempts s) = [] then 4 else 2)
      | Approved \<Rightarrow> 1
      | _ \<Rightarrow> 0)"

definition compact_live :: "compact_state \<Rightarrow> bool" where
  \<comment> \<open>valid, with at most the one correction current policy allows\<close>
  "compact_live s \<longleftrightarrow>
     compact_validate s = None \<and> length (elems (cs_attempts s)) \<le> max_compact_attempts"

section \<open>Each operation, opened\<close>

lemma invalidate_ok:
  "invalidate raw s = (t, None) \<longleftrightarrow> trim_space raw \<noteq> [] \<and> compact_pristine_reviewing s \<and>
     t = s\<lparr>cs_state := Invalidated, cs_invalidation := trim_space raw\<rparr>"
  by (auto simp: invalidate_def Let_def)

lemma begin_correction_ok:
  "begin_correction proposed s = (t, None) \<longleftrightarrow> \<not> correction_consumed s \<and>
     cs_state s = CorrectionRequired \<and> cs_proposed s = None \<and> 0 < proposed \<and>
     t = (if go_add (cs_cumulative s) proposed > cs_budget s
          then s\<lparr>cs_proposed := Some proposed, cs_state := Escalated\<rparr>
          else s\<lparr>cs_proposed := Some proposed\<rparr>) \<and> compact_validate t = None"
  by (auto simp: begin_correction_def Let_def)

lemma complete_correction_ok:
  "complete_correction snap actual v s = (t, None) \<longleftrightarrow> \<not> correction_consumed s \<and>
     (\<exists>proposed. cs_proposed s = Some proposed \<and> t = corrected_state snap proposed actual v s) \<and>
     cs_state s = CorrectionRequired \<and> sn_kind snap = FixDiff \<and>
     sn_projection snap = sn_projection (cs_initial s) \<and>
     sn_base snap = sn_candidate (cs_current s) \<and>
     elems (sn_ledger_ids snap) = elems (cs_fix_ids s) \<and> sn_candidate snap \<noteq> sn_base snap \<and>
     paths_are_subset (elems (sn_paths snap)) (elems (cs_genesis s)) = None \<and> 0 \<le> actual \<and>
     sv_ledger_ids v = elems (cs_fix_ids s) \<and> elems (sv_fix_caused v) = [] \<and>
     sv_follow_ups v \<noteq> None \<and>
     validate_targeted_validation (sv_original v) (sv_regression v) (sv_request_hash v)
       (sv_target_identity v) (fix_delta_hash snap) = None \<and>
     valid_sha256 (sv_request_hash v) \<and> sv_target_identity v = sn_identity snap \<and>
     compact_validate t = None"
  by (auto simp: complete_correction_def split: option.splits)

lemma complete_verification_ok:
  "complete_verification evidence approved s = (t, None) \<longleftrightarrow> cs_state s = Validating \<and>
     evidence \<noteq> [] \<and> compact_validate t = None \<and>
     t = s\<lparr>cs_evidence := identity_of evidence, cs_state := (if approved then Approved else Escalated)\<rparr>"
  by (auto simp: complete_verification_def)

lemma invalidate_approved_ok:
  "invalidate_approved ev s = (t, None) \<longleftrightarrow> trim_space (ge_reason ev) \<noteq> [] \<and>
     ge_result ev = GateInvalidated \<and> cs_state s = Approved \<and> compact_validate t = None \<and>
     t = s\<lparr>cs_state := Invalidated, cs_invalidation := trim_space (ge_reason ev),
           cs_invalidation_evidence := Some \<lparr>ie_gate = gc_gate (ge_context ev),
             ie_reason = trim_space (ge_reason ev), ie_context = ge_context ev\<rparr>\<rparr>"
  by (auto simp: invalidate_approved_def Let_def)

lemmas op_defs = invalidate_ok begin_correction_ok complete_correction_ok complete_verification_ok
  invalidate_approved_ok

lemma ops_valid:
  "begin_correction p s = (t, None) \<Longrightarrow> compact_validate t = None"
  "complete_correction snap actual v s = (t, None) \<Longrightarrow> compact_validate t = None"
  "complete_verification evidence approved s = (t, None) \<Longrightarrow> compact_validate t = None"
  "invalidate_approved ev s = (t, None) \<Longrightarrow> compact_validate t = None"
  unfolding op_defs by blast+

section \<open>Invalidation keeps validity\<close>

lemma invalidate_valid:
  assumes "compact_validate s = None" "invalidate raw s = (t, None)"
  shows "compact_validate t = None"
proof -
  from assms(2) have raw: "trim_space raw \<noteq> []" and p: "compact_pristine_reviewing s"
    and t: "t = s\<lparr>cs_state := Invalidated, cs_invalidation := trim_space raw\<rparr>"
    by (auto simp: invalidate_ok)
  have st: "cs_state s = Reviewing" using p by (simp add: compact_pristine_reviewing_def)
  note rv = reviewing_valid [OF assms(1) st]
  from assms(1) st have h: "validate_header s = None" and sc: "validate_scope s = None"
    by (simp_all add: validate_not_invalidated plain_parts body_parts)
  have m: "\<exists>y. cs_results s = Some y" "\<exists>y. cs_findings s = Some y"
    "length (elems (cs_results s)) \<le> length (elems (cs_lenses s))"
    "validate_results (elems (cs_lenses s)) (elems (cs_results s))"
    using sc by (auto simp: validate_scope_def)
  have "validate_header t = None"
    using rv(10) by (intro validate_header_cong [OF _ _ _ _ _ h]) (simp_all add: t frozen_scope_def)
  moreover have "validate_scope t = None"
    using m reviewing_maps [OF assms(1) st]
    by (intro validate_scope_cong [OF _ _ _ sc])
      (simp_all add: t frozen_scope_def validate_compact_findings_def)
  moreover have "validate_compact_correction t = None"
  proof -
    have "recovered_from t = None" using rv(15) by (simp add: recovered_from_def t)
    then show ?thesis using p rv(4)
      by (simp add: validate_compact_correction_def validate_ordinary_correction_def t
          validate_attempts_def correction_returns_early_def correction_output_def
          validate_uncorrected_def compact_pristine_reviewing_def)
  qed
  moreover have "validate_state_data Invalidated t = None"
    using p raw by (simp add: t compact_pristine_reviewing_def blank_def)
  ultimately have "validate_plain t = None"
    using rv(5,6) by (simp add: plain_parts body_parts t)
  then show ?thesis
    using rv(9) by (simp add: compact_validate_def invalidated_approved_def t)
qed

section \<open>The machine is a lifecycle\<close>

lemma move_valid:
  assumes "compact_move s t" "compact_validate s = None"
  shows "compact_validate t = None"
  using assms(1)
proof cases
  case (review input)
  then show ?thesis using complete_review_ok [OF _ assms(2)] by metis
next
  case (invalidation reason)
  then show ?thesis by (rule invalidate_valid [OF assms(2)])
qed (auto simp: op_defs)

lemma review_frozen:
  assumes "complete_review input s = (t, None)" "compact_validate s = None"
  shows "review_frame t = review_frame s" "cs_state s = Reviewing"
    "cs_state t \<in> {Escalated, CorrectionRequired, Validating}"
proof -
  from assms obtain cs cl refuted where "t = reviewed_state cs cl refuted s" "cs_state s = Reviewing"
    by (rule complete_review_completes)
  then show "review_frame t = review_frame s" "cs_state s = Reviewing"
    "cs_state t \<in> {Escalated, CorrectionRequired, Validating}"
    using reviewed_frame review_state_cases by simp_all
qed

lemma move_scope:
  assumes "compact_move s t" "compact_validate s = None"
  shows "frozen_scope t = frozen_scope s"
  using assms(1)
proof cases
  case (review input)
  then show ?thesis using review_frozen(1) [OF _ assms(2)] review_frame_fields(1) by blast
qed (auto simp: op_defs frozen_scope_def corrected_state_def Let_def)

lemma move_rank:
  assumes "compact_move s t" "compact_validate s = None"
  shows "compact_rank t < compact_rank s"
  using assms(1)
proof cases
  case (review input)
  note r = review_frozen [OF this assms(2)]
  have "cs_proposed t = None"
    using review_frame_fields(3) [OF r(1)] reviewing_valid(5) [OF assms(2) r(2)] by simp
  with r(2,3) show ?thesis by (auto simp: compact_rank_def)
qed (auto simp: op_defs compact_rank_def corrected_state_def compact_pristine_reviewing_def Let_def)

lemma move_attempts:
  assumes "compact_move s t" "compact_live s"
  shows "length (elems (cs_attempts t)) \<le> max_compact_attempts"
  using assms(1)
proof cases
  case (review input)
  have "compact_validate s = None" using assms(2) by (simp add: compact_live_def)
  from review_frame_fields(11) [OF review_frozen(1) [OF review this]] assms(2)
  show ?thesis by (simp add: compact_live_def)
qed (use assms(2) in \<open>auto simp: op_defs compact_live_def corrected_state_def
      correction_consumed_def max_compact_attempts_def Let_def Suc_le_eq\<close>)

interpretation compact: lifecycle compact_live compact_move frozen_scope compact_rank
proof
  show "compact_live t" if "compact_live s" "compact_move s t" for s t
    using that move_valid move_attempts by (simp add: compact_live_def)
  show "frozen_scope t = frozen_scope s" if "compact_live s" "compact_move s t" for s t
    using that move_scope by (simp add: compact_live_def)
  show "compact_rank t < compact_rank s" if "compact_live s" "compact_move s t" for s t
    using that move_rank by (simp add: compact_live_def)
qed

lemma new_state_live:
  assumes "new_compact_state st = Inr s"
  shows "compact_live s \<and> compact_pristine_reviewing s \<and> cs_lineage s = st_lineage st \<and>
    cs_generation s = st_generation st \<and> cs_initial s = st_snapshot st \<and> cs_policy s = st_policy st"
proof -
  from assms obtain lines lenses budget where
    s: "s = fresh_compact_state st lenses lines budget" "compact_validate s = None"
    by (auto simp: new_compact_state_def Let_def split: if_splits option.splits sum.splits)
  then show ?thesis
    by (simp add: compact_live_def fresh_compact_state_def compact_pristine_reviewing_def
        max_compact_attempts_def)
qed

end
