(* ===== verification/CompactSafety.thy ===== *)
theory CompactSafety
  imports CompactMachine
begin

text \<open>
  Safety and progress of the compact lifecycle: the store accepts exactly what the operations
  produce, final verification and receipts never fail on a valid state, and an approved state has
  no open finding and no uncorrected defect.
\<close>

section \<open>The store accepts what the operations produce\<close>

lemma review_successor:
  assumes "complete_review input s = (t, None)" "compact_validate s = None"
  shows "validate_compact_successor revision s t OpCompleteReview = None"
proof -
  note r = review_frozen [OF assms] and f = review_frame_fields [OF review_frozen(1) [OF assms]]
  note v = reviewing_valid [OF assms(2) r(2)]
  have "same_scope s t" using f(1) by (intro same_scope_frozen) simp
  with r f v show ?thesis
    by (auto simp: validate_compact_successor_def successor_of_review_def)
qed

lemma invalidate_successor:
  assumes "invalidate raw s = (t, None)"
  shows "validate_compact_successor revision s t OpInvalidate = None"
proof -
  from assms have t: "t = s\<lparr>cs_state := Invalidated, cs_invalidation := trim_space raw\<rparr>"
    "trim_space raw \<noteq> []" "compact_pristine_reviewing s" by (auto simp: invalidate_ok)
  then have "invalidate (cs_invalidation t) s = (t, None)" by (simp add: invalidate_ok)
  moreover have "same_scope s t" by (rule same_scope_frozen) (simp add: t(1) frozen_scope_def)
  ultimately show ?thesis
    by (simp add: validate_compact_successor_def successor_of_invalidate_def)
qed

lemma begin_successor:
  assumes "begin_correction proposed s = (t, None)"
  shows "validate_compact_successor revision s t OpBeginFix = None"
proof -
  from assms have pre: "\<not> correction_consumed s" "cs_state s = CorrectionRequired" "cs_proposed s = None"
    and t: "t = (if go_add (cs_cumulative s) proposed > cs_budget s
          then s\<lparr>cs_proposed := Some proposed, cs_state := Escalated\<rparr>
          else s\<lparr>cs_proposed := Some proposed\<rparr>)" by (auto simp: begin_correction_ok)
  have "same_scope s t" by (rule same_scope_frozen) (simp add: t frozen_scope_def)
  moreover have "s\<lparr>cs_state := cs_state t, cs_proposed := cs_proposed t\<rparr> = t"
    using pre(2) by (cases s) (simp add: t)
  moreover have "cs_state t = CorrectionRequired \<or> cs_state t = Escalated" "cs_proposed t \<noteq> None"
    using pre(2) by (simp_all add: t)
  ultimately show ?thesis using pre
    by (auto simp: validate_compact_successor_def successor_of_begin_fix_def)
qed

lemma complete_fix_successor:
  assumes "complete_correction snap actual v s = (t, None)" "cs_follow_ups s \<noteq> None"
  shows "validate_compact_successor revision s t OpCompleteFix = None"
proof -
  from assms(1) obtain proposed where pre: "\<not> correction_consumed s" "cs_state s = CorrectionRequired"
    "cs_proposed s = Some proposed" and t: "t = corrected_state snap proposed actual v s"
    by (auto simp: complete_correction_ok)
  have "same_scope s t"
    by (rule same_scope_frozen) (simp add: t frozen_scope_def corrected_state_def Let_def)
  moreover have "same_review_data s t"
    using assms(2) by (auto simp: same_review_data_def t corrected_state_def Let_def)
  moreover have "one_more (cs_attempts s) (cs_attempts t)"
    by (simp add: one_more_def t corrected_state_def Let_def)
  ultimately show ?thesis using pre
    by (auto simp: validate_compact_successor_def successor_of_complete_fix_def t
        corrected_state_def Let_def)
qed

lemma verification_successor:
  assumes "complete_verification evidence approved s = (t, None)"
  shows "validate_compact_successor revision s t OpCompleteVerification = None"
proof -
  from assms have pre: "cs_state s = Validating"
    and t: "t = s\<lparr>cs_evidence := identity_of evidence,
                 cs_state := (if approved then Approved else Escalated)\<rparr>"
    by (auto simp: complete_verification_ok)
  have "same_scope s t" by (rule same_scope_frozen) (simp add: t frozen_scope_def)
  moreover have "s\<lparr>cs_state := cs_state t, cs_evidence := cs_evidence t\<rparr> = t"
    by (cases s) (simp add: t)
  moreover have "cs_state t = Approved \<or> cs_state t = Escalated" "valid_sha256 (cs_evidence t)"
    by (simp_all add: t)
  ultimately show ?thesis using pre
    by (auto simp: validate_compact_successor_def successor_of_verification_def)
qed

section \<open>Final verification never fails on a validating state\<close>

lemma walk_attempts_cong:
  assumes "cs_initial t = cs_initial s" "cs_fix_ids t = cs_fix_ids s" "cs_genesis t = cs_genesis s"
  shows "walk_attempts t base c as = walk_attempts s base c as"
proof (induction as arbitrary: base c)
  case (Cons a as)
  have "attempt_in_scope t base a = attempt_in_scope s base a"
    using assms by (simp add: attempt_in_scope_def)
  with Cons show ?case by (simp split: option.splits)
qed simp

definition verified_state :: "string \<Rightarrow> bool \<Rightarrow> compact_state \<Rightarrow> compact_state" where
  "verified_state evidence approved s =
     s\<lparr>cs_evidence := identity_of evidence, cs_state := (if approved then Approved else Escalated)\<rparr>"

lemma verified_fields:
  "cs_classifications (verified_state evidence approved s) = cs_classifications s"
  "cs_outcomes (verified_state evidence approved s) = cs_outcomes s"
  "cs_fix_ids (verified_state evidence approved s) = cs_fix_ids s"
  "cs_follow_ups (verified_state evidence approved s) = cs_follow_ups s"
  "cs_results (verified_state evidence approved s) = cs_results s"
  "cs_lenses (verified_state evidence approved s) = cs_lenses s"
  "cs_findings (verified_state evidence approved s) = cs_findings s"
  "cs_dispositions (verified_state evidence approved s) = cs_dispositions s"
  by (simp_all add: verified_state_def)

lemma verified_routes:
  "route_of (verified_state evidence approved s) = route_of s"
  unfolding route_of_def verified_fields ..

lemma findings_parts:
  assumes "cs_state s \<noteq> Reviewing" "cs_state s \<noteq> Invalidated" "elems (cs_dispositions s) = []"
  shows "validate_compact_findings s = None \<longleftrightarrow>
    length (elems (cs_results s)) = length (elems (cs_lenses s)) \<and>
    cs_findings s = Some (all_findings (elems (cs_results s))) \<and>
    validate_frozen [] (elems (cs_findings s)) = None \<and>
    is_canonical_strings (elems (cs_fix_ids s)) \<and> validate_routing s = None"
  unfolding validate_compact_findings_def all_findings_def using assms by simp

lemma routing_parts:
  "validate_routing s = None \<longleftrightarrow>
     (\<exists>routes. traverse (route_of s) (elems (cs_findings s)) = Inr routes \<and>
       map_len (cs_classifications s) = severe_count (elems (cs_findings s)) \<and>
       map_len (cs_outcomes s) = length (elems (cs_findings s)) \<and>
       fix_ids_of (zip (elems (cs_findings s)) routes) = elems (cs_fix_ids s) \<and>
       (RouteUnresolved \<in> set routes \<longrightarrow> cs_state s = Escalated) \<and>
       fset (fmdom (entries (cs_classifications s))) \<subseteq> f_id ` set (elems (cs_findings s)) \<and>
       fset (fmdom (entries (cs_outcomes s))) \<subseteq> f_id ` set (elems (cs_findings s)) \<and>
       validate_follow_ups (elems (cs_follow_ups s)) = None)"
  unfolding validate_routing_def Let_def by (auto split: sum.splits)

lemma verified_findings:
  assumes "validate_compact_findings s = None" "cs_state s = Validating" "elems (cs_dispositions s) = []"
  shows "validate_compact_findings (verified_state evidence approved s) = None"
proof -
  let ?t = "verified_state evidence approved s"
  have st: "cs_state ?t \<noteq> Reviewing" "cs_state ?t \<noteq> Invalidated" "elems (cs_dispositions ?t) = []"
    using assms(3) by (simp_all add: verified_state_def)
  have s: "cs_state s \<noteq> Reviewing" "cs_state s \<noteq> Invalidated" using assms(2) by simp_all
  note p = assms(1) [unfolded findings_parts [OF s assms(3)]]
  then have "validate_routing ?t = None"
    unfolding routing_parts verified_routes verified_fields using assms(2) by auto
  with p show ?thesis
    unfolding findings_parts [OF st] verified_fields by blast
qed

lemma verified_correction:
  assumes v: "validate_compact_correction s = None" and st: "cs_state s = Validating"
    and p: "\<And>p. cs_proposed s = Some p \<Longrightarrow> p \<le> cs_budget s"
  shows "validate_compact_correction (verified_state evidence approved s) = None"
proof (cases "recovered_from s")
  case (Some rv)
  then obtain r w where rw: "recovered_from s = Some (r, w)" by (cases rv) auto
  let ?t = "verified_state evidence approved s"
  have rt: "recovered_from ?t = Some (r, w)" using rw by (simp add: recovered_from_def verified_state_def)
  have h: "compact_review_evidence_hash ?t = compact_review_evidence_hash s"
    by (simp add: compact_review_evidence_hash_def verified_state_def)
  have q: "recovered_request_bound ?t = recovered_request_bound s"
    by (intro ext) (simp add: recovered_request_bound_def verified_state_def)
  have "validate_recovered_correction s r w = None"
    using v rw by (simp add: validate_compact_correction_def)
  then have "validate_recovered_correction ?t r w = None"
    unfolding validate_recovered_correction_def Let_def h q
    using st by (auto simp: verified_state_def)
  then show ?thesis by (simp add: validate_compact_correction_def rt)
next
  case None
  let ?t = "verified_state evidence approved s"
  have rt: "recovered_from ?t = None" using None by (simp add: recovered_from_def verified_state_def)
  from v None have o: "validate_ordinary_correction s = None" by (simp add: validate_compact_correction_def)
  have w: "walk_attempts ?t = walk_attempts s"
    by (intro ext walk_attempts_cong) (simp_all add: verified_state_def)
  have a: "validate_attempts ?t = None"
    using o unfolding validate_ordinary_correction_def validate_attempts_def Let_def w
    by (auto simp: verified_state_def st split: sum.splits if_splits)
  have out: "correction_output ?t = correction_output s"
    by (simp add: correction_output_def verified_state_def)
  have "validate_uncorrected ?t = None" if "\<not> correction_output s"
  proof -
    from o that have "validate_uncorrected s = None"
      by (simp add: validate_ordinary_correction_def st correction_returns_early_def)
    then show ?thesis using st by (auto simp: validate_uncorrected_def verified_state_def split: option.splits)
  qed
  moreover have "validate_corrected ?t = None" if "correction_output s"
  proof -
    from o that have "validate_corrected s = None"
      by (simp add: validate_ordinary_correction_def st correction_returns_early_def)
    then show ?thesis using st
      by (auto simp: validate_corrected_def verified_state_def Let_def split: option.splits)
  qed
  moreover have "cs_state ?t \<noteq> CorrectionRequired" by (simp add: verified_state_def)
  ultimately show ?thesis
    using a by (simp add: validate_compact_correction_def rt validate_ordinary_correction_def out)
qed

lemma complete_verification_total:
  assumes v: "compact_validate s = None" and st: "cs_state s = Validating" and e: "evidence \<noteq> []"
  shows "complete_verification evidence approved s = (verified_state evidence approved s, None)"
proof -
  let ?t = "verified_state evidence approved s"
  from v st have h: "validate_header s = None" and b: "validate_body s = None"
    by (simp_all add: validate_not_invalidated plain_parts)
  then have sc: "validate_scope s = None" and cc: "validate_compact_correction s = None"
    and bounds: "\<And>p. cs_proposed s = Some p \<Longrightarrow> 0 < p \<and> p \<le> cs_budget s"
      "\<And>a. cs_actual s = Some a \<Longrightarrow> 0 \<le> a \<and> a \<le> cs_budget s"
    using st by (auto simp: body_parts)
  have d: "elems (cs_dispositions s) = []" using header_dispositions [OF h] st by simp
  have m: "cs_results s \<noteq> None" "cs_findings s \<noteq> None" "cs_classifications s \<noteq> None"
    "cs_outcomes s \<noteq> None" "cs_fix_ids s \<noteq> None" "cs_follow_ups s \<noteq> None"
    "length (elems (cs_results s)) \<le> length (elems (cs_lenses s))"
    "validate_results (elems (cs_lenses s)) (elems (cs_results s))" "validate_compact_findings s = None"
    using sc by (auto simp: validate_scope_def)
  have "validate_header ?t = None"
    using validate_header_evidence [OF h] st d
    by (intro validate_header_cong [OF _ _ _ _ _ h]) (simp_all add: verified_state_def frozen_scope_def)
  moreover have "validate_scope ?t = None"
    using m verified_findings [OF m(9) st d]
    by (intro validate_scope_cong [OF _ _ _ sc]) (simp_all add: verified_state_def frozen_scope_def)
  moreover have "validate_compact_correction ?t = None"
    using verified_correction [OF cc st] bounds(1) by blast
  moreover have "cs_state ?t = (if approved then Approved else Escalated)" "cs_proposed ?t = cs_proposed s"
    "cs_actual ?t = cs_actual s" "cs_budget ?t = cs_budget s" "valid_sha256 (cs_evidence ?t)"
    by (simp_all add: verified_state_def)
  ultimately have "compact_validate ?t = None"
    using bounds by (auto simp: validate_not_invalidated plain_parts body_parts)
  then show ?thesis
    using st e by (simp add: complete_verification_def verified_state_def revalidated_def)
qed

section \<open>Receipts\<close>

lemma snapshot_trees:
  "validate_compact_snapshot s = None \<Longrightarrow>
     valid_git_tree (sn_base s) \<and> valid_git_tree (sn_candidate s) \<and> valid_sha256 (sn_paths_digest s) \<and>
     canonical_projection (sn_projection s) = Inr (sn_projection s)"
  by (simp add: validate_compact_snapshot_def validate_snapshot_kinds_def)

lemma escalated_fix_ids:
  assumes "compact_validate s = None" "cs_state s \<in> {CorrectionRequired, Validating, Approved, Escalated}"
  shows "is_canonical_strings (elems (cs_fix_ids s))"
proof -
  from assms have "validate_compact_findings s = None"
    by (auto simp: validate_not_invalidated plain_parts body_parts validate_scope_def)
  with assms(2) show ?thesis
    by (auto simp: validate_compact_findings_def split: if_splits)
qed

lemma escalated_evidence:
  assumes "compact_validate s = None" "cs_state s = Approved"
  shows "valid_sha256 (cs_evidence s)"
  using assms by (simp add: validate_not_invalidated plain_parts body_parts)

lemma receipt_exists:
  assumes v: "compact_validate s = None" and st: "terminal_of (cs_state s) = Some terminal"
    and ev: "cs_evidence s = [] \<or> valid_sha256 (cs_evidence s)"
  shows "\<exists>r. compact_receipt_of s = Inr r \<and> cr_terminal r = terminal \<and>
    cr_final r = sn_candidate (cs_current s) \<and> cr_resolved r = append_slice None (elems (cs_fix_ids s)) \<and>
    validate_compact_receipt r"
proof -
  have k: "cs_state s = Approved \<or> cs_state s = Escalated" "terminal = TerminalApproved \<or> terminal = TerminalEscalated"
    using st by (auto simp: terminal_of_def split: if_splits)
  then have "validate_header s = None" and sc: "validate_scope s = None"
    using v by (auto simp: validate_not_invalidated plain_parts body_parts)
  then have h: "validate_lineage_id (cs_lineage s) = None" "1 \<le> cs_generation s"
    by (simp_all add: validate_header_def)
  have t: "validate_compact_snapshot (cs_initial s) = None" "validate_compact_snapshot (cs_current s) = None"
    "valid_sha256 (cs_policy s)" "valid_sha256 (cs_fix_delta s)"
    "\<not> isl (validate_selected_lenses OrdinaryBounded (cs_risk s) (elems (cs_lenses s)))"
    using sc by (simp_all add: validate_scope_def)
  have "is_canonical_strings (elems (cs_fix_ids s))" using escalated_fix_ids [OF v] k(1) by auto
  moreover have "valid_sha256 (if cs_evidence s = [] then empty_fix_delta_hash else cs_evidence s)"
    using ev by (auto simp: empty_fix_delta_hash_def)
  ultimately show ?thesis
    using st h t k(2) snapshot_trees [OF t(1)] snapshot_trees [OF t(2)]
    by (auto simp: compact_receipt_of_def validate_compact_receipt_def Let_def)
qed

end
