(* ===== verification/CompactProgress.thy ===== *)
theory CompactProgress
  imports CompactSafety
begin

text \<open>
  Progress of the bounded correction, what validity of an approved state guarantees, and the
  shortest path to approval: a review whose lenses found nothing is approved in two steps.
\<close>

section \<open>Starting the correction\<close>

lemma correction_required_valid:
  assumes "compact_validate s = None" "cs_state s = CorrectionRequired"
  shows "validate_header s = None" "validate_scope s = None" "elems (cs_dispositions s) = []"
    "recovered_from s = None" "elems (cs_fix_ids s) \<noteq> []" "cs_evidence s = []"
    "validate_ordinary_correction s = None" "validate_compact_findings s = None"
    "length (elems (cs_results s)) = length (elems (cs_lenses s))"
    "cs_invalidation_evidence s = None"
proof -
  from assms show h: "validate_header s = None" and sc: "validate_scope s = None"
    and "elems (cs_fix_ids s) \<noteq> []" "cs_evidence s = []"
    "length (elems (cs_results s)) = length (elems (cs_lenses s))"
    by (simp_all add: validate_not_invalidated plain_parts body_parts)
  show "elems (cs_dispositions s) = []" "cs_invalidation_evidence s = None"
    using header_dispositions [OF h] validate_header_evidence [OF h] assms(2) by simp_all
  have c: "validate_compact_correction s = None"
    using assms by (simp add: validate_not_invalidated plain_parts body_parts)
  show r: "recovered_from s = None" using not_recovered [OF c] assms(2) by simp
  show "validate_ordinary_correction s = None"
    using c r by (simp add: validate_compact_correction_def)
  show "validate_compact_findings s = None" using sc by (simp add: validate_scope_def)
qed

lemma uncorrected_required:
  assumes "compact_validate s = None" "cs_state s = CorrectionRequired" "elems (cs_attempts s) = []"
  shows "\<not> correction_output s" "cs_cumulative s = 0" "cs_actual s = None"
proof -
  note v = correction_required_valid [OF assms(1,2)]
  have a: "validate_attempts s = None" using v(7) by (simp add: validate_ordinary_correction_def)
  then show "cs_cumulative s = 0" using assms(3) by (simp add: validate_attempts_def)
  show o: "\<not> correction_output s"
  proof
    assume "correction_output s"
    with v(7) assms(2,3) have "validate_corrected s = None"
      by (simp add: validate_ordinary_correction_def correction_returns_early_def)
    with assms(2) show False by (simp add: validate_corrected_def Let_def)
  qed
  then show "cs_actual s = None" by (simp add: correction_output_def)
qed

lemma route_severe_mono:
  "route_severe f e out us = Inr x \<Longrightarrow> route_severe f e out (us @ ws) = Inr x"
  unfolding route_severe_def Let_def
  by (auto simp: has_follow_up_append split: if_splits)

lemma findings_cong:
  assumes "validate_compact_findings s = None" "elems (cs_dispositions s) = []"
    and "cs_state s = CorrectionRequired" "cs_state t \<in> {CorrectionRequired, Validating, Escalated}"
    and "cs_results t = cs_results s" "cs_lenses t = cs_lenses s" "cs_findings t = cs_findings s"
    "cs_classifications t = cs_classifications s" "cs_outcomes t = cs_outcomes s"
    "cs_fix_ids t = cs_fix_ids s" "cs_dispositions t = cs_dispositions s"
    "elems (cs_follow_ups t) = elems (cs_follow_ups s) @ us" "validate_follow_ups us = None"
  shows "validate_compact_findings t = None"
proof -
  have st: "cs_state s \<noteq> Reviewing" "cs_state s \<noteq> Invalidated" using assms(3) by simp_all
  have tt: "cs_state t \<noteq> Reviewing" "cs_state t \<noteq> Invalidated" "elems (cs_dispositions t) = []"
    using assms(2,4,11) by auto
  note p = assms(1) [unfolded findings_parts [OF st assms(2)]]
  then obtain routes where r: "traverse (route_of s) (elems (cs_findings s)) = Inr routes"
    by (auto simp: routing_parts)
  have mono: "route_of t f = Inr x" if "route_of s f = Inr x" for f x
    using that route_severe_mono unfolding route_of_def assms Let_def
    by (auto split: if_splits option.splits)
  have "traverse (route_of t) (elems (cs_findings s)) = Inr routes"
    using r unfolding traverse_Inr_iff by (rule list_all2_mono) (rule mono)
  with p assms(3) have "validate_routing t = None"
    unfolding routing_parts assms(7-10,12) validate_follow_ups_append using r assms(13) by auto
  with p show ?thesis unfolding findings_parts [OF tt] assms(5-7,10) by blast
qed

definition begun_state :: "int \<Rightarrow> compact_state \<Rightarrow> compact_state" where
  "begun_state p s =
     (if p > cs_budget s then s\<lparr>cs_proposed := Some p, cs_state := Escalated\<rparr>
      else s\<lparr>cs_proposed := Some p\<rparr>)"

lemma begun_fields:
  "frozen_scope (begun_state p s) = frozen_scope s" "cs_current (begun_state p s) = cs_current s"
  "cs_reopens (begun_state p s) = cs_reopens s" "cs_dispositions (begun_state p s) = cs_dispositions s"
  "cs_invalidation_evidence (begun_state p s) = cs_invalidation_evidence s"
  "cs_fix_delta (begun_state p s) = cs_fix_delta s" "cs_results (begun_state p s) = cs_results s"
  "cs_lenses (begun_state p s) = cs_lenses s" "cs_findings (begun_state p s) = cs_findings s"
  "cs_classifications (begun_state p s) = cs_classifications s"
  "cs_outcomes (begun_state p s) = cs_outcomes s" "cs_fix_ids (begun_state p s) = cs_fix_ids s"
  "cs_follow_ups (begun_state p s) = cs_follow_ups s" "cs_proposed (begun_state p s) = Some p"
  "cs_actual (begun_state p s) = cs_actual s" "cs_attempts (begun_state p s) = cs_attempts s"
  "cs_cumulative (begun_state p s) = cs_cumulative s" "cs_budget (begun_state p s) = cs_budget s"
  "cs_evidence (begun_state p s) = cs_evidence s" "recovered_from (begun_state p s) = recovered_from s"
  "correction_output (begun_state p s) = correction_output s"
  by (simp_all add: begun_state_def frozen_scope_def recovered_from_def correction_output_def)

lemma begin_correction_total:
  assumes v: "compact_validate s = None" and st: "cs_state s = CorrectionRequired"
    and a: "elems (cs_attempts s) = []" and n: "cs_proposed s = None" and p: "0 < p" "go_int p"
  shows "begin_correction p s = (begun_state p s, None)"
proof -
  let ?t = "begun_state p s"
  note c = correction_required_valid [OF v st] and u = uncorrected_required [OF v st a]
  have state: "cs_state ?t = (if p > cs_budget s then Escalated else CorrectionRequired)"
    using st by (simp add: begun_state_def)
  have m: "cs_results s \<noteq> None" "cs_findings s \<noteq> None" "cs_classifications s \<noteq> None"
    "cs_outcomes s \<noteq> None" "cs_fix_ids s \<noteq> None" "cs_follow_ups s \<noteq> None"
    "length (elems (cs_results s)) \<le> length (elems (cs_lenses s))"
    "validate_results (elems (cs_lenses s)) (elems (cs_results s))"
    using c(2) by (auto simp: validate_scope_def)
  have "validate_compact_findings ?t = None"
    by (rule findings_cong [OF c(8,3) st, where us = "[]"]) (simp_all add: begun_fields state)
  then have "validate_scope ?t = None"
    using m by (intro validate_scope_cong [OF _ _ _ c(2)]) (simp_all add: begun_fields)
  moreover have "validate_header ?t = None"
    using c(3,10) by (intro validate_header_cong [OF _ _ _ _ _ c(1)]) (simp_all add: begun_fields)
  moreover have "validate_compact_correction ?t = None"
    using c(4,5) u a state
    by (simp add: validate_compact_correction_def validate_ordinary_correction_def begun_fields
        validate_attempts_def correction_returns_early_def validate_uncorrected_def)
  moreover have "validate_state_data (cs_state ?t) ?t = None"
    using c(5,6,9) state by (simp add: begun_fields)
  ultimately have "compact_validate ?t = None"
    using p(1) u(3) state by (simp add: validate_not_invalidated plain_parts body_parts begun_fields)
  then show ?thesis
    using st n p a u(2)
    by (simp add: begin_correction_def correction_consumed_def max_compact_attempts_def Let_def
        begun_state_def revalidated_def split: if_splits)
qed

section \<open>Completing the correction\<close>

definition correction_fits :: "snapshot \<Rightarrow> scoped_validation \<Rightarrow> compact_state \<Rightarrow> bool" where
  \<comment> \<open>a correction of exactly the causal findings, inside the genesis paths, with bound checks\<close>
  "correction_fits snap v s \<longleftrightarrow>
     validate_compact_snapshot snap = None \<and> validate_snapshot_metadata snap = None \<and>
     sn_kind snap = FixDiff \<and> sn_projection snap = sn_projection (cs_initial s) \<and>
     sn_base snap = sn_candidate (cs_current s) \<and> sn_candidate snap \<noteq> sn_base snap \<and>
     elems (sn_ledger_ids snap) = elems (cs_fix_ids s) \<and>
     elems (sn_intended snap) = elems (sn_intended (cs_initial s)) \<and>
     paths_are_subset (elems (sn_paths snap)) (elems (cs_genesis s)) = None \<and>
     sv_ledger_ids v = elems (cs_fix_ids s) \<and> elems (sv_fix_caused v) = [] \<and>
     sv_follow_ups v \<noteq> None \<and> validate_follow_ups (elems (sv_follow_ups v)) = None \<and>
     validate_targeted_validation (sv_original v) (sv_regression v) (sv_request_hash v)
       (sv_target_identity v) (fix_delta_hash snap) = None \<and>
     valid_sha256 (sv_request_hash v) \<and> sv_target_identity v = sn_identity snap"

lemma fits_facts:
  assumes "correction_fits snap v s"
  shows "validate_targeted_validation (sv_original v) (sv_regression v) (sv_request_hash v)
      (sn_identity snap) (fix_delta_hash snap) = None" "sv_target_identity v = sn_identity snap"
    "sn_candidate snap \<noteq> sn_candidate (cs_current s)"
  using assms by (auto simp: correction_fits_def)

lemma corrected_fields:
  "frozen_scope (corrected_state snap p a v s) = frozen_scope s"
  "cs_current (corrected_state snap p a v s) = snap"
  "cs_reopens (corrected_state snap p a v s) = cs_reopens s"
  "cs_dispositions (corrected_state snap p a v s) = cs_dispositions s"
  "cs_invalidation_evidence (corrected_state snap p a v s) = cs_invalidation_evidence s"
  "cs_fix_delta (corrected_state snap p a v s) = fix_delta_hash snap"
  "cs_results (corrected_state snap p a v s) = cs_results s"
  "cs_lenses (corrected_state snap p a v s) = cs_lenses s"
  "cs_findings (corrected_state snap p a v s) = cs_findings s"
  "cs_classifications (corrected_state snap p a v s) = cs_classifications s"
  "cs_outcomes (corrected_state snap p a v s) = cs_outcomes s"
  "cs_fix_ids (corrected_state snap p a v s) = cs_fix_ids s"
  "elems (cs_follow_ups (corrected_state snap p a v s)) =
     elems (cs_follow_ups s) @ elems (sv_follow_ups v)"
  "cs_proposed (corrected_state snap p a v s) = cs_proposed s"
  "cs_actual (corrected_state snap p a v s) = Some a"
  "elems (cs_attempts (corrected_state snap p a v s)) =
     elems (cs_attempts s) @ [correction_attempt_of snap p a v]"
  "cs_cumulative (corrected_state snap p a v s) = go_add (cs_cumulative s) a"
  "cs_budget (corrected_state snap p a v s) = cs_budget s"
  "cs_evidence (corrected_state snap p a v s) = cs_evidence s"
  "cs_original_check (corrected_state snap p a v s) = Some (sv_original v)"
  "cs_regression_check (corrected_state snap p a v s) = Some (sv_regression v)"
  "recovered_from (corrected_state snap p a v s) = recovered_from s"
  "cs_initial (corrected_state snap p a v s) = cs_initial s"
  "cs_genesis (corrected_state snap p a v s) = cs_genesis s"
  "cs_recovery (corrected_state snap p a v s) = cs_recovery s"
  by (simp_all add: corrected_state_def frozen_scope_def recovered_from_def Let_def)

lemma corrected_follow_ups:
  "cs_follow_ups s \<noteq> None \<Longrightarrow> cs_follow_ups (corrected_state snap p a v s) \<noteq> None"
  by (simp add: corrected_state_def Let_def)

lemma corrected_kind:
  assumes "cs_cumulative s = 0" "go_int a"
  shows "cs_state (corrected_state snap p a v s) =
    (if a \<le> cs_budget s \<and> vc_passed (sv_original v) \<and> vc_passed (sv_regression v)
     then Validating else Escalated)"
  using assms by (auto simp: corrected_state_def Let_def)

lemma corrected_scope:
  assumes "validate_scope s = None" "correction_fits snap v s"
    and "validate_compact_findings (corrected_state snap p a v s) = None"
  shows "validate_scope (corrected_state snap p a v s) = None"
proof -
  have f: "cs_policy (corrected_state snap p a v s) = cs_policy s"
    "cs_risk (corrected_state snap p a v s) = cs_risk s"
    "cs_original_lines (corrected_state snap p a v s) = cs_original_lines s"
    using corrected_fields(1) [of snap p a v s] by (simp_all add: frozen_scope_def)
  from assms(1) have "cs_follow_ups s \<noteq> None" by (simp add: validate_scope_def)
  note g = corrected_follow_ups [OF this, of snap p a v]
  show ?thesis
    using assms g unfolding validate_scope_def corrected_fields f
    by (auto simp: correction_fits_def not_less)
qed

lemma corrected_correction:
  assumes fits: "correction_fits snap v s" and a: "elems (cs_attempts s) = []" "0 \<le> actual"
    and z: "cs_cumulative s = 0" "go_int actual" and p: "cs_proposed s = Some p" "0 < p" "p \<le> cs_budget s"
    and ids: "elems (cs_fix_ids s) \<noteq> []" and r: "recovered_from s = None"
    and base: "sn_candidate (cs_current s) = sn_candidate (cs_initial s)"
  shows "validate_compact_correction (corrected_state snap p actual v s) = None"
proof -
  let ?t = "corrected_state snap p actual v s" and ?a = "correction_attempt_of snap p actual v"
  have scope: "attempt_in_scope ?t (sn_candidate (cs_initial s)) ?a"
    using fits a(2) p(2) base
    by (simp add: attempt_in_scope_def correction_attempt_of_def corrected_fields correction_fits_def)
  have walk: "walk_attempts ?t (sn_candidate (cs_initial s)) 0 [?a] = Inr actual"
    using scope fits_facts [OF fits] z(2) by (simp add: correction_attempt_of_def)
  have st: "cs_state ?t = (if actual \<le> cs_budget s \<and> vc_passed (sv_original v) \<and> vc_passed (sv_regression v)
     then Validating else Escalated)" by (rule corrected_kind [OF z])
  have "validate_attempts ?t = None"
    unfolding validate_attempts_def corrected_fields a(1) Let_def
    using walk st z by (simp add: correction_attempt_of_def)
  moreover have "validate_corrected ?t = None"
    unfolding validate_corrected_def corrected_fields a(1) Let_def
    using fits fits_facts [OF fits] p ids st
    by (simp add: correction_fits_def correction_attempt_of_def)
  moreover have "correction_output ?t" by (simp add: correction_output_def corrected_fields)
  moreover have "cs_state ?t \<noteq> CorrectionRequired" using st by simp
  ultimately show ?thesis
    by (simp add: validate_compact_correction_def validate_ordinary_correction_def corrected_fields r)
qed

lemma header_current:
  assumes "frozen_scope t = frozen_scope s" "cs_reopens t = cs_reopens s"
    "elems (cs_dispositions t) = []" "cs_invalidation_evidence t = None" "validate_header s = None"
    and "\<And>r. cs_recovery s = Some r \<Longrightarrow> rc_disposition r \<noteq> RecoveryFinalRetry"
  shows "validate_header t = None"
proof -
  have eq: "cs_lineage t = cs_lineage s" "cs_recovery t = cs_recovery s" "cs_schema t = cs_schema s"
    "cs_generation t = cs_generation s"
    using assms(1) by (simp_all add: frozen_scope_def)
  have "validate_recovery t r = None" if r: "cs_recovery s = Some r" for r
  proof -
    from assms(5) r have "validate_recovery s r = None" by (simp add: validate_header_def)
    then show ?thesis
      using assms(6) [OF r] unfolding validate_recovery_def eq
      by (cases "rc_disposition r") simp_all
  qed
  moreover have "validate_reopens t = validate_reopens s"
    using assms(1,2) by (intro validate_reopens_cong) (simp_all add: frozen_scope_def)
  moreover have "validate_dispositions t = None" using assms(3) by (simp add: validate_dispositions_def)
  ultimately show ?thesis
    using assms(4,5) by (auto simp: validate_header_def eq split: option.splits)
qed

lemma complete_correction_total:
  assumes v: "compact_validate s = None" and st: "cs_state s = CorrectionRequired"
    and a: "elems (cs_attempts s) = []" and p: "cs_proposed s = Some p"
    and fits: "correction_fits snap v' s" and n: "0 \<le> actual" "go_int actual"
    and rec: "\<And>r. cs_recovery s = Some r \<Longrightarrow> rc_disposition r \<noteq> RecoveryFinalRetry"
  shows "complete_correction snap actual v' s = (corrected_state snap p actual v' s, None)"
proof -
  let ?t = "corrected_state snap p actual v' s"
  note c = correction_required_valid [OF v st] and u = uncorrected_required [OF v st a]
  have pb: "0 < p" "p \<le> cs_budget s"
    using v st p by (simp_all add: validate_not_invalidated plain_parts body_parts)
  have base: "sn_candidate (cs_current s) = sn_candidate (cs_initial s)"
    using u(1) by (simp add: correction_output_def snapshots_equal_def)
  have state: "cs_state ?t = (if actual \<le> cs_budget s \<and> vc_passed (sv_original v') \<and> vc_passed (sv_regression v')
     then Validating else Escalated)" by (rule corrected_kind [OF u(2) n(2)])
  have "validate_compact_findings ?t = None"
    using fits by (intro findings_cong [OF c(8,3) st, where us = "elems (sv_follow_ups v')"])
      (simp_all add: corrected_fields state correction_fits_def)
  then have "validate_scope ?t = None" by (rule corrected_scope [OF c(2) fits])
  moreover have "validate_header ?t = None"
    using c(3,10) rec by (intro header_current [OF _ _ _ _ c(1)]) (simp_all add: corrected_fields)
  moreover have "validate_compact_correction ?t = None"
    by (rule corrected_correction [OF fits a n(1) u(2) n(2) p pb c(5,4) base])
  moreover have "validate_state_data (cs_state ?t) ?t = None"
    using c(6,9) state by (simp add: corrected_fields)
  ultimately have "compact_validate ?t = None"
    using p pb n(1) state by (auto simp: validate_not_invalidated plain_parts body_parts corrected_fields)
  with fits show ?thesis
    using st p a n(1) fits_facts [OF fits]
    by (simp add: complete_correction_def correction_consumed_def max_compact_attempts_def
        correction_fits_def revalidated_def)
qed

end
