(* ===== verification/CompactApproval.thy ===== *)
theory CompactApproval
  imports CompactProgress
begin

text \<open>
  What an approved compact state guarantees, finding by finding, and the shortest path to
  approval: a review whose lenses found nothing is approved in two steps.
\<close>

section \<open>Approved states\<close>

definition answered :: "compact_state \<Rightarrow> finding \<Rightarrow> bool" where
  \<comment> \<open>a severe finding was classified and either refuted, found not to be the candidate's, or
    named for correction\<close>
  "answered s f \<longleftrightarrow>
     (case (fmlookup (entries (cs_classifications s)) (f_id f),
            fmlookup (entries (cs_outcomes s)) (f_id f)) of
        (Some e, Some out) \<Rightarrow>
          fe_finding e = f_id f \<and> is_concrete_evidence (fe_proof e) \<and>
          (out = Refuted \<and> fe_class e = Inferential \<or>
           out = Info \<and> (fe_causality e = PreExisting \<or> fe_causality e = BaseOnly) \<or>
           out = Corroborated \<and> candidate_causal (fe_causality e) \<and>
             f_id f \<in> set (elems (cs_fix_ids s)))
      | _ \<Rightarrow> False)"

definition corrected_and_checked :: "compact_state \<Rightarrow> bool" where
  \<comment> \<open>both targeted checks passed, against the fix delta the state records\<close>
  "corrected_and_checked s \<longleftrightarrow>
     (case (cs_original_check s, cs_regression_check s) of
        (Some original, Some regression) \<Rightarrow>
          vc_passed original \<and> vc_passed regression \<and>
          vc_fix_delta original = cs_fix_delta s \<and> vc_fix_delta regression = cs_fix_delta s
      | _ \<Rightarrow> False)"

lemma route_severe_answered:
  assumes "route_severe f e out us = Inr r" "r \<noteq> RouteUnresolved"
  shows "fe_finding e = f_id f \<and> is_concrete_evidence (fe_proof e) \<and>
    (out = Some Refuted \<and> fe_class e = Inferential \<or>
     out = Some Info \<and> (fe_causality e = PreExisting \<or> fe_causality e = BaseOnly) \<or>
     out = Some Corroborated \<and> candidate_causal (fe_causality e) \<and> r = RouteFix)"
proof -
  from assms(1) have k: "is_supported_class (fe_class e)" "is_supported_causality (fe_causality e)"
    unfolding route_severe_def Let_def by (auto split: if_splits)
  note cc = candidate_causal_cases [OF k(2)]
  from k(1) have "fe_class e = Deterministic \<or> fe_class e = Inferential \<or> fe_class e = Insufficient"
    by (cases "fe_class e") simp_all
  with assms show ?thesis unfolding route_severe_def Let_def
    by (elim disjE) (auto simp: cc split: if_splits option.splits outcome.splits)
qed

lemma traverse_member:
  assumes "traverse h xs = Inr ys" "x \<in> set xs"
  shows "\<exists>y. h x = Inr y \<and> (x, y) \<in> set (zip xs ys)"
  using assms unfolding traverse_Inr_iff by (induction rule: list_all2_induct) auto

lemma routed_answered:
  assumes "validate_routing s = None" "cs_state s \<noteq> Escalated"
    and "f \<in> set (elems (cs_findings s))" "is_severe (f_severity f)"
  shows "answered s f"
proof -
  from assms(1,2) obtain routes where r: "traverse (route_of s) (elems (cs_findings s)) = Inr routes"
    "fix_ids_of (zip (elems (cs_findings s)) routes) = elems (cs_fix_ids s)"
    "RouteUnresolved \<notin> set routes" by (auto simp: routing_parts)
  from traverse_member [OF r(1) assms(3)] obtain y where
    y: "route_of s f = Inr y" "(f, y) \<in> set (zip (elems (cs_findings s)) routes)" by blast
  then have ny: "y \<noteq> RouteUnresolved" using r(3) set_zip_rightD by metis
  from y(1) assms(4) obtain e where e: "fmlookup (entries (cs_classifications s)) (f_id f) = Some e"
    "route_severe f e (fmlookup (entries (cs_outcomes s)) (f_id f)) (elems (cs_follow_ups s)) = Inr y"
    unfolding route_of_def Let_def by (auto split: option.splits)
  have "y = RouteFix \<Longrightarrow> f_id f \<in> set (elems (cs_fix_ids s))"
    unfolding r(2) [symmetric] fix_ids_of_def using y(2) by force
  with route_severe_answered [OF e(2) ny] e(1) show ?thesis
    by (auto simp: answered_def)
qed

lemma targeted_fix_delta:
  assumes "validate_targeted_validation original regression rh tgt d = None"
  shows "vc_fix_delta original = d \<and> vc_fix_delta regression = d"
  using assms by (simp add: validate_targeted_validation_def)

lemma approved_corrected:
  assumes c: "validate_compact_correction s = None" and st: "cs_state s = Approved"
    and ids: "elems (cs_fix_ids s) \<noteq> []"
  shows "corrected_and_checked s"
proof (cases "recovered_from s")
  case (Some rv)
  then obtain r v where "recovered_from s = Some (r, v)" by (cases rv) auto
  with c have "validate_recovered_correction s r v = None" by (simp add: validate_compact_correction_def)
  then have "cs_original_check s = Some (ca_original (rv_attempt v))"
    "cs_regression_check s = Some (ca_regression (rv_attempt v))"
    "vc_passed (ca_original (rv_attempt v))" "vc_passed (ca_regression (rv_attempt v))"
    "cs_fix_delta s = ca_fix_delta (rv_attempt v)"
    "validate_targeted_validation (ca_original (rv_attempt v)) (ca_regression (rv_attempt v))
       (ca_request_hash (rv_attempt v)) (ca_target (rv_attempt v)) (ca_fix_delta (rv_attempt v)) = None"
    unfolding validate_recovered_correction_def Let_def by auto
  with targeted_fix_delta show ?thesis by (fastforce simp: corrected_and_checked_def)
next
  case None
  with c have o: "validate_ordinary_correction s = None" by (simp add: validate_compact_correction_def)
  have out: "correction_output s"
  proof (rule ccontr)
    assume "\<not> correction_output s"
    with o st have "validate_uncorrected s = None"
      by (simp add: validate_ordinary_correction_def correction_returns_early_def)
    with st ids show False by (simp add: validate_uncorrected_def)
  qed
  with o st have "validate_corrected s = None"
    by (simp add: validate_ordinary_correction_def correction_returns_early_def)
  then obtain original regression rh tgt where
    "cs_original_check s = Some original" "cs_regression_check s = Some regression"
    "validate_targeted_validation original regression rh tgt (cs_fix_delta s) = None"
    "vc_passed original" "vc_passed regression"
    unfolding validate_corrected_def Let_def using st by (auto split: option.splits)
  with targeted_fix_delta show ?thesis by (fastforce simp: corrected_and_checked_def)
qed

lemma approved_parts:
  assumes "compact_validate s = None" "cs_state s = Approved"
  shows "validate_compact_correction s = None" "validate_routing s = None"
    "length (elems (cs_results s)) = length (elems (cs_lenses s))" "valid_sha256 (cs_evidence s)"
    "\<And>a. cs_actual s = Some a \<Longrightarrow> a \<le> cs_budget s"
proof -
  from assms have h: "validate_header s = None" and b: "validate_body s = None"
    by (simp_all add: validate_not_invalidated plain_parts)
  have d: "elems (cs_dispositions s) = []" using header_dispositions [OF h] assms(2) by simp
  from b show "validate_compact_correction s = None" "valid_sha256 (cs_evidence s)"
    "\<And>a. cs_actual s = Some a \<Longrightarrow> a \<le> cs_budget s"
    using assms(2) by (auto simp: body_parts)
  have n: "cs_state s \<noteq> Reviewing" "cs_state s \<noteq> Invalidated" using assms(2) by simp_all
  from b have "validate_compact_findings s = None" by (simp add: body_parts validate_scope_def)
  note this [unfolded findings_parts [OF n d]]
  then show "validate_routing s = None"
    "length (elems (cs_results s)) = length (elems (cs_lenses s))" by blast+
qed

section \<open>A clean review\<close>

definition clean_result :: "string \<Rightarrow> lens_result" where
  "clean_result lens =
     \<lparr>lr_lens = lens, lr_findings = Some [], lr_evidence = Some [''read''], lr_hash = []\<rparr>"

definition clean_input :: "string list \<Rightarrow> review_input" where
  "clean_input lenses =
     \<lparr>ri_results = map clean_result lenses, ri_classifications = [], ri_refuted = []\<rparr>"

lemma read_solid: "trim_space ''read'' = ''read''"
  by (rule trim_solid) (simp add: solid_ends_def between_def byte_def)

lemma read_concrete: "is_concrete_evidence ''read''"
  by code_simp

lemma read_available: "\<not> evidence_reports_unavailable ''read''"
  by code_simp

lemma clean_canonical:
  assumes "l \<in> set supported_lenses"
  shows "\<exists>c. canonical_compact_lens_result ((clean_result x)\<lparr>lr_lens := l\<rparr>) = Inr c \<and> lr_findings c = Some []"
  using assms trim_solid [OF supported_lens_solid [OF assms]]
  by (simp add: canonical_compact_lens_result_def canonical_lens_result_def clean_result_def
      canonical_evidence_def read_solid read_concrete Let_def)

lemma clean_inputs:
  "(\<And>l. l \<in> set ls \<Longrightarrow> l \<in> set supported_lenses) \<Longrightarrow>
   \<exists>cs. canonical_inputs ls (map clean_result ls) = Inr cs \<and> all_findings cs = []"
proof (induction ls)
  case (Cons l ls)
  then obtain c cs where "canonical_compact_lens_result ((clean_result l)\<lparr>lr_lens := l\<rparr>) = Inr c"
    "lr_findings c = Some []" "canonical_inputs ls (map clean_result ls) = Inr cs" "all_findings cs = []"
    using clean_canonical [of l l] by auto
  then show ?case by (simp add: canonical_inputs_def all_findings_def)
qed (simp add: canonical_inputs_def all_findings_def)

lemma clean_available: "unavailable_result i (map clean_result ls) = None"
  by (induction ls arbitrary: i) (simp_all add: clean_result_def read_available)

lemma selected_supported:
  assumes "compact_validate s = None" "cs_state s = Reviewing" "l \<in> set (elems (cs_lenses s))"
  shows "l \<in> set supported_lenses"
proof -
  from assms have "validate_scope s = None"
    by (simp add: validate_not_invalidated plain_parts body_parts)
  then have "validate_selected_lenses OrdinaryBounded (cs_risk s) (elems (cs_lenses s)) =
      Inr (elems (cs_lenses s))" by (simp add: validate_scope_def)
  with assms(3) validate_selected_lenses_trim show ?thesis by blast
qed

lemma clean_review:
  assumes v: "compact_validate s = None" and p: "compact_pristine_reviewing s"
  shows "\<exists>t. complete_review (clean_input (elems (cs_lenses s))) s = (t, None) \<and>
    compact_validate t = None \<and> cs_state t = Validating"
proof -
  let ?in = "clean_input (elems (cs_lenses s))"
  have st: "cs_state s = Reviewing" using p by (simp add: compact_pristine_reviewing_def)
  obtain cs where cs: "canonical_inputs (elems (cs_lenses s)) (ri_results ?in) = Inr cs" "all_findings cs = []"
    using clean_inputs [of "elems (cs_lenses s)"] selected_supported [OF v st]
    by (auto simp: clean_input_def)
  have "complete_evidence ?in s"
    by (simp add: complete_evidence_def cs evidence_covers_def)
      (simp add: clean_input_def clean_available severe_ids_def)
  from complete_review_accepted [OF v p this] obtain t where t: "complete_review ?in s = (t, None)"
    by (metis prod.collapse)
  then obtain cs' cl refuted where "completes ?in s cs' cl refuted" "t = reviewed_state cs' cl refuted s"
    "canonical_inputs (elems (cs_lenses s)) (ri_results ?in) = Inr cs'" "compact_validate t = None"
    using v by (rule complete_review_completes)
  then have "cs_state t = Validating" "compact_validate t = None"
    using cs completed_state by simp_all
  with t show ?thesis by blast
qed

end
