(* ===== verification/CompactReopen.thy ===== *)
theory CompactReopen
  imports CompactProgress
begin

text \<open>
  The two audited operations on reviewer results: compact_result_reopen.go sends an uncorrected
  validating review back to its reviewers, and compact_result_disposition.go escalates a reviewing
  one whose preserved result can never be admitted. What they read from disk and from git is a
  parameter, and so are the decoding of a result envelope and \<^verbatim>\<open>json.Valid\<close>. With
  the operations of \<open>compact_move\<close> they make up the steps of a review.
\<close>

section \<open>What the operations read\<close>

record reopen_request =
  oq_lineage :: string
  oq_revision :: string
  oq_target :: string
  oq_reason :: string
  oq_actor :: string
  oq_authorization :: string
  oq_at :: go_time

record reopen_world =
  ow_root :: string
  ow_receipt :: bool
  ow_frozen :: "snapshot \<Rightarrow> bool"
  ow_artifact :: "nat \<Rightarrow> string \<Rightarrow> (string \<times> string option) option"
  ow_admitted :: "compact_state \<Rightarrow> string \<Rightarrow> nat \<Rightarrow> string \<Rightarrow> (string \<times> string \<times> string) option"
  ow_now :: go_time

datatype reopen_error =
    ReopenRequest | ReopenStale | ReopenIneligible | ReopenReceipt | ReopenNoContext
  | ReopenResultMissing | ReopenArtifact nat | NothingToQuarantine | ReopenBinding
  | ReopenNoAuthority | ReopenCommit store_error

definition validate_reopen_request :: "bool \<Rightarrow> reopen_request \<Rightarrow> reopen_error option" where
  "validate_reopen_request apply_it q = first_err
     [as_err ReopenRequest (validate_lineage_id (oq_lineage q)),
      guard (\<not> valid_sha256 (oq_revision q) \<or> \<not> valid_sha256 (oq_target q) \<or>
             blank (oq_reason q) \<or> blank (oq_actor q)) ReopenRequest,
      guard (apply_it \<and> blank (oq_authorization q)) ReopenRequest]"

section \<open>Sorting the results\<close>

definition read_reviewer_artifact :: "reopen_world \<Rightarrow> nat \<Rightarrow> string \<Rightarrow> (string \<times> string) option" where
  \<comment> \<open>the payload and its digest; \<open>ow_artifact\<close> answers for a regular file and its sidecar\<close>
  "read_reviewer_artifact w i lens =
     (case ow_artifact w i lens of
        Some (payload, Some sidecar) \<Rightarrow>
          let digest = trim_space sidecar in
          if payload = [] \<or> length payload > 4194304 \<or> \<not> valid_sha256 digest \<or>
             identity_of payload \<noteq> digest then None
          else Some (payload, digest)
      | _ \<Rightarrow> None)"

definition inspect_slot ::
  "reopen_world \<Rightarrow> compact_state \<Rightarrow> nat \<Rightarrow> string \<Rightarrow> reopen_error + (reopen_slot \<times> bool)" where
  \<comment> \<open>\<open>ow_admitted\<close> is the subject hash, authority revision and result hash of an envelope that
    decodes and is admitted again\<close>
  "inspect_slot w s i lens =
     (if length (elems (cs_results s)) \<le> i then Inl ReopenResultMissing
      else case read_reviewer_artifact w i lens of
        None \<Rightarrow> Inl (ReopenArtifact i)
      | Some (payload, digest) \<Rightarrow>
          let hash = lr_hash (elems (cs_results s) ! i);
              slot = \<lparr>rs_lens = lens, rs_order = int i, rs_artifact = digest, rs_result = hash,
                      rs_subject = [], rs_authority = []\<rparr> in
          case ow_admitted w s payload i lens of
            None \<Rightarrow> Inr (slot, False)
          | Some (subject, authority, h) \<Rightarrow>
              if valid_sha256 subject \<and> valid_sha256 authority \<and> h = hash
              then Inr (slot\<lparr>rs_subject := subject, rs_authority := authority\<rparr>, True)
              else Inr (slot, False))"

fun classify_slots ::
  "reopen_world \<Rightarrow> compact_state \<Rightarrow> nat \<Rightarrow> string list \<Rightarrow>
   reopen_error + (reopen_slot list \<times> reopen_slot list)" where
  \<comment> \<open>quarantined and retained, from the i-th selected lens on\<close>
  "classify_slots w s i [] = Inr ([], [])"
| "classify_slots w s i (lens # ls) =
     (case inspect_slot w s i lens of
        Inl e \<Rightarrow> Inl e
      | Inr (slot, trusted) \<Rightarrow>
        (case classify_slots w s (Suc i) ls of
           Inl e \<Rightarrow> Inl e
         | Inr (qs, rs) \<Rightarrow>
             if \<not> trusted \<or> list_ex evidence_reports_unavailable
                  (elems (lr_evidence (elems (cs_results s) ! i)))
             then Inr (slot # qs, rs) else Inr (qs, slot # rs)))"

section \<open>Reopening\<close>

definition reopenable :: "compact_state \<Rightarrow> bool" where
  \<comment> \<open>validating, uncorrected, on the frozen target\<close>
  "reopenable s \<longleftrightarrow>
     cs_state s = Validating \<and> snapshots_equal (cs_current s) (cs_initial s) \<and>
     elems (cs_fix_ids s) = [] \<and> elems (cs_attempts s) = [] \<and> cs_proposed s = None \<and>
     cs_actual s = None \<and> cs_original_check s = None \<and> cs_regression_check s = None \<and>
     cs_evidence s = []"

definition plan_reopen ::
  "reopen_world \<Rightarrow> reopen_request \<Rightarrow> compact_record \<Rightarrow>
   reopen_error + (reopen_slot list \<times> reopen_slot list)" where
  "plan_reopen w q c =
     (let s = cp_state c in
      if cp_revision c \<noteq> oq_revision q then Inl ReopenStale
      else if sn_identity (cs_initial s) \<noteq> oq_target q \<or> \<not> reopenable s then Inl ReopenIneligible
      else if ow_receipt w then Inl ReopenReceipt
      else if \<not> ow_frozen w (cs_initial s) then Inl ReopenNoContext
      else case classify_slots w s 0 (elems (cs_lenses s)) of
        Inl e \<Rightarrow> Inl e
      | Inr (qs, rs) \<Rightarrow> if qs = [] then Inl NothingToQuarantine else Inr (qs, rs))"

definition request_binding ::
  "reopen_world \<Rightarrow> reopen_request \<Rightarrow> reopen_slot list \<Rightarrow> reopen_slot list \<Rightarrow> string" where
  "request_binding w q qs rs =
     reopen_authorization (ow_root w) (oq_lineage q) (oq_revision q) (oq_target q) (oq_actor q)
       (oq_reason q) qs rs"

definition reopen_audit ::
  "reopen_world \<Rightarrow> reopen_request \<Rightarrow> compact_record \<Rightarrow> reopen_slot list \<Rightarrow> reopen_slot list \<Rightarrow>
   result_reopen" where
  "reopen_audit w q c qs rs =
     \<lparr>ro_previous = cp_revision c, ro_target = sn_identity (cs_initial (cp_state c)),
      ro_quarantined = append_slice None qs, ro_retained = append_slice None rs,
      ro_reason = trim_space (oq_reason q), ro_actor = trim_space (oq_actor q),
      ro_at = (if zero_time (oq_at q) then ow_now w else oq_at q),
      ro_authorization = oq_authorization q\<rparr>"

definition reopened_state :: "result_reopen \<Rightarrow> compact_state \<Rightarrow> compact_state" where
  "reopened_state audit s =
     (cleared_review s)\<lparr>cs_reopens := Some (elems (cs_reopens s) @ [audit])\<rparr>"

definition reopen_results ::
  "reopen_world \<Rightarrow> reopen_request \<Rightarrow> compact_record \<Rightarrow>
   reopen_error + (reopen_slot list \<times> reopen_slot list \<times> compact_state)" where
  \<comment> \<open>what \<^verbatim>\<open>ReopenCompactReviewerResults\<close> asks the store to commit\<close>
  "reopen_results w q c =
     (case validate_reopen_request True q of Some e \<Rightarrow> Inl e
      | None \<Rightarrow>
        (case plan_reopen w q c of Inl e \<Rightarrow> Inl e
         | Inr (qs, rs) \<Rightarrow>
             if oq_authorization q \<noteq> request_binding w q qs rs then Inl ReopenBinding
             else Inr (qs, rs, reopened_state (reopen_audit w q c qs rs) (cp_state c))))"

definition replays_reopen :: "reopen_request \<Rightarrow> result_reopen \<Rightarrow> bool" where
  "replays_reopen q r \<longleftrightarrow>
     ro_previous r = oq_revision q \<and> ro_target r = oq_target q \<and>
     ro_reason r = trim_space (oq_reason q) \<and> ro_actor r = trim_space (oq_actor q) \<and>
     ro_authorization r = oq_authorization q"

definition reopen_commit ::
  "reopen_world \<Rightarrow> reopen_world \<Rightarrow> reopen_request \<Rightarrow> compact_store \<Rightarrow>
   compact_store \<times> (reopen_error + bool)" where
  \<comment> \<open>the first world is read before the lock, the second by the guard under it; the answer says
    whether the request was a replay\<close>
  "reopen_commit w locked q st =
     (case validate_reopen_request True q of Some e \<Rightarrow> (st, Inl e)
      | None \<Rightarrow>
        (case ct_record st of None \<Rightarrow> (st, Inl ReopenNoAuthority)
         | Some c \<Rightarrow>
           if list_ex (replays_reopen q) (elems (cs_reopens (cp_state c))) then (st, Inr True)
           else case reopen_results w q c of Inl e \<Rightarrow> (st, Inl e)
           | Inr (qs, rs, n) \<Rightarrow>
               let guard_ok = \<not> ow_receipt locked \<and>
                     classify_slots locked (cp_state c) 0 (elems (cs_lenses (cp_state c))) = Inr (qs, rs) in
               (case replace (cp_revision c) OpReopenResults n guard_ok st of
                  (st', None) \<Rightarrow> (st', Inr False)
                | (st', Some e) \<Rightarrow> (st', Inl (ReopenCommit e)))))"

section \<open>Disposing of a preserved result\<close>

record dispose_request =
  dq_lineage :: string
  dq_revision :: string
  dq_target :: string
  dq_lens :: string
  dq_order :: int
  dq_artifact :: string
  dq_class :: disposition_class
  dq_diagnostic :: string
  dq_absent :: "string list"
  dq_reason :: string
  dq_actor :: string
  dq_authorization :: string
  dq_at :: go_time

record dispose_world =
  dw_root :: string
  dw_captured :: "string list option"
  dw_preserved :: "string option"
  dw_decodes :: "string \<Rightarrow> bool"
  dw_now :: go_time

datatype dispose_error =
    DisposeRequest | DisposeTarget | DisposeLens | DisposeListing | DisposeCaptured
  | DisposeNoArtifact | DisposeDigest | DisposeInapplicable | DisposeBinding | DisposeUnmatched
  | DisposeState | DisposeStale | DisposeNoAuthority | DisposeCommit store_error

definition dispose_binding :: "string \<Rightarrow> dispose_request \<Rightarrow> string" where
  "dispose_binding repo q =
     ''gentle-ai.review-result-disposition-authorization/v1'' @
     binding_line ''repository'' repo @ binding_line ''lineage'' (dq_lineage q) @
     binding_line ''revision'' (dq_revision q) @ binding_line ''target_identity'' (dq_target q) @
     binding_line ''lens'' (dq_lens q) @ binding_line ''order'' (int_text (dq_order q)) @
     binding_line ''artifact_digest'' (dq_artifact q) @
     binding_line ''class'' (disposition_class_text (dq_class q)) @
     binding_line ''actor'' (trim_space (dq_actor q)) @ binding_line ''reason'' (trim_space (dq_reason q))"

definition validate_dispose_request :: "dispose_request \<Rightarrow> dispose_error option" where
  "validate_dispose_request q = first_err
     [guard (validate_lineage_id (dq_lineage q) \<noteq> None \<or> dq_lens q \<notin> set supported_lenses \<or>
             dq_class q \<notin> {TransportSyntax, WrongTarget} \<or> \<not> valid_sha256 (dq_revision q)) DisposeRequest,
      guard (\<not> valid_sha256 (dq_target q) \<or> \<not> valid_sha256 (dq_artifact q) \<or> dq_order q < 0) DisposeRequest,
      guard (blank (dq_diagnostic q) \<or> blank (dq_reason q) \<or> blank (dq_actor q) \<or>
             blank (dq_authorization q)) DisposeRequest]"

definition result_file :: "int \<Rightarrow> string \<Rightarrow> string" where
  \<comment> \<open>\<^verbatim>\<open>%02d-%s.json\<close> of an order that is not negative\<close>
  "result_file order lens =
     (if order < 10 then CHR ''0'' # int_text order else int_text order) @ ''-'' @ lens @ ''.json''"

definition result_inapplicable ::
  "dispose_world \<Rightarrow> compact_state \<Rightarrow> dispose_request \<Rightarrow> string \<Rightarrow> dispose_error + string list" where
  \<comment> \<open>the absent paths the payload proves, from its bytes and the frozen target alone\<close>
  "result_inapplicable w s q payload =
     (case dq_class q of
        TransportSyntax \<Rightarrow>
          if dq_absent q \<noteq> [] \<or> dw_decodes w payload then Inl DisposeInapplicable else Inr []
      | WrongTarget \<Rightarrow>
          (case canonical_paths (dq_absent q) of
             Inl _ \<Rightarrow> Inl DisposeInapplicable
           | Inr absent \<Rightarrow>
               if absent = [] \<or> \<not> dw_decodes w payload \<or>
                  list_ex (\<lambda>p. p \<in> set (elems (sn_paths (cs_initial s))) \<or> \<not> contains payload p) absent
               then Inl DisposeInapplicable else Inr absent)
      | OtherDisposition _ \<Rightarrow> Inl DisposeRequest)"

definition disposition_of :: "dispose_world \<Rightarrow> dispose_request \<Rightarrow> string \<Rightarrow> string list \<Rightarrow> result_disposition" where
  \<comment> \<open>the audit record, before its time is known\<close>
  "disposition_of w q payload absent =
     \<lparr>rd_lens = dq_lens q, rd_order = dq_order q, rd_target = dq_target q, rd_artifact = dq_artifact q,
      rd_class = dq_class q, rd_decodable = dw_decodes w payload,
      rd_diagnostic = trim_space (dq_diagnostic q), rd_absent = append_slice None absent,
      rd_reason = trim_space (dq_reason q), rd_actor = trim_space (dq_actor q),
      rd_at = ''0001-01-01T00:00:00Z'', rd_authorization = trim_space (dq_authorization q)\<rparr>"

definition plan_disposal ::
  "dispose_world \<Rightarrow> dispose_request \<Rightarrow> compact_record \<Rightarrow> dispose_error + result_disposition" where
  \<comment> \<open>everything \<^verbatim>\<open>DisposeUnreplayablePreservedResult\<close> checks before it looks at the state\<close>
  "plan_disposal w q c =
     (let s = cp_state c in
      if dq_target q \<noteq> sn_identity (cs_initial s) then Inl DisposeTarget
      else if \<not> selects (elems (cs_lenses s)) (dq_order q) (dq_lens q) then Inl DisposeLens
      else case dw_captured w of None \<Rightarrow> Inl DisposeListing
      | Some names \<Rightarrow>
          if result_file (dq_order q) (dq_lens q) \<in> set names then Inl DisposeCaptured
          else case dw_preserved w of None \<Rightarrow> Inl DisposeNoArtifact
          | Some payload \<Rightarrow>
              if identity_of payload \<noteq> dq_artifact q then Inl DisposeDigest
              else case result_inapplicable w s q payload of Inl e \<Rightarrow> Inl e
              | Inr absent \<Rightarrow>
                  if dq_authorization q \<noteq> dispose_binding (dw_root w) q then Inl DisposeBinding
                  else Inr (disposition_of w q payload absent))"

definition disposed_state :: "result_disposition \<Rightarrow> compact_state \<Rightarrow> compact_state" where
  "disposed_state d s =
     s\<lparr>cs_state := Escalated, cs_dispositions := Some (elems (cs_dispositions s) @ [d])\<rparr>"

definition replays_disposal :: "result_disposition \<Rightarrow> result_disposition \<Rightarrow> bool" where
  \<comment> \<open>every field but the time; a nil path list equals an empty one\<close>
  "replays_disposal d committed \<longleftrightarrow>
     committed\<lparr>rd_at := rd_at d, rd_absent := Some (elems (rd_absent committed))\<rparr> =
     d\<lparr>rd_absent := Some (elems (rd_absent d))\<rparr>"

definition dispose_result ::
  "dispose_world \<Rightarrow> dispose_request \<Rightarrow> compact_record \<Rightarrow> dispose_error + compact_state" where
  \<comment> \<open>the state the store is asked to commit\<close>
  "dispose_result w q c =
     (case validate_dispose_request q of Some e \<Rightarrow> Inl e
      | None \<Rightarrow>
        (case plan_disposal w q c of Inl e \<Rightarrow> Inl e
         | Inr d \<Rightarrow>
             if cs_state (cp_state c) \<noteq> Reviewing then Inl DisposeState
             else if cp_revision c \<noteq> dq_revision q then Inl DisposeStale
             else Inr (disposed_state
                    (d\<lparr>rd_at := (if zero_time (dq_at q) then dw_now w else dq_at q)\<rparr>) (cp_state c))))"

definition dispose_commit ::
  "dispose_world \<Rightarrow> dispose_world \<Rightarrow> dispose_request \<Rightarrow> compact_store \<Rightarrow>
   compact_store \<times> (dispose_error + bool)" where
  \<comment> \<open>as \<open>reopen_commit\<close>; an escalated authority only replays\<close>
  "dispose_commit w locked q st =
     (case validate_dispose_request q of Some e \<Rightarrow> (st, Inl e)
      | None \<Rightarrow>
        (case ct_record st of None \<Rightarrow> (st, Inl DisposeNoAuthority)
         | Some c \<Rightarrow>
           (case plan_disposal w q c of Inl e \<Rightarrow> (st, Inl e)
            | Inr d \<Rightarrow>
              if cs_state (cp_state c) = Escalated then
                (st, if list_ex (replays_disposal d) (elems (cs_dispositions (cp_state c)))
                     then Inr True else Inl DisposeUnmatched)
              else case dispose_result w q c of Inl e \<Rightarrow> (st, Inl e)
              | Inr n \<Rightarrow>
                  let guard_ok = (case dw_captured locked of None \<Rightarrow> False
                        | Some names \<Rightarrow> result_file (dq_order q) (dq_lens q) \<notin> set names) in
                  (case replace (dq_revision q) OpDisposeResult n guard_ok st of
                     (st', None) \<Rightarrow> (st', Inr False)
                   | (st', Some e) \<Rightarrow> (st', Inl (DisposeCommit e))))))"


section \<open>A reopened authority is valid\<close>

definition slot_bound :: "string list \<Rightarrow> bool \<Rightarrow> reopen_slot \<Rightarrow> bool" where
  \<comment> \<open>what \<open>validate_slots\<close> asks of one slot\<close>
  "slot_bound lenses retained t \<longleftrightarrow>
     selects lenses (rs_order t) (rs_lens t) \<and> valid_sha256 (rs_artifact t) \<and> valid_sha256 (rs_result t) \<and>
     (if retained then valid_sha256 (rs_subject t) \<and> valid_sha256 (rs_authority t)
      else rs_subject t = [] \<and> rs_authority t = [] \<or>
        valid_sha256 (rs_subject t) \<and> valid_sha256 (rs_authority t))"

lemma validate_slots_ok:
  assumes "\<forall>t \<in> set ts. slot_bound lenses retained t" "distinct (map rs_order ts)"
    "rs_order ` set ts \<inter> set seen = {}"
  shows "validate_slots lenses retained seen ts = Inr (rev (map rs_order ts) @ seen)"
  using assms
proof (induction ts arbitrary: seen)
  case (Cons t ts)
  have "valid_sha256 x \<Longrightarrow> x \<noteq> []" for x by (auto simp: valid_sha256_def)
  then have "\<not> (\<not> retained \<and> ((rs_subject t = []) \<noteq> (rs_authority t = []) \<or>
          rs_subject t \<noteq> [] \<and> (\<not> valid_sha256 (rs_subject t) \<or> \<not> valid_sha256 (rs_authority t))))"
    using Cons.prems(1) by (auto simp: slot_bound_def)
  moreover have "rs_order t \<notin> set seen" "slot_bound lenses retained t" using Cons.prems by auto
  moreover have "validate_slots lenses retained (rs_order t # seen) ts =
      Inr (rev (map rs_order ts) @ rs_order t # seen)"
    using Cons.prems by (intro Cons.IH) auto
  ultimately show ?case by (simp add: slot_bound_def)
qed simp

lemma inspected_slot:
  assumes "inspect_slot w s i lens = Inr (t, trusted)" "i < length lenses" "lenses ! i = lens"
    and "\<forall>r \<in> set (elems (cs_results s)). valid_sha256 (lr_hash r)"
  shows "rs_order t = int i" "slot_bound lenses trusted t" "slot_bound lenses False t"
proof -
  from assms(1) obtain payload digest where r: "i < length (elems (cs_results s))"
    "read_reviewer_artifact w i lens = Some (payload, digest)"
    by (auto simp: inspect_slot_def not_le split: if_splits option.splits)
  then have "valid_sha256 digest"
    by (auto simp: read_reviewer_artifact_def Let_def split: option.splits if_splits)
  moreover have "valid_sha256 (lr_hash (elems (cs_results s) ! i))" using assms(4) r(1) by simp
  ultimately show "rs_order t = int i" "slot_bound lenses trusted t" "slot_bound lenses False t"
    using assms(1-3) r
    by (auto simp: inspect_slot_def slot_bound_def selects_def Let_def
        split: option.splits prod.splits if_splits)
qed

lemma classified_slots:
  assumes "classify_slots w s i ls = Inr (qs, rs)" "drop i lenses = ls"
    and "\<forall>r \<in> set (elems (cs_results s)). valid_sha256 (lr_hash r)"
  shows "(\<forall>t \<in> set qs. slot_bound lenses False t) \<and> (\<forall>t \<in> set rs. slot_bound lenses True t) \<and>
    distinct (map rs_order (qs @ rs)) \<and> rs_order ` set (qs @ rs) = {int i..<int i + int (length ls)}"
  using assms(1,2)
proof (induction ls arbitrary: i qs rs)
  case (Cons lens ls)
  from Cons.prems(1) obtain t trusted qs' rs' where
    t: "inspect_slot w s i lens = Inr (t, trusted)" "classify_slots w s (Suc i) ls = Inr (qs', rs')" and
    out: "qs = t # qs' \<and> rs = rs' \<or> trusted \<and> qs = qs' \<and> rs = t # rs'"
    by (auto split: sum.splits if_splits)
  from Cons.prems(2) have i: "i < length lenses" by (metis drop_all list.distinct(1) not_le)
  with Cons.prems(2) have l: "lenses ! i = lens" "drop (Suc i) lenses = ls"
    by (simp_all add: Cons_nth_drop_Suc [symmetric])
  note slot = inspected_slot [OF t(1) i l(1) assms(3)] and ih = Cons.IH [OF t(2) l(2)]
  have u: "rs_order ` set qs' \<union> rs_order ` set rs' = {int (Suc i)..<int (Suc i) + int (length ls)}"
    using ih by (simp add: image_Un)
  have "int i \<notin> rs_order ` set qs' \<union> rs_order ` set rs'" unfolding u by simp
  then have n: "int i \<notin> rs_order ` set qs'" "int i \<notin> rs_order ` set rs'" by blast+
  have e: "{int i..<int i + int (length (lens # ls))} =
      insert (int i) (rs_order ` set qs' \<union> rs_order ` set rs')" unfolding u by auto
  from out show ?case
  proof (elim disjE conjE)
    assume "qs = t # qs'" "rs = rs'"
    then show ?thesis unfolding e using ih n slot(1,3) by (simp add: image_Un)
  next
    assume "trusted" "qs = qs'" "rs = t # rs'"
    then show ?thesis unfolding e using ih n slot(1,2) by (simp add: image_Un)
  qed
qed simp

lemma reopen_audit_valid:
  assumes "classify_slots w s 0 (elems (cs_lenses s)) = Inr (qs, rs)" "qs \<noteq> []"
    and "\<forall>r \<in> set (elems (cs_results s)). valid_sha256 (lr_hash r)"
    and "valid_sha256 (oq_revision q)" "\<not> blank (oq_reason q)" "\<not> blank (oq_actor q)"
    "\<not> blank (oq_authorization q)" "\<not> zero_time (ow_now w)"
    and "cp_revision c = oq_revision q" "cp_state c = s"
    and "cs_lenses t = cs_lenses s" "cs_initial t = cs_initial s"
  shows "validate_reopen t (reopen_audit w q c qs rs) = None"
proof -
  note c = classified_slots [OF assms(1) drop_0 assms(3)]
  let ?l = "elems (cs_lenses s)"
  have q: "validate_slots ?l False [] qs = Inr (rev (map rs_order qs))"
    using c validate_slots_ok [of qs ?l False "[]"] by simp
  have r: "validate_slots ?l True (rev (map rs_order qs)) rs =
      Inr (rev (map rs_order rs) @ rev (map rs_order qs))"
    using c by (intro validate_slots_ok) auto
  have "length (qs @ rs) = card (rs_order ` set (qs @ rs))"
    using c by (metis distinct_card length_map set_map)
  then have "length qs + length rs = length ?l" using c by simp
  moreover have "elems (append_slice None qs) = qs" "elems (append_slice None rs) = rs" by simp_all
  ultimately show ?thesis
    using assms by (simp add: validate_reopen_def reopen_audit_def q r)
qed

lemma canonical_hash:
  assumes "canonical_compact_lens_result r = Inr r"
  shows "valid_sha256 (lr_hash r)"
proof -
  from assms have "canonical_lens_result r True = Inr r" by (simp add: canonical_compact_lens_result_def)
  then obtain c where "r = c\<lparr>lr_hash := lens_result_hash c\<rparr>"
    unfolding canonical_lens_result_Inr Let_def by blast
  then have "lr_hash r = lens_result_hash c" by (metis lens_result.select_convs(4) lens_result.surjective lens_result.update_convs(4))
  then show ?thesis by (simp add: lens_result_hash_def)
qed

lemma validate_results_canonical:
  "validate_results ls rs \<Longrightarrow> r \<in> set rs \<Longrightarrow> canonical_compact_lens_result r = Inr r"
  by (induction ls rs rule: validate_results.induct) auto

lemma reopenable_uncorrected:
  assumes "compact_validate s = None" "reopenable s"
  shows "cs_cumulative s = 0" "recovered_from s = None"
proof -
  from assms have cc: "validate_compact_correction s = None"
    by (simp add: reopenable_def validate_not_invalidated plain_parts body_parts)
  show rec: "recovered_from s = None"
  proof (rule ccontr)
    assume "recovered_from s \<noteq> None"
    then obtain x y where "recovered_from s = Some (x, y)" by auto
    with cc assms(2) show False
      by (auto simp: validate_compact_correction_def validate_recovered_correction_def reopenable_def Let_def)
  qed
  show "cs_cumulative s = 0"
    using cc rec assms(2) by (simp add: validate_compact_correction_def validate_ordinary_correction_def
        validate_attempts_def reopenable_def)
qed

lemma reopened_valid:
  assumes v: "compact_validate s = None" and r: "reopenable s" and i: "cs_invalidation s = []"
    and audit: "validate_reopen (reopened_state a s) a = None"
  shows "compact_validate (reopened_state a s) = None"
proof -
  let ?t = "reopened_state a s"
  have st: "cs_state s = Validating" using r by (simp add: reopenable_def)
  from v st have h: "validate_header s = None" and b: "validate_body s = None"
    by (simp_all add: validate_not_invalidated plain_parts)
  then have sc: "validate_scope s = None" by (simp add: body_parts)
  have f: "cs_lenses ?t = cs_lenses s" "cs_initial ?t = cs_initial s"
    "frozen_scope ?t = frozen_scope s" "cs_current ?t = cs_current s" "cs_recovery ?t = cs_recovery s"
    by (simp_all add: reopened_state_def cleared_review_def frozen_scope_def)
  note u = reopenable_uncorrected [OF v r]
  have "validate_reopens ?t = None"
  proof -
    have "validate_reopen ?t = validate_reopen s" unfolding validate_reopen_def f ..
    moreover have "elems (cs_reopens ?t) = elems (cs_reopens s) @ [a]"
      by (simp add: reopened_state_def)
    ultimately show ?thesis
      using h audit by (auto simp: validate_reopens_def validate_header_def first_err_None_iff)
  qed
  moreover have "validate_recovery ?t = validate_recovery s"
    using f(3,4) by (intro ext validate_recovery_cong) (simp_all add: frozen_scope_def)
  moreover have d: "elems (cs_dispositions s) = []" "cs_invalidation_evidence s = None"
    using header_dispositions [OF h] validate_header_evidence [OF h] st by simp_all
  ultimately have "validate_header ?t = None"
    using h by (auto simp: validate_header_def validate_dispositions_def reopened_state_def
        cleared_review_def split: option.splits)
  moreover have "validate_scope ?t = None"
    using sc by (auto simp: validate_scope_def validate_compact_findings_def reopened_state_def
        cleared_review_def empty_fix_delta_hash_def)
  moreover have "validate_compact_correction ?t = None"
  proof -
    have "recovered_from ?t = None"
      using u(2) by (simp add: recovered_from_def reopened_state_def cleared_review_def)
    then show ?thesis using r u(1)
      by (simp add: validate_compact_correction_def validate_ordinary_correction_def validate_attempts_def
          correction_returns_early_def correction_output_def validate_uncorrected_def
          reopenable_def reopened_state_def cleared_review_def)
  qed
  moreover have "validate_state_data Reviewing ?t = None"
    using i r by (simp add: reopened_state_def cleared_review_def reopenable_def)
  moreover have "cs_state ?t = Reviewing" "cs_proposed ?t = None" "cs_actual ?t = None"
    by (simp_all add: reopened_state_def cleared_review_def)
  ultimately show ?thesis by (simp add: validate_not_invalidated plain_parts body_parts)
qed

lemma reopen_results_ok:
  assumes "reopen_results w q c = Inr (qs, rs, t)"
  shows "t = reopened_state (reopen_audit w q c qs rs) (cp_state c)" "reopenable (cp_state c)"
    "cp_revision c = oq_revision q" "sn_identity (cs_initial (cp_state c)) = oq_target q"
    "validate_reopen_request True q = None" "oq_authorization q = request_binding w q qs rs"
    "classify_slots w (cp_state c) 0 (elems (cs_lenses (cp_state c))) = Inr (qs, rs)" "qs \<noteq> []"
  using assms
  by (auto simp: reopen_results_def plan_reopen_def Let_def split: option.splits sum.splits if_splits)

lemma reopening_validates:
  assumes "reopen_results w q c = Inr (qs, rs, t)" "compact_validate (cp_state c) = None"
    and "cs_invalidation (cp_state c) = []" "\<not> zero_time (ow_now w)"
  shows "compact_validate t = None"
proof -
  note o = reopen_results_ok [OF assms(1)]
  let ?s = "cp_state c" and ?a = "reopen_audit w q c qs rs"
  have "cs_state ?s = Validating" using o(2) by (simp add: reopenable_def)
  with assms(2) have "validate_scope ?s = None"
    by (simp add: validate_not_invalidated plain_parts body_parts)
  then have "validate_results (elems (cs_lenses ?s)) (elems (cs_results ?s))"
    by (simp add: validate_scope_def)
  then have h: "\<forall>r \<in> set (elems (cs_results ?s)). valid_sha256 (lr_hash r)"
    using canonical_hash validate_results_canonical by blast
  have "validate_reopen (reopened_state ?a ?s) ?a = None"
    using o(3,5) assms(4)
    by (intro reopen_audit_valid [OF o(7,8) h])
      (auto simp: validate_reopen_request_def reopened_state_def cleared_review_def)
  then show ?thesis unfolding o(1) by (rule reopened_valid [OF assms(2) o(2) assms(3)])
qed

section \<open>The store accepts both\<close>

lemma reopen_successor:
  assumes "reopen_results w q c = Inr (qs, rs, t)"
  shows "validate_compact_successor (cp_revision c) (cp_state c) t OpReopenResults = None"
proof -
  note o = reopen_results_ok [OF assms]
  have "same_scope (cp_state c) t" by (simp add: o(1) reopened_state_def cleared_review_def same_scope_def)
  moreover have "(cleared_review (cp_state c))\<lparr>cs_reopens := cs_reopens t\<rparr> = t"
    by (simp add: o(1) reopened_state_def)
  ultimately show ?thesis using o(2)
    by (simp add: validate_compact_successor_def successor_of_reopen_def one_more_def)
      (simp add: o(1) reopened_state_def cleared_review_def reopen_audit_def reopenable_def)
qed

lemma dispose_result_ok:
  assumes "dispose_result w q c = Inr t"
  shows "\<exists>d. t = disposed_state d (cp_state c)" "cs_state (cp_state c) = Reviewing"
    "cp_revision c = dq_revision q"
  using assms
  by (auto simp: dispose_result_def split: option.splits sum.splits if_splits)

lemma dispose_successor:
  assumes "dispose_result w q c = Inr t"
  shows "validate_compact_successor (cp_revision c) (cp_state c) t OpDisposeResult = None"
proof -
  from dispose_result_ok [OF assms] obtain d where t: "t = disposed_state d (cp_state c)"
    and s: "cs_state (cp_state c) = Reviewing" by blast
  then show ?thesis
    by (simp add: validate_compact_successor_def successor_of_disposal_def disposed_state_def same_scope_def)
qed

section \<open>The steps of a review\<close>

inductive review_step :: "compact_state \<Rightarrow> compact_state \<Rightarrow> bool" where
  move: "compact_move s t \<Longrightarrow> review_step s t"
| reopen: "reopen_results w q c = Inr (qs, rs, t) \<Longrightarrow> compact_validate t = None \<Longrightarrow>
    review_step (cp_state c) t"
| dispose: "dispose_result w q c = Inr t \<Longrightarrow> compact_validate t = None \<Longrightarrow>
    review_step (cp_state c) t"

definition reopen_count :: "compact_state \<Rightarrow> nat" where
  "reopen_count s = length (elems (cs_reopens s))"

lemma move_reopens:
  assumes "compact_move s t" "compact_validate s = None"
  shows "cs_reopens t = cs_reopens s"
  using assms(1)
proof cases
  case (review input)
  then show ?thesis using review_frozen(1) [OF _ assms(2)] review_frame_fields(14) by blast
qed (auto simp: op_defs corrected_state_def Let_def)

interpretation review: paced compact_live review_step frozen_scope compact_rank
  "\<lambda>s. 2 * reopen_count s"
proof
  fix s t
  assume l: "compact_live s" and st: "review_step s t"
  have v: "compact_validate s = None" using l by (simp add: compact_live_def)
  show "compact_live t"
    using st
  proof cases
    case move with l show ?thesis using compact.step_valid by blast
  next
    case (reopen w q c qs rs)
    then show ?thesis using reopen_results_ok(1,2) [OF reopen(2)]
      by (simp add: compact_live_def reopenable_def reopened_state_def cleared_review_def)
  next
    case (dispose w q c)
    then show ?thesis using l dispose_result_ok(1) [OF dispose(2)]
      by (auto simp: compact_live_def disposed_state_def)
  qed
  show "frozen_scope t = frozen_scope s"
    using st
  proof cases
    case move then show ?thesis by (rule move_scope [OF _ v])
  next
    case (reopen w q c qs rs)
    then show ?thesis using reopen_results_ok(1) [OF reopen(2)]
      by (simp add: frozen_scope_def reopened_state_def cleared_review_def)
  next
    case (dispose w q c)
    then show ?thesis using dispose_result_ok(1) [OF dispose(2)]
      by (auto simp: frozen_scope_def disposed_state_def)
  qed
  show "compact_rank t + 2 * reopen_count s < compact_rank s + 2 * reopen_count t"
    using st
  proof cases
    case move
    then show ?thesis using move_rank [OF _ v] move_reopens [OF _ v] by (simp add: reopen_count_def)
  next
    case (reopen w q c qs rs)
    then show ?thesis using reopen_results_ok(1,2) [OF reopen(2)]
      by (simp add: compact_rank_def reopen_count_def reopenable_def reopened_state_def cleared_review_def)
  next
    case (dispose w q c)
    then show ?thesis using dispose_result_ok(1,2) [OF dispose(2)]
      by (auto simp: compact_rank_def reopen_count_def disposed_state_def)
  qed
qed

lemma move_run: "compact_move\<^sup>*\<^sup>* s t \<Longrightarrow> review_step\<^sup>*\<^sup>* s t"
  using rtranclp_mono [of compact_move review_step] review_step.move by blast

end
