(* ===== verification/Samples.thy ===== *)
theory Samples
  imports CompactApproval CompactReopen
begin

text \<open>
  A concrete medium-risk review used by the witnesses: one lens, one blocking finding on a line of
  the only reviewed path, its correction, and the approval. Identities stay symbolic: they are the
  very hashes the code computes, and only their well-formedness is used.
\<close>

definition sample_tree :: "char \<Rightarrow> string" where
  "sample_tree c = replicate 40 c"

definition sealed_snapshot :: "snapshot \<Rightarrow> snapshot" where
  \<comment> \<open>digest and identity derived from the other fields\<close>
  "sealed_snapshot s =
     (let d = digest_paths (elems (sn_paths s)) in
      s\<lparr>sn_paths_digest := d,
        sn_identity := snapshot_identity (sn_kind s) (sn_projection s) (sn_base s) (sn_candidate s) d
          (sn_intended_proof s) (elems (sn_intended s)) (elems (sn_ledger_ids s))\<rparr>)"

definition sample_snapshot :: snapshot where
  "sample_snapshot = sealed_snapshot
     \<lparr>sn_kind = CurrentChanges, sn_projection = NoProjection, sn_unborn = False,
      sn_base = sample_tree CHR ''a'', sn_candidate = sample_tree CHR ''b'', sn_paths_digest = [],
      sn_intended = Some [], sn_intended_proof = identity_of [], sn_ledger_ids = None,
      sn_paths = Some [''a.go''], sn_identity = []\<rparr>"

definition sample_start :: start where
  "sample_start =
     \<lparr>st_lineage = ''review-1'', st_mode = OrdinaryBounded, st_generation = 1,
      st_snapshot = sample_snapshot, st_policy = identity_of ''policy'', st_risk = RiskMedium,
      st_lenses = [lens_reliability], st_original_lines = Some 40\<rparr>"

definition sample_state :: compact_state where
  "sample_state = fresh_compact_state sample_start [lens_reliability] 40 20"

definition sample_finding :: finding where
  "sample_finding =
     \<lparr>f_id = ''R3-001'', f_lens = ''reliability'', f_location = ''a.go:7'', f_severity = ''BLOCKER'',
      f_claim = ''x'', f_proof_refs = Some [''t''], f_class = NoClass, f_causality = NoCausality\<rparr>"

definition sample_result :: lens_result where
  "sample_result = (clean_result lens_reliability)\<lparr>lr_findings := Some [sample_finding]\<rparr>"

definition sample_input :: review_input where
  "sample_input =
     \<lparr>ri_results = [sample_result],
      ri_classifications = [\<lparr>fe_finding = ''R3-001'', fe_class = Deterministic,
        fe_causality = Introduced, fe_proof = ''t''\<rparr>],
      ri_refuted = []\<rparr>"

section \<open>The start\<close>

lemma sealed_metadata:
  assumes "is_canonical_paths (elems (sn_paths s))" "is_canonical_paths (elems (sn_intended s))"
    "is_canonical_strings (elems (sn_ledger_ids s))"
  shows "validate_snapshot_metadata (sealed_snapshot s) = None"
  using assms by (simp add: validate_snapshot_metadata_def sealed_snapshot_def Let_def)

lemma sealed_valid:
  assumes "sn_projection s = NoProjection" "sn_kind s \<noteq> NoKind" "valid_git_tree (sn_base s)"
    "valid_git_tree (sn_candidate s)" "valid_sha256 (sn_intended_proof s)"
    "sn_intended s \<noteq> None" "sn_paths s \<noteq> None"
  shows "validate_compact_snapshot (sealed_snapshot s) = None"
  using assms
  by (simp add: validate_compact_snapshot_def validate_snapshot_kinds_def sealed_snapshot_def Let_def
      digest_paths_def snapshot_identity_def)

lemma sample_trees:
  "valid_git_tree (sample_tree CHR ''a'')" "valid_git_tree (sample_tree CHR ''b'')"
  "valid_git_tree (sample_tree CHR ''c'')"
  by code_simp+

lemma sample_paths: "is_canonical_paths [''a.go'']"
  by code_simp

lemma sealed_fields [simp]:
  "sn_kind (sealed_snapshot s) = sn_kind s" "sn_projection (sealed_snapshot s) = sn_projection s"
  "sn_base (sealed_snapshot s) = sn_base s" "sn_candidate (sealed_snapshot s) = sn_candidate s"
  "sn_paths (sealed_snapshot s) = sn_paths s" "sn_intended (sealed_snapshot s) = sn_intended s"
  "sn_ledger_ids (sealed_snapshot s) = sn_ledger_ids s"
  by (simp_all add: sealed_snapshot_def Let_def)

lemma sample_snapshot_valid:
  "validate_compact_snapshot sample_snapshot = None" "validate_snapshot_metadata sample_snapshot = None"
  unfolding sample_snapshot_def
  by (intro sealed_valid sealed_metadata; simp add: sample_trees sample_paths)+

lemma sample_snapshot_fields:
  "sn_kind sample_snapshot = CurrentChanges" "sn_projection sample_snapshot = NoProjection"
  "sn_base sample_snapshot = sample_tree CHR ''a''" "sn_candidate sample_snapshot = sample_tree CHR ''b''"
  "sn_paths sample_snapshot = Some [''a.go'']" "sn_intended sample_snapshot = Some []"
  by (simp_all add: sample_snapshot_def)

lemma sample_lenses:
  "validate_selected_lenses OrdinaryBounded RiskMedium [lens_reliability] = Inr [lens_reliability]"
  by code_simp

lemma sample_lineage: "validate_lineage_id ''review-1'' = None"
  by code_simp

lemma sample_budget: "correction_budget 40 = Inr 20"
  by (simp add: correction_budget_def max_correction_lines_def)

lemmas sample_defs = sample_state_def fresh_compact_state_def sample_start_def

lemma sample_subset: "paths_are_subset [''a.go''] [''a.go''] = None"
  by (simp add: paths_are_subset_def sample_paths)

lemma empty_delta_valid: "valid_sha256 empty_fix_delta_hash"
  by (simp add: empty_fix_delta_hash_def)

lemma sample_state_valid: "compact_validate sample_state = None"
proof -
  have "validate_header sample_state = None"
    by (simp add: validate_header_def sample_defs sample_lineage validate_dispositions_def
        validate_reopens_def)
  moreover have "validate_scope sample_state = None"
    by (simp add: validate_scope_def sample_defs sample_snapshot_valid sample_snapshot_fields
        sample_paths sample_subset sample_lenses sample_budget empty_delta_valid
        validate_compact_findings_def)
  moreover have "validate_compact_correction sample_state = None"
    by (simp add: validate_compact_correction_def recovered_from_def validate_ordinary_correction_def
        validate_attempts_def correction_returns_early_def correction_output_def
        validate_uncorrected_def sample_defs)
  moreover have "cs_state sample_state = Reviewing" "cs_proposed sample_state = None"
    "cs_actual sample_state = None" by (simp_all add: sample_defs)
  moreover have "validate_state_data Reviewing sample_state = None" by (simp add: sample_defs)
  ultimately show ?thesis by (simp add: validate_not_invalidated plain_parts body_parts)
qed

lemma sample_pristine: "compact_pristine_reviewing sample_state"
  by (simp add: compact_pristine_reviewing_def sample_defs)

lemma sample_started: "new_compact_state sample_start = Inr sample_state"
  using sample_state_valid
  by (simp add: new_compact_state_def sample_start_def [unfolded sample_start_def] sample_lineage
      sample_snapshot_valid sample_lenses sample_budget sample_state_def Let_def)
    (simp add: sample_start_def sample_lineage sample_snapshot_valid sample_lenses sample_budget)

section \<open>The review\<close>

lemma sample_trimmed: "trim_finding lens_reliability 0 sample_finding = sample_finding"
  by code_simp

lemma sample_finding_valid: "validate_lens_finding sample_finding True = None"
  by code_simp

lemma sample_canonical:
  "\<exists>c. canonical_inputs [lens_reliability] [sample_result] = Inr [c] \<and> lr_findings c = Some [sample_finding]"
proof -
  have "lens_reliability \<in> set supported_lenses" by code_simp
  note t = trim_solid [OF supported_lens_solid [OF this]] this
  have "canonical_finding lens_reliability True (0, sample_finding) = Inr sample_finding"
    unfolding canonical_finding_Inr by (simp add: sample_trimmed sample_finding_valid) code_simp
  then show ?thesis
    by (simp add: canonical_inputs_def canonical_compact_lens_result_def canonical_lens_result_def
        sample_result_def clean_result_def t canonical_evidence_def read_solid read_concrete Let_def)
qed

lemma sample_location: "finding_location_in_genesis ''a.go:7'' [''a.go'']"
  by code_simp

lemma sample_complete: "complete_evidence sample_input sample_state"
proof -
  obtain c where c: "canonical_inputs [lens_reliability] [sample_result] = Inr [c]"
    "lr_findings c = Some [sample_finding]" using sample_canonical by blast
  have f: "all_findings [c] = [sample_finding]" by (simp add: all_findings_def c(2))
  have "evidence_covers sample_input [''a.go''] [sample_finding]"
    by code_simp
  moreover have "unavailable_result 0 [sample_result] = None"
    by (simp add: sample_result_def clean_result_def read_available)
  ultimately show ?thesis
    using c f by (simp add: complete_evidence_def sample_input_def sample_defs sample_snapshot_fields)
qed

definition sample_reviewed :: compact_state where
  "sample_reviewed = fst (complete_review sample_input sample_state)"

lemma sample_review_ok: "complete_review sample_input sample_state = (sample_reviewed, None)"
  using complete_review_accepted [OF sample_state_valid sample_pristine sample_complete]
  by (simp add: sample_reviewed_def prod_eq_iff)

lemma sample_must_fix: "must_fix sample_input [''a.go''] sample_finding"
  by code_simp

lemma sample_not_open: "\<not> left_open sample_input [''a.go''] sample_finding"
  by code_simp

lemma sample_genesis: "elems (cs_genesis sample_state) = [''a.go'']"
  by (simp add: sample_defs sample_snapshot_fields)

lemma sample_reviewed_facts:
  "compact_validate sample_reviewed = None" "cs_state sample_reviewed = CorrectionRequired"
  "elems (cs_fix_ids sample_reviewed) = [''R3-001'']" "elems (cs_findings sample_reviewed) = [sample_finding]"
  "review_frame sample_reviewed = review_frame sample_state"
proof -
  obtain cs cl refuted where c: "completes sample_input sample_state cs cl refuted"
    "sample_reviewed = reviewed_state cs cl refuted sample_state"
    "canonical_inputs (elems (cs_lenses sample_state)) (ri_results sample_input) = Inr cs"
    "compact_validate sample_reviewed = None" "elems (cs_findings sample_reviewed) = all_findings cs"
    using sample_review_ok sample_state_valid by (rule complete_review_completes)
  obtain d where d: "canonical_inputs [lens_reliability] [sample_result] = Inr [d]"
    "lr_findings d = Some [sample_finding]" using sample_canonical by blast
  have cs: "cs = [d]" using c(3) d(1) by (simp add: sample_defs sample_input_def)
  have f: "all_findings cs = [sample_finding]" by (simp add: cs d(2) all_findings_def)
  show "compact_validate sample_reviewed = None" by (rule c(4))
  show "cs_state sample_reviewed = CorrectionRequired"
    unfolding c(2) completed_state [OF c(1)] f sample_genesis
    by (simp add: sample_must_fix sample_not_open)
  show "elems (cs_fix_ids sample_reviewed) = [''R3-001'']"
    unfolding c(2) completed_fix_ids [OF c(1)] f sample_genesis
    by (simp add: sample_must_fix) (simp add: sample_finding_def)
  show "elems (cs_findings sample_reviewed) = [sample_finding]" using c(5) f by simp
  show "review_frame sample_reviewed = review_frame sample_state" unfolding c(2) by (rule reviewed_frame)
qed

lemma sample_reviewed_fields:
  "cs_proposed sample_reviewed = None" "elems (cs_attempts sample_reviewed) = []"
  "cs_current sample_reviewed = sample_snapshot" "cs_initial sample_reviewed = sample_snapshot"
  "elems (cs_genesis sample_reviewed) = [''a.go'']" "cs_budget sample_reviewed = 20"
  "cs_recovery sample_reviewed = None"
  using review_frame_fields [OF sample_reviewed_facts(5)] sample_genesis
  by (simp_all add: sample_defs frozen_scope_def sample_snapshot_fields)

section \<open>The correction\<close>

definition sample_begun :: compact_state where
  "sample_begun = begun_state 10 sample_reviewed"

lemma sample_begin_ok: "begin_correction 10 sample_reviewed = (sample_begun, None)"
  unfolding sample_begun_def
  by (rule begin_correction_total [OF sample_reviewed_facts(1,2)])
    (simp_all add: sample_reviewed_fields go_int_def int_min_def int_max_def)

lemma sample_begun_facts:
  "compact_validate sample_begun = None" "cs_state sample_begun = CorrectionRequired"
  "cs_proposed sample_begun = Some 10" "elems (cs_attempts sample_begun) = []"
  "cs_current sample_begun = sample_snapshot" "cs_initial sample_begun = sample_snapshot"
  "elems (cs_genesis sample_begun) = [''a.go'']" "elems (cs_fix_ids sample_begun) = [''R3-001'']"
  "cs_recovery sample_begun = None" "cs_budget sample_begun = 20"
  using sample_begin_ok
  by (simp_all add: begin_correction_ok)
    (simp_all add: sample_begun_def begun_state_def sample_reviewed_fields sample_reviewed_facts)

definition sample_fix_snapshot :: snapshot where
  "sample_fix_snapshot = sealed_snapshot
     \<lparr>sn_kind = FixDiff, sn_projection = NoProjection, sn_unborn = False,
      sn_base = sample_tree CHR ''b'', sn_candidate = sample_tree CHR ''c'', sn_paths_digest = [],
      sn_intended = Some [], sn_intended_proof = identity_of [], sn_ledger_ids = Some [''R3-001''],
      sn_paths = Some [''a.go''], sn_identity = []\<rparr>"

definition sample_check :: validation_check where
  "sample_check = \<lparr>vc_evidence = identity_of ''checked'',
     vc_fix_delta = fix_delta_hash sample_fix_snapshot, vc_passed = True\<rparr>"

definition sample_validation :: scoped_validation where
  "sample_validation =
     \<lparr>sv_ledger_ids = [''R3-001''], sv_approved = True, sv_fix_caused = None,
      sv_original = sample_check, sv_regression = sample_check, sv_follow_ups = Some [],
      sv_request_hash = identity_of ''request'', sv_target_identity = sn_identity sample_fix_snapshot\<rparr>"

lemma sample_ids_canonical: "is_canonical_strings [''R3-001'']"
  by code_simp

lemma sample_distinct_trees: "sample_tree CHR ''c'' \<noteq> sample_tree CHR ''b''"
  by code_simp

lemma sealed_identity: "valid_sha256 (sn_identity (sealed_snapshot s))"
  by (simp add: sealed_snapshot_def snapshot_identity_def Let_def)

lemma sealed_nonempty: "sn_identity (sealed_snapshot s) \<noteq> []"
  using sealed_identity [of s] by (auto simp: valid_sha256_def)

lemma sample_fits: "correction_fits sample_fix_snapshot sample_validation sample_begun"
proof -
  have "validate_compact_snapshot sample_fix_snapshot = None"
    "validate_snapshot_metadata sample_fix_snapshot = None"
    unfolding sample_fix_snapshot_def
    by (intro sealed_valid sealed_metadata;
        simp add: sample_trees sample_paths sample_ids_canonical)+
  moreover have "valid_sha256 (sn_identity sample_fix_snapshot)" "sn_identity sample_fix_snapshot \<noteq> []"
    unfolding sample_fix_snapshot_def by (rule sealed_identity sealed_nonempty)+
  ultimately show ?thesis
    by (simp add: correction_fits_def sample_begun_facts sample_validation_def sample_subset
        sample_snapshot_fields validate_targeted_validation_def sample_check_def identity_nonempty)
      (simp add: sample_fix_snapshot_def sample_distinct_trees sample_subset)
qed

definition sample_corrected :: compact_state where
  "sample_corrected = corrected_state sample_fix_snapshot 10 8 sample_validation sample_begun"

lemma sample_correct_ok:
  "complete_correction sample_fix_snapshot 8 sample_validation sample_begun = (sample_corrected, None)"
  unfolding sample_corrected_def
  by (rule complete_correction_total [OF sample_begun_facts(1,2,4,3) sample_fits])
    (simp_all add: sample_begun_facts go_int_def int_min_def int_max_def)

lemma sample_corrected_facts:
  "compact_validate sample_corrected = None" "cs_state sample_corrected = Validating"
  "elems (cs_fix_ids sample_corrected) = [''R3-001'']"
proof -
  show "compact_validate sample_corrected = None"
    using sample_correct_ok unfolding complete_correction_ok by simp
  show "cs_state sample_corrected = Validating"
    unfolding sample_corrected_def
    by (subst corrected_kind)
      (simp_all add: uncorrected_required(2) [OF sample_begun_facts(1,2,4)] go_int_def int_min_def
        int_max_def sample_begun_facts sample_validation_def sample_check_def)
  show "elems (cs_fix_ids sample_corrected) = [''R3-001'']"
    by (simp add: sample_corrected_def corrected_fields sample_begun_facts)
qed

section \<open>The approval\<close>

definition sample_approved :: compact_state where
  "sample_approved = verified_state ''evidence'' True sample_corrected"

lemma sample_verify_ok:
  "complete_verification ''evidence'' True sample_corrected = (sample_approved, None)"
  unfolding sample_approved_def
  by (rule complete_verification_total [OF sample_corrected_facts(1,2)]) simp

lemma sample_approved_facts:
  "compact_validate sample_approved = None" "cs_state sample_approved = Approved"
  "elems (cs_fix_ids sample_approved) = [''R3-001'']"
  using sample_verify_ok
  by (simp_all add: complete_verification_ok)
    (simp_all add: sample_approved_def verified_state_def sample_corrected_facts)

lemma sample_run: "compact_move\<^sup>*\<^sup>* sample_state sample_approved"
proof -
  have "compact_move sample_state sample_reviewed" using sample_review_ok by (rule review)
  moreover have "compact_move sample_reviewed sample_begun" using sample_begin_ok by (rule begin_fix)
  moreover have "compact_move sample_begun sample_corrected" using sample_correct_ok by (rule complete_fix)
  moreover have "compact_move sample_corrected sample_approved"
    using sample_verify_ok by (rule verification)
  ultimately show ?thesis by (meson converse_rtranclp_into_rtranclp rtranclp.rtrancl_refl)
qed

section \<open>Reopening the results\<close>

lemma identity_solid: "solid_ends (identity_of p)"
proof -
  have ne: "sha256_hex p \<noteq> []" using length_sha256_hex [of p] by (metis list.size(3) zero_neq_numeral)
  have "is_lower_hex (last (sha256_hex p))"
    using sha256_hex_lower_hex [of p] last_in_set [OF ne] by (simp add: list_all_iff)
  with ne show ?thesis
    by (auto simp: solid_ends_def identity_of_def is_lower_hex_def is_digit_def between_def byte_def)
qed

definition sample_world :: reopen_world where
  \<comment> \<open>every artifact is readable and none is an admitted envelope\<close>
  "sample_world =
     \<lparr>ow_root = ''repo'', ow_receipt = False, ow_frozen = (\<lambda>_. True),
      ow_artifact = (\<lambda>i lens. Some (''raw'', Some (identity_of ''raw''))),
      ow_admitted = (\<lambda>s payload i lens. None), ow_now = ''2026-01-03T00:00:00Z''\<rparr>"

definition sample_slot :: "compact_state \<Rightarrow> nat \<Rightarrow> string \<Rightarrow> reopen_slot" where
  "sample_slot s i lens =
     \<lparr>rs_lens = lens, rs_order = int i, rs_artifact = identity_of ''raw'',
      rs_result = lr_hash (elems (cs_results s) ! i), rs_subject = [], rs_authority = []\<rparr>"

definition sample_slots :: "compact_state \<Rightarrow> reopen_slot list" where
  "sample_slots s = map (\<lambda>(i, lens). sample_slot s i lens) (enumerate 0 (elems (cs_lenses s)))"

definition sample_question :: "compact_state \<Rightarrow> reopen_request" where
  "sample_question s =
     \<lparr>oq_lineage = cs_lineage s, oq_revision = compact_revision s,
      oq_target = sn_identity (cs_initial s), oq_reason = ''stale'', oq_actor = ''ana'',
      oq_authorization = [], oq_at = ''2026-01-02T00:00:00Z''\<rparr>"

definition sample_reopening :: "compact_state \<Rightarrow> reopen_request" where
  \<comment> \<open>the request with the authorization that quarantining every result needs\<close>
  "sample_reopening s =
     (sample_question s)\<lparr>oq_authorization :=
        request_binding sample_world (sample_question s) (sample_slots s) []\<rparr>"

definition sample_reopened :: "compact_state \<Rightarrow> compact_state" where
  "sample_reopened s =
     reopened_state (reopen_audit sample_world (sample_reopening s) (compact_record_of s)
       (sample_slots s) []) s"

lemma sample_classified:
  assumes "i + length ls \<le> length (elems (cs_results s))"
  shows "classify_slots sample_world s i ls =
    Inr (map (\<lambda>(i, lens). sample_slot s i lens) (enumerate i ls), [])"
  using assms
proof (induction ls arbitrary: i)
  case (Cons lens ls)
  have "read_reviewer_artifact sample_world i lens = Some (''raw'', identity_of ''raw'')"
    by (simp add: read_reviewer_artifact_def sample_world_def trim_solid [OF identity_solid])
  then have "inspect_slot sample_world s i lens = Inr (sample_slot s i lens, False)"
    using Cons.prems by (simp add: inspect_slot_def sample_slot_def) (simp add: sample_world_def)
  with Cons show ?case by simp
qed simp

lemma sample_reopens:
  assumes v: "compact_validate s = None" and r: "reopenable s" and i: "cs_invalidation s = []"
    and l: "elems (cs_lenses s) \<noteq> []" and d: "valid_sha256 (sn_identity (cs_initial s))"
  shows "reopen_results sample_world (sample_reopening s) (compact_record_of s) =
      Inr (sample_slots s, [], sample_reopened s)"
    "compact_validate (sample_reopened s) = None" "compact_pristine_reviewing (sample_reopened s)"
    "reopen_count (sample_reopened s) = Suc (reopen_count s)"
    "frozen_scope (sample_reopened s) = frozen_scope s"
proof -
  have st: "cs_state s = Validating" using r by (simp add: reopenable_def)
  have h: "validate_header s = None" and b: "validate_body s = None"
    using v st by (simp_all add: validate_not_invalidated plain_parts)
  then have n: "length (elems (cs_results s)) = length (elems (cs_lenses s))"
    and lin: "validate_lineage_id (cs_lineage s) = None"
    using st by (simp_all add: body_parts validate_header_def)
  have c: "classify_slots sample_world s 0 (elems (cs_lenses s)) = Inr (sample_slots s, [])"
    using sample_classified [of 0 "elems (cs_lenses s)" s] n by (simp add: sample_slots_def)
  have "length (sample_slots s) = length (elems (cs_lenses s))" by (simp add: sample_slots_def)
  then have ne: "sample_slots s \<noteq> []" using l by fastforce
  have texts: "\<not> blank ''stale''" "\<not> blank ''ana''" by code_simp+
  let ?q = "sample_reopening s"
  have auth: "oq_authorization ?q = request_binding sample_world ?q (sample_slots s) []"
    by (simp add: sample_reopening_def request_binding_def sample_question_def)
  have "solid_ends ''stale''" by (simp add: solid_ends_def between_def byte_def)
  then have tr: "trim_space ''stale'' = ''stale''" by (rule trim_solid)
  have "solid_ends (oq_authorization ?q)"
    by (simp add: auth request_binding_def reopen_authorization_def binding_line_def solid_ends_def
        between_def byte_def) (simp add: sample_reopening_def sample_question_def tr)
  then have "\<not> blank (oq_authorization ?q)" by (auto simp: blank_def solid_ends_def)
  then have "validate_reopen_request True ?q = None"
    using texts lin d by (simp add: validate_reopen_request_def)
      (simp add: sample_reopening_def sample_question_def lin compact_revision_def)
  moreover have "plan_reopen sample_world ?q (compact_record_of s) = Inr (sample_slots s, [])"
    using c ne r by (simp add: plan_reopen_def compact_record_of_def Let_def)
      (simp add: sample_reopening_def sample_question_def sample_world_def)
  ultimately show o: "reopen_results sample_world ?q (compact_record_of s) =
      Inr (sample_slots s, [], sample_reopened s)"
    using auth by (simp add: reopen_results_def sample_reopened_def compact_record_of_def)
  show "compact_validate (sample_reopened s) = None"
    by (rule reopening_validates [OF o])
      (use v i in \<open>simp_all add: compact_record_of_def sample_world_def zero_time_def\<close>)
  have "elems (cs_dispositions s) = []" using header_dispositions [OF h] st by simp
  moreover have "cs_cumulative s = 0" by (rule reopenable_uncorrected [OF v r])
  ultimately show "compact_pristine_reviewing (sample_reopened s)"
    using r i by (simp add: compact_pristine_reviewing_def sample_reopened_def reopened_state_def
        cleared_review_def reopenable_def)
  show "reopen_count (sample_reopened s) = Suc (reopen_count s)"
    "frozen_scope (sample_reopened s) = frozen_scope s"
    by (simp_all add: reopen_count_def sample_reopened_def reopened_state_def cleared_review_def
        frozen_scope_def)
qed

lemma clean_reopenable:
  assumes "compact_validate s = None" "compact_pristine_reviewing s"
    and "complete_review input s = (t, None)" "cs_state t = Validating" "compact_validate t = None"
  shows "reopenable t" "cs_invalidation t = []" "reopen_count t = reopen_count s"
    "frozen_scope t = frozen_scope s"
proof -
  note f = review_frame_fields [OF review_frozen(1) [OF assms(3,1)]]
  have p: "cs_proposed s = None" "cs_actual s = None" "cs_original_check s = None"
    "cs_regression_check s = None" "cs_evidence s = []" "elems (cs_attempts s) = []"
    "cs_fix_delta s = empty_fix_delta_hash" "snapshots_equal (cs_current s) (cs_initial s)"
    "cs_invalidation s = []" "cs_state s = Reviewing"
    using assms(2) by (simp_all add: compact_pristine_reviewing_def)
  note rv = reviewing_valid(15) [OF assms(1) p(10)]
  have i: "cs_initial t = cs_initial s" "cs_recovery t = cs_recovery s"
    using f(1) by (simp_all add: frozen_scope_def)
  have "recovered_from t = None" using rv i by (simp add: recovered_from_def)
  moreover have "validate_compact_correction t = None"
    using assms(4,5) by (simp add: validate_not_invalidated plain_parts body_parts)
  moreover have "\<not> correction_output t" using f p i by (simp add: correction_output_def)
  ultimately have "elems (cs_fix_ids t) = []"
    using assms(4) by (simp add: validate_compact_correction_def validate_ordinary_correction_def
        correction_returns_early_def validate_uncorrected_def)
  then show "reopenable t" using f p i assms(4) by (simp add: reopenable_def)
  show "cs_invalidation t = []" "reopen_count t = reopen_count s" "frozen_scope t = frozen_scope s"
    using f p by (simp_all add: reopen_count_def)
qed

lemma clean_cycle:
  assumes "compact_validate s = None" "compact_pristine_reviewing s"
    and "elems (cs_lenses s) \<noteq> []" "valid_sha256 (sn_identity (cs_initial s))"
  shows "\<exists>t u. complete_review (clean_input (elems (cs_lenses s))) s = (t, None) \<and>
    review_step s t \<and> review_step t u \<and>
    compact_validate u = None \<and> compact_pristine_reviewing u \<and> frozen_scope u = frozen_scope s \<and>
    reopen_count u = Suc (reopen_count s)"
proof -
  from clean_review [OF assms(1,2)] obtain t where
    t: "complete_review (clean_input (elems (cs_lenses s))) s = (t, None)"
      "compact_validate t = None" "cs_state t = Validating" by blast
  note c = clean_reopenable [OF assms(1,2) t(1,3,2)]
  have "elems (cs_lenses t) \<noteq> []" "valid_sha256 (sn_identity (cs_initial t))"
    using c(4) assms(3,4) by (simp_all add: frozen_scope_def)
  note r = sample_reopens [OF t(2) c(1,2) this]
  have "review_step s t" using t(1) by (intro review_step.move compact_move.review)
  moreover have "review_step t (sample_reopened t)"
    using review_step.reopen [OF r(1,2)] by (simp add: compact_record_of_def)
  ultimately show ?thesis using t(1) r c(3,4) by auto
qed

end
