(* ===== verification/CompactProps.thy ===== *)
theory CompactProps
  imports Samples
begin

text \<open>
  The properties of the compact review lifecycle: what a completion decides, what an approval
  guarantees, how long a review can run, and that final verification and receipts always succeed.
\<close>

section \<open>Completing a review\<close>

text \<open>C1: A review with complete evidence is always accepted. On a valid, pristine reviewing
  authority, when every lens result canonicalises, every severe finding has one supported and
  concrete classification and every inferred defect on a reviewed line has a refuter's answer,
  \<^verbatim>\<open>CompleteReview\<close> returns no error and leaves a valid, post-review state.\<close>

theorem review_accepted:
  assumes "compact_validate s = None" "compact_pristine_reviewing s" "complete_evidence input s"
  shows "\<exists>t. complete_review input s = (t, None) \<and> compact_validate t = None \<and>
    cs_state t \<in> {Escalated, CorrectionRequired, Validating}"
proof -
  from complete_review_accepted [OF assms] obtain t where t: "complete_review input s = (t, None)"
    by (metis prod.collapse)
  with complete_review_ok [OF t assms(1)] review_frozen(3) [OF t assms(1)] show ?thesis by metis
qed

theorem review_accepted_witness:
  "\<exists>t. complete_review sample_input sample_state = (t, None) \<and> compact_validate t = None \<and>
    cs_state t \<in> {Escalated, CorrectionRequired, Validating}"
  by (rule review_accepted [OF sample_state_valid sample_pristine sample_complete])

text \<open>C2: A completed review names for correction exactly the severe findings the rule selects:
  those whose classification claims a candidate cause, on a line of a genesis path, proved
  deterministically or inferred and corroborated by the refuter; their ids are stored sorted.\<close>

theorem review_fix_ids:
  assumes "complete_review input s = (t, None)" "compact_validate s = None"
  shows "elems (cs_fix_ids t) =
    sort (map f_id (filter (must_fix input (elems (cs_genesis s))) (elems (cs_findings t))))"
proof -
  from assms obtain cs cl refuted where c: "completes input s cs cl refuted"
    "t = reviewed_state cs cl refuted s" "elems (cs_findings t) = all_findings cs"
    by (rule complete_review_completes)
  from completed_fix_ids [OF c(1)] show ?thesis by (simp only: c(2) c(3) [unfolded c(2)])
qed

theorem review_fix_ids_witness:
  "elems (cs_fix_ids sample_reviewed) = sort (map f_id (filter
     (must_fix sample_input (elems (cs_genesis sample_state))) (elems (cs_findings sample_reviewed))))"
  by (rule review_fix_ids [OF sample_review_ok sample_state_valid])

text \<open>C3: A completed review escalates exactly when some severe finding is left open
  (insufficient evidence, unknown cause, a claimed cause outside the genesis paths, or an
  inconclusive refuter); otherwise it requires correction exactly when some finding must be fixed,
  and goes straight to validation when none does.\<close>

theorem review_outcome:
  assumes "complete_review input s = (t, None)" "compact_validate s = None"
  shows "cs_state t =
    (if \<exists>f \<in> set (elems (cs_findings t)). left_open input (elems (cs_genesis s)) f then Escalated
     else if \<exists>f \<in> set (elems (cs_findings t)). must_fix input (elems (cs_genesis s)) f
     then CorrectionRequired else Validating)"
proof -
  from assms obtain cs cl refuted where c: "completes input s cs cl refuted"
    "t = reviewed_state cs cl refuted s" "elems (cs_findings t) = all_findings cs"
    by (rule complete_review_completes)
  from completed_state [OF c(1)] show ?thesis by (simp only: c(2) c(3) [unfolded c(2)])
qed

theorem review_outcome_witness:
  "cs_state sample_reviewed =
    (if \<exists>f \<in> set (elems (cs_findings sample_reviewed)).
          left_open sample_input (elems (cs_genesis sample_state)) f then Escalated
     else if \<exists>f \<in> set (elems (cs_findings sample_reviewed)).
          must_fix sample_input (elems (cs_genesis sample_state)) f
     then CorrectionRequired else Validating)"
  by (rule review_outcome [OF sample_review_ok sample_state_valid])

section \<open>Approval\<close>

text \<open>C4: Nothing bypasses correction on the way to approval. In every state reachable from a
  start that is approved, whatever operations were called in between and however often the results
  were reopened, all selected lenses reported, every severe finding was answered (refuted,
  not the candidate's, or named for correction), findings named for correction were corrected with
  both targeted checks passed against the recorded fix delta, the correction stayed within the
  frozen budget of at most 200 lines, and verification evidence is recorded.\<close>

theorem approval_guarantees:
  assumes "new_compact_state st = Inr s" "review_step\<^sup>*\<^sup>* s t" "cs_state t = Approved"
  shows "length (elems (cs_results t)) = length (elems (cs_lenses t)) \<and>
    valid_sha256 (cs_evidence t) \<and>
    (\<forall>f \<in> set (elems (cs_findings t)). is_severe (f_severity f) \<longrightarrow> answered t f) \<and>
    (elems (cs_fix_ids t) \<noteq> [] \<longrightarrow> corrected_and_checked t) \<and>
    (\<forall>a. cs_actual t = Some a \<longrightarrow> a \<le> cs_budget t) \<and> cs_budget t \<le> 200"
proof -
  have "compact_live t"
    using review.run_keeps [OF assms(2)] new_state_live [OF assms(1)] by simp
  then have v: "compact_validate t = None" by (simp add: compact_live_def)
  note p = approved_parts [OF v assms(3)]
  have "correction_budget (cs_original_lines t) = Inr (cs_budget t)"
    using v assms(3) by (simp add: validate_not_invalidated plain_parts body_parts validate_scope_def)
  then have "cs_budget t \<le> 200" by (simp add: correction_budget_bounds)
  with p assms(3) routed_answered [OF p(2)] approved_corrected [OF p(1) assms(3)] show ?thesis by simp
qed

theorem approval_guarantees_witness:
  "length (elems (cs_results sample_approved)) = length (elems (cs_lenses sample_approved)) \<and>
    valid_sha256 (cs_evidence sample_approved) \<and> corrected_and_checked sample_approved \<and>
    cs_budget sample_approved \<le> 200"
  using approval_guarantees [OF sample_started move_run [OF sample_run] sample_approved_facts(2)]
  by (simp add: sample_approved_facts(3))

text \<open>A review whose lenses found nothing reaches approval: completing it with clean results
  validates, and any non-empty evidence then approves it.\<close>

theorem clean_review_approves:
  assumes "compact_validate s = None" "compact_pristine_reviewing s" "evidence \<noteq> []"
  shows "\<exists>t u. complete_review (clean_input (elems (cs_lenses s))) s = (t, None) \<and>
    complete_verification evidence True t = (u, None) \<and> cs_state u = Approved \<and>
    compact_validate u = None"
proof -
  from clean_review [OF assms(1,2)] obtain t where
    t: "complete_review (clean_input (elems (cs_lenses s))) s = (t, None)"
      "compact_validate t = None" "cs_state t = Validating" by blast
  note v = complete_verification_total [OF t(2,3) assms(3), of True]
  have "cs_state (verified_state evidence True t) = Approved" by (simp add: verified_state_def)
  moreover have "compact_validate (verified_state evidence True t) = None" using v by (rule ops_valid)
  ultimately show ?thesis using t(1) v by blast
qed

theorem clean_review_approves_witness:
  "\<exists>t u. complete_review (clean_input (elems (cs_lenses sample_state))) sample_state = (t, None) \<and>
    complete_verification ''ok'' True t = (u, None) \<and> cs_state u = Approved \<and>
    compact_validate u = None"
  by (rule clean_review_approves [OF sample_state_valid sample_pristine]) simp

section \<open>Runs\<close>

text \<open>C5: A review ends, unless its results are reopened again and again. Besides the operations of
  the review, a validating review whose results turn out unusable may be sent back to its reviewers,
  and a reviewing one whose preserved result can never be admitted is escalated. Every reopening
  leaves one audit record in the state; a run of n successful operations, of any kind and in any
  order, ends in a state with at least (n - 5) / 2 of these records. Without a reopening at
  most five operations can succeed after the start, and each reopening allows two more: itself and
  the review that follows it.\<close>

theorem review_run_bounded:
  assumes "new_compact_state st = Inr s" "(review_step ^^ n) s t"
  shows "n \<le> 5 + 2 * length (elems (cs_reopens t))"
proof -
  from new_state_live [OF assms(1)] have l: "compact_live s" "compact_pristine_reviewing s" by simp_all
  have "compact_rank s = 5" using l(2) by (simp add: compact_rank_def compact_pristine_reviewing_def)
  with review.run_paced [OF assms(2) l(1)] show ?thesis by (simp add: reopen_count_def)
qed

theorem review_run_bounded_witness:
  "\<exists>t. (review_step ^^ 4) sample_state t \<and> cs_state t = Approved \<and> length (elems (cs_reopens t)) = 1 \<and>
    4 \<le> 5 + 2 * length (elems (cs_reopens t))"
proof -
  have "elems (cs_lenses sample_state) \<noteq> []" "valid_sha256 (sn_identity (cs_initial sample_state))"
    by (simp_all add: sample_defs sample_snapshot_def sealed_identity)
  from clean_cycle [OF sample_state_valid sample_pristine this] obtain a b where
    ab: "review_step sample_state a" "review_step a b" and
    b: "compact_validate b = None" "compact_pristine_reviewing b"
      "reopen_count b = Suc (reopen_count sample_state)" by blast
  from clean_review [OF b(1,2)] obtain c where
    c: "complete_review (clean_input (elems (cs_lenses b))) b = (c, None)"
      "compact_validate c = None" "cs_state c = Validating" by blast
  let ?d = "verified_state ''ok'' True c"
  have d: "complete_verification ''ok'' True c = (?d, None)"
    by (rule complete_verification_total [OF c(2,3)]) simp
  have "review_step b c" "review_step c ?d"
    using c(1) d by (auto intro: review_step.move compact_move.review compact_move.verification)
  with ab have r: "(review_step ^^ 4) sample_state ?d"
    by (auto simp: numeral_eq_Suc relcompp_apply)
  have "length (elems (cs_reopens ?d)) = 1" "cs_state ?d = Approved"
    using clean_reopenable(3) [OF b(1,2) c(1,3,2)] b(3)
    by (simp_all add: reopen_count_def verified_state_def sample_defs)
  with r review_run_bounded [OF sample_started r] show ?thesis by auto
qed

text \<open>No operation changes what a review is about. Every state a start can reach is valid,
  keeps the lineage, generation, initial snapshot, genesis paths, policy, tier, lenses and budget
  of the start, and has consumed at most one correction.\<close>

theorem review_scope_frozen:
  assumes "new_compact_state st = Inr s" "review_step\<^sup>*\<^sup>* s t"
  shows "compact_validate t = None \<and> frozen_scope t = frozen_scope s \<and>
    cs_initial t = st_snapshot st \<and> cs_policy t = st_policy st \<and>
    length (elems (cs_attempts t)) \<le> 1"
proof -
  note n = new_state_live [OF assms(1)]
  from review.run_keeps [OF assms(2)] n have "compact_live t" "frozen_scope t = frozen_scope s" by simp_all
  with n show ?thesis by (simp add: compact_live_def max_compact_attempts_def frozen_scope_def)
qed

theorem review_scope_frozen_witness:
  "compact_validate sample_approved = None \<and> frozen_scope sample_approved = frozen_scope sample_state \<and>
    cs_initial sample_approved = st_snapshot sample_start \<and>
    cs_policy sample_approved = st_policy sample_start \<and>
    length (elems (cs_attempts sample_approved)) \<le> 1"
  by (rule review_scope_frozen [OF sample_started move_run [OF sample_run]])

section \<open>Correction, verification, receipts\<close>

text \<open>Starting the one correction always succeeds on a valid state that requires it, for any
  positive forecast a 64-bit int can hold, and escalates exactly when the forecast exceeds the
  budget.\<close>

theorem begin_correction_decides:
  assumes "compact_validate s = None" "cs_state s = CorrectionRequired"
    and "elems (cs_attempts s) = []" "cs_proposed s = None" "0 < p" "go_int p"
  shows "\<exists>t. begin_correction p s = (t, None) \<and> compact_validate t = None \<and>
    cs_proposed t = Some p \<and> (cs_state t = Escalated \<longleftrightarrow> p > cs_budget s)"
proof -
  note b = begin_correction_total [OF assms]
  then have "compact_validate (begun_state p s) = None" by (rule ops_valid)
  with b assms(2) show ?thesis by (auto simp: begun_state_def)
qed

theorem begin_correction_decides_witness:
  "\<exists>t. begin_correction 21 sample_reviewed = (t, None) \<and> compact_validate t = None \<and>
    cs_proposed t = Some 21 \<and> (cs_state t = Escalated \<longleftrightarrow> (21::int) > cs_budget sample_reviewed)"
  by (rule begin_correction_decides [OF sample_reviewed_facts(1,2) sample_reviewed_fields(2,1)])
    (simp_all add: go_int_def int_min_def int_max_def)

text \<open>Completing the correction succeeds whenever the correction fits (a fix diff from the
  reviewed candidate, over exactly the causal findings, inside the genesis paths, with bound
  checks), and reaches validation exactly when it stays within the budget and both checks pass.\<close>

lemma complete_correction_decides:
  assumes "compact_validate s = None" "cs_state s = CorrectionRequired"
    and "elems (cs_attempts s) = []" "cs_proposed s = Some p" "cs_recovery s = None"
    and "correction_fits snap v s" "0 \<le> actual" "go_int actual"
  shows "\<exists>t. complete_correction snap actual v s = (t, None) \<and> compact_validate t = None \<and>
    cs_current t = snap \<and> cs_fix_delta t = fix_delta_hash snap \<and>
    cs_state t = (if actual \<le> cs_budget s \<and> vc_passed (sv_original v) \<and> vc_passed (sv_regression v)
                  then Validating else Escalated)"
proof -
  have "complete_correction snap actual v s = (corrected_state snap p actual v s, None)"
    using assms by (intro complete_correction_total) simp_all
  moreover from this have "compact_validate (corrected_state snap p actual v s) = None"
    by (rule ops_valid)
  ultimately show ?thesis
    using corrected_kind [OF uncorrected_required(2) [OF assms(1-3)] assms(8)]
    by (simp add: corrected_fields)
qed

lemma complete_correction_decides_witness:
  "\<exists>t. complete_correction sample_fix_snapshot 30 sample_validation sample_begun = (t, None) \<and>
    compact_validate t = None \<and> cs_current t = sample_fix_snapshot \<and>
    cs_fix_delta t = fix_delta_hash sample_fix_snapshot \<and>
    cs_state t = (if (30::int) \<le> cs_budget sample_begun \<and> vc_passed (sv_original sample_validation) \<and>
                     vc_passed (sv_regression sample_validation) then Validating else Escalated)"
  by (rule complete_correction_decides [OF sample_begun_facts(1,2,4,3,9) sample_fits])
    (simp_all add: go_int_def int_min_def int_max_def)

text \<open>Final verification never fails on a valid validating state: with any non-empty
  evidence it records that evidence's hash and approves or escalates as asked, and nothing else
  changes.\<close>

theorem verification_decides:
  assumes "compact_validate s = None" "cs_state s = Validating" "evidence \<noteq> []"
  shows "complete_verification evidence approved s =
    (s\<lparr>cs_evidence := identity_of evidence, cs_state := (if approved then Approved else Escalated)\<rparr>, None)"
  using complete_verification_total [OF assms] by (simp add: verified_state_def)

theorem verification_decides_witness:
  "complete_verification ''ok'' False sample_corrected =
    (sample_corrected\<lparr>cs_evidence := identity_of ''ok'', cs_state := (if False then Approved else Escalated)\<rparr>, None)"
  by (rule verification_decides [OF sample_corrected_facts(1,2)]) simp

text \<open>An approved state always yields a valid receipt for its final candidate and its
  resolved findings, and a state that is neither approved nor escalated never yields one.\<close>

lemma receipt_for_approval:
  assumes "compact_validate s = None" "cs_state s = Approved"
  shows "\<exists>r. compact_receipt_of s = Inr r \<and> validate_compact_receipt r \<and>
    cr_terminal r = TerminalApproved \<and> cr_final r = sn_candidate (cs_current s) \<and>
    elems (cr_resolved r) = elems (cs_fix_ids s) \<and>
    (\<forall>n. cs_state n \<noteq> Approved \<and> cs_state n \<noteq> Escalated \<longrightarrow> compact_receipt_of n = Inl NotTerminal)"
proof -
  have "terminal_of (cs_state s) = Some TerminalApproved" by (simp add: terminal_of_def assms(2))
  from receipt_exists [OF assms(1) this] escalated_evidence [OF assms] obtain r where
    "compact_receipt_of s = Inr r" "cr_terminal r = TerminalApproved" "validate_compact_receipt r"
    "cr_final r = sn_candidate (cs_current s)" "cr_resolved r = append_slice None (elems (cs_fix_ids s))"
    by blast
  moreover have "\<forall>n. cs_state n \<noteq> Approved \<and> cs_state n \<noteq> Escalated \<longrightarrow> compact_receipt_of n = Inl NotTerminal"
    by (simp add: compact_receipt_of_def terminal_of_def)
  ultimately show ?thesis by auto
qed

lemma receipt_for_approval_witness:
  "\<exists>r. compact_receipt_of sample_approved = Inr r \<and> validate_compact_receipt r \<and>
    cr_terminal r = TerminalApproved \<and> cr_final r = sn_candidate (cs_current sample_approved) \<and>
    elems (cr_resolved r) = [''R3-001''] \<and>
    compact_receipt_of sample_corrected = Inl NotTerminal"
  using receipt_for_approval [OF sample_approved_facts(1,2)]
  by (auto simp: sample_approved_facts(3) sample_corrected_facts(2))

end
