(* ===== verification/StoreProps.thy ===== *)
theory StoreProps
  imports Samples
begin

text \<open>
  The compact authority store: a commit is a compare-and-swap on the stored revision, keeps the
  store sound and the review's scope, accepts every state the operations produce, and never
  rewrites a finished authority. The last section shows what the successor check of a review
  completion leaves open.
\<close>

definition store_sound :: "compact_store \<Rightarrow> bool" where
  \<comment> \<open>the stored record is valid, of the store's lineage, and content addressed; the revision of a
    file of an older build addresses fields the decoded state no longer has\<close>
  "store_sound st \<longleftrightarrow>
     (case ct_record st of None \<Rightarrow> True
      | Some c \<Rightarrow> (cp_historical c \<or> cp_revision c = compact_revision (cp_state c)) \<and> compact_validate (cp_state c) = None \<and>
          (ct_lineage st = [] \<or> cs_lineage (cp_state c) = ct_lineage st))"

lemma replace_cases:
  assumes "replace e op n g st = (st', None)"
  obtains "st' = st" "already_stored st n"
    | "stored_revision st = e" "validate_commit st e op n g = None" "compact_validate n = None"
      "ct_lineage st = [] \<or> cs_lineage n = ct_lineage st"
      "st' = st\<lparr>ct_record := Some (compact_record_of n)\<rparr>" "\<not> already_stored st n" "\<not> historical_store st"
proof -
  from assms have pre: "first_err [guard (operation_blank op) OperationMissing,
      map_option BadNext (compact_validate n),
      guard (ct_lineage st \<noteq> [] \<and> cs_lineage n \<noteq> ct_lineage st) WrongLineage,
      guard (historical_store st) HistoricalReadOnly] = None"
    by (auto simp: replace_def split: option.splits)
  show thesis
  proof (cases "already_stored st n")
    case True with assms pre show thesis by (intro that(1)) (simp_all add: replace_def)
  next
    case False
    with assms pre have c: "validate_commit st e op n g = None"
      "st' = st\<lparr>ct_record := Some (compact_record_of n)\<rparr>"
      by (auto simp: replace_def split: option.splits)
    then have "stored_revision st = e" by (simp add: validate_commit_def)
    with c pre False show thesis by (intro that(2)) simp_all
  qed
qed

lemma replace_error_keeps: "snd (replace e op n g st) \<noteq> None \<Longrightarrow> fst (replace e op n g st) = st"
  by (auto simp: replace_def first_err.simps(2) guard_def split: option.splits if_splits)

lemma same_scope_trans: "same_scope a b \<Longrightarrow> same_scope b c \<Longrightarrow> same_scope a c"
  by (simp add: same_scope_def snapshots_equal_def)

lemma same_scope_refl [simp]: "same_scope a a"
  by (simp add: same_scope_def)

lemma replace_sound:
  assumes "store_sound st"
  shows "store_sound (fst (replace e op n g st))"
proof (cases "snd (replace e op n g st)")
  case (Some err) with assms show ?thesis by (simp add: replace_error_keeps)
next
  case None
  then have "replace e op n g st = (fst (replace e op n g st), None)" by (simp add: prod_eq_iff)
  then show ?thesis
    by (rule replace_cases) (use assms in \<open>simp_all add: store_sound_def compact_record_of_def\<close>)
qed

lemma replace_scope:
  assumes "ct_record st = Some c"
  shows "\<exists>c'. ct_record (fst (replace e op n g st)) = Some c' \<and> same_scope (cp_state c) (cp_state c')"
proof (cases "snd (replace e op n g st)")
  case (Some err) with assms show ?thesis by (simp add: replace_error_keeps)
next
  case None
  then have "replace e op n g st = (fst (replace e op n g st), None)" by (simp add: prod_eq_iff)
  then show ?thesis
  proof (rule replace_cases)
    assume "validate_commit st e op n g = None"
      "fst (replace e op n g st) = st\<lparr>ct_record := Some (compact_record_of n)\<rparr>"
    then show ?thesis using assms
      by (simp add: validate_commit_def validate_compact_successor_def compact_record_of_def)
  qed (use assms in simp)
qed

fun commit_all :: "(string \<times> operation \<times> compact_state \<times> bool) list \<Rightarrow> compact_store \<Rightarrow> compact_store" where
  \<comment> \<open>commit attempts in the order they reach the lock, refused ones included\<close>
  "commit_all [] st = st"
| "commit_all ((e, op, n, g) # cs) st = commit_all cs (fst (replace e op n g st))"

lemma operation_successor_states:
  assumes "validate_compact_successor revision p n op = None"
  shows "cs_state p \<in> {Reviewing, CorrectionRequired, Validating}"
  using assms
  by (cases op)
    (auto simp: validate_compact_successor_def successor_of_invalidate_def successor_of_review_def
      successor_of_begin_fix_def successor_of_complete_fix_def successor_of_disposal_def
      successor_of_reopen_def successor_of_verification_def invalidate_def
      compact_pristine_reviewing_def Let_def split: prod.splits if_splits)

section \<open>Properties\<close>

text \<open>C6: The store never loses an update. Once a commit made from revision r has replaced the
  record, every later commit that still expects r, unless it commits the very state already stored,
  is refused and leaves the store unchanged.\<close>

theorem stale_commit_refused:
  assumes "replace r op1 n1 g1 st = (st1, None)" "\<not> already_stored st n1" "compact_revision n1 \<noteq> r"
    and "\<not> already_stored st1 n2"
  shows "\<exists>err. replace r op2 n2 g2 st1 = (st1, Some err)"
proof -
  from assms(1) have "st1 = st\<lparr>ct_record := Some (compact_record_of n1)\<rparr>"
    by (rule replace_cases) (use assms(2) in simp_all)
  then have "stored_revision st1 \<noteq> r"
    using assms(3) by (simp add: stored_revision_def compact_record_of_def)
  then have "validate_commit st1 r op2 n2 g2 \<noteq> None" by (auto simp: validate_commit_def)
  then have "snd (replace r op2 n2 g2 st1) \<noteq> None"
    using assms(4) by (auto simp: replace_def split: option.splits)
  with replace_error_keeps show ?thesis by (metis not_None_eq prod.collapse)
qed

text \<open>C7: Any sequence of commit attempts keeps the store sound (its record valid, content
  addressed and of the store's lineage), and never changes the lineage, generation, initial
  snapshot, genesis paths, policy, tier, lenses or budget of the review it holds.\<close>

theorem commit_history_sound:
  assumes "store_sound st" "ct_record st = Some c"
  shows "store_sound (commit_all cs st) \<and>
    (\<exists>c'. ct_record (commit_all cs st) = Some c' \<and> same_scope (cp_state c) (cp_state c'))"
  using assms
proof (induction cs st arbitrary: c rule: commit_all.induct)
  case (2 e op n g cs st)
  from replace_scope [OF 2(3)] obtain c1 where
    c1: "ct_record (fst (replace e op n g st)) = Some c1" "same_scope (cp_state c) (cp_state c1)" by blast
  from 2(1) [OF replace_sound [OF 2(2)] c1(1)] c1(2) show ?case by (auto intro: same_scope_trans)
qed auto

text \<open>A finished authority is immutable. When the stored review is approved, escalated or
  invalidated, no commit, whatever its operation and expected revision, changes the store.\<close>

lemma finished_authority_immutable:
  assumes "ct_record st = Some c" "cs_state (cp_state c) \<in> {Approved, Escalated, Invalidated}"
  shows "fst (replace e op n g st) = st"
proof (cases "snd (replace e op n g st)")
  case (Some err) then show ?thesis by (simp add: replace_error_keeps)
next
  case None
  then have "replace e op n g st = (fst (replace e op n g st), None)" by (simp add: prod_eq_iff)
  then show ?thesis
  proof (rule replace_cases)
    assume "validate_commit st e op n g = None"
    then have "validate_compact_successor (cp_revision c) (cp_state c) n op = None"
      using assms(1) by (simp add: validate_commit_def)
    with operation_successor_states assms(2) have False by fastforce
    then show ?thesis ..
  qed
qed

definition performs :: "operation \<Rightarrow> compact_record \<Rightarrow> compact_state \<Rightarrow> bool" where
  \<comment> \<open>an operation on the stored state, under the name its callers commit it with\<close>
  "performs op c t \<longleftrightarrow>
     (op = OpCompleteReview \<and> (\<exists>input. complete_review input (cp_state c) = (t, None)) \<or>
      op = OpInvalidate \<and> (\<exists>reason. invalidate reason (cp_state c) = (t, None)) \<or>
      op = OpBeginFix \<and> (\<exists>p. begin_correction p (cp_state c) = (t, None)) \<or>
      op = OpCompleteFix \<and> (\<exists>snap a v. complete_correction snap a v (cp_state c) = (t, None)) \<or>
      op = OpCompleteVerification \<and> (\<exists>ev ok. complete_verification ev ok (cp_state c) = (t, None)) \<or>
      op = OpReopenResults \<and> compact_validate t = None \<and>
        (\<exists>w q qs rs. reopen_results w q c = Inr (qs, rs, t)) \<or>
      op = OpDisposeResult \<and> compact_validate t = None \<and> (\<exists>w q. dispose_result w q c = Inr t))"

lemma performs_step: "performs op c t \<Longrightarrow> review_step (cp_state c) t"
  unfolding performs_def
  by (blast intro: compact_move.intros review_step.intros)

lemma performs_keeps:
  assumes "performs op c t" "compact_validate (cp_state c) = None"
  shows "compact_validate t = None" "frozen_scope t = frozen_scope (cp_state c)"
proof -
  have "compact_validate t = None \<and> frozen_scope t = frozen_scope (cp_state c)"
    using performs_step [OF assms(1)]
  proof cases
    case move then show ?thesis using move_valid move_scope assms(2) by blast
  next
    case (reopen w q c' qs rs)
    then show ?thesis using reopen_results_ok(1) [OF reopen(2)]
      by (simp add: frozen_scope_def reopened_state_def cleared_review_def)
  next
    case (dispose w q c')
    then show ?thesis using dispose_result_ok(1) [OF dispose(2)]
      by (auto simp: frozen_scope_def disposed_state_def)
  qed
  then show "compact_validate t = None" "frozen_scope t = frozen_scope (cp_state c)" by simp_all
qed

lemma performs_successor:
  assumes "performs op c t" "compact_validate (cp_state c) = None"
  shows "validate_compact_successor (cp_revision c) (cp_state c) t op = None"
proof -
  have "op = OpCompleteFix \<Longrightarrow> cs_follow_ups (cp_state c) \<noteq> None"
  proof -
    assume "op = OpCompleteFix"
    with assms(1) have "cs_state (cp_state c) = CorrectionRequired"
      by (auto simp: performs_def complete_correction_ok)
    with assms(2) show "cs_follow_ups (cp_state c) \<noteq> None"
      by (simp add: validate_not_invalidated plain_parts body_parts validate_scope_def)
  qed
  with assms show ?thesis
    unfolding performs_def
    by (auto intro: review_successor invalidate_successor begin_successor complete_fix_successor
        verification_successor reopen_successor dispose_successor)
qed

definition repository_refusal :: "compact_store \<Rightarrow> operation \<Rightarrow> compact_state \<Rightarrow> evidence_error option" where
  \<comment> \<open>what git answers, for a store that has a repository\<close>
  "repository_refusal st op n =
     (case ct_repo st of None \<Rightarrow> None
      | Some repo \<Rightarrow> validate_repository_evidence repo (ct_record st) n op)"

text \<open>C8: The store accepts what the operations produce, as far as the repository agrees. A
  successful review completion, invalidation, correction start, correction completion, final
  verification, reopening of results or disposal of a result, committed under its own operation name
  from the stored revision and not stored already, becomes the stored record exactly when that is not a
  read-only one of an older build, the evidence git derives for the commit matches, and the guard run
  under the lock agrees. In particular the successor check never refuses it. A refused commit names
  the reason and leaves the store alone.\<close>

theorem operations_commit:
  assumes "store_sound st" "ct_record st = Some c" "performs op c t" "\<not> already_stored st t"
  shows "replace (cp_revision c) op t guard_ok st =
    (if cp_historical c then (st, Some HistoricalReadOnly)
     else case repository_refusal st op t of
       Some e \<Rightarrow> (st, Some (NoEvidenceFor e))
     | None \<Rightarrow> if guard_ok then (st\<lparr>ct_record := Some (compact_record_of t)\<rparr>, None)
               else (st, Some GuardRefused))"
proof -
  from assms(1,2) have v: "compact_validate (cp_state c) = None"
    and l: "ct_lineage st = [] \<or> cs_lineage (cp_state c) = ct_lineage st"
    by (simp_all add: store_sound_def)
  note k = performs_keeps [OF assms(3) v]
  have lin: "cs_lineage t = cs_lineage (cp_state c)" using k(2) by (simp add: frozen_scope_def)
  have "\<not> operation_blank op"
    using assms(3) by (auto simp: performs_def operation_blank_def)
  then have r: "replace (cp_revision c) op t guard_ok st =
      (if cp_historical c then (st, Some HistoricalReadOnly)
       else case validate_commit st (cp_revision c) op t guard_ok of
         Some e \<Rightarrow> (st, Some e) | None \<Rightarrow> (st\<lparr>ct_record := Some (compact_record_of t)\<rparr>, None))"
    using assms(2,4) k(1) l lin
    by (auto simp: replace_def first_err.simps(2) guard_def historical_store_def split: option.splits)
  have "validate_commit st (cp_revision c) op t guard_ok =
      (case repository_refusal st op t of Some e \<Rightarrow> Some (NoEvidenceFor e)
       | None \<Rightarrow> if guard_ok then None else Some GuardRefused)"
    using performs_successor [OF assms(3) v] assms(2)
    by (auto simp: validate_commit_def stored_revision_def repository_refusal_def first_err.simps(2)
        guard_def split: option.splits)
  then show ?thesis unfolding r by (auto split: option.splits)
qed

text \<open>A reopening is done once: repeating the request that reopened an authority replays the
  recorded one, whatever the disk holds by then, and changes nothing.\<close>

lemma reopening_replays:
  assumes "reopen_commit w locked q st = (st', Inr False)"
  shows "reopen_commit w' locked' q st' = (st', Inr True)"
proof -
  from assms obtain c qs rs n g where v: "validate_reopen_request True q = None"
    and o: "reopen_results w q c = Inr (qs, rs, n)" and r: "replace (cp_revision c) OpReopenResults n g st = (st', None)"
    by (auto simp: reopen_commit_def Let_def split: option.splits sum.splits prod.splits if_splits)
  note f = reopen_results_ok [OF o]
  from r obtain c' where c': "ct_record st' = Some c'" "cs_reopens (cp_state c') = cs_reopens n"
  proof (rule replace_cases)
    assume "st' = st" "already_stored st n"
    then show thesis using that
      by (auto simp: already_stored_def compact_state_equal_def normalize_compact_state_def
          split: option.splits dest: arg_cong [where f = cs_reopens])
  qed (use that in \<open>simp add: compact_record_of_def\<close>)
  have "elems (cs_reopens n) = elems (cs_reopens (cp_state c)) @ [reopen_audit w q c qs rs]"
    by (simp add: f(1) reopened_state_def)
  moreover have "replays_reopen q (reopen_audit w q c qs rs)"
    using f(3,4) by (simp add: replays_reopen_def reopen_audit_def)
  ultimately show ?thesis using v c' by (simp add: reopen_commit_def)
qed

section \<open>What a review completion may drop\<close>

definition without_history :: "compact_state \<Rightarrow> compact_state" where
  \<comment> \<open>the same state with its recovery provenance and reopen audit records erased\<close>
  "without_history s = s\<lparr>cs_recovery := None, cs_reopens := None\<rparr>"

lemma without_history_fields:
  "cs_classifications (without_history s) = cs_classifications s"
  "cs_outcomes (without_history s) = cs_outcomes s" "cs_fix_ids (without_history s) = cs_fix_ids s"
  "cs_follow_ups (without_history s) = cs_follow_ups s" "cs_results (without_history s) = cs_results s"
  "cs_lenses (without_history s) = cs_lenses s" "cs_findings (without_history s) = cs_findings s"
  "cs_dispositions (without_history s) = cs_dispositions s" "cs_state (without_history s) = cs_state s"
  "cs_evidence (without_history s) = cs_evidence s" "cs_attempts (without_history s) = cs_attempts s"
  "cs_cumulative (without_history s) = cs_cumulative s" "cs_initial (without_history s) = cs_initial s"
  "cs_current (without_history s) = cs_current s" "cs_budget (without_history s) = cs_budget s"
  "cs_proposed (without_history s) = cs_proposed s" "cs_actual (without_history s) = cs_actual s"
  "cs_fix_delta (without_history s) = cs_fix_delta s"
  "cs_original_check (without_history s) = cs_original_check s"
  "cs_regression_check (without_history s) = cs_regression_check s"
  by (simp_all add: without_history_def)

lemma without_history_findings:
  "validate_compact_findings (without_history s) = validate_compact_findings s"
proof -
  have "route_of (without_history s) = route_of s"
    unfolding route_of_def without_history_fields ..
  then show ?thesis
    unfolding validate_compact_findings_def validate_routing_def without_history_fields by simp
qed

lemma without_history_valid:
  assumes "compact_validate s = None" "cs_state s \<in> {CorrectionRequired, Validating, Escalated}"
    and "recovered_from s = None" "elems (cs_dispositions s) = []"
  shows "compact_validate (without_history s) = None"
proof -
  let ?t = "without_history s"
  from assms(1,2) have h: "validate_header s = None" and b: "validate_body s = None"
    by (auto simp: validate_not_invalidated plain_parts)
  have "validate_header ?t = None"
    using h assms(2,4)
    by (auto simp: validate_header_def without_history_def validate_reopens_def validate_dispositions_def)
  moreover have "validate_scope ?t = None"
    using b without_history_findings [of s]
    by (auto simp: body_parts validate_scope_def without_history_def)
  moreover have "validate_compact_correction ?t = None"
  proof -
    have w: "walk_attempts ?t = walk_attempts s"
      by (intro ext walk_attempts_cong) (simp_all add: without_history_def)
    have "validate_ordinary_correction ?t = validate_ordinary_correction s"
      unfolding validate_ordinary_correction_def validate_attempts_def validate_uncorrected_def
        validate_corrected_def correction_returns_early_def correction_output_def over_budget_def
        w without_history_fields ..
    moreover have "recovered_from ?t = None" by (simp add: without_history_def recovered_from_def)
    ultimately show ?thesis
      using b assms(3) by (simp add: body_parts validate_compact_correction_def)
  qed
  moreover have "validate_state_data (cs_state ?t) ?t = None"
    using b assms(2) by (auto simp: body_parts without_history_def)
  ultimately show ?thesis
    using b assms(2) by (auto simp: validate_not_invalidated plain_parts body_parts without_history_def)
qed

text \<open>C9: The successor check of a review completion freezes neither the recovery provenance nor
  the reopen audit records. A completion leaves both as they were; yet the completed state with both
  erased is itself valid, and the check accepts it as a successor under review/complete-review from
  every valid reviewing state, although the reopen operation exists to append an audit record and
  recovery links a lineage to its predecessor. The witness is a recovered authority whose results
  were reopened once: it has a history, and the history is gone.\<close>

theorem completion_may_drop_history:
  assumes "complete_review input s = (t, None)" "compact_validate s = None"
  shows "cs_recovery t = cs_recovery s \<and> cs_reopens t = cs_reopens s \<and>
    compact_validate (without_history t) = None \<and>
    validate_compact_successor revision s (without_history t) OpCompleteReview = None \<and>
    cs_recovery (without_history t) = None \<and> cs_reopens (without_history t) = None"
proof -
  note r = review_frozen [OF assms] and f = review_frame_fields [OF review_frozen(1) [OF assms]]
  note v = reviewing_valid [OF assms(2) r(2)]
  have rec: "recovered_from t = None" using f(1) v(15) by (simp add: recovered_from_def frozen_scope_def)
  have t: "compact_validate t = None" using complete_review_ok [OF assms] by metis
  have "compact_validate (without_history t) = None"
    using r(3) f(13) v(10) by (intro without_history_valid [OF t _ rec]) auto
  moreover have "same_scope s (without_history t)"
    using f(1) by (simp add: same_scope_def without_history_def frozen_scope_def)
  then have "validate_compact_successor revision s (without_history t) OpCompleteReview = None"
    using r f v
    by (auto simp: validate_compact_successor_def successor_of_review_def without_history_def)
  ultimately show ?thesis using f(1,14) by (simp add: without_history_def frozen_scope_def)
qed

section \<open>Witnesses\<close>

definition sample_store :: compact_store where
  "sample_store = \<lparr>ct_lineage = ''review-1'', ct_repo = None,
     ct_record = Some (compact_record_of sample_state)\<rparr>"

lemma sample_store_sound: "store_sound sample_store"
  by (simp add: store_sound_def sample_store_def compact_record_of_def sample_state_valid)
    (simp add: sample_defs)

lemma sample_not_stored: "cs_state t \<noteq> Reviewing \<Longrightarrow> \<not> already_stored sample_store t"
  by (auto simp: already_stored_def sample_store_def compact_record_of_def compact_state_equal_def
      normalize_compact_state_def sample_defs dest: arg_cong [where f = cs_state])

lemma sample_performs: "performs OpCompleteReview (compact_record_of sample_state) sample_reviewed"
  using sample_review_ok by (auto simp: performs_def compact_record_of_def)

definition agreeing_repository :: repository where
  "agreeing_repository =
     \<lparr>rp_root = ''/repo'', rp_evidence_ok = \<lambda>_. True, rp_risk = \<lambda>_. Some (RiskMedium, 40),
      rp_changed_lines = \<lambda>_. Some 40, rp_location_changed = \<lambda>_ _ _. True, rp_rebuilds = \<lambda>_. True\<rparr>"

theorem commit_history_sound_witness:
  "store_sound (commit_all [(compact_revision sample_state, OpCompleteReview, sample_reviewed, True)] sample_store) \<and>
    (\<exists>c'. ct_record (commit_all [(compact_revision sample_state, OpCompleteReview, sample_reviewed, True)]
        sample_store) = Some c' \<and> same_scope (cp_state (compact_record_of sample_state)) (cp_state c'))"
  by (rule commit_history_sound [OF sample_store_sound]) (simp add: sample_store_def)

theorem operations_commit_witness:
  "replace (compact_revision sample_state) OpCompleteReview sample_reviewed True
     (sample_store\<lparr>ct_repo := Some agreeing_repository\<rparr>) =
    (sample_store\<lparr>ct_repo := Some agreeing_repository, ct_record := Some (compact_record_of sample_reviewed)\<rparr>,
     None)"
proof -
  let ?st = "sample_store\<lparr>ct_repo := Some agreeing_repository\<rparr>" and ?c = "compact_record_of sample_state"
  have r: "ct_record ?st = Some ?c" by (simp add: sample_store_def)
  have "store_sound ?st" using sample_store_sound by (auto simp: store_sound_def split: option.splits)
  moreover have "\<not> already_stored ?st sample_reviewed"
    using sample_not_stored [of sample_reviewed] sample_reviewed_facts(2) by (simp add: already_stored_def)
  ultimately have "replace (cp_revision ?c) OpCompleteReview sample_reviewed True ?st =
      (if cp_historical ?c then (?st, Some HistoricalReadOnly)
       else case repository_refusal ?st OpCompleteReview sample_reviewed of
         Some e \<Rightarrow> (?st, Some (NoEvidenceFor e))
       | None \<Rightarrow> if True then (?st\<lparr>ct_record := Some (compact_record_of sample_reviewed)\<rparr>, None)
                 else (?st, Some GuardRefused))"
    by (intro operations_commit [OF _ r sample_performs])
  moreover have "repository_refusal ?st OpCompleteReview sample_reviewed = None"
    by (simp add: repository_refusal_def validate_repository_evidence_def sample_store_def
        finding_on_changed_line_def sample_reviewed_facts(4) split: option.splits)
      (simp add: agreeing_repository_def)
  ultimately show ?thesis by (simp add: compact_record_of_def)
qed

lemma finished_authority_immutable_witness:
  "fst (replace [] OpCompleteReview sample_state True (sample_store\<lparr>ct_record := Some (compact_record_of sample_approved)\<rparr>)) =
    sample_store\<lparr>ct_record := Some (compact_record_of sample_approved)\<rparr>"
  by (rule finished_authority_immutable [of _ "compact_record_of sample_approved"])
    (simp_all add: compact_record_of_def sample_approved_facts)

definition empty_store :: compact_store where
  "empty_store = \<lparr>ct_lineage = ''review-1'', ct_repo = None, ct_record = None\<rparr>"

lemma sample_start_commits: "replace [] OpStart sample_state True empty_store = (sample_store, None)"
proof -
  have "validate_first sample_state OpStart = None"
    by (simp add: validate_first_def sample_defs sample_snapshot_fields)
  then have "validate_commit empty_store [] OpStart sample_state True = None"
    by (simp add: validate_commit_def empty_store_def stored_revision_def)
  moreover have "cs_lineage sample_state = ''review-1''" by (simp add: sample_defs)
  ultimately show ?thesis
    by (simp add: replace_def sample_state_valid already_stored_def historical_store_def operation_blank_def
        first_err.simps(2) guard_def) (simp add: empty_store_def sample_store_def)
qed

theorem stale_commit_refused_witness:
  "\<exists>err. replace [] OpCompleteReview sample_reviewed True sample_store = (sample_store, Some err)"
proof (rule stale_commit_refused [OF sample_start_commits])
  show "\<not> already_stored empty_store sample_state" by (simp add: already_stored_def empty_store_def)
  have "valid_sha256 (compact_revision sample_state)" by (simp add: compact_revision_def)
  then show "compact_revision sample_state \<noteq> []" by (auto simp: valid_sha256_def)
  show "\<not> already_stored sample_store sample_reviewed"
    by (rule sample_not_stored) (simp add: sample_reviewed_facts)
qed

end
