(* ===== verification/V1State.thy ===== *)
theory V1State
  imports GateContext
begin

text \<open>
  The v1 review transaction of transaction.go: its counters, judge proofs and state record, the
  canonical findings ledger of ledger.go with the hashes bound to it, and \<^verbatim>\<open>NewTransaction\<close>.
  A reader of a persisted transaction sets two unexported legacy flags; they are fields here.
\<close>

datatype v1_error = V1Refused string | V1Transition review_state | V1Budget string | V1Check check_error |
    V1Scope canon_error | V1Release gate_error

abbreviation V1Mode :: v1_error where "V1Mode \<equiv> V1Refused ''mode''"
abbreviation V1Lineage :: v1_error where "V1Lineage \<equiv> V1Refused ''lineage''"
abbreviation V1Generation :: v1_error where "V1Generation \<equiv> V1Refused ''generation''"
abbreviation V1Policy :: v1_error where "V1Policy \<equiv> V1Refused ''policy''"
abbreviation V1NoChangedLines :: v1_error where "V1NoChangedLines \<equiv> V1Refused ''no changed lines''"
abbreviation V1NoReason :: v1_error where "V1NoReason \<equiv> V1Refused ''no reason''"
abbreviation V1NotPristine :: v1_error where "V1NotPristine \<equiv> V1Refused ''not pristine''"
abbreviation V1NoLensLeft :: v1_error where "V1NoLensLeft \<equiv> V1Refused ''no lens left''"
abbreviation V1UnknownLens :: v1_error where "V1UnknownLens \<equiv> V1Refused ''unknown lens''"
abbreviation V1LensUnselected :: v1_error where "V1LensUnselected \<equiv> V1Refused ''lens unselected''"
abbreviation V1LensRepeated :: v1_error where "V1LensRepeated \<equiv> V1Refused ''lens repeated''"
abbreviation V1LensOrder :: v1_error where "V1LensOrder \<equiv> V1Refused ''lens order''"
abbreviation V1LensReused :: v1_error where "V1LensReused \<equiv> V1Refused ''lens reused''"
abbreviation V1JudgeCount :: v1_error where "V1JudgeCount \<equiv> V1Refused ''judge count''"
abbreviation V1JudgeProof :: v1_error where "V1JudgeProof \<equiv> V1Refused ''judge proof''"
abbreviation V1JudgeRepeated :: v1_error where "V1JudgeRepeated \<equiv> V1Refused ''judge repeated''"
abbreviation V1NilFindings :: v1_error where "V1NilFindings \<equiv> V1Refused ''nil findings''"
abbreviation V1Ledger :: v1_error where "V1Ledger \<equiv> V1Refused ''ledger''"
abbreviation V1LensesIncomplete :: v1_error where "V1LensesIncomplete \<equiv> V1Refused ''lenses incomplete''"
abbreviation V1LensMismatch :: v1_error where "V1LensMismatch \<equiv> V1Refused ''lens mismatch''"
abbreviation V1FindingId :: v1_error where "V1FindingId \<equiv> V1Refused ''finding id''"
abbreviation V1FindingRepeated :: v1_error where "V1FindingRepeated \<equiv> V1Refused ''finding repeated''"
abbreviation V1FindingSeverity :: v1_error where "V1FindingSeverity \<equiv> V1Refused ''finding severity''"
abbreviation V1NotSevere :: v1_error where "V1NotSevere \<equiv> V1Refused ''not severe''"
abbreviation V1EvidenceRepeated :: v1_error where "V1EvidenceRepeated \<equiv> V1Refused ''evidence repeated''"
abbreviation V1EvidenceClass :: v1_error where "V1EvidenceClass \<equiv> V1Refused ''evidence class''"
abbreviation V1Causality :: v1_error where "V1Causality \<equiv> V1Refused ''causality''"
abbreviation V1VagueProof :: v1_error where "V1VagueProof \<equiv> V1Refused ''vague proof''"
abbreviation V1Uncovered :: v1_error where "V1Uncovered \<equiv> V1Refused ''uncovered''"
abbreviation V1BatchIncomplete :: v1_error where "V1BatchIncomplete \<equiv> V1Refused ''batch incomplete''"
abbreviation V1BatchRepeated :: v1_error where "V1BatchRepeated \<equiv> V1Refused ''batch repeated''"
abbreviation V1BatchVague :: v1_error where "V1BatchVague \<equiv> V1Refused ''batch vague''"
abbreviation V1BatchOutcome :: v1_error where "V1BatchOutcome \<equiv> V1Refused ''batch outcome''"
abbreviation V1FailedRevision :: v1_error where "V1FailedRevision \<equiv> V1Refused ''failed revision''"
abbreviation V1Forecast :: v1_error where "V1Forecast \<equiv> V1Refused ''forecast''"
abbreviation V1ForecastMode :: v1_error where "V1ForecastMode \<equiv> V1Refused ''forecast mode''"
abbreviation V1FixSnapshot :: v1_error where "V1FixSnapshot \<equiv> V1Refused ''fix snapshot''"
abbreviation V1FixIds :: v1_error where "V1FixIds \<equiv> V1Refused ''fix ids''"
abbreviation V1Actual :: v1_error where "V1Actual \<equiv> V1Refused ''actual''"
abbreviation V1ActualOver :: v1_error where "V1ActualOver \<equiv> V1Refused ''actual over''"
abbreviation V1ActualMode :: v1_error where "V1ActualMode \<equiv> V1Refused ''actual mode''"
abbreviation V1ValidationIds :: v1_error where "V1ValidationIds \<equiv> V1Refused ''validation ids''"
abbreviation V1NilFixCaused :: v1_error where "V1NilFixCaused \<equiv> V1Refused ''nil fix caused''"
abbreviation V1NilFollowUps :: v1_error where "V1NilFollowUps \<equiv> V1Refused ''nil follow ups''"
abbreviation V1OrdinaryFixCaused :: v1_error where "V1OrdinaryFixCaused \<equiv> V1Refused ''ordinary fix caused''"
abbreviation V1FixCausedRepeated :: v1_error where "V1FixCausedRepeated \<equiv> V1Refused ''fix caused repeated''"
abbreviation V1SevereApproved :: v1_error where "V1SevereApproved \<equiv> V1Refused ''severe approved''"
abbreviation V1ReleaseBound :: v1_error where "V1ReleaseBound \<equiv> V1Refused ''release bound''"
abbreviation V1ReleaseTree :: v1_error where "V1ReleaseTree \<equiv> V1Refused ''release tree''"
abbreviation V1EvidenceHash :: v1_error where "V1EvidenceHash \<equiv> V1Refused ''evidence hash''"
abbreviation V1NilMap :: v1_error where "V1NilMap \<equiv> V1Refused ''nil map''"
abbreviation V1Schema :: v1_error where "V1Schema \<equiv> V1Refused ''schema''"
abbreviation V1BudgetFields :: v1_error where "V1BudgetFields \<equiv> V1Refused ''budget fields''"
abbreviation V1Trees :: v1_error where "V1Trees \<equiv> V1Refused ''trees''"
abbreviation V1CoreHashes :: v1_error where "V1CoreHashes \<equiv> V1Refused ''core hashes''"
abbreviation V1BadHash :: v1_error where "V1BadHash \<equiv> V1Refused ''bad hash''"
abbreviation V1NilCollections :: v1_error where "V1NilCollections \<equiv> V1Refused ''nil collections''"
abbreviation V1Genesis :: v1_error where "V1Genesis \<equiv> V1Refused ''genesis''"
abbreviation V1Checks :: v1_error where "V1Checks \<equiv> V1Refused ''checks''"
abbreviation V1Routing :: v1_error where "V1Routing \<equiv> V1Refused ''routing''"
abbreviation V1LedgerUnbound :: v1_error where "V1LedgerUnbound \<equiv> V1Refused ''ledger unbound''"
abbreviation V1Frozen :: v1_error where "V1Frozen \<equiv> V1Refused ''frozen''"
abbreviation V1Counters :: v1_error where "V1Counters \<equiv> V1Refused ''counters''"
abbreviation V1State :: v1_error where "V1State \<equiv> V1Refused ''state''"
abbreviation V1Invalidated :: v1_error where "V1Invalidated \<equiv> V1Refused ''invalidated''"
abbreviation V1Reason :: v1_error where "V1Reason \<equiv> V1Refused ''reason''"
abbreviation V1LensState :: v1_error where "V1LensState \<equiv> V1Refused ''lens state''"
abbreviation V1JudgeState :: v1_error where "V1JudgeState \<equiv> V1Refused ''judge state''"
abbreviation V1FixState :: v1_error where "V1FixState \<equiv> V1Refused ''fix state''"
abbreviation V1Approval :: v1_error where "V1Approval \<equiv> V1Refused ''approval''"

record counters =
  cn_full :: int
  cn_refuter :: int
  cn_fix :: int
  cn_scoped :: int
  cn_final :: int
  cn_rounds :: int
  cn_rejudgments :: int
  cn_judges :: int
  cn_risk :: int
  cn_resilience :: int
  cn_readability :: int
  cn_reliability :: int

definition no_counters :: counters where
  "no_counters = \<lparr>cn_full = 0, cn_refuter = 0, cn_fix = 0, cn_scoped = 0, cn_final = 0,
     cn_rounds = 0, cn_rejudgments = 0, cn_judges = 0, cn_risk = 0, cn_resilience = 0,
     cn_readability = 0, cn_reliability = 0\<rparr>"

record judge_proof =
  jp_judge :: string
  jp_execution :: string
  jp_result :: string
  jp_blind :: bool
  jp_confirmed :: bool

record transaction =
  tx_schema :: string
  tx_lineage :: string
  tx_mode :: mode
  tx_generation :: int
  tx_state :: review_state
  tx_snapshot :: snapshot
  tx_genesis :: "string slice"
  tx_base :: string
  tx_paths_digest :: string
  tx_initial_tree :: string
  tx_final_tree :: string
  tx_fix_delta :: string
  tx_policy :: string
  tx_ledger :: string
  tx_findings_hash :: string
  tx_evidence :: string
  tx_invalidation :: string
  tx_judge_hash :: string
  tx_agreement :: string
  tx_judges :: "judge_proof slice"
  tx_release :: "release_evidence option"
  tx_failed :: string
  tx_counters :: counters
  tx_findings :: "finding slice"
  tx_classifications :: "finding_evidence gomap"
  tx_outcomes :: "outcome gomap"
  tx_fix_ids :: "string slice"
  tx_pending :: "string slice"
  tx_fix_caused :: "finding slice"
  tx_follow_ups :: "follow_up slice"
  tx_original :: "validation_check option"
  tx_regression :: "validation_check option"
  tx_risk :: risk_level
  tx_lenses :: "string slice"
  tx_results :: "lens_result slice"
  tx_original_lines :: "int option"
  tx_budget :: "int option"
  tx_proposed :: "int option"
  tx_actual :: "int option"
  tx_legacy_causality :: bool
  tx_legacy_budget :: bool

definition transaction_schema :: string where
  "transaction_schema = ''gentle-ai.review-transaction/v1''"

section \<open>The canonical ledger\<close>

definition json_ledger_finding :: "finding \<Rightarrow> json" where
  \<comment> \<open>the projection leaves out the admission-only class and causality\<close>
  "json_ledger_finding f = JObj
     (field ''id'' (JStr (f_id f)) @ omit_empty ''lens'' (f_lens f) @
      omit_empty ''location'' (f_location f) @ omit_empty ''severity'' (f_severity f) @
      omit_empty ''claim'' (f_claim f) @ omit_slice ''proof_refs'' JStr (f_proof_refs f))"

definition json_ledger :: "finding list \<Rightarrow> json" where
  "json_ledger fs = JObj
     (field ''schema'' (JStr ''gentle-ai.review-ledger/v1'') @
      field ''findings'' (JArr (map json_ledger_finding fs)))"

definition canonical_ledger :: "finding slice \<Rightarrow> v1_error + string" where
  "canonical_ledger s =
     (case s of None \<Rightarrow> Inl V1NilFindings | Some fs \<Rightarrow> Inr (render (json_ledger fs)))"

definition findings_hash :: "finding slice \<Rightarrow> string" where
  "findings_hash s = domain_identity ''gentle-ai.review-ledger-findings/v1''
     (render (json_slice json_ledger_finding s))"

definition ledger_survives :: "finding list \<Rightarrow> bool" where
  \<comment> \<open>the findings decode from their own ledger: invalid UTF-8 comes back replaced, and an
    empty slice tagged \<open>omitempty\<close> comes back nil\<close>
  "ledger_survives fs \<longleftrightarrow>
     json_utf8 (json_ledger fs) \<and> list_all (\<lambda>f. f_proof_refs f \<noteq> Some []) fs"

definition validate_canonical_ledger ::
  "string \<Rightarrow> finding list \<Rightarrow> string \<Rightarrow> v1_error + string \<times> string" where
  \<comment> \<open>a payload decodes strictly, re-encodes to itself and equals the expected projection exactly
    when it is the expected ledger and that ledger decodes to itself\<close>
  "validate_canonical_ledger payload expected supplied =
     (if payload \<noteq> render (json_ledger expected) \<or> \<not> ledger_survives expected then Inl V1Ledger
      else let h = identity_of payload in
        if supplied \<noteq> [] \<and> supplied \<noteq> h then Inl V1Ledger
        else Inr (h, findings_hash (Some expected)))"

section \<open>Construction\<close>

definition fresh_transaction :: "start \<Rightarrow> transaction" where
  "fresh_transaction st =
     \<lparr>tx_schema = transaction_schema, tx_lineage = st_lineage st, tx_mode = st_mode st,
      tx_generation = st_generation st, tx_state = Unreviewed, tx_snapshot = st_snapshot st,
      tx_genesis = append_slice None (elems (sn_paths (st_snapshot st))),
      tx_base = sn_base (st_snapshot st), tx_paths_digest = sn_paths_digest (st_snapshot st),
      tx_initial_tree = sn_candidate (st_snapshot st), tx_final_tree = sn_candidate (st_snapshot st),
      tx_fix_delta = empty_fix_delta_hash, tx_policy = st_policy st, tx_ledger = [],
      tx_findings_hash = [], tx_evidence = [], tx_invalidation = [], tx_judge_hash = [],
      tx_agreement = [], tx_judges = Some [], tx_release = None, tx_failed = [],
      tx_counters = no_counters, tx_findings = Some [], tx_classifications = Some fmempty,
      tx_outcomes = Some fmempty, tx_fix_ids = Some [], tx_pending = Some [],
      tx_fix_caused = Some [], tx_follow_ups = Some [], tx_original = None, tx_regression = None,
      tx_risk = NoRisk, tx_lenses = None, tx_results = None, tx_original_lines = None,
      tx_budget = None, tx_proposed = None, tx_actual = None,
      tx_legacy_causality = False, tx_legacy_budget = False\<rparr>"

definition new_transaction :: "start \<Rightarrow> v1_error + transaction" where
  "new_transaction st =
     (case validate_lineage_id (st_lineage st) of Some e \<Rightarrow> Inl (V1Check e)
      | None \<Rightarrow>
        if st_mode st \<notin> {Ordinary4R, OrdinaryBounded, JudgmentDay} then Inl V1Mode
        else case validate_selected_lenses (st_mode st) (st_risk st) (st_lenses st) of
          Inl e \<Rightarrow> Inl (V1Check e)
        | Inr lenses \<Rightarrow>
          if st_generation st < 1 then Inl V1Generation
          else case validate_snapshot (st_snapshot st) of Some e \<Rightarrow> Inl (V1Check e)
          | None \<Rightarrow>
            if \<not> valid_sha256 (st_policy st) then Inl V1Policy
            else if st_mode st \<noteq> OrdinaryBounded then Inr (fresh_transaction st)
            else case st_original_lines st of None \<Rightarrow> Inl V1NoChangedLines
            | Some lines \<Rightarrow>
              (case correction_budget lines of Inl e \<Rightarrow> Inl (V1Check e)
               | Inr budget \<Rightarrow> Inr ((fresh_transaction st)
                   \<lparr>tx_risk := st_risk st, tx_lenses := Some lenses, tx_results := Some [],
                    tx_original_lines := Some lines, tx_budget := Some budget\<rparr>)))"

definition new_lineage :: "string \<Rightarrow> start \<Rightarrow> v1_error + transaction" where
  "new_lineage previous st =
     (if validate_lineage_id previous \<noteq> None \<or> st_lineage st = previous then Inl V1Lineage
      else new_transaction st)"

definition has_correction_budget :: "transaction \<Rightarrow> bool" where
  "has_correction_budget t \<longleftrightarrow>
     tx_mode t = OrdinaryBounded \<and> tx_original_lines t \<noteq> None \<and> tx_budget t \<noteq> None"

definition decoded_transaction :: "transaction \<Rightarrow> transaction" where
  \<comment> \<open>\<^verbatim>\<open>UnmarshalJSON\<close>: the legacy flags follow from the persisted fields\<close>
  "decoded_transaction t =
     t\<lparr>tx_legacy_budget := (tx_mode t = OrdinaryBounded \<and> tx_original_lines t = None \<and>
                           tx_budget t = None),
       tx_legacy_causality := (\<exists>e \<in> fmran' (entries (tx_classifications t)). fe_causality e = NoCausality)\<rparr>"

section \<open>Lens executions\<close>

definition lens_executions :: "string \<Rightarrow> counters \<Rightarrow> int" where
  "lens_executions lens c =
     (if lens = lens_risk then cn_risk c else if lens = lens_resilience then cn_resilience c
      else if lens = lens_readability then cn_readability c
      else if lens = lens_reliability then cn_reliability c else 0)"

definition set_lens_counter :: "string \<Rightarrow> int \<Rightarrow> counters \<Rightarrow> counters" where
  "set_lens_counter lens v c =
     (if lens = lens_risk then c\<lparr>cn_risk := v\<rparr>
      else if lens = lens_resilience then c\<lparr>cn_resilience := v\<rparr>
      else if lens = lens_readability then c\<lparr>cn_readability := v\<rparr>
      else if lens = lens_reliability then c\<lparr>cn_reliability := v\<rparr> else c)"

definition has_result_for :: "lens_result list \<Rightarrow> string \<Rightarrow> bool" where
  \<comment> \<open>\<^verbatim>\<open>stringIndexLensResult(results, lens) >= 0\<close>\<close>
  "has_result_for rs lens \<longleftrightarrow> list_ex (\<lambda>r. lr_lens r = lens) rs"

definition same_lens_findings :: "lens_result list \<Rightarrow> finding slice \<Rightarrow> bool" where
  \<comment> \<open>\<^verbatim>\<open>reflectLensFindings\<close> compares encodings; nil encodes as null\<close>
  "same_lens_findings rs fs \<longleftrightarrow>
     render (JArr (map json_finding (concat (map (\<lambda>r. elems (lr_findings r)) rs)))) =
     render (json_slice json_finding fs)"

end
