(* ===== verification/V1Ops.thy ===== *)
theory V1Ops
  imports V1State
begin

text \<open>
  The operations of transaction.go on a \<^verbatim>\<open>*Transaction\<close>, one function per method, from starting
  a review to completing its final verification. A method is a function from the transaction to
  the transaction it leaves behind and the error it returns: an exhausted budget and a failed
  refuter batch escalate and return an error at once.
\<close>

type_synonym v1_step = "transaction \<times> v1_error option"

definition invalid_transition :: "transaction \<Rightarrow> v1_step" where
  "invalid_transition t = (t, Some (V1Transition (tx_state t)))"

definition escalate_budget :: "string \<Rightarrow> transaction \<Rightarrow> v1_step" where
  "escalate_budget name t = (t\<lparr>tx_state := Escalated\<rparr>, Some (V1Budget name))"

definition advance_after_evidence :: "transaction \<Rightarrow> transaction" where
  "advance_after_evidence t =
     t\<lparr>tx_state := (if elems (tx_fix_ids t) \<noteq> [] then FixRequired else ReadyFinalVerification)\<rparr>"

definition add_unique_sorted :: "string list \<Rightarrow> string \<Rightarrow> string list" where
  "add_unique_sorted xs x = (if x \<in> set xs then xs else sort (xs @ [x]))"

definition canonical_ids :: "string list \<Rightarrow> v1_error + string list" where
  \<comment> \<open>\<^verbatim>\<open>canonicalStrings(ids, "ledger id")\<close>\<close>
  "canonical_ids xs = (case canonical_strings xs of Inl e \<Rightarrow> Inl (V1Scope e) | Inr ys \<Rightarrow> Inr ys)"

definition write_outcomes :: "(string \<times> outcome) list \<Rightarrow> transaction \<Rightarrow> v1_step" where
  \<comment> \<open>assignments to the outcome map in place; the first one to a nil map panics\<close>
  "write_outcomes kvs t =
     (if kvs = [] then (t, None)
      else case tx_outcomes t of None \<Rightarrow> (t, Some V1NilMap)
      | Some m \<Rightarrow> (t\<lparr>tx_outcomes := Some (foldl (\<lambda>m (k, v). fmupd k v m) m kvs)\<rparr>, None))"

section \<open>Starting and invalidating\<close>

definition start_review :: "transaction \<Rightarrow> v1_step" where
  "start_review t =
     (if tx_state t \<noteq> Unreviewed then invalid_transition t
      else if tx_mode t = Ordinary4R then
        (if cn_full (tx_counters t) \<ge> 1 then escalate_budget ''full review'' t
         else (t\<lparr>tx_counters := (tx_counters t)\<lparr>cn_full := go_add (cn_full (tx_counters t)) 1\<rparr>,
                tx_state := Reviewing\<rparr>, None))
      else (t\<lparr>tx_state := Reviewing\<rparr>, None))"

definition valid_initial_record :: "string \<Rightarrow> string \<Rightarrow> transaction \<Rightarrow> bool" where
  \<comment> \<open>\<^verbatim>\<open>validInitialStoreRecord\<close>: operation, previous revision, transaction\<close>
  "valid_initial_record operation previous t \<longleftrightarrow>
     operation = ''review/start'' \<and> previous = [] \<and> tx_state t = Reviewing \<and>
     tx_base t = sn_base (tx_snapshot t) \<and> tx_paths_digest t = sn_paths_digest (tx_snapshot t) \<and>
     tx_initial_tree t = sn_candidate (tx_snapshot t) \<and> tx_final_tree t = tx_initial_tree t \<and>
     tx_fix_delta t = empty_fix_delta_hash \<and> tx_ledger t = [] \<and> tx_evidence t = [] \<and>
     tx_judge_hash t = [] \<and> tx_agreement t = [] \<and> tx_release t = None \<and> tx_failed t = [] \<and>
     elems (tx_findings t) = [] \<and> entries (tx_classifications t) = fmempty \<and>
     entries (tx_outcomes t) = fmempty \<and> elems (tx_fix_ids t) = [] \<and> elems (tx_pending t) = [] \<and>
     elems (tx_fix_caused t) = [] \<and> elems (tx_judges t) = [] \<and>
     (case tx_mode t of
        Ordinary4R \<Rightarrow> tx_counters t = no_counters\<lparr>cn_full := 1\<rparr>
      | OrdinaryBounded \<Rightarrow> tx_counters t = no_counters \<and> elems (tx_results t) = []
      | JudgmentDay \<Rightarrow> tx_counters t = no_counters
      | OtherMode _ \<Rightarrow> False)"

definition pristine_snapshot :: "transaction \<Rightarrow> snapshot" where
  \<comment> \<open>what the comparison of \<^verbatim>\<open>pristineReviewing\<close> builds; it never sets the projection\<close>
  "pristine_snapshot t =
     \<lparr>sn_kind = sn_kind (tx_snapshot t), sn_projection = NoProjection, sn_unborn = False,
      sn_base = tx_base t, sn_candidate = tx_initial_tree t, sn_paths_digest = tx_paths_digest t,
      sn_intended = sn_intended (tx_snapshot t),
      sn_intended_proof = sn_intended_proof (tx_snapshot t),
      sn_ledger_ids = sn_ledger_ids (tx_snapshot t), sn_paths = sn_paths (tx_snapshot t),
      sn_identity = sn_identity (tx_snapshot t)\<rparr>"

definition pristine_reviewing :: "transaction \<Rightarrow> bool" where
  "pristine_reviewing t \<longleftrightarrow>
     tx_state t = Reviewing \<and> tx_ledger t = [] \<and> tx_findings_hash t = [] \<and> tx_evidence t = [] \<and>
     tx_judge_hash t = [] \<and> tx_agreement t = [] \<and> tx_release t = None \<and> tx_failed t = [] \<and>
     tx_fix_delta t = empty_fix_delta_hash \<and>
     snapshots_equal (tx_snapshot t) (pristine_snapshot t) \<and> tx_final_tree t = tx_initial_tree t \<and>
     elems (tx_results t) = [] \<and> elems (tx_findings t) = [] \<and>
     entries (tx_classifications t) = fmempty \<and> entries (tx_outcomes t) = fmempty \<and>
     elems (tx_fix_ids t) = [] \<and> elems (tx_pending t) = [] \<and> elems (tx_fix_caused t) = [] \<and>
     elems (tx_follow_ups t) = [] \<and> elems (tx_judges t) = [] \<and> tx_original t = None \<and>
     tx_regression t = None \<and> tx_proposed t = None \<and> tx_actual t = None \<and>
     valid_initial_record ''review/start'' [] t"

definition invalidate_v1 :: "string \<Rightarrow> transaction \<Rightarrow> v1_step" where
  "invalidate_v1 raw t =
     (let reason = trim_space raw in
      if reason = [] then (t, Some V1NoReason)
      else if \<not> pristine_reviewing t then (t, Some V1NotPristine)
      else (t\<lparr>tx_state := Invalidated, tx_invalidation := reason\<rparr>, None))"

section \<open>Lens results and judge proofs\<close>

definition result_lens :: "transaction \<Rightarrow> lens_result \<Rightarrow> v1_error + string" where
  \<comment> \<open>an omitted lens is the next selected one\<close>
  "result_lens t r =
     (let lens = trim_space (lr_lens r); next = length (elems (tx_results t)) in
      if lens \<noteq> [] then Inr lens
      else if next \<ge> length (elems (tx_lenses t)) then Inl V1NoLensLeft
      else Inr (elems (tx_lenses t) ! next))"

definition record_lens_result :: "lens_result \<Rightarrow> transaction \<Rightarrow> v1_step" where
  "record_lens_result raw t =
     (if tx_mode t \<noteq> OrdinaryBounded \<or> tx_state t \<noteq> Reviewing then invalid_transition t
      else case result_lens t raw of Inl e \<Rightarrow> (t, Some e)
      | Inr lens \<Rightarrow>
        if \<not> is_supported_lens lens then (t, Some V1UnknownLens)
        else case index_of (elems (tx_lenses t)) lens of None \<Rightarrow> (t, Some V1LensUnselected)
        | Some i \<Rightarrow>
          if lens_executions lens (tx_counters t) \<noteq> 0 \<or> has_result_for (elems (tx_results t)) lens
          then (t, Some V1LensRepeated)
          else if i \<noteq> length (elems (tx_results t)) then (t, Some V1LensOrder)
          else case validate_lens_result (raw\<lparr>lr_lens := lens\<rparr>) of Inl e \<Rightarrow> (t, Some (V1Check e))
          | Inr c \<Rightarrow>
            if list_ex (\<lambda>r. lr_hash r = lr_hash c) (elems (tx_results t)) then (t, Some V1LensReused)
            else (t\<lparr>tx_results := append_slice (tx_results t) [c],
                    tx_counters := set_lens_counter (lr_lens c) 1 (tx_counters t)\<rparr>, None))"

fun check_judges ::
  "string list \<Rightarrow> string list \<Rightarrow> string list \<Rightarrow> judge_proof list \<Rightarrow> v1_error + string list" where
  \<comment> \<open>the judges, executions and results seen so far; the hashed fields of the rest\<close>
  "check_judges js es rs [] = Inr []"
| "check_judges js es rs (p # ps) =
     (let judge = trim_space (jp_judge p) in
      if judge = [] \<or> \<not> valid_sha256 (jp_execution p) \<or> \<not> valid_sha256 (jp_result p) \<or>
         \<not> jp_blind p \<or> \<not> jp_confirmed p then Inl V1JudgeProof
      else if judge \<in> set js \<or> jp_execution p \<in> set es \<or> jp_result p \<in> set rs
        then Inl V1JudgeRepeated
      else case check_judges (judge # js) (jp_execution p # es) (jp_result p # rs) ps of
        Inl e \<Rightarrow> Inl e
      | Inr vs \<Rightarrow> Inr ([judge, jp_execution p, jp_result p] @ vs))"

definition validate_judge_proofs ::
  "judge_proof list \<Rightarrow> string \<Rightarrow> v1_error + judge_proof list \<times> string" where
  "validate_judge_proofs proofs agreement =
     (if length proofs \<noteq> 2 \<or> \<not> valid_sha256 agreement then Inl V1JudgeCount
      else let sorted_proofs = sort_key jp_judge proofs in
        case check_judges [] [] [] sorted_proofs of Inl e \<Rightarrow> Inl e
        | Inr vs \<Rightarrow> Inr (sorted_proofs,
            domain_identity ''gentle-ai.judgment-day-proof/v1'' (lp_encode (vs @ [agreement]))))"

definition record_judge_proofs :: "judge_proof list \<Rightarrow> string \<Rightarrow> transaction \<Rightarrow> v1_step" where
  "record_judge_proofs proofs agreement t =
     (if tx_mode t \<noteq> JudgmentDay \<or> tx_state t \<noteq> Reviewing then invalid_transition t
      else case validate_judge_proofs proofs agreement of Inl e \<Rightarrow> (t, Some e)
      | Inr (validated, proof_hash) \<Rightarrow>
        (t\<lparr>tx_judges := Some validated, tx_judge_hash := proof_hash, tx_agreement := agreement,
           tx_counters := (tx_counters t)\<lparr>cn_judges := int (length validated)\<rparr>,
           tx_state := JudgesConfirmed\<rparr>, None))"

section \<open>Freezing the findings\<close>

fun check_frozen_ids :: "string list \<Rightarrow> finding list \<Rightarrow> v1_error option" where
  "check_frozen_ids seen [] = None"
| "check_frozen_ids seen (f # fs) =
     (if f_id f = [] then Some V1FindingId
      else if f_id f \<in> set seen then Some V1FindingRepeated
      else if \<not> is_supported_severity (f_severity f) then Some V1FindingSeverity
      else check_frozen_ids (f_id f # seen) fs)"

definition trimmed_ids :: "finding list \<Rightarrow> finding list" where
  "trimmed_ids fs = map (\<lambda>f. f\<lparr>f_id := trim_space (f_id f)\<rparr>) fs"

definition info_outcomes :: "finding list \<Rightarrow> (string \<times> outcome) list" where
  "info_outcomes fs = map (\<lambda>f. (f_id f, Info)) (filter (\<lambda>f. \<not> is_severe (f_severity f)) fs)"

definition freeze_findings :: "finding slice \<Rightarrow> string \<Rightarrow> string \<Rightarrow> transaction \<Rightarrow> v1_step" where
  "freeze_findings findings ledger supplied t =
     (if tx_state t \<noteq> (if tx_mode t = JudgmentDay then JudgesConfirmed else Reviewing)
      then invalid_transition t
      else case findings of None \<Rightarrow> (t, Some V1NilFindings)
      | Some fs \<Rightarrow>
        let validated = trimmed_ids fs in
        case validate_canonical_ledger ledger validated supplied of Inl e \<Rightarrow> (t, Some e)
        | Inr (ledger_hash, hash) \<Rightarrow>
          if tx_mode t = OrdinaryBounded \<and>
             length (elems (tx_results t)) \<noteq> length (elems (tx_lenses t))
          then (t, Some V1LensesIncomplete)
          else if tx_mode t = OrdinaryBounded \<and> \<not> same_lens_findings (elems (tx_results t)) (Some fs)
          then (t, Some V1LensMismatch)
          else case check_frozen_ids [] validated of Some e \<Rightarrow> (t, Some e)
          | None \<Rightarrow>
            (case write_outcomes (info_outcomes validated) (t\<lparr>tx_findings := Some validated\<rparr>) of
               (t', Some e) \<Rightarrow> (t', Some e)
             | (t', None) \<Rightarrow>
               (t'\<lparr>tx_ledger := ledger_hash, tx_findings_hash := hash,
                   tx_state := FindingsFrozen\<rparr>, None)))"

section \<open>Evidence\<close>

record evidence_route =
  rt_claims :: "(string \<times> string \<times> string) list"
  rt_auto_fix :: "string list"

record classified =
  cl_items :: "(string, finding_evidence) fmap"
  cl_outcomes :: "(string, outcome) fmap"
  cl_fix :: "string list"
  cl_pending :: "string list"
  cl_follow_ups :: "follow_up list"
  cl_claims :: "(string \<times> string \<times> string) list"
  cl_auto_fix :: "string list"
  cl_escalate :: bool

definition severe_id_set :: "finding list \<Rightarrow> string list" where
  "severe_id_set fs = remdups (map f_id (filter (\<lambda>f. is_severe (f_severity f)) fs))"

fun collect_evidence ::
  "string list \<Rightarrow> (string, finding_evidence) fmap \<Rightarrow> finding_evidence list \<Rightarrow>
   v1_error + (string, finding_evidence) fmap" where
  "collect_evidence severe m [] = Inr m"
| "collect_evidence severe m (raw # es) =
     (let e = raw\<lparr>fe_finding := trim_space (fe_finding raw)\<rparr> in
      if fe_finding e \<notin> set severe then Inl V1NotSevere
      else if fe_finding e |\<in>| fmdom m then Inl V1EvidenceRepeated
      else if \<not> is_supported_class (fe_class e) then Inl V1EvidenceClass
      else if \<not> is_supported_causality (fe_causality e) then Inl V1Causality
      else if \<not> is_concrete_evidence (fe_proof e) then Inl V1VagueProof
      else collect_evidence severe (fmupd (fe_finding e) e m) es)"

definition send_to_fix :: "string \<Rightarrow> classified \<Rightarrow> classified" where
  "send_to_fix fid a =
     a\<lparr>cl_outcomes := fmupd fid Corroborated (cl_outcomes a),
       cl_fix := add_unique_sorted (cl_fix a) fid, cl_auto_fix := cl_auto_fix a @ [fid]\<rparr>"

definition leave_open :: "string \<Rightarrow> classified \<Rightarrow> classified" where
  "leave_open fid a =
     a\<lparr>cl_outcomes := fmupd fid Inconclusive (cl_outcomes a), cl_escalate := True\<rparr>"

definition classify_item ::
  "transaction \<Rightarrow> finding \<Rightarrow> finding_evidence \<Rightarrow> classified \<Rightarrow> v1_error + classified" where
  \<comment> \<open>the body of the loop of \<^verbatim>\<open>ClassifyEvidence\<close> on one severe finding\<close>
  "classify_item t f e a =
     (let fid = f_id f; a' = a\<lparr>cl_items := fmupd fid e (cl_items a)\<rparr> in
      if fe_causality e = PreExisting \<or> fe_causality e = BaseOnly then
        Inr (a'\<lparr>cl_outcomes := fmupd fid Info (cl_outcomes a'),
                cl_follow_ups := cl_follow_ups a' @ [causal_follow_up f (fe_proof e)]\<rparr>)
      else if fe_causality e = UnknownCause then Inr (leave_open fid a')
      else case fe_class e of
        Deterministic \<Rightarrow> Inr (send_to_fix fid a')
      | Inferential \<Rightarrow>
          if tx_mode t = JudgmentDay then Inr (send_to_fix fid a')
          else Inr (a'\<lparr>cl_pending := cl_pending a' @ [fid],
                 cl_claims := cl_claims a' @ [(fid, sn_identity (tx_snapshot t), fe_proof e)]\<rparr>)
      | Insufficient \<Rightarrow> Inr (leave_open fid a')
      | _ \<Rightarrow> Inl V1EvidenceClass)"

fun classify_findings ::
  "transaction \<Rightarrow> (string, finding_evidence) fmap \<Rightarrow> finding list \<Rightarrow> classified \<Rightarrow>
   v1_error + classified" where
  "classify_findings t m [] a = Inr a"
| "classify_findings t m (f # fs) a =
     (if \<not> is_severe (f_severity f) then classify_findings t m fs a
      else case fmlookup m (f_id f) of None \<Rightarrow> Inl V1Uncovered
      | Some e \<Rightarrow> (case classify_item t f e a of Inl err \<Rightarrow> Inl err
          | Inr a' \<Rightarrow> classify_findings t m fs a'))"

definition unclassified :: "transaction \<Rightarrow> classified" where
  "unclassified t =
     \<lparr>cl_items = entries (tx_classifications t), cl_outcomes = entries (tx_outcomes t),
      cl_fix = elems (tx_fix_ids t), cl_pending = elems (tx_pending t),
      cl_follow_ups = elems (tx_follow_ups t), cl_claims = [], cl_auto_fix = [],
      cl_escalate = False\<rparr>"

definition all_inconclusive :: "string list \<Rightarrow> (string, outcome) fmap \<Rightarrow> (string, outcome) fmap" where
  "all_inconclusive ids m = foldl (\<lambda>m k. fmupd k Inconclusive m) m ids"

definition settle_evidence :: "classified \<Rightarrow> transaction \<Rightarrow> transaction" where
  \<comment> \<open>store the classification, then escalate, wait for the refuter, or advance\<close>
  "settle_evidence a t =
     (let pending = sort (cl_pending a);
          t' = t\<lparr>tx_classifications := Some (cl_items a), tx_outcomes := Some (cl_outcomes a),
                 tx_fix_ids := Some (cl_fix a), tx_pending := Some pending,
                 tx_follow_ups := Some (cl_follow_ups a), tx_state := EvidenceClassified\<rparr>
      in if cl_escalate a then
           t'\<lparr>tx_outcomes := Some (all_inconclusive pending (cl_outcomes a)), tx_pending := Some [],
              tx_state := Escalated\<rparr>
         else if pending = [] then advance_after_evidence t'
         else t')"

definition classify_evidence ::
  "finding_evidence list \<Rightarrow> transaction \<Rightarrow> v1_step \<times> evidence_route" where
  "classify_evidence evidence t =
     (let none = \<lparr>rt_claims = [], rt_auto_fix = []\<rparr>; severe = severe_id_set (elems (tx_findings t)) in
      if tx_state t \<noteq> FindingsFrozen then (invalid_transition t, none)
      else case collect_evidence severe fmempty evidence of Inl e \<Rightarrow> ((t, Some e), none)
      | Inr m \<Rightarrow>
        if fcard (fmdom m) \<noteq> length severe then ((t, Some V1Uncovered), none)
        else case classify_findings t m (elems (tx_findings t)) (unclassified t) of
          Inl e \<Rightarrow> ((t, Some e), none)
        | Inr a \<Rightarrow> ((settle_evidence a t, None),
                   \<lparr>rt_claims = cl_claims a, rt_auto_fix = sort (cl_auto_fix a)\<rparr>))"

section \<open>The refuter batch\<close>

definition fail_refuter_batch :: "v1_error \<Rightarrow> transaction \<Rightarrow> v1_step" where
  "fail_refuter_batch cause t =
     (case write_outcomes (map (\<lambda>k. (k, Inconclusive)) (elems (tx_pending t))) t of
        (t', Some e) \<Rightarrow> (t', Some e)
      | (t', None) \<Rightarrow>
        (t'\<lparr>tx_counters := (tx_counters t')\<lparr>cn_refuter := go_add (cn_refuter (tx_counters t')) 1\<rparr>,
            tx_pending := Some [], tx_state := Escalated\<rparr>, Some cause))"

fun collect_batch ::
  "(string, evidence_result) fmap \<Rightarrow> evidence_result list \<Rightarrow>
   (string, evidence_result) fmap option" where
  "collect_batch m [] = Some m"
| "collect_batch m (r # rs) =
     (if er_finding r |\<in>| fmdom m then None else collect_batch (fmupd (er_finding r) r m) rs)"

fun resolve_pending ::
  "(string, evidence_result) fmap \<Rightarrow> string list \<Rightarrow>
   (string, outcome) fmap \<times> string list \<times> bool \<Rightarrow>
   v1_error + (string, outcome) fmap \<times> string list \<times> bool" where
  \<comment> \<open>outcomes, ids to fix, whether to escalate\<close>
  "resolve_pending m [] acc = Inr acc"
| "resolve_pending m (k # ks) (outs, fx, esc) =
     (case fmlookup m k of None \<Rightarrow> Inl V1BatchVague
      | Some r \<Rightarrow>
        if \<not> is_concrete_evidence (er_proof r) then Inl V1BatchVague
        else case er_outcome r of
          Corroborated \<Rightarrow>
            resolve_pending m ks (fmupd k Corroborated outs, add_unique_sorted fx k, esc)
        | Refuted \<Rightarrow> resolve_pending m ks (fmupd k Refuted outs, fx, esc)
        | Inconclusive \<Rightarrow> resolve_pending m ks (fmupd k Inconclusive outs, fx, True)
        | _ \<Rightarrow> Inl V1BatchOutcome)"

definition apply_refuter_outcomes :: "evidence_result list \<Rightarrow> transaction \<Rightarrow> v1_step" where
  "apply_refuter_outcomes results t =
     (if \<not> is_ordinary_mode (tx_mode t) \<or> tx_state t \<noteq> EvidenceClassified \<or> elems (tx_pending t) = []
      then invalid_transition t
      else if cn_refuter (tx_counters t) \<ge> 1 then escalate_budget ''refuter batch'' t
      else case collect_batch fmempty results of None \<Rightarrow> fail_refuter_batch V1BatchRepeated t
      | Some m \<Rightarrow>
        if fcard (fmdom m) \<noteq> length (elems (tx_pending t)) then fail_refuter_batch V1BatchIncomplete t
        else case resolve_pending m (elems (tx_pending t))
                    (entries (tx_outcomes t), elems (tx_fix_ids t), False) of
          Inl e \<Rightarrow> fail_refuter_batch e t
        | Inr (outs, fx, esc) \<Rightarrow>
          let t' = t\<lparr>tx_outcomes := Some outs, tx_fix_ids := Some fx,
                     tx_counters := (tx_counters t)\<lparr>cn_refuter := go_add (cn_refuter (tx_counters t)) 1\<rparr>,
                     tx_pending := Some []\<rparr>
          in (if esc then t'\<lparr>tx_state := Escalated\<rparr> else advance_after_evidence t', None))"

end
