(* ===== verification/V1Fix.thy ===== *)
theory V1Fix
  imports V1Ops
begin

text \<open>
  The correction and verification half of transaction.go: \<^verbatim>\<open>BeginFix\<close>, \<^verbatim>\<open>CompleteFix\<close>,
  \<^verbatim>\<open>ValidateFixDeltaResult\<close>, the release binding and the final verification. The variadic line
  counts are lists, as the methods receive them.
\<close>

section \<open>The correction\<close>

definition count_fix :: "transaction \<Rightarrow> v1_step" where
  \<comment> \<open>consume the one fix batch of an ordinary review, or one of two Judgment Day rounds\<close>
  "count_fix t =
     (if is_ordinary_mode (tx_mode t) then
        (if cn_fix (tx_counters t) \<ge> 1 then escalate_budget ''fix batch'' t
         else (t\<lparr>tx_counters := (tx_counters t)\<lparr>cn_fix := go_add (cn_fix (tx_counters t)) 1\<rparr>\<rparr>, None))
      else if tx_mode t = JudgmentDay then
        (if cn_rounds (tx_counters t) \<ge> 2 then escalate_budget ''judgment-day fix round'' t
         else (t\<lparr>tx_counters := (tx_counters t)\<lparr>cn_rounds := go_add (cn_rounds (tx_counters t)) 1\<rparr>\<rparr>,
               None))
      else (t, None))"

definition begin_fix_v1 :: "string \<Rightarrow> int list \<Rightarrow> transaction \<Rightarrow> v1_step" where
  "begin_fix_v1 failed forecast t =
     (if tx_state t \<noteq> FixRequired then invalid_transition t
      else if \<not> valid_sha256 failed then (t, Some V1FailedRevision)
      else if has_correction_budget t \<and> \<not> (\<exists>p. forecast = [p] \<and> p > 0) then (t, Some V1Forecast)
      else if has_correction_budget t \<and> hd forecast > the (tx_budget t) then
        (t\<lparr>tx_failed := failed, tx_proposed := Some (hd forecast), tx_state := Escalated\<rparr>, None)
      else if \<not> has_correction_budget t \<and> forecast \<noteq> [] then (t, Some V1ForecastMode)
      else case count_fix t of
        (t', Some e) \<Rightarrow> (t', Some e)
      | (t', None) \<Rightarrow>
        (t'\<lparr>tx_failed := failed,
            tx_proposed := (if has_correction_budget t then Some (hd forecast) else tx_proposed t'),
            tx_state := Fixing\<rparr>, None))"

definition genesis_scope :: "transaction \<Rightarrow> string list" where
  \<comment> \<open>transactions from before the genesis field use the paths of their snapshot\<close>
  "genesis_scope t = (case tx_genesis t of None \<Rightarrow> elems (sn_paths (tx_snapshot t)) | Some ps \<Rightarrow> ps)"

definition complete_fix_v1 :: "snapshot \<Rightarrow> string list \<Rightarrow> int list \<Rightarrow> transaction \<Rightarrow> v1_step" where
  \<comment> \<open>the supplied fix-delta hash is ignored: it is derived from the snapshot\<close>
  "complete_fix_v1 snap ids actual t =
     (if tx_state t \<noteq> Fixing then invalid_transition t
      else case validate_snapshot snap of Some e \<Rightarrow> (t, Some (V1Check e))
      | None \<Rightarrow>
        if sn_kind snap \<noteq> FixDiff \<or> sn_base snap \<noteq> tx_final_tree t then (t, Some V1FixSnapshot)
        else case canonical_ids ids of Inl e \<Rightarrow> (t, Some e)
        | Inr cids \<Rightarrow>
          if cids \<noteq> elems (tx_fix_ids t) \<or> cids \<noteq> elems (sn_ledger_ids snap) then (t, Some V1FixIds)
          else case paths_are_subset (elems (sn_paths snap)) (genesis_scope t) of
            Some e \<Rightarrow> (t, Some (V1Scope e))
          | None \<Rightarrow>
            if has_correction_budget t \<and> \<not> (\<exists>a. actual = [a] \<and> a \<ge> 0) then (t, Some V1Actual)
            else if has_correction_budget t \<and> hd actual > the (tx_budget t) then (t, Some V1ActualOver)
            else if \<not> has_correction_budget t \<and> actual \<noteq> [] then (t, Some V1ActualMode)
            else (t\<lparr>tx_snapshot := snap, tx_final_tree := sn_candidate snap,
                    tx_fix_delta := fix_delta_hash snap,
                    tx_actual := (if has_correction_budget t then Some (hd actual) else tx_actual t),
                    tx_state := FixValidating\<rparr>, None))"

section \<open>Validating the fix delta\<close>

definition legacy_checks :: "scoped_validation \<Rightarrow> transaction \<Rightarrow> bool" where
  \<comment> \<open>both checks carry the fix delta itself as their evidence\<close>
  "legacy_checks v t \<longleftrightarrow>
     vc_evidence (sv_original v) = tx_fix_delta t \<and> vc_evidence (sv_regression v) = tx_fix_delta t"

fun check_fix_caused :: "string list \<Rightarrow> finding list \<Rightarrow> v1_error option" where
  "check_fix_caused seen [] = None"
| "check_fix_caused seen (f # fs) =
     (case validate_structured_finding f of Some e \<Rightarrow> Some (V1Check e)
      | None \<Rightarrow> if f_id f \<in> set seen then Some V1FixCausedRepeated
                else check_fix_caused (f_id f # seen) fs)"

definition severe_findings :: "finding list \<Rightarrow> finding list" where
  "severe_findings fs = filter (\<lambda>f. is_severe (f_severity f)) fs"

definition check_validation_result :: "scoped_validation \<Rightarrow> transaction \<Rightarrow> v1_error option" where
  \<comment> \<open>the checks of \<^verbatim>\<open>ValidateFixDeltaResult\<close> before its first write\<close>
  "check_validation_result v t = first_err
     [(case canonical_ids (sv_ledger_ids v) of Inl e \<Rightarrow> Some e
       | Inr cids \<Rightarrow> guard (cids \<noteq> elems (tx_fix_ids t)) V1ValidationIds),
      (if is_ordinary_mode (tx_mode t) \<and> \<not> legacy_checks v t
       then map_option V1Check (validate_targeted_validation (sv_original v) (sv_regression v)
              (sv_request_hash v) (sv_target_identity v) (tx_fix_delta t))
       else None),
      guard (sv_fix_caused v = None) V1NilFixCaused,
      guard (is_ordinary_mode (tx_mode t) \<and> sv_follow_ups v = None) V1NilFollowUps,
      guard (is_ordinary_mode (tx_mode t) \<and> elems (sv_fix_caused v) \<noteq> []) V1OrdinaryFixCaused,
      map_option V1Check (validate_follow_ups (elems (sv_follow_ups v))),
      check_fix_caused (map f_id (elems (tx_findings t))) (elems (sv_fix_caused v))]"

definition validation_approves :: "scoped_validation \<Rightarrow> transaction \<Rightarrow> bool" where
  "validation_approves v t \<longleftrightarrow>
     (if is_ordinary_mode (tx_mode t)
      then vc_passed (sv_original v) \<and> vc_passed (sv_regression v) else sv_approved v)"

definition keep_checks :: "scoped_validation \<Rightarrow> transaction \<Rightarrow> transaction" where
  "keep_checks v t =
     (if is_ordinary_mode (tx_mode t) \<and> \<not> legacy_checks v t
      then t\<lparr>tx_original := Some (sv_original v), tx_regression := Some (sv_regression v)\<rparr> else t)"

definition keep_observations :: "scoped_validation \<Rightarrow> transaction \<Rightarrow> transaction" where
  "keep_observations v t =
     (let severe = map f_id (severe_findings (elems (sv_fix_caused v))) in
      t\<lparr>tx_fix_caused := append_slice (tx_fix_caused t) (elems (sv_fix_caused v)),
        tx_follow_ups := append_slice (tx_follow_ups t) (elems (sv_follow_ups v)),
        tx_fix_ids := (if tx_mode t = JudgmentDay \<and> severe \<noteq> []
                       then Some (foldl add_unique_sorted (elems (tx_fix_ids t)) severe)
                       else tx_fix_ids t)\<rparr>)"

definition settle_validation :: "bool \<Rightarrow> transaction \<Rightarrow> v1_step" where
  "settle_validation approved t =
     (let c = tx_counters t in
      if is_ordinary_mode (tx_mode t) then
        (if cn_scoped c \<ge> 1 then escalate_budget ''scoped fix validation'' t
         else (t\<lparr>tx_counters := c\<lparr>cn_scoped := go_add (cn_scoped c) 1\<rparr>,
                 tx_state := (if approved then ReadyFinalVerification else Escalated)\<rparr>, None))
      else if tx_mode t = JudgmentDay then
        (if cn_rejudgments c \<ge> 2 then escalate_budget ''scoped re-judgment'' t
         else (t\<lparr>tx_counters := c\<lparr>cn_rejudgments := go_add (cn_rejudgments c) 1\<rparr>,
                 tx_state := (if approved then ReadyFinalVerification
                              else if cn_rounds c \<ge> 2 then Escalated else FixRequired)\<rparr>, None))
      else (t, None))"

definition validate_fix_result :: "scoped_validation \<Rightarrow> transaction \<Rightarrow> v1_step" where
  \<comment> \<open>observations that are not severe approve a correction that would not pass otherwise\<close>
  "validate_fix_result v t =
     (if tx_state t \<noteq> FixValidating then invalid_transition t
      else case check_validation_result v t of Some e \<Rightarrow> (t, Some e)
      | None \<Rightarrow>
        let caused = elems (sv_fix_caused v); severe = severe_findings caused;
            approved = validation_approves v t; t' = keep_checks v t
        in if approved \<and> severe \<noteq> [] then (t', Some V1SevereApproved)
           else settle_validation (approved \<or> caused \<noteq> [] \<and> severe = []) (keep_observations v t'))"

definition boolean_validation :: "string list \<Rightarrow> bool \<Rightarrow> transaction \<Rightarrow> scoped_validation" where
  "boolean_validation ids approved t =
     (let check = \<lparr>vc_evidence = tx_fix_delta t, vc_fix_delta = tx_fix_delta t, vc_passed = approved\<rparr>
      in \<lparr>sv_ledger_ids = ids, sv_approved = approved, sv_fix_caused = Some [],
          sv_original = check, sv_regression = check, sv_follow_ups = Some [],
          sv_request_hash = [], sv_target_identity = []\<rparr>)"

definition validate_fix_delta :: "string list \<Rightarrow> bool \<Rightarrow> transaction \<Rightarrow> v1_step" where
  \<comment> \<open>the v1 boolean transition\<close>
  "validate_fix_delta ids approved t = validate_fix_result (boolean_validation ids approved t) t"

section \<open>Release evidence and final verification\<close>

definition begin_final_verification :: "transaction \<Rightarrow> v1_step" where
  "begin_final_verification t =
     (let c = tx_counters t in
      if tx_state t \<noteq> ReadyFinalVerification then invalid_transition t
      else if cn_final c \<ge> 1 then escalate_budget ''final verification'' t
      else (t\<lparr>tx_counters := c\<lparr>cn_final := go_add (cn_final c) 1\<rparr>, tx_state := FinalVerifying\<rparr>, None))"

definition bind_release_evidence :: "release_evidence \<Rightarrow> transaction \<Rightarrow> v1_step" where
  "bind_release_evidence r t =
     (if tx_state t \<noteq> ReadyFinalVerification then invalid_transition t
      else case tx_release t of
        Some bound \<Rightarrow> (if bound = r then (t, None) else (t, Some V1ReleaseBound))
      | None \<Rightarrow>
        (case validate_release_evidence r of Some e \<Rightarrow> (t, Some (V1Release e))
         | None \<Rightarrow> if re_tree r \<noteq> tx_final_tree t then (t, Some V1ReleaseTree)
                   else (t\<lparr>tx_release := Some r\<rparr>, None)))"

definition complete_final_verification :: "string \<Rightarrow> bool \<Rightarrow> transaction \<Rightarrow> v1_step" where
  "complete_final_verification evidence approved t =
     (if tx_state t \<noteq> FinalVerifying then invalid_transition t
      else if \<not> valid_sha256 evidence then (t, Some V1EvidenceHash)
      else (t\<lparr>tx_evidence := evidence, tx_state := (if approved then Approved else Escalated)\<rparr>, None))"

section \<open>Any operation\<close>

datatype v1_op =
    StartReview | InvalidateReview string | RecordLens lens_result
  | RecordJudges "judge_proof list" string | Freeze "finding slice" string string
  | Classify "finding_evidence list" | ApplyRefuter "evidence_result list"
  | BeginFixBatch string "int list" | CompleteFixBatch snapshot "string list" "int list"
  | ValidateFix scoped_validation | BeginVerification | BindRelease release_evidence
  | CompleteVerification string bool

fun run_op :: "v1_op \<Rightarrow> transaction \<Rightarrow> v1_step" where
  "run_op StartReview t = start_review t"
| "run_op (InvalidateReview reason) t = invalidate_v1 reason t"
| "run_op (RecordLens r) t = record_lens_result r t"
| "run_op (RecordJudges ps a) t = record_judge_proofs ps a t"
| "run_op (Freeze fs ledger h) t = freeze_findings fs ledger h t"
| "run_op (Classify es) t = fst (classify_evidence es t)"
| "run_op (ApplyRefuter rs) t = apply_refuter_outcomes rs t"
| "run_op (BeginFixBatch failed forecast) t = begin_fix_v1 failed forecast t"
| "run_op (CompleteFixBatch snap ids actual) t = complete_fix_v1 snap ids actual t"
| "run_op (ValidateFix v) t = validate_fix_result v t"
| "run_op BeginVerification t = begin_final_verification t"
| "run_op (BindRelease r) t = bind_release_evidence r t"
| "run_op (CompleteVerification ev ok) t = complete_final_verification ev ok t"

fun run_ops :: "v1_op list \<Rightarrow> transaction \<Rightarrow> transaction" where
  \<comment> \<open>a caller that keeps going whatever each operation returned\<close>
  "run_ops [] t = t"
| "run_ops (op # ops) t = run_ops ops (fst (run_op op t))"

end
