(* ===== verification/V1Validate.thy ===== *)
theory V1Validate
  imports V1Fix
begin

text \<open>
  \<^verbatim>\<open>Transaction.validate\<close> of transaction.go with every validator it calls: the correction budget,
  the counters, the lens and judge state, and the routing of findings through evidence, correction
  and verification. Ranging over a Go map in any order finds the same verdict, so a loop over one
  is a test of all its entries.
\<close>

definition validate_counters :: "mode \<Rightarrow> counters \<Rightarrow> v1_error option" where
  "validate_counters m c =
     (let lenses = [cn_risk c, cn_resilience c, cn_readability c, cn_reliability c] in
      first_err
       [guard (list_ex (\<lambda>v. v < 0)
          ([cn_full c, cn_refuter c, cn_fix c, cn_scoped c, cn_final c, cn_rounds c,
            cn_rejudgments c, cn_judges c] @ lenses)) V1Counters,
        (if is_ordinary_mode m then first_err
           [guard (cn_full c > 1 \<or> cn_refuter c > 1 \<or> cn_fix c > 1 \<or> cn_scoped c > 1 \<or>
                   cn_final c > 1 \<or> cn_rounds c \<noteq> 0 \<or> cn_rejudgments c \<noteq> 0 \<or> cn_judges c \<noteq> 0 \<or>
                   list_ex (\<lambda>v. v > 1) lenses) V1Counters,
            guard (m = Ordinary4R \<and> list_ex (\<lambda>v. v \<noteq> 0) lenses) V1Counters,
            guard (m = OrdinaryBounded \<and> cn_full c \<noteq> 0) V1Counters]
         else if m = JudgmentDay then
           guard (cn_rounds c > 2 \<or> cn_rejudgments c > 2 \<or> cn_refuter c \<noteq> 0 \<or> cn_fix c \<noteq> 0 \<or>
                  cn_scoped c \<noteq> 0 \<or> cn_final c > 1 \<or> (cn_judges c \<noteq> 0 \<and> cn_judges c \<noteq> 2) \<or>
                  list_ex (\<lambda>v. v \<noteq> 0) lenses) V1Counters
         else None)])"

definition validate_correction_budget :: "transaction \<Rightarrow> v1_error option" where
  "validate_correction_budget t =
     (if tx_mode t \<noteq> OrdinaryBounded then
        guard (tx_original_lines t \<noteq> None \<or> tx_budget t \<noteq> None \<or> tx_proposed t \<noteq> None \<or>
               tx_actual t \<noteq> None) V1BudgetFields
      else case (tx_original_lines t, tx_budget t) of
        (Some lines, Some budget) \<Rightarrow>
          if correction_budget lines \<noteq> Inr budget then Some V1BudgetFields
          else if cn_fix (tx_counters t) = 0 then
            (if tx_state t = Escalated \<and> (case tx_proposed t of None \<Rightarrow> False | Some p \<Rightarrow> p > budget) \<and>
                tx_actual t = None \<and> valid_sha256 (tx_failed t) then None
             else guard (tx_proposed t \<noteq> None \<or> tx_actual t \<noteq> None) V1BudgetFields)
          else (case tx_proposed t of None \<Rightarrow> Some V1BudgetFields
            | Some p \<Rightarrow>
              if p \<le> 0 \<or> p > budget then Some V1BudgetFields
              else if tx_state t = Fixing then guard (tx_actual t \<noteq> None) V1BudgetFields
              else guard (case tx_actual t of None \<Rightarrow> True | Some a \<Rightarrow> a < 0 \<or> a > budget)
                V1BudgetFields)
      | _ \<Rightarrow> guard (\<not> (tx_legacy_budget t \<and> tx_original_lines t = None \<and> tx_budget t = None \<and>
                      tx_proposed t = None \<and> tx_actual t = None)) V1BudgetFields)"

definition before_freeze :: "review_state \<Rightarrow> bool" where
  "before_freeze st \<longleftrightarrow> st \<in> {Unreviewed, Reviewing, JudgesConfirmed, Invalidated}"

section \<open>Routing\<close>

fun check_finding_ids :: "transaction \<Rightarrow> string list \<Rightarrow> finding list \<Rightarrow> bool" where
  \<comment> \<open>ids, severities, and outcomes that fit them\<close>
  "check_finding_ids t seen [] = True"
| "check_finding_ids t seen (f # fs) =
     (let out = fmlookup (entries (tx_outcomes t)) (f_id f) in
      \<not> blank (f_id f) \<and> is_supported_severity (f_severity f) \<and> f_id f \<notin> set seen \<and>
      (if is_severe (f_severity f)
       then (case out of Some (OtherOutcome _) \<Rightarrow> False | _ \<Rightarrow> True)
       else out = Some Info) \<and>
      check_finding_ids t (f_id f # seen) fs)"

definition find_by_id :: "finding list \<Rightarrow> string \<Rightarrow> finding option" where
  "find_by_id fs fid = List.find (\<lambda>f. f_id f = fid) fs"

definition classification_bound :: "transaction \<Rightarrow> string \<Rightarrow> finding_evidence \<Rightarrow> bool" where
  "classification_bound t fid e \<longleftrightarrow>
     (case find_by_id (elems (tx_findings t)) fid of None \<Rightarrow> False
      | Some f \<Rightarrow> is_severe (f_severity f)) \<and>
     fe_finding e = fid \<and> is_concrete_evidence (fe_proof e) \<and> is_supported_class (fe_class e) \<and>
     (if fe_causality e = NoCausality then tx_legacy_causality t
      else is_supported_causality (fe_causality e))"

definition routed_severe :: "transaction \<Rightarrow> string \<Rightarrow> bool" where
  \<comment> \<open>a routed id names a severe frozen finding, else the last severe fix-caused one of that id\<close>
  "routed_severe t fid \<longleftrightarrow>
     (case find_by_id (elems (tx_findings t)) fid of
        Some f \<Rightarrow> is_severe (f_severity f)
      | None \<Rightarrow> (case find_by_id (rev (elems (tx_fix_caused t))) fid of
          None \<Rightarrow> False | Some f \<Rightarrow> is_severe (f_severity f)))"

datatype resolution = Uncorroborated | CorroboratedFix | StillPending | ResolvedOpen | Escalating

definition resolve_severe :: "transaction \<Rightarrow> finding \<Rightarrow> resolution option" where
  \<comment> \<open>one severe finding after classification: what it contributes, None for an error\<close>
  "resolve_severe t f =
     (let fid = f_id f; out = fmlookup (entries (tx_outcomes t)) fid;
          fx = fid \<in> set (elems (tx_fix_ids t)); pending = fid \<in> set (elems (tx_pending t));
          escalated = (out = Some Inconclusive \<and> \<not> fx \<and> \<not> pending \<and> tx_state t = Escalated);
          to_fix = (out = Some Corroborated \<and> fx \<and> \<not> pending)
      in case fmlookup (entries (tx_classifications t)) fid of None \<Rightarrow> None
      | Some e \<Rightarrow>
        if fe_causality e = PreExisting \<or> fe_causality e = BaseOnly then
          (if out = Some Info \<and> \<not> fx \<and> \<not> pending \<and>
              has_follow_up (elems (tx_follow_ups t)) (causal_follow_up f (fe_proof e))
           then Some Uncorroborated else None)
        else if fe_causality e = UnknownCause then (if escalated then Some Escalating else None)
        else case fe_class e of
          Deterministic \<Rightarrow> (if to_fix then Some CorroboratedFix else None)
        | Inferential \<Rightarrow>
            if tx_mode t = JudgmentDay then (if to_fix then Some CorroboratedFix else None)
            else if pending then
              (if tx_state t = EvidenceClassified \<and> out = None \<and> cn_refuter (tx_counters t) = 0
               then Some StillPending else None)
            else (case out of
                Some Corroborated \<Rightarrow> if fx then Some CorroboratedFix else None
              | Some Refuted \<Rightarrow> if fx then None else Some ResolvedOpen
              | Some Inconclusive \<Rightarrow> if fx then None else Some ResolvedOpen
              | _ \<Rightarrow> None)
        | Insufficient \<Rightarrow> (if escalated then Some Escalating else None)
        | _ \<Rightarrow> Some Uncorroborated)"

definition resolved_inferential :: "transaction \<Rightarrow> finding \<Rightarrow> bool" where
  \<comment> \<open>the refuter's answer is in, outside Judgment Day\<close>
  "resolved_inferential t f \<longleftrightarrow>
     tx_mode t \<noteq> JudgmentDay \<and> f_id f \<notin> set (elems (tx_pending t)) \<and>
     (case fmlookup (entries (tx_classifications t)) (f_id f) of None \<Rightarrow> False
      | Some e \<Rightarrow> fe_class e = Inferential \<and>
          fe_causality e \<noteq> PreExisting \<and> fe_causality e \<noteq> BaseOnly \<and> fe_causality e \<noteq> UnknownCause)"

definition validate_resolution_counters :: "bool \<Rightarrow> transaction \<Rightarrow> v1_error option" where
  "validate_resolution_counters corrected t =
     (let c = tx_counters t; ordinary = is_ordinary_mode (tx_mode t); snap = tx_snapshot t in
      if tx_state t = FixRequired then
        guard (ordinary \<and> (cn_fix c \<noteq> 0 \<or> cn_scoped c \<noteq> 0)) V1Routing
      else if tx_state t = Fixing \<or> tx_state t = FixValidating then guard (\<not> corrected) V1Routing
      else if tx_state t \<in> {ReadyFinalVerification, FinalVerifying, Approved} then first_err
        [guard (elems (tx_pending t) \<noteq> []) V1Routing,
         guard (ordinary \<and> (cn_fix c \<noteq> of_bool corrected \<or> cn_scoped c \<noteq> of_bool corrected)) V1Routing,
         guard (tx_mode t = JudgmentDay \<and>
                (if corrected then cn_rounds c < 1 \<or> cn_rounds c \<noteq> cn_rejudgments c
                 else cn_rounds c \<noteq> 0 \<or> cn_rejudgments c \<noteq> 0)) V1Routing,
         guard (corrected \<and>
                (\<not> valid_sha256 (tx_failed t) \<or> sn_kind snap \<noteq> FixDiff \<or>
                 ordinary \<and> sn_base snap \<noteq> tx_initial_tree t \<or>
                 sn_candidate snap \<noteq> tx_final_tree t \<or>
                 elems (sn_ledger_ids snap) \<noteq> elems (tx_fix_ids t) \<or>
                 tx_fix_delta t \<noteq> fix_delta_hash snap)) V1Routing,
         guard (tx_state t = ReadyFinalVerification \<and> cn_final c \<noteq> 0) V1Routing,
         guard ((tx_state t = FinalVerifying \<or> tx_state t = Approved) \<and> cn_final c \<noteq> 1) V1Routing]
      else None)"

definition unrouted :: "transaction \<Rightarrow> bool" where
  "unrouted t \<longleftrightarrow>
     elems (tx_findings t) = [] \<and> entries (tx_classifications t) = fmempty \<and>
     entries (tx_outcomes t) = fmempty \<and> elems (tx_fix_ids t) = [] \<and> elems (tx_pending t) = []"

definition corroborated_ids :: "transaction \<Rightarrow> string list" where
  \<comment> \<open>severe findings resolved for correction, and severe findings the correction caused\<close>
  "corroborated_ids t = remdups
     (map f_id (filter (\<lambda>f. resolve_severe t f = Some CorroboratedFix)
                  (severe_findings (elems (tx_findings t)))) @
      map f_id (severe_findings (elems (tx_fix_caused t))))"

definition validate_classified :: "transaction \<Rightarrow> v1_error option" where
  \<comment> \<open>\<^verbatim>\<open>validateFindingState\<close> once evidence has been classified\<close>
  "validate_classified t =
     (let severe = severe_findings (elems (tx_findings t)); fixed = corroborated_ids t in first_err
       [guard (list_ex (\<lambda>f. resolve_severe t f = None) severe) V1Routing,
        guard (map_len (tx_classifications t) \<noteq> length severe) V1Routing,
        guard (card (set (elems (tx_fix_ids t))) \<noteq> length fixed) V1Routing,
        guard (tx_state t = EvidenceClassified \<and> elems (tx_pending t) = []) V1Routing,
        guard (tx_state t \<noteq> EvidenceClassified \<and> elems (tx_pending t) \<noteq> []) V1Routing,
        guard (tx_state t \<noteq> Escalated \<and>
               list_ex (\<lambda>f. fmlookup (entries (tx_outcomes t)) (f_id f) = Some Inconclusive) severe)
          V1Routing,
        guard (is_ordinary_mode (tx_mode t) \<and> list_ex (resolved_inferential t) severe \<and>
               \<not> list_ex (\<lambda>f. resolve_severe t f = Some Escalating) severe \<and>
               cn_refuter (tx_counters t) \<noteq> 1) V1Routing,
        validate_resolution_counters (fixed \<noteq> []) t])"

definition validate_finding_state :: "transaction \<Rightarrow> v1_error option" where
  "validate_finding_state t =
     (if before_freeze (tx_state t) then guard (\<not> unrouted t) V1Frozen
      else if tx_state t = FindingsFrozen then first_err
        [guard (entries (tx_classifications t) \<noteq> fmempty \<or> elems (tx_fix_ids t) \<noteq> [] \<or>
                elems (tx_pending t) \<noteq> []) V1Frozen,
         guard (list_ex (\<lambda>f. fmlookup (entries (tx_outcomes t)) (f_id f) \<noteq> None)
                  (severe_findings (elems (tx_findings t)))) V1Frozen]
      else if tx_state t = Escalated \<and> tx_ledger t = [] then guard (\<not> unrouted t) V1Frozen
      else validate_classified t)"

definition validate_finding_routing :: "transaction \<Rightarrow> v1_error option" where
  "validate_finding_routing t = first_err
     [guard (\<not> check_finding_ids t [] (elems (tx_findings t))) V1Routing,
      guard (\<not> fmpred (classification_bound t) (entries (tx_classifications t))) V1Routing,
      guard (\<not> fset (fmdom (entries (tx_outcomes t))) \<subseteq> set (map f_id (elems (tx_findings t)))) V1Routing,
      guard (\<not> list_all (routed_severe t) (elems (tx_fix_ids t) @ elems (tx_pending t))) V1Routing,
      guard (\<not> is_canonical_strings (elems (tx_fix_ids t))) V1Routing,
      guard (\<not> is_canonical_strings (elems (tx_pending t))) V1Routing,
      guard (list_ex (\<lambda>i. i \<in> set (elems (tx_fix_ids t))) (elems (tx_pending t))) V1Routing,
      guard (\<not> before_freeze (tx_state t) \<and>
             (\<not> valid_sha256 (tx_ledger t) \<or> \<not> valid_sha256 (tx_findings_hash t) \<or>
              tx_findings_hash t \<noteq> findings_hash (tx_findings t))) V1LedgerUnbound,
      validate_finding_state t]"

section \<open>Lens and judge state\<close>

fun check_lens_results :: "counters \<Rightarrow> string list \<Rightarrow> string list \<Rightarrow> lens_result list \<Rightarrow> bool" where
  \<comment> \<open>hashes seen so far, the selected lenses left, the results left\<close>
  "check_lens_results c seen lenses [] = True"
| "check_lens_results c seen [] (r # rs) = False"
| "check_lens_results c seen (l # ls) (r # rs) =
     ((case validate_lens_result r of Inl _ \<Rightarrow> False
       | Inr v \<Rightarrow> lr_lens r = l \<and> lr_hash r = lr_hash v \<and> lens_executions (lr_lens r) c = 1) \<and>
      lr_hash r \<notin> set seen \<and> check_lens_results c (lr_hash r # seen) ls rs)"

definition validate_lens_state :: "transaction \<Rightarrow> v1_error option" where
  "validate_lens_state t =
     (let lenses = elems (tx_lenses t); results = elems (tx_results t) in
      if tx_mode t \<noteq> OrdinaryBounded then guard (lenses \<noteq> [] \<or> results \<noteq> []) V1LensState
      else first_err
        [guard (validate_selected_lenses (tx_mode t) (tx_risk t) lenses \<noteq> Inr lenses) V1LensState,
         guard (\<not> check_lens_results (tx_counters t) [] lenses results) V1LensState,
         guard (list_ex (\<lambda>l. lens_executions l (tx_counters t) \<noteq> of_bool (has_result_for results l))
                  supported_lenses) V1LensState,
         guard (tx_state t \<noteq> Unreviewed \<and> tx_state t \<noteq> Reviewing \<and>
                (length results \<noteq> length lenses \<or>
                 \<not> same_lens_findings results (tx_findings t))) V1LensState])"

definition validate_judge_state :: "transaction \<Rightarrow> v1_error option" where
  "validate_judge_state t =
     (let none = elems (tx_judges t) = [] \<and> tx_judge_hash t = [] \<and> tx_agreement t = [] \<and>
                 cn_judges (tx_counters t) = 0
      in if is_ordinary_mode (tx_mode t) then guard (\<not> none \<or> tx_state t = JudgesConfirmed) V1JudgeState
         else if tx_state t = Unreviewed \<or> tx_state t = Reviewing then guard (\<not> none) V1JudgeState
         else case validate_judge_proofs (elems (tx_judges t)) (tx_agreement t) of
           Inl _ \<Rightarrow> Some V1JudgeState
         | Inr (proofs, h) \<Rightarrow>
             guard (h \<noteq> tx_judge_hash t \<or> int (length proofs) \<noteq> cn_judges (tx_counters t)) V1JudgeState)"

section \<open>The transaction\<close>

definition fill_legacy :: "transaction \<Rightarrow> transaction" where
  \<comment> \<open>what reading a v1 event adds: follow-ups, and the findings binding of a frozen ledger\<close>
  "fill_legacy t =
     t\<lparr>tx_follow_ups := Some (elems (tx_follow_ups t)),
       tx_findings_hash :=
         (if tx_ledger t \<noteq> [] \<and> tx_findings_hash t = [] \<and> tx_findings t \<noteq> None
          then findings_hash (tx_findings t) else tx_findings_hash t)\<rparr>"

definition validate_identity :: "transaction \<Rightarrow> v1_error option" where
  "validate_identity t = first_err
     [guard (tx_schema t \<noteq> transaction_schema) V1Schema,
      map_option V1Check (validate_lineage_id (tx_lineage t)),
      guard (tx_generation t < 1) V1Generation,
      guard (tx_mode t \<notin> {Ordinary4R, OrdinaryBounded, JudgmentDay}) V1Mode,
      validate_correction_budget t,
      map_option V1Check (validate_snapshot (tx_snapshot t)),
      guard (\<not> list_all valid_git_tree [tx_base t, tx_initial_tree t, tx_final_tree t]) V1Trees,
      guard (\<not> list_all valid_sha256 [tx_paths_digest t, tx_fix_delta t, tx_policy t]) V1CoreHashes,
      guard (list_ex (\<lambda>h. h \<noteq> [] \<and> \<not> valid_sha256 h)
        [tx_ledger t, tx_findings_hash t, tx_evidence t, tx_failed t]) V1BadHash]"

definition validate_content :: "transaction \<Rightarrow> v1_error option" where
  \<comment> \<open>release, collections, genesis scope, targeted checks, observations\<close>
  "validate_content t = first_err
     [(case tx_release t of None \<Rightarrow> None
       | Some r \<Rightarrow> first_err [map_option V1Release (validate_release_evidence r),
                            guard (re_tree r \<noteq> tx_final_tree t) V1ReleaseTree]),
      guard (tx_findings t = None \<or> tx_classifications t = None \<or> tx_outcomes t = None \<or>
             tx_fix_ids t = None \<or> tx_pending t = None \<or> tx_fix_caused t = None \<or>
             tx_follow_ups t = None \<or> tx_judges t = None) V1NilCollections,
      (case tx_genesis t of None \<Rightarrow> None
       | Some ps \<Rightarrow> guard (\<not> is_canonical_paths ps \<or>
           paths_are_subset (elems (sn_paths (tx_snapshot t))) ps \<noteq> None) V1Genesis),
      guard ((tx_original t = None) \<noteq> (tx_regression t = None)) V1Checks,
      (case (tx_original t, tx_regression t) of
         (Some original, Some regression) \<Rightarrow> first_err
           [guard (\<not> is_ordinary_mode (tx_mode t) \<or> cn_scoped (tx_counters t) \<noteq> 1 \<or>
                   tx_state t = FixValidating) V1Checks,
            map_option V1Check
              (validate_targeted_validation original regression [] [] (tx_fix_delta t))]
       | _ \<Rightarrow> None),
      guard (list_ex (\<lambda>f. validate_structured_finding f \<noteq> None) (elems (tx_fix_caused t))) V1Routing,
      map_option V1Check (validate_follow_ups (elems (tx_follow_ups t)))]"

definition known_state :: "review_state \<Rightarrow> bool" where
  "known_state st \<longleftrightarrow>
     st \<in> {Unreviewed, Reviewing, JudgesConfirmed, FindingsFrozen, EvidenceClassified, FixRequired,
           Fixing, FixValidating, ReadyFinalVerification, FinalVerifying, Approved, Escalated,
           Invalidated}"

definition validate_v1_state :: "transaction \<Rightarrow> v1_error option" where
  \<comment> \<open>the checks after the counters\<close>
  "validate_v1_state t =
     (if tx_state t = Invalidated then
        guard (\<not> pristine_reviewing (t\<lparr>tx_state := Reviewing, tx_invalidation := []\<rparr>) \<or>
               blank (tx_invalidation t)) V1Invalidated
      else first_err
        [guard (tx_invalidation t \<noteq> []) V1Reason,
         validate_lens_state t,
         validate_judge_state t,
         (if tx_state t = Fixing \<or> tx_state t = FixValidating then first_err
            [guard (\<not> valid_sha256 (tx_failed t)) V1FixState,
             guard (is_ordinary_mode (tx_mode t) \<and> cn_fix (tx_counters t) \<noteq> 1) V1FixState,
             guard (tx_mode t = JudgmentDay \<and>
                    (cn_rounds (tx_counters t) < 1 \<or> cn_rounds (tx_counters t) > 2)) V1FixState]
          else None),
         guard (tx_state t = Approved \<and>
                (\<not> valid_sha256 (tx_ledger t) \<or> \<not> valid_sha256 (tx_evidence t))) V1Approval])"

definition v1_checks :: "transaction \<Rightarrow> v1_error option" where
  "v1_checks t = first_err
     [validate_identity t, validate_content t, validate_finding_routing t,
      guard (\<not> known_state (tx_state t)) V1State,
      validate_counters (tx_mode t) (tx_counters t), validate_v1_state t]"

definition v1_validate :: "transaction \<Rightarrow> v1_step" where
  \<comment> \<open>the validator fills legacy fields in before it checks\<close>
  "v1_validate t = (fill_legacy t, v1_checks (fill_legacy t))"

end
