(* ===== verification/V1Store.thy ===== *)
theory V1Store
  imports V1Validate
begin

text \<open>
  The event chain of store.go: equality of persisted transactions, \<^verbatim>\<open>validateSuccessor\<close> with its
  counter and transition rules, the historical v1 aliases, and the validation of a whole chain as
  \<^verbatim>\<open>loadChain\<close> makes it. Replays run the operation on a copy of the predecessor; a replayed freeze
  also writes to the outcome map the copy shares, which only adds entries the successor must hold,
  so the copy is modelled as independent.
\<close>

section \<open>Equality of persisted transactions\<close>

definition nilled :: "'a slice \<Rightarrow> 'a slice" where
  \<comment> \<open>an empty slice read back as nil\<close>
  "nilled s = (if elems s = [] then None else s)"

definition normalize_refs :: "finding slice \<Rightarrow> finding slice" where
  "normalize_refs s = map_option (map (\<lambda>f. f\<lparr>f_proof_refs := nilled (f_proof_refs f)\<rparr>)) (nilled s)"

definition normalize_transaction :: "transaction \<Rightarrow> transaction" where
  "normalize_transaction t =
     t\<lparr>tx_snapshot := (tx_snapshot t)\<lparr>sn_intended := nilled (sn_intended (tx_snapshot t)),
         sn_ledger_ids := nilled (sn_ledger_ids (tx_snapshot t)),
         sn_paths := nilled (sn_paths (tx_snapshot t))\<rparr>,
       tx_findings := normalize_refs (tx_findings t), tx_fix_ids := nilled (tx_fix_ids t),
       tx_pending := nilled (tx_pending t), tx_fix_caused := normalize_refs (tx_fix_caused t),
       tx_follow_ups := nilled (tx_follow_ups t), tx_judges := nilled (tx_judges t),
       tx_lenses := nilled (tx_lenses t), tx_results := nilled (tx_results t)\<rparr>"

definition transactions_equal :: "transaction \<Rightarrow> transaction \<Rightarrow> bool" where
  "transactions_equal a b \<longleftrightarrow> normalize_transaction a = normalize_transaction b"

section \<open>Transitions and counters\<close>

fun allowed_next :: "review_state \<Rightarrow> review_state list" where
  "allowed_next Reviewing = [JudgesConfirmed, FindingsFrozen, Escalated]"
| "allowed_next JudgesConfirmed = [FindingsFrozen, Escalated]"
| "allowed_next FindingsFrozen = [EvidenceClassified, FixRequired, ReadyFinalVerification, Escalated]"
| "allowed_next EvidenceClassified = [FixRequired, ReadyFinalVerification, Escalated]"
| "allowed_next FixRequired = [Fixing, Escalated]"
| "allowed_next Fixing = [FixValidating, Escalated]"
| "allowed_next FixValidating = [ReadyFinalVerification, FixRequired, Escalated]"
| "allowed_next ReadyFinalVerification = [FinalVerifying, Escalated]"
| "allowed_next FinalVerifying = [Approved, Escalated]"
| "allowed_next _ = []"

definition legal_state_transition :: "review_state \<Rightarrow> review_state \<Rightarrow> bool" where
  "legal_state_transition p n \<longleftrightarrow> n \<in> set (allowed_next p)"

definition counter_values :: "counters \<Rightarrow> int list" where
  "counter_values c =
     [cn_full c, cn_refuter c, cn_fix c, cn_scoped c, cn_final c, cn_rounds c, cn_rejudgments c,
      cn_judges c, cn_risk c, cn_resilience c, cn_readability c, cn_reliability c]"

definition counters_monotonic :: "counters \<Rightarrow> counters \<Rightarrow> bool" where
  "counters_monotonic p n \<longleftrightarrow> list_all2 (\<le>) (counter_values p) (counter_values n)"

definition expected_counters :: "transaction \<Rightarrow> transaction \<Rightarrow> counters option" where
  \<comment> \<open>the counters the semantic transition consumes, None where no result was appended\<close>
  "expected_counters p n =
     (let c = tx_counters p; from = tx_state p; to = tx_state n; ordinary = is_ordinary_mode (tx_mode p)
      in if tx_mode p = OrdinaryBounded \<and> from = Reviewing \<and> to = Reviewing then
           (if length (elems (tx_results n)) \<noteq> length (elems (tx_results p)) + 1 then None
            else Some (set_lens_counter (lr_lens (last (elems (tx_results n)))) 1 c))
         else if from = Reviewing \<and> to = JudgesConfirmed then Some (c\<lparr>cn_judges := 2\<rparr>)
         else if from = EvidenceClassified \<and> to \<noteq> EvidenceClassified then
           Some (c\<lparr>cn_refuter := go_add (cn_refuter c) 1\<rparr>)
         else if from = FixRequired \<and> to = Fixing then
           Some (if ordinary then c\<lparr>cn_fix := go_add (cn_fix c) 1\<rparr>
                 else c\<lparr>cn_rounds := go_add (cn_rounds c) 1\<rparr>)
         else if from = FixValidating \<and> to \<in> {ReadyFinalVerification, FixRequired, Escalated} then
           Some (if ordinary then c\<lparr>cn_scoped := go_add (cn_scoped c) 1\<rparr>
                 else c\<lparr>cn_rejudgments := go_add (cn_rejudgments c) 1\<rparr>)
         else if from = ReadyFinalVerification \<and> to = FinalVerifying then
           Some (c\<lparr>cn_final := go_add (cn_final c) 1\<rparr>)
         else Some c)"

datatype chain_error = ChainRefused string | EventInvalid v1_error

abbreviation BadInvalidationEvent :: chain_error where "BadInvalidationEvent \<equiv> ChainRefused ''bad invalidation event''"
abbreviation ImmutableIdentity :: chain_error where "ImmutableIdentity \<equiv> ChainRefused ''immutable identity''"
abbreviation ImmutableTarget :: chain_error where "ImmutableTarget \<equiv> ChainRefused ''immutable target''"
abbreviation ImmutableGenesis :: chain_error where "ImmutableGenesis \<equiv> ChainRefused ''immutable genesis''"
abbreviation ImmutableLenses :: chain_error where "ImmutableLenses \<equiv> ChainRefused ''immutable lenses''"
abbreviation ImmutableRisk :: chain_error where "ImmutableRisk \<equiv> ChainRefused ''immutable risk''"
abbreviation ImmutableBudget :: chain_error where "ImmutableBudget \<equiv> ChainRefused ''immutable budget''"
abbreviation LensTransition :: chain_error where "LensTransition \<equiv> ChainRefused ''lens transition''"
abbreviation LensChanged :: chain_error where "LensChanged \<equiv> ChainRefused ''lens changed''"
abbreviation FreezeReplay :: chain_error where "FreezeReplay \<equiv> ChainRefused ''freeze replay''"
abbreviation SnapshotChanged :: chain_error where "SnapshotChanged \<equiv> ChainRefused ''snapshot changed''"
abbreviation FixUnbound :: chain_error where "FixUnbound \<equiv> ChainRefused ''fix unbound''"
abbreviation FixOutsideGenesis :: chain_error where "FixOutsideGenesis \<equiv> ChainRefused ''fix outside genesis''"
abbreviation FixReplay :: chain_error where "FixReplay \<equiv> ChainRefused ''fix replay''"
abbreviation FixStartReplay :: chain_error where "FixStartReplay \<equiv> ChainRefused ''fix start replay''"
abbreviation ForecastChanged :: chain_error where "ForecastChanged \<equiv> ChainRefused ''forecast changed''"
abbreviation ActualChanged :: chain_error where "ActualChanged \<equiv> ChainRefused ''actual changed''"
abbreviation ReleaseChanged :: chain_error where "ReleaseChanged \<equiv> ChainRefused ''release changed''"
abbreviation ReleaseNotAlone :: chain_error where "ReleaseNotAlone \<equiv> ChainRefused ''release not alone''"
abbreviation IllegalTransition :: chain_error where "IllegalTransition \<equiv> ChainRefused ''illegal transition''"
abbreviation CountersDecrease :: chain_error where "CountersDecrease \<equiv> ChainRefused ''counters decrease''"
abbreviation CountersMismatch :: chain_error where "CountersMismatch \<equiv> ChainRefused ''counters mismatch''"
abbreviation LedgerChanged :: chain_error where "LedgerChanged \<equiv> ChainRefused ''ledger changed''"
abbreviation JudgesChanged :: chain_error where "JudgesChanged \<equiv> ChainRefused ''judges changed''"
abbreviation FindingsChanged :: chain_error where "FindingsChanged \<equiv> ChainRefused ''findings changed''"
abbreviation EvidenceRegressed :: chain_error where "EvidenceRegressed \<equiv> ChainRefused ''evidence regressed''"
abbreviation CorrectionRegressed :: chain_error where "CorrectionRegressed \<equiv> ChainRefused ''correction regressed''"
abbreviation FollowUpsRegressed :: chain_error where "FollowUpsRegressed \<equiv> ChainRefused ''follow ups regressed''"
abbreviation PendingChanged :: chain_error where "PendingChanged \<equiv> ChainRefused ''pending changed''"
abbreviation FinalTreeChanged :: chain_error where "FinalTreeChanged \<equiv> ChainRefused ''final tree changed''"
abbreviation FixDeltaChanged :: chain_error where "FixDeltaChanged \<equiv> ChainRefused ''fix delta changed''"
abbreviation LegacyOperation :: chain_error where "LegacyOperation \<equiv> ChainRefused ''legacy operation''"
abbreviation TargetedOperation :: chain_error where "TargetedOperation \<equiv> ChainRefused ''targeted operation''"
abbreviation ChecksChanged :: chain_error where "ChecksChanged \<equiv> ChainRefused ''checks changed''"
abbreviation AliasAtGenesis :: chain_error where "AliasAtGenesis \<equiv> ChainRefused ''alias at genesis''"
abbreviation NoLedgerHash :: chain_error where "NoLedgerHash \<equiv> ChainRefused ''no ledger hash''"
abbreviation HistoricalTouched :: chain_error where "HistoricalTouched \<equiv> ChainRefused ''historical touched''"
abbreviation UnsupportedAlias :: chain_error where "UnsupportedAlias \<equiv> ChainRefused ''unsupported alias''"
abbreviation NotInitial :: chain_error where "NotInitial \<equiv> ChainRefused ''not initial''"

definition map_is_monotonic :: "'v gomap \<Rightarrow> 'v gomap \<Rightarrow> bool" where
  "map_is_monotonic p n \<longleftrightarrow> fmpred (\<lambda>k v. fmlookup (entries n) k = Some v) (entries p)"

definition finding_slice_prefix :: "finding slice \<Rightarrow> finding slice \<Rightarrow> bool" where
  \<comment> \<open>\<^verbatim>\<open>reflect.DeepEqual(previous, next[:len(previous)])\<close>: slicing nil stays nil\<close>
  "finding_slice_prefix p n \<longleftrightarrow>
     length (elems p) \<le> length (elems n) \<and>
     p = map_option (take (length (elems p))) n"

definition follow_up_slice_prefix :: "follow_up slice \<Rightarrow> follow_up slice \<Rightarrow> bool" where
  "follow_up_slice_prefix p n \<longleftrightarrow>
     length (elems p) \<le> length (elems n) \<and>
     p = map_option (take (length (elems p))) n"

section \<open>Successors\<close>

definition replays :: "v1_op \<Rightarrow> transaction \<Rightarrow> transaction \<Rightarrow> bool" where
  \<comment> \<open>the operation succeeds on the predecessor and yields the successor\<close>
  "replays op p n \<longleftrightarrow>
     (case run_op op p of (t, None) \<Rightarrow> transactions_equal t n | (_, Some _) \<Rightarrow> False)"

definition immutable_scope :: "transaction \<Rightarrow> transaction \<Rightarrow> chain_error option" where
  "immutable_scope p n = first_err
     [guard (tx_lineage p \<noteq> tx_lineage n \<or> tx_generation p \<noteq> tx_generation n \<or> tx_mode p \<noteq> tx_mode n)
        ImmutableIdentity,
      guard (tx_base p \<noteq> tx_base n \<or> tx_initial_tree p \<noteq> tx_initial_tree n \<or>
             tx_paths_digest p \<noteq> tx_paths_digest n \<or> tx_policy p \<noteq> tx_policy n) ImmutableTarget,
      guard (elems (tx_genesis p) \<noteq> elems (tx_genesis n)) ImmutableGenesis,
      guard (elems (tx_lenses p) \<noteq> elems (tx_lenses n)) ImmutableLenses,
      guard (tx_risk p \<noteq> tx_risk n) ImmutableRisk,
      guard (tx_original_lines p \<noteq> tx_original_lines n \<or> tx_budget p \<noteq> tx_budget n) ImmutableBudget]"

definition lens_transition :: "transaction \<Rightarrow> transaction \<Rightarrow> string \<Rightarrow> bool" where
  "lens_transition p n operation \<longleftrightarrow>
     operation = ''review/record-lens-result'' \<and> tx_mode p = OrdinaryBounded \<and>
     tx_state p = Reviewing \<and> tx_state n = Reviewing"

definition lens_state_changed :: "transaction \<Rightarrow> transaction \<Rightarrow> bool" where
  "lens_state_changed p n \<longleftrightarrow>
     tx_results p \<noteq> tx_results n \<or>
     list_ex (\<lambda>l. lens_executions l (tx_counters p) \<noteq> lens_executions l (tx_counters n))
       supported_lenses"

definition check_lens_step :: "transaction \<Rightarrow> transaction \<Rightarrow> string \<Rightarrow> chain_error option" where
  "check_lens_step p n operation =
     (if lens_transition p n operation then
        guard (length (elems (tx_results n)) \<noteq> length (elems (tx_results p)) + 1 \<or>
               \<not> replays (RecordLens (last (elems (tx_results n)))) p n) LensTransition
      else guard (lens_state_changed p n \<or> operation = ''review/record-lens-result'') LensChanged)"

definition freeze_replay :: "transaction \<Rightarrow> transaction \<Rightarrow> string \<Rightarrow> bool" where
  "freeze_replay p n operation \<longleftrightarrow>
     operation = ''review/freeze-findings'' \<and>
     (case canonical_ledger (tx_findings n) of Inl _ \<Rightarrow> False
      | Inr ledger \<Rightarrow> replays (Freeze (tx_findings n) ledger (tx_ledger n)) p n)"

definition check_freeze :: "transaction \<Rightarrow> transaction \<Rightarrow> string \<Rightarrow> chain_error option" where
  "check_freeze p n operation =
     guard ((tx_state p = Reviewing \<or> tx_state p = JudgesConfirmed) \<and> tx_state n = FindingsFrozen \<and>
            \<not> freeze_replay p n operation) FreezeReplay"

definition fix_completion :: "transaction \<Rightarrow> transaction \<Rightarrow> bool" where
  "fix_completion p n \<longleftrightarrow> tx_state p = Fixing \<and> tx_state n = FixValidating"

definition optional_lines :: "int option \<Rightarrow> int list" where
  "optional_lines v = (case v of None \<Rightarrow> [] | Some n \<Rightarrow> [n])"

definition check_fix_completion :: "transaction \<Rightarrow> transaction \<Rightarrow> chain_error option" where
  "check_fix_completion p n =
     (let snap = tx_snapshot n in
      if \<not> fix_completion p n then guard (\<not> snapshots_equal (tx_snapshot p) snap) SnapshotChanged
      else first_err
        [guard (sn_kind snap \<noteq> FixDiff \<or> sn_base snap \<noteq> tx_final_tree p \<or>
                sn_candidate snap \<noteq> tx_final_tree n \<or>
                elems (sn_ledger_ids snap) \<noteq> elems (tx_fix_ids n)) FixUnbound,
         guard (paths_are_subset (elems (sn_paths snap)) (genesis_scope p) \<noteq> None) FixOutsideGenesis,
         guard (\<not> replays (CompleteFixBatch snap (elems (tx_fix_ids n)) (optional_lines (tx_actual n))) p n)
           FixReplay])"

definition fix_start :: "transaction \<Rightarrow> transaction \<Rightarrow> bool" where
  "fix_start p n \<longleftrightarrow>
     tx_state p = FixRequired \<and>
     (tx_state n = Fixing \<or> has_correction_budget p \<and> tx_state n = Escalated)"

definition check_fix_start :: "transaction \<Rightarrow> transaction \<Rightarrow> string \<Rightarrow> chain_error option" where
  "check_fix_start p n operation =
     (if fix_start p n then
        guard (operation \<noteq> ''review/begin-fix'' \<or>
               \<not> replays (BeginFixBatch (tx_failed n) (optional_lines (tx_proposed n))) p n) FixStartReplay
      else guard (tx_proposed p \<noteq> tx_proposed n) ForecastChanged)"

definition release_binding :: "transaction \<Rightarrow> transaction \<Rightarrow> bool" where
  "release_binding p n \<longleftrightarrow> tx_release p = None \<and> tx_release n \<noteq> None"

definition check_release :: "transaction \<Rightarrow> transaction \<Rightarrow> string \<Rightarrow> chain_error option" where
  "check_release p n operation = first_err
     [guard (tx_release p \<noteq> None \<and> tx_release p \<noteq> tx_release n) ReleaseChanged,
      guard (release_binding p n \<and>
             (operation \<noteq> ''review/bind-release-evidence'' \<or> tx_state p \<noteq> ReadyFinalVerification \<or>
              tx_state n \<noteq> ReadyFinalVerification \<or>
              \<not> transactions_equal p (n\<lparr>tx_release := None\<rparr>))) ReleaseNotAlone]"

definition check_pending :: "transaction \<Rightarrow> transaction \<Rightarrow> chain_error option" where
  "check_pending p n =
     (let before = elems (tx_pending p); after = elems (tx_pending n);
          batches = cn_refuter (tx_counters p); now = cn_refuter (tx_counters n)
      in guard (before \<noteq> after \<and>
           \<not> (tx_state p = FindingsFrozen \<and> tx_state n = EvidenceClassified \<and> before = [] \<and>
              after \<noteq> [] \<and> now = batches) \<and>
           \<not> (tx_state p = EvidenceClassified \<and> before \<noteq> [] \<and> after = [] \<and>
              now = go_add batches 1)) PendingChanged)"

definition check_frozen_evidence :: "transaction \<Rightarrow> transaction \<Rightarrow> chain_error option" where
  \<comment> \<open>what was frozen, classified, routed or observed before stays\<close>
  "check_frozen_evidence p n = first_err
     [guard (tx_ledger p \<noteq> [] \<and>
             (tx_ledger p \<noteq> tx_ledger n \<or> tx_findings_hash p \<noteq> tx_findings_hash n)) LedgerChanged,
      guard (tx_judge_hash p \<noteq> [] \<and>
             (tx_judge_hash p \<noteq> tx_judge_hash n \<or> tx_agreement p \<noteq> tx_agreement n \<or>
              tx_judges p \<noteq> tx_judges n)) JudgesChanged,
      guard (tx_state p \<noteq> Reviewing \<and> tx_state p \<noteq> JudgesConfirmed \<and> tx_findings p \<noteq> tx_findings n)
        FindingsChanged,
      guard (\<not> map_is_monotonic (tx_classifications p) (tx_classifications n) \<or>
             \<not> map_is_monotonic (tx_outcomes p) (tx_outcomes n)) EvidenceRegressed,
      guard (\<not> set (elems (tx_fix_ids p)) \<subseteq> set (elems (tx_fix_ids n)) \<or>
             \<not> finding_slice_prefix (tx_fix_caused p) (tx_fix_caused n)) CorrectionRegressed,
      guard (\<not> follow_up_slice_prefix (tx_follow_ups p) (tx_follow_ups n)) FollowUpsRegressed,
      check_pending p n,
      guard (tx_final_tree p \<noteq> tx_final_tree n \<and> \<not> fix_completion p n) FinalTreeChanged,
      guard (tx_fix_delta p \<noteq> tx_fix_delta n \<and> \<not> fix_completion p n) FixDeltaChanged]"

definition check_targeted :: "transaction \<Rightarrow> transaction \<Rightarrow> string \<Rightarrow> chain_error option" where
  "check_targeted p n operation =
     (if is_ordinary_mode (tx_mode p) \<and> tx_state p = FixValidating \<and>
         (tx_state n = ReadyFinalVerification \<or> tx_state n = Escalated) then
        (if tx_original n = None \<and> tx_regression n = None
         then guard (operation \<noteq> ''review/validate-fix-delta'') LegacyOperation
         else guard (operation \<noteq> ''review/validate-targeted-fix'' \<or> tx_original n = None \<or>
                     tx_regression n = None) TargetedOperation)
      else guard (tx_original p \<noteq> tx_original n \<or> tx_regression p \<noteq> tx_regression n) ChecksChanged)"

definition check_v1_transition :: "transaction \<Rightarrow> transaction \<Rightarrow> string \<Rightarrow> chain_error option" where
  "check_v1_transition p n operation = first_err
     [immutable_scope p n, check_lens_step p n operation, check_freeze p n operation,
      check_fix_completion p n, check_fix_start p n operation,
      guard (\<not> fix_completion p n \<and> tx_actual p \<noteq> tx_actual n) ActualChanged,
      check_release p n operation,
      guard (\<not> release_binding p n \<and> \<not> lens_transition p n operation \<and>
             \<not> legal_state_transition (tx_state p) (tx_state n)) IllegalTransition,
      guard (\<not> counters_monotonic (tx_counters p) (tx_counters n)) CountersDecrease,
      guard (expected_counters p n \<noteq> Some (tx_counters n)) CountersMismatch,
      check_frozen_evidence p n, check_targeted p n operation]"

definition validate_successor :: "transaction \<Rightarrow> transaction \<Rightarrow> string \<Rightarrow> chain_error option" where
  "validate_successor p n operation =
     (if operation = ''review/invalidate''
      then guard (\<not> replays (InvalidateReview (tx_invalidation n)) p n) BadInvalidationEvent
      else check_v1_transition p n operation)"

section \<open>Historical aliases\<close>

definition historical_freeze_expected :: "transaction \<Rightarrow> transaction \<Rightarrow> transaction" where
  "historical_freeze_expected p n =
     p\<lparr>tx_findings := tx_findings n,
       tx_outcomes := Some (foldl (\<lambda>m (k, v). fmupd k v m) (entries (tx_outcomes p))
                             (info_outcomes (elems (tx_findings n)))),
       tx_ledger := tx_ledger n, tx_findings_hash := findings_hash (tx_findings n),
       tx_state := FindingsFrozen\<rparr>"

definition validate_historical_freeze :: "transaction \<Rightarrow> transaction \<Rightarrow> chain_error option" where
  "validate_historical_freeze p n = first_err
     [guard (\<not> valid_sha256 (tx_ledger n)) NoLedgerHash,
      guard (\<not> transactions_equal (historical_freeze_expected p n) n) HistoricalTouched]"

definition validate_persisted_successor ::
  "transaction \<Rightarrow> transaction \<Rightarrow> string \<Rightarrow> nat \<Rightarrow> chain_error option" where
  "validate_persisted_successor p n operation index =
     (if validate_successor p n operation = None then None
      else if index < 1 then Some AliasAtGenesis
      else if operation = ''review/validate-targeted-fix'' \<and> tx_mode p = Ordinary4R \<and>
              tx_state p = FixValidating \<and>
              (tx_state n = ReadyFinalVerification \<or> tx_state n = Escalated) \<and>
              tx_original n = None \<and> tx_regression n = None
        then validate_successor p n ''review/validate-fix-delta''
      else if operation = ''review/freeze-findings'' \<and>
              (tx_mode p = Ordinary4R \<or> tx_mode p = JudgmentDay) \<and>
              (tx_state p = Reviewing \<or> tx_state p = JudgesConfirmed) \<and> tx_state n = FindingsFrozen
        then validate_historical_freeze p n
      else Some UnsupportedAlias)"

definition chain_identity :: "string list \<Rightarrow> string" where
  "chain_identity revisions = domain_identity ''gentle-ai.review-chain/v1'' (lp_encode revisions)"

end
