(* ===== verification/V1Machine.thy ===== *)
theory V1Machine
  imports V1Store
begin

text \<open>
  What every operation of a v1 transaction leaves alone, and the budget it cannot exceed: whatever
  is called, in whatever order, and whatever it returned, the counters stay within the limits of
  the mode.

  The v1 chain as a lifecycle: an event follows another when the later transaction validates and
  the persisted-successor check accepts it. Every accepted event keeps the scope and lowers a rank,
  which bounds every chain.
\<close>

section \<open>Operations keep the scope\<close>

definition v1_scope where
  "v1_scope t = (tx_lineage t, tx_generation t, tx_mode t, tx_base t, tx_initial_tree t,
     tx_paths_digest t, tx_policy t, elems (tx_genesis t), elems (tx_lenses t), tx_risk t,
     tx_original_lines t, tx_budget t)"

lemmas v1_step_defs =
  start_review_def invalidate_v1_def record_lens_result_def record_judge_proofs_def
  freeze_findings_def classify_evidence_def settle_evidence_def apply_refuter_outcomes_def
  fail_refuter_batch_def begin_fix_v1_def count_fix_def complete_fix_v1_def
  validate_fix_result_def settle_validation_def keep_observations_def keep_checks_def
  begin_final_verification_def bind_release_evidence_def complete_final_verification_def
  escalate_budget_def invalid_transition_def advance_after_evidence_def write_outcomes_def Let_def

lemma write_outcomes_frame:
  "tx_counters (fst (write_outcomes kvs t)) = tx_counters t"
  "v1_scope (fst (write_outcomes kvs t)) = v1_scope t"
  "tx_mode (fst (write_outcomes kvs t)) = tx_mode t"
  by (simp_all add: write_outcomes_def v1_scope_def split: option.splits)

lemma run_op_scope: "v1_scope (fst (run_op op t)) = v1_scope t"
  by (cases op) (simp_all add: v1_step_defs v1_scope_def split: option.splits sum.splits prod.splits)

lemma v1_scope_mode: "v1_scope s = v1_scope t \<Longrightarrow> tx_mode s = tx_mode t"
  by (simp add: v1_scope_def)

section \<open>Operations keep the budget\<close>

lemma counters_valid_iff:
  "validate_counters m c = None \<longleftrightarrow>
     list_all (\<lambda>v. 0 \<le> v) (counter_values c) \<and>
     (is_ordinary_mode m \<longrightarrow>
        cn_full c \<le> of_bool (m = Ordinary4R) \<and> cn_refuter c \<le> 1 \<and> cn_fix c \<le> 1 \<and> cn_scoped c \<le> 1 \<and>
        cn_final c \<le> 1 \<and> cn_rounds c = 0 \<and> cn_rejudgments c = 0 \<and> cn_judges c = 0 \<and>
        list_all (\<lambda>v. v \<le> of_bool (m = OrdinaryBounded))
          [cn_risk c, cn_resilience c, cn_readability c, cn_reliability c]) \<and>
     (m = JudgmentDay \<longrightarrow>
        cn_rounds c \<le> 2 \<and> cn_rejudgments c \<le> 2 \<and> cn_refuter c = 0 \<and> cn_fix c = 0 \<and> cn_scoped c = 0 \<and>
        cn_final c \<le> 1 \<and> cn_judges c \<in> {0, 2} \<and>
        list_all (\<lambda>v. v = 0) [cn_risk c, cn_resilience c, cn_readability c, cn_reliability c])"
  by (cases m) (auto simp: validate_counters_def counter_values_def is_ordinary_mode_def)

lemma small_go_add: "0 \<le> a \<Longrightarrow> a \<le> 2 \<Longrightarrow> go_add a 1 = a + 1"
  by (rule go_add_exact) (simp add: go_int_def int_min_def int_max_def)


lemmas counter_budget = counters_valid_iff counter_values_def small_go_add is_ordinary_mode_def

lemma lens_counter_budget:
  assumes "validate_counters OrdinaryBounded c = None"
  shows "validate_counters OrdinaryBounded (set_lens_counter lens 1 c) = None"
  using assms by (auto simp: counter_budget set_lens_counter_def)

lemma refuter_budget:
  assumes "validate_counters m c = None" "is_ordinary_mode m" "\<not> cn_refuter c \<ge> 1"
  shows "validate_counters m (c\<lparr>cn_refuter := go_add (cn_refuter c) 1\<rparr>) = None"
  using assms by (auto simp: counter_budget)

lemma simple_ops_budget:
  assumes "validate_counters (tx_mode t) (tx_counters t) = None"
  shows "validate_counters (tx_mode t) (tx_counters (fst (start_review t))) = None"
    "validate_counters (tx_mode t) (tx_counters (fst (count_fix t))) = None"
    "validate_counters (tx_mode t) (tx_counters (fst (settle_validation ok t))) = None"
    "validate_counters (tx_mode t) (tx_counters (fst (begin_final_verification t))) = None"
  using assms
  by (auto simp: start_review_def count_fix_def settle_validation_def begin_final_verification_def
      escalate_budget_def invalid_transition_def Let_def counter_budget)

lemma lens_result_budget:
  assumes "validate_counters (tx_mode t) (tx_counters t) = None"
  shows "validate_counters (tx_mode t) (tx_counters (fst (record_lens_result r t))) = None"
  using assms lens_counter_budget
  by (auto simp: record_lens_result_def invalid_transition_def split: sum.splits option.splits)

lemma judge_count: "validate_judge_proofs ps a = Inr (qs, h) \<Longrightarrow> length qs = 2"
  by (auto simp: validate_judge_proofs_def Let_def split: if_splits sum.splits)

lemma judges_budget:
  assumes "validate_counters (tx_mode t) (tx_counters t) = None"
  shows "validate_counters (tx_mode t) (tx_counters (fst (record_judge_proofs ps a t))) = None"
  using assms
  by (auto simp: record_judge_proofs_def invalid_transition_def counter_budget
      dest!: judge_count split: sum.splits)

lemma fail_batch_budget:
  assumes "validate_counters (tx_mode t) (tx_counters t) = None" "is_ordinary_mode (tx_mode t)"
    "\<not> cn_refuter (tx_counters t) \<ge> 1"
  shows "validate_counters (tx_mode t) (tx_counters (fst (fail_refuter_batch e t))) = None"
  using refuter_budget [OF assms] assms(1)
  by (auto simp: fail_refuter_batch_def write_outcomes_def split: option.splits prod.splits)

lemma refuter_ops_budget:
  assumes "validate_counters (tx_mode t) (tx_counters t) = None"
  shows "validate_counters (tx_mode t) (tx_counters (fst (apply_refuter_outcomes rs t))) = None"
  using refuter_budget [OF assms] fail_batch_budget [OF assms] assms
  by (auto simp: apply_refuter_outcomes_def invalid_transition_def escalate_budget_def
      advance_after_evidence_def Let_def split: option.splits sum.splits)

lemma begin_fix_budget:
  assumes "validate_counters (tx_mode t) (tx_counters t) = None"
  shows "validate_counters (tx_mode t) (tx_counters (fst (begin_fix_v1 f ps t))) = None"
  using assms simple_ops_budget(2) [OF assms]
  by (auto simp: begin_fix_v1_def invalid_transition_def split: prod.splits option.splits)

lemma validate_fix_budget:
  assumes "validate_counters (tx_mode t) (tx_counters t) = None"
  shows "validate_counters (tx_mode t) (tx_counters (fst (validate_fix_result v t))) = None"
proof -
  let ?k = "keep_observations v (keep_checks v t)"
  have k: "tx_mode ?k = tx_mode t" "tx_counters ?k = tx_counters t" "tx_counters (keep_checks v t) = tx_counters t"
    by (simp_all add: keep_observations_def keep_checks_def Let_def)
  then have "validate_counters (tx_mode ?k) (tx_counters ?k) = None" using assms by simp
  from simple_ops_budget(3) [OF this] k show ?thesis
    using assms by (auto simp: validate_fix_result_def invalid_transition_def Let_def split: option.splits)
qed

lemma freeze_budget:
  "tx_counters (fst (freeze_findings fs l h t)) = tx_counters t"
proof -
  have "write_outcomes kvs (t\<lparr>tx_findings := x\<rparr>) = (u, e) \<Longrightarrow> tx_counters u = tx_counters t" for kvs x u e
    using write_outcomes_frame(1) [of kvs "t\<lparr>tx_findings := x\<rparr>"] by simp
  then show ?thesis
    by (auto simp: freeze_findings_def invalid_transition_def Let_def
        split: option.splits sum.splits prod.splits)
qed

lemma run_op_budget:
  assumes "validate_counters (tx_mode t) (tx_counters t) = None"
  shows "validate_counters (tx_mode t) (tx_counters (fst (run_op op t))) = None"
proof (cases op)
  case (Classify es)
  then show ?thesis using assms
    by (auto simp: classify_evidence_def settle_evidence_def advance_after_evidence_def
        invalid_transition_def Let_def split: sum.splits)
qed (use assms in \<open>auto simp: simple_ops_budget lens_result_budget judges_budget freeze_budget
      refuter_ops_budget begin_fix_budget validate_fix_budget invalidate_v1_def
      complete_fix_v1_def bind_release_evidence_def complete_final_verification_def
      invalid_transition_def Let_def split: option.splits sum.splits\<close>)

section \<open>What equal transactions share\<close>

lemma elems_nilled [simp]: "elems (nilled s) = elems s"
  by (simp add: nilled_def)

lemma transactions_equal_fields:
  assumes "transactions_equal a b"
  shows "tx_state a = tx_state b" "tx_counters a = tx_counters b" "v1_scope a = v1_scope b"
    "tx_release a = tx_release b" "tx_proposed a = tx_proposed b" "tx_actual a = tx_actual b"
    "elems (tx_results a) = elems (tx_results b)" "tx_ledger a = tx_ledger b"
proof -
  have n: "normalize_transaction a = normalize_transaction b"
    using assms by (simp add: transactions_equal_def)
  have e: "f (normalize_transaction a) = f (normalize_transaction b)" for f :: "transaction \<Rightarrow> 'c"
    by (simp add: n)
  show "tx_state a = tx_state b" "tx_counters a = tx_counters b" "tx_release a = tx_release b"
    "tx_proposed a = tx_proposed b" "tx_actual a = tx_actual b" "tx_ledger a = tx_ledger b"
    using arg_cong [OF n, of tx_state] arg_cong [OF n, of tx_counters] arg_cong [OF n, of tx_release]
      arg_cong [OF n, of tx_proposed] arg_cong [OF n, of tx_actual] arg_cong [OF n, of tx_ledger]
    by (simp_all add: normalize_transaction_def)
  show "elems (tx_results a) = elems (tx_results b)"
    using arg_cong [OF n, of "\<lambda>t. elems (tx_results t)"] by (simp add: normalize_transaction_def)
  show "v1_scope a = v1_scope b"
    using arg_cong [OF n, of v1_scope] by (simp add: normalize_transaction_def v1_scope_def)
qed

lemma transactions_equal_refl [simp]: "transactions_equal t t"
  by (simp add: transactions_equal_def)

section \<open>Accepted events\<close>

definition v1_event_step :: "transaction \<Rightarrow> transaction \<Rightarrow> bool" where
  "v1_event_step p n \<longleftrightarrow>
     v1_checks n = None \<and> (\<exists>operation i. validate_persisted_successor p n operation i = None)"

lemma validate_successor_parts:
  assumes "validate_successor p n operation = None" "operation \<noteq> ''review/invalidate''"
  shows "immutable_scope p n = None" "expected_counters p n = Some (tx_counters n)"
    "release_binding p n \<or> lens_transition p n operation \<or>
     legal_state_transition (tx_state p) (tx_state n)"
    "check_release p n operation = None" "check_lens_step p n operation = None"
    "check_fix_start p n operation = None" "check_frozen_evidence p n = None"
    "check_fix_completion p n = None" "check_freeze p n operation = None"
    "check_targeted p n operation = None"
  using assms by (simp_all add: validate_successor_def check_v1_transition_def)

lemma immutable_scope_eq: "immutable_scope p n = None \<Longrightarrow> v1_scope n = v1_scope p"
  by (auto simp: immutable_scope_def v1_scope_def)

lemma replays_fields:
  assumes "replays op p n"
  shows "v1_scope n = v1_scope p" "tx_state n = tx_state (fst (run_op op p))"
    "tx_counters n = tx_counters (fst (run_op op p))" "snd (run_op op p) = None"
  using assms run_op_scope [of op p] transactions_equal_fields
  by (auto simp: replays_def split: prod.splits option.splits)

lemma persisted_cases:
  assumes "validate_persisted_successor p n operation i = None"
  obtains (checked) operation' where "validate_successor p n operation' = None"
  | (historical) "validate_historical_freeze p n = None" "tx_state n = FindingsFrozen"
      "tx_state p = Reviewing \<or> tx_state p = JudgesConfirmed"
  using assms by (auto simp: validate_persisted_successor_def split: if_splits)

lemma historical_fields:
  assumes "validate_historical_freeze p n = None"
  shows "v1_scope n = v1_scope p" "tx_counters n = tx_counters p"
proof -
  have "transactions_equal (historical_freeze_expected p n) n"
    using assms by (simp add: validate_historical_freeze_def)
  from transactions_equal_fields(2,3) [OF this]
  show "v1_scope n = v1_scope p" "tx_counters n = tx_counters p"
    by (simp_all add: historical_freeze_expected_def v1_scope_def)
qed

lemma invalidation_event:
  assumes "validate_successor p n ''review/invalidate'' = None"
  shows "tx_state p = Reviewing" "tx_state n = Invalidated" "v1_scope n = v1_scope p"
proof -
  have "replays (InvalidateReview (tx_invalidation n)) p n"
    using assms by (simp add: validate_successor_def)
  note r = replays_fields [OF this]
  then show "v1_scope n = v1_scope p" by simp
  show "tx_state p = Reviewing" "tx_state n = Invalidated"
    using r(2,4) by (auto simp: invalidate_v1_def Let_def pristine_reviewing_def split: if_splits)
qed

lemma event_scope:
  assumes "v1_event_step p n"
  shows "v1_scope n = v1_scope p"
proof -
  from assms obtain op i where "validate_persisted_successor p n op i = None"
    by (auto simp: v1_event_step_def)
  then show ?thesis
  proof (cases rule: persisted_cases)
    case (checked op')
    then show ?thesis
      using invalidation_event(3) immutable_scope_eq validate_successor_parts(1) by metis
  next
    case historical then show ?thesis by (simp add: historical_fields)
  qed
qed

section \<open>The rank\<close>

definition fixes_left :: "transaction \<Rightarrow> nat" where
  "fixes_left t = nat (if is_ordinary_mode (tx_mode t) then 1 - cn_fix (tx_counters t)
                       else 2 - cn_rounds (tx_counters t))"

fun state_rank :: "review_state \<Rightarrow> nat \<Rightarrow> nat \<Rightarrow> bool \<Rightarrow> nat" where
  \<comment> \<open>by state: lens results still possible, corrections left, and whether a release may be bound\<close>
  "state_rank Reviewing lenses k unbound = 14 + lenses"
| "state_rank JudgesConfirmed lenses k unbound = 13"
| "state_rank FindingsFrozen lenses k unbound = 12"
| "state_rank EvidenceClassified lenses k unbound = 11"
| "state_rank FixRequired lenses k unbound = 4 + 3 * k"
| "state_rank Fixing lenses k unbound = 6 + 3 * k"
| "state_rank FixValidating lenses k unbound = 5 + 3 * k"
| "state_rank ReadyFinalVerification lenses k unbound = 2 + of_bool unbound"
| "state_rank FinalVerifying lenses k unbound = 1"
| "state_rank _ lenses k unbound = 0"

definition v1_rank :: "transaction \<Rightarrow> nat" where
  "v1_rank t = state_rank (tx_state t) (4 - length (elems (tx_results t))) (fixes_left t)
     (tx_release t = None)"

lemma checks_counters: "v1_checks t = None \<Longrightarrow> validate_counters (tx_mode t) (tx_counters t) = None"
  by (simp add: v1_checks_def)

lemma checks_mode: "v1_checks t = None \<Longrightarrow> is_ordinary_mode (tx_mode t) \<or> tx_mode t = JudgmentDay"
  by (auto simp: v1_checks_def validate_identity_def is_ordinary_mode_def)

lemma fixes_left_bound: "v1_checks t = None \<Longrightarrow> fixes_left t \<le> 2"
  using checks_counters [of t] checks_mode [of t]
  by (auto simp: fixes_left_def counters_valid_iff counter_values_def)

lemma check_lens_results_length: "check_lens_results c seen ls rs \<Longrightarrow> length rs \<le> length ls"
  by (induction c seen ls rs rule: check_lens_results.induct) auto

lemma checks_results:
  assumes "v1_checks t = None" "tx_state t \<noteq> Invalidated"
  shows "length (elems (tx_results t)) \<le> 4"
proof -
  from assms have "validate_lens_state t = None" by (simp add: v1_checks_def validate_v1_state_def)
  then have "length (elems (tx_results t)) \<le> length (elems (tx_lenses t))" "tx_mode t = OrdinaryBounded \<longrightarrow>
      validate_selected_lenses (tx_mode t) (tx_risk t) (elems (tx_lenses t)) = Inr (elems (tx_lenses t))"
    by (auto simp: validate_lens_state_def Let_def dest: check_lens_results_length split: if_splits)
  then show ?thesis
    using \<open>validate_lens_state t = None\<close>
    by (fastforce simp: validate_selected_lenses_def supported_lenses_def validate_lens_state_def Let_def
        split: if_splits risk_level.splits)
qed

lemma set_lens_counter_fix:
  "cn_fix (set_lens_counter l v c) = cn_fix c" "cn_rounds (set_lens_counter l v c) = cn_rounds c"
  by (simp_all add: set_lens_counter_def)

lemma expected_fix_kept:
  assumes "expected_counters p n = Some c" "\<not> (tx_state p = FixRequired \<and> tx_state n = Fixing)"
  shows "cn_fix c = cn_fix (tx_counters p)" "cn_rounds c = cn_rounds (tx_counters p)"
  using assms by (auto simp: expected_counters_def Let_def set_lens_counter_fix split: if_splits)

lemma expected_fix_used:
  assumes "expected_counters p n = Some c" "tx_state p = FixRequired" "tx_state n = Fixing"
  shows "if is_ordinary_mode (tx_mode p) then cn_fix c = go_add (cn_fix (tx_counters p)) 1
         else cn_rounds c = go_add (cn_rounds (tx_counters p)) 1"
  using assms by (auto simp: expected_counters_def Let_def)

lemma fixes_left_kept:
  assumes "v1_scope n = v1_scope p" "expected_counters p n = Some (tx_counters n)"
    and "\<not> (tx_state p = FixRequired \<and> tx_state n = Fixing)"
  shows "fixes_left n = fixes_left p"
  using expected_fix_kept [OF assms(2,3)] v1_scope_mode [OF assms(1)] by (simp add: fixes_left_def)

lemma counter_ranges:
  assumes "v1_checks t = None"
  shows "0 \<le> cn_fix (tx_counters t)" "0 \<le> cn_rounds (tx_counters t)"
    "is_ordinary_mode (tx_mode t) \<Longrightarrow> cn_fix (tx_counters t) \<le> 1"
    "\<not> is_ordinary_mode (tx_mode t) \<Longrightarrow> cn_rounds (tx_counters t) \<le> 2"
  using checks_counters [OF assms] checks_mode [OF assms]
  by (auto simp: counters_valid_iff counter_values_def)

lemma fixes_left_used:
  assumes "v1_scope n = v1_scope p" "expected_counters p n = Some (tx_counters n)"
    and "tx_state p = FixRequired" "tx_state n = Fixing" "v1_checks p = None" "v1_checks n = None"
  shows "fixes_left p = Suc (fixes_left n)"
proof (cases "is_ordinary_mode (tx_mode p)")
  case True
  then have "cn_fix (tx_counters n) = cn_fix (tx_counters p) + 1"
    using expected_fix_used [OF assms(2-4)] counter_ranges(1,3) [OF assms(5)] by (simp add: small_go_add)
  then show ?thesis
    using True v1_scope_mode [OF assms(1)] counter_ranges(1,3) [OF assms(6)] counter_ranges(1) [OF assms(5)]
    by (simp add: fixes_left_def)
next
  case False
  then have "cn_rounds (tx_counters n) = cn_rounds (tx_counters p) + 1"
    using expected_fix_used [OF assms(2-4)] counter_ranges(2,4) [OF assms(5)] by (simp add: small_go_add)
  then show ?thesis
    using False v1_scope_mode [OF assms(1)] counter_ranges(2,4) [OF assms(6)] counter_ranges(2) [OF assms(5)]
    by (simp add: fixes_left_def)
qed

lemma legal_pairs:
  assumes "legal_state_transition p n"
  obtains (fix_start) "p = FixRequired" "n = Fixing"
  | (other) "\<And>l k u l' u'. k \<le> 2 \<Longrightarrow> state_rank n l' k u' < state_rank p l k u"
      "\<not> (p = FixRequired \<and> n = Fixing)"
  using assms by (cases p) (auto simp: legal_state_transition_def)

lemma checked_rank:
  assumes "validate_successor p n operation = None" "v1_checks p = None" "v1_checks n = None"
  shows "v1_rank n < v1_rank p"
proof (cases "operation = ''review/invalidate''")
  case True then show ?thesis using invalidation_event assms(1) by (simp add: v1_rank_def)
next
  case False
  note v = validate_successor_parts [OF assms(1) False]
  note s = immutable_scope_eq [OF v(1)]
  from v(3) consider (release) "release_binding p n" | (lens) "lens_transition p n operation"
    | (legal) "legal_state_transition (tx_state p) (tx_state n)" by blast
  then show ?thesis
  proof cases
    case release
    then show ?thesis using v(4) by (auto simp: check_release_def release_binding_def v1_rank_def)
  next
    case lens
    then have "length (elems (tx_results n)) = length (elems (tx_results p)) + 1"
      "tx_state p = Reviewing" "tx_state n = Reviewing"
      using v(5) by (auto simp: check_lens_step_def lens_transition_def)
    then show ?thesis using checks_results [OF assms(3)] by (simp add: v1_rank_def)
  next
    case legal
    then show ?thesis
    proof (cases rule: legal_pairs)
      case fix_start
      then show ?thesis using fixes_left_used [OF s v(2)] assms(2,3) by (simp add: v1_rank_def)
    next
      case other
      then show ?thesis
        using fixes_left_kept [OF s v(2)] fixes_left_bound [OF assms(2)] by (simp add: v1_rank_def)
    qed
  qed
qed

lemma event_rank:
  assumes "v1_checks p = None" "v1_event_step p n"
  shows "v1_rank n < v1_rank p"
proof -
  from assms(2) obtain op i where "validate_persisted_successor p n op i = None" and n: "v1_checks n = None"
    by (auto simp: v1_event_step_def)
  then show ?thesis
  proof (cases rule: persisted_cases)
    case (checked op') then show ?thesis using checked_rank assms(1) n by blast
  next
    case historical then show ?thesis by (auto simp: v1_rank_def)
  qed
qed

lemma v1_rank_bound: "v1_checks t = None \<Longrightarrow> v1_rank t \<le> 18"
  using fixes_left_bound [of t] by (cases "tx_state t") (auto simp: v1_rank_def)

interpretation v1_chain: lifecycle "\<lambda>t. v1_checks t = None" v1_event_step v1_scope v1_rank
  by unfold_locales (auto simp: event_scope event_rank v1_event_step_def)

section \<open>Final states\<close>

lemma terminal_no_event:
  assumes "v1_checks t = None" "tx_state t \<in> {Approved, Escalated, Invalidated}"
  shows "\<not> v1_event_step t n"
  using assms by (intro v1_chain.stuck) (auto simp: v1_rank_def)

end
