(* ===== verification/V1Commit.thy ===== *)
theory V1Commit
  imports V1Machine ReviewLaws
begin

text \<open>
  The operations of a v1 transaction against the successor check of its store: what an operation
  produces from a valid transaction is accepted as the next event, under the operation's name.
\<close>

fun event_name :: "v1_op \<Rightarrow> transaction \<Rightarrow> string" where
  \<comment> \<open>the operation an event is recorded under; checks that carry only the delta use the v1 name\<close>
  "event_name StartReview t = ''review/start''"
| "event_name (InvalidateReview r) t = ''review/invalidate''"
| "event_name (RecordLens r) t = ''review/record-lens-result''"
| "event_name (RecordJudges ps a) t = ''review/record-judge-proofs''"
| "event_name (Freeze fs l h) t = ''review/freeze-findings''"
| "event_name (Classify es) t = ''review/classify-evidence''"
| "event_name (ApplyRefuter rs) t = ''review/apply-refuter-outcomes''"
| "event_name (BeginFixBatch f ps) t = ''review/begin-fix''"
| "event_name (CompleteFixBatch s ids a) t = ''review/complete-fix''"
| "event_name (ValidateFix v) t =
     (if legacy_checks v t then ''review/validate-fix-delta'' else ''review/validate-targeted-fix'')"
| "event_name BeginVerification t = ''review/begin-final-verification''"
| "event_name (BindRelease r) t = ''review/bind-release-evidence''"
| "event_name (CompleteVerification ev ok) t = ''review/complete-final-verification''"

lemma map_is_monotonic_refl [simp]: "map_is_monotonic m m"
  by (simp add: map_is_monotonic_def fmpred_iff)

lemma finding_prefix_refl [simp]: "finding_slice_prefix s s"
  by (cases s) (simp_all add: finding_slice_prefix_def)

lemma follow_up_prefix_refl [simp]: "follow_up_slice_prefix s s"
  by (cases s) (simp_all add: follow_up_slice_prefix_def)

lemma counters_monotonic_refl [simp]: "counters_monotonic c c"
  by (simp add: counters_monotonic_def list_all2_refl)

lemmas chain_defs =
  validate_successor_def check_v1_transition_def immutable_scope_def check_lens_step_def
  lens_transition_def lens_state_changed_def check_freeze_def check_fix_completion_def
  fix_completion_def check_fix_start_def fix_start_def check_release_def release_binding_def
  legal_state_transition_def check_frozen_evidence_def check_pending_def check_targeted_def
  expected_counters_def Let_def

lemma list_ex_False [simp]: "\<not> list_ex (\<lambda>x. False) xs"
  by (simp add: list_ex_iff)

lemma Some_or_None [simp]: "(\<exists>y. x = Some y) \<or> x = None"
  by (cases x) simp_all

lemma lens_unchanged [simp]: "\<not> lens_state_changed p p"
  by (simp add: lens_state_changed_def)

section \<open>What a valid predecessor gives\<close>

lemma checks_before_freeze: "v1_checks p = None \<Longrightarrow> before_freeze (tx_state p) \<Longrightarrow> unrouted p"
  by (simp add: v1_checks_def validate_finding_routing_def validate_finding_state_def)

lemma checks_unclassified:
  assumes "v1_checks p = None" "tx_state p = FindingsFrozen"
  shows "entries (tx_classifications p) = fmempty" "elems (tx_fix_ids p) = []" "elems (tx_pending p) = []"
    "f \<in> set (elems (tx_findings p)) \<Longrightarrow> is_severe (f_severity f) \<Longrightarrow>
     fmlookup (entries (tx_outcomes p)) (f_id f) = None"
  using assms
  by (auto simp: v1_checks_def validate_finding_routing_def validate_finding_state_def before_freeze_def
      severe_findings_def list_ex_iff)

lemma checks_collections:
  assumes "v1_checks p = None"
  shows "tx_follow_ups p = Some (elems (tx_follow_ups p))" "tx_fix_caused p = Some (elems (tx_fix_caused p))"
proof -
  have "tx_follow_ups p \<noteq> None" "tx_fix_caused p \<noteq> None"
    using assms by (simp_all add: v1_checks_def validate_content_def)
  then show "tx_follow_ups p = Some (elems (tx_follow_ups p))" "tx_fix_caused p = Some (elems (tx_fix_caused p))"
    by (auto simp: elems_def)
qed

lemma checks_no_budget:
  assumes "v1_checks p = None" "\<not> has_correction_budget p"
  shows "tx_proposed p = None" "tx_actual p = None"
proof -
  have "validate_correction_budget p = None"
    using assms(1) by (simp add: v1_checks_def validate_identity_def)
  then show "tx_proposed p = None" "tx_actual p = None"
    using assms(2) by (auto simp: validate_correction_budget_def has_correction_budget_def split: option.splits if_splits)
qed

lemma checks_judges_none:
  assumes "v1_checks p = None" "tx_state p = Reviewing"
  shows "tx_judge_hash p = []" "cn_judges (tx_counters p) = 0"
  using assms by (auto simp: v1_checks_def validate_v1_state_def validate_judge_state_def Let_def split: if_splits)

lemma checks_no_originals:
  assumes "v1_checks p = None" "tx_state p = FixValidating"
  shows "tx_original p = None" "tx_regression p = None"
  using assms by (auto simp: v1_checks_def validate_content_def split: option.splits)

section \<open>Starting over, lens results and judges\<close>

lemma invalidate_event:
  assumes "invalidate_v1 r p = (n, None)"
  shows "validate_successor p n ''review/invalidate'' = None"
  using assms by (auto simp: invalidate_v1_def validate_successor_def replays_def Let_def split: if_splits)

lemma record_lens_result_Some:
  assumes "record_lens_result r p = (n, None)"
  obtains c where "validate_lens_result c = Inr c" "lr_lens c \<in> set supported_lenses"
    "index_of (elems (tx_lenses p)) (lr_lens c) = Some (length (elems (tx_results p)))"
    "lens_executions (lr_lens c) (tx_counters p) = 0" "\<not> has_result_for (elems (tx_results p)) (lr_lens c)"
    "\<not> list_ex (\<lambda>r. lr_hash r = lr_hash c) (elems (tx_results p))"
    "tx_mode p = OrdinaryBounded" "tx_state p = Reviewing"
    "n = p\<lparr>tx_results := append_slice (tx_results p) [c],
           tx_counters := set_lens_counter (lr_lens c) 1 (tx_counters p)\<rparr>"
proof -
  from assms obtain lens c where l: "lens \<in> set supported_lenses"
    "index_of (elems (tx_lenses p)) lens = Some (length (elems (tx_results p)))"
    "lens_executions lens (tx_counters p) = 0" "\<not> has_result_for (elems (tx_results p)) lens"
    and c: "validate_lens_result (r\<lparr>lr_lens := lens\<rparr>) = Inr c"
    "\<not> list_ex (\<lambda>r. lr_hash r = lr_hash c) (elems (tx_results p))"
    and m: "tx_mode p = OrdinaryBounded" "tx_state p = Reviewing"
    "n = p\<lparr>tx_results := append_slice (tx_results p) [c],
           tx_counters := set_lens_counter (lr_lens c) 1 (tx_counters p)\<rparr>"
    unfolding record_lens_result_def invalid_transition_def
    by (auto split: if_splits sum.splits option.splits)
  have "lr_lens c = lens"
    using canonical_lens_result_Some [OF c(1) [unfolded validate_lens_result_def]] supported_lens_solid [OF l(1)]
    by simp
  moreover have "validate_lens_result c = Inr c"
    using canonical_lens_result_fixpoint c(1) by (simp add: validate_lens_result_def)
  ultimately show ?thesis using that l c m by blast
qed

lemma lens_recorded_again:
  assumes "validate_lens_result c = Inr c" "lr_lens c \<in> set supported_lenses"
    "index_of (elems (tx_lenses p)) (lr_lens c) = Some (length (elems (tx_results p)))"
    "lens_executions (lr_lens c) (tx_counters p) = 0" "\<not> has_result_for (elems (tx_results p)) (lr_lens c)"
    "\<not> list_ex (\<lambda>r. lr_hash r = lr_hash c) (elems (tx_results p))"
    "tx_mode p = OrdinaryBounded" "tx_state p = Reviewing"
  shows "record_lens_result c p = (p\<lparr>tx_results := append_slice (tx_results p) [c],
           tx_counters := set_lens_counter (lr_lens c) 1 (tx_counters p)\<rparr>, None)"
proof -
  have "result_lens p c = Inr (lr_lens c)"
    using supported_lens_solid [OF assms(2)] by (auto simp: result_lens_def Let_def solid_ends_def)
  then show ?thesis using assms by (simp add: record_lens_result_def)
qed

lemma lens_counter_monotonic:
  assumes "lens_executions l c = 0"
  shows "counters_monotonic c (set_lens_counter l 1 c)"
  using assms by (auto simp: counters_monotonic_def counter_values_def set_lens_counter_def
      lens_executions_def split: if_splits)

lemma record_lens_event:
  assumes "record_lens_result r p = (n, None)"
  shows "validate_successor p n ''review/record-lens-result'' = None"
proof -
  from assms obtain c where c: "validate_lens_result c = Inr c" "lr_lens c \<in> set supported_lenses"
    "index_of (elems (tx_lenses p)) (lr_lens c) = Some (length (elems (tx_results p)))"
    "lens_executions (lr_lens c) (tx_counters p) = 0" "\<not> has_result_for (elems (tx_results p)) (lr_lens c)"
    "\<not> list_ex (\<lambda>r. lr_hash r = lr_hash c) (elems (tx_results p))"
    "tx_mode p = OrdinaryBounded" "tx_state p = Reviewing"
    and n: "n = p\<lparr>tx_results := append_slice (tx_results p) [c],
           tx_counters := set_lens_counter (lr_lens c) 1 (tx_counters p)\<rparr>"
    by (rule record_lens_result_Some)
  have "replays (RecordLens c) p n"
    by (simp add: replays_def lens_recorded_again [OF c] n)
  then show ?thesis using c lens_counter_monotonic [OF c(4)] by (auto simp: n chain_defs)
qed

lemma record_judges_event:
  assumes "v1_checks p = None" "record_judge_proofs ps a p = (n, None)"
  shows "validate_successor p n ''review/record-judge-proofs'' = None"
proof -
  from assms(2) obtain qs h where j: "validate_judge_proofs ps a = Inr (qs, h)"
    and s: "tx_mode p = JudgmentDay" "tx_state p = Reviewing"
    and n: "n = p\<lparr>tx_judges := Some qs, tx_judge_hash := h, tx_agreement := a,
       tx_counters := (tx_counters p)\<lparr>cn_judges := int (length qs)\<rparr>, tx_state := JudgesConfirmed\<rparr>"
    by (auto simp: record_judge_proofs_def invalid_transition_def split: if_splits sum.splits)
  have "counters_monotonic (tx_counters p) (tx_counters n)"
    using checks_judges_none [OF assms(1) s(2)]
    by (simp add: n counters_monotonic_def counter_values_def)
  then show ?thesis using s judge_count [OF j] checks_judges_none [OF assms(1) s(2)]
    by (auto simp: n chain_defs lens_executions_def)
qed

section \<open>Verification and release\<close>

lemma begin_verification_event:
  assumes "v1_checks p = None" "begin_final_verification p = (n, None)"
  shows "validate_successor p n ''review/begin-final-verification'' = None"
proof -
  have s: "tx_state p = ReadyFinalVerification" and c: "\<not> cn_final (tx_counters p) \<ge> 1"
    and n: "n = p\<lparr>tx_counters := (tx_counters p)\<lparr>cn_final := go_add (cn_final (tx_counters p)) 1\<rparr>,
              tx_state := FinalVerifying\<rparr>"
    using assms(2) by (auto simp: begin_final_verification_def invalid_transition_def
        escalate_budget_def Let_def split: if_splits)
  have "0 \<le> cn_final (tx_counters p)"
    using checks_counters [OF assms(1)] by (simp add: counters_valid_iff counter_values_def)
  then have "counters_monotonic (tx_counters p) (tx_counters n)"
    using c by (simp add: n counters_monotonic_def counter_values_def small_go_add)
  then show ?thesis using s
    by (auto simp: n chain_defs lens_executions_def)
qed

lemma bind_release_event:
  assumes "bind_release_evidence r p = (n, None)" "n \<noteq> p"
  shows "validate_successor p n ''review/bind-release-evidence'' = None"
proof -
  from assms have "tx_state p = ReadyFinalVerification" "tx_release p = None" "n = p\<lparr>tx_release := Some r\<rparr>"
    by (auto simp: bind_release_evidence_def invalid_transition_def split: if_splits option.splits)
  moreover from this have e: "p\<lparr>tx_release := None\<rparr> = p" by (cases p) simp
  have "transactions_equal p (p\<lparr>tx_release := None\<rparr>)" unfolding e by simp
  ultimately show ?thesis by (auto simp: chain_defs)
qed

lemma complete_verification_event:
  assumes "complete_final_verification ev ok p = (n, None)"
  shows "validate_successor p n ''review/complete-final-verification'' = None"
proof -
  have s: "tx_state p = FinalVerifying"
    and n: "n = p\<lparr>tx_evidence := ev, tx_state := (if ok then Approved else Escalated)\<rparr>"
    using assms by (auto simp: complete_final_verification_def invalid_transition_def split: if_splits)
  show ?thesis using s by (cases ok) (simp_all add: n chain_defs)
qed

section \<open>The correction\<close>

lemma count_fix_None:
  assumes "count_fix p = (t, None)" "is_ordinary_mode (tx_mode p) \<or> tx_mode p = JudgmentDay"
  shows "t = p\<lparr>tx_counters := (if is_ordinary_mode (tx_mode p)
       then (tx_counters p)\<lparr>cn_fix := go_add (cn_fix (tx_counters p)) 1\<rparr>
       else (tx_counters p)\<lparr>cn_rounds := go_add (cn_rounds (tx_counters p)) 1\<rparr>)\<rparr>"
    "is_ordinary_mode (tx_mode p) \<Longrightarrow> cn_fix (tx_counters p) < 1"
    "\<not> is_ordinary_mode (tx_mode p) \<Longrightarrow> cn_rounds (tx_counters p) < 2"
  using assms by (auto simp: count_fix_def escalate_budget_def split: if_splits)

lemma begin_fix_cases:
  assumes "begin_fix_v1 f ps p = (n, None)"
  obtains (over) x where "tx_state p = FixRequired" "has_correction_budget p" "ps = [x]"
      "n = p\<lparr>tx_failed := f, tx_proposed := Some x, tx_state := Escalated\<rparr>"
  | (budgeted) x t where "tx_state p = FixRequired" "has_correction_budget p" "ps = [x]"
      "count_fix p = (t, None)" "n = t\<lparr>tx_failed := f, tx_proposed := Some x, tx_state := Fixing\<rparr>"
  | (free) t where "tx_state p = FixRequired" "\<not> has_correction_budget p" "ps = []"
      "count_fix p = (t, None)" "n = t\<lparr>tx_failed := f, tx_state := Fixing\<rparr>"
proof -
  have s: "tx_state p = FixRequired" "valid_sha256 f"
    using assms by (auto simp: begin_fix_v1_def invalid_transition_def split: if_splits)
  obtain t e where t: "count_fix p = (t, e)" by (cases "count_fix p")
  show ?thesis
  proof (cases "has_correction_budget p")
    case True
    then obtain x where x: "ps = [x]" "x > 0"
      using assms s by (auto simp: begin_fix_v1_def split: if_splits)
    show ?thesis
    proof (cases "x > the (tx_budget p)")
      case over': True
      show ?thesis using assms s True x over' by (intro over) (auto simp: begin_fix_v1_def)
    next
      case False
      then show ?thesis using assms s True x t
        by (cases e) (intro budgeted, auto simp: begin_fix_v1_def)
    qed
  next
    case False
    then have "ps = []" using assms s by (auto simp: begin_fix_v1_def split: if_splits)
    then show ?thesis using assms s False t
      by (cases e) (intro free, auto simp: begin_fix_v1_def)
  qed
qed

lemma fix_count_monotonic:
  assumes "v1_checks p = None"
  shows "counters_monotonic (tx_counters p)
     (if is_ordinary_mode (tx_mode p) then (tx_counters p)\<lparr>cn_fix := go_add (cn_fix (tx_counters p)) 1\<rparr>
      else (tx_counters p)\<lparr>cn_rounds := go_add (cn_rounds (tx_counters p)) 1\<rparr>)"
  using counter_ranges [OF assms]
  by (cases "is_ordinary_mode (tx_mode p)") (simp_all add: counters_monotonic_def counter_values_def small_go_add)

lemma fix_started:
  assumes "tx_state p = FixRequired" "count_fix p = (t, None)" "v1_checks p = None"
    and "n = t\<lparr>tx_failed := f, tx_proposed := x, tx_state := Fixing\<rparr>"
    and "replays (BeginFixBatch f (optional_lines x)) p n"
  shows "validate_successor p n ''review/begin-fix'' = None"
  using assms(1,5) fix_count_monotonic [OF assms(3)] count_fix_None(1) [OF assms(2) checks_mode [OF assms(3)]]
  by (cases "is_ordinary_mode (tx_mode p)") (simp_all add: assms(4) chain_defs lens_executions_def)

lemma begin_fix_event:
  assumes v: "v1_checks p = None" and b: "begin_fix_v1 f ps p = (n, None)"
  shows "validate_successor p n ''review/begin-fix'' = None"
  using b
proof (cases rule: begin_fix_cases)
  case (over x)
  then have "replays (BeginFixBatch f [x]) p n" using b by (simp add: replays_def)
  then show ?thesis using over(1,2) by (simp add: over(4) chain_defs optional_lines_def)
next
  case (budgeted x t)
  have "replays (BeginFixBatch f (optional_lines (Some x))) p n"
    using b budgeted(3) by (simp add: replays_def optional_lines_def)
  then show ?thesis by (rule fix_started [OF budgeted(1,4) v budgeted(5)])
next
  case (free t)
  have "tx_proposed t = None"
    using count_fix_None(1) [OF free(4) checks_mode [OF v]] checks_no_budget(1) [OF v free(2)] by simp
  then have "n = t\<lparr>tx_failed := f, tx_proposed := None, tx_state := Fixing\<rparr>"
    by (cases t) (simp add: free(5))
  moreover have "replays (BeginFixBatch f (optional_lines None)) p n"
    using b free(3) by (simp add: replays_def optional_lines_def)
  ultimately show ?thesis by (rule fix_started [OF free(1,4) v])
qed

lemma complete_fix_cases:
  assumes "complete_fix_v1 snap ids actual p = (n, None)"
  obtains cids where "tx_state p = Fixing" "sn_kind snap = FixDiff" "sn_base snap = tx_final_tree p"
    "paths_are_subset (elems (sn_paths snap)) (genesis_scope p) = None"
    "canonical_ids ids = Inr cids" "elems (tx_fix_ids p) = cids" "elems (sn_ledger_ids snap) = cids"
    "has_correction_budget p \<longrightarrow> (\<exists>x. actual = [x])" "\<not> has_correction_budget p \<longrightarrow> actual = []"
    "n = p\<lparr>tx_snapshot := snap, tx_final_tree := sn_candidate snap, tx_fix_delta := fix_delta_hash snap,
         tx_actual := (if has_correction_budget p then Some (hd actual) else tx_actual p), tx_state := FixValidating\<rparr>"
proof -
  have s: "tx_state p = Fixing" "validate_snapshot snap = None"
    "sn_kind snap = FixDiff \<and> sn_base snap = tx_final_tree p"
    using assms unfolding complete_fix_v1_def invalid_transition_def
    by (simp_all split: if_splits option.splits)
  from assms s obtain cids where c: "canonical_ids ids = Inr cids"
    by (cases "canonical_ids ids") (simp_all add: complete_fix_v1_def)
  have e: "cids = elems (tx_fix_ids p)" "cids = elems (sn_ledger_ids snap)"
    by (rule ccontr, use assms s c in \<open>simp add: complete_fix_v1_def\<close>)+
  have g: "paths_are_subset (elems (sn_paths snap)) (genesis_scope p) = None"
    using assms s c e(1) e(2) [symmetric]
    by (cases "paths_are_subset (elems (sn_paths snap)) (genesis_scope p)") (simp_all add: complete_fix_v1_def)
  note run = assms [unfolded complete_fix_v1_def] s c e(1) [symmetric] e(2) [symmetric] g
  show ?thesis
  proof (rule that [OF s(1) _ _ g c e(1) [symmetric] e(2) [symmetric]])
    show "sn_kind snap = FixDiff" "sn_base snap = tx_final_tree p" using s by simp_all
    show "has_correction_budget p \<longrightarrow> (\<exists>x. actual = [x])" "\<not> has_correction_budget p \<longrightarrow> actual = []"
      using run by (auto split: if_splits)
    show "n = p\<lparr>tx_snapshot := snap, tx_final_tree := sn_candidate snap, tx_fix_delta := fix_delta_hash snap,
         tx_actual := (if has_correction_budget p then Some (hd actual) else tx_actual p), tx_state := FixValidating\<rparr>"
      using run by (simp split: if_splits)
  qed
qed

lemma complete_fix_event:
  assumes v: "v1_checks p = None" and b: "complete_fix_v1 snap ids actual p = (n, None)"
  shows "validate_successor p n ''review/complete-fix'' = None"
proof -
  from b obtain cids where s: "tx_state p = Fixing" "sn_kind snap = FixDiff" "sn_base snap = tx_final_tree p"
    "paths_are_subset (elems (sn_paths snap)) (genesis_scope p) = None"
    "canonical_ids ids = Inr cids" "elems (tx_fix_ids p) = cids" "elems (sn_ledger_ids snap) = cids"
    and a: "has_correction_budget p \<longrightarrow> (\<exists>x. actual = [x])" "\<not> has_correction_budget p \<longrightarrow> actual = []"
    and n': "n = p\<lparr>tx_snapshot := snap, tx_final_tree := sn_candidate snap, tx_fix_delta := fix_delta_hash snap,
         tx_actual := (if has_correction_budget p then Some (hd actual) else tx_actual p), tx_state := FixValidating\<rparr>"
    by (rule complete_fix_cases)
  define A where "A = (if has_correction_budget p then Some (hd actual) else tx_actual p)"
  note n = n' [folded A_def]
  have actual: "optional_lines A = actual"
    using a checks_no_budget(2) [OF v] by (cases "has_correction_budget p") (auto simp: A_def optional_lines_def)
  have "canonical_strings ids = Inr cids" using s(5) by (simp add: canonical_ids_def split: sum.splits)
  from labels.idempotent [OF this] have i: "canonical_ids cids = Inr cids" by (simp add: canonical_ids_def)
  have "complete_fix_v1 snap cids actual p = complete_fix_v1 snap ids actual p"
    unfolding complete_fix_v1_def i s(5) by (rule refl)
  then have r: "replays (CompleteFixBatch snap cids (optional_lines A)) p n"
    unfolding actual using b by (simp add: replays_def)
  show ?thesis using r s(1-4,6,7) unfolding n
    by (simp add: chain_defs lens_executions_def)
qed

section \<open>Validating the fix delta\<close>

lemma add_unique_sorted_set: "set (add_unique_sorted xs x) = insert x (set xs)"
  by (auto simp: add_unique_sorted_def)

lemma add_all_unique_set: "set (foldl add_unique_sorted xs ys) = set xs \<union> set ys"
  by (induction ys arbitrary: xs) (auto simp: add_unique_sorted_set)

lemma settle_validation_cases:
  assumes "settle_validation ok p = (n, None)"
  obtains (ordinary) "is_ordinary_mode (tx_mode p)" "cn_scoped (tx_counters p) < 1"
      "n = p\<lparr>tx_counters := (tx_counters p)\<lparr>cn_scoped := go_add (cn_scoped (tx_counters p)) 1\<rparr>,
             tx_state := (if ok then ReadyFinalVerification else Escalated)\<rparr>"
  | (judged) "tx_mode p = JudgmentDay" "cn_rejudgments (tx_counters p) < 2"
      "n = p\<lparr>tx_counters := (tx_counters p)\<lparr>cn_rejudgments := go_add (cn_rejudgments (tx_counters p)) 1\<rparr>,
             tx_state := (if ok then ReadyFinalVerification
                          else if cn_rounds (tx_counters p) \<ge> 2 then Escalated else FixRequired)\<rparr>"
  | (neither) "\<not> is_ordinary_mode (tx_mode p)" "tx_mode p \<noteq> JudgmentDay"
  using assms unfolding settle_validation_def Let_def escalate_budget_def
  by (auto split: if_splits)

lemma validate_fix_result_cases:
  assumes "validate_fix_result v p = (n, None)"
  obtains ok where "tx_state p = FixValidating" "check_validation_result v p = None"
    "settle_validation ok (keep_observations v (keep_checks v p)) = (n, None)"
proof -
  have "tx_state p = FixValidating"
    using assms by (auto simp: validate_fix_result_def invalid_transition_def split: if_splits)
  then show ?thesis using assms that
    by (cases "check_validation_result v p") (auto simp: validate_fix_result_def Let_def split: if_splits)
qed

lemma kept_validation:
  obtains original regression ids where
    "keep_observations v (keep_checks v p) =
       p\<lparr>tx_original := original, tx_regression := regression,
         tx_fix_caused := append_slice (tx_fix_caused p) (elems (sv_fix_caused v)),
         tx_follow_ups := append_slice (tx_follow_ups p) (elems (sv_follow_ups v)), tx_fix_ids := ids\<rparr>"
    "set (elems (tx_fix_ids p)) \<subseteq> set (elems ids)"
    "is_ordinary_mode (tx_mode p) \<and> \<not> legacy_checks v p \<Longrightarrow> original \<noteq> None \<and> regression \<noteq> None"
    "\<not> (is_ordinary_mode (tx_mode p) \<and> \<not> legacy_checks v p) \<Longrightarrow>
       original = tx_original p \<and> regression = tx_regression p"
proof -
  define severe where "severe = map f_id (severe_findings (elems (sv_fix_caused v)))"
  define ids where "ids = (if tx_mode p = JudgmentDay \<and> severe \<noteq> []
     then Some (foldl add_unique_sorted (elems (tx_fix_ids p)) severe) else tx_fix_ids p)"
  have "set (elems (tx_fix_ids p)) \<subseteq> set (elems ids)" by (simp add: ids_def add_all_unique_set)
  moreover have "keep_observations v (keep_checks v p) = (keep_checks v p)\<lparr>
      tx_fix_caused := append_slice (tx_fix_caused p) (elems (sv_fix_caused v)),
      tx_follow_ups := append_slice (tx_follow_ups p) (elems (sv_follow_ups v)), tx_fix_ids := ids\<rparr>"
    by (simp add: keep_observations_def keep_checks_def ids_def severe_def)
  moreover have "keep_checks v p = p\<lparr>tx_original := tx_original (keep_checks v p),
      tx_regression := tx_regression (keep_checks v p)\<rparr>"
    by (cases p) (simp add: keep_checks_def)
  ultimately have q: "keep_observations v (keep_checks v p) =
       p\<lparr>tx_original := tx_original (keep_checks v p), tx_regression := tx_regression (keep_checks v p),
         tx_fix_caused := append_slice (tx_fix_caused p) (elems (sv_fix_caused v)),
         tx_follow_ups := append_slice (tx_follow_ups p) (elems (sv_follow_ups v)), tx_fix_ids := ids\<rparr>"
    and i: "set (elems (tx_fix_ids p)) \<subseteq> set (elems ids)"
    by simp_all
  show ?thesis by (rule that [OF q i]) (auto simp: keep_checks_def)
qed

lemma prefix_appended:
  assumes "v1_checks p = None"
  shows "finding_slice_prefix (tx_fix_caused p) (append_slice (tx_fix_caused p) fs)"
    "follow_up_slice_prefix (tx_follow_ups p) (append_slice (tx_follow_ups p) us)"
proof -
  obtain xs ys where "tx_fix_caused p = Some xs" "tx_follow_ups p = Some ys"
    using checks_collections [OF assms] by metis
  then show "finding_slice_prefix (tx_fix_caused p) (append_slice (tx_fix_caused p) fs)"
    "follow_up_slice_prefix (tx_follow_ups p) (append_slice (tx_follow_ups p) us)"
    by (simp_all add: finding_slice_prefix_def follow_up_slice_prefix_def)
qed

lemma validate_fix_event:
  assumes v: "v1_checks p = None" and b: "validate_fix_result w p = (n, None)"
  shows "validate_successor p n (event_name (ValidateFix w) p) = None"
proof -
  from b obtain ok where s: "tx_state p = FixValidating"
    and settle: "settle_validation ok (keep_observations w (keep_checks w p)) = (n, None)"
    by (rule validate_fix_result_cases)
  obtain original regression ids where q: "keep_observations w (keep_checks w p) =
       p\<lparr>tx_original := original, tx_regression := regression,
         tx_fix_caused := append_slice (tx_fix_caused p) (elems (sv_fix_caused w)),
         tx_follow_ups := append_slice (tx_follow_ups p) (elems (sv_follow_ups w)), tx_fix_ids := ids\<rparr>"
    and i: "set (elems (tx_fix_ids p)) \<subseteq> set (elems ids)"
    and c: "is_ordinary_mode (tx_mode p) \<and> \<not> legacy_checks w p \<Longrightarrow> original \<noteq> None \<and> regression \<noteq> None"
    "\<not> (is_ordinary_mode (tx_mode p) \<and> \<not> legacy_checks w p) \<Longrightarrow>
       original = tx_original p \<and> regression = tx_regression p"
    by (rule kept_validation [of w p]) blast
  note none = checks_no_originals [OF v s]
  note base = s i none prefix_appended [OF v]
  from settle [unfolded q] show ?thesis
  proof (cases rule: settle_validation_cases)
    case ordinary
    then have "counters_monotonic (tx_counters p) (tx_counters n)"
      using counter_values_def checks_counters [OF v]
      by (simp add: counters_monotonic_def counter_values_def small_go_add counters_valid_iff)
    then show ?thesis using base ordinary c
      by (cases ok; cases "legacy_checks w p") (simp_all add: chain_defs lens_executions_def)
  next
    case judged
    then have "counters_monotonic (tx_counters p) (tx_counters n)"
      using checks_counters [OF v]
      by (simp add: counters_monotonic_def counter_values_def small_go_add counters_valid_iff)
    then show ?thesis using base judged c(2)
      by (cases ok; cases "cn_rounds (tx_counters p) \<ge> 2")
        (simp_all add: chain_defs lens_executions_def is_ordinary_mode_def)
  next
    case neither then show ?thesis using checks_mode [OF v] by simp
  qed
qed

section \<open>Freezing\<close>

lemma trimmed_ids_idem [simp]: "trimmed_ids (trimmed_ids fs) = trimmed_ids fs"
  by (simp add: trimmed_ids_def)

lemma validate_canonical_ledger_Inr:
  assumes "validate_canonical_ledger l fs supplied = Inr (h, g)"
  shows "l = render (json_ledger fs)" "ledger_survives fs" "h = identity_of l" "g = findings_hash (Some fs)"
  using assms by (auto simp: validate_canonical_ledger_def Let_def split: if_splits)

lemma canonical_ledger_accepted:
  assumes "ledger_survives fs" "supplied = [] \<or> supplied = identity_of (render (json_ledger fs))"
  shows "validate_canonical_ledger (render (json_ledger fs)) fs supplied =
     Inr (identity_of (render (json_ledger fs)), findings_hash (Some fs))"
  using assms by (auto simp: validate_canonical_ledger_def Let_def)

lemma freeze_cases:
  assumes "freeze_findings fs l h p = (n, None)"
  obtains gs t where "tx_state p = (if tx_mode p = JudgmentDay then JudgesConfirmed else Reviewing)"
    "gs = trimmed_ids (elems fs)" "ledger_survives gs" "check_frozen_ids [] gs = None"
    "tx_mode p = OrdinaryBounded \<longrightarrow> length (elems (tx_results p)) = length (elems (tx_lenses p))"
    "write_outcomes (info_outcomes gs) (p\<lparr>tx_findings := Some gs\<rparr>) = (t, None)"
    "n = t\<lparr>tx_ledger := identity_of (render (json_ledger gs)), tx_findings_hash := findings_hash (Some gs),
          tx_state := FindingsFrozen\<rparr>"
proof -
  have s: "tx_state p = (if tx_mode p = JudgmentDay then JudgesConfirmed else Reviewing)"
    using assms unfolding freeze_findings_def invalid_transition_def by (simp split: if_splits)
  from assms s obtain xs where xs: "fs = Some xs" by (cases fs) (simp_all add: freeze_findings_def)
  let ?gs = "trimmed_ids xs"
  note run = assms [unfolded freeze_findings_def xs Let_def] s
  from run obtain a b where v: "validate_canonical_ledger l ?gs h = Inr (a, b)"
    by (cases "validate_canonical_ledger l ?gs h") auto
  note parts = validate_canonical_ledger_Inr [OF v]
  have b: "tx_mode p = OrdinaryBounded \<longrightarrow> length (elems (tx_results p)) = length (elems (tx_lenses p))"
    "tx_mode p = OrdinaryBounded \<longrightarrow> same_lens_findings (elems (tx_results p)) (Some xs)"
    using run v by (auto split: if_splits)
  from run v b have f: "check_frozen_ids [] ?gs = None"
    by (cases "check_frozen_ids [] ?gs") (auto split: if_splits)
  obtain t e where w: "write_outcomes (info_outcomes ?gs) (p\<lparr>tx_findings := Some ?gs\<rparr>) = (t, e)" by fastforce
  show ?thesis
    using run v b f w parts
    by (intro that [of ?gs t]) (cases e; auto simp: xs split: if_splits)+
qed

lemma freeze_again:
  assumes "tx_state p = (if tx_mode p = JudgmentDay then JudgesConfirmed else Reviewing)"
    and "trimmed_ids gs = gs" "ledger_survives gs" "check_frozen_ids [] gs = None"
    and "tx_mode p = OrdinaryBounded \<longrightarrow> length (elems (tx_results p)) = length (elems (tx_lenses p))"
    and "tx_mode p = OrdinaryBounded \<longrightarrow> same_lens_findings (elems (tx_results p)) (Some gs)"
    and "write_outcomes (info_outcomes gs) (p\<lparr>tx_findings := Some gs\<rparr>) = (t, None)"
  shows "freeze_findings (Some gs) (render (json_ledger gs)) (identity_of (render (json_ledger gs))) p =
     (t\<lparr>tx_ledger := identity_of (render (json_ledger gs)), tx_findings_hash := findings_hash (Some gs),
          tx_state := FindingsFrozen\<rparr>, None)"
  using assms canonical_ledger_accepted [OF assms(3), of "identity_of (render (json_ledger gs))"]
  by (auto simp: freeze_findings_def)

lemma freeze_event:
  assumes v: "v1_checks p = None" "v1_checks n = None" and u: "tx_ledger p = []"
    and b: "freeze_findings fs l h p = (n, None)"
  shows "validate_successor p n ''review/freeze-findings'' = None"
proof -
  from b obtain gs t where s: "tx_state p = (if tx_mode p = JudgmentDay then JudgesConfirmed else Reviewing)"
    and g: "gs = trimmed_ids (elems fs)" "ledger_survives gs" "check_frozen_ids [] gs = None"
    "tx_mode p = OrdinaryBounded \<longrightarrow> length (elems (tx_results p)) = length (elems (tx_lenses p))"
    and w: "write_outcomes (info_outcomes gs) (p\<lparr>tx_findings := Some gs\<rparr>) = (t, None)"
    and n: "n = t\<lparr>tx_ledger := identity_of (render (json_ledger gs)),
          tx_findings_hash := findings_hash (Some gs), tx_state := FindingsFrozen\<rparr>"
    by (rule freeze_cases)
  obtain m where t: "t = p\<lparr>tx_findings := Some gs, tx_outcomes := m\<rparr>"
    using w by (cases p) (auto simp: write_outcomes_def split: if_splits option.splits)
  have before: "before_freeze (tx_state p)" using s by (simp add: before_freeze_def)
  then have empty: "entries (tx_outcomes p) = fmempty"
    using checks_before_freeze [OF v(1)] by (simp add: unrouted_def)
  have "validate_lens_state n = None" using v(2) by (simp add: v1_checks_def validate_v1_state_def n)
  then have "tx_mode p = OrdinaryBounded \<longrightarrow> same_lens_findings (elems (tx_results p)) (Some gs)"
    by (auto simp: validate_lens_state_def Let_def n t)
  from freeze_again [OF s _ g(2-4) this w] g(1)
  have "replays (Freeze (Some gs) (render (json_ledger gs)) (tx_ledger n)) p n"
    by (simp add: replays_def n)
  then have r: "freeze_replay p n ''review/freeze-findings''"
    by (simp add: freeze_replay_def n t canonical_ledger_def)
  have "map_is_monotonic (tx_outcomes p) m" by (simp add: map_is_monotonic_def empty)
  then show ?thesis
    using r s u by (cases "tx_mode p = JudgmentDay") (simp_all add: n t chain_defs lens_executions_def)
qed

section \<open>Classifying and the refuter batch\<close>

lemma classify_item_result:
  "case classify_item t f e a of Inl x \<Rightarrow> True
   | Inr b \<Rightarrow> (k \<noteq> f_id f \<longrightarrow> fmlookup (cl_outcomes b) k = fmlookup (cl_outcomes a) k) \<and>
       (\<exists>us. cl_follow_ups b = cl_follow_ups a @ us) \<and>
       set (cl_pending b) \<subseteq> insert (f_id f) (set (cl_pending a))"
  unfolding classify_item_def Let_def leave_open_def send_to_fix_def
  by (auto split: evidence_class.splits)

lemma classify_item_keeps:
  assumes "classify_item t f e a = Inr b"
  shows "k \<noteq> f_id f \<Longrightarrow> fmlookup (cl_outcomes b) k = fmlookup (cl_outcomes a) k"
    "\<exists>us. cl_follow_ups b = cl_follow_ups a @ us"
    "set (cl_pending b) \<subseteq> insert (f_id f) (set (cl_pending a))"
  using classify_item_result [where t = t and f = f and e = e and a = a and k = k] unfolding assms by simp_all

lemma classify_findings_step:
  assumes "classify_findings t m (f # fs) a = Inr b" "is_severe (f_severity f)"
  obtains e a' where "fmlookup m (f_id f) = Some e" "classify_item t f e a = Inr a'"
    "classify_findings t m fs a' = Inr b"
proof -
  from assms obtain e where e: "fmlookup m (f_id f) = Some e"
    by (cases "fmlookup m (f_id f)") simp_all
  with assms obtain a' where "classify_item t f e a = Inr a'"
    by (cases "classify_item t f e a") simp_all
  with assms e that show ?thesis by simp
qed

definition severe_keys :: "finding list \<Rightarrow> string set" where
  "severe_keys fs = f_id ` {f \<in> set fs. is_severe (f_severity f)}"

lemma severe_keys_simps [simp]:
  "severe_keys [] = {}"
  "severe_keys (f # fs) = (if is_severe (f_severity f) then insert (f_id f) (severe_keys fs) else severe_keys fs)"
  by (auto simp: severe_keys_def)

lemma classify_findings_keeps:
  assumes "classify_findings t m fs a = Inr b"
  shows "k \<notin> severe_keys fs \<Longrightarrow> fmlookup (cl_outcomes b) k = fmlookup (cl_outcomes a) k"
    "\<exists>us. cl_follow_ups b = cl_follow_ups a @ us"
    "set (cl_pending b) \<subseteq> set (cl_pending a) \<union> severe_keys fs"
proof -
  have "(k \<notin> severe_keys fs \<longrightarrow> fmlookup (cl_outcomes b) k = fmlookup (cl_outcomes a) k) \<and>
      (\<exists>us. cl_follow_ups b = cl_follow_ups a @ us) \<and>
      set (cl_pending b) \<subseteq> set (cl_pending a) \<union> severe_keys fs"
    using assms
  proof (induction fs arbitrary: a)
    case (Cons f fs)
    show ?case
    proof (cases "is_severe (f_severity f)")
      case True
      with Cons.prems obtain e a' where "fmlookup m (f_id f) = Some e"
        and a': "classify_item t f e a = Inr a'" "classify_findings t m fs a' = Inr b"
        by (rule classify_findings_step)
      note one = classify_item_keeps [OF a'(1)] and rest = Cons.IH [OF a'(2)]
      have "\<exists>us. cl_follow_ups b = cl_follow_ups a @ us" using one(2) rest by force
      moreover have "set (cl_pending b) \<subseteq> set (cl_pending a) \<union> severe_keys (f # fs)"
        using one(3) rest True by auto
      ultimately show ?thesis using one(1) rest True by simp
    next
      case False
      then show ?thesis using Cons.prems Cons.IH by simp
    qed
  qed simp
  then show "k \<notin> severe_keys fs \<Longrightarrow> fmlookup (cl_outcomes b) k = fmlookup (cl_outcomes a) k"
    "\<exists>us. cl_follow_ups b = cl_follow_ups a @ us"
    "set (cl_pending b) \<subseteq> set (cl_pending a) \<union> severe_keys fs" by blast+
qed

lemma all_inconclusive_lookup:
  "k \<notin> set ids \<Longrightarrow> fmlookup (all_inconclusive ids m) k = fmlookup m k"
  unfolding all_inconclusive_def by (induction ids arbitrary: m) auto

lemma classify_cases:
  assumes "fst (classify_evidence es p) = (n, None)"
  obtains m a where "tx_state p = FindingsFrozen"
    "classify_findings p m (elems (tx_findings p)) (unclassified p) = Inr a" "n = settle_evidence a p"
proof -
  have s: "tx_state p = FindingsFrozen"
    using assms by (auto simp: classify_evidence_def invalid_transition_def Let_def split: if_splits)
  obtain m where m: "collect_evidence (severe_id_set (elems (tx_findings p))) fmempty es = Inr m"
    using assms s
    by (cases "collect_evidence (severe_id_set (elems (tx_findings p))) fmempty es")
      (auto simp: classify_evidence_def)
  obtain a where "classify_findings p m (elems (tx_findings p)) (unclassified p) = Inr a"
    using assms s m
    by (cases "classify_findings p m (elems (tx_findings p)) (unclassified p)")
      (auto simp: classify_evidence_def Let_def split: if_splits)
  with s m assms show ?thesis
    by (intro that [of m a]) (auto simp: classify_evidence_def Let_def split: if_splits)
qed

lemma map_monotonicI:
  "(\<And>k v. fmlookup (entries m) k = Some v \<Longrightarrow> fmlookup m' k = Some v) \<Longrightarrow> map_is_monotonic m (Some m')"
  by (simp add: map_is_monotonic_def fmpred_iff)

lemma classify_event:
  assumes v: "v1_checks p = None" and b: "fst (classify_evidence es p) = (n, None)"
  shows "validate_successor p n ''review/classify-evidence'' = None"
proof -
  from b obtain m a where s: "tx_state p = FindingsFrozen"
    and c: "classify_findings p m (elems (tx_findings p)) (unclassified p) = Inr a"
    and n: "n = settle_evidence a p"
    by (rule classify_cases)
  note frozen = checks_unclassified [OF v s]
  note keeps = classify_findings_keeps [OF c]
  have severe: "k \<notin> severe_keys (elems (tx_findings p))" if "fmlookup (entries (tx_outcomes p)) k = Some x" for k x
    using that frozen(4) by (auto simp: severe_keys_def)
  have pending: "set (sort (cl_pending a)) \<subseteq> severe_keys (elems (tx_findings p))"
    using keeps(3) frozen(3) by (simp add: unclassified_def)
  have outs: "map_is_monotonic (tx_outcomes p) (Some (cl_outcomes a))"
    using severe keeps(1) by (intro map_monotonicI) (simp add: unclassified_def)
  have lost: "map_is_monotonic (tx_outcomes p) (Some (all_inconclusive (sort (cl_pending a)) (cl_outcomes a)))"
    using severe keeps(1) pending
    by (intro map_monotonicI) (subst all_inconclusive_lookup, auto simp: unclassified_def)
  obtain us where "cl_follow_ups a = elems (tx_follow_ups p) @ us"
    using keeps(2) by (auto simp: unclassified_def)
  then have ups: "follow_up_slice_prefix (tx_follow_ups p) (Some (cl_follow_ups a))"
    using prefix_appended(2) [OF v, of us] checks_collections(1) [OF v] by (cases "tx_follow_ups p") simp_all
  have items: "map_is_monotonic (tx_classifications p) c'" for c'
    using frozen(1) by (simp add: map_is_monotonic_def)
  note facts = s frozen(2,3) outs lost ups items
  show ?thesis
  proof (cases "cl_escalate a")
    case True
    then show ?thesis using facts
      by (simp add: n settle_evidence_def chain_defs lens_executions_def)
  next
    case False
    then show ?thesis using facts
      by (cases "sort (cl_pending a) = []"; cases "cl_fix a = []")
        (simp_all add: n settle_evidence_def advance_after_evidence_def chain_defs lens_executions_def)
  qed
qed

lemma resolve_pending_keeps:
  assumes "resolve_pending m ks (outs, fx, esc) = Inr (outs', fx', esc')"
  shows "k \<notin> set ks \<Longrightarrow> fmlookup outs' k = fmlookup outs k" "set fx \<subseteq> set fx'"
proof -
  have "(k \<notin> set ks \<longrightarrow> fmlookup outs' k = fmlookup outs k) \<and> set fx \<subseteq> set fx'"
    using assms
  proof (induction m ks "(outs, fx, esc)" arbitrary: outs fx esc rule: resolve_pending.induct)
    case (2 m j ks outs fx esc)
    from 2(4) obtain r where r: "fmlookup m j = Some r" by (cases "fmlookup m j") simp_all
    with 2(4) have p: "is_concrete_evidence (er_proof r)" by (simp split: if_splits)
    show ?case using 2(1-3) [OF r] 2(4) r p
      by (cases "er_outcome r") (auto simp: add_unique_sorted_set)
  qed simp
  then show "k \<notin> set ks \<Longrightarrow> fmlookup outs' k = fmlookup outs k" "set fx \<subseteq> set fx'" by blast+
qed

lemma find_by_id_Some: "find_by_id fs k = Some f \<Longrightarrow> f \<in> set fs \<and> f_id f = k"
  by (auto simp: find_by_id_def find_Some_iff)

lemma find_by_id_None: "find_by_id fs k = None \<longleftrightarrow> k \<notin> f_id ` set fs"
  by (auto simp: find_by_id_def find_None_iff)

lemma pending_resolution:
  assumes "resolve_severe p f = Some r" "f_id f \<in> set (elems (tx_pending p))"
    and "\<And>e. fmlookup (entries (tx_classifications p)) (f_id f) = Some e \<Longrightarrow> is_supported_class (fe_class e)"
  shows "fmlookup (entries (tx_outcomes p)) (f_id f) = None"
proof -
  obtain e where e: "fmlookup (entries (tx_classifications p)) (f_id f) = Some e"
    using assms(1) by (auto simp: resolve_severe_def Let_def split: option.splits)
  show ?thesis using assms(1,2) assms(3) [OF e] e
    by (cases "fe_class e") (simp_all add: resolve_severe_def Let_def split: if_splits)
qed

lemma checks_pending_open:
  assumes v: "v1_checks p = None" and s: "tx_state p = EvidenceClassified"
    and k: "k \<in> set (elems (tx_pending p))"
  shows "fmlookup (entries (tx_outcomes p)) k = None"
proof (cases "k \<in> f_id ` set (elems (tx_findings p))")
  case False
  have "fset (fmdom (entries (tx_outcomes p))) \<subseteq> f_id ` set (elems (tx_findings p))"
    using v by (simp add: v1_checks_def validate_finding_routing_def)
  with False show ?thesis by (metis fmdom_notD subsetD)
next
  case True
  then obtain f where f: "find_by_id (elems (tx_findings p)) k = Some f"
    by (cases "find_by_id (elems (tx_findings p)) k") (simp_all add: find_by_id_None)
  have "routed_severe p k"
    using v k by (simp add: v1_checks_def validate_finding_routing_def list_all_iff)
  then have sev: "is_severe (f_severity f)" by (simp add: routed_severe_def f)
  have "validate_classified p = None"
    using v s by (simp add: v1_checks_def validate_finding_routing_def validate_finding_state_def before_freeze_def)
  then have "resolve_severe p f \<noteq> None"
    using find_by_id_Some [OF f] sev
    by (simp add: validate_classified_def Let_def severe_findings_def list_ex_iff)
  then obtain r where r: "resolve_severe p f = Some r" by blast
  have "fmpred (classification_bound p) (entries (tx_classifications p))"
    using v by (simp add: v1_checks_def validate_finding_routing_def)
  then have "is_supported_class (fe_class e)" if "fmlookup (entries (tx_classifications p)) (f_id f) = Some e" for e
    using that by (auto simp: fmpred_iff classification_bound_def)
  from pending_resolution [OF r _ this] k find_by_id_Some [OF f] show ?thesis by simp
qed

lemma refuter_cases:
  assumes "apply_refuter_outcomes rs p = (n, None)"
  obtains m outs fx esc where "is_ordinary_mode (tx_mode p)" "tx_state p = EvidenceClassified"
    "elems (tx_pending p) \<noteq> []" "cn_refuter (tx_counters p) < 1"
    "resolve_pending m (elems (tx_pending p)) (entries (tx_outcomes p), elems (tx_fix_ids p), False) = Inr (outs, fx, esc)"
    "n = (let t = p\<lparr>tx_outcomes := Some outs, tx_fix_ids := Some fx,
              tx_counters := (tx_counters p)\<lparr>cn_refuter := go_add (cn_refuter (tx_counters p)) 1\<rparr>, tx_pending := Some []\<rparr>
          in if esc then t\<lparr>tx_state := Escalated\<rparr> else advance_after_evidence t)"
proof -
  have fails: "fail_refuter_batch c t \<noteq> (n, None)" for c t
    by (auto simp: fail_refuter_batch_def split: prod.splits option.splits)
  have s: "is_ordinary_mode (tx_mode p)" "tx_state p = EvidenceClassified"
    "elems (tx_pending p) \<noteq> []" "cn_refuter (tx_counters p) < 1"
    using assms unfolding apply_refuter_outcomes_def invalid_transition_def escalate_budget_def
    by (simp_all split: if_splits)
  obtain m where m: "collect_batch fmempty rs = Some m"
    using assms s fails by (cases "collect_batch fmempty rs") (simp_all add: apply_refuter_outcomes_def)
  have l: "fcard (fmdom m) = length (elems (tx_pending p))"
    using assms s m fails by (auto simp: apply_refuter_outcomes_def split: if_splits)
  obtain outs fx esc where r:
    "resolve_pending m (elems (tx_pending p)) (entries (tx_outcomes p), elems (tx_fix_ids p), False) = Inr (outs, fx, esc)"
    using assms s m l fails
    by (cases "resolve_pending m (elems (tx_pending p)) (entries (tx_outcomes p), elems (tx_fix_ids p), False)")
      (auto simp: apply_refuter_outcomes_def)
  show ?thesis using assms s m l r
    by (intro that [of m outs fx esc]) (auto simp: apply_refuter_outcomes_def Let_def split: if_splits)
qed

lemma refuter_event:
  assumes v: "v1_checks p = None" and b: "apply_refuter_outcomes rs p = (n, None)"
  shows "validate_successor p n ''review/apply-refuter-outcomes'' = None"
proof -
  from b obtain m outs fx esc where s: "is_ordinary_mode (tx_mode p)" "tx_state p = EvidenceClassified"
    "elems (tx_pending p) \<noteq> []" "cn_refuter (tx_counters p) < 1"
    and r: "resolve_pending m (elems (tx_pending p)) (entries (tx_outcomes p), elems (tx_fix_ids p), False) =
      Inr (outs, fx, esc)"
    and n: "n = (let t = p\<lparr>tx_outcomes := Some outs, tx_fix_ids := Some fx,
              tx_counters := (tx_counters p)\<lparr>cn_refuter := go_add (cn_refuter (tx_counters p)) 1\<rparr>, tx_pending := Some []\<rparr>
          in if esc then t\<lparr>tx_state := Escalated\<rparr> else advance_after_evidence t)"
    by (rule refuter_cases)
  note keeps = resolve_pending_keeps [OF r]
  have outs: "map_is_monotonic (tx_outcomes p) (Some outs)"
  proof (rule map_monotonicI)
    fix k x assume k: "fmlookup (entries (tx_outcomes p)) k = Some x"
    then have "k \<notin> set (elems (tx_pending p))" using checks_pending_open [OF v s(2)] by fastforce
    with keeps(1) k show "fmlookup outs k = Some x" by simp
  qed
  have "0 \<le> cn_refuter (tx_counters p)"
    using checks_counters [OF v] by (simp add: counters_valid_iff counter_values_def)
  then have "counters_monotonic (tx_counters p)
      ((tx_counters p)\<lparr>cn_refuter := go_add (cn_refuter (tx_counters p)) 1\<rparr>)"
    using s(4) by (simp add: counters_monotonic_def counter_values_def small_go_add)
  then show ?thesis using s outs keeps(2)
    by (cases esc; cases "fx = []")
      (simp_all add: n advance_after_evidence_def chain_defs lens_executions_def)
qed

section \<open>Every operation\<close>

lemma operation_event:
  assumes "v1_checks p = None" "v1_checks n = None" "run_op op p = (n, None)" "n \<noteq> p"
    and "op \<noteq> StartReview" "before_freeze (tx_state p) \<Longrightarrow> tx_ledger p = []"
  shows "validate_successor p n (event_name op p) = None"
proof (cases op)
  case (Freeze fs l h)
  have "before_freeze (tx_state p)"
    using assms(3) Freeze by (auto simp: freeze_findings_def invalid_transition_def before_freeze_def split: if_splits)
  then show ?thesis using freeze_event assms Freeze by simp
next
  case (ValidateFix w)
  then show ?thesis using validate_fix_event assms(1,3) by (simp del: event_name.simps)
qed (use assms in \<open>simp_all add: invalidate_event record_lens_event record_judges_event classify_event
      refuter_event begin_fix_event complete_fix_event begin_verification_event bind_release_event
      complete_verification_event\<close>)

end
