(* ===== verification/V1Laws.thy ===== *)
theory V1Laws
  imports V1Commit
begin

text \<open>
  What classification, the refuter batch and approval of a v1 transaction amount to: the routing of
  each severe finding by its evidence, the batches the refuter may return, and what a valid approved
  transaction must hold.
\<close>

section \<open>Routing by evidence\<close>

datatype route_kind = ToFollowUp | LeftOpen | ToFix | ToRefuter

definition v1_route :: "mode \<Rightarrow> finding_evidence \<Rightarrow> route_kind" where
  "v1_route m e =
     (if fe_causality e = PreExisting \<or> fe_causality e = BaseOnly then ToFollowUp
      else if fe_causality e = UnknownCause then LeftOpen
      else if fe_class e = Deterministic then ToFix
      else if fe_class e = Inferential then (if m = JudgmentDay then ToFix else ToRefuter)
      else LeftOpen)"

definition routed_ids :: "mode \<Rightarrow> (string, finding_evidence) fmap \<Rightarrow> finding list \<Rightarrow> route_kind \<Rightarrow> string set" where
  "routed_ids md m fs k = {f_id f |f. f \<in> set fs \<and> is_severe (f_severity f) \<and>
     (\<exists>e. fmlookup m (f_id f) = Some e \<and> v1_route md e = k)}"

lemma routed_ids_simps [simp]:
  "routed_ids md m [] k = {}"
  "is_severe (f_severity f) \<Longrightarrow> fmlookup m (f_id f) = Some e \<Longrightarrow>
     routed_ids md m (f # fs) k = (if v1_route md e = k then insert (f_id f) (routed_ids md m fs k)
                                   else routed_ids md m fs k)"
  "\<not> is_severe (f_severity f) \<Longrightarrow> routed_ids md m (f # fs) k = routed_ids md m fs k"
  by (auto simp: routed_ids_def)

lemma classify_item_routes:
  "case classify_item t f e a of Inl x \<Rightarrow> True
   | Inr b \<Rightarrow> cl_escalate b = (cl_escalate a \<or> v1_route (tx_mode t) e = LeftOpen) \<and>
       set (cl_fix b) = set (cl_fix a) \<union> (if v1_route (tx_mode t) e = ToFix then {f_id f} else {}) \<and>
       cl_auto_fix b = cl_auto_fix a @ (if v1_route (tx_mode t) e = ToFix then [f_id f] else []) \<and>
       map fst (cl_claims b) = map fst (cl_claims a) @ (if v1_route (tx_mode t) e = ToRefuter then [f_id f] else []) \<and>
       cl_pending b = cl_pending a @ (if v1_route (tx_mode t) e = ToRefuter then [f_id f] else [])"
  unfolding classify_item_def Let_def leave_open_def send_to_fix_def
  by (auto simp: v1_route_def add_unique_sorted_set split: evidence_class.splits)

lemma classify_findings_routes:
  assumes "classify_findings t m fs a = Inr b"
  shows "cl_escalate b = (cl_escalate a \<or> routed_ids (tx_mode t) m fs LeftOpen \<noteq> {})"
    "set (cl_fix b) = set (cl_fix a) \<union> routed_ids (tx_mode t) m fs ToFix"
    "set (cl_auto_fix b) = set (cl_auto_fix a) \<union> routed_ids (tx_mode t) m fs ToFix"
    "set (map fst (cl_claims b)) = set (map fst (cl_claims a)) \<union> routed_ids (tx_mode t) m fs ToRefuter"
    "set (cl_pending b) = set (cl_pending a) \<union> routed_ids (tx_mode t) m fs ToRefuter"
proof -
  have "cl_escalate b = (cl_escalate a \<or> routed_ids (tx_mode t) m fs LeftOpen \<noteq> {}) \<and>
    set (cl_fix b) = set (cl_fix a) \<union> routed_ids (tx_mode t) m fs ToFix \<and>
    set (cl_auto_fix b) = set (cl_auto_fix a) \<union> routed_ids (tx_mode t) m fs ToFix \<and>
    set (map fst (cl_claims b)) = set (map fst (cl_claims a)) \<union> routed_ids (tx_mode t) m fs ToRefuter \<and>
    set (cl_pending b) = set (cl_pending a) \<union> routed_ids (tx_mode t) m fs ToRefuter"
    using assms
  proof (induction fs arbitrary: a)
    case (Cons f fs)
    show ?case
    proof (cases "is_severe (f_severity f)")
      case True
      with Cons.prems obtain e a' where e: "fmlookup m (f_id f) = Some e"
        and a': "classify_item t f e a = Inr a'" "classify_findings t m fs a' = Inr b"
        by (rule classify_findings_step)
      have "set (map fst (cl_claims a')) = set (map fst (cl_claims a)) \<union>
          (if v1_route (tx_mode t) e = ToRefuter then {f_id f} else {})"
        using classify_item_routes [where t = t and f = f and e = e and a = a] unfolding a'(1)
        by (simp del: set_map)
      then show ?thesis
        using classify_item_routes [where t = t and f = f and e = e and a = a] Cons.IH [OF a'(2)] e True
        unfolding a'(1)
        by (cases "v1_route (tx_mode t) e") (simp_all del: set_map)
    next
      case False
      then show ?thesis using Cons.prems Cons.IH by simp
    qed
  qed simp
  then show "cl_escalate b = (cl_escalate a \<or> routed_ids (tx_mode t) m fs LeftOpen \<noteq> {})"
    "set (cl_fix b) = set (cl_fix a) \<union> routed_ids (tx_mode t) m fs ToFix"
    "set (cl_auto_fix b) = set (cl_auto_fix a) \<union> routed_ids (tx_mode t) m fs ToFix"
    "set (map fst (cl_claims b)) = set (map fst (cl_claims a)) \<union> routed_ids (tx_mode t) m fs ToRefuter"
    "set (cl_pending b) = set (cl_pending a) \<union> routed_ids (tx_mode t) m fs ToRefuter"
    by blast+
qed

definition trimmed_evidence :: "finding_evidence list \<Rightarrow> finding_evidence list" where
  "trimmed_evidence es = map (\<lambda>e. e\<lparr>fe_finding := trim_space (fe_finding e)\<rparr>) es"

lemma collect_evidence_lookup:
  assumes "collect_evidence sev m0 es = Inr m"
  shows "fmlookup m k = Some e \<longleftrightarrow>
     fmlookup m0 k = Some e \<or> e \<in> set (trimmed_evidence es) \<and> fe_finding e = k"
    "e \<in> set (trimmed_evidence es) \<Longrightarrow> is_supported_class (fe_class e) \<and> fe_finding e \<in> set sev"
proof -
  have "(\<forall>k e. fmlookup m k = Some e \<longleftrightarrow>
     fmlookup m0 k = Some e \<or> e \<in> set (trimmed_evidence es) \<and> fe_finding e = k) \<and>
     (\<forall>e \<in> set (trimmed_evidence es). is_supported_class (fe_class e) \<and> fe_finding e \<in> set sev)"
    using assms
  proof (induction es arbitrary: m0)
    case (Cons r es)
    let ?e = "r\<lparr>fe_finding := trim_space (fe_finding r)\<rparr>"
    from Cons.prems have p: "trim_space (fe_finding r) \<in> set sev" "trim_space (fe_finding r) |\<notin>| fmdom m0"
      "is_supported_class (fe_class r)" "collect_evidence sev (fmupd (trim_space (fe_finding r)) ?e m0) es = Inr m"
      by (auto simp: Let_def split: if_splits)
    from p(2) have "fmlookup m0 (trim_space (fe_finding r)) = None" by (simp add: fmdom_notD)
    with Cons.IH [OF p(4)] p(1,3) show ?case
      by (auto simp: trimmed_evidence_def split: if_splits)
  qed (simp add: trimmed_evidence_def)
  then show "fmlookup m k = Some e \<longleftrightarrow>
     fmlookup m0 k = Some e \<or> e \<in> set (trimmed_evidence es) \<and> fe_finding e = k"
    "e \<in> set (trimmed_evidence es) \<Longrightarrow> is_supported_class (fe_class e) \<and> fe_finding e \<in> set sev"
    by blast+
qed

definition evidence_routes :: "finding_evidence list \<Rightarrow> transaction \<Rightarrow> route_kind \<Rightarrow> string set" where
  \<comment> \<open>the severe findings the supplied evidence sends to one route\<close>
  "evidence_routes es t k = {f_id f |f. f \<in> set (elems (tx_findings t)) \<and> is_severe (f_severity f) \<and>
     (\<exists>e \<in> set es. trim_space (fe_finding e) = f_id f \<and> v1_route (tx_mode t) e = k)}"

lemma v1_route_trimmed [simp]: "v1_route m (e\<lparr>fe_finding := x\<rparr>) = v1_route m e"
  by (simp add: v1_route_def)

lemma evidence_routes_eq:
  assumes "collect_evidence sev fmempty es = Inr m"
  shows "routed_ids (tx_mode t) m (elems (tx_findings t)) k = evidence_routes es t k"
  unfolding routed_ids_def evidence_routes_def collect_evidence_lookup(1) [OF assms] trimmed_evidence_def
  by fastforce

lemma classify_evidence_parts:
  assumes "classify_evidence es t = ((n, None), r)"
  obtains m a where "tx_state t = FindingsFrozen"
    "collect_evidence (severe_id_set (elems (tx_findings t))) fmempty es = Inr m"
    "classify_findings t m (elems (tx_findings t)) (unclassified t) = Inr a" "n = settle_evidence a t"
    "r = \<lparr>rt_claims = cl_claims a, rt_auto_fix = sort (cl_auto_fix a)\<rparr>"
proof -
  let ?sev = "severe_id_set (elems (tx_findings t))"
  have s: "tx_state t = FindingsFrozen"
    using assms by (auto simp: classify_evidence_def invalid_transition_def Let_def split: if_splits)
  obtain m where m: "collect_evidence ?sev fmempty es = Inr m"
    using assms s by (cases "collect_evidence ?sev fmempty es") (auto simp: classify_evidence_def)
  obtain a where "classify_findings t m (elems (tx_findings t)) (unclassified t) = Inr a"
    using assms s m
    by (cases "classify_findings t m (elems (tx_findings t)) (unclassified t)")
      (auto simp: classify_evidence_def Let_def split: if_splits)
  with s m assms show ?thesis
    by (intro that [of m a]) (auto simp: classify_evidence_def Let_def split: if_splits)
qed

lemma settle_evidence_state:
  "tx_state (settle_evidence a t) =
     (if cl_escalate a then Escalated else if cl_pending a \<noteq> [] then EvidenceClassified
      else if cl_fix a \<noteq> [] then FixRequired else ReadyFinalVerification)"
  "elems (tx_fix_ids (settle_evidence a t)) = cl_fix a"
  "elems (tx_pending (settle_evidence a t)) = (if cl_escalate a then [] else sort (cl_pending a))"
proof -
  have e: "sort xs = [] \<longleftrightarrow> xs = []" for xs :: "string list"
    by (metis length_sort length_0_conv)
  show "tx_state (settle_evidence a t) =
     (if cl_escalate a then Escalated else if cl_pending a \<noteq> [] then EvidenceClassified
      else if cl_fix a \<noteq> [] then FixRequired else ReadyFinalVerification)"
    "elems (tx_fix_ids (settle_evidence a t)) = cl_fix a"
    "elems (tx_pending (settle_evidence a t)) = (if cl_escalate a then [] else sort (cl_pending a))"
    by (simp_all add: settle_evidence_def advance_after_evidence_def Let_def e)
qed

section \<open>The refuter batch\<close>

definition answers :: "evidence_result list \<Rightarrow> string list \<Rightarrow> bool" where
  \<comment> \<open>one usable result for every pending finding, and for nothing else\<close>
  "answers rs ids \<longleftrightarrow>
     distinct (map er_finding rs) \<and> set (map er_finding rs) = set ids \<and>
     (\<forall>r \<in> set rs. is_concrete_evidence (er_proof r) \<and>
        er_outcome r \<in> {Corroborated, Refuted, Inconclusive})"

lemma collect_batch_lookup:
  assumes "collect_batch m0 rs = Some m"
  shows "fmlookup m k = Some r \<longleftrightarrow> fmlookup m0 k = Some r \<or> r \<in> set rs \<and> er_finding r = k"
    "distinct (map er_finding rs)" "fset (fmdom m) = fset (fmdom m0) \<union> er_finding ` set rs"
    "\<forall>r \<in> set rs. er_finding r |\<notin>| fmdom m0"
proof -
  have "(\<forall>k r. fmlookup m k = Some r \<longleftrightarrow> fmlookup m0 k = Some r \<or> r \<in> set rs \<and> er_finding r = k) \<and>
    distinct (map er_finding rs) \<and> fset (fmdom m) = fset (fmdom m0) \<union> er_finding ` set rs \<and>
    (\<forall>r \<in> set rs. er_finding r |\<notin>| fmdom m0)"
    using assms
  proof (induction rs arbitrary: m0)
    case (Cons r rs)
    from Cons.prems have p: "er_finding r |\<notin>| fmdom m0" "collect_batch (fmupd (er_finding r) r m0) rs = Some m"
      by (simp_all split: if_splits)
    from p(1) have "fmlookup m0 (er_finding r) = None" by (simp add: fmdom_notD)
    with Cons.IH [OF p(2)] p(1) show ?case by (auto split: if_splits)
  qed simp
  then show "fmlookup m k = Some r \<longleftrightarrow> fmlookup m0 k = Some r \<or> r \<in> set rs \<and> er_finding r = k"
    "distinct (map er_finding rs)" "fset (fmdom m) = fset (fmdom m0) \<union> er_finding ` set rs"
    "\<forall>r \<in> set rs. er_finding r |\<notin>| fmdom m0" by blast+
qed

lemma collect_batch_None:
  assumes "distinct (map er_finding rs)" "\<forall>r \<in> set rs. er_finding r |\<notin>| fmdom m0"
  shows "collect_batch m0 rs \<noteq> None"
  using assms
proof (induction rs arbitrary: m0)
  case (Cons r rs)
  have "collect_batch (fmupd (er_finding r) r m0) rs \<noteq> None"
    using Cons.prems by (intro Cons.IH) (auto simp: image_iff)
  with Cons.prems show ?case by simp
qed simp

lemma resolve_pending_ok:
  "(\<exists>acc'. resolve_pending m ks acc = Inr acc') \<longleftrightarrow>
     (\<forall>k \<in> set ks. \<exists>r. fmlookup m k = Some r \<and> is_concrete_evidence (er_proof r) \<and>
        er_outcome r \<in> {Corroborated, Refuted, Inconclusive})"
proof (induction m ks acc rule: resolve_pending.induct)
  case (2 m k ks outs fx esc)
  show ?case
  proof (cases "fmlookup m k")
    case (Some r)
    show ?thesis
    proof (cases "is_concrete_evidence (er_proof r)")
      case True
      then show ?thesis using 2 [OF Some] Some by (cases "er_outcome r") simp_all
    qed (simp add: Some)
  qed simp
next
  case (1 m acc)
  then show ?case by (cases acc) simp
qed

lemma batch_complete:
  assumes "collect_batch fmempty rs = Some m" "distinct ids"
  shows "fcard (fmdom m) = length ids \<and> (\<exists>acc'. resolve_pending m ids acc = Inr acc') \<longleftrightarrow> answers rs ids"
proof -
  note c = collect_batch_lookup [OF assms(1)]
  have dom: "fset (fmdom m) = er_finding ` set rs" using c(3) by simp
  have card: "fcard (fmdom m) = length rs"
    using dom c(2) by (metis fcard.rep_eq set_map distinct_card length_map)
  have look: "(\<exists>r. fmlookup m k = Some r \<and> P r) \<longleftrightarrow> (\<exists>r \<in> set rs. er_finding r = k \<and> P r)" for k P
    using c(1) by auto
  have same: "set ids \<subseteq> er_finding ` set rs \<and> length rs = length ids \<longleftrightarrow> er_finding ` set rs = set ids"
    using c(2) assms(2)
    by (metis card_subset_eq distinct_card finite_set length_map list.set_map order_refl)
  show ?thesis unfolding resolve_pending_ok look card answers_def
    using c(2) same by (auto simp: distinct_map inj_on_def) (metis imageE imageI)+
qed

lemma all_written_lookup:
  "fmlookup (foldl (\<lambda>m (k, v). fmupd k v m) m (map (\<lambda>k. (k, x)) ks)) k =
     (if k \<in> set ks then Some x else fmlookup m k)"
  by (induction ks arbitrary: m) auto

lemma failed_batch:
  assumes "fail_refuter_batch c t = (n, e)" "tx_outcomes t \<noteq> None" "elems (tx_pending t) \<noteq> []"
    "cn_refuter (tx_counters t) = 0"
  shows "e = Some c \<and> tx_state n = Escalated \<and> tx_pending n = Some [] \<and> tx_fix_ids n = tx_fix_ids t \<and>
      cn_refuter (tx_counters n) = 1 \<and>
      (\<forall>k \<in> set (elems (tx_pending t)). fmlookup (entries (tx_outcomes n)) k = Some Inconclusive)"
proof -
  obtain m where m: "tx_outcomes t = Some m" using assms(2) by blast
  show ?thesis using assms(1,3,4)
    by (auto simp: fail_refuter_batch_def write_outcomes_def m all_written_lookup small_go_add)
qed

section \<open>Approval\<close>

definition v1_settled :: "transaction \<Rightarrow> finding \<Rightarrow> bool" where
  \<comment> \<open>answered: a follow-up, sent to correction, or refuted\<close>
  "v1_settled t f \<longleftrightarrow>
     f_id f \<in> fmdom' (entries (tx_classifications t)) \<and>
     (fmlookup (entries (tx_outcomes t)) (f_id f) = Some Info \<and> f_id f \<notin> set (elems (tx_fix_ids t)) \<or>
      fmlookup (entries (tx_outcomes t)) (f_id f) = Some Corroborated \<and> f_id f \<in> set (elems (tx_fix_ids t)) \<or>
      fmlookup (entries (tx_outcomes t)) (f_id f) = Some Refuted \<and> f_id f \<notin> set (elems (tx_fix_ids t)))"

lemma resolve_settled:
  assumes "resolve_severe t f \<noteq> None" "tx_state t = Approved"
    and "fmlookup (entries (tx_outcomes t)) (f_id f) \<noteq> Some Inconclusive"
    and "\<And>e. fmlookup (entries (tx_classifications t)) (f_id f) = Some e \<Longrightarrow> is_supported_class (fe_class e)"
  shows "v1_settled t f"
proof -
  obtain e where e: "fmlookup (entries (tx_classifications t)) (f_id f) = Some e"
    using assms(1) by (auto simp: resolve_severe_def Let_def split: option.splits)
  then have d: "f_id f \<in> fmdom' (entries (tx_classifications t))" by (rule fmdom'I)
  show ?thesis using assms(1-3) assms(4) [OF e] d
    unfolding resolve_severe_def Let_def e option.case v1_settled_def
    by (cases "fe_class e") (auto split: if_splits option.splits outcome.splits)
qed

lemma checks_classified_supported:
  assumes "v1_checks t = None" "fmlookup (entries (tx_classifications t)) k = Some e"
  shows "is_supported_class (fe_class e)"
proof -
  have "fmpred (classification_bound t) (entries (tx_classifications t))"
    using assms(1) by (simp add: v1_checks_def validate_finding_routing_def)
  then show ?thesis using assms(2) by (auto simp: fmpred_iff classification_bound_def)
qed

lemma checks_settled:
  assumes v: "v1_checks t = None" "tx_state t = Approved"
  shows "validate_classified t = None"
    "f \<in> set (elems (tx_findings t)) \<Longrightarrow> is_severe (f_severity f) \<Longrightarrow> v1_settled t f"
proof -
  show c: "validate_classified t = None"
    using v by (simp add: v1_checks_def validate_finding_routing_def validate_finding_state_def before_freeze_def)
  show "v1_settled t f" if "f \<in> set (elems (tx_findings t))" "is_severe (f_severity f)"
  proof (rule resolve_settled [OF _ v(2)])
    show "resolve_severe t f \<noteq> None"
      "fmlookup (entries (tx_outcomes t)) (f_id f) \<noteq> Some Inconclusive"
      using c that v(2) by (auto simp: validate_classified_def Let_def severe_findings_def list_ex_iff)
  qed (rule checks_classified_supported [OF v(1)])
qed

end
