(* ===== verification/V1Samples.thy ===== *)
theory V1Samples
  imports V1Commit Samples
begin

text \<open>
  Concrete v1 transactions for the witnesses, from the start of the sample review: one in review,
  one invalidated, one approved without findings, and one waiting for its refuter batch.
\<close>

definition v1_sample :: transaction where
  "v1_sample = (fresh_transaction sample_start)
     \<lparr>tx_risk := RiskMedium, tx_lenses := Some [lens_reliability], tx_results := Some [],
      tx_original_lines := Some 40, tx_budget := Some 20\<rparr>"

definition v1_reviewing :: transaction where
  "v1_reviewing = v1_sample\<lparr>tx_state := Reviewing\<rparr>"

definition v1_invalidated :: transaction where
  "v1_invalidated = v1_reviewing\<lparr>tx_state := Invalidated, tx_invalidation := ''scope''\<rparr>"

definition v1_approved :: transaction where
  \<comment> \<open>an ordinary 4R review without findings\<close>
  "v1_approved = (fresh_transaction (sample_start\<lparr>st_mode := Ordinary4R\<rparr>))
     \<lparr>tx_state := Approved, tx_ledger := identity_of (render (json_ledger [])),
      tx_findings_hash := findings_hash (Some []), tx_evidence := identity_of [],
      tx_counters := no_counters\<lparr>cn_full := 1, cn_final := 1\<rparr>\<rparr>"

definition v1_waiting :: transaction where
  "v1_waiting = v1_reviewing\<lparr>tx_state := EvidenceClassified, tx_pending := Some [''R3-001'']\<rparr>"

definition v1_frozen :: transaction where
  \<comment> \<open>an ordinary 4R review frozen with one blocking finding\<close>
  "v1_frozen = (fresh_transaction (sample_start\<lparr>st_mode := Ordinary4R\<rparr>))
     \<lparr>tx_state := FindingsFrozen, tx_findings := Some [sample_finding],
      tx_ledger := identity_of (render (json_ledger [sample_finding])),
      tx_findings_hash := findings_hash (Some [sample_finding]),
      tx_counters := no_counters\<lparr>cn_full := 1\<rparr>\<rparr>"

lemmas v1_sample_defs = v1_sample_def fresh_transaction_def sample_start_def

lemma v1_snapshot: "validate_snapshot sample_snapshot = None"
  using sample_snapshot_valid(1)
  by (simp add: validate_snapshot_def validate_compact_snapshot_def validate_snapshot_kinds_def
      sample_snapshot_fields)

lemma v1_sample_started: "new_transaction sample_start = Inr v1_sample"
  unfolding new_transaction_def sample_start_def
  by (simp add: sample_lineage sample_lenses v1_snapshot sample_budget)
    (simp add: v1_sample_def sample_start_def)

lemma v1_sample_base:
  "tx_snapshot v1_sample = sample_snapshot" "tx_base v1_sample = sample_tree CHR ''a''"
  "tx_initial_tree v1_sample = sample_tree CHR ''b''" "tx_final_tree v1_sample = sample_tree CHR ''b''"
  "tx_genesis v1_sample = Some [''a.go'']" "tx_mode v1_sample = OrdinaryBounded"
  "tx_paths_digest v1_sample = sn_paths_digest sample_snapshot" "tx_state v1_sample = Unreviewed"
  by (simp_all add: v1_sample_defs sample_snapshot_fields append_slice_def)

lemma sample_digest_valid: "valid_sha256 (sn_paths_digest sample_snapshot)"
  using sample_snapshot_valid(1)
  by (simp add: validate_compact_snapshot_def validate_snapshot_kinds_def)

lemma v1_reviewing_fields:
  "tx_state v1_reviewing = Reviewing" "tx_invalidation v1_reviewing = []"
  "tx_schema v1_reviewing = transaction_schema" "tx_lineage v1_reviewing = ''review-1''"
  "tx_mode v1_reviewing = OrdinaryBounded" "tx_generation v1_reviewing = 1"
  "tx_snapshot v1_reviewing = sample_snapshot" "tx_genesis v1_reviewing = Some [''a.go'']"
  "tx_base v1_reviewing = sample_tree CHR ''a''"
  "tx_paths_digest v1_reviewing = sn_paths_digest sample_snapshot"
  "tx_initial_tree v1_reviewing = sample_tree CHR ''b''"
  "tx_final_tree v1_reviewing = sample_tree CHR ''b''"
  "tx_fix_delta v1_reviewing = empty_fix_delta_hash"
  "tx_policy v1_reviewing = identity_of ''policy''" "tx_ledger v1_reviewing = []"
  "tx_findings_hash v1_reviewing = []" "tx_evidence v1_reviewing = []"
  "tx_judge_hash v1_reviewing = []" "tx_agreement v1_reviewing = []"
  "tx_judges v1_reviewing = Some []" "tx_release v1_reviewing = None"
  "tx_failed v1_reviewing = []" "tx_counters v1_reviewing = no_counters"
  "tx_findings v1_reviewing = Some []" "tx_classifications v1_reviewing = Some fmempty"
  "tx_outcomes v1_reviewing = Some fmempty" "tx_fix_ids v1_reviewing = Some []"
  "tx_pending v1_reviewing = Some []" "tx_fix_caused v1_reviewing = Some []"
  "tx_follow_ups v1_reviewing = Some []" "tx_original v1_reviewing = None"
  "tx_regression v1_reviewing = None" "tx_risk v1_reviewing = RiskMedium"
  "tx_lenses v1_reviewing = Some [lens_reliability]" "tx_results v1_reviewing = Some []"
  "tx_original_lines v1_reviewing = Some 40" "tx_budget v1_reviewing = Some 20"
  "tx_proposed v1_reviewing = None" "tx_actual v1_reviewing = None"
  by (simp_all add: v1_reviewing_def v1_sample_defs sample_snapshot_fields append_slice_def)

lemma v1_invalidated_fields:
  "tx_state v1_invalidated = Invalidated" "tx_invalidation v1_invalidated = ''scope''"
  "tx_schema v1_invalidated = transaction_schema" "tx_lineage v1_invalidated = ''review-1''"
  "tx_mode v1_invalidated = OrdinaryBounded" "tx_generation v1_invalidated = 1"
  "tx_snapshot v1_invalidated = sample_snapshot" "tx_genesis v1_invalidated = Some [''a.go'']"
  "tx_base v1_invalidated = sample_tree CHR ''a''"
  "tx_paths_digest v1_invalidated = sn_paths_digest sample_snapshot"
  "tx_initial_tree v1_invalidated = sample_tree CHR ''b''"
  "tx_final_tree v1_invalidated = sample_tree CHR ''b''"
  "tx_fix_delta v1_invalidated = empty_fix_delta_hash"
  "tx_policy v1_invalidated = identity_of ''policy''" "tx_ledger v1_invalidated = []"
  "tx_findings_hash v1_invalidated = []" "tx_evidence v1_invalidated = []"
  "tx_judge_hash v1_invalidated = []" "tx_agreement v1_invalidated = []"
  "tx_judges v1_invalidated = Some []" "tx_release v1_invalidated = None"
  "tx_failed v1_invalidated = []" "tx_counters v1_invalidated = no_counters"
  "tx_findings v1_invalidated = Some []" "tx_classifications v1_invalidated = Some fmempty"
  "tx_outcomes v1_invalidated = Some fmempty" "tx_fix_ids v1_invalidated = Some []"
  "tx_pending v1_invalidated = Some []" "tx_fix_caused v1_invalidated = Some []"
  "tx_follow_ups v1_invalidated = Some []" "tx_original v1_invalidated = None"
  "tx_regression v1_invalidated = None" "tx_risk v1_invalidated = RiskMedium"
  "tx_lenses v1_invalidated = Some [lens_reliability]" "tx_results v1_invalidated = Some []"
  "tx_original_lines v1_invalidated = Some 40" "tx_budget v1_invalidated = Some 20"
  "tx_proposed v1_invalidated = None" "tx_actual v1_invalidated = None"
  by (simp_all add: v1_invalidated_def v1_reviewing_fields)

lemma no_counters_zero [simp]:
  "counter_values no_counters = replicate 12 0" "cn_fix no_counters = 0" "cn_judges no_counters = 0"
  "lens_executions l no_counters = 0"
  by (simp_all add: counter_values_def no_counters_def lens_executions_def eval_nat_numeral)

lemma v1_sample_pieces:
  assumes f: "tx_snapshot t = sample_snapshot" "tx_genesis t = Some [''a.go'']"
    "tx_original t = None" "tx_regression t = None" "tx_release t = None" "tx_follow_ups t = Some []"
    "tx_fix_caused t = Some []" "tx_findings t = Some []" "tx_classifications t = Some fmempty"
    "tx_outcomes t = Some fmempty" "tx_fix_ids t = Some []" "tx_pending t = Some []" "tx_judges t = Some []"
  shows "validate_content t = None"
    "before_freeze (tx_state t) \<Longrightarrow> validate_finding_routing t = None"
  by (simp_all add: validate_content_def f sample_snapshot_fields sample_paths sample_subset
      validate_finding_routing_def validate_finding_state_def unrouted_def)

lemma v1_budget_unused: "validate_correction_budget t = None"
  if "tx_mode t = OrdinaryBounded" "tx_original_lines t = Some 40" "tx_budget t = Some 20"
    "tx_proposed t = None" "tx_actual t = None" "tx_counters t = no_counters"
  using that by (simp add: validate_correction_budget_def sample_budget)

lemmas v1_identity_facts = validate_identity_def sample_lineage v1_snapshot sample_trees sample_digest_valid
  v1_budget_unused

lemma no_counters_valid: "validate_counters m no_counters = None"
  by (auto simp: counters_valid_iff no_counters_def counter_values_def)

lemma v1_reviewing_valid: "v1_checks v1_reviewing = None"
proof -
  have "validate_identity v1_reviewing = None"
    by (simp add: v1_identity_facts v1_reviewing_fields)
  moreover have "validate_content v1_reviewing = None" "validate_finding_routing v1_reviewing = None"
    by (rule v1_sample_pieces; simp add: v1_reviewing_fields before_freeze_def)+
  moreover have "validate_v1_state v1_reviewing = None"
    by (simp add: validate_v1_state_def validate_lens_state_def validate_judge_state_def
        v1_reviewing_fields sample_lenses has_result_for_def is_ordinary_mode_def)
  ultimately show ?thesis by (simp add: v1_checks_def known_state_def v1_reviewing_fields no_counters_valid)
qed

lemma v1_reviewing_pristine: "pristine_reviewing v1_reviewing"
  by (simp add: pristine_reviewing_def valid_initial_record_def pristine_snapshot_def snapshots_equal_def
      v1_reviewing_fields sample_snapshot_fields)

lemma v1_invalidate_ok: "invalidate_v1 ''scope'' v1_reviewing = (v1_invalidated, None)"
proof -
  have "trim_space ''scope'' = ''scope''" by code_simp
  then show ?thesis by (simp add: invalidate_v1_def v1_reviewing_pristine v1_invalidated_def)
qed

lemma v1_invalidated_valid: "v1_checks v1_invalidated = None"
proof -
  have b: "\<not> blank ''scope''" by code_simp
  have r: "v1_invalidated\<lparr>tx_state := Reviewing, tx_invalidation := []\<rparr> = v1_reviewing"
    by (simp add: v1_invalidated_def v1_reviewing_def v1_sample_defs)
  have "validate_identity v1_invalidated = None"
    by (simp add: v1_identity_facts v1_invalidated_fields)
  moreover have "validate_content v1_invalidated = None" "validate_finding_routing v1_invalidated = None"
    by (rule v1_sample_pieces; simp add: v1_invalidated_fields before_freeze_def)+
  moreover have "validate_v1_state v1_invalidated = None"
    using b v1_reviewing_pristine unfolding validate_v1_state_def r
    by (simp add: v1_invalidated_fields)
  ultimately show ?thesis by (simp add: v1_checks_def known_state_def v1_invalidated_fields no_counters_valid)
qed

lemma v1_approved_fields:
  "tx_schema v1_approved = transaction_schema" "tx_lineage v1_approved = ''review-1''"
  "tx_generation v1_approved = 1" "tx_snapshot v1_approved = sample_snapshot"
  "tx_genesis v1_approved = Some [''a.go'']" "tx_base v1_approved = sample_tree CHR ''a''"
  "tx_paths_digest v1_approved = sn_paths_digest sample_snapshot"
  "tx_initial_tree v1_approved = sample_tree CHR ''b''"
  "tx_final_tree v1_approved = sample_tree CHR ''b''"
  "tx_fix_delta v1_approved = empty_fix_delta_hash"
  "tx_policy v1_approved = identity_of ''policy''" "tx_judge_hash v1_approved = []"
  "tx_agreement v1_approved = []" "tx_judges v1_approved = Some []"
  "tx_release v1_approved = None" "tx_failed v1_approved = []" "tx_findings v1_approved = Some []"
  "tx_classifications v1_approved = Some fmempty" "tx_outcomes v1_approved = Some fmempty"
  "tx_fix_ids v1_approved = Some []" "tx_pending v1_approved = Some []"
  "tx_fix_caused v1_approved = Some []" "tx_follow_ups v1_approved = Some []"
  "tx_original v1_approved = None" "tx_regression v1_approved = None"
  "tx_proposed v1_approved = None" "tx_actual v1_approved = None"
  "tx_mode v1_approved = Ordinary4R" "tx_state v1_approved = Approved"
  "tx_invalidation v1_approved = []"
  "tx_ledger v1_approved = identity_of (render (json_ledger []))"
  "tx_findings_hash v1_approved = findings_hash (Some [])"
  "tx_evidence v1_approved = identity_of []"
  "tx_counters v1_approved = no_counters\<lparr>cn_full := 1, cn_final := 1\<rparr>"
  "tx_lenses v1_approved = None" "tx_results v1_approved = None"
  "tx_original_lines v1_approved = None" "tx_budget v1_approved = None"
  "tx_risk v1_approved = NoRisk"
  by (simp_all add: v1_approved_def v1_sample_defs sample_snapshot_fields append_slice_def)

lemma v1_approved_counters:
  "validate_counters Ordinary4R (no_counters\<lparr>cn_full := 1, cn_final := 1\<rparr>) = None"
  by (simp add: counters_valid_iff no_counters_def counter_values_def)

lemma v1_approved_valid: "v1_checks v1_approved = None"
proof -
  have "validate_identity v1_approved = None"
    by (simp add: validate_identity_def sample_lineage v1_snapshot sample_trees sample_digest_valid
        validate_correction_budget_def v1_approved_fields findings_hash_def)
  moreover have "validate_content v1_approved = None"
    by (rule v1_sample_pieces(1); simp add: v1_approved_fields)
  moreover have "validate_finding_routing v1_approved = None"
    by (simp add: validate_finding_routing_def validate_finding_state_def validate_classified_def Let_def
        v1_approved_fields before_freeze_def corroborated_ids_def severe_findings_def findings_hash_def
        validate_resolution_counters_def no_counters_def)
  moreover have "validate_v1_state v1_approved = None"
    by (simp add: validate_v1_state_def validate_lens_state_def validate_judge_state_def
        v1_approved_fields is_ordinary_mode_def no_counters_def)
  ultimately show ?thesis
    by (simp add: v1_checks_def known_state_def v1_approved_fields v1_approved_counters)
qed

lemma v1_frozen_fields:
  "tx_schema v1_frozen = transaction_schema" "tx_lineage v1_frozen = ''review-1''"
  "tx_generation v1_frozen = 1" "tx_snapshot v1_frozen = sample_snapshot"
  "tx_genesis v1_frozen = Some [''a.go'']" "tx_base v1_frozen = sample_tree CHR ''a''"
  "tx_paths_digest v1_frozen = sn_paths_digest sample_snapshot"
  "tx_initial_tree v1_frozen = sample_tree CHR ''b''"
  "tx_final_tree v1_frozen = sample_tree CHR ''b''"
  "tx_fix_delta v1_frozen = empty_fix_delta_hash" "tx_policy v1_frozen = identity_of ''policy''"
  "tx_judge_hash v1_frozen = []" "tx_agreement v1_frozen = []" "tx_judges v1_frozen = Some []"
  "tx_release v1_frozen = None" "tx_failed v1_frozen = []"
  "tx_classifications v1_frozen = Some fmempty" "tx_outcomes v1_frozen = Some fmempty"
  "tx_fix_ids v1_frozen = Some []" "tx_pending v1_frozen = Some []"
  "tx_fix_caused v1_frozen = Some []" "tx_follow_ups v1_frozen = Some []"
  "tx_original v1_frozen = None" "tx_regression v1_frozen = None" "tx_proposed v1_frozen = None"
  "tx_actual v1_frozen = None" "tx_findings v1_frozen = Some [sample_finding]"
  "tx_mode v1_frozen = Ordinary4R" "tx_state v1_frozen = FindingsFrozen"
  "tx_invalidation v1_frozen = []"
  "tx_ledger v1_frozen = identity_of (render (json_ledger [sample_finding]))"
  "tx_findings_hash v1_frozen = findings_hash (Some [sample_finding])"
  "tx_evidence v1_frozen = []" "tx_counters v1_frozen = no_counters\<lparr>cn_full := 1\<rparr>"
  "tx_lenses v1_frozen = None" "tx_results v1_frozen = None" "tx_original_lines v1_frozen = None"
  "tx_budget v1_frozen = None" "tx_risk v1_frozen = NoRisk"
  by (simp_all add: v1_frozen_def v1_sample_defs sample_snapshot_fields append_slice_def)

lemma sample_finding_fields [simp]:
  "f_id sample_finding = ''R3-001''" "f_severity sample_finding = ''BLOCKER''"
  "is_severe ''BLOCKER''" "is_supported_severity ''BLOCKER''"
  by (simp_all add: sample_finding_def is_severe_def is_supported_severity_def)

lemma v1_frozen_valid: "v1_checks v1_frozen = None"
proof -
  have "validate_identity v1_frozen = None"
    by (simp add: validate_identity_def sample_lineage v1_snapshot sample_trees sample_digest_valid
        validate_correction_budget_def v1_frozen_fields findings_hash_def)
  moreover have "validate_content v1_frozen = None"
    by (simp add: validate_content_def v1_frozen_fields sample_snapshot_fields sample_paths sample_subset)
  moreover have "\<not> blank ''R3-001''" by code_simp
  then have "validate_finding_routing v1_frozen = None"
    by (simp add: validate_finding_routing_def validate_finding_state_def v1_frozen_fields before_freeze_def
        severe_findings_def findings_hash_def)
  moreover have "validate_v1_state v1_frozen = None"
    by (simp add: validate_v1_state_def validate_lens_state_def validate_judge_state_def
        v1_frozen_fields is_ordinary_mode_def no_counters_def)
  moreover have "validate_counters Ordinary4R (no_counters\<lparr>cn_full := 1\<rparr>) = None"
    by (simp add: counters_valid_iff no_counters_def counter_values_def)
  ultimately show ?thesis by (simp add: v1_checks_def known_state_def v1_frozen_fields)
qed

definition sample_evidence :: finding_evidence where
  "sample_evidence = \<lparr>fe_finding = ''R3-001'', fe_class = Deterministic, fe_causality = Introduced,
     fe_proof = ''t''\<rparr>"

lemma v1_frozen_classified:
  "\<exists>n r. classify_evidence [sample_evidence] v1_frozen = ((n, None), r)"
proof -
  have t: "trim_space ''R3-001'' = ''R3-001''" "is_concrete_evidence ''t''" by code_simp+
  show ?thesis
    by (simp add: classify_evidence_def v1_frozen_fields severe_id_set_def sample_evidence_def t
        classify_item_def unclassified_def fcard_def Let_def)
qed

end
