(* ===== verification/V1Props.thy ===== *)
theory V1Props
  imports V1Laws V1Samples
begin

text \<open>
  The properties of the v1 transaction and its event chain.
\<close>

section \<open>Budgets and chains\<close>

text \<open>C11: Whatever operations are called on a new v1 transaction, in whatever order and whatever
  each of them returned, the counters stay within the limits of its mode: one refuter batch, one fix
  batch, one scoped validation and one final verification of an ordinary review, two fix rounds and
  two re-judgments of Judgment Day.\<close>

theorem v1_counters_bounded:
  assumes "new_transaction st = Inr t" "c = tx_counters (run_ops ops t)"
  shows "validate_counters (st_mode st) c = None \<and>
    cn_refuter c \<le> 1 \<and> cn_fix c \<le> 1 \<and> cn_scoped c \<le> 1 \<and> cn_final c \<le> 1 \<and>
    cn_rounds c \<le> 2 \<and> cn_rejudgments c \<le> 2 \<and> cn_judges c \<le> 2"
proof -
  have new: "tx_mode t = st_mode st" "tx_counters t = no_counters"
      "st_mode st \<in> {Ordinary4R, OrdinaryBounded, JudgmentDay}"
    using assms(1) by (auto simp: new_transaction_def fresh_transaction_def
        split: option.splits sum.splits if_splits)
  have run: "tx_mode (run_ops ops u) = tx_mode u \<and>
      validate_counters (tx_mode u) (tx_counters (run_ops ops u)) = None"
    if "validate_counters (tx_mode u) (tx_counters u) = None" for u
    using that
  proof (induction ops arbitrary: u)
    case (Cons op ops)
    have "tx_mode (fst (run_op op u)) = tx_mode u" using run_op_scope v1_scope_mode by blast
    with Cons.IH [of "fst (run_op op u)"] run_op_budget [OF Cons.prems, of op] show ?case by simp
  qed simp
  have v: "validate_counters (st_mode st) c = None"
    using run [of t] new no_counters_valid by (simp add: assms(2))
  with new(3) show ?thesis
    by (auto simp: counters_valid_iff counter_values_def is_ordinary_mode_def)
qed

theorem v1_counters_bounded_witness:
  "cn_fix (tx_counters (run_ops [StartReview, BeginVerification] v1_sample)) \<le> 1"
  using v1_counters_bounded [OF v1_sample_started refl] by blast

text \<open>A v1 event chain is short and keeps its scope. From a valid transaction at most 18 events
  can be accepted one after the other, whatever their operations, and the lineage, generation, mode,
  trees, policy, genesis paths, lenses, risk and budget of the last one are those of the first.\<close>

lemma v1_chain_bounded:
  assumes "v1_checks s = None" "(v1_event_step ^^ n) s t"
  shows "n \<le> 18 \<and> v1_checks t = None \<and> v1_scope t = v1_scope s"
proof -
  have "n + v1_rank t \<le> v1_rank s" by (rule v1_chain.run_bounded [OF assms(2,1)])
  then show ?thesis
    using v1_rank_bound [OF assms(1)] v1_chain.run_keeps [OF relpowp_imp_rtranclp [OF assms(2)] assms(1)]
    by simp
qed

lemma v1_sample_event: "v1_event_step v1_reviewing v1_invalidated"
proof -
  have "validate_successor v1_reviewing v1_invalidated ''review/invalidate'' = None"
    by (rule invalidate_event [OF v1_invalidate_ok])
  then have "validate_persisted_successor v1_reviewing v1_invalidated ''review/invalidate'' 1 = None"
    by (simp add: validate_persisted_successor_def)
  then show ?thesis using v1_invalidated_valid by (auto simp: v1_event_step_def)
qed

lemma v1_chain_bounded_witness:
  "v1_event_step v1_reviewing v1_invalidated \<and> v1_scope v1_invalidated = v1_scope v1_reviewing"
  using v1_chain_bounded [OF v1_reviewing_valid, of "Suc 0" v1_invalidated] v1_sample_event by auto

text \<open>An approved, escalated or invalidated v1 transaction is final: no event is accepted after
  it, under any operation and any historical alias.\<close>

theorem v1_terminal_final:
  assumes "v1_checks t = None" "tx_state t \<in> {Approved, Escalated, Invalidated}"
  shows "\<not> (v1_checks n = None \<and> validate_persisted_successor t n operation i = None)"
  using terminal_no_event [OF assms] by (auto simp: v1_event_step_def)

theorem v1_terminal_final_witness:
  "\<not> (v1_checks v1_reviewing = None \<and>
      validate_persisted_successor v1_approved v1_reviewing ''review/start'' 1 = None)"
  by (rule v1_terminal_final [OF v1_approved_valid]) (simp add: v1_approved_fields)

section \<open>Appending an event\<close>

datatype append_error =
    StoreReadOnly | AppendBlank | AppendInvalid v1_error | AppendLineage | AppendNotDerived | AppendLines
  | AppendRefused chain_error

definition correction_refusal :: "repository option \<Rightarrow> transaction \<Rightarrow> transaction \<Rightarrow> append_error option" where
  \<comment> \<open>what git says of a completed correction\<close>
  "correction_refusal repo p n =
     (case repo of None \<Rightarrow> None
      | Some git \<Rightarrow>
        if tx_state p = Fixing \<and> tx_state n = FixValidating then first_err
          [guard (\<not> rp_evidence_ok git (tx_snapshot n)) AppendNotDerived,
           guard (has_correction_budget n \<and>
                  (rp_changed_lines git (tx_snapshot n) = None \<or> tx_actual n = None \<or>
                   rp_changed_lines git (tx_snapshot n) \<noteq> tx_actual n)) AppendLines]
        else None)"

definition append_refusal ::
  "bool \<Rightarrow> string \<Rightarrow> repository option \<Rightarrow> transaction \<Rightarrow> transaction \<Rightarrow> string \<Rightarrow>
   append_error option" where
  \<comment> \<open>the checks of \<^verbatim>\<open>Store.append\<close> behind a head that is the expected revision and holds p;
    files, locks and the branch of the first event (\<open>valid_initial_record\<close>) are left out\<close>
  "append_refusal read_only lineage repo p n operation = first_err
     [guard read_only StoreReadOnly,
      guard (blank operation) AppendBlank,
      map_option AppendInvalid (v1_checks n),
      guard (lineage \<noteq> [] \<and> tx_lineage n \<noteq> lineage) AppendLineage,
      correction_refusal repo p n,
      map_option AppendRefused (validate_successor p n operation)]"

lemma event_name_not_blank: "\<not> blank (event_name op p)"
proof -
  have "\<not> blank ''review/start''" by code_simp
  moreover have "\<not> blank ''review/invalidate''" by code_simp
  moreover have "\<not> blank ''review/record-lens-result''" by code_simp
  moreover have "\<not> blank ''review/record-judge-proofs''" by code_simp
  moreover have "\<not> blank ''review/freeze-findings''" by code_simp
  moreover have "\<not> blank ''review/classify-evidence''" by code_simp
  moreover have "\<not> blank ''review/apply-refuter-outcomes''" by code_simp
  moreover have "\<not> blank ''review/begin-fix''" by code_simp
  moreover have "\<not> blank ''review/complete-fix''" by code_simp
  moreover have "\<not> blank ''review/validate-fix-delta''" by code_simp
  moreover have "\<not> blank ''review/validate-targeted-fix''" by code_simp
  moreover have "\<not> blank ''review/begin-final-verification''" by code_simp
  moreover have "\<not> blank ''review/bind-release-evidence''" by code_simp
  moreover have "\<not> blank ''review/complete-final-verification''" by code_simp
  ultimately show ?thesis by (cases op) (simp_all only: event_name.simps if_split, simp_all)
qed

lemma accepted_step:
  assumes "validate_successor p n operation = None" "v1_checks n = None"
  shows "v1_event_step p n"
proof -
  have "validate_persisted_successor p n operation 0 = None"
    using assms(1) by (simp add: validate_persisted_successor_def)
  with assms(2) show ?thesis unfolding v1_event_step_def by blast
qed

text \<open>C10: What a v1 operation produces, its store accepts, as far as the result is valid and git
  agrees. An operation other than the start that succeeds on a valid transaction is accepted as the
  next event of a writable store of its lineage under that operation's name exactly when the transaction it left
  passes the validator, is another one than before (binding the same release evidence again succeeds
  and changes nothing), and, for a completed correction, has the snapshot and lines git derives; the
  successor check itself never refuses it. Before the freeze the ledger hash must still be unset; no
  operation sets it earlier.\<close>

theorem v1_operations_commit:
  assumes "v1_checks p = None" "run_op op p = (n, None)" "op \<noteq> StartReview"
    and "before_freeze (tx_state p) \<Longrightarrow> tx_ledger p = []" and "lineage \<in> {[], tx_lineage p}"
  shows "append_refusal False lineage repo p n (event_name op p) = None \<longleftrightarrow>
    v1_checks n = None \<and> n \<noteq> p \<and> correction_refusal repo p n = None"
proof
  assume a: "append_refusal False lineage repo p n (event_name op p) = None"
  then have parts: "v1_checks n = None" "correction_refusal repo p n = None"
    "validate_successor p n (event_name op p) = None" by (simp_all add: append_refusal_def)
  from event_rank [OF assms(1) accepted_step [OF parts(3,1)]] parts
  show "v1_checks n = None \<and> n \<noteq> p \<and> correction_refusal repo p n = None" by blast
next
  assume n: "v1_checks n = None \<and> n \<noteq> p \<and> correction_refusal repo p n = None"
  then have v: "validate_successor p n (event_name op p) = None"
    using operation_event [OF assms(1) _ assms(2) _ assms(3,4)] by blast
  have "tx_lineage n = tx_lineage p" using run_op_scope [of op p] assms(2) by (simp add: v1_scope_def)
  with n v assms(5) show "append_refusal False lineage repo p n (event_name op p) = None"
    by (auto simp: append_refusal_def event_name_not_blank)
qed

theorem v1_operations_commit_witness:
  "append_refusal False (tx_lineage v1_reviewing) None v1_reviewing v1_invalidated (event_name (InvalidateReview ''scope'') v1_reviewing) = None"
proof -
  have "tx_state v1_invalidated \<noteq> tx_state v1_reviewing" by (simp add: v1_reviewing_fields v1_invalidated_def)
  then have "v1_invalidated \<noteq> v1_reviewing" by auto
  then show ?thesis
    using v1_operations_commit [OF v1_reviewing_valid, of "InvalidateReview ''scope''" v1_invalidated "tx_lineage v1_reviewing" None]
      v1_invalidate_ok v1_invalidated_valid
    by (simp add: v1_reviewing_fields correction_refusal_def)
qed

section \<open>Evidence and the refuter\<close>

text \<open>C12: Classification of a valid frozen transaction decides by the routes of its severe findings
  alone: any finding left open escalates, else any inferential finding waits for the refuter, else any
  finding to fix requires the correction, else verification is next. The correction ids are exactly
  the findings routed to it, and the refuter claims exactly those routed to the refuter.\<close>

theorem v1_classification_decides:
  assumes "v1_checks t = None" "classify_evidence es t = ((n, None), r)"
  defines "to \<equiv> evidence_routes es t"
  shows "tx_state n = (if to LeftOpen \<noteq> {} then Escalated else if to ToRefuter \<noteq> {} then EvidenceClassified
           else if to ToFix \<noteq> {} then FixRequired else ReadyFinalVerification) \<and>
    set (elems (tx_fix_ids n)) = to ToFix \<and> set (rt_auto_fix r) = to ToFix \<and>
    fst ` set (rt_claims r) = to ToRefuter \<and>
    set (elems (tx_pending n)) = (if to LeftOpen \<noteq> {} then {} else to ToRefuter)"
proof -
  from assms(2) obtain m a where s: "tx_state t = FindingsFrozen"
    and m: "collect_evidence (severe_id_set (elems (tx_findings t))) fmempty es = Inr m"
    and a: "classify_findings t m (elems (tx_findings t)) (unclassified t) = Inr a"
    and n: "n = settle_evidence a t" "r = \<lparr>rt_claims = cl_claims a, rt_auto_fix = sort (cl_auto_fix a)\<rparr>"
    by (rule classify_evidence_parts)
  note routes = classify_findings_routes [OF a, unfolded evidence_routes_eq [OF m]]
  note start = checks_unclassified [OF assms(1) s]
  have f: "cl_escalate a \<longleftrightarrow> to LeftOpen \<noteq> {}" "set (cl_fix a) = to ToFix" "set (cl_auto_fix a) = to ToFix"
    "fst ` set (cl_claims a) = to ToRefuter" "set (cl_pending a) = to ToRefuter"
    using routes start(2,3) by (simp_all add: unclassified_def to_def)
  have e: "cl_fix a = [] \<longleftrightarrow> to ToFix = {}" "cl_pending a = [] \<longleftrightarrow> to ToRefuter = {}"
    using f(2,5) by auto
  have "tx_state n = (if to LeftOpen \<noteq> {} then Escalated else if to ToRefuter \<noteq> {} then EvidenceClassified
           else if to ToFix \<noteq> {} then FixRequired else ReadyFinalVerification)"
    unfolding n(1) settle_evidence_state using f(1) e by simp
  then show ?thesis using f by (simp add: n settle_evidence_state)
qed

lemma sample_evidence_routes:
  "evidence_routes [sample_evidence] v1_frozen k = (if k = ToFix then {''R3-001''} else {})"
proof -
  have "trim_space ''R3-001'' = ''R3-001''" by code_simp
  then show ?thesis
    by (auto simp: evidence_routes_def v1_frozen_fields v1_route_def sample_evidence_def)
qed

theorem v1_classification_decides_witness:
  "\<exists>n r. classify_evidence [sample_evidence] v1_frozen = ((n, None), r) \<and> tx_state n = FixRequired \<and>
     set (elems (tx_fix_ids n)) = {''R3-001''}"
  using v1_frozen_classified v1_classification_decides [OF v1_frozen_valid]
  by (fastforce simp: sample_evidence_routes)

text \<open>The refuter gets one batch. It succeeds exactly when it answers every pending finding once,
  answers nothing else, and each answer has concrete proof and a supported outcome; any other batch
  fails closed: the review escalates, every pending finding becomes inconclusive, nothing is sent to
  correction, and the batch is spent.\<close>

theorem v1_refuter_fails_closed:
  assumes "is_ordinary_mode (tx_mode t)" "tx_state t = EvidenceClassified" "cn_refuter (tx_counters t) = 0"
    and "elems (tx_pending t) \<noteq> []" "distinct (elems (tx_pending t))" "tx_outcomes t \<noteq> None"
    and "apply_refuter_outcomes rs t = (n, e)"
  shows "(e = None \<longleftrightarrow> answers rs (elems (tx_pending t))) \<and>
    (e \<noteq> None \<longrightarrow> tx_state n = Escalated \<and> tx_pending n = Some [] \<and> tx_fix_ids n = tx_fix_ids t \<and>
      cn_refuter (tx_counters n) = 1 \<and>
      (\<forall>k \<in> set (elems (tx_pending t)). fmlookup (entries (tx_outcomes n)) k = Some Inconclusive))"
proof -
  let ?ids = "elems (tx_pending t)" and ?acc = "(entries (tx_outcomes t), elems (tx_fix_ids t), False)"
  note run = assms(7) [unfolded apply_refuter_outcomes_def] assms(1-4)
  have failed: "e = Some c \<and> tx_state n = Escalated \<and> tx_pending n = Some [] \<and> tx_fix_ids n = tx_fix_ids t \<and>
      cn_refuter (tx_counters n) = 1 \<and>
      (\<forall>k \<in> set ?ids. fmlookup (entries (tx_outcomes n)) k = Some Inconclusive)"
    if "fail_refuter_batch c t = (n, e)" for c
    by (rule failed_batch [OF that assms(6,4,3)])
  have all: "(e = None \<longleftrightarrow> answers rs ?ids) \<and> (e \<noteq> None \<longrightarrow> (\<exists>c. fail_refuter_batch c t = (n, e)))"
  proof (cases "collect_batch fmempty rs")
    case None
    then have "\<not> distinct (map er_finding rs)" using collect_batch_None [of rs fmempty] by auto
    then show ?thesis using run None failed by (auto simp: answers_def)
  next
    case (Some m)
    note c = batch_complete [OF Some assms(5), of ?acc]
    show ?thesis
    proof (cases "resolve_pending m ?ids ?acc")
      case (Inl x)
      with c have "\<not> answers rs ?ids" by simp
      then show ?thesis using run Some Inl failed by (auto split: if_splits)
    next
      case (Inr acc')
      with c have "fcard (fmdom m) = length ?ids \<longleftrightarrow> answers rs ?ids" by blast
      then show ?thesis using run Some Inr failed
        by (cases acc') (auto simp: Let_def split: if_splits)
    qed
  qed
  then show ?thesis using failed by blast
qed

theorem v1_refuter_fails_closed_witness:
  "tx_state (fst (apply_refuter_outcomes [] v1_waiting)) = Escalated"
proof -
  obtain n e where r: "apply_refuter_outcomes [] v1_waiting = (n, e)" by fastforce
  note w = v1_refuter_fails_closed [OF _ _ _ _ _ _ r]
  have "e \<noteq> None \<and> tx_state n = Escalated"
    using w by (simp add: v1_waiting_def v1_reviewing_fields is_ordinary_mode_def no_counters_def answers_def)
  then show ?thesis by (simp add: r)
qed

section \<open>Approval and invalidation\<close>

text \<open>A valid approved v1 transaction is bound to its frozen findings and holds the verification
  evidence; exactly one final verification was consumed, every severe finding was classified and is a
  follow-up, refuted, or corroborated and corrected; and when anything was corrected, the snapshot is
  a fix diff of exactly those ids onto the final candidate, within the budget where there is one.\<close>

theorem v1_approval_guarantees:
  assumes "v1_checks t = None" "tx_state t = Approved"
  shows "valid_sha256 (tx_ledger t) \<and> valid_sha256 (tx_evidence t) \<and>
    tx_findings_hash t = findings_hash (tx_findings t) \<and>
    cn_final (tx_counters t) = 1 \<and> elems (tx_pending t) = [] \<and>
    (\<forall>f \<in> set (elems (tx_findings t)). is_severe (f_severity f) \<longrightarrow> v1_settled t f) \<and>
    (corroborated_ids t \<noteq> [] \<longrightarrow> sn_kind (tx_snapshot t) = FixDiff \<and>
      sn_candidate (tx_snapshot t) = tx_final_tree t \<and>
      elems (sn_ledger_ids (tx_snapshot t)) = elems (tx_fix_ids t) \<and>
      tx_fix_delta t = fix_delta_hash (tx_snapshot t)) \<and>
    (has_correction_budget t \<and> cn_fix (tx_counters t) = 1 \<longrightarrow>
      (\<exists>a. tx_actual t = Some a \<and> 0 \<le> a \<and> a \<le> the (tx_budget t) \<and> the (tx_budget t) \<le> 200))"
proof -
  note c = checks_settled [OF assms]
  have bound: "valid_sha256 (tx_ledger t) \<and> valid_sha256 (tx_evidence t) \<and>
      tx_findings_hash t = findings_hash (tx_findings t)"
    using assms by (simp add: v1_checks_def validate_v1_state_def validate_finding_routing_def before_freeze_def)
  have "validate_resolution_counters (corroborated_ids t \<noteq> []) t = None"
    using c(1) by (simp add: validate_classified_def Let_def)
  then have r: "cn_final (tx_counters t) = 1 \<and> elems (tx_pending t) = [] \<and>
     (corroborated_ids t \<noteq> [] \<longrightarrow> sn_kind (tx_snapshot t) = FixDiff \<and>
      sn_candidate (tx_snapshot t) = tx_final_tree t \<and>
      elems (sn_ledger_ids (tx_snapshot t)) = elems (tx_fix_ids t) \<and>
      tx_fix_delta t = fix_delta_hash (tx_snapshot t))"
    using assms(2) by (auto simp: validate_resolution_counters_def Let_def)
  have "\<exists>a. tx_actual t = Some a \<and> 0 \<le> a \<and> a \<le> the (tx_budget t) \<and> the (tx_budget t) \<le> 200"
    if "has_correction_budget t" "cn_fix (tx_counters t) = 1"
  proof -
    have "validate_correction_budget t = None"
      using assms(1) by (simp add: v1_checks_def validate_identity_def)
    then show ?thesis using that assms(2) correction_budget_bounds
      by (auto simp: validate_correction_budget_def has_correction_budget_def split: option.splits if_splits)
  qed
  with bound r c(2) show ?thesis by blast
qed

theorem v1_approval_guarantees_witness:
  "cn_final (tx_counters v1_approved) = 1 \<and> elems (tx_pending v1_approved) = []"
  using v1_approval_guarantees [OF v1_approved_valid] by (simp add: v1_approved_fields)

text \<open>A v1 review of staged changes can never be invalidated, pristine or not: the comparison that
  decides whether it is pristine rebuilds its snapshot without the projection, and the two never
  agree.\<close>

theorem v1_staged_not_invalidatable:
  assumes "sn_projection (tx_snapshot t) = Staged"
  shows "\<exists>err. invalidate_v1 reason t = (t, Some err)"
proof -
  have "\<not> snapshots_equal (tx_snapshot t) (pristine_snapshot t)"
    using assms by (simp add: snapshots_equal_def pristine_snapshot_def)
  then show ?thesis by (auto simp: invalidate_v1_def Let_def pristine_reviewing_def)
qed

theorem v1_staged_not_invalidatable_witness:
  "\<exists>err. invalidate_v1 ''scope'' (v1_reviewing\<lparr>tx_snapshot := sample_snapshot\<lparr>sn_projection := Staged\<rparr>\<rparr>) =
     (v1_reviewing\<lparr>tx_snapshot := sample_snapshot\<lparr>sn_projection := Staged\<rparr>\<rparr>, Some err)"
  by (rule v1_staged_not_invalidatable) simp

end
