(* ===== verification/Planner.thy ===== *)
theory Planner
  imports GoText
begin

text \<open>
  The component planner (internal/planner): the dependency graph, \<^verbatim>\<open>TopologicalSort\<close> with its
  queue of nodes without open dependencies, the soft ordering of graph.go, and the resolver that
  expands a selection. A Go map of dependencies is a finite map; the code ranges over it in any
  order, but sorts the queue and each list of children before it reads them, so the keys are taken
  here in sorted order.
\<close>

type_synonym depmap = "(string, string list) fmap"

datatype plan_error =
    DependencyCycle | UnknownComponent string | UnknownDependency string string

section \<open>The graph\<close>

definition has_component :: "depmap \<Rightarrow> string \<Rightarrow> bool" where
  "has_component g c \<longleftrightarrow> c |\<in>| fmdom g"

definition dependencies_of :: "depmap \<Rightarrow> string \<Rightarrow> string list" where
  "dependencies_of g c = (case fmlookup g c of None \<Rightarrow> [] | Some ds \<Rightarrow> ds)"

definition mvp_graph :: depmap where
  "mvp_graph = fmap_of_list
     [(''engram'', []), (''sdd'', [''engram'']), (''skills'', [''sdd'']), (''context7'', []),
      (''persona'', []), (''permissions'', []), (''gga'', []), (''theme'', []),
      (''claude-theme'', []), (''opencode-gentle-logo'', [])]"

definition soft_ordering_pairs :: "(string \<times> string) list" where
  "soft_ordering_pairs = [(''persona'', ''engram''), (''persona'', ''sdd'')]"

section \<open>Topological order\<close>

definition map_keys :: "depmap \<Rightarrow> string list" where
  "map_keys g = sorted_list_of_fset (fmdom g)"

definition plan_nodes :: "depmap \<Rightarrow> string list" where
  "plan_nodes g = sort (remdups (map_keys g @ concat (map (dependencies_of g) (map_keys g))))"

definition in_degree :: "depmap \<Rightarrow> (string, int) fmap" where
  "in_degree g = fmap_of_list (map (\<lambda>n. (n, int (length (dependencies_of g n)))) (plan_nodes g))"

definition children_of :: "depmap \<Rightarrow> string \<Rightarrow> string list" where
  \<comment> \<open>one entry per dependency, as \<^verbatim>\<open>append\<close> collects them; sorted when the node is taken\<close>
  "children_of g d =
     sort (concat (map (\<lambda>c. map (\<lambda>_. c) (filter (\<lambda>x. x = d) (dependencies_of g c))) (map_keys g)))"

definition degree :: "(string, int) fmap \<Rightarrow> string \<Rightarrow> int" where
  "degree deg c = (case fmlookup deg c of None \<Rightarrow> 0 | Some k \<Rightarrow> k)"

fun release_children ::
  "string list \<Rightarrow> string list \<Rightarrow> (string, int) fmap \<Rightarrow> string list \<times> (string, int) fmap" where
  \<comment> \<open>the children left, the queue, the in-degrees\<close>
  "release_children [] q deg = (q, deg)"
| "release_children (c # cs) q deg =
     (let k = degree deg c - 1 in
      release_children cs (if k = 0 then sort (q @ [c]) else q) (fmupd c k deg))"

lemma degree_fmupd [simp]: "degree (fmupd c k deg) n = (if n = c then k else degree deg n)"
  by (simp add: degree_def)

definition open_nodes :: "(string, int) fmap \<Rightarrow> string set" where
  "open_nodes deg = {c. degree deg c > 0}"

lemma open_nodes_dom: "open_nodes deg \<subseteq> fset (fmdom deg)"
proof
  fix c assume "c \<in> open_nodes deg"
  then show "c \<in> fset (fmdom deg)"
    by (cases "fmlookup deg c") (simp_all add: open_nodes_def degree_def fmdomI)
qed

lemma finite_open [simp]: "finite (open_nodes deg)"
  by (rule finite_subset [OF open_nodes_dom]) simp

lemma open_nodes_fmupd:
  "open_nodes (fmupd c (degree deg c - 1) deg) =
     (if degree deg c = 1 then open_nodes deg - {c} else open_nodes deg)"
  unfolding open_nodes_def degree_fmupd by (cases "degree deg c = 1") (auto split: if_splits)

lemma open_count_fmupd:
  "card (open_nodes (fmupd c (degree deg c - 1) deg)) + of_bool (degree deg c = 1) = card (open_nodes deg)"
proof (cases "degree deg c = 1")
  case True
  then have "c \<in> open_nodes deg" by (simp add: open_nodes_def)
  then show ?thesis
    using True card.remove [OF finite_open, of c deg] unfolding open_nodes_fmupd by simp
qed (simp add: open_nodes_fmupd)

lemma release_measure:
  "length (fst (release_children cs q deg)) + card (open_nodes (snd (release_children cs q deg)))
     = length q + card (open_nodes deg)"
proof (induction cs q deg rule: release_children.induct)
  case (2 c cs q deg)
  show ?case
  proof (cases "degree deg c = 1")
    case True
    then show ?thesis using open_count_fmupd [of c deg] 2 [OF refl] by (simp add: Let_def)
  next
    case False
    then have "degree deg c - 1 \<noteq> 0" by simp
    then show ?thesis using open_count_fmupd [of c deg] 2 [OF refl] by (simp add: Let_def)
  qed
qed simp

function visit_nodes ::
  "(string \<Rightarrow> string list) \<Rightarrow> string list \<Rightarrow> (string, int) fmap \<Rightarrow> string list \<Rightarrow> string list" where
  \<comment> \<open>the loop of \<^verbatim>\<open>TopologicalSort\<close>: queue, in-degrees, what has been ordered\<close>
  "visit_nodes children [] deg ordered = ordered"
| "visit_nodes children (n # q) deg ordered =
     visit_nodes children (fst (release_children (children n) q deg))
       (snd (release_children (children n) q deg)) (ordered @ [n])"
  by pat_completeness auto
termination
proof (relation "measure (\<lambda>(children, q, deg, ordered). length q + card (open_nodes deg))")
  fix children :: "string \<Rightarrow> string list" and n q deg and ordered :: "string list"
  have "length (fst (release_children (children n) q deg)) + card (open_nodes (snd (release_children (children n) q deg)))
      = length q + card (open_nodes deg)"
    by (rule release_measure)
  then show "((children, fst (release_children (children n) q deg), snd (release_children (children n) q deg),
      ordered @ [n]), children, n # q, deg, ordered)
      \<in> measure (\<lambda>(children, q, deg, ordered). length q + card (open_nodes deg))"
    by simp
qed simp

definition topological_sort :: "depmap \<Rightarrow> plan_error + string list" where
  "topological_sort g =
     (let deg = in_degree g;
          ordered = visit_nodes (children_of g) (filter (\<lambda>n. degree deg n = 0) (plan_nodes g)) deg []
      in if length ordered \<noteq> length (plan_nodes g) then Inl DependencyCycle else Inr ordered)"

section \<open>Soft ordering\<close>

definition move_before :: "string \<times> string \<Rightarrow> string list \<Rightarrow> string list" where
  \<comment> \<open>the first component of a pair is moved to just before the second when it comes after it\<close>
  "move_before pair xs =
     (case (index_of xs (fst pair), index_of xs (snd pair)) of
        (Some i, Some j) \<Rightarrow>
          if i < j then xs
          else take j xs @ [xs ! i] @ take (i - j) (drop j xs) @ drop (i + 1) xs
      | _ \<Rightarrow> xs)"

definition apply_soft_ordering :: "string list \<Rightarrow> (string \<times> string) list \<Rightarrow> string list" where
  "apply_soft_ordering ordered pairs = foldl (\<lambda>xs pair. move_before pair xs) ordered pairs"

section \<open>The resolver\<close>

function expand_dependencies ::
  "depmap \<Rightarrow> (string \<times> string) list \<Rightarrow> depmap \<Rightarrow> plan_error + depmap" where
  \<comment> \<open>the recursion of \<^verbatim>\<open>expandDependencies\<close> with its pending (component, dependency) pairs on a
    stack, in the order the recursion meets them\<close>
  "expand_dependencies g [] m = Inr m"
| "expand_dependencies g ((c, d) # es) m =
     (if \<not> has_component g d then Inl (UnknownDependency c d)
      else if d |\<in>| fmdom m then expand_dependencies g es m
      else expand_dependencies g (map (Pair d) (dependencies_of g d) @ es)
             (fmupd d (dependencies_of g d) m))"
  by pat_completeness auto
termination
proof (relation "measures [\<lambda>(g, es, m). card (fset (fmdom g) - fset (fmdom m)), \<lambda>(g, es, m). length es]")
  fix g :: depmap and c d :: string and es and m :: depmap
  assume "\<not> \<not> has_component g d" "d |\<notin>| fmdom m"
  then have "fset (fmdom g) - fset (fmdom (fmupd d (dependencies_of g d) m)) \<subset> fset (fmdom g) - fset (fmdom m)"
    by (auto simp: has_component_def)
  then have "card (fset (fmdom g) - fset (fmdom (fmupd d (dependencies_of g d) m)))
      < card (fset (fmdom g) - fset (fmdom m))" by (intro psubset_card_mono) auto
  then show "((g, map (Pair d) (dependencies_of g d) @ es, fmupd d (dependencies_of g d) m), g, (c, d) # es, m)
     \<in> measures [\<lambda>(g, es, m). card (fset (fmdom g) - fset (fmdom m)), \<lambda>(g, es, m). length es]"
    by simp
qed auto

fun expand_selection :: "depmap \<Rightarrow> string list \<Rightarrow> depmap \<Rightarrow> plan_error + depmap" where
  "expand_selection g [] m = Inr m"
| "expand_selection g (c # cs) m =
     (if \<not> has_component g c then Inl (UnknownComponent c)
      else if c |\<in>| fmdom m then expand_selection g cs m
      else case expand_dependencies g (map (Pair c) (dependencies_of g c))
                  (fmupd c (dependencies_of g c) m) of
        Inl e \<Rightarrow> Inl e
      | Inr m' \<Rightarrow> expand_selection g cs m')"

record resolved_plan =
  pl_agents :: "string list"
  pl_unsupported :: "string list"
  pl_ordered :: "string list"
  pl_added :: "string list"

definition all_agents :: "string list" where
  "all_agents = [''claude-code'', ''opencode'', ''kilocode'', ''gemini-cli'', ''codex'', ''cursor'',
     ''vscode-copilot'', ''antigravity'', ''windsurf'', ''kimi'', ''qwen-code'', ''kiro-ide'',
     ''openclaw'', ''pi'', ''trae-ide'', ''hermes'']"

definition is_supported_agent :: "string \<Rightarrow> bool" where
  "is_supported_agent a \<longleftrightarrow> list_ex (\<lambda>b. b = a) all_agents"

definition resolve_plan ::
  "depmap \<Rightarrow> string list \<Rightarrow> string list \<Rightarrow> plan_error + resolved_plan" where
  \<comment> \<open>\<^verbatim>\<open>Resolve\<close>: the selected components and agents\<close>
  "resolve_plan g components agents =
     (case expand_selection g components fmempty of Inl e \<Rightarrow> Inl e
      | Inr m \<Rightarrow>
        (case topological_sort m of Inl e \<Rightarrow> Inl e
         | Inr sorted_nodes \<Rightarrow>
           let ordered = apply_soft_ordering sorted_nodes soft_ordering_pairs in
           Inr \<lparr>pl_agents = filter is_supported_agent agents,
                pl_unsupported = filter (\<lambda>a. \<not> is_supported_agent a) agents,
                pl_ordered = ordered,
                pl_added = filter (\<lambda>c. c \<notin> set components) ordered\<rparr>))"

section \<open>Presets and the review payload\<close>

record plan_selection =
  sel_agents :: "string list"
  sel_components :: "string list"
  sel_skills :: "string list"
  sel_persona :: string
  sel_preset :: string
  sel_strict_tdd :: bool

definition resolve_selection :: "depmap \<Rightarrow> plan_selection \<Rightarrow> plan_error + resolved_plan" where
  "resolve_selection g s = resolve_plan g (sel_components s) (sel_agents s)"

definition safe_visual_components :: "string list" where
  "safe_visual_components = [''claude-theme'', ''opencode-gentle-logo'']"

definition components_for_preset :: "string \<Rightarrow> string \<Rightarrow> string list" where
  "components_for_preset preset persona =
     (if preset = ''custom'' then []
      else (if preset = ''minimal'' then [''engram'']
            else if preset = ''ecosystem-only'' then [''engram'', ''sdd'', ''skills'', ''context7'', ''gga'']
            else [''engram'', ''sdd'', ''skills'', ''context7'', ''permissions'', ''gga''] @ safe_visual_components)
           @ (if persona \<noteq> ''custom'' then [''persona''] else []))"

definition component_actions :: "resolved_plan \<Rightarrow> (string \<times> string) list" where
  "component_actions p =
     map (\<lambda>c. (c, if c \<in> set (pl_added p) then ''auto-dependency'' else ''selected'')) (pl_ordered p)"

definition plan_has_sdd :: "resolved_plan \<Rightarrow> bool" where
  "plan_has_sdd p \<longleftrightarrow> list_ex (\<lambda>c. c = ''sdd'') (pl_ordered p)"

record review_payload =
  rp_agents :: "string list"
  rp_unsupported :: "string list"
  rp_persona :: string
  rp_preset :: string
  rp_components :: "(string \<times> string) list"
  rp_added :: "string list"
  rp_skills :: "string list"
  rp_strict_tdd :: bool
  rp_has_sdd :: bool

definition build_review_payload :: "plan_selection \<Rightarrow> resolved_plan \<Rightarrow> review_payload" where
  "build_review_payload s p =
     \<lparr>rp_agents = pl_agents p, rp_unsupported = pl_unsupported p, rp_persona = sel_persona s,
      rp_preset = sel_preset s, rp_components = component_actions p, rp_added = pl_added p,
      rp_skills = sel_skills s, rp_strict_tdd = sel_strict_tdd s, rp_has_sdd = plan_has_sdd p\<rparr>"

end
