(* ===== verification/PlannerLaws.thy ===== *)
theory PlannerLaws
  imports Planner "HOL-Library.Multiset"
begin

text \<open>
  Correctness of the planner: the queue loop of \<^verbatim>\<open>TopologicalSort\<close> keeps Kahn's invariant, so it
  orders every node after its dependencies exactly when the graph has no cycle; soft ordering keeps
  that order; and the resolver expands a selection to its dependency closure.
\<close>

section \<open>Order\<close>

definition deps_first :: "depmap \<Rightarrow> string list \<Rightarrow> bool" where
  \<comment> \<open>every element comes after all of its dependencies\<close>
  "deps_first g xs \<longleftrightarrow> (\<forall>us c vs. xs = us @ c # vs \<longrightarrow> set (dependencies_of g c) \<subseteq> set us)"

definition dep_rel :: "depmap \<Rightarrow> (string \<times> string) set" where
  "dep_rel g = {(d, c). d \<in> set (dependencies_of g c)}"

lemma deps_first_Nil [simp]: "deps_first g []"
  by (simp add: deps_first_def)

lemma deps_first_snoc:
  "deps_first g (xs @ [n]) \<longleftrightarrow> deps_first g xs \<and> set (dependencies_of g n) \<subseteq> set xs"
proof
  assume d: "deps_first g (xs @ [n])"
  have "deps_first g xs" unfolding deps_first_def
  proof (intro allI impI)
    fix us c vs assume "xs = us @ c # vs"
    then have "xs @ [n] = us @ c # (vs @ [n])" by simp
    with d show "set (dependencies_of g c) \<subseteq> set us" unfolding deps_first_def by blast
  qed
  moreover have "set (dependencies_of g n) \<subseteq> set xs"
    using d unfolding deps_first_def by blast
  ultimately show "deps_first g xs \<and> set (dependencies_of g n) \<subseteq> set xs" by blast
next
  assume d: "deps_first g xs \<and> set (dependencies_of g n) \<subseteq> set xs"
  show "deps_first g (xs @ [n])" unfolding deps_first_def
  proof (intro allI impI)
    fix us c vs assume e: "xs @ [n] = us @ c # vs"
    show "set (dependencies_of g c) \<subseteq> set us"
    proof (cases vs rule: rev_cases)
      case Nil with e d show ?thesis by simp
    next
      case (snoc ws w) with e have "xs = us @ c # ws" by simp
      with d show ?thesis unfolding deps_first_def by blast
    qed
  qed
qed

lemma dep_node: "d \<in> set (dependencies_of g c) \<Longrightarrow> c \<in> set (plan_nodes g) \<and> d \<in> set (plan_nodes g)"
  by (cases "fmlookup g c")
    (auto simp: plan_nodes_def map_keys_def dependencies_of_def fmdomI intro!: bexI [of _ c])

lemma key_node: "c |\<in>| fmdom g \<Longrightarrow> c \<in> set (plan_nodes g)"
  by (simp add: plan_nodes_def map_keys_def)

lemma distinct_nodes [simp]: "distinct (plan_nodes g)"
  by (simp add: plan_nodes_def)

lemma degree_in_degree: "degree (in_degree g) n = int (length (dependencies_of g n))"
proof (cases "n \<in> set (plan_nodes g)")
  case True
  then have "map_of (map (\<lambda>n. (n, int (length (dependencies_of g n)))) (plan_nodes g)) n =
      Some (int (length (dependencies_of g n)))"
    by (simp add: map_of_map_restrict)
  then show ?thesis by (simp add: degree_def in_degree_def fmlookup_of_list)
next
  case False
  then have "dependencies_of g n = []" using dep_node [of _ g n] by (cases "dependencies_of g n") auto
  moreover have "map_of (map (\<lambda>n. (n, int (length (dependencies_of g n)))) (plan_nodes g)) n = None"
    using False by (simp add: map_of_eq_None_iff image_image)
  ultimately show ?thesis by (simp add: degree_def in_degree_def fmlookup_of_list)
qed

lemma count_children: "count_list (children_of g d) c = count_list (dependencies_of g c) d"
proof -
  have one: "count_list (map (\<lambda>_. b) (filter (\<lambda>x. x = d) xs)) c = (if b = c then count_list xs d else 0)" for b xs
    by (induction xs) auto
  have many: "distinct ks \<Longrightarrow> count_list (concat (map (\<lambda>b. map (\<lambda>_. b) (filter (\<lambda>x. x = d) (dependencies_of g b))) ks)) c =
      (if c \<in> set ks then count_list (dependencies_of g c) d else 0)" for ks
    by (induction ks) (auto simp: one count_list_append)
  have "c \<notin> set (map_keys g) \<Longrightarrow> dependencies_of g c = []"
    by (simp add: map_keys_def dependencies_of_def fmdom_notD)
  moreover have "distinct (map_keys g)" by (simp add: map_keys_def sorted_list_of_fset.rep_eq)
  moreover have "count_list (sort xs) c = count_list xs c" for xs :: "string list"
    by (metis count_mset mset_sort)
  ultimately show ?thesis using many [of "map_keys g"] by (simp add: children_of_def map_keys_def)
qed

section \<open>The queue loop\<close>

lemma release_degree:
  "degree (snd (release_children cs q deg)) n = degree deg n - int (count_list cs n)"
  by (induction cs q deg rule: release_children.induct) (simp_all add: Let_def)

lemma release_queue:
  "mset (fst (release_children cs q deg)) = mset q +
     mset_set {n \<in> set cs. 0 < degree deg n \<and> degree deg n \<le> int (count_list cs n)}"
proof (induction cs q deg rule: release_children.induct)
  case (2 c cs q deg)
  let ?deg = "fmupd c (degree deg c - 1) deg"
  let ?rest = "{n \<in> set cs. 0 < degree ?deg n \<and> degree ?deg n \<le> int (count_list cs n)}"
  let ?all = "{n \<in> set (c # cs). 0 < degree deg n \<and> degree deg n \<le> int (count_list (c # cs) n)}"
  have mem: "c \<in> set cs \<longleftrightarrow> 0 < count_list cs c" by (metis count_list_0_iff neq0_conv)
  show ?case
  proof (cases "degree deg c = 1")
    case True
    have "?all = insert c ?rest" "c \<notin> ?rest" using True by auto
    then show ?thesis using 2 [OF refl] True by (simp add: Let_def)
  next
    case False
    have "?all = ?rest" using False mem by (auto split: if_splits)
    then show ?thesis using 2 [OF refl] False by (simp add: Let_def)
  qed
qed simp

definition open_deps :: "depmap \<Rightarrow> string list \<Rightarrow> string \<Rightarrow> string list" where
  "open_deps g ordered n = filter (\<lambda>d. d \<notin> set ordered) (dependencies_of g n)"

definition kahn_inv :: "depmap \<Rightarrow> string list \<Rightarrow> (string, int) fmap \<Rightarrow> string list \<Rightarrow> bool" where
  "kahn_inv g q deg ordered \<longleftrightarrow>
     (\<forall>n. degree deg n = int (length (open_deps g ordered n))) \<and> distinct (ordered @ q) \<and>
     set (ordered @ q) = {n \<in> set (plan_nodes g). open_deps g ordered n = []} \<and> deps_first g ordered"

lemma open_deps_snoc:
  assumes "n \<notin> set ordered"
  shows "length (open_deps g ordered m) =
     length (open_deps g (ordered @ [n]) m) + count_list (dependencies_of g m) n"
proof -
  have "length (filter (\<lambda>d. d \<notin> set ordered) xs) =
     length (filter (\<lambda>d. d \<notin> set (ordered @ [n])) xs) + count_list xs n" for xs
    using assms by (induction xs) auto
  then show ?thesis by (simp add: open_deps_def)
qed

lemma kahn_start: "kahn_inv g (filter (\<lambda>n. degree (in_degree g) n = 0) (plan_nodes g)) (in_degree g) []"
  by (auto simp: kahn_inv_def degree_in_degree open_deps_def)

lemma kahn_step:
  assumes "kahn_inv g (n # q) deg ordered"
  shows "kahn_inv g (fst (release_children (children_of g n) q deg))
     (snd (release_children (children_of g n) q deg)) (ordered @ [n])"
proof -
  let ?q = "fst (release_children (children_of g n) q deg)"
  let ?deg = "snd (release_children (children_of g n) q deg)"
  let ?o = "ordered @ [n]"
  have d: "degree deg m = int (length (open_deps g ordered m))" for m
    using assms by (simp add: kahn_inv_def)
  have dist: "distinct (ordered @ n # q)"
    and sets: "set (ordered @ n # q) = {m \<in> set (plan_nodes g). open_deps g ordered m = []}"
    and first: "deps_first g ordered" using assms by (simp_all add: kahn_inv_def)
  have snoc: "length (open_deps g ordered m) = length (open_deps g ?o m) + count_list (dependencies_of g m) n" for m
    using dist by (intro open_deps_snoc) simp
  have degs: "degree ?deg m = int (length (open_deps g ?o m))" for m
    using snoc [of m] by (simp add: release_degree count_children d)
  define new where "new = {m \<in> set (children_of g n). 0 < degree deg m \<and>
      degree deg m \<le> int (count_list (children_of g n) m)}"
  have q: "mset ?q = mset q + mset_set new" by (simp add: new_def release_queue)
  have child: "m \<in> set (children_of g n) \<longleftrightarrow> 0 < count_list (dependencies_of g m) n" for m
    using count_children [of g n m] by (metis count_list_0_iff neq0_conv)
  have new: "m \<in> new \<longleftrightarrow> open_deps g ordered m \<noteq> [] \<and> open_deps g ?o m = []" for m
  proof -
    have "m \<in> new \<longleftrightarrow> 0 < count_list (dependencies_of g m) n \<and> 0 < length (open_deps g ordered m) \<and>
        length (open_deps g ordered m) \<le> count_list (dependencies_of g m) n"
      unfolding new_def mem_Collect_eq child d count_children of_nat_0_less_iff of_nat_le_iff by (rule refl)
    also have "\<dots> \<longleftrightarrow> length (open_deps g ordered m) \<noteq> 0 \<and> length (open_deps g ?o m) = 0"
      using snoc [of m] by linarith
    finally show ?thesis by (simp only: length_0_conv)
  qed
  have fin: "finite new" by (simp add: new_def)
  have setq: "set ?q = set q \<union> new" using q fin by (metis finite_set_mset_mset_set set_mset_mset set_mset_union)
  have dq: "distinct ?q"
  proof -
    have "mset ?q = mset (q @ sorted_list_of_set new)"
      using q fin mset_set_set [of "sorted_list_of_set new"] by simp
    moreover have "set q \<inter> new = {}" using sets new by auto
    then have "distinct (q @ sorted_list_of_set new)" using dist fin by simp
    ultimately show ?thesis by (metis mset_eq_imp_distinct_iff)
  qed
  have old: "m \<in> set (ordered @ n # q) \<Longrightarrow> open_deps g ?o m = []" for m
  proof -
    assume "m \<in> set (ordered @ n # q)"
    then have "length (open_deps g ordered m) = 0" unfolding sets by simp
    then show ?thesis using snoc [of m] by simp
  qed
  have new_node: "m \<in> new \<Longrightarrow> m \<in> set (plan_nodes g)" for m
  proof -
    assume "m \<in> new"
    then have "n \<in> set (dependencies_of g m)"
      using child [of m] by (metis (no_types, lifting) count_list_0_iff mem_Collect_eq neq0_conv new_def)
    then show ?thesis using dep_node by blast
  qed
  have "set (ordered @ n # q) \<inter> new = {}" using sets new by auto
  then have "distinct (?o @ ?q)" using dist dq setq by auto
  moreover have "set (?o @ ?q) = {m \<in> set (plan_nodes g). open_deps g ?o m = []}"
  proof -
    have "set (?o @ ?q) = set (ordered @ n # q) \<union> new" using setq by auto
    then show ?thesis using old new new_node sets by blast
  qed
  moreover have "set (dependencies_of g n) \<subseteq> set ordered"
  proof -
    have "open_deps g ordered n = []" using sets by auto
    then show ?thesis by (auto simp: open_deps_def filter_empty_conv)
  qed
  ultimately show ?thesis using degs first by (simp add: kahn_inv_def deps_first_snoc)
qed

lemma visit_nodes_inv:
  "kahn_inv g q deg ordered \<Longrightarrow>
     \<exists>deg'. kahn_inv g [] deg' (visit_nodes (children_of g) q deg ordered)"
proof (induction "children_of g" q deg ordered rule: visit_nodes.induct)
  case (2 n q deg ordered)
  then show ?case using kahn_step by simp
qed auto

section \<open>Topological sorting\<close>

lemma final_order:
  obtains ordered where "topological_sort g =
      (if length ordered \<noteq> length (plan_nodes g) then Inl DependencyCycle else Inr ordered)"
    "distinct ordered" "set ordered = {n \<in> set (plan_nodes g). open_deps g ordered n = []}"
    "deps_first g ordered"
proof -
  define ordered where "ordered = visit_nodes (children_of g)
     (filter (\<lambda>n. degree (in_degree g) n = 0) (plan_nodes g)) (in_degree g) []"
  from visit_nodes_inv [OF kahn_start] obtain deg where "kahn_inv g [] deg ordered"
    by (auto simp: ordered_def)
  then show thesis
    by (intro that [of ordered]) (simp_all add: topological_sort_def ordered_def [symmetric] kahn_inv_def)
qed

lemma topological_sort_Inr:
  assumes "topological_sort g = Inr xs"
  shows "distinct xs" "set xs = set (plan_nodes g)" "deps_first g xs"
proof -
  obtain ordered where o: "topological_sort g =
      (if length ordered \<noteq> length (plan_nodes g) then Inl DependencyCycle else Inr ordered)"
    "distinct ordered" "set ordered = {n \<in> set (plan_nodes g). open_deps g ordered n = []}"
    "deps_first g ordered" by (rule final_order)
  from o(1) assms have e: "xs = ordered" "length ordered = length (plan_nodes g)"
    by (auto split: if_splits)
  then show "distinct xs" "deps_first g xs" using o by simp_all
  have "card (set ordered) = card (set (plan_nodes g))"
    using e o(2) by (simp add: distinct_card)
  moreover have "set ordered \<subseteq> set (plan_nodes g)" using o(3) by auto
  ultimately show "set xs = set (plan_nodes g)" unfolding e(1) by (intro card_subset_eq) auto
qed

lemma deps_first_acyclic:
  assumes "deps_first g xs" "distinct xs" "set (plan_nodes g) \<subseteq> set xs"
  shows "acyclic (dep_rel g)"
proof (rule acyclicI_order [where f = "\<lambda>n. length (dropWhile (\<lambda>y. y \<noteq> n) xs)"])
  fix d c assume "(d, c) \<in> dep_rel g"
  then have dep: "d \<in> set (dependencies_of g c)" by (simp add: dep_rel_def)
  then have "c \<in> set xs" using dep_node assms(3) by blast
  then obtain us vs where xs: "xs = us @ c # vs" "c \<notin> set us" by (meson split_list_first)
  then have "d \<in> set us" using assms(1) dep by (auto simp: deps_first_def)
  then obtain us1 us2 where us: "us = us1 @ d # us2" "d \<notin> set us1" by (meson split_list_first)
  have "dropWhile (\<lambda>y. y \<noteq> c) xs = c # vs" using xs by (subst xs(1), subst dropWhile_append2) auto
  moreover have "dropWhile (\<lambda>y. y \<noteq> d) xs = d # us2 @ c # vs"
    using us by (subst xs(1), subst us(1), subst append_assoc, subst dropWhile_append2) auto
  ultimately show "length (dropWhile (\<lambda>y. y \<noteq> c) xs) < length (dropWhile (\<lambda>y. y \<noteq> d) xs)" by simp
qed

lemma acyclic_sorts:
  assumes "acyclic (dep_rel g)"
  shows "\<exists>xs. topological_sort g = Inr xs"
proof -
  obtain ordered where o: "topological_sort g =
      (if length ordered \<noteq> length (plan_nodes g) then Inl DependencyCycle else Inr ordered)"
    "distinct ordered" "set ordered = {n \<in> set (plan_nodes g). open_deps g ordered n = []}"
    by (rule final_order)
  have "dep_rel g \<subseteq> set (plan_nodes g) \<times> set (plan_nodes g)"
    using dep_node by (auto simp: dep_rel_def)
  then have "finite (dep_rel g)" by (rule finite_subset) simp
  then have wf: "wf (dep_rel g)" using assms by (rule finite_acyclic_wf)
  have "set (plan_nodes g) \<subseteq> set ordered"
  proof (rule ccontr)
    assume "\<not> set (plan_nodes g) \<subseteq> set ordered"
    then obtain n where n: "n \<in> set (plan_nodes g) - set ordered"
      and min: "\<And>d. (d, n) \<in> dep_rel g \<Longrightarrow> d \<notin> set (plan_nodes g) - set ordered"
      using wfE_min' [OF wf, of "set (plan_nodes g) - set ordered"] by blast
    have "open_deps g ordered n = []"
      using min dep_node by (auto simp: open_deps_def filter_empty_conv dep_rel_def)
    with n o(3) show False by auto
  qed
  then have "set ordered = set (plan_nodes g)" using o(3) by auto
  then have "length ordered = length (plan_nodes g)"
    using o(2) distinct_card [of ordered] distinct_card [of "plan_nodes g"] by simp
  with o(1) show ?thesis by simp
qed

section \<open>Soft ordering\<close>

definition before :: "string list \<Rightarrow> string \<Rightarrow> string \<Rightarrow> bool" where
  "before xs a b \<longleftrightarrow> (\<exists>us vs ws. xs = us @ a # vs @ b # ws)"

lemma index_of_split: "a \<notin> set us \<Longrightarrow> index_of (us @ a # ws) a = Some (length us)"
proof -
  assume "a \<notin> set us"
  then have "takeWhile (\<lambda>y. y \<noteq> a) (us @ a # ws) = us" by (subst takeWhile_append2) auto
  then show ?thesis by (simp add: index_of_def)
qed

lemma move_before_cases:
  obtains (keep) "move_before (a, b) xs = xs" "a \<notin> set xs \<or> b \<notin> set xs \<or> a = b \<or> before xs a b"
  | (move) us vs ws where "xs = us @ b # vs @ a # ws" "b \<notin> set us" "a \<notin> set us" "a \<notin> set vs" "a \<noteq> b"
      "move_before (a, b) xs = us @ a # b # vs @ ws"
proof (cases "a \<in> set xs \<and> b \<in> set xs")
  case False
  then show thesis by (intro keep) (auto simp: move_before_def index_of_def)
next
  case True
  then obtain us ws where a: "xs = us @ a # ws" "a \<notin> set us" by (meson split_list_first)
  then have ia: "index_of xs a = Some (length us)" by (simp add: index_of_split)
  show thesis
  proof (cases "b \<in> set us")
    case True
    then obtain u1 u2 where u: "us = u1 @ b # u2" "b \<notin> set u1" by (meson split_list_first)
    have ib: "index_of xs b = Some (length u1)"
      using u a index_of_split [of b u1 "u2 @ a # ws"] by simp
    have "move_before (a, b) xs = u1 @ a # b # u2 @ ws"
      unfolding move_before_def fst_conv snd_conv ia ib using a u by (simp add: nth_append)
    then show thesis using a u by (intro move [of u1 u2 ws]) auto
  next
    case False
    then have b: "b = a \<or> b \<in> set ws" using True a by auto
    show thesis
    proof (cases "b = a")
      case True
      have "length us < length xs" by (simp add: a(1))
      from id_take_nth_drop [OF this] have "move_before (a, b) xs = xs"
        by (simp add: move_before_def ia True)
      then show thesis using True by (intro keep) simp_all
    next
      case ne: False
      with b obtain w1 w2 where w: "ws = w1 @ b # w2" "b \<notin> set w1" by (meson split_list_first)
      have "index_of xs b = Some (length us + 1 + length w1)"
        using a w False ne index_of_split [of b "us @ a # w1" w2] by simp
      then have "move_before (a, b) xs = xs" by (simp add: move_before_def ia)
      moreover have "before xs a b" unfolding before_def using a w by auto
      ultimately show thesis by (intro keep) auto
    qed
  qed
qed

lemma move_before_mset: "mset (move_before (a, b) xs) = mset xs"
  by (rule move_before_cases [of a b xs]) auto

lemma deps_first_move:
  assumes "deps_first g (us @ b # vs @ a # ws)" "dependencies_of g a = []"
  shows "deps_first g (us @ a # b # vs @ ws)"
  unfolding deps_first_def
proof (intro allI impI)
  fix ps c qs assume e: "us @ a # b # vs @ ws = ps @ c # qs"
  consider (front) qs' where "us = ps @ c # qs'" | (moved) "c = a"
    | (later) r where "ps = us @ a # r" "b # vs @ ws = r @ c # qs"
    using e by (auto simp: append_eq_append_conv2 Cons_eq_append_conv append_eq_Cons_conv)
  then show "set (dependencies_of g c) \<subseteq> set ps"
  proof cases
    case front
    then have "us @ b # vs @ a # ws = ps @ c # (qs' @ b # vs @ a # ws)" by simp
    then show ?thesis using assms(1) unfolding deps_first_def by blast
  next
    case moved then show ?thesis by (simp add: assms(2))
  next
    case later
    then have "(b # vs) @ ws = r @ c # qs" by simp
    then consider (mid) t where "b # vs = r @ c # t" | (tail) t where "r = b # vs @ t" "ws = t @ c # qs"
      by (auto simp: append_eq_append_conv2 Cons_eq_append_conv append_eq_Cons_conv)
    then show ?thesis
    proof cases
      case mid
      have "us @ (b # vs) @ a # ws = (us @ r) @ c # (t @ a # ws)" unfolding mid by simp
      then have "set (dependencies_of g c) \<subseteq> set (us @ r)"
        using assms(1) unfolding deps_first_def by (metis append_Cons)
      then show ?thesis using later by auto
    next
      case tail
      then have "us @ b # vs @ a # ws = (us @ b # vs @ a # t) @ c # qs" by simp
      then have "set (dependencies_of g c) \<subseteq> set (us @ b # vs @ a # t)"
        using assms(1) unfolding deps_first_def by blast
      then show ?thesis using later tail by auto
    qed
  qed
qed

lemma move_before_deps:
  assumes "deps_first g xs" "dependencies_of g a = []"
  shows "deps_first g (move_before (a, b) xs)"
  by (rule move_before_cases [of a b xs]) (use assms deps_first_move in auto)

lemma move_before_orders:
  assumes "a \<in> set xs" "b \<in> set xs" "a \<noteq> b"
  shows "before (move_before (a, b) xs) a b"
proof (cases rule: move_before_cases [of a b xs])
  case keep then show ?thesis using assms by simp
next
  case (move us vs ws)
  then have "move_before (a, b) xs = us @ a # [] @ b # (vs @ ws)" by simp
  then show ?thesis unfolding before_def by blast
qed

lemma move_before_keeps:
  assumes "before xs a c" "distinct xs"
  shows "before (move_before (a, b) xs) a c"
proof (cases rule: move_before_cases [of a b xs])
  case keep then show ?thesis using assms by simp
next
  case (move us vs ws)
  from assms obtain ps qs rs where xs: "xs = ps @ a # qs @ c # rs" by (auto simp: before_def)
  have "us @ b # vs = ps \<and> ws = qs @ c # rs"
  proof -
    have "(us @ b # vs) @ a # ws = ps @ a # (qs @ c # rs)" using xs move(1) by simp
    moreover have "a \<notin> set (us @ b # vs)" using move(3-5) by simp
    moreover have "a \<notin> set ws" using assms(2) move(1) by simp
    ultimately show ?thesis using append_Cons_eq_iff [of a "us @ b # vs" ws ps "qs @ c # rs"] by blast
  qed
  then have "move_before (a, b) xs = us @ a # (b # vs @ qs) @ c # rs" using move(6) by simp
  then show ?thesis unfolding before_def by blast
qed

section \<open>Expansion\<close>

definition plan_closed :: "depmap \<Rightarrow> depmap \<Rightarrow> string set \<Rightarrow> bool" where
  \<comment> \<open>recorded components have the graph's dependencies, which are recorded or still pending\<close>
  "plan_closed g m pending \<longleftrightarrow>
     (\<forall>c ds. fmlookup m c = Some ds \<longrightarrow>
        ds = dependencies_of g c \<and> set ds \<subseteq> fset (fmdom m) \<union> pending)"

definition reaches :: "depmap \<Rightarrow> string \<Rightarrow> string \<Rightarrow> bool" where
  "reaches g c d \<longleftrightarrow> (d, c) \<in> (dep_rel g)\<^sup>*"

lemma reaches_refl [simp]: "reaches g c c"
  by (simp add: reaches_def)

lemma reaches_step: "d \<in> set (dependencies_of g c) \<Longrightarrow> reaches g d e \<Longrightarrow> reaches g c e"
  unfolding reaches_def dep_rel_def by (auto intro: rtrancl_into_rtrancl)

lemma expand_dependencies_Inr:
  assumes "expand_dependencies g es m = Inr m'" "plan_closed g m (snd ` set es)"
  shows "plan_closed g m' {} \<and> fset (fmdom m) \<union> snd ` set es \<subseteq> fset (fmdom m') \<and>
     (\<forall>c \<in> fset (fmdom m'). c \<in> fset (fmdom m) \<or> (\<exists>d \<in> snd ` set es. reaches g d c)) \<and>
     (fset (fmdom m) \<subseteq> fset (fmdom g) \<longrightarrow> fset (fmdom m') \<subseteq> fset (fmdom g))"
  using assms
proof (induction g es m rule: expand_dependencies.induct)
  case (2 g c d es m)
  from 2(3) have h: "has_component g d" by (simp split: if_splits)
  show ?case
  proof (cases "d |\<in>| fmdom m")
    case True
    have "plan_closed g m (snd ` set es)" using 2(4) True by (auto simp: plan_closed_def)
    with 2(1) [OF _ True] 2(3) h True show ?thesis by auto
  next
    case False
    let ?m = "fmupd d (dependencies_of g d) m" and ?es = "map (Pair d) (dependencies_of g d) @ es"
    have t: "snd ` set ?es = set (dependencies_of g d) \<union> snd ` set es" by (simp add: image_Un image_image)
    have c: "plan_closed g ?m (snd ` set ?es)"
      using 2(4) unfolding t by (auto simp: plan_closed_def split: if_splits)
    have "expand_dependencies g ?es ?m = Inr m'" using 2(3) h False by simp
    from 2(2) [OF _ False this c] h have
      r: "plan_closed g m' {}" "fset (fmdom ?m) \<union> snd ` set ?es \<subseteq> fset (fmdom m')"
        "\<forall>x \<in> fset (fmdom m'). x \<in> fset (fmdom ?m) \<or> (\<exists>e \<in> snd ` set ?es. reaches g e x)"
        "fset (fmdom ?m) \<subseteq> fset (fmdom g) \<longrightarrow> fset (fmdom m') \<subseteq> fset (fmdom g)" by blast+
    have "\<forall>x \<in> fset (fmdom m'). x \<in> fset (fmdom m) \<or> (\<exists>e \<in> snd ` set ((c, d) # es). reaches g e x)"
      using r(3) unfolding t by (auto intro: reaches_step)
    then show ?thesis using r h unfolding t by (auto simp: has_component_def)
  qed
qed (simp add: plan_closed_def)

lemma expand_selection_Inr:
  assumes "expand_selection g cs m = Inr m'" "plan_closed g m {}"
  shows "plan_closed g m' {} \<and> fset (fmdom m) \<union> set cs \<subseteq> fset (fmdom m') \<and>
     (\<forall>c \<in> fset (fmdom m'). c \<in> fset (fmdom m) \<or> (\<exists>d \<in> set cs. reaches g d c)) \<and>
     set cs \<subseteq> fset (fmdom g) \<and>
     (fset (fmdom m) \<subseteq> fset (fmdom g) \<longrightarrow> fset (fmdom m') \<subseteq> fset (fmdom g))"
  using assms
proof (induction cs arbitrary: m)
  case (Cons c cs)
  from Cons.prems(1) have h: "has_component g c" by (simp split: if_splits)
  show ?case
  proof (cases "c |\<in>| fmdom m")
    case True
    then show ?thesis using Cons.IH [of m] Cons.prems h by (auto simp: has_component_def)
  next
    case False
    let ?m = "fmupd c (dependencies_of g c) m" and ?es = "map (Pair c) (dependencies_of g c)"
    obtain m1 where m1: "expand_dependencies g ?es ?m = Inr m1" "expand_selection g cs m1 = Inr m'"
      using Cons.prems(1) h False by (cases "expand_dependencies g ?es ?m") simp_all
    have t: "snd ` set ?es = set (dependencies_of g c)" by (auto simp: image_image)
    have "plan_closed g ?m (snd ` set ?es)"
      using Cons.prems(2) unfolding t by (auto simp: plan_closed_def split: if_splits)
    note e = expand_dependencies_Inr [OF m1(1) this, unfolded t]
    note r = Cons.IH [OF m1(2) conjunct1 [OF e]]
    have one: "x \<in> fset (fmdom m) \<or> reaches g c x" if "x \<in> fset (fmdom m1)" for x
      using conjunct1 [OF conjunct2 [OF conjunct2 [OF e]]] that by (auto intro: reaches_step)
    have "\<forall>x \<in> fset (fmdom m'). x \<in> fset (fmdom m) \<or> (\<exists>d \<in> set (c # cs). reaches g d x)"
      using conjunct1 [OF conjunct2 [OF conjunct2 [OF r]]] one by fastforce
    then show ?thesis using e r h by (auto simp: has_component_def)
  qed
qed simp

lemma plan_of_selection:
  assumes "expand_selection g cs fmempty = Inr m"
  shows "\<And>c. dependencies_of m c = (if c |\<in>| fmdom m then dependencies_of g c else [])"
    "set (plan_nodes m) = {d. \<exists>c \<in> set cs. reaches g c d}"
    "set (plan_nodes m) = fset (fmdom m)" "set (plan_nodes m) \<subseteq> fset (fmdom g)"
proof -
  have "plan_closed g fmempty {}" by (simp add: plan_closed_def)
  note r = expand_selection_Inr [OF assms this]
  show deps: "dependencies_of m c = (if c |\<in>| fmdom m then dependencies_of g c else [])" for c
    using r by (cases "fmlookup m c") (auto simp: dependencies_of_def plan_closed_def fmdomI dest: fmdom_notI)
  have closed: "d |\<in>| fmdom m" if "c |\<in>| fmdom m" "d \<in> set (dependencies_of m c)" for c d
    using r that by (cases "fmlookup m c") (auto simp: dependencies_of_def plan_closed_def)
  show nodes: "set (plan_nodes m) = fset (fmdom m)"
    using closed by (auto simp: plan_nodes_def map_keys_def)
  then show "set (plan_nodes m) \<subseteq> fset (fmdom g)" using r by simp
  have "d |\<in>| fmdom m" if "c \<in> set cs" "reaches g c d" for c d
  proof -
    have "(d, c) \<in> (dep_rel g)\<^sup>*" using that by (simp add: reaches_def)
    then show ?thesis
    proof (induction rule: converse_rtrancl_induct)
      case base then show ?case using r that(1) by auto
    next
      case (step x y)
      then show ?case using closed deps by (auto simp: dep_rel_def)
    qed
  qed
  then show "set (plan_nodes m) = {d. \<exists>c \<in> set cs. reaches g c d}"
    unfolding nodes using r by auto
qed

end
