(* ===== verification/PlannerProps.thy ===== *)
theory PlannerProps
  imports PlannerLaws
begin

text \<open>
  What the planner promises: a topological order exists exactly when the dependencies have no
  cycle, and a resolved plan is the dependency closure of the selection in an order that respects
  the hard dependencies and the soft pairs.
\<close>

section \<open>Plans\<close>

lemma deps_first_cong:
  assumes "deps_first m xs" "\<And>c. c \<in> set xs \<Longrightarrow> dependencies_of m c = dependencies_of g c"
  shows "deps_first g xs"
  using assms unfolding deps_first_def by (metis in_set_conv_decomp)

lemma soft_ordering_moves:
  "apply_soft_ordering xs soft_ordering_pairs =
     move_before (''persona'', ''sdd'') (move_before (''persona'', ''engram'') xs)"
  by (simp add: apply_soft_ordering_def soft_ordering_pairs_def)

lemma soft_mset [simp]: "mset (apply_soft_ordering xs soft_ordering_pairs) = mset xs"
  by (simp add: soft_ordering_moves move_before_mset)

lemma soft_set [simp]: "set (apply_soft_ordering xs soft_ordering_pairs) = set xs"
  by (metis soft_mset set_mset_mset)

lemma soft_distinct [simp]: "distinct (apply_soft_ordering xs soft_ordering_pairs) = distinct xs"
  by (metis soft_mset mset_eq_imp_distinct_iff)

lemma move_before_set [simp]: "set (move_before (a, b) xs) = set xs"
  by (metis move_before_mset set_mset_mset)

lemma move_before_distinct [simp]: "distinct (move_before (a, b) xs) = distinct xs"
  by (metis move_before_mset mset_eq_imp_distinct_iff)

lemma soft_deps:
  "deps_first g xs \<Longrightarrow> dependencies_of g ''persona'' = [] \<Longrightarrow>
     deps_first g (apply_soft_ordering xs soft_ordering_pairs)"
  by (simp add: soft_ordering_moves move_before_deps)

lemma soft_orders:
  assumes "distinct xs" "''persona'' \<in> set xs"
  shows "''engram'' \<in> set xs \<Longrightarrow> before (apply_soft_ordering xs soft_ordering_pairs) ''persona'' ''engram''"
    "''sdd'' \<in> set xs \<Longrightarrow> before (apply_soft_ordering xs soft_ordering_pairs) ''persona'' ''sdd''"
  using assms by (simp_all add: soft_ordering_moves move_before_orders move_before_keeps)

lemma resolve_plan_parts:
  assumes "resolve_plan g cs as = Inr p"
  obtains m xs where "expand_selection g cs fmempty = Inr m" "topological_sort m = Inr xs"
    "pl_ordered p = apply_soft_ordering xs soft_ordering_pairs"
    "pl_added p = filter (\<lambda>c. c \<notin> set cs) (pl_ordered p)"
    "pl_agents p = filter is_supported_agent as" "pl_unsupported p = filter (\<lambda>a. \<not> is_supported_agent a) as"
  using assms
  by (cases "expand_selection g cs fmempty"; cases "topological_sort (projr (expand_selection g cs fmempty))")
    (auto simp: resolve_plan_def Let_def)

section \<open>Graphs whose dependencies are all known\<close>

definition known_graph :: "depmap \<Rightarrow> bool" where
  "known_graph g \<longleftrightarrow> list_all (\<lambda>c. list_all (has_component g) (dependencies_of g c)) (map_keys g)"

lemma known_graph_dep:
  assumes "known_graph g" "d \<in> set (dependencies_of g c)"
  shows "has_component g d"
proof -
  have "c |\<in>| fmdom g" using assms(2) by (cases "fmlookup g c") (simp_all add: dependencies_of_def fmdomI)
  then have "list_all (has_component g) (dependencies_of g c)"
    using assms(1) by (simp add: known_graph_def map_keys_def list_all_iff)
  then show ?thesis using assms(2) by (simp add: list_all_iff)
qed

lemma expand_dependencies_known:
  "known_graph g \<Longrightarrow> \<forall>e \<in> set es. has_component g (snd e) \<Longrightarrow> \<exists>m'. expand_dependencies g es m = Inr m'"
proof (induction g es m rule: expand_dependencies.induct)
  case (2 g c d es m)
  show ?case
  proof (cases "d |\<in>| fmdom m")
    case True then show ?thesis using 2 by simp
  next
    case False
    have "\<forall>e \<in> set (map (Pair d) (dependencies_of g d) @ es). has_component g (snd e)"
      using 2(3,4) known_graph_dep by auto
    then show ?thesis using 2 False by simp
  qed
qed simp

lemma expand_selection_known:
  assumes "known_graph g"
  shows "case find (\<lambda>c. \<not> has_component g c) cs of
       Some c \<Rightarrow> expand_selection g cs m = Inl (UnknownComponent c)
     | None \<Rightarrow> \<exists>m'. expand_selection g cs m = Inr m'"
proof (induction cs arbitrary: m)
  case (Cons c cs)
  show ?case
  proof (cases "has_component g c \<and> c |\<notin>| fmdom m")
    case True
    have "\<forall>e \<in> set (map (Pair c) (dependencies_of g c)). has_component g (snd e)"
      using known_graph_dep [OF assms] by auto
    then obtain m1 where "expand_dependencies g (map (Pair c) (dependencies_of g c))
        (fmupd c (dependencies_of g c) m) = Inr m1"
      using expand_dependencies_known [OF assms] by blast
    then show ?thesis using Cons [of m1] True by (auto split: option.splits)
  next
    case False then show ?thesis using Cons [of m] by (auto split: option.splits)
  qed
qed simp

lemma resolve_plan_known:
  assumes "known_graph g" "acyclic (dep_rel g)"
  shows "case find (\<lambda>c. \<not> has_component g c) cs of
       Some c \<Rightarrow> resolve_plan g cs as = Inl (UnknownComponent c)
     | None \<Rightarrow> \<exists>p. resolve_plan g cs as = Inr p"
proof (cases "expand_selection g cs fmempty")
  case (Inl e)
  then show ?thesis using expand_selection_known [OF assms(1), of cs fmempty]
    by (auto simp: resolve_plan_def split: option.splits)
next
  case (Inr m)
  have "dep_rel m \<subseteq> dep_rel g"
    using plan_of_selection(1) [OF Inr] by (auto simp: dep_rel_def split: if_splits)
  then have "acyclic (dep_rel m)" using assms(2) by (rule acyclic_subset [rotated])
  then obtain xs where "topological_sort m = Inr xs" using acyclic_sorts by blast
  then show ?thesis using Inr expand_selection_known [OF assms(1), of cs fmempty]
    by (auto simp: resolve_plan_def Let_def split: option.splits)
qed

lemma mvp_lookup: "fmlookup mvp_graph = map_of
     [(''engram'', []), (''sdd'', [''engram'']), (''skills'', [''sdd'']), (''context7'', []),
      (''persona'', []), (''permissions'', []), (''gga'', []), (''theme'', []),
      (''claude-theme'', []), (''opencode-gentle-logo'', [])]"
  unfolding mvp_graph_def fmlookup_of_list by (rule refl)

lemma mvp_deps: "d \<in> set (dependencies_of mvp_graph c) \<longleftrightarrow>
    (c = ''sdd'' \<and> d = ''engram'') \<or> (c = ''skills'' \<and> d = ''sdd'')"
  by (auto simp: dependencies_of_def mvp_lookup split: option.splits if_splits)

lemma has_component_lookup: "has_component g c \<longleftrightarrow> fmlookup g c \<noteq> None"
  by (auto simp: has_component_def fmlookup_dom_iff)

lemma mvp_known: "known_graph mvp_graph"
  by (auto simp: known_graph_def list_all_iff mvp_deps has_component_lookup mvp_lookup)

lemma mvp_acyclic: "acyclic (dep_rel mvp_graph)"
  by (rule acyclicI_order [where f = "\<lambda>c. if c = ''skills'' then 0 else if c = ''sdd'' then 1 else (2::nat)"])
    (auto simp: dep_rel_def mvp_deps)

section \<open>Properties\<close>

text \<open>C13: \<^verbatim>\<open>TopologicalSort\<close> fails with the cycle error exactly when the dependency relation has
  a cycle; otherwise it returns every node once, each after all the nodes it depends on.\<close>

theorem sort_decides_cycles:
  "case topological_sort g of
     Inl e \<Rightarrow> e = DependencyCycle \<and> \<not> acyclic (dep_rel g)
   | Inr xs \<Rightarrow> acyclic (dep_rel g) \<and> distinct xs \<and> set xs = set (plan_nodes g) \<and> deps_first g xs"
proof (cases "topological_sort g")
  case (Inl e)
  then show ?thesis using acyclic_sorts [of g] by (cases e) (auto simp: topological_sort_def Let_def split: if_splits)
next
  case (Inr xs)
  note r = topological_sort_Inr [OF Inr]
  then show ?thesis using Inr deps_first_acyclic [of g xs] by simp
qed

text \<open>C14: a resolved plan lists, once each, exactly the components the selection reaches through
  dependencies; each comes after its dependencies and the persona component comes before engram and
  SDD when they are present; what the user did not select is reported as added, and the agents are
  split by support. The only thing asked of the graph is the contract the soft ordering states: the
  component it moves has no dependencies.\<close>

theorem resolved_plan_correct:
  assumes "resolve_plan g components agents = Inr p" "dependencies_of g ''persona'' = []"
  shows "distinct (pl_ordered p) \<and>
    set (pl_ordered p) = {d. \<exists>c. c \<in> set components \<and> reaches g c d} \<and>
    set (pl_ordered p) \<subseteq> fset (fmdom g) \<and> deps_first g (pl_ordered p) \<and>
    ({''persona'', ''engram''} \<subseteq> set (pl_ordered p) \<longrightarrow> before (pl_ordered p) ''persona'' ''engram'') \<and>
    ({''persona'', ''sdd''} \<subseteq> set (pl_ordered p) \<longrightarrow> before (pl_ordered p) ''persona'' ''sdd'') \<and>
    set (pl_added p) = set (pl_ordered p) - set components \<and>
    mset (pl_agents p) + mset (pl_unsupported p) = mset agents"
proof -
  from assms(1) obtain m xs where m: "expand_selection g components fmempty = Inr m"
    and xs: "topological_sort m = Inr xs"
    and p: "pl_ordered p = apply_soft_ordering xs soft_ordering_pairs"
      "pl_added p = filter (\<lambda>c. c \<notin> set components) (pl_ordered p)"
      "pl_agents p = filter is_supported_agent agents"
      "pl_unsupported p = filter (\<lambda>a. \<not> is_supported_agent a) agents"
    by (rule resolve_plan_parts)
  note s = topological_sort_Inr [OF xs] and e = plan_of_selection [OF m]
  have "deps_first g xs" using s(3) by (rule deps_first_cong) (use s(2) e in simp)
  then have "deps_first g (pl_ordered p)" using assms(2) by (simp add: p soft_deps)
  then show ?thesis using s e soft_orders [of xs] by (auto simp: p multiset_partition)
qed

theorem resolved_plan_correct_witness:
  "case resolve_plan mvp_graph [''skills'', ''persona''] [''codex'', ''emacs''] of Inl e \<Rightarrow> False
   | Inr p \<Rightarrow> distinct (pl_ordered p) \<and> deps_first mvp_graph (pl_ordered p) \<and>
       pl_ordered p = [''persona'', ''engram'', ''sdd'', ''skills''] \<and>
       pl_added p = [''engram'', ''sdd''] \<and> pl_unsupported p = [''emacs'']"
proof -
  have r: "resolve_plan mvp_graph [''skills'', ''persona''] [''codex'', ''emacs''] =
      Inr \<lparr>pl_agents = [''codex''], pl_unsupported = [''emacs''],
        pl_ordered = [''persona'', ''engram'', ''sdd'', ''skills''], pl_added = [''engram'', ''sdd'']\<rparr>"
    by code_simp
  have "dependencies_of mvp_graph ''persona'' = []" by code_simp
  from resolved_plan_correct [OF r this] show ?thesis unfolding r by simp
qed

text \<open>On the built-in graph the resolver is total: a selection with an unknown component is
  rejected naming the first one, and every other selection is resolved, without the cycle and
  unknown-dependency errors.\<close>

theorem mvp_graph_resolves:
  "case find (\<lambda>c. \<not> has_component mvp_graph c) (sel_components s) of
     Some c \<Rightarrow> resolve_selection mvp_graph s = Inl (UnknownComponent c)
   | None \<Rightarrow> \<exists>p. resolve_selection mvp_graph s = Inr p"
  unfolding resolve_selection_def using resolve_plan_known [OF mvp_known mvp_acyclic] .

lemma preset_known: "find (\<lambda>c. \<not> has_component mvp_graph c) (components_for_preset preset persona) = None"
  by (auto simp: find_None_iff components_for_preset_def safe_visual_components_def
      has_component_lookup mvp_lookup)

text \<open>Every preset can be installed: its components, with or without a managed persona, resolve
  to a plan that contains them all, and what the payload marks as an automatic dependency is
  exactly what the preset did not name.\<close>

theorem presets_resolve:
  "\<exists>p. resolve_selection mvp_graph (s\<lparr>sel_components := components_for_preset preset persona\<rparr>) = Inr p \<and>
     set (components_for_preset preset persona) \<subseteq> set (pl_ordered p) \<and>
     {c. (c, ''auto-dependency'') \<in> set (rp_components (build_review_payload s p))} =
       set (pl_ordered p) - set (components_for_preset preset persona)"
proof -
  let ?cs = "components_for_preset preset persona"
  obtain p where p: "resolve_plan mvp_graph ?cs (sel_agents s) = Inr p"
    using resolve_plan_known [OF mvp_known mvp_acyclic, of ?cs "sel_agents s"]
    unfolding preset_known by auto
  then obtain m xs where m: "expand_selection mvp_graph ?cs fmempty = Inr m" "topological_sort m = Inr xs"
    "pl_ordered p = apply_soft_ordering xs soft_ordering_pairs"
    "pl_added p = filter (\<lambda>c. c \<notin> set ?cs) (pl_ordered p)" by (rule resolve_plan_parts)
  have "set ?cs \<subseteq> set (pl_ordered p)"
    using plan_of_selection(2) [OF m(1)] topological_sort_Inr(2) [OF m(2)] m(3)
    by (auto intro: reaches_refl)
  then show ?thesis using p m(4)
    by (intro exI [of _ p]) (auto simp: resolve_selection_def build_review_payload_def component_actions_def)
qed

end
