(* ===== verification/Pipeline.thy ===== *)
theory Pipeline
  imports Planner
begin

text \<open>
  The installation pipeline (internal/pipeline): the runner of a stage with its failure policy, the
  rollback of the steps that succeeded, and the orchestrator that joins them. A step is a function
  of the world it changes, so that a failing step may still have changed it; the world is a
  parameter. The start and finish times of a step are not modelled. The callback of the runner is
  the list of the events it is given.
\<close>

section \<open>Steps and results\<close>

datatype stage = NoStage \<comment> \<open>the zero value\<close> | StagePrepare | StageApply | StageRollback

datatype step_status =
  StatusPending | StatusRunning | StatusSucceeded | StatusFailed | StatusRolledBack | StatusSkipped

datatype failure_policy = StopOnError | ContinueOnError

datatype 'e pipeline_error =
    StepError 'e
  | RollbackError string 'e
  | Joined "'e pipeline_error list"

record ('w, 'e) step =
  st_id :: string
  st_run :: "'w \<Rightarrow> 'w \<times> 'e option"
  st_rollback :: "('w \<Rightarrow> 'w \<times> 'e option) option" \<comment> \<open>\<^verbatim>\<open>None\<close>: not a \<^verbatim>\<open>RollbackStep\<close>\<close>

record 'e step_result =
  sr_id :: string
  sr_status :: step_status
  sr_err :: "'e option"

record 'e stage_result =
  sg_stage :: stage
  sg_steps :: "'e step_result list"
  sg_success :: bool
  sg_err :: "'e pipeline_error option"

record 'e execution_result =
  ex_prepare :: "'e stage_result"
  ex_apply :: "'e stage_result"
  ex_rollback :: "'e stage_result"
  ex_err :: "'e pipeline_error option"

record 'e progress_event =
  pe_id :: string
  pe_stage :: stage
  pe_status :: step_status
  pe_err :: "'e option"

record ('w, 'e) stage_plan =
  sp_prepare :: "('w, 'e) step list"
  sp_apply :: "('w, 'e) step list"

definition no_stage :: "'e stage_result" where
  "no_stage = \<lparr>sg_stage = NoStage, sg_steps = [], sg_success = False, sg_err = None\<rparr>"

definition join_errors :: "'e pipeline_error list \<Rightarrow> 'e pipeline_error option" where
  "join_errors errs = (if errs = [] then None else Some (Joined errs))"

section \<open>The runner\<close>

definition running_event :: "stage \<Rightarrow> string \<Rightarrow> 'e progress_event" where
  "running_event stage i = \<lparr>pe_id = i, pe_stage = stage, pe_status = StatusRunning, pe_err = None\<rparr>"

definition result_event :: "stage \<Rightarrow> 'e step_result \<Rightarrow> 'e progress_event" where
  "result_event stage r =
     \<lparr>pe_id = sr_id r, pe_stage = stage, pe_status = sr_status r, pe_err = sr_err r\<rparr>"

definition step_result_of :: "string \<Rightarrow> 'e option \<Rightarrow> 'e step_result" where
  "step_result_of i err =
     \<lparr>sr_id = i, sr_status = (if err = None then StatusSucceeded else StatusFailed), sr_err = err\<rparr>"

fun run_steps ::
  "failure_policy \<Rightarrow> stage \<Rightarrow> ('w, 'e) step list \<Rightarrow> 'w \<Rightarrow> 'e step_result list \<Rightarrow>
     'e progress_event list \<Rightarrow> 'e list \<Rightarrow> 'w \<times> 'e stage_result \<times> 'e progress_event list" where
  \<comment> \<open>the loop of \<^verbatim>\<open>Run\<close>: world, step results, emitted events, collected errors\<close>
  "run_steps policy stage [] w results events errs =
     (w, \<lparr>sg_stage = stage, sg_steps = results, sg_success = (errs = []),
          sg_err = join_errors (map StepError errs)\<rparr>, events)"
| "run_steps policy stage (s # ss) w results events errs =
     (case st_run s w of (w', err) \<Rightarrow>
        let r = step_result_of (st_id s) err;
            results' = results @ [r];
            events' = events @ [running_event stage (st_id s), result_event stage r]
        in case err of
             None \<Rightarrow> run_steps policy stage ss w' results' events' errs
           | Some e \<Rightarrow>
               if policy = StopOnError then
                 (w', \<lparr>sg_stage = stage, sg_steps = results', sg_success = False,
                       sg_err = Some (StepError e)\<rparr>, events')
               else run_steps policy stage ss w' results' events' (errs @ [e]))"

definition run_stage ::
  "failure_policy \<Rightarrow> stage \<Rightarrow> ('w, 'e) step list \<Rightarrow> 'w \<Rightarrow> 'w \<times> 'e stage_result \<times> 'e progress_event list" where
  "run_stage policy stage steps w = run_steps policy stage steps w [] [] []"

section \<open>Rollback\<close>

type_synonym ('w, 'e) step_index = "string \<rightharpoonup> ('w, 'e) step"

definition should_rollback :: "bool \<Rightarrow> stage \<Rightarrow> 'e pipeline_error option \<Rightarrow> bool" where
  \<comment> \<open>the policy's \<^verbatim>\<open>OnApplyFailure\<close>, the stage and its error\<close>
  "should_rollback on_apply stage err \<longleftrightarrow> err \<noteq> None \<and> stage = StageApply \<and> on_apply"

definition rollback_of :: "('w, 'e) step_index \<Rightarrow> 'e step_result \<Rightarrow>
    (string \<times> ('w \<Rightarrow> 'w \<times> 'e option)) option" where
  \<comment> \<open>the rollback a recorded result calls for, if any, with the id of its step\<close>
  "rollback_of index r =
     (if sr_status r \<noteq> StatusSucceeded then None
      else case index (sr_id r) of None \<Rightarrow> None
           | Some s \<Rightarrow> map_option (Pair (st_id s)) (st_rollback s))"

fun rollback_steps ::
  "('w, 'e) step_index \<Rightarrow> 'e step_result list \<Rightarrow> 'w \<Rightarrow> 'e step_result list \<Rightarrow>
     'e pipeline_error list \<Rightarrow> 'w \<times> 'e stage_result" where
  \<comment> \<open>the loop of \<^verbatim>\<open>ExecuteRollback\<close> over the results that are left, last one first\<close>
  "rollback_steps index [] w items errs =
     (w, \<lparr>sg_stage = StageRollback, sg_steps = items, sg_success = (errs = []),
          sg_err = join_errors errs\<rparr>)"
| "rollback_steps index (r # rs) w items errs =
     (case rollback_of index r of
        None \<Rightarrow> rollback_steps index rs w items errs
      | Some (i, rollback) \<Rightarrow>
          (case rollback w of
             (w', None) \<Rightarrow>
               rollback_steps index rs w'
                 (items @ [\<lparr>sr_id = i, sr_status = StatusRolledBack, sr_err = None\<rparr>]) errs
           | (w', Some e) \<Rightarrow>
               rollback_steps index rs w'
                 (items @ [\<lparr>sr_id = i, sr_status = StatusFailed, sr_err = Some e\<rparr>])
                 (errs @ [RollbackError i e])))"

definition execute_rollback ::
  "('w, 'e) step_index \<Rightarrow> 'e step_result list \<Rightarrow> 'w \<Rightarrow> 'w \<times> 'e stage_result" where
  "execute_rollback index results w = rollback_steps index (rev results) w [] []"

section \<open>The orchestrator\<close>

record ('w, 'e) orchestrator =
  or_failure :: failure_policy
  or_on_apply_failure :: bool
  or_index :: "('w, 'e) step_index"

definition new_orchestrator :: "bool \<Rightarrow> failure_policy \<Rightarrow> ('w, 'e) orchestrator" where
  "new_orchestrator on_apply policy =
     \<lparr>or_failure = policy, or_on_apply_failure = on_apply, or_index = Map.empty\<rparr>"

definition index_steps :: "('w, 'e) step list \<Rightarrow> ('w, 'e) step_index \<Rightarrow> ('w, 'e) step_index" where
  "index_steps steps m = foldl (\<lambda>m s. m(st_id s \<mapsto> s)) m steps"

definition execute ::
  "('w, 'e) orchestrator \<Rightarrow> ('w, 'e) stage_plan \<Rightarrow> 'w \<Rightarrow>
     ('w, 'e) orchestrator \<times> 'w \<times> 'e execution_result \<times> 'e progress_event list" where
  "execute o1 plan w =
     (let index = index_steps (sp_apply plan) (index_steps (sp_prepare plan) (or_index o1));
          o2 = o1\<lparr>or_index := index\<rparr>
      in case run_stage (or_failure o1) StagePrepare (sp_prepare plan) w of (w1, prepared, events1) \<Rightarrow>
        if \<not> sg_success prepared then
          (o2, w1, \<lparr>ex_prepare = prepared, ex_apply = no_stage, ex_rollback = no_stage,
                    ex_err = sg_err prepared\<rparr>, events1)
        else case run_stage (or_failure o1) StageApply (sp_apply plan) w1 of (w2, applied, events2) \<Rightarrow>
          let result = \<lparr>ex_prepare = prepared, ex_apply = applied, ex_rollback = no_stage, ex_err = None\<rparr>
          in if sg_success applied then (o2, w2, result, events1 @ events2)
             else if should_rollback (or_on_apply_failure o1) StageApply (sg_err applied) then
               (case execute_rollback index (sg_steps applied) w2 of (w3, rolled) \<Rightarrow>
                  (o2, w3, result\<lparr>ex_rollback := rolled,
                     ex_err := (if sg_success rolled then sg_err applied else sg_err rolled)\<rparr>,
                   events1 @ events2))
             else (o2, w2, result\<lparr>ex_err := sg_err applied\<rparr>, events1 @ events2))"

section \<open>The dry-run plan\<close>

definition noop_step :: "string \<Rightarrow> ('w, 'e) step" where
  "noop_step i = \<lparr>st_id = i, st_run = (\<lambda>w. (w, None)), st_rollback = None\<rparr>"

definition build_stage_plan :: "plan_selection \<Rightarrow> resolved_plan \<Rightarrow> ('w, 'e) stage_plan" where
  "build_stage_plan selection resolved =
     \<lparr>sp_prepare = (if sel_agents selection = [] \<and> pl_ordered resolved = [] then []
                    else [noop_step ''prepare:system-check'', noop_step ''prepare:check-dependencies'']),
      sp_apply = map (\<lambda>a. noop_step (''agent:'' @ a)) (pl_agents resolved)
                 @ map (\<lambda>c. noop_step (''component:'' @ c)) (pl_ordered resolved)\<rparr>"

end
