(* ===== verification/PipelineProps.thy ===== *)
theory PipelineProps
  imports Pipeline
begin

text \<open>
  What the pipeline promises: what a stage reports of the steps it ran, that progress events and
  results agree, and that a failed apply stage is undone, last step first, by the steps it ran.
\<close>

section \<open>Traces\<close>

fun step_trace :: "failure_policy \<Rightarrow> ('w, 'e) step list \<Rightarrow> 'w \<Rightarrow> ('w, 'e) step list" where
  \<comment> \<open>the steps a stage runs\<close>
  "step_trace policy [] w = []"
| "step_trace policy (s # ss) w =
     s # (if snd (st_run s w) \<noteq> None \<and> policy = StopOnError then []
          else step_trace policy ss (fst (st_run s w)))"

fun outcomes :: "('w, 'e) step list \<Rightarrow> 'w \<Rightarrow> 'e option list" where
  "outcomes [] w = []"
| "outcomes (s # ss) w = snd (st_run s w) # outcomes ss (fst (st_run s w))"

definition final_world :: "('w, 'e) step list \<Rightarrow> 'w \<Rightarrow> 'w" where
  "final_world ss w = foldl (\<lambda>w s. fst (st_run s w)) w ss"

definition trace_results :: "('w, 'e) step list \<Rightarrow> 'w \<Rightarrow> 'e step_result list" where
  "trace_results ss w = map2 (\<lambda>s err. step_result_of (st_id s) err) ss (outcomes ss w)"

definition result_events :: "stage \<Rightarrow> 'e step_result list \<Rightarrow> 'e progress_event list" where
  "result_events stage rs = concat (map (\<lambda>r. [running_event stage (sr_id r), result_event stage r]) rs)"

definition errors_of :: "'e option list \<Rightarrow> 'e list" where
  "errors_of os = concat (map (\<lambda>x. case x of None \<Rightarrow> [] | Some e \<Rightarrow> [e]) os)"

definition stage_error :: "failure_policy \<Rightarrow> 'e list \<Rightarrow> 'e pipeline_error option" where
  \<comment> \<open>the single error that stopped the stage, or all of them joined\<close>
  "stage_error policy errs =
     (if errs = [] then None
      else if policy = StopOnError then Some (StepError (last errs)) else Some (Joined (map StepError errs)))"

lemma trace_results_simps [simp]:
  "trace_results [] w = []"
  "trace_results (s # ss) w =
     step_result_of (st_id s) (snd (st_run s w)) # trace_results ss (fst (st_run s w))"
  by (simp_all add: trace_results_def)

lemma final_world_simps [simp]:
  "final_world [] w = w" "final_world (s # ss) w = final_world ss (fst (st_run s w))"
  by (simp_all add: final_world_def)

lemma errors_of_simps [simp]:
  "errors_of [] = []" "errors_of (None # xs) = errors_of xs" "errors_of (Some e # xs) = e # errors_of xs"
  by (simp_all add: errors_of_def)

lemma result_events_simps [simp]:
  "result_events stage [] = []"
  "result_events stage (r # rs) = running_event stage (sr_id r) # result_event stage r # result_events stage rs"
  by (simp_all add: result_events_def)

lemma step_result_of_simps [simp]:
  "sr_id (step_result_of i err) = i" "sr_err (step_result_of i err) = err"
  "sr_status (step_result_of i err) = StatusSucceeded \<longleftrightarrow> err = None"
  by (simp_all add: step_result_of_def)

lemma run_steps_trace:
  assumes "policy \<noteq> StopOnError \<or> errs = []"
  shows "run_steps policy stage ss w results events errs =
     (let tr = step_trace policy ss w; all_errs = errs @ errors_of (outcomes tr w) in
      (final_world tr w,
       \<lparr>sg_stage = stage, sg_steps = results @ trace_results tr w, sg_success = (all_errs = []),
        sg_err = stage_error policy all_errs\<rparr>,
       events @ result_events stage (trace_results tr w)))"
  using assms
proof (induction ss arbitrary: w results events errs)
  case Nil
  then show ?case by (cases policy) (auto simp: Let_def join_errors_def stage_error_def)
next
  case (Cons s ss)
  obtain w' err where run: "st_run s w = (w', err)" by (cases "st_run s w") auto
  show ?case
  proof (cases err)
    case None
    then show ?thesis using run Cons.prems by (subst run_steps.simps) (simp add: Let_def Cons.IH)
  next
    case (Some e)
    show ?thesis
    proof (cases "policy = StopOnError")
      case True
      then show ?thesis using run Some Cons.prems by (simp add: Let_def stage_error_def)
    next
      case False
      then show ?thesis using run Some
        by (subst run_steps.simps) (simp add: Let_def Cons.IH)
    qed
  qed
qed

lemma run_stage_trace:
  "run_stage policy stage ss w =
     (let tr = step_trace policy ss w in
      (final_world tr w,
       \<lparr>sg_stage = stage, sg_steps = trace_results tr w,
        sg_success = (errors_of (outcomes tr w) = []),
        sg_err = stage_error policy (errors_of (outcomes tr w))\<rparr>,
       result_events stage (trace_results tr w)))"
  unfolding run_stage_def by (subst run_steps_trace) (simp_all add: Let_def)

lemma run_stage_Inr:
  assumes "run_stage policy stage ss w = (w', res, events)"
  shows "events = result_events stage (sg_steps res)" "w' = final_world (step_trace policy ss w) w"
    "sg_steps res = trace_results (step_trace policy ss w) w"
    "sg_success res \<longleftrightarrow> errors_of (outcomes (step_trace policy ss w) w) = []"
    "sg_success res \<longleftrightarrow> sg_err res = None"
    "sg_err res = stage_error policy (errors_of (outcomes (step_trace policy ss w) w))"
  using assms by (auto simp: run_stage_trace Let_def stage_error_def split: if_splits)

lemma trace_ids: "map sr_id (trace_results ss w) = map st_id ss"
  by (induction ss arbitrary: w) simp_all

lemma step_trace_continue [simp]: "step_trace ContinueOnError ss w = ss"
  by (induction ss arbitrary: w) simp_all

lemma errors_of_Nil: "errors_of os = [] \<longleftrightarrow> list_all (\<lambda>x. x = None) os"
  by (induction os) (auto simp: errors_of_def split: option.splits)

lemma step_trace_prefix: "take (length (step_trace policy ss w)) ss = step_trace policy ss w"
  by (induction ss arbitrary: w) auto

lemma step_trace_success:
  "errors_of (outcomes (step_trace policy ss w) w) = [] \<Longrightarrow> step_trace policy ss w = ss"
  by (induction ss arbitrary: w) (auto simp: errors_of_Nil)

lemma trace_results_errs: "map sr_err (trace_results ss w) = outcomes ss w"
  by (induction ss arbitrary: w) simp_all

lemma errors_of_append [simp]: "errors_of (xs @ ys) = errors_of xs @ errors_of ys"
  by (simp add: errors_of_def)

lemma last_error:
  assumes "list_all (\<lambda>x. x = None) (butlast os)" "errors_of os \<noteq> []"
  shows "os \<noteq> []" "last os = Some (last (errors_of os))"
proof -
  show ne: "os \<noteq> []" using assms(2) by auto
  then have "errors_of os = errors_of (butlast os) @ errors_of [last os]"
    by (metis append_butlast_last_id errors_of_append)
  also have "errors_of (butlast os) = []" using assms(1) by (simp add: errors_of_Nil)
  finally have "errors_of os = errors_of [last os]" by simp
  then show "last os = Some (last (errors_of os))"
    using assms(2) by (cases "last os") simp_all
qed

lemma length_outcomes [simp]: "length (outcomes ss w) = length ss"
  by (induction ss arbitrary: w) simp_all

lemma trace_results_status:
  "list_all (\<lambda>r. (sr_status r = StatusSucceeded) = (sr_err r = None)) (trace_results ss w)"
  by (induction ss arbitrary: w) simp_all

lemma stop_outcomes:
  "list_all (\<lambda>x. x = None) (butlast (outcomes (step_trace StopOnError ss w) w))"
  by (induction ss arbitrary: w) auto

section \<open>Rollback\<close>

lemma rollback_steps_append:
  "rollback_steps index (rs @ rs') w items errs =
     (case rollback_steps index rs w items errs of (w', res) \<Rightarrow>
        rollback_steps index rs' w' (sg_steps res)
          (case sg_err res of Some (Joined es) \<Rightarrow> es | _ \<Rightarrow> []))"
proof (induction index rs w items errs rule: rollback_steps.induct)
  case (1 index w items errs)
  then show ?case by (simp add: join_errors_def)
next
  case (2 index r rs w items errs)
  then show ?case by (auto split: option.splits prod.splits)
qed

lemma index_steps_lookup:
  "index_steps ss m i =
     (case find (\<lambda>s. st_id s = i) (rev ss) of Some s \<Rightarrow> Some s | None \<Rightarrow> m i)"
proof (induction ss rule: rev_induct)
  case Nil then show ?case by (simp add: index_steps_def)
next
  case (snoc s ss)
  then show ?case by (simp add: index_steps_def)
qed

lemma index_steps_distinct:
  assumes "distinct (map st_id ss)" "s \<in> set ss"
  shows "index_steps ss m (st_id s) = Some s"
proof -
  have "find (\<lambda>t. st_id t = st_id s) (rev ss) = Some s"
    using assms
  proof (induction ss rule: rev_induct)
    case (snoc t ss) then show ?case by auto
  qed simp
  then show ?thesis by (simp add: index_steps_lookup)
qed

definition undoes :: "('w, 'e) step \<Rightarrow> bool" where
  \<comment> \<open>a step that fails leaves the world alone; one that succeeds is undone by its rollback, or
    changes nothing when it has none\<close>
  "undoes s \<longleftrightarrow> (\<forall>w. case st_run s w of
       (w', Some e) \<Rightarrow> w' = w
     | (w', None) \<Rightarrow> (case st_rollback s of None \<Rightarrow> w' = w | Some r \<Rightarrow> r w' = (w, None)))"

lemma rollback_undoes:
  assumes "\<And>s. s \<in> set tr \<Longrightarrow> undoes s \<and> index (st_id s) = Some s"
  shows "\<exists>items. rollback_steps index (rev (trace_results tr w)) (final_world tr w) acc [] =
    (w, \<lparr>sg_stage = StageRollback, sg_steps = acc @ items, sg_success = True, sg_err = None\<rparr>)"
  using assms
proof (induction tr arbitrary: w acc)
  case Nil then show ?case by (simp add: join_errors_def)
next
  case (Cons s tr)
  obtain w' err where run: "st_run s w = (w', err)" by (cases "st_run s w") auto
  have u: "case err of Some e \<Rightarrow> w' = w
      | None \<Rightarrow> (case st_rollback s of None \<Rightarrow> w' = w | Some r \<Rightarrow> r w' = (w, None))"
    using Cons.prems [of s] run unfolding undoes_def
    by (auto dest!: spec [of _ w] split: option.splits)
  obtain items where i: "rollback_steps index (rev (trace_results tr w')) (final_world tr w') acc [] =
     (w', \<lparr>sg_stage = StageRollback, sg_steps = acc @ items, sg_success = True, sg_err = None\<rparr>)"
    using Cons.IH [of w' acc] Cons.prems by auto
  have "\<exists>more. rollback_steps index [step_result_of (st_id s) err] w' (acc @ items) [] =
     (w, \<lparr>sg_stage = StageRollback, sg_steps = acc @ items @ more, sg_success = True, sg_err = None\<rparr>)"
  proof (cases "rollback_of index (step_result_of (st_id s) err)")
    case None
    then have "w' = w" using u Cons.prems [of s]
      by (cases err; cases "st_rollback s") (auto simp: rollback_of_def)
    with None show ?thesis by (simp add: join_errors_def)
  next
    case (Some x)
    then have "err = None" "x = (st_id s, snd x)" "st_rollback s = Some (snd x)"
      using Cons.prems [of s] by (auto simp: rollback_of_def split: if_splits)
    with Some u show ?thesis
      by (cases x) (simp add: join_errors_def)
  qed
  then obtain more where "rollback_steps index [step_result_of (st_id s) err] w' (acc @ items) [] =
     (w, \<lparr>sg_stage = StageRollback, sg_steps = acc @ items @ more, sg_success = True, sg_err = None\<rparr>)"
    by blast
  then show ?case
    by (intro exI [of _ "items @ more"]) (simp add: run i rollback_steps_append del: rollback_steps.simps)
qed

lemma execute_parts:
  assumes "execute o1 plan w = (o2, w', res, events)"
  obtains (prepare) w1 where "run_stage (or_failure o1) StagePrepare (sp_prepare plan) w = (w1, ex_prepare res, events)"
      "\<not> sg_success (ex_prepare res)" "w' = w1" "ex_apply res = no_stage" "ex_rollback res = no_stage"
      "ex_err res = sg_err (ex_prepare res)"
  | (apply_ok) w1 ev1 ev2 where "run_stage (or_failure o1) StagePrepare (sp_prepare plan) w = (w1, ex_prepare res, ev1)"
      "sg_success (ex_prepare res)"
      "run_stage (or_failure o1) StageApply (sp_apply plan) w1 = (w', ex_apply res, ev2)"
      "sg_success (ex_apply res)" "ex_rollback res = no_stage" "ex_err res = None" "events = ev1 @ ev2"
  | (failed) w1 w2 ev1 ev2 where "run_stage (or_failure o1) StagePrepare (sp_prepare plan) w = (w1, ex_prepare res, ev1)"
      "sg_success (ex_prepare res)"
      "run_stage (or_failure o1) StageApply (sp_apply plan) w1 = (w2, ex_apply res, ev2)"
      "\<not> sg_success (ex_apply res)" "events = ev1 @ ev2"
      "if or_on_apply_failure o1
       then execute_rollback (index_steps (sp_apply plan) (index_steps (sp_prepare plan) (or_index o1)))
              (sg_steps (ex_apply res)) w2 = (w', ex_rollback res) \<and>
            ex_err res = (if sg_success (ex_rollback res) then sg_err (ex_apply res) else sg_err (ex_rollback res))
       else w' = w2 \<and> ex_rollback res = no_stage \<and> ex_err res = sg_err (ex_apply res)"
proof -
  obtain w1 prepared ev1 where p: "run_stage (or_failure o1) StagePrepare (sp_prepare plan) w = (w1, prepared, ev1)"
    by (cases "run_stage (or_failure o1) StagePrepare (sp_prepare plan) w") auto
  show thesis
  proof (cases "sg_success prepared")
    case False
    then show thesis using assms p by (intro prepare) (auto simp: execute_def Let_def)
  next
    case ok: True
    obtain w2 applied ev2 where a: "run_stage (or_failure o1) StageApply (sp_apply plan) w1 = (w2, applied, ev2)"
      by (cases "run_stage (or_failure o1) StageApply (sp_apply plan) w1") auto
    show thesis
    proof (cases "sg_success applied")
      case True
      then show thesis using assms p a ok by (intro apply_ok [of w1 ev1 ev2]) (auto simp: execute_def Let_def)
    next
      case False
      have "sg_err applied \<noteq> None"
        using a False by (auto simp: run_stage_trace Let_def stage_error_def)
      then have sr: "should_rollback (or_on_apply_failure o1) StageApply (sg_err applied) = or_on_apply_failure o1"
        by (simp add: should_rollback_def)
      show thesis using assms p a ok False sr
        by (intro failed [of w1 ev1 w2 ev2])
          (auto simp: execute_def Let_def split: if_splits prod.splits)
    qed
  qed
qed

section \<open>Properties\<close>

text \<open>a stage reports exactly what it ran. Its results are those of a prefix of the steps, all
  of them unless the policy stops it; it succeeds when all of them ran without an error, and then
  it reports no error; the error of a stopped stage is the error of its last step, and before it
  no step failed.\<close>

theorem stage_reports_what_it_ran:
  "case run_stage policy stage ss w of (w', res, events) \<Rightarrow>
     map sr_id (sg_steps res) = take (length (sg_steps res)) (map st_id ss) \<and>
     (sg_success res \<longleftrightarrow> length (sg_steps res) = length ss \<and> list_all (\<lambda>r. sr_err r = None) (sg_steps res)) \<and>
     (sg_success res \<longleftrightarrow> sg_err res = None) \<and>
     (if policy = ContinueOnError then length (sg_steps res) = length ss
      else list_all (\<lambda>r. sr_err r = None) (butlast (sg_steps res)) \<and>
        (if sg_success res then True
         else sg_err res = map_option StepError (sr_err (last (sg_steps res))))) \<and>
     list_all (\<lambda>r. (sr_status r = StatusSucceeded) = (sr_err r = None)) (sg_steps res)"
proof -
  obtain w' res events where e: "run_stage policy stage ss w = (w', res, events)"
    by (cases "run_stage policy stage ss w") auto
  note r = run_stage_Inr [OF e]
  let ?tr = "step_trace policy ss w"
  let ?os = "outcomes ?tr w"
  have ids: "map sr_id (sg_steps res) = map st_id ?tr" unfolding r(3) by (rule trace_ids)
  then have len: "length (sg_steps res) = length ?tr" by (metis length_map)
  have "map sr_id (sg_steps res) = take (length (sg_steps res)) (map st_id ss)"
    unfolding ids len take_map step_trace_prefix by (rule refl)
  moreover have errs: "map sr_err (sg_steps res) = ?os" unfolding r(3) by (rule trace_results_errs)
  have all: "list_all (\<lambda>r. sr_err r = None) rs \<longleftrightarrow> list_all (\<lambda>x. x = None) (map sr_err rs)" for rs :: "'b step_result list"
    by (simp add: list_all_iff)
  have "sg_success res \<longleftrightarrow> length (sg_steps res) = length ss \<and> list_all (\<lambda>r. sr_err r = None) (sg_steps res)"
    unfolding all errs r(4) errors_of_Nil [symmetric] len using step_trace_success [of policy ss w] by metis
  moreover have "if policy = ContinueOnError then length (sg_steps res) = length ss
      else list_all (\<lambda>r. sr_err r = None) (butlast (sg_steps res)) \<and>
        (if sg_success res then True
         else sg_err res = map_option StepError (sr_err (last (sg_steps res))))"
  proof (cases policy)
    case ContinueOnError
    then show ?thesis using len by simp
  next
    case StopOnError
    then have b: "list_all (\<lambda>x. x = None) (butlast ?os)" by (simp add: stop_outcomes)
    have "sg_err res = map_option StepError (sr_err (last (sg_steps res)))" if "\<not> sg_success res"
    proof -
      have "errors_of ?os \<noteq> []" using that r(4) by simp
      note l = last_error [OF b this]
      then have "sr_err (last (sg_steps res)) = Some (last (errors_of ?os))"
        using errs by (metis last_map list.map_disc_iff)
      then show ?thesis using r(6) \<open>errors_of ?os \<noteq> []\<close> StopOnError by (simp add: stage_error_def)
    qed
    then show ?thesis using b errs StopOnError unfolding all by (simp add: map_butlast)
  qed
  moreover have "list_all (\<lambda>r. (sr_status r = StatusSucceeded) = (sr_err r = None)) (sg_steps res)"
    unfolding r(3) by (rule trace_results_status)
  ultimately show ?thesis unfolding e prod.case using r(5) by blast
qed

text \<open>The progress events of an execution are two for each step that ran, in order: the step
  is announced, then reported with the status and error of its result; rolling back reports none.\<close>

theorem progress_matches_results:
  "case execute o1 plan w of (o2, w', res, events) \<Rightarrow>
     events = result_events StagePrepare (sg_steps (ex_prepare res)) @
              result_events StageApply (sg_steps (ex_apply res))"
proof -
  obtain o2 w' res events where e: "execute o1 plan w = (o2, w', res, events)"
    by (cases "execute o1 plan w") auto
  from e have "events = result_events StagePrepare (sg_steps (ex_prepare res)) @
        result_events StageApply (sg_steps (ex_apply res))"
  proof (cases rule: execute_parts)
    case (prepare w1)
    then show "events = result_events StagePrepare (sg_steps (ex_prepare res)) @
        result_events StageApply (sg_steps (ex_apply res))"
      using run_stage_Inr(1) [OF prepare(1)] by (simp add: no_stage_def)
  next
    case (apply_ok w1 ev1 ev2)
    show "events = result_events StagePrepare (sg_steps (ex_prepare res)) @
        result_events StageApply (sg_steps (ex_apply res))"
      unfolding apply_ok(7) by (intro arg_cong2 [of _ _ _ _ append] run_stage_Inr(1) [OF apply_ok(1)] run_stage_Inr(1) [OF apply_ok(3)])
  next
    case (failed w1 w2 ev1 ev2)
    show "events = result_events StagePrepare (sg_steps (ex_prepare res)) @
        result_events StageApply (sg_steps (ex_apply res))"
      unfolding failed(5) by (intro arg_cong2 [of _ _ _ _ append] run_stage_Inr(1) [OF failed(1)] run_stage_Inr(1) [OF failed(3)])
  qed
  then show ?thesis unfolding e prod.case .
qed

text \<open>C15: a failed installation is undone. When the apply stage fails, its step ids are distinct,
  and every step is undone by its own rollback, the world is the one the prepare stage left, the
  rollback succeeds and the error of the apply stage is reported.\<close>

theorem failed_apply_is_undone:
  assumes "execute o1 plan w = (o2, w', res, events)" "or_on_apply_failure o1"
    and "sg_success (ex_prepare res)" "\<not> sg_success (ex_apply res)"
    and "distinct (map st_id (sp_apply plan))" "\<And>s. s \<in> set (sp_apply plan) \<Longrightarrow> undoes s"
  shows "fst (run_stage (or_failure o1) StagePrepare (sp_prepare plan) w) = w' \<and>
    sg_success (ex_rollback res) \<and> ex_err res = sg_err (ex_apply res) \<and> ex_err res \<noteq> None"
  using assms(1)
proof (cases rule: execute_parts)
  case (failed w1 w2 ev1 ev2)
  let ?tr = "step_trace (or_failure o1) (sp_apply plan) w1"
  let ?index = "index_steps (sp_apply plan) (index_steps (sp_prepare plan) (or_index o1))"
  have "undoes s \<and> ?index (st_id s) = Some s" if "s \<in> set ?tr" for s
  proof -
    have "s \<in> set (sp_apply plan)" using that step_trace_prefix by (metis in_set_takeD)
    then show ?thesis using assms(5,6) index_steps_distinct by blast
  qed
  from rollback_undoes [OF this, of ?tr w1 "[]"] obtain items where undo:
    "execute_rollback ?index (trace_results ?tr w1) (final_world ?tr w1) =
     (w1, \<lparr>sg_stage = StageRollback, sg_steps = items, sg_success = True, sg_err = None\<rparr>)"
    unfolding execute_rollback_def by auto
  note r = run_stage_Inr [OF failed(3)]
  have "sg_err (ex_apply res) \<noteq> None" using r(5) failed(4) by simp
  have "execute_rollback ?index (sg_steps (ex_apply res)) w2 = (w', ex_rollback res)"
    "ex_err res = (if sg_success (ex_rollback res) then sg_err (ex_apply res) else sg_err (ex_rollback res))"
    using failed(6) assms(2) by simp_all
  note rolled = this
  have "w' = w1 \<and> sg_success (ex_rollback res)"
    using rolled(1) unfolding r(2,3) undo by (auto dest: sym)
  then show ?thesis using failed(1) rolled(2) \<open>sg_err (ex_apply res) \<noteq> None\<close> by simp
qed (use assms in simp_all)

definition push_step :: "string \<Rightarrow> bool \<Rightarrow> (string list, string) step" where
  \<comment> \<open>a sample step that records its id in the world, or fails\<close>
  "push_step i ok = \<lparr>st_id = i, st_run = (\<lambda>w. if ok then (i # w, None) else (w, Some ''failed'')),
     st_rollback = Some (\<lambda>w. (tl w, None))\<rparr>"

lemma push_step_undoes [simp]: "undoes (push_step i ok)"
  by (simp add: undoes_def push_step_def)

theorem failed_apply_is_undone_witness:
  "case execute (new_orchestrator True StopOnError)
     \<lparr>sp_prepare = [push_step ''p'' True], sp_apply = [push_step ''a'' True, push_step ''b'' True, push_step ''c'' False]\<rparr> [] of
   (o2, w', res, events) \<Rightarrow> w' = [''p''] \<and> sg_success (ex_rollback res) \<and> ex_err res = Some (StepError ''failed'') \<and>
     map sr_id (sg_steps (ex_rollback res)) = [''b'', ''a'']"
proof -
  define plan where "plan = \<lparr>sp_prepare = [push_step ''p'' True],
     sp_apply = [push_step ''a'' True, push_step ''b'' True, push_step ''c'' False]\<rparr>"
  let ?o = "new_orchestrator True StopOnError :: (string list, string) orchestrator"
  obtain o2 w' res events where e: "execute ?o plan [] = (o2, w', res, events)"
    by (cases "execute ?o plan []") auto
  have facts: "or_on_apply_failure ?o" "distinct (map st_id (sp_apply plan))"
    by (simp_all add: new_orchestrator_def plan_def push_step_def)
  have shape: "case execute ?o plan [] of (_, _, r, _) \<Rightarrow> sg_success (ex_prepare r) \<and>
      \<not> sg_success (ex_apply r) \<and> sg_err (ex_apply r) = Some (StepError ''failed'') \<and>
      map sr_id (sg_steps (ex_rollback r)) = [''b'', ''a'']"
    unfolding plan_def by code_simp
  have world: "fst (run_stage (or_failure ?o) StagePrepare (sp_prepare plan) []) = [''p'']"
    unfolding plan_def by code_simp
  have undo: "s \<in> set (sp_apply plan) \<Longrightarrow> undoes s" for s by (auto simp: plan_def)
  from shape have s: "sg_success (ex_prepare res)" "\<not> sg_success (ex_apply res)"
    "sg_err (ex_apply res) = Some (StepError ''failed'')" "map sr_id (sg_steps (ex_rollback res)) = [''b'', ''a'']"
    unfolding e by simp_all
  from failed_apply_is_undone [OF e facts(1) s(1,2) facts(2) undo] world s(3,4)
  have "w' = [''p''] \<and> sg_success (ex_rollback res) \<and> ex_err res = Some (StepError ''failed'') \<and>
     map sr_id (sg_steps (ex_rollback res)) = [''b'', ''a'']" by simp
  then show ?thesis unfolding plan_def [symmetric] e prod.case .
qed

text \<open>The failure policy reaches the prepare stage too. An orchestrator made with
  \<^verbatim>\<open>WithFailurePolicy(ContinueOnError)\<close>, which its comment gives to the apply stage, runs every
  prepare step even after one has failed.\<close>

theorem policy_reaches_prepare:
  "case execute (new_orchestrator on_apply ContinueOnError) plan w of (o2, w', res, events) \<Rightarrow>
     map sr_id (sg_steps (ex_prepare res)) = map st_id (sp_prepare plan)"
proof -
  let ?o = "new_orchestrator on_apply ContinueOnError"
  obtain o2 w' res events where e: "execute ?o plan w = (o2, w', res, events)"
    by (cases "execute ?o plan w") auto
  then obtain w1 ev where p: "run_stage ContinueOnError StagePrepare (sp_prepare plan) w = (w1, ex_prepare res, ev)"
    by (cases rule: execute_parts) (auto simp: new_orchestrator_def)
  show ?thesis unfolding e prod.case run_stage_Inr(3) [OF p] by (simp add: trace_ids)
qed

lemma noop_stage:
  fixes w :: 'w
  shows "run_stage policy stage (map noop_step is :: ('w, 'e) step list) w =
     (w, \<lparr>sg_stage = stage, sg_steps = map (\<lambda>i. step_result_of i None) is, sg_success = True, sg_err = None\<rparr>,
      result_events stage (map (\<lambda>i. step_result_of i None) is))"
proof -
  let ?ss = "map noop_step is :: ('w, 'e) step list"
  have "step_trace policy ?ss w = ?ss \<and> final_world ?ss w = w \<and> errors_of (outcomes ?ss w) = [] \<and>
     trace_results ?ss w = map (\<lambda>i. step_result_of i None) is"
    by (induction "is") (simp_all add: noop_step_def)
  then show ?thesis by (simp add: run_stage_trace Let_def stage_error_def)
qed

lemma find_snoc: "find P xs = None \<Longrightarrow> P x \<Longrightarrow> find P (xs @ [x]) = Some x"
  by (induction xs) (auto split: if_splits)

text \<open>A dry run of a resolved plan succeeds without touching the world; it runs one step for each
  supported agent, then one for each component in the order of the plan.\<close>

theorem dry_run_follows_plan:
  fixes w :: 'w
  shows "case execute (new_orchestrator on_apply policy) (build_stage_plan selection resolved :: ('w, 'e) stage_plan) w of (o2, w', res, events) \<Rightarrow>
     w' = w \<and> ex_err res = None \<and> sg_success (ex_prepare res) \<and> sg_success (ex_apply res) \<and>
     map sr_id (sg_steps (ex_apply res)) = map (append ''agent:'') (pl_agents resolved) @
       map (append ''component:'') (pl_ordered resolved)"
proof -
  let ?plan = "build_stage_plan selection resolved :: ('w, 'e) stage_plan"
  have a: "sp_apply ?plan = map noop_step (map (append ''agent:'') (pl_agents resolved) @
       map (append ''component:'') (pl_ordered resolved))" by (simp add: build_stage_plan_def)
  obtain ps where p: "sp_prepare ?plan = map noop_step ps"
    by (rule that [of "if sel_agents selection = [] \<and> pl_ordered resolved = [] then []
          else [''prepare:system-check'', ''prepare:check-dependencies'']"]) (simp add: build_stage_plan_def)
  show ?thesis unfolding execute_def Let_def p noop_stage prod.case a by (simp add: comp_def)
qed

text \<open>A restoring step placed first in the apply stage is rolled back last. Whatever the other
  steps and their rollbacks do, after a failed apply stage the world satisfies what that step's
  rollback establishes, when its id is not reused in the stage.\<close>

theorem restore_step_runs_last:
  assumes "execute o1 \<lparr>sp_prepare = prepare, sp_apply = s # ss\<rparr> w = (o2, w', res, events)"
    and "or_on_apply_failure o1" "sg_success (ex_prepare res)" "\<not> sg_success (ex_apply res)"
    and "\<And>v. snd (st_run s v) = None" "st_rollback s = Some restore" "st_id s \<notin> st_id ` set ss"
  shows "\<exists>v. w' = fst (restore v)"
  using assms(1)
proof (cases rule: execute_parts)
  case (failed w1 w2 ev1 ev2)
  let ?index = "index_steps (s # ss) (index_steps prepare (or_index o1))"
  have "find (\<lambda>t. st_id t = st_id s) (rev ss) = None" using assms(7) by (auto simp: find_None_iff image_iff)
  then have "find (\<lambda>t. st_id t = st_id s) (rev ss @ [s]) = Some s" by (rule find_snoc) simp
  then have index: "?index (st_id s) = Some s" by (simp add: index_steps_lookup)
  obtain rs where rs: "sg_steps (ex_apply res) = step_result_of (st_id s) None # rs"
    using run_stage_Inr(3) [OF failed(3)] assms(5) by simp
  obtain v r where v: "rollback_steps ?index (rev rs) w2 [] [] = (v, r)" by fastforce
  have "execute_rollback ?index (sg_steps (ex_apply res)) w2 = (w', ex_rollback res)"
    using failed(6) assms(2) by simp
  then have "rollback_steps ?index [step_result_of (st_id s) None] v (sg_steps r)
      (case sg_err r of Some (Joined es) \<Rightarrow> es | _ \<Rightarrow> []) = (w', ex_rollback res)"
    unfolding execute_rollback_def rs by (simp add: rollback_steps_append v del: rollback_steps.simps)
  moreover have "rollback_of ?index (step_result_of (st_id s) None) = Some (st_id s, restore)"
    using index assms(6) by (simp add: rollback_of_def)
  ultimately have "w' = fst (restore v)" by (auto split: prod.splits option.splits)
  then show ?thesis by blast
qed (use assms in simp_all)

theorem restore_step_runs_last_witness:
  "\<exists>v. fst (snd (execute (new_orchestrator True ContinueOnError)
     \<lparr>sp_prepare = [],
      sp_apply = [(push_step ''a'' True)\<lparr>st_rollback := Some (\<lambda>v. ([''saved''], None))\<rparr>, push_step ''b'' False, push_step ''c'' True]\<rparr>
     [''x''])) = fst ((\<lambda>v :: string list. ([''saved''], None :: string option)) v)"
proof -
  let ?s = "(push_step ''a'' True)\<lparr>st_rollback := Some (\<lambda>v. ([''saved''], None))\<rparr>"
  let ?plan = "\<lparr>sp_prepare = [], sp_apply = [?s, push_step ''b'' False, push_step ''c'' True]\<rparr>"
  let ?o = "new_orchestrator True ContinueOnError :: (string list, string) orchestrator"
  obtain o2 w' res events where e: "execute ?o ?plan [''x''] = (o2, w', res, events)"
    by (cases "execute ?o ?plan [''x'']") auto
  have "case execute ?o ?plan [''x''] of (_, _, r, _) \<Rightarrow> sg_success (ex_prepare r) \<and> \<not> sg_success (ex_apply r)"
    by code_simp
  then have s: "sg_success (ex_prepare res)" "\<not> sg_success (ex_apply res)" unfolding e by simp_all
  have "\<exists>v. w' = fst ((\<lambda>v :: string list. ([''saved''], None :: string option)) v)"
    by (rule restore_step_runs_last [OF e _ s]) (simp_all add: new_orchestrator_def push_step_def)
  then show ?thesis unfolding e by simp
qed

end
