(* ===== verification/GoStrings.thy ===== *)
theory GoStrings
  imports GoText
begin

text \<open>
  The searching and trimming functions of Go's \<^verbatim>\<open>strings\<close> package that the file merging code uses,
  on byte strings, and the facts about first occurrences that its proofs share.
\<close>

abbreviation newline :: char where "newline \<equiv> CHR 0x0A"
abbreviation carriage :: char where "carriage \<equiv> CHR 0x0D"

section \<open>Searching\<close>

fun find_sub :: "string \<Rightarrow> string \<Rightarrow> nat option" where
  \<comment> \<open>\<^verbatim>\<open>strings.Index\<close>\<close>
  "find_sub [] sub = (if sub = [] then Some 0 else None)"
| "find_sub (c # s) sub = (if prefix sub (c # s) then Some 0 else map_option Suc (find_sub s sub))"

definition has_suffix :: "string \<Rightarrow> string \<Rightarrow> bool" where
  "has_suffix s suf \<longleftrightarrow> suffix suf s"

definition trim_suffix :: "string \<Rightarrow> string \<Rightarrow> string" where
  "trim_suffix s suf = (if has_suffix s suf then take (length s - length suf) s else s)"

fun fold_case :: "string \<Rightarrow> string" where
  \<comment> \<open>\<^verbatim>\<open>strings.EqualFold\<close> against an ASCII string; U+017F and U+212A fold to ASCII\<close>
  "fold_case [] = []"
| "fold_case (c # s) =
     (if prefix [CHR 0xC5, CHR 0xBF] (c # s) then CHR ''s'' # fold_case (drop 1 s)
      else if prefix [CHR 0xE2, CHR 0x84, CHR 0xAA] (c # s) then CHR ''k'' # fold_case (drop 2 s)
      else lower_byte c # fold_case s)"

definition trim_left_set :: "string \<Rightarrow> string \<Rightarrow> string" where
  \<comment> \<open>\<^verbatim>\<open>strings.TrimLeft\<close> with an ASCII cutset\<close>
  "trim_left_set cutset s = dropWhile (\<lambda>c. c \<in> set cutset) s"

definition trim_right_set :: "string \<Rightarrow> string \<Rightarrow> string" where
  "trim_right_set cutset s = rev (dropWhile (\<lambda>c. c \<in> set cutset) (rev s))"

definition cut_out :: "nat \<Rightarrow> nat \<Rightarrow> string \<Rightarrow> string" where
  \<comment> \<open>\<^verbatim>\<open>s[:i] + s[i+n:]\<close>\<close>
  "cut_out i n s = take i s @ drop (i + n) s"

function replace_all :: "string \<Rightarrow> string \<Rightarrow> string \<Rightarrow> string" where
  \<comment> \<open>\<^verbatim>\<open>strings.ReplaceAll\<close> for a non-empty old string\<close>
  "replace_all old new [] = []"
| "replace_all old new (c # s) =
     (if old \<noteq> [] \<and> prefix old (c # s) then new @ replace_all old new (drop (length old) (c # s))
      else c # replace_all old new s)"
  by pat_completeness auto
termination
proof (relation "measure (\<lambda>(old, new, s). length s)")
  fix old new :: string and c s
  assume "old \<noteq> [] \<and> prefix old (c # s)"
  then have "length (drop (length old) (c # s)) < length (c # s)" by (cases old) simp_all
  then show "((old, new, drop (length old) (c # s)), old, new, c # s) \<in> measure (\<lambda>(old, new, s). length s)"
    by simp
qed simp_all

section \<open>First occurrences\<close>

lemma find_sub_prefix: "sub \<noteq> [] \<Longrightarrow> prefix sub s \<Longrightarrow> find_sub s sub = Some 0"
  by (cases s) simp_all

lemma find_sub_None: "sub \<noteq> [] \<Longrightarrow> find_sub s sub = None \<longleftrightarrow> \<not> sublist sub s"
  by (induction s) (simp_all add: sublist_Cons_right)

lemma find_sub_bound: "find_sub s sub = Some i \<Longrightarrow> i + length sub \<le> length s"
  by (induction s arbitrary: i) (auto split: if_splits dest: prefix_length_le)

lemma find_sub_split: "find_sub s sub = Some i \<Longrightarrow> s = take i s @ sub @ drop (i + length sub) s"
proof (induction s arbitrary: i)
  case (Cons c s)
  show ?case
  proof (cases "prefix sub (c # s)")
    case True
    then show ?thesis using Cons.prems by (auto simp: prefix_def)
  next
    case False
    then obtain k where "find_sub s sub = Some k" "i = Suc k" using Cons.prems by auto
    then show ?thesis using Cons.IH by simp
  qed
qed (simp split: if_splits)

lemma find_sub_take:
  assumes "find_sub s sub = Some k" "i \<le> k" "sub \<noteq> []"
  shows "find_sub (take i s) sub = None"
  using assms
proof (induction s arbitrary: i k)
  case (Cons c s)
  show ?case
  proof (cases i)
    case (Suc j)
    then obtain k' where k: "\<not> prefix sub (c # s)" "find_sub s sub = Some k'" "j \<le> k'"
      using Cons.prems by (auto split: if_splits)
    have "prefix (c # take j s) (c # s)" by (simp add: take_is_prefix)
    then have "\<not> prefix sub (c # take j s)" using k(1) prefix_order.trans by blast
    then show ?thesis using Cons.IH [of k' j] k Suc Cons.prems by simp
  qed (use Cons.prems in simp)
qed (use assms in simp)

lemma find_sub_skip:
  \<comment> \<open>an occurrence cannot straddle a character that the needle does not have past its head\<close>
  assumes "sub \<noteq> []" "c \<notin> set (tl sub)"
  shows "find_sub (xs @ c # ys) sub =
     (case find_sub xs sub of Some i \<Rightarrow> Some i
      | None \<Rightarrow> map_option ((+) (length xs)) (find_sub (c # ys) sub))"
proof (induction xs)
  case Nil
  then show ?case using assms by (cases "find_sub (c # ys) sub") simp_all
next
  case (Cons x xs)
  have "prefix sub (x # xs @ c # ys) \<longleftrightarrow> prefix sub (x # xs)"
  proof
    assume p: "prefix sub (x # xs @ c # ys)"
    show "prefix sub (x # xs)"
    proof (cases "length sub \<le> length (x # xs)")
      case True
      then show ?thesis using p
        by (metis append_Cons append_eq_append_conv_if prefixI append_take_drop_id prefix_def)
    next
      case False
      obtain zs where zs: "(x # xs) @ c # ys = sub @ zs" using p by (auto simp: prefix_def)
      have "((x # xs) @ c # ys) ! length (x # xs) = c" by (rule nth_append_length)
      then have "sub ! Suc (length xs) = c" using False unfolding zs by (simp add: nth_append)
      moreover have "Suc (length xs) < length sub" using False by simp
      ultimately have "c \<in> set (tl sub)" by (cases sub) auto
      with assms(2) show ?thesis by simp
    qed
  next
    assume "prefix sub (x # xs)"
    then show "prefix sub (x # xs @ c # ys)" by (metis append_Cons prefix_prefix)
  qed
  then show ?case using Cons by (cases "find_sub xs sub"; cases "find_sub (c # ys) sub") simp_all
qed

lemma find_sub_long: "length s < length sub \<Longrightarrow> find_sub s sub = None"
  by (metis find_sub_bound add_leD2 not_le option.exhaust)

lemma contains_find: "sub \<noteq> [] \<Longrightarrow> contains s sub \<longleftrightarrow> find_sub s sub \<noteq> None"
  by (simp add: find_sub_None contains_def)

lemma replace_all_length: "length new \<le> length old \<Longrightarrow> length (replace_all old new s) \<le> length s"
proof (induction old new s rule: replace_all.induct)
  case (2 old new c s)
  show ?case
  proof (cases "old \<noteq> [] \<and> prefix old (c # s)")
    case True
    then have "length old \<le> length (c # s)" by (metis prefix_length_le)
    then show ?thesis using 2(1) [OF True 2(3)] 2(3) True by simp
  next
    case False
    then have "replace_all old new (c # s) = c # replace_all old new s" by auto
    then show ?thesis using 2(2) [OF False 2(3)] by simp
  qed
qed simp

lemma replace_all_shorter:
  "length new < length old \<Longrightarrow> sublist old s \<Longrightarrow> length (replace_all old new s) < length s"
proof (induction old new s rule: replace_all.induct)
  case (2 old new c s)
  show ?case
  proof (cases "prefix old (c # s)")
    case True
    then have "length old \<le> length (c # s)" by (metis prefix_length_le)
    moreover have "length (replace_all old new (drop (length old) (c # s))) \<le> length (drop (length old) (c # s))"
      using 2(3) by (intro replace_all_length) simp
    moreover have "old \<noteq> []" using 2(3) by auto
    ultimately show ?thesis using True 2(3) by simp
  qed (use 2 in \<open>simp add: sublist_Cons_right\<close>)
qed simp

lemma trim_right_set_append:
  "list_all (\<lambda>c. c \<in> set cutset) t \<Longrightarrow> trim_right_set cutset (s @ t) = trim_right_set cutset s"
proof -
  assume "list_all (\<lambda>c. c \<in> set cutset) t"
  then have "\<forall>c \<in> set (rev t). c \<in> set cutset" by (simp add: list_all_iff)
  then show ?thesis by (simp add: trim_right_set_def dropWhile_append)
qed

lemma trim_right_set_fixed: "s = [] \<or> last s \<notin> set cutset \<Longrightarrow> trim_right_set cutset s = s"
  by (cases s rule: rev_cases) (auto simp: trim_right_set_def)

lemma trim_right_set_le: "length (trim_right_set cutset s) \<le> length s"
  using length_dropWhile_le [of _ "rev s"] by (simp add: trim_right_set_def)

lemma trim_left_set_le: "length (trim_left_set cutset s) \<le> length s"
  by (simp add: trim_left_set_def length_dropWhile_le)

section \<open>Trimming and lines\<close>

definition edge_char :: "char \<Rightarrow> bool" where
  \<comment> \<open>visible ASCII\<close>
  "edge_char c \<longleftrightarrow> between 33 c 126"

lemma space_runes_no_edge: "r \<in> set space_runes \<Longrightarrow> c \<in> set r \<Longrightarrow> \<not> edge_char c"
  by (auto simp: space_runes_def edge_char_def between_def byte_def)

lemma strip_edge:
  assumes "s \<noteq> []" and "edge_char (hd s)" and "\<And>r. r \<in> set runes \<Longrightarrow> r \<noteq> [] \<and> \<not> edge_char (hd r)"
  shows "strip_all n runes s = s"
proof (rule strip_all_fixpoint)
  have "\<not> prefix r s" if "r \<in> set runes" for r
    using assms(1,2) assms(3) [OF that] by (cases r; cases s) auto
  then show "strip_one runes s = None" by (simp add: strip_one_None)
qed

lemma trim_edges:
  assumes "s \<noteq> []" and "edge_char (hd s)" and "edge_char (last s)"
  shows "trim_space s = s"
proof -
  have "trim_left s = s" unfolding trim_left_def
    using assms space_runes_nonempty space_runes_no_edge
    by (intro strip_edge) auto
  moreover have "trim_right s = s" unfolding trim_right_def
    using assms space_runes_nonempty space_runes_no_edge
    by (subst strip_edge) (auto simp: hd_rev)
  ultimately show ?thesis by (simp add: trim_space_def)
qed

lemma split_no_sep: "sep \<notin> set w \<Longrightarrow> split_on sep w = [w]"
  by (induction w) auto

lemma split_append_sep: "sep \<notin> set w \<Longrightarrow> split_on sep (w @ sep # s) = w # split_on sep s"
  by (induction w) auto

lemma split_join:
  "ws \<noteq> [] \<Longrightarrow> \<forall>w \<in> set ws. sep \<notin> set w \<Longrightarrow> split_on sep (join_with [sep] ws) = ws"
proof (induction ws)
  case (Cons w ws)
  then show ?case by (cases ws) (simp_all add: split_no_sep split_append_sep)
qed simp

lemma set_join: "set (join_with [sep] ws) \<subseteq> {sep} \<union> (\<Union>w \<in> set ws. set w)"
proof (induction ws)
  case (Cons w ws)
  then show ?case by (cases ws) auto
qed simp

lemma last_join:
  "w \<noteq> [] \<Longrightarrow> join_with sep (ws @ [w]) \<noteq> [] \<and> last (join_with sep (ws @ [w])) = last w"
proof (induction ws)
  case (Cons v ws)
  then show ?case by (cases ws) auto
qed simp

lemma hd_join: "w \<noteq> [] \<Longrightarrow> hd (join_with sep (w # ws)) = hd w"
  by (cases ws) auto

lemma strip_all_enough:
  assumes "\<And>r. r \<in> set runes \<Longrightarrow> r \<noteq> []"
  shows "length s \<le> n \<Longrightarrow> length s \<le> m \<Longrightarrow> strip_all n runes s = strip_all m runes s"
proof (induction n arbitrary: s m)
  case 0
  then show ?case using assms strip_all_fixpoint [of runes s m] strip_all_fixpoint [of runes s 0]
    by (auto simp: strip_one_None)
next
  case (Suc n)
  show ?case
  proof (cases "strip_one runes s")
    case None
    then show ?thesis by (simp add: strip_all_fixpoint)
  next
    case (Some s')
    then obtain r where r: "r \<in> set runes" "s = r @ s'" using strip_one_Some by blast
    then have "length s' < length s" using assms by simp
    then obtain k where "m = Suc k" "length s' \<le> n" "length s' \<le> k"
      using Suc.prems by (cases m) auto
    then show ?thesis using Some Suc.IH [of s' k] by simp
  qed
qed

lemma prefix_free:
  "list_all (\<lambda>r. list_all (\<lambda>r'. prefix r r' \<longrightarrow> r = r') space_runes) space_runes"
  "list_all (\<lambda>r. list_all (\<lambda>r'. prefix (rev r) (rev r') \<longrightarrow> r = r') space_runes) space_runes"
  "list_all (\<lambda>r. list_all (\<lambda>r'. hd r' \<notin> set (tl r)) space_runes) space_runes"
  by code_simp+

lemma prefix_either: "prefix r (r' @ x) \<Longrightarrow> prefix r r' \<or> prefix r' r"
  by (metis prefixI prefix_same_cases)

lemma space_runes_apart:
  "r \<in> set space_runes \<Longrightarrow> r' \<in> set space_runes \<Longrightarrow> prefix r (r' @ x) \<Longrightarrow> r = r'"
  using prefix_free(1) prefix_either [of r r' x] by (auto simp: list_all_iff)

lemma reversed_runes_apart:
  "r \<in> set space_runes \<Longrightarrow> r' \<in> set space_runes \<Longrightarrow> prefix (rev r) (rev r' @ x) \<Longrightarrow> r = r'"
  using prefix_free(2) prefix_either [of "rev r" "rev r'" x] by (auto simp: list_all_iff)

lemma trim_left_rune: "r \<in> set space_runes \<Longrightarrow> trim_left (r @ x) = trim_left x"
proof -
  assume r: "r \<in> set space_runes"
  have "strip_one space_runes (r @ x) = Some x"
  proof (cases "strip_one space_runes (r @ x)")
    case None
    then show ?thesis using r by (auto simp: strip_one_None)
  next
    case (Some y)
    then obtain r' where r': "r' \<in> set space_runes" "r @ x = r' @ y" using strip_one_Some by blast
    then have "r' = r" using space_runes_apart [OF r'(1) r, of x] by (metis prefixI)
    then show ?thesis using Some r'(2) by simp
  qed
  moreover obtain k where "length (r @ x) = Suc k" "length x \<le> k"
    using space_runes_nonempty [OF r] by (cases r) auto
  ultimately show ?thesis unfolding trim_left_def
    using strip_all_enough [of space_runes x k "length x"] space_runes_nonempty by simp
qed

lemma trim_right_rune: "r \<in> set space_runes \<Longrightarrow> trim_right (x @ r) = trim_right x"
proof -
  let ?rs = "map rev space_runes"
  assume r: "r \<in> set space_runes"
  have "strip_one ?rs (rev r @ rev x) = Some (rev x)"
  proof (cases "strip_one ?rs (rev r @ rev x)")
    case None
    then show ?thesis using r by (auto simp: strip_one_None)
  next
    case (Some y)
    then obtain r' where r': "r' \<in> set space_runes" "rev r @ rev x = rev r' @ y"
      using strip_one_Some [of ?rs] by auto
    then have "r' = r" using reversed_runes_apart [OF r'(1) r, of "rev x"] by (metis prefixI)
    then show ?thesis using Some r'(2) by simp
  qed
  moreover obtain k where "length (x @ r) = Suc k" "length x \<le> k"
    using space_runes_nonempty [OF r] by (cases r) auto
  ultimately show ?thesis unfolding trim_right_def
    using strip_all_enough [of ?rs "rev x" k "length x"] space_runes_nonempty by auto
qed

lemma rune_heads_apart:
  \<comment> \<open>no encoding starts inside another\<close>
  "r \<in> set space_runes \<Longrightarrow> r' \<in> set space_runes \<Longrightarrow> y \<noteq> [] \<Longrightarrow> prefix r (y @ r') \<Longrightarrow> prefix r y"
proof -
  assume r: "r \<in> set space_runes" "r' \<in> set space_runes" and y: "y \<noteq> []" and p: "prefix r (y @ r')"
  show "prefix r y"
  proof (rule ccontr)
    assume n: "\<not> prefix r y"
    then obtain z where z: "r = y @ z" "z \<noteq> []" using p by (auto simp: prefix_append)
    then have "hd z = hd r'" using p space_runes_nonempty [OF r(2)] by (auto simp: prefix_def neq_Nil_conv)
    moreover have "hd z \<in> set (tl r)" using z y by (cases y) auto
    moreover have "hd r' \<notin> set (tl r)" using r prefix_free(3) by (auto simp: list_all_iff)
    ultimately show False by simp
  qed
qed

lemma trim_left_untouched: "trim_left s = s \<longleftrightarrow> (\<forall>r \<in> set space_runes. \<not> prefix r s)"
proof
  assume "trim_left s = s"
  then have "strip_one space_runes s = None"
    using strip_all_done [of space_runes s "length s"] space_runes_nonempty by (simp add: trim_left_def)
  then show "\<forall>r \<in> set space_runes. \<not> prefix r s" by (simp add: strip_one_None)
qed (simp add: trim_left_def strip_all_fixpoint strip_one_None)

lemma trim_left_cases:
  obtains "trim_left s = s" | r x where "r \<in> set space_runes" "s = r @ x"
  using trim_left_untouched [of s] by (auto simp: prefix_def)

lemma trim_space_left: "r \<in> set space_runes \<Longrightarrow> trim_space (r @ x) = trim_space x"
  by (simp add: trim_space_def trim_left_rune)

lemma trim_space_right: "r \<in> set space_runes \<Longrightarrow> trim_space (x @ r) = trim_space x"
proof (induction "length x" arbitrary: x rule: less_induct)
  case less
  show ?case
  proof (cases rule: trim_left_cases [of x])
    case 1
    show ?thesis
    proof (cases "x = []")
      case True
      then show ?thesis using trim_space_left [OF less.prems, of "[]"] by simp
    next
      case False
      have "\<not> prefix r' (x @ r)" if "r' \<in> set space_runes" for r'
        using rune_heads_apart [OF that less.prems False] 1 that by (auto simp: trim_left_untouched)
      then have "trim_left (x @ r) = x @ r" by (simp add: trim_left_untouched)
      then show ?thesis using 1 less.prems by (simp add: trim_space_def trim_right_rune)
    qed
  next
    case (2 r' y)
    then have "length y < length x" using space_runes_nonempty by simp
    then show ?thesis using less 2 trim_space_left [of r'] by simp
  qed
qed

lemma trim_right_untouched: "trim_right s = s \<longleftrightarrow> (\<forall>r \<in> set space_runes. \<not> suffix r s)"
proof
  let ?rs = "map rev space_runes"
  assume t: "trim_right s = s"
  have "strip_one ?rs (strip_all (length s) ?rs (rev s)) = None"
    by (rule strip_all_done) (auto dest: space_runes_nonempty)
  moreover have "strip_all (length s) ?rs (rev s) = rev s" using t unfolding trim_right_def by (metis rev_rev_ident)
  ultimately show "\<forall>r \<in> set space_runes. \<not> suffix r s" by (auto simp: strip_one_None suffix_to_prefix)
next
  assume "\<forall>r \<in> set space_runes. \<not> suffix r s"
  then have "strip_one (map rev space_runes) (rev s) = None" by (auto simp: strip_one_None suffix_to_prefix)
  then show "trim_right s = s" by (simp add: trim_right_def strip_all_fixpoint)
qed

lemma trim_space_cases:
  obtains "trim_space s = s"
  | r x where "r \<in> set space_runes" "s = r @ x" "trim_space s = trim_space x"
  | r x where "r \<in> set space_runes" "s = x @ r" "trim_space s = trim_space x"
  using trim_left_untouched [of s] trim_right_untouched [of s] trim_space_left trim_space_right
  by (metis prefix_def suffix_def trim_space_def)

lemma set_trim_space: "set (trim_space s) \<subseteq> set s"
proof (induction "length s" arbitrary: s rule: less_induct)
  case less
  show ?case
  proof (cases rule: trim_space_cases [of s])
    case (2 r x)
    then show ?thesis using less [of x] space_runes_nonempty [of r] by auto
  next
    case (3 r x)
    then show ?thesis using less [of x] space_runes_nonempty [of r] by auto
  qed simp
qed

lemma split_on_sep: "split_on sep (a @ sep # b) = split_on sep a @ split_on sep b"
proof (induction a)
  case (Cons c a)
  then show ?case by (cases "split_on sep a") simp_all
qed simp

lemma split_on_before: "sep \<notin> set r \<Longrightarrow> split_on sep (r @ x) = (r @ hd (split_on sep x)) # tl (split_on sep x)"
  by (induction r) auto

lemma split_on_after: "sep \<notin> set r \<Longrightarrow> split_on sep (x @ r) = butlast (split_on sep x) @ [last (split_on sep x) @ r]"
proof (induction x)
  case (Cons c x)
  then show ?case by (cases "split_on sep x") (auto simp: Cons_eq_append_conv)
qed (simp add: split_no_sep)

definition solid_lines :: "string \<Rightarrow> string list" where
  \<comment> \<open>the lines that are not blank, trimmed\<close>
  "solid_lines s = filter (\<lambda>t. t \<noteq> []) (map trim_space (split_on newline s))"

lemma rune_newline: "r \<in> set space_runes \<Longrightarrow> r = [newline] \<or> newline \<notin> set r"
  by (auto simp: space_runes_def)

lemma solid_lines_before: "r \<in> set space_runes \<Longrightarrow> solid_lines (r @ x) = solid_lines x"
proof -
  assume r: "r \<in> set space_runes"
  obtain h t where x: "split_on newline x = h # t" by (cases "split_on newline x") auto
  show ?thesis using rune_newline [OF r]
  proof
    assume "r = [newline]"
    then show ?thesis by (simp add: solid_lines_def)
  next
    assume "newline \<notin> set r"
    then show ?thesis using x trim_space_left [OF r, of h] by (simp add: solid_lines_def split_on_before)
  qed
qed

lemma solid_lines_after: "r \<in> set space_runes \<Longrightarrow> solid_lines (x @ r) = solid_lines x"
proof -
  assume r: "r \<in> set space_runes"
  obtain t h where x: "split_on newline x = t @ [h]" by (cases "split_on newline x" rule: rev_cases) auto
  show ?thesis using rune_newline [OF r]
  proof
    assume "r = [newline]"
    then show ?thesis using split_on_sep [of newline x "[]"] by (simp add: solid_lines_def)
  next
    assume "newline \<notin> set r"
    then show ?thesis using x trim_space_right [OF r, of h] by (simp add: solid_lines_def split_on_after)
  qed
qed

lemma solid_lines_trim: "solid_lines (trim_space s) = solid_lines s"
proof (induction "length s" arbitrary: s rule: less_induct)
  case less
  show ?case
  proof (cases rule: trim_space_cases [of s])
    case (2 r x)
    then show ?thesis using less [of x] space_runes_nonempty [of r] solid_lines_before by simp
  next
    case (3 r x)
    then show ?thesis using less [of x] space_runes_nonempty [of r] solid_lines_after by simp
  qed simp
qed

lemma solid_lines_member:
  assumes "t \<noteq> []" "t \<notin> trim_space ` set (split_on newline s)" "l \<in> set (split_on newline (trim_space s))"
  shows "trim_space l \<noteq> t"
proof
  assume "trim_space l = t"
  then have "t \<in> set (solid_lines (trim_space s))" using assms(1,3) by (auto simp: solid_lines_def)
  then show False using assms(2) by (auto simp: solid_lines_trim) (auto simp: solid_lines_def)
qed

lemma replace_crlf_absent: "carriage \<notin> set s \<Longrightarrow> replace_all [carriage, newline] [newline] s = s"
  by (induction s) auto

lemma join_newline: "xs \<noteq> [] \<Longrightarrow> join_with [sep] (xs @ [[]]) = join_with [sep] xs @ [sep]"
proof (induction xs)
  case (Cons x xs)
  then show ?case by (cases xs) auto
qed simp

end
