(* ===== verification/Sections.thy ===== *)
theory Sections
  imports GoStrings
begin

text \<open>
  Managed sections of a Markdown file (internal/components/filemerge/section.go): the markers, the
  repair of unpaired markers, injection and removal of a section, and the clean-up of the blocks
  older installers wrote. A file is its bytes.
\<close>

section \<open>Markers\<close>

definition marker_prefix :: string where "marker_prefix = ''<!-- gentle-ai:''"
definition marker_suffix :: string where "marker_suffix = '' -->''"
definition close_prefix :: string where "close_prefix = ''<!-- /gentle-ai:''"

definition open_marker :: "string \<Rightarrow> string" where
  "open_marker i = marker_prefix @ i @ marker_suffix"

definition close_marker :: "string \<Rightarrow> string" where
  "close_marker i = close_prefix @ i @ marker_suffix"

lemma marker_lengths [simp]:
  "length (open_marker i) = 19 + length i" "length (close_marker i) = 20 + length i"
  by (simp_all add: open_marker_def close_marker_def marker_prefix_def close_prefix_def marker_suffix_def)

lemma markers_nonempty [simp]: "open_marker i \<noteq> []" "close_marker i \<noteq> []"
  by (simp_all add: open_marker_def close_marker_def marker_prefix_def close_prefix_def)

lemma cut_out_less:
  "find_sub s sub = Some k \<Longrightarrow> sub \<noteq> [] \<Longrightarrow> length (cut_out k (length sub) s) < length s"
proof -
  assume a: "find_sub s sub = Some k" "sub \<noteq> []"
  then obtain n where "length sub = Suc n" by (cases sub) auto
  with find_sub_bound [OF a(1)] show ?thesis by (simp add: cut_out_def)
qed

section \<open>Injection\<close>

function strip_orphan_markers :: "string \<Rightarrow> string \<Rightarrow> string" where
  \<comment> \<open>section id and content\<close>
  "strip_orphan_markers i content =
     (case (find_sub content (open_marker i), find_sub content (close_marker i)) of
        (None, None) \<Rightarrow> content
      | (None, Some c) \<Rightarrow> strip_orphan_markers i (cut_out c (length (close_marker i)) content)
      | (Some k, None) \<Rightarrow> strip_orphan_markers i (cut_out k (length (open_marker i)) content)
      | (Some k, Some c) \<Rightarrow>
          if c < k then strip_orphan_markers i (cut_out c (length (close_marker i)) content)
          else content)"
  by pat_completeness auto
termination
  by (relation "measure (\<lambda>(i, content). length content)")
    (auto simp only: in_measure prod.case wf_measure intro!: cut_out_less markers_nonempty)

declare strip_orphan_markers.simps [simp del]

definition section_body :: "string \<Rightarrow> string" where
  \<comment> \<open>the content as it is written between the markers\<close>
  "section_body content =
     [newline] @ content @ (if has_suffix content [newline] then [] else [newline])"

definition remove_section :: "string \<Rightarrow> string \<Rightarrow> string" where
  \<comment> \<open>the text before the opening marker and after the closing marker\<close>
  "remove_section before after0 =
     (let after = (case after0 of [] \<Rightarrow> [] | c # cs \<Rightarrow> if c = newline then cs else after0);
          result = trim_right_set [newline] before
      in if after \<noteq> [] then (if result \<noteq> [] then result @ [newline] else result) @ after
         else if result \<noteq> [] then result @ [newline] else result)"

definition inject_markdown_section :: "string \<Rightarrow> string \<Rightarrow> string \<Rightarrow> string" where
  "inject_markdown_section existing0 i content =
     (let existing = strip_orphan_markers i existing0;
          append_section =
            (if content = [] then existing
             else existing @ (if existing \<noteq> [] \<and> \<not> has_suffix existing [newline] then [newline] else [])
               @ (if existing \<noteq> [] then [newline] else [])
               @ open_marker i @ section_body content @ close_marker i @ [newline])
      in case (find_sub existing (open_marker i), find_sub existing (close_marker i)) of
           (Some k, Some c) \<Rightarrow>
             if c > k then
               let before = take k existing; after = drop (c + length (close_marker i)) existing in
               if content = [] then remove_section before after
               else before @ open_marker i @ section_body content @ close_marker i @ after
             else append_section
         | _ \<Rightarrow> append_section)"

section \<open>Commented sections of an asset\<close>

definition extract_html_comment_section :: "string \<Rightarrow> string \<Rightarrow> string" where
  "extract_html_comment_section content name =
     (let open_tag = ''<!-- section:'' @ name @ '' -->'';
          close_tag = ''<!-- /section:'' @ name @ '' -->''
      in case (find_sub content open_tag, find_sub content close_tag) of
           (Some start, Some stop) \<Rightarrow>
             if stop \<le> start then content
             else let after_open = start + length open_tag in
               trim_left_set ('' '' @ [CHR 0x09, carriage, newline])
                 (take (stop - after_open) (drop after_open content))
         | _ \<Rightarrow> content)"

section \<open>Legacy persona text\<close>

definition persona_fingerprints :: "string list" where
  "persona_fingerprints = [''## Personality'', ''Senior Architect'', ''## Rules'']"

definition strip_legacy_persona_block :: "string \<Rightarrow> string" where
  "strip_legacy_persona_block content =
     (if list_ex (\<lambda>fp. \<not> contains content fp) persona_fingerprints then content
      else case find_sub content marker_prefix of
        None \<Rightarrow> if list_ex (\<lambda>fp. \<not> contains content fp) persona_fingerprints then content else []
      | Some k \<Rightarrow>
          if list_ex (\<lambda>fp. \<not> contains (take k content) fp) persona_fingerprints then content
          else trim_left_set [carriage, newline] (drop k content))"

section \<open>Legacy agent teams block\<close>

datatype atl_side = AtlBegin | AtlEnd

fun atl_marker :: "atl_side \<Rightarrow> string" where
  "atl_marker AtlBegin = ''<!-- BEGIN:agent-teams-lite -->''"
| "atl_marker AtlEnd = ''<!-- END:agent-teams-lite -->''"

function find_line_start_from :: "string \<Rightarrow> string \<Rightarrow> nat \<Rightarrow> nat option" where
  "find_line_start_from s needle offset =
     (case find_sub (drop offset s) needle of None \<Rightarrow> None
      | Some k \<Rightarrow>
          let a = offset + k in
          if a = 0 \<or> s ! (a - 1) = newline then Some a
          else if a + 1 \<ge> length s then None
          else find_line_start_from s needle (a + 1))"
  by pat_completeness auto
termination by (relation "measure (\<lambda>(s, needle, offset). length s - offset)") auto

declare find_line_start_from.simps [simp del]

definition find_line_start :: "string \<Rightarrow> string \<Rightarrow> nat option" where
  "find_line_start s needle = find_line_start_from s needle 0"

lemma find_line_start_bound:
  "find_line_start_from s needle offset = Some k \<Longrightarrow> offset \<le> length s \<Longrightarrow>
     offset \<le> k \<and> k + length needle \<le> length s"
proof (induction s needle offset rule: find_line_start_from.induct)
  case (1 s needle offset)
  obtain j where j: "find_sub (drop offset s) needle = Some j"
    using 1(2) by (subst (asm) find_line_start_from.simps) (auto split: option.splits)
  have b: "j + length needle \<le> length (drop offset s)" using j by (rule find_sub_bound)
  show ?case
  proof (cases "offset + j = 0 \<or> s ! (offset + j - 1) = newline")
    case True
    then have "k = offset + j" using 1(2) j by (subst (asm) find_line_start_from.simps) simp
    then show ?thesis using b 1(3) by auto
  next
    case False
    then have l: "\<not> offset + j + 1 \<ge> length s" and r: "find_line_start_from s needle (offset + j + 1) = Some k"
      using 1(2) j by (subst (asm) find_line_start_from.simps, simp add: Let_def split: if_splits)+
    from 1(1) [OF j refl False l r] l show ?thesis by simp
  qed
qed

function remove_line_start_markers :: "atl_side \<Rightarrow> string \<Rightarrow> string" where
  "remove_line_start_markers side content =
     (case find_line_start content (atl_marker side) of None \<Rightarrow> content
      | Some k \<Rightarrow>
          let e0 = k + length (atl_marker side);
              e1 = (if e0 < length content \<and> content ! e0 = carriage then e0 + 1 else e0);
              e2 = (if e1 < length content \<and> content ! e1 = newline then e1 + 1 else e1)
          in remove_line_start_markers side (take k content @ drop e2 content))"
  by pat_completeness auto
termination
proof (relation "measure (\<lambda>(side, content). length content)")
  fix side :: atl_side and content k e0 e1 e2
  assume a: "find_line_start content (atl_marker side) = Some k" "e0 = k + length (atl_marker side)"
    "e1 = (if e0 < length content \<and> content ! e0 = carriage then e0 + 1 else e0)"
    "e2 = (if e1 < length content \<and> content ! e1 = newline then e1 + 1 else e1)"
  have "k + length (atl_marker side) \<le> length content"
    using find_line_start_bound [OF a(1) [unfolded find_line_start_def]] by simp
  moreover obtain n where "length (atl_marker side) = Suc n" by (cases side) simp_all
  moreover have "e0 \<le> e2" using a(3,4) by simp
  ultimately have "length (take k content @ drop e2 content) < length content" using a(2) by simp
  then show "((side, take k content @ drop e2 content), side, content)
      \<in> measure (\<lambda>(side, content). length content)" by simp
qed simp

declare remove_line_start_markers.simps [simp del]

definition join_blocks :: "string \<Rightarrow> string \<Rightarrow> string" where
  "join_blocks before after =
     (if before = [] \<and> after = [] then []
      else (if before \<noteq> [] then before @ [newline] else [])
        @ (if after \<noteq> [] then (if before \<noteq> [] then [newline] else []) @ after else []))"

function strip_atl_pairs :: "string \<Rightarrow> string" where
  "strip_atl_pairs content =
     (case find_line_start content (atl_marker AtlBegin) of None \<Rightarrow> content
      | Some b \<Rightarrow>
          let start = b + length (atl_marker AtlBegin) in
          (case find_line_start (drop start content) (atl_marker AtlEnd) of None \<Rightarrow> content
           | Some e \<Rightarrow>
               strip_atl_pairs (join_blocks (trim_right_set [carriage, newline] (take b content))
                 (trim_left_set [carriage, newline]
                    (drop (start + e + length (atl_marker AtlEnd)) content)))))"
  by pat_completeness auto
termination
proof (relation "measure length")
  fix content b start e
  assume a: "find_line_start content (atl_marker AtlBegin) = Some b"
    "start = b + length (atl_marker AtlBegin)"
  let ?x = "trim_right_set [carriage, newline] (take b content)"
  let ?y = "trim_left_set [carriage, newline] (drop (start + e + length (atl_marker AtlEnd)) content)"
  have "b + length (atl_marker AtlBegin) \<le> length content"
    using find_line_start_bound [OF a(1) [unfolded find_line_start_def]] by simp
  moreover have "length ?x \<le> b" using trim_right_set_le [of _ "take b content"] by (auto intro: order_trans)
  moreover have "length ?y \<le> length content - (start + e + length (atl_marker AtlEnd))"
    using trim_left_set_le [of _ "drop (start + e + length (atl_marker AtlEnd)) content"] by simp
  ultimately have "length ?x + length ?y + 2 < length content" using a(2) by simp
  moreover have "length (join_blocks ?x ?y) \<le> length ?x + length ?y + 2" by (simp add: join_blocks_def)
  ultimately show "(join_blocks ?x ?y, content) \<in> measure length" by simp
qed simp

declare strip_atl_pairs.simps [simp del]

function collapse_newlines :: "string \<Rightarrow> string" where
  "collapse_newlines content =
     (if contains content [newline, newline, newline]
      then collapse_newlines (replace_all [newline, newline, newline] [newline, newline] content)
      else content)"
  by pat_completeness auto
termination
  by (relation "measure length") (auto simp: contains_def intro!: replace_all_shorter)

declare collapse_newlines.simps [simp del]

definition strip_legacy_atl_block :: "string \<Rightarrow> string" where
  "strip_legacy_atl_block content =
     collapse_newlines
       (remove_line_start_markers AtlBegin (remove_line_start_markers AtlEnd (strip_atl_pairs content)))"

end
