(* ===== verification/SectionProps.thy ===== *)
theory SectionProps
  imports Sections
begin

text \<open>
  Correctness of the managed sections. A section id without \<^verbatim>\<open><\<close> and newline gives markers that
  cannot straddle the pieces a file is put together from, so the first occurrences of the markers
  in an injected file are known; idempotence, removal and the locality of an injection follow.
\<close>

section \<open>Markers in composed text\<close>

definition plain_id :: "string \<Rightarrow> bool" where
  "plain_id i \<longleftrightarrow> CHR ''<'' \<notin> set i \<and> newline \<notin> set i"

lemma marker_tails:
  assumes "plain_id i"
  shows "CHR ''<'' \<notin> set (tl (open_marker i))" "CHR ''<'' \<notin> set (tl (close_marker i))"
    "newline \<notin> set (open_marker i)" "newline \<notin> set (close_marker i)"
    "newline \<notin> set (tl (open_marker i))" "newline \<notin> set (tl (close_marker i))"
  using assms by (auto simp: plain_id_def open_marker_def close_marker_def marker_prefix_def
      close_prefix_def marker_suffix_def)

lemma marker_heads:
  "\<exists>t. open_marker i = CHR ''<'' # t" "\<exists>t. close_marker i = CHR ''<'' # t"
  by (simp_all add: open_marker_def close_marker_def marker_prefix_def close_prefix_def)

lemma find_absent [simp]: "find_sub (open_marker i) (close_marker i) = None"
  by (rule find_sub_long) simp

lemma find_before_newline:
  assumes "sub \<noteq> []" "newline \<notin> set sub"
  shows "find_sub (newline # s) sub = map_option Suc (find_sub s sub)"
  using assms by (cases sub) auto

lemma find_newlines:
  assumes "sub \<noteq> []" "newline \<notin> set sub" "list_all (\<lambda>c. c = newline) s"
  shows "find_sub s sub = None"
  using assms(3) find_before_newline [OF assms(1,2)] assms(1) by (induction s) auto

lemma find_in_tail:
  \<comment> \<open>a needle absent from the front is first found where the text after it begins\<close>
  assumes "sub \<noteq> []" "c \<notin> set (tl sub)" "find_sub xs sub = None"
  shows "find_sub (xs @ c # ys) sub = map_option ((+) (length xs)) (find_sub (c # ys) sub)"
  using find_sub_skip [OF assms(1,2)] assms(3) by simp

lemma find_first_marker:
  assumes "plain_id i" "m = open_marker i \<or> m = close_marker i" "find_sub xs m = None"
  shows "find_sub (xs @ m @ ys) m = Some (length xs)"
proof -
  obtain t where m: "m = CHR ''<'' # t" using assms(2) marker_heads by blast
  have tl: "CHR ''<'' \<notin> set (tl m)" using assms(1,2) marker_tails(1,2) by metis
  have "find_sub (CHR ''<'' # t @ ys) m = Some 0" by (rule find_sub_prefix) (simp_all add: m)
  then show ?thesis using find_in_tail [OF _ tl assms(3), of "t @ ys"] m by simp
qed

lemma find_past_marker:
  \<comment> \<open>the closing marker is not found before or across an opening one\<close>
  assumes "plain_id i" "find_sub xs (close_marker i) = None"
  shows "find_sub (xs @ open_marker i) (close_marker i) = None"
proof -
  obtain t where o: "open_marker i = CHR ''<'' # t" using marker_heads by blast
  have "find_sub (CHR ''<'' # t) (close_marker i) = None" using find_absent [of i] unfolding o .
  then show ?thesis
    using find_in_tail [OF markers_nonempty(2) marker_tails(2) [OF assms(1)] assms(2), of t] o by simp
qed

lemma find_across_newline:
  assumes "sub \<noteq> []" "newline \<notin> set sub" "find_sub xs sub = None"
  shows "find_sub (xs @ newline # ys) sub = map_option (\<lambda>k. length xs + Suc k) (find_sub ys sub)"
proof -
  have "newline \<notin> set (tl sub)" using assms(2) by (cases sub) auto
  from find_in_tail [OF assms(1) this assms(3), of ys] show ?thesis
    unfolding find_before_newline [OF assms(1,2)] by (simp add: option.map_comp comp_def)
qed

lemma section_body_absent:
  assumes "plain_id i" "find_sub content (close_marker i) = None"
  shows "find_sub (section_body content) (close_marker i) = None"
proof -
  note n = markers_nonempty(2) [of i] marker_tails(4) [OF assms(1)]
  have "find_sub (content @ [newline]) (close_marker i) = None"
    using find_across_newline [OF n assms(2), of "[]"] n by simp
  then show ?thesis using assms(2)
    unfolding section_body_def append_Cons append_Nil find_before_newline [OF n] by simp
qed

section \<open>Where an injected file has its markers\<close>

lemma markers_of_section:
  assumes "plain_id i" "find_sub before (open_marker i) = None" "find_sub before (close_marker i) = None"
    and "find_sub body (close_marker i) = None" "hd body = newline" "body \<noteq> []"
  shows "find_sub (before @ open_marker i @ body @ close_marker i @ after) (open_marker i) = Some (length before)"
    "find_sub (before @ open_marker i @ body @ close_marker i @ after) (close_marker i) =
       Some (length before + length (open_marker i) + length body)"
proof -
  show "find_sub (before @ open_marker i @ body @ close_marker i @ after) (open_marker i) = Some (length before)"
    by (rule find_first_marker) (use assms in auto)
  obtain b where b: "body = newline # b" using assms(5,6) by (cases body) auto
  note n = markers_nonempty(2) [of i] marker_tails(4) [OF assms(1)]
  have "find_sub ((before @ open_marker i) @ newline # b) (close_marker i) = None"
    unfolding find_across_newline [OF n find_past_marker [OF assms(1,3)]]
    using assms(4) unfolding b find_before_newline [OF n] by simp
  then have "find_sub (before @ open_marker i @ body) (close_marker i) = None" by (simp add: b)
  from find_first_marker [OF assms(1) _ this] show
    "find_sub (before @ open_marker i @ body @ close_marker i @ after) (close_marker i) =
       Some (length before + length (open_marker i) + length body)" by simp
qed

lemma strip_paired:
  "find_sub s (open_marker i) = Some k \<Longrightarrow> find_sub s (close_marker i) = Some c \<Longrightarrow> k < c \<Longrightarrow>
     strip_orphan_markers i s = s"
  by (subst strip_orphan_markers.simps) simp

lemma strip_absent:
  "find_sub s (open_marker i) = None \<Longrightarrow> find_sub s (close_marker i) = None \<Longrightarrow> strip_orphan_markers i s = s"
  by (subst strip_orphan_markers.simps) simp

definition tidy :: "string \<Rightarrow> string \<Rightarrow> bool" where
  \<comment> \<open>no marker, or an opening marker before the first closing one\<close>
  "tidy i s \<longleftrightarrow> (case (find_sub s (open_marker i), find_sub s (close_marker i)) of
     (None, None) \<Rightarrow> True | (Some k, Some c) \<Rightarrow> k \<le> c | _ \<Rightarrow> False)"

lemma strip_result: "tidy i (strip_orphan_markers i s)"
proof (induction i s rule: strip_orphan_markers.induct)
  case (1 i content)
  show ?case
  proof (cases "find_sub content (open_marker i)")
    case None
    then show ?thesis using 1(1) [OF refl None]
      by (subst strip_orphan_markers.simps, cases "find_sub content (close_marker i)") (simp_all add: tidy_def)
  next
    case (Some k)
    show ?thesis
    proof (cases "find_sub content (close_marker i)")
      case None
      then show ?thesis using 1(2) [OF refl Some None] Some by (subst strip_orphan_markers.simps) simp
    next
      case c: (Some c)
      show ?thesis
      proof (cases "c < k")
        case True
        then show ?thesis using 1(3) [OF refl Some c] Some c by (subst strip_orphan_markers.simps) simp
      next
        case False
        then show ?thesis using Some c by (subst strip_orphan_markers.simps) (simp add: tidy_def)
      qed
    qed
  qed
qed

lemma inject_replaces:
  assumes "strip_orphan_markers i e = s" "find_sub s (open_marker i) = Some k"
    "find_sub s (close_marker i) = Some c" "k < c"
  shows "inject_markdown_section e i content =
     (if content = [] then remove_section (take k s) (drop (c + length (close_marker i)) s)
      else take k s @ open_marker i @ section_body content @ close_marker i @ drop (c + length (close_marker i)) s)"
  using assms by (simp add: inject_markdown_section_def Let_def)

definition section_lead :: "string \<Rightarrow> string" where
  \<comment> \<open>what separates an appended section from the text before it\<close>
  "section_lead s =
     (if s \<noteq> [] \<and> \<not> has_suffix s [newline] then [newline] else []) @ (if s \<noteq> [] then [newline] else [])"

lemma inject_appends:
  assumes "strip_orphan_markers i e = s" "find_sub s (open_marker i) = None"
    "find_sub s (close_marker i) = None"
  shows "inject_markdown_section e i content =
     (if content = [] then s
      else (s @ section_lead s) @ open_marker i @ section_body content @ close_marker i @ [newline])"
  using assms by (simp add: inject_markdown_section_def Let_def section_lead_def)

lemma section_body_head [simp]: "hd (section_body c) = newline" "section_body c \<noteq> []"
  by (simp_all add: section_body_def)

lemma open_not_close: "find_sub s (open_marker i) = Some k \<Longrightarrow> find_sub s (close_marker i) = Some k \<Longrightarrow> False"
proof -
  assume a: "find_sub s (open_marker i) = Some k" "find_sub s (close_marker i) = Some k"
  have "take 6 (open_marker i @ xs) = take 6 (close_marker i @ ys) \<Longrightarrow> False" for xs ys
    by (simp add: open_marker_def close_marker_def marker_prefix_def close_prefix_def)
  moreover have "open_marker i @ drop (k + length (open_marker i)) s = drop k s"
    "close_marker i @ drop (k + length (close_marker i)) s = drop k s"
    using find_sub_split [OF a(1)] find_sub_split [OF a(2)] find_sub_bound [OF a(1)]
    by (metis add_leD1 append_eq_conv_conj append_same_eq length_take min.absorb2)+
  ultimately show False by metis
qed

lemma lead_absent:
  assumes "plain_id i" "m = open_marker i \<or> m = close_marker i" "find_sub s m = None"
  shows "find_sub (s @ section_lead s) m = None"
proof -
  have m: "m \<noteq> []" "newline \<notin> set m"
    using assms(1,2) markers_nonempty marker_tails(3,4) by metis+
  have "find_sub (s @ newline # t) m = None" if "list_all (\<lambda>c. c = newline) t" for t
    unfolding find_across_newline [OF m assms(3)] using find_newlines [OF m that] by simp
  then show ?thesis using assms(3) by (auto simp: section_lead_def)
qed

lemma injected_shape:
  assumes "plain_id i" "content \<noteq> []"
  obtains before after where
    "inject_markdown_section e i content = before @ open_marker i @ section_body content @ close_marker i @ after"
    "find_sub before (open_marker i) = None" "find_sub before (close_marker i) = None"
proof -
  define s where s: "s = strip_orphan_markers i e"
  consider (none) "find_sub s (open_marker i) = None" "find_sub s (close_marker i) = None"
    | (pair) k c where "find_sub s (open_marker i) = Some k" "find_sub s (close_marker i) = Some c" "k \<le> c"
    using strip_result [of i e] unfolding s [symmetric] tidy_def by (auto split: option.splits)
  then show thesis
  proof cases
    case none
    show thesis
      using inject_appends [OF s [symmetric] none] assms(2) lead_absent [OF assms(1)] none
      by (intro that [of "s @ section_lead s" "[newline]"]) simp_all
  next
    case (pair k c)
    then have less: "k < c" using open_not_close [of s i k] by (cases "k = c") auto
    show thesis
      using inject_replaces [OF s [symmetric] pair(1,2) less] assms(2)
        find_sub_take [OF pair(1)] find_sub_take [OF pair(2) pair(3)]
      by (intro that [of "take k s" "drop (c + length (close_marker i)) s"]) simp_all
  qed
qed

lemma inject_in_place:
  assumes "plain_id i" "find_sub before (open_marker i) = None" "find_sub before (close_marker i) = None"
    and "find_sub body (close_marker i) = None" "hd body = newline" "body \<noteq> []"
  shows "inject_markdown_section (before @ open_marker i @ body @ close_marker i @ after) i content =
     (if content = [] then remove_section before after
      else before @ open_marker i @ section_body content @ close_marker i @ after)"
proof -
  let ?s = "before @ open_marker i @ body @ close_marker i @ after"
  note m = markers_of_section [OF assms, of after]
  have less: "length before < length before + length (open_marker i) + length body" by simp
  show ?thesis using inject_replaces [OF strip_paired [OF m less] m less, of content] by simp
qed

section \<open>Legacy blocks\<close>

lemma collapse_newlines_clean: "\<not> contains (collapse_newlines s) [newline, newline, newline]"
proof (induction s rule: collapse_newlines.induct)
  case (1 content)
  then show ?case by (cases "contains content [newline, newline, newline]") (subst collapse_newlines.simps, simp)+
qed

lemma find_line_start_None: "find_sub s needle = None \<Longrightarrow> find_line_start s needle = None"
  unfolding find_line_start_def by (subst find_line_start_from.simps) simp

lemma atl_nothing_to_strip:
  assumes "find_line_start s (atl_marker AtlBegin) = None" "find_line_start s (atl_marker AtlEnd) = None"
  shows "strip_legacy_atl_block s = collapse_newlines s"
proof -
  have "strip_atl_pairs s = s" using assms by (subst strip_atl_pairs.simps) simp
  moreover have "remove_line_start_markers side s = s" for side
    using assms by (cases side) (subst remove_line_start_markers.simps, simp)+
  ultimately show ?thesis by (simp add: strip_legacy_atl_block_def)
qed

lemma atl_rewrites_clean_file:
  \<comment> \<open>a file without a block loses blank lines\<close>
  "strip_legacy_atl_block (''a'' @ [newline, newline, newline] @ ''b'') = ''a'' @ [newline, newline] @ ''b''"
proof -
  let ?s = "''a'' @ [newline, newline, newline] @ ''b''"
  have "find_line_start ?s (atl_marker AtlBegin) = None" "find_line_start ?s (atl_marker AtlEnd) = None"
    by (rule find_line_start_None, code_simp)+
  then have "strip_legacy_atl_block ?s = collapse_newlines ?s" by (rule atl_nothing_to_strip)
  also have "\<dots> = ''a'' @ [newline, newline] @ ''b''"
    by (subst collapse_newlines.simps, subst collapse_newlines.simps)
      (simp add: contains_def sublist_Cons_right)
  finally show ?thesis .
qed

lemma removal_joins_lines:
  \<comment> \<open>removing a section changes the blank lines around it\<close>
  "remove_section (''a'' @ [newline, newline, newline]) (newline # ''b'') = ''a'' @ [newline] @ ''b''"
  by (simp add: remove_section_def trim_right_set_def)

lemma trim_left_suffix: "suffix (trim_left_set cs s) s"
  by (simp add: trim_left_set_def suffix_dropWhile)

lemma empty_lacks: "list_ex (\<lambda>fp. \<not> contains [] fp) persona_fingerprints"
  by (simp add: persona_fingerprints_def contains_def)

lemma marker_prefix_head: "find_sub s marker_prefix = Some k \<Longrightarrow>
    trim_left_set [carriage, newline] (drop k s) = drop k s \<and> find_sub (drop k s) marker_prefix = Some 0"
proof -
  assume a: "find_sub s marker_prefix = Some k"
  have "s = take k s @ marker_prefix @ drop (k + length marker_prefix) s" by (rule find_sub_split [OF a])
  then have "drop k s = marker_prefix @ drop (k + length marker_prefix) s"
    using find_sub_bound [OF a] by (metis add_leD1 append_eq_conv_conj length_take min.absorb2)
  then obtain t where t: "drop k s = marker_prefix @ t" by blast
  have "find_sub (drop k s) marker_prefix = Some 0"
    unfolding t by (rule find_sub_prefix) (simp_all add: marker_prefix_def)
  moreover have "trim_left_set [carriage, newline] (marker_prefix @ t) = marker_prefix @ t"
    by (simp add: trim_left_set_def marker_prefix_def)
  ultimately show ?thesis unfolding t by simp
qed

section \<open>Properties\<close>

text \<open>injecting a section again changes nothing, whatever the file was, unpaired markers
  included, when the content does not contain the section's own closing marker.\<close>

theorem injection_idempotent:
  assumes "plain_id i" "content \<noteq> []" "\<not> contains content (close_marker i)"
  shows "inject_markdown_section (inject_markdown_section e i content) i content =
     inject_markdown_section e i content"
proof -
  obtain before after where s:
    "inject_markdown_section e i content = before @ open_marker i @ section_body content @ close_marker i @ after"
    "find_sub before (open_marker i) = None" "find_sub before (close_marker i) = None"
    by (rule injected_shape [OF assms(1,2)])
  have "find_sub content (close_marker i) = None" using assms(3) by (simp add: contains_find)
  note body = section_body_absent [OF assms(1) this]
  show ?thesis unfolding s(1) using inject_in_place [OF assms(1) s(2,3) body] assms(2) by simp
qed

theorem injection_idempotent_witness:
  "let e = ''x'' @ close_marker ''a'' @ ''y''; r = inject_markdown_section e ''a'' ''hi'' in
     r = ''xy'' @ [newline, newline] @ open_marker ''a'' @ [newline] @ ''hi'' @ [newline] @ close_marker ''a'' @ [newline] \<and>
     inject_markdown_section r ''a'' ''hi'' = r"
proof -
  let ?e = "''x'' @ close_marker ''a'' @ ''y''"
  have "plain_id ''a''" "\<not> contains ''hi'' (close_marker ''a'')" by code_simp+
  then have "inject_markdown_section (inject_markdown_section ?e ''a'' ''hi'') ''a'' ''hi'' =
      inject_markdown_section ?e ''a'' ''hi''" by (intro injection_idempotent) simp_all
  moreover have "inject_markdown_section ?e ''a'' ''hi'' = ''xy'' @ [newline, newline] @ open_marker ''a''
      @ [newline] @ ''hi'' @ [newline] @ close_marker ''a'' @ [newline]" by code_simp
  ultimately show ?thesis by (simp add: Let_def)
qed

text \<open>C19: removing a section that was added to a file without it gives the file back, with exactly
  one newline at its end unless it has no text.\<close>

theorem inject_then_remove:
  assumes "plain_id i" "content \<noteq> []" "\<not> contains content (close_marker i)"
    and "\<not> contains e (open_marker i)" "\<not> contains e (close_marker i)"
  shows "inject_markdown_section (inject_markdown_section e i content) i [] =
     (let t = trim_right_set [newline] e in if t = [] then [] else t @ [newline])"
proof -
  have e: "find_sub e (open_marker i) = None" "find_sub e (close_marker i) = None"
    using assms(4,5) by (simp_all add: contains_find)
  have "inject_markdown_section e i content =
      (e @ section_lead e) @ open_marker i @ section_body content @ close_marker i @ [newline]"
    using inject_appends [OF strip_absent [OF e] e] assms(2) by simp
  moreover have "find_sub content (close_marker i) = None" using assms(3) by (simp add: contains_find)
  note body = section_body_absent [OF assms(1) this]
  have "trim_right_set [newline] (e @ section_lead e) = trim_right_set [newline] e"
    by (rule trim_right_set_append) (simp add: section_lead_def)
  then have "remove_section (e @ section_lead e) [newline] =
      (let t = trim_right_set [newline] e in if t = [] then [] else t @ [newline])"
    by (simp add: remove_section_def Let_def)
  ultimately show ?thesis
    using inject_in_place [OF assms(1) lead_absent [OF assms(1) _ e(1)] lead_absent [OF assms(1) _ e(2)] body, of "[newline]" "[]"]
    by simp
qed

theorem inject_then_remove_witness:
  "inject_markdown_section (inject_markdown_section (''x'' @ [newline]) ''a'' ''hi'') ''a'' [] = ''x'' @ [newline]"
proof -
  have "plain_id ''a''" "\<not> contains ''hi'' (close_marker ''a'')"
    "\<not> contains (''x'' @ [newline]) (open_marker ''a'')" "\<not> contains (''x'' @ [newline]) (close_marker ''a'')"
    by code_simp+
  from inject_then_remove [OF this(1) _ this(2-4)] show ?thesis by (simp add: trim_right_set_def)
qed

text \<open>an injection rewrites the first section with that id and nothing else: the text before
  it and all the text after its closing marker stay as they are, further copies of the section
  included.\<close>

lemma injection_is_local:
  assumes "plain_id i" "content \<noteq> []"
    and "\<not> contains before (open_marker i)" "\<not> contains before (close_marker i)" "\<not> contains old (close_marker i)"
  shows "inject_markdown_section (before @ open_marker i @ [newline] @ old @ close_marker i @ after) i content =
     before @ open_marker i @ section_body content @ close_marker i @ after"
proof -
  note n = markers_nonempty(2) [of i] marker_tails(4) [OF assms(1)]
  have "find_sub (newline # old) (close_marker i) = None"
    unfolding find_before_newline [OF n] using assms(5) by (simp add: contains_find)
  from inject_in_place [OF assms(1) _ _ this, of before after content] show ?thesis
    using assms(2-4) by (simp add: contains_find)
qed

lemma injection_is_local_witness:
  "let s = open_marker ''a'' @ [newline] @ ''old'' @ close_marker ''a'' in
   inject_markdown_section (''x'' @ s @ ''y'' @ s) ''a'' ''new'' =
     ''x'' @ open_marker ''a'' @ [newline] @ ''new'' @ [newline] @ close_marker ''a'' @ ''y'' @ s"
proof -
  have "plain_id ''a''" "\<not> contains ''x'' (open_marker ''a'')" "\<not> contains ''x'' (close_marker ''a'')"
    "\<not> contains ''old'' (close_marker ''a'')" by code_simp+
  from injection_is_local [OF this(1) _ this(2-4), of "''new''"
      "''y'' @ open_marker ''a'' @ [newline] @ ''old'' @ close_marker ''a''"]
  show ?thesis by (simp add: Let_def section_body_def has_suffix_def suffix_to_prefix)
qed

text \<open>The clean-up of old installers' text is conservative. Stripping the legacy persona keeps
  a tail of the file with everything from the first managed marker on, and stripping twice strips
  no more; stripping the agent teams block leaves no run of three newlines.\<close>

theorem legacy_cleanup_conservative:
  "suffix (strip_legacy_persona_block s) s \<and>
   (case find_sub s marker_prefix of None \<Rightarrow> strip_legacy_persona_block s \<in> {s, []}
    | Some k \<Rightarrow> strip_legacy_persona_block s \<in> {s, drop k s}) \<and>
   strip_legacy_persona_block (strip_legacy_persona_block s) = strip_legacy_persona_block s \<and>
   \<not> contains (strip_legacy_atl_block s) [newline, newline, newline]"
proof -
  have nil: "strip_legacy_persona_block [] = []"
    by (simp add: strip_legacy_persona_block_def empty_lacks)
  have tail: "strip_legacy_persona_block (drop k s) = drop k s" if "find_sub s marker_prefix = Some k" for k
    using marker_prefix_head [OF that] empty_lacks by (simp add: strip_legacy_persona_block_def)
  have "case find_sub s marker_prefix of None \<Rightarrow> strip_legacy_persona_block s \<in> {s, []}
    | Some k \<Rightarrow> strip_legacy_persona_block s \<in> {s, drop k s}"
    using marker_prefix_head [of s] by (auto simp: strip_legacy_persona_block_def split: option.splits)
  moreover from this have "suffix (strip_legacy_persona_block s) s"
    by (auto simp: suffix_drop split: option.splits)
  moreover have "strip_legacy_persona_block (strip_legacy_persona_block s) = strip_legacy_persona_block s"
    using calculation(1) nil tail by (auto split: option.splits)
  ultimately show ?thesis using collapse_newlines_clean by (simp add: strip_legacy_atl_block_def)
qed

end
