(* ===== verification/Receipt.thy ===== *)
theory Receipt
  imports V1Validate CompactOps
begin

text \<open>
  The receipt a terminal v1 transaction yields and the delivery gate that checks it (receipt.go,
  gate.go): the structural validator of a receipt, \<^verbatim>\<open>validateDerivedGate\<close> and the reason a gate
  reports.
\<close>

section \<open>Receipts\<close>

definition receipt_schema :: string where
  "receipt_schema = ''gentle-ai.review-receipt/v1''"

record receipt =
  rt_schema :: string
  rt_lineage :: string
  rt_mode :: mode
  rt_generation :: int
  rt_base :: string
  rt_initial :: string
  rt_final :: string
  rt_paths_digest :: string
  rt_fix_delta :: string
  rt_policy :: string
  rt_ledger :: string
  rt_evidence :: string
  rt_judge :: string
  rt_release :: "release_evidence option"
  rt_counters :: counters
  rt_risk :: risk_level
  rt_lenses :: "string slice"
  rt_results :: "lens_result slice"
  rt_terminal :: terminal_state

datatype receipt_error =
    ReceiptNotTerminal | ReceiptSchema | ReceiptLineage check_error | ReceiptGeneration | ReceiptMode
  | ReceiptTrees | ReceiptHashes | ReceiptState v1_error | ReceiptVerification | ReceiptCounters
  | ReceiptJudges | ReceiptTerminal | ReceiptJudgeProof | ReceiptRelease gate_error | ReceiptReleaseTree

definition merged_lens_findings :: "lens_result list \<Rightarrow> finding list" where
  "merged_lens_findings rs = concat (map (\<lambda>r. elems (lr_findings r)) rs)"

definition zero_transaction :: transaction where
  \<comment> \<open>Go's zero value\<close>
  "zero_transaction =
     \<lparr>tx_schema = [], tx_lineage = [], tx_mode = OtherMode [], tx_generation = 0,
      tx_state = OtherState [],
      tx_snapshot = \<lparr>sn_kind = NoKind, sn_projection = NoProjection, sn_unborn = False, sn_base = [],
        sn_candidate = [], sn_paths_digest = [], sn_intended = None, sn_intended_proof = [],
        sn_ledger_ids = None, sn_paths = None, sn_identity = []\<rparr>,
      tx_genesis = None, tx_base = [], tx_paths_digest = [], tx_initial_tree = [], tx_final_tree = [],
      tx_fix_delta = [], tx_policy = [], tx_ledger = [], tx_findings_hash = [], tx_evidence = [],
      tx_invalidation = [], tx_judge_hash = [], tx_agreement = [], tx_judges = None, tx_release = None,
      tx_failed = [], tx_counters = no_counters, tx_findings = None, tx_classifications = None,
      tx_outcomes = None, tx_fix_ids = None, tx_pending = None, tx_fix_caused = None,
      tx_follow_ups = None, tx_original = None, tx_regression = None, tx_risk = NoRisk,
      tx_lenses = None, tx_results = None, tx_original_lines = None, tx_budget = None,
      tx_proposed = None, tx_actual = None, tx_legacy_causality = False, tx_legacy_budget = False\<rparr>"

definition lens_transaction :: "receipt \<Rightarrow> transaction" where
  \<comment> \<open>the transaction a receipt's lens evidence is checked on\<close>
  "lens_transaction r = zero_transaction
     \<lparr>tx_mode := rt_mode r, tx_state := Approved, tx_risk := rt_risk r, tx_lenses := rt_lenses r,
      tx_results := rt_results r, tx_counters := rt_counters r,
      tx_findings := Some (merged_lens_findings (elems (rt_results r)))\<rparr>"

definition validate_approved_receipt :: "receipt \<Rightarrow> receipt_error option" where
  "validate_approved_receipt r =
     (let c = rt_counters r in first_err
       [guard (cn_final c \<noteq> 1) ReceiptVerification,
        (if rt_mode r = Ordinary4R then
           guard (cn_full c \<noteq> 1 \<or> cn_fix c \<noteq> cn_scoped c) ReceiptCounters
         else if rt_mode r = OrdinaryBounded then
           guard (length (elems (rt_results r)) \<noteq> length (elems (rt_lenses r)) \<or> cn_fix c \<noteq> cn_scoped c)
             ReceiptCounters
         else if rt_mode r = JudgmentDay then first_err
           [guard (cn_rounds c \<noteq> cn_rejudgments c) ReceiptCounters,
            guard (cn_judges c \<noteq> 2 \<or> \<not> valid_sha256 (rt_judge r)) ReceiptJudges]
         else None)])"

definition validate_receipt_structure :: "receipt \<Rightarrow> receipt_error option" where
  "validate_receipt_structure r = first_err
     [guard (rt_schema r \<noteq> receipt_schema) ReceiptSchema,
      map_option ReceiptLineage (validate_lineage_id (rt_lineage r)),
      guard (rt_generation r < 1) ReceiptGeneration,
      guard (rt_mode r \<notin> {Ordinary4R, OrdinaryBounded, JudgmentDay}) ReceiptMode,
      guard (\<not> list_all valid_git_tree [rt_base r, rt_initial r, rt_final r]) ReceiptTrees,
      guard (\<not> list_all valid_sha256 [rt_paths_digest r, rt_fix_delta r, rt_policy r, rt_ledger r, rt_evidence r])
        ReceiptHashes,
      map_option ReceiptState (validate_counters (rt_mode r) (rt_counters r)),
      map_option ReceiptState (validate_lens_state (lens_transaction r)),
      (case rt_terminal r of
         TerminalApproved \<Rightarrow> validate_approved_receipt r
       | TerminalEscalated \<Rightarrow> None
       | OtherTerminal _ \<Rightarrow> Some ReceiptTerminal),
      guard (is_ordinary_mode (rt_mode r) \<and> rt_judge r \<noteq> []) ReceiptJudgeProof,
      (case rt_release r of None \<Rightarrow> None
       | Some e \<Rightarrow> first_err
           [map_option ReceiptRelease (validate_release_evidence e),
            guard (re_tree e \<noteq> rt_final r) ReceiptReleaseTree])]"

definition receipt_fields :: "transaction \<Rightarrow> terminal_state \<Rightarrow> receipt" where
  "receipt_fields t terminal =
     \<lparr>rt_schema = receipt_schema, rt_lineage = tx_lineage t, rt_mode = tx_mode t,
      rt_generation = tx_generation t, rt_base = tx_base t, rt_initial = tx_initial_tree t,
      rt_final = tx_final_tree t, rt_paths_digest = tx_paths_digest t, rt_fix_delta = tx_fix_delta t,
      rt_policy = tx_policy t,
      rt_ledger = (if tx_ledger t = [] then empty_fix_delta_hash else tx_ledger t),
      rt_evidence = (if tx_evidence t = [] then empty_fix_delta_hash else tx_evidence t),
      rt_judge = tx_judge_hash t, rt_release = tx_release t, rt_counters = tx_counters t,
      rt_risk = tx_risk t, rt_lenses = append_slice None (elems (tx_lenses t)),
      rt_results = append_slice None (elems (tx_results t)), rt_terminal = terminal\<rparr>"

definition v1_receipt :: "transaction \<Rightarrow> receipt_error + receipt" where
  "v1_receipt t =
     (case terminal_of (tx_state t) of None \<Rightarrow> Inl ReceiptNotTerminal
      | Some terminal \<Rightarrow>
          let r = receipt_fields t terminal in
          (case validate_receipt_structure r of Some e \<Rightarrow> Inl e | None \<Rightarrow> Inr r))"

section \<open>The gate\<close>

definition compatible_advance :: "gate_context \<Rightarrow> bool" where
  "compatible_advance c \<longleftrightarrow>
     gc_gate c = PrePR \<and> (case gc_advance c of None \<Rightarrow> False | Some p \<Rightarrow> ba_compatible p)"

definition release_matches :: "receipt \<Rightarrow> gate_context \<Rightarrow> bool" where
  \<comment> \<open>the checks of the release gate\<close>
  "release_matches r c \<longleftrightarrow>
     (case (rt_release r, gc_release c) of
        (Some a, Some b) \<Rightarrow>
          a = b \<and> validate_release_evidence b = None \<and> re_tree b = gc_candidate c
      | _ \<Rightarrow> False)"

definition validate_derived_gate :: "receipt \<Rightarrow> gate_context \<Rightarrow> gate_result" where
  "validate_derived_gate r c =
     (if validate_receipt_structure r \<noteq> None then GateInvalidated
      else if rt_terminal r = TerminalEscalated \<or> gc_external c = ExternalEscalating then GateEscalated
      else if rt_terminal r \<noteq> TerminalApproved then GateInvalidated
      else if rt_lineage r \<noteq> gc_lineage c \<or> rt_generation r \<noteq> gc_generation c then GateScopeChanged
      else if (rt_final r \<noteq> gc_candidate c \<or> rt_paths_digest r \<noteq> gc_paths_digest c) \<and>
              \<not> compatible_advance c then GateScopeChanged
      else if gc_external c = ExternalInvalidating then GateInvalidated
      else if (rt_base r \<noteq> gc_base c \<and> \<not> compatible_advance c) \<or> rt_fix_delta r \<noteq> gc_fix_delta c \<or>
              rt_policy r \<noteq> gc_policy c \<or> rt_ledger r \<noteq> gc_ledger c \<or> rt_evidence r \<noteq> gc_evidence c
           then GateInvalidated
      else if (gc_gate c = PrePR \<or> gc_gate c = ReleaseGate) \<and> \<not> gc_base_related c \<and>
              \<not> compatible_advance c then GateInvalidated
      else if gc_gate c = ReleaseGate \<and> \<not> release_matches r c then GateInvalidated
      else case gc_gate c of OtherGate _ \<Rightarrow> GateInvalidated | _ \<Rightarrow> GateAllow)"

fun native_gate_reason :: "gate_result \<Rightarrow> string" where
  "native_gate_reason GateAllow =
     ''authoritative transaction, current repository target, and content-bound artifacts match''"
| "native_gate_reason GateScopeChanged =
     ''current repository target no longer matches the reviewed scope''"
| "native_gate_reason GateEscalated = ''transaction or external evidence is terminally escalated''"
| "native_gate_reason GateInvalidated =
     ''content-bound policy, ledger, fix delta, verify evidence, base, or release evidence does not match''"

end
