(* ===== verification/ReceiptProps.thy ===== *)
theory ReceiptProps
  imports Receipt V1Laws V1Samples
begin

text \<open>
  What the v1 receipt and the delivery gate guarantee: which terminal transactions yield a receipt,
  and exactly what a gate has compared before it lets a delivery through.
\<close>

section \<open>Receipts of valid transactions\<close>

lemma v1_checks_parts:
  assumes "v1_checks t = None"
  shows "validate_identity t = None" "validate_content t = None" "validate_finding_routing t = None"
    "validate_counters (tx_mode t) (tx_counters t) = None" "validate_v1_state t = None"
  using assms by (simp_all add: v1_checks_def)

lemma lens_transaction_fields:
  "tx_mode (lens_transaction (receipt_fields t k)) = tx_mode t"
  "tx_state (lens_transaction (receipt_fields t k)) = Approved"
  "tx_risk (lens_transaction (receipt_fields t k)) = tx_risk t"
  "elems (tx_lenses (lens_transaction (receipt_fields t k))) = elems (tx_lenses t)"
  "elems (tx_results (lens_transaction (receipt_fields t k))) = elems (tx_results t)"
  "tx_counters (lens_transaction (receipt_fields t k)) = tx_counters t"
  "tx_findings (lens_transaction (receipt_fields t k)) = Some (merged_lens_findings (elems (tx_results t)))"
  by (simp_all add: lens_transaction_def receipt_fields_def)

lemma receipt_lens_state:
  assumes "validate_lens_state t = None" "tx_state t \<notin> {Unreviewed, Reviewing}"
  shows "validate_lens_state (lens_transaction (receipt_fields t terminal)) = None"
proof -
  have same: "same_lens_findings rs (Some (merged_lens_findings rs))" for rs
    by (simp add: same_lens_findings_def merged_lens_findings_def json_slice_def)
  show ?thesis
    using assms unfolding validate_lens_state_def Let_def lens_transaction_fields
    by (cases "tx_mode t = OrdinaryBounded") (simp_all add: same)
qed

lemma empty_hash_valid [simp]: "valid_sha256 empty_fix_delta_hash"
  by (simp add: empty_fix_delta_hash_def)

lemma first_err_skip [simp]: "first_err (None # cs) = first_err cs" "first_err (Some e # cs) = Some e"
  by (simp_all add: first_err.simps)

lemma terminal_of_cases:
  "terminal_of st = Some k \<longleftrightarrow> st = Approved \<and> k = TerminalApproved \<or> st = Escalated \<and> k = TerminalEscalated"
  by (auto simp: terminal_of_def)

lemma approved_counters:
  assumes "v1_checks t = None" "tx_state t = Approved"
  shows "cn_final (tx_counters t) = 1"
    "is_ordinary_mode (tx_mode t) \<Longrightarrow> cn_fix (tx_counters t) = cn_scoped (tx_counters t)"
    "tx_mode t = JudgmentDay \<Longrightarrow> cn_rounds (tx_counters t) = cn_rejudgments (tx_counters t)"
proof -
  have "validate_resolution_counters (corroborated_ids t \<noteq> []) t = None"
    using checks_settled(1) [OF assms] by (simp add: validate_classified_def Let_def)
  then show "cn_final (tx_counters t) = 1"
    "is_ordinary_mode (tx_mode t) \<Longrightarrow> cn_fix (tx_counters t) = cn_scoped (tx_counters t)"
    "tx_mode t = JudgmentDay \<Longrightarrow> cn_rounds (tx_counters t) = cn_rejudgments (tx_counters t)"
    using assms(2) by (auto simp: validate_resolution_counters_def Let_def split: if_splits)
qed

lemma judge_evidence:
  assumes "validate_judge_state t = None" "tx_state t \<in> {Approved, Escalated}"
  shows "if is_ordinary_mode (tx_mode t) then tx_judge_hash t = []
    else cn_judges (tx_counters t) = 2 \<and> valid_sha256 (tx_judge_hash t)"
proof (cases "is_ordinary_mode (tx_mode t)")
  case True then show ?thesis using assms by (simp add: validate_judge_state_def Let_def)
next
  case False
  obtain proofs h where "validate_judge_proofs (elems (tx_judges t)) (tx_agreement t) = Inr (proofs, h)"
    "h = tx_judge_hash t" "int (length proofs) = cn_judges (tx_counters t)"
    using assms False by (auto simp: validate_judge_state_def Let_def split: sum.splits)
  then show ?thesis using False
    by (auto simp: validate_judge_proofs_def Let_def split: if_splits sum.splits dest: sym)
qed

lemma receipt_structure:
  assumes v: "v1_checks t = None" and st: "tx_state t \<in> {Approved, Escalated}"
    and k: "k = (if tx_state t = Approved then TerminalApproved else TerminalEscalated)"
  shows "validate_receipt_structure (receipt_fields t k) =
    (if tx_state t = Approved \<and> tx_mode t = Ordinary4R \<and> cn_full (tx_counters t) \<noteq> 1
     then Some ReceiptCounters else None)"
proof -
  note p = v1_checks_parts [OF v]
  have i: "validate_lineage_id (tx_lineage t) = None" "1 \<le> tx_generation t"
    "tx_mode t \<in> {Ordinary4R, OrdinaryBounded, JudgmentDay}"
    "list_all valid_git_tree [tx_base t, tx_initial_tree t, tx_final_tree t]"
    "list_all valid_sha256 [tx_paths_digest t, tx_fix_delta t, tx_policy t]"
    "tx_ledger t = [] \<or> valid_sha256 (tx_ledger t)" "tx_evidence t = [] \<or> valid_sha256 (tx_evidence t)"
    using p(1) by (auto simp: validate_identity_def)
  have s: "validate_lens_state t = None" "validate_judge_state t = None"
    using p(5) st by (auto simp: validate_v1_state_def)
  have lens: "validate_lens_state (lens_transaction (receipt_fields t k)) = None"
    using receipt_lens_state [OF s(1)] st by auto
  have release: "(case tx_release t of None \<Rightarrow> None
       | Some e \<Rightarrow> first_err
           [map_option ReceiptRelease (validate_release_evidence e),
            guard (re_tree e \<noteq> tx_final_tree t) ReceiptReleaseTree]) = None"
    using p(2) by (auto simp: validate_content_def split: option.splits)
  have results: "tx_mode t = OrdinaryBounded \<Longrightarrow> length (elems (tx_results t)) = length (elems (tx_lenses t))"
    using s(1) st by (auto simp: validate_lens_state_def Let_def)
  note j = judge_evidence [OF s(2) st]
  have fields: "rt_mode (receipt_fields t k) = tx_mode t" "rt_counters (receipt_fields t k) = tx_counters t"
    "rt_terminal (receipt_fields t k) = k" "rt_judge (receipt_fields t k) = tx_judge_hash t"
    "elems (rt_results (receipt_fields t k)) = elems (tx_results t)"
    "elems (rt_lenses (receipt_fields t k)) = elems (tx_lenses t)"
    "rt_release (receipt_fields t k) = tx_release t" "rt_final (receipt_fields t k) = tx_final_tree t"
    by (simp_all add: receipt_fields_def)
  have head: "rt_schema (receipt_fields t k) = receipt_schema"
    "validate_lineage_id (rt_lineage (receipt_fields t k)) = None" "\<not> rt_generation (receipt_fields t k) < 1"
    "list_all valid_git_tree [rt_base (receipt_fields t k), rt_initial (receipt_fields t k), rt_final (receipt_fields t k)]"
    "list_all valid_sha256 [rt_paths_digest (receipt_fields t k), rt_fix_delta (receipt_fields t k),
       rt_policy (receipt_fields t k), rt_ledger (receipt_fields t k), rt_evidence (receipt_fields t k)]"
    using i by (auto simp: receipt_fields_def)
  note head = head [unfolded fields]
  have tail: "(is_ordinary_mode (tx_mode t) \<and> tx_judge_hash t \<noteq> []) = False" using j by auto
  have approved: "validate_approved_receipt (receipt_fields t k) =
      (if tx_mode t = Ordinary4R \<and> cn_full (tx_counters t) \<noteq> 1 then Some ReceiptCounters else None)"
    if a: "tx_state t = Approved"
  proof -
    note c = approved_counters [OF v a]
    consider "tx_mode t = Ordinary4R" | "tx_mode t = OrdinaryBounded" | "tx_mode t = JudgmentDay" using i(3) by blast
    then show ?thesis
      by cases (use c j results in \<open>simp_all add: validate_approved_receipt_def fields Let_def first_err_skip
          is_ordinary_mode_def guard_def\<close>)
  qed
  show ?thesis
  proof (cases "tx_state t = Approved")
    case True
    then show ?thesis unfolding validate_receipt_structure_def fields tail release
      using head i(3) lens p(4) approved [OF True] k
      by (simp add: first_err_skip guard_def)
  next
    case False
    then show ?thesis unfolding validate_receipt_structure_def fields tail release
      using head i(3) lens p(4) k st
      by (simp add: first_err_skip guard_def)
  qed
qed

lemma gate_allowed_iff:
  "validate_derived_gate r c = GateAllow \<longleftrightarrow>
     validate_receipt_structure r = None \<and> rt_terminal r = TerminalApproved \<and>
     gc_external c \<noteq> ExternalEscalating \<and> gc_external c \<noteq> ExternalInvalidating \<and>
     gc_lineage c = rt_lineage r \<and> gc_generation c = rt_generation r \<and>
     gc_fix_delta c = rt_fix_delta r \<and> gc_policy c = rt_policy r \<and> gc_ledger c = rt_ledger r \<and>
     gc_evidence c = rt_evidence r \<and>
     (let same = gc_candidate c = rt_final r \<and> gc_paths_digest c = rt_paths_digest r \<and> gc_base c = rt_base r in
      case gc_gate c of
        PostApply \<Rightarrow> same | PreCommit \<Rightarrow> same | PrePush \<Rightarrow> same
      | PrePR \<Rightarrow> compatible_advance c \<or> same \<and> gc_base_related c
      | ReleaseGate \<Rightarrow> same \<and> gc_base_related c \<and> release_matches r c
      | OtherGate _ \<Rightarrow> False)"
  by (cases "gc_gate c"; cases "compatible_advance c")
    (auto simp: validate_derived_gate_def Let_def compatible_advance_def)

section \<open>Properties\<close>

lemma receipt_of_terminal:
  assumes "v1_checks t = None" "tx_state t \<in> {Approved, Escalated}"
  shows "v1_receipt t =
    (if tx_state t = Approved \<and> tx_mode t = Ordinary4R \<and> cn_full (tx_counters t) \<noteq> 1 then Inl ReceiptCounters
     else Inr (receipt_fields t (if tx_state t = Approved then TerminalApproved else TerminalEscalated)))"
  using assms(2) receipt_structure [OF assms refl]
  by (auto simp: v1_receipt_def terminal_of_def Let_def split: if_splits)

text \<open>A valid terminal v1 transaction yields a receipt, and the receipt carries its fields. The
  only exception is an approved ordinary 4R transaction that never counted its full review.\<close>

theorem terminal_receipt:
  assumes "v1_checks t = None" "tx_state t \<in> {Approved, Escalated}"
  shows "v1_receipt t =
    (if tx_state t = Approved \<and> tx_mode t = Ordinary4R \<and> cn_full (tx_counters t) \<noteq> 1 then Inl ReceiptCounters
     else Inr (receipt_fields t (if tx_state t = Approved then TerminalApproved else TerminalEscalated)))"
  using assms by (rule receipt_of_terminal)

theorem terminal_receipt_witness:
  "v1_receipt v1_approved = Inr (receipt_fields v1_approved TerminalApproved)"
  using terminal_receipt [OF v1_approved_valid]
  by (simp add: v1_approved_fields no_counters_def)

text \<open>C16: the gate lets a delivery through exactly when the receipt is a valid approval, nothing
  external speaks against it, and every identity of the context equals the receipt's. Only the
  pre-PR gate may replace the trees and the base by a compatible base advance, and the release gate
  also compares the release evidence with the sealed, current one of the receipt.\<close>

theorem gate_allows_exactly:
  "validate_derived_gate r c = GateAllow \<longleftrightarrow>
     validate_receipt_structure r = None \<and> rt_terminal r = TerminalApproved \<and>
     gc_external c \<noteq> ExternalEscalating \<and> gc_external c \<noteq> ExternalInvalidating \<and>
     gc_lineage c = rt_lineage r \<and> gc_generation c = rt_generation r \<and>
     gc_fix_delta c = rt_fix_delta r \<and> gc_policy c = rt_policy r \<and> gc_ledger c = rt_ledger r \<and>
     gc_evidence c = rt_evidence r \<and>
     (let same = gc_candidate c = rt_final r \<and> gc_paths_digest c = rt_paths_digest r \<and> gc_base c = rt_base r in
      case gc_gate c of
        PostApply \<Rightarrow> same | PreCommit \<Rightarrow> same | PrePush \<Rightarrow> same
      | PrePR \<Rightarrow> compatible_advance c \<or> same \<and> gc_base_related c
      | ReleaseGate \<Rightarrow> same \<and> gc_base_related c \<and> release_matches r c
      | OtherGate _ \<Rightarrow> False)"
  by (rule gate_allowed_iff)

text \<open>C17: what the gate lets through is what was reviewed and approved. Whenever a gate allows a
  delivery on the receipt of a valid transaction, the transaction is an approved one, and the context
  carries its lineage, generation, correction delta, policy, ledger and verification evidence, the last
  two bound to real hashes; base, candidate and paths are the transaction's own too, except at the
  pre-PR gate when the advance of the base was classified as compatible.\<close>

theorem gate_delivers_reviewed:
  assumes "v1_checks t = None" "v1_receipt t = Inr r" "validate_derived_gate r c = GateAllow"
  shows "tx_state t = Approved \<and> gc_lineage c = tx_lineage t \<and> gc_generation c = tx_generation t \<and>
    gc_fix_delta c = tx_fix_delta t \<and> gc_policy c = tx_policy t \<and> gc_ledger c = tx_ledger t \<and>
    gc_evidence c = tx_evidence t \<and> valid_sha256 (gc_ledger c) \<and> valid_sha256 (gc_evidence c) \<and>
    (gc_base c = tx_base t \<and> gc_candidate c = tx_final_tree t \<and> gc_paths_digest c = tx_paths_digest t \<or>
     gc_gate c = PrePR \<and> compatible_advance c)"
proof -
  note g = assms(3) [unfolded gate_allowed_iff]
  from assms(2) obtain k where k: "terminal_of (tx_state t) = Some k" "r = receipt_fields t k"
    by (auto simp: v1_receipt_def Let_def split: option.splits)
  moreover have "k = TerminalApproved" using g k(2) by (simp add: receipt_fields_def)
  ultimately have st: "tx_state t = Approved" and r: "r = receipt_fields t TerminalApproved"
    by (auto simp: terminal_of_def split: if_splits)
  have e: "valid_sha256 (tx_ledger t)" "valid_sha256 (tx_evidence t)"
    using v1_checks_parts(5) [OF assms(1)] st by (simp_all add: validate_v1_state_def)
  then have ne: "tx_ledger t \<noteq> []" "tx_evidence t \<noteq> []" by (auto simp: valid_sha256_def)
  show ?thesis using g st e ne unfolding r
    by (cases "gc_gate c") (auto simp: receipt_fields_def Let_def)
qed

definition sample_context :: "transaction \<Rightarrow> gate_context" where
  "sample_context t =
     \<lparr>gc_gate = PrePush, gc_lineage = tx_lineage t, gc_generation = tx_generation t, gc_store_revision = [],
      gc_genesis_revision = [], gc_chain = [], gc_bundle = [], gc_base = tx_base t,
      gc_candidate = tx_final_tree t, gc_paths_digest = tx_paths_digest t, gc_fix_delta = tx_fix_delta t,
      gc_policy = tx_policy t, gc_ledger = tx_ledger t, gc_evidence = tx_evidence t, gc_base_related = True,
      gc_external = ExternalNone, gc_advance = None, gc_release = None, gc_boundary = None, gc_denial = None,
      gc_scope = None\<rparr>"

theorem gate_delivers_reviewed_witness:
  "tx_state v1_approved = Approved \<and> valid_sha256 (gc_ledger (sample_context v1_approved)) \<and>
   gc_candidate (sample_context v1_approved) = sample_tree CHR ''b''"
proof -
  let ?r = "receipt_fields v1_approved TerminalApproved"
  have s: "validate_receipt_structure ?r = None"
    using receipt_structure [OF v1_approved_valid _ refl] by (simp add: v1_approved_fields no_counters_def)
  have "v1_receipt v1_approved = Inr ?r" by (simp add: v1_receipt_def v1_approved_fields terminal_of_def Let_def s)
  moreover have "validate_derived_gate ?r (sample_context v1_approved) = GateAllow"
    unfolding gate_allowed_iff using s
    by (simp add: sample_context_def receipt_fields_def Let_def v1_approved_fields identity_of_def)
  ultimately have "tx_state v1_approved = Approved \<and> valid_sha256 (gc_ledger (sample_context v1_approved)) \<and>
      gc_candidate (sample_context v1_approved) = tx_final_tree v1_approved"
    using gate_delivers_reviewed [OF v1_approved_valid, of ?r "sample_context v1_approved"]
    by (simp add: v1_approved_fields sample_context_def)
  then show ?thesis by (simp add: v1_approved_fields)
qed

end
