(* ===== verification/Risk.thy ===== *)
theory Risk
  imports GoStrings ReviewChecks "HOL-Library.Product_Lexorder"
begin

text \<open>
  Risk classification (risk.go): counting changed lines, the path predicates, the reasons and
  signals derived from a diff, the static MDX check, and the assessment that joins them. What Git
  answers (tree listings, a grep, blobs) is a parameter. Lower-casing a path also replaces invalid
  UTF-8, which no predicate here distinguishes; signals and reason codes are their strings.
\<close>

section \<open>Paths and fields\<close>

definition slash :: char where "slash = CHR ''/''"

definition path_ext :: "string \<Rightarrow> string" where
  \<comment> \<open>\<^verbatim>\<open>path.Ext\<close>: from the last dot of the last segment\<close>
  "path_ext p =
     (let last_seg = takeWhile (\<lambda>c. c \<noteq> slash) (rev p) in
      if CHR ''.'' \<in> set last_seg then CHR ''.'' # rev (takeWhile (\<lambda>c. c \<noteq> CHR ''.'') last_seg) else [])"

definition path_base :: "string \<Rightarrow> string" where
  \<comment> \<open>\<^verbatim>\<open>path.Base\<close>\<close>
  "path_base p =
     (if p = [] then ''.''
      else let b = rev (takeWhile (\<lambda>c. c \<noteq> slash) (dropWhile (\<lambda>c. c = slash) (rev p)))
           in if b = [] then ''/'' else b)"

function fields_func :: "(char \<Rightarrow> bool) \<Rightarrow> string \<Rightarrow> string list" where
  \<comment> \<open>\<^verbatim>\<open>strings.FieldsFunc\<close>\<close>
  "fields_func f [] = []"
| "fields_func f (c # s) =
     (if f c then fields_func f s
      else (c # takeWhile (\<lambda>x. \<not> f x) s) # fields_func f (dropWhile (\<lambda>x. \<not> f x) s))"
  by pat_completeness auto
termination
  by (relation "measure (\<lambda>(f, s). length s)") (auto simp: le_imp_less_Suc length_dropWhile_le)

definition ascii_lower :: "string \<Rightarrow> string" where
  "ascii_lower s = map lower_byte s"

section \<open>Diff stats\<close>

record diff_stat =
  ds_path :: string
  ds_additions :: int
  ds_deletions :: int
  ds_binary :: bool
  ds_generated :: bool
  ds_mode_only :: bool
  ds_old_mode :: string
  ds_new_mode :: string

datatype risk_error =
    RiskPath canon_error | DuplicateStat string | NegativeStat string | UnknownSignal string | GitFailed

definition is_generated_golden_path :: "string \<Rightarrow> bool" where
  \<comment> \<open>on a system whose separator is the slash\<close>
  "is_generated_golden_path p =
     (let normalized = ''/'' @ trim_prefix p ''./''
      in contains normalized ''/testdata/golden/'' \<and> has_suffix normalized ''.golden'')"

fun count_stats :: "string list \<Rightarrow> int \<Rightarrow> diff_stat list \<Rightarrow> risk_error + int" where
  \<comment> \<open>the loop of \<^verbatim>\<open>CountChangedLines\<close>: paths seen, total\<close>
  "count_stats seen acc [] = Inr acc"
| "count_stats seen acc (d # ds) =
     (case normalize_logical_path (ds_path d) of Inl e \<Rightarrow> Inl (RiskPath e)
      | Inr p \<Rightarrow>
          if p \<in> set seen then Inl (DuplicateStat p)
          else if ds_additions d < 0 \<or> ds_deletions d < 0 then Inl (NegativeStat p)
          else if is_generated_golden_path p \<or> ds_binary d \<or> ds_mode_only d
          then count_stats (p # seen) acc ds
          else count_stats (p # seen) (go_add acc (go_add (ds_additions d) (ds_deletions d))) ds)"

definition count_changed_lines :: "diff_stat list \<Rightarrow> risk_error + int" where
  "count_changed_lines stats = count_stats [] 0 stats"

definition large_change_lines :: int where "large_change_lines = 400"

section \<open>Path predicates\<close>

definition semantic_source_extensions :: "string list" where
  "semantic_source_extensions =
     [''.c'', ''.cc'', ''.cpp'', ''.cs'', ''.go'', ''.h'', ''.hpp'', ''.java'', ''.js'', ''.jsx'', ''.kt'',
      ''.kts'', ''.php'', ''.py'', ''.rb'', ''.rs'', ''.sh'', ''.bash'', ''.zsh'', ''.ts'', ''.tsx'']"

definition is_configuration_review_path :: "string \<Rightarrow> bool" where
  "is_configuration_review_path p =
     (let base = to_lower (path_base p) in
      base = ''.env'' \<or> has_prefix base ''.env.'' \<or>
      base \<in> set [''go.mod'', ''go.sum'', ''package.json'', ''package-lock.json'', ''pnpm-lock.yaml'',
                  ''yarn.lock'', ''dockerfile'', ''makefile''] \<or>
      to_lower (path_ext p) \<in> set [''.json'', ''.yaml'', ''.yml'', ''.toml'', ''.ini'', ''.env''])"

definition is_operational_markdown_path :: "string \<Rightarrow> bool" where
  "is_operational_markdown_path p =
     (let lower = ascii_lower p; segments = split_on slash lower in
      path_base lower \<in> set [''agents.md'', ''claude.md'', ''gemini.md'', ''kimi.md'', ''skill.md'',
                              ''copilot-instructions.md''] \<or>
      list_ex (\<lambda>(index, segment).
        segment \<in> set [''.agent'', ''.agents'', ''.claude'', ''.codex'', ''.cursor'', ''.opencode'',
                       ''openspec'', ''runtime''] \<or>
        (index = 1 \<and> hd segments = ''internal'' \<and> segment \<in> set [''runtime'', ''assets'', ''templates'']) \<or>
        list_ex (\<lambda>token. token \<in> set [''agent'', ''agents'', ''skill'', ''skills'', ''prompt'', ''prompts'',
            ''instruction'', ''instructions'', ''orchestrator'', ''orchestrators'', ''workflow'', ''workflows''])
          (fields_func (\<lambda>c. \<not> is_lower_alpha c \<and> \<not> is_digit c) (trim_suffix segment (path_ext segment))))
        (enumerate 0 segments))"

definition is_non_executable_review_path :: "string \<Rightarrow> bool" where
  "is_non_executable_review_path p =
     (let extension = to_lower (path_ext p) in
      if extension = ''.md'' then \<not> is_operational_markdown_path p
      else extension \<in> set [''.rst'', ''.adoc'', ''.png'', ''.jpg'', ''.jpeg'', ''.gif''])"

definition is_regular_non_executable_mode :: "string \<Rightarrow> bool" where
  "is_regular_non_executable_mode m \<longleftrightarrow> m \<in> set [[], ''000000'', ''100644'']"

definition is_low_risk_stat :: "diff_stat \<Rightarrow> bool" where
  "is_low_risk_stat d \<longleftrightarrow>
     \<not> ds_binary d \<and> \<not> ds_mode_only d \<and> is_regular_non_executable_mode (ds_old_mode d) \<and>
     is_regular_non_executable_mode (ds_new_mode d) \<and> is_non_executable_review_path (ds_path d)"

definition documentation_tokens :: "string list" where
  "documentation_tokens =
     [''agent'', ''agents'', ''command'', ''commands'', ''prompt'', ''prompts'', ''rule'', ''rules'', ''runtime'',
      ''runtimes'', ''skill'', ''skills'', ''workflow'', ''workflows'']"

definition is_pure_documentation_path :: "string \<Rightarrow> bool" where
  "is_pure_documentation_path p =
     (let base = to_lower (path_base p); stem = trim_suffix base (to_lower (path_ext base)) in
      \<not> ((path_ext (to_lower p) \<noteq> ''.mdx'' \<and> \<not> is_non_executable_review_path p) \<or>
         is_configuration_review_path p) \<and>
      fold_case (path_ext p) \<noteq> ''.svg'' \<and>
      \<not> has_prefix (to_lower p) ''internal/assets/'' \<and>
      base \<notin> set [''agents.md'', ''claude.md'', ''gemini.md'', ''kimi.md'', ''soul.md'', ''tools.md'',
                  ''skill.md'', ''copilot-instructions.md''] \<and>
      \<not> list_ex (\<lambda>token. token \<in> set documentation_tokens)
         (fields_func (\<lambda>c. c \<in> set ''-_. '') stem) \<and>
      \<not> list_ex (\<lambda>segment. segment \<in> set ([''.github'', ''.claude'', ''.codex'', ''.cursor'', ''.gemini'',
            ''.kiro'', ''.kilo'', ''.opencode'', ''.windsurf''] @ documentation_tokens))
         (split_on slash (to_lower p)))"

definition is_pure_documentation_stat :: "diff_stat \<Rightarrow> bool" where
  "is_pure_documentation_stat d \<longleftrightarrow>
     is_pure_documentation_path (ds_path d) \<and>
     is_regular_non_executable_mode (ds_old_mode d) \<and> is_regular_non_executable_mode (ds_new_mode d)"

definition is_semantic_risk_eligible :: "diff_stat \<Rightarrow> bool" where
  "is_semantic_risk_eligible d \<longleftrightarrow>
     \<not> (go_add (ds_additions d) (ds_deletions d) = 0 \<or> ds_binary d \<or> ds_mode_only d \<or> ds_generated d \<or>
        is_generated_golden_path (ds_path d)) \<and>
     \<not> list_ex (\<lambda>segment. ascii_lower segment \<in> set [''docs'', ''testdata'', ''fixture'', ''fixtures'', ''__fixtures__''])
        (split_on slash (ds_path d)) \<and>
     \<not> has_prefix (ascii_lower (path_base (ds_path d))) ''readme'' \<and>
     (ascii_lower (path_ext (ds_path d)) \<in> set semantic_source_extensions \<or>
      is_configuration_review_path (ds_path d))"

fun adjacent :: "string \<Rightarrow> string \<Rightarrow> string list \<Rightarrow> bool" where
  "adjacent a b (x # y # zs) \<longleftrightarrow> (x = a \<and> y = b) \<or> adjacent a b (y # zs)"
| "adjacent a b _ \<longleftrightarrow> False"

definition has_adjacent_service_token :: "string \<Rightarrow> bool" where
  "has_adjacent_service_token segment =
     adjacent ''service'' ''token'' (fields_func (\<lambda>c. c \<in> set ''-_'') (ascii_lower segment))"

definition strip_semantic_extension :: "string \<Rightarrow> string" where
  "strip_semantic_extension segment =
     (if ascii_lower (path_ext segment) \<in> set semantic_source_extensions \<or> is_configuration_review_path segment
      then trim_suffix segment (path_ext segment) else segment)"

definition is_service_token_path :: "string \<Rightarrow> bool" where
  "is_service_token_path p =
     list_ex (\<lambda>segment. has_adjacent_service_token (strip_semantic_extension segment)) (split_on slash p)"

definition is_shell_review_path :: "string \<Rightarrow> bool" where
  "is_shell_review_path p =
     (let extension = ascii_lower (path_ext p) in
      if extension \<in> set [''.sh'', ''.bash'', ''.zsh''] then True
      else if extension \<in> set [''.yml'', ''.yaml''] then has_prefix p ''.github/workflows/''
      else False)"

definition parse_octal :: "string \<Rightarrow> nat option" where
  \<comment> \<open>\<^verbatim>\<open>strconv.ParseUint(s, 8, 32)\<close>\<close>
  "parse_octal s =
     (if s = [] \<or> \<not> list_all (\<lambda>c. byte CHR ''0'' \<le> byte c \<and> byte c \<le> byte CHR ''7'') s then None
      else let v = foldl (\<lambda>n c. n * 8 + (byte c - byte CHR ''0'')) 0 s in if v < 2 ^ 32 then Some v else None)"

definition executable_bits :: "nat \<Rightarrow> bool \<times> bool \<times> bool" where
  \<comment> \<open>\<^verbatim>\<open>value & 0o111\<close>\<close>
  "executable_bits v = (odd v, odd (v div 8), odd (v div 64))"

definition executable_mode_changed :: "string \<Rightarrow> string \<Rightarrow> bool" where
  "executable_mode_changed old_mode new_mode =
     (if old_mode = [] \<or> new_mode = [] then False
      else case (parse_octal old_mode, parse_octal new_mode) of
        (Some a, Some b) \<Rightarrow> executable_bits a \<noteq> executable_bits b
      | _ \<Rightarrow> False)"

section \<open>Signals and reasons\<close>

type_synonym risk_signal = string

definition valid_risk_signal :: "risk_signal \<Rightarrow> bool" where
  "valid_risk_signal s \<longleftrightarrow>
     s \<in> set [''auth'', ''update'', ''security'', ''payments'', ''data_exposure'', ''data_loss'', ''permissions'',
             ''shell_process'']"

definition canonical_risk_signals :: "risk_signal list \<Rightarrow> risk_signal list" where
  "canonical_risk_signals signals = remdups_adj (sort signals)"

definition native_authority_paths :: "string list" where
  "native_authority_paths =
     [''internal/reviewtransaction/compact.go'', ''internal/reviewtransaction/transaction.go'',
      ''internal/reviewtransaction/compact_store.go'', ''internal/reviewtransaction/store.go'',
      ''internal/reviewtransaction/compact_gate.go'', ''internal/reviewtransaction/gate.go'']"

definition token_signals :: "string \<Rightarrow> risk_signal list" where
  "token_signals token =
     (if token \<in> set [''auth'', ''update'', ''security'', ''payments''] then [token] else [])"

definition hot_path_risk_signals :: "string \<Rightarrow> risk_signal list" where
  "hot_path_risk_signals p = canonical_risk_signals
     ((if p \<in> set native_authority_paths then [''auth''] else []) @
      concat (map token_signals (fields_func (\<lambda>c. c \<in> set (''/.-_'' @ [CHR 0x5C])) (to_lower p))))"

definition touches_hot_path :: "diff_stat list \<Rightarrow> bool" where
  "touches_hot_path stats =
     list_ex (\<lambda>d. \<not> is_generated_golden_path (ds_path d) \<and> hot_path_risk_signals (ds_path d) \<noteq> []) stats"

record risk_reason =
  rr_code :: string
  rr_signal :: risk_signal
  rr_path :: string
  rr_old_mode :: string
  rr_new_mode :: string

definition reason :: "string \<Rightarrow> risk_signal \<Rightarrow> string \<Rightarrow> risk_reason" where
  "reason code signal p =
     \<lparr>rr_code = code, rr_signal = signal, rr_path = p, rr_old_mode = [], rr_new_mode = []\<rparr>"

definition reason_key :: "risk_reason \<Rightarrow> string" where
  "reason_key r = rr_code r @ [CHR 0x00] @ rr_signal r"

fun first_per_key :: "string list \<Rightarrow> risk_reason list \<Rightarrow> risk_reason list" where
  "first_per_key seen [] = []"
| "first_per_key seen (r # rs) =
     (if reason_key r \<in> set seen then first_per_key seen rs
      else r # first_per_key (reason_key r # seen) rs)"

definition canonical_risk_reasons :: "risk_reason list \<Rightarrow> risk_reason list" where
  "canonical_risk_reasons reasons = first_per_key []
     (sort_key (\<lambda>r. (rr_code r, rr_signal r, rr_path r, rr_old_mode r, rr_new_mode r)) reasons)"

definition risk_signals_from_reasons :: "risk_reason list \<Rightarrow> risk_signal list" where
  "risk_signals_from_reasons reasons =
     canonical_risk_signals (filter (\<lambda>s. s \<noteq> []) (map rr_signal reasons))"

definition fallback_codes :: "string list" where
  "fallback_codes = [''non_executable_only'', ''configuration_change'', ''executable_change'']"

definition remove_fallback_reasons :: "risk_reason list \<Rightarrow> risk_reason list" where
  "remove_fallback_reasons reasons = filter (\<lambda>r. rr_code r \<notin> set fallback_codes) reasons"

fun fallback_risk_reason :: "diff_stat list \<Rightarrow> risk_reason" where
  "fallback_risk_reason [] = reason ''non_executable_only'' [] []"
| "fallback_risk_reason (d # ds) =
     (if is_generated_golden_path (ds_path d) then fallback_risk_reason ds
      else if is_configuration_review_path (ds_path d) then reason ''configuration_change'' [] (ds_path d)
      else if \<not> is_low_risk_stat d then reason ''executable_change'' [] (ds_path d)
      else fallback_risk_reason ds)"

definition stat_reasons :: "diff_stat \<Rightarrow> risk_reason list" where
  \<comment> \<open>what one entry of the diff contributes\<close>
  "stat_reasons d =
     (if is_semantic_risk_eligible d then
        (if is_service_token_path (ds_path d) then [reason ''service_token'' ''auth'' (ds_path d)] else []) @
        (if is_shell_review_path (ds_path d) then [reason ''shell_source'' ''shell_process'' (ds_path d)] else [])
      else []) @
     (if executable_mode_changed (ds_old_mode d) (ds_new_mode d) then
        [(reason ''executable_mode'' ''permissions'' (ds_path d))
           \<lparr>rr_old_mode := ds_old_mode d, rr_new_mode := ds_new_mode d\<rparr>] else []) @
     (if \<not> is_generated_golden_path (ds_path d)
      then map (\<lambda>s. reason ''hot_path'' s (ds_path d)) (hot_path_risk_signals (ds_path d)) else [])"

definition derive_snapshot_risk_reasons :: "diff_stat list \<Rightarrow> int \<Rightarrow> risk_reason list" where
  "derive_snapshot_risk_reasons stats changed =
     (let candidates = concat (map stat_reasons stats) @
            (if changed > large_change_lines then [reason ''large_change'' [] []] else [])
      in canonical_risk_reasons (if candidates = [] then [fallback_risk_reason stats] else candidates))"

section \<open>Classification\<close>

record risk_input =
  ri_stats :: "diff_stat list"
  ri_signals :: "risk_signal list"
  ri_non_executable :: bool
  ri_documentation :: bool
  ri_configuration :: bool

definition is_large_pure_documentation :: "risk_input \<Rightarrow> int \<Rightarrow> bool" where
  "is_large_pure_documentation input changed \<longleftrightarrow>
     changed > large_change_lines \<and> ri_documentation input \<and> \<not> ri_configuration input"

definition classify_risk :: "risk_input \<Rightarrow> risk_error + risk_level" where
  "classify_risk input =
     (case count_changed_lines (ri_stats input) of Inl e \<Rightarrow> Inl e
      | Inr changed \<Rightarrow>
        (case List.find (\<lambda>s. \<not> valid_risk_signal s) (ri_signals input) of
           Some s \<Rightarrow> Inl (UnknownSignal s)
         | None \<Rightarrow>
             if ri_signals input \<noteq> [] \<or> touches_hot_path (ri_stats input) then Inr RiskHigh
             else if changed > large_change_lines then
               (if is_large_pure_documentation input changed then Inr RiskMedium else Inr RiskHigh)
             else if ri_non_executable input \<and> \<not> ri_configuration input then Inr RiskLow
             else Inr RiskMedium))"

section \<open>Static MDX\<close>

definition backtick :: char where "backtick = CHR 0x60"

definition escaped_backtick :: "string \<Rightarrow> nat \<Rightarrow> bool" where
  "escaped_backtick s i \<longleftrightarrow> odd (length (takeWhile (\<lambda>c. c = CHR 0x5C) (rev (take i s))))"

function exact_run_from :: "string \<Rightarrow> string \<Rightarrow> nat \<Rightarrow> nat option" where
  \<comment> \<open>the loop of \<^verbatim>\<open>exactBacktickRunIndex\<close> from an offset\<close>
  "exact_run_from s marker offset =
     (if offset \<ge> length s then None
      else case find_sub (drop offset s) marker of None \<Rightarrow> None
        | Some k \<Rightarrow>
            let i = offset + k;
                before = i > 0 \<and> s ! (i - 1) = backtick;
                after = i + length marker < length s \<and> s ! (i + length marker) = backtick
            in if \<not> before \<and> \<not> after \<and> \<not> escaped_backtick s i then Some i
               else exact_run_from s marker (i + 1))"
  by pat_completeness auto
termination by (relation "measure (\<lambda>(s, marker, offset). length s - offset)") auto

declare exact_run_from.simps [simp del]

function strip_code_spans_from :: "string \<Rightarrow> string \<Rightarrow> string" where
  \<comment> \<open>the loop of \<^verbatim>\<open>stripMarkdownCodeSpans\<close>: what is visible so far, what is left\<close>
  "strip_code_spans_from visible s =
     (case index_of s backtick of None \<Rightarrow> visible @ s
      | Some start \<Rightarrow>
          if escaped_backtick s start then
            strip_code_spans_from (visible @ take (start + 1) s) (drop (start + 1) s)
          else
            let run = length (takeWhile (\<lambda>c. c = backtick) (drop start s));
                marker = take run (drop start s);
                remainder = drop (start + run) s
            in case exact_run_from remainder marker 0 of
                 None \<Rightarrow> visible @ take start s @ drop start s
               | Some e \<Rightarrow> strip_code_spans_from (visible @ take start s) (drop (e + run) remainder))"
  by pat_completeness auto
termination
proof (relation "measure (\<lambda>(visible, s). length s)")
  fix visible s :: string and start run :: nat and marker remainder :: string and e
  assume i: "index_of s backtick = Some start"
    and r: "run = length (takeWhile (\<lambda>c. c = backtick) (drop start s))" "remainder = drop (start + run) s"
  from i have "start < length s" "s ! start = backtick" by (auto dest: index_of_nth)
  then have "drop start s = backtick # drop (Suc start) s" by (metis Cons_nth_drop_Suc)
  then have "0 < run" using r(1) by simp
  then show "((visible @ take start s, drop (e + run) remainder), visible, s) \<in> measure (\<lambda>(visible, s). length s)"
    using \<open>start < length s\<close> r(2) by simp
qed (auto dest: index_of_nth)

declare strip_code_spans_from.simps [simp del]

definition strip_markdown_code_spans :: "string \<Rightarrow> string" where
  "strip_markdown_code_spans s = trim_space (strip_code_spans_from [] s)"

lemma trim_space_le: "length (trim_space s) \<le> length s"
proof -
  have "length (trim_space s) \<le> length (trim_left s)"
    using trim_right_prefix [of "trim_left s"] by (simp add: trim_space_def prefix_length_le)
  also have "\<dots> \<le> length s"
    using strip_all_suffix [of "length s" space_runes s] by (simp add: trim_left_def suffix_length_le)
  finally show ?thesis .
qed

function trim_leading_comments :: "string \<Rightarrow> string" where
  "trim_leading_comments s =
     (if has_prefix s ''/*'' then
        (case find_sub (drop 2 s) ''*/'' of None \<Rightarrow> s
         | Some e \<Rightarrow> trim_leading_comments (trim_space (drop (e + 4) s)))
      else s)"
  by pat_completeness auto
termination
proof (relation "measure length")
  fix s e assume "has_prefix s ''/*''"
  then have "s \<noteq> []" by (auto simp: has_prefix_def)
  then have "length (drop (e + 4) s) < length s" by simp
  then show "(trim_space (drop (e + 4) s), s) \<in> measure length"
    using trim_space_le [of "drop (e + 4) s"] by simp
qed simp

declare trim_leading_comments.simps [simp del]

definition starts_keyword :: "string \<Rightarrow> string \<Rightarrow> bool" where
  "starts_keyword s keyword =
     (if \<not> has_prefix s keyword then False
      else if length s = length keyword then True
      else let next_char = s ! length keyword in
        \<not> (is_lower_alpha next_char \<or> is_upper_alpha next_char \<or> is_digit next_char \<or>
           next_char = CHR ''_'' \<or> next_char = CHR ''$''))"

definition live_mdx_line :: "string \<Rightarrow> bool" where
  \<comment> \<open>a line outside fences that may run code\<close>
  "live_mdx_line trimmed =
     (let prose = trim_leading_comments (strip_markdown_code_spans trimmed) in
      starts_keyword prose ''import'' \<or> starts_keyword prose ''export'' \<or>
      list_ex (\<lambda>c. c \<in> set ''{}'') prose \<or> contains prose ''<'')"

definition byte_order_mark :: string where
  "byte_order_mark = [CHR 0xEF, CHR 0xBB, CHR 0xBF]"

definition backtick_fence :: string where "backtick_fence = replicate 3 backtick"
definition tilde_fence :: string where "tilde_fence = ''~~~''"

fun static_mdx_lines :: "string \<Rightarrow> string list \<Rightarrow> bool" where
  \<comment> \<open>the open fence, empty outside, and the lines left\<close>
  "static_mdx_lines fence [] = True"
| "static_mdx_lines fence (l # ls) =
     (let trimmed = trim_space (trim_prefix l byte_order_mark) in
      if fence \<noteq> [] then static_mdx_lines (if has_prefix trimmed fence then [] else fence) ls
      else if has_prefix trimmed backtick_fence then static_mdx_lines backtick_fence ls
      else if has_prefix trimmed tilde_fence then static_mdx_lines tilde_fence ls
      else if live_mdx_line trimmed then False
      else static_mdx_lines fence ls)"

definition is_static_mdx_document :: "string \<Rightarrow> bool" where
  \<comment> \<open>the scanner fails on a line that fills its 1 MiB buffer\<close>
  "is_static_mdx_document content =
     (let lines = split_on newline content in
      static_mdx_lines [] lines \<and> list_all (\<lambda>l. length l < 1048576) lines)"

section \<open>The assessment of a snapshot\<close>

record git_view =
  gv_stats :: "diff_stat list option"
  gv_list :: "string \<Rightarrow> string list \<Rightarrow> (string \<times> int) list option" \<comment> \<open>paths and sizes of a tree\<close>
  gv_grep :: "string \<Rightarrow> string list \<Rightarrow> string list option" \<comment> \<open>paths that mention a subprocess\<close>
  gv_blob :: "string \<Rightarrow> string \<Rightarrow> string option"

definition scan_byte_limit :: int where "scan_byte_limit = 8388608"

fun scan_entries :: "int \<Rightarrow> (string \<times> int) list \<Rightarrow> string + int" where
  \<comment> \<open>the path at which the limit is passed, or the bytes counted\<close>
  "scan_entries scanned [] = Inr scanned"
| "scan_entries scanned ((p, sz) # es) =
     (if go_add scanned sz > scan_byte_limit then Inl p else scan_entries (go_add scanned sz) es)"

fun process_reasons_from ::
  "git_view \<Rightarrow> string list \<Rightarrow> int \<Rightarrow> risk_reason list \<Rightarrow> string list \<Rightarrow> risk_error + risk_reason list" where
  \<comment> \<open>eligible paths, bytes scanned, reasons so far, trees left\<close>
  "process_reasons_from git paths scanned reasons [] = Inr (canonical_risk_reasons reasons)"
| "process_reasons_from git paths scanned reasons (tree # trees) =
     (case gv_list git tree paths of None \<Rightarrow> Inl GitFailed
      | Some entries0 \<Rightarrow>
        (case scan_entries scanned entries0 of
           Inl p \<Rightarrow> Inr [reason ''process_scan_limit'' ''shell_process'' p]
         | Inr scanned' \<Rightarrow>
             if entries0 = [] then process_reasons_from git paths scanned' reasons trees
             else case gv_grep git tree (map fst entries0) of None \<Rightarrow> Inl GitFailed
               | Some matches \<Rightarrow>
                   process_reasons_from git paths scanned'
                     (reasons @ map (reason ''process_boundary'' ''shell_process'') (filter (\<lambda>p. p \<noteq> []) matches))
                     trees))"

definition process_boundary_reasons :: "git_view \<Rightarrow> snapshot \<Rightarrow> diff_stat list \<Rightarrow> risk_error + risk_reason list" where
  "process_boundary_reasons git snap stats =
     (let paths = map ds_path (filter is_semantic_risk_eligible stats) in
      if paths = [] then Inr []
      else process_reasons_from git paths 0 [] [sn_base snap, sn_candidate snap])"

fun static_versions :: "git_view \<Rightarrow> string \<Rightarrow> (string \<times> string) list \<Rightarrow> risk_error + bool" where
  \<comment> \<open>the versions of one document: tree and mode\<close>
  "static_versions git p [] = Inr True"
| "static_versions git p ((tree, m) # vs) =
     (if m = [] \<or> m = ''000000'' then static_versions git p vs
      else case gv_blob git tree p of None \<Rightarrow> Inl GitFailed
        | Some content \<Rightarrow>
            if \<not> is_static_mdx_document content then Inr False else static_versions git p vs)"

fun has_only_static_mdx :: "git_view \<Rightarrow> snapshot \<Rightarrow> diff_stat list \<Rightarrow> risk_error + bool" where
  "has_only_static_mdx git snap [] = Inr True"
| "has_only_static_mdx git snap (d # ds) =
     (if fold_case (path_ext (ds_path d)) \<noteq> ''.mdx'' then has_only_static_mdx git snap ds
      else case static_versions git (ds_path d)
                  [(sn_base snap, ds_old_mode d), (sn_candidate snap, ds_new_mode d)] of
          Inl e \<Rightarrow> Inl e
        | Inr False \<Rightarrow> Inr False
        | Inr True \<Rightarrow> has_only_static_mdx git snap ds)"

record risk_assessment =
  ra_level :: risk_level
  ra_changed :: int
  ra_reasons :: "risk_reason list"
  ra_lens :: string

definition snapshot_risk_input :: "diff_stat list \<Rightarrow> bool \<Rightarrow> risk_input" where
  \<comment> \<open>the loop over the stats, with the answer of the MDX check\<close>
  "snapshot_risk_input stats static_mdx =
     (let counted = filter (\<lambda>d. \<not> is_generated_golden_path (ds_path d)) stats in
      \<lparr>ri_stats = stats, ri_signals = [], ri_non_executable = list_all is_low_risk_stat counted,
       ri_documentation = list_all is_pure_documentation_stat counted \<and> static_mdx,
       ri_configuration = list_ex (\<lambda>d. is_configuration_review_path (ds_path d)) counted\<rparr>)"

definition joined_risk_reasons :: "diff_stat list \<Rightarrow> int \<Rightarrow> risk_reason list \<Rightarrow> risk_reason list" where
  "joined_risk_reasons stats changed process =
     (let reasons = derive_snapshot_risk_reasons stats changed in
      if process \<noteq> [] then canonical_risk_reasons (remove_fallback_reasons reasons @ process) else reasons)"

definition finish_assessment ::
  "risk_input \<Rightarrow> int \<Rightarrow> risk_reason list \<Rightarrow> risk_error + risk_assessment" where
  "finish_assessment input0 changed reasons0 =
     (let reasons = (if is_large_pure_documentation input0 changed
            then canonical_risk_reasons (reasons0 @ [reason ''non_executable_only'' [] []]) else reasons0);
          input = input0\<lparr>ri_signals := risk_signals_from_reasons reasons\<rparr>
      in case classify_risk input of Inl e \<Rightarrow> Inl e
        | Inr level \<Rightarrow> Inr
            \<lparr>ra_level = level, ra_changed = changed, ra_reasons = reasons,
             ra_lens = (if level = RiskMedium \<and> is_large_pure_documentation input changed
                        then lens_readability else [])\<rparr>)"

definition assess_snapshot_risk :: "git_view \<Rightarrow> snapshot \<Rightarrow> risk_error + risk_assessment" where
  "assess_snapshot_risk git snap =
     (case gv_stats git of None \<Rightarrow> Inl GitFailed
      | Some stats \<Rightarrow>
        (case count_changed_lines stats of Inl e \<Rightarrow> Inl e
         | Inr changed \<Rightarrow>
           (case process_boundary_reasons git snap stats of Inl e \<Rightarrow> Inl e
            | Inr process \<Rightarrow>
              (case (if ri_documentation (snapshot_risk_input stats True)
                     then has_only_static_mdx git snap stats else Inr False) of Inl e \<Rightarrow> Inl e
               | Inr static_mdx \<Rightarrow>
                   finish_assessment (snapshot_risk_input stats static_mdx) changed
                     (joined_risk_reasons stats changed process)))))"

end
