(* ===== verification/RiskProps.thy ===== *)
theory RiskProps
  imports Risk
begin

text \<open>
  The tier of a change follows from the reasons that are reported for it: the classifier, which
  looks at the diff, and the reasons, which are derived, joined and deduplicated apart from it,
  always agree.
\<close>

section \<open>Reasons as code and signal\<close>

definition reason_pairs :: "risk_reason list \<Rightarrow> (string \<times> risk_signal) set" where
  "reason_pairs rs = (\<lambda>r. (rr_code r, rr_signal r)) ` set rs"

definition reason_codes :: "string list" where
  "reason_codes = [''hot_path'', ''service_token'', ''shell_source'', ''process_boundary'', ''process_scan_limit'',
     ''executable_mode'', ''large_change''] @ fallback_codes"

definition known_reason :: "risk_reason \<Rightarrow> bool" where
  "known_reason r \<longleftrightarrow> rr_code r \<in> set reason_codes \<and> (rr_signal r = [] \<or> valid_risk_signal (rr_signal r))"

lemma reason_pairs_simps [simp]:
  "reason_pairs [] = {}" "reason_pairs (r # rs) = insert (rr_code r, rr_signal r) (reason_pairs rs)"
  "reason_pairs (rs @ rs') = reason_pairs rs \<union> reason_pairs rs'"
  by (auto simp: reason_pairs_def)

lemma reason_fields [simp]:
  "rr_code (reason c s p) = c" "rr_signal (reason c s p) = s"
  by (simp_all add: reason_def)

lemma known_no_nul: "known_reason r \<Longrightarrow> CHR 0x00 \<notin> set (rr_code r)"
  by (auto simp: known_reason_def reason_codes_def fallback_codes_def)

lemma reason_key_inj:
  assumes "known_reason r" "known_reason r'" "reason_key r = reason_key r'"
  shows "rr_code r = rr_code r' \<and> rr_signal r = rr_signal r'"
proof -
  have "rr_code r @ CHR 0x00 # rr_signal r = rr_code r' @ CHR 0x00 # rr_signal r'"
    using assms(3) by (simp add: reason_key_def)
  moreover have "takeWhile (\<lambda>c. c \<noteq> CHR 0x00) (rr_code q @ CHR 0x00 # t) = rr_code q" if "known_reason q" for q t
    using known_no_nul [OF that] by (subst takeWhile_append2) auto
  ultimately have "rr_code r = rr_code r'" using assms(1,2) by metis
  then show ?thesis using \<open>rr_code r @ _ = _\<close> by simp
qed

lemma first_per_key_subset: "set (first_per_key seen rs) \<subseteq> set rs"
  by (induction seen rs rule: first_per_key.induct) auto

lemma first_per_key_pairs:
  assumes "list_all known_reason rs"
  shows "r \<in> set rs \<Longrightarrow> reason_key r \<notin> set seen \<Longrightarrow>
    (rr_code r, rr_signal r) \<in> reason_pairs (first_per_key seen rs)"
  using assms
proof (induction seen rs rule: first_per_key.induct)
  case (2 seen q rs)
  show ?case
  proof (cases "reason_key q \<in> set seen")
    case True
    then show ?thesis using 2 by auto
  next
    case False
    show ?thesis
    proof (cases "reason_key r = reason_key q")
      case True
      then have "known_reason r" using 2(3,5) by (auto simp: list_all_iff)
      then show ?thesis using reason_key_inj [of r q] True False 2(5) by simp
    next
      case False
      then show ?thesis using 2 \<open>reason_key q \<notin> set seen\<close> by auto
    qed
  qed
qed simp

lemma canonical_reasons_pairs:
  assumes "list_all known_reason rs"
  shows "reason_pairs (canonical_risk_reasons rs) = reason_pairs rs"
    "list_all known_reason (canonical_risk_reasons rs)"
proof -
  let ?s = "sort_key (\<lambda>r. (rr_code r, rr_signal r, rr_path r, rr_old_mode r, rr_new_mode r)) rs"
  have k: "list_all known_reason ?s" using assms by (simp add: list_all_iff)
  have sub: "set (first_per_key [] ?s) \<subseteq> set rs" using first_per_key_subset [of "[]" ?s] by simp
  then show "list_all known_reason (canonical_risk_reasons rs)"
    using assms by (auto simp: canonical_risk_reasons_def list_all_iff)
  have "reason_pairs rs \<subseteq> reason_pairs (first_per_key [] ?s)"
    using first_per_key_pairs [OF k, of _ "[]"] by (auto simp: reason_pairs_def [of rs])
  moreover have "reason_pairs (first_per_key [] ?s) \<subseteq> reason_pairs rs"
    using sub by (auto simp: reason_pairs_def)
  ultimately show "reason_pairs (canonical_risk_reasons rs) = reason_pairs rs"
    by (auto simp: canonical_risk_reasons_def)
qed

lemma set_canonical_signals [simp]: "set (canonical_risk_signals ss) = set ss"
  by (simp add: canonical_risk_signals_def)

lemma signals_of_reasons: "set (risk_signals_from_reasons rs) = snd ` reason_pairs rs - {[]}"
  by (auto simp: risk_signals_from_reasons_def reason_pairs_def image_image)

section \<open>What a diff contributes\<close>

lemma hot_path_signals_valid:
  "s \<in> set (hot_path_risk_signals p) \<Longrightarrow> valid_risk_signal s \<and> s \<noteq> []"
  by (auto simp: hot_path_risk_signals_def token_signals_def valid_risk_signal_def split: if_splits)

lemma fixed_signals_valid [simp]:
  "valid_risk_signal ''auth''" "valid_risk_signal ''shell_process''" "valid_risk_signal ''permissions''"
  by (simp_all add: valid_risk_signal_def)

lemma stat_reasons_known:
  "r \<in> set (stat_reasons d) \<Longrightarrow> known_reason r \<and> rr_signal r \<noteq> [] \<and> rr_code r \<notin> set fallback_codes \<and> rr_code r \<noteq> ''large_change''"
  using hot_path_signals_valid [of _ "ds_path d"]
  by (auto simp: stat_reasons_def known_reason_def reason_codes_def fallback_codes_def split: if_splits)

lemma fallback_known:
  "known_reason (fallback_risk_reason ds)" "rr_signal (fallback_risk_reason ds) = []"
  "rr_code (fallback_risk_reason ds) \<in> set fallback_codes"
  by (induction ds rule: fallback_risk_reason.induct) (auto simp: known_reason_def reason_codes_def fallback_codes_def)

lemma fallback_non_executable:
  "rr_code (fallback_risk_reason ds) = ''non_executable_only'' \<longleftrightarrow>
     ri_non_executable (snapshot_risk_input ds b) \<and> \<not> ri_configuration (snapshot_risk_input ds b)"
  by (induction ds rule: fallback_risk_reason.induct)
    (auto simp: snapshot_risk_input_def Let_def)

lemma hot_path_reason:
  "touches_hot_path stats \<Longrightarrow> \<exists>r \<in> set (concat (map stat_reasons stats)). rr_signal r \<noteq> []"
proof -
  assume "touches_hot_path stats"
  then obtain d where d: "d \<in> set stats" "\<not> is_generated_golden_path (ds_path d)" "hot_path_risk_signals (ds_path d) \<noteq> []"
    by (auto simp: touches_hot_path_def list_ex_iff)
  then obtain s where s: "s \<in> set (hot_path_risk_signals (ds_path d))" by (meson last_in_set)
  then have "reason ''hot_path'' s (ds_path d) \<in> set (stat_reasons d)" using d by (simp add: stat_reasons_def)
  then show ?thesis using d(1) hot_path_signals_valid [OF s] by (auto intro!: bexI)
qed

definition process_reason :: "risk_reason \<Rightarrow> bool" where
  "process_reason r \<longleftrightarrow>
     rr_code r \<in> {''process_boundary'', ''process_scan_limit''} \<and> rr_signal r = ''shell_process''"

lemma process_reason_made [simp]:
  "process_reason (reason ''process_boundary'' ''shell_process'' p)"
  "process_reason (reason ''process_scan_limit'' ''shell_process'' p)"
  by (simp_all add: process_reason_def)

lemma canonical_reasons_all: "list_all P rs \<Longrightarrow> list_all P (canonical_risk_reasons rs)"
  using first_per_key_subset [of "[]"] by (fastforce simp: canonical_risk_reasons_def list_all_iff)

lemma process_reasons_known:
  "process_reasons_from git paths n rs trees = Inr out \<Longrightarrow> list_all process_reason rs \<Longrightarrow>
     list_all process_reason out"
proof (induction git paths n rs trees rule: process_reasons_from.induct)
  case (1 git paths n rs)
  then show ?case by (auto intro: canonical_reasons_all)
next
  case (2 git paths n rs tree trees)
  from 2(3) obtain es where es: "gv_list git tree paths = Some es" by (auto split: option.splits)
  show ?case
  proof (cases "scan_entries n es")
    case (Inl p) then show ?thesis using 2(3) es by auto
  next
    case (Inr n')
    show ?thesis
    proof (cases "es = []")
      case True
      then show ?thesis using 2(1) [OF es Inr True] 2(3,4) es Inr by simp
    next
      case False
      then obtain ms where ms: "gv_grep git tree (map fst es) = Some ms" using 2(3) es Inr by (auto split: option.splits)
      have "list_all process_reason (rs @ map (reason ''process_boundary'' ''shell_process'') (filter (\<lambda>p. p \<noteq> []) ms))"
        using 2(4) by (auto simp: list_all_iff)
      then show ?thesis using 2(2) [OF es Inr False ms] 2(3) es Inr False ms by simp
    qed
  qed
qed

lemma process_boundary_known:
  "process_boundary_reasons git snap stats = Inr out \<Longrightarrow> list_all process_reason out"
  using process_reasons_known [of git _ 0 "[]"]
  by (auto simp: process_boundary_reasons_def Let_def simp del: process_reasons_from.simps split: if_splits)

section \<open>The assessment\<close>

definition explained_level :: "risk_reason list \<Rightarrow> risk_level" where
  \<comment> \<open>the tier as a function of the reasons alone\<close>
  "explained_level rs =
     (let codes = fst ` reason_pairs rs in
      if (\<exists>x \<in> reason_pairs rs. snd x \<noteq> []) \<or> ''large_change'' \<in> codes \<and> ''non_executable_only'' \<notin> codes then RiskHigh
      else if codes = {''non_executable_only''} then RiskLow else RiskMedium)"

lemma process_reason_facts:
  "process_reason r \<Longrightarrow> known_reason r \<and> rr_signal r \<noteq> [] \<and> rr_code r \<notin> set fallback_codes \<and> rr_code r \<noteq> ''large_change''"
  by (auto simp: process_reason_def known_reason_def reason_codes_def fallback_codes_def)

definition large_pair :: "int \<Rightarrow> (string \<times> risk_signal) set" where
  "large_pair changed = (if changed > large_change_lines then {(''large_change'', [])} else {})"

lemma derived_reasons:
  "list_all known_reason (derive_snapshot_risk_reasons stats changed)"
  "reason_pairs (derive_snapshot_risk_reasons stats changed) =
     (if concat (map stat_reasons stats) = [] \<and> large_pair changed = {}
      then {(rr_code (fallback_risk_reason stats), [])}
      else reason_pairs (concat (map stat_reasons stats)) \<union> large_pair changed)"
proof -
  let ?base = "concat (map stat_reasons stats)"
  let ?large = "if changed > large_change_lines then [reason ''large_change'' [] []] else []"
  let ?rs = "if ?base @ ?large = [] then [fallback_risk_reason stats] else ?base @ ?large"
  have "known_reason (reason ''large_change'' [] [])"
    by (simp add: known_reason_def reason_codes_def)
  then have known: "list_all known_reason ?rs"
    using fallback_known(1) [of stats] stat_reasons_known by (auto simp: list_all_iff)
  have d: "derive_snapshot_risk_reasons stats changed = canonical_risk_reasons ?rs"
    by (simp add: derive_snapshot_risk_reasons_def Let_def)
  show "list_all known_reason (derive_snapshot_risk_reasons stats changed)"
    unfolding d by (rule canonical_reasons_pairs(2) [OF known])
  show "reason_pairs (derive_snapshot_risk_reasons stats changed) =
     (if concat (map stat_reasons stats) = [] \<and> large_pair changed = {}
      then {(rr_code (fallback_risk_reason stats), [])}
      else reason_pairs (concat (map stat_reasons stats)) \<union> large_pair changed)"
    unfolding d canonical_reasons_pairs(1) [OF known] by (simp add: large_pair_def fallback_known(2))
qed

lemma reason_pairs_removed:
  "reason_pairs (remove_fallback_reasons rs) = {x \<in> reason_pairs rs. fst x \<notin> set fallback_codes}"
  by (auto simp: reason_pairs_def remove_fallback_reasons_def)

lemma base_pairs:
  "x \<in> reason_pairs (concat (map stat_reasons stats)) \<Longrightarrow>
     snd x \<noteq> [] \<and> fst x \<notin> set fallback_codes \<and> fst x \<noteq> ''large_change''"
  using stat_reasons_known by (fastforce simp: reason_pairs_def)

lemma process_pairs:
  "list_all process_reason rs \<Longrightarrow> x \<in> reason_pairs rs \<Longrightarrow>
     snd x \<noteq> [] \<and> fst x \<notin> set fallback_codes \<and> fst x \<noteq> ''large_change''"
  using process_reason_facts by (fastforce simp: reason_pairs_def list_all_iff)

lemma joined_reasons:
  assumes "list_all process_reason process"
  shows "list_all known_reason (joined_risk_reasons stats changed process)"
    "reason_pairs (joined_risk_reasons stats changed process) =
       (if concat (map stat_reasons stats) @ process = [] \<and> large_pair changed = {}
        then {(rr_code (fallback_risk_reason stats), [])}
        else reason_pairs (concat (map stat_reasons stats)) \<union> reason_pairs process \<union> large_pair changed)"
proof -
  define base where "base = concat (map stat_reasons stats)"
  let ?d = "derive_snapshot_risk_reasons stats changed"
  have known: "list_all known_reason (remove_fallback_reasons ?d @ process)"
    using derived_reasons(1) [of stats changed] assms process_reason_facts
    by (auto simp: list_all_iff remove_fallback_reasons_def)
  have fb: "''large_change'' \<notin> set fallback_codes" by (simp add: fallback_codes_def)
  have "reason_pairs (remove_fallback_reasons ?d) = reason_pairs base \<union> large_pair changed"
    unfolding reason_pairs_removed derived_reasons(2) base_def [symmetric]
    using base_pairs [of _ stats, folded base_def] fallback_known(3) [of stats] fb by (auto simp: large_pair_def)
  then have removed: "reason_pairs (canonical_risk_reasons (remove_fallback_reasons ?d @ process)) =
      reason_pairs base \<union> reason_pairs process \<union> large_pair changed"
    unfolding canonical_reasons_pairs(1) [OF known] by auto
  show "list_all known_reason (joined_risk_reasons stats changed process)"
    using derived_reasons(1) canonical_reasons_pairs(2) [OF known] by (simp add: joined_risk_reasons_def Let_def)
  show "reason_pairs (joined_risk_reasons stats changed process) =
       (if concat (map stat_reasons stats) @ process = [] \<and> large_pair changed = {}
        then {(rr_code (fallback_risk_reason stats), [])}
        else reason_pairs (concat (map stat_reasons stats)) \<union> reason_pairs process \<union> large_pair changed)"
    using removed derived_reasons(2) [of stats changed] unfolding base_def [symmetric]
    by (cases "process = []") (simp_all add: joined_risk_reasons_def Let_def)
qed

lemma fallback_not_large: "''large_change'' \<noteq> rr_code (fallback_risk_reason ds)"
  by (induction ds rule: fallback_risk_reason.induct) auto

lemma classify_known:
  assumes "count_changed_lines (ri_stats input) = Inr changed" "\<And>s. s \<in> set (ri_signals input) \<Longrightarrow> valid_risk_signal s"
  shows "classify_risk input = Inr
    (if ri_signals input \<noteq> [] \<or> touches_hot_path (ri_stats input) then RiskHigh
     else if changed > large_change_lines then
       (if is_large_pure_documentation input changed then RiskMedium else RiskHigh)
     else if ri_non_executable input \<and> \<not> ri_configuration input then RiskLow else RiskMedium)"
proof -
  have "List.find (\<lambda>s. \<not> valid_risk_signal s) (ri_signals input) = None"
    using assms(2) by (auto simp: find_None_iff)
  then show ?thesis using assms(1) by (simp add: classify_risk_def)
qed

lemma finish_level:
  assumes count: "count_changed_lines stats = Inr changed"
    and process: "list_all process_reason process"
    and fin: "finish_assessment (snapshot_risk_input stats static_mdx) changed (joined_risk_reasons stats changed process) = Inr a"
  shows "ra_level a = explained_level (ra_reasons a)"
proof -
  let ?in0 = "snapshot_risk_input stats static_mdx"
  let ?pure = "is_large_pure_documentation ?in0 changed"
  define B where "B = reason_pairs (concat (map stat_reasons stats)) \<union> reason_pairs process"
  define rs where "rs = (if ?pure
      then canonical_risk_reasons (joined_risk_reasons stats changed process @ [reason ''non_executable_only'' [] []])
      else joined_risk_reasons stats changed process)"
  let ?in = "?in0\<lparr>ri_signals := risk_signals_from_reasons rs\<rparr>"
  have B: "x \<in> B \<Longrightarrow> snd x \<noteq> []" for x using base_pairs process_pairs [OF process] unfolding B_def by blast
  have empty: "B = {} \<longleftrightarrow> concat (map stat_reasons stats) @ process = []"
    by (auto simp: B_def reason_pairs_def)
  note j = joined_reasons [OF process, of stats changed]
  have "known_reason (reason ''non_executable_only'' [] [])"
    by (simp add: known_reason_def reason_codes_def fallback_codes_def)
  then have k: "list_all known_reason (joined_risk_reasons stats changed process @ [reason ''non_executable_only'' [] []])"
    using j(1) by simp
  have known: "list_all known_reason rs"
    using j(1) canonical_reasons_pairs(2) [OF k] by (simp add: rs_def)
  have large: "?pure \<Longrightarrow> large_pair changed = {(''large_change'', [])}"
    by (simp add: large_pair_def is_large_pure_documentation_def)
  have pairs: "reason_pairs rs =
      (if B = {} \<and> large_pair changed = {} then {(rr_code (fallback_risk_reason stats), [])}
       else B \<union> large_pair changed \<union> (if ?pure then {(''non_executable_only'', [])} else {}))"
    unfolding rs_def empty [folded B_def] using large j(2) canonical_reasons_pairs(1) [OF k]
    by (auto simp: B_def)
  have sig: "set (ri_signals ?in) = snd ` reason_pairs rs - {[]}" by (simp add: signals_of_reasons)
  have valid: "valid_risk_signal s" if "s \<in> set (ri_signals ?in)" for s
    using that known unfolding sig by (auto simp: reason_pairs_def list_all_iff known_reason_def)
  have "snd ` reason_pairs rs - {[]} = snd ` B" using B unfolding pairs by (auto simp: large_pair_def)
  then have signals: "ri_signals ?in \<noteq> [] \<longleftrightarrow> B \<noteq> {}" using sig by (metis image_is_empty set_empty)
  have hot: "B \<noteq> {}" if "touches_hot_path stats"
  proof -
    from hot_path_reason [OF that] obtain r where "r \<in> set (concat (map stat_reasons stats))" by blast
    then have "concat (map stat_reasons stats) @ process \<noteq> []" by (metis append_is_Nil_conv empty_iff empty_set)
    then show ?thesis using empty by blast
  qed
  have a: "ra_reasons a = rs" "classify_risk ?in = Inr (ra_level a)"
    using fin by (auto simp: finish_assessment_def Let_def rs_def split: sum.splits)
  obtain input where input: "input = ?in" by blast
  have same: "ri_stats input = stats" "is_large_pure_documentation input changed = ?pure"
    "ri_non_executable input = ri_non_executable ?in0" "ri_configuration input = ri_configuration ?in0"
    by (simp_all add: input snapshot_risk_input_def Let_def is_large_pure_documentation_def)
  have level: "ra_level a =
     (if B \<noteq> {} then RiskHigh
      else if changed > large_change_lines then (if ?pure then RiskMedium else RiskHigh)
      else if rr_code (fallback_risk_reason stats) = ''non_executable_only'' then RiskLow else RiskMedium)"
  proof -
    have "count_changed_lines (ri_stats input) = Inr changed" by (simp only: same(1) count)
    from classify_known [OF this] valid have "classify_risk input = Inr
       (if ri_signals input \<noteq> [] \<or> touches_hot_path (ri_stats input) then RiskHigh
        else if changed > large_change_lines then
          (if is_large_pure_documentation input changed then RiskMedium else RiskHigh)
        else if ri_non_executable input \<and> \<not> ri_configuration input then RiskLow else RiskMedium)"
      unfolding input by blast
    then have "Inr (ra_level a) = (Inr
       (if ri_signals ?in \<noteq> [] \<or> touches_hot_path stats then RiskHigh
        else if changed > large_change_lines then (if ?pure then RiskMedium else RiskHigh)
        else if ri_non_executable ?in0 \<and> \<not> ri_configuration ?in0 then RiskLow else RiskMedium)
        :: risk_error + risk_level)"
      using a(2) by (simp only: same) (simp only: input)
    then show ?thesis using signals hot fallback_non_executable [of stats static_mdx] by auto
  qed
  show ?thesis
  proof (cases "B = {}")
    case False
    then obtain x where "x \<in> B" by blast
    then have "x \<in> reason_pairs rs" "snd x \<noteq> []" using B False by (simp_all add: pairs)
    then have "\<exists>x \<in> reason_pairs rs. snd x \<noteq> []" by blast
    then show ?thesis using level False by (simp add: explained_level_def a(1) Let_def)
  next
    case True
    then show ?thesis unfolding level explained_level_def a(1) Let_def pairs
      using fallback_not_large [of stats] by (auto simp: large_pair_def is_large_pure_documentation_def)
  qed
qed

section \<open>Concrete inputs\<close>

definition empty_snapshot :: snapshot where
  "empty_snapshot = \<lparr>sn_kind = CurrentChanges, sn_projection = NoProjection, sn_unborn = False,
     sn_base = ''base'', sn_candidate = ''candidate'', sn_paths_digest = [], sn_intended = None,
     sn_intended_proof = [], sn_ledger_ids = None, sn_paths = None, sn_identity = []\<rparr>"

definition sample_git :: git_view where
  \<comment> \<open>one changed source file of an authentication package, no process start in either tree\<close>
  "sample_git = \<lparr>gv_stats = Some [\<lparr>ds_path = ''auth/a.go'', ds_additions = 10, ds_deletions = 2,
       ds_binary = False, ds_generated = False, ds_mode_only = False,
       ds_old_mode = [], ds_new_mode = []\<rparr>],
     gv_list = (\<lambda>tree paths. Some (map (\<lambda>p. (p, 1000)) paths)), gv_grep = (\<lambda>tree paths. Some []),
     gv_blob = (\<lambda>tree p. None)\<rparr>"

text \<open>The fence scanner takes any line that starts with three backticks as the end of a fence, while
  a fence of four backticks is closed only by four. After such a fence the scanner is inside a fence
  that Markdown does not see, and live markup is taken for code.\<close>

definition fenced_markup :: string where
  "fenced_markup = replicate 4 backtick @ newline # backtick_fence @ newline # replicate 4 backtick @
     newline # ''<Widget />''"

lemma fence_hides_live_markup: "is_static_mdx_document fenced_markup"
proof -
  have "split_on newline fenced_markup =
      [replicate 4 backtick, backtick_fence, replicate 4 backtick, ''<Widget />'']"
    by code_simp
  moreover have "static_mdx_lines [] [replicate 4 backtick, backtick_fence, replicate 4 backtick, ''<Widget />'']"
    by code_simp
  ultimately show ?thesis by (simp add: is_static_mdx_document_def backtick_fence_def)
qed

lemma markup_is_live: "\<not> is_static_mdx_document ''<Widget />''"
proof -
  have "split_on newline ''<Widget />'' = [''<Widget />'']" by code_simp
  moreover have "\<not> static_mdx_lines [] [''<Widget />'']" by code_simp
  ultimately show ?thesis by (simp add: is_static_mdx_document_def)
qed

section \<open>Properties\<close>

text \<open>C18: the reported reasons explain the tier. Whenever a snapshot is assessed, its level is high
  exactly when a reason carries a risk signal or the change is large and not pure documentation, low
  exactly when the only reason is that nothing executable changed, and medium otherwise.\<close>

theorem reasons_explain_level:
  assumes "assess_snapshot_risk git snap = Inr a"
  shows "ra_level a =
    (if (\<exists>r. r \<in> set (ra_reasons a) \<and> rr_signal r \<noteq> []) \<or>
        ''large_change'' \<in> rr_code ` set (ra_reasons a) \<and> ''non_executable_only'' \<notin> rr_code ` set (ra_reasons a)
     then RiskHigh
     else if rr_code ` set (ra_reasons a) = {''non_executable_only''} then RiskLow else RiskMedium)"
proof -
  from assms obtain stats changed process static_mdx where
    "count_changed_lines stats = Inr changed" "process_boundary_reasons git snap stats = Inr process"
    "finish_assessment (snapshot_risk_input stats static_mdx) changed (joined_risk_reasons stats changed process) = Inr a"
    by (auto simp: assess_snapshot_risk_def split: option.splits sum.splits if_splits)
  then have level: "ra_level a = explained_level (ra_reasons a)"
    using finish_level process_boundary_known by blast
  have codes: "fst ` reason_pairs rs = rr_code ` set rs" for rs by (simp add: reason_pairs_def image_image)
  show ?thesis unfolding level explained_level_def Let_def codes by (simp add: reason_pairs_def)
qed

theorem reasons_explain_level_witness:
  "(case assess_snapshot_risk sample_git empty_snapshot of Inl e \<Rightarrow> False
    | Inr a \<Rightarrow> ra_level a = RiskHigh \<and> rr_code ` set (ra_reasons a) = {''hot_path''})"
proof -
  have "case assess_snapshot_risk sample_git empty_snapshot of Inl e \<Rightarrow> False
    | Inr a \<Rightarrow> map rr_code (ra_reasons a) = [''hot_path''] \<and> map rr_signal (ra_reasons a) = [''auth'']"
    by code_simp
  then obtain a where a: "assess_snapshot_risk sample_git empty_snapshot = Inr a"
      and codes: "map rr_code (ra_reasons a) = [''hot_path'']" and signals: "map rr_signal (ra_reasons a) = [''auth'']"
    by (auto split: sum.splits)
  from signals obtain r where "r \<in> set (ra_reasons a)" "rr_signal r = ''auth''" by auto
  then have "\<exists>r. r \<in> set (ra_reasons a) \<and> rr_signal r \<noteq> []" by force
  then have "ra_level a = RiskHigh" using reasons_explain_level [OF a] by simp
  moreover have "rr_code ` set (ra_reasons a) = {''hot_path''}"
    using arg_cong [OF codes, of set] by simp
  ultimately show ?thesis using a by simp
qed

end
