(* ===== verification/LedgerTypes.thy ===== *)
theory LedgerTypes
  imports CompactStore
begin

text \<open>
  The data of the spec-driven development runtime ledger (internal/sddstatus/runtime_ledger.go and
  review_binding.go): objectives, attempts, the replayed status, the requests of its operations,
  the immutable records they commit, the review binding, their JSON forms and the identities
  hashed from them, and the checks every record must pass.
\<close>

section \<open>Text patterns\<close>

definition runtime_request_id :: "string \<Rightarrow> bool" where
  \<comment> \<open>a lowercase letter or digit, then up to 127 of these, dots, underscores and dashes\<close>
  "runtime_request_id s \<longleftrightarrow>
     (case s of [] \<Rightarrow> False
      | c # cs \<Rightarrow> is_lower_alnum c \<and> length cs \<le> 127 \<and>
                 list_all (\<lambda>x. is_lower_alnum x \<or> x \<in> set ''._-'') cs)"

definition runtime_revision :: "string \<Rightarrow> bool" where
  "runtime_revision s \<longleftrightarrow>
     has_prefix s ''sha256:'' \<and> length s = 71 \<and> list_all is_lower_hex (drop 7 s)"

definition runtime_git_tree :: "string \<Rightarrow> bool" where
  "runtime_git_tree s \<longleftrightarrow> (length s = 40 \<or> length s = 64) \<and> list_all is_lower_hex s"

definition valid_binding_change :: "string \<Rightarrow> bool" where
  "valid_binding_change s \<longleftrightarrow> length s \<le> 96 \<and> matches_lineage_pattern s"

definition valid_binding_lineage :: "string \<Rightarrow> bool" where
  "valid_binding_lineage s \<longleftrightarrow> length s \<le> 128 \<and> matches_lineage_pattern s"

definition runtime_text :: "nat \<Rightarrow> string \<Rightarrow> bool" where
  \<comment> \<open>\<^verbatim>\<open>validateRuntimeText\<close> accepts the value\<close>
  "runtime_text maximum s \<longleftrightarrow>
     s \<noteq> [] \<and> length s \<le> maximum \<and> trim_space s = s \<and>
     \<not> list_ex (\<lambda>c. c \<in> {CHR 0x0D, CHR 0x0A, CHR 0x00}) s"

section \<open>Status\<close>

datatype attempt_outcome =
    AttemptRunning | AttemptFailed | AttemptInterrupted | AttemptPassed | OtherOutcome string

datatype harness_disposition = HarnessReused | HarnessInvalidated | OtherHarness string

fun attempt_outcome_text :: "attempt_outcome \<Rightarrow> string" where
  "attempt_outcome_text AttemptRunning = ''running''"
| "attempt_outcome_text AttemptFailed = ''failed''"
| "attempt_outcome_text AttemptInterrupted = ''interrupted''"
| "attempt_outcome_text AttemptPassed = ''passed''"
| "attempt_outcome_text (OtherOutcome s) = s"

fun harness_text :: "harness_disposition \<Rightarrow> string" where
  "harness_text HarnessReused = ''reused''"
| "harness_text HarnessInvalidated = ''invalidated''"
| "harness_text (OtherHarness s) = s"

definition terminal_outcome :: "attempt_outcome \<Rightarrow> bool" where
  "terminal_outcome out \<longleftrightarrow> out \<in> {AttemptFailed, AttemptInterrupted, AttemptPassed}"

definition known_harness :: "harness_disposition \<Rightarrow> bool" where
  "known_harness h \<longleftrightarrow> h \<in> {HarnessReused, HarnessInvalidated}"

record runtime_objective =
  oj_id :: string
  oj_generation :: int
  oj_work_unit :: string
  oj_goal :: string
  oj_identity :: string
  oj_tree :: string
  oj_max_attempts :: int
  oj_max_lines :: int

record runtime_attempt =
  at_ordinal :: int
  at_objective :: string
  at_generation :: int
  at_work_unit :: string
  at_begin_identity :: string
  at_begin_tree :: string
  at_finish_identity :: string
  at_finish_tree :: string
  at_outcome :: attempt_outcome
  at_lines :: int
  at_evidence :: string
  at_diagnosis :: string
  at_harness :: harness_disposition
  at_cleanup :: string
  at_process :: string
  at_remediates :: string
  at_exceeded :: bool

record runtime_reset =
  rz_revision :: string
  rz_objective :: string
  rz_generation :: int
  rz_identity :: string
  rz_tree :: string
  rz_reason :: string
  rz_actor :: string

datatype runtime_action = ActionBegin | ActionFinish | ActionReset | ActionComplete

record review_binding =
  sb_schema :: string
  sb_revision :: string
  sb_change :: string
  sb_lineage :: string
  sb_authority :: string
  sb_receipt :: string
  sb_context :: gate_context

record runtime_status =
  ls_change :: string
  ls_revision :: string
  ls_objective :: "runtime_objective option"
  ls_active :: "runtime_attempt option"
  ls_attempts :: "runtime_attempt list"
  ls_generation :: int
  ls_next_ordinal :: int
  ls_cumulative_attempts :: int
  ls_cumulative_lines :: int
  ls_lifetime_attempts :: int
  ls_lifetime_lines :: int
  ls_evidence :: string
  ls_decision :: bool
  ls_complete :: bool
  ls_next_action :: runtime_action
  ls_last_reset :: "runtime_reset option"
  ls_binding_revision :: string
  ls_binding :: "review_binding option"

section \<open>Requests\<close>

record begin_request =
  bq_expected :: string
  bq_id :: string
  bq_work_unit :: string
  bq_goal :: string
  bq_max_attempts :: int
  bq_max_lines :: int

record finish_request =
  fq_expected :: string
  fq_id :: string
  fq_outcome :: attempt_outcome
  fq_evidence :: string
  fq_diagnosis :: string
  fq_harness :: harness_disposition
  fq_cleanup :: string
  fq_process :: string
  fq_binding :: string
  fq_successor :: string
  fq_remediates :: string

record reset_request =
  zq_expected :: string
  zq_id :: string
  zq_reason :: string
  zq_actor :: string

record bind_request =
  nq_expected :: string
  nq_id :: string
  nq_lineage :: string

definition json_begin_request :: "begin_request \<Rightarrow> json" where
  "json_begin_request q = JObj
     (field ''expected_revision'' (JStr (bq_expected q)) @ field ''request_id'' (JStr (bq_id q)) @
      field ''work_unit'' (JStr (bq_work_unit q)) @ field ''evidence_goal'' (JStr (bq_goal q)) @
      field ''max_attempts'' (JInt (bq_max_attempts q)) @
      field ''max_changed_lines'' (JInt (bq_max_lines q)))"

definition json_finish_request :: "finish_request \<Rightarrow> json" where
  "json_finish_request q = JObj
     (field ''expected_revision'' (JStr (fq_expected q)) @ field ''request_id'' (JStr (fq_id q)) @
      field ''outcome'' (JStr (attempt_outcome_text (fq_outcome q))) @
      field ''evidence_revision'' (JStr (fq_evidence q)) @ field ''diagnosis'' (JStr (fq_diagnosis q)) @
      field ''harness_disposition'' (JStr (harness_text (fq_harness q))) @
      field ''cleanup_evidence'' (JStr (fq_cleanup q)) @ field ''process_evidence'' (JStr (fq_process q)) @
      omit_empty ''expected_binding_revision'' (fq_binding q) @
      omit_empty ''successor_lineage_id'' (fq_successor q) @
      omit_empty ''remediates_evidence_revision'' (fq_remediates q))"

definition json_reset_request :: "reset_request \<Rightarrow> json" where
  "json_reset_request q = JObj
     (field ''expected_revision'' (JStr (zq_expected q)) @ field ''request_id'' (JStr (zq_id q)) @
      field ''reason'' (JStr (zq_reason q)) @ field ''actor'' (JStr (zq_actor q)))"

definition json_bind_request :: "bind_request \<Rightarrow> json" where
  "json_bind_request q = JObj
     (field ''expected_binding_revision'' (JStr (nq_expected q)) @ field ''request_id'' (JStr (nq_id q)) @
      field ''lineage_id'' (JStr (nq_lineage q)))"

definition runtime_value_hash :: "string \<Rightarrow> json \<Rightarrow> string" where
  "runtime_value_hash domain v = identity_of (domain @ [CHR 0x0A] @ render v)"

definition begin_digest :: "begin_request \<Rightarrow> string" where
  "begin_digest q = runtime_value_hash ''gentle-ai.sdd-runtime-begin-request/v1'' (json_begin_request q)"

definition finish_digest :: "finish_request \<Rightarrow> string" where
  "finish_digest q = runtime_value_hash ''gentle-ai.sdd-runtime-finish-request/v1'' (json_finish_request q)"

definition reset_digest :: "reset_request \<Rightarrow> string" where
  "reset_digest q = runtime_value_hash ''gentle-ai.sdd-runtime-reset-request/v1'' (json_reset_request q)"

definition bind_digest :: "bind_request \<Rightarrow> string" where
  "bind_digest q = runtime_value_hash ''gentle-ai.sdd-runtime-bind-request/v1'' (json_bind_request q)"

definition runtime_objective_id :: "string \<Rightarrow> string \<Rightarrow> string \<Rightarrow> string \<Rightarrow> int \<Rightarrow> string" where
  "runtime_objective_id change work goal candidate generation =
     runtime_value_hash ''gentle-ai.sdd-runtime-objective/v2'' (JObj
       (field ''change'' (JStr change) @ field ''work_unit'' (JStr work) @
        field ''evidence_goal'' (JStr goal) @ field ''candidate_identity'' (JStr candidate) @
        field ''generation'' (JInt generation)))"

definition runtime_objective_id_v1 :: "string \<Rightarrow> string \<Rightarrow> string \<Rightarrow> int \<Rightarrow> string" where
  "runtime_objective_id_v1 change goal candidate generation =
     runtime_value_hash ''gentle-ai.sdd-runtime-objective/v1'' (JObj
       (field ''change'' (JStr change) @ field ''evidence_goal'' (JStr goal) @
        field ''candidate_identity'' (JStr candidate) @ field ''generation'' (JInt generation)))"

definition legacy_objective_id :: "string \<Rightarrow> string \<Rightarrow> string" where
  "legacy_objective_id change goal =
     runtime_value_hash ''gentle-ai.sdd-runtime-objective/v1'' (JObj
       (field ''change'' (JStr change) @ field ''evidence_goal'' (JStr goal)))"

section \<open>The review binding\<close>

definition json_binding :: "review_binding \<Rightarrow> json" where
  "json_binding b = JObj
     (field ''schema'' (JStr (sb_schema b)) @ field ''revision'' (JStr (sb_revision b)) @
      field ''change'' (JStr (sb_change b)) @ field ''lineage'' (JStr (sb_lineage b)) @
      field ''authority_revision'' (JStr (sb_authority b)) @
      field ''receipt_hash'' (JStr (sb_receipt b)) @
      field ''gate_context'' (json_gate_context (sb_context b)))"

definition binding_bytes :: "review_binding \<Rightarrow> string" where
  "binding_bytes b = render (json_binding b) @ [CHR 0x0A]"

definition binding_digest :: "review_binding \<Rightarrow> string" where
  "binding_digest b = identity_of (render (json_binding (b\<lparr>sb_revision := []\<rparr>)))"

definition binding_parses :: "review_binding \<Rightarrow> bool" where
  \<comment> \<open>\<^verbatim>\<open>parseBinding\<close> of the bytes of a binding gives it back: decoding its own encoding succeeds on
    UTF-8 text and the fields pass the checks\<close>
  "binding_parses b \<longleftrightarrow>
     json_utf8 (json_binding b) \<and> sb_schema b = ''gentle-ai.sdd-review-binding/v1'' \<and>
     valid_binding_change (sb_change b) \<and> valid_binding_lineage (sb_lineage b) \<and>
     runtime_revision (sb_revision b) \<and> runtime_revision (sb_authority b) \<and>
     runtime_revision (sb_receipt b) \<and> sb_revision b = binding_digest b \<and>
     gc_gate (sb_context b) = PostApply \<and> gc_lineage (sb_context b) = sb_lineage b \<and>
     gc_store_revision (sb_context b) = sb_authority b"

definition prepared_binding_ok :: "review_binding \<Rightarrow> string \<Rightarrow> string \<Rightarrow> bool" where
  \<comment> \<open>\<^verbatim>\<open>validatePreparedRuntimeBinding\<close> returns the binding\<close>
  "prepared_binding_ok b change lineage \<longleftrightarrow>
     binding_parses b \<and> sb_change b = change \<and> sb_lineage b = lineage"

definition bound_context_matches :: "gate_context \<Rightarrow> gate_context \<Rightarrow> bool" where
  \<comment> \<open>a context bound before ledgers were recorded holds the empty hash\<close>
  "bound_context_matches bound live =
     (if bound = live then True
      else if gc_ledger bound \<noteq> empty_fix_delta_hash then False
      else bound\<lparr>gc_ledger := gc_ledger live\<rparr> = live)"

end
