(* ===== verification/SddReport.thy ===== *)
theory SddReport
  imports LedgerTypes
begin

text \<open>
  Verify reports and remediation results (verification.go): the leading fenced envelope, its scalar
  fields, the report they make, its evaluation against the counts of the specs
  (\<^verbatim>\<open>parseVerifyResult\<close>), its admission before it is stored
  (\<^verbatim>\<open>ValidateVerifyReportAdmission\<close>) and the evidence of a remediation. Reasons are the texts the
  code reports, the empty text standing for none. The fenced JSON of a remediation is decoded by the
  argument \<open>decode\<close>.
\<close>

section \<open>Lines and envelopes\<close>

definition line_feed :: char where "line_feed = CHR 0x0A"

fun replace_crlf :: "string \<Rightarrow> string" where
  "replace_crlf [] = []"
| "replace_crlf (c # s) =
     (case s of [] \<Rightarrow> [c]
      | d # s' \<Rightarrow> if c = CHR 0x0D \<and> d = line_feed then line_feed # replace_crlf s' else c # replace_crlf s)"

definition cut_at :: "char \<Rightarrow> string \<Rightarrow> (string \<times> string) option" where
  \<comment> \<open>\<^verbatim>\<open>strings.Cut\<close> on one byte\<close>
  "cut_at sep s =
     (if sep \<in> set s
      then Some (takeWhile (\<lambda>c. c \<noteq> sep) s, tl (dropWhile (\<lambda>c. c \<noteq> sep) s)) else None)"

definition fence :: string where "fence = ''```''"

definition front_matter_reason :: string where
  "front_matter_reason =
     ''YAML front matter is unsupported; the first non-empty content must be a fenced yaml envelope''"

definition missing_envelope_reason :: string where
  "missing_envelope_reason =
     ''missing valid gentle-ai.verify-result/v1 envelope: the first non-empty content must be fenced yaml''"

definition unterminated_reason :: string where
  "unterminated_reason = ''unterminated verify result envelope''"

definition leading_envelope :: "string \<Rightarrow> string + string list \<times> string list" where
  \<comment> \<open>the lines between the fences and those after the closing one\<close>
  "leading_envelope text =
     (let lines = split_on line_feed (trim_space (replace_crlf text));
          first = trim_space (hd lines);
          open_line = (\<lambda>l. trim_space l \<noteq> fence);
          rest = dropWhile open_line (tl lines)
      in if first = ''---'' then Inl front_matter_reason
         else if first \<noteq> fence @ ''yaml'' then Inl missing_envelope_reason
         else if rest = [] then Inl unterminated_reason
         else Inr (takeWhile open_line (tl lines), tl rest))"

type_synonym fields = "(string \<times> string) list"

definition field_value :: "fields \<Rightarrow> string \<Rightarrow> string" where
  \<comment> \<open>a missing key reads as the empty text\<close>
  "field_value fs k = (case map_of fs k of None \<Rightarrow> [] | Some v \<Rightarrow> v)"

definition has_field :: "fields \<Rightarrow> string \<Rightarrow> bool" where
  "has_field fs k \<longleftrightarrow> map_of fs k \<noteq> None"

definition split_field :: "string \<Rightarrow> string \<times> string" where
  \<comment> \<open>the trimmed sides of the first colon; without one the value is empty\<close>
  "split_field line =
     (case cut_at (CHR '':'') line of None \<Rightarrow> (line, [])
      | Some (k, v) \<Rightarrow> (trim_space k, trim_space v))"

fun scalar_fields :: "string list \<Rightarrow> string \<Rightarrow> string list \<Rightarrow> fields \<Rightarrow> fields \<times> string" where
  \<comment> \<open>allowed keys, label, lines left and fields read; the reason is empty on success\<close>
  "scalar_fields allowed label [] fs = (fs, [])"
| "scalar_fields allowed label (l # ls) fs =
     (let line = trim_space l in
      if line = [] then scalar_fields allowed label ls fs
      else (case split_field line of (k, v) \<Rightarrow>
        if k = [] \<or> v = [] then (fs, ''malformed '' @ label @ '' field'')
        else if k \<notin> set allowed then (fs, ''unknown '' @ label @ '' field '' @ k)
        else if has_field fs k then (fs, ''duplicate '' @ label @ '' field '' @ k)
        else scalar_fields allowed label ls (fs @ [(k, v)])))"

section \<open>Numbers and evidence texts\<close>

definition digits_value :: "string \<Rightarrow> int" where
  "digits_value s = foldl (\<lambda>n c. 10 * n + (int (byte c) - 48)) 0 s"

definition nonnegative_int :: "string \<Rightarrow> int option" where
  \<comment> \<open>\<^verbatim>\<open>strconv.Atoi\<close> refuses what does not fit 64 bits\<close>
  "nonnegative_int s =
     (if s = [] \<or> \<not> list_all is_digit s \<or> digits_value s > int_max then None
      else Some (digits_value s))"

record completion =
  vc_completed :: int
  vc_total :: int

definition parse_completion :: "string \<Rightarrow> completion option" where
  "parse_completion value =
     (case cut_at (CHR ''/'') value of None \<Rightarrow> None
      | Some (c, t) \<Rightarrow>
          if CHR ''/'' \<in> set t then None
          else (case nonnegative_int c of None \<Rightarrow> None
          | Some finished \<Rightarrow>
              (case nonnegative_int t of None \<Rightarrow> None
               | Some all \<Rightarrow>
                   if finished > all then None
                   else Some \<lparr>vc_completed = finished, vc_total = all\<rparr>)))"

definition placeholder_words :: "string list" where
  "placeholder_words =
     [''n/a'', ''na'', ''none'', ''todo'', ''tbd'', ''pass'', ''passed'', ''success'', ''recorded'',
      ''placeholder'']"

definition concrete_evidence :: "string \<Rightarrow> bool" where
  "concrete_evidence value \<longleftrightarrow>
     (let t = trim_space value in
      t \<noteq> [] \<and> \<not> list_ex (\<lambda>c. c \<in> set ''{}<>'') t \<and> to_lower t \<notin> set placeholder_words)"

definition concrete_na_reason :: "string \<Rightarrow> bool" where
  "concrete_na_reason value \<longleftrightarrow>
     (let t = trim_space value in
      length t \<ge> 20 \<and> contains (to_lower t) ''because'' \<and> concrete_evidence t)"

definition sha256_identity :: "string \<Rightarrow> bool" where
  "sha256_identity s \<longleftrightarrow>
     has_prefix s ''sha256:'' \<and> length s = 71 \<and> list_all is_lower_hex (drop 7 s)"

section \<open>Verify reports\<close>

definition verify_result_schema :: string where
  "verify_result_schema = ''gentle-ai.verify-result/v1''"

definition empty_output_hash :: string where
  "empty_output_hash = ''sha256:e3b0c44298fc1c149afbf4c8996fb92427ae41e4649b934ca495991b7852b855''"

definition base_fields :: "string list" where
  "base_fields =
     [''schema'', ''evidence_revision'', ''verdict'', ''blockers'', ''critical_findings'',
      ''requirements'', ''scenarios'', ''test_command'', ''test_exit_code'', ''test_output_hash'',
      ''build_command'', ''build_exit_code'', ''build_output_hash'']"

definition extension_fields :: "string list" where
  "extension_fields =
     [''authority_only_failure'', ''missing_review_authority'', ''substantive_failure'',
      ''command_failed'', ''observed_authority_revision'']"

definition extension_answers :: fields where
  "extension_answers =
     [(''authority_only_failure'', ''true''), (''missing_review_authority'', ''true''),
      (''substantive_failure'', ''false''), (''command_failed'', ''false'')]"

record verify_report =
  vr_fields :: fields
  vr_verdict :: string
  vr_evidence :: string
  vr_blockers :: int
  vr_critical :: int
  vr_test_exit :: int
  vr_build_exit :: int
  vr_requirements :: completion
  vr_scenarios :: completion
  vr_authority_only :: bool

definition no_completion :: completion where
  "no_completion = \<lparr>vc_completed = 0, vc_total = 0\<rparr>"

definition empty_report :: verify_report where
  "empty_report =
     \<lparr>vr_fields = [], vr_verdict = [], vr_evidence = [], vr_blockers = 0, vr_critical = 0,
      vr_test_exit = 0, vr_build_exit = 0, vr_requirements = no_completion,
      vr_scenarios = no_completion, vr_authority_only = False\<rparr>"

definition invalid_field :: "string \<Rightarrow> string" where
  "invalid_field name = ''invalid '' @ name @ '' in verify result envelope''"

fun read_counts :: "(string \<times> (int \<Rightarrow> verify_report \<Rightarrow> verify_report)) list \<Rightarrow> verify_report \<Rightarrow>
    verify_report \<times> string" where
  "read_counts [] r = (r, [])"
| "read_counts ((name, store) # targets) r =
     (case nonnegative_int (field_value (vr_fields r) name) of
        None \<Rightarrow> (r, invalid_field name)
      | Some n \<Rightarrow> read_counts targets (store n r))"

definition count_targets :: "(string \<times> (int \<Rightarrow> verify_report \<Rightarrow> verify_report)) list" where
  "count_targets =
     [(''blockers'', \<lambda>n r. r\<lparr>vr_blockers := n\<rparr>),
      (''critical_findings'', \<lambda>n r. r\<lparr>vr_critical := n\<rparr>),
      (''test_exit_code'', \<lambda>n r. r\<lparr>vr_test_exit := n\<rparr>),
      (''build_exit_code'', \<lambda>n r. r\<lparr>vr_build_exit := n\<rparr>)]"

definition extension_valid :: "verify_report \<Rightarrow> bool" where
  "extension_valid r \<longleftrightarrow>
     (let fs = vr_fields r in
      list_all (\<lambda>(k, v). field_value fs k = v) extension_answers \<and>
      vr_verdict r = ''fail'' \<and> vr_test_exit r = 125 \<and> vr_build_exit r = 125 \<and>
      vr_blockers r \<noteq> 0 \<and> vr_critical r \<noteq> 0 \<and>
      field_value fs ''test_output_hash'' = empty_output_hash \<and>
      field_value fs ''build_output_hash'' = empty_output_hash \<and>
      sha256_identity (field_value fs ''observed_authority_revision''))"

definition finish_report :: "verify_report \<Rightarrow> verify_report \<times> string" where
  \<comment> \<open>the completions, the verdict and the extension\<close>
  "finish_report r =
     (let fs = vr_fields r in
      case parse_completion (field_value fs ''requirements'') of
        None \<Rightarrow> (r\<lparr>vr_requirements := no_completion\<rparr>, invalid_field ''requirements'')
      | Some q \<Rightarrow>
          let r = r\<lparr>vr_requirements := q\<rparr> in
          (case parse_completion (field_value fs ''scenarios'') of
             None \<Rightarrow> (r\<lparr>vr_scenarios := no_completion\<rparr>, invalid_field ''scenarios'')
           | Some s \<Rightarrow>
               let r = r\<lparr>vr_scenarios := s\<rparr> in
               if vr_verdict r \<notin> {''pass'', ''pass_with_warnings'', ''fail''}
               then (r, ''invalid verdict '' @ vr_verdict r)
               else if vr_authority_only r \<and> \<not> extension_valid r
               then (r, ''invalid authority-only extension'')
               else (r, [])))"

definition report_shape :: "fields \<Rightarrow> string" where
  \<comment> \<open>required fields, the extension all or nothing, the schema, identities and commands\<close>
  "report_shape fs =
     (let extensions = length (filter (has_field fs) extension_fields) in
      case List.find (\<lambda>k. \<not> has_field fs k) base_fields of
        Some k \<Rightarrow> ''missing '' @ k @ '' in verify result envelope''
      | None \<Rightarrow>
          if extensions \<noteq> 0 \<and> extensions \<noteq> length extension_fields
          then ''authority-only extension must contain exactly five fields''
          else if field_value fs ''schema'' \<noteq> verify_result_schema
          then ''unsupported verify result schema '' @ field_value fs ''schema''
          else (case List.find (\<lambda>k. \<not> sha256_identity (field_value fs k))
                  [''evidence_revision'', ''test_output_hash'', ''build_output_hash''] of
             Some k \<Rightarrow> invalid_field k
           | None \<Rightarrow>
               if \<not> concrete_evidence (field_value fs ''test_command'') \<or>
                  \<not> concrete_evidence (field_value fs ''build_command'')
               then ''test_command and build_command require concrete current execution evidence''
               else []))"

definition parse_report :: "string \<Rightarrow> verify_report \<times> string" where
  "parse_report text =
     (case leading_envelope text of Inl reason \<Rightarrow> (empty_report, reason)
      | Inr (body, rest) \<Rightarrow>
          (case scalar_fields (base_fields @ extension_fields) ''verify result'' body [] of
             (fs, reason) \<Rightarrow>
               let revision = field_value fs ''evidence_revision'';
                   r = empty_report\<lparr>vr_fields := fs,
                         vr_evidence := (if field_value fs ''schema'' = verify_result_schema \<and>
                           sha256_identity revision then revision else [])\<rparr>
               in if reason \<noteq> [] then (r, reason)
                  else if report_shape fs \<noteq> [] then (r, report_shape fs)
                  else (case read_counts count_targets
                          (r\<lparr>vr_verdict := field_value fs ''verdict'',
                             vr_authority_only := list_ex (has_field fs) extension_fields\<rparr>) of
                     (r, reason) \<Rightarrow> if reason \<noteq> [] then (r, reason) else finish_report r)))"

section \<open>Evaluation and admission\<close>

record spec_counts =
  sc_requirements :: int
  sc_scenarios :: int

record verify_evaluation =
  ve_passing :: bool
  ve_stale :: bool
  ve_reason :: string
  ve_evidence :: string

definition completions_full :: "verify_report \<Rightarrow> bool" where
  "completions_full r \<longleftrightarrow>
     vc_completed (vr_requirements r) = vc_total (vr_requirements r) \<and>
     vc_completed (vr_scenarios r) = vc_total (vr_scenarios r)"

definition totals_match :: "spec_counts \<Rightarrow> verify_report \<Rightarrow> bool" where
  "totals_match expected r \<longleftrightarrow>
     vc_total (vr_requirements r) = sc_requirements expected \<and>
     vc_total (vr_scenarios r) = sc_scenarios expected"

definition total_mismatch :: "int \<Rightarrow> string \<Rightarrow> int \<Rightarrow> string" where
  "total_mismatch got what expected =
     ''verify result total '' @ int_text got @ '' does not match actual '' @ what @ '' count '' @
     int_text expected"

definition evaluation_reason :: "spec_counts \<Rightarrow> verify_report \<Rightarrow> string" where
  \<comment> \<open>the first return after the exit codes\<close>
  "evaluation_reason expected r =
     (if vc_total (vr_requirements r) \<noteq> sc_requirements expected
      then total_mismatch (vc_total (vr_requirements r)) ''requirement'' (sc_requirements expected)
      else if vc_total (vr_scenarios r) \<noteq> sc_scenarios expected
      then total_mismatch (vc_total (vr_scenarios r)) ''scenario'' (sc_scenarios expected)
      else if vr_blockers r \<noteq> 0 then ''blockers must be zero for archive readiness''
      else if vr_critical r \<noteq> 0 then ''critical_findings must be zero for archive readiness''
      else if vc_completed (vr_requirements r) \<noteq> vc_total (vr_requirements r)
      then ''requirements are incomplete''
      else if vc_completed (vr_scenarios r) \<noteq> vc_total (vr_scenarios r)
      then ''scenarios are incomplete''
      else if vr_verdict r = ''fail'' then ''verdict requires remediation''
      else [])"

definition parse_verify_result :: "spec_counts \<Rightarrow> string \<Rightarrow> verify_evaluation" where
  "parse_verify_result expected text =
     (case parse_report text of (r, reason) \<Rightarrow>
      let ev = \<lparr>ve_passing = False, ve_stale = False, ve_reason = reason, ve_evidence = vr_evidence r\<rparr> in
      if reason \<noteq> [] then ev
      else if vr_test_exit r \<noteq> 0
      then ev\<lparr>ve_reason := ''test_exit_code must be zero for archive readiness''\<rparr>
      else if vr_build_exit r \<noteq> 0
      then ev\<lparr>ve_reason := ''build_exit_code must be zero for archive readiness''\<rparr>
      else
        let why = evaluation_reason expected r in
        ev\<lparr>ve_stale := (\<not> totals_match expected r \<and> vr_verdict r \<noteq> ''fail'' \<and> vr_blockers r = 0 \<and>
                         vr_critical r = 0 \<and> completions_full r),
           ve_reason := why, ve_passing := (why = [])\<rparr>)"

record report_admission =
  ra_valid :: bool
  ra_reason :: string
  ra_verdict :: string
  ra_evidence :: string

definition admission_reason :: "spec_counts \<Rightarrow> verify_report \<Rightarrow> string" where
  "admission_reason expected r =
     (if sc_requirements expected < 0 \<or> sc_scenarios expected < 0
      then ''expected requirement and scenario counts must be nonnegative''
      else if vc_total (vr_requirements r) \<noteq> sc_requirements expected
      then total_mismatch (vc_total (vr_requirements r)) ''requirement'' (sc_requirements expected)
      else if vc_total (vr_scenarios r) \<noteq> sc_scenarios expected
      then total_mismatch (vc_total (vr_scenarios r)) ''scenario'' (sc_scenarios expected)
      else if vr_verdict r \<noteq> ''fail'' then
        (if vr_test_exit r \<noteq> 0 \<or> vr_build_exit r \<noteq> 0 \<or> vr_blockers r \<noteq> 0 \<or> vr_critical r \<noteq> 0 \<or>
            \<not> completions_full r
         then ''passing verdict contradicts failing or incomplete evidence'' else [])
      else if \<not> vr_authority_only r then
        (if vr_test_exit r = 125 \<or> vr_build_exit r = 125
         then ''exit code 125 requires the exact authority-only extension''
         else if vr_test_exit r = 0 \<and> vr_build_exit r = 0 \<and> vr_blockers r = 0 \<and> vr_critical r = 0 \<and>
            completions_full r
         then ''fail verdict is contradictory with all-green evidence'' else [])
      else [])"

definition admit_report :: "spec_counts \<Rightarrow> string \<Rightarrow> report_admission" where
  "admit_report expected text =
     (case parse_report text of (r, reason) \<Rightarrow>
      if reason \<noteq> [] then \<lparr>ra_valid = False, ra_reason = reason, ra_verdict = [], ra_evidence = []\<rparr>
      else let why = admission_reason expected r in
        \<lparr>ra_valid = (why = []), ra_reason = why, ra_verdict = vr_verdict r,
         ra_evidence = vr_evidence r\<rparr>)"

definition authority_failure :: "string \<Rightarrow> fields option" where
  \<comment> \<open>\<^verbatim>\<open>authorityFailureFields\<close>\<close>
  "authority_failure report =
     (case parse_report report of (r, reason) \<Rightarrow>
      if reason \<noteq> [] \<or> \<not> vr_authority_only r then None else Some (vr_fields r))"

definition authority_only_failed :: "string \<Rightarrow> bool" where
  "authority_only_failed report =
     (case authority_failure report of None \<Rightarrow> False
      | Some fs \<Rightarrow> list_all (\<lambda>(k, v). field_value fs k = v) extension_answers)"

definition observed_authority :: "string \<Rightarrow> string" where
  "observed_authority report =
     (case authority_failure report of None \<Rightarrow> []
      | Some fs \<Rightarrow> field_value fs ''observed_authority_revision'')"

definition authority_changed_since :: "string \<Rightarrow> string \<Rightarrow> bool" where
  "authority_changed_since report revision =
     (case authority_failure report of None \<Rightarrow> False
      | Some fs \<Rightarrow> field_value fs ''observed_authority_revision'' \<noteq> revision)"

end
