(* ===== verification/SddEvidence.thy ===== *)
theory SddEvidence
  imports SddReport
begin

text \<open>
  What the documents of a change are measured by: the requirement and scenario headings of its specs,
  the check boxes of its task list (status.go), and the remediation result with its JSON evidence
  (verification.go).
\<close>

section \<open>Spec headings\<close>

definition regex_space :: "char \<Rightarrow> bool" where
  \<comment> \<open>the class \<^verbatim>\<open>\s\<close> of Go's regular expressions\<close>
  "regex_space c \<longleftrightarrow> c \<in> {CHR 0x09, CHR 0x0A, CHR 0x0C, CHR 0x0D, CHR 0x20}"

definition heading_span :: "string \<Rightarrow> string \<Rightarrow> nat option" where
  \<comment> \<open>bytes matched by the heading, white space and one more character; the later bytes of a longer
    rune begin no line, so they are left to the scan\<close>
  "heading_span h s =
     (if \<not> prefix h s then None
      else let t = drop (length h) s; u = dropWhile regex_space t in
        if u = [] \<or> u = t then None
        else Some (length h + (length t - length u) + 1))"

fun count_headings :: "string \<Rightarrow> nat \<Rightarrow> bool \<Rightarrow> string \<Rightarrow> int" where
  \<comment> \<open>the matches of \<^verbatim>\<open>(?m)^h\s+\S\<close>: bytes of the current match left, and whether a line begins here\<close>
  "count_headings h k bol [] = 0"
| "count_headings h (Suc k) bol (c # s) = count_headings h k False s"
| "count_headings h 0 bol (c # s) =
     (case (if bol then heading_span h (c # s) else None) of
        Some n \<Rightarrow> 1 + count_headings h (n - 1) False s
      | None \<Rightarrow> count_headings h 0 (c = line_feed) s)"

definition requirement_heading :: string where "requirement_heading = ''### Requirement:''"
definition scenario_heading :: string where "scenario_heading = ''#### Scenario:''"

definition spec_counts_of :: "string list \<Rightarrow> spec_counts" where
  "spec_counts_of specs =
     \<lparr>sc_requirements = sum_list (map (count_headings requirement_heading 0 True) specs),
      sc_scenarios = sum_list (map (count_headings scenario_heading 0 True) specs)\<rparr>"

section \<open>Task check boxes\<close>

definition list_marker :: "string \<Rightarrow> string option" where
  \<comment> \<open>what follows a dash, a star, or a number with a dot or parenthesis\<close>
  "list_marker s =
     (case s of [] \<Rightarrow> None
      | c # rest \<Rightarrow>
          if c \<in> set ''-*'' then Some rest
          else if \<not> is_digit c then None
          else (case dropWhile is_digit s of [] \<Rightarrow> None
                | d # rest \<Rightarrow> if d \<in> set ''.)'' then Some rest else None))"

definition task_checkbox :: "string \<Rightarrow> char option" where
  \<comment> \<open>the mark in the box of a line, as \<^verbatim>\<open>^\s*(?:[-*]|\d+[.)])\s+\[([ xX])\]\<close> captures it\<close>
  "task_checkbox line =
     (case list_marker (dropWhile regex_space line) of None \<Rightarrow> None
      | Some t \<Rightarrow>
          let u = dropWhile regex_space t in
          if u = t then None
          else (case u of a # m # b # _ \<Rightarrow>
                  if a = CHR ''['' \<and> b = CHR '']'' \<and> m \<in> set '' xX'' then Some m else None
                | _ \<Rightarrow> None))"

record task_progress =
  tp_total :: int
  tp_completed :: int
  tp_pending :: int
  tp_all :: bool

definition no_progress :: task_progress where
  "no_progress = \<lparr>tp_total = 0, tp_completed = 0, tp_pending = 0, tp_all = False\<rparr>"

fun count_task_lines :: "string list \<Rightarrow> task_progress \<Rightarrow> task_progress" where
  "count_task_lines [] p = p"
| "count_task_lines (l # ls) p = count_task_lines ls
     (case task_checkbox l of None \<Rightarrow> p
      | Some m \<Rightarrow>
          if m \<in> set ''xX''
          then p\<lparr>tp_total := tp_total p + 1, tp_completed := tp_completed p + 1\<rparr>
          else p\<lparr>tp_total := tp_total p + 1, tp_pending := tp_pending p + 1\<rparr>)"

definition task_progress_of :: "string \<Rightarrow> task_progress" where
  "task_progress_of content =
     (let p = count_task_lines (split_on line_feed content) no_progress
      in p\<lparr>tp_all := (tp_total p > 0 \<and> tp_pending p = 0)\<rparr>)"

section \<open>Remediation results\<close>

definition remediation_schema :: string where
  "remediation_schema = ''gentle-ai.remediation-result/v1''"

definition remediation_fields :: "string list" where
  "remediation_fields =
     [''schema'', ''status'', ''failed_evidence_revision'', ''focused_tests'', ''runtime_harness'',
      ''rollback_boundary'', ''lineage_id'', ''generation'', ''fix_batch'']"

record remediation_command =
  rk_command :: string
  rk_exit :: int
  rk_result :: string

record remediation_evidence =
  rm_schema :: string
  rm_failed :: string
  rm_lineage :: string
  rm_generation :: int
  rm_batch :: int
  rm_commands :: "remediation_command list"
  rm_status :: string
  rm_command :: string
  rm_result :: string
  rm_na_reason :: string
  rm_boundary :: string
  rm_rollback :: string

record remediation_binding =
  rb_lineage :: string
  rb_generation :: int
  rb_batch :: int

fun sub_index :: "string \<Rightarrow> string \<Rightarrow> nat option" where
  \<comment> \<open>\<^verbatim>\<open>strings.Index\<close>\<close>
  "sub_index sub [] = (if sub = [] then Some 0 else None)"
| "sub_index sub (c # s) =
     (if prefix sub (c # s) then Some 0 else map_option Suc (sub_index sub s))"

definition remediation_json :: "string list \<Rightarrow> string option" where
  \<comment> \<open>the text between the JSON fences, which must end the document\<close>
  "remediation_json lines =
     (let text = trim_space (join_with [line_feed] lines); open_json = fence @ ''json'' @ [line_feed] in
      if \<not> prefix open_json text then None
      else let body = drop (length open_json) text in
        case sub_index (line_feed # fence) body of None \<Rightarrow> None
        | Some n \<Rightarrow> if trim_space (drop (n + 4) body) \<noteq> [] then None else Some (take n body))"

definition parse_remediation_evidence ::
  "(string \<Rightarrow> remediation_evidence option) \<Rightarrow> string list \<Rightarrow> remediation_evidence option" where
  "parse_remediation_evidence decode lines =
     (case remediation_json lines of None \<Rightarrow> None
      | Some body \<Rightarrow>
          (case decode body of None \<Rightarrow> None
           | Some e \<Rightarrow> if rm_schema e = ''gentle-ai.remediation-evidence/v1'' then Some e else None))"

definition command_proves :: "remediation_command \<Rightarrow> bool" where
  "command_proves c \<longleftrightarrow>
     rk_exit c = 0 \<and> concrete_evidence (rk_command c) \<and> concrete_evidence (rk_result c)"

definition harness_proves :: "remediation_evidence \<Rightarrow> bool" where
  "harness_proves e \<longleftrightarrow>
     (if rm_status e = ''passed''
      then concrete_evidence (rm_command e) \<and> concrete_evidence (rm_result e) \<and> blank (rm_na_reason e)
      else if rm_status e = ''not_applicable''
      then rm_command e = [] \<and> rm_result e = [] \<and> concrete_na_reason (rm_na_reason e)
      else False)"

definition fields_bound :: "fields \<Rightarrow> remediation_binding \<Rightarrow> bool" where
  "fields_bound fs b \<longleftrightarrow>
     field_value fs ''lineage_id'' = rb_lineage b \<and>
     nonnegative_int (field_value fs ''generation'') = Some (rb_generation b) \<and>
     nonnegative_int (field_value fs ''fix_batch'') = Some (rb_batch b)"

definition fields_complete :: "fields \<Rightarrow> string \<Rightarrow> remediation_binding \<Rightarrow> bool" where
  "fields_complete fs revision b \<longleftrightarrow>
     field_value fs ''schema'' = remediation_schema \<and> field_value fs ''status'' = ''complete'' \<and>
     field_value fs ''failed_evidence_revision'' = revision \<and> fields_bound fs b \<and>
     field_value fs ''focused_tests'' = ''passed'' \<and> field_value fs ''rollback_boundary'' = ''recorded'' \<and>
     field_value fs ''runtime_harness'' \<in> {''passed'', ''not_applicable''}"

definition evidence_complete ::
  "remediation_evidence \<Rightarrow> string \<Rightarrow> string \<Rightarrow> remediation_binding \<Rightarrow> bool" where
  "evidence_complete e revision harness b \<longleftrightarrow>
     rm_failed e = revision \<and> rm_commands e \<noteq> [] \<and>
     rm_lineage e = rb_lineage b \<and> rm_generation e = rb_generation b \<and> rm_batch e = rb_batch b \<and>
     list_all command_proves (rm_commands e) \<and> rm_status e = harness \<and> harness_proves e \<and>
     concrete_evidence (rm_boundary e) \<and> concrete_evidence (rm_rollback e)"

definition remediation_complete ::
  "(string \<Rightarrow> remediation_evidence option) \<Rightarrow> string \<Rightarrow> string \<Rightarrow> remediation_binding \<Rightarrow> bool" where
  \<comment> \<open>\<^verbatim>\<open>parseRemediationResult\<close> reports a complete result, with the one binding its callers pass\<close>
  "remediation_complete decode text revision b \<longleftrightarrow>
     (case leading_envelope text of Inl _ \<Rightarrow> False
      | Inr (body, rest) \<Rightarrow>
          (case scalar_fields remediation_fields ''remediation result'' body [] of (fs, reason) \<Rightarrow>
             reason = [] \<and> fields_complete fs revision b \<and>
             (case parse_remediation_evidence decode rest of None \<Rightarrow> False
              | Some e \<Rightarrow>
                  evidence_complete e revision (field_value fs ''runtime_harness'') b)))"

section \<open>Their laws\<close>

lemma count_headings_nonneg: "0 \<le> count_headings h k bol s"
  by (induction h k bol s rule: count_headings.induct) (auto split: option.splits)

lemma spec_counts_nonneg [simp]:
  "0 \<le> sc_requirements (spec_counts_of specs)" "0 \<le> sc_scenarios (spec_counts_of specs)"
  by (auto simp: spec_counts_of_def count_headings_nonneg intro!: sum_list_nonneg)

definition boxes :: "string list \<Rightarrow> char list" where
  "boxes ls = concat (map (\<lambda>l. case task_checkbox l of None \<Rightarrow> [] | Some m \<Rightarrow> [m]) ls)"

lemma count_task_lines_boxes:
  "count_task_lines ls p =
     p\<lparr>tp_total := tp_total p + int (length (boxes ls)),
       tp_completed := tp_completed p + int (length (filter (\<lambda>m. m \<in> set ''xX'') (boxes ls))),
       tp_pending := tp_pending p + int (length (filter (\<lambda>m. m \<notin> set ''xX'') (boxes ls)))\<rparr>"
  by (induction ls arbitrary: p) (auto simp: boxes_def split: option.splits)

lemma task_progress_counts:
  "tp_total (task_progress_of content) = tp_completed (task_progress_of content) + tp_pending (task_progress_of content)"
  "0 \<le> tp_completed (task_progress_of content)" "0 \<le> tp_pending (task_progress_of content)"
  "tp_all (task_progress_of content) \<longleftrightarrow>
     0 < tp_total (task_progress_of content) \<and> tp_pending (task_progress_of content) = 0"
  using sum_length_filter_compl [of "\<lambda>m. m \<in> set ''xX''" "boxes (split_on line_feed content)"]
  by (auto simp: task_progress_of_def count_task_lines_boxes no_progress_def Let_def)

lemma task_progress_all:
  "tp_all (task_progress_of content) \<longleftrightarrow>
     boxes (split_on line_feed content) \<noteq> [] \<and>
     (\<forall>m \<in> set (boxes (split_on line_feed content)). m \<in> set ''xX'')"
  by (auto simp: task_progress_of_def count_task_lines_boxes no_progress_def Let_def filter_empty_conv)

end
