(* ===== verification/LedgerReplay.thy ===== *)
theory LedgerReplay
  imports LedgerTypes
begin

text \<open>
  The immutable records of the runtime ledger and their replay (runtime_ledger.go): the shape every
  record must have, \<^verbatim>\<open>applyRuntimeRecord\<close> with the events it applies, and \<^verbatim>\<open>load\<close>, which follows the
  chain from HEAD and replays it. Of the files only what they hold is modelled: a head, the records
  by revision, and the legacy binding.
\<close>

section \<open>Records\<close>

datatype ledger_op = OpBegin | OpFinish | OpFinishRemediation | OpReset | OpBind | OtherOp string

fun ledger_op_text :: "ledger_op \<Rightarrow> string" where
  "ledger_op_text OpBegin = ''attempt/begin''"
| "ledger_op_text OpFinish = ''attempt/finish''"
| "ledger_op_text OpFinishRemediation = ''attempt/finish-remediation''"
| "ledger_op_text OpReset = ''objective/reset''"
| "ledger_op_text OpBind = ''binding/set''"
| "ledger_op_text (OtherOp s) = s"

record begin_event =
  bv_objective :: string
  bv_generation :: int
  bv_work_unit :: string
  bv_goal :: string
  bv_max_attempts :: int
  bv_max_lines :: int
  bv_ordinal :: int
  bv_identity :: string
  bv_tree :: string

record finish_event =
  fv_ordinal :: int
  fv_identity :: string
  fv_tree :: string
  fv_outcome :: attempt_outcome
  fv_lines :: int
  fv_evidence :: string
  fv_diagnosis :: string
  fv_harness :: harness_disposition
  fv_cleanup :: string
  fv_process :: string
  fv_remediates :: string
  fv_exceeded :: bool

record reset_event =
  zv_objective :: string
  zv_generation :: int
  zv_identity :: string
  zv_tree :: string
  zv_reason :: string
  zv_actor :: string

record legacy_import =
  li_digest :: string
  li_binding :: review_binding

record binding_event =
  nv_expected :: string
  nv_current :: review_binding
  nv_legacy :: "legacy_import option"

record ledger_record =
  lc_schema :: string
  lc_change :: string
  lc_previous :: string
  lc_operation :: ledger_op
  lc_request :: string
  lc_digest :: string
  lc_begin :: "begin_event option"
  lc_finish :: "finish_event option"
  lc_reset :: "reset_event option"
  lc_binding :: "binding_event option"

definition json_begin_event :: "begin_event \<Rightarrow> json" where
  "json_begin_event e = JObj
     (field ''objective_id'' (JStr (bv_objective e)) @ omit_zero ''objective_generation'' (bv_generation e) @
      field ''work_unit'' (JStr (bv_work_unit e)) @ field ''evidence_goal'' (JStr (bv_goal e)) @
      field ''max_attempts'' (JInt (bv_max_attempts e)) @
      field ''max_changed_lines'' (JInt (bv_max_lines e)) @ field ''ordinal'' (JInt (bv_ordinal e)) @
      field ''begin_candidate_identity'' (JStr (bv_identity e)) @
      field ''begin_candidate_tree'' (JStr (bv_tree e)))"

definition json_finish_event :: "finish_event \<Rightarrow> json" where
  "json_finish_event e = JObj
     (field ''ordinal'' (JInt (fv_ordinal e)) @
      field ''finish_candidate_identity'' (JStr (fv_identity e)) @
      field ''finish_candidate_tree'' (JStr (fv_tree e)) @
      field ''outcome'' (JStr (attempt_outcome_text (fv_outcome e))) @
      field ''changed_lines'' (JInt (fv_lines e)) @ field ''evidence_revision'' (JStr (fv_evidence e)) @
      field ''diagnosis'' (JStr (fv_diagnosis e)) @
      field ''harness_disposition'' (JStr (harness_text (fv_harness e))) @
      field ''cleanup_evidence'' (JStr (fv_cleanup e)) @ field ''process_evidence'' (JStr (fv_process e)) @
      omit_empty ''remediates_evidence_revision'' (fv_remediates e) @
      omit_false ''changed_line_budget_exceeded'' (fv_exceeded e))"

definition json_reset_event :: "reset_event \<Rightarrow> json" where
  "json_reset_event e = JObj
     (field ''previous_objective_id'' (JStr (zv_objective e)) @
      field ''previous_generation'' (JInt (zv_generation e)) @
      field ''reset_candidate_identity'' (JStr (zv_identity e)) @
      field ''reset_candidate_tree'' (JStr (zv_tree e)) @ field ''reason'' (JStr (zv_reason e)) @
      field ''actor'' (JStr (zv_actor e)))"

definition json_binding_event :: "binding_event \<Rightarrow> json" where
  "json_binding_event e = JObj
     (field ''expected_revision'' (JStr (nv_expected e)) @ field ''current'' (json_binding (nv_current e)) @
      omit_nil ''legacy_import'' (\<lambda>i. JObj
        (field ''source_digest'' (JStr (li_digest i)) @ field ''binding'' (json_binding (li_binding i))))
        (nv_legacy e))"

definition json_ledger_record :: "ledger_record \<Rightarrow> json" where
  "json_ledger_record r = JObj
     (field ''schema'' (JStr (lc_schema r)) @ field ''change'' (JStr (lc_change r)) @
      field ''previous_revision'' (JStr (lc_previous r)) @
      field ''operation'' (JStr (ledger_op_text (lc_operation r))) @
      field ''request_id'' (JStr (lc_request r)) @ field ''request_digest'' (JStr (lc_digest r)) @
      omit_nil ''begin'' json_begin_event (lc_begin r) @
      omit_nil ''finish'' json_finish_event (lc_finish r) @
      omit_nil ''reset'' json_reset_event (lc_reset r) @
      omit_nil ''binding'' json_binding_event (lc_binding r))"

definition record_payload :: "ledger_record \<Rightarrow> string" where
  "record_payload r = render (json_ledger_record r) @ [CHR 0x0A]"

definition record_revision :: "ledger_record \<Rightarrow> string" where
  "record_revision r = identity_of (record_payload r)"

section \<open>The shape of a record\<close>

datatype ledger_error = LedgerRefused string | BadRecordShape ledger_op | BadRecordEvent ledger_op |
    BadRecordDigest ledger_op | BadSuccessor ledger_op | RevisionConflict string | BindingConflict string |
    CommittedUnreadable ledger_error

abbreviation BadRecordIdentity :: ledger_error where "BadRecordIdentity \<equiv> LedgerRefused ''bad record identity''"
abbreviation BadRecordBinding :: ledger_error where "BadRecordBinding \<equiv> LedgerRefused ''bad record binding''"
abbreviation BadRecordImport :: ledger_error where "BadRecordImport \<equiv> LedgerRefused ''bad record import''"
abbreviation BadRecordOperation :: ledger_error where "BadRecordOperation \<equiv> LedgerRefused ''bad record operation''"
abbreviation WrongPredecessor :: ledger_error where "WrongPredecessor \<equiv> LedgerRefused ''wrong predecessor''"
abbreviation DuplicateRequest :: ledger_error where "DuplicateRequest \<equiv> LedgerRefused ''duplicate request''"
abbreviation BadObjectiveIdentity :: ledger_error where "BadObjectiveIdentity \<equiv> LedgerRefused ''bad objective identity''"
abbreviation ObjectiveChanges :: ledger_error where "ObjectiveChanges \<equiv> LedgerRefused ''objective changes''"
abbreviation CandidateBreaks :: ledger_error where "CandidateBreaks \<equiv> LedgerRefused ''candidate breaks''"
abbreviation BudgetExceeded :: ledger_error where "BudgetExceeded \<equiv> LedgerRefused ''budget exceeded''"
abbreviation BadLineDecision :: ledger_error where "BadLineDecision \<equiv> LedgerRefused ''bad line decision''"
abbreviation RemediationBinding :: ledger_error where "RemediationBinding \<equiv> LedgerRefused ''remediation binding''"
abbreviation RemediationEvidence :: ledger_error where "RemediationEvidence \<equiv> LedgerRefused ''remediation evidence''"
abbreviation RemediationLineage :: ledger_error where "RemediationLineage \<equiv> LedgerRefused ''remediation lineage''"
abbreviation ImportedAgain :: ledger_error where "ImportedAgain \<equiv> LedgerRefused ''imported again''"
abbreviation BindingStale :: ledger_error where "BindingStale \<equiv> LedgerRefused ''binding stale''"
abbreviation RecordDiffers :: ledger_error where "RecordDiffers \<equiv> LedgerRefused ''record differs''"
abbreviation ChainTooLong :: ledger_error where "ChainTooLong \<equiv> LedgerRefused ''chain too long''"
abbreviation ChainCycle :: ledger_error where "ChainCycle \<equiv> LedgerRefused ''chain cycle''"
abbreviation RecordUnreadable :: ledger_error where "RecordUnreadable \<equiv> LedgerRefused ''record unreadable''"
abbreviation HeadMismatch :: ledger_error where "HeadMismatch \<equiv> LedgerRefused ''head mismatch''"
abbreviation BadHead :: ledger_error where "BadHead \<equiv> LedgerRefused ''bad head''"
abbreviation BadRequest :: ledger_error where "BadRequest \<equiv> LedgerRefused ''bad request''"
abbreviation RequestConflict :: ledger_error where "RequestConflict \<equiv> LedgerRefused ''request conflict''"
abbreviation AttemptActive :: ledger_error where "AttemptActive \<equiv> LedgerRefused ''attempt active''"
abbreviation NoActiveAttempt :: ledger_error where "NoActiveAttempt \<equiv> LedgerRefused ''no active attempt''"
abbreviation ObjectiveDone :: ledger_error where "ObjectiveDone \<equiv> LedgerRefused ''objective done''"
abbreviation BudgetExhausted :: ledger_error where "BudgetExhausted \<equiv> LedgerRefused ''budget exhausted''"
abbreviation ObjectiveChange :: ledger_error where "ObjectiveChange \<equiv> LedgerRefused ''objective change''"
abbreviation NoObjective :: ledger_error where "NoObjective \<equiv> LedgerRefused ''no objective''"
abbreviation ResetNotAllowed :: ledger_error where "ResetNotAllowed \<equiv> LedgerRefused ''reset not allowed''"
abbreviation NoProvenance :: ledger_error where "NoProvenance \<equiv> LedgerRefused ''no provenance''"
abbreviation SuccessorRequired :: ledger_error where "SuccessorRequired \<equiv> LedgerRefused ''successor required''"
abbreviation CandidateUnavailable :: ledger_error where "CandidateUnavailable \<equiv> LedgerRefused ''candidate unavailable''"
abbreviation LegacyUnreadable :: ledger_error where "LegacyUnreadable \<equiv> LedgerRefused ''legacy unreadable''"
abbreviation LegacyChanged :: ledger_error where "LegacyChanged \<equiv> LedgerRefused ''legacy changed''"
abbreviation NoBinding :: ledger_error where "NoBinding \<equiv> LedgerRefused ''no binding''"
abbreviation EvidenceMismatch :: ledger_error where "EvidenceMismatch \<equiv> LedgerRefused ''evidence mismatch''"
abbreviation NotPrepared :: ledger_error where "NotPrepared \<equiv> LedgerRefused ''not prepared''"
abbreviation SuccessorChanged :: ledger_error where "SuccessorChanged \<equiv> LedgerRefused ''successor changed''"
abbreviation SuccessorUnrelated :: ledger_error where "SuccessorUnrelated \<equiv> LedgerRefused ''successor unrelated''"
abbreviation SuccessorCandidate :: ledger_error where "SuccessorCandidate \<equiv> LedgerRefused ''successor candidate''"
abbreviation BoundCandidate :: ledger_error where "BoundCandidate \<equiv> LedgerRefused ''bound candidate''"

definition import_ok :: "binding_event \<Rightarrow> string \<Rightarrow> bool" where
  \<comment> \<open>the legacy import of an event, if any, is a parsed binding, its own source, and the predecessor\<close>
  "import_ok e change \<longleftrightarrow>
     (case nv_legacy e of None \<Rightarrow> True
      | Some i \<Rightarrow>
          prepared_binding_ok (li_binding i) change (sb_lineage (li_binding i)) \<and>
          li_digest i = identity_of (binding_bytes (li_binding i)) \<and>
          nv_expected e = sb_revision (li_binding i))"

definition begin_event_ok :: "begin_event \<Rightarrow> bool" where
  "begin_event_ok e \<longleftrightarrow>
     runtime_revision (bv_objective e) \<and> bv_generation e \<ge> 0 \<and> runtime_text 160 (bv_work_unit e) \<and>
     runtime_text 240 (bv_goal e) \<and> 1 \<le> bv_max_attempts e \<and> bv_max_attempts e \<le> 100 \<and>
     1 \<le> bv_max_lines e \<and> bv_max_lines e \<le> 1000000 \<and> 1 \<le> bv_ordinal e \<and>
     runtime_revision (bv_identity e) \<and> runtime_git_tree (bv_tree e)"

definition finish_event_ok :: "finish_event \<Rightarrow> bool" where
  \<comment> \<open>what both kinds of finishing record check\<close>
  "finish_event_ok e \<longleftrightarrow>
     1 \<le> fv_ordinal e \<and> 0 \<le> fv_lines e \<and> fv_lines e \<le> 1000000 \<and>
     runtime_revision (fv_evidence e) \<and> runtime_revision (fv_identity e) \<and>
     runtime_git_tree (fv_tree e) \<and> runtime_text 500 (fv_diagnosis e) \<and> known_harness (fv_harness e) \<and>
     runtime_text 500 (fv_cleanup e) \<and> runtime_text 500 (fv_process e)"

definition begin_request_of :: "ledger_record \<Rightarrow> begin_event \<Rightarrow> begin_request" where
  "begin_request_of r e =
     \<lparr>bq_expected = lc_previous r, bq_id = lc_request r, bq_work_unit = bv_work_unit e,
      bq_goal = bv_goal e, bq_max_attempts = bv_max_attempts e, bq_max_lines = bv_max_lines e\<rparr>"

definition finish_request_of ::
  "ledger_record \<Rightarrow> finish_event \<Rightarrow> string \<Rightarrow> string \<Rightarrow> finish_request" where
  "finish_request_of r e binding successor =
     \<lparr>fq_expected = lc_previous r, fq_id = lc_request r, fq_outcome = fv_outcome e,
      fq_evidence = fv_evidence e, fq_diagnosis = fv_diagnosis e, fq_harness = fv_harness e,
      fq_cleanup = fv_cleanup e, fq_process = fv_process e, fq_binding = binding,
      fq_successor = successor, fq_remediates = fv_remediates e\<rparr>"

definition reset_request_of :: "ledger_record \<Rightarrow> reset_event \<Rightarrow> reset_request" where
  "reset_request_of r e =
     \<lparr>zq_expected = lc_previous r, zq_id = lc_request r, zq_reason = zv_reason e, zq_actor = zv_actor e\<rparr>"

definition bind_request_of :: "ledger_record \<Rightarrow> binding_event \<Rightarrow> bind_request" where
  "bind_request_of r e =
     \<lparr>nq_expected = nv_expected e, nq_id = lc_request r, nq_lineage = sb_lineage (nv_current e)\<rparr>"

definition record_identity_ok :: "ledger_record \<Rightarrow> bool" where
  "record_identity_ok r \<longleftrightarrow>
     lc_schema r = ''gentle-ai.sdd-runtime-record/v1'' \<and> valid_binding_change (lc_change r) \<and>
     (lc_previous r = [] \<or> runtime_revision (lc_previous r)) \<and>
     runtime_request_id (lc_request r) \<and> runtime_revision (lc_digest r)"

definition only_begin :: "ledger_record \<Rightarrow> bool" where
  "only_begin r \<longleftrightarrow> lc_finish r = None \<and> lc_reset r = None \<and> lc_binding r = None"

definition only_finish :: "ledger_record \<Rightarrow> bool" where
  "only_finish r \<longleftrightarrow> lc_begin r = None \<and> lc_reset r = None \<and> lc_binding r = None"

definition only_reset :: "ledger_record \<Rightarrow> bool" where
  "only_reset r \<longleftrightarrow> lc_begin r = None \<and> lc_finish r = None \<and> lc_binding r = None"

definition only_binding :: "ledger_record \<Rightarrow> bool" where
  "only_binding r \<longleftrightarrow> lc_begin r = None \<and> lc_finish r = None \<and> lc_reset r = None"

definition validate_begin_shape :: "ledger_record \<Rightarrow> begin_event \<Rightarrow> ledger_error option" where
  "validate_begin_shape r e = first_err
     [guard (\<not> begin_event_ok e) (BadRecordEvent OpBegin),
      guard (begin_digest (begin_request_of r e) \<noteq> lc_digest r) (BadRecordDigest OpBegin)]"

definition validate_finish_shape :: "ledger_record \<Rightarrow> finish_event \<Rightarrow> ledger_error option" where
  "validate_finish_shape r e = first_err
     [guard (\<not> finish_event_ok e \<or> \<not> terminal_outcome (fv_outcome e) \<or> fv_remediates e \<noteq> [])
        (BadRecordEvent OpFinish),
      guard (finish_digest (finish_request_of r e [] []) \<noteq> lc_digest r) (BadRecordDigest OpFinish)]"

definition validate_remediation_shape ::
  "ledger_record \<Rightarrow> finish_event \<Rightarrow> binding_event \<Rightarrow> ledger_error option" where
  "validate_remediation_shape r e b = first_err
     [guard (\<not> finish_event_ok e \<or> fv_outcome e \<noteq> AttemptPassed \<or> \<not> runtime_revision (fv_remediates e))
        (BadRecordEvent OpFinishRemediation),
      guard (\<not> runtime_revision (nv_expected b)) BadRecordBinding,
      guard (\<not> prepared_binding_ok (nv_current b) (lc_change r) (sb_lineage (nv_current b))) BadRecordBinding,
      guard (\<not> import_ok b (lc_change r)) BadRecordImport,
      guard (finish_digest (finish_request_of r e (nv_expected b) (sb_lineage (nv_current b))) \<noteq> lc_digest r)
        (BadRecordDigest OpFinishRemediation)]"

definition validate_reset_shape :: "ledger_record \<Rightarrow> reset_event \<Rightarrow> ledger_error option" where
  "validate_reset_shape r e = first_err
     [guard (\<not> runtime_revision (zv_objective e) \<or> zv_generation e < 1 \<or>
             \<not> runtime_revision (zv_identity e) \<or> \<not> runtime_git_tree (zv_tree e) \<or>
             \<not> runtime_text 500 (zv_reason e) \<or> \<not> runtime_text 128 (zv_actor e)) (BadRecordEvent OpReset),
      guard (reset_digest (reset_request_of r e) \<noteq> lc_digest r) (BadRecordDigest OpReset)]"

definition validate_binding_shape :: "ledger_record \<Rightarrow> binding_event \<Rightarrow> ledger_error option" where
  "validate_binding_shape r b = first_err
     [guard (nv_expected b \<noteq> [] \<and> \<not> runtime_revision (nv_expected b)) BadRecordBinding,
      guard (\<not> prepared_binding_ok (nv_current b) (lc_change r) (sb_lineage (nv_current b))) BadRecordBinding,
      guard (\<not> import_ok b (lc_change r)) BadRecordImport,
      guard (bind_digest (bind_request_of r b) \<noteq> lc_digest r) (BadRecordDigest OpBind)]"

definition with_event :: "ledger_op \<Rightarrow> bool \<Rightarrow> 'e option \<Rightarrow> ('e \<Rightarrow> ledger_error option) \<Rightarrow> ledger_error option" where
  \<comment> \<open>the event the operation calls for is there and no other is\<close>
  "with_event op only ev check =
     (case ev of None \<Rightarrow> Some (BadRecordShape op)
      | Some e \<Rightarrow> if only then check e else Some (BadRecordShape op))"

definition validate_record_shape :: "ledger_record \<Rightarrow> ledger_error option" where
  "validate_record_shape r =
     (if \<not> record_identity_ok r then Some BadRecordIdentity
      else case lc_operation r of
        OpBegin \<Rightarrow> with_event OpBegin (only_begin r) (lc_begin r) (validate_begin_shape r)
      | OpFinish \<Rightarrow> with_event OpFinish (only_finish r) (lc_finish r) (validate_finish_shape r)
      | OpFinishRemediation \<Rightarrow>
          with_event OpFinishRemediation (lc_begin r = None \<and> lc_reset r = None) (lc_finish r) (\<lambda>e.
            with_event OpFinishRemediation True (lc_binding r) (validate_remediation_shape r e))
      | OpReset \<Rightarrow> with_event OpReset (only_reset r) (lc_reset r) (validate_reset_shape r)
      | OpBind \<Rightarrow> with_event OpBind (only_binding r) (lc_binding r) (validate_binding_shape r)
      | OtherOp s \<Rightarrow> Some BadRecordOperation)"

section \<open>Replay\<close>

record ledger_replay =
  ly_status :: runtime_status
  ly_requests :: "string \<rightharpoonup> string \<times> string" \<comment> \<open>digest and revision by request\<close>

type_synonym status_step = "ledger_error + runtime_status"

definition objective_id_known :: "ledger_record \<Rightarrow> begin_event \<Rightarrow> int \<Rightarrow> bool" where
  \<comment> \<open>the identity of a first begin, in the formats the code has used\<close>
  "objective_id_known r e generation \<longleftrightarrow>
     (if bv_generation e = 0 then bv_objective e = legacy_objective_id (lc_change r) (bv_goal e)
      else bv_objective e =
             runtime_objective_id (lc_change r) (bv_work_unit e) (bv_goal e) (bv_identity e) generation \<or>
           bv_objective e = runtime_objective_id_v1 (lc_change r) (bv_goal e) (bv_identity e) generation)"

definition begun_objective :: "begin_event \<Rightarrow> int \<Rightarrow> runtime_objective" where
  "begun_objective e generation =
     \<lparr>oj_id = bv_objective e, oj_generation = generation, oj_work_unit = bv_work_unit e, oj_goal = bv_goal e,
      oj_identity = bv_identity e, oj_tree = bv_tree e, oj_max_attempts = bv_max_attempts e,
      oj_max_lines = bv_max_lines e\<rparr>"

definition begun_attempt :: "begin_event \<Rightarrow> int \<Rightarrow> runtime_attempt" where
  "begun_attempt e generation =
     \<lparr>at_ordinal = bv_ordinal e, at_objective = bv_objective e, at_generation = generation,
      at_work_unit = bv_work_unit e, at_begin_identity = bv_identity e, at_begin_tree = bv_tree e,
      at_finish_identity = [], at_finish_tree = [], at_outcome = AttemptRunning, at_lines = 0,
      at_evidence = [], at_diagnosis = [], at_harness = OtherHarness [], at_cleanup = [],
      at_process = [], at_remediates = [], at_exceeded = False\<rparr>"

definition enter_objective ::
  "ledger_record \<Rightarrow> begin_event \<Rightarrow> int \<Rightarrow> runtime_status \<Rightarrow> status_step" where
  \<comment> \<open>a first begin fixes the objective, a later one must continue it\<close>
  "enter_objective r e generation s =
     (case ls_objective s of
        None \<Rightarrow>
          if bv_ordinal e \<noteq> ls_next_ordinal s \<or> generation \<noteq> go_add (ls_generation s) 1 \<or>
             \<not> objective_id_known r e generation then Inl BadObjectiveIdentity
          else Inr (s\<lparr>ls_objective := Some (begun_objective e generation), ls_generation := generation\<rparr>)
      | Some oj \<Rightarrow>
          if bv_objective e \<noteq> oj_id oj \<or> generation \<noteq> oj_generation oj \<or> bv_goal e \<noteq> oj_goal oj \<or>
             bv_work_unit e \<noteq> oj_work_unit oj \<or> bv_max_attempts e \<noteq> oj_max_attempts oj \<or>
             bv_max_lines e \<noteq> oj_max_lines oj \<or> bv_ordinal e \<noteq> ls_next_ordinal s
          then Inl ObjectiveChanges
          else if ls_attempts s = [] \<or> bv_tree e \<noteq> at_finish_tree (last (ls_attempts s))
          then Inl CandidateBreaks else Inr s)"

definition apply_begin :: "ledger_record \<Rightarrow> begin_event \<Rightarrow> runtime_status \<Rightarrow> status_step" where
  "apply_begin r e s =
     (let generation =
            (if bv_generation e = 0 then
               (case ls_objective s of None \<Rightarrow> go_add (ls_generation s) 1 | Some oj \<Rightarrow> oj_generation oj)
             else bv_generation e)
      in if ls_active s \<noteq> None \<or> ls_complete s \<or> ls_decision s then Inl (BadSuccessor OpBegin)
         else case enter_objective r e generation s of Inl err \<Rightarrow> Inl err
         | Inr t \<Rightarrow>
             if ls_cumulative_attempts t \<ge> bv_max_attempts e \<or> ls_cumulative_lines t \<ge> bv_max_lines e
             then Inl BudgetExceeded
             else Inr (t\<lparr>ls_attempts := ls_attempts t @ [begun_attempt e generation],
                         ls_active := Some (begun_attempt e generation),
                         ls_cumulative_attempts := go_add (ls_cumulative_attempts t) 1,
                         ls_lifetime_attempts := go_add (ls_lifetime_attempts t) 1,
                         ls_next_ordinal := go_add (bv_ordinal e) 1, ls_next_action := ActionFinish\<rparr>))"

definition finished_attempt :: "finish_event \<Rightarrow> runtime_attempt \<Rightarrow> runtime_attempt" where
  "finished_attempt e a = a
     \<lparr>at_finish_identity := fv_identity e, at_finish_tree := fv_tree e, at_outcome := fv_outcome e,
      at_lines := fv_lines e, at_evidence := fv_evidence e, at_diagnosis := fv_diagnosis e,
      at_harness := fv_harness e, at_cleanup := fv_cleanup e, at_process := fv_process e,
      at_remediates := fv_remediates e, at_exceeded := fv_exceeded e\<rparr>"

definition settle_finish :: "runtime_objective \<Rightarrow> finish_event \<Rightarrow> runtime_status \<Rightarrow> runtime_status" where
  \<comment> \<open>what the charged attempt means for the objective\<close>
  "settle_finish oj e s =
     (if fv_outcome e = AttemptPassed \<and> \<not> fv_exceeded e
      then s\<lparr>ls_complete := True, ls_next_action := ActionComplete\<rparr>
      else if fv_exceeded e \<or> ls_cumulative_attempts s \<ge> oj_max_attempts oj \<or>
              ls_cumulative_lines s \<ge> oj_max_lines oj
      then s\<lparr>ls_decision := True, ls_next_action := ActionReset\<rparr>
      else s\<lparr>ls_next_action := ActionBegin\<rparr>)"

definition apply_finish :: "finish_event \<Rightarrow> runtime_status \<Rightarrow> status_step" where
  \<comment> \<open>an active attempt without an objective, which no replay produces, would be a nil dereference\<close>
  "apply_finish e s =
     (case (ls_active s, ls_objective s) of
        (Some a, Some oj) \<Rightarrow>
          if at_ordinal a \<noteq> fv_ordinal e \<or> ls_attempts s = [] \<or>
             at_outcome (last (ls_attempts s)) \<noteq> AttemptRunning then Inl (BadSuccessor OpFinish)
          else if fv_exceeded e \<noteq> (go_add (ls_cumulative_lines s) (fv_lines e) > oj_max_lines oj)
          then Inl BadLineDecision
          else Inr (settle_finish oj e
            (s\<lparr>ls_attempts := butlast (ls_attempts s) @ [finished_attempt e (last (ls_attempts s))],
               ls_active := None,
               ls_cumulative_lines := go_add (ls_cumulative_lines s) (fv_lines e),
               ls_lifetime_lines := go_add (ls_lifetime_lines s) (fv_lines e),
               ls_evidence := fv_evidence e\<rparr>))
      | _ \<Rightarrow> Inl (BadSuccessor OpFinish))"

definition apply_binding :: "binding_event \<Rightarrow> runtime_status \<Rightarrow> status_step" where
  "apply_binding e s =
     (if ls_binding s \<noteq> None \<and> nv_legacy e \<noteq> None then Inl ImportedAgain
      else let current = (if ls_binding s \<noteq> None then ls_binding_revision s
             else case nv_legacy e of None \<Rightarrow> [] | Some i \<Rightarrow> sb_revision (li_binding i))
      in if current \<noteq> nv_expected e then Inl BindingStale
         else Inr (s\<lparr>ls_binding := Some (nv_current e), ls_binding_revision := sb_revision (nv_current e)\<rparr>))"

definition apply_remediation :: "finish_event \<Rightarrow> binding_event \<Rightarrow> runtime_status \<Rightarrow> status_step" where
  "apply_remediation e b s =
     (case (case ls_binding s of Some c \<Rightarrow> Some c | None \<Rightarrow> map_option li_binding (nv_legacy b)) of
        None \<Rightarrow> Inl RemediationBinding
      | Some current \<Rightarrow>
          if sb_revision current \<noteq> nv_expected b then Inl RemediationBinding
          else if ls_evidence s \<noteq> [] \<and> ls_evidence s \<noteq> fv_remediates e then Inl RemediationEvidence
          else if sb_lineage (nv_current b) = sb_lineage current then Inl RemediationLineage
          else case apply_finish e s of Inl err \<Rightarrow> Inl err
            | Inr t \<Rightarrow> if fv_exceeded e then Inr t else apply_binding b t)"

definition apply_reset :: "string \<Rightarrow> reset_event \<Rightarrow> runtime_status \<Rightarrow> status_step" where
  "apply_reset revision e s =
     (case ls_objective s of None \<Rightarrow> Inl (BadSuccessor OpReset)
      | Some oj \<Rightarrow>
          if ls_active s \<noteq> None \<or> (\<not> ls_decision s \<and> \<not> ls_complete s) then Inl (BadSuccessor OpReset)
          else if zv_objective e \<noteq> oj_id oj \<or> zv_generation e \<noteq> oj_generation oj \<or>
                  zv_generation e \<noteq> ls_generation s then Inl ObjectiveChanges
          else Inr (s\<lparr>ls_objective := None, ls_cumulative_attempts := 0, ls_cumulative_lines := 0,
                      ls_evidence := [], ls_decision := False, ls_complete := False,
                      ls_next_action := ActionBegin,
                      ls_last_reset := Some
                        \<lparr>rz_revision = revision, rz_objective = zv_objective e,
                         rz_generation = zv_generation e, rz_identity = zv_identity e, rz_tree = zv_tree e,
                         rz_reason = zv_reason e, rz_actor = zv_actor e\<rparr>\<rparr>))"

definition apply_event :: "string \<Rightarrow> ledger_record \<Rightarrow> runtime_status \<Rightarrow> status_step" where
  \<comment> \<open>the switch of \<^verbatim>\<open>applyRuntimeRecord\<close>; the shape check has established which events are there\<close>
  "apply_event revision r s =
     (case lc_operation r of
        OpBegin \<Rightarrow> apply_begin r (the (lc_begin r)) s
      | OpFinish \<Rightarrow> apply_finish (the (lc_finish r)) s
      | OpFinishRemediation \<Rightarrow> apply_remediation (the (lc_finish r)) (the (lc_binding r)) s
      | OpReset \<Rightarrow> apply_reset revision (the (lc_reset r)) s
      | OpBind \<Rightarrow> apply_binding (the (lc_binding r)) s
      | OtherOp _ \<Rightarrow> Inl BadRecordOperation)"

definition apply_record :: "string \<Rightarrow> ledger_record \<Rightarrow> ledger_replay \<Rightarrow> ledger_error + ledger_replay" where
  "apply_record revision r y =
     (if lc_previous r \<noteq> ls_revision (ly_status y) then Inl WrongPredecessor
      else if ly_requests y (lc_request r) \<noteq> None then Inl DuplicateRequest
      else case validate_record_shape r of Some err \<Rightarrow> Inl err
      | None \<Rightarrow>
          (case apply_event revision r (ly_status y) of Inl err \<Rightarrow> Inl err
           | Inr s \<Rightarrow> Inr \<lparr>ly_status = s\<lparr>ls_revision := revision\<rparr>,
                           ly_requests = (ly_requests y)(lc_request r \<mapsto> (lc_digest r, revision))\<rparr>))"

fun apply_records :: "(string \<times> ledger_record) list \<Rightarrow> ledger_replay \<Rightarrow> ledger_error + ledger_replay" where
  "apply_records [] y = Inr y"
| "apply_records ((revision, r) # rs) y =
     (case apply_record revision r y of Inl err \<Rightarrow> Inl err | Inr z \<Rightarrow> apply_records rs z)"

section \<open>The files\<close>

datatype legacy_file = NoLegacy | BadLegacy | LegacyFile review_binding

datatype head_file = NoHead | BadHeadFile | HeadFile string

record ledger_disk =
  dk_head :: head_file
  dk_records :: "string \<rightharpoonup> ledger_record" \<comment> \<open>the file named by a revision holds the encoding of the record\<close>
  dk_legacy :: legacy_file

definition max_record_bytes :: nat where "max_record_bytes = 1048576"
definition max_chain_records :: nat where "max_chain_records = 10000"

definition record_readable :: "ledger_record \<Rightarrow> bool" where
  \<comment> \<open>the encoding decodes to the record and encodes to the same bytes again; only invalid UTF-8,
    which the encoder replaces by an escape the decoder reads as text, comes back different\<close>
  "record_readable r \<longleftrightarrow> json_utf8 (json_ledger_record r) \<and> length (record_payload r) \<le> max_record_bytes"

definition load_record :: "string \<Rightarrow> ledger_disk \<Rightarrow> string \<Rightarrow> ledger_record option" where
  "load_record change d revision =
     (if \<not> runtime_revision revision then None
      else case dk_records d revision of None \<Rightarrow> None
      | Some r \<Rightarrow>
          if record_revision r = revision \<and> record_readable r \<and> lc_change r = change then Some r else None)"

fun collect_chain ::
  "nat \<Rightarrow> string \<Rightarrow> ledger_disk \<Rightarrow> string \<Rightarrow> (string \<times> ledger_record) list \<Rightarrow>
   ledger_error + (string \<times> ledger_record) list" where
  \<comment> \<open>records the bound still allows, and those collected, oldest first: \<^verbatim>\<open>reverse\<close> turned around\<close>
  "collect_chain n change d revision chain =
     (if revision = [] then Inr chain
      else case n of 0 \<Rightarrow> Inl ChainTooLong
      | Suc m \<Rightarrow>
          if revision \<in> set (map fst chain) then Inl ChainCycle
          else case load_record change d revision of None \<Rightarrow> Inl RecordUnreadable
          | Some r \<Rightarrow> collect_chain m change d (lc_previous r) ((revision, r) # chain))"

definition empty_status :: "string \<Rightarrow> runtime_status" where
  "empty_status change =
     \<lparr>ls_change = change, ls_revision = [], ls_objective = None, ls_active = None, ls_attempts = [],
      ls_generation = 0, ls_next_ordinal = 1, ls_cumulative_attempts = 0, ls_cumulative_lines = 0,
      ls_lifetime_attempts = 0, ls_lifetime_lines = 0, ls_evidence = [], ls_decision = False,
      ls_complete = False, ls_next_action = ActionBegin, ls_last_reset = None,
      ls_binding_revision = [], ls_binding = None\<rparr>"

definition empty_replay :: "string \<Rightarrow> ledger_replay" where
  "empty_replay change = \<lparr>ly_status = empty_status change, ly_requests = Map.empty\<rparr>"

definition load_ledger :: "string \<Rightarrow> ledger_disk \<Rightarrow> ledger_error + ledger_replay" where
  "load_ledger change d =
     (case dk_head d of
        NoHead \<Rightarrow> Inr (empty_replay change)
      | BadHeadFile \<Rightarrow> Inl BadHead
      | HeadFile head \<Rightarrow>
          if \<not> runtime_revision head then Inl BadHead
          else case collect_chain max_chain_records change d head [] of Inl err \<Rightarrow> Inl err
          | Inr chain \<Rightarrow>
              (case apply_records chain (empty_replay change) of Inl err \<Rightarrow> Inl err
               | Inr y \<Rightarrow> if ls_revision (ly_status y) \<noteq> head then Inl HeadMismatch else Inr y))"

end
