(* ===== verification/LedgerOps.thy ===== *)
theory LedgerOps
  imports LedgerReplay
begin

text \<open>
  The operations of the runtime ledger (runtime_ledger.go): normalisation of the requests, \<^verbatim>\<open>Begin\<close>,
  \<^verbatim>\<open>Finish\<close>, \<^verbatim>\<open>Reset\<close> and \<^verbatim>\<open>bindPreparedReview\<close>, the request-idempotent compare-and-swap they share
  (\<^verbatim>\<open>mutate\<close>), and the commit of a record and its head. What the repository answers while an
  operation runs (the captured candidate, the line count, the review authorities) is the argument
  \<open>ledger_view\<close>. An operation returns the files it leaves and a status or an error.
\<close>

section \<open>The repository\<close>

record ledger_view =
  vw_capture :: "(string \<times> string) option" \<comment> \<open>identity and tree of the current changes\<close>
  vw_overlay :: "string \<Rightarrow> (string \<times> string) option" \<comment> \<open>of the workspace over a base tree\<close>
  vw_changed :: "string \<Rightarrow> int option" \<comment> \<open>lines changed by that overlay\<close>
  vw_legacy_again :: legacy_file \<comment> \<open>the legacy binding file when it is read a second time\<close>
  vw_prepare :: "string \<Rightarrow> review_binding option" \<comment> \<open>the approved binding of a lineage\<close>
  vw_prepare_again :: "string \<Rightarrow> review_binding option"
  vw_leaves :: "compact_record list option"
  vw_authority :: "string \<Rightarrow> compact_record option"
  vw_receipt :: "string \<Rightarrow> (string \<times> compact_receipt) option" \<comment> \<open>hash and content of the receipt file\<close>
  vw_gate :: "compact_receipt \<Rightarrow> string \<Rightarrow> gate_result \<times> gate_context" \<comment> \<open>the post-apply gate\<close>

definition read_legacy :: "string \<Rightarrow> legacy_file \<Rightarrow> ledger_error + (review_binding \<times> string) option" where
  \<comment> \<open>the binding and the hash of its bytes\<close>
  "read_legacy change f =
     (case f of NoLegacy \<Rightarrow> Inr None
      | BadLegacy \<Rightarrow> Inl LegacyUnreadable
      | LegacyFile b \<Rightarrow>
          if binding_parses b \<and> sb_change b = change then Inr (Some (b, identity_of (binding_bytes b)))
          else Inl LegacyUnreadable)"

definition bound_record :: "ledger_view \<Rightarrow> review_binding \<Rightarrow> compact_record option" where
  \<comment> \<open>\<^verbatim>\<open>loadRuntimeBoundCompactArtifacts\<close>\<close>
  "bound_record v b =
     (case vw_authority v (sb_lineage b) of None \<Rightarrow> None
      | Some c \<Rightarrow>
          if cp_revision c \<noteq> sb_authority b \<or> cs_state (cp_state c) \<noteq> Approved then None
          else case vw_receipt v (sb_lineage b) of None \<Rightarrow> None
          | Some (hash, r) \<Rightarrow>
              if hash = sb_receipt b \<and> compact_receipt_of (cp_state c) = Inr r then Some c else None)"

definition bound_candidate :: "ledger_view \<Rightarrow> review_binding \<Rightarrow> string \<Rightarrow> bool" where
  \<comment> \<open>\<^verbatim>\<open>validateRuntimeBoundCandidate\<close> passes\<close>
  "bound_candidate v b tree =
     (case bound_record v b of None \<Rightarrow> False
      | Some c \<Rightarrow>
          (case compact_receipt_of (cp_state c) of Inl _ \<Rightarrow> False
           | Inr r \<Rightarrow>
               (case vw_gate v r (sb_lineage b) of (result, context) \<Rightarrow>
                  result = GateAllow \<and> gc_candidate context = tree \<and>
                  bound_context_matches (sb_context b) context)))"

fun recovery_descends ::
  "nat \<Rightarrow> ledger_view \<Rightarrow> review_binding \<Rightarrow> compact_record \<Rightarrow> string list \<Rightarrow> compact_record \<Rightarrow> bool" where
  \<comment> \<open>the walk over predecessors: steps left, the binding to reach with its record, lineages seen\<close>
  "recovery_descends 0 v current record seen cursor = False"
| "recovery_descends (Suc n) v current record seen cursor =
     (if cs_lineage (cp_state cursor) \<in> set seen then False
      else case cs_recovery (cp_state cursor) of None \<Rightarrow> False
      | Some rc \<Rightarrow>
          if rc_disposition rc \<noteq> RecoveryScopeChanged then False
          else case vw_authority v (rc_predecessor rc) of None \<Rightarrow> False
          | Some p \<Rightarrow>
              if cp_revision p \<noteq> rc_revision rc then False
              else if cs_lineage (cp_state p) = sb_lineage current then cp_revision p = cp_revision record
              else recovery_descends n v current record (cs_lineage (cp_state cursor) # seen) p)"

definition remediation_successor :: "ledger_view \<Rightarrow> review_binding \<Rightarrow> review_binding \<Rightarrow> bool" where
  \<comment> \<open>\<^verbatim>\<open>validateRuntimeRemediationSuccessor\<close> passes\<close>
  "remediation_successor v current successor =
     (if sb_lineage current = sb_lineage successor then False
      else case bound_record v current of None \<Rightarrow> False
      | Some record \<Rightarrow>
          (case vw_leaves v of None \<Rightarrow> False
           | Some leaves \<Rightarrow>
               list_ex (\<lambda>l. cs_lineage (cp_state l) = sb_lineage successor \<and>
                            cp_revision l = sb_authority successor) leaves \<and>
               (case vw_authority v (sb_lineage successor) of None \<Rightarrow> False
                | Some cursor \<Rightarrow>
                    cp_revision cursor = sb_authority successor \<and>
                    recovery_descends 10000 v current record [] cursor)))"

section \<open>Requests\<close>

definition normalize_begin :: "begin_request \<Rightarrow> ledger_error + begin_request" where
  "normalize_begin q =
     (let q' = q\<lparr>bq_max_attempts := (if bq_max_attempts q = 0 then 2 else bq_max_attempts q),
                 bq_max_lines := (if bq_max_lines q = 0 then 200 else bq_max_lines q)\<rparr>
      in if (bq_expected q \<noteq> [] \<and> \<not> runtime_revision (bq_expected q)) \<or> \<not> runtime_request_id (bq_id q) \<or>
            \<not> runtime_text 160 (bq_work_unit q) \<or> \<not> runtime_text 240 (bq_goal q) \<or>
            bq_max_attempts q' < 1 \<or> bq_max_attempts q' > 100 \<or>
            bq_max_lines q' < 1 \<or> bq_max_lines q' > 1000000
         then Inl BadRequest else Inr q')"

definition requests_remediation :: "finish_request \<Rightarrow> bool" where
  "requests_remediation q \<longleftrightarrow> fq_binding q \<noteq> [] \<or> fq_successor q \<noteq> [] \<or> fq_remediates q \<noteq> []"

definition normalize_finish :: "finish_request \<Rightarrow> ledger_error + finish_request" where
  "normalize_finish q =
     (if \<not> runtime_revision (fq_expected q) \<or> \<not> runtime_request_id (fq_id q) \<or>
         \<not> terminal_outcome (fq_outcome q) \<or> \<not> runtime_revision (fq_evidence q) \<or>
         \<not> runtime_text 500 (fq_diagnosis q) \<or> \<not> known_harness (fq_harness q) \<or>
         \<not> runtime_text 500 (fq_cleanup q) \<or> \<not> runtime_text 500 (fq_process q) then Inl BadRequest
      else if requests_remediation q \<and>
              (fq_binding q = [] \<or> fq_successor q = [] \<or> fq_remediates q = [] \<or>
               fq_outcome q \<noteq> AttemptPassed \<or> \<not> runtime_revision (fq_binding q) \<or>
               \<not> valid_binding_lineage (fq_successor q) \<or> \<not> runtime_revision (fq_remediates q))
      then Inl BadRequest else Inr q)"

definition normalize_reset :: "reset_request \<Rightarrow> ledger_error + reset_request" where
  "normalize_reset q =
     (if \<not> runtime_revision (zq_expected q) \<or> \<not> runtime_request_id (zq_id q) \<or>
         \<not> runtime_text 500 (zq_reason q) \<or> \<not> runtime_text 128 (zq_actor q)
      then Inl BadRequest else Inr q)"

definition normalize_bind :: "bind_request \<Rightarrow> ledger_error + bind_request" where
  "normalize_bind q =
     (if length (nq_expected q) > 128 \<or> list_ex (\<lambda>c. c \<in> {CHR 0x0D, CHR 0x0A, CHR 0x00}) (nq_expected q) \<or>
         \<not> runtime_request_id (nq_id q) \<or> \<not> valid_binding_lineage (nq_lineage q)
      then Inl BadRequest else Inr q)"

section \<open>Commit\<close>

type_synonym ledger_step = "ledger_disk \<times> (ledger_error + runtime_status)"

definition publish_record :: "ledger_record \<Rightarrow> ledger_disk \<Rightarrow> ledger_error + ledger_disk" where
  \<comment> \<open>an immutable file is not replaced: the one that is there must be of readable size and hold the
    same bytes, so that either way the file holds the encoding of the record\<close>
  "publish_record r d =
     (let written = d\<lparr>dk_records := (dk_records d)(record_revision r \<mapsto> r)\<rparr> in
      case dk_records d (record_revision r) of
        None \<Rightarrow> Inr written
      | Some old \<Rightarrow>
          if length (record_payload old) \<le> max_record_bytes \<and> record_payload old = record_payload r
          then Inr written else Inl RecordDiffers)"

definition publish_head :: "string \<Rightarrow> ledger_disk \<Rightarrow> ledger_disk" where
  "publish_head revision d = d\<lparr>dk_head := HeadFile revision\<rparr>"

definition commit_record :: "string \<Rightarrow> ledger_record \<Rightarrow> ledger_disk \<Rightarrow> ledger_step" where
  "commit_record change r d =
     (case publish_record r d of Inl err \<Rightarrow> (d, Inl err)
      | Inr d' \<Rightarrow>
          let d'' = publish_head (record_revision r) d' in
          (case load_ledger change d'' of Inl err \<Rightarrow> (d'', Inl (CommittedUnreadable err))
           | Inr y \<Rightarrow> if ls_revision (ly_status y) \<noteq> record_revision r
                      then (d'', Inl (CommittedUnreadable HeadMismatch)) else (d'', Inr (ly_status y))))"

definition blank_record :: "ledger_op \<Rightarrow> ledger_record" where
  \<comment> \<open>the record an operation builds before the common fields are set\<close>
  "blank_record op =
     \<lparr>lc_schema = [], lc_change = [], lc_previous = [], lc_operation = op, lc_request = [], lc_digest = [],
      lc_begin = None, lc_finish = None, lc_reset = None, lc_binding = None\<rparr>"

definition sealed_record :: "string \<Rightarrow> string \<Rightarrow> string \<Rightarrow> string \<Rightarrow> ledger_record \<Rightarrow> ledger_record" where
  "sealed_record change previous request digest r = r
     \<lparr>lc_schema := ''gentle-ai.sdd-runtime-record/v1'', lc_change := change, lc_previous := previous,
      lc_request := request, lc_digest := digest\<rparr>"

definition commit_checked :: "string \<Rightarrow> ledger_record \<Rightarrow> ledger_disk \<Rightarrow> ledger_step" where
  "commit_checked change r d =
     (case validate_record_shape r of Some err \<Rightarrow> (d, Inl err) | None \<Rightarrow> commit_record change r d)"

definition mutate ::
  "string \<Rightarrow> string \<Rightarrow> string \<Rightarrow> string \<Rightarrow> (ledger_replay \<Rightarrow> ledger_error + ledger_record) \<Rightarrow>
   ledger_disk \<Rightarrow> ledger_step" where
  "mutate change expected request digest build d =
     (case load_ledger change d of Inl err \<Rightarrow> (d, Inl err)
      | Inr y \<Rightarrow>
          (case ly_requests y request of
             Some (known, _) \<Rightarrow>
               (d, if known \<noteq> digest then Inl RequestConflict else Inr (ly_status y))
           | None \<Rightarrow>
               if ls_revision (ly_status y) \<noteq> expected
               then (d, Inl (RevisionConflict (ls_revision (ly_status y))))
               else case build y of Inl err \<Rightarrow> (d, Inl err)
               | Inr r \<Rightarrow> commit_checked change (sealed_record change expected request digest r) d))"

section \<open>Begin\<close>

definition begin_candidate ::
  "ledger_view \<Rightarrow> begin_request \<Rightarrow> runtime_status \<Rightarrow> ledger_error + (int \<times> string \<times> string)" where
  \<comment> \<open>the generation and the candidate of the attempt to begin\<close>
  "begin_candidate v q s =
     (case ls_objective s of
        None \<Rightarrow>
          (case vw_capture v of None \<Rightarrow> Inl CandidateUnavailable
           | Some (identity, tree) \<Rightarrow> Inr (go_add (ls_generation s) 1, identity, tree))
      | Some oj \<Rightarrow>
          if bq_work_unit q \<noteq> oj_work_unit oj \<or> bq_goal q \<noteq> oj_goal oj \<or>
             bq_max_attempts q \<noteq> oj_max_attempts oj \<or> bq_max_lines q \<noteq> oj_max_lines oj
          then Inl ObjectiveChange
          else if ls_attempts s = [] then Inl NoProvenance
          else let a = last (ls_attempts s) in
            if at_objective a \<noteq> oj_id oj \<or> at_outcome a = AttemptRunning \<or> at_finish_identity a = [] \<or>
               at_finish_tree a = [] then Inl NoProvenance
            else case vw_overlay v (at_begin_tree a) of None \<Rightarrow> Inl CandidateUnavailable
            | Some (identity, tree) \<Rightarrow>
                if identity \<noteq> at_finish_identity a \<or> tree \<noteq> at_finish_tree a then Inl ObjectiveChange
                else Inr (oj_generation oj, identity, tree))"

definition build_begin ::
  "string \<Rightarrow> ledger_view \<Rightarrow> begin_request \<Rightarrow> ledger_replay \<Rightarrow> ledger_error + ledger_record" where
  "build_begin change v q y =
     (let s = ly_status y in
      if ls_active s \<noteq> None then Inl AttemptActive
      else if ls_complete s then Inl ObjectiveDone
      else if ls_decision s then Inl BudgetExhausted
      else case begin_candidate v q s of Inl err \<Rightarrow> Inl err
      | Inr (generation, identity, tree) \<Rightarrow>
          let oid = (case ls_objective s of Some oj \<Rightarrow> oj_id oj
                     | None \<Rightarrow> runtime_objective_id change (bq_work_unit q) (bq_goal q) identity generation)
          in if ls_cumulative_attempts s \<ge> bq_max_attempts q \<or> ls_cumulative_lines s \<ge> bq_max_lines q
             then Inl BudgetExhausted
             else Inr ((blank_record OpBegin)\<lparr>lc_begin := Some
               \<lparr>bv_objective = oid, bv_generation = generation, bv_work_unit = bq_work_unit q,
                bv_goal = bq_goal q, bv_max_attempts = bq_max_attempts q, bv_max_lines = bq_max_lines q,
                bv_ordinal = ls_next_ordinal s, bv_identity = identity, bv_tree = tree\<rparr>\<rparr>))"

definition ledger_begin :: "string \<Rightarrow> ledger_view \<Rightarrow> begin_request \<Rightarrow> ledger_disk \<Rightarrow> ledger_step" where
  "ledger_begin change v q0 d =
     (case normalize_begin q0 of Inl err \<Rightarrow> (d, Inl err)
      | Inr q \<Rightarrow> mutate change (bq_expected q) (bq_id q) (begin_digest q) (build_begin change v q) d)"

section \<open>Finish\<close>

definition finish_event_of ::
  "finish_request \<Rightarrow> runtime_attempt \<Rightarrow> runtime_objective \<Rightarrow> runtime_status \<Rightarrow> string \<times> string \<Rightarrow> int \<Rightarrow>
   finish_event" where
  "finish_event_of q a oj s candidate changed =
     \<lparr>fv_ordinal = at_ordinal a, fv_identity = fst candidate, fv_tree = snd candidate,
      fv_outcome = fq_outcome q, fv_lines = changed, fv_evidence = fq_evidence q,
      fv_diagnosis = fq_diagnosis q, fv_harness = fq_harness q, fv_cleanup = fq_cleanup q,
      fv_process = fq_process q, fv_remediates = fq_remediates q,
      fv_exceeded = (go_add (ls_cumulative_lines s) changed > oj_max_lines oj)\<rparr>"

definition finish_binding ::
  "string \<Rightarrow> legacy_file \<Rightarrow> finish_request \<Rightarrow> runtime_status \<Rightarrow>
   ledger_error + (review_binding option \<times> (review_binding \<times> string) option)" where
  \<comment> \<open>the effective binding, and the legacy file it came from\<close>
  "finish_binding change legacy q s =
     (if fq_outcome q = AttemptPassed \<and> ls_binding s = None then
        (case read_legacy change legacy of Inl err \<Rightarrow> Inl err
         | Inr l \<Rightarrow> Inr (map_option fst l, l))
      else Inr (ls_binding s, None))"

definition remediation_guard ::
  "finish_request \<Rightarrow> runtime_status \<Rightarrow> review_binding option \<Rightarrow> ledger_error option" where
  "remediation_guard q s binding =
     (if \<not> requests_remediation q then None
      else case binding of None \<Rightarrow> Some NoBinding
      | Some b \<Rightarrow>
          if sb_revision b \<noteq> fq_binding q then Some (BindingConflict (sb_revision b))
          else if ls_evidence s \<noteq> [] \<and> ls_evidence s \<noteq> fq_remediates q then Some EvidenceMismatch
          else None)"

definition unchanged_guard ::
  "string \<Rightarrow> ledger_view \<Rightarrow> finish_request \<Rightarrow> runtime_attempt \<Rightarrow> review_binding option \<Rightarrow> string \<Rightarrow>
   ledger_error option" where
  \<comment> \<open>a bound passing attempt without a successor must leave the approved candidate as it was\<close>
  "unchanged_guard change v q a binding tree =
     (case binding of None \<Rightarrow> None
      | Some b \<Rightarrow>
          if fq_outcome q = AttemptPassed \<and> \<not> requests_remediation q then
            (if tree \<noteq> at_begin_tree a then Some SuccessorRequired
             else if sb_change b \<noteq> change then Some BoundCandidate
             else if \<not> bound_candidate v b tree then Some BoundCandidate else None)
          else None)"

definition remediation_event ::
  "string \<Rightarrow> ledger_view \<Rightarrow> finish_request \<Rightarrow> review_binding \<Rightarrow> (review_binding \<times> string) option \<Rightarrow> string \<Rightarrow>
   ledger_error + binding_event" where
  \<comment> \<open>the binding of the successor, prepared and checked twice\<close>
  "remediation_event change v q current legacy tree =
     (case vw_prepare v (fq_successor q) of None \<Rightarrow> Inl NotPrepared
      | Some prepared \<Rightarrow>
          if \<not> remediation_successor v current prepared then Inl SuccessorUnrelated
          else case vw_prepare_again v (fq_successor q) of None \<Rightarrow> Inl SuccessorChanged
          | Some final \<Rightarrow>
              if sb_revision final \<noteq> sb_revision prepared then Inl SuccessorChanged
              else if \<not> remediation_successor v current final then Inl SuccessorUnrelated
              else if gc_candidate (sb_context final) \<noteq> tree then Inl SuccessorCandidate
              else (case legacy of
                  None \<Rightarrow> Inr \<lparr>nv_expected = fq_binding q, nv_current = final, nv_legacy = None\<rparr>
                | Some (b, digest) \<Rightarrow>
                    (case read_legacy change (vw_legacy_again v) of
                       Inr (Some (_, digest')) \<Rightarrow>
                         if digest' \<noteq> digest then Inl LegacyChanged
                         else Inr \<lparr>nv_expected = fq_binding q, nv_current = final,
                                   nv_legacy = Some \<lparr>li_digest = digest, li_binding = b\<rparr>\<rparr>
                     | _ \<Rightarrow> Inl LegacyChanged)))"

definition build_finish ::
  "string \<Rightarrow> ledger_view \<Rightarrow> legacy_file \<Rightarrow> finish_request \<Rightarrow> ledger_replay \<Rightarrow> ledger_error + ledger_record" where
  \<comment> \<open>an active attempt without an objective, which no replay produces, would be a nil dereference\<close>
  "build_finish change v legacy_file q y =
     (let s = ly_status y in
      case (ls_active s, ls_objective s) of
        (Some a, Some oj) \<Rightarrow>
          (case finish_binding change legacy_file q s of Inl err \<Rightarrow> Inl err
           | Inr (binding, legacy) \<Rightarrow>
               (case remediation_guard q s binding of Some err \<Rightarrow> Inl err
                | None \<Rightarrow>
                    (case (vw_overlay v (at_begin_tree a), vw_changed v (at_begin_tree a)) of
                       (Some candidate, Some changed) \<Rightarrow>
                         (case unchanged_guard change v q a binding (snd candidate) of Some err \<Rightarrow> Inl err
                          | None \<Rightarrow>
                              let e = finish_event_of q a oj s candidate changed in
                              if \<not> requests_remediation q
                              then Inr ((blank_record OpFinish)\<lparr>lc_finish := Some e\<rparr>)
                              else (case remediation_event change v q (the binding) legacy (snd candidate) of
                                  Inl err \<Rightarrow> Inl err
                                | Inr b \<Rightarrow> Inr ((blank_record OpFinishRemediation)
                                    \<lparr>lc_finish := Some e, lc_binding := Some b\<rparr>)))
                     | _ \<Rightarrow> Inl CandidateUnavailable)))
      | _ \<Rightarrow> Inl NoActiveAttempt)"

definition ledger_finish :: "string \<Rightarrow> ledger_view \<Rightarrow> finish_request \<Rightarrow> ledger_disk \<Rightarrow> ledger_step" where
  "ledger_finish change v q0 d =
     (case normalize_finish q0 of Inl err \<Rightarrow> (d, Inl err)
      | Inr q \<Rightarrow> mutate change (fq_expected q) (fq_id q) (finish_digest q)
                  (build_finish change v (dk_legacy d) q) d)"

section \<open>Reset\<close>

definition build_reset :: "ledger_view \<Rightarrow> reset_request \<Rightarrow> ledger_replay \<Rightarrow> ledger_error + ledger_record" where
  "build_reset v q y =
     (let s = ly_status y in
      if ls_active s \<noteq> None then Inl AttemptActive
      else case ls_objective s of None \<Rightarrow> Inl NoObjective
      | Some oj \<Rightarrow>
          if \<not> ls_decision s \<and> \<not> ls_complete s then Inl ResetNotAllowed
          else case vw_capture v of None \<Rightarrow> Inl CandidateUnavailable
          | Some (identity, tree) \<Rightarrow>
              Inr ((blank_record OpReset)\<lparr>lc_reset := Some
                \<lparr>zv_objective = oj_id oj, zv_generation = oj_generation oj, zv_identity = identity,
                 zv_tree = tree, zv_reason = zq_reason q, zv_actor = zq_actor q\<rparr>\<rparr>))"

definition ledger_reset :: "string \<Rightarrow> ledger_view \<Rightarrow> reset_request \<Rightarrow> ledger_disk \<Rightarrow> ledger_step" where
  "ledger_reset change v q0 d =
     (case normalize_reset q0 of Inl err \<Rightarrow> (d, Inl err)
      | Inr q \<Rightarrow> mutate change (zq_expected q) (zq_id q) (reset_digest q) (build_reset v q) d)"

section \<open>Bind\<close>

definition build_bind ::
  "string \<Rightarrow> ledger_view \<Rightarrow> legacy_file \<Rightarrow> bind_request \<Rightarrow> runtime_status \<Rightarrow>
   ledger_error + binding_event option" where
  \<comment> \<open>the event to record, or None when the candidate is bound already\<close>
  "build_bind change v legacy_file q s =
     (case (if ls_binding s = None then read_legacy change legacy_file else Inr None) of Inl err \<Rightarrow> Inl err
      | Inr legacy \<Rightarrow>
          (case vw_prepare v (nq_lineage q) of None \<Rightarrow> Inl NotPrepared
           | Some prepared \<Rightarrow>
               if \<not> prepared_binding_ok prepared change (nq_lineage q) then Inl NotPrepared
               else case ls_binding s of
                 Some b \<Rightarrow>
                   if sb_revision b = sb_revision prepared then Inr None
                   else if (nq_expected q \<noteq> [] \<and> \<not> runtime_revision (nq_expected q)) \<or>
                           ls_binding_revision s \<noteq> nq_expected q
                   then Inl (BindingConflict (ls_binding_revision s))
                   else Inr (Some \<lparr>nv_expected = nq_expected q, nv_current = prepared, nv_legacy = None\<rparr>)
               | None \<Rightarrow>
                   (case read_legacy change (vw_legacy_again v) of Inl err \<Rightarrow> Inl err
                    | Inr again \<Rightarrow>
                        let current = (case legacy of None \<Rightarrow> [] | Some (b, _) \<Rightarrow> sb_revision b) in
                        if map_option snd again \<noteq> map_option snd legacy then Inl LegacyChanged
                        else if (nq_expected q \<noteq> [] \<and> \<not> runtime_revision (nq_expected q)) \<or>
                                current \<noteq> nq_expected q then Inl (BindingConflict current)
                        else Inr (Some \<lparr>nv_expected = nq_expected q, nv_current = prepared,
                               nv_legacy = map_option
                                 (\<lambda>(b, digest). \<lparr>li_digest = digest, li_binding = b\<rparr>) legacy\<rparr>))))"

definition ledger_bind :: "string \<Rightarrow> ledger_view \<Rightarrow> bind_request \<Rightarrow> ledger_disk \<Rightarrow> ledger_step" where
  \<comment> \<open>\<^verbatim>\<open>bindPreparedReview\<close>: no comparison with the ledger's head, only with the binding\<close>
  "ledger_bind change v q0 d =
     (case normalize_bind q0 of Inl err \<Rightarrow> (d, Inl err)
      | Inr q \<Rightarrow>
          (case load_ledger change d of Inl err \<Rightarrow> (d, Inl err)
           | Inr y \<Rightarrow>
               (case ly_requests y (nq_id q) of
                  Some (known, _) \<Rightarrow>
                    (d, if known \<noteq> bind_digest q then Inl RequestConflict else Inr (ly_status y))
                | None \<Rightarrow>
                    (case build_bind change v (dk_legacy d) q (ly_status y) of Inl err \<Rightarrow> (d, Inl err)
                     | Inr None \<Rightarrow> (d, Inr (ly_status y))
                     | Inr (Some e) \<Rightarrow>
                         commit_checked change
                           (sealed_record change (ls_revision (ly_status y)) (nq_id q) (bind_digest q)
                              ((blank_record OpBind)\<lparr>lc_binding := Some e\<rparr>)) d))))"

end
