(* ===== verification/Authority.thy ===== *)
theory Authority
  imports CompactStore
begin

text \<open>
  How a live target relates to a frozen one (compact_target_relation.go): the relation of two
  canonical path sets, and the classification recovery, status, the gate and the chain of receipts
  share; evidence that a base advance is compatible is handed in. And recovery between compact
  authorities (compact_store.go, compact_recovered_evidence.go, final_verification_retry.go): the edge
  a successor may form with its predecessor, the evidence an accounting-only escalation hands on, and
  the graph the stored authorities form. The graph is a list of records by lineage, in the order the
  directory is read.
\<close>

section \<open>Relations of targets\<close>

datatype path_relation = PathsSame | PathsContraction | PathsOverlap | PathsDisjoint | PathsInvalid

datatype target_relation_kind =
    TargetSame | TargetAdvance | TargetContraction | TargetChangedScope | TargetUnsafe

fun path_relation_text :: "path_relation \<Rightarrow> string" where
  "path_relation_text PathsSame = ''same''"
| "path_relation_text PathsContraction = ''contraction''"
| "path_relation_text PathsOverlap = ''overlap''"
| "path_relation_text PathsDisjoint = ''disjoint''"
| "path_relation_text PathsInvalid = ''invalid''"

fun target_relation_text :: "target_relation_kind \<Rightarrow> string" where
  "target_relation_text TargetSame = ''same''"
| "target_relation_text TargetAdvance = ''compatible-advance''"
| "target_relation_text TargetContraction = ''provable-contraction''"
| "target_relation_text TargetChangedScope = ''changed-scope''"
| "target_relation_text TargetUnsafe = ''unsafe''"

record relation_evidence =
  ev_advance :: "base_advance option"
  ev_explicit :: bool

record target_relation =
  tr_kind :: target_relation_kind
  tr_paths :: path_relation

definition classify_paths :: "string list \<Rightarrow> string list \<Rightarrow> path_relation" where
  "classify_paths genesis live =
     (if \<not> is_canonical_paths genesis \<or> \<not> is_canonical_paths live then PathsInvalid
      else if genesis = live then PathsSame
      else if 0 < length live \<and> length live < length genesis \<and> paths_are_subset live genesis = None
      then PathsContraction
      else if list_ex (\<lambda>p. p \<in> set genesis) live then PathsOverlap
      else PathsDisjoint)"

fun workspace_default :: "projection \<Rightarrow> projection" where
  "workspace_default NoProjection = Workspace"
| "workspace_default p = p"

definition same_recovery_projection :: "projection \<Rightarrow> projection \<Rightarrow> bool" where
  "same_recovery_projection a b \<longleftrightarrow> workspace_default a = workspace_default b"

definition start_kinds_compatible :: "target_kind \<Rightarrow> target_kind \<Rightarrow> bool" where
  "start_kinds_compatible existing requested \<longleftrightarrow>
     existing = requested \<or>
     existing = CurrentChanges \<and> requested = BaseDiff \<or> existing = BaseDiff \<and> requested = CurrentChanges"

definition proves_advance :: "base_advance \<Rightarrow> snapshot \<Rightarrow> snapshot \<Rightarrow> bool" where
  "proves_advance p frozen live \<longleftrightarrow>
     base_advance_valid p \<and> ba_old_base p = sn_base frozen \<and> ba_new_base p = sn_base live \<and>
     sn_candidate frozen = sn_candidate live \<and> ba_delivered_paths p = digest_paths (elems (sn_paths frozen))"

definition same_target :: "snapshot \<Rightarrow> snapshot \<Rightarrow> bool" where
  "same_target frozen live \<longleftrightarrow>
     sn_base frozen = sn_base live \<and> sn_candidate frozen = sn_candidate live \<and>
     elems (sn_paths frozen) = elems (sn_paths live)"

definition classify_target ::
  "snapshot \<Rightarrow> snapshot \<Rightarrow> string list \<Rightarrow> relation_evidence \<Rightarrow> target_relation" where
  "classify_target frozen live genesis evidence =
     (let paths = classify_paths genesis (elems (sn_paths live));
          substantive = (sn_candidate frozen \<noteq> sn_candidate live \<or> elems (sn_paths frozen) \<noteq> elems (sn_paths live));
          kind =
            (if paths = PathsInvalid \<or> \<not> same_recovery_projection (sn_projection frozen) (sn_projection live)
             then TargetUnsafe
             else if \<not> start_kinds_compatible (sn_kind frozen) (sn_kind live) \<and> \<not> (ev_explicit evidence \<and> substantive)
             then TargetUnsafe
             else if (case ev_advance evidence of None \<Rightarrow> False | Some p \<Rightarrow> proves_advance p frozen live)
             then TargetAdvance
             else if same_target frozen live then TargetSame
             else if paths = PathsContraction then TargetContraction
             else if sn_candidate frozen = sn_candidate live \<or> paths = PathsSame \<or> paths = PathsOverlap
             then TargetChangedScope
             else if ev_explicit evidence \<and> \<not> same_target frozen live then TargetChangedScope
             else TargetUnsafe)
      in \<lparr>tr_kind = kind, tr_paths = paths\<rparr>)"

definition no_evidence :: relation_evidence where
  "no_evidence = \<lparr>ev_advance = None, ev_explicit = False\<rparr>"

definition explicit_change :: relation_evidence where
  "explicit_change = \<lparr>ev_advance = None, ev_explicit = True\<rparr>"

section \<open>What a relation says\<close>

lemma classify_paths_canonical:
  "classify_paths genesis live \<noteq> PathsInvalid \<Longrightarrow> is_canonical_paths genesis \<and> is_canonical_paths live"
  by (simp add: classify_paths_def split: if_splits)

lemma contraction_subset:
  "classify_paths genesis live = PathsContraction \<longleftrightarrow>
     is_canonical_paths genesis \<and> is_canonical_paths live \<and> live \<noteq> [] \<and> set live \<subset> set genesis"
proof -
  have size: "length xs = card (set xs)" if "is_canonical_paths xs" for xs
    using that paths.sorted_distinct [of xs xs] by (simp add: is_canonical_paths_def distinct_card)
  have eq: "xs = ys" if "is_canonical_paths xs" "is_canonical_paths ys" "set xs = set ys" for xs ys
    using that paths.sorted_distinct [of xs xs] paths.sorted_distinct [of ys ys]
    by (intro sorted_distinct_set_unique) (simp_all add: is_canonical_paths_def)
  have less: "length live < length genesis \<and> set live \<subseteq> set genesis \<longleftrightarrow> set live \<subset> set genesis"
    if "is_canonical_paths genesis" "is_canonical_paths live"
    using size [OF that(1)] size [OF that(2)] psubset_card_mono [of "set genesis" "set live"]
      card_seteq [of "set genesis" "set live"] by fastforce
  show ?thesis using eq [of genesis live] less by (auto simp: classify_paths_def paths_are_subset_None)
qed

section \<open>Authorizations\<close>

definition recovery_authorization :: "string \<Rightarrow> string \<Rightarrow> string \<Rightarrow> string \<Rightarrow> string \<Rightarrow> string" where
  \<comment> \<open>predecessor, its revision, the target, actor and reason\<close>
  "recovery_authorization lineage revision target actor reason =
     ''gentle-ai.review-recovery-authorization/v1'' @
     binding_line ''predecessor_lineage'' lineage @ binding_line ''predecessor_revision'' revision @
     binding_line ''target_identity'' target @ binding_line ''actor'' (trim_space actor) @
     binding_line ''reason'' (trim_space reason)"

definition staged_authorization ::
  "string \<Rightarrow> string \<Rightarrow> string \<Rightarrow> string \<Rightarrow> string \<Rightarrow> string \<Rightarrow> string" where
  "staged_authorization lineage revision target successor actor reason =
     ''gentle-ai.review-recovery-authorization/v1'' @
     binding_line ''predecessor_lineage'' lineage @ binding_line ''predecessor_revision'' revision @
     binding_line ''target_identity'' target @ binding_line ''successor_lineage'' successor @
     binding_line ''actor'' (trim_space actor) @ binding_line ''reason'' (trim_space reason)"

definition release_authorization :: string where
  "release_authorization = ''gentle-ai.release-scope-recovery/v1''"

section \<open>Scope\<close>

definition recovery_scope_changed :: "snapshot \<Rightarrow> snapshot \<Rightarrow> bool" where
  "recovery_scope_changed previous next =
     (let r = classify_target previous next (elems (sn_paths previous)) explicit_change
      in tr_kind r \<noteq> TargetSame \<and> tr_kind r \<noteq> TargetUnsafe)"

definition strictly_extends :: "string list \<Rightarrow> string list \<Rightarrow> bool" where
  "strictly_extends paths genesis \<longleftrightarrow>
     length paths > length genesis \<and> paths_are_subset genesis paths = None"

definition staged_scope_shape :: "compact_state \<Rightarrow> snapshot \<Rightarrow> bool" where
  "staged_scope_shape p next \<longleftrightarrow>
     cs_state p = Approved \<and> sn_kind (cs_initial p) = BaseDiff \<and>
     workspace_default (sn_projection (cs_initial p)) = Workspace \<and>
     sn_kind next = BaseWorkspaceOverlay \<and> sn_projection next = Staged \<and>
     sn_base next = sn_base (cs_initial p) \<and> elems (sn_intended (cs_initial p)) = [] \<and>
     elems (sn_ledger_ids (cs_initial p)) = [] \<and> elems (sn_intended next) = [] \<and>
     elems (sn_ledger_ids next) = [] \<and> elems (cs_genesis p) \<noteq> [] \<and>
     strictly_extends (elems (sn_paths next)) (elems (cs_genesis p)) \<and>
     sn_candidate next \<noteq> sn_candidate (cs_current p)"

definition release_scope :: "compact_state \<Rightarrow> snapshot \<Rightarrow> bool" where
  "release_scope p next \<longleftrightarrow>
     sn_kind (cs_initial p) = CurrentChanges \<and>
     (sn_kind (cs_current p) = CurrentChanges \<or> sn_kind (cs_current p) = FixDiff) \<and>
     sn_kind next = BaseDiff \<and> sn_projection (cs_current p) = sn_projection next \<and>
     sn_candidate (cs_current p) = sn_candidate next \<and>
     strictly_extends (elems (sn_paths next)) (elems (cs_genesis p))"

definition adds_genesis_path :: "compact_state \<Rightarrow> snapshot \<Rightarrow> bool" where
  "adds_genesis_path p live \<longleftrightarrow>
     classify_paths (elems (cs_genesis p)) (elems (sn_paths live)) = PathsOverlap \<and>
     paths_are_subset (elems (sn_paths live)) (elems (cs_genesis p)) \<noteq> None"

definition contracts_genesis_paths :: "compact_state \<Rightarrow> snapshot \<Rightarrow> bool" where
  "contracts_genesis_paths p live \<longleftrightarrow>
     classify_paths (elems (cs_genesis p)) (elems (sn_paths live)) = PathsContraction"

definition escalated_target_changed :: "snapshot \<Rightarrow> snapshot \<Rightarrow> bool" where
  "escalated_target_changed previous next \<longleftrightarrow>
     sn_candidate previous \<noteq> sn_candidate next \<and> sn_identity previous \<noteq> sn_identity next"

definition historical_failed_validator :: "compact_state \<Rightarrow> bool" where
  "historical_failed_validator s \<longleftrightarrow>
     cs_state s = CorrectionRequired \<and> correction_consumed s \<and> cs_actual s = None \<and>
     cs_fix_delta s = empty_fix_delta_hash \<and> cs_original_check s = None \<and> cs_regression_check s = None \<and>
     (let a = last (elems (cs_attempts s)) in \<not> vc_passed (ca_original a) \<or> \<not> vc_passed (ca_regression a))"

section \<open>Evidence recovered from an accounting-only escalation\<close>

definition accounting_only :: "compact_state \<Rightarrow> bool" where
  \<comment> \<open>review and validation succeeded, the correction lines alone went over the budget\<close>
  "accounting_only s \<longleftrightarrow>
     cs_state s = Escalated \<and> cs_evidence s = [] \<and> cs_cumulative s > cs_budget s \<and>
     elems (cs_fix_ids s) \<noteq> [] \<and> elems (cs_dispositions s) = [] \<and>
     (case (elems (cs_attempts s), cs_proposed s, cs_actual s, cs_original_check s, cs_regression_check s) of
        ([a], Some proposed, Some actual, Some original, Some regression) \<Rightarrow>
          ca_proposed a = proposed \<and> ca_actual a = actual \<and> ca_actual a = cs_cumulative s \<and>
          ca_fix_delta a = cs_fix_delta s \<and> ca_original a = original \<and> ca_regression a = regression \<and>
          vc_passed (ca_original a) \<and> vc_passed (ca_regression a) \<and>
          snapshots_equal (ca_snapshot a) (cs_current s)
      | _ \<Rightarrow> False)"

definition evidence_scope_matches :: "compact_state \<Rightarrow> compact_state \<Rightarrow> bool" where
  "evidence_scope_matches p n \<longleftrightarrow>
     cs_policy p = cs_policy n \<and> cs_risk p = cs_risk n \<and> elems (cs_lenses p) = elems (cs_lenses n) \<and>
     sn_candidate (cs_current p) = sn_candidate (cs_initial n) \<and> elems (cs_genesis p) = elems (cs_genesis n) \<and>
     elems (sn_intended (cs_initial p)) = elems (sn_intended (cs_initial n)) \<and>
     sn_projection (cs_initial p) = sn_projection (cs_initial n)"

definition evidence_relation :: "compact_state \<Rightarrow> compact_state \<Rightarrow> target_relation" where
  "evidence_relation p n =
     classify_target (cs_initial p) (cs_initial n) (elems (cs_genesis p)) explicit_change"

definition native_lines_ok :: "int \<Rightarrow> compact_state \<Rightarrow> correction_attempt \<Rightarrow> bool" where
  "native_lines_ok n p a \<longleftrightarrow> 0 < n \<and> n \<le> cs_budget p \<and> n \<le> ca_proposed a \<and> n < ca_actual a"

definition recovered_evidence_edge :: "compact_record \<Rightarrow> compact_state \<Rightarrow> bool" where
  \<comment> \<open>\<^verbatim>\<open>validateCompactRecoveredEvidenceEdge\<close> passes\<close>
  "recovered_evidence_edge pr n =
     (let p = cp_state pr in
      case Option.bind (cs_recovery n) rc_evidence of None \<Rightarrow> False
      | Some e \<Rightarrow>
          accounting_only p \<and> evidence_scope_matches p n \<and>
          (let a = last (elems (cs_attempts p)); r = evidence_relation p n; q = rv_request e in
           tr_kind r = TargetChangedScope \<and> tr_paths r = PathsSame \<and>
           rv_relation e = target_relation_text (tr_kind r) \<and> rv_path_relation e = path_relation_text (tr_paths r) \<and>
           rv_target e = sn_identity (cs_initial n) \<and>
           rv_review_hash e = compact_review_evidence_hash p \<and> rv_review_hash e = compact_review_evidence_hash n \<and>
           rv_attempt e = a \<and> native_lines_ok (rv_native_lines e) p a \<and>
           tq_lineage q = cs_lineage p \<and> tq_revision q = cp_revision pr \<and>
           tq_target q = sn_identity (cs_initial p) \<and> tq_hash q = targeted_request_hash q \<and>
           tq_correction_target q = sn_identity (ca_snapshot a) \<and>
           tq_candidate q = sn_candidate (ca_snapshot a) \<and>
           elems (tq_paths q) = elems (sn_paths (ca_snapshot a)) \<and>
           elems (tq_fix_ids q) = elems (cs_fix_ids p)))"

section \<open>The copy through JSON\<close>

text \<open>
  \<^verbatim>\<open>cloneCompactStateValue\<close> marshals a state and reads it back. The copy has the state's own value,
  except that an empty slice of an omitted field comes back nil. The recovery is replaced by every
  caller and an escalated state has no invalidation evidence, so neither is copied here.
\<close>

definition omitted :: "'a slice \<Rightarrow> 'a slice" where
  "omitted s = (if elems s = [] then None else s)"

definition clone_snapshot :: "snapshot \<Rightarrow> snapshot" where
  "clone_snapshot s = s\<lparr>sn_ledger_ids := omitted (sn_ledger_ids s)\<rparr>"

definition clone_finding :: "finding \<Rightarrow> finding" where
  "clone_finding f = f\<lparr>f_proof_refs := omitted (f_proof_refs f)\<rparr>"

definition clone_result :: "lens_result \<Rightarrow> lens_result" where
  "clone_result r = r\<lparr>lr_findings := map_option (map clone_finding) (lr_findings r)\<rparr>"

definition clone_attempt :: "correction_attempt \<Rightarrow> correction_attempt" where
  "clone_attempt a = a\<lparr>ca_snapshot := clone_snapshot (ca_snapshot a)\<rparr>"

definition clone_disposition :: "result_disposition \<Rightarrow> result_disposition" where
  "clone_disposition d = d\<lparr>rd_absent := omitted (rd_absent d)\<rparr>"

definition clone_state :: "compact_state \<Rightarrow> compact_state" where
  "clone_state s =
     s\<lparr>cs_initial := clone_snapshot (cs_initial s), cs_current := clone_snapshot (cs_current s),
       cs_results := map_option (map clone_result) (cs_results s),
       cs_findings := map_option (map clone_finding) (cs_findings s),
       cs_attempts := map_option (map clone_attempt) (omitted (cs_attempts s)),
       cs_dispositions := map_option (map clone_disposition) (omitted (cs_dispositions s)),
       cs_reopens := omitted (cs_reopens s)\<rparr>"

section \<open>Recovery edges\<close>

datatype edge_error =
    NotNamed | EdgeRevision | EdgeGeneration | EdgeProjection | StagedUnauthorized | NotReleaseScope
  | ScopeUnchanged | CorrectionUnauthorized | CorrectionScope | ScopePredecessor | NotInvalidated
  | EscalatedUnauthorized | EvidenceEdge | NotEscalated | TargetUnchanged | RetryPredecessor
  | RetryShape recovery_error | RetryBinding | RetryChanged | EdgeDisposition

definition staged_edge :: "compact_state \<Rightarrow> compact_state \<Rightarrow> recovery_provenance \<Rightarrow> bool" where
  "staged_edge p n rc \<longleftrightarrow> rc_disposition rc = RecoveryScopeChanged \<and> staged_scope_shape p (cs_initial n)"

definition scope_edge :: "compact_record \<Rightarrow> compact_state \<Rightarrow> recovery_provenance \<Rightarrow> edge_error option" where
  "scope_edge pr n rc =
     (let p = cp_state pr in
      if cs_state p = Approved then
        (if staged_edge p n rc then
           guard (rc_authorization rc \<noteq>
             staged_authorization (cs_lineage p) (cp_revision pr) (sn_identity (cs_initial n)) (cs_lineage n)
               (rc_actor rc) (rc_reason rc)) StagedUnauthorized
         else if rc_authorization rc = release_authorization then
           guard (\<not> release_scope p (cs_initial n)) NotReleaseScope
         else guard (\<not> recovery_scope_changed (cs_current p) (cs_initial n)) ScopeUnchanged)
      else if cs_state p = CorrectionRequired then first_err
        [guard (blank (rc_authorization rc)) CorrectionUnauthorized,
         guard (\<not> adds_genesis_path p (cs_initial n) \<and> \<not> contracts_genesis_paths p (cs_initial n)) CorrectionScope]
      else Some ScopePredecessor)"

definition escalated_edge :: "compact_record \<Rightarrow> compact_state \<Rightarrow> recovery_provenance \<Rightarrow> edge_error option" where
  "escalated_edge pr n rc =
     (let p = cp_state pr;
          unauthorized = guard (rc_authorization rc \<noteq>
            recovery_authorization (cs_lineage p) (cp_revision pr) (sn_identity (cs_initial n)) (rc_actor rc)
              (rc_reason rc)) EscalatedUnauthorized
      in if rc_evidence rc \<noteq> None then first_err [unauthorized, guard (\<not> recovered_evidence_edge pr n) EvidenceEdge]
         else first_err
           [guard (cs_state p \<noteq> Escalated \<and> \<not> historical_failed_validator p) NotEscalated,
            guard (\<not> escalated_target_changed (cs_current p) (cs_initial n)) TargetUnchanged,
            unauthorized])"

definition retry_edge :: "compact_record \<Rightarrow> compact_state \<Rightarrow> recovery_provenance \<Rightarrow> edge_error option" where
  \<comment> \<open>\<^verbatim>\<open>validateCompactFinalVerificationRetryEdge\<close>\<close>
  "retry_edge pr n rc =
     (let p = cp_state pr in
      case rc_retry rc of None \<Rightarrow> Some RetryPredecessor
      | Some proof \<Rightarrow> first_err
          [guard (cs_state p \<noteq> Escalated \<or> cs_evidence p = []) RetryPredecessor,
           map_option RetryShape (validate_retry_shape n rc),
           guard (rp_failed_evidence proof \<noteq> cs_evidence p \<or> rp_target proof \<noteq> sn_identity (cs_current p) \<or>
                  rp_terminal proof \<noteq> cp_revision pr) RetryBinding,
           guard (\<not> compact_state_equal
             ((clone_state p)\<lparr>cs_lineage := cs_lineage n, cs_generation := cs_generation n, cs_state := Validating,
                cs_evidence := [], cs_recovery := cs_recovery n\<rparr>) n) RetryChanged])"

definition edge_by_disposition ::
  "compact_record \<Rightarrow> compact_state \<Rightarrow> recovery_provenance \<Rightarrow> edge_error option" where
  "edge_by_disposition pr n rc =
     (case rc_disposition rc of
        RecoveryScopeChanged \<Rightarrow> scope_edge pr n rc
      | RecoveryInvalidated \<Rightarrow> guard (cs_state (cp_state pr) \<noteq> Invalidated) NotInvalidated
      | RecoveryEscalated \<Rightarrow> escalated_edge pr n rc
      | RecoveryFinalRetry \<Rightarrow> retry_edge pr n rc
      | OtherRecovery _ \<Rightarrow> Some EdgeDisposition)"

definition validate_recovery_edge :: "compact_record \<Rightarrow> compact_state \<Rightarrow> edge_error option" where
  "validate_recovery_edge pr n =
     (let p = cp_state pr in
      case cs_recovery n of None \<Rightarrow> Some NotNamed
      | Some rc \<Rightarrow> first_err
          [guard (rc_predecessor rc \<noteq> cs_lineage p) NotNamed,
           guard (rc_revision rc \<noteq> cp_revision pr) EdgeRevision,
           guard (cs_generation n \<noteq> go_add (cs_generation p) 1) EdgeGeneration,
           guard (\<not> same_recovery_projection (sn_projection (cs_initial p)) (sn_projection (cs_initial n)) \<and>
                  rc_disposition rc \<noteq> RecoveryEscalated \<and> \<not> staged_edge p n rc) EdgeProjection,
           edge_by_disposition pr n rc])"

section \<open>The graph\<close>

type_synonym authorities = "(string \<times> compact_record) list"

datatype graph_error =
    DanglingPredecessor string | PredecessorRevision string | BadEdge edge_error | Fork string | RecoveryCycle

definition authority_of :: "authorities \<Rightarrow> string \<Rightarrow> compact_record option" where
  "authority_of rs = map_of rs"

definition recovered_from_lineage :: "compact_record \<Rightarrow> string option" where
  "recovered_from_lineage r = map_option rc_predecessor (cs_recovery (cp_state r))"

function ancestry_cycles :: "authorities \<Rightarrow> string list \<Rightarrow> string option \<Rightarrow> bool" where
  \<comment> \<open>the walk to the root: a lineage seen twice is a cycle, a missing one ends the walk\<close>
  "ancestry_cycles rs seen None = False"
| "ancestry_cycles rs seen (Some parent) =
     (if parent \<in> set seen then True
      else case authority_of rs parent of None \<Rightarrow> False
      | Some r \<Rightarrow> ancestry_cycles rs (parent # seen) (recovered_from_lineage r))"
  by pat_completeness auto

definition unseen :: "authorities \<Rightarrow> string list \<Rightarrow> nat" where
  "unseen rs seen = card (set (map fst rs) - set seen)"

lemma unseen_less:
  assumes "parent \<notin> set seen" "authority_of rs parent = Some r"
  shows "unseen rs (parent # seen) < unseen rs seen"
  unfolding unseen_def
proof (intro psubset_card_mono)
  have "parent \<in> set (map fst rs)" using assms(2) by (force simp: authority_of_def dest: map_of_SomeD)
  then show "set (map fst rs) - set (parent # seen) \<subset> set (map fst rs) - set seen" using assms(1) by auto
qed simp

termination ancestry_cycles
  by (relation "measure (\<lambda>(rs, seen, x). unseen rs seen)") (simp_all add: unseen_less)

definition entry_error :: "authorities \<Rightarrow> string list \<Rightarrow> string \<times> compact_record \<Rightarrow> graph_error option" where
  \<comment> \<open>the predecessors named so far, and the entry to check\<close>
  "entry_error rs parents entry =
     (case cs_recovery (cp_state (snd entry)) of None \<Rightarrow> None
      | Some rc \<Rightarrow>
          (case authority_of rs (rc_predecessor rc) of None \<Rightarrow> Some (DanglingPredecessor (fst entry))
           | Some p \<Rightarrow> first_err
               [guard (cp_revision p \<noteq> rc_revision rc) (PredecessorRevision (fst entry)),
                map_option BadEdge (validate_recovery_edge p (cp_state (snd entry))),
                guard (cs_lineage (cp_state p) \<in> set parents) (Fork (cs_lineage (cp_state p))),
                guard (ancestry_cycles rs [fst entry] (Some (rc_predecessor rc))) RecoveryCycle]))"

fun graph_error_from :: "authorities \<Rightarrow> string list \<Rightarrow> authorities \<Rightarrow> graph_error option" where
  "graph_error_from rs parents [] = None"
| "graph_error_from rs parents (e # es) =
     (case entry_error rs parents e of Some err \<Rightarrow> Some err
      | None \<Rightarrow> graph_error_from rs
          (case recovered_from_lineage (snd e) of None \<Rightarrow> parents | Some p \<Rightarrow> p # parents) es)"

definition superseded :: "authorities \<Rightarrow> string \<Rightarrow> bool" where
  "superseded rs lineage \<longleftrightarrow> list_ex (\<lambda>(_, r). recovered_from_lineage r = Some lineage) rs"

definition authority_leaves :: "authorities \<Rightarrow> graph_error + string list" where
  "authority_leaves rs =
     (case graph_error_from rs [] rs of Some err \<Rightarrow> Inl err
      | None \<Rightarrow> Inr (sort (filter (\<lambda>l. \<not> superseded rs l) (map fst rs))))"

end
