(* ===== verification/SddGate.thy ===== *)
theory SddGate
  imports SddEvidence LedgerOps Receipt Authority
begin

text \<open>
  The review evidence a change is gated by (review_gate.go, review_binding.go): the path-bound compact
  authority that may stand in for a missing transaction, the receipt found or supplied and the
  post-apply gate it passes, the explicit binding kept in the runtime ledger, and the bounded
  remediation a failed verify report calls for. What is read from the repository is an
  \<open>authority_view\<close>; code that reads twice to notice a change in between takes two of them. The
  wrapped text of an error that is only shown is left out of a reason.
\<close>

section \<open>Reasons\<close>

datatype tx_reason =
    TxPresent | TxMissing | TxUnreadable | TxNotObject | TxIncompatible | TxInvalid string

datatype sdd_reason =
    Note string | NotBoundTo string
  | NotRemediable string | NotRemediableWithout string tx_reason
  | NeedsCompactFix string string | NeedsFix string string
  | FailedRevisionDiffers string string | StateForbidsFix review_state
  | ReviewRequired tx_reason | CannotStartVerify review_state | ReviewInProgress review_state
  | RuntimeUnreadable | DecisionPending string | AttemptActive int string

section \<open>What the repository holds\<close>

record receipt_codec =
  rc_schema :: "string \<Rightarrow> string"
  rc_compact :: "string \<Rightarrow> compact_receipt option"
  rc_v1 :: "string \<Rightarrow> receipt option"

record authority_view =
  av_records :: authorities \<comment> \<open>the records found when the leaves are computed\<close>
  av_load :: "string \<Rightarrow> compact_record option" \<comment> \<open>the store of a lineage, read again\<close>
  av_receipt :: "string \<Rightarrow> string option" \<comment> \<open>the receipt file beside it\<close>
  av_gate :: "compact_receipt \<Rightarrow> string \<Rightarrow> gate_result \<times> gate_context" \<comment> \<open>the post-apply gate\<close>
  av_v1 :: "(transaction \<times> string option) option list option" \<comment> \<open>v1 stores: last transaction, receipt file\<close>
  av_v1_gate :: "receipt \<Rightarrow> gate_result option" \<comment> \<open>None when no request can be derived\<close>

section \<open>Path-bound authorities\<close>

definition same_canonical_paths :: "string list \<Rightarrow> string list \<Rightarrow> bool" where
  "same_canonical_paths a b \<longleftrightarrow> sort a = sort b"

definition path_canonical :: "string \<Rightarrow> bool" where
  \<comment> \<open>on a system whose separator is the slash\<close>
  "path_canonical p \<longleftrightarrow> \<not> has_prefix p ''/'' \<and> p = path_clean p"

definition change_prefix :: "string \<Rightarrow> string" where
  "change_prefix change = ''openspec/changes/'' @ change @ ''/''"

definition paths_bound :: "string \<Rightarrow> compact_state \<Rightarrow> bool \<times> string" where
  "paths_bound change s =
     (let paths = elems (cs_genesis s);
          planned = filter (\<lambda>p. has_prefix p ''openspec/'') paths;
          matched = list_ex (\<lambda>p. has_prefix p (change_prefix change)) planned;
          foreign = list_ex (\<lambda>p. \<not> has_prefix p (change_prefix change)) planned
      in if \<not> same_canonical_paths paths (elems (sn_paths (cs_initial s)))
         then (False, ''path-bound compact authority has inconsistent immutable paths'')
         else if \<not> list_all path_canonical paths
         then (False, ''path-bound compact authority contains a non-canonical OpenSpec path'')
         else if matched \<and> foreign
         then (False, ''path-bound compact authority contains a foreign OpenSpec path'')
         else (matched, []))"

record bridge =
  br_eligible :: bool
  br_relevant :: bool
  br_reason :: string
  br_revision :: string

definition no_bridge :: bridge where
  "no_bridge = \<lparr>br_eligible = False, br_relevant = False, br_reason = [], br_revision = []\<rparr>"

definition no_authority_text :: string where
  "no_authority_text = ''no eligible path-bound compact authority found''"

definition relevant :: "string \<Rightarrow> bridge" where
  "relevant reason = no_bridge\<lparr>br_relevant := True, br_reason := reason\<rparr>"

definition skips_predecessor :: "string \<Rightarrow> string \<Rightarrow> gate_result \<Rightarrow> bool" where
  "skips_predecessor observed revision result \<longleftrightarrow>
     observed \<noteq> [] \<and> observed = revision \<and> result = GateScopeChanged"

datatype leaf_verdict = LeafSkipped | LeafRefused string | LeafEligible string

definition judge_leaf ::
  "receipt_codec \<Rightarrow> authority_view \<Rightarrow> authority_view \<Rightarrow> string \<Rightarrow> string \<Rightarrow> string \<Rightarrow> leaf_verdict" where
  \<comment> \<open>one pass of the loop: the codec, the first and the final reads, change, observed revision, leaf\<close>
  "judge_leaf codec now later change observed leaf =
     (case av_load now leaf of None \<Rightarrow> LeafRefused ''compact authority record is malformed''
      | Some r \<Rightarrow>
          (case paths_bound change (cp_state r) of (bound, why) \<Rightarrow>
           if \<not> bound then (if why \<noteq> [] then LeafRefused why else LeafSkipped)
           else if cs_state (cp_state r) \<noteq> Approved
           then LeafRefused ''path-bound compact authority is not approved''
           else (case av_receipt now leaf of
             None \<Rightarrow> LeafRefused ''path-bound compact authority receipt is missing''
           | Some payload \<Rightarrow>
               (case (rc_compact codec payload, compact_receipt_of (cp_state r)) of
                  (Some receipt, Inr authoritative) \<Rightarrow>
                    if receipt \<noteq> authoritative
                    then LeafRefused ''path-bound compact authority receipt does not equal approved state''
                    else let result = fst (av_gate now receipt (cr_lineage receipt)) in
                      if map_option cp_revision (av_load later leaf) \<noteq> Some (cp_revision r) \<or>
                         av_receipt later leaf \<noteq> Some payload
                      then LeafRefused ''compact authority changed during discovery''
                      else if result = GateAllow then LeafEligible (cp_revision r)
                      else if skips_predecessor observed (cp_revision r) result then LeafSkipped
                      else LeafRefused ''path-bound compact authority post-apply gate is not allow''
                | _ \<Rightarrow> LeafRefused ''path-bound compact authority receipt does not equal approved state''))))"

fun scan_leaves :: "(string \<Rightarrow> leaf_verdict) \<Rightarrow> string list \<Rightarrow> string list \<Rightarrow> bridge" where
  \<comment> \<open>leaves left and revisions found eligible, in order\<close>
  "scan_leaves judge [] found =
     (case found of [] \<Rightarrow> no_bridge\<lparr>br_reason := no_authority_text\<rparr>
      | [r] \<Rightarrow> no_bridge\<lparr>br_eligible := True, br_revision := r\<rparr>
      | _ \<Rightarrow> relevant ''multiple eligible path-bound compact authorities found'')"
| "scan_leaves judge (l # ls) found =
     (case judge l of LeafSkipped \<Rightarrow> scan_leaves judge ls found
      | LeafRefused why \<Rightarrow> relevant why
      | LeafEligible r \<Rightarrow> scan_leaves judge ls (found @ [r]))"

definition discover_bridge ::
  "receipt_codec \<Rightarrow> authority_view \<Rightarrow> authority_view \<Rightarrow> string \<Rightarrow> string \<Rightarrow> bridge" where
  "discover_bridge codec now later change observed =
     (case authority_leaves (av_records now) of
        Inl _ \<Rightarrow> no_bridge\<lparr>br_reason := no_authority_text\<rparr>
      | Inr leaves \<Rightarrow> scan_leaves (judge_leaf codec now later change observed) leaves [])"

section \<open>Receipts and the gate\<close>

definition compact_match :: "receipt_codec \<Rightarrow> authority_view \<Rightarrow> string \<Rightarrow> string option" where
  "compact_match codec v leaf =
     (case (av_load v leaf, av_receipt v leaf) of
        (Some r, Some payload) \<Rightarrow>
          if cs_state (cp_state r) \<notin> {Approved, Escalated} then None
          else (case (rc_compact codec payload, compact_receipt_of (cp_state r)) of
                  (Some receipt, Inr authoritative) \<Rightarrow>
                    if receipt = authoritative then Some payload else None
                | _ \<Rightarrow> None)
      | _ \<Rightarrow> None)"

definition v1_match :: "receipt_codec \<Rightarrow> (transaction \<times> string option) option \<Rightarrow> string option" where
  "v1_match codec st =
     (case st of Some (t, Some payload) \<Rightarrow>
          if tx_state t \<notin> {Approved, Escalated} then None
          else (case (rc_v1 codec payload, v1_receipt t) of
                  (Some receipt, Inr authoritative) \<Rightarrow>
                    if receipt = authoritative then Some payload else None
                | _ \<Rightarrow> None)
      | _ \<Rightarrow> None)"

definition discover_receipt :: "receipt_codec \<Rightarrow> authority_view \<Rightarrow> sdd_reason + string" where
  "discover_receipt codec v =
     (case authority_leaves (av_records v) of
        Inl _ \<Rightarrow> Inl (Note ''discover compact review stores'')
      | Inr leaves \<Rightarrow>
          (case av_v1 v of None \<Rightarrow> Inl (Note ''discover authoritative review stores'')
           | Some stores \<Rightarrow>
               (case List.map_filter (compact_match codec v) leaves @
                     List.map_filter (v1_match codec) stores of
                  [] \<Rightarrow> Inl (Note ''terminal review receipt is missing'')
                | [payload] \<Rightarrow> Inr payload
                | _ \<Rightarrow> Inl (Note ''multiple terminal native review receipts found''))))"

record review_authority =
  ru_result :: gate_result
  ru_reason :: sdd_reason
  ru_state :: "compact_state option"

definition refused_authority :: "sdd_reason \<Rightarrow> review_authority" where
  "refused_authority why = \<lparr>ru_result = GateInvalidated, ru_reason = why, ru_state = None\<rparr>"

definition gate_authority :: "gate_result \<Rightarrow> compact_state option \<Rightarrow> review_authority" where
  \<comment> \<open>the answer the gate's result gives\<close>
  "gate_authority result s =
     (case result of
        GateAllow \<Rightarrow>
          \<lparr>ru_result = GateAllow,
           ru_reason = Note ''approved receipt exactly matches authoritative native state and the current repository'',
           ru_state = s\<rparr>
      | GateScopeChanged \<Rightarrow>
          \<lparr>ru_result = GateScopeChanged,
           ru_reason = Note ''review scope changed; maintainer must create an explicit new lineage without reusing this budget'',
           ru_state = None\<rparr>
      | GateEscalated \<Rightarrow>
          \<lparr>ru_result = GateEscalated,
           ru_reason = Note ''new external evidence or terminal transaction state escalated the receipt without reopening review'',
           ru_state = None\<rparr>
      | GateInvalidated \<Rightarrow>
          refused_authority (Note ''review receipt was invalidated by content relationship, policy, ledger, evidence, or publication state; explicit maintainer action is required and no budget resets''))"

definition selected_state :: "authority_view \<Rightarrow> string \<Rightarrow> compact_receipt \<Rightarrow> sdd_reason + compact_state option" where
  \<comment> \<open>the authority of the receipt, when a change is named that it must be bound to\<close>
  "selected_state v change receipt =
     (if change = [] then Inr None
      else case av_load v (cr_lineage receipt) of
        None \<Rightarrow> Inl (Note ''selected change compact authority cannot be loaded'')
      | Some r \<Rightarrow>
          (case paths_bound change (cp_state r) of (bound, why) \<Rightarrow>
             if bound then Inr (Some (cp_state r))
             else Inl (if why = [] then NotBoundTo change else Note why)))"

definition resolve_authority ::
  "receipt_codec \<Rightarrow> authority_view \<Rightarrow> string option \<Rightarrow> string \<Rightarrow> review_authority" where
  \<comment> \<open>\<^verbatim>\<open>resolveReviewAuthority\<close>: the artifact of the change, when it has one, and the change name\<close>
  "resolve_authority codec v artifact change =
     (case (case artifact of Some p \<Rightarrow> Inr p | None \<Rightarrow> discover_receipt codec v) of
        Inl why \<Rightarrow> refused_authority why
      | Inr payload \<Rightarrow>
          if rc_schema codec payload = compact_receipt_schema then
            (case rc_compact codec payload of
               None \<Rightarrow> refused_authority (Note ''compact review receipt is invalid or non-terminal'')
             | Some receipt \<Rightarrow>
                 (case selected_state v change receipt of Inl why \<Rightarrow> refused_authority why
                  | Inr s \<Rightarrow> gate_authority (fst (av_gate v receipt (cr_lineage receipt))) s))
          else
            (case rc_v1 codec payload of
               None \<Rightarrow> refused_authority (Note ''review receipt is invalid or non-terminal'')
             | Some receipt \<Rightarrow>
                 (case av_v1_gate v receipt of
                    None \<Rightarrow> refused_authority (Note ''native review gate request cannot be derived'')
                  | Some result \<Rightarrow> gate_authority result None)))"

end
