(* ===== verification/SddBinding.thy ===== *)
theory SddBinding
  imports SddGate
begin

text \<open>
  What a change has in the runtime ledger and what it may be remediated with: the ledger's status and
  its effective binding, the validation of the bound review against the current repository
  (review_binding.go), and the bounded remediation of a failed verify report (review_gate.go).
\<close>

section \<open>Documents and the surroundings of a change\<close>

datatype doc = NoDoc | UnreadableDoc | Doc string

datatype git_presence = NoRepository | BrokenRepository | Repository

record sdd_env =
  se_codec :: receipt_codec
  se_evidence :: "string \<Rightarrow> remediation_evidence option" \<comment> \<open>the JSON decoder of remediation evidence\<close>
  se_transaction :: "string \<Rightarrow> string + transaction" \<comment> \<open>\<^verbatim>\<open>ParseTransaction\<close>\<close>
  se_json :: "string \<Rightarrow> bool" \<comment> \<open>\<^verbatim>\<open>json.Valid\<close>\<close>
  se_git :: git_presence
  se_opens :: bool \<comment> \<open>the directories of the ledger can be resolved\<close>
  se_disk :: ledger_disk
  se_legacy_stat :: bool \<comment> \<open>the legacy binding file can be looked up\<close>
  se_root :: "string option" \<comment> \<open>the one change directory that is tracked under the name\<close>
  se_ledger :: doc \<comment> \<open>\<^verbatim>\<open>reviews/ledger.json\<close>\<close>
  se_now :: authority_view
  se_disk_later :: ledger_disk \<comment> \<open>what the final reads find\<close>
  se_root_later :: "string option"
  se_later :: authority_view

section \<open>The runtime ledger\<close>

definition runtime_opens :: "sdd_env \<Rightarrow> string \<Rightarrow> bool" where
  "runtime_opens e change \<longleftrightarrow> valid_binding_change change \<and> se_git e = Repository \<and> se_opens e"

definition native_status :: "sdd_env \<Rightarrow> string \<Rightarrow> runtime_status option option" where
  \<comment> \<open>\<^verbatim>\<open>loadNativeRuntimeStatus\<close>: None is an error, a change outside any repository has no status\<close>
  "native_status e change =
     (case se_git e of NoRepository \<Rightarrow> Some None
      | BrokenRepository \<Rightarrow> None
      | Repository \<Rightarrow>
          if \<not> runtime_opens e change then None
          else (case load_ledger change (se_disk e) of Inl _ \<Rightarrow> None
                | Inr y \<Rightarrow> Some (Some (ly_status y))))"

definition binding_exists :: "sdd_env \<Rightarrow> string \<Rightarrow> bool option" where
  "binding_exists e change =
     (if se_git e \<noteq> Repository then Some False
      else if \<not> runtime_opens e change then None
      else (case load_ledger change (se_disk e) of Inl _ \<Rightarrow> None
            | Inr y \<Rightarrow>
                if ls_binding (ly_status y) \<noteq> None then Some True
                else if \<not> se_legacy_stat e then None
                else Some (dk_legacy (se_disk e) \<noteq> NoLegacy)))"

definition effective_binding :: "bool \<Rightarrow> string \<Rightarrow> ledger_disk \<Rightarrow> review_binding option" where
  \<comment> \<open>\<^verbatim>\<open>loadEffectiveReviewBinding\<close>, given whether the store opens\<close>
  "effective_binding opens change d =
     (if \<not> opens then None
      else (case load_ledger change d of Inl _ \<Rightarrow> None
            | Inr y \<Rightarrow>
                (case ls_binding (ly_status y) of Some b \<Rightarrow> Some b
                 | None \<Rightarrow>
                     (case read_legacy change (dk_legacy d) of Inr (Some (b, _)) \<Rightarrow> Some b | _ \<Rightarrow> None))))"

section \<open>The bound review\<close>

definition binding_ledger_ok :: "doc \<Rightarrow> finding slice \<Rightarrow> bool" where
  "binding_ledger_ok d findings \<longleftrightarrow>
     (case d of NoDoc \<Rightarrow> True | UnreadableDoc \<Rightarrow> False
      | Doc payload \<Rightarrow> canonical_ledger findings = Inr payload)"

definition bound_gate_ok :: "authority_view \<Rightarrow> compact_receipt \<Rightarrow> review_binding \<Rightarrow> bool" where
  "bound_gate_ok v receipt b \<longleftrightarrow>
     (case av_gate v receipt (sb_lineage b) of (result, context) \<Rightarrow>
        result = GateAllow \<and> bound_context_matches (sb_context b) context)"

definition bound_receipt :: "receipt_codec \<Rightarrow> authority_view \<Rightarrow> review_binding \<Rightarrow>
    sdd_reason + compact_record \<times> string \<times> compact_receipt" where
  \<comment> \<open>the approved record, its receipt file and the receipt they agree on\<close>
  "bound_receipt codec v b =
     (case av_load v (sb_lineage b) of
        None \<Rightarrow> Inl (Note ''bound compact authority is stale or not approved'')
      | Some r \<Rightarrow>
          if cp_revision r \<noteq> sb_authority b \<or> cs_state (cp_state r) \<noteq> Approved
          then Inl (Note ''bound compact authority is stale or not approved'')
          else (case av_receipt v (sb_lineage b) of
                  None \<Rightarrow> Inl (Note ''bound compact receipt changed'')
                | Some payload \<Rightarrow>
                    if identity_of payload \<noteq> sb_receipt b then Inl (Note ''bound compact receipt changed'')
                    else (case (rc_compact codec payload, compact_receipt_of (cp_state r)) of
                            (Some receipt, Inr authoritative) \<Rightarrow>
                              if receipt = authoritative then Inr (r, payload, receipt)
                              else Inl (Note ''bound compact receipt does not match approved authority'')
                          | _ \<Rightarrow> Inl (Note ''bound compact receipt does not match approved authority''))))"

definition validate_bound_review :: "sdd_env \<Rightarrow> string \<Rightarrow> sdd_reason + review_binding" where
  \<comment> \<open>the gate answers allow whenever a binding is returned\<close>
  "validate_bound_review e change =
     (if \<not> valid_binding_change change then Inl (Note ''invalid OpenSpec change name'')
      else if se_git e \<noteq> Repository then Inl (Note ''the repository root is not resolved'')
      else if se_root e = None then Inl (Note ''selected OpenSpec change is not resolved'')
      else (case effective_binding (se_opens e) change (se_disk e) of
              None \<Rightarrow> Inl (Note ''approved review binding is missing or invalid'')
            | Some b \<Rightarrow>
                if sb_change b \<noteq> change
                then Inl (Note ''approved review binding change does not match selected change'')
                else (case bound_receipt (se_codec e) (se_now e) b of Inl why \<Rightarrow> Inl why
                      | Inr (r, payload, receipt) \<Rightarrow>
                          if \<not> binding_ledger_ok (se_ledger e) (cs_findings (cp_state r))
                          then Inl (Note ''SDD review ledger does not equal compact findings'')
                          else if \<not> bound_gate_ok (se_now e) receipt b
                          then Inl (Note ''bound compact post-apply gate context changed'')
                          else if effective_binding (se_opens e) change (se_disk_later e) \<noteq> Some b \<or>
                             av_load (se_later e) (sb_lineage b) \<noteq> Some r \<or>
                             av_receipt (se_later e) (sb_lineage b) \<noteq> Some payload \<or>
                             se_root_later e \<noteq> se_root e
                          then Inl (Note ''bound authority, receipt, or binding changed during final read'')
                          else if \<not> bound_gate_ok (se_later e) receipt b
                          then Inl (Note ''bound compact post-apply gate changed during final authorization'')
                          else Inr b)))"

definition bound_view :: "receipt_codec \<Rightarrow> authority_view \<Rightarrow> ledger_view" where
  \<comment> \<open>the authorities as the ledger's own checks read them\<close>
  "bound_view codec v =
     \<lparr>vw_capture = None, vw_overlay = (\<lambda>_. None), vw_changed = (\<lambda>_. None), vw_legacy_again = NoLegacy,
      vw_prepare = (\<lambda>_. None), vw_prepare_again = (\<lambda>_. None), vw_leaves = None,
      vw_authority = av_load v,
      vw_receipt = (\<lambda>l. case av_receipt v l of None \<Rightarrow> None
        | Some payload \<Rightarrow> map_option (Pair (identity_of payload)) (rc_compact codec payload)),
      vw_gate = av_gate v\<rparr>"

definition runtime_bound_ok :: "receipt_codec \<Rightarrow> authority_view \<Rightarrow> review_binding \<Rightarrow> bool" where
  \<comment> \<open>\<^verbatim>\<open>validateRuntimeBoundCandidate\<close> on the tree of the binding's own context\<close>
  "runtime_bound_ok codec v b \<longleftrightarrow>
     bound_candidate (bound_view codec v) b (gc_candidate (sb_context b))"

section \<open>Bounded remediation\<close>

record remediation_state =
  rs_required :: bool
  rs_complete :: bool
  rs_revision :: string
  rs_lineage :: string
  rs_generation :: int
  rs_batch :: int
  rs_budget :: int
  rs_reason :: "sdd_reason option"

definition no_remediation :: remediation_state where
  "no_remediation =
     \<lparr>rs_required = False, rs_complete = False, rs_revision = [], rs_lineage = [], rs_generation = 0,
      rs_batch = 0, rs_budget = 0, rs_reason = None\<rparr>"

definition refuse_remediation :: "sdd_reason \<Rightarrow> remediation_state" where
  "refuse_remediation why = no_remediation\<lparr>rs_reason := Some why\<rparr>"

definition compact_remediation ::
  "(string \<Rightarrow> remediation_evidence option) \<Rightarrow> verify_evaluation \<Rightarrow> compact_state \<Rightarrow> string \<Rightarrow>
   remediation_state" where
  "compact_remediation decode ev s progress =
     (let budget = cs_budget s - cs_cumulative s;
          batch = int (length (elems (cs_attempts s))) + 1;
          b = \<lparr>rb_lineage = cs_lineage s, rb_generation = cs_generation s, rb_batch = batch\<rparr>;
          complete = remediation_complete decode progress (ve_evidence ev) b
      in if budget \<le> 0
         then refuse_remediation (Note ''compact review authority has no correction budget remaining'')
         else if correction_consumed s
         then refuse_remediation (Note ''compact review authority has exhausted its correction attempts'')
         else \<lparr>rs_required = (\<not> complete), rs_complete = complete, rs_revision = ve_evidence ev,
               rs_lineage = cs_lineage s, rs_generation = cs_generation s, rs_batch = batch,
               rs_budget = budget,
               rs_reason = (if complete then None else Some (NeedsCompactFix (ve_evidence ev) (ve_reason ev)))\<rparr>)"

definition fix_batch_of :: "transaction \<Rightarrow> sdd_reason + int" where
  "fix_batch_of t =
     (case tx_mode t of
        Ordinary4R \<Rightarrow>
          if cn_fix (tx_counters t) \<noteq> 1
          then Inl (Note ''ordinary remediation requires its single persisted fix batch'')
          else Inr (cn_fix (tx_counters t))
      | JudgmentDay \<Rightarrow>
          if cn_rounds (tx_counters t) < 1 \<or> cn_rounds (tx_counters t) > 2
          then Inl (Note ''Judgment Day remediation requires a persisted fix round within its two-round budget'')
          else Inr (cn_rounds (tx_counters t))
      | _ \<Rightarrow> Inl (Note ''unsupported remediation transaction mode''))"

definition v1_remediation ::
  "(string \<Rightarrow> remediation_evidence option) \<Rightarrow> verify_evaluation \<Rightarrow> transaction \<Rightarrow> string \<Rightarrow>
   remediation_state" where
  "v1_remediation decode ev t progress =
     (if tx_state t = Escalated
      then refuse_remediation (Note ''review transaction is escalated; remediation cannot reopen an exhausted lineage'')
      else if ve_evidence ev = [] \<or> tx_failed t \<noteq> ve_evidence ev
      then refuse_remediation (FailedRevisionDiffers (tx_failed t) (ve_evidence ev))
      else (case fix_batch_of t of Inl why \<Rightarrow> refuse_remediation why
            | Inr batch \<Rightarrow>
                let b = \<lparr>rb_lineage = tx_lineage t, rb_generation = tx_generation t, rb_batch = batch\<rparr>;
                    complete = remediation_complete decode progress (ve_evidence ev) b;
                    s = no_remediation\<lparr>rs_revision := ve_evidence ev, rs_lineage := tx_lineage t,
                          rs_generation := tx_generation t, rs_batch := batch\<rparr>
                in (case tx_state t of
                      Fixing \<Rightarrow> s\<lparr>rs_required := True,
                        rs_reason := Some (NeedsFix (ve_evidence ev) (ve_reason ev))\<rparr>
                    | FixValidating \<Rightarrow> s\<lparr>rs_reason := Some
                        (Note ''fix evidence exists but scoped fix-delta validation is still pending'')\<rparr>
                    | ReadyFinalVerification \<Rightarrow> s\<lparr>rs_complete := complete, rs_required := (\<not> complete),
                        rs_reason := (if complete then None else Some
                          (Note ''scoped fix validation passed but concrete remediation evidence is missing, stale, or not transaction-bound''))\<rparr>
                    | st \<Rightarrow> s\<lparr>rs_reason := Some (StateForbidsFix st)\<rparr>)))"

definition bounded_remediation ::
  "(string \<Rightarrow> remediation_evidence option) \<Rightarrow> bool \<Rightarrow> verify_evaluation \<Rightarrow> transaction option \<Rightarrow>
   compact_state option \<Rightarrow> tx_reason \<Rightarrow> string \<Rightarrow> remediation_state" where
  \<comment> \<open>\<^verbatim>\<open>resolveBoundedRemediation\<close>\<close>
  "bounded_remediation decode required ev tx compact why progress =
     (if \<not> required then no_remediation
      else if ve_evidence ev = [] \<and> contains (ve_reason ev) ''evidence_revision''
      then refuse_remediation (NotRemediable (ve_reason ev))
      else (case (tx, compact) of
              (None, Some s) \<Rightarrow> compact_remediation decode ev s progress
            | (None, None) \<Rightarrow> refuse_remediation (NotRemediableWithout (ve_reason ev) why)
            | (Some t, _) \<Rightarrow> v1_remediation decode ev t progress))"

definition remediation_authority ::
  "sdd_env \<Rightarrow> string \<Rightarrow> bool \<Rightarrow> bool \<Rightarrow> string option \<Rightarrow> compact_state option" where
  \<comment> \<open>\<^verbatim>\<open>resolveCompactRemediationAuthority\<close>: change, whether bound, whether needed, the receipt artifact\<close>
  "remediation_authority e change bound required artifact =
     (if \<not> required then None
      else if bound then
        (case validate_bound_review e change of Inl _ \<Rightarrow> None
         | Inr b \<Rightarrow>
             (case av_load (se_now e) (sb_lineage b) of None \<Rightarrow> None
              | Some r \<Rightarrow>
                  if cp_revision r \<noteq> sb_authority b \<or> cs_state (cp_state r) \<noteq> Approved then None
                  else Some (cp_state r)))
      else let a = resolve_authority (se_codec e) (se_now e) artifact change in
        if ru_result a \<noteq> GateAllow then None else ru_state a)"

end
