(* ===== verification/SddStatus.thy ===== *)
theory SddStatus
  imports SddBinding
begin

text \<open>
  The status of a change and the phase recommended next (status.go): artifact states, the apply state
  and the dependencies, the recommendation over them, and the overrides for stale evidence, bound
  reviews, path-bound authorities, missing transactions, the delivery gate and the runtime ledger,
  composed as \<^verbatim>\<open>Resolve\<close> (planning files) and \<^verbatim>\<open>resolveEngramStatus\<close> (memory store) compose them.
\<close>

section \<open>States\<close>

datatype artifact_state = ArtifactMissing | ArtifactPartial | ArtifactDone

datatype dep_state = DepBlocked | DepReady | DepAllDone

datatype apply_state = ApplyBlocked | ApplyReady | ApplyAllDone

datatype phase =
    PhasePropose | PhaseSpec | PhaseDesign | PhaseTasks | PhaseApply | PhaseVerify | PhaseRemediate
  | PhaseArchive

datatype next_route = Phase phase | RouteReview | RouteResolveReview | RouteBlockers | RouteNew | RouteSelect

record change_docs =
  cd_proposal :: doc
  cd_design :: doc
  cd_tasks :: doc
  cd_progress :: doc
  cd_report :: doc
  cd_state :: doc
  cd_ledger :: doc
  cd_receipt :: doc
  cd_bundle :: doc
  cd_context :: doc
  cd_specs :: "doc list option" \<comment> \<open>the spec files found, None when they cannot be listed\<close>
  cd_specs_dir :: bool \<comment> \<open>the specs directory has entries\<close>

record artifacts =
  ar_proposal :: artifact_state
  ar_specs :: artifact_state
  ar_design :: artifact_state
  ar_tasks :: artifact_state
  ar_progress :: artifact_state
  ar_report :: artifact_state
  ar_ledger :: artifact_state
  ar_receipt :: artifact_state
  ar_bundle :: artifact_state
  ar_context :: artifact_state
  ar_state :: artifact_state

record dependencies =
  dp_proposal :: dep_state
  dp_specs :: dep_state
  dp_design :: dep_state
  dp_tasks :: dep_state
  dp_apply :: dep_state
  dp_verify :: dep_state
  dp_archive :: dep_state

record gate_state =
  gs_result :: gate_result
  gs_reason :: sdd_reason

record sdd_status =
  \<comment> \<open>store names, paths and instruction texts are left out\<close>
  su_change :: "string option"
  su_artifacts :: artifacts
  su_progress :: task_progress
  su_dependencies :: dependencies
  su_apply :: apply_state
  su_remediation :: remediation_state
  su_runtime :: "runtime_status option"
  su_gate :: "gate_state option"
  su_transaction :: "transaction option"
  su_next :: next_route
  su_blocked :: "sdd_reason list"

section \<open>Artifacts\<close>

definition read_text :: "doc \<Rightarrow> string" where
  "read_text d = (case d of Doc s \<Rightarrow> s | _ \<Rightarrow> [])"

definition has_content :: "doc \<Rightarrow> bool" where
  "has_content d \<longleftrightarrow> (case d of Doc s \<Rightarrow> \<not> blank s | _ \<Rightarrow> False)"

definition single_artifact :: "doc \<Rightarrow> artifact_state" where
  "single_artifact d =
     (if d = NoDoc then ArtifactMissing else if has_content d then ArtifactDone else ArtifactPartial)"

definition multi_artifact :: "doc list \<Rightarrow> bool \<Rightarrow> artifact_state" where
  "multi_artifact specs nonempty =
     (if specs = [] then (if nonempty then ArtifactPartial else ArtifactMissing)
      else if list_all has_content specs then ArtifactDone else ArtifactPartial)"

definition artifacts_of :: "change_docs \<Rightarrow> doc list \<Rightarrow> artifacts" where
  "artifacts_of c specs =
     \<lparr>ar_proposal = single_artifact (cd_proposal c), ar_specs = multi_artifact specs (cd_specs_dir c),
      ar_design = single_artifact (cd_design c), ar_tasks = single_artifact (cd_tasks c),
      ar_progress = single_artifact (cd_progress c), ar_report = single_artifact (cd_report c),
      ar_ledger = single_artifact (cd_ledger c), ar_receipt = single_artifact (cd_receipt c),
      ar_bundle = single_artifact (cd_bundle c), ar_context = single_artifact (cd_context c),
      ar_state = single_artifact (cd_state c)\<rparr>"

definition receipt_artifact :: "doc \<Rightarrow> string option" where
  \<comment> \<open>\<^verbatim>\<open>readReviewArtifact\<close>\<close>
  "receipt_artifact d = (case d of Doc s \<Rightarrow> if blank s then None else Some s | _ \<Rightarrow> None)"

definition read_transaction :: "sdd_env \<Rightarrow> doc \<Rightarrow> transaction option \<times> tx_reason" where
  "read_transaction e d =
     (case d of NoDoc \<Rightarrow> (None, TxMissing)
      | UnreadableDoc \<Rightarrow> (None, TxUnreadable)
      | Doc p \<Rightarrow>
          if \<not> has_prefix (trim_space p) ''{''
          then (None, if se_json e p then TxNotObject else TxIncompatible)
          else (case se_transaction e p of Inl why \<Rightarrow> (None, TxInvalid why)
                | Inr t \<Rightarrow> (Some t, TxPresent)))"

section \<open>Dependencies and the recommendation\<close>

definition expected_planning :: "artifacts \<Rightarrow> sdd_reason list" where
  "expected_planning a =
     (if ar_proposal a \<noteq> ArtifactDone then [Note ''proposal.md is missing or partial.''] else []) @
     (if ar_specs a \<noteq> ArtifactDone then [Note ''specs/**/spec.md is missing or partial.''] else []) @
     (if ar_design a \<noteq> ArtifactDone then [Note ''design.md is missing or partial.''] else []) @
     (if ar_tasks a \<noteq> ArtifactDone then [Note ''tasks.md is missing or partial.''] else [])"

definition genuine_blockers :: "artifacts \<Rightarrow> task_progress \<Rightarrow> sdd_reason list" where
  "genuine_blockers a p =
     (if ar_tasks a = ArtifactDone \<and> tp_total p = 0
      then [Note ''tasks.md has no markdown task checkboxes.''] else [])"

definition finalize_reasons :: "artifacts \<Rightarrow> next_route \<Rightarrow> sdd_reason list \<Rightarrow> sdd_reason list" where
  "finalize_reasons a target reasons =
     (if target \<in> {Phase PhasePropose, Phase PhaseSpec, Phase PhaseDesign, Phase PhaseTasks} then reasons
      else expected_planning a @ reasons)"

definition core_ready :: "artifacts \<Rightarrow> task_progress \<Rightarrow> bool" where
  "core_ready a p \<longleftrightarrow>
     ar_proposal a = ArtifactDone \<and> ar_specs a = ArtifactDone \<and> ar_design a = ArtifactDone \<and>
     ar_tasks a = ArtifactDone \<and> tp_total p > 0"

definition resolve_apply :: "bool \<Rightarrow> task_progress \<Rightarrow> apply_state" where
  "resolve_apply core p =
     (if \<not> core then ApplyBlocked else if tp_all p then ApplyAllDone else ApplyReady)"

definition artifact_dependency :: "artifact_state \<Rightarrow> dep_state" where
  "artifact_dependency s = (if s = ArtifactDone then DepAllDone else DepBlocked)"

definition resolve_dependencies ::
  "artifacts \<Rightarrow> task_progress \<Rightarrow> apply_state \<Rightarrow> bool \<Rightarrow> bool \<Rightarrow> bool \<Rightarrow> dependencies" where
  \<comment> \<open>apply state, core ready, the report passes, the remediation is complete\<close>
  "resolve_dependencies a p apply core passing remediated =
     (let reported = (ar_report a = ArtifactDone);
          verify = (if reported \<and> core \<and> tp_all p \<and> passing then DepAllDone
                    else if core \<and> apply = ApplyAllDone \<and> (\<not> reported \<or> remediated) then DepReady
                    else DepBlocked)
      in \<lparr>dp_proposal = artifact_dependency (ar_proposal a), dp_specs = artifact_dependency (ar_specs a),
          dp_design = artifact_dependency (ar_design a), dp_tasks = artifact_dependency (ar_tasks a),
          dp_apply = (case apply of ApplyReady \<Rightarrow> DepReady | ApplyAllDone \<Rightarrow> DepAllDone
                      | ApplyBlocked \<Rightarrow> DepBlocked),
          dp_verify = verify,
          dp_archive = (if verify = DepAllDone \<and> tp_all p then DepReady else DepBlocked)\<rparr>)"

definition resolve_next :: "dependencies \<Rightarrow> apply_state \<Rightarrow> bool \<Rightarrow> remediation_state \<Rightarrow> next_route" where
  "resolve_next d apply reported rm =
     (if dp_apply d = DepReady then Phase PhaseApply
      else if dp_verify d = DepReady then Phase PhaseVerify
      else if apply = ApplyAllDone \<and> reported \<and> dp_verify d \<noteq> DepAllDone
      then (if rs_required rm then Phase PhaseRemediate else RouteResolveReview)
      else if dp_verify d = DepAllDone \<and> apply = ApplyAllDone then Phase PhaseArchive
      else if dp_proposal d \<noteq> DepAllDone then Phase PhasePropose
      else if dp_specs d \<noteq> DepAllDone then Phase PhaseSpec
      else if dp_design d \<noteq> DepAllDone then Phase PhaseDesign
      else if dp_tasks d \<noteq> DepAllDone then Phase PhaseTasks
      else RouteBlockers)"

fun dependency_for :: "dependencies \<Rightarrow> phase \<Rightarrow> dep_state" where
  "dependency_for d PhasePropose = dp_proposal d"
| "dependency_for d PhaseSpec = dp_specs d"
| "dependency_for d PhaseDesign = dp_design d"
| "dependency_for d PhaseTasks = dp_tasks d"
| "dependency_for d PhaseApply = dp_apply d"
| "dependency_for d PhaseVerify = dp_verify d"
| "dependency_for d PhaseRemediate = dp_verify d"
| "dependency_for d PhaseArchive = dp_archive d"

section \<open>What a change is judged on\<close>

record change_facts =
  cf_change :: string
  cf_artifacts :: artifacts
  cf_progress :: task_progress
  cf_verify :: verify_evaluation
  cf_report :: string
  cf_applied :: string \<comment> \<open>the text of the apply progress\<close>
  cf_receipt :: "string option"
  cf_tx :: "transaction option"
  cf_tx_reason :: tx_reason
  cf_runtime :: "runtime_status option"
  cf_runtime_failed :: bool
  cf_bound :: bool

definition cf_core :: "change_facts \<Rightarrow> bool" where
  "cf_core f = core_ready (cf_artifacts f) (cf_progress f)"

definition cf_apply :: "change_facts \<Rightarrow> apply_state" where
  "cf_apply f = resolve_apply (cf_core f) (cf_progress f)"

definition cf_reported :: "change_facts \<Rightarrow> bool" where
  "cf_reported f \<longleftrightarrow> ar_report (cf_artifacts f) = ArtifactDone"

datatype sdd_error = SpecsUnlisted | TasksUnreadable | SpecUnreadable | ReportUnreadable | EngramFailed

definition verify_result_of :: "spec_counts \<Rightarrow> doc \<Rightarrow> verify_evaluation" where
  \<comment> \<open>the report is readable\<close>
  "verify_result_of counts d =
     (case d of Doc text \<Rightarrow> parse_verify_result counts text
      | _ \<Rightarrow> \<lparr>ve_passing = False, ve_stale = False, ve_reason = ''verify result is missing'', ve_evidence = []\<rparr>)"

definition gather_facts :: "sdd_env \<Rightarrow> string \<Rightarrow> change_docs \<Rightarrow> sdd_error + change_facts" where
  "gather_facts e change c =
     (case cd_specs c of None \<Rightarrow> Inl SpecsUnlisted
      | Some specs \<Rightarrow>
          if cd_tasks c = UnreadableDoc then Inl TasksUnreadable
          else if UnreadableDoc \<in> set specs then Inl SpecUnreadable
          else if cd_report c = UnreadableDoc then Inl ReportUnreadable
          else
            (let counts = spec_counts_of (map read_text specs);
                 bound = binding_exists e change;
                 runtime = native_status e change
             in Inr \<lparr>cf_change = change, cf_artifacts = artifacts_of c specs,
                     cf_progress = task_progress_of (read_text (cd_tasks c)),
                     cf_verify = verify_result_of counts (cd_report c),
                     cf_report = read_text (cd_report c), cf_applied = read_text (cd_progress c),
                     cf_receipt = receipt_artifact (cd_receipt c),
                     cf_tx = fst (read_transaction e (cd_state c)),
                     cf_tx_reason = snd (read_transaction e (cd_state c)),
                     cf_runtime = (case runtime of None \<Rightarrow> None | Some s \<Rightarrow> s),
                     cf_runtime_failed = (runtime = None \<or> bound = None),
                     cf_bound = (runtime \<noteq> None \<and> bound = Some True)\<rparr>))"

definition runtime_remediated :: "runtime_status option \<Rightarrow> verify_evaluation \<Rightarrow> bool" where
  \<comment> \<open>\<^verbatim>\<open>nativeRuntimeCompletesRemediation\<close>\<close>
  "runtime_remediated runtime ev \<longleftrightarrow>
     (case runtime of None \<Rightarrow> False
      | Some s \<Rightarrow>
          ls_complete s \<and> \<not> ls_decision s \<and> ls_active s = None \<and> ls_binding s \<noteq> None \<and>
          ve_evidence ev \<noteq> [] \<and> ls_attempts s \<noteq> [] \<and>
          (let l = last (ls_attempts s) in
             at_outcome l = AttemptPassed \<and> \<not> at_exceeded l \<and> at_remediates l = ve_evidence ev \<and>
             at_evidence l \<noteq> [] \<and> at_evidence l = ls_evidence s))"

end
