(* ===== verification/SddRoute.thy ===== *)
theory SddRoute
  imports SddStatus
begin

text \<open>
  The overrides of \<^verbatim>\<open>Resolve\<close> and \<^verbatim>\<open>resolveEngramStatus\<close> in their order. A \<open>routing\<close> is
  the part of the status they rewrite: dependencies, recommendation, blocking reasons, remediation and
  gate.
\<close>

section \<open>Routing\<close>

record routing =
  rg_deps :: dependencies
  rg_next :: next_route
  rg_reasons :: "sdd_reason list"
  rg_remediation :: remediation_state
  rg_gate :: "gate_state option"

definition route_verify :: "routing \<Rightarrow> routing" where
  "route_verify r =
     r\<lparr>rg_deps := (rg_deps r)\<lparr>dp_verify := DepReady, dp_archive := DepBlocked\<rparr>,
       rg_next := Phase PhaseVerify\<rparr>"

definition route_resolve :: "sdd_reason \<Rightarrow> routing \<Rightarrow> routing" where
  "route_resolve why r =
     r\<lparr>rg_deps := (rg_deps r)\<lparr>dp_verify := DepBlocked, dp_archive := DepBlocked\<rparr>,
       rg_next := RouteResolveReview, rg_reasons := rg_reasons r @ [why]\<rparr>"

definition block_verify :: "next_route \<Rightarrow> sdd_reason \<Rightarrow> routing \<Rightarrow> routing" where
  "block_verify target why r =
     r\<lparr>rg_deps := (rg_deps r)\<lparr>dp_verify := DepBlocked\<rparr>, rg_next := target,
       rg_reasons := rg_reasons r @ [why]\<rparr>"

definition add_reason :: "sdd_reason option \<Rightarrow> routing \<Rightarrow> routing" where
  "add_reason why r = r\<lparr>rg_reasons := rg_reasons r @ (case why of None \<Rightarrow> [] | Some w \<Rightarrow> [w])\<rparr>"

section \<open>Stale evidence and remediation\<close>

definition stale_question :: "change_facts \<Rightarrow> bool" where
  "stale_question f \<longleftrightarrow>
     \<not> cf_bound f \<and> cf_tx f = None \<and> cf_apply f = ApplyAllDone \<and> cf_reported f \<and> ve_stale (cf_verify f)"

definition stale_answer :: "sdd_env \<Rightarrow> change_facts \<Rightarrow> review_authority option" where
  "stale_answer e f =
     (if stale_question f then Some (resolve_authority (se_codec e) (se_now e) (cf_receipt f) (cf_change f))
      else None)"

definition stale_allows :: "sdd_env \<Rightarrow> change_facts \<Rightarrow> bool" where
  \<comment> \<open>\<^verbatim>\<open>staleAllowAuthority\<close> is set\<close>
  "stale_allows e f \<longleftrightarrow>
     (case stale_answer e f of None \<Rightarrow> False | Some a \<Rightarrow> ru_result a = GateAllow)"

definition stale_reason :: "sdd_env \<Rightarrow> change_facts \<Rightarrow> sdd_reason option" where
  "stale_reason e f =
     (case stale_answer e f of None \<Rightarrow> None
      | Some a \<Rightarrow> if ru_result a = GateAllow then None else Some (ru_reason a))"

definition cf_runtime_remediated :: "change_facts \<Rightarrow> bool" where
  "cf_runtime_remediated f = runtime_remediated (cf_runtime f) (cf_verify f)"

definition remediation_required :: "sdd_env \<Rightarrow> change_facts \<Rightarrow> bool" where
  "remediation_required e f \<longleftrightarrow>
     \<not> stale_allows e f \<and> \<not> cf_runtime_remediated f \<and> cf_reported f \<and>
     \<not> ve_passing (cf_verify f) \<and> cf_apply f = ApplyAllDone"

definition remediation_of :: "sdd_env \<Rightarrow> change_facts \<Rightarrow> remediation_state" where
  "remediation_of e f =
     bounded_remediation (se_evidence e) (remediation_required e f) (cf_verify f) (cf_tx f)
       (remediation_authority e (cf_change f) (cf_bound f)
          (remediation_required e f \<and> cf_tx f = None) (cf_receipt f))
       (cf_tx_reason f) (cf_applied f)"

definition base_routing :: "sdd_env \<Rightarrow> change_facts \<Rightarrow> routing" where
  \<comment> \<open>dependencies and recommendation before any override, with the reasons found so far\<close>
  "base_routing e f =
     (let rm = remediation_of e f;
          d = resolve_dependencies (cf_artifacts f) (cf_progress f) (cf_apply f) (cf_core f)
                (ve_passing (cf_verify f)) (rs_complete rm)
      in add_reason (stale_reason e f)
           \<lparr>rg_deps = d, rg_next = resolve_next d (cf_apply f) (cf_reported f) rm,
            rg_reasons = genuine_blockers (cf_artifacts f) (cf_progress f), rg_remediation = rm,
            rg_gate = None\<rparr>)"

definition stale_override :: "sdd_env \<Rightarrow> change_facts \<Rightarrow> routing \<Rightarrow> routing" where
  \<comment> \<open>the live authority that makes stale evidence worth a fresh verification\<close>
  "stale_override e f r =
     (case stale_answer e f of None \<Rightarrow> r
      | Some a \<Rightarrow>
          if ru_result a \<noteq> GateAllow then r
          else (route_verify r)\<lparr>rg_gate := Some \<lparr>gs_result = GateAllow, gs_reason = ru_reason a\<rparr>\<rparr>)"

section \<open>Bound reviews\<close>

definition bound_gate :: gate_state where
  "bound_gate =
     \<lparr>gs_result = GateAllow,
      gs_reason = Note ''explicit bound compact authority exactly matches the current repository''\<rparr>"

definition stale_evidence :: "change_facts \<Rightarrow> bool" where
  "stale_evidence f \<longleftrightarrow> cf_reported f \<and> ve_stale (cf_verify f) \<and> cf_tx f = None"

definition bound_override :: "sdd_reason option \<Rightarrow> change_facts \<Rightarrow> routing \<Rightarrow> routing" where
  \<comment> \<open>the failure of the bound review, if it has one\<close>
  "bound_override failure f r =
     (case failure of Some why \<Rightarrow> route_resolve why r
      | None \<Rightarrow>
          let again = stale_evidence f \<or> cf_runtime_remediated f;
              r = (if cf_apply f = ApplyAllDone \<and> (\<not> cf_reported f \<or> again)
                   then (if again then (route_verify r)\<lparr>rg_remediation := no_remediation\<rparr>
                         else route_verify r)
                   else r)
          in r\<lparr>rg_gate := Some bound_gate\<rparr>)"

definition openspec_binding_failure :: "sdd_env \<Rightarrow> change_facts \<Rightarrow> sdd_reason option" where
  "openspec_binding_failure e f =
     (case validate_bound_review e (cf_change f) of Inl why \<Rightarrow> Some why | Inr _ \<Rightarrow> None)"

definition engram_binding_failure :: "sdd_env \<Rightarrow> change_facts \<Rightarrow> sdd_reason option" where
  "engram_binding_failure e f =
     (case effective_binding (runtime_opens e (cf_change f)) (cf_change f) (se_disk e) of
        None \<Rightarrow> Some (Note ''the review binding is missing or invalid'')
      | Some b \<Rightarrow>
          if runtime_bound_ok (se_codec e) (se_now e) b then None
          else Some (Note ''bound compact post-apply gate context changed''))"

section \<open>Path-bound authorities and missing transactions\<close>

definition bridgeable :: "change_facts \<Rightarrow> bool" where
  "bridgeable f \<longleftrightarrow> ar_state (cf_artifacts f) = ArtifactMissing \<or> cf_tx_reason f = TxIncompatible"

definition recoverable :: "change_facts \<Rightarrow> bool" where
  "recoverable f \<longleftrightarrow> authority_only_failed (cf_report f)"

definition openspec_bridge :: "sdd_env \<Rightarrow> change_facts \<Rightarrow> bridge" where
  "openspec_bridge e f =
     (if \<not> cf_bound f \<and> cf_apply f = ApplyAllDone \<and> (\<not> cf_reported f \<or> recoverable f) \<and> bridgeable f
      then discover_bridge (se_codec e) (se_now e) (se_later e) (cf_change f) (observed_authority (cf_report f))
      else no_bridge)"

definition engram_bridge :: "sdd_env \<Rightarrow> change_facts \<Rightarrow> bridge" where
  "engram_bridge e f =
     (if \<not> cf_bound f \<and> cf_apply f = ApplyAllDone \<and> \<not> cf_reported f \<and> bridgeable f
      then discover_bridge (se_codec e) (se_now e) (se_later e) (cf_change f) []
      else no_bridge)"

definition retry_override :: "change_facts \<Rightarrow> bridge \<Rightarrow> routing \<Rightarrow> routing" where
  \<comment> \<open>a report that failed for want of an authority is retried under a new one\<close>
  "retry_override f b r =
     (if \<not> cf_bound f \<and> recoverable f \<and> br_eligible b \<and>
         authority_changed_since (cf_report f) (br_revision b)
      then (route_verify r)\<lparr>rg_remediation := no_remediation\<rparr> else r)"

definition bridge_routing :: "change_facts \<Rightarrow> bridge \<Rightarrow> routing \<Rightarrow> routing" where
  "bridge_routing f b r =
     (if cf_bound f \<or> cf_apply f \<noteq> ApplyAllDone \<or> cf_reported f \<or> cf_tx f \<noteq> None then r
      else if br_eligible b then route_verify r
      else if br_relevant b then route_resolve (Note (br_reason b)) r
      else r)"

definition review_routing :: "change_facts \<Rightarrow> bridge \<Rightarrow> routing \<Rightarrow> routing" where
  \<comment> \<open>\<^verbatim>\<open>applyPreVerifyReviewRouting\<close>, where no bridge speaks for the change\<close>
  "review_routing f b r =
     (if cf_bound f \<or> br_eligible b \<or> br_relevant b \<or> cf_apply f \<noteq> ApplyAllDone \<or> cf_reported f then r
      else case cf_tx f of None \<Rightarrow> block_verify RouteReview (ReviewRequired (cf_tx_reason f)) r
      | Some t \<Rightarrow>
          if tx_state t \<in> {ReadyFinalVerification, FinalVerifying}
          then r\<lparr>rg_deps := (rg_deps r)\<lparr>dp_verify := DepReady\<rparr>, rg_next := Phase PhaseVerify\<rparr>
          else if tx_state t \<in> {Escalated, Approved}
          then block_verify RouteResolveReview (CannotStartVerify (tx_state t)) r
          else block_verify RouteReview (ReviewInProgress (tx_state t)) r)"

section \<open>The gate and the runtime ledger\<close>

definition review_gate :: "sdd_env \<Rightarrow> change_facts \<Rightarrow> routing \<Rightarrow> routing" where
  \<comment> \<open>\<^verbatim>\<open>applyReviewGate\<close>, for a change without a binding or stale evidence\<close>
  "review_gate e f r =
     (if cf_bound f \<or> stale_allows e f \<or> dp_verify (rg_deps r) \<noteq> DepAllDone \<or> \<not> tp_all (cf_progress f) then r
      else let a = resolve_authority (se_codec e) (se_now e) (cf_receipt f) [] in
        if ru_result a = GateAllow
        then r\<lparr>rg_gate := Some \<lparr>gs_result = GateAllow, gs_reason = ru_reason a\<rparr>\<rparr>
        else r\<lparr>rg_gate := Some \<lparr>gs_result = ru_result a, gs_reason = ru_reason a\<rparr>,
               rg_deps := (rg_deps r)\<lparr>dp_archive := DepBlocked\<rparr>, rg_next := RouteResolveReview,
               rg_reasons := rg_reasons r @ [ru_reason a]\<rparr>)"

definition block_execution :: "sdd_reason \<Rightarrow> routing \<Rightarrow> routing" where
  "block_execution why r =
     r\<lparr>rg_deps := (rg_deps r)\<lparr>dp_apply := DepBlocked, dp_verify := DepBlocked, dp_archive := DepBlocked\<rparr>,
       rg_next := RouteBlockers,
       rg_reasons := (if why \<in> set (rg_reasons r) then rg_reasons r else rg_reasons r @ [why])\<rparr>"

definition runtime_routing :: "change_facts \<Rightarrow> routing \<Rightarrow> routing" where
  "runtime_routing f r =
     (if cf_runtime_failed f
      then (block_execution RuntimeUnreadable r)\<lparr>rg_reasons := rg_reasons r @ [RuntimeUnreadable]\<rparr>
      else case cf_runtime f of None \<Rightarrow> r
      | Some s \<Rightarrow>
          if ls_decision s then block_execution (DecisionPending (ls_revision s)) r
          else (case ls_active s of None \<Rightarrow> r
                | Some a \<Rightarrow> block_execution (AttemptActive (at_ordinal a) (ls_revision s)) r))"

definition status_of :: "change_facts \<Rightarrow> routing \<Rightarrow> sdd_status" where
  "status_of f r =
     \<lparr>su_change = Some (cf_change f), su_artifacts = cf_artifacts f, su_progress = cf_progress f, su_dependencies = rg_deps r,
      su_apply = cf_apply f, su_remediation = rg_remediation r, su_runtime = cf_runtime f,
      su_gate = rg_gate r, su_transaction = cf_tx f, su_next = rg_next r,
      su_blocked = finalize_reasons (cf_artifacts f) (rg_next r) (rg_reasons r)\<rparr>"

section \<open>The two stores\<close>

definition openspec_routing :: "sdd_env \<Rightarrow> change_facts \<Rightarrow> routing" where
  "openspec_routing e f =
     (let b = openspec_bridge e f;
          r = stale_override e f (base_routing e f);
          r = (if cf_bound f then bound_override (openspec_binding_failure e f) f r else r);
          r = retry_override f b r;
          r = add_reason (rs_reason (rg_remediation r)) r
      in review_routing f b (bridge_routing f b r))"

definition engram_routing :: "sdd_env \<Rightarrow> change_facts \<Rightarrow> routing" where
  \<comment> \<open>the reason of the remediation is added before the binding may withdraw it\<close>
  "engram_routing e f =
     (let b = engram_bridge e f;
          r = base_routing e f;
          r = add_reason (rs_reason (rg_remediation r)) r;
          r = stale_override e f r;
          r = (if cf_bound f then bound_override (engram_binding_failure e f) f r else r)
      in review_routing f b (bridge_routing f b r))"

definition openspec_status :: "sdd_env \<Rightarrow> change_facts \<Rightarrow> sdd_status" where
  "openspec_status e f =
     status_of f (runtime_routing f (review_gate e f (openspec_routing e f)))"

definition engram_status :: "sdd_env \<Rightarrow> change_facts \<Rightarrow> sdd_status" where
  "engram_status e f =
     status_of f (runtime_routing f (review_gate e f (engram_routing e f)))"

definition resolve_openspec :: "sdd_env \<Rightarrow> string \<Rightarrow> change_docs \<Rightarrow> sdd_error + sdd_status" where
  \<comment> \<open>\<^verbatim>\<open>Resolve\<close> for a selected change of the planning files\<close>
  "resolve_openspec e change c =
     (case gather_facts e change c of Inl err \<Rightarrow> Inl err | Inr f \<Rightarrow> Inr (openspec_status e f))"

end
