(* ===== verification/SddLaws.thy ===== *)
theory SddLaws
  imports SddRoute
begin

text \<open>
  Laws of the routing: what a remediation answers, what the facts gathered about a change guarantee,
  and the invariant that ties the recommendation to the dependencies and to the blocking reasons
  through every override.

  The routing of a change of the planning files stays consistent through every override, up to the
  final status: the recommendation agrees with the dependencies, executable phases have no blocking
  reason and blocked routes have one.
\<close>

named_theorems routing_defs \<open>the overrides of the routing\<close>

declare route_verify_def [routing_defs] route_resolve_def [routing_defs]
  block_verify_def [routing_defs] add_reason_def [routing_defs]
  stale_override_def [routing_defs] bound_override_def [routing_defs]
  retry_override_def [routing_defs] bridge_routing_def [routing_defs]
  review_routing_def [routing_defs] review_gate_def [routing_defs]
  block_execution_def [routing_defs] runtime_routing_def [routing_defs]

section \<open>Remediations\<close>

definition remediation_answers :: "remediation_state \<Rightarrow> bool" where
  \<comment> \<open>complete without a reason, or incomplete with one; only an incomplete one is required\<close>
  "remediation_answers s \<longleftrightarrow>
     (rs_complete s \<longleftrightarrow> rs_reason s = None) \<and> \<not> (rs_required s \<and> rs_complete s)"

lemma refuse_answers [simp]: "remediation_answers (refuse_remediation why)"
  by (simp add: remediation_answers_def refuse_remediation_def no_remediation_def)

lemma compact_remediation_answers [simp]: "remediation_answers (compact_remediation d ev s progress)"
  by (simp add: compact_remediation_def Let_def) (simp add: remediation_answers_def)

lemma v1_remediation_answers [simp]: "remediation_answers (v1_remediation d ev t progress)"
  unfolding v1_remediation_def Let_def
  by (auto split: sum.split review_state.split)
     (simp_all add: remediation_answers_def no_remediation_def)

lemma bounded_remediation_answers:
  "remediation_answers (bounded_remediation d True ev tx compact why progress)"
  by (simp add: bounded_remediation_def split: option.split)

lemma no_remediation_unless_required [simp]:
  "bounded_remediation d False ev tx compact why progress = no_remediation"
  by (simp add: bounded_remediation_def)

lemma remediation_of_cases:
  obtains (idle) "\<not> remediation_required e f" "remediation_of e f = no_remediation"
  | (asked) "remediation_required e f" "remediation_answers (remediation_of e f)"
  by (cases "remediation_required e f")
     (simp_all add: remediation_of_def bounded_remediation_answers)

section \<open>Facts\<close>

definition sound_facts :: "change_facts \<Rightarrow> bool" where
  "sound_facts f \<longleftrightarrow>
     (tp_all (cf_progress f) \<longleftrightarrow> 0 < tp_total (cf_progress f) \<and> tp_pending (cf_progress f) = 0) \<and>
     0 \<le> tp_total (cf_progress f) \<and>
     (ve_stale (cf_verify f) \<longrightarrow> \<not> ve_passing (cf_verify f) \<and> \<not> recoverable f) \<and>
     (\<forall>s. cf_runtime f = Some s \<and> ls_binding s \<noteq> None \<longrightarrow> cf_bound f \<or> cf_runtime_failed f)"

lemma evaluation_reason_stale: "evaluation_reason counts r = [] \<Longrightarrow> totals_match counts r"
  by (auto simp: evaluation_reason_def totals_match_def total_mismatch_def split: if_splits)

lemma stale_not_passing: "ve_stale (parse_verify_result counts text) \<Longrightarrow>
    \<not> ve_passing (parse_verify_result counts text)"
  by (auto simp: parse_verify_result_def Let_def evaluation_reason_stale split: prod.splits if_splits)

lemma read_counts_frame:
  "read_counts count_targets r = (r', why) \<Longrightarrow>
     vr_authority_only r' = vr_authority_only r \<and> vr_verdict r' = vr_verdict r"
  by (auto simp: count_targets_def split: option.splits)

lemma finish_report_extension:
  "finish_report r = (r', []) \<Longrightarrow> vr_authority_only r' \<Longrightarrow> extension_valid r'"
  by (auto simp: finish_report_def Let_def invalid_field_def split: option.splits if_splits)

lemma authority_only_extension:
  assumes "parse_report text = (r, [])" and "vr_authority_only r"
  shows "extension_valid r"
  using assms finish_report_extension
  by (auto simp: parse_report_def empty_report_def Let_def split: sum.splits prod.splits if_splits)

lemma stale_not_recoverable:
  "ve_stale (parse_verify_result counts text) \<Longrightarrow> \<not> authority_only_failed text"
  by (auto dest!: authority_only_extension
      simp: parse_verify_result_def authority_only_failed_def authority_failure_def
      extension_valid_def Let_def split: prod.splits if_splits)

lemma binding_found:
  assumes "native_status e change = Some (Some s)" and "ls_binding s \<noteq> None"
  shows "binding_exists e change = Some True"
  using assms
  by (auto simp: native_status_def binding_exists_def split: git_presence.splits if_splits sum.splits)

lemma gather_facts_sound:
  assumes "gather_facts e change c = Inr f"
  shows "sound_facts f"
proof -
  from assms have
    p: "cf_progress f = task_progress_of (read_text (cd_tasks c))" and
    v: "\<exists>counts. cf_verify f = verify_result_of counts (cd_report c)" and
    r: "cf_runtime f = (case native_status e change of None \<Rightarrow> None | Some s \<Rightarrow> s)" and
    q: "cf_report f = read_text (cd_report c)" and
    b: "cf_bound f \<longleftrightarrow> native_status e change \<noteq> None \<and> binding_exists e change = Some True"
    by (auto simp: gather_facts_def Let_def split: option.splits if_splits)
  have stale: "ve_stale (cf_verify f) \<longrightarrow> \<not> ve_passing (cf_verify f) \<and> \<not> recoverable f"
    using v q stale_not_passing stale_not_recoverable
    by (cases "cd_report c") (auto simp: verify_result_of_def recoverable_def read_text_def)
  have "cf_bound f" if "cf_runtime f = Some s" "ls_binding s \<noteq> None" for s
    using that r b binding_found [of e change s] by (auto split: option.splits)
  then show ?thesis
    using stale task_progress_counts [of "read_text (cd_tasks c)"]
    unfolding sound_facts_def p by auto
qed

section \<open>The recommendation and the dependencies\<close>

fun phase_rank :: "phase \<Rightarrow> nat" where
  \<comment> \<open>the order in which a change goes through its phases\<close>
  "phase_rank PhasePropose = 0"
| "phase_rank PhaseSpec = 1"
| "phase_rank PhaseDesign = 2"
| "phase_rank PhaseTasks = 3"
| "phase_rank PhaseApply = 4"
| "phase_rank PhaseVerify = 5"
| "phase_rank PhaseRemediate = 6"
| "phase_rank PhaseArchive = 7"

lemma phase_rank_inject [simp]: "phase_rank p = phase_rank q \<longleftrightarrow> p = q"
  by (cases p; cases q) simp_all

instantiation phase :: linorder
begin

definition less_eq_phase :: "phase \<Rightarrow> phase \<Rightarrow> bool" where
  "less_eq_phase p q \<longleftrightarrow> phase_rank p \<le> phase_rank q"

definition less_phase :: "phase \<Rightarrow> phase \<Rightarrow> bool" where
  "less_phase p q \<longleftrightarrow> phase_rank p < phase_rank q"

instance
  by standard (auto simp: less_eq_phase_def less_phase_def dest: antisym)

end

definition first_open :: "dependencies \<Rightarrow> phase \<Rightarrow> bool" where
  \<comment> \<open>everything before the phase is done and the phase is not\<close>
  "first_open d p \<longleftrightarrow> dependency_for d p = DepBlocked \<and> (\<forall>q. q < p \<longrightarrow> dependency_for d q = DepAllDone)"

lemma before_phase:
  "q < PhasePropose \<longleftrightarrow> False" "q < PhaseSpec \<longleftrightarrow> q = PhasePropose"
  "q < PhaseDesign \<longleftrightarrow> q \<in> {PhasePropose, PhaseSpec}"
  "q < PhaseTasks \<longleftrightarrow> q \<in> {PhasePropose, PhaseSpec, PhaseDesign}"
  by (cases q; simp add: less_phase_def)+

lemma first_open_simps [simp]:
  "first_open d PhasePropose \<longleftrightarrow> dp_proposal d = DepBlocked"
  "first_open d PhaseSpec \<longleftrightarrow> dp_specs d = DepBlocked \<and> dp_proposal d = DepAllDone"
  "first_open d PhaseDesign \<longleftrightarrow>
     dp_design d = DepBlocked \<and> dp_specs d = DepAllDone \<and> dp_proposal d = DepAllDone"
  "first_open d PhaseTasks \<longleftrightarrow>
     dp_tasks d = DepBlocked \<and> dp_design d = DepAllDone \<and> dp_specs d = DepAllDone \<and>
     dp_proposal d = DepAllDone"
  by (auto simp: first_open_def before_phase)

definition route_typed :: "dependencies \<Rightarrow> next_route \<Rightarrow> bool" where
  "route_typed d n \<longleftrightarrow>
     (dp_archive d = DepReady \<longleftrightarrow> n = Phase PhaseArchive) \<and>
     (dp_verify d = DepReady \<longleftrightarrow> n = Phase PhaseVerify) \<and>
     (n = Phase PhaseArchive \<longrightarrow> dp_verify d = DepAllDone) \<and>
     (n = Phase PhaseApply \<longrightarrow> dp_apply d = DepReady) \<and>
     (n = Phase PhaseRemediate \<longrightarrow> dp_verify d = DepBlocked \<and> dp_apply d = DepAllDone) \<and>
     (n = Phase PhasePropose \<longrightarrow> first_open d PhasePropose) \<and>
     (n = Phase PhaseSpec \<longrightarrow> first_open d PhaseSpec) \<and>
     (n = Phase PhaseDesign \<longrightarrow> first_open d PhaseDesign) \<and>
     (n = Phase PhaseTasks \<longrightarrow> first_open d PhaseTasks)"

definition executable :: "next_route \<Rightarrow> bool" where
  "executable n \<longleftrightarrow> n \<in> {Phase PhaseApply, Phase PhaseVerify, Phase PhaseArchive}"

definition planning :: "next_route \<Rightarrow> bool" where
  "planning n \<longleftrightarrow> n \<in> {Phase PhasePropose, Phase PhaseSpec, Phase PhaseDesign, Phase PhaseTasks}"

definition explained :: "next_route \<Rightarrow> sdd_reason list \<Rightarrow> bool" where
  \<comment> \<open>a phase that may run has nothing against it, a blocked route says why\<close>
  "explained n why \<longleftrightarrow> planning n \<or> (executable n \<longleftrightarrow> why = [])"

definition pending :: "routing \<Rightarrow> sdd_reason list" where
  "pending r = (case rs_reason (rg_remediation r) of None \<Rightarrow> [] | Some w \<Rightarrow> [w])"

definition consistent :: "change_facts \<Rightarrow> sdd_reason list \<Rightarrow> routing \<Rightarrow> bool" where
  "consistent f why r \<longleftrightarrow>
     route_typed (rg_deps r) (rg_next r) \<and> explained (rg_next r) why \<and>
     (executable (rg_next r) \<longrightarrow> cf_core f)"

definition routing_settled :: "change_facts \<Rightarrow> routing \<Rightarrow> bool" where
  \<comment> \<open>counting the reason of the remediation, which is added later\<close>
  "routing_settled f r \<longleftrightarrow> consistent f (rg_reasons r @ pending r) r"

lemma settled_verify:
  "rg_reasons r = [] \<Longrightarrow> rs_reason (rg_remediation r) = None \<Longrightarrow> cf_core f \<Longrightarrow> routing_settled f (route_verify r)"
  by (simp add: routing_settled_def consistent_def route_verify_def route_typed_def explained_def executable_def pending_def)

lemma settled_resolve: "routing_settled f (route_resolve why r)"
  by (simp add: routing_settled_def consistent_def route_resolve_def route_typed_def explained_def executable_def)

lemma settled_block:
  "dp_archive (rg_deps r) \<noteq> DepReady \<Longrightarrow> n \<in> {RouteReview, RouteResolveReview} \<Longrightarrow>
   routing_settled f (block_verify n why r)"
  by (auto simp: routing_settled_def consistent_def block_verify_def route_typed_def explained_def executable_def)

lemmas base_defs = base_routing_def add_reason_def resolve_dependencies_def resolve_next_def Let_def

lemma core_parts:
  "core_ready a p \<Longrightarrow> ar_proposal a = ArtifactDone \<and> ar_specs a = ArtifactDone \<and>
     ar_design a = ArtifactDone \<and> ar_tasks a = ArtifactDone \<and> 0 < tp_total p"
  by (simp add: core_ready_def)

lemma apply_cases:
  obtains (blocked) "cf_apply f = ApplyBlocked" "\<not> cf_core f"
  | (ready) "cf_apply f = ApplyReady" "cf_core f" "\<not> tp_all (cf_progress f)"
  | (finished) "cf_apply f = ApplyAllDone" "cf_core f" "tp_all (cf_progress f)"
  by (cases "cf_core f"; cases "tp_all (cf_progress f)") (simp_all add: cf_apply_def resolve_apply_def)

lemma genuine_none: "cf_core f \<Longrightarrow> genuine_blockers (cf_artifacts f) (cf_progress f) = []"
  by (simp add: cf_core_def core_ready_def genuine_blockers_def)

lemma not_asked:
  assumes "cf_apply f \<noteq> ApplyAllDone \<or> \<not> cf_reported f \<or> ve_passing (cf_verify f)"
  shows "remediation_of e f = no_remediation"
  using assms by (auto simp: remediation_of_def remediation_required_def)

lemma no_stale_question:
  assumes "sound_facts f" and "cf_apply f \<noteq> ApplyAllDone \<or> \<not> cf_reported f \<or> ve_passing (cf_verify f)"
  shows "stale_answer e f = None"
  using assms by (auto simp: stale_answer_def stale_question_def sound_facts_def)

lemma base_idle:
  assumes f: "sound_facts f"
    and c: "cf_apply f \<noteq> ApplyAllDone \<or> \<not> cf_reported f \<or> ve_passing (cf_verify f)"
  shows "routing_settled f (base_routing e f)" "rg_remediation (base_routing e f) = no_remediation"
    "stale_answer e f = None" "rg_gate (base_routing e f) = None"
proof -
  note idle = not_asked [OF c] no_stale_question [OF f c]
  show "stale_answer e f = None" by (fact idle)
  show "rg_gate (base_routing e f) = None" "rg_remediation (base_routing e f) = no_remediation"
    using idle by (simp_all add: base_defs stale_reason_def)
  show "routing_settled f (base_routing e f)"
  proof (cases f rule: apply_cases)
    case blocked
    have "genuine_blockers (cf_artifacts f) (cf_progress f) \<noteq> []"
      if "ar_proposal (cf_artifacts f) = ArtifactDone" "ar_specs (cf_artifacts f) = ArtifactDone"
        "ar_design (cf_artifacts f) = ArtifactDone" "ar_tasks (cf_artifacts f) = ArtifactDone"
      using that blocked(2) f by (auto simp: cf_core_def core_ready_def genuine_blockers_def sound_facts_def)
    then show ?thesis using blocked idle
      by (auto simp: base_defs stale_reason_def routing_settled_def consistent_def route_typed_def explained_def executable_def
          planning_def pending_def artifact_dependency_def no_remediation_def)
  next
    case ready
    then show ?thesis using idle
      by (simp add: base_defs stale_reason_def routing_settled_def consistent_def route_typed_def explained_def executable_def
          pending_def genuine_none no_remediation_def)
  next
    case finished
    with c have "\<not> cf_reported f \<or> ve_passing (cf_verify f)" by simp
    then show ?thesis using finished idle
      by (auto simp: base_defs stale_reason_def routing_settled_def consistent_def route_typed_def explained_def executable_def
          pending_def genuine_none no_remediation_def cf_reported_def)
  qed
qed

section \<open>Failed reports\<close>

lemma refused_authority_no_remediation:
  assumes "stale_reason e f = Some why"
  shows "remediation_authority e (cf_change f) (cf_bound f) required (cf_receipt f) = None"
  using assms
  by (auto simp: stale_reason_def stale_answer_def stale_question_def remediation_authority_def Let_def
      split: if_splits)

lemma stale_refused_incomplete:
  assumes "stale_reason e f = Some why" and "remediation_required e f"
  shows "\<not> rs_complete (remediation_of e f)"
proof -
  have "cf_tx f = None"
    using assms(1) by (auto simp: stale_reason_def stale_answer_def stale_question_def split: if_splits)
  then show ?thesis
    using assms refused_authority_no_remediation [OF assms(1)]
    by (simp add: remediation_of_def bounded_remediation_def refuse_remediation_def no_remediation_def)
qed

lemma base_failed:
  assumes "cf_apply f = ApplyAllDone" "cf_reported f" "\<not> ve_passing (cf_verify f)"
    and required: "remediation_required e f"
  shows "routing_settled f (base_routing e f)"
proof -
  have core: "cf_core f" "tp_all (cf_progress f)"
    using assms(1) by (cases f rule: apply_cases; simp)+
  have answers: "remediation_answers (remediation_of e f)"
    using required by (cases e f rule: remediation_of_cases) simp_all
  have stale: "stale_reason e f = None" if "rs_complete (remediation_of e f)"
    using stale_refused_incomplete [OF _ required] that by (cases "stale_reason e f") auto
  show ?thesis
    using assms core answers stale
    by (cases "rs_complete (remediation_of e f)")
       (auto simp: base_defs routing_settled_def consistent_def route_typed_def explained_def executable_def
          planning_def pending_def genuine_none cf_reported_def remediation_answers_def)
qed

lemma stale_answer_unbound: "cf_bound f \<Longrightarrow> stale_answer e f = None"
  by (simp add: stale_answer_def stale_question_def)

lemma base_reasons: "cf_core f \<Longrightarrow> stale_reason e f = None \<Longrightarrow> rg_reasons (base_routing e f) = []"
  by (simp add: base_defs genuine_none)

lemma base_remediation: "rg_remediation (base_routing e f) = remediation_of e f"
  by (simp add: base_defs)

lemma stale_stage:
  assumes f: "sound_facts f"
    and r: "cf_runtime_remediated f \<longrightarrow>
      cf_apply f \<noteq> ApplyAllDone \<or> \<not> cf_reported f \<or> ve_passing (cf_verify f)"
  shows "routing_settled f (stale_override e f (base_routing e f))"
proof (cases "cf_apply f \<noteq> ApplyAllDone \<or> \<not> cf_reported f \<or> ve_passing (cf_verify f)")
  case True
  then show ?thesis using base_idle [OF f] by (simp add: stale_override_def)
next
  case failed: False
  show ?thesis
  proof (cases "stale_allows e f")
    case True
    then have "stale_reason e f = None" "remediation_of e f = no_remediation"
      by (auto simp: stale_allows_def stale_reason_def remediation_of_def remediation_required_def
          split: option.splits)
    moreover have "cf_core f" using failed by (cases f rule: apply_cases) simp_all
    ultimately have "routing_settled f (route_verify (base_routing e f))"
      by (intro settled_verify) (simp_all add: base_reasons base_remediation no_remediation_def)
    then show ?thesis using True
      by (auto simp: stale_override_def stale_allows_def routing_settled_def consistent_def pending_def
          split: option.splits)
  next
    case False
    then have "remediation_required e f" using failed r by (auto simp: remediation_required_def)
    then have "routing_settled f (base_routing e f)" using failed by (intro base_failed) auto
    then show ?thesis using False by (auto simp: stale_override_def stale_allows_def split: option.splits)
  qed
qed

section \<open>The stages\<close>

definition stale_stage_of :: "sdd_env \<Rightarrow> change_facts \<Rightarrow> routing" where
  "stale_stage_of e f = stale_override e f (base_routing e f)"

definition bound_stage_of :: "sdd_env \<Rightarrow> sdd_reason option \<Rightarrow> change_facts \<Rightarrow> routing" where
  "bound_stage_of e failure f =
     (if cf_bound f then bound_override failure f (stale_stage_of e f) else stale_stage_of e f)"

lemma settled_gate [simp]: "routing_settled f (r\<lparr>rg_gate := g\<rparr>) \<longleftrightarrow> routing_settled f r"
  by (simp add: routing_settled_def consistent_def pending_def)

lemma bound_stale_stage: "cf_bound f \<Longrightarrow> stale_stage_of e f = base_routing e f"
  by (simp add: stale_stage_of_def stale_override_def stale_answer_unbound)

lemma bound_reasons: "cf_bound f \<Longrightarrow> cf_core f \<Longrightarrow> rg_reasons (base_routing e f) = []"
  by (rule base_reasons) (simp_all add: stale_reason_def stale_answer_unbound)

lemma applied_core: "cf_apply f = ApplyAllDone \<Longrightarrow> cf_core f"
  by (cases f rule: apply_cases) simp_all

lemma settled_verify_again:
  "rg_reasons r = [] \<Longrightarrow> cf_core f \<Longrightarrow>
   routing_settled f ((route_verify r)\<lparr>rg_remediation := no_remediation\<rparr>)"
  by (simp add: routing_settled_def consistent_def route_verify_def route_typed_def explained_def executable_def
      pending_def no_remediation_def)

lemma bound_again_settled:
  assumes "cf_bound f" and "cf_apply f = ApplyAllDone"
  shows "routing_settled f ((route_verify (base_routing e f))\<lparr>rg_remediation := no_remediation\<rparr>)"
  using assms bound_reasons applied_core by (intro settled_verify_again) blast+

lemma bound_unreported_settled:
  assumes "cf_bound f" and "cf_apply f = ApplyAllDone" and "\<not> cf_reported f"
  shows "routing_settled f (route_verify (base_routing e f))"
  using assms not_asked [of f e] bound_reasons [of f e] applied_core [of f]
  by (intro settled_verify) (simp_all add: base_remediation no_remediation_def)

lemma bound_stage:
  assumes f: "sound_facts f" and ok: "\<not> cf_runtime_failed f"
  shows "routing_settled f (bound_stage_of e failure f)"
proof -
  have unbound: "\<not> cf_runtime_remediated f" if "\<not> cf_bound f"
    using f ok that by (auto simp: sound_facts_def cf_runtime_remediated_def runtime_remediated_def
      split: option.splits)
  have calm: "routing_settled f (stale_stage_of e f)"
    if "\<not> (cf_runtime_remediated f \<and> cf_bound f \<and> cf_apply f = ApplyAllDone)"
    unfolding stale_stage_of_def using that unbound by (intro stale_stage [OF f]) auto
  show ?thesis
  proof (cases "cf_bound f \<and> failure = None \<and> cf_apply f = ApplyAllDone \<and>
      (\<not> cf_reported f \<or> stale_evidence f \<or> cf_runtime_remediated f)")
    case True
    then show ?thesis
      using bound_again_settled [of f e] bound_unreported_settled [of f e]
      by (auto simp: bound_stage_of_def bound_override_def bound_stale_stage Let_def)
  next
    case False
    then show ?thesis
      using calm settled_resolve
      by (cases failure) (auto simp: bound_stage_of_def bound_override_def)
  qed
qed

lemma bridge_needs_applied:
  "br_eligible (openspec_bridge e f) \<or> br_relevant (openspec_bridge e f) \<Longrightarrow>
     \<not> cf_bound f \<and> cf_apply f = ApplyAllDone"
  by (auto simp: openspec_bridge_def no_bridge_def split: if_splits)

lemma retry_stage:
  assumes f: "sound_facts f" and r: "routing_settled f (bound_stage_of e failure f)"
  shows "routing_settled f (retry_override f (openspec_bridge e f) (bound_stage_of e failure f))"
proof (cases "\<not> cf_bound f \<and> recoverable f \<and> br_eligible (openspec_bridge e f)")
  case True
  then have core: "cf_core f" using bridge_needs_applied applied_core by blast
  have "stale_answer e f = None"
    using True f by (auto simp: sound_facts_def stale_answer_def stale_question_def)
  then have "bound_stage_of e failure f = base_routing e f" "rg_reasons (base_routing e f) = []"
    using True core by (simp_all add: bound_stage_of_def stale_stage_of_def stale_override_def
        base_reasons stale_reason_def)
  then have "routing_settled f ((route_verify (bound_stage_of e failure f))\<lparr>rg_remediation := no_remediation\<rparr>)"
    using core by (intro settled_verify_again) simp_all
  then show ?thesis using r by (simp add: retry_override_def)
qed (use r in \<open>auto simp: retry_override_def\<close>)

definition reasoned :: "change_facts \<Rightarrow> routing \<Rightarrow> bool" where
  "reasoned f r \<longleftrightarrow> consistent f (rg_reasons r) r"

lemma reasons_added: "routing_settled f r \<Longrightarrow> reasoned f (add_reason (rs_reason (rg_remediation r)) r)"
  by (simp add: reasoned_def routing_settled_def consistent_def add_reason_def pending_def)

lemma missing_report_base:
  assumes "sound_facts f" "\<not> cf_bound f" "cf_apply f = ApplyAllDone" "\<not> cf_reported f"
  shows "rg_next (bound_stage_of e failure f) = Phase PhaseVerify"
    "rg_reasons (bound_stage_of e failure f) = []"
    "rg_remediation (bound_stage_of e failure f) = no_remediation"
proof -
  have "stale_answer e f = None" "remediation_of e f = no_remediation"
    using no_stale_question not_asked assms by blast+
  moreover have "cf_core f" "tp_all (cf_progress f)" using assms(3) by (cases f rule: apply_cases; simp)+
  ultimately have
    "bound_stage_of e failure f = base_routing e f" "rg_next (base_routing e f) = Phase PhaseVerify"
    "rg_reasons (base_routing e f) = []" "rg_remediation (base_routing e f) = no_remediation"
    using assms by (simp_all add: bound_stage_of_def stale_stage_of_def stale_override_def base_defs
        stale_reason_def genuine_none cf_reported_def)
  then show "rg_next (bound_stage_of e failure f) = Phase PhaseVerify"
    "rg_reasons (bound_stage_of e failure f) = []"
    "rg_remediation (bound_stage_of e failure f) = no_remediation" by simp_all
qed

definition reason_stage_of :: "sdd_env \<Rightarrow> sdd_reason option \<Rightarrow> change_facts \<Rightarrow> routing" where
  "reason_stage_of e failure f =
     (let r = retry_override f (openspec_bridge e f) (bound_stage_of e failure f)
      in add_reason (rs_reason (rg_remediation r)) r)"

lemma openspec_stages:
  "openspec_routing e f =
     review_routing f (openspec_bridge e f)
       (bridge_routing f (openspec_bridge e f) (reason_stage_of e (openspec_binding_failure e f) f))"
  by (simp add: openspec_routing_def reason_stage_of_def bound_stage_of_def stale_stage_of_def Let_def)

lemma reason_stage:
  assumes "sound_facts f" and "\<not> cf_runtime_failed f"
  shows "reasoned f (reason_stage_of e failure f)"
  unfolding reason_stage_of_def Let_def
  by (intro reasons_added retry_stage bound_stage assms)

lemma missing_report_stage:
  assumes "sound_facts f" "\<not> cf_bound f" "cf_apply f = ApplyAllDone" "\<not> cf_reported f"
  shows "rg_next (reason_stage_of e failure f) = Phase PhaseVerify"
    "rg_reasons (reason_stage_of e failure f) = []"
  using missing_report_base [OF assms]
  by (simp_all add: reason_stage_of_def retry_override_def add_reason_def route_verify_def
      no_remediation_def)

lemma reasoned_verify: "rg_reasons r = [] \<Longrightarrow> cf_core f \<Longrightarrow> reasoned f (route_verify r)"
  by (simp add: reasoned_def consistent_def route_verify_def route_typed_def explained_def executable_def)

lemma reasoned_resolve: "reasoned f (route_resolve why r)"
  by (simp add: reasoned_def consistent_def route_resolve_def route_typed_def explained_def executable_def)

lemma reasoned_block:
  "dp_archive (rg_deps r) \<noteq> DepReady \<Longrightarrow> n \<in> {RouteReview, RouteResolveReview} \<Longrightarrow>
   reasoned f (block_verify n why r)"
  by (auto simp: reasoned_def consistent_def block_verify_def route_typed_def explained_def executable_def)

lemma openspec_reasoned:
  assumes f: "sound_facts f" and ok: "\<not> cf_runtime_failed f"
  shows "reasoned f (openspec_routing e f)"
proof (cases "\<not> cf_bound f \<and> cf_apply f = ApplyAllDone \<and> \<not> cf_reported f")
  case True
  let ?r = "reason_stage_of e (openspec_binding_failure e f) f"
  let ?b = "openspec_bridge e f"
  have base: "rg_next ?r = Phase PhaseVerify" "rg_reasons ?r = []" "reasoned f ?r"
    using missing_report_stage [OF f] reason_stage [OF f ok] True by blast+
  then have archive: "dp_archive (rg_deps ?r) \<noteq> DepReady" and verify: "dp_verify (rg_deps ?r) = DepReady"
    by (simp_all add: reasoned_def consistent_def route_typed_def)
  have core: "cf_core f" using True applied_core by blast
  have speaks: "reasoned f (bridge_routing f ?b ?r)"
    using base core reasoned_verify reasoned_resolve True by (auto simp: bridge_routing_def)
  have same: "r\<lparr>rg_deps := (rg_deps r)\<lparr>dp_verify := DepReady\<rparr>, rg_next := Phase PhaseVerify\<rparr> = r"
    if "rg_next r = Phase PhaseVerify" "dp_verify (rg_deps r) = DepReady" for r
    using that by (cases r, cases "rg_deps r") simp
  have silent: "bridge_routing f ?b ?r = ?r" if "\<not> br_eligible ?b" "\<not> br_relevant ?b"
    using that by (simp add: bridge_routing_def)
  show ?thesis
    using True speaks silent base same [OF base(1) verify] reasoned_block [OF archive]
    unfolding openspec_stages
    by (cases "br_eligible ?b \<or> br_relevant ?b") (auto simp: review_routing_def split: option.split)
next
  case False
  then show ?thesis
    using reason_stage [OF f ok]
    by (auto simp: openspec_stages review_routing_def bridge_routing_def)
qed

section \<open>The status\<close>

lemma reasoned_gate [simp]: "reasoned f (r\<lparr>rg_gate := g\<rparr>) \<longleftrightarrow> reasoned f r"
  by (simp add: reasoned_def consistent_def)

lemma gate_refused_reasoned:
  "dp_verify (rg_deps r) = DepAllDone \<Longrightarrow>
   reasoned f (r\<lparr>rg_gate := g, rg_deps := (rg_deps r)\<lparr>dp_archive := DepBlocked\<rparr>,
     rg_next := RouteResolveReview, rg_reasons := rg_reasons r @ [why]\<rparr>)"
  by (simp add: reasoned_def consistent_def route_typed_def explained_def executable_def)

lemma gate_reasoned:
  assumes "reasoned f r"
  shows "reasoned f (review_gate e f r)"
  unfolding review_gate_def Let_def
  using assms gate_refused_reasoned [of r f] by (simp split: if_split)

lemma block_execution_reasoned: "reasoned f (block_execution why r)"
  by (auto simp: block_execution_def reasoned_def consistent_def route_typed_def explained_def
      executable_def)

lemma runtime_reasoned: "reasoned f r \<Longrightarrow> reasoned f (runtime_routing f r)"
  using block_execution_reasoned
  by (auto simp: runtime_routing_def split: option.split)
     (auto simp: block_execution_def reasoned_def consistent_def route_typed_def explained_def
        executable_def)

lemma runtime_failed_reasoned: "cf_runtime_failed f \<Longrightarrow> reasoned f (runtime_routing f r)"
  by (auto simp: runtime_routing_def block_execution_def reasoned_def consistent_def route_typed_def
      explained_def executable_def)

definition openspec_final :: "sdd_env \<Rightarrow> change_facts \<Rightarrow> routing" where
  "openspec_final e f = runtime_routing f (review_gate e f (openspec_routing e f))"

lemma openspec_final_status: "openspec_status e f = status_of f (openspec_final e f)"
  by (simp add: openspec_status_def openspec_final_def)

lemma openspec_final_reasoned: "sound_facts f \<Longrightarrow> reasoned f (openspec_final e f)"
  unfolding openspec_final_def
  using runtime_reasoned gate_reasoned openspec_reasoned runtime_failed_reasoned by blast

lemma status_of_simps [simp]:
  "su_next (status_of f r) = rg_next r" "su_dependencies (status_of f r) = rg_deps r"
  "su_gate (status_of f r) = rg_gate r" "su_apply (status_of f r) = cf_apply f"
  "su_progress (status_of f r) = cf_progress f" "su_artifacts (status_of f r) = cf_artifacts f"
  "su_runtime (status_of f r) = cf_runtime f" "su_remediation (status_of f r) = rg_remediation r"
  by (simp_all add: status_of_def)

lemma expected_planning_core: "cf_core f \<Longrightarrow> expected_planning (cf_artifacts f) = []"
  by (simp add: cf_core_def core_ready_def expected_planning_def)

lemma reasoned_blocked:
  assumes "reasoned f r"
  shows "planning (rg_next r) \<or> (executable (rg_next r) \<longleftrightarrow> su_blocked (status_of f r) = [])"
  using assms expected_planning_core [of f]
  by (auto simp: reasoned_def consistent_def explained_def status_of_def finalize_reasons_def planning_def)

lemma resolve_openspec_facts:
  assumes "resolve_openspec e change c = Inr s"
  obtains f where "gather_facts e change c = Inr f" "sound_facts f" "s = status_of f (openspec_final e f)"
  using assms gather_facts_sound [of e change c]
  by (auto simp: resolve_openspec_def openspec_final_status split: sum.splits)

end
