(* ===== verification/SddEngram.thy ===== *)
theory SddEngram
  imports SddRoute GoStrings
begin

text \<open>
  The memory store (status.go): observations that hold the artifacts of changes, their titles, and the
  documents they make; the resolution of a change from them; and the selection of the change a status
  is asked for, over both stores. Case folding of project names is exact on ASCII and on the two runes
  that fold to it.
\<close>

section \<open>Observations\<close>

record observation =
  ob_title :: string
  ob_content :: string
  ob_project :: string
  ob_scope :: string

definition engram_kinds :: "string list" where
  "engram_kinds =
     [''proposal'', ''spec'', ''design'', ''tasks'', ''apply-progress'', ''verify-report'',
      ''review/transaction'', ''review/policy'', ''review/ledger'', ''review/receipt'',
      ''review/chain-bundle'', ''review/gate-context'', ''state'']"

definition engram_title :: "string \<Rightarrow> (string \<times> string) option" where
  \<comment> \<open>change and kind of a title \<^verbatim>\<open>sdd/<change>/<kind>\<close>\<close>
  "engram_title t =
     (if \<not> prefix ''sdd/'' t then None
      else (case cut_at (CHR ''/'') (drop 4 t) of None \<Rightarrow> None
            | Some (change, kind) \<Rightarrow>
                if change \<noteq> [] \<and> kind \<in> set engram_kinds then Some (change, kind) else None))"

definition engram_matches :: "string \<Rightarrow> observation \<Rightarrow> bool" where
  "engram_matches project ob \<longleftrightarrow>
     fold_case (trim_space (ob_project ob)) = fold_case project \<and>
     trim_space (ob_scope ob) \<noteq> ''personal''"

definition observation_key :: "string \<Rightarrow> observation \<Rightarrow> (string \<times> string) option" where
  "observation_key project ob =
     (if engram_matches project ob then engram_title (trim_space (ob_title ob)) else None)"

definition engram_changes :: "observation list \<Rightarrow> string \<Rightarrow> string list" where
  "engram_changes obs project =
     sort (remdups (map fst (filter (\<lambda>(_, kind). kind \<noteq> ''state'')
       (List.map_filter (observation_key project) obs))))"

definition engram_artifact :: "observation list \<Rightarrow> string \<Rightarrow> string \<Rightarrow> string \<Rightarrow> doc" where
  \<comment> \<open>the last observation under the title\<close>
  "engram_artifact obs project change kind =
     (case rev (filter (\<lambda>ob. observation_key project ob = Some (change, kind)) obs) of
        [] \<Rightarrow> NoDoc | ob # _ \<Rightarrow> Doc (ob_content ob))"

definition engram_docs :: "observation list \<Rightarrow> string \<Rightarrow> string \<Rightarrow> change_docs" where
  "engram_docs obs project change =
     (let art = engram_artifact obs project change in
      \<lparr>cd_proposal = art ''proposal'', cd_design = art ''design'', cd_tasks = art ''tasks'',
       cd_progress = art ''apply-progress'', cd_report = art ''verify-report'',
       cd_state = art ''review/transaction'', cd_ledger = art ''review/ledger'',
       cd_receipt = art ''review/receipt'', cd_bundle = art ''review/chain-bundle'',
       cd_context = art ''review/gate-context'',
       cd_specs = Some (if art ''spec'' = NoDoc then [] else [art ''spec'']), cd_specs_dir = False\<rparr>)"

definition engram_known :: "observation list \<Rightarrow> string \<Rightarrow> string \<Rightarrow> bool" where
  "engram_known obs project change \<longleftrightarrow>
     list_ex (\<lambda>ob. map_option fst (observation_key project ob) = Some change) obs"

definition engram_facts :: "sdd_env \<Rightarrow> string \<Rightarrow> change_docs \<Rightarrow> sdd_error + change_facts" where
  \<comment> \<open>a missing report is parsed as the empty text, an empty transaction is a missing one\<close>
  "engram_facts e change c =
     (case gather_facts e change c of Inl err \<Rightarrow> Inl err
      | Inr f \<Rightarrow> Inr (f
          \<lparr>cf_verify := parse_verify_result
             (spec_counts_of (case cd_specs c of None \<Rightarrow> [] | Some ss \<Rightarrow> map read_text ss)) (cf_report f),
           cf_tx_reason := (if blank (read_text (cd_state c)) then TxMissing else cf_tx_reason f)\<rparr>))"

definition resolve_engram ::
  "sdd_env \<Rightarrow> observation list \<Rightarrow> string \<Rightarrow> string \<Rightarrow> (sdd_error + sdd_status) option" where
  \<comment> \<open>None when the store holds nothing of the change\<close>
  "resolve_engram e obs project change =
     (if \<not> engram_known obs project change then None
      else Some (case engram_facts e change (engram_docs obs project change) of
                   Inl err \<Rightarrow> Inl err | Inr f \<Rightarrow> Inr (engram_status e f)))"

section \<open>Whether there is a store, and its project\<close>

fun config_lines_mention :: "string list \<Rightarrow> bool" where
  \<comment> \<open>the first line that names the artifact store decides\<close>
  "config_lines_mention [] = False"
| "config_lines_mention (l # ls) =
     (let t = trim_space (takeWhile (\<lambda>c. c \<noteq> CHR ''#'') l) in
      if has_prefix t ''artifact_store:'' \<or> has_prefix t ''artifactStore:''
      then contains (to_lower t) ''engram'' \<or> contains (to_lower t) ''hybrid''
      else config_lines_mention ls)"

definition config_mentions_engram :: "string \<Rightarrow> bool" where
  "config_mentions_engram content = config_lines_mention (split_on line_feed content)"

record engram_signs =
  es_variable :: string \<comment> \<open>\<^verbatim>\<open>GENTLE_AI_SDD_STATUS_ENGRAM\<close>\<close>
  es_directory :: bool \<comment> \<open>\<^verbatim>\<open>.engram\<close> exists\<close>
  es_configs :: "string option list" \<comment> \<open>\<^verbatim>\<open>openspec/config.yaml\<close> and \<^verbatim>\<open>config.yml\<close>, if readable\<close>
  es_project :: string \<comment> \<open>\<^verbatim>\<open>ENGRAM_PROJECT\<close>\<close>
  es_git_config :: "string option"
  es_base :: string \<comment> \<open>the last element of the workspace path\<close>

definition should_try_engram :: "engram_signs \<Rightarrow> bool" where
  "should_try_engram g \<longleftrightarrow>
     es_variable g \<noteq> [] \<or> es_directory g \<or>
     list_ex (\<lambda>c. case c of None \<Rightarrow> False | Some content \<Rightarrow> config_mentions_engram content) (es_configs g)"

fun project_of_lines :: "string list \<Rightarrow> string" where
  "project_of_lines [] = []"
| "project_of_lines (l # ls) =
     (let line = trim_space l in
      if \<not> has_prefix line ''url ='' then project_of_lines ls
      else let url = trim_suffix (trim_space (trim_prefix line ''url ='')) ''.git'';
               tail = rev (takeWhile (\<lambda>c. c \<notin> set ''/:'') (rev url))
           in if tail \<noteq> url \<and> tail \<noteq> [] then to_lower tail else project_of_lines ls)"

definition project_from_git_config :: "string \<Rightarrow> string" where
  "project_from_git_config content = project_of_lines (split_on line_feed content)"

definition infer_project :: "engram_signs \<Rightarrow> string" where
  "infer_project g =
     (let configured = trim_space (es_project g);
          remote = (case es_git_config g of None \<Rightarrow> [] | Some content \<Rightarrow> project_from_git_config content)
      in if configured \<noteq> [] then to_lower configured
         else if remote \<noteq> [] then remote else to_lower (es_base g))"

section \<open>Selecting the change\<close>

datatype engram_source = EngramOff | EngramBroken | EngramStore "observation list" string

definition source_of :: "engram_signs \<Rightarrow> observation list option \<Rightarrow> engram_source" where
  \<comment> \<open>the exported observations, if the export succeeds\<close>
  "source_of g export =
     (if \<not> should_try_engram g then EngramOff
      else (case export of None \<Rightarrow> EngramBroken | Some obs \<Rightarrow> EngramStore obs (infer_project g)))"

definition blocked_status :: "string option \<Rightarrow> next_route \<Rightarrow> sdd_reason \<Rightarrow> sdd_status" where
  "blocked_status change n why =
     \<lparr>su_change = change, su_artifacts = \<lparr>ar_proposal = ArtifactMissing, ar_specs = ArtifactMissing,
        ar_design = ArtifactMissing, ar_tasks = ArtifactMissing, ar_progress = ArtifactMissing,
        ar_report = ArtifactMissing, ar_ledger = ArtifactMissing, ar_receipt = ArtifactMissing,
        ar_bundle = ArtifactMissing, ar_context = ArtifactMissing,
        ar_state = ArtifactMissing\<rparr>,
      su_progress = no_progress,
      su_dependencies = \<lparr>dp_proposal = DepBlocked, dp_specs = DepBlocked, dp_design = DepBlocked,
        dp_tasks = DepBlocked, dp_apply = DepBlocked, dp_verify = DepBlocked, dp_archive = DepBlocked\<rparr>,
      su_apply = ApplyBlocked, su_remediation = no_remediation, su_runtime = None, su_gate = None,
      su_transaction = None, su_next = n, su_blocked = [why]\<rparr>"

definition try_engram :: "sdd_env \<Rightarrow> engram_source \<Rightarrow> string \<Rightarrow> (sdd_error + sdd_status) option" where
  \<comment> \<open>\<^verbatim>\<open>resolveEngramStatus\<close> with the trimmed request\<close>
  "try_engram e source request =
     (case source of EngramOff \<Rightarrow> None
      | EngramBroken \<Rightarrow> Some (Inl EngramFailed)
      | EngramStore obs project \<Rightarrow>
          if request \<noteq> [] then resolve_engram e obs project request
          else (case engram_changes obs project of [] \<Rightarrow> None
                | [change] \<Rightarrow> resolve_engram e obs project change
                | changes \<Rightarrow> Some (Inr (blocked_status None RouteSelect
                    (Note (''Engram change selection is ambiguous: '' @ join_with '', '' changes @ ''.''))))))"

definition resolve_status ::
  "sdd_env \<Rightarrow> string list \<Rightarrow> (string \<Rightarrow> change_docs) \<Rightarrow> engram_source \<Rightarrow> string \<Rightarrow>
   sdd_error + sdd_status" where
  \<comment> \<open>\<^verbatim>\<open>Resolve\<close>: the active changes in order, their documents, the memory store and the request\<close>
  "resolve_status e active docs source requested =
     (let request = trim_space requested;
          named = (if request = [] then None else Some request);
          fallback = (\<lambda>why. case try_engram e source request of Some r \<Rightarrow> r
                      | None \<Rightarrow> Inr (blocked_status named RouteNew (Note why)))
      in if request = [] then
           (case active of
              [] \<Rightarrow> fallback ''No active OpenSpec changes found under openspec/changes.''
            | [change] \<Rightarrow> resolve_openspec e change (docs change)
            | _ \<Rightarrow> Inr (blocked_status None RouteSelect
                (Note (''Change selection is ambiguous: '' @ join_with '', '' active @ ''.''))))
         else if request \<notin> set active
         then fallback (''Active OpenSpec change not found: '' @ request @ ''.'')
         else resolve_openspec e request (docs request))"

section \<open>Arguments\<close>

record command_args =
  ca_change :: string
  ca_cwd :: string
  ca_json :: bool
  ca_instructions :: bool

datatype arg_error = CwdNeedsValue | UnknownArgument string | UnexpectedArgument string

fun parse_args :: "string list \<Rightarrow> command_args \<Rightarrow> arg_error + command_args" where
  \<comment> \<open>\<^verbatim>\<open>ParseCommandArgs\<close>: arguments left and what is parsed\<close>
  "parse_args [] p = Inr p"
| "parse_args (a # as) p =
     (if a = ''--json'' then parse_args as (p\<lparr>ca_json := True\<rparr>)
      else if a = ''--instructions'' then parse_args as (p\<lparr>ca_instructions := True\<rparr>)
      else if a = ''--cwd'' then
        (case as of [] \<Rightarrow> Inl CwdNeedsValue
         | v # rest \<Rightarrow>
             if has_prefix v ''-'' then Inl CwdNeedsValue else parse_args rest (p\<lparr>ca_cwd := v\<rparr>))
      else if has_prefix a ''-'' then Inl (UnknownArgument a)
      else if ca_change p = [] then parse_args as (p\<lparr>ca_change := a\<rparr>)
      else Inl (UnexpectedArgument a))"

definition parse_command_args :: "string list \<Rightarrow> arg_error + command_args" where
  "parse_command_args args =
     parse_args args \<lparr>ca_change = [], ca_cwd = [], ca_json = False, ca_instructions = False\<rparr>"

end
