(* ===== verification/SddReportLaws.thy ===== *)
theory SddReportLaws
  imports SddEvidence GoStrings
begin

text \<open>
  Laws of the verify report: an envelope of well-formed fields is read back as those fields, the counts
  of a parsed report are never negative, and evaluation and admission agree on passing reports.
\<close>

section \<open>Envelopes are read back\<close>

definition field_text :: "string \<Rightarrow> bool" where
  \<comment> \<open>one line that trimming leaves alone\<close>
  "field_text s \<longleftrightarrow>
     s \<noteq> [] \<and> edge_char (hd s) \<and> edge_char (last s) \<and> line_feed \<notin> set s \<and> CHR 0x0D \<notin> set s"

definition field_line :: "string \<times> string \<Rightarrow> string" where
  "field_line kv = fst kv @ '': '' @ snd kv"

definition envelope_text :: "fields \<Rightarrow> string" where
  "envelope_text fs = join_with [line_feed] ((fence @ ''yaml'') # map field_line fs @ [fence])"

lemma replace_crlf_plain: "CHR 0x0D \<notin> set s \<Longrightarrow> replace_crlf s = s"
proof (induction s)
  case (Cons c s)
  then show ?case by (cases s) auto
qed simp

definition key_text :: "string \<Rightarrow> bool" where
  "key_text k \<longleftrightarrow> field_text k \<and> CHR '':'' \<notin> set k \<and> hd k \<noteq> CHR 0x60"

lemma fence_edges: "fence \<noteq> []" "hd fence = CHR 0x60" "last fence = CHR 0x60" "edge_char CHR 0x60"
    "line_feed \<notin> set fence" "CHR 0x0D \<notin> set fence"
  by (simp_all add: fence_def edge_char_def between_def byte_def line_feed_def)

lemma field_line_edges:
  assumes "key_text k" and "field_text v"
  shows "trim_space (field_line (k, v)) = field_line (k, v)" "field_line (k, v) \<noteq> fence"
    "line_feed \<notin> set (field_line (k, v))" "CHR 0x0D \<notin> set (field_line (k, v))" "field_line (k, v) \<noteq> []"
proof -
  have h: "hd (field_line (k, v)) = hd k" "last (field_line (k, v)) = last v"
    using assms by (auto simp: key_text_def field_text_def field_line_def)
  show "field_line (k, v) \<noteq> []" by (simp add: field_line_def)
  then show "trim_space (field_line (k, v)) = field_line (k, v)"
    using h assms by (intro trim_edges) (auto simp: key_text_def field_text_def)
  show "field_line (k, v) \<noteq> fence"
    using h(1) assms(1) by (auto simp: key_text_def fence_def)
  show "line_feed \<notin> set (field_line (k, v))" "CHR 0x0D \<notin> set (field_line (k, v))"
    using assms by (auto simp: key_text_def field_text_def field_line_def line_feed_def)
qed

lemma split_field_line:
  assumes "key_text k" and "field_text v"
  shows "split_field (field_line (k, v)) = (k, v)"
proof -
  have k: "takeWhile (\<lambda>c. c \<noteq> CHR '':'') (k @ CHR '':'' # s) = k"
    "dropWhile (\<lambda>c. c \<noteq> CHR '':'') (k @ CHR '':'' # s) = CHR '':'' # s" for s
    using assms(1) by (auto simp: key_text_def takeWhile_append dropWhile_append3)
  have "trim_space ('' '' @ v) = v"
  proof -
    have "trim_left ('' '' @ v) = v"
    proof -
      have "strip_one space_runes ('' '' @ v) = Some v"
        by (simp add: strip_one_def space_runes_def)
      moreover have "strip_all n space_runes v = v" for n
        using assms(2) space_runes_nonempty space_runes_no_edge
        by (intro strip_edge) (auto simp: field_text_def)
      ultimately show ?thesis by (simp add: trim_left_def)
    qed
    moreover have "trim_right v = v"
      using trim_edges [of v] assms(2) by (simp add: field_text_def) (metis calculation trim_right_idem trim_space_def)
    ultimately show ?thesis by (simp add: trim_space_def)
  qed
  moreover have "trim_space k = k"
    using assms(1) by (intro trim_edges) (auto simp: key_text_def field_text_def)
  ultimately show ?thesis
    by (simp add: split_field_def cut_at_def field_line_def k)
qed

lemma scalar_fields_read:
  assumes "\<And>k v. (k, v) \<in> set fs \<Longrightarrow> key_text k \<and> field_text v \<and> k \<in> set allowed"
    and "distinct (map fst (acc @ fs))"
  shows "scalar_fields allowed label (map field_line fs) acc = (acc @ fs, [])"
  using assms
proof (induction fs arbitrary: acc)
  case (Cons kv fs)
  obtain k v where kv: "kv = (k, v)" by (cases kv)
  have parts: "key_text k" "field_text v" "k \<in> set allowed" using Cons.prems(1) [of k v] kv by auto
  have "\<not> has_field acc k"
    using Cons.prems(2) kv by (auto simp: has_field_def map_of_eq_None_iff)
  then have "scalar_fields allowed label (map field_line (kv # fs)) acc =
      scalar_fields allowed label (map field_line fs) (acc @ [(k, v)])"
    using parts field_line_edges [OF parts(1,2)] split_field_line [OF parts(1,2)]
    by (auto simp: kv key_text_def field_text_def)
  also have "\<dots> = ((acc @ [(k, v)]) @ fs, [])"
    using Cons.prems by (intro Cons.IH) (auto simp: kv)
  finally show ?case by (simp add: kv)
qed simp

lemma envelope_read:
  assumes fs: "\<And>k v. (k, v) \<in> set fs \<Longrightarrow> key_text k \<and> field_text v"
  shows "leading_envelope (envelope_text fs) = Inr (map field_line fs, [])"
proof -
  let ?ls = "(fence @ ''yaml'') # map field_line fs @ [fence]"
  have lines: "line_feed \<notin> set w \<and> CHR 0x0D \<notin> set w" if "w \<in> set ?ls" for w
    using that fs field_line_edges fence_edges by (auto simp: line_feed_def)
  have "CHR 0x0D \<notin> set (envelope_text fs)"
    using lines set_join [of line_feed ?ls] by (auto simp: envelope_text_def line_feed_def)
  then have crlf: "replace_crlf (envelope_text fs) = envelope_text fs" by (rule replace_crlf_plain)
  have "envelope_text fs \<noteq> []" "hd (envelope_text fs) = CHR 0x60" "last (envelope_text fs) = CHR 0x60"
    using hd_join [of "fence @ ''yaml''" "[line_feed]" "map field_line fs @ [fence]"]
      last_join [of fence "[line_feed]" "(fence @ ''yaml'') # map field_line fs"] fence_edges
    by (simp_all add: envelope_text_def)
  then have trim: "trim_space (envelope_text fs) = envelope_text fs"
    using fence_edges by (intro trim_edges) simp_all
  have split: "split_on line_feed (envelope_text fs) = ?ls"
    unfolding envelope_text_def using lines by (intro split_join) (blast, blast)
  have open_line: "trim_space l \<noteq> fence" if "l \<in> set (map field_line fs)" for l
    using that fs field_line_edges by fastforce
  have first: "trim_space (fence @ ''yaml'') = fence @ ''yaml''"
    by (rule trim_edges) (simp_all add: fence_def edge_char_def between_def byte_def)
  have closing: "trim_space fence = fence" using fence_edges by (intro trim_edges) simp_all
  have "dropWhile (\<lambda>l. trim_space l \<noteq> fence) (map field_line fs @ [fence]) = [fence]"
    "takeWhile (\<lambda>l. trim_space l \<noteq> fence) (map field_line fs @ [fence]) = map field_line fs"
    using open_line closing by (simp_all add: dropWhile_append takeWhile_append)
  then show ?thesis
    unfolding leading_envelope_def crlf trim split Let_def
    using first by (simp add: fence_def)
qed

section \<open>Evaluation and admission\<close>

lemma digits_value_nonneg: "list_all is_digit s \<Longrightarrow> 0 \<le> digits_value s"
proof -
  have "0 \<le> n \<Longrightarrow> list_all is_digit s \<Longrightarrow> 0 \<le> foldl (\<lambda>n c. 10 * n + (int (byte c) - 48)) n s" for n
    by (induction s arbitrary: n) (auto simp: is_digit_def between_def)
  then show "list_all is_digit s \<Longrightarrow> 0 \<le> digits_value s" by (simp add: digits_value_def)
qed

lemma nonnegative_int_range: "nonnegative_int s = Some n \<Longrightarrow> 0 \<le> n \<and> n \<le> int_max"
  using digits_value_nonneg by (auto simp: nonnegative_int_def split: if_splits)

lemma parse_completion_range:
  "parse_completion s = Some c \<Longrightarrow> 0 \<le> vc_completed c \<and> vc_completed c \<le> vc_total c \<and> vc_total c \<le> int_max"
  by (auto simp: parse_completion_def split: option.splits if_splits)
     (blast dest: nonnegative_int_range)+

lemma finish_report_range:
  "finish_report r = (r', []) \<Longrightarrow> 0 \<le> vc_total (vr_requirements r') \<and> 0 \<le> vc_total (vr_scenarios r')"
  by (auto simp: finish_report_def Let_def invalid_field_def dest!: parse_completion_range
      split: option.splits if_splits)

lemma leading_envelope_reason: "leading_envelope t \<noteq> Inl []"
  by (auto simp: leading_envelope_def Let_def front_matter_reason_def missing_envelope_reason_def
      unterminated_reason_def)

lemma parsed_totals:
  "parse_report t = (r, []) \<Longrightarrow> 0 \<le> vc_total (vr_requirements r) \<and> 0 \<le> vc_total (vr_scenarios r)"
  using finish_report_range leading_envelope_reason [of t]
  by (auto simp: parse_report_def Let_def split: sum.splits prod.splits if_splits)

lemma total_mismatch_reason [simp]: "total_mismatch a what b \<noteq> []"
  by (simp add: total_mismatch_def)

lemma evaluation_reason_passes:
  "evaluation_reason n r = [] \<longleftrightarrow>
     totals_match n r \<and> vr_blockers r = 0 \<and> vr_critical r = 0 \<and> completions_full r \<and> vr_verdict r \<noteq> ''fail''"
  by (auto simp: evaluation_reason_def totals_match_def completions_full_def)

lemma passing_report:
  "ve_passing (parse_verify_result n t) \<longleftrightarrow>
     (\<exists>r. parse_report t = (r, []) \<and> vr_test_exit r = 0 \<and> vr_build_exit r = 0 \<and> totals_match n r \<and>
        vr_blockers r = 0 \<and> vr_critical r = 0 \<and> completions_full r \<and> vr_verdict r \<noteq> ''fail'')"
  by (cases "parse_report t")
     (simp add: parse_verify_result_def Let_def evaluation_reason_passes)

lemma admitted_pass:
  assumes "0 \<le> vc_total (vr_requirements r)" "0 \<le> vc_total (vr_scenarios r)" "vr_verdict r \<noteq> ''fail''"
  shows "admission_reason n r = [] \<longleftrightarrow>
     totals_match n r \<and> vr_test_exit r = 0 \<and> vr_build_exit r = 0 \<and> vr_blockers r = 0 \<and>
     vr_critical r = 0 \<and> completions_full r"
  using assms by (auto simp: admission_reason_def totals_match_def)

lemma stale_not_admitted: "ve_stale (parse_verify_result n t) \<Longrightarrow> \<not> ra_valid (admit_report n t)"
  by (cases "parse_report t")
     (auto simp: parse_verify_result_def admit_report_def admission_reason_def totals_match_def Let_def
        split: if_splits)

section \<open>The fields of a parsed report\<close>

lemma report_keys: "k \<in> set (base_fields @ extension_fields) \<Longrightarrow> key_text k"
proof -
  have "list_all key_text (base_fields @ extension_fields)" by code_simp
  then show "k \<in> set (base_fields @ extension_fields) \<Longrightarrow> key_text k" by (simp only: list_all_iff)
qed

lemma read_counts_fields: "vr_fields (fst (read_counts count_targets r)) = vr_fields r"
  by (simp add: count_targets_def split: option.split)

lemma finish_report_fields: "vr_fields (fst (finish_report r)) = vr_fields r"
  by (simp add: finish_report_def Let_def split: option.split)

lemma parsed_fields:
  assumes "leading_envelope t = Inr (body, rest)"
  shows "vr_fields (fst (parse_report t)) =
    fst (scalar_fields (base_fields @ extension_fields) ''verify result'' body [])"
proof -
  obtain fs why where fs: "scalar_fields (base_fields @ extension_fields) ''verify result'' body [] = (fs, why)"
    by (cases "scalar_fields (base_fields @ extension_fields) ''verify result'' body []")
  define r where "r = empty_report
    \<lparr>vr_fields := fs, vr_evidence := (if field_value fs ''schema'' = verify_result_schema \<and>
       sha256_identity (field_value fs ''evidence_revision'') then field_value fs ''evidence_revision'' else []),
     vr_verdict := field_value fs ''verdict'', vr_authority_only := list_ex (has_field fs) extension_fields\<rparr>"
  obtain r' why' where counts: "read_counts count_targets r = (r', why')"
    by (cases "read_counts count_targets r")
  then have "vr_fields r' = fs" using read_counts_fields [of r] by (simp add: r_def)
  then show ?thesis
    using assms fs counts finish_report_fields [of r']
    by (simp add: parse_report_def Let_def r_def)
qed

end
