(* ===== verification/SddArchive.thy ===== *)
theory SddArchive
  imports SddLaws SddEngram SddReportLaws
begin

text \<open>
  What a recommendation to archive rests on, followed backwards through the overrides; and what the
  memory store does differently when a bound review withdraws a remediation.
\<close>

section \<open>Archive\<close>

lemma base_archive:
  assumes "rg_next (base_routing e f) = Phase PhaseArchive"
  shows "cf_apply f = ApplyAllDone" "cf_core f" "tp_all (cf_progress f)" "cf_reported f"
    "ve_passing (cf_verify f)"
  using assms
  by (cases f rule: apply_cases; force simp: base_defs cf_reported_def split: if_splits)+

lemma stage_archive:
  assumes "rg_next (bound_stage_of e failure f) = Phase PhaseArchive"
  shows "rg_next (base_routing e f) = Phase PhaseArchive" "cf_bound f \<Longrightarrow> failure = None"
    "cf_bound f \<Longrightarrow> rg_gate (bound_stage_of e failure f) = Some bound_gate" "\<not> stale_allows e f"
  using assms
  by (auto simp: bound_stage_of_def bound_override_def stale_stage_of_def stale_override_def Let_def
      route_verify_def route_resolve_def stale_allows_def stale_answer_unbound split: option.splits if_splits)

lemma review_archive: "rg_next (review_routing f b r) = Phase PhaseArchive \<Longrightarrow> review_routing f b r = r"
  by (auto simp: review_routing_def block_verify_def split: option.splits if_splits)

lemma bridge_archive: "rg_next (bridge_routing f b r) = Phase PhaseArchive \<Longrightarrow> bridge_routing f b r = r"
  by (auto simp: bridge_routing_def route_verify_def route_resolve_def split: if_splits)

lemma retry_archive: "rg_next (retry_override f b r) = Phase PhaseArchive \<Longrightarrow> retry_override f b r = r"
  by (auto simp: retry_override_def route_verify_def split: if_splits)

lemma add_reason_frame [simp]:
  "rg_next (add_reason why r) = rg_next r" "rg_gate (add_reason why r) = rg_gate r"
  "rg_remediation (add_reason why r) = rg_remediation r"
  by (simp_all add: add_reason_def)

lemma routing_archive:
  assumes "rg_next (openspec_routing e f) = Phase PhaseArchive"
  shows "rg_next (bound_stage_of e (openspec_binding_failure e f) f) = Phase PhaseArchive"
    "rg_gate (openspec_routing e f) = rg_gate (bound_stage_of e (openspec_binding_failure e f) f)"
proof -
  let ?b = "openspec_bridge e f" and ?s = "bound_stage_of e (openspec_binding_failure e f) f"
  let ?r = "reason_stage_of e (openspec_binding_failure e f) f"
  have "openspec_routing e f = ?r"
    using assms review_archive bridge_archive unfolding openspec_stages by metis
  moreover have "rg_next ?r = rg_next (retry_override f ?b ?s)" "rg_gate ?r = rg_gate (retry_override f ?b ?s)"
    by (simp_all add: reason_stage_of_def Let_def)
  ultimately show "rg_next ?s = Phase PhaseArchive" "rg_gate (openspec_routing e f) = rg_gate ?s"
    using assms retry_archive by metis+
qed

lemma gate_archive:
  "rg_next (review_gate e f r) = Phase PhaseArchive \<Longrightarrow> rg_next r = Phase PhaseArchive"
  by (simp add: review_gate_def Let_def split: if_splits)

lemma block_execution_next [simp]: "rg_next (block_execution why r) = RouteBlockers"
  by (simp add: block_execution_def)

definition runtime_idle :: "change_facts \<Rightarrow> bool" where
  "runtime_idle f \<longleftrightarrow>
     \<not> cf_runtime_failed f \<and> (\<forall>s. cf_runtime f = Some s \<longrightarrow> \<not> ls_decision s \<and> ls_active s = None)"

lemma idle_routing: "runtime_idle f \<Longrightarrow> runtime_routing f r = r"
  by (auto simp: runtime_idle_def runtime_routing_def split: option.splits)

lemma busy_routing: "\<not> runtime_idle f \<Longrightarrow> rg_next (runtime_routing f r) = RouteBlockers"
  by (auto simp: runtime_idle_def runtime_routing_def split: option.split)

lemma final_archive:
  assumes "rg_next (openspec_final e f) = Phase PhaseArchive"
  shows "runtime_idle f" "rg_next (openspec_routing e f) = Phase PhaseArchive"
    "openspec_final e f = review_gate e f (openspec_routing e f)"
proof -
  show "runtime_idle f" using assms busy_routing [of f] by (cases "runtime_idle f") (simp_all add: openspec_final_def)
  then show "openspec_final e f = review_gate e f (openspec_routing e f)"
    by (simp add: openspec_final_def idle_routing)
  then show "rg_next (openspec_routing e f) = Phase PhaseArchive"
    using assms gate_archive by metis
qed

lemma archive_gate:
  assumes f: "sound_facts f" and n: "rg_next (openspec_final e f) = Phase PhaseArchive"
  shows "if cf_bound f then \<not> isl (validate_bound_review e (cf_change f))
    else ru_result (resolve_authority (se_codec e) (se_now e) (cf_receipt f) []) = GateAllow"
    "\<exists>g. rg_gate (openspec_final e f) = Some g \<and> gs_result g = GateAllow"
proof -
  note final = final_archive [OF n]
  note routing = routing_archive [OF final(2)]
  note stage = stage_archive [OF routing(1)]
  note base = base_archive [OF stage(1)]
  have verify: "dp_verify (rg_deps (openspec_routing e f)) = DepAllDone"
    using openspec_reasoned [OF f, of e] final(1,2)
    by (simp add: runtime_idle_def reasoned_def consistent_def route_typed_def)
  have gate: "openspec_final e f = review_gate e f (openspec_routing e f)" by (fact final)
  show "if cf_bound f then \<not> isl (validate_bound_review e (cf_change f))
    else ru_result (resolve_authority (se_codec e) (se_now e) (cf_receipt f) []) = GateAllow"
    using n stage(2,4) verify base unfolding gate
    by (auto simp: review_gate_def Let_def openspec_binding_failure_def split: if_splits sum.splits)
  show "\<exists>g. rg_gate (openspec_final e f) = Some g \<and> gs_result g = GateAllow"
    using n stage(3,4) routing(2) verify base unfolding gate
    by (auto simp: review_gate_def Let_def bound_gate_def split: if_splits)
qed

section \<open>The memory store\<close>

lemma engram_again_verify:
  assumes "cf_bound f" "engram_binding_failure e f = None" "cf_apply f = ApplyAllDone" "stale_evidence f"
  shows "rg_next (engram_routing e f) = Phase PhaseVerify"
    "rg_reasons (engram_routing e f) = rg_reasons (base_routing e f) @ pending (base_routing e f)"
  using assms
  by (simp_all add: engram_routing_def bound_override_def stale_override_def stale_answer_unbound
      review_routing_def bridge_routing_def add_reason_def route_verify_def pending_def Let_def)

lemma openspec_again_verify:
  assumes "cf_bound f" "openspec_binding_failure e f = None" "cf_apply f = ApplyAllDone" "stale_evidence f"
  shows "rg_next (openspec_routing e f) = Phase PhaseVerify"
  using assms
  by (simp add: openspec_routing_def bound_override_def stale_override_def stale_answer_unbound
      review_routing_def bridge_routing_def retry_override_def add_reason_def route_verify_def Let_def)

lemma bound_no_gate: "cf_bound f \<Longrightarrow> review_gate e f r = r"
  by (simp add: review_gate_def)

lemma stale_remediation_pending:
  assumes f: "sound_facts f" and a: "cf_apply f = ApplyAllDone" "stale_evidence f" "cf_bound f"
    and r: "\<not> cf_runtime_remediated f" "\<not> rs_complete (remediation_of e f)"
  shows "pending (base_routing e f) \<noteq> []"
proof -
  have "remediation_required e f"
    using f a r(1) stale_answer_unbound [OF a(3), of e]
    by (auto simp: remediation_required_def stale_evidence_def sound_facts_def stale_allows_def)
  then have "remediation_answers (remediation_of e f)"
    by (cases e f rule: remediation_of_cases) simp_all
  then show ?thesis using r(2) by (auto simp: pending_def base_remediation remediation_answers_def)
qed

section \<open>The bounded mode\<close>

lemma bounded_mode_refused:
  assumes "tx_mode t = OrdinaryBounded"
  shows "\<not> rs_required (bounded_remediation d q ev (Some t) k why p)"
    "\<not> rs_complete (bounded_remediation d q ev (Some t) k why p)"
  using assms
  by (auto simp: bounded_remediation_def v1_remediation_def fix_batch_of_def refuse_remediation_def
      no_remediation_def split: option.splits)

lemma remediation_frame [simp]:
  "rg_remediation (review_routing f b r) = rg_remediation r"
  "rg_remediation (bridge_routing f b r) = rg_remediation r"
  "rg_remediation (review_gate e f r) = rg_remediation r"
  "rg_remediation (runtime_routing f r) = rg_remediation r"
  "rg_remediation (stale_override e f r) = rg_remediation r"
  by (simp_all add: review_routing_def block_verify_def bridge_routing_def route_verify_def
      route_resolve_def review_gate_def runtime_routing_def block_execution_def stale_override_def Let_def
      split: option.split)

lemma remediation_withdrawn:
  "rg_remediation (retry_override f b r) \<in> {no_remediation, rg_remediation r}"
  "rg_remediation (bound_override failure f r) \<in> {no_remediation, rg_remediation r}"
  by (simp_all add: retry_override_def bound_override_def route_verify_def route_resolve_def Let_def
      split: option.split)

lemma bound_stage_remediation:
  "rg_remediation (bound_stage_of e failure f) \<in> {no_remediation, remediation_of e f}"
  using remediation_withdrawn(2) [of failure f "stale_stage_of e f"]
  by (auto simp: bound_stage_of_def stale_stage_of_def base_remediation)

lemma remediation_kept:
  "rg_remediation (openspec_final e f) \<in> {no_remediation, remediation_of e f}"
  using bound_stage_remediation [of e "openspec_binding_failure e f" f]
    remediation_withdrawn(1) [of f "openspec_bridge e f" "bound_stage_of e (openspec_binding_failure e f) f"]
  by (auto simp: openspec_final_def openspec_stages reason_stage_of_def Let_def)

lemma base_remediate:
  "rg_next (base_routing e f) = Phase PhaseRemediate \<Longrightarrow> rs_required (remediation_of e f)"
  by (simp add: base_defs split: if_splits)

lemma stage_remediate:
  "rg_next (bound_stage_of e failure f) = Phase PhaseRemediate \<Longrightarrow> rs_required (remediation_of e f)"
  by (auto intro!: base_remediate simp: bound_stage_of_def bound_override_def stale_stage_of_def
      stale_override_def Let_def route_verify_def route_resolve_def split: option.splits if_splits)

lemma review_remediate:
  "rg_next (review_routing f b r) = Phase PhaseRemediate \<Longrightarrow> rg_next r = Phase PhaseRemediate"
  by (auto simp: review_routing_def block_verify_def split: option.splits if_splits)

lemma bridge_remediate:
  "rg_next (bridge_routing f b r) = Phase PhaseRemediate \<Longrightarrow> rg_next r = Phase PhaseRemediate"
  by (auto simp: bridge_routing_def route_verify_def route_resolve_def split: if_splits)

lemma gate_remediate:
  "rg_next (review_gate e f r) = Phase PhaseRemediate \<Longrightarrow> rg_next r = Phase PhaseRemediate"
  by (simp add: review_gate_def Let_def split: if_splits)

lemma retry_remediate:
  "rg_next (retry_override f b r) = Phase PhaseRemediate \<Longrightarrow> rg_next r = Phase PhaseRemediate"
  by (simp add: retry_override_def route_verify_def split: if_splits)

lemma final_remediate:
  assumes "rg_next (openspec_final e f) = Phase PhaseRemediate"
  shows "rs_required (remediation_of e f)"
proof -
  have "runtime_idle f" using assms busy_routing [of f] by (cases "runtime_idle f") (simp_all add: openspec_final_def)
  then have "rg_next (reason_stage_of e (openspec_binding_failure e f) f) = Phase PhaseRemediate"
    using assms gate_remediate review_remediate bridge_remediate
    unfolding openspec_final_def openspec_stages by (metis idle_routing)
  then show ?thesis
    using retry_remediate stage_remediate by (simp add: reason_stage_of_def Let_def) metis
qed

end
