(* ===== verification/LedgerLaws.thy ===== *)
theory LedgerLaws
  imports LedgerOps
begin

text \<open>
  What replay keeps. The counters of a replayed status are functions of its attempts, its phase is
  a function of its flags, and its objective stays within its budget; every record that applies
  keeps these, and leaves the attempts that are over as they are.
\<close>

lemmas status_step_defs = apply_event_def apply_begin_def enter_objective_def apply_finish_def
  settle_finish_def apply_binding_def apply_reset_def

section \<open>The invariant\<close>

definition current_attempts :: "runtime_status \<Rightarrow> runtime_attempt list" where
  "current_attempts s = filter (\<lambda>a. at_generation a = ls_generation s) (ls_attempts s)"

definition charged_lines :: "runtime_attempt list \<Rightarrow> int" where
  "charged_lines as = sum_list (map at_lines as)"

definition attempts_sound :: "runtime_status \<Rightarrow> bool" where
  \<comment> \<open>numbered from one, of generations begun so far, charged within the limit of a record\<close>
  "attempts_sound s \<longleftrightarrow>
     map at_ordinal (ls_attempts s) = map (\<lambda>n. int n + 1) [0..<length (ls_attempts s)] \<and>
     list_all (\<lambda>a. at_generation a \<le> ls_generation s \<and> 0 \<le> at_lines a \<and> at_lines a \<le> 1000000)
       (ls_attempts s) \<and>
     0 \<le> ls_generation s \<and> ls_generation s \<le> int (length (ls_attempts s))"

definition counters_match :: "runtime_status \<Rightarrow> bool" where
  "counters_match s \<longleftrightarrow>
     ls_next_ordinal s = int (length (ls_attempts s)) + 1 \<and>
     ls_lifetime_attempts s = int (length (ls_attempts s)) \<and>
     ls_lifetime_lines s = charged_lines (ls_attempts s) \<and>
     ls_cumulative_attempts s =
       (if ls_objective s = None then 0 else int (length (current_attempts s))) \<and>
     ls_cumulative_lines s = (if ls_objective s = None then 0 else charged_lines (current_attempts s))"

definition phase_matches :: "runtime_status \<Rightarrow> bool" where
  "phase_matches s \<longleftrightarrow>
     (case ls_active s of
        None \<Rightarrow> list_all (\<lambda>a. terminal_outcome (at_outcome a)) (ls_attempts s)
      | Some a \<Rightarrow> ls_attempts s \<noteq> [] \<and> last (ls_attempts s) = a \<and> at_outcome a = AttemptRunning \<and>
          at_lines a = 0 \<and> at_generation a = ls_generation s \<and> list_all (\<lambda>a. terminal_outcome (at_outcome a)) (butlast (ls_attempts s)) \<and>
          ls_objective s \<noteq> None \<and> \<not> ls_complete s \<and> \<not> ls_decision s) \<and>
     \<not> (ls_complete s \<and> ls_decision s) \<and>
     (if ls_objective s = None then \<not> ls_complete s \<and> \<not> ls_decision s else True) \<and>
     ls_next_action s =
       (if ls_active s \<noteq> None then ActionFinish else if ls_complete s then ActionComplete
        else if ls_decision s then ActionReset else ActionBegin)"

definition budget_kept :: "runtime_status \<Rightarrow> bool" where
  "budget_kept s \<longleftrightarrow>
     (case ls_objective s of None \<Rightarrow> True
      | Some oj \<Rightarrow>
          oj_generation oj = ls_generation s \<and> 1 \<le> oj_generation oj \<and> runtime_revision (oj_id oj) \<and>
          oj_max_attempts oj \<le> 100 \<and> oj_max_lines oj \<le> 1000000 \<and>
          ls_cumulative_attempts s \<le> oj_max_attempts oj \<and>
          (if ls_active s \<noteq> None then ls_cumulative_lines s < oj_max_lines oj
           else if ls_complete s then ls_cumulative_lines s \<le> oj_max_lines oj
           else if ls_decision s then ls_cumulative_lines s < oj_max_lines oj + 1000000
           else ls_cumulative_attempts s < oj_max_attempts oj \<and> ls_cumulative_lines s < oj_max_lines oj))"

definition binding_sound :: "runtime_status \<Rightarrow> bool" where
  "binding_sound s \<longleftrightarrow>
     (case ls_binding s of None \<Rightarrow> ls_binding_revision s = []
      | Some b \<Rightarrow> binding_parses b \<and> ls_binding_revision s = sb_revision b)"

definition ledger_inv :: "runtime_status \<Rightarrow> bool" where
  "ledger_inv s \<longleftrightarrow>
     attempts_sound s \<and> counters_match s \<and> phase_matches s \<and> budget_kept s \<and> binding_sound s"

lemmas ledger_inv_defs = ledger_inv_def attempts_sound_def counters_match_def phase_matches_def
  budget_kept_def binding_sound_def

lemma empty_status_inv: "ledger_inv (empty_status change)"
  by (simp add: ledger_inv_defs empty_status_def current_attempts_def charged_lines_def)

section \<open>Arithmetic\<close>

lemma charged_lines_simps [simp]:
  "charged_lines [] = 0" "charged_lines (a # as) = at_lines a + charged_lines as"
  "charged_lines (as @ bs) = charged_lines as + charged_lines bs"
  by (simp_all add: charged_lines_def)

lemma charged_lines_bound:
  assumes "list_all (\<lambda>a. 0 \<le> at_lines a \<and> at_lines a \<le> 1000000) as"
  shows "0 \<le> charged_lines as \<and> charged_lines as \<le> 1000000 * int (length as)"
  using assms by (induction as) auto

lemma ledger_small:
  assumes "ledger_inv s" "length (ls_attempts s) \<le> 10000"
  shows "0 \<le> ls_cumulative_lines s" "ls_cumulative_lines s \<le> 10000000000"
    "0 \<le> ls_lifetime_lines s" "ls_lifetime_lines s \<le> 10000000000"
    "0 \<le> ls_cumulative_attempts s" "ls_cumulative_attempts s \<le> 10000"
    "0 \<le> ls_lifetime_attempts s" "ls_lifetime_attempts s \<le> 10000"
    "0 \<le> ls_generation s" "ls_generation s \<le> 10000" "1 \<le> ls_next_ordinal s" "ls_next_ordinal s \<le> 10001"
proof -
  have as: "list_all (\<lambda>a. 0 \<le> at_lines a \<and> at_lines a \<le> 1000000) (ls_attempts s)"
    using assms(1) by (auto simp: ledger_inv_def attempts_sound_def list_all_iff)
  then have cs: "list_all (\<lambda>a. 0 \<le> at_lines a \<and> at_lines a \<le> 1000000) (current_attempts s)"
    by (auto simp: current_attempts_def list_all_iff)
  have len: "length (current_attempts s) \<le> length (ls_attempts s)"
    by (simp add: current_attempts_def)
  note b = charged_lines_bound [OF as] charged_lines_bound [OF cs]
  show "0 \<le> ls_cumulative_lines s" "ls_cumulative_lines s \<le> 10000000000"
    "0 \<le> ls_lifetime_lines s" "ls_lifetime_lines s \<le> 10000000000"
    "0 \<le> ls_cumulative_attempts s" "ls_cumulative_attempts s \<le> 10000"
    "0 \<le> ls_lifetime_attempts s" "ls_lifetime_attempts s \<le> 10000"
    "0 \<le> ls_generation s" "ls_generation s \<le> 10000" "1 \<le> ls_next_ordinal s" "ls_next_ordinal s \<le> 10001"
    using assms b len by (auto simp: ledger_inv_def counters_match_def attempts_sound_def)
qed

lemma go_add_small: "\<lbrakk>- 1000000000000 \<le> a + b; a + b \<le> 1000000000000\<rbrakk> \<Longrightarrow> go_add a b = a + b"
  by (rule go_add_exact) (simp add: go_int_def int_min_def int_max_def)

section \<open>Shapes\<close>

lemma with_event_None: "with_event op only ev check = None \<longleftrightarrow> only \<and> (\<exists>e. ev = Some e \<and> check e = None)"
  by (simp add: with_event_def split: option.split)

lemma shape_identity: "validate_record_shape r = None \<Longrightarrow> record_identity_ok r"
  by (simp add: validate_record_shape_def split: if_splits)

lemma begin_shape:
  assumes "validate_record_shape r = None" "lc_operation r = OpBegin"
  shows "\<exists>e. lc_begin r = Some e \<and> begin_event_ok e \<and> begin_digest (begin_request_of r e) = lc_digest r"
  using assms by (auto simp: validate_record_shape_def with_event_None validate_begin_shape_def split: if_splits)

lemma finish_shape:
  assumes "validate_record_shape r = None" "lc_operation r = OpFinish \<or> lc_operation r = OpFinishRemediation"
  shows "\<exists>e. lc_finish r = Some e \<and> finish_event_ok e \<and> terminal_outcome (fv_outcome e)"
  using assms by (auto simp: validate_record_shape_def with_event_None validate_finish_shape_def
    validate_remediation_shape_def terminal_outcome_def split: if_splits)

lemma binding_shape:
  assumes "validate_record_shape r = None" "lc_operation r = OpBind \<or> lc_operation r = OpFinishRemediation"
  shows "\<exists>b. lc_binding r = Some b \<and>
    prepared_binding_ok (nv_current b) (lc_change r) (sb_lineage (nv_current b)) \<and> import_ok b (lc_change r)"
  using assms by (auto simp: validate_record_shape_def with_event_None validate_binding_shape_def
    validate_remediation_shape_def split: if_splits)

lemma known_operation: "validate_record_shape r = None \<Longrightarrow> lc_operation r \<noteq> OtherOp x"
  by (auto simp: validate_record_shape_def split: if_splits)

section \<open>Every event keeps the invariant\<close>

text \<open>Opened facts of the invariant, for a status whose objective and phase are known.\<close>

lemma begun_attempt_fields [simp]:
  "at_ordinal (begun_attempt e g) = bv_ordinal e" "at_generation (begun_attempt e g) = g"
  "at_outcome (begun_attempt e g) = AttemptRunning" "at_lines (begun_attempt e g) = 0"
  by (simp_all add: begun_attempt_def)

lemma finished_attempt_fields [simp]:
  "at_ordinal (finished_attempt e a) = at_ordinal a" "at_generation (finished_attempt e a) = at_generation a"
  "at_outcome (finished_attempt e a) = fv_outcome e" "at_lines (finished_attempt e a) = fv_lines e"
  "at_exceeded (finished_attempt e a) = fv_exceeded e"
  by (simp_all add: finished_attempt_def)

lemma terminal_simps [simp]: "\<not> terminal_outcome AttemptRunning" "terminal_outcome AttemptPassed"
  by (simp_all add: terminal_outcome_def)

lemma idle_attempts:
  assumes "ledger_inv s" "ls_active s = None"
  shows "list_all (\<lambda>a. terminal_outcome (at_outcome a)) (ls_attempts s)"
  using assms by (simp add: ledger_inv_def phase_matches_def)

lemma enter_objective_Inr:
  assumes "enter_objective r e g s = Inr t"
  shows "bv_ordinal e = ls_next_ordinal s \<and>
    (case ls_objective s of
       None \<Rightarrow> g = go_add (ls_generation s) 1 \<and>
         t = s\<lparr>ls_objective := Some (begun_objective e g), ls_generation := g\<rparr>
     | Some oj \<Rightarrow> g = oj_generation oj \<and> t = s \<and> bv_max_attempts e = oj_max_attempts oj \<and>
         bv_max_lines e = oj_max_lines oj)"
  using assms by (auto simp: enter_objective_def split: option.splits if_splits)

lemma current_begun:
  assumes "list_all (\<lambda>a. at_generation a \<le> ls_generation s) (ls_attempts s)"
  shows "filter (\<lambda>a. at_generation a = ls_generation s + 1) (ls_attempts s) = []"
  using assms by (auto simp: filter_empty_conv list_all_iff)

lemma apply_begin_inv:
  assumes inv: "ledger_inv s" and len: "length (ls_attempts s) < 10000" and ok: "begin_event_ok e"
    and app: "apply_begin r e s = Inr t"
  shows "ledger_inv t \<and> length (ls_attempts t) = Suc (length (ls_attempts s))"
proof -
  obtain g u where idle: "ls_active s = None" "\<not> ls_complete s" "\<not> ls_decision s"
      and u: "enter_objective r e g s = Inr u"
      and room: "ls_cumulative_attempts u < bv_max_attempts e" "ls_cumulative_lines u < bv_max_lines e"
      and t: "t = u\<lparr>ls_attempts := ls_attempts u @ [begun_attempt e g], ls_active := Some (begun_attempt e g),
                ls_cumulative_attempts := go_add (ls_cumulative_attempts u) 1,
                ls_lifetime_attempts := go_add (ls_lifetime_attempts u) 1,
                ls_next_ordinal := go_add (bv_ordinal e) 1, ls_next_action := ActionFinish\<rparr>"
    using app by (auto simp: apply_begin_def Let_def split: if_splits sum.splits)
  note small = ledger_small [OF inv less_imp_le [OF len]]
  note e = enter_objective_Inr [OF u]
  have gen: "go_add (ls_generation s) 1 = ls_generation s + 1" using small by (simp add: go_add_small)
  have ord: "go_add (ls_next_ordinal s) 1 = ls_next_ordinal s + 1" using small by (simp add: go_add_small)
  have life: "go_add (ls_lifetime_attempts s) 1 = ls_lifetime_attempts s + 1"
    using small by (simp add: go_add_small)
  have cum: "go_add (ls_cumulative_attempts s) 1 = ls_cumulative_attempts s + 1"
    using small by (simp add: go_add_small)
  have e_ok: "bv_max_attempts e \<le> 100" "bv_max_lines e \<le> 1000000" "runtime_revision (bv_objective e)"
    using ok by (simp_all add: begin_event_ok_def)
  have over: "list_all (\<lambda>a. terminal_outcome (at_outcome a)) (ls_attempts s)"
    by (rule idle_attempts [OF inv idle(1)])
  show ?thesis
  proof (cases "ls_objective s")
    case None
    then have u': "g = ls_generation s + 1" "bv_ordinal e = ls_next_ordinal s"
        "u = s\<lparr>ls_objective := Some (begun_objective e g), ls_generation := g\<rparr>"
      using e gen by simp_all
    have "list_all (\<lambda>a. at_generation a \<le> ls_generation s) (ls_attempts s)"
      using inv by (auto simp: ledger_inv_def attempts_sound_def list_all_iff)
    note fresh = current_begun [OF this]
    have t': "t = s\<lparr>ls_objective := Some (begun_objective e g), ls_generation := ls_generation s + 1,
        ls_attempts := ls_attempts s @ [begun_attempt e g], ls_active := Some (begun_attempt e g),
        ls_cumulative_attempts := ls_cumulative_attempts s + 1,
        ls_lifetime_attempts := ls_lifetime_attempts s + 1, ls_next_ordinal := ls_next_ordinal s + 1,
        ls_next_action := ActionFinish\<rparr>"
      by (simp add: t u' cum life ord)
    have "attempts_sound t" "counters_match t" "phase_matches t" "budget_kept t" "binding_sound t"
      using inv idle None room e_ok over
      by (auto simp: ledger_inv_defs t' u' current_attempts_def fresh begun_objective_def
          list_all_iff split: option.splits)
    then show ?thesis by (simp add: ledger_inv_def t')
  next
    case (Some oj)
    then have u': "g = oj_generation oj" "bv_ordinal e = ls_next_ordinal s" "u = s"
        "bv_max_attempts e = oj_max_attempts oj" "bv_max_lines e = oj_max_lines oj"
      using e by simp_all
    have t': "t = s\<lparr>ls_attempts := ls_attempts s @ [begun_attempt e g], ls_active := Some (begun_attempt e g),
        ls_cumulative_attempts := ls_cumulative_attempts s + 1,
        ls_lifetime_attempts := ls_lifetime_attempts s + 1, ls_next_ordinal := ls_next_ordinal s + 1,
        ls_next_action := ActionFinish\<rparr>"
      by (simp add: t u' cum life ord)
    have "attempts_sound t" "counters_match t" "phase_matches t" "budget_kept t" "binding_sound t"
      using inv idle Some room over
      by (auto simp: ledger_inv_defs t' u' current_attempts_def split: option.splits)
    then show ?thesis by (simp add: ledger_inv_def t')
  qed
qed

lemma apply_finish_Inr:
  assumes "apply_finish e s = Inr t"
  shows "\<exists>a oj. ls_active s = Some a \<and> ls_objective s = Some oj \<and> at_ordinal a = fv_ordinal e \<and>
    ls_attempts s \<noteq> [] \<and>
    (fv_exceeded e \<longleftrightarrow> go_add (ls_cumulative_lines s) (fv_lines e) > oj_max_lines oj) \<and>
    t = settle_finish oj e
      (s\<lparr>ls_attempts := butlast (ls_attempts s) @ [finished_attempt e (last (ls_attempts s))],
         ls_active := None, ls_cumulative_lines := go_add (ls_cumulative_lines s) (fv_lines e),
         ls_lifetime_lines := go_add (ls_lifetime_lines s) (fv_lines e), ls_evidence := fv_evidence e\<rparr>)"
  using assms by (auto simp: apply_finish_def split: option.splits if_splits)

lemma settle_finish_fields [simp]:
  "ls_attempts (settle_finish oj e s) = ls_attempts s" "ls_active (settle_finish oj e s) = ls_active s"
  "ls_objective (settle_finish oj e s) = ls_objective s" "ls_generation (settle_finish oj e s) = ls_generation s"
  "ls_next_ordinal (settle_finish oj e s) = ls_next_ordinal s"
  "ls_cumulative_attempts (settle_finish oj e s) = ls_cumulative_attempts s"
  "ls_cumulative_lines (settle_finish oj e s) = ls_cumulative_lines s"
  "ls_lifetime_attempts (settle_finish oj e s) = ls_lifetime_attempts s"
  "ls_lifetime_lines (settle_finish oj e s) = ls_lifetime_lines s"
  "ls_binding (settle_finish oj e s) = ls_binding s"
  "ls_binding_revision (settle_finish oj e s) = ls_binding_revision s"
  "ls_evidence (settle_finish oj e s) = ls_evidence s"
  by (simp_all add: settle_finish_def)

lemma apply_finish_inv:
  assumes inv: "ledger_inv s" and len: "length (ls_attempts s) \<le> 10000"
    and ok: "finish_event_ok e" "terminal_outcome (fv_outcome e)" and app: "apply_finish e s = Inr t"
  shows "ledger_inv t \<and> length (ls_attempts t) = length (ls_attempts s)"
proof -
  obtain a oj where s: "ls_active s = Some a" "ls_objective s = Some oj" "ls_attempts s \<noteq> []"
      and ex: "fv_exceeded e \<longleftrightarrow> go_add (ls_cumulative_lines s) (fv_lines e) > oj_max_lines oj"
      and t: "t = settle_finish oj e
        (s\<lparr>ls_attempts := butlast (ls_attempts s) @ [finished_attempt e (last (ls_attempts s))],
           ls_active := None, ls_cumulative_lines := go_add (ls_cumulative_lines s) (fv_lines e),
           ls_lifetime_lines := go_add (ls_lifetime_lines s) (fv_lines e), ls_evidence := fv_evidence e\<rparr>)"
    using apply_finish_Inr [OF app] by blast
  note small = ledger_small [OF inv len]
  have lines: "0 \<le> fv_lines e" "fv_lines e \<le> 1000000" using ok(1) by (simp_all add: finish_event_ok_def)
  have add: "go_add (ls_cumulative_lines s) (fv_lines e) = ls_cumulative_lines s + fv_lines e"
    "go_add (ls_lifetime_lines s) (fv_lines e) = ls_lifetime_lines s + fv_lines e"
    using small lines by (simp_all add: go_add_small)
  define olds where "olds = butlast (ls_attempts s)"
  have as: "ls_attempts s = olds @ [a]"
    using s inv by (auto simp: ledger_inv_def phase_matches_def olds_def)
  have t': "t = settle_finish oj e
        (s\<lparr>ls_attempts := olds @ [finished_attempt e a], ls_active := None,
           ls_cumulative_lines := ls_cumulative_lines s + fv_lines e,
           ls_lifetime_lines := ls_lifetime_lines s + fv_lines e, ls_evidence := fv_evidence e\<rparr>)"
    unfolding t add as by simp
  have ph: "at_lines a = 0" "at_generation a = ls_generation s" "\<not> ls_complete s" "\<not> ls_decision s"
    using inv s by (simp_all add: ledger_inv_def phase_matches_def)
  have bud: "ls_cumulative_lines s < oj_max_lines oj" "ls_cumulative_attempts s \<le> oj_max_attempts oj"
    using inv s by (simp_all add: ledger_inv_def budget_kept_def)
  have "attempts_sound t" using inv ph lines by (simp add: ledger_inv_def attempts_sound_def t' as)
  moreover have "counters_match t"
    using inv ph s by (simp add: ledger_inv_def counters_match_def t' as current_attempts_def)
  moreover have "phase_matches t"
    using inv ph s ok(2) by (simp add: ledger_inv_def phase_matches_def t' as settle_finish_def)
  moreover have "budget_kept t"
    using inv ph s bud ex lines by (simp add: ledger_inv_def budget_kept_def t' settle_finish_def add)
  moreover have "binding_sound t"
    using inv by (cases "ls_binding s") (simp_all add: ledger_inv_def binding_sound_def t')
  ultimately show ?thesis by (simp add: ledger_inv_def t' as)
qed

lemma apply_binding_Inr:
  assumes "apply_binding e s = Inr t"
  shows "t = s\<lparr>ls_binding := Some (nv_current e), ls_binding_revision := sb_revision (nv_current e)\<rparr>"
  using assms by (auto simp: apply_binding_def Let_def split: if_splits)

lemma apply_binding_inv:
  assumes "ledger_inv s" "binding_parses (nv_current e)" "apply_binding e s = Inr t"
  shows "ledger_inv t \<and> length (ls_attempts t) = length (ls_attempts s)"
proof -
  let ?t = "s\<lparr>ls_binding := Some (nv_current e), ls_binding_revision := sb_revision (nv_current e)\<rparr>"
  have "attempts_sound ?t \<longleftrightarrow> attempts_sound s" "counters_match ?t \<longleftrightarrow> counters_match s"
    by (simp_all add: attempts_sound_def counters_match_def current_attempts_def)
  moreover have "phase_matches ?t \<longleftrightarrow> phase_matches s"
    by (cases "ls_active s") (simp_all add: phase_matches_def)
  moreover have "budget_kept ?t \<longleftrightarrow> budget_kept s" by (cases "ls_objective s") (simp_all add: budget_kept_def)
  moreover have "binding_sound ?t" using assms(2) by (simp add: binding_sound_def)
  ultimately show ?thesis using assms(1) unfolding apply_binding_Inr [OF assms(3)] ledger_inv_def by simp
qed

lemma apply_remediation_Inr:
  assumes "apply_remediation e b s = Inr t"
  shows "\<exists>u. apply_finish e s = Inr u \<and> (if fv_exceeded e then t = u else apply_binding b u = Inr t)"
  using assms by (auto simp: apply_remediation_def split: option.splits if_splits sum.splits)

lemma apply_reset_Inr:
  assumes "apply_reset revision e s = Inr t"
  shows "\<exists>oj z. ls_objective s = Some oj \<and> ls_active s = None \<and> (ls_decision s \<or> ls_complete s) \<and>
    t = s\<lparr>ls_objective := None, ls_cumulative_attempts := 0, ls_cumulative_lines := 0, ls_evidence := [],
          ls_decision := False, ls_complete := False, ls_next_action := ActionBegin, ls_last_reset := Some z\<rparr>"
  using assms by (auto simp: apply_reset_def split: option.splits if_splits)

lemma apply_reset_inv:
  assumes "ledger_inv s" "apply_reset revision e s = Inr t"
  shows "ledger_inv t \<and> length (ls_attempts t) = length (ls_attempts s)"
  using assms(1) apply_reset_Inr [OF assms(2)]
  by (auto simp: ledger_inv_defs split: if_splits cong: option.case_cong)

lemma apply_event_inv:
  assumes inv: "ledger_inv s" and len: "length (ls_attempts s) < 10000"
    and shape: "validate_record_shape r = None" and app: "apply_event revision r s = Inr t"
  shows "ledger_inv t \<and> length (ls_attempts t) \<le> Suc (length (ls_attempts s))"
proof (cases "lc_operation r")
  case OpBegin
  then show ?thesis using begin_shape [OF shape] apply_begin_inv [OF inv len] app by (auto simp: apply_event_def)
next
  case OpFinish
  then show ?thesis
    using finish_shape [OF shape] apply_finish_inv [OF inv less_imp_le [OF len]] app
    by (auto simp: apply_event_def)
next
  case OpFinishRemediation
  obtain e b where e: "lc_finish r = Some e" "finish_event_ok e" "terminal_outcome (fv_outcome e)"
      and b: "lc_binding r = Some b" "binding_parses (nv_current b)"
    using finish_shape [OF shape] binding_shape [OF shape] OpFinishRemediation
    by (auto simp: prepared_binding_ok_def)
  from app have "apply_remediation e b s = Inr t" by (simp add: apply_event_def OpFinishRemediation e b)
  from apply_remediation_Inr [OF this] obtain u where u: "apply_finish e s = Inr u"
      and t: "if fv_exceeded e then t = u else apply_binding b u = Inr t" by blast
  note f = apply_finish_inv [OF inv less_imp_le [OF len] e(2,3) u]
  show ?thesis
  proof (cases "fv_exceeded e")
    case True
    then show ?thesis using t f by simp
  next
    case False
    then show ?thesis using t f apply_binding_inv [of u b t] b(2) by simp
  qed
next
  case OpReset
  then show ?thesis using apply_reset_inv [OF inv] app by (fastforce simp: apply_event_def)
next
  case OpBind
  then show ?thesis using binding_shape [OF shape] apply_binding_inv [OF inv] app
    by (fastforce simp: apply_event_def prepared_binding_ok_def)
next
  case (OtherOp x)
  then show ?thesis using known_operation [OF shape] by simp
qed

end
