(* ===== verification/LedgerChain.thy ===== *)
theory LedgerChain
  imports LedgerLaws
begin

text \<open>
  The chain of records on disk: what following it from a head yields, that a new record extends it,
  and that a committed record is replayed on top of the status it was built from. That a record is
  new rests on its request identifier, which its bytes determine, and not on the hash.
\<close>

section \<open>Replaying a chain\<close>

lemma apply_record_Inr:
  assumes "apply_record revision r y = Inr z"
  shows "lc_previous r = ls_revision (ly_status y) \<and> ly_requests y (lc_request r) = None \<and>
    validate_record_shape r = None \<and>
    (\<exists>s. apply_event revision r (ly_status y) = Inr s \<and>
      z = \<lparr>ly_status = s\<lparr>ls_revision := revision\<rparr>,
           ly_requests = (ly_requests y)(lc_request r \<mapsto> (lc_digest r, revision))\<rparr>)"
proof -
  show ?thesis
  proof (cases "ly_requests y (lc_request r)")
    case None
    then show ?thesis using assms
      by (auto simp: apply_record_def split: if_splits option.splits sum.splits)
  next
    case (Some c)
    then show ?thesis using assms by (simp add: apply_record_def split: if_splits)
  qed
qed

lemma apply_records_append:
  "apply_records (rs @ ts) y =
     (case apply_records rs y of Inl err \<Rightarrow> Inl err | Inr z \<Rightarrow> apply_records ts z)"
  by (induction rs arbitrary: y) (auto split: sum.splits)

lemma revision_irrelevant: "ledger_inv (s\<lparr>ls_revision := x\<rparr>) \<longleftrightarrow> ledger_inv s"
  by (cases "ls_active s"; cases "ls_objective s"; cases "ls_binding s")
    (simp_all add: ledger_inv_defs current_attempts_def)

lemma apply_records_inv:
  assumes "apply_records chain y = Inr z" "ledger_inv (ly_status y)"
    "length (ls_attempts (ly_status y)) + length chain \<le> 10000"
  shows "ledger_inv (ly_status z) \<and>
    length (ls_attempts (ly_status z)) \<le> length (ls_attempts (ly_status y)) + length chain"
  using assms
proof (induction chain arbitrary: y)
  case (Cons c chain)
  obtain revision r where c: "c = (revision, r)" by (cases c)
  from Cons.prems(1) obtain u where u: "apply_record revision r y = Inr u" "apply_records chain u = Inr z"
    by (auto simp: c split: sum.splits)
  from apply_record_Inr [OF u(1)] obtain s where s: "apply_event revision r (ly_status y) = Inr s"
      and shape: "validate_record_shape r = None" and us: "ly_status u = s\<lparr>ls_revision := revision\<rparr>" by auto
  have "length (ls_attempts (ly_status y)) < 10000" using Cons.prems(3) by simp
  note e = apply_event_inv [OF Cons.prems(2) this shape s]
  have "ledger_inv (ly_status u)" using e by (simp add: us revision_irrelevant)
  moreover have "length (ls_attempts (ly_status u)) \<le> Suc (length (ls_attempts (ly_status y)))"
    using e by (simp add: us)
  ultimately show ?case using Cons.IH [OF u(2)] Cons.prems(3) by simp
qed simp

lemma apply_records_requests:
  assumes "apply_records chain y = Inr z"
  shows "(dom (ly_requests z) = dom (ly_requests y) \<union> lc_request ` snd ` set chain) \<and>
    (\<forall>c \<in> set chain. validate_record_shape (snd c) = None) \<and>
    (finite (dom (ly_requests y)) \<longrightarrow>
       card (dom (ly_requests z)) = card (dom (ly_requests y)) + length chain) \<and>
    ls_revision (ly_status z) = (if chain = [] then ls_revision (ly_status y) else fst (last chain))"
  using assms
proof (induction chain arbitrary: y)
  case (Cons c chain)
  obtain revision r where c: "c = (revision, r)" by (cases c)
  from Cons.prems obtain u where u: "apply_record revision r y = Inr u" "apply_records chain u = Inr z"
    by (auto simp: c split: sum.splits)
  note a = apply_record_Inr [OF u(1)]
  then have u': "dom (ly_requests u) = insert (lc_request r) (dom (ly_requests y))" "lc_request r \<notin> dom (ly_requests y)"
      "ls_revision (ly_status u) = revision" "validate_record_shape r = None"
    by auto
  have "card (dom (ly_requests u)) = Suc (card (dom (ly_requests y))) \<and> finite (dom (ly_requests u))"
    if "finite (dom (ly_requests y))" using that u'(1,2) by simp
  then show ?case using Cons.IH [OF u(2)] u' by (auto simp: c)
qed simp

lemma replayed_chain:
  assumes "apply_records chain (empty_replay change) = Inr y"
  shows "dom (ly_requests y) = lc_request ` snd ` set chain" "card (dom (ly_requests y)) = length chain"
    "c \<in> set chain \<Longrightarrow> validate_record_shape (snd c) = None"
    "c \<in> set chain \<Longrightarrow> lc_request (snd c) \<in> dom (ly_requests y)"
proof -
  note q = apply_records_requests [OF assms]
  then show d: "dom (ly_requests y) = lc_request ` snd ` set chain"
    and "c \<in> set chain \<Longrightarrow> validate_record_shape (snd c) = None" by (simp_all add: empty_replay_def)
  show "card (dom (ly_requests y)) = length chain" using conjunct1 [OF conjunct2 [OF conjunct2 [OF q]]]
    by (simp only: empty_replay_def ledger_replay.select_convs dom_empty finite.emptyI card.empty simp_thms)
  show "c \<in> set chain \<Longrightarrow> lc_request (snd c) \<in> dom (ly_requests y)" unfolding d by simp
qed

section \<open>Following the chain\<close>

lemma load_record_Some:
  "load_record change d revision = Some r \<longleftrightarrow>
     runtime_revision revision \<and> dk_records d revision = Some r \<and> record_revision r = revision \<and>
     record_readable r \<and> lc_change r = change"
  by (auto simp: load_record_def split: option.splits)

lemma collect_chain_extends:
  assumes "collect_chain n change d revision acc = Inr chain"
  shows "\<exists>new. chain = new @ acc \<and> length new \<le> n \<and> fst ` set new \<inter> fst ` set acc = {} \<and>
    (\<forall>c \<in> set new. load_record change d (fst c) = Some (snd c)) \<and>
    (\<forall>m acc' d'. length new \<le> m \<longrightarrow> fst ` set acc' \<inter> fst ` set new = {} \<longrightarrow>
       (\<forall>c \<in> set new. load_record change d' (fst c) = Some (snd c)) \<longrightarrow>
       collect_chain m change d' revision acc' = Inr (new @ acc')) \<and>
    (\<forall>m acc' d'. m < length new \<longrightarrow>
       (\<forall>c \<in> set new. load_record change d' (fst c) = Some (snd c)) \<longrightarrow>
       (\<exists>err. collect_chain m change d' revision acc' = Inl err)) \<and>
    (revision = [] \<longleftrightarrow> new = [])"
  using assms
proof (induction n arbitrary: revision acc)
  case 0
  then show ?case by (auto split: if_splits)
next
  case (Suc n)
  show ?case
  proof (cases "revision = []")
    case True
    then show ?thesis using Suc.prems by auto
  next
    case False
    with Suc.prems obtain r where r: "load_record change d revision = Some r"
        and fresh: "revision \<notin> set (map fst acc)"
        and rest: "collect_chain n change d (lc_previous r) ((revision, r) # acc) = Inr chain"
      by (auto split: if_splits option.splits)
    from Suc.IH [OF rest] obtain new where new: "chain = new @ (revision, r) # acc" "length new \<le> n"
        and apart: "fst ` set new \<inter> fst ` set ((revision, r) # acc) = {}"
        and loads: "\<forall>c \<in> set new. load_record change d (fst c) = Some (snd c)"
        and again: "\<And>m acc' d'. length new \<le> m \<Longrightarrow> fst ` set acc' \<inter> fst ` set new = {} \<Longrightarrow>
          \<forall>c \<in> set new. load_record change d' (fst c) = Some (snd c) \<Longrightarrow>
          collect_chain m change d' (lc_previous r) acc' = Inr (new @ acc')"
        and fails: "\<And>m acc' d'. m < length new \<Longrightarrow>
          \<forall>c \<in> set new. load_record change d' (fst c) = Some (snd c) \<Longrightarrow>
          \<exists>err. collect_chain m change d' (lc_previous r) acc' = Inl err"
      by blast
    let ?new = "new @ [(revision, r)]"
    have "collect_chain m change d' revision acc' = Inr (?new @ acc')"
      if m: "length ?new \<le> m" and disj: "fst ` set acc' \<inter> fst ` set ?new = {}"
        and ld: "\<forall>c \<in> set ?new. load_record change d' (fst c) = Some (snd c)" for m acc' d'
    proof -
      obtain k where k: "m = Suc k" "length new \<le> k" using m by (cases m) auto
      have "fst ` set ((revision, r) # acc') \<inter> fst ` set new = {}" using disj apart by auto
      from again [OF k(2) this] have "collect_chain k change d' (lc_previous r) ((revision, r) # acc') =
          Inr (new @ (revision, r) # acc')" using ld by simp
      moreover have "revision \<notin> set (map fst acc')" using disj by auto
      moreover have "load_record change d' revision = Some r" using ld by simp
      ultimately show ?thesis using False by (simp add: k(1))
    qed
    moreover have "\<exists>err. collect_chain m change d' revision acc' = Inl err"
      if m: "m < length ?new" and ld: "\<forall>c \<in> set ?new. load_record change d' (fst c) = Some (snd c)"
      for m acc' d'
    proof (cases m)
      case 0
      then show ?thesis using False by simp
    next
      case (Suc k)
      have "load_record change d' revision = Some r" using ld by simp
      moreover have "k < length new" using m Suc by simp
      from fails [OF this, of d' "(revision, r) # acc'"] ld
      obtain err where "collect_chain k change d' (lc_previous r) ((revision, r) # acc') = Inl err" by auto
      ultimately show ?thesis using False Suc by simp
    qed
    ultimately show ?thesis using new apart fresh loads r False
      by (intro exI [of _ ?new]) auto
  qed
qed

section \<open>The bytes of a record determine its request\<close>

definition plain_char :: "char \<Rightarrow> bool" where
  "plain_char c \<longleftrightarrow> 0x20 \<le> byte c \<and> byte c < 0x80 \<and> byte c \<notin> {0x22, 0x26, 0x3C, 0x3E, 0x5C}"

lemma plain_not_special:
  "plain_char c \<Longrightarrow> c \<noteq> CHR 0x22 \<and> c \<noteq> CHR 0x5C \<and> c \<noteq> CHR 0x08 \<and> c \<noteq> CHR 0x0C \<and> c \<noteq> CHR 0x0A \<and>
     c \<noteq> CHR 0x0D \<and> c \<noteq> CHR 0x09 \<and> c \<noteq> CHR ''<'' \<and> c \<noteq> CHR ''>'' \<and> c \<noteq> CHR ''&'' \<and>
     \<not> byte c < 0x20 \<and> byte c < 0x80"
  by (intro conjI notI) (simp_all add: plain_char_def byte_def)

lemma escape_plain: "list_all plain_char s \<Longrightarrow> escape_fuel (length s) s = s"
proof (induction s)
  case (Cons c s)
  then have "plain_char c" by simp
  then have "escape_byte c = [c]" "byte c < 0x80" using plain_not_special [of c] by (simp_all add: escape_byte_def)
  then show ?case using Cons by simp
qed simp

lemma quote_plain: "list_all plain_char s \<Longrightarrow> quote s = [CHR 0x22] @ s @ [CHR 0x22]"
  by (simp add: quote_def escape_plain)

lemma quote_peel:
  assumes "list_all plain_char a" "list_all plain_char b" "quote a @ x = quote b @ y"
  shows "a = b \<and> x = y"
proof -
  have cut: "takeWhile (\<lambda>c. c \<noteq> CHR 0x22) (t @ CHR 0x22 # z) = t \<and>
      dropWhile (\<lambda>c. c \<noteq> CHR 0x22) (t @ CHR 0x22 # z) = CHR 0x22 # z"
    if "list_all plain_char t" for t z
  proof -
    have t: "\<forall>c \<in> set t. c \<noteq> CHR 0x22" using that plain_not_special by (auto simp only: list_all_iff)
    have "takeWhile (\<lambda>c. c \<noteq> CHR 0x22) (t @ CHR 0x22 # z) = t @ takeWhile (\<lambda>c. c \<noteq> CHR 0x22) (CHR 0x22 # z)"
      using t by (intro takeWhile_append2) blast
    moreover have "dropWhile (\<lambda>c. c \<noteq> CHR 0x22) (t @ CHR 0x22 # z) = dropWhile (\<lambda>c. c \<noteq> CHR 0x22) (CHR 0x22 # z)"
      using t by (intro dropWhile_append2) blast
    ultimately show ?thesis by simp
  qed
  have same: "a @ CHR 0x22 # x = b @ CHR 0x22 # y"
    using assms(3) unfolding quote_plain [OF assms(1)] quote_plain [OF assms(2)] by simp
  have "a = b" using arg_cong [OF same, of "takeWhile (\<lambda>c. c \<noteq> CHR 0x22)"] cut assms(1,2) by simp
  then show ?thesis using same by simp
qed

lemma plain_alnum: "is_lower_alnum c \<Longrightarrow> plain_char c"
  by (auto simp: is_lower_alnum_def plain_char_def is_lower_alpha_def is_digit_def between_def)

lemma plain_pieces:
  "list_all (list_all plain_char) (split_on CHR ''-'' s) \<Longrightarrow> list_all plain_char s"
proof (induction s)
  case (Cons c s)
  have dash: "plain_char CHR ''-''" by (simp add: plain_char_def byte_def)
  show ?case
  proof (cases "c = CHR ''-''")
    case True
    then show ?thesis using Cons dash by simp
  next
    case False
    obtain w ws where w: "split_on CHR ''-'' s = w # ws" by (cases "split_on CHR ''-'' s") simp_all
    then show ?thesis using Cons False by simp
  qed
qed simp

lemma plain_kebab: "matches_lineage_pattern s \<Longrightarrow> list_all plain_char s"
proof (rule plain_pieces)
  assume "matches_lineage_pattern s"
  then have "list_all (list_all is_lower_alnum) (split_on CHR ''-'' s)"
    by (simp add: matches_lineage_pattern_def list_all_iff)
  then show "list_all (list_all plain_char) (split_on CHR ''-'' s)"
    by (rule list.pred_mono_strong) (auto elim!: list.pred_mono_strong intro: plain_alnum)
qed

lemma plain_revision: "runtime_revision s \<Longrightarrow> list_all plain_char s"
proof -
  assume s: "runtime_revision s"
  then obtain t where t: "s = ''sha256:'' @ t" "list_all is_lower_hex t"
    by (auto simp: runtime_revision_def has_prefix_def prefix_def)
  have "is_lower_hex c \<Longrightarrow> plain_char c" for c
    by (auto simp: is_lower_hex_def plain_char_def is_digit_def between_def)
  then have "list_all plain_char t" using t(2) by (auto simp: list_all_iff)
  moreover have "list_all plain_char ''sha256:''" by (simp add: plain_char_def byte_def)
  ultimately show ?thesis by (simp add: t(1))
qed

lemma plain_request_id: "runtime_request_id s \<Longrightarrow> list_all plain_char s"
proof -
  assume s: "runtime_request_id s"
  have p: "plain_char CHR ''.''" "plain_char CHR ''_''" "plain_char CHR ''-''"
    by (simp_all add: plain_char_def byte_def)
  obtain c cs where c: "s = c # cs" "is_lower_alnum c"
      "list_all (\<lambda>x. is_lower_alnum x \<or> x \<in> set ''._-'') cs"
    using s by (auto simp: runtime_request_id_def split: list.splits)
  have "plain_char x" if "is_lower_alnum x \<or> x \<in> set ''._-''" for x
    using that plain_alnum p by auto
  then have "list_all plain_char cs" using c(3) by (simp add: list_all_iff)
  then show ?thesis using c(1,2) plain_alnum by simp
qed

lemma plain_operation:
  assumes "validate_record_shape r = None"
  shows "list_all plain_char (ledger_op_text (lc_operation r))"
proof (cases "lc_operation r")
  case (OtherOp x)
  then show ?thesis using known_operation [OF assms, of x] by simp
qed (simp_all add: plain_char_def byte_def)

lemma payload_prefix:
  "\<exists>rest. record_payload r = ''{'' @ quote ''schema'' @ '':'' @ quote (lc_schema r) @ '','' @
     quote ''change'' @ '':'' @ quote (lc_change r) @ '','' @
     quote ''previous_revision'' @ '':'' @ quote (lc_previous r) @ '','' @
     quote ''operation'' @ '':'' @ quote (ledger_op_text (lc_operation r)) @ '','' @
     quote ''request_id'' @ '':'' @ quote (lc_request r) @ rest"
proof -
  have join: "join_with sep (x # y # zs) = x @ sep @ join_with sep (y # zs)" for sep x y zs by simp
  show ?thesis unfolding record_payload_def json_ledger_record_def field_def render.simps
      append_Cons append_Nil list.map prod.case join append_assoc by blast
qed

lemma payload_request:
  assumes shapes: "validate_record_shape r = None" "validate_record_shape r' = None"
    and same: "record_payload r = record_payload r'"
  shows "lc_request r = lc_request r'"
proof -
  note i = shape_identity [OF shapes(1)] shape_identity [OF shapes(2)]
  obtain x where x: "record_payload r = ''{'' @ quote ''schema'' @ '':'' @ quote (lc_schema r) @ '','' @
     quote ''change'' @ '':'' @ quote (lc_change r) @ '','' @
     quote ''previous_revision'' @ '':'' @ quote (lc_previous r) @ '','' @
     quote ''operation'' @ '':'' @ quote (ledger_op_text (lc_operation r)) @ '','' @
     quote ''request_id'' @ '':'' @ quote (lc_request r) @ x"
    using payload_prefix by blast
  obtain y where y: "record_payload r' = ''{'' @ quote ''schema'' @ '':'' @ quote (lc_schema r') @ '','' @
     quote ''change'' @ '':'' @ quote (lc_change r') @ '','' @
     quote ''previous_revision'' @ '':'' @ quote (lc_previous r') @ '','' @
     quote ''operation'' @ '':'' @ quote (ledger_op_text (lc_operation r')) @ '','' @
     quote ''request_id'' @ '':'' @ quote (lc_request r') @ y"
    using payload_prefix by blast
  have schema: "lc_schema r = lc_schema r'" using i by (simp add: record_identity_ok_def)
  have prev: "list_all plain_char (lc_previous t)" if "record_identity_ok t" for t
    using that plain_revision by (auto simp: record_identity_ok_def)
  have chg: "list_all plain_char (lc_change t)" "list_all plain_char (lc_request t)"
    if "record_identity_ok t" for t
    using that plain_kebab plain_request_id by (auto simp: record_identity_ok_def valid_binding_change_def)
  have eq: "quote (lc_change r) @ '','' @
     quote ''previous_revision'' @ '':'' @ quote (lc_previous r) @ '','' @
     quote ''operation'' @ '':'' @ quote (ledger_op_text (lc_operation r)) @ '','' @
     quote ''request_id'' @ '':'' @ quote (lc_request r) @ x =
     quote (lc_change r') @ '','' @
     quote ''previous_revision'' @ '':'' @ quote (lc_previous r') @ '','' @
     quote ''operation'' @ '':'' @ quote (ledger_op_text (lc_operation r')) @ '','' @
     quote ''request_id'' @ '':'' @ quote (lc_request r') @ y"
    using same unfolding x y schema by simp
  note q1 = conjunct2 [OF quote_peel [OF chg(1) [OF i(1)] chg(1) [OF i(2)] eq]]
  have q2: "quote (lc_previous r) @ '','' @
     quote ''operation'' @ '':'' @ quote (ledger_op_text (lc_operation r)) @ '','' @
     quote ''request_id'' @ '':'' @ quote (lc_request r) @ x =
     quote (lc_previous r') @ '','' @
     quote ''operation'' @ '':'' @ quote (ledger_op_text (lc_operation r')) @ '','' @
     quote ''request_id'' @ '':'' @ quote (lc_request r') @ y"
    using q1 by simp
  note q3 = conjunct2 [OF quote_peel [OF prev [OF i(1)] prev [OF i(2)] q2]]
  have q4: "quote (ledger_op_text (lc_operation r)) @ '','' @ quote ''request_id'' @ '':'' @ quote (lc_request r) @ x =
     quote (ledger_op_text (lc_operation r')) @ '','' @ quote ''request_id'' @ '':'' @ quote (lc_request r') @ y"
    using q3 by simp
  note q5 = conjunct2 [OF quote_peel [OF plain_operation [OF shapes(1)] plain_operation [OF shapes(2)] q4]]
  have "quote (lc_request r) @ x = quote (lc_request r') @ y" using q5 by simp
  from quote_peel [OF chg(2) [OF i(1)] chg(2) [OF i(2)] this] show ?thesis by blast
qed

section \<open>Loading\<close>

lemma load_parts:
  assumes "load_ledger change d = Inr y"
  shows "\<exists>chain. collect_chain max_chain_records change d (ls_revision (ly_status y)) [] = Inr chain \<and>
    apply_records chain (empty_replay change) = Inr y \<and>
    dk_head d = (if ls_revision (ly_status y) = [] then NoHead else HeadFile (ls_revision (ly_status y))) \<and>
    (ls_revision (ly_status y) = [] \<or> runtime_revision (ls_revision (ly_status y)))"
proof (cases "dk_head d")
  case NoHead
  then have "y = empty_replay change" using assms by (simp add: load_ledger_def)
  then show ?thesis using NoHead
    by (intro exI [of _ "[]"]) (simp add: empty_replay_def empty_status_def collect_chain.simps)
next
  case BadHeadFile
  then show ?thesis using assms by (simp add: load_ledger_def)
next
  case (HeadFile h)
  then have h: "runtime_revision h" using assms by (auto simp: load_ledger_def split: if_splits)
  moreover from this have "h \<noteq> []" by (auto simp: runtime_revision_def)
  ultimately show ?thesis using assms HeadFile
    by (auto simp: load_ledger_def split: sum.splits if_splits)
qed

lemma load_from_parts:
  assumes "collect_chain max_chain_records change d h [] = Inr chain"
    "apply_records chain (empty_replay change) = Inr y" "dk_head d = HeadFile h" "runtime_revision h"
    "ls_revision (ly_status y) = h"
  shows "load_ledger change d = Inr y"
  using assms by (simp add: load_ledger_def)

lemma load_inv: "load_ledger change d = Inr y \<Longrightarrow> ledger_inv (ly_status y)"
proof -
  assume "load_ledger change d = Inr y"
  from load_parts [OF this] obtain chain where
      c: "collect_chain max_chain_records change d (ls_revision (ly_status y)) [] = Inr chain"
      "apply_records chain (empty_replay change) = Inr y" by blast
  from collect_chain_extends [OF c(1)] have "length chain \<le> 10000" by (auto simp: max_chain_records_def)
  then show ?thesis
    using apply_records_inv [OF c(2)] by (simp add: empty_replay_def empty_status_inv) (simp add: empty_status_def)
qed

lemma load_requests:
  assumes "load_ledger change d = Inr y"
  shows "finite (dom (ly_requests y)) \<and> card (dom (ly_requests y)) \<le> max_chain_records"
proof -
  from load_parts [OF assms] obtain chain where
      c: "collect_chain max_chain_records change d (ls_revision (ly_status y)) [] = Inr chain"
      "apply_records chain (empty_replay change) = Inr y" by blast
  have "finite (dom (ly_requests y))" unfolding replayed_chain(1) [OF c(2)] by simp
  then show ?thesis using collect_chain_extends [OF c(1)] replayed_chain(2) [OF c(2)] by auto
qed

section \<open>Committing a record\<close>

text \<open>What an operation knows of the record it commits.\<close>

definition next_record :: "string \<Rightarrow> ledger_record \<Rightarrow> ledger_replay \<Rightarrow> bool" where
  "next_record change r y \<longleftrightarrow>
     validate_record_shape r = None \<and> lc_change r = change \<and> lc_previous r = ls_revision (ly_status y) \<and>
     ly_requests y (lc_request r) = None"

definition advanced :: "ledger_record \<Rightarrow> runtime_status \<Rightarrow> ledger_replay \<Rightarrow> ledger_replay" where
  "advanced r s y =
     \<lparr>ly_status = s\<lparr>ls_revision := record_revision r\<rparr>,
      ly_requests = (ly_requests y)(lc_request r \<mapsto> (lc_digest r, record_revision r))\<rparr>"

lemma runtime_identity: "runtime_revision (identity_of p)"
  by (simp add: runtime_revision_def identity_of_def has_prefix_def length_sha256_hex sha256_hex_lower_hex)

lemma published_records:
  assumes "publish_record r d = Inr d'"
  shows "dk_head d' = dk_head d \<and> dk_legacy d' = dk_legacy d \<and>
    dk_records d' = (dk_records d)(record_revision r \<mapsto> r) \<and>
    (\<forall>old. dk_records d (record_revision r) = Some old \<longrightarrow> record_payload old = record_payload r)"
  using assms by (auto simp: publish_record_def Let_def split: option.splits if_splits)

lemma new_record_not_in_chain:
  assumes y: "apply_records chain (empty_replay change) = Inr y"
    and c: "\<forall>c \<in> set chain. load_record change d (fst c) = Some (snd c)"
    and r: "next_record change r y" and pub: "publish_record r d = Inr d'"
  shows "record_revision r \<notin> fst ` set chain"
proof
  assume "record_revision r \<in> fst ` set chain"
  then obtain old where old: "(record_revision r, old) \<in> set chain" by auto
  then have "dk_records d (record_revision r) = Some old" using c by (force simp: load_record_Some)
  then have "record_payload old = record_payload r" using published_records [OF pub] by blast
  moreover have "validate_record_shape old = None" using replayed_chain(3) [OF y old] by simp
  ultimately have "lc_request old = lc_request r"
    using payload_request [of old r] r by (simp add: next_record_def)
  then have "lc_request r \<in> dom (ly_requests y)" using replayed_chain(4) [OF y old] by simp
  then show False using r by (auto simp: next_record_def)
qed

lemma published_chain:
  assumes "\<forall>c \<in> set chain. load_record change d (fst c) = Some (snd c)"
    "record_revision r \<notin> fst ` set chain" "publish_record r d = Inr d'"
  shows "\<forall>c \<in> set chain. load_record change d' (fst c) = Some (snd c)"
  using assms published_records [OF assms(3)] by (auto simp: load_record_Some image_iff)

lemma publish_keeps_load:
  assumes y: "load_ledger change d = Inr y" and r: "next_record change r y" and pub: "publish_record r d = Inr d'"
  shows "load_ledger change d' = Inr y"
proof -
  from load_parts [OF y] obtain chain where
      c: "collect_chain max_chain_records change d (ls_revision (ly_status y)) [] = Inr chain"
      "apply_records chain (empty_replay change) = Inr y"
      and h: "dk_head d = (if ls_revision (ly_status y) = [] then NoHead else HeadFile (ls_revision (ly_status y)))"
      "ls_revision (ly_status y) = [] \<or> runtime_revision (ls_revision (ly_status y))" by blast
  from collect_chain_extends [OF c(1)]
  have len: "length chain \<le> max_chain_records"
    and loads: "\<forall>c \<in> set chain. load_record change d (fst c) = Some (snd c)"
    and again: "\<And>m d'. length chain \<le> m \<Longrightarrow> \<forall>c \<in> set chain. load_record change d' (fst c) = Some (snd c) \<Longrightarrow>
        collect_chain m change d' (ls_revision (ly_status y)) [] = Inr chain"
    by auto
  note n = new_record_not_in_chain [OF c(2) loads r pub]
  note c' = again [OF len published_chain [OF loads n pub]]
  have h': "dk_head d' = dk_head d" using published_records [OF pub] by simp
  show ?thesis
  proof (cases "ls_revision (ly_status y) = []")
    case True
    then have "chain = []" using c(1) by (simp add: collect_chain.simps)
    then show ?thesis using True c(2) h h' by (simp add: load_ledger_def)
  next
    case False
    then show ?thesis using load_from_parts [OF c' c(2)] h h' by simp
  qed
qed

lemma commit_loads:
  assumes y: "load_ledger change d = Inr y" and r: "next_record change r y" and pub: "publish_record r d = Inr d'"
    and s: "apply_event (record_revision r) r (ly_status y) = Inr s"
  shows "if record_readable r \<and> card (dom (ly_requests y)) < max_chain_records
    then load_ledger change (publish_head (record_revision r) d') = Inr (advanced r s y)
    else (\<exists>err. load_ledger change (publish_head (record_revision r) d') = Inl err)"
proof -
  let ?d = "publish_head (record_revision r) d'"
  from load_parts [OF y] obtain chain where
      c: "collect_chain max_chain_records change d (ls_revision (ly_status y)) [] = Inr chain"
      "apply_records chain (empty_replay change) = Inr y" by blast
  from collect_chain_extends [OF c(1)]
  have len: "length chain \<le> max_chain_records"
    and loads: "\<forall>c \<in> set chain. load_record change d (fst c) = Some (snd c)"
    and again: "\<And>m acc' d'. length chain \<le> m \<Longrightarrow> fst ` set acc' \<inter> fst ` set chain = {} \<Longrightarrow>
        \<forall>c \<in> set chain. load_record change d' (fst c) = Some (snd c) \<Longrightarrow>
        collect_chain m change d' (ls_revision (ly_status y)) acc' = Inr (chain @ acc')"
    and fails: "\<And>m acc' d'. m < length chain \<Longrightarrow>
        \<forall>c \<in> set chain. load_record change d' (fst c) = Some (snd c) \<Longrightarrow>
        \<exists>err. collect_chain m change d' (ls_revision (ly_status y)) acc' = Inl err"
    by auto
  note n = new_record_not_in_chain [OF c(2) loads r pub]
  have same: "load_record change ?d = load_record change d'" by (rule ext) (simp add: load_record_def publish_head_def)
  have loads': "\<forall>c \<in> set chain. load_record change ?d (fst c) = Some (snd c)"
    unfolding same by (rule published_chain [OF loads n pub])
  note card = replayed_chain(2) [OF c(2)]
  have rev: "runtime_revision (record_revision r)" by (simp add: record_revision_def runtime_identity)
  then have ne: "record_revision r \<noteq> []" by (auto simp: runtime_revision_def)
  have head: "dk_head ?d = HeadFile (record_revision r)" by (simp add: publish_head_def)
  have prev: "lc_previous r = ls_revision (ly_status y)" using r by (simp add: next_record_def)
  obtain m where m: "max_chain_records = Suc m" by (simp add: max_chain_records_def)
  show ?thesis
  proof (cases "record_readable r")
    case False
    then have "load_record change ?d (record_revision r) = None"
      using published_records [OF pub] unfolding same by (simp add: load_record_def)
    then have "collect_chain max_chain_records change ?d (record_revision r) [] = Inl RecordUnreadable"
      using ne by (simp add: m)
    then show ?thesis using False head rev by (simp add: load_ledger_def)
  next
    case True
    then have l: "load_record change ?d (record_revision r) = Some r"
      using published_records [OF pub] r rev unfolding same by (simp add: load_record_def next_record_def)
    then have step: "collect_chain max_chain_records change ?d (record_revision r) [] =
        collect_chain m change ?d (ls_revision (ly_status y)) [(record_revision r, r)]"
      using ne by (simp add: m prev)
    show ?thesis
    proof (cases "length chain \<le> m")
      case True
      have "collect_chain max_chain_records change ?d (record_revision r) [] = Inr (chain @ [(record_revision r, r)])"
        unfolding step using again [OF True _ loads', of "[(record_revision r, r)]"] n by simp
      moreover have "apply_records (chain @ [(record_revision r, r)]) (empty_replay change) = Inr (advanced r s y)"
        using c(2) r s by (simp add: apply_records_append apply_record_def next_record_def advanced_def)
      ultimately have "load_ledger change ?d = Inr (advanced r s y)"
        by (rule load_from_parts [OF _ _ head rev]) (simp add: advanced_def)
      then show ?thesis using True \<open>record_readable r\<close> card m by simp
    next
      case False
      then obtain err where "collect_chain m change ?d (ls_revision (ly_status y)) [(record_revision r, r)] = Inl err"
        using fails [OF _ loads'] by force
      then have "load_ledger change ?d = Inl err" using head rev by (simp add: load_ledger_def step del: collect_chain.simps)
      then show ?thesis using False card m by simp
    qed
  qed
qed

end
