(* ===== verification/LedgerSafety.thy ===== *)
theory LedgerSafety
  imports LedgerChain
begin

text \<open>
  The operations of the runtime ledger against its replay: the record an operation builds from a
  replayed status applies to that status, so that whatever is committed can be replayed. The calls
  are collected in one type, and what a call does to the files follows for all of them.
\<close>

section \<open>What is built applies\<close>

lemma sealed_record_fields [simp]:
  "lc_change (sealed_record change expected request digest r) = change"
  "lc_previous (sealed_record change expected request digest r) = expected"
  "lc_request (sealed_record change expected request digest r) = request"
  "lc_digest (sealed_record change expected request digest r) = digest"
  "lc_operation (sealed_record change expected request digest r) = lc_operation r"
  "lc_begin (sealed_record change expected request digest r) = lc_begin r"
  "lc_finish (sealed_record change expected request digest r) = lc_finish r"
  "lc_reset (sealed_record change expected request digest r) = lc_reset r"
  "lc_binding (sealed_record change expected request digest r) = lc_binding r"
  by (simp_all add: sealed_record_def)

lemma blank_record_fields [simp]:
  "lc_operation (blank_record op) = op" "lc_begin (blank_record op) = None"
  "lc_finish (blank_record op) = None" "lc_reset (blank_record op) = None" "lc_binding (blank_record op) = None"
  by (simp_all add: blank_record_def)

lemma begin_candidate_Inr:
  assumes "begin_candidate v q s = Inr (g, i, t)"
  shows "case ls_objective s of None \<Rightarrow> g = go_add (ls_generation s) 1
    | Some oj \<Rightarrow> g = oj_generation oj \<and> bq_work_unit q = oj_work_unit oj \<and> bq_goal q = oj_goal oj \<and>
        bq_max_attempts q = oj_max_attempts oj \<and> bq_max_lines q = oj_max_lines oj \<and>
        ls_attempts s \<noteq> [] \<and> t = at_finish_tree (last (ls_attempts s))"
  using assms by (auto simp: begin_candidate_def Let_def split: option.splits if_splits)

lemma begin_applies:
  assumes inv: "ledger_inv (ly_status y)" and len: "length (ls_attempts (ly_status y)) \<le> 10000"
    and b: "build_begin change v q y = Inr r0"
  shows "\<exists>t. apply_event revision (sealed_record change expected request digest r0) (ly_status y) = Inr t"
proof -
  let ?s = "ly_status y" and ?r = "sealed_record change expected request digest r0"
  note small = ledger_small [OF inv len]
  obtain g i t oid where idle: "ls_active ?s = None" "\<not> ls_complete ?s" "\<not> ls_decision ?s"
      and c: "begin_candidate v q ?s = Inr (g, i, t)"
      and room: "ls_cumulative_attempts ?s < bq_max_attempts q" "ls_cumulative_lines ?s < bq_max_lines q"
      and oid: "oid = (case ls_objective ?s of Some oj \<Rightarrow> oj_id oj
          | None \<Rightarrow> runtime_objective_id change (bq_work_unit q) (bq_goal q) i g)"
      and r0: "r0 = (blank_record OpBegin)\<lparr>lc_begin := Some
               \<lparr>bv_objective = oid, bv_generation = g, bv_work_unit = bq_work_unit q,
                bv_goal = bq_goal q, bv_max_attempts = bq_max_attempts q, bv_max_lines = bq_max_lines q,
                bv_ordinal = ls_next_ordinal ?s, bv_identity = i, bv_tree = t\<rparr>\<rparr>"
    using b by (auto simp: build_begin_def Let_def split: if_splits sum.splits prod.splits)
  show ?thesis
  proof (cases "ls_objective ?s")
    case None
    then have "g = go_add (ls_generation ?s) 1" using begin_candidate_Inr [OF c] by simp
    moreover from this have "g \<noteq> 0" using small by (simp add: go_add_small)
    ultimately show ?thesis using idle None room
      by (simp add: apply_event_def apply_begin_def enter_objective_def r0 oid objective_id_known_def Let_def)
  next
    case (Some oj)
    then show ?thesis using idle room begin_candidate_Inr [OF c]
      by (simp add: apply_event_def apply_begin_def enter_objective_def r0 oid Let_def)
  qed
qed

lemma finish_event_fields [simp]:
  "fv_ordinal (finish_event_of q a oj s c n) = at_ordinal a" "fv_lines (finish_event_of q a oj s c n) = n"
  "fv_outcome (finish_event_of q a oj s c n) = fq_outcome q" "fv_tree (finish_event_of q a oj s c n) = snd c"
  "fv_remediates (finish_event_of q a oj s c n) = fq_remediates q"
  "fv_exceeded (finish_event_of q a oj s c n) \<longleftrightarrow> go_add (ls_cumulative_lines s) n > oj_max_lines oj"
  by (simp_all add: finish_event_of_def)

lemma finish_event_applies:
  assumes "ledger_inv s" "ls_active s = Some a" "ls_objective s = Some oj"
  shows "\<exists>t. apply_finish (finish_event_of q a oj s c n) s = Inr t"
  using assms by (simp add: apply_finish_def ledger_inv_def phase_matches_def)

lemma remediation_event_Inr:
  assumes "remediation_event change v q current legacy tree = Inr b"
  shows "nv_expected b = fq_binding q \<and> sb_lineage (nv_current b) \<noteq> sb_lineage current \<and>
    map_option li_binding (nv_legacy b) = map_option fst legacy \<and> gc_candidate (sb_context (nv_current b)) = tree"
  using assms by (auto simp: remediation_event_def remediation_successor_def split: option.splits if_splits sum.splits)

lemma build_finish_Inr:
  assumes "build_finish change v legacy_file q y = Inr r0"
  obtains a oj binding legacy c n where "ls_active (ly_status y) = Some a" "ls_objective (ly_status y) = Some oj"
    "finish_binding change legacy_file q (ly_status y) = Inr (binding, legacy)"
    "remediation_guard q (ly_status y) binding = None" "unchanged_guard change v q a binding (snd c) = None"
    "vw_overlay v (at_begin_tree a) = Some c" "vw_changed v (at_begin_tree a) = Some n"
    "if requests_remediation q
     then \<exists>b. remediation_event change v q (the binding) legacy (snd c) = Inr b \<and>
       r0 = (blank_record OpFinishRemediation)
         \<lparr>lc_finish := Some (finish_event_of q a oj (ly_status y) c n), lc_binding := Some b\<rparr>
     else r0 = (blank_record OpFinish)\<lparr>lc_finish := Some (finish_event_of q a oj (ly_status y) c n)\<rparr>"
  using assms
  by (auto simp: build_finish_def Let_def split: option.splits sum.splits if_splits prod.splits)

lemma finish_applies:
  assumes inv: "ledger_inv (ly_status y)" and b: "build_finish change v legacy_file q y = Inr r0"
  shows "\<exists>t. apply_event revision (sealed_record change expected request digest r0) (ly_status y) = Inr t"
  using b
proof (rule build_finish_Inr)
  let ?s = "ly_status y"
  fix a oj binding legacy c n
  assume s: "ls_active ?s = Some a" "ls_objective ?s = Some oj"
    and fb: "finish_binding change legacy_file q ?s = Inr (binding, legacy)"
    and g: "remediation_guard q ?s binding = None"
    and r0: "if requests_remediation q
     then \<exists>b. remediation_event change v q (the binding) legacy (snd c) = Inr b \<and>
       r0 = (blank_record OpFinishRemediation)
         \<lparr>lc_finish := Some (finish_event_of q a oj ?s c n), lc_binding := Some b\<rparr>
     else r0 = (blank_record OpFinish)\<lparr>lc_finish := Some (finish_event_of q a oj ?s c n)\<rparr>"
  obtain t where t: "apply_finish (finish_event_of q a oj ?s c n) ?s = Inr t"
    using finish_event_applies [OF inv s] by blast
  show ?thesis
  proof (cases "requests_remediation q")
    case False
    then show ?thesis using r0 t by (simp add: apply_event_def)
  next
    case True
    then obtain b where b: "remediation_event change v q (the binding) legacy (snd c) = Inr b"
        and r: "r0 = (blank_record OpFinishRemediation)
         \<lparr>lc_finish := Some (finish_event_of q a oj ?s c n), lc_binding := Some b\<rparr>"
      using r0 by auto
    obtain current where cur: "binding = Some current" "sb_revision current = fq_binding q"
        and ev: "ls_evidence ?s = [] \<or> ls_evidence ?s = fq_remediates q"
      using g True by (auto simp: remediation_guard_def split: option.splits if_splits)
    note e = remediation_event_Inr [OF b]
    have legacy: "if ls_binding ?s = None then map_option li_binding (nv_legacy b) = Some current
        else ls_binding ?s = Some current \<and> nv_legacy b = None"
      using fb cur e by (auto simp: finish_binding_def split: if_splits sum.splits)
    have frame: "ls_binding t = ls_binding ?s" "ls_binding_revision t = ls_binding_revision ?s"
      using apply_finish_Inr [OF t] by auto
    have bind: "\<exists>u. apply_binding b t = Inr u"
    proof (cases "ls_binding ?s")
      case None
      then obtain i where "nv_legacy b = Some i" "li_binding i = current" using legacy by auto
      then show ?thesis using None cur e frame by (simp add: apply_binding_def)
    next
      case (Some x)
      then have "ls_binding_revision ?s = sb_revision current"
        using legacy inv by (simp add: ledger_inv_def binding_sound_def)
      then show ?thesis using Some legacy cur e frame by (simp add: apply_binding_def)
    qed
    have "(case ls_binding ?s of Some x \<Rightarrow> Some x | None \<Rightarrow> map_option li_binding (nv_legacy b)) = Some current"
      using legacy by (auto split: option.splits)
    then show ?thesis using t bind cur e ev
      by (auto simp: apply_event_def r apply_remediation_def)
  qed
qed

lemma reset_applies:
  assumes inv: "ledger_inv (ly_status y)" and b: "build_reset v q y = Inr r0"
  shows "\<exists>t. apply_event revision (sealed_record change expected request digest r0) (ly_status y) = Inr t"
proof -
  have "oj_generation oj = ls_generation (ly_status y)" if "ls_objective (ly_status y) = Some oj" for oj
    using inv that by (simp add: ledger_inv_def budget_kept_def)
  then show ?thesis using b
    by (auto simp: build_reset_def Let_def apply_event_def apply_reset_def split: if_splits option.splits)
qed

lemma bind_applies:
  assumes inv: "ledger_inv s" and b: "build_bind change v legacy_file q s = Inr (Some e)"
  shows "\<exists>t. apply_event revision
    (sealed_record change expected request digest ((blank_record OpBind)\<lparr>lc_binding := Some e\<rparr>)) s = Inr t"
proof (cases "ls_binding s")
  case None
  then show ?thesis using b
    by (auto simp: build_bind_def Let_def apply_event_def apply_binding_def
        split: sum.splits option.splits if_splits prod.splits)
next
  case (Some x)
  then show ?thesis using b
    by (auto simp: build_bind_def Let_def apply_event_def apply_binding_def
        split: sum.splits option.splits if_splits prod.splits)
qed

section \<open>Calls\<close>

datatype ledger_call =
    CallBegin begin_request | CallFinish finish_request | CallReset reset_request | CallBind bind_request

fun run_call :: "string \<Rightarrow> ledger_view \<Rightarrow> ledger_call \<Rightarrow> ledger_disk \<Rightarrow> ledger_step" where
  "run_call change v (CallBegin q) d = ledger_begin change v q d"
| "run_call change v (CallFinish q) d = ledger_finish change v q d"
| "run_call change v (CallReset q) d = ledger_reset change v q d"
| "run_call change v (CallBind q) d = ledger_bind change v q d"

fun call_id :: "ledger_call \<Rightarrow> string" where
  "call_id (CallBegin q) = bq_id q"
| "call_id (CallFinish q) = fq_id q"
| "call_id (CallReset q) = zq_id q"
| "call_id (CallBind q) = nq_id q"

fun call_digest :: "ledger_call \<Rightarrow> (ledger_error + string)" where
  \<comment> \<open>the digest of the normalised request\<close>
  "call_digest (CallBegin q) = map_sum id begin_digest (normalize_begin q)"
| "call_digest (CallFinish q) = map_sum id finish_digest (normalize_finish q)"
| "call_digest (CallReset q) = map_sum id reset_digest (normalize_reset q)"
| "call_digest (CallBind q) = map_sum id bind_digest (normalize_bind q)"

definition commits :: "string \<Rightarrow> ledger_disk \<Rightarrow> string \<Rightarrow> string \<Rightarrow> ledger_step \<Rightarrow> bool" where
  \<comment> \<open>the step is the commit of a record that was built from the replayed status and applies to it\<close>
  "commits change d request digest step \<longleftrightarrow>
     (\<exists>y r s. load_ledger change d = Inr y \<and> next_record change r y \<and> lc_request r = request \<and>
        lc_digest r = digest \<and> apply_event (record_revision r) r (ly_status y) = Inr s \<and>
        step = commit_record change r d)"

lemma load_attempts: "load_ledger change d = Inr y \<Longrightarrow> length (ls_attempts (ly_status y)) \<le> 10000"
proof -
  assume "load_ledger change d = Inr y"
  from load_parts [OF this] obtain chain where
      c: "collect_chain max_chain_records change d (ls_revision (ly_status y)) [] = Inr chain"
      "apply_records chain (empty_replay change) = Inr y" by blast
  from collect_chain_extends [OF c(1)] have "length chain \<le> 10000" by (auto simp: max_chain_records_def)
  then show ?thesis
    using apply_records_inv [OF c(2)] by (simp add: empty_replay_def empty_status_inv) (simp add: empty_status_def)
qed

lemma commit_checked_cases:
  assumes y: "load_ledger change d = Inr y" and f: "ly_requests y (lc_request r) = None"
    and p: "lc_previous r = ls_revision (ly_status y)" "lc_change r = change"
    and s: "\<exists>s. apply_event (record_revision r) r (ly_status y) = Inr s"
  shows "(\<exists>err. commit_checked change r d = (d, Inl err)) \<or>
    commits change d (lc_request r) (lc_digest r) (commit_checked change r d)"
proof (cases "validate_record_shape r")
  case None
  then show ?thesis using y p s f by (auto simp: commit_checked_def commits_def next_record_def)
qed (simp add: commit_checked_def)

lemma mutate_cases:
  assumes builds: "\<And>y r0. load_ledger change d = Inr y \<Longrightarrow> build y = Inr r0 \<Longrightarrow>
      \<exists>s. apply_event (record_revision (sealed_record change expected request digest r0))
        (sealed_record change expected request digest r0) (ly_status y) = Inr s"
  shows "(\<exists>err. mutate change expected request digest build d = (d, Inl err)) \<or>
    (\<exists>y rev. load_ledger change d = Inr y \<and> ly_requests y request = Some (digest, rev) \<and>
       mutate change expected request digest build d = (d, Inr (ly_status y))) \<or>
    (\<exists>y. load_ledger change d = Inr y \<and> ls_revision (ly_status y) = expected) \<and>
    commits change d request digest (mutate change expected request digest build d)"
proof (cases "load_ledger change d")
  case (Inl err)
  then show ?thesis by (simp add: mutate_def)
next
  case y: (Inr y)
  show ?thesis
  proof (cases "ly_requests y request")
    case (Some c)
    then show ?thesis using y by (cases c) (auto simp: mutate_def)
  next
    case None
    show ?thesis
    proof (cases "ls_revision (ly_status y) = expected")
      case False
      then show ?thesis using y None by (simp add: mutate_def)
    next
      case True
      show ?thesis
      proof (cases "build y")
        case (Inl err)
        then show ?thesis using y None True by (simp add: mutate_def)
      next
        case (Inr r0)
        let ?r = "sealed_record change expected request digest r0"
        have "mutate change expected request digest build d = commit_checked change ?r d"
          using y None True Inr by (simp add: mutate_def)
        moreover have "(\<exists>err. commit_checked change ?r d = (d, Inl err)) \<or>
            commits change d (lc_request ?r) (lc_digest ?r) (commit_checked change ?r d)"
          by (rule commit_checked_cases [OF y]) (simp_all add: None True builds [OF y Inr])
        ultimately show ?thesis using y True by auto
      qed
    qed
  qed
qed

lemma ledger_bind_cases:
  assumes q: "normalize_bind q0 = Inr q"
  shows "(\<exists>err. ledger_bind change v q0 d = (d, Inl err)) \<or>
    (\<exists>y. load_ledger change d = Inr y \<and> ledger_bind change v q0 d = (d, Inr (ly_status y))) \<or>
    commits change d (nq_id q) (bind_digest q) (ledger_bind change v q0 d)"
proof (cases "load_ledger change d")
  case (Inl err)
  then show ?thesis by (simp add: ledger_bind_def q)
next
  case y: (Inr y)
  show ?thesis
  proof (cases "ly_requests y (nq_id q)")
    case (Some c)
    then show ?thesis using y by (cases c) (auto simp: ledger_bind_def q)
  next
    case None
    show ?thesis
    proof (cases "build_bind change v (dk_legacy d) q (ly_status y)")
      case (Inl err)
      then show ?thesis using y None by (simp add: ledger_bind_def q)
    next
      case b: (Inr e)
      show ?thesis
      proof (cases e)
        case None': None
        then show ?thesis using y None b by (auto simp: ledger_bind_def q)
      next
        case (Some e')
        let ?r = "sealed_record change (ls_revision (ly_status y)) (nq_id q) (bind_digest q)
            ((blank_record OpBind)\<lparr>lc_binding := Some e'\<rparr>)"
        have "ledger_bind change v q0 d = commit_checked change ?r d"
          using y None b Some by (simp add: ledger_bind_def q)
        moreover have "(\<exists>err. commit_checked change ?r d = (d, Inl err)) \<or>
            commits change d (lc_request ?r) (lc_digest ?r) (commit_checked change ?r d)"
          by (rule commit_checked_cases [OF y])
            (use None bind_applies [OF load_inv [OF y]] b Some in simp_all)
        ultimately show ?thesis by auto
      qed
    qed
  qed
qed

lemma run_call_cases:
  "(\<exists>err. run_call change v call d = (d, Inl err)) \<or>
   (\<exists>y. load_ledger change d = Inr y \<and> run_call change v call d = (d, Inr (ly_status y))) \<or>
   (\<exists>digest. call_digest call = Inr digest \<and> commits change d (call_id call) digest (run_call change v call d))"
proof (cases call)
  case (CallBegin q0)
  show ?thesis
  proof (cases "normalize_begin q0")
    case (Inr q)
    then have id: "bq_id q = bq_id q0" by (auto simp: normalize_begin_def Let_def split: if_splits)
    from mutate_cases [of change d "build_begin change v q" "bq_expected q" "bq_id q" "begin_digest q"]
      begin_applies [OF load_inv load_attempts]
    show ?thesis using Inr by (auto simp: CallBegin ledger_begin_def id)
  qed (simp add: CallBegin ledger_begin_def)
next
  case (CallFinish q0)
  show ?thesis
  proof (cases "normalize_finish q0")
    case (Inr q)
    then have id: "fq_id q = fq_id q0" by (auto simp: normalize_finish_def split: if_splits)
    from mutate_cases [of change d "build_finish change v (dk_legacy d) q" "fq_expected q" "fq_id q" "finish_digest q"]
      finish_applies [OF load_inv]
    show ?thesis using Inr by (auto simp: CallFinish ledger_finish_def id)
  qed (simp add: CallFinish ledger_finish_def)
next
  case (CallReset q0)
  show ?thesis
  proof (cases "normalize_reset q0")
    case (Inr q)
    then have id: "zq_id q = zq_id q0" by (auto simp: normalize_reset_def split: if_splits)
    from mutate_cases [of change d "build_reset v q" "zq_expected q" "zq_id q" "reset_digest q"]
      reset_applies [OF load_inv]
    show ?thesis using Inr by (auto simp: CallReset ledger_reset_def id)
  qed (simp add: CallReset ledger_reset_def)
next
  case (CallBind q0)
  show ?thesis
  proof (cases "normalize_bind q0")
    case (Inr q)
    then have id: "nq_id q = nq_id q0" by (auto simp: normalize_bind_def split: if_splits)
    from ledger_bind_cases [OF Inr, of change v d] show ?thesis using Inr by (auto simp: CallBind id)
  qed (simp add: CallBind ledger_bind_def)
qed

end
