(* ===== verification/LedgerCalls.thy ===== *)
theory LedgerCalls
  imports LedgerSafety
begin

text \<open>
  What a call of the runtime ledger does to its files: it leaves them alone, or it appends the one
  record it built, and the status of the replay changes as that record says. Attempts that are over
  and the bound review follow from this, one lemma for each kind of record.
\<close>

section \<open>Calls and the files\<close>

lemma commit_result:
  assumes y: "load_ledger change d = Inr y" and r: "next_record change r y"
    and s: "apply_event (record_revision r) r (ly_status y) = Inr s"
  shows "(\<exists>err. commit_record change r d = (d, Inl err)) \<or>
    (\<exists>d'. publish_record r d = Inr d' \<and>
       (if record_readable r \<and> card (dom (ly_requests y)) < max_chain_records
        then load_ledger change (publish_head (record_revision r) d') = Inr (advanced r s y) \<and>
          commit_record change r d =
            (publish_head (record_revision r) d', Inr (ly_status (advanced r s y)))
        else (\<exists>err. load_ledger change (publish_head (record_revision r) d') = Inl err \<and>
          commit_record change r d = (publish_head (record_revision r) d', Inl (CommittedUnreadable err)))))"
proof (cases "publish_record r d")
  case (Inl err)
  then show ?thesis by (simp add: commit_record_def)
next
  case pub: (Inr d')
  have rvn: "ls_revision (ly_status (advanced r s y)) = record_revision r" by (simp add: advanced_def)
  show ?thesis
  proof (cases "record_readable r \<and> card (dom (ly_requests y)) < max_chain_records")
    case True
    then have "load_ledger change (publish_head (record_revision r) d') = Inr (advanced r s y)"
      using commit_loads [OF y r pub s] by simp
    then show ?thesis using True pub rvn by (simp add: commit_record_def Let_def)
  next
    case False
    then obtain err where "load_ledger change (publish_head (record_revision r) d') = Inl err"
      using commit_loads [OF y r pub s] by (simp only: if_False) blast
    then show ?thesis using False pub by (auto simp: commit_record_def Let_def)
  qed
qed

lemma commits_result:
  assumes "commits change d request digest step"
  obtains (refused) err where "step = (d, Inl err)"
  | (written) y r s d' where "load_ledger change d = Inr y" "next_record change r y" "lc_request r = request"
      "lc_digest r = digest" "apply_event (record_revision r) r (ly_status y) = Inr s"
      "publish_record r d = Inr d'" "record_readable r" "card (dom (ly_requests y)) < max_chain_records"
      "load_ledger change (fst step) = Inr (advanced r s y)"
      "step = (publish_head (record_revision r) d', Inr (ly_status (advanced r s y)))"
  | (lost) y r s d' err where "load_ledger change d = Inr y" "next_record change r y"
      "apply_event (record_revision r) r (ly_status y) = Inr s" "publish_record r d = Inr d'"
      "\<not> (record_readable r \<and> card (dom (ly_requests y)) < max_chain_records)"
      "load_ledger change (fst step) = Inl err"
      "step = (publish_head (record_revision r) d', Inl (CommittedUnreadable err))"
proof -
  obtain y r s where y: "load_ledger change d = Inr y" and r: "next_record change r y"
      and q: "lc_request r = request" "lc_digest r = digest"
      and s: "apply_event (record_revision r) r (ly_status y) = Inr s" and step: "step = commit_record change r d"
    using assms by (auto simp: commits_def)
  from commit_result [OF y r s] show thesis
  proof
    assume "\<exists>err. commit_record change r d = (d, Inl err)"
    then show thesis using refused step by blast
  next
    assume "\<exists>d'. publish_record r d = Inr d' \<and>
       (if record_readable r \<and> card (dom (ly_requests y)) < max_chain_records
        then load_ledger change (publish_head (record_revision r) d') = Inr (advanced r s y) \<and>
          commit_record change r d =
            (publish_head (record_revision r) d', Inr (ly_status (advanced r s y)))
        else (\<exists>err. load_ledger change (publish_head (record_revision r) d') = Inl err \<and>
          commit_record change r d = (publish_head (record_revision r) d', Inl (CommittedUnreadable err))))"
    then obtain d' where d': "publish_record r d = Inr d'"
      and c: "if record_readable r \<and> card (dom (ly_requests y)) < max_chain_records
        then load_ledger change (publish_head (record_revision r) d') = Inr (advanced r s y) \<and>
          commit_record change r d =
            (publish_head (record_revision r) d', Inr (ly_status (advanced r s y)))
        else (\<exists>err. load_ledger change (publish_head (record_revision r) d') = Inl err \<and>
          commit_record change r d = (publish_head (record_revision r) d', Inl (CommittedUnreadable err)))"
      by blast
    show thesis
    proof (cases "record_readable r \<and> card (dom (ly_requests y)) < max_chain_records")
      case True
      then show thesis using c written [OF y r q s d'] step by simp
    next
      case False
      then obtain err where "load_ledger change (publish_head (record_revision r) d') = Inl err"
          "commit_record change r d = (publish_head (record_revision r) d', Inl (CommittedUnreadable err))"
        using c by (simp only: if_False) blast
      then show thesis using lost [OF y r s d' False] step by simp
    qed
  qed
qed

lemma head_changes:
  assumes y: "load_ledger change d = Inr y" and r: "next_record change r y" and pub: "publish_record r d = Inr d'"
  shows "record_revision r \<noteq> ls_revision (ly_status y)"
proof -
  from load_parts [OF y] obtain chain where
      c: "collect_chain max_chain_records change d (ls_revision (ly_status y)) [] = Inr chain"
      "apply_records chain (empty_replay change) = Inr y" by blast
  from collect_chain_extends [OF c(1)]
  have loads: "\<forall>c \<in> set chain. load_record change d (fst c) = Some (snd c)" by auto
  note n = new_record_not_in_chain [OF c(2) loads r pub]
  have "ls_revision (ly_status y) = (if chain = [] then [] else fst (last chain))"
    using apply_records_requests [OF c(2)] by (simp add: empty_replay_def empty_status_def)
  moreover have "record_revision r \<noteq> []" by (simp add: record_revision_def identity_of_def)
  ultimately show ?thesis using n by (cases "chain = []") auto
qed

lemma commits_changes: "\<not> commits change d request digest (d, Inr s)"
proof
  assume "commits change d request digest (d, Inr s)"
  then show False
  proof (cases rule: commits_result)
    case (written y r t d')
    have "dk_head d = HeadFile (record_revision r)"
      using arg_cong [OF written(10), of "dk_head \<circ> fst"] by (simp add: publish_head_def)
    then show False using head_changes [OF written(1,2,6)] load_parts [OF written(1)] by (auto split: if_splits)
  qed auto
qed

lemma advanced_fields [simp]:
  "ly_requests (advanced r s y) = (ly_requests y)(lc_request r \<mapsto> (lc_digest r, record_revision r))"
  "ly_status (advanced r s y) = s\<lparr>ls_revision := record_revision r\<rparr>"
  by (simp_all add: advanced_def)

fun call_expected :: "ledger_call \<Rightarrow> string option" where
  \<comment> \<open>the head a call is conditional on; a binding call is conditional on the binding only\<close>
  "call_expected (CallBegin q) = Some (bq_expected q)"
| "call_expected (CallFinish q) = Some (fq_expected q)"
| "call_expected (CallReset q) = Some (zq_expected q)"
| "call_expected (CallBind q) = None"

lemma call_normalized:
  "normalize_begin q = Inr q' \<Longrightarrow> bq_id q' = bq_id q \<and> bq_expected q' = bq_expected q"
  "normalize_finish f = Inr f' \<Longrightarrow> f' = f" "normalize_reset z = Inr z' \<Longrightarrow> z' = z"
  "normalize_bind n = Inr n' \<Longrightarrow> n' = n"
  by (auto simp: normalize_begin_def normalize_finish_def normalize_reset_def normalize_bind_def Let_def
    split: if_splits)

lemma mutate_known:
  assumes "load_ledger change d = Inr y" "ly_requests y request = Some (digest, rv)"
  shows "mutate change expected request digest build d = (d, Inr (ly_status y))"
  using assms by (simp add: mutate_def)

lemma mutate_stale:
  assumes "load_ledger change d = Inr y" "ly_requests y request = None" "expected \<noteq> ls_revision (ly_status y)"
  shows "mutate change expected request digest build d = (d, Inl (RevisionConflict (ls_revision (ly_status y))))"
  using assms by (simp add: mutate_def)

lemma call_replays:
  assumes y: "load_ledger change d = Inr y" and q: "ly_requests y (call_id call) = Some (digest, rv)"
    and dg: "call_digest call = Inr digest"
  shows "run_call change v call d = (d, Inr (ly_status y))"
proof (cases call)
  case (CallBegin q0)
  then obtain q' where "normalize_begin q0 = Inr q'" "digest = begin_digest q'"
    using dg by (cases "normalize_begin q0") auto
  then show ?thesis
    using q mutate_known [OF y] call_normalized(1) by (fastforce simp: CallBegin ledger_begin_def)
next
  case (CallFinish q0)
  then obtain q' where "normalize_finish q0 = Inr q'" "digest = finish_digest q'"
    using dg by (cases "normalize_finish q0") auto
  then show ?thesis
    using q mutate_known [OF y] call_normalized(2) by (fastforce simp: CallFinish ledger_finish_def)
next
  case (CallReset q0)
  then obtain q' where "normalize_reset q0 = Inr q'" "digest = reset_digest q'"
    using dg by (cases "normalize_reset q0") auto
  then show ?thesis
    using q mutate_known [OF y] call_normalized(3) by (fastforce simp: CallReset ledger_reset_def)
next
  case (CallBind q0)
  then obtain q' where "normalize_bind q0 = Inr q'" "digest = bind_digest q'"
    using dg by (cases "normalize_bind q0") auto
  then show ?thesis
    using q y call_normalized(4) by (fastforce simp: CallBind ledger_bind_def)
qed

lemma call_stale:
  assumes y: "load_ledger change d = Inr y" and q: "ly_requests y (call_id call) = None"
    and e: "call_expected call = Some expected" "expected \<noteq> ls_revision (ly_status y)"
  shows "\<exists>err. run_call change v call d = (d, Inl err)"
proof (cases call)
  case (CallBegin q0)
  show ?thesis
  proof (cases "normalize_begin q0")
    case (Inr q')
    then show ?thesis using q e mutate_stale [OF y] call_normalized(1) [OF Inr]
      by (fastforce simp: CallBegin ledger_begin_def)
  qed (simp add: CallBegin ledger_begin_def)
next
  case (CallFinish q0)
  show ?thesis
  proof (cases "normalize_finish q0")
    case (Inr q')
    then show ?thesis using q e mutate_stale [OF y] call_normalized(2) [OF Inr]
      by (fastforce simp: CallFinish ledger_finish_def)
  qed (simp add: CallFinish ledger_finish_def)
next
  case (CallReset q0)
  show ?thesis
  proof (cases "normalize_reset q0")
    case (Inr q')
    then show ?thesis using q e mutate_stale [OF y] call_normalized(3) [OF Inr]
      by (fastforce simp: CallReset ledger_reset_def)
  qed (simp add: CallReset ledger_reset_def)
qed (use e in simp)

section \<open>The record a call appends\<close>

inductive appended :: "string \<Rightarrow> ledger_view \<Rightarrow> ledger_disk \<Rightarrow> ledger_call \<Rightarrow> ledger_record \<Rightarrow> bool"
  for change v d where
  \<comment> \<open>the record a call builds from the replayed files\<close>
  begun: "\<lbrakk>load_ledger change d = Inr y; normalize_begin q0 = Inr q; build_begin change v q y = Inr r0\<rbrakk> \<Longrightarrow>
    appended change v d (CallBegin q0) (sealed_record change (bq_expected q) (bq_id q) (begin_digest q) r0)"
| finished: "\<lbrakk>load_ledger change d = Inr y; normalize_finish q0 = Inr q;
     build_finish change v (dk_legacy d) q y = Inr r0\<rbrakk> \<Longrightarrow>
    appended change v d (CallFinish q0) (sealed_record change (fq_expected q) (fq_id q) (finish_digest q) r0)"
| reset: "\<lbrakk>load_ledger change d = Inr y; normalize_reset q0 = Inr q; build_reset v q y = Inr r0\<rbrakk> \<Longrightarrow>
    appended change v d (CallReset q0) (sealed_record change (zq_expected q) (zq_id q) (reset_digest q) r0)"
| bound: "\<lbrakk>load_ledger change d = Inr y; normalize_bind q0 = Inr q;
     build_bind change v (dk_legacy d) q (ly_status y) = Inr (Some e)\<rbrakk> \<Longrightarrow>
    appended change v d (CallBind q0) (sealed_record change (ls_revision (ly_status y)) (nq_id q) (bind_digest q)
      ((blank_record OpBind)\<lparr>lc_binding := Some e\<rparr>))"

inductive_cases appended_begin: "appended change v d (CallBegin q) r"
inductive_cases appended_finish: "appended change v d (CallFinish q) r"
inductive_cases appended_reset: "appended change v d (CallReset q) r"
inductive_cases appended_bind: "appended change v d (CallBind q) r"

lemma commit_checked_changed:
  "fst (commit_checked change r d) \<noteq> d \<Longrightarrow>
   validate_record_shape r = None \<and> commit_checked change r d = commit_record change r d"
  by (auto simp: commit_checked_def split: option.splits)

lemma mutate_changed:
  assumes "fst (mutate change expected request digest build d) \<noteq> d"
  obtains y r0 where "load_ledger change d = Inr y" "build y = Inr r0" "ly_requests y request = None"
    "ls_revision (ly_status y) = expected"
    "validate_record_shape (sealed_record change expected request digest r0) = None"
    "mutate change expected request digest build d =
       commit_record change (sealed_record change expected request digest r0) d"
  using assms commit_checked_changed [of change _ d]
  by (fastforce simp: mutate_def split: sum.splits option.splits prod.splits if_splits)

lemma call_appends:
  assumes "fst (run_call change v call d) \<noteq> d"
  shows "\<exists>y r s. load_ledger change d = Inr y \<and> appended change v d call r \<and> next_record change r y \<and>
    lc_request r = call_id call \<and> apply_event (record_revision r) r (ly_status y) = Inr s \<and>
    run_call change v call d = commit_record change r d"
proof (cases call)
  case (CallBegin q0)
  then obtain q where q: "normalize_begin q0 = Inr q" using assms
    by (cases "normalize_begin q0") (auto simp: ledger_begin_def)
  have step: "run_call change v call d =
      mutate change (bq_expected q) (bq_id q) (begin_digest q) (build_begin change v q) d"
    by (simp add: CallBegin ledger_begin_def q)
  from assms [unfolded step] show ?thesis
  proof (rule mutate_changed, goal_cases)
    case (1 y r0)
    then show ?case unfolding step using appended.begun [OF 1(1) q 1(2)] call_normalized(1) [OF q]
        begin_applies [OF load_inv [OF 1(1)] load_attempts [OF 1(1)] 1(2)]
      by (auto simp: next_record_def CallBegin)
  qed
next
  case (CallFinish q0)
  then obtain q where q: "normalize_finish q0 = Inr q" using assms
    by (cases "normalize_finish q0") (auto simp: ledger_finish_def)
  have step: "run_call change v call d =
      mutate change (fq_expected q) (fq_id q) (finish_digest q) (build_finish change v (dk_legacy d) q) d"
    by (simp add: CallFinish ledger_finish_def q)
  from assms [unfolded step] show ?thesis
  proof (rule mutate_changed, goal_cases)
    case (1 y r0)
    then show ?case unfolding step using appended.finished [OF 1(1) q 1(2)] call_normalized(2) [OF q]
        finish_applies [OF load_inv [OF 1(1)] 1(2)]
      by (auto simp: next_record_def CallFinish)
  qed
next
  case (CallReset q0)
  then obtain q where q: "normalize_reset q0 = Inr q" using assms
    by (cases "normalize_reset q0") (auto simp: ledger_reset_def)
  have step: "run_call change v call d =
      mutate change (zq_expected q) (zq_id q) (reset_digest q) (build_reset v q) d"
    by (simp add: CallReset ledger_reset_def q)
  from assms [unfolded step] show ?thesis
  proof (rule mutate_changed, goal_cases)
    case (1 y r0)
    then show ?case unfolding step using appended.reset [OF 1(1) q 1(2)] call_normalized(3) [OF q]
        reset_applies [OF load_inv [OF 1(1)] 1(2)]
      by (auto simp: next_record_def CallReset)
  qed
next
  case (CallBind q0)
  then obtain q where q: "normalize_bind q0 = Inr q" using assms
    by (cases "normalize_bind q0") (auto simp: ledger_bind_def)
  then obtain y e where y: "load_ledger change d = Inr y" "ly_requests y (nq_id q) = None"
      and b: "build_bind change v (dk_legacy d) q (ly_status y) = Inr (Some e)"
    using assms by (auto simp: CallBind ledger_bind_def split: sum.splits option.splits prod.splits)
  let ?r = "sealed_record change (ls_revision (ly_status y)) (nq_id q) (bind_digest q)
    ((blank_record OpBind)\<lparr>lc_binding := Some e\<rparr>)"
  have step: "run_call change v call d = commit_checked change ?r d"
    using y b by (simp add: CallBind ledger_bind_def q)
  note c = commit_checked_changed [OF assms [unfolded step]]
  show ?thesis
    using c step y appended.bound [OF y(1) q b] bind_applies [OF load_inv [OF y(1)] b] call_normalized(4) [OF q]
    by (auto simp: next_record_def CallBind)
qed

lemma call_status:
  assumes d: "fst (run_call change v call d) \<noteq> d" and y': "load_ledger change (fst (run_call change v call d)) = Inr y'"
  shows "\<exists>y r s. load_ledger change d = Inr y \<and> appended change v d call r \<and> next_record change r y \<and>
    apply_event (record_revision r) r (ly_status y) = Inr s \<and> y' = advanced r s y"
proof -
  from call_appends [OF d] obtain y r s where
      c: "load_ledger change d = Inr y" "appended change v d call r" "next_record change r y"
      "apply_event (record_revision r) r (ly_status y) = Inr s" and step: "run_call change v call d = commit_record change r d"
    by blast
  from commit_result [OF c(1,3,4)] have "y' = advanced r s y"
  proof
    assume "\<exists>err. commit_record change r d = (d, Inl err)"
    then show ?thesis using d step by auto
  qed (use y' step in \<open>auto split: if_splits\<close>)
  then show ?thesis using c by blast
qed

section \<open>Attempts that are over\<close>

definition settled_attempts :: "runtime_status \<Rightarrow> runtime_attempt list" where
  "settled_attempts s = (if ls_active s = None then ls_attempts s else butlast (ls_attempts s))"

definition history_kept :: "runtime_status \<Rightarrow> runtime_status \<Rightarrow> bool" where
  \<comment> \<open>what is settled stays, and what has been spent is not given back\<close>
  "history_kept s t \<longleftrightarrow>
     prefix (settled_attempts s) (settled_attempts t) \<and>
     ls_lifetime_attempts s \<le> ls_lifetime_attempts t \<and> ls_lifetime_lines s \<le> ls_lifetime_lines t \<and>
     ls_generation s \<le> ls_generation t"

lemma history_kept_refl [simp]: "history_kept s s"
  by (simp add: history_kept_def)

lemma begin_history:
  assumes inv: "ledger_inv s" and len: "length (ls_attempts s) \<le> 10000" and app: "apply_begin r e s = Inr t"
  shows "history_kept s t"
proof -
  obtain g u where idle: "ls_active s = None" and u: "enter_objective r e g s = Inr u"
      and t: "t = u\<lparr>ls_attempts := ls_attempts u @ [begun_attempt e g], ls_active := Some (begun_attempt e g),
                ls_cumulative_attempts := go_add (ls_cumulative_attempts u) 1,
                ls_lifetime_attempts := go_add (ls_lifetime_attempts u) 1,
                ls_next_ordinal := go_add (bv_ordinal e) 1, ls_next_action := ActionFinish\<rparr>"
    using app by (auto simp: apply_begin_def Let_def split: if_splits sum.splits)
  note small = ledger_small [OF inv len]
  have life: "go_add (ls_lifetime_attempts s) 1 = ls_lifetime_attempts s + 1"
    and gen: "go_add (ls_generation s) 1 = ls_generation s + 1"
    using small by (simp_all add: go_add_small)
  show ?thesis using enter_objective_Inr [OF u] idle life gen
    by (cases "ls_objective s") (auto simp: history_kept_def settled_attempts_def t)
qed

lemma finish_history:
  assumes inv: "ledger_inv s" and len: "length (ls_attempts s) \<le> 10000"
    and ok: "0 \<le> fv_lines e" "fv_lines e \<le> 1000000" and app: "apply_finish e s = Inr t"
  shows "history_kept s t"
proof -
  note small = ledger_small [OF inv len]
  have "go_add (ls_lifetime_lines s) (fv_lines e) = ls_lifetime_lines s + fv_lines e"
    using small ok by (simp add: go_add_small)
  then show ?thesis using apply_finish_Inr [OF app] ok
    by (auto simp: history_kept_def settled_attempts_def settle_finish_def)
qed

lemma history_binding:
  "history_kept s (t\<lparr>ls_binding := b, ls_binding_revision := rv\<rparr>) \<longleftrightarrow> history_kept s t"
  "history_kept s (t\<lparr>ls_revision := rv\<rparr>) \<longleftrightarrow> history_kept s t"
  by (simp_all add: history_kept_def settled_attempts_def)

lemma event_history:
  assumes inv: "ledger_inv s" and len: "length (ls_attempts s) \<le> 10000"
    and shape: "validate_record_shape r = None" and app: "apply_event revision r s = Inr t"
  shows "history_kept s t"
proof (cases "lc_operation r")
  case OpBegin
  then show ?thesis using begin_history [OF inv len] app by (auto simp: apply_event_def)
next
  case OpFinish
  then show ?thesis using finish_shape [OF shape] finish_history [OF inv len] app
    by (auto simp: apply_event_def finish_event_ok_def)
next
  case OpFinishRemediation
  obtain e where e: "lc_finish r = Some e" "0 \<le> fv_lines e" "fv_lines e \<le> 1000000"
    using finish_shape [OF shape] OpFinishRemediation by (auto simp: finish_event_ok_def)
  from app have "apply_remediation e (the (lc_binding r)) s = Inr t"
    by (simp add: apply_event_def OpFinishRemediation e)
  from apply_remediation_Inr [OF this] obtain u where u: "apply_finish e s = Inr u"
      and t: "if fv_exceeded e then t = u else apply_binding (the (lc_binding r)) u = Inr t" by blast
  note h = finish_history [OF inv len e(2,3) u]
  show ?thesis using t h by (cases "fv_exceeded e") (auto dest!: apply_binding_Inr simp: history_binding)
next
  case OpReset
  then have "apply_reset revision (the (lc_reset r)) s = Inr t" using app by (simp add: apply_event_def)
  from apply_reset_Inr [OF this] show ?thesis by (auto simp: history_kept_def settled_attempts_def)
next
  case OpBind
  then have "apply_binding (the (lc_binding r)) s = Inr t" using app by (simp add: apply_event_def)
  from apply_binding_Inr [OF this] show ?thesis by (simp add: history_binding)
next
  case (OtherOp x)
  then show ?thesis using known_operation [OF shape] by simp
qed

section \<open>The bound review\<close>

lemma begin_frame: "apply_begin r e s = Inr t \<Longrightarrow> ls_binding t = ls_binding s"
  by (auto simp: apply_begin_def Let_def enter_objective_def split: if_splits sum.splits option.splits)

lemma finish_frame:
  assumes "apply_finish e s = Inr t"
  shows "ls_binding t = ls_binding s \<and> ls_attempts t \<noteq> [] \<and>
     at_finish_tree (last (ls_attempts t)) = fv_tree e \<and>
     (if fv_outcome e = AttemptPassed \<and> \<not> fv_exceeded e then ls_complete t else True)"
proof -
  from apply_finish_Inr [OF assms] obtain oj where t: "t = settle_finish oj e
      (s\<lparr>ls_attempts := butlast (ls_attempts s) @ [finished_attempt e (last (ls_attempts s))],
         ls_active := None, ls_cumulative_lines := go_add (ls_cumulative_lines s) (fv_lines e),
         ls_lifetime_lines := go_add (ls_lifetime_lines s) (fv_lines e), ls_evidence := fv_evidence e\<rparr>)" by blast
  show ?thesis unfolding t
    by (cases "fv_outcome e = AttemptPassed \<and> \<not> fv_exceeded e")
      (simp_all add: settle_finish_def finished_attempt_def)
qed

lemma build_finish_remediates:
  assumes "build_finish change v legacy_file q y = Inr r0" and "lc_operation r0 = OpFinishRemediation"
  shows "\<exists>e b. r0 = (blank_record OpFinishRemediation)\<lparr>lc_finish := Some e, lc_binding := Some b\<rparr> \<and>
    requests_remediation q \<and> fv_outcome e = fq_outcome q \<and> gc_candidate (sb_context (nv_current b)) = fv_tree e \<and>
    vw_prepare_again v (fq_successor q) = Some (nv_current b)"
proof -
  have *: "vw_prepare_again v (fq_successor q) = Some (nv_current b)"
    if "remediation_event change v q current legacy tree = Inr b" for current legacy tree b
    using that by (auto simp: remediation_event_def split: option.splits if_splits sum.splits)
  from assms(1) show ?thesis
  proof (rule build_finish_Inr)
    fix a oj binding legacy c n
    assume r: "if requests_remediation q
     then \<exists>b. remediation_event change v q (the binding) legacy (snd c) = Inr b \<and>
       r0 = (blank_record OpFinishRemediation)
         \<lparr>lc_finish := Some (finish_event_of q a oj (ly_status y) c n), lc_binding := Some b\<rparr>
     else r0 = (blank_record OpFinish)\<lparr>lc_finish := Some (finish_event_of q a oj (ly_status y) c n)\<rparr>"
    then have q: "requests_remediation q" using assms(2) by (auto split: if_splits)
    with r show ?thesis using remediation_event_Inr * by fastforce
  qed
qed

lemma call_binding:
  assumes y: "load_ledger change d = Inr y" and z: "load_ledger change (fst (run_call change v call d)) = Inr z"
    and ch: "ls_binding (ly_status z) \<noteq> ls_binding (ly_status y)"
  shows "case call of
      CallBind q \<Rightarrow> \<exists>b. ls_binding (ly_status z) = Some b \<and> vw_prepare v (nq_lineage q) = Some b \<and>
        sb_change b = change \<and> sb_lineage b = nq_lineage q
    | CallFinish q \<Rightarrow> requests_remediation q \<and> fq_outcome q = AttemptPassed \<and> ls_complete (ly_status z) \<and>
        (\<exists>b. ls_binding (ly_status z) = Some b \<and> vw_prepare_again v (fq_successor q) = Some b \<and>
          gc_candidate (sb_context b) = at_finish_tree (last (ls_attempts (ly_status z))))
    | _ \<Rightarrow> False"
proof -
  have "fst (run_call change v call d) \<noteq> d" using y z ch by auto
  from call_status [OF this z] y obtain r s where r: "appended change v d call r" "next_record change r y"
      and s: "apply_event (record_revision r) r (ly_status y) = Inr s" and z': "z = advanced r s y" by auto
  have ne: "ls_binding s \<noteq> ls_binding (ly_status y)" using ch by (simp add: z')
  show ?thesis
  proof (cases call)
    case (CallBegin q0)
    from r(1) [unfolded CallBegin] have "lc_operation r = OpBegin"
      by (rule appended_begin) (auto simp: build_begin_def Let_def split: if_splits sum.splits prod.splits)
    then show ?thesis using s ne by (auto simp: apply_event_def dest: begin_frame)
  next
    case (CallReset q0)
    from r(1) [unfolded CallReset] have "lc_operation r = OpReset"
      by (rule appended_reset) (auto simp: build_reset_def Let_def split: if_splits option.splits)
    then show ?thesis using s ne by (auto simp: apply_event_def dest!: apply_reset_Inr)
  next
    case (CallBind q0)
    from r(1) [unfolded CallBind] y obtain q e where
        op: "lc_operation r = OpBind" "lc_binding r = Some e" and q: "normalize_bind q0 = Inr q"
        and b: "build_bind change v (dk_legacy d) q (ly_status y) = Inr (Some e)"
      by (elim appended_bind) auto
    have "apply_binding e (ly_status y) = Inr s" using s op by (simp add: apply_event_def)
    from apply_binding_Inr [OF this] have "ls_binding s = Some (nv_current e)" by simp
    moreover have "vw_prepare v (nq_lineage q) = Some (nv_current e)"
        "prepared_binding_ok (nv_current e) change (nq_lineage q)"
      using b by (auto simp: build_bind_def Let_def split: sum.splits option.splits if_splits prod.splits)
    ultimately show ?thesis using call_normalized(4) [OF q] by (simp add: CallBind z' prepared_binding_ok_def)
  next
    case (CallFinish q0)
    from r(1) [unfolded CallFinish] y obtain q raw where r': "lc_operation r = lc_operation raw"
        "lc_finish r = lc_finish raw" "lc_binding r = lc_binding raw" and q: "normalize_finish q0 = Inr q"
        and b: "build_finish change v (dk_legacy d) q y = Inr raw"
      by (elim appended_finish) auto
    have "lc_operation raw = OpFinish \<or> lc_operation raw = OpFinishRemediation"
      using b by (auto elim!: build_finish_Inr split: if_splits)
    moreover have "lc_operation r \<noteq> OpFinish" using s ne by (auto simp: apply_event_def dest!: finish_frame)
    ultimately have op: "lc_operation raw = OpFinishRemediation" using r' by simp
    from build_finish_remediates [OF b op] obtain e bd where
        raw: "raw = (blank_record OpFinishRemediation)\<lparr>lc_finish := Some e, lc_binding := Some bd\<rparr>"
        and f: "requests_remediation q" "fv_outcome e = fq_outcome q" "gc_candidate (sb_context (nv_current bd)) = fv_tree e"
        "vw_prepare_again v (fq_successor q) = Some (nv_current bd)" by blast
    have passed: "fq_outcome q = AttemptPassed" "q = q0"
      using q f(1) by (auto simp: normalize_finish_def split: if_splits)
    have "apply_remediation e bd (ly_status y) = Inr s" using s by (simp add: apply_event_def r' raw)
    from apply_remediation_Inr [OF this] obtain u where u: "apply_finish e (ly_status y) = Inr u"
        "if fv_exceeded e then s = u else apply_binding bd u = Inr s" by blast
    note fr = finish_frame [OF u(1)]
    have ex: "\<not> fv_exceeded e" using u(2) fr ne by auto
    then have "s = u\<lparr>ls_binding := Some (nv_current bd), ls_binding_revision := sb_revision (nv_current bd)\<rparr>"
      using u(2) apply_binding_Inr by simp
    then show ?thesis using fr f passed ex by (simp add: CallFinish z')
  qed
qed

lemma call_history:
  assumes y: "load_ledger change d = Inr y" and z: "load_ledger change (fst (run_call change v call d)) = Inr z"
  shows "history_kept (ly_status y) (ly_status z)"
proof (cases "fst (run_call change v call d) = d")
  case True
  then show ?thesis using y z by simp
next
  case False
  from call_status [OF False z] y obtain r s where r: "next_record change r y"
      and s: "apply_event (record_revision r) r (ly_status y) = Inr s" and z': "z = advanced r s y" by auto
  from event_history [OF load_inv [OF y] load_attempts [OF y] _ s] r
  show ?thesis by (simp add: z' next_record_def history_binding)
qed

section \<open>After a commit\<close>

lemma call_committed:
  assumes "run_call change v call d = (d', Inr s)" "d' \<noteq> d"
  shows "\<exists>y r t. load_ledger change d = Inr y \<and> load_ledger change d' = Inr (advanced r t y) \<and>
    lc_request r = call_id call \<and> call_digest call = Inr (lc_digest r) \<and> s = ly_status (advanced r t y) \<and>
    record_revision r \<noteq> ls_revision (ly_status y)"
proof -
  from run_call_cases [of change v call d] assms obtain digest where
      dg: "call_digest call = Inr digest" and c: "commits change d (call_id call) digest (d', Inr s)" by auto
  from c show ?thesis
  proof (cases rule: commits_result)
    case (written y r t d2)
    then show ?thesis using dg head_changes [OF written(1,2,6)] by auto
  qed (use assms in auto)
qed

lemma committed_repeats:
  assumes "run_call change v call d = (d', Inr s)" "d' \<noteq> d"
  shows "run_call change v' call d' = (d', Inr s)"
proof -
  from call_committed [OF assms] obtain y r t where c: "load_ledger change d' = Inr (advanced r t y)"
      "lc_request r = call_id call" "call_digest call = Inr (lc_digest r)" "s = ly_status (advanced r t y)" by blast
  from call_replays [OF c(1) _ c(3)] c show ?thesis by simp
qed

end
