(* ===== verification/LedgerLive.thy ===== *)
theory LedgerLive
  imports LedgerCalls
begin

text \<open>
  When a call of the runtime ledger is accepted. The records the operations build are far below the
  size a record may have and hold UTF-8 text when the request does, so that what is committed can be
  read back; with room in the chain, the operation the status names as its next action commits.
\<close>

section \<open>The size of a record\<close>

lemma rune_len_bound: "rune_len s \<le> length s"
  by (cases s rule: rune_len.cases) (auto simp: Let_def split: list.splits)

lemma escape_byte_length: "length (escape_byte c) \<le> 6"
  by (simp add: escape_byte_def unicode_escape_def)

lemma escape_length: "length (escape_fuel n s) \<le> 6 * length s"
proof (induction n arbitrary: s)
  case (Suc n)
  show ?case
  proof (cases s)
    case (Cons c rest)
    have byte: "length (escape_byte c) + length (escape_fuel n rest) \<le> 6 * length s"
      using Suc.IH [of rest] escape_byte_length [of c] by (simp add: Cons)
    have drop: "length (escape_fuel n (drop k s)) + 6 * k \<le> 6 * length s" if "k \<le> length s" for k
      using Suc.IH [of "drop k s"] that by simp
    have three: "3 \<le> length s" if "prefix [a, b, x] s" for a b x
      using prefix_length_le [OF that] by simp
    have six: "length (unicode_escape k) = 6" for k by (simp add: unicode_escape_def)
    have rest: "6 + length (escape_fuel n rest) \<le> 6 * length s" using Suc.IH [of rest] by (simp add: Cons)
    have esc: "escape_fuel (Suc n) s =
        (if byte c < 0x80 then escape_byte c @ escape_fuel n rest
         else if rune_len s = 0 then unicode_escape 0xFFFD @ escape_fuel n rest
         else if prefix [CHR 0xE2, CHR 0x80, CHR 0xA8] s then unicode_escape 0x2028 @ escape_fuel n (drop 3 s)
         else if prefix [CHR 0xE2, CHR 0x80, CHR 0xA9] s then unicode_escape 0x2029 @ escape_fuel n (drop 3 s)
         else take (rune_len s) s @ escape_fuel n (drop (rune_len s) s))"
      unfolding escape_fuel.simps(2) [of n s] by (simp only: Cons list.case)
    show ?thesis unfolding esc
      using byte rest six drop [of 3] three drop [OF rune_len_bound] by (auto simp del: drop_Suc_Cons)
  qed simp
qed simp

lemma quote_length: "length (quote s) \<le> 6 * length s + 2"
  using escape_length by (simp add: quote_def)

lemma decimal_length: "n < 10 ^ Suc k \<Longrightarrow> length (decimal n) \<le> Suc k"
proof (induction k arbitrary: n)
  case (Suc k)
  then have "n div 10 < 10 ^ Suc k" by (simp add: less_mult_imp_div_less mult.commute)
  from Suc.IH [OF this] show ?case by (simp add: decimal.simps [of n])
qed (subst decimal.simps, simp)

lemma int_text_length: "\<lbrakk>0 \<le> n; n < 100000000\<rbrakk> \<Longrightarrow> length (int_text n) \<le> 8"
  using decimal_length [of "nat n" 7] by (simp add: int_text_def nat_less_iff)

lemma join_length: "length (join_with sep ws) \<le> sum_list (map (\<lambda>w. length w + length sep) ws)"
  by (induction sep ws rule: join_with.induct) auto

fun json_weight :: "json \<Rightarrow> nat" where
  \<comment> \<open>a bound on the bytes of a value\<close>
  "json_weight JNull = 4"
| "json_weight (JBool b) = 5"
| "json_weight (JInt n) = length (int_text n)"
| "json_weight (JStr s) = 6 * length s + 2"
| "json_weight (JArr vs) = 2 + sum_list (map (\<lambda>v. json_weight v + 1) vs)"
| "json_weight (JObj fs) = 2 + sum_list (map (\<lambda>(k, v). 6 * length k + 4 + json_weight v) fs)"

lemma render_length: "length (render v) \<le> json_weight v"
proof (induction v)
  case (JArr vs)
  then have "sum_list (map (\<lambda>w. length w + length '','') (map render vs)) \<le> sum_list (map (\<lambda>v. json_weight v + 1) vs)"
    by (auto intro!: sum_list_mono simp: o_def)
  with join_length [of "'',''" "map render vs"] show ?case by simp
next
  case (JObj fs)
  have "length (quote k @ '':'' @ render v) + 1 \<le> 6 * length k + 4 + json_weight v" if "(k, v) \<in> set fs" for k v
    using quote_length [of k] JObj.IH [OF that] by (simp add: snds.simps)
  then have "sum_list (map (\<lambda>w. length w + length '','') (map (\<lambda>(k, v). quote k @ '':'' @ render v) fs))
      \<le> sum_list (map (\<lambda>(k, v). 6 * length k + 4 + json_weight v) fs)"
    by (auto intro!: sum_list_mono simp: o_def split: prod.splits)
  with join_length [of "'',''" "map (\<lambda>(k, v). quote k @ '':'' @ render v) fs"] show ?case by simp
qed (use quote_length in simp_all)

section \<open>Text\<close>

lemma valid_utf8_plain: "list_all (\<lambda>c. byte c < 0x80) s \<Longrightarrow> valid_utf8 s"
proof -
  have "list_all (\<lambda>c. byte c < 0x80) s \<Longrightarrow> valid_utf8_fuel (length s) s" by (induction s) auto
  then show "list_all (\<lambda>c. byte c < 0x80) s \<Longrightarrow> valid_utf8 s" by (simp add: valid_utf8_def)
qed

lemma plain_utf8: "list_all plain_char s \<Longrightarrow> valid_utf8 s"
  by (rule valid_utf8_plain) (auto simp: plain_char_def elim!: list.pred_mono_strong)

lemma revision_text [intro]: "runtime_revision s \<Longrightarrow> valid_utf8 s"
  by (rule plain_utf8, rule plain_revision)

lemma tree_text [intro]: "runtime_git_tree s \<Longrightarrow> valid_utf8 s"
  by (rule valid_utf8_plain)
    (auto simp: runtime_git_tree_def is_lower_hex_def is_digit_def between_def elim!: list.pred_mono_strong)

lemma text_lengths:
  "runtime_revision s \<Longrightarrow> length s = 71" "runtime_git_tree s \<Longrightarrow> length s \<le> 64"
  "runtime_text n s \<Longrightarrow> length s \<le> n" "runtime_request_id s \<Longrightarrow> length s \<le> 128"
  "valid_binding_change s \<Longrightarrow> length s \<le> 96"
  by (auto simp: runtime_revision_def runtime_git_tree_def runtime_text_def runtime_request_id_def
      valid_binding_change_def split: list.splits)


section \<open>Readable records\<close>

lemmas ledger_json_defs = json_ledger_record_def json_begin_event_def json_finish_event_def
  json_reset_event_def field_def omit_empty_def omit_zero_def omit_false_def omit_nil_def

lemma outcome_weight: "terminal_outcome out \<Longrightarrow> length (attempt_outcome_text out) \<le> 11 \<and> valid_utf8 (attempt_outcome_text out)"
  by (auto simp: terminal_outcome_def intro!: valid_utf8_plain simp: byte_def)

lemma harness_weight: "known_harness h \<Longrightarrow> length (harness_text h) \<le> 11 \<and> valid_utf8 (harness_text h)"
  by (auto simp: known_harness_def intro!: valid_utf8_plain simp: byte_def)

lemma identity_weight:
  assumes "record_identity_ok r"
  shows "length (lc_schema r) \<le> 32 \<and> valid_utf8 (lc_schema r) \<and> length (lc_change r) \<le> 96 \<and> valid_utf8 (lc_change r) \<and>
    length (lc_previous r) \<le> 71 \<and> valid_utf8 (lc_previous r) \<and> length (lc_request r) \<le> 128 \<and> valid_utf8 (lc_request r) \<and>
    length (lc_digest r) = 71 \<and> valid_utf8 (lc_digest r)"
proof -
  have "valid_utf8 []" by (rule plain_utf8) simp
  moreover have "valid_utf8 ''gentle-ai.sdd-runtime-record/v1''" by (rule valid_utf8_plain) (simp add: byte_def)
  ultimately show ?thesis using assms plain_utf8 plain_kebab plain_request_id text_lengths
    by (auto simp: record_identity_ok_def valid_binding_change_def)
qed

lemma begin_weight:
  assumes "begin_event_ok e" "bv_generation e \<le> 10001" "bv_ordinal e \<le> 10001" "valid_utf8 (bv_work_unit e)" "valid_utf8 (bv_goal e)"
  shows "json_weight (json_begin_event e) \<le> 10000 \<and> json_utf8 (json_begin_event e)"
proof -
  have "length (int_text (bv_generation e)) \<le> 8" "length (int_text (bv_max_attempts e)) \<le> 8"
    "length (int_text (bv_max_lines e)) \<le> 8" "length (int_text (bv_ordinal e)) \<le> 8"
    using assms by (auto simp: begin_event_ok_def intro!: int_text_length)
  moreover have "length (bv_objective e) = 71" "length (bv_identity e) = 71" "length (bv_tree e) \<le> 64"
      "length (bv_work_unit e) \<le> 160" "length (bv_goal e) \<le> 240"
    using assms(1) text_lengths by (auto simp: begin_event_ok_def)
  moreover have "valid_utf8 (bv_objective e)" "valid_utf8 (bv_identity e)" "valid_utf8 (bv_tree e)"
    using assms(1) by (auto simp: begin_event_ok_def)
  ultimately show ?thesis using assms(4,5) by (simp add: ledger_json_defs)
qed

lemma finish_weight:
  assumes "finish_event_ok e" "terminal_outcome (fv_outcome e)" "fv_remediates e = [] \<or> runtime_revision (fv_remediates e)"
    "fv_ordinal e \<le> 10001" "valid_utf8 (fv_diagnosis e)" "valid_utf8 (fv_cleanup e)" "valid_utf8 (fv_process e)"
  shows "json_weight (json_finish_event e) \<le> 20000 \<and> json_utf8 (json_finish_event e)"
proof -
  have "length (int_text (fv_ordinal e)) \<le> 8" "length (int_text (fv_lines e)) \<le> 8"
    using assms by (auto simp: finish_event_ok_def intro!: int_text_length)
  moreover have "length (fv_identity e) = 71" "length (fv_tree e) \<le> 64" "length (fv_evidence e) = 71"
      "length (fv_diagnosis e) \<le> 500" "length (fv_cleanup e) \<le> 500" "length (fv_process e) \<le> 500"
    using assms(1) text_lengths by (auto simp: finish_event_ok_def)
  moreover have "valid_utf8 (fv_identity e)" "valid_utf8 (fv_tree e)" "valid_utf8 (fv_evidence e)"
    using assms(1) by (auto simp: finish_event_ok_def)
  moreover have "length (harness_text (fv_harness e)) \<le> 11 \<and> valid_utf8 (harness_text (fv_harness e))"
    using assms(1) by (intro harness_weight) (simp add: finish_event_ok_def)
  moreover have "length (fv_remediates e) \<le> 71 \<and> valid_utf8 (fv_remediates e)"
    using assms(3) text_lengths(1) by (auto intro: plain_utf8)
  ultimately show ?thesis using assms(5-7) outcome_weight [OF assms(2)] by (simp add: ledger_json_defs)
qed

lemma reset_weight:
  assumes "runtime_revision (zv_objective e)" "0 \<le> zv_generation e" "zv_generation e \<le> 10000"
    "runtime_revision (zv_identity e)" "runtime_git_tree (zv_tree e)" "runtime_text 500 (zv_reason e)"
    "runtime_text 128 (zv_actor e)" "valid_utf8 (zv_reason e)" "valid_utf8 (zv_actor e)"
  shows "json_weight (json_reset_event e) \<le> 10000 \<and> json_utf8 (json_reset_event e)"
proof -
  have "length (int_text (zv_generation e)) \<le> 8" using assms by (auto intro!: int_text_length)
  moreover have "length (zv_objective e) = 71" "length (zv_identity e) = 71" "length (zv_tree e) \<le> 64"
      "length (zv_reason e) \<le> 500" "length (zv_actor e) \<le> 128"
    using assms text_lengths by auto
  moreover have "valid_utf8 (zv_objective e)" "valid_utf8 (zv_identity e)" "valid_utf8 (zv_tree e)"
    using assms by auto
  ultimately show ?thesis using assms(8,9) by (simp add: ledger_json_defs)
qed

lemma operation_weight:
  "validate_record_shape r = None \<Longrightarrow> length (ledger_op_text (lc_operation r)) \<le> 26 \<and> valid_utf8 (ledger_op_text (lc_operation r))"
  using known_operation [of r] by (cases "lc_operation r") (auto intro!: valid_utf8_plain simp: byte_def)

lemma readable_by_weight:
  assumes shape: "validate_record_shape r = None"
    and b: "\<And>e. lc_begin r = Some e \<Longrightarrow> json_weight (json_begin_event e) \<le> 100000 \<and> json_utf8 (json_begin_event e)"
    and f: "\<And>e. lc_finish r = Some e \<Longrightarrow> json_weight (json_finish_event e) \<le> 100000 \<and> json_utf8 (json_finish_event e)"
    and z: "\<And>e. lc_reset r = Some e \<Longrightarrow> json_weight (json_reset_event e) \<le> 100000 \<and> json_utf8 (json_reset_event e)"
    and n: "\<And>e. lc_binding r = Some e \<Longrightarrow> json_weight (json_binding_event e) \<le> 300000 \<and> json_utf8 (json_binding_event e)"
  shows "record_readable r"
proof -
  note i = identity_weight [OF shape_identity [OF shape]] operation_weight [OF shape]
  have "json_weight (json_ledger_record r) \<le> 800000"
    using i b f z n by (cases "lc_begin r"; cases "lc_finish r"; cases "lc_reset r"; cases "lc_binding r") (auto simp: json_ledger_record_def field_def omit_nil_def)
  then have "length (record_payload r) \<le> max_record_bytes"
    using render_length [of "json_ledger_record r"] by (simp add: record_payload_def max_record_bytes_def)
  moreover have "json_utf8 (json_ledger_record r)"
    using i b f z n by (cases "lc_begin r"; cases "lc_finish r"; cases "lc_reset r"; cases "lc_binding r") (auto simp: json_ledger_record_def field_def omit_nil_def)
  ultimately show ?thesis by (simp add: record_readable_def)
qed

section \<open>Accepted calls\<close>

definition writes :: "ledger_disk \<Rightarrow> ledger_step \<Rightarrow> (runtime_status \<Rightarrow> bool) \<Rightarrow> bool" where
  \<comment> \<open>the call commits and returns such a status; the one refusal left is a file of the record's name
    with other bytes\<close>
  "writes d step P \<longleftrightarrow>
     (case snd step of Inl err \<Rightarrow> err = RecordDiffers \<and> dk_records d \<noteq> Map.empty | Inr s \<Rightarrow> P s)"

lemma publish_errors: "publish_record r d = Inl err \<Longrightarrow> err = RecordDiffers \<and> dk_records d \<noteq> Map.empty"
  by (auto simp: publish_record_def Let_def split: option.splits if_splits)

lemma commit_accepts:
  assumes y: "load_ledger change d = Inr y" and r: "next_record change r y" "record_readable r"
    and room: "card (dom (ly_requests y)) < max_chain_records"
    and s: "apply_event (record_revision r) r (ly_status y) = Inr s" and P: "P (s\<lparr>ls_revision := record_revision r\<rparr>)"
  shows "writes d (commit_checked change r d) P"
proof -
  have "commit_checked change r d = commit_record change r d"
    using r(1) by (simp add: commit_checked_def next_record_def)
  moreover have "writes d (commit_record change r d) P"
  proof (cases "publish_record r d")
    case (Inl err)
    then show ?thesis using publish_errors by (auto simp: writes_def commit_record_def)
  next
    case (Inr d')
    from commit_loads [OF y r(1) Inr s] r(2) room
    have "load_ledger change (publish_head (record_revision r) d') = Inr (advanced r s y)" by simp
    then show ?thesis using Inr P by (simp add: writes_def commit_record_def Let_def)
  qed
  ultimately show ?thesis by simp
qed

lemma mutate_accepts:
  assumes y: "load_ledger change d = Inr y" and q: "ly_requests y request = None"
    and e: "ls_revision (ly_status y) = expected" and b: "build y = Inr r0"
    and shape: "validate_record_shape (sealed_record change expected request digest r0) = None"
    and readable: "record_readable (sealed_record change expected request digest r0)"
    and room: "card (dom (ly_requests y)) < max_chain_records"
    and s: "apply_event (record_revision (sealed_record change expected request digest r0))
        (sealed_record change expected request digest r0) (ly_status y) = Inr s"
    and P: "\<And>rv. P (s\<lparr>ls_revision := rv\<rparr>)"
  shows "writes d (mutate change expected request digest build d) P"
proof -
  have "mutate change expected request digest build d =
      commit_checked change (sealed_record change expected request digest r0) d"
    using y q e b by (simp add: mutate_def)
  then show ?thesis using commit_accepts [where P = P, OF y _ readable room s P] shape q e by (simp add: next_record_def)
qed

lemma sealed_record_identity:
  assumes "valid_binding_change change" "load_ledger change d = Inr y" "runtime_request_id request" "runtime_revision digest"
  shows "record_identity_ok (sealed_record change (ls_revision (ly_status y)) request digest r)"
  using assms(1,3,4) load_parts [OF assms(2)] by (auto simp: record_identity_ok_def) (simp_all add: sealed_record_def)

lemma digests_revision [simp]:
  "runtime_revision (runtime_value_hash domain v)" "runtime_revision (begin_digest q)" "runtime_revision (finish_digest f)"
  "runtime_revision (reset_digest z)" "runtime_revision (bind_digest n)" "runtime_revision (runtime_objective_id c w g i k)"
  by (simp_all add: runtime_value_hash_def begin_digest_def finish_digest_def reset_digest_def bind_digest_def
      runtime_objective_id_def runtime_identity)

lemma begin_builds:
  assumes y: "load_ledger change d = Inr y" and change: "valid_binding_change change"
    and act: "ls_next_action (ly_status y) = ActionBegin"
    and q: "normalize_begin q0 = Inr q" and e: "bq_expected q0 = ls_revision (ly_status y)"
    and c: "begin_candidate v q (ly_status y) = Inr (g, i, t)" and it: "runtime_revision i" "runtime_git_tree t"
  obtains e s where "build_begin change v q y = Inr ((blank_record OpBegin)\<lparr>lc_begin := Some e\<rparr>)"
    "begin_event_ok e" "bv_generation e \<le> 10001" "bv_ordinal e \<le> 10001" "bv_work_unit e = bq_work_unit q0"
    "bv_goal e = bq_goal q0"
    "validate_record_shape (sealed_record change (bq_expected q) (bq_id q) (begin_digest q)
       ((blank_record OpBegin)\<lparr>lc_begin := Some e\<rparr>)) = None"
    "apply_event (record_revision (sealed_record change (bq_expected q) (bq_id q) (begin_digest q)
         ((blank_record OpBegin)\<lparr>lc_begin := Some e\<rparr>)))
       (sealed_record change (bq_expected q) (bq_id q) (begin_digest q)
         ((blank_record OpBegin)\<lparr>lc_begin := Some e\<rparr>)) (ly_status y) = Inr s"
    "ls_next_action s = ActionFinish"
proof -
  let ?s = "ly_status y"
  note inv = load_inv [OF y] and len = load_attempts [OF y]
  note small = ledger_small [OF inv len]
  have qs: "bq_id q = bq_id q0" "bq_expected q = bq_expected q0" "bq_work_unit q = bq_work_unit q0" "bq_goal q = bq_goal q0"
      "runtime_request_id (bq_id q0)" "runtime_text 160 (bq_work_unit q0)" "runtime_text 240 (bq_goal q0)"
      "1 \<le> bq_max_attempts q" "bq_max_attempts q \<le> 100" "1 \<le> bq_max_lines q" "bq_max_lines q \<le> 1000000"
    using q by (auto simp: normalize_begin_def Let_def split: if_splits)
  have idle: "ls_active ?s = None" "\<not> ls_complete ?s" "\<not> ls_decision ?s"
    using inv act by (auto simp: ledger_inv_def phase_matches_def split: if_splits)
  note cand = begin_candidate_Inr [OF c]
  have room': "ls_cumulative_attempts ?s < bq_max_attempts q \<and> ls_cumulative_lines ?s < bq_max_lines q \<and> 1 \<le> g \<and> g \<le> 10001"
  proof (cases "ls_objective ?s")
    case None
    then have "ls_cumulative_attempts ?s = 0" "ls_cumulative_lines ?s = 0"
      using inv by (simp_all add: ledger_inv_def counters_match_def)
    moreover have "g = ls_generation ?s + 1" using cand None small by (simp add: go_add_small)
    ultimately show ?thesis using qs small by simp
  next
    case (Some oj)
    then show ?thesis using inv cand idle small by (auto simp: ledger_inv_def budget_kept_def)
  qed
  let ?oid = "case ls_objective ?s of Some oj \<Rightarrow> oj_id oj
      | None \<Rightarrow> runtime_objective_id change (bq_work_unit q) (bq_goal q) i g"
  have oid: "runtime_revision ?oid" using inv by (cases "ls_objective ?s") (auto simp: ledger_inv_def budget_kept_def)
  let ?e = "\<lparr>bv_objective = ?oid, bv_generation = g, bv_work_unit = bq_work_unit q,
                bv_goal = bq_goal q, bv_max_attempts = bq_max_attempts q, bv_max_lines = bq_max_lines q,
                bv_ordinal = ls_next_ordinal ?s, bv_identity = i, bv_tree = t\<rparr>"
  let ?raw = "(blank_record OpBegin)\<lparr>lc_begin := Some ?e\<rparr>"
  let ?r = "sealed_record change (bq_expected q) (bq_id q) (begin_digest q) ?raw"
  have b: "build_begin change v q y = Inr ?raw" using idle c room' by (simp add: build_begin_def Let_def)
  have ev: "begin_event_ok ?e" using oid qs room' it small by (simp add: begin_event_ok_def)
  have "begin_request_of ?r ?e = q" by (simp add: begin_request_of_def)
  then have shape: "validate_record_shape ?r = None"
    using sealed_record_identity [OF change y qs(5), of "begin_digest q" ?raw] ev e qs
    by (simp add: validate_record_shape_def with_event_def only_begin_def validate_begin_shape_def guard_def)
  from begin_applies [OF inv len b] obtain s where s: "apply_event (record_revision ?r) ?r ?s = Inr s" by blast
  have fin: "ls_next_action s = ActionFinish"
    using s by (auto simp: apply_event_def apply_begin_def Let_def split: if_splits sum.splits)
  show thesis
    by (rule that [of ?e s]) (use b ev room' small qs shape s fin in simp_all)
qed

lemma begin_accepted:
  assumes y: "load_ledger change d = Inr y" and room: "card (dom (ly_requests y)) < max_chain_records"
    and change: "valid_binding_change change" and act: "ls_next_action (ly_status y) = ActionBegin"
    and q: "normalize_begin q0 = Inr q" and e: "bq_expected q0 = ls_revision (ly_status y)"
    and new: "ly_requests y (bq_id q0) = None"
    and utf: "valid_utf8 (bq_work_unit q0)" "valid_utf8 (bq_goal q0)"
    and c: "begin_candidate v q (ly_status y) = Inr (g, i, t)" and it: "runtime_revision i" "runtime_git_tree t"
  shows "writes d (ledger_begin change v q0 d) (\<lambda>s. ls_next_action s = ActionFinish)"
proof -
  have qs: "bq_id q = bq_id q0" "bq_expected q = bq_expected q0" using call_normalized(1) [OF q] by simp_all
  show ?thesis
  proof (rule begin_builds [OF y change act q e c it], goal_cases)
    case (1 b s)
    have "record_readable (sealed_record change (bq_expected q) (bq_id q) (begin_digest q)
        ((blank_record OpBegin)\<lparr>lc_begin := Some b\<rparr>))"
      using begin_weight [OF 1(2-4)] 1(5,6) utf by (intro readable_by_weight [OF 1(7)]) auto
    with mutate_accepts [where build = "build_begin change v q"
        and P = "\<lambda>s. ls_next_action s = ActionFinish", OF y _ _ 1(1,7) _ room 1(8)] new e qs 1(9)
    show ?case by (simp add: ledger_begin_def q)
  qed
qed

lemma reset_accepted:
  assumes y: "load_ledger change d = Inr y" and room: "card (dom (ly_requests y)) < max_chain_records"
    and change: "valid_binding_change change"
    and act: "ls_next_action (ly_status y) = ActionReset \<or> ls_next_action (ly_status y) = ActionComplete"
    and q: "normalize_reset q = Inr q" and e: "zq_expected q = ls_revision (ly_status y)"
    and new: "ly_requests y (zq_id q) = None"
    and utf: "valid_utf8 (zq_reason q)" "valid_utf8 (zq_actor q)"
    and c: "vw_capture v = Some (i, t)" and it: "runtime_revision i" "runtime_git_tree t"
  shows "writes d (ledger_reset change v q d) (\<lambda>s. ls_next_action s = ActionBegin \<and> ls_objective s = None)"
proof -
  let ?s = "ly_status y"
  note inv = load_inv [OF y] and len = load_attempts [OF y]
  note small = ledger_small [OF inv len]
  have qs: "runtime_request_id (zq_id q)" "runtime_text 500 (zq_reason q)" "runtime_text 128 (zq_actor q)"
    using q by (auto simp: normalize_reset_def split: if_splits)
  have idle: "ls_active ?s = None" "ls_complete ?s \<or> ls_decision ?s" "ls_objective ?s \<noteq> None"
    using inv act by (auto simp: ledger_inv_def phase_matches_def split: if_splits)
  then obtain oj where oj: "ls_objective ?s = Some oj" by blast
  then have ok: "runtime_revision (oj_id oj)" "1 \<le> oj_generation oj" "oj_generation oj \<le> 10000"
    using inv small by (auto simp: ledger_inv_def budget_kept_def)
  let ?e = "\<lparr>zv_objective = oj_id oj, zv_generation = oj_generation oj, zv_identity = i,
                 zv_tree = t, zv_reason = zq_reason q, zv_actor = zq_actor q\<rparr>"
  let ?raw = "(blank_record OpReset)\<lparr>lc_reset := Some ?e\<rparr>"
  let ?r = "sealed_record change (zq_expected q) (zq_id q) (reset_digest q) ?raw"
  have b: "build_reset v q y = Inr ?raw" using idle c oj by (auto simp: build_reset_def Let_def)
  have "reset_request_of ?r ?e = q" by (simp add: reset_request_of_def)
  then have shape: "validate_record_shape ?r = None"
    using sealed_record_identity [OF change y qs(1), of "reset_digest q" ?raw] ok it e qs
    by (simp add: validate_record_shape_def with_event_def only_reset_def validate_reset_shape_def guard_def)
  have readable: "record_readable ?r"
    using reset_weight [of ?e] ok it qs utf by (intro readable_by_weight [OF shape]) fastforce+
  from reset_applies [OF inv b] obtain s where s: "apply_event (record_revision ?r) ?r ?s = Inr s" by blast
  have "ls_next_action s = ActionBegin \<and> ls_objective s = None"
    using s by (auto simp: apply_event_def apply_reset_def split: if_splits option.splits)
  then show ?thesis
    using mutate_accepts [where build = "build_reset v q"
        and P = "\<lambda>s. ls_next_action s = ActionBegin \<and> ls_objective s = None", OF y _ _ b shape readable room s]
      new e q
    by (simp add: ledger_reset_def)
qed

lemma remediation_binding:
  assumes fb: "finish_binding change legacy_file q s = Inr (binding, legacy)"
    and g: "remediation_guard q s binding = None" "requests_remediation q"
    and e: "remediation_event change v q (the binding) legacy tree = Inr b"
    and ok: "prepared_binding_ok (nv_current b) change (fq_successor q)"
  shows "import_ok b change \<and> nv_expected b = fq_binding q \<and> json_utf8 (json_binding_event b) =
    valid_utf8 (fq_binding q)"
proof -
  have current: "binding = Some c \<Longrightarrow> sb_revision c = fq_binding q" for c
    using g by (auto simp: remediation_guard_def split: if_splits)
  have ev: "nv_expected b = fq_binding q" "nv_legacy b = map_option (\<lambda>(c, digest). \<lparr>li_digest = digest, li_binding = c\<rparr>) legacy"
    using e by (auto simp: remediation_event_def split: option.splits if_splits sum.splits)
  have utf: "json_utf8 (json_binding (nv_current b))" using ok by (simp add: prepared_binding_ok_def binding_parses_def)
  show ?thesis
  proof (cases legacy)
    case None
    then show ?thesis using ev utf by (simp add: import_ok_def json_binding_event_def field_def omit_nil_def)
  next
    case (Some x)
    then obtain c digest where c: "legacy = Some (c, digest)" by (cases x) auto
    then have "read_legacy change legacy_file = Inr (Some (c, digest)) \<and> binding = Some c"
      using fb by (auto simp: finish_binding_def split: if_splits sum.splits)
    then have "binding_parses c" "sb_change c = change" "digest = identity_of (binding_bytes c)" "sb_revision c = fq_binding q"
      using current by (auto simp: read_legacy_def split: legacy_file.splits if_splits)
    then show ?thesis using ev utf c revision_text [OF runtime_identity]
      by (auto simp: import_ok_def prepared_binding_ok_def binding_parses_def json_binding_event_def field_def omit_nil_def)
  qed
qed

definition finish_fits :: "string \<Rightarrow> ledger_view \<Rightarrow> legacy_file \<Rightarrow> finish_request \<Rightarrow> runtime_status \<Rightarrow> bool" where
  \<comment> \<open>an attempt is active, the repository answers with a candidate and a line count, and the guards of the
    bound review let the finish through: the binding or its legacy file is the one the request names, a
    bound passing candidate is the approved one, or the successor of a remediation is prepared, related,
    of the candidate just captured and small enough for a record\<close>
  "finish_fits change v legacy_file q s \<longleftrightarrow>
     (case ls_active s of None \<Rightarrow> False
      | Some a \<Rightarrow> (case (vw_overlay v (at_begin_tree a), vw_changed v (at_begin_tree a)) of
           (Some (i, t), Some n) \<Rightarrow>
             runtime_revision i \<and> runtime_git_tree t \<and> 0 \<le> n \<and> n \<le> 1000000 \<and>
             (case finish_binding change legacy_file q s of Inl _ \<Rightarrow> False
              | Inr (binding, legacy) \<Rightarrow>
                  remediation_guard q s binding = None \<and> unchanged_guard change v q a binding t = None \<and>
                  (if requests_remediation q
                   then (case remediation_event change v q (the binding) legacy t of Inl _ \<Rightarrow> False
                     | Inr b \<Rightarrow> prepared_binding_ok (nv_current b) change (fq_successor q) \<and>
                         json_weight (json_binding_event b) \<le> 300000)
                   else True))
         | _ \<Rightarrow> False))"

definition finish_done :: "finish_request \<Rightarrow> runtime_status \<Rightarrow> bool" where
  \<comment> \<open>no attempt is active, the last one has the outcome reported, and a pass within the budget has
    completed the objective and, after a remediation, bound the successor\<close>
  "finish_done q s \<longleftrightarrow>
     ls_active s = None \<and> ls_attempts s \<noteq> [] \<and> at_outcome (last (ls_attempts s)) = fq_outcome q \<and>
     (if fq_outcome q = AttemptPassed \<and> \<not> at_exceeded (last (ls_attempts s))
      then ls_complete s \<and>
        (if requests_remediation q then map_option sb_lineage (ls_binding s) = Some (fq_successor q) else True)
      else \<not> ls_complete s)"

lemma finish_fits_builds:
  assumes fits: "finish_fits change v legacy_file q (ly_status y)" and inv: "ledger_inv (ly_status y)"
    and len: "length (ls_attempts (ly_status y)) \<le> 10000" and q: "normalize_finish q = Inr q"
    and utf: "valid_utf8 (fq_diagnosis q)" "valid_utf8 (fq_cleanup q)" "valid_utf8 (fq_process q)"
  obtains e where "finish_event_ok e" "json_weight (json_finish_event e) \<le> 20000 \<and> json_utf8 (json_finish_event e)"
    "\<And>r. finish_request_of r e (fq_binding q) (fq_successor q) = q\<lparr>fq_expected := lc_previous r, fq_id := lc_request r\<rparr>"
    "fv_outcome e = fq_outcome q" "fv_remediates e = fq_remediates q"
    "if requests_remediation q
     then \<exists>b. build_finish change v legacy_file q y =
         Inr ((blank_record OpFinishRemediation)\<lparr>lc_finish := Some e, lc_binding := Some b\<rparr>) \<and>
       import_ok b change \<and> nv_expected b = fq_binding q \<and> json_utf8 (json_binding_event b) \<and>
       prepared_binding_ok (nv_current b) change (fq_successor q) \<and> json_weight (json_binding_event b) \<le> 300000
     else build_finish change v legacy_file q y = Inr ((blank_record OpFinish)\<lparr>lc_finish := Some e\<rparr>)"
proof -
  let ?s = "ly_status y"
  obtain a i t n where a: "ls_active ?s = Some a" and c: "vw_overlay v (at_begin_tree a) = Some (i, t)"
      and n: "vw_changed v (at_begin_tree a) = Some n" "0 \<le> n" "n \<le> 1000000"
      and it: "runtime_revision i" "runtime_git_tree t"
    using fits by (auto simp: finish_fits_def split: option.splits prod.splits)
  obtain binding legacy where fb: "finish_binding change legacy_file q ?s = Inr (binding, legacy)"
    using fits a c n(1) by (auto simp: finish_fits_def split: sum.splits)
  have guards: "remediation_guard q ?s binding = None \<and> unchanged_guard change v q a binding t = None \<and>
      (if requests_remediation q
       then (case remediation_event change v q (the binding) legacy t of Inl _ \<Rightarrow> False
         | Inr b \<Rightarrow> prepared_binding_ok (nv_current b) change (fq_successor q) \<and>
             json_weight (json_binding_event b) \<le> 300000)
       else True)"
    using fits a c n(1) fb by (simp add: finish_fits_def)
  then have g: "remediation_guard q ?s binding = None" "unchanged_guard change v q a binding t = None" by simp_all
  have qs: "runtime_request_id (fq_id q)" "terminal_outcome (fq_outcome q)" "runtime_revision (fq_evidence q)"
      "runtime_text 500 (fq_diagnosis q)" "known_harness (fq_harness q)" "runtime_text 500 (fq_cleanup q)"
      "runtime_text 500 (fq_process q)" "fq_remediates q = [] \<or> runtime_revision (fq_remediates q)"
      "requests_remediation q \<Longrightarrow> runtime_revision (fq_binding q)"
    using q by (auto simp: normalize_finish_def requests_remediation_def split: if_splits)
  have ph: "ls_objective ?s \<noteq> None" "ls_attempts ?s \<noteq> []" "last (ls_attempts ?s) = a"
    using inv a by (auto simp: ledger_inv_def phase_matches_def)
  then obtain oj where oj: "ls_objective ?s = Some oj" by blast
  let ?k = "length (ls_attempts ?s) - 1"
  have "map at_ordinal (ls_attempts ?s) ! ?k = int ?k + 1"
    using inv ph(2) by (simp add: ledger_inv_def attempts_sound_def)
  then have ord: "at_ordinal a = int ?k + 1" using ph by (simp add: last_conv_nth)
  let ?e = "finish_event_of q a oj ?s (i, t) n"
  have ev: "finish_event_ok ?e" using ord qs it n by (simp add: finish_event_ok_def finish_event_of_def)
  have w: "json_weight (json_finish_event ?e) \<le> 20000 \<and> json_utf8 (json_finish_event ?e)"
    using finish_weight [OF ev] qs ord len utf by (simp add: finish_event_of_def)
  have b: "if requests_remediation q
     then \<exists>b. build_finish change v legacy_file q y =
         Inr ((blank_record OpFinishRemediation)\<lparr>lc_finish := Some ?e, lc_binding := Some b\<rparr>) \<and>
       import_ok b change \<and> nv_expected b = fq_binding q \<and> json_utf8 (json_binding_event b) \<and>
       prepared_binding_ok (nv_current b) change (fq_successor q) \<and> json_weight (json_binding_event b) \<le> 300000
     else build_finish change v legacy_file q y = Inr ((blank_record OpFinish)\<lparr>lc_finish := Some ?e\<rparr>)"
  proof (cases "requests_remediation q")
    case False
    then show ?thesis using a oj c n(1) fb g by (simp add: build_finish_def)
  next
    case True
    then obtain b where b: "remediation_event change v q (the binding) legacy t = Inr b"
        "prepared_binding_ok (nv_current b) change (fq_successor q)" "json_weight (json_binding_event b) \<le> 300000"
      using guards by (auto split: sum.splits)
    have "build_finish change v legacy_file q y =
        Inr ((blank_record OpFinishRemediation)\<lparr>lc_finish := Some ?e, lc_binding := Some b\<rparr>)"
      using True a oj c n(1) fb g b(1) by (simp add: build_finish_def)
    then show ?thesis
      using True b remediation_binding [OF fb g(1) True b(1,2)] qs(9) [OF True] by auto
  qed
  show thesis
    by (rule that [of ?e]) (use ev w b in \<open>simp_all add: finish_request_of_def finish_event_of_def\<close>)
qed

lemma finish_settles:
  assumes app: "apply_finish e s = Inr t" and inv: "ledger_inv s"
  shows "ls_active t = None \<and> ls_attempts t \<noteq> [] \<and> at_outcome (last (ls_attempts t)) = fv_outcome e \<and>
    (at_exceeded (last (ls_attempts t)) \<longleftrightarrow> fv_exceeded e) \<and>
    (ls_complete t \<longleftrightarrow> fv_outcome e = AttemptPassed \<and> \<not> fv_exceeded e)"
proof -
  from apply_finish_Inr [OF app] obtain a oj where s: "ls_active s = Some a" and t: "t = settle_finish oj e
      (s\<lparr>ls_attempts := butlast (ls_attempts s) @ [finished_attempt e (last (ls_attempts s))],
         ls_active := None, ls_cumulative_lines := go_add (ls_cumulative_lines s) (fv_lines e),
         ls_lifetime_lines := go_add (ls_lifetime_lines s) (fv_lines e), ls_evidence := fv_evidence e\<rparr>)" by blast
  have "\<not> ls_complete s" using inv s by (simp add: ledger_inv_def phase_matches_def)
  moreover have "ls_complete (settle_finish oj e u) \<longleftrightarrow> (fv_outcome e = AttemptPassed \<and> \<not> fv_exceeded e) \<or> ls_complete u" for u
    by (auto simp: settle_finish_def)
  ultimately show ?thesis by (simp add: t finished_attempt_def)
qed

lemma finish_applied:
  assumes "apply_finish e s = Inr t" "fv_outcome e = fq_outcome q" "\<not> requests_remediation q" "ledger_inv s"
  shows "finish_done q t"
  using finish_settles [OF assms(1,4)] assms(2,3) by (auto simp: finish_done_def)

lemma remediation_applied:
  assumes app: "apply_remediation e b s = Inr t" and out: "fv_outcome e = fq_outcome q"
    and l: "sb_lineage (nv_current b) = fq_successor q" and inv: "ledger_inv s"
  shows "finish_done q t"
proof -
  from apply_remediation_Inr [OF app] obtain u where u: "apply_finish e s = Inr u"
      and t: "if fv_exceeded e then t = u else apply_binding b u = Inr t" by blast
  show ?thesis using finish_settles [OF u inv] out l t
    by (cases "fv_exceeded e") (auto simp: finish_done_def dest!: apply_binding_Inr)
qed

lemma finish_accepted:
  assumes y: "load_ledger change d = Inr y" and room: "card (dom (ly_requests y)) < max_chain_records"
    and change: "valid_binding_change change" and fits: "finish_fits change v (dk_legacy d) q (ly_status y)"
    and q: "normalize_finish q = Inr q" and e: "fq_expected q = ls_revision (ly_status y)"
    and new: "ly_requests y (fq_id q) = None"
    and utf: "valid_utf8 (fq_diagnosis q)" "valid_utf8 (fq_cleanup q)" "valid_utf8 (fq_process q)"
  shows "writes d (ledger_finish change v q d) (finish_done q)"
proof -
  let ?s = "ly_status y"
  note inv = load_inv [OF y] and len = load_attempts [OF y]
  have qs: "runtime_request_id (fq_id q)" "terminal_outcome (fq_outcome q)"
    using q by (auto simp: normalize_finish_def split: if_splits)
  have accept: "writes d (ledger_finish change v q d) (finish_done q)"
    if b: "build_finish change v (dk_legacy d) q y = Inr raw"
      and shape: "validate_record_shape (sealed_record change (fq_expected q) (fq_id q) (finish_digest q) raw) = None"
      and readable: "record_readable (sealed_record change (fq_expected q) (fq_id q) (finish_digest q) raw)"
      and app: "\<And>rv t. apply_event rv (sealed_record change (fq_expected q) (fq_id q) (finish_digest q) raw) ?s = Inr t
        \<Longrightarrow> finish_done q t" for raw
  proof -
    obtain s where s: "apply_event (record_revision (sealed_record change (fq_expected q) (fq_id q) (finish_digest q) raw))
        (sealed_record change (fq_expected q) (fq_id q) (finish_digest q) raw) ?s = Inr s"
      using finish_applies [OF inv b] by blast
    have "finish_done q (s\<lparr>ls_revision := rv\<rparr>)" for rv using app [OF s] by (simp add: finish_done_def)
    then show ?thesis
      using mutate_accepts [where build = "build_finish change v (dk_legacy d) q", OF y _ _ b shape readable room s] new e q
      by (simp add: ledger_finish_def)
  qed
  show ?thesis
  proof (rule finish_fits_builds [OF fits inv len q utf], goal_cases)
    case (1 f)
    note identity = sealed_record_identity [OF change y qs(1), of "finish_digest q"]
    show ?case
    proof (cases "requests_remediation q")
      case False
      let ?raw = "(blank_record OpFinish)\<lparr>lc_finish := Some f\<rparr>"
      let ?r = "sealed_record change (fq_expected q) (fq_id q) (finish_digest q) ?raw"
      have rem: "fq_binding q = []" "fq_successor q = []" "fq_remediates q = []"
        using False by (auto simp: requests_remediation_def)
      have "finish_request_of ?r f [] [] = q" using 1(3) [of ?r] rem by simp
      then have shape: "validate_record_shape ?r = None"
        using identity [of ?raw] 1(1,4,5) e qs rem
        by (simp add: validate_record_shape_def with_event_def only_finish_def validate_finish_shape_def guard_def)
      have readable: "record_readable ?r" using 1(2) by (intro readable_by_weight [OF shape]) auto
      show ?thesis
        by (rule accept [OF _ shape readable])
          (use 1(4,6) False finish_applied [OF _ _ False inv] in \<open>simp_all add: apply_event_def\<close>)
    next
      case True
      then obtain b where b: "build_finish change v (dk_legacy d) q y =
           Inr ((blank_record OpFinishRemediation)\<lparr>lc_finish := Some f, lc_binding := Some b\<rparr>)"
          "import_ok b change" "nv_expected b = fq_binding q" "json_utf8 (json_binding_event b)"
          "prepared_binding_ok (nv_current b) change (fq_successor q)" "json_weight (json_binding_event b) \<le> 300000"
        using 1(6) by auto
      let ?raw = "(blank_record OpFinishRemediation)\<lparr>lc_finish := Some f, lc_binding := Some b\<rparr>"
      let ?r = "sealed_record change (fq_expected q) (fq_id q) (finish_digest q) ?raw"
      have l: "sb_lineage (nv_current b) = fq_successor q" using b(5) by (simp add: prepared_binding_ok_def)
      have rq: "fq_outcome q = AttemptPassed" "runtime_revision (fq_binding q)" "runtime_revision (fq_remediates q)"
        using q True by (auto simp: normalize_finish_def split: if_splits)
      have "finish_request_of ?r f (fq_binding q) (fq_successor q) = q" using 1(3) [of ?r] by simp
      then have shape: "validate_record_shape ?r = None"
        using identity [of ?raw] 1(1,4,5) b l rq e
        by (simp add: validate_record_shape_def with_event_def validate_remediation_shape_def guard_def)
      have readable: "record_readable ?r" using 1(2) b(4,6) by (intro readable_by_weight [OF shape]) auto
      show ?thesis
        by (rule accept [OF b(1) shape readable])
          (use remediation_applied [OF _ 1(4) l inv] in \<open>simp add: apply_event_def\<close>)
    qed
  qed
qed

section \<open>The next action\<close>

definition begin_fits :: "ledger_view \<Rightarrow> begin_request \<Rightarrow> runtime_status \<Rightarrow> bool" where
  \<comment> \<open>a first attempt needs the repository's candidate; a further one repeats the objective exactly, and the
    candidate is the one the last attempt of the objective left\<close>
  "begin_fits v q s \<longleftrightarrow>
     (case ls_objective s of
        None \<Rightarrow> (case vw_capture v of None \<Rightarrow> False | Some (i, t) \<Rightarrow> runtime_revision i \<and> runtime_git_tree t)
      | Some oj \<Rightarrow>
          bq_work_unit q = oj_work_unit oj \<and> bq_goal q = oj_goal oj \<and>
          bq_max_attempts q = oj_max_attempts oj \<and> bq_max_lines q = oj_max_lines oj \<and> ls_attempts s \<noteq> [] \<and>
          (let a = last (ls_attempts s) in at_objective a = oj_id oj \<and>
             runtime_revision (at_finish_identity a) \<and> runtime_git_tree (at_finish_tree a) \<and>
             vw_overlay v (at_begin_tree a) = Some (at_finish_identity a, at_finish_tree a)))"

lemma begin_fits_candidate:
  assumes inv: "ledger_inv s" and idle: "ls_active s = None" and fits: "begin_fits v q s"
  obtains g i t where "begin_candidate v q s = Inr (g, i, t)" "runtime_revision i" "runtime_git_tree t"
proof (cases "ls_objective s")
  case None
  then show thesis using fits that by (auto simp: begin_fits_def begin_candidate_def split: option.splits)
next
  case (Some oj)
  let ?a = "last (ls_attempts s)"
  have a: "ls_attempts s \<noteq> []" "runtime_revision (at_finish_identity ?a)" "runtime_git_tree (at_finish_tree ?a)"
    using fits Some by (auto simp: begin_fits_def Let_def)
  have "terminal_outcome (at_outcome ?a)"
    using inv idle a(1) by (auto simp: ledger_inv_def phase_matches_def list_all_iff)
  moreover have "at_finish_identity ?a \<noteq> []" "at_finish_tree ?a \<noteq> []"
    using a(2,3) by (auto simp: runtime_revision_def runtime_git_tree_def)
  ultimately have "begin_candidate v q s = Inr (oj_generation oj, at_finish_identity ?a, at_finish_tree ?a)"
    using fits Some by (auto simp: begin_fits_def begin_candidate_def Let_def terminal_outcome_def)
  then show thesis using that a by blast
qed

fun call_fits :: "string \<Rightarrow> ledger_view \<Rightarrow> legacy_file \<Rightarrow> ledger_replay \<Rightarrow> ledger_call \<Rightarrow> bool" where
  \<comment> \<open>a well-formed request of the operation the status names, in UTF-8 text, that the repository answers\<close>
  "call_fits change v legacy_file y (CallBegin q) \<longleftrightarrow>
     ls_next_action (ly_status y) = ActionBegin \<and> valid_utf8 (bq_work_unit q) \<and> valid_utf8 (bq_goal q) \<and>
     (case normalize_begin q of Inl _ \<Rightarrow> False | Inr q' \<Rightarrow> begin_fits v q' (ly_status y))"
| "call_fits change v legacy_file y (CallFinish q) \<longleftrightarrow>
     ls_next_action (ly_status y) = ActionFinish \<and> normalize_finish q = Inr q \<and>
     valid_utf8 (fq_diagnosis q) \<and> valid_utf8 (fq_cleanup q) \<and> valid_utf8 (fq_process q) \<and>
     finish_fits change v legacy_file q (ly_status y)"
| "call_fits change v legacy_file y (CallReset q) \<longleftrightarrow>
     ls_next_action (ly_status y) \<in> {ActionReset, ActionComplete} \<and> normalize_reset q = Inr q \<and>
     valid_utf8 (zq_reason q) \<and> valid_utf8 (zq_actor q) \<and>
     (case vw_capture v of None \<Rightarrow> False | Some (i, t) \<Rightarrow> runtime_revision i \<and> runtime_git_tree t)"
| "call_fits change v legacy_file y (CallBind q) \<longleftrightarrow> False"

fun call_done :: "ledger_call \<Rightarrow> runtime_status \<Rightarrow> bool" where
  \<comment> \<open>what the call was for\<close>
  "call_done (CallBegin q) s \<longleftrightarrow> ls_next_action s = ActionFinish"
| "call_done (CallFinish q) s \<longleftrightarrow> finish_done q s"
| "call_done (CallReset q) s \<longleftrightarrow> ls_next_action s = ActionBegin \<and> ls_objective s = None"
| "call_done (CallBind q) s \<longleftrightarrow> True"

lemma fitting_call_writes:
  assumes y: "load_ledger change d = Inr y" and room: "card (dom (ly_requests y)) < max_chain_records"
    and change: "valid_binding_change change" and fits: "call_fits change v (dk_legacy d) y call"
    and e: "call_expected call = Some (ls_revision (ly_status y))" and new: "ly_requests y (call_id call) = None"
  shows "writes d (run_call change v call d) (call_done call)"
proof (cases call)
  case (CallBegin q)
  have [simp]: "call_done (CallBegin q) = (\<lambda>s. ls_next_action s = ActionFinish)" by (rule ext) simp
  obtain q' where q': "normalize_begin q = Inr q'" "begin_fits v q' (ly_status y)"
    using fits by (auto simp: CallBegin split: sum.splits)
  have act: "ls_next_action (ly_status y) = ActionBegin" using fits by (simp add: CallBegin)
  then have "ls_active (ly_status y) = None"
    using load_inv [OF y] by (auto simp: ledger_inv_def phase_matches_def split: if_splits)
  from begin_fits_candidate [OF load_inv [OF y] this q'(2)] obtain g i t where
    "begin_candidate v q' (ly_status y) = Inr (g, i, t)" "runtime_revision i" "runtime_git_tree t" by blast
  then show ?thesis using begin_accepted [OF y room change act q'(1)] fits e new by (simp add: CallBegin)
next
  case (CallFinish q)
  have [simp]: "call_done (CallFinish q) = finish_done q" by (rule ext) simp
  from fits show ?thesis using finish_accepted [OF y room change] e new by (simp add: CallFinish)
next
  case (CallReset q)
  have [simp]: "call_done (CallReset q) = (\<lambda>s. ls_next_action s = ActionBegin \<and> ls_objective s = None)"
    by (rule ext) simp
  from fits show ?thesis using reset_accepted [OF y room change] e new
    by (auto simp: CallReset split: option.splits prod.splits)
next
  case (CallBind q)
  then show ?thesis using fits by simp
qed

section \<open>A ledger that cannot be read\<close>

lemma unreadable_stuck:
  assumes "load_ledger change d = Inl err"
  shows "\<exists>err. run_call change v call d = (d, Inl err)"
  using assms
  by (cases call) (simp_all add: ledger_begin_def ledger_finish_def ledger_reset_def ledger_bind_def mutate_def split: sum.splits)

lemma garbled_begin:
  assumes y: "load_ledger change d = Inr y" and change: "valid_binding_change change"
    and act: "ls_next_action (ly_status y) = ActionBegin"
    and q: "normalize_begin q0 = Inr q" and e: "bq_expected q0 = ls_revision (ly_status y)"
    and new: "ly_requests y (bq_id q0) = None" and utf: "\<not> valid_utf8 (bq_goal q0)"
    and c: "begin_candidate v q (ly_status y) = Inr (g, i, t)" and it: "runtime_revision i" "runtime_git_tree t"
  shows "case ledger_begin change v q0 d of (d', result) \<Rightarrow>
    if result = Inl RecordDiffers then dk_records d \<noteq> Map.empty else d' \<noteq> d \<and> (\<exists>err. load_ledger change d' = Inl err)"
proof -
  have qs: "bq_id q = bq_id q0" "bq_expected q = bq_expected q0" using call_normalized(1) [OF q] by simp_all
  show ?thesis
  proof (rule begin_builds [OF y change act q e c it], goal_cases)
    case (1 b s)
    let ?raw = "(blank_record OpBegin)\<lparr>lc_begin := Some b\<rparr>"
    let ?r = "sealed_record change (bq_expected q) (bq_id q) (begin_digest q) ?raw"
    have "ledger_begin change v q0 d = commit_record change ?r d"
      using y new e qs 1(1,7) by (simp add: ledger_begin_def q mutate_def commit_checked_def)
    moreover have "\<not> record_readable ?r"
      using utf 1(6) by (simp add: record_readable_def ledger_json_defs)
    moreover have nxt: "next_record change ?r y" using 1(7) new e qs by (simp add: next_record_def)
    ultimately show ?case
      using commit_loads [OF y nxt _ 1(8)] publish_errors y
      by (cases "publish_record ?r d") (auto simp: commit_record_def Let_def)
  qed
qed

end
