(* ===== verification/LedgerProps.thy ===== *)
theory LedgerProps
  imports LedgerLive
begin

text \<open>
  The properties of the runtime ledger: the status it replays to summarises its attempts within the
  objective's budget, a call leaves the files alone or appends one record that replays, requests are
  idempotent and of two calls on one head only one commits, attempts that are over are never
  rewritten, the bound review changes only as the calls say, and the next action the status names
  can be taken. The last property is the record after which the ledger can no longer be read.
\<close>

section \<open>A sample ledger\<close>

definition blank_context :: gate_context where
  "blank_context =
     \<lparr>gc_gate = PostApply, gc_lineage = [], gc_generation = 0, gc_store_revision = [], gc_genesis_revision = [],
      gc_chain = [], gc_bundle = [], gc_base = [], gc_candidate = [], gc_paths_digest = [], gc_fix_delta = [],
      gc_policy = [], gc_ledger = [], gc_evidence = [], gc_base_related = False, gc_external = ExternalNone,
      gc_advance = None, gc_release = None, gc_boundary = None, gc_denial = None, gc_scope = None\<rparr>"

definition sample_view :: ledger_view where
  "sample_view =
     \<lparr>vw_capture = Some (identity_of ''candidate'', replicate 40 CHR ''a''),
      vw_overlay = (\<lambda>_. Some (identity_of ''candidate'', replicate 40 CHR ''b'')), vw_changed = (\<lambda>_. Some 7),
      vw_legacy_again = NoLegacy, vw_prepare = (\<lambda>_. None), vw_prepare_again = (\<lambda>_. None),
      vw_leaves = None, vw_authority = (\<lambda>_. None), vw_receipt = (\<lambda>_. None),
      vw_gate = (\<lambda>_ _. (GateInvalidated, blank_context))\<rparr>"

definition empty_files :: ledger_disk where
  "empty_files = \<lparr>dk_head = NoHead, dk_records = Map.empty, dk_legacy = NoLegacy\<rparr>"

definition sample_request :: "string \<Rightarrow> begin_request" where
  "sample_request goal =
     \<lparr>bq_expected = [], bq_id = ''one'', bq_work_unit = ''parser'', bq_goal = goal, bq_max_attempts = 0,
      bq_max_lines = 0\<rparr>"

definition sample_ledger :: ledger_step where
  "sample_ledger = run_call ''demo'' sample_view (CallBegin (sample_request ''tests pass'')) empty_files"

lemma empty_loads: "load_ledger change empty_files = Inr (empty_replay change)"
  by (simp add: load_ledger_def empty_files_def)

lemma empty_fields [simp]:
  "ls_revision (ly_status (empty_replay change)) = []" "ly_requests (empty_replay change) = Map.empty"
  "ls_next_action (ly_status (empty_replay change)) = ActionBegin"
  "ls_objective (ly_status (empty_replay change)) = None" "ls_generation (ly_status (empty_replay change)) = 0"
  by (simp_all add: empty_replay_def empty_status_def)

lemma sample_normal:
  "normalize_begin (sample_request ''tests pass'') =
     Inr (sample_request ''tests pass''\<lparr>bq_max_attempts := 2, bq_max_lines := 200\<rparr>)"
  "normalize_begin (sample_request [CHR 0xFF]) =
     Inr (sample_request [CHR 0xFF]\<lparr>bq_max_attempts := 2, bq_max_lines := 200\<rparr>)"
  by code_simp+

lemma sample_candidate:
  "begin_candidate sample_view q (ly_status (empty_replay change)) =
     Inr (go_add 0 1, identity_of ''candidate'', replicate 40 CHR ''a'')"
  by (simp add: begin_candidate_def sample_view_def)

lemma sample_git_tree: "runtime_git_tree (replicate 40 CHR ''a'')" "valid_binding_change ''demo''"
  by code_simp+

lemma sample_call_fits: "call_fits ''demo'' sample_view legacy_file (empty_replay ''demo'') (CallBegin (sample_request ''tests pass''))"
  using sample_git_tree
  by (simp add: sample_normal begin_fits_def) (simp add: sample_view_def runtime_identity sample_request_def valid_utf8_plain byte_def)

lemma sample_written:
  "\<exists>s. snd sample_ledger = Inr s \<and> ls_next_action s = ActionFinish"
proof -
  have "writes empty_files sample_ledger (call_done (CallBegin (sample_request ''tests pass'')))"
    unfolding sample_ledger_def
    by (rule fitting_call_writes [OF empty_loads _ sample_git_tree(2) sample_call_fits])
      (simp_all add: max_chain_records_def, simp_all add: sample_request_def)
  then show ?thesis by (auto simp: writes_def empty_files_def split: sum.splits)
qed

lemma sample_changes: "fst sample_ledger \<noteq> empty_files"
proof
  assume same: "fst sample_ledger = empty_files"
  obtain s where s: "snd sample_ledger = Inr s" "ls_next_action s = ActionFinish" using sample_written by blast
  with same have "sample_ledger = (empty_files, Inr s)" by (simp add: prod_eq_iff)
  then show False
    using run_call_cases [of "''demo''" sample_view "CallBegin (sample_request ''tests pass'')" empty_files] s(2)
    by (auto simp: sample_ledger_def empty_loads commits_changes)
qed

lemma sample_commits: obtains d' s where "sample_ledger = (d', Inr s)" "d' \<noteq> empty_files"
  using sample_written sample_changes by (metis prod.collapse)

lemma garbled_text: "\<not> valid_utf8 [CHR 0xFF]"
  by code_simp

section \<open>Replay\<close>

text \<open>C26: a ledger that loads gives a status whose counters are functions of its attempts, whose phase
  matches its flags and last attempt, whose objective is within its budget (an overrun is only ever
  the last attempt's), and whose binding is a well-formed one.\<close>

theorem replayed_status_sound:
  "case load_ledger change d of Inl _ \<Rightarrow> True
   | Inr y \<Rightarrow> attempts_sound (ly_status y) \<and> counters_match (ly_status y) \<and> phase_matches (ly_status y) \<and>
       budget_kept (ly_status y) \<and> binding_sound (ly_status y) \<and> length (ls_attempts (ly_status y)) \<le> 10000"
  using load_inv load_attempts by (auto simp: ledger_inv_def split: sum.splits)

section \<open>Calls\<close>

text \<open>C27: a call either leaves the files as they are, returning an error or the status they replay to, or
  it appends one record under the current head. Of the record, if it reads back and the chain has
  room, the files then replay to the status before with the record's event applied; if not, the
  ledger no longer loads and the call reports that.\<close>

theorem call_refines_event:
  "case run_call change v call d of (d', result) \<Rightarrow>
     d' = d \<and> (case result of Inl _ \<Rightarrow> True
       | Inr s \<Rightarrow> \<exists>y. load_ledger change d = Inr y \<and> s = ly_status y) \<or>
     (\<exists>y r s. load_ledger change d = Inr y \<and> lc_request r = call_id call \<and>
        lc_previous r = ls_revision (ly_status y) \<and> validate_record_shape r = None \<and>
        apply_event (record_revision r) r (ly_status y) = Inr s \<and>
        d' = d\<lparr>dk_records := (dk_records d)(record_revision r \<mapsto> r), dk_head := HeadFile (record_revision r)\<rparr> \<and>
        (if record_readable r \<and> card (dom (ly_requests y)) < max_chain_records
         then load_ledger change d' = Inr (advanced r s y) \<and> result = Inr (s\<lparr>ls_revision := record_revision r\<rparr>)
         else (\<exists>err. load_ledger change d' = Inl err \<and> result = Inl (CommittedUnreadable err))))"
proof -
  obtain d' result where step: "run_call change v call d = (d', result)" by (cases "run_call change v call d")
  have files: "publish_head (record_revision r) d2 =
      d\<lparr>dk_records := (dk_records d)(record_revision r \<mapsto> r), dk_head := HeadFile (record_revision r)\<rparr>"
    if "publish_record r d = Inr d2" for r d2
    using that by (auto simp: publish_head_def publish_record_def Let_def split: option.splits if_splits)
  show ?thesis
  proof (cases "d' = d")
    case True
    have "case result of Inl _ \<Rightarrow> True | Inr s \<Rightarrow> \<exists>y. load_ledger change d = Inr y \<and> s = ly_status y"
      using step True run_call_cases [of change v call d] by (cases result) (auto simp: commits_changes)
    with True step show ?thesis by simp
  next
    case False
    then have "fst (run_call change v call d) \<noteq> d" by (simp add: step)
    from call_appends [OF this] obtain y r s where c: "load_ledger change d = Inr y" "next_record change r y"
        "lc_request r = call_id call" "apply_event (record_revision r) r (ly_status y) = Inr s"
        "(d', result) = commit_record change r d" using step by auto
    from commit_result [OF c(1,2,4)] False c(5) obtain d2 where pub: "publish_record r d = Inr d2"
        and "if record_readable r \<and> card (dom (ly_requests y)) < max_chain_records
        then load_ledger change (publish_head (record_revision r) d2) = Inr (advanced r s y) \<and>
          (d', result) = (publish_head (record_revision r) d2, Inr (ly_status (advanced r s y)))
        else (\<exists>err. load_ledger change (publish_head (record_revision r) d2) = Inl err \<and>
          (d', result) = (publish_head (record_revision r) d2, Inl (CommittedUnreadable err)))"
      by auto
    with c files [OF pub] show ?thesis unfolding step next_record_def
      by (auto simp: next_record_def split: if_splits)
  qed
qed

text \<open>requests are idempotent. A call that committed can be repeated with whatever the repository now
  answers: it returns the status it returned and leaves the files alone.\<close>

lemma committed_call_repeats:
  assumes "run_call change v call d = (d', Inr s)" "d' \<noteq> d"
  shows "run_call change v' call d' = (d', Inr s)"
  by (rule committed_repeats [OF assms])

lemma committed_call_repeats_witness:
  "run_call ''demo'' sample_view (CallBegin (sample_request ''tests pass'')) (fst sample_ledger) = sample_ledger"
proof -
  obtain d' s where s: "sample_ledger = (d', Inr s)" "d' \<noteq> empty_files" by (rule sample_commits)
  then show ?thesis
    using committed_call_repeats [of "''demo''" sample_view "CallBegin (sample_request ''tests pass'')" empty_files d' s sample_view]
    by (simp add: sample_ledger_def)
qed

text \<open>C28: of two calls conditional on one head only one commits. After a call has committed, a different new
  request that expects the head from before is refused and the files stay.\<close>

theorem competing_call_refused:
  assumes "load_ledger change d = Inr y" "run_call change v call d = (d', Inr s)" "d' \<noteq> d"
    and "call_expected later = Some (ls_revision (ly_status y))" "call_id later \<noteq> call_id call"
    and "ly_requests y (call_id later) = None"
  shows "\<exists>err. run_call change v' later d' = (d', Inl err)"
proof -
  from call_committed [OF assms(2,3)] obtain z r t where c: "load_ledger change d = Inr z"
      "load_ledger change d' = Inr (advanced r t z)" "lc_request r = call_id call"
      "record_revision r \<noteq> ls_revision (ly_status z)" by blast
  with assms show ?thesis by (intro call_stale [OF c(2) _ assms(4)]) auto
qed

theorem competing_call_refused_witness:
  "\<exists>err. run_call ''demo'' sample_view (CallBegin (sample_request ''docs build''\<lparr>bq_id := ''two''\<rparr>)) (fst sample_ledger) =
     (fst sample_ledger, Inl err)"
proof -
  obtain d' s where s: "sample_ledger = (d', Inr s)" "d' \<noteq> empty_files" by (rule sample_commits)
  then show ?thesis
    using competing_call_refused [OF empty_loads, of "''demo''" sample_view "CallBegin (sample_request ''tests pass'')" d' s
        "CallBegin (sample_request ''docs build''\<lparr>bq_id := ''two''\<rparr>)" sample_view]
    by (simp add: sample_ledger_def) (simp add: sample_request_def)
qed

text \<open>C29: no call rewrites what is over. The settled attempts before a call are the first settled attempts
  after it, and the lifetime counters and the generation do not decrease.\<close>

theorem attempts_append_only:
  "case (load_ledger change d, load_ledger change (fst (run_call change v call d))) of
     (Inr y, Inr z) \<Rightarrow>
       prefix (settled_attempts (ly_status y)) (settled_attempts (ly_status z)) \<and>
       ls_lifetime_attempts (ly_status y) \<le> ls_lifetime_attempts (ly_status z) \<and>
       ls_lifetime_lines (ly_status y) \<le> ls_lifetime_lines (ly_status z) \<and>
       ls_generation (ly_status y) \<le> ls_generation (ly_status z)
   | _ \<Rightarrow> True"
  using call_history [of change d _ v call] by (auto simp: history_kept_def split: sum.splits)

text \<open>the bound review changes only by a binding call, to the prepared binding of the requested lineage, or
  by a finish that passed, completed the objective and named a successor, to the binding prepared
  for that successor whose candidate is the tree the attempt left.\<close>

theorem binding_changes_only:
  "case (load_ledger change d, load_ledger change (fst (run_call change v call d))) of
     (Inr y, Inr z) \<Rightarrow>
       if ls_binding (ly_status z) = ls_binding (ly_status y) then True
       else (case call of
           CallBind q \<Rightarrow> \<exists>b. ls_binding (ly_status z) = Some b \<and> vw_prepare v (nq_lineage q) = Some b \<and>
             sb_change b = change \<and> sb_lineage b = nq_lineage q
         | CallFinish q \<Rightarrow> requests_remediation q \<and> fq_outcome q = AttemptPassed \<and> ls_complete (ly_status z) \<and>
             (\<exists>b. ls_binding (ly_status z) = Some b \<and> vw_prepare_again v (fq_successor q) = Some b \<and>
               gc_candidate (sb_context b) = at_finish_tree (last (ls_attempts (ly_status z))))
         | _ \<Rightarrow> False)
   | _ \<Rightarrow> True"
  using call_binding [of change d _ v call] by (auto split: sum.splits)









section \<open>Losing the ledger\<close>

text \<open>the checks on a request admit text that is not UTF-8, and the record of such a begin, once
  committed, cannot be read back: the ledger stops loading, and every later call fails and leaves it
  so.\<close>

theorem garbled_begin_is_fatal:
  assumes "load_ledger change d = Inr y" "valid_binding_change change" "dk_records d = Map.empty"
    and "ls_next_action (ly_status y) = ActionBegin" "normalize_begin q = Inr q'"
    and "bq_expected q = ls_revision (ly_status y)" "ly_requests y (bq_id q) = None" "\<not> valid_utf8 (bq_goal q)"
    and "begin_candidate v q' (ly_status y) = Inr (g, i, t)" "runtime_revision i" "runtime_git_tree t"
  shows "case ledger_begin change v q d of (d', result) \<Rightarrow>
    d' \<noteq> d \<and> (\<exists>err. load_ledger change d' = Inl err) \<and>
    (\<forall>v' call. \<exists>err. run_call change v' call d' = (d', Inl err))"
  using garbled_begin [OF assms(1,2,4-)] assms(3) unreadable_stuck
  by (auto split: prod.splits if_splits)

theorem garbled_begin_is_fatal_witness:
  "\<exists>err. load_ledger ''demo'' (fst (ledger_begin ''demo'' sample_view (sample_request [CHR 0xFF]) empty_files)) = Inl err"
  using garbled_begin_is_fatal [OF empty_loads sample_git_tree(2) _ _ sample_normal(2) _ _ _ sample_candidate
      runtime_identity sample_git_tree(1)] garbled_text
  by (auto simp: empty_files_def sample_request_def split: prod.splits)

end
