(* ===== verification/SddProps.thy ===== *)
theory SddProps
  imports SddArchive LedgerProps CompactProps V1Samples
begin

text \<open>
  A sample change: its documents, a verify report over them, and the surroundings in which it can be
  archived.

  The properties of the spec-driven development status: what the recommended phase says about the
  dependencies and the blocking reasons, what a recommendation to archive rests on, the agreement of
  the two readings of a verify report, and two behaviours of the resolution that its callers would not
  expect.
\<close>

definition sample_hash :: string where
  "sample_hash = ''sha256:'' @ replicate 64 CHR ''a''"

definition sample_fields :: "string \<Rightarrow> fields" where
  \<comment> \<open>a passing report over one requirement, with the scenarios given\<close>
  "sample_fields scenarios =
     [(''schema'', verify_result_schema), (''evidence_revision'', sample_hash), (''verdict'', ''pass''),
      (''blockers'', ''0''), (''critical_findings'', ''0''), (''requirements'', ''1/1''),
      (''scenarios'', scenarios), (''test_command'', ''go test''), (''test_exit_code'', ''0''),
      (''test_output_hash'', sample_hash), (''build_command'', ''go build''), (''build_exit_code'', ''0''),
      (''build_output_hash'', sample_hash)]"

definition sample_spec :: string where
  "sample_spec = ''### Requirement: Order'' @ [line_feed] @ ''#### Scenario: Empty''"

definition sample_docs :: "string \<Rightarrow> change_docs" where
  "sample_docs scenarios =
     \<lparr>cd_proposal = Doc ''why'', cd_design = Doc ''how'', cd_tasks = Doc ''- [x] build'', cd_progress = NoDoc,
      cd_report = Doc (envelope_text (sample_fields scenarios)), cd_state = NoDoc,
      cd_ledger = NoDoc, cd_receipt = Doc ''receipt'', cd_bundle = NoDoc, cd_context = NoDoc,
      cd_specs = Some [Doc sample_spec],
      cd_specs_dir = True\<rparr>"

definition sample_codec :: receipt_codec where
  "sample_codec =
     \<lparr>rc_schema = (\<lambda>_. receipt_schema), rc_compact = (\<lambda>_. None),
      rc_v1 = (\<lambda>_. Some (receipt_fields zero_transaction TerminalApproved))\<rparr>"

definition sample_authorities :: authority_view where
  "sample_authorities =
     \<lparr>av_records = [], av_load = (\<lambda>_. None), av_receipt = (\<lambda>_. None), av_gate = (\<lambda>_ _. (GateInvalidated, blank_context)),
      av_v1 = Some [], av_v1_gate = (\<lambda>_. Some GateAllow)\<rparr>"

definition sample_env :: sdd_env where
  "sample_env =
     \<lparr>se_codec = sample_codec, se_evidence = (\<lambda>_. None), se_transaction = (\<lambda>_. Inl []), se_json = (\<lambda>_. False),
      se_git = NoRepository, se_opens = True, se_disk = empty_files, se_legacy_stat = True,
      se_root = Some ''root'', se_ledger = NoDoc, se_now = sample_authorities,
      se_disk_later = empty_files, se_root_later = Some ''root'', se_later = sample_authorities\<rparr>"

section \<open>Its facts\<close>

lemma sample_passing:
  "parse_verify_result (spec_counts_of [sample_spec]) (envelope_text (sample_fields ''1/1'')) =
     \<lparr>ve_passing = True, ve_stale = False, ve_reason = [], ve_evidence = sample_hash\<rparr>"
  by code_simp

lemma sample_stale:
  "parse_verify_result (spec_counts_of [sample_spec]) (envelope_text (sample_fields ''2/2'')) =
     \<lparr>ve_passing = False, ve_stale = True, ve_reason = total_mismatch 2 ''scenario'' 1, ve_evidence = sample_hash\<rparr>"
  by code_simp

lemma sample_report_done:
  "single_artifact (Doc (envelope_text (sample_fields ''1/1''))) = ArtifactDone"
  "single_artifact (Doc (envelope_text (sample_fields ''2/2''))) = ArtifactDone"
  by code_simp+

lemma sample_text_done:
  "single_artifact (Doc ''why'') = ArtifactDone" "single_artifact (Doc ''how'') = ArtifactDone"
  "single_artifact (Doc ''- [x] build'') = ArtifactDone" "multi_artifact [Doc sample_spec] True = ArtifactDone"
  "single_artifact (Doc ''receipt'') = ArtifactDone" "receipt_artifact (Doc ''receipt'') = Some ''receipt''"
  by code_simp+

lemma sample_progress:
  "task_progress_of ''- [x] build'' = \<lparr>tp_total = 1, tp_completed = 1, tp_pending = 0, tp_all = True\<rparr>"
  by code_simp

definition sample_facts ::
  "string \<Rightarrow> transaction option \<Rightarrow> tx_reason \<Rightarrow> runtime_status option \<Rightarrow> bool \<Rightarrow> change_facts" where
  "sample_facts scenarios t why st b =
     \<lparr>cf_change = ''demo'',
      cf_artifacts = \<lparr>ar_proposal = ArtifactDone, ar_specs = ArtifactDone, ar_design = ArtifactDone,
        ar_tasks = ArtifactDone, ar_progress = ArtifactMissing, ar_report = ArtifactDone,
        ar_ledger = ArtifactMissing, ar_receipt = ArtifactDone, ar_bundle = ArtifactMissing,
        ar_context = ArtifactMissing,
        ar_state = (if why = TxMissing then ArtifactMissing else ArtifactDone)\<rparr>,
      cf_progress = \<lparr>tp_total = 1, tp_completed = 1, tp_pending = 0, tp_all = True\<rparr>,
      cf_verify = parse_verify_result (spec_counts_of [sample_spec]) (envelope_text (sample_fields scenarios)),
      cf_report = envelope_text (sample_fields scenarios), cf_applied = [], cf_receipt = Some ''receipt'',
      cf_tx = t, cf_tx_reason = why, cf_runtime = st, cf_runtime_failed = False, cf_bound = b\<rparr>"

lemma sample_gathered:
  assumes "scenarios \<in> {''1/1'', ''2/2''}"
    and "native_status e ''demo'' = Some st" and "binding_exists e ''demo'' = Some b"
  shows "gather_facts e ''demo'' (sample_docs scenarios) = Inr (sample_facts scenarios None TxMissing st b)"
proof -
  have "single_artifact NoDoc = ArtifactMissing" by (simp add: single_artifact_def)
  then have "artifacts_of (sample_docs scenarios) [Doc sample_spec] =
      cf_artifacts (sample_facts scenarios None TxMissing st b)"
    using assms(1) sample_report_done sample_text_done
    by (auto simp: artifacts_of_def sample_docs_def sample_facts_def)
  then show ?thesis
    using assms(2,3) sample_progress sample_text_done
    by (simp add: gather_facts_def sample_docs_def sample_facts_def Let_def
        read_text_def read_transaction_def verify_result_of_def)
qed

lemma sample_facts_simps [simp]:
  "cf_apply (sample_facts x t why st b) = ApplyAllDone" "cf_reported (sample_facts x t why st b)"
  "cf_core (sample_facts x t why st b)" "cf_bound (sample_facts x t why st b) = b"
  "cf_change (sample_facts x t why st b) = ''demo''" "cf_tx (sample_facts x t why st b) = t"
  "cf_receipt (sample_facts x t why st b) = Some ''receipt''" "tp_all (cf_progress (sample_facts x t why st b))"
  "cf_runtime (sample_facts x t why st b) = st" "\<not> cf_runtime_failed (sample_facts x t why st b)"
  by (simp_all add: sample_facts_def cf_apply_def cf_core_def core_ready_def resolve_apply_def cf_reported_def)

section \<open>A change that can be archived\<close>

lemma sample_env_reads:
  "native_status sample_env change = Some None" "binding_exists sample_env change = Some False"
  by (simp_all add: native_status_def binding_exists_def sample_env_def)

lemma sample_env_fields [simp]:
  "se_codec sample_env = sample_codec" "se_now sample_env = sample_authorities"
  by (simp_all add: sample_env_def)

lemma sample_archive_final:
  "rg_next (openspec_final sample_env (sample_facts ''1/1'' None TxMissing None False)) = Phase PhaseArchive"
proof -
  let ?f = "sample_facts ''1/1'' None TxMissing None False"
  have verify: "ve_passing (cf_verify ?f)" "\<not> ve_stale (cf_verify ?f)"
    by (simp_all add: sample_facts_def sample_passing)
  have idle: "runtime_idle ?f" by (simp add: runtime_idle_def)
  have allow: "ru_result (resolve_authority sample_codec sample_authorities (Some ''receipt'') []) = GateAllow"
    by (simp add: resolve_authority_def sample_codec_def sample_authorities_def receipt_schema_def
        compact_receipt_schema_def gate_authority_def)
  have "stale_answer sample_env ?f = None"
    using verify by (simp add: stale_answer_def stale_question_def)
  moreover have "remediation_of sample_env ?f = no_remediation" using verify not_asked by blast
  moreover have "\<not> recoverable ?f"
    using sample_passing passing_report [of "spec_counts_of [sample_spec]" "envelope_text (sample_fields ''1/1'')"]
      authority_only_extension [of "envelope_text (sample_fields ''1/1'')"]
    by (auto simp: recoverable_def sample_facts_def authority_only_failed_def authority_failure_def
        extension_valid_def Let_def split: prod.splits if_splits)
  ultimately have "openspec_routing sample_env ?f = base_routing sample_env ?f"
    "rg_next (base_routing sample_env ?f) = Phase PhaseArchive"
    "dp_verify (rg_deps (base_routing sample_env ?f)) = DepAllDone" "\<not> stale_allows sample_env ?f"
    using verify
    by (simp_all add: openspec_stages reason_stage_of_def bound_stage_of_def stale_stage_of_def
        stale_override_def retry_override_def add_reason_def base_defs stale_reason_def bridge_routing_def
        review_routing_def no_remediation_def genuine_none stale_allows_def)
      (simp_all add: sample_facts_def)
  then show ?thesis
    using allow by (simp add: openspec_final_def idle_routing idle review_gate_def Let_def)
qed

definition sample_status :: sdd_status where
  "sample_status = status_of (sample_facts ''1/1'' None TxMissing None False)
     (openspec_final sample_env (sample_facts ''1/1'' None TxMissing None False))"

lemma sample_resolves: "resolve_openspec sample_env ''demo'' (sample_docs ''1/1'') = Inr sample_status"
  using sample_gathered [of "''1/1''", OF _ sample_env_reads]
  by (simp add: resolve_openspec_def openspec_final_status sample_status_def)

lemma sample_status_next: "su_next sample_status = Phase PhaseArchive"
  by (simp add: sample_status_def sample_archive_final)

section \<open>Recommendation and dependencies\<close>

text \<open>C37: In the planning-file store the recommended next phase and the dependency states always agree: archive is recommended
  exactly when the archive dependency is ready, and then verification is done; verify exactly when the
  verify dependency is ready; apply only when apply is ready; remediation only when everything is
  applied and verification is blocked; and a planning phase only for the first artifact that is
  missing.\<close>

theorem recommendation_typed:
  assumes "resolve_openspec e change c = Inr s"
  shows "route_typed (su_dependencies s) (su_next s)"
proof -
  obtain f where f: "sound_facts f" "s = status_of f (openspec_final e f)"
    using resolve_openspec_facts [OF assms] by metis
  then show ?thesis using openspec_final_reasoned [OF f(1), of e] by (simp add: reasoned_def consistent_def)
qed

theorem recommendation_typed_witness: "dp_archive (su_dependencies sample_status) = DepReady"
  using recommendation_typed [OF sample_resolves] sample_status_next by (simp add: route_typed_def)

text \<open>C38: In the planning-file store, outside planning, the recommended phase can be executed (apply, verify
  or archive) exactly when the status carries no blocking reason: no executable phase is recommended with
  a reason against it, and no route that waits for a decision, a review or a remediation is given without
  saying why. The memory store does not promise this: there a withdrawn remediation leaves its reason
  beside the verify recommendation (\<open>engram_keeps_withdrawn_reason\<close> in \<open>SddBoundProps\<close>).\<close>

theorem blocking_reasons_decide:
  assumes "resolve_openspec e change c = Inr s" and "\<not> planning (su_next s)"
  shows "executable (su_next s) \<longleftrightarrow> su_blocked s = []"
proof -
  obtain f where f: "sound_facts f" "s = status_of f (openspec_final e f)"
    using resolve_openspec_facts [OF assms(1)] by metis
  then show ?thesis using reasoned_blocked [OF openspec_final_reasoned [OF f(1)], of e] assms(2) by simp
qed

theorem blocking_reasons_decide_witness: "su_blocked sample_status = []"
  using blocking_reasons_decide [OF sample_resolves] sample_status_next
  by (simp add: executable_def planning_def)

section \<open>Archive\<close>

lemma gathered_parts:
  assumes "gather_facts e change c = Inr f" and "cf_reported f" "cf_core f"
  obtains specs report st where "cd_specs c = Some specs" "cd_report c = Doc report" "cf_change f = change"
    "specs \<noteq> []" "list_all has_content ([cd_proposal c, cd_design c, cd_tasks c] @ specs)"
    "cf_progress f = task_progress_of (read_text (cd_tasks c))"
    "cf_verify f = parse_verify_result (spec_counts_of (map read_text specs)) report"
    "cf_receipt f = receipt_artifact (cd_receipt c)"
    "cf_runtime_failed f \<longleftrightarrow> native_status e change = None \<or> binding_exists e change = None"
    "cf_runtime f = (case native_status e change of None \<Rightarrow> None | Some s \<Rightarrow> s)"
    "cf_bound f \<longleftrightarrow> native_status e change \<noteq> None \<and> binding_exists e change = Some True"
proof -
  obtain specs where specs: "cd_specs c = Some specs" using assms(1) by (auto simp: gather_facts_def split: option.splits)
  have parts: "cf_artifacts f = artifacts_of c specs" "cf_change f = change"
    "cf_progress f = task_progress_of (read_text (cd_tasks c))"
    "cf_verify f = verify_result_of (spec_counts_of (map read_text specs)) (cd_report c)"
    "cf_receipt f = receipt_artifact (cd_receipt c)"
    "cf_runtime_failed f \<longleftrightarrow> native_status e change = None \<or> binding_exists e change = None"
    "cf_runtime f = (case native_status e change of None \<Rightarrow> None | Some s \<Rightarrow> s)"
    "cf_bound f \<longleftrightarrow> native_status e change \<noteq> None \<and> binding_exists e change = Some True"
    using assms(1) specs by (auto simp: gather_facts_def Let_def split: if_splits)
  have single: "single_artifact d = ArtifactDone \<longleftrightarrow> has_content d" for d
    by (cases d) (simp_all add: single_artifact_def has_content_def)
  have multi: "multi_artifact specs b = ArtifactDone \<Longrightarrow> specs \<noteq> [] \<and> list_all has_content specs" for b
    by (auto simp: multi_artifact_def split: if_splits)
  have reported: "has_content (cd_report c)"
    using assms(2) parts(1) single by (simp add: cf_reported_def artifacts_of_def)
  obtain report where "cd_report c = Doc report"
    using reported by (cases "cd_report c") (simp_all add: has_content_def)
  moreover have "list_all has_content ([cd_proposal c, cd_design c, cd_tasks c] @ specs) \<and> specs \<noteq> []"
    using assms(3) parts(1) single multi by (auto simp: cf_core_def core_ready_def artifacts_of_def)
  ultimately show ?thesis
    using that [OF specs] parts by (simp add: verify_result_of_def)
qed

text \<open>C36: In the planning-file store archive is recommended only for a finished change: proposal, design, tasks and every spec are
  written, there is a task list with every box ticked, the verify report passes with totals equal to the
  requirements and scenarios counted in the specs, the review gate allows on a bound review that still
  holds or on a receipt that passes the gate, and the runtime ledger is readable with no attempt running
  and no decision pending.\<close>

theorem archive_means_finished:
  assumes "resolve_openspec e change c = Inr s" and "su_next s = Phase PhaseArchive"
  shows "\<exists>specs report st. cd_specs c = Some specs \<and> cd_report c = Doc report \<and> specs \<noteq> [] \<and>
    list_all has_content ([cd_proposal c, cd_design c, cd_tasks c] @ specs) \<and>
    boxes (split_on line_feed (read_text (cd_tasks c))) \<noteq> [] \<and>
    set (boxes (split_on line_feed (read_text (cd_tasks c)))) \<subseteq> set ''xX'' \<and>
    ve_passing (parse_verify_result (spec_counts_of (map read_text specs)) report) \<and>
    (\<exists>g. su_gate s = Some g \<and> gs_result g = GateAllow) \<and>
    (if binding_exists e change = Some True then \<not> isl (validate_bound_review e change)
     else ru_result (resolve_authority (se_codec e) (se_now e) (receipt_artifact (cd_receipt c)) []) = GateAllow) \<and>
    native_status e change = Some st \<and> (st = None \<or> \<not> ls_decision (the st) \<and> ls_active (the st) = None)"
proof -
  obtain f where g: "gather_facts e change c = Inr f" and f: "sound_facts f"
    and s: "s = status_of f (openspec_final e f)"
    using resolve_openspec_facts [OF assms(1)] by metis
  have n: "rg_next (openspec_final e f) = Phase PhaseArchive" using assms(2) s by simp
  note base = base_archive [OF stage_archive(1) [OF routing_archive(1) [OF final_archive(2) [OF n]]]]
  obtain specs report where parts: "cd_specs c = Some specs" "cd_report c = Doc report" "specs \<noteq> []"
    "list_all has_content ([cd_proposal c, cd_design c, cd_tasks c] @ specs)" "cf_change f = change"
    "cf_progress f = task_progress_of (read_text (cd_tasks c))"
    "cf_verify f = parse_verify_result (spec_counts_of (map read_text specs)) report"
    "cf_receipt f = receipt_artifact (cd_receipt c)"
    "cf_runtime_failed f \<longleftrightarrow> native_status e change = None \<or> binding_exists e change = None"
    "cf_runtime f = (case native_status e change of None \<Rightarrow> None | Some s \<Rightarrow> s)"
    "cf_bound f \<longleftrightarrow> native_status e change \<noteq> None \<and> binding_exists e change = Some True"
    by (rule gathered_parts [OF g base(4,2)])
  have idle: "runtime_idle f" by (rule final_archive(1) [OF n])
  then obtain st where st: "native_status e change = Some st" "cf_runtime f = st"
    using parts(9,10) by (auto simp: runtime_idle_def)
  have ticked: "boxes (split_on line_feed (read_text (cd_tasks c))) \<noteq> []"
    "set (boxes (split_on line_feed (read_text (cd_tasks c)))) \<subseteq> set ''xX''"
    using base(3) parts(6) by (simp_all add: task_progress_all) blast
  have quiet: "st = None \<or> \<not> ls_decision (the st) \<and> ls_active (the st) = None"
    using idle st(2) by (cases st) (simp_all add: runtime_idle_def)
  have bound: "cf_bound f \<longleftrightarrow> binding_exists e change = Some True" using parts(11) st(1) by simp
  show ?thesis
    using parts(1-4) ticked base(5) archive_gate [OF f n] quiet st(1)
    unfolding s bound parts(5,7,8) by auto
qed

theorem archive_means_finished_witness:
  "\<exists>specs report. cd_specs (sample_docs ''1/1'') = Some specs \<and> cd_report (sample_docs ''1/1'') = Doc report \<and>
    ve_passing (parse_verify_result (spec_counts_of (map read_text specs)) report)"
  using archive_means_finished [OF sample_resolves sample_status_next] by blast

section \<open>Verify reports\<close>

text \<open>C39: The reading of a stored verify report and the admission check before it is stored agree: a
  report passes for some spec counts exactly when it is admitted for them with a verdict other than
  fail. So no admitted report with a passing verdict blocks archiving, and none that was refused passes.\<close>

theorem passing_reports_admitted:
  "ve_passing (parse_verify_result counts t) \<longleftrightarrow>
     ra_valid (admit_report counts t) \<and> ra_verdict (admit_report counts t) \<noteq> ''fail''"
proof (cases "parse_report t")
  case (Pair r why)
  then show ?thesis
    using parsed_totals [of t r] admitted_pass [of r counts]
    by (cases "why = []") (auto simp: passing_report admit_report_def Let_def)
qed

text \<open>C40: Report fields survive the envelope: writing any known fields, each once and each with a
  one-line value that trimming leaves alone, as the lines of a fenced block and parsing the text gives
  back exactly these fields in their order.\<close>

theorem report_fields_roundtrip:
  assumes "\<forall>(k, v) \<in> set fs. k \<in> set (base_fields @ extension_fields) \<and> field_text v"
    and "distinct (map fst fs)"
  shows "vr_fields (fst (parse_report (envelope_text fs))) = fs"
proof -
  have known: "key_text k \<and> field_text v \<and> k \<in> set (base_fields @ extension_fields)"
    if "(k, v) \<in> set fs" for k v using assms(1) that report_keys by blast
  then have "leading_envelope (envelope_text fs) = Inr (map field_line fs, [])" by (intro envelope_read) blast
  moreover have "scalar_fields (base_fields @ extension_fields) ''verify result'' (map field_line fs) [] = (fs, [])"
    using scalar_fields_read [of fs "base_fields @ extension_fields" "[]"] known assms(2) by simp
  ultimately show ?thesis by (simp add: parsed_fields)
qed

theorem report_fields_roundtrip_witness:
  "vr_fields (fst (parse_report (envelope_text (sample_fields ''1/1'')))) = sample_fields ''1/1''"
proof (rule report_fields_roundtrip)
  have "list_all (\<lambda>(k, v). k \<in> set (base_fields @ extension_fields) \<and> field_text v) (sample_fields ''1/1'')"
    by code_simp
  then show "\<forall>(k, v) \<in> set (sample_fields ''1/1''). k \<in> set (base_fields @ extension_fields) \<and> field_text v"
    by (simp only: list_all_iff)
  show "distinct (map fst (sample_fields ''1/1''))" by (simp add: sample_fields_def)
qed

section \<open>Behaviours worth knowing\<close>

text \<open>A change whose review transaction runs in the bounded ordinary mode is never offered
  remediation: whatever its report, transaction state and remediation evidence, the next phase is never
  remediate, and its remediation is neither required nor complete.\<close>

theorem bounded_mode_never_remediated:
  assumes "resolve_openspec e change c = Inr s"
    and "fst (read_transaction e (cd_state c)) = Some t" and "tx_mode t = OrdinaryBounded"
  shows "su_next s \<noteq> Phase PhaseRemediate \<and> \<not> rs_required (su_remediation s) \<and>
    \<not> rs_complete (su_remediation s)"
proof -
  obtain f where g: "gather_facts e change c = Inr f" and s: "s = status_of f (openspec_final e f)"
    using resolve_openspec_facts [OF assms(1)] by metis
  have "cf_tx f = Some t"
    using g assms(2) by (auto simp: gather_facts_def Let_def split: option.splits if_splits)
  then have "\<not> rs_required (remediation_of e f) \<and> \<not> rs_complete (remediation_of e f)"
    using bounded_mode_refused [OF assms(3)] by (simp add: remediation_of_def)
  then show ?thesis
    using remediation_kept [of e f] final_remediate [of e f]
    by (auto simp: s no_remediation_def)
qed

definition fixing_sample :: transaction where
  \<comment> \<open>a started bounded review that is fixing what the sample report failed on\<close>
  "fixing_sample = v1_sample\<lparr>tx_state := Fixing, tx_failed := sample_hash\<rparr>"

definition fixing_env :: sdd_env where
  "fixing_env = sample_env\<lparr>se_transaction := (\<lambda>_. Inr fixing_sample)\<rparr>"

definition fixing_docs :: change_docs where
  "fixing_docs = (sample_docs ''2/2'')\<lparr>cd_state := Doc ''{}''\<rparr>"

theorem bounded_mode_never_remediated_witness:
  "\<exists>s. resolve_openspec fixing_env ''demo'' fixing_docs = Inr s \<and> su_next s \<noteq> Phase PhaseRemediate"
proof -
  have reads: "native_status fixing_env ''demo'' = Some None" "binding_exists fixing_env ''demo'' = Some False"
    by (simp_all add: native_status_def binding_exists_def fixing_env_def sample_env_def)
  obtain s where s: "resolve_openspec fixing_env ''demo'' fixing_docs = Inr s"
    by (simp add: resolve_openspec_def gather_facts_def fixing_docs_def sample_docs_def Let_def)
  have "has_prefix (trim_space ''{}'') ''{''" by code_simp
  then have "fst (read_transaction fixing_env (cd_state fixing_docs)) = Some fixing_sample"
    by (simp add: read_transaction_def fixing_docs_def fixing_env_def)
  moreover have "tx_mode fixing_sample = OrdinaryBounded"
    by (simp add: fixing_sample_def v1_sample_def fresh_transaction_def sample_start_def)
  ultimately show ?thesis using bounded_mode_never_remediated [OF s] s by blast
qed

end
