(* ===== verification/AuthorityOps.thy ===== *)
theory AuthorityOps
  imports Authority
begin

text \<open>
  The two operations that add a successor to the authority graph: \<^verbatim>\<open>RecoverCompactAuthority\<close>
  (compact_store.go) with the import of recovered evidence (compact_recovered_evidence.go), and the
  provider's \<^verbatim>\<open>RetryCompactFinalVerification\<close> (final_verification_retry.go). Both run under the
  repository-wide lock, so one call reads and writes one graph. What they ask git, the receipt, the
  journal and the clock is the view record of each.
\<close>

datatype recover_error =
    RecoverRefused string
  | RecoverGraph graph_error
  | RecoverInvalid correction_error
  | RecoverEdge edge_error
  | RecoverEvidence evidence_error
  | RecoverRequest recovery_error
  | RetryDenied string string

section \<open>Recovery\<close>

record recovery_call =
  rk_predecessor :: string
  rk_revision :: string
  rk_successor :: compact_state
  rk_disposition :: recovery_disposition
  rk_reason :: string
  rk_actor :: string
  rk_at :: go_time
  rk_authorization :: string

record recovery_view =
  rw_repo :: repository
  rw_receipt :: bool
  rw_receipt_kept :: bool
  rw_committed :: "snapshot option"
  rw_receipt_bound :: bool
  rw_release :: "snapshot option"
  rw_live :: "snapshot option"
  rw_now :: go_time

definition staged_eligible :: "recovery_view \<Rightarrow> compact_state \<Rightarrow> snapshot \<Rightarrow> recover_error option" where
  \<comment> \<open>\<^verbatim>\<open>compactApprovedStagedScopeRecovery\<close>, whose shape test the caller has already passed\<close>
  "staged_eligible v p next =
     (case rw_committed v of None \<Rightarrow> Some (RecoverRefused ''build committed snapshot'')
      | Some c \<Rightarrow> guard (\<not> (sn_candidate c = sn_candidate (cs_current p) \<and>
            paths_are_subset (elems (cs_genesis p)) (elems (sn_paths c)) = None \<and>
            strictly_extends (elems (sn_paths next)) (elems (sn_paths c))))
          (RecoverRefused ''approved staged scope recovery is not a complete same-base index expansion''))"

definition call_staged :: "recovery_call \<Rightarrow> compact_record \<Rightarrow> bool" where
  "call_staged c p \<longleftrightarrow>
     rk_disposition c = RecoveryScopeChanged \<and>
     staged_scope_shape (cp_state p) (cs_initial (rk_successor c))"

definition call_same_projection :: "recovery_call \<Rightarrow> compact_record \<Rightarrow> bool" where
  "call_same_projection c p \<longleftrightarrow>
     same_recovery_projection (sn_projection (cs_initial (cp_state p)))
       (sn_projection (cs_initial (rk_successor c)))"

definition call_authorized :: "recovery_call \<Rightarrow> compact_record \<Rightarrow> bool" where
  "call_authorized c p \<longleftrightarrow>
     rk_authorization c =
       recovery_authorization (rk_predecessor c) (cp_revision p) (sn_identity (cs_initial (rk_successor c)))
         (rk_actor c) (rk_reason c)"

definition staged_checks :: "recovery_view \<Rightarrow> recovery_call \<Rightarrow> compact_record \<Rightarrow> recover_error option" where
  "staged_checks v c p = first_err
     [guard (rk_authorization c \<noteq>
        staged_authorization (rk_predecessor c) (cp_revision p) (sn_identity (cs_initial (rk_successor c)))
          (cs_lineage (rk_successor c)) (rk_actor c) (rk_reason c))
        (RecoverRefused ''approved staged scope recovery requires an exact successor-bound maintainer authorization''),
      guard (\<not> rw_receipt v)
        (RecoverRefused ''approved staged scope recovery requires a canonical published predecessor receipt''),
      staged_eligible v (cp_state p) (cs_initial (rk_successor c))]"

definition admit_call :: "recovery_call \<Rightarrow> recover_error option" where
  "admit_call c = first_err
     [guard (rk_disposition c = RecoveryFinalRetry)
        (RecoverRefused ''final_verification_retry is provider-only; use the dedicated final-verification retry operation''),
      guard (validate_lineage_id (rk_predecessor c) \<noteq> None) (RecoverRefused ''predecessor lineage''),
      guard (validate_lineage_id (cs_lineage (rk_successor c)) \<noteq> None) (RecoverRefused ''successor lineage''),
      guard (rk_predecessor c = cs_lineage (rk_successor c))
        (RecoverRefused ''recovery requires a distinct successor lineage'')]"

definition admit_predecessor ::
  "recovery_view \<Rightarrow> recovery_call \<Rightarrow> compact_record \<Rightarrow> recover_error option" where
  "admit_predecessor v c p = first_err
     [guard (cp_revision p \<noteq> rk_revision c) (RecoverRefused ''expected predecessor revision''),
      (if call_staged c p then staged_checks v c p else None),
      guard (cs_state (cp_state p) = CorrectionRequired \<and> rk_disposition c \<noteq> RecoveryEscalated \<and>
             \<not> call_authorized c p)
        (RecoverRefused ''correction-required scope recovery requires an exact maintainer authorization binding''),
      guard (\<not> call_same_projection c p \<and> rk_disposition c \<noteq> RecoveryEscalated \<and> \<not> call_staged c p)
        (RecoverRefused ''recovery successor must retain the predecessor projection''),
      guard (\<not> call_same_projection c p \<and> \<not> call_staged c p \<and> \<not> call_authorized c p)
        (RecoverRefused ''recovery authorization is not exact'')]"

section \<open>Evidence of an accounting-only escalation\<close>

definition targeted_request_for ::
  "compact_state \<Rightarrow> string \<Rightarrow> snapshot \<Rightarrow> recover_error + targeted_request" where
  \<comment> \<open>\<^verbatim>\<open>targetedValidationRequestForCorrection\<close>\<close>
  "targeted_request_for s revision fix =
     (let unbound = RecoverRefused ''targeted validation request correction binding is invalid'' in
      case canonical_projection (sn_projection (cs_initial s)) of Inl _ \<Rightarrow> Inl unbound
      | Inr projection \<Rightarrow>
        if \<not> valid_sha256 revision \<or> sn_kind fix \<noteq> FixDiff \<or> sn_projection fix \<noteq> projection \<or>
           elems (sn_ledger_ids fix) \<noteq> elems (cs_fix_ids s) \<or>
           paths_are_subset (elems (sn_paths fix)) (elems (cs_genesis s)) \<noteq> None
        then Inl unbound
        else
          let raw = \<lparr>tq_schema = targeted_request_schema, tq_hash = [], tq_lineage = cs_lineage s,
                tq_revision = revision, tq_target = sn_identity (cs_initial s),
                tq_fix_ids = omitted (cs_fix_ids s), tq_projection = workspace_default projection,
                tq_candidate = sn_candidate fix, tq_correction_target = sn_identity fix,
                tq_paths = omitted (sn_paths fix), tq_paths_digest = sn_paths_digest fix\<rparr>;
              q = raw\<lparr>tq_hash := targeted_request_hash raw\<rparr>
          in case validate_targeted_request q of Some e \<Rightarrow> Inl (RecoverRequest e) | None \<Rightarrow> Inr q)"

definition derive_evidence ::
  "recovery_view \<Rightarrow> compact_record \<Rightarrow> compact_state \<Rightarrow> recover_error + recovered_evidence option" where
  \<comment> \<open>\<^verbatim>\<open>deriveCompactRecoveredEvidence\<close>; None when the predecessor is not eligible\<close>
  "derive_evidence v pr n =
     (let p = cp_state pr; a = last (elems (cs_attempts p)); r = evidence_relation p n in
      if \<not> accounting_only p \<or> \<not> evidence_scope_matches p n then Inr None
      else if tr_kind r \<noteq> TargetChangedScope \<or> tr_paths r \<noteq> PathsSame then Inr None
      else if \<not> rw_receipt_bound v then
        Inl (RecoverRefused ''accounting-only recovery predecessor receipt does not match authority'')
      else if \<not> list_all (rp_evidence_ok (rw_repo v)) [cs_initial p, ca_snapshot a, cs_initial n] then
        Inl (RecoverRefused ''accounting-only recovery evidence is not repository-derived'')
      else case rp_changed_lines (rw_repo v) (ca_snapshot a) of
        None \<Rightarrow> Inl (RecoverRefused ''changed lines'')
      | Some lines \<Rightarrow>
          if \<not> native_lines_ok lines p a then
            Inl (RecoverRefused ''escalated correction is not proven to be an accounting-only failure'')
          else case targeted_request_for p (cp_revision pr) (ca_snapshot a) of
            Inl e \<Rightarrow> Inl e
          | Inr q \<Rightarrow> Inr (Some
              \<lparr>rv_schema = ''gentle-ai.review-recovered-evidence/v1'',
               rv_relation = target_relation_text (tr_kind r), rv_path_relation = path_relation_text (tr_paths r),
               rv_target = sn_identity (cs_initial n), rv_review_hash = compact_review_evidence_hash p,
               rv_attempt = a, rv_native_lines = lines, rv_request = q\<rparr>))"

definition copied_result :: "lens_result \<Rightarrow> lens_result" where
  \<comment> \<open>\<^verbatim>\<open>cloneCompactLensResults\<close> of one result\<close>
  "copied_result r =
     r\<lparr>lr_findings := Some (map clone_finding (elems (lr_findings r))), lr_evidence := omitted (lr_evidence r)\<rparr>"

definition copied_follow_up :: "follow_up \<Rightarrow> follow_up" where
  "copied_follow_up u = u\<lparr>fu_proof_refs := omitted (fu_proof_refs u)\<rparr>"

definition import_evidence :: "compact_state \<Rightarrow> compact_state \<Rightarrow> recovered_evidence \<Rightarrow> compact_state" where
  \<comment> \<open>\<^verbatim>\<open>importCompactRecoveredEvidence\<close>: the successor validates at once, on the predecessor's review\<close>
  "import_evidence n p e =
     n\<lparr>cs_state := Validating, cs_current := cs_initial n,
       cs_results := Some (map copied_result (elems (cs_results p))),
       cs_findings := Some (map clone_finding (elems (cs_findings p))),
       cs_classifications := Some (entries (cs_classifications p)),
       cs_outcomes := Some (entries (cs_outcomes p)), cs_fix_ids := omitted (cs_fix_ids p),
       cs_follow_ups := Some (map copied_follow_up (elems (cs_follow_ups p))),
       cs_proposed := Some (ca_proposed (rv_attempt e)), cs_actual := Some (rv_native_lines e),
       cs_fix_delta := ca_fix_delta (rv_attempt e),
       cs_original_check := Some (ca_original (rv_attempt e)),
       cs_regression_check := Some (ca_regression (rv_attempt e)), cs_evidence := [],
       cs_attempts := None, cs_cumulative := 0,
       cs_recovery := map_option (\<lambda>rc. rc\<lparr>rc_evidence := Some e\<rparr>) (cs_recovery n)\<rparr>"

section \<open>The successor\<close>

definition recovered_at :: "recovery_view \<Rightarrow> recovery_call \<Rightarrow> compact_record option \<Rightarrow> go_time" where
  \<comment> \<open>a replay without a time takes the stored one\<close>
  "recovered_at v c existing =
     (let kept = (if zero_time (rk_at c)
                  then case Option.bind existing (\<lambda>r. cs_recovery (cp_state r)) of None \<Rightarrow> rk_at c | Some rc \<Rightarrow> rc_at rc
                  else rk_at c)
      in if zero_time kept then rw_now v else kept)"

definition named_successor ::
  "recovery_view \<Rightarrow> recovery_call \<Rightarrow> compact_record \<Rightarrow> compact_record option \<Rightarrow> compact_state" where
  "named_successor v c p existing =
     (rk_successor c)\<lparr>cs_recovery := Some
       \<lparr>rc_predecessor = rk_predecessor c, rc_revision = cp_revision p, rc_disposition = rk_disposition c,
        rc_reason = trim_space (rk_reason c), rc_actor = trim_space (rk_actor c),
        rc_at = recovered_at v c existing, rc_authorization = trim_space (rk_authorization c),
        rc_evidence = None, rc_retry = None\<rparr>\<rparr>"

definition prepare_successor ::
  "recovery_view \<Rightarrow> recovery_call \<Rightarrow> compact_record \<Rightarrow> compact_record option \<Rightarrow> recover_error + compact_state" where
  "prepare_successor v c p existing =
     (let n = named_successor v c p existing in
      if rk_disposition c \<noteq> RecoveryEscalated then Inr n
      else case derive_evidence v p n of
        Inl e \<Rightarrow> Inl e
      | Inr None \<Rightarrow> Inr n
      | Inr (Some e) \<Rightarrow> Inr (import_evidence n (cp_state p) e))"

definition fresh_successor :: "compact_state \<Rightarrow> recover_error option" where
  "fresh_successor n =
     (if Option.bind (cs_recovery n) rc_evidence = None then
        guard (\<not> compact_pristine_reviewing n \<or> elems (cs_attempts n) \<noteq> [] \<or> cs_cumulative n \<noteq> 0)
          (RecoverRefused ''recovery successor must start as a fresh reviewing authority'')
      else guard (cs_state n \<noteq> Validating)
        (RecoverRefused ''recovery successor with imported evidence must start in validating state''))"

definition live_successor :: "recovery_view \<Rightarrow> compact_state \<Rightarrow> bool" where
  "live_successor v n =
     (case rw_live v of None \<Rightarrow> False | Some live \<Rightarrow> snapshots_equal live (cs_initial n))"

definition admit_successor ::
  "recovery_view \<Rightarrow> recovery_call \<Rightarrow> compact_record \<Rightarrow> compact_state \<Rightarrow> recover_error option" where
  "admit_successor v c p n = first_err
     [map_option RecoverInvalid (compact_validate n),
      fresh_successor n,
      map_option RecoverEdge (validate_recovery_edge p n),
      guard (rk_authorization c = release_authorization \<and>
             \<not> (case rw_release v of None \<Rightarrow> False | Some live \<Rightarrow> snapshots_equal live (cs_initial n)))
        (RecoverRefused ''live release scope no longer matches successor''),
      guard ((\<not> call_same_projection c p \<or>
              sn_kind (cs_initial n) = BaseWorkspaceOverlay \<and> sn_projection (cs_initial n) = Staged) \<and>
             \<not> live_successor v n)
        (RecoverRefused ''repository evidence for selected recovery projection changed''),
      map_option RecoverEvidence (validate_repository_evidence (rw_repo v) None n OpStart),
      guard (call_staged c p \<and> \<not> rw_receipt_kept v)
        (RecoverRefused ''predecessor receipt changed during staged scope recovery'')]"

definition add_authority :: "compact_state \<Rightarrow> authorities \<Rightarrow> authorities" where
  "add_authority n rs = rs @ [(cs_lineage n, compact_record_of n)]"

definition publish_successor ::
  "recovery_view \<Rightarrow> recovery_call \<Rightarrow> compact_record \<Rightarrow> compact_state \<Rightarrow> authorities \<Rightarrow>
   authorities \<times> (recover_error + compact_record)" where
  "publish_successor v c p n rs =
     (case authority_leaves rs of Inl e \<Rightarrow> (rs, Inl (RecoverGraph e))
      | Inr _ \<Rightarrow>
        case authority_of rs (cs_lineage n) of
          Some existing \<Rightarrow>
            if compact_state_equal (cp_state existing) n then (rs, Inr existing)
            else (rs, Inl (RecoverRefused ''recovery successor lineage already exists with different authority''))
        | None \<Rightarrow>
            if superseded rs (rk_predecessor c)
            then (rs, Inl (RecoverRefused ''recovery predecessor already has successor''))
            else case admit_successor v c p n of
              Some e \<Rightarrow> (rs, Inl e)
            | None \<Rightarrow> (add_authority n rs, Inr (compact_record_of n)))"

definition recover_authority ::
  "recovery_view \<Rightarrow> recovery_call \<Rightarrow> authorities \<Rightarrow> authorities \<times> (recover_error + compact_record)" where
  "recover_authority v c rs =
     (case admit_call c of Some e \<Rightarrow> (rs, Inl e)
      | None \<Rightarrow>
        case authority_of rs (rk_predecessor c) of
          None \<Rightarrow> (rs, Inl (RecoverRefused ''load recovery predecessor''))
        | Some p \<Rightarrow>
            case admit_predecessor v c p of Some e \<Rightarrow> (rs, Inl e)
            | None \<Rightarrow>
              case prepare_successor v c p (authority_of rs (cs_lineage (rk_successor c))) of
                Inl e \<Rightarrow> (rs, Inl e)
              | Inr n \<Rightarrow> publish_successor v c p n rs)"

section \<open>The final-verification retry\<close>

fun base64_digit :: "nat \<Rightarrow> char" where
  "base64_digit n =
     (if n < 26 then char_of (n + 65) else if n < 52 then char_of (n + 71)
      else if n < 62 then char_of (n - 4) else if n = 62 then CHR ''+'' else CHR ''/'')"

fun base64 :: "nat list \<Rightarrow> string" where
  \<comment> \<open>how \<^verbatim>\<open>json.Marshal\<close> writes bytes\<close>
  "base64 (a # b # c # rest) =
     [base64_digit (a div 4), base64_digit (a mod 4 * 16 + b div 16),
      base64_digit (b mod 16 * 4 + c div 64), base64_digit (c mod 64)] @ base64 rest"
| "base64 [a, b] =
     [base64_digit (a div 4), base64_digit (a mod 4 * 16 + b div 16), base64_digit (b mod 16 * 4), CHR ''='']"
| "base64 [a] = [base64_digit (a div 4), base64_digit (a mod 4 * 16), CHR ''='', CHR ''='']"
| "base64 [] = []"

record retry_call =
  ry_request :: retry_request
  ry_at :: go_time
  ry_authorization :: string

record retry_view =
  tv_receipt_bound :: bool
  tv_journal :: "finalize_attempt list option"
  tv_evidence :: "string option"
  tv_live :: bool
  tv_live_again :: bool
  tv_now :: go_time

record retry_source =
  ts_validating :: string
  ts_target :: string
  ts_failed :: string
  ts_digest :: string
  ts_attempt :: finalize_attempt

definition exact_retry_authorization :: "retry_call \<Rightarrow> recover_error option" where
  "exact_retry_authorization c =
     (case retry_authorization (ry_request c) of Inl e \<Rightarrow> Some (RecoverRequest e)
      | Inr want \<Rightarrow> guard (ry_authorization c \<noteq> want \<or> CHR 0x0D \<in> set (ry_authorization c))
          (RetryDenied ''authorization_mismatch''
             ''maintainer authorization is not the exact LF-only provider binding''))"

definition verification_of :: "compact_record \<Rightarrow> finalize_attempt \<Rightarrow> bool" where
  \<comment> \<open>the attempt ends with the verification that made this record\<close>
  "verification_of pr a \<longleftrightarrow> elems (fa_transitions a) \<noteq> [] \<and>
     (let t = last (elems (fa_transitions a)) in
      ft_operation t = ''review/complete-verification'' \<and> ft_revision t = cp_revision pr)"

definition failed_attempt :: "compact_record \<Rightarrow> finalize_attempt \<Rightarrow> bool" where
  "failed_attempt pr a \<longleftrightarrow>
     fa_completed a \<and> fa_published a \<and> valid_sha256 (ft_expected (last (elems (fa_transitions a)))) \<and>
     attempt_has_continuity a \<and>
     fr_candidate (fa_request a) =
       finalize_value_digest ''candidate'' (json_snapshot (cs_current (cp_state pr))) \<and>
     fr_failed (fa_request a) = finalize_value_digest ''failed'' (JBool True)"

definition retry_source_of :: "retry_view \<Rightarrow> compact_record \<Rightarrow> recover_error + retry_source" where
  \<comment> \<open>\<^verbatim>\<open>deriveFinalVerificationRetrySourceLocked\<close>\<close>
  "retry_source_of v pr =
     (let s = cp_state pr in
      if cp_historical pr \<or> cs_schema s \<noteq> compact_schema \<or> cs_state s \<noteq> Escalated \<or> \<not> valid_sha256 (cs_evidence s)
      then Inl (RetryDenied ''ineligible_predecessor''
        ''predecessor is not an exact compact-v2 failed final-verification terminal'')
      else if \<not> tv_receipt_bound v
      then Inl (RetryDenied ''receipt_mismatch'' ''escalated receipt does not match terminal authority'')
      else case tv_journal v of
        None \<Rightarrow> Inl (RetryDenied ''journal_mismatch'' ''completed FINALIZE journal is unavailable or invalid'')
      | Some attempts \<Rightarrow>
        (case filter (verification_of pr) attempts of
           [a] \<Rightarrow>
             if \<not> failed_attempt pr a
             then Inl (RetryDenied ''journal_mismatch''
               ''FINALIZE attempt does not prove a completed failed verification of CurrentSnapshot'')
             else (case tv_evidence v of
               None \<Rightarrow> Inl (RetryDenied ''evidence_mismatch'' ''read captured evidence'')
             | Some bytes \<Rightarrow>
                 if identity_of bytes \<noteq> cs_evidence s \<or>
                    fr_evidence (fa_request a) \<noteq> finalize_value_digest ''evidence'' (JStr (base64 (map byte bytes)))
                 then Inl (RetryDenied ''evidence_mismatch''
                   ''captured evidence bytes do not bind the terminal state and FINALIZE journal'')
                 else if \<not> tv_live v then Inl (RetryDenied ''live_target_drift'' ''live snapshot'')
                 else Inr \<lparr>ts_validating = ft_expected (last (elems (fa_transitions a))),
                           ts_target = sn_identity (cs_current s), ts_failed = identity_of bytes,
                           ts_digest = fr_digest (fa_request a), ts_attempt = a\<rparr>)
         | _ \<Rightarrow> Inl (RetryDenied ''journal_ambiguous''
             ''terminal authority does not have exactly one final-verification FINALIZE attempt'')))"

definition incident_matches :: "retry_request \<Rightarrow> retry_source \<Rightarrow> bool" where
  "incident_matches q t \<longleftrightarrow>
     (let i = rq_incident q in
      in_lineage i = rq_predecessor q \<and> in_terminal i = rq_revision q \<and> in_validating i = ts_validating t \<and>
      in_target i = ts_target t \<and> in_failed_evidence i = ts_failed t \<and> in_request_digest i = ts_digest t)"

definition retry_successor ::
  "compact_record \<Rightarrow> retry_call \<Rightarrow> retry_source \<Rightarrow> go_time \<Rightarrow> compact_state" where
  \<comment> \<open>\<^verbatim>\<open>finalVerificationRetrySuccessor\<close>\<close>
  "retry_successor pr c t at =
     (let q = ry_request c; s = cp_state pr;
          proof_record = \<lparr>rp_schema = ''gentle-ai.review-final-verification-retry-proof/v1'',
            rp_terminal = cp_revision pr, rp_validating = ts_validating t, rp_target = sn_identity (cs_current s),
            rp_failed_evidence = cs_evidence s, rp_request_digest = fr_digest (fa_request (ts_attempt t)),
            rp_incident = rq_incident q, rp_incident_digest = incident_digest (rq_incident q),
            rp_attempt = ts_attempt t\<rparr>
      in (clone_state s)
        \<lparr>cs_lineage := rq_successor q, cs_generation := go_add (cs_generation s) 1, cs_state := Validating,
         cs_evidence := [],
         cs_recovery := Some
           \<lparr>rc_predecessor = cs_lineage s, rc_revision = cp_revision pr, rc_disposition = RecoveryFinalRetry,
            rc_reason = rq_reason q, rc_actor = rq_actor q, rc_at = at, rc_authorization = ry_authorization c,
            rc_evidence = None, rc_retry = Some proof_record\<rparr>\<rparr>)"

definition lineage_names :: "authorities \<Rightarrow> string set" where
  "lineage_names rs = set (map (\<lambda>(_, r). cs_lineage (cp_state r)) rs)"

function retry_ancestry :: "authorities \<Rightarrow> string list \<Rightarrow> compact_record \<Rightarrow> recover_error option" where
  \<comment> \<open>\<^verbatim>\<open>finalVerificationRetryAncestryEligible\<close>\<close>
  "retry_ancestry rs seen cursor =
     (if cs_lineage (cp_state cursor) \<in> set seen
      then Some (RetryDenied ''ambiguous_ancestry'' ''recovery ancestry contains a cycle'')
      else case cs_recovery (cp_state cursor) of None \<Rightarrow> None
      | Some rc \<Rightarrow>
          if rc_disposition rc = RecoveryFinalRetry
          then Some (RetryDenied ''retry_already_consumed''
            ''final_verification_retry already exists in predecessor ancestry'')
          else case authority_of rs (rc_predecessor rc) of
            None \<Rightarrow> Some (RetryDenied ''ambiguous_ancestry''
              ''recovery ancestry is incomplete or revision-mismatched'')
          | Some parent \<Rightarrow>
              if cp_revision parent \<noteq> rc_revision rc
              then Some (RetryDenied ''ambiguous_ancestry''
                ''recovery ancestry is incomplete or revision-mismatched'')
              else retry_ancestry rs (cs_lineage (cp_state cursor) # seen) parent)"
  by pat_completeness auto

definition unwalked :: "authorities \<Rightarrow> string list \<Rightarrow> compact_record \<Rightarrow> nat" where
  "unwalked rs seen cursor =
     card (lineage_names rs - set seen) + (if cs_lineage (cp_state cursor) \<in> lineage_names rs then 0 else 1)"

lemma unwalked_less:
  assumes "cs_lineage (cp_state cursor) \<notin> set seen" "authority_of rs l = Some parent"
  shows "unwalked rs (cs_lineage (cp_state cursor) # seen) parent < unwalked rs seen cursor"
proof -
  have f: "finite (lineage_names rs)" by (simp add: lineage_names_def)
  have "(l, parent) \<in> set rs" using assms(2) by (simp add: authority_of_def map_of_SomeD)
  then have "(\<lambda>(_, r). cs_lineage (cp_state r)) (l, parent) \<in> lineage_names rs"
    unfolding lineage_names_def set_map by (rule imageI)
  then have next_in: "unwalked rs (cs_lineage (cp_state cursor) # seen) parent =
      card (lineage_names rs - set seen - {cs_lineage (cp_state cursor)})"
    by (simp add: unwalked_def Diff_insert [of _ _ "set seen"])
  show ?thesis
  proof (cases "cs_lineage (cp_state cursor) \<in> lineage_names rs")
    case True
    then have "card (lineage_names rs - set seen - {cs_lineage (cp_state cursor)}) < card (lineage_names rs - set seen)"
      using f assms(1) by (intro card_Diff1_less) auto
    then show ?thesis using True unfolding next_in by (simp add: unwalked_def)
  next
    case False
    then show ?thesis using f unfolding next_in by (simp add: unwalked_def)
  qed
qed

termination retry_ancestry
  by (relation "measure (\<lambda>(rs, seen, cursor). unwalked rs seen cursor)") (auto intro!: unwalked_less)

declare retry_ancestry.simps [simp del]

definition retry_time :: "retry_view \<Rightarrow> retry_call \<Rightarrow> compact_record option \<Rightarrow> go_time" where
  "retry_time v c existing =
     (if \<not> zero_time (ry_at c) then ry_at c
      else case Option.bind existing (\<lambda>r. cs_recovery (cp_state r)) of None \<Rightarrow> tv_now v | Some rc \<Rightarrow> rc_at rc)"

definition other_successor :: "authorities \<Rightarrow> compact_record \<Rightarrow> string \<Rightarrow> bool" where
  \<comment> \<open>the predecessor has a successor that is not this one, or several\<close>
  "other_successor rs pr lineage \<longleftrightarrow>
     (let children = filter (\<lambda>(_, r). recovered_from_lineage r = Some (cs_lineage (cp_state pr))) rs in
      children \<noteq> [] \<and>
      (authority_of rs lineage = None \<or> length children \<noteq> 1 \<or>
       cs_lineage (cp_state (snd (hd children))) \<noteq> lineage))"

definition publish_retry ::
  "retry_view \<Rightarrow> retry_call \<Rightarrow> compact_record \<Rightarrow> retry_source \<Rightarrow> authorities \<Rightarrow>
   authorities \<times> (recover_error + compact_record)" where
  "publish_retry v c pr t rs =
     (let q = ry_request c; existing = authority_of rs (rq_successor q) in
      case first_err
        [guard (other_successor rs pr (rq_successor q))
           (RetryDenied ''predecessor_has_successor'' ''predecessor already has a different successor''),
         guard (existing \<noteq> None \<and>
                Option.bind existing recovered_from_lineage \<noteq> Some (cs_lineage (cp_state pr)))
           (RetryDenied ''successor_collision'' ''successor lineage already contains different authority'')] of
        Some e \<Rightarrow> (rs, Inl e)
      | None \<Rightarrow>
        let n = retry_successor pr c t (retry_time v c existing) in
        case first_err [map_option RecoverInvalid (compact_validate n),
                        map_option RecoverEdge (validate_recovery_edge pr n)] of
          Some e \<Rightarrow> (rs, Inl e)
        | None \<Rightarrow>
          (case existing of
             Some r \<Rightarrow>
               if compact_state_equal (cp_state r) n then (rs, Inr r)
               else (rs, Inl (RetryDenied ''different_replay''
                 ''existing successor does not match the exact retry request''))
           | None \<Rightarrow>
               if \<not> tv_live_again v then (rs, Inl (RetryDenied ''live_target_drift'' ''live snapshot''))
               else (add_authority n rs, Inr (compact_record_of n))))"

definition retry_final_verification ::
  "retry_view \<Rightarrow> retry_call \<Rightarrow> authorities \<Rightarrow> authorities \<times> (recover_error + compact_record)" where
  "retry_final_verification v c rs =
     (case exact_retry_authorization c of Some e \<Rightarrow> (rs, Inl e)
      | None \<Rightarrow>
        case authority_of rs (rq_predecessor (ry_request c)) of
          None \<Rightarrow> (rs, Inl (RetryDenied ''predecessor_unavailable'' ''compact-v2 predecessor cannot be loaded''))
        | Some pr \<Rightarrow>
            if cp_revision pr \<noteq> rq_revision (ry_request c)
            then (rs, Inl (RetryDenied ''stale_revision'' ''expected predecessor revision is not current''))
            else case authority_leaves rs of Inl e \<Rightarrow> (rs, Inl (RecoverGraph e))
            | Inr _ \<Rightarrow>
              case retry_ancestry rs [] pr of Some e \<Rightarrow> (rs, Inl e)
              | None \<Rightarrow>
                case retry_source_of v pr of Inl e \<Rightarrow> (rs, Inl e)
                | Inr t \<Rightarrow>
                  if \<not> incident_matches (ry_request c) t
                  then (rs, Inl (RetryDenied ''incident_mismatch''
                    ''incident does not exactly bind the provider-derived failed FINALIZE source''))
                  else publish_retry v c pr t rs)"

end
