(* ===== verification/AuthorityLaws.thy ===== *)
theory AuthorityLaws
  imports AuthorityOps
begin

text \<open>
  The authority graph as a contract: every recovered authority has its predecessor, each pair is a
  valid recovery edge, no two successors share a predecessor and no chain returns to itself. The
  walk of \<^verbatim>\<open>compactAuthorityLeaves\<close> decides exactly that, so an operation keeps the graph when it
  keeps the contract.
\<close>

definition succession :: "authorities \<Rightarrow> (string \<times> string) set" where
  \<comment> \<open>a predecessor and its successor\<close>
  "succession rs = {(p, l). \<exists>r. authority_of rs l = Some r \<and> recovered_from_lineage r = Some p}"

definition predecessors :: "authorities \<Rightarrow> string list" where
  "predecessors rs = List.map_filter (\<lambda>(_, r). recovered_from_lineage r) rs"

definition entry_sound :: "authorities \<Rightarrow> string \<times> compact_record \<Rightarrow> bool" where
  "entry_sound rs e \<longleftrightarrow>
     (case recovered_from_lineage (snd e) of None \<Rightarrow> True
      | Some l \<Rightarrow> (case authority_of rs l of None \<Rightarrow> False
          | Some p \<Rightarrow> validate_recovery_edge p (cp_state (snd e)) = None))"

definition sound_graph :: "authorities \<Rightarrow> bool" where
  "sound_graph rs \<longleftrightarrow>
     (\<forall>e \<in> set rs. entry_sound rs e) \<and> distinct (predecessors rs) \<and> acyclic (succession rs)"

section \<open>The walk to the root\<close>

lemma successionI: "authority_of rs l = Some r \<Longrightarrow> recovered_from_lineage r = Some p \<Longrightarrow> (p, l) \<in> succession rs"
  by (auto simp: succession_def)

lemma walk_finds_cycle:
  "ancestry_cycles rs seen x \<Longrightarrow> x = Some q \<Longrightarrow> (\<And>s. s \<in> set seen \<Longrightarrow> (q, s) \<in> (succession rs)\<^sup>+) \<Longrightarrow>
     \<exists>y. (y, y) \<in> (succession rs)\<^sup>+"
proof (induction rs seen x arbitrary: q rule: ancestry_cycles.induct)
  case (2 rs seen parent)
  show ?case
  proof (cases "parent \<in> set seen")
    case True
    then show ?thesis using "2.prems"(2,3) by blast
  next
    case False
    then obtain r where r: "authority_of rs parent = Some r"
        "ancestry_cycles rs (parent # seen) (recovered_from_lineage r)"
      using "2.prems"(1) by (auto split: option.splits)
    from r(2) obtain g where g: "recovered_from_lineage r = Some g" by (cases "recovered_from_lineage r") auto
    have e: "(g, parent) \<in> succession rs" by (rule successionI [OF r(1) g])
    have "(g, s) \<in> (succession rs)\<^sup>+" if "s \<in> set (parent # seen)" for s
    proof (cases "s = parent")
      case True
      then show ?thesis using e by blast
    next
      case False
      then have "(parent, s) \<in> (succession rs)\<^sup>+" using that "2.prems"(2,3) by simp
      then show ?thesis using e by (rule trancl_into_trancl2 [rotated])
    qed
    then show ?thesis using "2.IH" [OF False r(1,2) g] by blast
  qed
qed simp

lemma walk_clears:
  "\<not> ancestry_cycles rs seen x \<Longrightarrow> x = Some q \<Longrightarrow> (z, q) \<in> (succession rs)\<^sup>* \<Longrightarrow> z \<notin> set seen"
proof (induction rs seen x arbitrary: q z rule: ancestry_cycles.induct)
  case (2 rs seen parent)
  from "2.prems"(1) have out: "parent \<notin> set seen" by (auto split: if_splits)
  from "2.prems"(3,2) show ?case
  proof (cases rule: rtranclE)
    case base
    then show ?thesis using out "2.prems"(2) by simp
  next
    case (step g)
    then obtain r where r: "authority_of rs parent = Some r" "recovered_from_lineage r = Some g"
      using "2.prems"(2) by (auto simp: succession_def)
    then have "\<not> ancestry_cycles rs (parent # seen) (recovered_from_lineage r)" using "2.prems"(1) out by simp
    from "2.IH" [OF out r(1) this r(2) step(1)] show ?thesis by simp
  qed
qed simp

section \<open>The check decides the contract\<close>

lemma edge_names:
  assumes "validate_recovery_edge p n = None"
  obtains rc where "cs_recovery n = Some rc" "rc_predecessor rc = cs_lineage (cp_state p)"
    "rc_revision rc = cp_revision p" "cs_generation n = go_add (cs_generation (cp_state p)) 1"
  using assms by (cases "cs_recovery n") (auto simp: validate_recovery_edge_def Let_def)

lemma entry_error_None:
  assumes "cs_recovery (cp_state r) = Some rc"
  shows "entry_error rs ps (l, r) = None \<longleftrightarrow>
    entry_sound rs (l, r) \<and> rc_predecessor rc \<notin> set ps \<and> \<not> ancestry_cycles rs [l] (Some (rc_predecessor rc))"
proof (cases "authority_of rs (rc_predecessor rc)")
  case None
  then show ?thesis using assms by (simp add: entry_error_def entry_sound_def recovered_from_lineage_def)
next
  case (Some p)
  have "cp_revision p = rc_revision rc \<and> cs_lineage (cp_state p) = rc_predecessor rc"
    if "validate_recovery_edge p (cp_state r) = None"
    using edge_names [OF that] assms by (metis option.inject)
  then show ?thesis using assms Some
    by (auto simp: entry_error_def entry_sound_def recovered_from_lineage_def simp del: ancestry_cycles.simps)
qed

lemma entry_fresh: "cs_recovery (cp_state r) = None \<Longrightarrow> entry_error rs ps (l, r) = None \<and> entry_sound rs (l, r)"
  by (simp add: entry_error_def entry_sound_def recovered_from_lineage_def)

lemma predecessors_Cons:
  "predecessors ((l, r) # es) =
     (case recovered_from_lineage r of None \<Rightarrow> predecessors es | Some p \<Rightarrow> p # predecessors es)"
  by (simp add: predecessors_def List.map_filter_simps split: option.split)

definition walks_clear :: "authorities \<Rightarrow> string \<times> compact_record \<Rightarrow> bool" where
  "walks_clear rs e \<longleftrightarrow> \<not> ancestry_cycles rs [fst e] (recovered_from_lineage (snd e))"

lemma graph_error_from_None:
  "graph_error_from rs ps es = None \<longleftrightarrow>
     (\<forall>e \<in> set es. entry_sound rs e \<and> walks_clear rs e) \<and> distinct (predecessors es) \<and>
     set ps \<inter> set (predecessors es) = {}"
proof (induction es arbitrary: ps)
  case (Cons e es)
  obtain l r where e: "e = (l, r)" by (cases e)
  show ?case
  proof (cases "cs_recovery (cp_state r)")
    case None
    then show ?thesis using entry_fresh [OF None, of rs ps l] Cons.IH
      by (simp add: e predecessors_Cons recovered_from_lineage_def walks_clear_def)
  next
    case (Some rc)
    then show ?thesis using entry_error_None [OF Some, of rs ps l] Cons.IH
      by (cases "entry_error rs ps (l, r)")
        (auto simp: e predecessors_Cons recovered_from_lineage_def walks_clear_def simp del: ancestry_cycles.simps)
  qed
qed (simp add: predecessors_def List.map_filter_simps)

lemma walks_clear_acyclic:
  assumes "distinct (map fst rs)"
  shows "(\<forall>e \<in> set rs. walks_clear rs e) \<longleftrightarrow> acyclic (succession rs)"
proof
  assume clear: "\<forall>e \<in> set rs. walks_clear rs e"
  have "(y, y) \<notin> (succession rs)\<^sup>+" for y
  proof
    assume "(y, y) \<in> (succession rs)\<^sup>+"
    then obtain p where p: "(y, p) \<in> (succession rs)\<^sup>*" "(p, y) \<in> succession rs" by (meson tranclD2)
    then obtain r where r: "authority_of rs y = Some r" "recovered_from_lineage r = Some p"
      by (auto simp: succession_def)
    then have "(y, r) \<in> set rs" by (simp add: authority_of_def map_of_SomeD)
    then have "\<not> ancestry_cycles rs [y] (Some p)" using clear r(2) by (auto simp: walks_clear_def)
    from walk_clears [OF this refl p(1)] show False by simp
  qed
  then show "acyclic (succession rs)" by (simp add: acyclic_def)
next
  assume acyclic: "acyclic (succession rs)"
  show "\<forall>e \<in> set rs. walks_clear rs e"
  proof clarify
    fix l r assume "(l, r) \<in> set rs"
    then have a: "authority_of rs l = Some r" using assms by (simp add: authority_of_def)
    have False if "ancestry_cycles rs [l] (Some p)" "recovered_from_lineage r = Some p" for p
      using walk_finds_cycle [OF that(1) refl] successionI [OF a that(2)] acyclic by (auto simp: acyclic_def)
    then show "walks_clear rs (l, r)" unfolding walks_clear_def
      by (cases "recovered_from_lineage r") (auto simp del: ancestry_cycles.simps(2))
  qed
qed

lemma authority_leaves_Inr:
  assumes "distinct (map fst rs)"
  shows "authority_leaves rs = Inr ls \<longleftrightarrow>
    sound_graph rs \<and> ls = sort (filter (\<lambda>l. \<not> superseded rs l) (map fst rs))"
proof -
  have "graph_error_from rs [] rs = None \<longleftrightarrow> sound_graph rs"
    using walks_clear_acyclic [OF assms] by (auto simp: graph_error_from_None sound_graph_def)
  then show ?thesis by (auto simp: authority_leaves_def split: option.splits)
qed

section \<open>Adding a successor\<close>

text \<open>A store names its records: one directory per lineage, and each record is of its directory's lineage.\<close>

definition named :: "authorities \<Rightarrow> bool" where
  "named rs \<longleftrightarrow> distinct (map fst rs) \<and> (\<forall>(l, r) \<in> set rs. cs_lineage (cp_state r) = l)"

lemma authority_lineage: "named rs \<Longrightarrow> authority_of rs l = Some r \<Longrightarrow> cs_lineage (cp_state r) = l"
  by (auto simp: named_def authority_of_def dest: map_of_SomeD)

lemma superseded_iff: "superseded rs l \<longleftrightarrow> l \<in> set (predecessors rs)"
  by (force simp: superseded_def predecessors_def List.map_filter_def list_ex_iff)

lemma predecessors_append: "predecessors (xs @ ys) = predecessors xs @ predecessors ys"
  by (simp add: predecessors_def List.map_filter_def)

lemma authority_of_add:
  "authority_of (add_authority n rs) l =
     (case authority_of rs l of Some r \<Rightarrow> Some r
      | None \<Rightarrow> if l = cs_lineage n then Some (compact_record_of n) else None)"
  by (simp add: authority_of_def add_authority_def map_add_def split: option.split)

lemma succession_add:
  assumes "authority_of rs (cs_lineage n) = None" "recovered_from_lineage (compact_record_of n) = Some p"
  shows "succession (add_authority n rs) = insert (p, cs_lineage n) (succession rs)"
  using assms by (auto simp: succession_def authority_of_add split: option.splits if_splits)

lemma sound_add:
  assumes sound: "sound_graph rs" and fresh: "authority_of rs (cs_lineage n) = None"
    and p: "authority_of rs l = Some p" "recovered_from_lineage (compact_record_of n) = Some l"
    and leaf: "\<not> superseded rs l" and edge: "validate_recovery_edge p n = None"
  shows "sound_graph (add_authority n rs)"
proof -
  have old: "entry_sound (add_authority n rs) e" if "entry_sound rs e" for e
    using that by (auto simp: entry_sound_def authority_of_add split: option.splits)
  have new: "entry_sound (add_authority n rs) (cs_lineage n, compact_record_of n)"
    using p edge by (simp add: entry_sound_def authority_of_add compact_record_of_def)
  have unused: "(cs_lineage n, y) \<notin> succession rs" for y
  proof
    assume "(cs_lineage n, y) \<in> succession rs"
    then obtain r where r: "authority_of rs y = Some r" "recovered_from_lineage r = Some (cs_lineage n)"
      by (auto simp: succession_def)
    then have "(y, r) \<in> set rs" by (simp add: authority_of_def map_of_SomeD)
    then have "entry_sound rs (y, r)" using sound by (simp add: sound_graph_def)
    then show False using r(2) fresh by (simp add: entry_sound_def)
  qed
  have "l \<noteq> cs_lineage n" using p(1) fresh by auto
  then have "(cs_lineage n, l) \<notin> (succession rs)\<^sup>*" by (metis converse_rtranclE unused)
  then have "acyclic (succession (add_authority n rs))"
    using sound by (simp add: succession_add [OF fresh p(2)] acyclic_insert sound_graph_def)
  moreover have "predecessors (add_authority n rs) = predecessors rs @ [l]"
    using p(2) by (simp add: add_authority_def predecessors_append)
      (simp add: predecessors_def List.map_filter_simps)
  ultimately show ?thesis using sound leaf old new
    by (auto simp: sound_graph_def superseded_iff add_authority_def)
qed

lemma leaves_add:
  assumes "named rs" "authority_leaves rs = Inr ls" "authority_of rs (cs_lineage n) = None"
    and "authority_of rs l = Some p" "recovered_from_lineage (compact_record_of n) = Some l"
    and "\<not> superseded rs l" "validate_recovery_edge p n = None"
  shows "named (add_authority n rs)"
    and "authority_leaves (add_authority n rs) = Inr (insort (cs_lineage n) (remove1 l ls))"
proof -
  have d: "distinct (map fst rs)" and sound: "sound_graph rs"
      and ls: "ls = sort (filter (\<lambda>l. \<not> superseded rs l) (map fst rs))"
    using assms(1,2) authority_leaves_Inr by (auto simp: named_def)
  have out: "cs_lineage n \<notin> set (map fst rs)"
    using assms(3) by (auto simp: authority_of_def map_of_eq_None_iff)
  show n: "named (add_authority n rs)"
    using assms(1) out by (auto simp: named_def add_authority_def compact_record_of_def)
  have s: "superseded (add_authority n rs) k \<longleftrightarrow> superseded rs k \<or> k = l" for k
    using assms(5) by (auto simp: superseded_def add_authority_def list_ex_iff)
  have "\<not> superseded rs (cs_lineage n)"
  proof
    assume "superseded rs (cs_lineage n)"
    then obtain y r where r: "(y, r) \<in> set rs" "recovered_from_lineage r = Some (cs_lineage n)"
      by (auto simp: superseded_def list_ex_iff)
    then have "entry_sound rs (y, r)" using sound by (simp add: sound_graph_def)
    then show False using r(2) assms(3) by (simp add: entry_sound_def)
  qed
  moreover have "cs_lineage n \<noteq> l" using assms(3,4) by auto
  ultimately have "filter (\<lambda>k. \<not> superseded (add_authority n rs) k) (map fst (add_authority n rs)) =
      removeAll l (filter (\<lambda>k. \<not> superseded rs k) (map fst rs)) @ [cs_lineage n]"
    by (simp add: s removeAll_filter_not_eq eq_commute [of l]) (simp add: add_authority_def)
  moreover have "removeAll l (filter (\<lambda>k. \<not> superseded rs k) (map fst rs)) =
      remove1 l (filter (\<lambda>k. \<not> superseded rs k) (map fst rs))"
    using d by (simp add: distinct_remove1_removeAll)
  moreover have "sort (remove1 l xs @ [k]) = insort k (remove1 l (sort xs))" for k and xs :: "string list"
    by (intro properties_for_sort) (simp_all add: sorted_insort sorted_remove1)
  ultimately have "sort (filter (\<lambda>k. \<not> superseded (add_authority n rs) k) (map fst (add_authority n rs))) =
      insort (cs_lineage n) (remove1 l ls)" by (simp add: ls)
  then show "authority_leaves (add_authority n rs) = Inr (insort (cs_lineage n) (remove1 l ls))"
    using authority_leaves_Inr [of "add_authority n rs"] n sound_add [OF sound assms(3-7)] by (simp add: named_def)
qed

end
