(* ===== verification/AuthorityGraph.thy ===== *)
theory AuthorityGraph
  imports AuthorityLaws StoreProps
begin

text \<open>
  The store's commits and the graph together. A commit of one lineage (\<^verbatim>\<open>CompactStore.Replace\<close>) sees
  only its own record; a recovery and a retry see the whole graph. What each does to the leaves.
\<close>

section \<open>Commits\<close>

definition set_authority :: "string \<Rightarrow> compact_record \<Rightarrow> authorities \<Rightarrow> authorities" where
  "set_authority lineage r rs = map (\<lambda>(l, old). (l, if l = lineage then r else old)) rs"

definition commit_authority ::
  "repository option \<Rightarrow> string \<Rightarrow> string \<Rightarrow> operation \<Rightarrow> compact_state \<Rightarrow> bool \<Rightarrow> authorities \<Rightarrow>
   authorities \<times> store_error option" where
  \<comment> \<open>\<^verbatim>\<open>Replace\<close> on the store of one lineage of the directory\<close>
  "commit_authority repo lineage expected op n guard_ok rs =
     (let st = \<lparr>ct_lineage = lineage, ct_repo = repo, ct_record = authority_of rs lineage\<rparr>
      in case replace expected op n guard_ok st of
           (_, Some err) \<Rightarrow> (rs, Some err)
         | (st', None) \<Rightarrow>
             (case ct_record st' of None \<Rightarrow> rs
              | Some r \<Rightarrow> if authority_of rs lineage = None then rs @ [(lineage, r)] else set_authority lineage r rs,
              None))"

lemma authority_of_set:
  "authority_of (set_authority l r rs) k =
     (case authority_of rs k of None \<Rightarrow> None | Some old \<Rightarrow> Some (if k = l then r else old))"
  unfolding authority_of_def set_authority_def by (induction rs) auto

lemma set_authority_names [simp]: "map fst (set_authority l r rs) = map fst rs"
  by (induction rs) (auto simp: set_authority_def)

lemma in_set_authority:
  "(k, x) \<in> set (set_authority l r rs) \<longleftrightarrow> (\<exists>old. (k, old) \<in> set rs \<and> x = (if k = l then r else old))"
  unfolding set_authority_def by (induction rs) auto

lemma set_same:
  assumes "distinct (map fst rs)" "authority_of rs l = Some r"
  shows "set_authority l r rs = rs"
proof -
  have "(case e of (k, old) \<Rightarrow> (k, if k = l then r else old)) = e" if "e \<in> set rs" for e
    using that assms by (auto simp: authority_of_def dest: eq_key_imp_eq_value split: prod.splits)
  then show ?thesis unfolding set_authority_def by (simp add: map_idI)
qed

lemma commit_cases:
  assumes "named rs" "authority_of rs l = Some c" "commit_authority repo l e op n g rs = (rs', None)"
  obtains "rs' = rs"
  | "rs' = set_authority l (compact_record_of n) rs" "cs_lineage n = l"
    "validate_compact_successor (cp_revision c) (cp_state c) n op = None" "compact_validate n = None"
proof -
  let ?st = "\<lparr>ct_lineage = l, ct_repo = repo, ct_record = authority_of rs l\<rparr>"
  from assms(3) obtain st' where st: "replace e op n g ?st = (st', None)"
    by (cases "replace e op n g ?st"; cases "snd (replace e op n g ?st)") (auto simp: commit_authority_def Let_def)
  have rs': "rs' = (case ct_record st' of None \<Rightarrow> rs | Some r \<Rightarrow> set_authority l r rs)"
    using assms(2,3) st by (auto simp: commit_authority_def Let_def split: option.splits)
  from replace_cases [OF st] show thesis
  proof cases
    case 1
    then have "rs' = set_authority l c rs" using rs' assms(2) by simp
    then show thesis using set_same [of rs l c] assms(1,2) that(1) by (simp add: named_def)
  next
    case 2
    then have "rs' = set_authority l (compact_record_of n) rs" using rs' by simp
    moreover have "cs_lineage n = cs_lineage (cp_state c) \<and>
        validate_compact_successor (cp_revision c) (cp_state c) n op = None"
      using 2(2) assms(2)
      by (simp add: validate_commit_def validate_compact_successor_def same_scope_def)
    ultimately show thesis using that(2) authority_lineage [OF assms(1,2)] 2(3) by simp
  qed
qed

lemma graph_sound: "named rs \<Longrightarrow> (\<exists>ls. authority_leaves rs = Inr ls) \<longleftrightarrow> sound_graph rs"
  by (simp add: authority_leaves_Inr named_def)

lemma no_leaves: "named rs \<Longrightarrow> \<not> sound_graph rs \<Longrightarrow> \<exists>err. authority_leaves rs = Inl err"
  using authority_leaves_Inr [of rs] by (cases "authority_leaves rs") (auto simp: named_def)

section \<open>A commit of a leaf\<close>

lemma map_filter_map: "List.map_filter f (map g xs) = List.map_filter (\<lambda>x. f (g x)) xs"
  by (induction xs) (simp_all add: List.map_filter_simps split: option.split)

lemma map_filter_cong: "(\<And>x. x \<in> set xs \<Longrightarrow> f x = g x) \<Longrightarrow> List.map_filter f xs = List.map_filter g xs"
  by (induction xs) (simp_all add: List.map_filter_simps split: option.split)

lemma predecessors_set:
  assumes "distinct (map fst rs)" "authority_of rs l = Some c"
    and "recovered_from_lineage r = recovered_from_lineage c"
  shows "predecessors (set_authority l r rs) = predecessors rs"
proof -
  have "recovered_from_lineage (snd (case e of (k, old) \<Rightarrow> (k, if k = l then r else old))) =
      recovered_from_lineage (snd e)" if "e \<in> set rs" for e
    using that assms by (auto simp: authority_of_def dest: eq_key_imp_eq_value split: prod.splits)
  then have same: "recovered_from_lineage (snd (case e of (k, old) \<Rightarrow> (k, if k = l then r else old))) =
      recovered_from_lineage (snd e)" if "e \<in> set rs" for e using that by blast
  show ?thesis unfolding predecessors_def set_authority_def map_filter_map
    by (rule map_filter_cong) (use same in \<open>auto simp: case_prod_beta\<close>)
qed

lemma succession_set:
  assumes "authority_of rs l = Some c" "recovered_from_lineage r = recovered_from_lineage c"
  shows "succession (set_authority l r rs) = succession rs"
  using assms by (auto simp: succession_def authority_of_set split: option.splits if_splits)

lemma superseded_set:
  assumes "distinct (map fst rs)" "authority_of rs l = Some c"
    and "recovered_from_lineage r = recovered_from_lineage c"
  shows "superseded (set_authority l r rs) k = superseded rs k"
  by (simp add: superseded_iff predecessors_set [OF assms])

lemma sound_set:
  assumes "named rs" "sound_graph rs" "authority_of rs l = Some c" "\<not> superseded rs l"
    and same: "recovered_from_lineage r = recovered_from_lineage c"
    and edge: "\<And>p. recovered_from_lineage c = Some p \<Longrightarrow> \<exists>pr. authority_of rs p = Some pr \<and>
      validate_recovery_edge pr (cp_state r) = None"
  shows "sound_graph (set_authority l r rs)"
proof -
  have d: "distinct (map fst rs)" using assms(1) by (simp add: named_def)
  have other: "recovered_from_lineage old \<noteq> Some l" if "(k, old) \<in> set rs" for k old
    using that assms(4) by (auto simp: superseded_def list_ex_iff)
  have "entry_sound (set_authority l r rs) (k, x)" if "(k, x) \<in> set (set_authority l r rs)" for k x
  proof -
    from that obtain old where e: "(k, old) \<in> set rs" "x = (if k = l then r else old)"
      by (auto simp: in_set_authority)
    show ?thesis
    proof (cases "recovered_from_lineage old")
      case None
      then have "recovered_from_lineage x = None" using e same assms(3) d
        by (auto simp: authority_of_def dest: eq_key_imp_eq_value)
      then show ?thesis by (simp add: entry_sound_def)
    next
      case (Some p)
      have p: "p \<noteq> l" using other [OF e(1)] Some by simp
      show ?thesis
      proof (cases "k = l")
        case True
        then have "old = c" using e(1) assms(3) d by (auto simp: authority_of_def)
        then obtain pr where "authority_of rs p = Some pr" "validate_recovery_edge pr (cp_state r) = None"
          using edge Some by blast
        then show ?thesis using p True e(2) same Some \<open>old = c\<close> by (simp add: entry_sound_def authority_of_set)
      next
        case False
        have "entry_sound rs (k, old)" using e(1) assms(2) by (simp add: sound_graph_def)
        then show ?thesis using p False e(2) Some
          by (simp add: entry_sound_def authority_of_set split: option.splits)
      qed
    qed
  qed
  then have "\<forall>e \<in> set (set_authority l r rs). entry_sound (set_authority l r rs) e" by (metis surj_pair)
  then show ?thesis
    using assms(2) by (simp add: sound_graph_def predecessors_set [OF d assms(3) same] succession_set [OF assms(3) same])
qed

lemma named_set: "named rs \<Longrightarrow> cs_lineage (cp_state r) = l \<Longrightarrow> named (set_authority l r rs)"
  unfolding named_def by (simp, auto simp: set_authority_def split: if_splits)

text \<open>
  Apart from the retry, an edge reads only what no commit changes: the frozen scope, which holds the
  recovery itself, and, of an authority recovered with its predecessor's evidence, the review that was
  imported. Such an authority starts validating with its correction behind it, so final verification
  and invalidation are all it can go through, and neither touches the review.
\<close>

lemma edge_reads:
  assumes "validate_recovery_edge pr s = None" "cs_recovery s = Some rc" "rc_disposition rc \<noteq> RecoveryFinalRetry"
    and n: "frozen_scope n = frozen_scope s"
    and e: "rc_evidence rc = None \<or> compact_review_evidence_hash n = compact_review_evidence_hash s"
  shows "validate_recovery_edge pr n = None"
proof -
  have f: "cs_recovery n = cs_recovery s" "cs_lineage n = cs_lineage s" "cs_generation n = cs_generation s"
    "cs_initial n = cs_initial s" "cs_policy n = cs_policy s" "cs_risk n = cs_risk s"
    "cs_lenses n = cs_lenses s" "cs_genesis n = cs_genesis s"
    using n by (simp_all add: frozen_scope_def)
  have "recovered_evidence_edge pr n = recovered_evidence_edge pr s" if "rc_evidence rc \<noteq> None"
  proof -
    have m: "evidence_scope_matches p n = evidence_scope_matches p s"
        "evidence_relation p n = evidence_relation p s" for p
      by (simp_all add: evidence_scope_matches_def evidence_relation_def f)
    have h: "compact_review_evidence_hash n = compact_review_evidence_hash s" using e that by blast
    show ?thesis unfolding recovered_evidence_edge_def m f(1,4) h ..
  qed
  then have "escalated_edge pr n rc = escalated_edge pr s rc"
    by (simp add: escalated_edge_def Let_def f(2,4))
  then have "edge_by_disposition pr n rc = edge_by_disposition pr s rc"
    using assms(3) by (cases "rc_disposition rc")
      (simp_all add: edge_by_disposition_def scope_edge_def staged_edge_def Let_def f(2-4))
  then show ?thesis using assms(1,2) by (simp add: validate_recovery_edge_def staged_edge_def f)
qed

lemma recovered_operations:
  assumes "performs op c n" "compact_validate (cp_state c) = None" "recovered_from (cp_state c) \<noteq> None"
  shows "op = OpCompleteVerification"
proof -
  let ?s = "cp_state c"
  obtain r v where r: "recovered_from ?s = Some (r, v)" using assms(3) by auto
  have "cs_state ?s \<noteq> Invalidated \<Longrightarrow> validate_recovered_correction ?s r v = None"
    using assms(2) r by (simp add: validate_not_invalidated plain_parts body_parts validate_compact_correction_def)
  then have "cs_state ?s \<noteq> Invalidated \<Longrightarrow> cs_state ?s \<in> {Validating, Approved, Escalated} \<and> cs_proposed ?s \<noteq> None"
    by (auto simp: validate_recovered_correction_def Let_def)
  then show ?thesis
    using assms(1) review_frozen(2) [OF _ assms(2)]
    by (auto simp: performs_def invalidate_ok compact_pristine_reviewing_def begin_correction_ok
        complete_correction_ok dest: reopen_results_ok(2) dispose_result_ok(2) simp: reopenable_def)
qed

lemma imported_review_kept:
  assumes "performs op c n" "compact_validate (cp_state c) = None" "cs_recovery (cp_state c) = Some rc"
  shows "rc_evidence rc = None \<or> compact_review_evidence_hash n = compact_review_evidence_hash (cp_state c)"
proof (cases "rc_evidence rc")
  case (Some v)
  then have "recovered_from (cp_state c) \<noteq> None" using assms(3) by (simp add: recovered_from_def)
  from recovered_operations [OF assms(1,2) this] assms(1) show ?thesis
    by (auto simp: performs_def complete_verification_ok compact_review_evidence_hash_def)
qed simp

lemma leaf_commit_leaves:
  assumes "named rs" "authority_leaves rs = Inr ls" "l \<in> set ls" "authority_of rs l = Some c"
    and fz: "frozen_scope n = frozen_scope (cp_state c)"
    and ok: "\<And>rc. cs_recovery (cp_state c) = Some rc \<Longrightarrow> rc_disposition rc \<noteq> RecoveryFinalRetry \<and>
      (rc_evidence rc = None \<or> compact_review_evidence_hash n = compact_review_evidence_hash (cp_state c))"
  shows "named (set_authority l (compact_record_of n) rs)"
    and "authority_leaves (set_authority l (compact_record_of n) rs) = Inr ls"
proof -
  have d: "distinct (map fst rs)" using assms(1) by (simp add: named_def)
  from assms(2) d have sound: "sound_graph rs" and ls: "ls = sort (filter (\<lambda>l. \<not> superseded rs l) (map fst rs))"
    by (simp_all add: authority_leaves_Inr)
  have leaf: "\<not> superseded rs l" using assms(3) ls by auto
  have same: "recovered_from_lineage (compact_record_of n) = recovered_from_lineage c"
    using fz by (simp add: recovered_from_lineage_def compact_record_of_def frozen_scope_def)
  have lc: "cs_lineage (cp_state c) = l" by (rule authority_lineage [OF assms(1,4)])
  have edge: "\<exists>pr. authority_of rs p = Some pr \<and> validate_recovery_edge pr n = None"
    if p: "recovered_from_lineage c = Some p" for p
  proof -
    obtain rc where rc: "cs_recovery (cp_state c) = Some rc" using p by (auto simp: recovered_from_lineage_def)
    have "(l, c) \<in> set rs" using assms(4) by (simp add: authority_of_def map_of_SomeD)
    then have "entry_sound rs (l, c)" using sound by (simp add: sound_graph_def)
    then obtain pr where pr: "authority_of rs p = Some pr" "validate_recovery_edge pr (cp_state c) = None"
      using p by (auto simp: entry_sound_def split: option.splits)
    from edge_reads [OF pr(2) rc _ fz] ok [OF rc] pr(1) show ?thesis by blast
  qed
  show n: "named (set_authority l (compact_record_of n) rs)"
    by (rule named_set [OF assms(1)]) (use fz lc in \<open>simp add: compact_record_of_def frozen_scope_def\<close>)
  have "sound_graph (set_authority l (compact_record_of n) rs)"
    by (rule sound_set [OF assms(1) sound assms(4) leaf same]) (use edge in \<open>simp add: compact_record_of_def\<close>)
  then show "authority_leaves (set_authority l (compact_record_of n) rs) = Inr ls"
    using n ls superseded_set [OF d assms(4) same] by (simp add: authority_leaves_Inr named_def)
qed

section \<open>What breaks a graph\<close>

lemma superseded_change:
  assumes "named rs" "superseded rs l" "authority_of rs l = Some c" "sound_graph rs" "cp_revision r \<noteq> cp_revision c"
    and "cs_lineage (cp_state r) = l" "recovered_from_lineage r \<noteq> Some l"
  shows "\<not> sound_graph (set_authority l r rs)"
proof
  assume s: "sound_graph (set_authority l r rs)"
  obtain k succ where k: "(k, succ) \<in> set rs" "recovered_from_lineage succ = Some l"
    using assms(2) by (auto simp: superseded_def list_ex_iff)
  have a: "authority_of rs k = Some succ" using k(1) assms(1) by (simp add: named_def authority_of_def)
  have e: "entry_sound rs (k, succ)" using assms(4) k(1) by (simp add: sound_graph_def)
  have "(l, k) \<in> succession rs" by (rule successionI [OF a k(2)])
  then have "k \<noteq> l" using assms(4) by (auto simp: sound_graph_def acyclic_def)
  then have "(k, succ) \<in> set (set_authority l r rs)" using k(1) by (force simp: set_authority_def)
  then have "entry_sound (set_authority l r rs) (k, succ)" using s by (simp add: sound_graph_def)
  then have "validate_recovery_edge r (cp_state succ) = None" "validate_recovery_edge c (cp_state succ) = None"
    using k(2) assms(3) e by (auto simp: entry_sound_def authority_of_set)
  then show False using assms(5) by (elim edge_names) simp
qed

lemma retry_edge_state:
  assumes "validate_recovery_edge p n = None" "cs_recovery n = Some rc" "rc_disposition rc = RecoveryFinalRetry"
  shows "cs_state n = Validating \<and> cs_evidence n = []"
proof -
  from assms have "retry_edge p n rc = None" by (simp add: validate_recovery_edge_def edge_by_disposition_def Let_def)
  then obtain s where "compact_state_equal (s\<lparr>cs_state := Validating, cs_evidence := [], cs_recovery := cs_recovery n\<rparr>) n"
    by (auto simp: retry_edge_def Let_def split: option.splits)
  then have "normalize_compact_state (s\<lparr>cs_state := Validating, cs_evidence := [], cs_recovery := cs_recovery n\<rparr>) =
      normalize_compact_state n" by (simp add: compact_state_equal_def)
  from arg_cong [OF this, of cs_state] arg_cong [OF this, of cs_evidence] show ?thesis
    by (simp add: normalize_compact_state_def)
qed

lemma finished_retry_unsound:
  assumes "(l, r) \<in> set rs" "cs_recovery (cp_state r) = Some rc" "rc_disposition rc = RecoveryFinalRetry"
    and "cs_state (cp_state r) \<noteq> Validating"
  shows "\<not> sound_graph rs"
proof
  assume "sound_graph rs"
  then have "entry_sound rs (l, r)" using assms(1) by (simp add: sound_graph_def)
  then obtain p where "validate_recovery_edge p (cp_state r) = None"
    using assms(2) by (auto simp: entry_sound_def recovered_from_lineage_def split: option.splits)
  from retry_edge_state [OF this assms(2,3)] assms(4) show False by simp
qed

section \<open>What recovery and retry do\<close>

lemma prepared:
  assumes "prepare_successor v c p ex = Inr n"
  shows "cs_lineage n = cs_lineage (rk_successor c)" "recovered_from_lineage (compact_record_of n) = Some (rk_predecessor c)"
  using assms
  by (auto simp: prepare_successor_def named_successor_def import_evidence_def recovered_from_lineage_def
      compact_record_of_def Let_def split: if_splits sum.splits option.splits)

lemma recover_written:
  assumes "recover_authority v c rs = (rs', Inr r)" "rs' \<noteq> rs"
  obtains p n ls where "authority_leaves rs = Inr ls" "authority_of rs (rk_predecessor c) = Some p"
    "cp_revision p = rk_revision c" "validate_recovery_edge p n = None" "\<not> superseded rs (rk_predecessor c)"
    "authority_of rs (cs_lineage n) = None" "recovered_from_lineage (compact_record_of n) = Some (rk_predecessor c)"
    "rs' = add_authority n rs" "r = compact_record_of n" "compact_validate n = None"
proof -
  from assms obtain p n where p: "authority_of rs (rk_predecessor c) = Some p" "admit_predecessor v c p = None"
      "prepare_successor v c p (authority_of rs (cs_lineage (rk_successor c))) = Inr n"
      "publish_successor v c p n rs = (rs', Inr r)"
    by (auto simp: recover_authority_def split: option.splits sum.splits)
  from p(4) assms(2) obtain ls where l: "authority_leaves rs = Inr ls" "authority_of rs (cs_lineage n) = None"
      "\<not> superseded rs (rk_predecessor c)" "admit_successor v c p n = None"
      "rs' = add_authority n rs" "r = compact_record_of n"
    by (auto simp: publish_successor_def split: option.splits sum.splits if_splits)
  have "cp_revision p = rk_revision c" using p(2) by (simp add: admit_predecessor_def)
  moreover have "validate_recovery_edge p n = None" "compact_validate n = None" using l(4) by (simp_all add: admit_successor_def)
  ultimately show thesis using that l p(1) prepared(2) [OF p(3)] by blast
qed

lemma not_other_successor:
  assumes "\<not> other_successor rs pr lineage" "authority_of rs lineage = None"
  shows "\<not> superseded rs (cs_lineage (cp_state pr))"
  using assms by (auto simp: other_successor_def superseded_def list_ex_iff filter_empty_conv Let_def)

lemma retry_written:
  assumes "named rs" "retry_final_verification v c rs = (rs', Inr r)" "rs' \<noteq> rs"
  obtains p n ls where "authority_leaves rs = Inr ls" "authority_of rs (rq_predecessor (ry_request c)) = Some p"
    "cp_revision p = rq_revision (ry_request c)" "retry_ancestry rs [] p = None"
    "validate_recovery_edge p n = None" "\<not> superseded rs (rq_predecessor (ry_request c))"
    "authority_of rs (cs_lineage n) = None"
    "recovered_from_lineage (compact_record_of n) = Some (rq_predecessor (ry_request c))"
    "rs' = add_authority n rs" "r = compact_record_of n" "compact_validate n = None"
proof -
  let ?q = "ry_request c"
  from assms(2,3) obtain p t ls where p: "authority_of rs (rq_predecessor ?q) = Some p" "cp_revision p = rq_revision ?q"
      "authority_leaves rs = Inr ls" "retry_ancestry rs [] p = None" "publish_retry v c p t rs = (rs', Inr r)"
    by (auto simp: retry_final_verification_def split: option.splits sum.splits if_splits)
  define n where "n = retry_successor p c t (retry_time v c (authority_of rs (rq_successor ?q)))"
  from p(5) assms(3) have a: "\<not> other_successor rs p (rq_successor ?q)" "authority_of rs (rq_successor ?q) = None"
      "compact_validate n = None" "validate_recovery_edge p n = None" "rs' = add_authority n rs" "r = compact_record_of n"
    by (auto simp: publish_retry_def Let_def n_def split: option.splits if_splits)
  have "cs_lineage n = rq_successor ?q" "recovered_from_lineage (compact_record_of n) = Some (cs_lineage (cp_state p))"
    by (simp_all add: n_def retry_successor_def recovered_from_lineage_def compact_record_of_def Let_def)
  moreover have "cs_lineage (cp_state p) = rq_predecessor ?q" by (rule authority_lineage [OF assms(1) p(1)])
  ultimately show thesis using that a p(1-4) not_other_successor [OF a(1,2)] by simp
qed

inductive succeeds :: "authorities \<Rightarrow> string \<Rightarrow> compact_record \<Rightarrow> authorities \<Rightarrow> bool" where
  \<comment> \<open>an operation gave this lineage a successor\<close>
  recovered: "recover_authority v c rs = (rs', Inr r) \<Longrightarrow> rs' \<noteq> rs \<Longrightarrow> succeeds rs (rk_predecessor c) r rs'"
| retried: "retry_final_verification v d rs = (rs', Inr r) \<Longrightarrow> rs' \<noteq> rs \<Longrightarrow>
    succeeds rs (rq_predecessor (ry_request d)) r rs'"

lemma succeeds_adds:
  assumes "succeeds rs l r rs'" "named rs"
  obtains p n ls where "authority_leaves rs = Inr ls" "authority_of rs l = Some p" "validate_recovery_edge p n = None"
    "\<not> superseded rs l" "authority_of rs (cs_lineage n) = None"
    "recovered_from_lineage (compact_record_of n) = Some l" "rs' = add_authority n rs" "r = compact_record_of n"
    "compact_validate n = None"
  using assms
proof cases
  case (recovered v c)
  from recover_written [OF recovered(2,3)] show thesis using recovered(1) that by metis
next
  case (retried v d)
  from retry_written [OF assms(2) retried(2,3)] show thesis using retried(1) that by metis
qed

section \<open>No second retry\<close>

lemma retry_ancestry_clear:
  "retry_ancestry rs seen cursor = None \<Longrightarrow> authority_of rs q = Some cursor \<Longrightarrow> (z, q) \<in> (succession rs)\<^sup>* \<Longrightarrow>
     authority_of rs z = Some a \<Longrightarrow> cs_recovery (cp_state a) = Some rc \<Longrightarrow> rc_disposition rc \<noteq> RecoveryFinalRetry"
proof (induction rs seen cursor arbitrary: q rule: retry_ancestry.induct)
  case (1 rs seen cursor)
  from "1.prems"(1) have step: "cs_lineage (cp_state cursor) \<notin> set seen"
    by (subst (asm) retry_ancestry.simps) (auto split: if_splits)
  from "1.prems"(3) show ?case
  proof (cases rule: rtranclE)
    case base
    then have "a = cursor" using "1.prems"(2,4) by simp
    then show ?thesis using "1.prems"(1,5) step
      by (subst (asm) retry_ancestry.simps) (auto split: if_splits)
  next
    case (step g)
    then obtain rc' where rc': "cs_recovery (cp_state cursor) = Some rc'" "rc_predecessor rc' = g"
      using "1.prems"(2) by (auto simp: succession_def recovered_from_lineage_def)
    then obtain parent where parent: "rc_disposition rc' \<noteq> RecoveryFinalRetry" "authority_of rs g = Some parent"
        "cp_revision parent = rc_revision rc'"
        "retry_ancestry rs (cs_lineage (cp_state cursor) # seen) parent = None"
      using "1.prems"(1) \<open>cs_lineage (cp_state cursor) \<notin> set seen\<close>
      by (subst (asm) retry_ancestry.simps) (auto split: if_splits option.splits)
    show ?thesis
      by (rule "1.IH" [OF \<open>cs_lineage (cp_state cursor) \<notin> set seen\<close> rc'(1) parent(1) _ _ parent(4) parent(2) step(1)
            "1.prems"(4,5)]) (simp_all add: rc'(2) parent(2,3))
  qed
qed

end
