(* ===== verification/AuthorityProps.thy ===== *)
theory AuthorityProps
  imports AuthorityGraph
begin

text \<open>
  The properties of the authority graph: the check decides the contract, recovery and retry replace
  one leaf by its successor, a history in which commits touch leaves stays readable, and two ways
  the store's own operations make a graph unreadable.
\<close>

section \<open>Histories\<close>

inductive authority_history :: "authorities \<Rightarrow> bool" where
  \<comment> \<open>authorities are started, advanced at the leaves, invalidated after their approval and recovered; no
    retried one is advanced\<close>
  empty: "authority_history []"
| start: "authority_history rs \<Longrightarrow> authority_of rs (cs_lineage n) = None \<Longrightarrow> cs_recovery n = None \<Longrightarrow>
    authority_history (add_authority n rs)"
| succession: "authority_history rs \<Longrightarrow> succeeds rs l r rs' \<Longrightarrow> authority_history rs'"
| commit: "authority_history rs \<Longrightarrow> authority_leaves rs = Inr ls \<Longrightarrow> l \<in> set ls \<Longrightarrow> authority_of rs l = Some c \<Longrightarrow>
    compact_validate (cp_state c) = None \<Longrightarrow> performs op c n \<Longrightarrow>
    (\<And>rc. cs_recovery (cp_state c) = Some rc \<Longrightarrow> rc_disposition rc \<noteq> RecoveryFinalRetry) \<Longrightarrow>
    commit_authority repo l e op n g rs = (rs', None) \<Longrightarrow> authority_history rs'"
| revocation: "authority_history rs \<Longrightarrow> authority_leaves rs = Inr ls \<Longrightarrow> l \<in> set ls \<Longrightarrow> authority_of rs l = Some c \<Longrightarrow>
    invalidate_approved ev (cp_state c) = (n, None) \<Longrightarrow>
    (\<And>rc. cs_recovery (cp_state c) = Some rc \<Longrightarrow> rc_disposition rc \<noteq> RecoveryFinalRetry) \<Longrightarrow>
    authority_history (set_authority l (compact_record_of n) rs)"

lemma start_leaves:
  assumes "named rs" "authority_leaves rs = Inr ls" "authority_of rs (cs_lineage n) = None" "cs_recovery n = None"
  shows "named (add_authority n rs) \<and> (\<exists>ls'. authority_leaves (add_authority n rs) = Inr ls')"
proof
  have sound: "sound_graph rs" using assms(1,2) graph_sound by blast
  show n: "named (add_authority n rs)"
    using assms(1,3) by (auto simp: named_def add_authority_def compact_record_of_def authority_of_def map_of_eq_None_iff)
  have r: "recovered_from_lineage (compact_record_of n) = None"
    using assms(4) by (simp add: recovered_from_lineage_def compact_record_of_def)
  have "entry_sound (add_authority n rs) e" if "entry_sound rs e" for e
    using that by (auto simp: entry_sound_def authority_of_add split: option.splits)
  moreover have "succession (add_authority n rs) = succession rs"
    using r assms(3) by (auto simp: succession_def authority_of_add split: option.splits if_splits)
  moreover have "predecessors (add_authority n rs) = predecessors rs"
    using r by (simp add: add_authority_def predecessors_append) (simp add: predecessors_def List.map_filter_simps)
  ultimately have "sound_graph (add_authority n rs)"
    using sound r by (auto simp: sound_graph_def) (auto simp: add_authority_def entry_sound_def)
  then show "\<exists>ls'. authority_leaves (add_authority n rs) = Inr ls'" using graph_sound [OF n] by blast
qed

lemma history_readable: "authority_history rs \<Longrightarrow> named rs \<and> (\<exists>ls. authority_leaves rs = Inr ls)"
proof (induction rule: authority_history.induct)
  case empty
  then show ?case by (simp add: named_def authority_leaves_def)
next
  case (start rs n)
  then show ?case using start_leaves by blast
next
  case (succession rs l r rs')
  then obtain p n ls where s: "authority_leaves rs = Inr ls" "authority_of rs l = Some p" "validate_recovery_edge p n = None"
      "\<not> superseded rs l" "authority_of rs (cs_lineage n) = None"
      "recovered_from_lineage (compact_record_of n) = Some l" "rs' = add_authority n rs"
    using succeeds_adds by metis
  show ?case using leaves_add [OF _ s(1,5,2,6,4,3)] succession.IH s(7) by blast
next
  case (commit rs ls l c op n repo e g rs')
  note k = performs_keeps [OF commit.hyps(6,5)]
  from commit.IH have "named rs" by simp
  from this commit.hyps(4,8) show ?case
  proof (cases rule: commit_cases)
    case 1
    then show ?thesis using commit.IH by simp
  next
    case 2
    then show ?thesis
      using leaf_commit_leaves [OF \<open>named rs\<close> commit.hyps(2-4) k(2)]
        imported_review_kept [OF commit.hyps(6,5)] commit.hyps(7) by blast
  qed
next
  case (revocation rs ls l c ev n)
  then have "frozen_scope n = frozen_scope (cp_state c)"
      "compact_review_evidence_hash n = compact_review_evidence_hash (cp_state c)"
    by (auto simp: invalidate_approved_ok frozen_scope_def compact_review_evidence_hash_def)
  then show ?case using leaf_commit_leaves [of rs ls l c n] revocation by blast
qed

lemma commit_performs:
  assumes "named rs" "authority_of rs l = Some c" "compact_validate (cp_state c) = None" "\<not> cp_historical c"
    and "performs op c n" "repository_refusal \<lparr>ct_lineage = l, ct_repo = repo, ct_record = Some c\<rparr> op n = None"
    and "\<not> already_stored \<lparr>ct_lineage = l, ct_repo = repo, ct_record = Some c\<rparr> n"
  shows "commit_authority repo l (cp_revision c) op n True rs = (set_authority l (compact_record_of n) rs, None)"
proof -
  let ?st = "\<lparr>ct_lineage = l, ct_repo = repo, ct_record = Some c\<rparr>"
  note k = performs_keeps [OF assms(5,3)]
  have n: "cs_lineage n = l" using k(2) authority_lineage [OF assms(1,2)] by (simp add: frozen_scope_def)
  have "replace (cp_revision c) op n True ?st = (?st\<lparr>ct_record := Some (compact_record_of n)\<rparr>, None)"
    using n k(1) assms(4-7) performs_successor [OF assms(5,3)]
    by (auto simp: replace_def historical_store_def validate_commit_def stored_revision_def
        repository_refusal_def operation_blank_def performs_def first_err.simps(2) guard_def split: option.splits)
  then show ?thesis using assms(2) by (simp add: commit_authority_def)
qed

section \<open>The properties\<close>

text \<open>C31: the graph check decides its contract. It answers the leaves exactly when every recovered
  authority has its predecessor under a valid recovery edge, no two share a predecessor and no chain
  of recoveries returns to itself; and the leaves are then, in order, the authorities without a
  successor.\<close>

theorem leaves_decide_contract:
  assumes "distinct (map fst rs)"
  shows "authority_leaves rs = Inr ls \<longleftrightarrow>
    sound_graph rs \<and> ls = sort (filter (\<lambda>l. \<not> superseded rs l) (map fst rs))"
  using assms by (rule authority_leaves_Inr)

text \<open>C32: recovery and retry replace one leaf by its successor. When either writes a new authority, the graph
  was readable, its predecessor was a leaf, and afterwards the leaves are the old ones with the
  predecessor replaced by the new lineage, one generation later; no stored record is edited.\<close>

theorem succession_replaces_leaf:
  assumes "named rs" "succeeds rs l r rs'"
  shows "\<exists>ls p. authority_leaves rs = Inr ls \<and> l \<in> set ls \<and> authority_of rs l = Some p \<and>
    cs_generation (cp_state r) = go_add (cs_generation (cp_state p)) 1 \<and>
    authority_leaves rs' = Inr (insort (cs_lineage (cp_state r)) (remove1 l ls)) \<and>
    rs' = rs @ [(cs_lineage (cp_state r), r)]"
proof -
  obtain p n ls where s: "authority_leaves rs = Inr ls" "authority_of rs l = Some p" "validate_recovery_edge p n = None"
      "\<not> superseded rs l" "authority_of rs (cs_lineage n) = None"
      "recovered_from_lineage (compact_record_of n) = Some l" "rs' = add_authority n rs" "r = compact_record_of n"
    using assms succeeds_adds by metis
  have "l \<in> set (map fst rs)" using s(2) map_of_eq_None_iff [of rs l] by (auto simp: authority_of_def)
  then have "l \<in> set ls" using s(1,4) assms(1) by (auto simp: named_def authority_leaves_Inr)
  moreover have "cs_generation n = go_add (cs_generation (cp_state p)) 1" using s(3) by (elim edge_names)
  ultimately show ?thesis using leaves_add(2) [OF assms(1) s(1,5,2,6,4,3)] s
    by (auto simp: compact_record_of_def add_authority_def)
qed

text \<open>C33: a graph stays readable as long as commits touch its leaves. Through any sequence of starts, recoveries
  (with or without evidence imported from the predecessor), retries, approved authorities invalidated by a
  gate, and commits of every operation of the store on leaves (completion, invalidation, correction start
  and end, final verification, reopening of results, disposal of a result), the check answers the leaves,
  as long as no authority that a final-verification retry created is advanced: that one exception is what
  C35 shows to break the graph.\<close>

theorem leaf_histories_readable:
  assumes "authority_history rs"
  shows "\<exists>ls. authority_leaves rs = Inr ls"
  using history_readable [OF assms] by blast

text \<open>C34: the commit does not look at the graph. Once a lineage has a successor, any operation on the
  superseded predecessor that its state allows and the repository confirms still commits by
  compare-and-swap, and from then on the whole graph is refused, since the successor names the revision
  the predecessor no longer has.\<close>

theorem superseded_commit_breaks_graph:
  assumes "named rs" "superseded rs l" "authority_of rs l = Some c" "authority_leaves rs = Inr ls"
    and "compact_validate (cp_state c) = None" "\<not> cp_historical c" "performs op c n"
    and "compact_revision n \<noteq> cp_revision c"
    and "repository_refusal \<lparr>ct_lineage = l, ct_repo = repo, ct_record = Some c\<rparr> op n = None"
  shows "\<exists>rs' err. commit_authority repo l (cp_revision c) op n True rs = (rs', None) \<and>
    rs' = set_authority l (compact_record_of n) rs \<and> authority_leaves rs' = Inl err"
proof -
  let ?rs = "set_authority l (compact_record_of n) rs"
  note fz = performs_keeps(2) [OF assms(7,5)]
  have ln: "cs_lineage n = l"
    using fz authority_lineage [OF assms(1,3)] by (simp add: frozen_scope_def)
  have "commit_authority repo l (cp_revision c) op n True rs = (?rs, None)"
    by (rule commit_performs [OF assms(1,3,5,6,7,9)]) (use assms(8) in \<open>auto simp: already_stored_def\<close>)
  moreover have "recovered_from_lineage (compact_record_of n) \<noteq> Some l"
  proof
    assume "recovered_from_lineage (compact_record_of n) = Some l"
    then have "recovered_from_lineage c = Some l"
      using fz by (simp add: recovered_from_lineage_def compact_record_of_def frozen_scope_def)
    then have "(l, l) \<in> succession rs" using assms(3) by (rule successionI [rotated])
    then show False using graph_sound [OF assms(1)] assms(4) by (auto simp: sound_graph_def acyclic_def)
  qed
  then have "\<not> sound_graph ?rs"
    using graph_sound [OF assms(1)] assms(4,8) ln
    by (intro superseded_change [OF assms(1-3)]) (auto simp: compact_record_of_def)
  moreover have "named ?rs" by (rule named_set [OF assms(1)]) (simp add: compact_record_of_def ln)
  ultimately show ?thesis using no_leaves by blast
qed

text \<open>C35: a final-verification retry cannot be used up. The edge of a retry compares the successor with a
  validating copy of its predecessor, so as soon as the retried authority leaves the validating state,
  approved or not, the whole graph is refused.\<close>

theorem finished_retry_breaks_graph:
  assumes "named rs" "authority_of rs l = Some r" "cs_recovery (cp_state r) = Some rc"
    and "rc_disposition rc = RecoveryFinalRetry" "cs_state (cp_state r) \<noteq> Validating"
  shows "\<exists>err. authority_leaves rs = Inl err"
proof -
  have "(l, r) \<in> set rs" using assms(2) by (simp add: authority_of_def map_of_SomeD)
  from finished_retry_unsound [OF this assms(3-5)] show ?thesis by (rule no_leaves [OF assms(1)])
qed

text \<open>one retry per ancestry. When an authority or any of its ancestors came from a final-verification
  retry, a further retry of it is refused, whatever the request, and nothing is written.\<close>

lemma second_retry_refused:
  assumes "(z, rq_predecessor (ry_request c)) \<in> (succession rs)\<^sup>*" "authority_of rs z = Some a"
    and "cs_recovery (cp_state a) = Some rc" "rc_disposition rc = RecoveryFinalRetry"
  shows "\<exists>err. retry_final_verification v c rs = (rs, Inl err)"
proof -
  have "retry_ancestry rs [] p \<noteq> None" if "authority_of rs (rq_predecessor (ry_request c)) = Some p" for p
    using retry_ancestry_clear [OF _ that assms(1-3)] assms(4) by blast
  then show ?thesis by (auto simp: retry_final_verification_def split: option.splits sum.splits)
qed

section \<open>Witnesses\<close>

text \<open>An invalidated review and its recovery: the call is run, not assumed.\<close>

definition stale_state :: compact_state where
  "stale_state = fst (invalidate ''stale'' sample_state)"

definition stale_graph :: authorities where
  "stale_graph = [(''review-1'', compact_record_of stale_state)]"

definition fresh_state :: compact_state where
  "fresh_state = sample_state\<lparr>cs_lineage := ''review-2'', cs_generation := 2\<rparr>"

definition sample_call :: recovery_call where
  "sample_call =
     \<lparr>rk_predecessor = ''review-1'', rk_revision = compact_revision stale_state, rk_successor = fresh_state,
      rk_disposition = RecoveryInvalidated, rk_reason = ''restart'', rk_actor = ''ana'',
      rk_at = ''2026-01-01T00:00:00Z'', rk_authorization = []\<rparr>"

definition sample_recovery_view :: recovery_view where
  "sample_recovery_view =
     \<lparr>rw_repo = agreeing_repository, rw_receipt = False, rw_receipt_kept = False, rw_committed = None,
      rw_receipt_bound = False, rw_release = None, rw_live = None, rw_now = ''2026-01-02T00:00:00Z''\<rparr>"

definition recovered_state :: compact_state where
  "recovered_state = fresh_state\<lparr>cs_recovery := Some
     \<lparr>rc_predecessor = ''review-1'', rc_revision = compact_revision stale_state,
      rc_disposition = RecoveryInvalidated, rc_reason = ''restart'', rc_actor = ''ana'',
      rc_at = ''2026-01-01T00:00:00Z'', rc_authorization = [], rc_evidence = None, rc_retry = None\<rparr>\<rparr>"

lemma sample_trims: "trim_space ''restart'' = ''restart''" "trim_space ''ana'' = ''ana''" "trim_space [] = []"
    "\<not> blank ''restart''" "\<not> blank ''ana''" "trim_space ''stale'' = ''stale''"
  by code_simp+

lemma sample_lineages: "validate_lineage_id ''review-2'' = None" "validate_lineage_id ''review-1'' = None"
  by code_simp+

lemma stale_ok: "invalidate ''stale'' sample_state = (stale_state, None)"
proof -
  have "invalidate ''stale'' sample_state =
      (sample_state\<lparr>cs_state := Invalidated, cs_invalidation := trim_space ''stale''\<rparr>, None)"
    by (simp add: invalidate_ok sample_pristine sample_trims)
  then show ?thesis by (simp add: stale_state_def)
qed

lemma stale_fields: "cs_state stale_state = Invalidated" "cs_initial stale_state = sample_snapshot"
    "cs_recovery stale_state = None" "cs_generation stale_state = 1" "cs_lineage stale_state = ''review-1''"
proof -
  have s: "stale_state = sample_state\<lparr>cs_state := Invalidated, cs_invalidation := trim_space ''stale''\<rparr>"
    using stale_ok by (simp add: invalidate_ok)
  show "cs_state stale_state = Invalidated" "cs_initial stale_state = sample_snapshot"
      "cs_recovery stale_state = None" "cs_generation stale_state = 1" "cs_lineage stale_state = ''review-1''"
    unfolding s by (simp_all add: sample_defs)
qed

lemma recovered_state_valid: "compact_validate recovered_state = None"
proof -
  have "validate_header recovered_state = None"
    by (simp add: validate_header_def recovered_state_def fresh_state_def sample_defs sample_lineages
        validate_dispositions_def validate_reopens_def validate_recovery_def sample_trims compact_revision_def zero_time_def)
  moreover have "validate_scope recovered_state = None"
    by (simp add: validate_scope_def recovered_state_def fresh_state_def sample_defs sample_snapshot_valid
        sample_snapshot_fields sample_paths sample_subset sample_lenses sample_budget empty_delta_valid
        validate_compact_findings_def)
  moreover have "validate_compact_correction recovered_state = None"
    by (simp add: validate_compact_correction_def recovered_from_def validate_ordinary_correction_def
        validate_attempts_def correction_returns_early_def correction_output_def
        validate_uncorrected_def recovered_state_def fresh_state_def sample_defs)
  moreover have "cs_state recovered_state = Reviewing" "cs_proposed recovered_state = None"
    "cs_actual recovered_state = None" by (simp_all add: recovered_state_def fresh_state_def sample_defs)
  moreover have "validate_state_data Reviewing recovered_state = None"
    by (simp add: recovered_state_def fresh_state_def sample_defs)
  ultimately show ?thesis by (simp add: validate_not_invalidated plain_parts body_parts)
qed

lemma stale_leaves: "named stale_graph" "authority_leaves stale_graph = Inr [''review-1'']"
    "authority_of stale_graph ''review-1'' = Some (compact_record_of stale_state)"
    "authority_of stale_graph ''review-2'' = None" "\<not> superseded stale_graph ''review-1''"
  by (simp_all add: stale_graph_def named_def authority_leaves_def entry_error_def authority_of_def
      superseded_def recovered_from_lineage_def compact_record_of_def stale_fields)

lemma recovered_fields: "cs_lineage recovered_state = ''review-2''" "cs_generation recovered_state = 2"
    "cs_initial recovered_state = sample_snapshot" "cs_state recovered_state = Reviewing"
  by (simp_all add: recovered_state_def fresh_state_def sample_defs)

lemma recovered_provenance: "cs_recovery recovered_state = Some
     \<lparr>rc_predecessor = ''review-1'', rc_revision = compact_revision stale_state,
      rc_disposition = RecoveryInvalidated, rc_reason = ''restart'', rc_actor = ''ana'',
      rc_at = ''2026-01-01T00:00:00Z'', rc_authorization = [], rc_evidence = None, rc_retry = None\<rparr>"
  by (simp add: recovered_state_def)

lemma sample_admitted: "admit_successor sample_recovery_view sample_call (compact_record_of stale_state) recovered_state = None"
proof -
  have "fresh_successor recovered_state = None"
    using sample_pristine
    by (simp add: fresh_successor_def recovered_state_def fresh_state_def compact_pristine_reviewing_def sample_defs)
  moreover have "validate_recovery_edge (compact_record_of stale_state) recovered_state = None"
    by (simp add: validate_recovery_edge_def recovered_fields recovered_provenance stale_fields
        compact_record_of_def same_recovery_projection_def edge_by_disposition_def go_add_def wrap64_def)
  moreover have "call_same_projection sample_call (compact_record_of stale_state)"
    by (simp add: call_same_projection_def compact_record_of_def stale_fields same_recovery_projection_def
        sample_call_def fresh_state_def) (simp add: sample_defs)
  moreover have "validate_repository_evidence agreeing_repository None recovered_state OpStart = None"
    by (simp add: validate_repository_evidence_def start_evidence_def agreeing_repository_def
        recovered_state_def fresh_state_def sample_defs)
  moreover have "\<not> call_staged sample_call (compact_record_of stale_state)"
    by (simp add: call_staged_def sample_call_def)
  ultimately show ?thesis
    by (simp add: admit_successor_def recovered_state_valid recovered_fields sample_snapshot_fields
        sample_recovery_view_def) (simp add: sample_call_def release_authorization_def)
qed

lemma sample_recovers:
  "recover_authority sample_recovery_view sample_call stale_graph =
     (add_authority recovered_state stale_graph, Inr (compact_record_of recovered_state))"
proof -
  have "admit_call sample_call = None"
    by (simp add: admit_call_def sample_call_def sample_lineages fresh_state_def)
  moreover have "admit_predecessor sample_recovery_view sample_call (compact_record_of stale_state) = None"
    by (simp add: admit_predecessor_def call_staged_def call_same_projection_def same_recovery_projection_def
        compact_record_of_def stale_fields sample_call_def fresh_state_def) (simp add: sample_defs)
  moreover have "prepare_successor sample_recovery_view sample_call (compact_record_of stale_state)
      (authority_of stale_graph (cs_lineage (rk_successor sample_call))) = Inr recovered_state"
    by (simp add: prepare_successor_def named_successor_def recovered_at_def sample_call_def sample_trims
        zero_time_def compact_record_of_def recovered_state_def Let_def)
  ultimately show ?thesis
    using stale_leaves sample_admitted recovered_fields
    by (simp add: recover_authority_def publish_successor_def sample_call_def)
qed

definition sample_graph :: authorities where
  "sample_graph = add_authority recovered_state stale_graph"

lemma sample_succeeds: "succeeds stale_graph ''review-1'' (compact_record_of recovered_state) sample_graph"
  using succeeds.recovered [OF sample_recovers] by (simp add: sample_graph_def sample_call_def) (simp add: add_authority_def)

lemma sample_graph_leaves: "named sample_graph \<and> authority_leaves sample_graph = Inr [''review-2'']"
proof -
  obtain p n where s: "authority_of stale_graph ''review-1'' = Some p" "validate_recovery_edge p n = None"
      "\<not> superseded stale_graph ''review-1''" "authority_of stale_graph (cs_lineage n) = None"
      "recovered_from_lineage (compact_record_of n) = Some ''review-1''" "sample_graph = add_authority n stale_graph"
      "compact_record_of recovered_state = compact_record_of n"
    using succeeds_adds [OF sample_succeeds stale_leaves(1)] by metis
  have "n = recovered_state" using s(7) by (simp add: compact_record_of_def)
  then show ?thesis
    using leaves_add [OF stale_leaves(1,2) s(4,1,5,3,2)] s(6) by (simp add: recovered_fields)
qed

theorem leaves_decide_contract_witness:
  "sound_graph sample_graph \<and> sort (filter (\<lambda>l. \<not> superseded sample_graph l) (map fst sample_graph)) = [''review-2'']"
  using leaves_decide_contract [of sample_graph "[''review-2'']"] sample_graph_leaves by (simp add: named_def)

theorem succession_replaces_leaf_witness:
  "\<exists>ls p. authority_leaves stale_graph = Inr ls \<and> ''review-1'' \<in> set ls \<and>
    authority_of stale_graph ''review-1'' = Some p \<and>
    cs_generation (cp_state (compact_record_of recovered_state)) = go_add (cs_generation (cp_state p)) 1 \<and>
    authority_leaves sample_graph =
      Inr (insort (cs_lineage (cp_state (compact_record_of recovered_state))) (remove1 ''review-1'' ls)) \<and>
    sample_graph = stale_graph @ [(cs_lineage (cp_state (compact_record_of recovered_state)),
      compact_record_of recovered_state)]"
  by (rule succession_replaces_leaf [OF stale_leaves(1) sample_succeeds])

lemma stale_history: "authority_history stale_graph"
proof -
  let ?g = "[(''review-1'', compact_record_of sample_state)]"
  have fields: "cs_lineage sample_state = ''review-1''" "cs_recovery sample_state = None" "cs_state sample_state = Reviewing"
    by (simp_all add: sample_defs)
  have a: "authority_of ?g ''review-1'' = Some (compact_record_of sample_state)" by (simp add: authority_of_def)
  have h: "authority_history ?g"
    using authority_history.start [OF authority_history.empty, of sample_state] fields
    by (simp add: authority_of_def add_authority_def)
  have p: "performs OpInvalidate (compact_record_of sample_state) stale_state"
    using stale_ok by (auto simp: performs_def compact_record_of_def)
  have l: "authority_leaves ?g = Inr [''review-1'']"
    by (simp add: authority_leaves_def entry_error_def superseded_def recovered_from_lineage_def
        compact_record_of_def fields)
  have stale_differs: "\<not> compact_state_equal sample_state stale_state"
    using fields stale_fields(1) by (auto simp: compact_state_equal_def normalize_compact_state_def
        dest: arg_cong [where f = cs_state])
  have n: "named ?g" by (simp add: named_def compact_record_of_def fields)
  have "commit_authority None ''review-1'' (compact_revision sample_state) OpInvalidate stale_state True ?g =
      (stale_graph, None)"
    using commit_performs [OF n a _ _ p, of None] sample_state_valid stale_differs
    by (simp add: compact_record_of_def set_authority_def stale_graph_def repository_refusal_def already_stored_def)
  from authority_history.commit [OF h l _ a _ p _ this] show ?thesis
    using sample_state_valid fields by (simp add: compact_record_of_def)
qed

theorem leaf_histories_readable_witness: "\<exists>ls. authority_leaves sample_graph = Inr ls"
  by (rule leaf_histories_readable [OF authority_history.succession [OF stale_history sample_succeeds]])

text \<open>A review that needs a correction, and a successor that took its scope over.\<close>

definition wider_provenance :: recovery_provenance where
  "wider_provenance =
     \<lparr>rc_predecessor = ''review-1'', rc_revision = ''first'', rc_disposition = RecoveryScopeChanged,
      rc_reason = ''wider'', rc_actor = ''ana'', rc_at = ''2026-01-01T00:00:00Z'', rc_authorization = ''granted'',
      rc_evidence = None, rc_retry = None\<rparr>"

definition wider_state :: compact_state where
  "wider_state = fresh_state
     \<lparr>cs_initial := sample_snapshot\<lparr>sn_paths := Some [''a.go'', ''b.go'']\<rparr>, cs_recovery := Some wider_provenance\<rparr>"

definition wider_graph :: authorities where
  "wider_graph =
     [(''review-1'', \<lparr>cp_revision = ''first'', cp_state = sample_reviewed, cp_historical = False\<rparr>),
      (''review-2'', compact_record_of wider_state)]"

lemma sample_reviewed_lineage: "cs_lineage sample_reviewed = ''review-1''" "cs_generation sample_reviewed = 1"
  using review_frame_fields(1) [OF sample_reviewed_facts(5)] by (simp_all add: frozen_scope_def sample_defs)

lemma wider_paths: "classify_paths [''a.go''] [''a.go'', ''b.go''] = PathsOverlap"
    "paths_are_subset [''a.go'', ''b.go''] [''a.go''] \<noteq> None" "\<not> blank ''granted''"
  by code_simp+

lemma wider_edge:
  "validate_recovery_edge \<lparr>cp_revision = ''first'', cp_state = sample_reviewed, cp_historical = False\<rparr> wider_state = None"
  using wider_paths
  by (simp add: validate_recovery_edge_def wider_state_def wider_provenance_def sample_reviewed_lineage sample_reviewed_facts(2)
      sample_reviewed_fields same_recovery_projection_def edge_by_disposition_def scope_edge_def
      adds_genesis_path_def fresh_state_def go_add_def wrap64_def)

lemma wider_fields: "cs_lineage wider_state = ''review-2''"
    "recovered_from_lineage (compact_record_of wider_state) = Some ''review-1''"
  by (simp_all add: wider_state_def fresh_state_def recovered_from_lineage_def compact_record_of_def wider_provenance_def)

lemma reviewed_unrecovered: "recovered_from_lineage \<lparr>cp_revision = ''first'', cp_state = sample_reviewed, cp_historical = False\<rparr> = None"
  by (simp add: recovered_from_lineage_def sample_reviewed_fields)

lemma wider_graph_facts: "named wider_graph" "superseded wider_graph ''review-1''" "authority_leaves wider_graph = Inr [''review-2'']"
    "authority_of wider_graph ''review-1'' = Some \<lparr>cp_revision = ''first'', cp_state = sample_reviewed, cp_historical = False\<rparr>"
proof -
  show n: "named wider_graph"
    by (simp add: named_def wider_graph_def compact_record_of_def sample_reviewed_lineage wider_fields [unfolded compact_record_of_def])
  show s: "superseded wider_graph ''review-1''" by (simp add: superseded_def wider_graph_def wider_fields)
  show a: "authority_of wider_graph ''review-1'' = Some \<lparr>cp_revision = ''first'', cp_state = sample_reviewed, cp_historical = False\<rparr>"
    by (simp add: authority_of_def wider_graph_def)
  have "succession wider_graph = {(''review-1'', ''review-2'')}"
    by (auto simp: succession_def authority_of_def wider_graph_def wider_fields reviewed_unrecovered split: if_splits)
  then have "acyclic (succession wider_graph)" by (simp add: acyclic_insert) (simp add: acyclic_def)
  moreover have "\<forall>e \<in> set wider_graph. entry_sound wider_graph e"
    using a wider_edge
    by (simp add: wider_graph_def [THEN arg_cong, of set] entry_sound_def reviewed_unrecovered wider_fields)
      (simp add: compact_record_of_def)
  moreover have "predecessors wider_graph = [''review-1'']"
    by (simp add: wider_graph_def predecessors_def List.map_filter_simps reviewed_unrecovered wider_fields)
  moreover have "\<not> superseded wider_graph ''review-2''"
    by (simp add: superseded_def wider_graph_def wider_fields reviewed_unrecovered)
  ultimately show "authority_leaves wider_graph = Inr [''review-2'']"
    using authority_leaves_Inr [of wider_graph "[''review-2'']"] n s
    by (simp add: sound_graph_def named_def) (simp add: wider_graph_def)
qed

theorem superseded_commit_breaks_graph_witness:
  "\<exists>rs' err. commit_authority (Some agreeing_repository) ''review-1'' ''first'' OpBeginFix sample_begun True wider_graph =
      (rs', None) \<and> rs' = set_authority ''review-1'' (compact_record_of sample_begun) wider_graph \<and>
    authority_leaves rs' = Inl err"
proof -
  let ?c = "\<lparr>cp_revision = ''first'', cp_state = sample_reviewed, cp_historical = False\<rparr>"
  have v: "compact_validate (cp_state ?c) = None" "\<not> cp_historical ?c" by (simp_all add: sample_reviewed_facts)
  have p: "performs OpBeginFix ?c sample_begun" using sample_begin_ok by (auto simp: performs_def)
  have r: "compact_revision sample_begun \<noteq> cp_revision ?c"
    by (simp add: compact_revision_def domain_identity_def identity_of_def)
  have g: "repository_refusal \<lparr>ct_lineage = ''review-1'', ct_repo = Some agreeing_repository, ct_record = Some ?c\<rparr>
      OpBeginFix sample_begun = None"
    by (simp add: repository_refusal_def validate_repository_evidence_def)
  from superseded_commit_breaks_graph [OF wider_graph_facts(1,2,4,3) v p r g] show ?thesis by simp
qed

text \<open>A recovered authority whose results were reopened: it has a recovery and an audit record to lose.\<close>

theorem completion_may_drop_history_witness:
  "\<exists>s t. review_step\<^sup>*\<^sup>* recovered_state s \<and> complete_review (clean_input (elems (cs_lenses s))) s = (t, None) \<and>
    cs_recovery t = cs_recovery recovered_state \<and> length (elems (cs_reopens t)) = 1 \<and>
    without_history t \<noteq> t \<and> compact_validate (without_history t) = None \<and>
    validate_compact_successor (compact_revision s) s (without_history t) OpCompleteReview = None \<and>
    cs_recovery (without_history t) = None \<and> cs_reopens (without_history t) = None"
proof -
  have p: "compact_pristine_reviewing recovered_state"
    using sample_pristine by (simp add: compact_pristine_reviewing_def recovered_state_def fresh_state_def)
  have "elems (cs_lenses recovered_state) \<noteq> []" "valid_sha256 (sn_identity (cs_initial recovered_state))"
    by (simp_all add: recovered_state_def fresh_state_def sample_defs sample_snapshot_def sealed_identity)
  from clean_cycle [OF recovered_state_valid p this] obtain r s where
    rs: "review_step recovered_state r" "review_step r s" and
    s: "compact_validate s = None" "compact_pristine_reviewing s" "frozen_scope s = frozen_scope recovered_state"
      "reopen_count s = Suc (reopen_count recovered_state)" by blast
  from clean_review [OF s(1,2)] obtain t where
    t: "complete_review (clean_input (elems (cs_lenses s))) s = (t, None)" by blast
  note d = completion_may_drop_history [OF t s(1), of "compact_revision s"]
  have "cs_recovery t = cs_recovery recovered_state" using d s(3) by (simp add: frozen_scope_def)
  moreover have "length (elems (cs_reopens t)) = 1"
    using d s(4) by (simp add: reopen_count_def) (simp add: recovered_state_def fresh_state_def sample_defs)
  moreover have "cs_recovery recovered_state \<noteq> None" by (simp add: recovered_state_def)
  ultimately have "without_history t \<noteq> t" using d by metis
  moreover have "review_step\<^sup>*\<^sup>* recovered_state s" using rs by (meson converse_rtranclp_into_rtranclp rtranclp.rtrancl_refl)
  ultimately show ?thesis
    using t d \<open>cs_recovery t = _\<close> \<open>length _ = 1\<close> by (intro exI conjI) (assumption | simp only:)+
qed

text \<open>A retried authority that was approved.\<close>

definition retried_graph :: authorities where
  "retried_graph =
     [(''review-1'', \<lparr>cp_revision = ''first'', cp_state = sample_approved
        \<lparr>cs_recovery := Some (wider_provenance\<lparr>rc_predecessor := ''review-0'', rc_disposition := RecoveryFinalRetry\<rparr>)\<rparr>,
        cp_historical = False\<rparr>)]"

theorem finished_retry_breaks_graph_witness: "\<exists>err. authority_leaves retried_graph = Inl err"
proof (rule finished_retry_breaks_graph)
  have "frozen_scope sample_approved = frozen_scope sample_reviewed"
    using move_scope [OF compact_move.verification [OF sample_verify_ok] sample_corrected_facts(1)]
      move_scope [OF compact_move.complete_fix [OF sample_correct_ok] sample_begun_facts(1)]
      move_scope [OF compact_move.begin_fix [OF sample_begin_ok] sample_reviewed_facts(1)] by simp
  then have "cs_lineage sample_approved = ''review-1''" by (simp add: frozen_scope_def sample_reviewed_lineage)
  then show "named retried_graph" by (simp add: named_def retried_graph_def)
  show "authority_of retried_graph ''review-1'' = Some (snd (hd retried_graph))"
    by (simp add: authority_of_def retried_graph_def)
qed (simp add: retried_graph_def sample_approved_facts wider_provenance_def)+

lemma second_retry_refused_witness:
  "\<exists>err. retry_final_verification
     \<lparr>tv_receipt_bound = True, tv_journal = Some [], tv_evidence = Some ''failed'',
      tv_live = True, tv_live_again = True, tv_now = ''2026-01-02T00:00:00Z''\<rparr>
     \<lparr>ry_request = \<lparr>rq_predecessor = ''review-1'', rq_revision = ''first'', rq_successor = ''review-2'',
        rq_incident = \<lparr>in_schema = [], in_class = [], in_lineage = [], in_terminal = [], in_validating = [],
          in_target = [], in_failed_evidence = [], in_request_digest = []\<rparr>,
        rq_actor = ''ana'', rq_reason = ''again''\<rparr>,
      ry_at = ''2026-01-01T00:00:00Z'', ry_authorization = []\<rparr> retried_graph = (retried_graph, Inl err)"
  by (rule second_retry_refused [of "''review-1''" _ _ "snd (hd retried_graph)"])
    (simp add: retried_graph_def authority_of_def wider_provenance_def)+

end
