(* ===== verification/SddBoundProps.thy ===== *)
theory SddBoundProps
  imports SddProps LedgerLive AuthorityProps
begin

text \<open>
  A change bound to an approved compact review, in both stores: where a stale report sends it back to
  verification, the memory store keeps the reason of the remediation it has just withdrawn.
\<close>

section \<open>A bound change\<close>

definition bound_record_sample :: compact_record where
  "bound_record_sample = \<lparr>cp_revision = compact_revision sample_approved, cp_state = sample_approved, cp_historical = False\<rparr>"

definition bound_receipt_sample :: compact_receipt where
  "bound_receipt_sample = projr (compact_receipt_of sample_approved)"

definition bound_context_sample :: gate_context where
  "bound_context_sample = blank_context\<lparr>gc_lineage := ''review-1'', gc_store_revision := compact_revision sample_approved\<rparr>"

definition unsealed_binding :: review_binding where
  "unsealed_binding =
     \<lparr>sb_schema = ''gentle-ai.sdd-review-binding/v1'', sb_revision = [], sb_change = ''demo'',
      sb_lineage = ''review-1'', sb_authority = compact_revision sample_approved,
      sb_receipt = identity_of ''receipt'', sb_context = bound_context_sample\<rparr>"

definition binding_sample :: review_binding where
  "binding_sample = unsealed_binding\<lparr>sb_revision := binding_digest unsealed_binding\<rparr>"

definition bound_disk :: ledger_disk where
  "bound_disk = empty_files\<lparr>dk_legacy := LegacyFile binding_sample\<rparr>"

definition bound_codec :: receipt_codec where
  "bound_codec = sample_codec\<lparr>rc_compact := (\<lambda>_. Some bound_receipt_sample)\<rparr>"

definition bound_authorities :: authority_view where
  "bound_authorities = sample_authorities
     \<lparr>av_load := (\<lambda>_. Some bound_record_sample), av_receipt := (\<lambda>_. Some ''receipt''),
      av_gate := (\<lambda>_ _. (GateAllow, bound_context_sample))\<rparr>"

definition bound_env :: sdd_env where
  "bound_env = sample_env
     \<lparr>se_codec := bound_codec, se_git := Repository, se_disk := bound_disk, se_now := bound_authorities,
      se_disk_later := bound_disk, se_later := bound_authorities\<rparr>"

lemma bound_env_fields [simp]:
  "se_codec bound_env = bound_codec" "se_git bound_env = Repository" "se_disk bound_env = bound_disk"
  "se_now bound_env = bound_authorities" "se_disk_later bound_env = bound_disk"
  "se_later bound_env = bound_authorities" "se_opens bound_env" "se_legacy_stat bound_env"
  "se_root bound_env = Some ''root''" "se_root_later bound_env = Some ''root''" "se_ledger bound_env = NoDoc"
  "se_evidence bound_env = (\<lambda>_. None)"
  by (simp_all add: bound_env_def sample_env_def)

lemma sample_receipt: "compact_receipt_of sample_approved = Inr bound_receipt_sample"
proof -
  have "terminal_of (cs_state sample_approved) = Some TerminalApproved"
    by (simp add: terminal_of_def sample_approved_facts)
  from receipt_exists [OF sample_approved_facts(1) this] escalated_evidence [OF sample_approved_facts(1,2)]
  show ?thesis by (auto simp: bound_receipt_sample_def)
qed

lemma compact_revision_runtime: "runtime_revision (compact_revision s)"
  by (simp add: compact_revision_def domain_identity_def runtime_identity)

lemma names_ok: "valid_binding_change ''demo''" "valid_binding_lineage ''review-1''"
    "valid_utf8 ''gentle-ai.sdd-review-binding/v1''" "valid_utf8 ''demo''" "valid_utf8 ''review-1''"
    "valid_utf8 ''post-apply''" "valid_utf8 []"
  by code_simp+

lemma binding_parses_sample: "binding_parses binding_sample" "sb_change binding_sample = ''demo''"
proof -
  have digest: "binding_digest binding_sample = binding_digest unsealed_binding"
    by (simp add: binding_digest_def binding_sample_def unsealed_binding_def)
  have rev: "runtime_revision (binding_digest b)" for b by (simp add: binding_digest_def runtime_identity)
  have utf: "valid_utf8 (binding_digest b)" "valid_utf8 (compact_revision s)" "valid_utf8 (identity_of p)" for b s p
    using rev compact_revision_runtime runtime_identity by (blast intro: revision_text)+
  have "json_utf8 (json_binding binding_sample)"
    using utf names_ok
    by (simp add: json_binding_def field_def json_gate_context_def binding_sample_def unsealed_binding_def
        bound_context_sample_def blank_context_def omit_empty_def omit_nil_def)
  then show "binding_parses binding_sample"
    using digest rev names_ok compact_revision_runtime runtime_identity
    by (simp add: binding_parses_def) (simp add: binding_sample_def unsealed_binding_def
        bound_context_sample_def blank_context_def)
  show "sb_change binding_sample = ''demo''" by (simp add: binding_sample_def unsealed_binding_def)
qed

lemma bound_loads: "load_ledger ''demo'' bound_disk = Inr (empty_replay ''demo'')"
  by (simp add: load_ledger_def bound_disk_def empty_files_def)

lemma bound_reads:
  "native_status bound_env ''demo'' = Some (Some (empty_status ''demo''))"
  "binding_exists bound_env ''demo'' = Some True"
  "effective_binding True ''demo'' bound_disk = Some binding_sample" "runtime_opens bound_env ''demo''"
  using names_ok(1) bound_loads binding_parses_sample
  by (simp_all add: native_status_def binding_exists_def effective_binding_def runtime_opens_def
      empty_replay_def empty_status_def read_legacy_def)
    (simp_all add: bound_disk_def)

lemma binding_fields [simp]:
  "sb_lineage binding_sample = ''review-1''" "sb_authority binding_sample = compact_revision sample_approved"
  "sb_receipt binding_sample = identity_of ''receipt''" "sb_context binding_sample = bound_context_sample"
  by (simp_all add: binding_sample_def unsealed_binding_def)

lemma bound_review_holds: "validate_bound_review bound_env ''demo'' = Inr binding_sample"
proof -
  have "bound_receipt bound_codec bound_authorities binding_sample =
      Inr (bound_record_sample, ''receipt'', bound_receipt_sample)"
    using sample_approved_facts(2) sample_receipt
    by (simp add: bound_receipt_def bound_authorities_def bound_codec_def bound_record_sample_def)
  moreover have "bound_gate_ok bound_authorities r binding_sample" for r
    by (simp add: bound_gate_ok_def bound_authorities_def bound_context_matches_def)
  moreover have "av_load bound_authorities l = Some bound_record_sample"
    "av_receipt bound_authorities l = Some ''receipt''" for l by (simp_all add: bound_authorities_def)
  ultimately show ?thesis
    using names_ok(1) bound_reads(3) binding_parses_sample(2)
    by (simp add: validate_bound_review_def binding_ledger_ok_def)
qed

lemma bound_candidate_holds: "runtime_bound_ok bound_codec bound_authorities binding_sample"
  using sample_receipt sample_approved_facts(2)
  by (simp add: runtime_bound_ok_def bound_candidate_def bound_record_def bound_view_def bound_authorities_def
      bound_codec_def bound_record_sample_def bound_context_matches_def)

section \<open>The two stores\<close>

lemma engram_facts_sound:
  assumes "engram_facts e change c = Inr f"
  shows "sound_facts f"
proof -
  from assms obtain g counts where g: "gather_facts e change c = Inr g" and
    f: "cf_verify f = parse_verify_result counts (cf_report f)" "cf_progress f = cf_progress g"
      "cf_runtime f = cf_runtime g" "cf_bound f = cf_bound g" "cf_runtime_failed f = cf_runtime_failed g"
    by (auto simp: engram_facts_def split: sum.splits)
  have "ve_stale (cf_verify f) \<longrightarrow> \<not> ve_passing (cf_verify f) \<and> \<not> recoverable f"
    using stale_not_passing stale_not_recoverable by (simp add: f(1) recoverable_def)
  then show ?thesis using gather_facts_sound [OF g] unfolding sound_facts_def f(2-5) by blast
qed

text \<open>On the same facts about a change whose bound review holds and whose report is stale, both
  stores send it back to verification; but only the planning-file store clears the reason of the
  remediation it withdraws. In the memory store the status recommends verify and still carries a
  blocking reason.\<close>

theorem engram_keeps_withdrawn_reason:
  assumes "engram_facts e change c = Inr f" and "cf_bound f" and "runtime_idle f"
    and "cf_apply f = ApplyAllDone" and "stale_evidence f" and "\<not> cf_runtime_remediated f"
    and "\<not> rs_complete (remediation_of e f)"
    and "engram_binding_failure e f = None" and "openspec_binding_failure e f = None"
  shows "su_next (engram_status e f) = Phase PhaseVerify \<and> su_blocked (engram_status e f) \<noteq> [] \<and>
    su_next (openspec_status e f) = Phase PhaseVerify \<and> su_blocked (openspec_status e f) = []"
proof -
  have f: "sound_facts f" by (rule engram_facts_sound [OF assms(1)])
  have plain: "openspec_status e f = status_of f (openspec_routing e f)"
    "engram_status e f = status_of f (engram_routing e f)"
    using assms(2,3) by (simp_all add: openspec_status_def engram_status_def idle_routing bound_no_gate)
  have again: "rg_next (openspec_routing e f) = Phase PhaseVerify"
    "rg_next (engram_routing e f) = Phase PhaseVerify" "rg_reasons (engram_routing e f) \<noteq> []"
    using openspec_again_verify [OF assms(2,9,4,5)] engram_again_verify [OF assms(2,8,4,5)]
      stale_remediation_pending [OF f assms(4,5,2,6,7)] by simp_all
  have "\<not> cf_runtime_failed f" using assms(3) by (simp add: runtime_idle_def)
  then have "su_blocked (openspec_status e f) = []"
    using reasoned_blocked [OF openspec_reasoned [OF f], of e] again(1) plain(1)
    by (simp add: planning_def executable_def)
  moreover have "su_blocked (engram_status e f) \<noteq> []"
    using again(2,3) plain(2) by (simp add: status_of_def finalize_reasons_def)
  ultimately show ?thesis using again plain by simp
qed

definition stale_facts :: change_facts where
  "stale_facts = sample_facts ''2/2'' None TxMissing (Some (empty_status ''demo'')) True"

lemma stale_facts_gathered: "engram_facts bound_env ''demo'' (sample_docs ''2/2'') = Inr stale_facts"
  using sample_gathered [of "''2/2''", OF _ bound_reads(1,2)]
  by (simp add: engram_facts_def stale_facts_def) (simp add: sample_facts_def sample_docs_def read_text_def)

theorem engram_keeps_withdrawn_reason_witness:
  "su_next (engram_status bound_env stale_facts) = Phase PhaseVerify \<and>
   su_blocked (engram_status bound_env stale_facts) \<noteq> []"
proof -
  have verify: "cf_verify stale_facts = \<lparr>ve_passing = False, ve_stale = True,
      ve_reason = total_mismatch 2 ''scenario'' 1, ve_evidence = sample_hash\<rparr>"
    by (simp add: stale_facts_def sample_facts_def sample_stale)
  have stale: "stale_evidence stale_facts"
    by (simp add: stale_evidence_def verify) (simp add: stale_facts_def)
  have fresh: "\<not> cf_runtime_remediated stale_facts"
    by (simp add: cf_runtime_remediated_def runtime_remediated_def stale_facts_def empty_status_def)
  have "\<not> remediation_complete decode [] r b" for decode r b
    by (simp add: remediation_complete_def leading_envelope_def Let_def fence_def)
  then have open_: "\<not> rs_complete (remediation_of bound_env stale_facts)"
    by (auto simp: remediation_of_def bounded_remediation_def compact_remediation_def refuse_remediation_def
        no_remediation_def Let_def stale_facts_def sample_facts_def split: option.split)
  have failures: "engram_binding_failure bound_env stale_facts = None"
    "openspec_binding_failure bound_env stale_facts = None"
    using bound_reads(3,4) bound_candidate_holds bound_review_holds
    by (simp_all add: engram_binding_failure_def openspec_binding_failure_def stale_facts_def)
  have "runtime_idle stale_facts" "cf_bound stale_facts" "cf_apply stale_facts = ApplyAllDone"
    by (simp_all add: runtime_idle_def stale_facts_def empty_status_def)
  then show ?thesis
    using engram_keeps_withdrawn_reason [OF stale_facts_gathered _ _ _ stale fresh open_ failures] by blast
qed

end
