(* ===== verification/Toml.thy ===== *)
theory Toml
  imports GoStrings Json
begin

text \<open>
  The TOML merging of filemerge (toml.go): upserting a managed table, a key of a table or a top-level
  string, and removing tables, trees of tables and keys, all by lines. A line scanner keeps what the
  code keeps between lines: the multi-line string it is in and the open brackets of a removed array.
\<close>

section \<open>Lines and headers\<close>

definition text_lines :: "string \<Rightarrow> string list" where
  \<comment> \<open>the lines of a text whose CRLF are read as LF\<close>
  "text_lines content = split_on newline (replace_all [carriage, newline] [newline] content)"

definition join_lines :: "string list \<Rightarrow> string" where
  "join_lines ls = join_with [newline] ls"

definition header_like :: "string \<Rightarrow> bool" where
  "header_like t \<longleftrightarrow> has_prefix t ''['' \<and> has_suffix t '']''"

definition bracketed :: "string \<Rightarrow> string" where
  "bracketed name = ''['' @ name @ '']''"

function drop_table :: "string \<Rightarrow> string list \<Rightarrow> string list" where
  \<comment> \<open>every table with this header, up to the next line that looks like a header\<close>
  "drop_table header [] = []"
| "drop_table header (l # ls) =
     (if trim_space l = header
      then drop_table header (dropWhile (\<lambda>x. \<not> header_like (trim_space x)) ls)
      else l # drop_table header ls)"
  by pat_completeness auto
termination
  by (relation "measure (\<lambda>(h, ls). length ls)") (auto simp: le_imp_less_Suc length_dropWhile_le)

definition append_table :: "string \<Rightarrow> string list \<Rightarrow> string" where
  "append_table block kept =
     (let base = trim_space (join_lines kept) in
      if base = [] then block @ [newline] else base @ [newline, newline] @ block @ [newline])"

definition escape_backslashes :: "string \<Rightarrow> string" where
  "escape_backslashes s = replace_all [CHR 0x5C] [CHR 0x5C, CHR 0x5C] s"

definition quoted :: "string \<Rightarrow> string" where
  "quoted s = [CHR 0x22] @ escape_backslashes s @ [CHR 0x22]"

section \<open>Managed tables\<close>

definition codex_engram_block :: "string \<Rightarrow> string" where
  "codex_engram_block cmd =
     ''[mcp_servers.engram]'' @ [newline] @ ''command = '' @ quoted cmd @ [newline] @
     ''args = ['' @ [CHR 0x22] @ ''mcp'' @ [CHR 0x22] @ '', '' @ [CHR 0x22] @ ''--tools=agent'' @ [CHR 0x22] @ '']''"

definition upsert_codex_engram :: "string \<Rightarrow> string \<Rightarrow> string" where
  "upsert_codex_engram content cmd =
     (let cmd = (if cmd = [] then ''engram'' else cmd)
      in append_table (codex_engram_block cmd) (drop_table ''[mcp_servers.engram]'' (text_lines content)))"

definition server_header :: "string \<Rightarrow> string" where
  "server_header server = ''[mcp_servers.'' @ server @ '']''"

definition codex_server_block :: "string \<Rightarrow> string \<Rightarrow> string list \<Rightarrow> string" where
  "codex_server_block server cmd args =
     server_header server @ [newline] @ ''command = '' @ quoted cmd @ [newline] @
     ''args = ['' @ join_with '', '' (map quoted args) @ '']''"

definition upsert_codex_server :: "string \<Rightarrow> string \<Rightarrow> string \<Rightarrow> string list \<Rightarrow> string" where
  "upsert_codex_server content server cmd args =
     append_table (codex_server_block server cmd args) (drop_table (server_header server) (text_lines content))"

definition codex_remote_block :: "string \<Rightarrow> string \<Rightarrow> string" where
  "codex_remote_block server url = server_header server @ [newline] @ ''url = '' @ quoted url"

definition upsert_codex_remote :: "string \<Rightarrow> string \<Rightarrow> string \<Rightarrow> string" where
  "upsert_codex_remote content server url =
     append_table (codex_remote_block server url) (drop_table (server_header server) (text_lines content))"

definition remove_table :: "string \<Rightarrow> string \<Rightarrow> string" where
  "remove_table content name = join_lines (drop_table (bracketed name) (text_lines content))"

section \<open>Keys of a table\<close>

definition assigns :: "string \<Rightarrow> string \<Rightarrow> bool" where
  \<comment> \<open>a trimmed line that starts with the key and a space or an equals sign\<close>
  "assigns t key \<longleftrightarrow> has_prefix t (key @ '' '') \<or> has_prefix t (key @ ''='')"

fun scan_section ::
  "string \<Rightarrow> string \<Rightarrow> nat \<Rightarrow> bool \<Rightarrow> nat option \<Rightarrow> nat list \<Rightarrow> string list \<Rightarrow> nat option \<times> nat list" where
  \<comment> \<open>index of the last header of the section, indices of the lines that assign the key in it\<close>
  "scan_section header key i inside sec keys [] = (sec, keys)"
| "scan_section header key i inside sec keys (l # ls) =
     (let t = trim_space l in
      if t = header then scan_section header key (Suc i) True (Some i) keys ls
      else if inside \<and> header_like t then scan_section header key (Suc i) False sec keys ls
      else scan_section header key (Suc i) inside sec
             (if inside \<and> assigns t key then keys @ [i] else keys) ls)"

definition trimmed_text :: "string list \<Rightarrow> string" where
  "trimmed_text ls = trim_space (join_lines ls) @ [newline]"

definition replace_lines :: "nat \<Rightarrow> nat list \<Rightarrow> string \<Rightarrow> string list \<Rightarrow> string list" where
  \<comment> \<open>the first line replaced in place, the duplicates dropped\<close>
  "replace_lines first dups line ls =
     concat (map (\<lambda>(i, l). if i \<in> set dups then [] else if i = first then [line] else [l]) (enumerate 0 ls))"

definition insert_after :: "nat \<Rightarrow> string \<Rightarrow> string list \<Rightarrow> string list" where
  "insert_after i line ls = take (Suc i) ls @ [line] @ drop (Suc i) ls"

definition upsert_table_key :: "string \<Rightarrow> string \<Rightarrow> string \<Rightarrow> string \<Rightarrow> string" where
  "upsert_table_key content section_name key raw =
     (let ls = text_lines content; header = bracketed section_name; line = key @ '' = '' @ raw in
      case scan_section header key 0 False None [] ls of
        (None, _) \<Rightarrow>
          (let base = trim_space (join_lines ls) in
           if base = [] then header @ [newline] @ line @ [newline]
           else base @ [newline, newline] @ header @ [newline] @ line @ [newline])
      | (Some i, k # dups) \<Rightarrow> trimmed_text (replace_lines k dups line ls)
      | (Some i, []) \<Rightarrow> trimmed_text (insert_after i line ls))"

fun keep_without :: "string \<Rightarrow> string list \<Rightarrow> bool \<Rightarrow> string list \<Rightarrow> string list" where
  "keep_without header keys inside [] = []"
| "keep_without header keys inside (l # ls) =
     (let t = trim_space l in
      if t = header then l # keep_without header keys True ls
      else let inside = (inside \<and> \<not> header_like t) in
        if inside \<and> list_ex (assigns t) keys then keep_without header keys inside ls
        else l # keep_without header keys inside ls)"

definition remove_table_keys :: "string \<Rightarrow> string \<Rightarrow> string list \<Rightarrow> string" where
  "remove_table_keys content section_name keys =
     (if keys = [] then trim_space (replace_all [carriage, newline] [newline] content) @ [newline]
      else trimmed_text (keep_without (bracketed section_name) keys False (text_lines content)))"

definition upsert_top_level :: "string \<Rightarrow> string \<Rightarrow> string \<Rightarrow> string" where
  \<comment> \<open>the value is handed in as \<^verbatim>\<open>fmt\<close>'s \<^verbatim>\<open>%q\<close> prints it\<close>
  "upsert_top_level content key quoted_value =
     (let cleaned = filter (\<lambda>l. \<not> assigns (trim_space l) key) (text_lines content);
          outside = (\<lambda>l. \<not> header_like (trim_space l))
      in trimmed_text (takeWhile outside cleaned @ [key @ '' = '' @ quoted_value] @ dropWhile outside cleaned))"

section \<open>Quotes, comments and key paths\<close>

abbreviation dquote :: char where "dquote \<equiv> CHR 0x22"
abbreviation squote :: char where "squote \<equiv> CHR 0x27"
abbreviation backslash :: char where "backslash \<equiv> CHR 0x5C"

fun outside_quotes :: "char \<Rightarrow> char option \<Rightarrow> bool \<Rightarrow> string \<Rightarrow> nat option" where
  \<comment> \<open>first index of a byte outside quotes; the open quote and a pending escape are the state\<close>
  "outside_quotes target q escaped [] = None"
| "outside_quotes target q escaped (c # s) =
     (if q = Some dquote \<and> escaped then map_option Suc (outside_quotes target q False s)
      else if q = Some dquote \<and> c = backslash then map_option Suc (outside_quotes target q True s)
      else if c = dquote \<or> c = squote then
        map_option Suc (outside_quotes target
          (if q = None then Some c else if q = Some c then None else q) escaped s)
      else if q = None \<and> c = target then Some 0
      else map_option Suc (outside_quotes target q escaped s))"

definition index_outside :: "string \<Rightarrow> char \<Rightarrow> nat option" where
  "index_outside s target = outside_quotes target None False s"

definition code_before_comment :: "string \<Rightarrow> string" where
  "code_before_comment line = (case index_outside line (CHR ''#'') of Some i \<Rightarrow> take i line | None \<Rightarrow> line)"

function lex_line :: "char option \<Rightarrow> char option \<Rightarrow> nat \<Rightarrow> string \<Rightarrow> char option \<times> nat" where
  \<comment> \<open>the multi-line quote and the open brackets after a line; the second argument is the line's own quote\<close>
  "lex_line multi q depth [] = (multi, depth)"
| "lex_line multi q depth (c # s) =
     (case multi of
        Some m \<Rightarrow>
          if c = m \<and> prefix [c, c] s then lex_line None q depth (dropWhile (\<lambda>x. x = c) s)
          else if m = dquote \<and> c = backslash \<and> s \<noteq> [] then lex_line multi q depth (tl s)
          else lex_line multi q depth s
      | None \<Rightarrow>
          (case q of
             Some t \<Rightarrow>
               if t = dquote \<and> c = backslash \<and> s \<noteq> [] then lex_line None q depth (tl s)
               else lex_line None (if c = t then None else q) depth s
           | None \<Rightarrow>
               if c = CHR ''#'' then (None, depth)
               else if (c = dquote \<or> c = squote) \<and> prefix [c, c] s then lex_line (Some c) None depth (drop 2 s)
               else lex_line None (if c = dquote \<or> c = squote then Some c else None)
                      (if c = CHR ''['' then Suc depth else if c = CHR '']'' then depth - 1 else depth) s))"
  by pat_completeness auto
termination
  by (relation "measure (\<lambda>(m, q, d, s). length s)") (auto simp: le_imp_less_Suc length_dropWhile_le)

definition multi_after :: "string \<Rightarrow> char option \<Rightarrow> char option" where
  "multi_after line multi = fst (lex_line multi None 0 line)"

definition bare_key_byte :: "char \<Rightarrow> bool" where
  "bare_key_byte c \<longleftrightarrow> is_upper_alpha c \<or> is_lower_alpha c \<or> is_digit c \<or> c = CHR ''_'' \<or> c = CHR ''-''"

fun closing_quote :: "string \<Rightarrow> nat option" where
  \<comment> \<open>index of the closing quote of a basic string, past escaped bytes\<close>
  "closing_quote [] = None"
| "closing_quote [c] = (if c = dquote then Some 0 else None)"
| "closing_quote (c # d # s) =
     (if c = backslash then map_option (\<lambda>i. i + 2) (closing_quote s)
      else if c = dquote then Some 0 else map_option Suc (closing_quote (d # s)))"

function escapes_valid :: "string \<Rightarrow> bool" where
  "escapes_valid [] = True"
| "escapes_valid (c # s) =
     (if c \<noteq> backslash then escapes_valid s
      else case s of [] \<Rightarrow> False
      | e # r \<Rightarrow>
          if e \<in> set (''btnfr'' @ [dquote, backslash]) then escapes_valid r
          else let n = (if e = CHR ''u'' then 4 else if e = CHR ''U'' then 8 else 0) in
            n \<noteq> 0 \<and> n \<le> length r \<and> list_all is_hex_digit (take n r) \<and> escapes_valid (drop n r))"
  by pat_completeness auto
termination
  by (relation "measure length") auto

definition hex_digit_value :: "char \<Rightarrow> nat" where
  "hex_digit_value c = (if is_digit c then byte c - 48 else if byte c < 97 then byte c - 55 else byte c - 87)"

definition hex_number :: "string \<Rightarrow> nat" where
  "hex_number s = foldl (\<lambda>n c. 16 * n + hex_digit_value c) 0 s"

definition valid_rune :: "nat \<Rightarrow> bool" where
  "valid_rune n \<longleftrightarrow> n < 0xD800 \<or> 0xE000 \<le> n \<and> n \<le> 0x10FFFF"

definition encode_rune :: "nat \<Rightarrow> string" where
  "encode_rune n =
     (if n < 0x80 then [char_of n]
      else if n < 0x800 then [char_of (0xC0 + n div 64), char_of (0x80 + n mod 64)]
      else if n < 0x10000 then
        [char_of (0xE0 + n div 4096), char_of (0x80 + n div 64 mod 64), char_of (0x80 + n mod 64)]
      else [char_of (0xF0 + n div 262144), char_of (0x80 + n div 4096 mod 64),
            char_of (0x80 + n div 64 mod 64), char_of (0x80 + n mod 64)])"

definition simple_escape :: "char \<Rightarrow> char option" where
  "simple_escape e = map_of
     [(CHR ''b'', CHR 0x08), (CHR ''t'', CHR 0x09), (CHR ''n'', CHR 0x0A), (CHR ''f'', CHR 0x0C),
      (CHR ''r'', CHR 0x0D), (dquote, dquote), (backslash, backslash)] e"

fun unquote_runes :: "nat \<Rightarrow> string \<Rightarrow> string option" where
  \<comment> \<open>\<^verbatim>\<open>strconv.Unquote\<close> of a body whose escapes are valid: no newline, runes that exist\<close>
  "unquote_runes 0 s = (if s = [] then Some [] else None)"
| "unquote_runes (Suc n) s =
     (case s of [] \<Rightarrow> Some []
      | c # r \<Rightarrow>
          if c = newline then None
          else if c = backslash then
            (case r of [] \<Rightarrow> None
             | e # r' \<Rightarrow>
                 (case simple_escape e of
                    Some b \<Rightarrow> map_option ((#) b) (unquote_runes n r')
                  | None \<Rightarrow>
                      let k = (if e = CHR ''u'' then 4 else 8); v = hex_number (take k r') in
                      if valid_rune v then map_option ((@) (encode_rune v)) (unquote_runes n (drop k r')) else None))
          else if rune_len s = 0 then map_option ((@) (encode_rune 0xFFFD)) (unquote_runes n r)
          else map_option ((@) (take (rune_len s) s)) (unquote_runes n (drop (rune_len s) s)))"

definition unquote_basic_key :: "string \<Rightarrow> string option" where
  \<comment> \<open>a step consumes a byte or more, so the length is fuel enough\<close>
  "unquote_basic_key body = (if escapes_valid body then unquote_runes (length body) body else None)"

fun parse_key_part :: "string \<Rightarrow> (string \<times> string) option" where
  \<comment> \<open>a key segment at the front and what follows it\<close>
  "parse_key_part [] = None"
| "parse_key_part (c # s) =
     (if c = squote then map_option (\<lambda>i. (take i s, drop (Suc i) s)) (index_of s squote)
      else if c = dquote then
        (case closing_quote s of None \<Rightarrow> None
         | Some i \<Rightarrow> map_option (\<lambda>v. (v, drop (Suc i) s)) (unquote_basic_key (take i s)))
      else if bare_key_byte c
        then Some (takeWhile bare_key_byte (c # s), dropWhile bare_key_byte (c # s))
      else None)"

definition skip_key_space :: "string \<Rightarrow> string" where
  "skip_key_space s = dropWhile (\<lambda>c. c = CHR '' '' \<or> c = CHR 0x09) s"

lemma parse_key_part_shorter: "parse_key_part s = Some (v, r) \<Longrightarrow> length r < length s"
  by (induction s rule: parse_key_part.induct)
    (auto simp: le_imp_less_Suc length_dropWhile_le split: if_splits option.splits)

function parse_key_path :: "string \<Rightarrow> string list option" where
  "parse_key_path s =
     (case parse_key_part (skip_key_space s) of None \<Rightarrow> None
      | Some (part, r) \<Rightarrow>
          (case skip_key_space r of [] \<Rightarrow> Some [part]
           | c # r' \<Rightarrow> if c = CHR ''.'' then map_option ((#) part) (parse_key_path r') else None))"
  by pat_completeness auto
termination
proof (relation "measure length")
  fix s :: string and p part r c r'
  assume "parse_key_part (skip_key_space s) = Some p" "(part, r) = p" and r: "skip_key_space r = c # r'"
  then have "length r < length (skip_key_space s)" using parse_key_part_shorter by auto
  moreover have "length (skip_key_space s) \<le> length s" by (simp add: skip_key_space_def length_dropWhile_le)
  moreover have "length (c # r') \<le> length r" by (metis r length_dropWhile_le skip_key_space_def)
  ultimately show "(r', s) \<in> measure length" by simp
qed simp

declare parse_key_path.simps [simp del]

definition starts_bracket :: "string \<Rightarrow> bool" where
  "starts_bracket s \<longleftrightarrow> has_prefix (trim_space s) ''[''"

definition table_header :: "string \<Rightarrow> string list option" where
  "table_header line =
     (let code = trim_space (code_before_comment line) in
      if length code < 3 \<or> \<not> has_prefix code ''['' then None
      else if has_prefix code ''[['' then
        (if length code < 5 \<or> \<not> has_suffix code '']]'' then None
         else parse_key_path (take (length code - 4) (drop 2 code)))
      else if \<not> has_suffix code '']'' then None
      else parse_key_path (take (length code - 2) (drop 1 code)))"

definition assignment_key :: "string \<Rightarrow> string list option" where
  "assignment_key line =
     (let code = code_before_comment line in
      case index_outside code (CHR ''='') of None \<Rightarrow> None | Some i \<Rightarrow> parse_key_path (take i code))"

section \<open>Removing trees and keys\<close>

fun split_after :: "string \<Rightarrow> string list" where
  \<comment> \<open>\<^verbatim>\<open>strings.SplitAfter\<close> on a newline: each line with its own\<close>
  "split_after [] = [[]]"
| "split_after (c # s) =
     (if c = newline then [c] # split_after s
      else (case split_after s of [] \<Rightarrow> [[c]] | w # ws \<Rightarrow> (c # w) # ws))"

definition array_value :: "string \<Rightarrow> string option" where
  \<comment> \<open>what follows the equals sign, when it opens an array\<close>
  "array_value line =
     (case index_outside line (CHR ''='') of None \<Rightarrow> None
      | Some i \<Rightarrow> if starts_bracket (drop (Suc i) line) then Some (drop (Suc i) line) else None)"

record tree_scan =
  ts_path :: "string list"
  ts_known :: bool
  ts_removing :: bool
  ts_multi :: "char option"
  ts_value :: bool \<comment> \<open>inside the multi-line string of a removed assignment\<close>
  ts_depth :: nat \<comment> \<open>open brackets of a removed array\<close>

definition start_scan :: tree_scan where
  "start_scan = \<lparr>ts_path = [], ts_known = True, ts_removing = False, ts_multi = None, ts_value = False, ts_depth = 0\<rparr>"

definition open_array :: "string \<Rightarrow> tree_scan \<Rightarrow> tree_scan" where
  "open_array text st =
     (let (multi, depth) = lex_line None None (ts_depth st) text in st\<lparr>ts_multi := multi, ts_depth := depth\<rparr>)"

definition tree_code_line :: "string list \<Rightarrow> tree_scan \<Rightarrow> string \<Rightarrow> tree_scan \<times> bool" where
  \<comment> \<open>a line that is not inside a header: an assignment is judged by its effective path\<close>
  "tree_code_line target st line =
     (if ts_removing st then (st, False)
      else if \<not> ts_known st then (st, True)
      else (case assignment_key line of None \<Rightarrow> (st, True)
            | Some key \<Rightarrow>
                if \<not> prefix target (ts_path st @ key) then (st, True)
                else (case array_value line of
                        Some text \<Rightarrow> (open_array text st, False)
                      | None \<Rightarrow> (st\<lparr>ts_value := ts_multi st \<noteq> None\<rparr>, False))))"

definition tree_line :: "string list \<Rightarrow> tree_scan \<Rightarrow> string \<Rightarrow> tree_scan \<times> bool" where
  \<comment> \<open>one line of the loop: the state after it and whether the line is kept\<close>
  "tree_line target st line =
     (if 0 < ts_depth st then
        (let (multi, depth) = lex_line (ts_multi st) None (ts_depth st) line
         in (st\<lparr>ts_multi := multi, ts_depth := depth\<rparr>, False))
      else
        (let inside = ts_multi st \<noteq> None;
             multi = multi_after line (ts_multi st);
             st = st\<lparr>ts_multi := multi\<rparr>
         in if ts_value st then (st\<lparr>ts_value := multi \<noteq> None\<rparr>, False)
            else let st = (if ts_removing st
                           then (case array_value line of Some text \<Rightarrow> open_array text st | None \<Rightarrow> st) else st)
            in if \<not> inside \<and> starts_bracket line then
                 (case table_header line of
                    Some path \<Rightarrow>
                      (st\<lparr>ts_path := path, ts_known := True, ts_removing := prefix target path\<rparr>,
                       \<not> prefix target path)
                  | None \<Rightarrow> (st\<lparr>ts_known := False, ts_removing := False\<rparr>, True))
               else tree_code_line target st line))"

fun tree_lines :: "string list \<Rightarrow> tree_scan \<Rightarrow> string list \<Rightarrow> string list" where
  "tree_lines target st [] = []"
| "tree_lines target st (l # ls) =
     (let (st, keep) = tree_line target st l in (if keep then [l] else []) @ tree_lines target st ls)"

definition remove_table_tree :: "string \<Rightarrow> string \<Rightarrow> string" where
  "remove_table_tree content name =
     (case parse_key_path name of None \<Rightarrow> content
      | Some target \<Rightarrow> concat (tree_lines target start_scan (split_after content)))"

fun tree_is_empty :: "string list \<Rightarrow> string list \<Rightarrow> bool \<Rightarrow> string list \<Rightarrow> bool" where
  \<comment> \<open>no assignment, comment or malformed line belongs to the tree\<close>
  "tree_is_empty target path inside [] = True"
| "tree_is_empty target path inside (l # ls) =
     (case table_header l of
        Some p \<Rightarrow> tree_is_empty target p (prefix target p) ls
      | None \<Rightarrow>
          \<not> (\<exists>key \<in> set_option (assignment_key l). prefix target (path @ key)) \<and>
          \<not> (inside \<and> \<not> blank l) \<and> tree_is_empty target path inside ls)"

definition remove_empty_tree :: "string \<Rightarrow> string \<Rightarrow> string" where
  "remove_empty_tree content name =
     (case parse_key_path name of None \<Rightarrow> content
      | Some target \<Rightarrow>
          if tree_is_empty target [] False (split_after content) then remove_table_tree content name
          else content)"

record value_scan =
  vs_path :: "string list"
  vs_known :: bool
  vs_top :: bool
  vs_multi :: "char option"
  vs_depth :: nat

definition start_values :: value_scan where
  "start_values = \<lparr>vs_path = [], vs_known = True, vs_top = True, vs_multi = None, vs_depth = 0\<rparr>"

definition skip_array :: "value_scan \<Rightarrow> string \<Rightarrow> value_scan" where
  "skip_array st line =
     (let (multi, depth) = lex_line (vs_multi st) None (vs_depth st) line
      in st\<lparr>vs_multi := multi, vs_depth := depth\<rparr>)"

definition top_level_line :: "string \<Rightarrow> string \<Rightarrow> value_scan \<Rightarrow> string \<Rightarrow> value_scan \<times> bool" where
  \<comment> \<open>the loop of \<^verbatim>\<open>RemoveTopLevelTOMLKeyIfValue\<close>, which keeps the quote an array leaves open apart\<close>
  "top_level_line key raw st line =
     (if vs_top st \<and> 0 < vs_depth st then (skip_array st line, True)
      else
        (let inside = vs_multi st \<noteq> None;
             st = st\<lparr>vs_multi := multi_after line (vs_multi st)\<rparr>;
             code = code_before_comment line
         in if \<not> vs_top st \<or> inside then (st, True)
            else (case index_outside code (CHR ''='') of
                    None \<Rightarrow> (st\<lparr>vs_top := \<not> starts_bracket line\<rparr>, True)
                  | Some i \<Rightarrow>
                      let path = parse_key_path (take i line) in
                      if path = Some [key] \<and> trim_space (drop (Suc i) line) = raw then (st, False)
                      else if path \<noteq> None \<and> starts_bracket (drop (Suc i) code)
                        then (st\<lparr>vs_depth := snd (lex_line None None (vs_depth st) (drop (Suc i) line))\<rparr>, True)
                      else (st, True))))"

definition value_line :: "string list \<Rightarrow> string \<Rightarrow> value_scan \<Rightarrow> string \<Rightarrow> value_scan \<times> bool" where
  \<comment> \<open>the loop of \<^verbatim>\<open>RemoveTOMLKeyIfValue\<close>\<close>
  "value_line target raw st line =
     (if 0 < vs_depth st then (skip_array st line, True)
      else
        (let inside = vs_multi st \<noteq> None;
             st = st\<lparr>vs_multi := multi_after line (vs_multi st)\<rparr>;
             code = code_before_comment line
         in if inside then (st, True)
            else (case index_outside code (CHR ''='') of
                    None \<Rightarrow>
                      (if starts_bracket line then
                         (case table_header line of
                            Some p \<Rightarrow> (st\<lparr>vs_path := p, vs_known := True\<rparr>, True)
                          | None \<Rightarrow> (st\<lparr>vs_path := [], vs_known := False\<rparr>, True))
                       else (st, True))
                  | Some i \<Rightarrow>
                      let path = parse_key_path (take i code) in
                      if vs_known st \<and> path \<noteq> None \<and> vs_path st @ the path = target \<and>
                         trim_space (drop (Suc i) line) = raw then (st, False)
                      else if path \<noteq> None \<and> starts_bracket (drop (Suc i) code) then
                        (let (multi, depth) = lex_line None None (vs_depth st) (drop (Suc i) line)
                         in (st\<lparr>vs_multi := multi, vs_depth := depth\<rparr>, True))
                      else (st, True))))"

fun value_lines :: "(value_scan \<Rightarrow> string \<Rightarrow> value_scan \<times> bool) \<Rightarrow> value_scan \<Rightarrow> string list \<Rightarrow> string list" where
  "value_lines step st [] = []"
| "value_lines step st (l # ls) =
     (let (st, keep) = step st l in (if keep then [l] else []) @ value_lines step st ls)"

definition remove_top_level_if_value :: "string \<Rightarrow> string \<Rightarrow> string \<Rightarrow> string" where
  "remove_top_level_if_value content key raw =
     concat (value_lines (top_level_line key raw) start_values (split_after content))"

definition remove_key_if_value :: "string \<Rightarrow> string \<Rightarrow> string \<Rightarrow> string" where
  "remove_key_if_value content key raw =
     (case parse_key_path key of None \<Rightarrow> content
      | Some target \<Rightarrow> concat (value_lines (value_line target raw) start_values (split_after content)))"

end
