(* ===== verification/TomlLaws.thy ===== *)
theory TomlLaws
  imports Toml
begin

text \<open>
  The laws of the TOML merging: a managed table can be written again and taken out again, setting a key
  leaves every other line alone, and the removal of a tree keeps exactly the lines outside it, unless a
  commented bracket misleads it.
\<close>

section \<open>Managed tables\<close>

definition lf_text :: "string \<Rightarrow> bool" where
  \<comment> \<open>every carriage return belongs to a CRLF\<close>
  "lf_text s \<longleftrightarrow> carriage \<notin> set (replace_all [carriage, newline] [newline] s)"

definition one_line :: "string \<Rightarrow> bool" where
  "one_line s \<longleftrightarrow> newline \<notin> set s \<and> carriage \<notin> set s"

definition table_block :: "string \<Rightarrow> string \<Rightarrow> bool" where
  \<comment> \<open>a header line followed by lines that are no headers\<close>
  "table_block header block \<longleftrightarrow>
     carriage \<notin> set block \<and>
     (case split_on newline block of [] \<Rightarrow> False
      | l # ls \<Rightarrow> trim_space l = header \<and> list_all (\<lambda>x. \<not> header_like (trim_space x)) ls)"

lemma text_lines_plain: "carriage \<notin> set s \<Longrightarrow> text_lines s = split_on newline s"
  by (simp add: text_lines_def replace_crlf_absent)

lemma text_lines_clean: "lf_text s \<Longrightarrow> l \<in> set (text_lines s) \<Longrightarrow> carriage \<notin> set l \<and> newline \<notin> set l"
proof -
  assume lf: "lf_text s" and l: "l \<in> set (text_lines s)"
  have "set w \<subseteq> set t" if "w \<in> set (split_on newline t)" for w t
    using that
  proof (induction t arbitrary: w)
    case (Cons c t)
    then show ?case by (cases "split_on newline t") (force split: if_splits)+
  qed simp
  then show ?thesis using lf l split_on_no_sep unfolding lf_text_def text_lines_def by blast
qed

lemma drop_table_kept: "l \<in> set (drop_table h ls) \<Longrightarrow> trim_space l \<noteq> h \<and> l \<in> set ls"
  by (induction h ls rule: drop_table.induct) (auto split: if_splits dest: set_dropWhileD)

lemma drop_table_skip: "\<forall>l \<in> set xs. trim_space l \<noteq> h \<Longrightarrow> drop_table h (xs @ ys) = xs @ drop_table h ys"
  by (induction xs) auto

lemma drop_table_block:
  assumes "table_block h b"
  shows "drop_table h (split_on newline b @ [[]]) = []"
proof -
  obtain l ls where b: "split_on newline b = l # ls" "trim_space l = h"
      "list_all (\<lambda>x. \<not> header_like (trim_space x)) ls"
    using assms by (auto simp: table_block_def split: list.splits)
  have "\<not> header_like []" by (simp add: header_like_def has_prefix_def)
  then have "dropWhile (\<lambda>x. \<not> header_like (trim_space x)) (ls @ [[]]) = []"
    using b(3) by (auto simp: list_all_iff)
  then show ?thesis using b by simp
qed

lemma appended_lines:
  assumes "carriage \<notin> set b" "carriage \<notin> set (join_lines kept)"
  shows "text_lines (append_table b kept) =
     (if trim_space (join_lines kept) = [] then []
      else split_on newline (trim_space (join_lines kept)) @ [[]]) @ split_on newline b @ [[]]"
proof -
  let ?base = "trim_space (join_lines kept)"
  have base: "carriage \<notin> set ?base" using assms(2) set_trim_space [of "join_lines kept"] by auto
  have "split_on newline (b @ [newline]) = split_on newline b @ [[]]" using split_on_sep [of newline b "[]"] by simp
  moreover have "split_on newline (?base @ [newline, newline] @ b @ [newline]) =
     split_on newline ?base @ [[]] @ split_on newline (b @ [newline])"
    using split_on_sep [of newline ?base "newline # b @ [newline]"] by simp
  ultimately show ?thesis using assms(1) base
    by (simp add: append_table_def Let_def text_lines_plain)
qed

lemma join_drop_clean: "lf_text c \<Longrightarrow> carriage \<notin> set (join_lines (drop_table h (text_lines c)))"
  using set_join [of newline "drop_table h (text_lines c)"] drop_table_kept text_lines_clean [of c]
  by (fastforce simp: join_lines_def)

lemma drop_after_append:
  \<comment> \<open>what is left of the text when the table is taken out of the result\<close>
  assumes c: "lf_text c" and b: "table_block h b" and h: "h \<noteq> []"
  defines "base \<equiv> trim_space (join_lines (drop_table h (text_lines c)))"
  shows "drop_table h (text_lines (append_table b (drop_table h (text_lines c)))) =
     (if base = [] then [] else split_on newline base @ [[]])"
proof -
  let ?kept = "drop_table h (text_lines c)"
  have cb: "carriage \<notin> set b" using b by (simp add: table_block_def)
  have "trim_space l \<noteq> h" if l: "l \<in> set (split_on newline base)" for l
  proof (cases "?kept = []")
    case True
    then show ?thesis using l h by (simp add: base_def join_lines_def)
  next
    case False
    have "\<forall>w \<in> set ?kept. newline \<notin> set w" using drop_table_kept text_lines_clean [OF c] by blast
    then have "split_on newline (join_lines ?kept) = ?kept"
      unfolding join_lines_def using False by (intro split_join)
    then show ?thesis using solid_lines_member [OF h _ l [unfolded base_def]] drop_table_kept [of _ h "text_lines c"]
      by force
  qed
  then have "drop_table h (split_on newline base @ [[]] @ split_on newline b @ [[]]) =
     split_on newline base @ [[]] @ drop_table h (split_on newline b @ [[]])"
    using drop_table_skip [of "split_on newline base @ [[]]" h "split_on newline b @ [[]]"] h by auto
  then show ?thesis using appended_lines [OF cb join_drop_clean [OF c]] drop_table_block [OF b]
    by (simp add: base_def)
qed

lemma append_table_again:
  assumes "lf_text c" "table_block h b" "h \<noteq> []"
  shows "append_table b' (drop_table h (text_lines (append_table b (drop_table h (text_lines c))))) =
     append_table b' (drop_table h (text_lines c))"
proof -
  let ?base = "trim_space (join_lines (drop_table h (text_lines c)))"
  have "join_lines (split_on newline ?base @ [[]]) = ?base @ [newline]"
    by (simp add: join_lines_def join_newline join_split)
  then have "trim_space (join_lines (split_on newline ?base @ [[]])) = ?base"
    using trim_space_right [of "[newline]"] by (simp add: space_runes_def)
  then show ?thesis
    by (simp add: drop_after_append [OF assms]) (simp add: append_table_def join_lines_def)
qed

lemma not_header: "l \<noteq> [] \<Longrightarrow> edge_char (hd l) \<Longrightarrow> hd l \<noteq> CHR ''['' \<Longrightarrow> \<not> header_like (trim_space l)"
proof -
  assume l: "l \<noteq> []" "edge_char (hd l)" "hd l \<noteq> CHR ''[''"
  have "trim_left l = l" unfolding trim_left_def
    using l space_runes_nonempty space_runes_no_edge by (intro strip_edge) auto
  then have "prefix (trim_space l) l" by (simp add: trim_space_def trim_right_prefix)
  then show ?thesis using l(3) by (cases l) (auto simp: header_like_def has_prefix_def prefix_Cons)
qed

lemma header_kept: "trim_space (server_header s) = server_header s" "server_header s \<noteq> []"
  "server_header s = bracketed (''mcp_servers.'' @ s)"
proof -
  show "trim_space (server_header s) = server_header s"
    by (rule trim_edges) (simp_all add: server_header_def edge_char_def between_def byte_def)
qed (simp_all add: server_header_def bracketed_def)

lemma escape_one_line: "one_line s \<Longrightarrow> one_line (quoted s)"
proof -
  have "set (replace_all [CHR 0x5C] [CHR 0x5C, CHR 0x5C] s) \<subseteq> set s \<union> {CHR 0x5C}" by (induction s) auto
  then show "one_line s \<Longrightarrow> one_line (quoted s)"
    by (auto simp: one_line_def quoted_def escape_backslashes_def)
qed

lemma one_line_append: "one_line (s @ t) \<longleftrightarrow> one_line s \<and> one_line t"
  by (auto simp: one_line_def)

lemma block_lines:
  assumes "one_line l" "trim_space l = h" "\<forall>x \<in> set ls. one_line x \<and> x \<noteq> [] \<and> edge_char (hd x) \<and> hd x \<noteq> CHR ''[''"
  shows "table_block h (join_lines (l # ls))"
proof -
  have "split_on newline (join_lines (l # ls)) = l # ls"
    unfolding join_lines_def using assms by (intro split_join) (auto simp: one_line_def)
  moreover have "carriage \<notin> set (join_lines (l # ls))"
    using set_join [of newline "l # ls"] assms unfolding join_lines_def by (fastforce simp: one_line_def)
  ultimately show ?thesis using assms not_header by (auto simp: table_block_def list_all_iff)
qed

lemma one_line_join: "\<forall>w \<in> set ws. one_line w \<Longrightarrow> one_line (join_with '', '' ws)"
proof (induction ws)
  case (Cons w ws)
  then show ?case by (cases ws) (auto simp: one_line_def)
qed (simp add: one_line_def)

lemma codex_blocks:
  assumes "one_line server" "one_line cmd"
  shows "list_all one_line args \<Longrightarrow> table_block (server_header server) (codex_server_block server cmd args)"
    "table_block (server_header server) (codex_remote_block server cmd)"
    "table_block ''[mcp_servers.engram]'' (codex_engram_block cmd)"
proof -
  have h: "one_line (server_header server)" using assms(1) by (simp add: server_header_def one_line_def)
  have q: "one_line (quoted cmd)" using assms(2) by (rule escape_one_line)
  have e: "server_header ''engram'' = ''[mcp_servers.engram]''" by (simp add: server_header_def)
  show "table_block (server_header server) (codex_server_block server cmd args)" if "list_all one_line args"
  proof -
    have "one_line (join_with '', '' (map quoted args))"
      using that escape_one_line by (intro one_line_join) (auto simp: list_all_iff)
    then have "table_block (server_header server) (join_lines [server_header server, ''command = '' @ quoted cmd,
        ''args = ['' @ join_with '', '' (map quoted args) @ '']''])"
      using h q by (intro block_lines) (auto simp: header_kept(1,2) one_line_def edge_char_def between_def byte_def)
    then show ?thesis by (simp add: codex_server_block_def join_lines_def)
  qed
  have "table_block (server_header server) (join_lines [server_header server, ''url = '' @ quoted cmd])"
    using h q by (intro block_lines) (auto simp: header_kept(1,2) one_line_def edge_char_def between_def byte_def)
  then show "table_block (server_header server) (codex_remote_block server cmd)"
    by (simp add: codex_remote_block_def join_lines_def)
  have "table_block (server_header ''engram'') (join_lines [''[mcp_servers.engram]'', ''command = '' @ quoted cmd,
      ''args = ['' @ [CHR 0x22] @ ''mcp'' @ [CHR 0x22] @ '', '' @ [CHR 0x22] @ ''--tools=agent'' @ [CHR 0x22] @ '']''])"
    using q header_kept(1) [of "''engram''"] unfolding e
    by (intro block_lines) (auto simp: one_line_def edge_char_def between_def byte_def)
  then show "table_block ''[mcp_servers.engram]'' (codex_engram_block cmd)"
    by (simp add: codex_engram_block_def join_lines_def e)
qed

text \<open>C23: Writing a managed table twice is writing it once, for the stdio, the remote and the
  engram block; a remote block replaces a stdio block completely; and taking the table out again leaves
  the text it was written to without that table, trimmed. The lines may end in CRLF.\<close>

theorem managed_tables_idempotent:
  assumes "lf_text content" "one_line server" "one_line cmd" "list_all one_line args"
  shows "upsert_codex_server (upsert_codex_server content server cmd args) server cmd args =
      upsert_codex_server content server cmd args \<and>
    upsert_codex_remote (upsert_codex_server content server cmd args) server url =
      upsert_codex_remote content server url \<and>
    upsert_codex_engram (upsert_codex_engram content cmd) cmd = upsert_codex_engram content cmd \<and>
    remove_table (upsert_codex_server content server cmd args) (''mcp_servers.'' @ server) =
      (let rest = trim_space (remove_table content (''mcp_servers.'' @ server)) in
       if rest = [] then [] else rest @ [newline])"
proof (intro conjI)
  note b = codex_blocks [OF assms(2,3)]
  show "upsert_codex_server (upsert_codex_server content server cmd args) server cmd args =
      upsert_codex_server content server cmd args"
    unfolding upsert_codex_server_def
    by (rule append_table_again [OF assms(1) b(1) [OF assms(4)] header_kept(2)])
  show "upsert_codex_remote (upsert_codex_server content server cmd args) server url =
      upsert_codex_remote content server url"
    unfolding upsert_codex_remote_def upsert_codex_server_def
    by (rule append_table_again [OF assms(1) b(1) [OF assms(4)] header_kept(2)])
  have "one_line ''engram''" by (simp add: one_line_def)
  note e = codex_blocks(3) [OF assms(2)]
  show "upsert_codex_engram (upsert_codex_engram content cmd) cmd = upsert_codex_engram content cmd"
    using assms(3) \<open>one_line ''engram''\<close>
    by (auto simp: upsert_codex_engram_def Let_def intro!: append_table_again [OF assms(1) e])
  show "remove_table (upsert_codex_server content server cmd args) (''mcp_servers.'' @ server) =
      (let rest = trim_space (remove_table content (''mcp_servers.'' @ server)) in
       if rest = [] then [] else rest @ [newline])"
    unfolding remove_table_def upsert_codex_server_def header_kept(3) [symmetric] Let_def
      drop_after_append [OF assms(1) b(1) [OF assms(4)] header_kept(2)]
    by (simp add: join_lines_def join_newline join_split)
qed

definition sample_toml :: string where
  "sample_toml = ''model = 1'' @ [carriage, newline] @ ''[mcp_servers.context7]'' @ [newline] @ ''url = 2''"

lemma managed_tables_idempotent_witness:
  "lf_text sample_toml \<and>
   upsert_codex_server (upsert_codex_server sample_toml ''context7'' ''npx'' [''-y'']) ''context7'' ''npx'' [''-y''] =
     upsert_codex_server sample_toml ''context7'' ''npx'' [''-y'']"
proof -
  have "lf_text sample_toml" by code_simp
  moreover have "one_line ''context7''" "one_line ''npx''" "list_all one_line [''-y'']"
    by (simp_all add: one_line_def)
  ultimately show ?thesis using managed_tables_idempotent [of sample_toml "''context7''" "''npx''" "[''-y'']" "[]"]
    by blast
qed

section \<open>Trees of tables\<close>

definition plain_line :: "string \<Rightarrow> bool" where
  \<comment> \<open>a line that opens no multi-line string or array and, when it starts with a bracket, is a header\<close>
  "plain_line l \<longleftrightarrow>
     multi_after l None = None \<and>
     (case array_value l of None \<Rightarrow> True | Some text \<Rightarrow> lex_line None None 0 text = (None, 0)) \<and>
     (starts_bracket l \<longrightarrow> table_header l \<noteq> None)"

fun lines_outside :: "string list \<Rightarrow> string list \<Rightarrow> string list \<Rightarrow> string list" where
  \<comment> \<open>the lines whose effective key path is not below the target\<close>
  "lines_outside target path [] = []"
| "lines_outside target path (l # ls) =
     (if starts_bracket l then
        (let path = the (table_header l) in
         (if prefix target path then [] else [l]) @ lines_outside target path ls)
      else
        (let below = prefix target path \<or>
               (case assignment_key l of None \<Rightarrow> False | Some key \<Rightarrow> prefix target (path @ key))
         in (if below then [] else [l]) @ lines_outside target path ls))"

lemma key_path_nonempty: "parse_key_path s = Some p \<Longrightarrow> p \<noteq> []"
  by (subst (asm) parse_key_path.simps) (auto split: option.splits prod.splits list.splits if_splits)

definition calm :: "string list \<Rightarrow> tree_scan \<Rightarrow> bool" where
  "calm target st \<longleftrightarrow>
     ts_known st \<and> ts_multi st = None \<and> \<not> ts_value st \<and> ts_depth st = 0 \<and>
     ts_removing st = prefix target (ts_path st)"

lemma calm_line:
  assumes "calm target st" "plain_line l"
  shows "calm target (fst (tree_line target st l))"
    "ts_path (fst (tree_line target st l)) = (if starts_bracket l then the (table_header l) else ts_path st)"
    "snd (tree_line target st l) \<longleftrightarrow>
       (if starts_bracket l then \<not> prefix target (the (table_header l))
        else \<not> (prefix target (ts_path st) \<or>
          (case assignment_key l of None \<Rightarrow> False | Some key \<Rightarrow> prefix target (ts_path st @ key))))"
  using assms
  by (cases "array_value l"; cases "assignment_key l";
      auto simp: calm_def plain_line_def tree_line_def tree_code_line_def open_array_def Let_def
        split: option.splits)+

lemma calm_lines:
  "calm target st \<Longrightarrow> list_all plain_line ls \<Longrightarrow> tree_lines target st ls = lines_outside target (ts_path st) ls"
proof (induction ls arbitrary: st)
  case (Cons l ls)
  obtain st' keep where step: "tree_line target st l = (st', keep)" by (cases "tree_line target st l")
  have "calm target st'" "ts_path st' = (if starts_bracket l then the (table_header l) else ts_path st)"
    "keep \<longleftrightarrow> (if starts_bracket l then \<not> prefix target (the (table_header l))
        else \<not> (prefix target (ts_path st) \<or>
          (case assignment_key l of None \<Rightarrow> False | Some key \<Rightarrow> prefix target (ts_path st @ key))))"
    using calm_line [of target st l] Cons.prems step by simp_all
  then show ?case using Cons.IH [of st'] Cons.prems(2) step by (simp add: Let_def)
qed simp

text \<open>C24: On a text whose lines open no multi-line string or array, removing a tree of tables
  keeps exactly the lines whose effective key path, the path of the table they stand in and their own
  key, is not below the tree, and keeps them byte for byte.\<close>

theorem removal_filters_lines:
  assumes "parse_key_path name = Some target" "list_all plain_line (split_after content)"
  shows "remove_table_tree content name = concat (lines_outside target [] (split_after content))"
proof -
  have "calm target start_scan" using key_path_nonempty [OF assms(1)] by (simp add: calm_def start_scan_def)
  then show ?thesis using calm_lines [of target start_scan] assms
    by (simp add: remove_table_tree_def) (simp add: start_scan_def)
qed

definition sample_tables :: string where
  "sample_tables = ''[a.b]'' @ [newline] @ ''x = 1'' @ [newline] @ ''[c]'' @ [newline] @ ''y = 2'' @ [newline]"

lemma removal_filters_lines_witness:
  "parse_key_path ''a.b'' = Some [''a'', ''b''] \<and> list_all plain_line (split_after sample_tables) \<and>
   remove_table_tree sample_tables ''a.b'' = concat (lines_outside [''a'', ''b''] [] (split_after sample_tables))"
proof -
  have "parse_key_path ''a.b'' = Some [''a'', ''b'']" by code_simp
  moreover have "list_all plain_line (split_after sample_tables)" by code_simp
  ultimately show ?thesis using removal_filters_lines [of "''a.b''" "[''a'', ''b'']" sample_tables] by blast
qed

lemma open_array_swallows:
  assumes "list_all (\<lambda>l. lex_line None None 1 l = (None, 1)) ls" "ts_depth st = 1" "ts_multi st = None"
  shows "tree_lines target st ls = []"
  using assms(1)
proof (induction ls)
  case (Cons l ls)
  have "st\<lparr>ts_multi := None, ts_depth := 1\<rparr> = st" using assms(2,3) by simp
  then have "tree_line target st l = (st, False)" using Cons.prems assms(2,3) by (simp add: tree_line_def)
  then show ?case using Cons by simp
qed simp

lemma split_after_line: "newline \<notin> set w \<Longrightarrow> split_after (w @ newline # s) = (w @ [newline]) # split_after s"
  by (induction w) auto

text \<open>C25: A comment in the removed table that ends in an equals sign and an open bracket makes the
  removal delete everything after it, as long as the brackets of each following line balance: the rest of
  the user's file is gone.\<close>

theorem commented_bracket_swallows_file:
  assumes "list_all (\<lambda>l. lex_line None None 1 l = (None, 1)) (split_after rest)"
  shows "remove_table_tree (''[permissions.gentle-dev]'' @ newline # ''# roots = ['' @ newline # rest)
     ''permissions.gentle-dev'' = []"
proof -
  let ?t = "[''permissions'', ''gentle-dev'']"
  have lines: "split_after (''[permissions.gentle-dev]'' @ newline # ''# roots = ['' @ newline # rest) =
      (''[permissions.gentle-dev]'' @ [newline]) # (''# roots = ['' @ [newline]) # split_after rest"
    using split_after_line [of "''[permissions.gentle-dev]''"] split_after_line [of "''# roots = [''"] by simp
  have "parse_key_path ''permissions.gentle-dev'' = Some ?t" by code_simp
  moreover have "tree_line ?t start_scan (''[permissions.gentle-dev]'' @ [newline]) =
      (start_scan\<lparr>ts_path := ?t, ts_removing := True\<rparr>, False)" by code_simp
  moreover have "tree_line ?t (start_scan\<lparr>ts_path := ?t, ts_removing := True\<rparr>) (''# roots = ['' @ [newline]) =
      (start_scan\<lparr>ts_path := ?t, ts_removing := True, ts_depth := 1\<rparr>, False)" by code_simp
  ultimately show ?thesis using assms open_array_swallows [of "split_after rest"]
    unfolding remove_table_tree_def lines by (simp add: start_scan_def)
qed

lemma commented_bracket_swallows_file_witness:
  "list_all (\<lambda>l. lex_line None None 1 l = (None, 1)) (split_after (''[user]'' @ newline # ''name = 1'' @ [newline])) \<and>
   remove_table_tree (''[permissions.gentle-dev]'' @ newline # ''# roots = ['' @ newline # ''[user]'' @ newline #
     ''name = 1'' @ [newline]) ''permissions.gentle-dev'' = []"
proof -
  have "list_all (\<lambda>l. lex_line None None 1 l = (None, 1)) (split_after (''[user]'' @ newline # ''name = 1'' @ [newline]))"
    by code_simp
  then show ?thesis
    using commented_bracket_swallows_file [of "''[user]'' @ newline # ''name = 1'' @ [newline]"] by blast
qed

lemma clean_lines: "lf_text c \<Longrightarrow> \<forall>l \<in> set (text_lines c). newline \<notin> set l"
  using text_lines_clean by blast

lemma solid_trimmed_text:
  "ls \<noteq> [] \<Longrightarrow> \<forall>l \<in> set ls. newline \<notin> set l \<Longrightarrow>
   solid_lines (trimmed_text ls) = filter (\<lambda>t. t \<noteq> []) (map trim_space ls)"
proof -
  assume ls: "ls \<noteq> []" "\<forall>l \<in> set ls. newline \<notin> set l"
  have "solid_lines (trimmed_text ls) = solid_lines (join_lines ls)"
    using solid_lines_after [of "[newline]"] by (simp add: trimmed_text_def solid_lines_trim space_runes_def)
  also have "\<dots> = filter (\<lambda>t. t \<noteq> []) (map trim_space ls)"
    unfolding solid_lines_def join_lines_def using ls by (subst split_join) auto
  finally show ?thesis .
qed

definition key_text_of :: "string \<Rightarrow> string \<Rightarrow> bool" where
  \<comment> \<open>an assignment that is one trimmed line and no header\<close>
  "key_text_of key value \<longleftrightarrow>
     one_line key \<and> one_line value \<and> key \<noteq> [] \<and> value \<noteq> [] \<and>
     edge_char (hd key) \<and> hd key \<noteq> CHR ''['' \<and> edge_char (last value)"

lemma assignment_line:
  assumes "key_text_of key value"
  shows "trim_space (key @ '' = '' @ value) = key @ '' = '' @ value" "newline \<notin> set (key @ '' = '' @ value)"
    "assigns (key @ '' = '' @ value) key" "\<not> header_like (key @ '' = '' @ value)"
proof -
  show t: "trim_space (key @ '' = '' @ value) = key @ '' = '' @ value"
    using assms by (intro trim_edges) (auto simp: key_text_of_def)
  show "newline \<notin> set (key @ '' = '' @ value)" using assms by (auto simp: key_text_of_def one_line_def)
  show "assigns (key @ '' = '' @ value) key" by (simp add: assigns_def has_prefix_def)
  show "\<not> header_like (key @ '' = '' @ value)"
    using not_header [of "key @ '' = '' @ value"] assms unfolding t by (auto simp: key_text_of_def)
qed

theorem top_level_key_unique:
  assumes "lf_text content" "key_text_of key value"
  shows "filter (\<lambda>t. assigns t key) (solid_lines (upsert_top_level content key value)) = [key @ '' = '' @ value] \<and>
    filter (\<lambda>t. \<not> assigns t key) (solid_lines (upsert_top_level content key value)) =
      filter (\<lambda>t. t \<noteq> [] \<and> \<not> assigns t key) (map trim_space (text_lines content))"
proof -
  let ?line = "key @ '' = '' @ value" and ?out = "\<lambda>l. \<not> header_like (trim_space l)"
  define kept where "kept = filter (\<lambda>l. \<not> assigns (trim_space l) key) (text_lines content)"
  let ?ls = "takeWhile ?out kept @ [?line] @ dropWhile ?out kept"
  note line = assignment_line [OF assms(2)]
  have "\<forall>l \<in> set ?ls. newline \<notin> set l"
    using clean_lines [OF assms(1)] line(2) set_takeWhileD set_dropWhileD by (fastforce simp: kept_def)
  then have solid: "solid_lines (upsert_top_level content key value) = filter (\<lambda>t. t \<noteq> []) (map trim_space ?ls)"
    using solid_trimmed_text [of ?ls] by (simp add: upsert_top_level_def Let_def kept_def)
  have none: "filter (\<lambda>l. trim_space l \<noteq> [] \<and> assigns (trim_space l) key) xs = []" if "set xs \<subseteq> set kept" for xs
    using that by (auto simp: kept_def filter_empty_conv)
  have all: "filter (\<lambda>l. trim_space l \<noteq> [] \<and> \<not> assigns (trim_space l) key) kept =
      filter (\<lambda>l. trim_space l \<noteq> [] \<and> \<not> assigns (trim_space l) key) (text_lines content)"
    by (auto simp: kept_def intro: filter_cong)
  have join: "filter P (takeWhile ?out kept) @ filter P (dropWhile ?out kept) = filter P kept" for P
    by (metis filter_append takeWhile_dropWhile_id)
  have "?line \<noteq> []" using assms(2) by (auto simp: key_text_of_def)
  then show ?thesis
    using line none [of "takeWhile ?out kept"] none [of "dropWhile ?out kept"] set_takeWhileD [of _ ?out kept]
      set_dropWhileD [of _ ?out kept] all
      join [of "\<lambda>l. trim_space l \<noteq> [] \<and> \<not> assigns (trim_space l) key"]
    unfolding solid by (simp add: filter_map o_def subset_iff) (simp flip: map_append)
qed

section \<open>Keys of a table\<close>

fun section_keys :: "string \<Rightarrow> string \<Rightarrow> bool \<Rightarrow> string list \<Rightarrow> string list" where
  \<comment> \<open>the trimmed lines that assign the key in tables with this header\<close>
  "section_keys header key inside [] = []"
| "section_keys header key inside (t # ts) =
     (if t = header then section_keys header key True ts
      else if inside \<and> \<not> header_like t \<and> assigns t key then t # section_keys header key inside ts
      else section_keys header key (inside \<and> \<not> header_like t) ts)"

fun other_lines :: "string \<Rightarrow> string \<Rightarrow> bool \<Rightarrow> string list \<Rightarrow> string list" where
  "other_lines header key inside [] = []"
| "other_lines header key inside (t # ts) =
     (if t = header then t # other_lines header key True ts
      else if inside \<and> \<not> header_like t \<and> assigns t key then other_lines header key inside ts
      else t # other_lines header key (inside \<and> \<not> header_like t) ts)"

fun ends_inside :: "string \<Rightarrow> bool \<Rightarrow> string list \<Rightarrow> bool" where
  "ends_inside header inside [] = inside"
| "ends_inside header inside (t # ts) =
     ends_inside header (t = header \<or> inside \<and> \<not> header_like t) ts"

lemma section_append:
  "section_keys h k b (xs @ ys) = section_keys h k b xs @ section_keys h k (ends_inside h b xs) ys"
  "other_lines h k b (xs @ ys) = other_lines h k b xs @ other_lines h k (ends_inside h b xs) ys"
  by (induction xs arbitrary: b) auto

lemma section_blank:
  assumes "h \<noteq> []"
  shows "section_keys h k b (filter (\<lambda>t. t \<noteq> []) ts) = section_keys h k b ts"
    "other_lines h k b (filter (\<lambda>t. t \<noteq> []) ts) = filter (\<lambda>t. t \<noteq> []) (other_lines h k b ts)"
  using assms by (induction ts arbitrary: b) (auto simp: header_like_def has_prefix_def assigns_def)

lemma section_absent: "h \<notin> set ts \<Longrightarrow> section_keys h k False ts = [] \<and> other_lines h k False ts = ts \<and> \<not> ends_inside h False ts"
  by (induction ts) auto

fun marks :: "string \<Rightarrow> string \<Rightarrow> bool \<Rightarrow> string list \<Rightarrow> bool list" where
  "marks h k b [] = []"
| "marks h k b (t # ts) =
     (t \<noteq> h \<and> b \<and> \<not> header_like t \<and> assigns t k) # marks h k (t = h \<or> b \<and> \<not> header_like t) ts"

fun positions :: "nat \<Rightarrow> bool list \<Rightarrow> nat list" where
  "positions n [] = []"
| "positions n (b # bs) = (if b then [n] else []) @ positions (Suc n) bs"

fun set_marked :: "string \<Rightarrow> bool \<Rightarrow> bool list \<Rightarrow> string list \<Rightarrow> string list" where
  \<comment> \<open>the first marked line replaced, the others dropped\<close>
  "set_marked line is_set (b # bs) (l # ls) =
     (if b then (if is_set then [] else [line]) else [l]) @ set_marked line (is_set \<or> b) bs ls"
| "set_marked line is_set _ _ = []"

lemma positions_above: "i \<in> set (positions n bs) \<Longrightarrow> n \<le> i"
  by (induction bs arbitrary: n) (auto split: if_splits dest: Suc_leD)

lemma length_marks [simp]: "length (marks h k b ts) = length ts"
  by (induction ts arbitrary: b) auto

lemma scan_positions:
  "snd (scan_section h k i b sec keys ls) = keys @ positions i (marks h k b (map trim_space ls))"
  by (induction ls arbitrary: i b sec keys) (auto simp: Let_def)

lemma scan_header:
  "h \<notin> trim_space ` set ls \<Longrightarrow> fst (scan_section h k i b sec keys ls) = sec"
  "h \<in> trim_space ` set ls \<Longrightarrow>
     \<exists>j < length ls. trim_space (ls ! j) = h \<and> fst (scan_section h k i b sec keys ls) = Some (i + j)"
proof (induction ls arbitrary: i b sec keys)
  case (Cons l ls)
  {
    case 1
    then show ?case using Cons.IH(1) by (auto simp: Let_def)
  next
    case 2
    show ?case
    proof (cases "h \<in> trim_space ` set ls")
      case True
      obtain b' sec' keys' where step:
          "scan_section h k i b sec keys (l # ls) = scan_section h k (Suc i) b' sec' keys' ls"
        by (atomize_elim, simp add: Let_def, metis)
      obtain j where "j < length ls" "trim_space (ls ! j) = h"
          "fst (scan_section h k i b sec keys (l # ls)) = Some (Suc i + j)"
        using Cons.IH(2) [OF True, of "Suc i" b' sec' keys'] unfolding step by blast
      then show ?thesis by (intro exI [of _ "Suc j"]) simp
    next
      case False
      then show ?thesis using 2 Cons.IH(1) by (intro exI [of _ 0]) (auto simp: Let_def)
    qed
  }
qed simp_all

lemma replaced_rest:
  "length bs = length ls \<Longrightarrow> first < n \<Longrightarrow>
   concat (map (\<lambda>(i, l). if i \<in> set (positions n bs) then [] else if i = first then [line] else [l]) (enumerate n ls)) =
   set_marked line True bs ls"
proof (induction bs ls arbitrary: n rule: list_induct2)
  case (Cons b bs l ls)
  have above: "i \<noteq> n" if "(i, x) \<in> set (enumerate (Suc n) ls)" for i x
    using that by (auto simp: in_set_enumerate_eq)
  have "n \<notin> set (positions (Suc n) bs)" using positions_above by fastforce
  moreover have "concat (map (\<lambda>(i, l). if i \<in> set (positions n (b # bs)) then []
        else if i = first then [line] else [l]) (enumerate (Suc n) ls)) =
      concat (map (\<lambda>(i, l). if i \<in> set (positions (Suc n) bs) then []
        else if i = first then [line] else [l]) (enumerate (Suc n) ls))"
    by (intro arg_cong [where f = concat] map_cong) (auto dest: above)
  ultimately show ?case using Cons.IH [of "Suc n"] Cons.prems by simp
qed simp

lemma replaced_lines:
  "length bs = length ls \<Longrightarrow> positions n bs = first # dups \<Longrightarrow>
   concat (map (\<lambda>(i, l). if i \<in> set dups then [] else if i = first then [line] else [l]) (enumerate n ls)) =
   set_marked line False bs ls"
proof (induction bs ls arbitrary: n rule: list_induct2)
  case (Cons b bs l ls)
  show ?case
  proof (cases b)
    case True
    then have p: "first = n" "dups = positions (Suc n) bs" using Cons.prems by auto
    then have "n \<notin> set dups" using positions_above by fastforce
    then show ?thesis using True p replaced_rest [OF Cons.hyps, of n "Suc n" line] by (simp cong: if_cong)
  next
    case False
    then have p: "positions (Suc n) bs = first # dups" using Cons.prems by simp
    then have "n \<notin> set dups" "n \<noteq> first" using positions_above [of _ "Suc n" bs] by fastforce+
    then show ?thesis using False p Cons.IH [of "Suc n"] by simp
  qed
qed simp

lemma set_marked_section:
  assumes "trim_space line = line" "assigns line k" "\<not> header_like line" "line \<noteq> h"
  shows "section_keys h k b (map trim_space (set_marked line s (marks h k b (map trim_space ls)) ls)) =
      (if s \<or> section_keys h k b (map trim_space ls) = [] then [] else [line])"
    "other_lines h k b (map trim_space (set_marked line s (marks h k b (map trim_space ls)) ls)) =
      other_lines h k b (map trim_space ls)"
  using assms by (induction ls arbitrary: b s) auto

lemma marks_keys: "positions n (marks h k b ts) = [] \<longleftrightarrow> section_keys h k b ts = []"
  by (induction ts arbitrary: n b) auto

lemma bracketed_header: "trim_space (bracketed s) = bracketed s" "header_like (bracketed s)" "bracketed s \<noteq> []"
proof -
  show "trim_space (bracketed s) = bracketed s"
    by (rule trim_edges) (simp_all add: bracketed_def edge_char_def between_def byte_def)
  show "header_like (bracketed s)"
    using suffixI [of "bracketed s" "''['' @ s" "'']''"]
    by (simp add: header_like_def has_prefix_def has_suffix_def bracketed_def)
qed (simp add: bracketed_def)

lemma inserted_key:
  assumes "j < length ts" "ts ! j = h" "section_keys h k False ts = []" "assigns t k" "\<not> header_like t" "t \<noteq> h"
  shows "section_keys h k False (take (Suc j) ts @ [t] @ drop (Suc j) ts) = [t]"
    "other_lines h k False (take (Suc j) ts @ [t] @ drop (Suc j) ts) = other_lines h k False ts"
proof -
  have ts: "ts = take (Suc j) ts @ drop (Suc j) ts" by simp
  have inside: "ends_inside h False (take (Suc j) ts)"
  proof -
    have "ends_inside h b (xs @ [h])" for b xs by (induction xs arbitrary: b) auto
    then show ?thesis using assms(1,2) by (simp add: take_Suc_conv_app_nth)
  qed
  have none: "section_keys h k False (take (Suc j) ts) = []" "section_keys h k True (drop (Suc j) ts) = []"
    using assms(3) section_append(1) [of h k False "take (Suc j) ts" "drop (Suc j) ts"] inside by simp_all
  have others: "other_lines h k False ts =
      other_lines h k False (take (Suc j) ts) @ other_lines h k True (drop (Suc j) ts)"
    using section_append(2) [of h k False "take (Suc j) ts" "drop (Suc j) ts"] inside by simp
  show "section_keys h k False (take (Suc j) ts @ [t] @ drop (Suc j) ts) = [t]"
    unfolding section_append using inside none assms(4-6) by simp
  show "other_lines h k False (take (Suc j) ts @ [t] @ drop (Suc j) ts) = other_lines h k False ts"
    unfolding section_append others using inside assms(4-6) by simp
qed

lemma set_marked_lines: "set (set_marked line s bs ls) \<subseteq> insert line (set ls)"
  by (induction line s bs ls rule: set_marked.induct) auto

lemma replaced_text:
  assumes "scan_section h k 0 False None [] ls = (sec, first # dups)"
  shows "replace_lines first dups line ls = set_marked line False (marks h k False (map trim_space ls)) ls"
  using assms scan_positions [of h k 0 False None "[]" ls] unfolding replace_lines_def
  by (intro replaced_lines) auto

text \<open>C22: Setting a key of a table leaves exactly one assignment of it in the tables of that name,
  the new one, keeps every other line in order, and adds the table's header only when the text had none.
  Blank lines and the white space around lines are not compared.\<close>

theorem table_key_set:
  assumes "lf_text content" "one_line name" "key_text_of key raw"
  shows "section_keys (bracketed name) key False (solid_lines (upsert_table_key content name key raw)) =
      [key @ '' = '' @ raw] \<and>
    other_lines (bracketed name) key False (solid_lines (upsert_table_key content name key raw)) =
      filter (\<lambda>t. t \<noteq> []) (other_lines (bracketed name) key False (map trim_space (text_lines content))) @
      (if bracketed name \<in> trim_space ` set (text_lines content) then [] else [bracketed name])"
proof -
  define line where "line = key @ '' = '' @ raw"
  let ?h = "bracketed name" and ?ls = "text_lines content"
  let ?ts = "map trim_space ?ls"
  note line = assignment_line [OF assms(3), folded line_def]
  note header = bracketed_header [of name]
  have other: "line \<noteq> ?h" using line(4) header(2) by metis
  have clean: "\<forall>l \<in> set ?ls. newline \<notin> set l" using assms(1) by (rule clean_lines)
  obtain sec keys where scan: "scan_section ?h key 0 False None [] ?ls = (sec, keys)" by fastforce
  have keys: "keys = positions 0 (marks ?h key False ?ts)"
    using scan_positions [of ?h key 0 False None "[]" ?ls] scan by simp
  have code: "upsert_table_key content name key raw = (case scan_section ?h key 0 False None [] ?ls of
        (None, _) \<Rightarrow>
          (let base = trim_space (join_lines ?ls) in
           if base = [] then ?h @ [newline] @ line @ [newline]
           else base @ [newline, newline] @ ?h @ [newline] @ line @ [newline])
      | (Some i, k # dups) \<Rightarrow> trimmed_text (replace_lines k dups line ?ls)
      | (Some i, []) \<Rightarrow> trimmed_text (insert_after i line ?ls))"
    unfolding upsert_table_key_def Let_def line_def by (rule refl)
  have "line \<noteq> []" using assms(3) by (simp add: line_def)
  have "section_keys ?h key False (solid_lines (upsert_table_key content name key raw)) = [line] \<and>
    other_lines ?h key False (solid_lines (upsert_table_key content name key raw)) =
      filter (\<lambda>t. t \<noteq> []) (other_lines ?h key False ?ts) @ (if ?h \<in> trim_space ` set ?ls then [] else [?h])"
  proof (cases "?h \<in> trim_space ` set ?ls")
    case True
    then obtain j where j: "j < length ?ls" "trim_space (?ls ! j) = ?h" "sec = Some j"
      using scan_header(2) [of ?h ?ls key 0 False None "[]"] scan by auto
    show ?thesis
    proof (cases keys)
      case Nil
      then have none: "section_keys ?h key False ?ts = []" using keys marks_keys by metis
      let ?new = "insert_after j line ?ls"
      have new: "map trim_space ?new = take (Suc j) ?ts @ [line] @ drop (Suc j) ?ts"
        using line(1) by (simp add: insert_after_def take_map drop_map)
      have "\<forall>l \<in> set ?new. newline \<notin> set l"
        using clean line(2) by (auto simp: insert_after_def dest: in_set_takeD in_set_dropD)
      then have "solid_lines (trimmed_text ?new) = filter (\<lambda>t. t \<noteq> []) (map trim_space ?new)"
        by (intro solid_trimmed_text) (simp_all add: insert_after_def)
      moreover have "upsert_table_key content name key raw = trimmed_text ?new"
        using scan Nil j(3) by (simp add: code)
      ultimately show ?thesis
        using inserted_key [of j ?ts ?h key line] j none line(3,4) other True
        by (simp add: section_blank header(3) new del: filter_append map_append)
    next
      case (Cons first dups)
      let ?new = "set_marked line False (marks ?h key False ?ts) ?ls"
      have "section_keys ?h key False ?ts \<noteq> []" using keys Cons marks_keys by (metis list.distinct(1))
      then have new: "section_keys ?h key False (map trim_space ?new) = [line]"
          "other_lines ?h key False (map trim_space ?new) = other_lines ?h key False ?ts"
        using set_marked_section [OF line(1,3,4) other] by simp_all
      then have "?new \<noteq> []" by auto
      moreover have "\<forall>l \<in> set ?new. newline \<notin> set l"
        using set_marked_lines [of line False "marks ?h key False ?ts" ?ls] clean line(2) by auto
      ultimately have "solid_lines (trimmed_text ?new) = filter (\<lambda>t. t \<noteq> []) (map trim_space ?new)"
        by (rule solid_trimmed_text)
      moreover have "upsert_table_key content name key raw = trimmed_text ?new"
        using scan Cons j(3) replaced_text [of ?h key ?ls sec first dups line]
        by (simp add: code)
      ultimately show ?thesis using new True by (simp add: section_blank header(3))
    qed
  next
    case False
    then have sec: "sec = None" using scan_header(1) [of ?h ?ls key 0 False None "[]"] scan by simp
    let ?base = "trim_space (join_lines ?ls)"
    have "text_lines content \<noteq> []" by (simp add: text_lines_def)
    then have base: "solid_lines ?base = filter (\<lambda>t. t \<noteq> []) ?ts"
      unfolding solid_lines_trim unfolding solid_lines_def join_lines_def using clean by (subst split_join) auto
    have tail: "split_on newline (?h @ [newline] @ line @ [newline]) = [?h, line, []]"
    proof -
      have "newline \<notin> set ?h" using assms(2) by (simp add: bracketed_def one_line_def)
      then show ?thesis
        using split_append_sep [of newline ?h "line @ [newline]"] split_append_sep [of newline line "[]"] line(2)
        by simp
    qed
    have "solid_lines (upsert_table_key content name key raw) = solid_lines ?base @ [?h, line]"
    proof (cases "?base = []")
      case True
      then show ?thesis using scan sec line(1) header tail assms(3)
        by (simp add: code solid_lines_def \<open>line \<noteq> []\<close>)
    next
      case False
      have "split_on newline (?base @ [newline, newline] @ ?h @ [newline] @ line @ [newline]) =
          split_on newline ?base @ [[]] @ [?h, line, []]"
        using split_on_sep [of newline ?base "newline # ?h @ [newline] @ line @ [newline]"] tail by simp
      then show ?thesis using False scan sec line(1) header assms(3)
        by (simp add: code solid_lines_def \<open>line \<noteq> []\<close>)
    qed
    then show ?thesis
      using section_absent [of ?h ?ts key] False line(3,4) other
      by (simp add: base section_append section_blank header(3) image_def)
  qed
  then show ?thesis unfolding line_def .
qed

lemma table_key_set_witness:
  "key_text_of ''threads'' ''4'' \<and>
   section_keys (bracketed ''agents'') ''threads'' False
     (solid_lines (upsert_table_key (''[agents]'' @ newline # ''threads = 2'') ''agents'' ''threads'' ''4'')) =
     [''threads'' @ '' = '' @ ''4'']"
proof -
  have "lf_text (''[agents]'' @ newline # ''threads = 2'')" by code_simp
  moreover have "one_line ''agents''" by (simp add: one_line_def)
  moreover have "key_text_of ''threads'' ''4''" by code_simp
  ultimately show ?thesis
    using table_key_set [of "''[agents]'' @ newline # ''threads = 2''" "''agents''" "''threads''" "''4''"] by blast
qed

end
