(* ===== verification/Yaml.thy ===== *)
theory Yaml
  imports TomlLaws "HOL-Library.Finite_Map" "HOL-Library.List_Lexorder" "HOL-Library.Char_ord"
begin

text \<open>
  The YAML merging of filemerge (yaml.go): the block of a managed server below the top-level key
  mcp_servers is replaced by lines, and the command of a server is read back by lines. The laws follow:
  an upsert settles, and the command it wrote is read back.
\<close>

section \<open>Lines of the server list\<close>

definition leading_space :: "string \<Rightarrow> bool" where
  "leading_space l \<longleftrightarrow> l \<noteq> [] \<and> (hd l = CHR '' '' \<or> hd l = CHR 0x09)"

definition comment_line :: "string \<Rightarrow> bool" where
  "comment_line l \<longleftrightarrow> has_prefix (trim_space l) ''#''"

definition servers_key :: string where "servers_key = ''mcp_servers:''"

definition servers_line :: "string \<Rightarrow> bool" where
  "servers_line l \<longleftrightarrow> has_prefix (trim_space l) servers_key \<and> \<not> leading_space l"

definition block_form :: "string \<Rightarrow> string" where
  \<comment> \<open>an inline value is dropped, its comment kept\<close>
  "block_form l =
     (if trim_space l = servers_key then l
      else let rest = trim_prefix l servers_key in
        (case index_of rest (CHR ''#'') of
           Some i \<Rightarrow> ''mcp_servers:  # '' @ trim_prefix (trim_space (drop i rest)) ''# ''
         | None \<Rightarrow> servers_key))"

definition ends_region :: "string \<Rightarrow> bool" where
  "ends_region l \<longleftrightarrow> \<not> blank l \<and> \<not> leading_space l \<and> \<not> comment_line l"

definition server_key :: "string \<Rightarrow> string" where
  "server_key server = ''  '' @ server @ '':''"

definition space_tab :: string where "space_tab = [CHR '' '', CHR 0x09]"

definition is_server_key_line :: "string \<Rightarrow> string \<Rightarrow> bool" where
  "is_server_key_line l key \<longleftrightarrow>
     trim_right_set space_tab l = key \<or> l = key \<or>
     has_prefix l key \<and> has_prefix (trim_left_set space_tab (drop (length key) l)) ''#''"

definition two_space_entry :: "string \<Rightarrow> bool" where
  \<comment> \<open>something at exactly two spaces\<close>
  "two_space_entry l \<longleftrightarrow> prefix ''  '' l \<and> 2 < length l \<and> l ! 2 \<noteq> CHR '' ''"

definition sibling :: "string \<Rightarrow> bool" where
  "sibling l \<longleftrightarrow> \<not> blank l \<and> (two_space_entry l \<or> ends_region l)"

function drop_server :: "string \<Rightarrow> string list \<Rightarrow> string list" where
  "drop_server key [] = []"
| "drop_server key (l # ls) =
     (if is_server_key_line l key then drop_server key (dropWhile (\<lambda>x. \<not> sibling x) ls)
      else l # drop_server key ls)"
  by pat_completeness auto
termination
  by (relation "measure (\<lambda>(k, ls). length ls)") (auto simp: le_imp_less_Suc length_dropWhile_le)

definition drop_trailing_blank :: "string list \<Rightarrow> string list" where
  "drop_trailing_blank ls = rev (dropWhile blank (rev ls))"

section \<open>Upserting a server\<close>

definition server_lines :: "string \<Rightarrow> string \<Rightarrow> string list \<Rightarrow> (string, string) fmap \<Rightarrow> string list" where
  "server_lines server cmd args env =
     [server_key server, ''    command: '' @ cmd] @
     (if args = [] then [] else ''    args:'' # map (\<lambda>a. ''      - '' @ a) args) @
     (if env = fmempty then []
      else ''    env:'' #
        map (\<lambda>k. ''      '' @ k @ '': '' @ the (fmlookup env k)) (sorted_list_of_fset (fmdom env)))"

definition build_server_block :: "string \<Rightarrow> string \<Rightarrow> string list \<Rightarrow> (string, string) fmap \<Rightarrow> string" where
  "build_server_block server cmd args env = concat (map (\<lambda>l. l @ [newline]) (server_lines server cmd args env))"

definition trim_newlines :: "string \<Rightarrow> string" where
  "trim_newlines s = trim_right_set [newline] s"

definition upsert_yaml_server ::
  "string \<Rightarrow> string \<Rightarrow> string \<Rightarrow> string list \<Rightarrow> (string, string) fmap \<Rightarrow> string" where
  "upsert_yaml_server content server cmd args env =
     (let ls = text_lines content; block = build_server_block server cmd args env;
          before = takeWhile (\<lambda>l. \<not> servers_line l) ls
      in case dropWhile (\<lambda>l. \<not> servers_line l) ls of
           [] \<Rightarrow>
             (let base = trim_newlines (join_lines ls) in
              if base = [] then servers_key @ [newline] @ block
              else base @ [newline, newline] @ servers_key @ [newline] @ block)
         | m # rest \<Rightarrow>
             (let region = takeWhile (\<lambda>l. \<not> ends_region l) rest;
                  after = dropWhile (\<lambda>l. \<not> ends_region l) rest;
                  kept = before @ [block_form m] @ drop_trailing_blank (drop_server (server_key server) region) @
                    split_on newline (trim_newlines block);
                  sep = (if after \<noteq> [] \<and> \<not> blank (hd after) then [[]] else [])
              in trim_newlines (join_lines (kept @ sep @ after)) @ [newline]))"

definition upsert_hermes_engram :: "string \<Rightarrow> string \<Rightarrow> string" where
  "upsert_hermes_engram content cmd =
     upsert_yaml_server content ''engram'' (if cmd = [] then ''engram'' else cmd) [''mcp'', ''--tools=agent''] fmempty"

definition context7_version :: string where "context7_version = ''2.2.5''"

definition upsert_hermes_context7 :: "string \<Rightarrow> string" where
  "upsert_hermes_context7 content =
     upsert_yaml_server content ''context7'' ''npx''
       [''-y'', ''--package=@upstash/context7-mcp@'' @ context7_version, ''--'', ''context7-mcp''] fmempty"

section \<open>Reading a command back\<close>

definition strip_inline_comment :: "string \<Rightarrow> string" where
  "strip_inline_comment s =
     trim_space (case find_sub s '' #'' of Some i \<Rightarrow> take i s | None \<Rightarrow> s)"

definition starts_quoted :: "string \<Rightarrow> bool" where
  "starts_quoted s \<longleftrightarrow> 2 \<le> length s \<and> (hd s = dquote \<or> hd s = squote)"

definition normalize_yaml_scalar :: "string \<Rightarrow> string" where
  "normalize_yaml_scalar s =
     (let s = trim_space s in
      if starts_quoted s
      then (case index_of (tl s) (hd s) of Some i \<Rightarrow> take i (tl s) | None \<Rightarrow> strip_inline_comment s)
      else strip_inline_comment s)"

definition command_scalar :: "string \<Rightarrow> string" where
  \<comment> \<open>a quote that is not closed is kept as it is\<close>
  "command_scalar s =
     (if starts_quoted s then (case index_of (tl s) (hd s) of Some i \<Rightarrow> take i (tl s) | None \<Rightarrow> s)
      else strip_inline_comment s)"

definition skipped_line :: "string \<Rightarrow> bool" where
  "skipped_line l \<longleftrightarrow> blank l \<or> comment_line l"

definition first_item :: "string list \<Rightarrow> string option" where
  "first_item ls =
     (case dropWhile skipped_line ls of [] \<Rightarrow> None
      | l # _ \<Rightarrow>
          let t = trim_space l in
          if has_prefix t ''- '' then Some (normalize_yaml_scalar (trim_prefix t ''- '')) else None)"

fun command_of :: "string list \<Rightarrow> string option" where
  "command_of [] = None"
| "command_of (l # ls) =
     (if skipped_line l then command_of ls
      else if two_space_entry l then None
      else let t = trim_space l in
        if \<not> has_prefix t ''command:'' then command_of ls
        else let rest = trim_space (trim_prefix t ''command:'') in
          if rest \<noteq> [] then Some (command_scalar rest) else first_item ls)"

definition readable_servers_line :: "string \<Rightarrow> bool" where
  "readable_servers_line l \<longleftrightarrow>
     \<not> skipped_line l \<and> servers_line l \<and>
     (let rest = trim_space (trim_prefix (trim_space l) servers_key) in rest = [] \<or> has_prefix rest ''#'')"

definition read_yaml_command :: "string \<Rightarrow> string \<Rightarrow> string option" where
  "read_yaml_command content server =
     (case dropWhile (\<lambda>l. \<not> readable_servers_line l) (text_lines content) of [] \<Rightarrow> None
      | _ # rest \<Rightarrow>
          (case dropWhile (\<lambda>l. skipped_line l \<or> \<not> is_server_key_line l (server_key server))
                  (takeWhile (\<lambda>l. \<not> ends_region l) rest) of
             [] \<Rightarrow> None | _ # body \<Rightarrow> command_of body))"

section \<open>Trimming beside visible text\<close>

lemma trim_right_keep:
  assumes "u \<noteq> []" "edge_char (last u)"
  shows "trim_right (u @ v) = u @ trim_right v"
proof (induction "length v" arbitrary: v rule: less_induct)
  case less
  show ?case
  proof (cases "\<exists>r \<in> set space_runes. suffix r v")
    case True
    then obtain r x where r: "r \<in> set space_runes" "v = x @ r" by (auto simp: suffix_def)
    then show ?thesis
      using less [of x] trim_right_rune [OF r(1), of "u @ x"] trim_right_rune [OF r(1), of x] space_runes_nonempty [OF r(1)]
      by simp
  next
    case False
    have "\<not> suffix r (u @ v)" if r: "r \<in> set space_runes" for r
    proof
      assume "suffix r (u @ v)"
      then obtain x us where us: "u = x @ us \<and> us @ v = r \<or> u @ us = x \<and> v = us @ r"
        by (auto simp: suffix_def append_eq_append_conv2)
      then consider y where "v = y @ r" | y where "u = x @ y" "y \<noteq> []" "r = y @ v"
        by (cases "us = []") auto
      then show False
      proof cases
        case 1
        then show ?thesis using False r by (auto simp: suffix_def)
      next
        case 2
        then have "last u \<in> set r" by simp
        then show ?thesis using space_runes_no_edge [OF r] assms(2) by blast
      qed
    qed
    then show ?thesis using trim_right_untouched [of "u @ v"] trim_right_untouched [of v] False by simp
  qed
qed

lemma trim_left_edge: "u \<noteq> [] \<Longrightarrow> edge_char (hd u) \<Longrightarrow> trim_left (u @ v) = u @ v"
  unfolding trim_left_def using space_runes_nonempty space_runes_no_edge by (intro strip_edge) auto

lemma trim_space_keep:
  "u \<noteq> [] \<Longrightarrow> edge_char (hd u) \<Longrightarrow> edge_char (last u) \<Longrightarrow> trim_space (u @ v) = u @ trim_right v"
  by (simp add: trim_space_def trim_left_edge trim_right_keep)

lemma trim_space_blank: "trim_space (CHR '' '' # s) = trim_space s"
  using trim_space_left [of "'' ''" s] by (simp add: space_runes_def)

section \<open>The line of the server list\<close>

lemma servers_key_edges: "servers_key \<noteq> []" "edge_char (hd servers_key)" "edge_char (last servers_key)"
  by (simp_all add: servers_key_def edge_char_def between_def byte_def)

lemma hash_edge: "edge_char (CHR ''#'')" by (simp add: edge_char_def between_def byte_def)

lemma trim_hash: "trim_space (CHR ''#'' # s) = CHR ''#'' # trim_right s"
  using trim_space_keep [of "''#''" s] hash_edge by simp

definition inline_note :: "string \<Rightarrow> string" where
  "inline_note c = ''mcp_servers:  # '' @ c"

lemma inline_note_trim: "trim_space (inline_note c) = servers_key @ ''  #'' @ trim_right (CHR '' '' # c)"
  using trim_space_keep [of "''mcp_servers:  #''" "CHR '' '' # c"] hash_edge
  by (simp add: inline_note_def servers_key_def edge_char_def between_def byte_def)

lemma inline_note_readable: "readable_servers_line (inline_note c)" "servers_line (inline_note c)"
proof -
  show s: "servers_line (inline_note c)"
    unfolding servers_line_def inline_note_trim
    by (simp add: has_prefix_def leading_space_def inline_note_def)
  have "trim_prefix (trim_space (inline_note c)) servers_key = ''  #'' @ trim_right (CHR '' '' # c)"
    unfolding inline_note_trim by (simp add: trim_prefix_def)
  then have "has_prefix (trim_space (trim_prefix (trim_space (inline_note c)) servers_key)) ''#''"
    using trim_hash by (simp add: trim_space_blank has_prefix_def)
  moreover have "\<not> skipped_line (inline_note c)"
    unfolding skipped_line_def blank_def comment_line_def inline_note_trim
    by (simp add: servers_key_def has_prefix_def)
  ultimately show "readable_servers_line (inline_note c)" using s by (simp add: readable_servers_line_def Let_def)
qed

lemma block_form_note:
  assumes "T = trim_space T" "T \<noteq> []" "hd T = CHR ''#''"
  shows "block_form (inline_note (trim_prefix T ''# '')) = inline_note (trim_prefix T ''# '')"
proof -
  let ?c = "trim_prefix T ''# ''"
  obtain t where t: "T = CHR ''#'' # t" using assms(2,3) by (cases T) auto
  then have r: "trim_right t = t" using assms(1) trim_hash [of t] by simp
  have "trim_prefix (trim_space (''# '' @ ?c)) ''# '' = ?c"
  proof (cases "prefix ''# '' T")
    case True
    then have "''# '' @ ?c = T" by (auto simp: trim_prefix_def prefix_def)
    then show ?thesis using assms(1) by simp
  next
    case False
    then have c: "?c = T" by (simp add: trim_prefix_def)
    have "trim_space (''# #'' @ t) = ''# #'' @ t"
      using trim_space_keep [of "''# #''" t] r hash_edge by simp
    moreover have "''# '' @ T = ''# #'' @ t" by (simp add: t)
    ultimately show ?thesis unfolding c by (simp add: trim_prefix_def t)
  qed
  moreover have "trim_space (inline_note ?c) \<noteq> servers_key" unfolding inline_note_trim by simp
  moreover have "trim_prefix (inline_note ?c) servers_key = ''  # '' @ ?c"
    by (simp add: trim_prefix_def inline_note_def servers_key_def)
  moreover have "index_of (''  # '' @ ?c) (CHR ''#'') = Some 2"
    by (simp add: index_of_def)
  ultimately show ?thesis by (simp add: block_form_def Let_def inline_note_def)
qed

lemma servers_key_line: "readable_servers_line servers_key" "servers_line servers_key" "block_form servers_key = servers_key"
proof -
  have t: "trim_space servers_key = servers_key" using servers_key_edges by (intro trim_edges)
  show "block_form servers_key = servers_key" by (simp add: block_form_def t)
  show "servers_line servers_key" by (simp add: servers_line_def t has_prefix_def leading_space_def) (simp add: servers_key_def)
  then show "readable_servers_line servers_key"
    by (simp add: readable_servers_line_def t trim_prefix_def skipped_line_def blank_def comment_line_def)
      (simp add: has_prefix_def servers_key_def)
qed

lemma block_form_settles:
  assumes "servers_line m"
  shows "servers_line (block_form m)" "readable_servers_line (block_form m)" "block_form (block_form m) = block_form m"
proof -
  let ?rest = "trim_prefix m servers_key"
  consider "trim_space m = servers_key" | "trim_space m \<noteq> servers_key" "index_of ?rest (CHR ''#'') = None"
    | i where "trim_space m \<noteq> servers_key" "index_of ?rest (CHR ''#'') = Some i" by blast
  then have "servers_line (block_form m) \<and> readable_servers_line (block_form m) \<and>
      block_form (block_form m) = block_form m"
  proof cases
    case 1
    then show ?thesis using assms
      by (simp add: block_form_def readable_servers_line_def skipped_line_def blank_def comment_line_def
          trim_prefix_def) (simp add: has_prefix_def servers_key_def)
  next
    case 2
    then have "block_form m = servers_key" by (auto simp: block_form_def index_of_def)
    then show ?thesis using servers_key_line by simp
  next
    case (3 i)
    let ?T = "trim_space (drop i ?rest)"
    have hash: "drop i ?rest = CHR ''#'' # drop (Suc i) ?rest"
      using index_of_nth [OF 3(2)] by (metis Cons_nth_drop_Suc)
    have "block_form m = inline_note (trim_prefix ?T ''# '')"
      using 3 by (simp add: block_form_def inline_note_def)
    moreover have "?T = CHR ''#'' # trim_right (drop (Suc i) ?rest)" by (simp add: hash trim_hash)
    then have "?T \<noteq> []" "hd ?T = CHR ''#''" by simp_all
    moreover have "?T = trim_space ?T" by simp
    ultimately show ?thesis using block_form_note [of ?T] inline_note_readable by metis
  qed
  then show "servers_line (block_form m)" "readable_servers_line (block_form m)"
    "block_form (block_form m) = block_form m" by simp_all
qed

section \<open>Trailing newlines\<close>

definition strip_empty :: "string list \<Rightarrow> string list" where
  "strip_empty ls = rev (dropWhile (\<lambda>l. l = []) (rev ls))"

lemma strip_empty_simps:
  "strip_empty (ls @ [[]]) = strip_empty ls" "l \<noteq> [] \<Longrightarrow> strip_empty (ls @ [l]) = ls @ [l]" "strip_empty [] = []"
  by (simp_all add: strip_empty_def)

lemma strip_empty_cases: "strip_empty ls = [] \<or> last (strip_empty ls) \<noteq> []"
  by (induction ls rule: rev_induct) (auto simp: strip_empty_def)

lemma strip_empty_last: "ls = [] \<or> last ls \<noteq> [] \<Longrightarrow> strip_empty ls = ls"
  by (cases ls rule: rev_cases) (auto simp: strip_empty_simps)

lemma strip_empty_append: "strip_empty ys \<noteq> [] \<Longrightarrow> strip_empty (xs @ ys) = xs @ strip_empty ys"
proof (induction ys rule: rev_induct)
  case (snoc y ys)
  then show ?case by (cases "y = []") (simp_all add: strip_empty_simps flip: append_assoc)
qed (simp add: strip_empty_simps)

lemma trim_newlines_join:
  "\<forall>l \<in> set ls. newline \<notin> set l \<Longrightarrow> trim_newlines (join_lines ls) = join_lines (strip_empty ls)"
proof (induction ls rule: rev_induct)
  case Nil
  then show ?case by (simp add: trim_newlines_def join_lines_def strip_empty_simps trim_right_set_def)
next
  case (snoc l ls)
  show ?case
  proof (cases "l = []")
    case True
    show ?thesis
    proof (cases "ls = []")
      case True
      then show ?thesis using \<open>l = []\<close>
        by (simp add: trim_newlines_def join_lines_def strip_empty_def trim_right_set_def)
    next
      case False
      then have "join_lines (ls @ [l]) = join_lines ls @ [newline]"
        using \<open>l = []\<close> by (simp add: join_lines_def join_newline)
      then show ?thesis using snoc True trim_right_set_append [of "[newline]" "[newline]" "join_lines ls"]
        by (simp add: trim_newlines_def strip_empty_simps)
    qed
  next
    case False
    then have "join_lines (ls @ [l]) \<noteq> []" "last (join_lines (ls @ [l])) = last l"
      using last_join [of l "[newline]" ls] by (simp_all add: join_lines_def)
    moreover have "last l \<noteq> newline" using False snoc.prems by (metis in_set_conv_decomp last_in_set)
    ultimately show ?thesis using False trim_right_set_fixed [of "join_lines (ls @ [l])" "[newline]"]
      by (simp add: trim_newlines_def strip_empty_simps)
  qed
qed

lemma set_strip_empty: "set (strip_empty ls) \<subseteq> set ls"
  by (auto simp: strip_empty_def dest: set_dropWhileD)

section \<open>The block of a server\<close>

definition plain_args :: "string \<Rightarrow> string \<Rightarrow> string list \<Rightarrow> (string, string) fmap \<Rightarrow> bool" where
  "plain_args server cmd args env \<longleftrightarrow>
     one_line server \<and> one_line cmd \<and> list_all one_line args \<and>
     fBall (fmdom env) one_line \<and> fBall (fmran env) one_line"

lemma server_lines_shape:
  assumes "plain_args server cmd args env"
  shows "\<forall>l \<in> set (server_lines server cmd args env). one_line l \<and> prefix ''  '' l \<and> 2 < length l"
    "\<forall>l \<in> set (tl (server_lines server cmd args env)). prefix ''    '' l"
proof -
  have "one_line (the (fmlookup env k))" if "k |\<in>| fmdom env" for k
    using that assms unfolding plain_args_def fmlookup_dom_iff by (auto simp: fmranI)
  moreover have "one_line k" if "k |\<in>| fmdom env" for k using that assms by (auto simp: plain_args_def)
  ultimately show "\<forall>l \<in> set (server_lines server cmd args env). one_line l \<and> prefix ''  '' l \<and> 2 < length l"
    using assms by (auto simp: server_lines_def server_key_def plain_args_def one_line_def list_all_iff)
  show "\<forall>l \<in> set (tl (server_lines server cmd args env)). prefix ''    '' l"
    by (auto simp: server_lines_def)
qed

lemma block_lines_read:
  assumes "plain_args server cmd args env"
  defines "B \<equiv> server_lines server cmd args env"
  shows "build_server_block server cmd args env = join_lines (B @ [[]])"
    "split_on newline (trim_newlines (build_server_block server cmd args env)) = B"
    "B \<noteq> []" "last B \<noteq> []"
proof -
  have "concat (map (\<lambda>l. l @ [sep]) ls) = join_with [sep] (ls @ [[]])" for ls :: "string list" and sep
  proof (induction ls)
    case (Cons l ls)
    then show ?case by (cases ls) auto
  qed simp
  then show block: "build_server_block server cmd args env = join_lines (B @ [[]])"
    by (simp add: build_server_block_def B_def join_lines_def)
  have clean: "\<forall>l \<in> set B. newline \<notin> set l \<and> l \<noteq> []"
    using server_lines_shape(1) [OF assms(1)] by (fastforce simp: B_def one_line_def)
  show ne: "B \<noteq> []" by (simp add: B_def server_lines_def)
  then show last: "last B \<noteq> []" using clean by simp
  have "trim_newlines (join_lines (B @ [[]])) = join_lines B"
    using clean last by (subst trim_newlines_join) (auto simp: strip_empty_simps strip_empty_last)
  then show "split_on newline (trim_newlines (build_server_block server cmd args env)) = B"
    using block clean ne by (simp add: join_lines_def split_join)
qed

lemma block_not_ending: "prefix ''  '' l \<Longrightarrow> \<not> ends_region l \<and> \<not> servers_line l"
  by (cases l) (auto simp: ends_region_def servers_line_def leading_space_def)

lemma block_no_sibling: "prefix ''    '' l \<Longrightarrow> \<not> sibling l"
proof -
  assume p: "prefix ''    '' l"
  then have "prefix ''  '' l" by (auto simp: prefix_def)
  moreover have "l ! 2 = CHR '' ''" using p by (auto simp: prefix_def)
  ultimately show ?thesis using block_not_ending by (simp add: sibling_def two_space_entry_def)
qed

lemma drop_server_block:
  assumes "plain_args server cmd args env"
  shows "drop_server (server_key server) (server_lines server cmd args env @ [[]]) = []"
proof -
  let ?B = "server_lines server cmd args env"
  have b: "?B = server_key server # tl ?B" by (simp add: server_lines_def)
  have "\<not> sibling []" by (simp add: sibling_def)
  then have "dropWhile (\<lambda>x. \<not> sibling x) (tl ?B @ [[]]) = []"
    using server_lines_shape(2) [OF assms] block_no_sibling by (auto simp: dropWhile_eq_Nil_conv)
  then show ?thesis by (subst b) (simp add: is_server_key_line_def)
qed

lemma drop_server_kept:
  "l \<in> set (drop_server key ls) \<Longrightarrow> \<not> is_server_key_line l key \<and> l \<in> set ls"
  by (induction key ls rule: drop_server.induct) (auto split: if_splits dest: set_dropWhileD)

lemma drop_server_skip:
  "\<forall>l \<in> set xs. \<not> is_server_key_line l key \<Longrightarrow> drop_server key (xs @ ys) = xs @ drop_server key ys"
  by (induction xs) auto

section \<open>What an upsert writes\<close>

definition framed :: "string \<Rightarrow> string list \<Rightarrow> string \<Rightarrow> string list \<Rightarrow> string list \<Rightarrow> bool" where
  \<comment> \<open>the lines around the block of a server: before the list, its line, other servers, what follows\<close>
  "framed server before m S A \<longleftrightarrow>
     (\<forall>l \<in> set before. \<not> servers_line l) \<and>
     servers_line m \<and> readable_servers_line m \<and> block_form m = m \<and>
     (\<forall>l \<in> set S. \<not> ends_region l \<and> \<not> is_server_key_line l (server_key server)) \<and>
     drop_trailing_blank S = S \<and>
     (A = [] \<or> (\<exists>x xs. A = [] # x # xs \<and> ends_region x \<and> last (x # xs) \<noteq> [])) \<and>
     (\<forall>l \<in> set (before @ [m] @ S @ A). one_line l)"

definition frame_text :: "string list \<Rightarrow> string \<Rightarrow> string list \<Rightarrow> string list \<Rightarrow> string list \<Rightarrow> string" where
  "frame_text before m S B A = join_lines (before @ [m] @ S @ B @ A @ [[]])"

lemma frame_lines:
  assumes "framed server before m S A" "plain_args server cmd args env" "B = server_lines server cmd args env"
  shows "text_lines (frame_text before m S B A) = before @ [m] @ S @ B @ A @ [[]]"
proof -
  let ?ls = "before @ [m] @ S @ B @ A @ [[]]"
  have clean: "\<forall>l \<in> set ?ls. newline \<notin> set l \<and> carriage \<notin> set l"
    using assms(1) server_lines_shape(1) [OF assms(2)] unfolding assms(3) framed_def by (auto simp: one_line_def)
  then have "carriage \<notin> set (frame_text before m S B A)"
    using set_join [of newline ?ls] unfolding frame_text_def join_lines_def by fastforce
  moreover have "split_on newline (join_lines ?ls) = ?ls"
    unfolding join_lines_def using clean by (intro split_join) auto
  ultimately show ?thesis by (simp add: text_lines_plain frame_text_def)
qed

lemma region_in_frame:
  assumes "framed server before m S A" "plain_args server cmd args env" "B = server_lines server cmd args env"
  shows "takeWhile (\<lambda>l. \<not> ends_region l) (S @ B @ A @ [[]]) = S @ B @ [[]]"
    "dropWhile (\<lambda>l. \<not> ends_region l) (S @ B @ A @ [[]]) = (if A = [] then [] else tl A @ [[]])"
proof -
  have SB: "\<forall>l \<in> set (S @ B). \<not> ends_region l"
    using assms(1) server_lines_shape(1) [OF assms(2)] block_not_ending unfolding assms(3) framed_def by auto
  have e: "\<not> ends_region []" by (simp add: ends_region_def)
  consider "A = []" | x xs where "A = [] # x # xs" "ends_region x" using assms(1) by (auto simp: framed_def)
  then have "takeWhile (\<lambda>l. \<not> ends_region l) ((S @ B) @ A @ [[]]) = S @ B @ [[]] \<and>
      dropWhile (\<lambda>l. \<not> ends_region l) ((S @ B) @ A @ [[]]) = (if A = [] then [] else tl A @ [[]])"
  proof cases
    case 1
    then show ?thesis using SB e by (simp add: takeWhile_append2 dropWhile_append2)
  next
    case 2
    then show ?thesis using SB e by (simp add: takeWhile_append2 dropWhile_append2)
  qed
  then show "takeWhile (\<lambda>l. \<not> ends_region l) (S @ B @ A @ [[]]) = S @ B @ [[]]"
    "dropWhile (\<lambda>l. \<not> ends_region l) (S @ B @ A @ [[]]) = (if A = [] then [] else tl A @ [[]])"
    by simp_all
qed

lemma upsert_frame:
  assumes "framed server before m S A" "plain_args server cmd args env" "B = server_lines server cmd args env"
  shows "upsert_yaml_server (frame_text before m S B A) server cmd args env = frame_text before m S B A"
proof -
  let ?ls = "before @ [m] @ S @ B @ A @ [[]]" and ?not = "\<lambda>l. \<not> servers_line l"
  note lines = frame_lines [OF assms] and region = region_in_frame [OF assms]
  have split: "takeWhile ?not ?ls = before" "dropWhile ?not ?ls = m # S @ B @ A @ [[]]"
    using assms(1) by (simp_all add: framed_def takeWhile_append2 dropWhile_append2)
  have stripped: "drop_trailing_blank (drop_server (server_key server) (S @ B @ [[]])) = S"
    using assms(1) drop_server_skip [of S "server_key server" "B @ [[]]"] drop_server_block [OF assms(2)]
    by (simp add: framed_def assms(3))
  note block = block_lines_read [OF assms(2), folded assms(3)]
  have clean: "\<forall>l \<in> set ?ls. newline \<notin> set l"
    using assms(1) server_lines_shape(1) [OF assms(2)] unfolding assms(3) framed_def by (auto simp: one_line_def)
  have m: "block_form m = m" using assms(1) by (simp add: framed_def)
  let ?A' = "if A = [] then [] else tl A @ [[]]"
  have sep: "(if ?A' \<noteq> [] \<and> \<not> blank (hd ?A') then [[]] else []) @ ?A' = (if A = [] then [] else A @ [[]])"
    using assms(1) by (auto simp: framed_def ends_region_def)
  have "strip_empty (before @ [m] @ S @ B @ (if A = [] then [] else A @ [[]])) = before @ [m] @ S @ B @ A"
  proof (cases "A = []")
    case True
    then show ?thesis using block(3,4) by (simp add: strip_empty_last)
  next
    case False
    then have "last (before @ [m] @ S @ B @ A) \<noteq> []" using assms(1) by (auto simp: framed_def)
    then show ?thesis using False strip_empty_simps(1) [of "before @ [m] @ S @ B @ A"]
      by (simp add: strip_empty_last)
  qed
  then have "trim_newlines (join_lines (before @ [m] @ S @ B @ (if A = [] then [] else A @ [[]]))) =
      join_lines (before @ [m] @ S @ B @ A)"
    using clean by (subst trim_newlines_join) auto
  moreover have "join_lines (before @ [m] @ S @ B @ A) @ [newline] = frame_text before m S B A"
    using join_newline [of "before @ [m] @ S @ B @ A" newline] by (simp add: frame_text_def join_lines_def)
  ultimately show ?thesis
    unfolding upsert_yaml_server_def Let_def lines split list.case region stripped m block(2)
    using sep by simp
qed

lemma upsert_is_framed:
  assumes c: "lf_text content" and a: "plain_args server cmd args env"
  obtains before m S A where "framed server before m S A"
    "upsert_yaml_server content server cmd args env = frame_text before m S (server_lines server cmd args env) A"
proof -
  let ?ls = "text_lines content" and ?not = "\<lambda>l. \<not> servers_line l" and ?B = "server_lines server cmd args env"
  define before where "before = takeWhile ?not ?ls"
  note block = block_lines_read [OF a]
  have clean: "\<forall>l \<in> set ?ls. one_line l" using text_lines_clean [OF c] by (auto simp: one_line_def)
  have clean_before: "\<forall>l \<in> set before. one_line l \<and> \<not> servers_line l"
    using clean by (auto simp: before_def dest: set_takeWhileD)
  show thesis
  proof (cases "dropWhile ?not ?ls")
    case Nil
    let ?rest = "strip_empty ?ls" and ?pre = "if strip_empty ?ls = [] then [] else strip_empty ?ls @ [[]]"
    have none: "\<forall>l \<in> set ?rest. one_line l \<and> \<not> servers_line l"
      using Nil clean set_strip_empty by (fastforce simp: dropWhile_eq_Nil_conv)
    have e: "\<not> servers_line []" "one_line []"
      by (simp_all add: servers_line_def has_prefix_def servers_key_def one_line_def)
    have key: "one_line servers_key" by (simp add: servers_key_def one_line_def)
    have "framed server ?pre servers_key [] []"
      unfolding framed_def using none e key servers_key_line by (auto simp: drop_trailing_blank_def)
    moreover have "upsert_yaml_server content server cmd args env = frame_text ?pre servers_key [] ?B []"
    proof -
      have base: "trim_newlines (join_lines ?ls) = join_lines ?rest"
        using clean by (intro trim_newlines_join) (auto simp: one_line_def)
      have empty: "join_lines ?rest = [] \<longleftrightarrow> ?rest = []"
      proof (cases ?rest rule: rev_cases)
        case (snoc ys y)
        then show ?thesis using strip_empty_cases [of ?ls] last_join [of y "[newline]" ys] by (simp add: join_lines_def)
      qed (simp add: join_lines_def)
      have tail: "join_lines (xs @ servers_key # ?B @ [[]]) =
          (if xs = [] then [] else join_lines xs @ [newline]) @ servers_key @ [newline] @ join_lines (?B @ [[]])" for xs
      proof (induction xs)
        case Nil
        then show ?case using block(3) by (cases ?B) (simp_all add: join_lines_def)
      next
        case (Cons x xs)
        then show ?case by (cases xs) (simp_all add: join_lines_def)
      qed
      show ?thesis
      proof (cases "?rest = []")
        case True
        then show ?thesis using empty tail [of "[]"]
          unfolding upsert_yaml_server_def Let_def Nil list.case base block(1) by (simp add: frame_text_def)
      next
        case False
        then have "join_lines (?rest @ [[]]) = join_lines ?rest @ [newline]"
          unfolding join_lines_def by (rule join_newline)
        then show ?thesis using False empty tail [of "?rest @ [[]]"]
          unfolding upsert_yaml_server_def Let_def Nil list.case base block(1) by (simp add: frame_text_def)
      qed
    qed
    ultimately show ?thesis by (rule that)
  next
    case (Cons m rest)
    let ?in = "\<lambda>l. \<not> ends_region l"
    define S where "S = drop_trailing_blank (drop_server (server_key server) (takeWhile ?in rest))"
    define after where "after = dropWhile ?in rest"
    define A where "A = (if after = [] then [] else [] # strip_empty after)"
    have m: "servers_line m" using Cons by (auto simp: dropWhile_eq_Cons_conv)
    have rest: "set (m # rest) \<subseteq> set ?ls" using Cons by (metis set_dropWhileD subsetI)
    have clean_m: "one_line (block_form m)"
    proof -
      have "set (trim_prefix m servers_key) \<subseteq> set m" by (auto simp: trim_prefix_def dest: in_set_dropD)
      then have "set (trim_prefix (trim_space (drop i (trim_prefix m servers_key))) ''# '') \<subseteq> set m" for i
        using set_trim_space [of "drop i (trim_prefix m servers_key)"]
        by (auto simp: trim_prefix_def dest!: in_set_dropD)
      then show ?thesis using rest clean
        by (auto simp: block_form_def Let_def one_line_def servers_key_def split: option.splits)
    qed
    have S: "\<forall>l \<in> set S. one_line l \<and> \<not> ends_region l \<and> \<not> is_server_key_line l (server_key server)"
      using rest clean unfolding S_def drop_trailing_blank_def
      by (auto dest!: set_dropWhileD drop_server_kept set_takeWhileD)
    have idem: "drop_trailing_blank S = S" by (simp add: S_def drop_trailing_blank_def dropWhile_idem)
    have after: "after = [] \<or> ends_region (hd after)" using hd_dropWhile [of ?in rest] by (auto simp: after_def)
    have clean_after: "\<forall>l \<in> set after. one_line l"
      using rest clean by (auto simp: after_def dest!: set_dropWhileD)
    have A: "A = [] \<or> (\<exists>x xs. A = [] # x # xs \<and> ends_region x \<and> last (x # xs) \<noteq> [])"
    proof (cases after)
      case (Cons x xs)
      then have x: "ends_region x" "x \<noteq> []" using after by (auto simp: ends_region_def)
      have "strip_empty (x # xs) = x # (if strip_empty xs = [] then [] else strip_empty xs)"
        using x(2) strip_empty_append [of xs "[x]"]
        by (cases "strip_empty xs = []") (auto simp: strip_empty_def dropWhile_append dropWhile_eq_Nil_conv)
      then show ?thesis using Cons x strip_empty_cases [of "x # xs"] by (auto simp: A_def)
    qed (simp add: A_def)
    have clean_A: "\<forall>l \<in> set A. one_line l"
    proof -
      have "one_line []" by (simp add: one_line_def)
      then show ?thesis using clean_after set_strip_empty [of after] by (auto simp: A_def)
    qed
    have "framed server before (block_form m) S A"
      unfolding framed_def using clean_before clean_m S idem A clean_A block_form_settles [OF m] by auto
    moreover have "upsert_yaml_server content server cmd args env = frame_text before (block_form m) S ?B A"
    proof -
      let ?sep = "if after \<noteq> [] \<and> \<not> blank (hd after) then [[]] else []"
      let ?kept = "before @ [block_form m] @ S @ ?B"
      have "strip_empty (?kept @ ?sep @ after) = ?kept @ A"
      proof (cases "after = []")
        case True
        then show ?thesis using block(3,4) by (simp add: A_def strip_empty_last)
      next
        case False
        then have "A \<noteq> []" "\<not> blank (hd after)" using after by (auto simp: A_def ends_region_def)
        then have "strip_empty after \<noteq> []" using A False by (auto simp: A_def)
        then have "strip_empty ((?kept @ [[]]) @ after) = (?kept @ [[]]) @ strip_empty after"
          by (rule strip_empty_append)
        then show ?thesis using False \<open>\<not> blank (hd after)\<close> by (simp add: A_def)
      qed
      moreover have "\<forall>l \<in> set (?kept @ ?sep @ after). newline \<notin> set l"
        using clean_before clean_m S clean_after server_lines_shape(1) [OF a] by (auto simp: one_line_def)
      ultimately have "trim_newlines (join_lines (?kept @ ?sep @ after)) = join_lines (?kept @ A)"
        by (simp add: trim_newlines_join)
      moreover have "join_lines (?kept @ A) @ [newline] = frame_text before (block_form m) S ?B A"
        using join_newline [of "?kept @ A" newline] by (simp add: frame_text_def join_lines_def)
      ultimately show ?thesis
        unfolding upsert_yaml_server_def Let_def Cons list.case block(2)
        unfolding before_def [symmetric] S_def [symmetric] after_def [symmetric] by simp
    qed
    ultimately show ?thesis by (rule that)
  qed
qed

lemma frame_read:
  assumes "framed server before m S A" "plain_args server cmd args env" "B = server_lines server cmd args env"
    and "\<not> skipped_line (server_key server)"
  shows "read_yaml_command (frame_text before m S B A) server = command_of (tl B @ [[]])"
proof -
  let ?ls = "before @ [m] @ S @ B @ A @ [[]]" and ?key = "is_server_key_line"
  have "\<forall>l \<in> set before. \<not> readable_servers_line l" using assms(1) by (auto simp: framed_def readable_servers_line_def)
  then have "dropWhile (\<lambda>l. \<not> readable_servers_line l) ?ls = m # S @ B @ A @ [[]]"
    using assms(1) by (simp add: framed_def dropWhile_append2)
  moreover have "dropWhile (\<lambda>l. skipped_line l \<or> \<not> ?key l (server_key server)) (S @ B @ [[]]) =
      server_key server # tl B @ [[]]"
  proof -
    have "B = server_key server # tl B" by (simp add: assms(3) server_lines_def)
    moreover have "?key (server_key server) (server_key server)" by (simp add: is_server_key_line_def)
    ultimately have "dropWhile (\<lambda>l. skipped_line l \<or> \<not> ?key l (server_key server)) (B @ [[]]) = B @ [[]]"
      using assms(4) by (metis append_Cons dropWhile.simps(2))
    then have "dropWhile (\<lambda>l. skipped_line l \<or> \<not> ?key l (server_key server)) (S @ B @ [[]]) = B @ [[]]"
      using assms(1) by (simp add: framed_def dropWhile_append2)
    then show ?thesis by (simp add: assms(3) server_lines_def)
  qed
  ultimately show ?thesis
    unfolding read_yaml_command_def frame_lines [OF assms(1-3)] using region_in_frame(1) [OF assms(1-3)] by simp
qed

definition plain_command :: "string \<Rightarrow> bool" where
  \<comment> \<open>a command that needs no quotes in YAML\<close>
  "plain_command cmd \<longleftrightarrow>
     cmd \<noteq> [] \<and> one_line cmd \<and> edge_char (hd cmd) \<and> edge_char (last cmd) \<and>
     hd cmd \<noteq> dquote \<and> hd cmd \<noteq> squote \<and> find_sub cmd '' #'' = None"

definition plain_server :: "string \<Rightarrow> bool" where
  "plain_server server \<longleftrightarrow> server \<noteq> [] \<and> one_line server \<and> edge_char (hd server) \<and> hd server \<noteq> CHR ''#''"

lemma plain_key_read: "plain_server server \<Longrightarrow> \<not> skipped_line (server_key server)"
proof -
  assume s: "plain_server server"
  have "trim_space (server_key server) = trim_space (server @ '':'')"
    by (simp add: server_key_def trim_space_blank)
  also have "\<dots> = server @ '':''"
    using s by (intro trim_edges) (auto simp: plain_server_def edge_char_def between_def byte_def)
  finally show ?thesis using s
    by (cases server) (auto simp: skipped_line_def blank_def comment_line_def has_prefix_def plain_server_def)
qed

lemma command_line_read:
  assumes "plain_command cmd"
  shows "command_of ((''    command: '' @ cmd) # ls) = Some cmd"
proof -
  have cmd: "trim_space cmd = cmd" using assms by (intro trim_edges) (auto simp: plain_command_def)
  have "trim_space (''    command: '' @ cmd) = trim_space (''command: '' @ cmd)" by (simp add: trim_space_blank)
  also have "\<dots> = ''command: '' @ cmd"
    using assms by (intro trim_edges) (auto simp: plain_command_def edge_char_def between_def byte_def)
  finally have t: "trim_space (''    command: '' @ cmd) = ''command: '' @ cmd" .
  have rest: "trim_space (trim_prefix (''command: '' @ cmd) ''command:'') = cmd"
    using cmd by (simp add: trim_prefix_def trim_space_blank)
  have "command_scalar cmd = cmd"
    using assms cmd by (simp add: command_scalar_def starts_quoted_def plain_command_def strip_inline_comment_def)
  then show ?thesis using assms
    unfolding command_of.simps Let_def t rest skipped_line_def blank_def comment_line_def two_space_entry_def
    by (simp add: has_prefix_def plain_command_def)
qed

text \<open>C21: Upserting a server twice is upserting it once, whatever the file held, and the command that was
  written is the command a later run reads back, for a command and a name that need no quotes.\<close>

theorem yaml_upsert_settles:
  assumes "lf_text content" "plain_args server cmd args env" "plain_server server" "plain_command cmd"
  shows "upsert_yaml_server (upsert_yaml_server content server cmd args env) server cmd args env =
      upsert_yaml_server content server cmd args env \<and>
    read_yaml_command (upsert_yaml_server content server cmd args env) server = Some cmd"
proof -
  let ?B = "server_lines server cmd args env"
  obtain before m S A where frame: "framed server before m S A"
      "upsert_yaml_server content server cmd args env = frame_text before m S ?B A"
    using upsert_is_framed [OF assms(1,2)] by blast
  have "tl ?B @ [[]] = (''    command: '' @ cmd) # tl (tl ?B) @ [[]]" by (simp add: server_lines_def)
  then have "read_yaml_command (frame_text before m S ?B A) server = Some cmd"
    using frame_read [OF frame(1) assms(2) refl plain_key_read [OF assms(3)]] command_line_read [OF assms(4)] by metis
  then show ?thesis using upsert_frame [OF frame(1) assms(2) refl] frame(2) by simp
qed

lemma yaml_upsert_settles_witness:
  "plain_command ''/usr/bin/e'' \<and>
   read_yaml_command (upsert_yaml_server (''mcp_servers: {} # mine'' @ newline # ''  engram:'') ''engram'' ''/usr/bin/e''
     [''mcp''] fmempty) ''engram'' = Some ''/usr/bin/e''"
proof -
  have "lf_text (''mcp_servers: {} # mine'' @ newline # ''  engram:'')" by code_simp
  moreover have "plain_args ''engram'' ''/usr/bin/e'' [''mcp''] fmempty" by (simp add: plain_args_def one_line_def)
  moreover have "plain_server ''engram''" "plain_command ''/usr/bin/e''" by code_simp+
  ultimately show ?thesis
    using yaml_upsert_settles [of "''mcp_servers: {} # mine'' @ newline # ''  engram:''" "''engram''"
        "''/usr/bin/e''" "[''mcp'']" fmempty] by blast
qed

text \<open>A comment that stands below the block of the server, before the next top-level key, is deleted with it.\<close>

theorem yaml_upsert_drops_comment:
  assumes "one_line note" "one_line key" "key \<noteq> []" "edge_char (hd key)" "hd key \<noteq> CHR ''#''"
  shows "upsert_hermes_engram
      (join_lines [''mcp_servers:'', ''  engram:'', ''    command: engram'', ''#'' @ note, key @ '': on'', []]) [] =
    join_lines [''mcp_servers:'', ''  engram:'', ''    command: engram'', ''    args:'', ''      - mcp'',
      ''      - --tools=agent'', [], key @ '': on'', []]"
proof -
  define n where "n = CHR ''#'' # note"
  define k where "k = key @ '': on''"
  let ?ls = "[''mcp_servers:'', ''  engram:'', ''    command: engram'', n, k, []]"
  have clean: "\<forall>l \<in> set ?ls. newline \<notin> set l \<and> carriage \<notin> set l"
    using assms by (simp add: n_def k_def one_line_def)
  then have lines: "text_lines (join_lines ?ls) = ?ls"
    using set_join [of newline ?ls] text_lines_plain [of "join_lines ?ls"] split_join [of ?ls newline]
    unfolding join_lines_def by fastforce
  have fixed: "servers_line ''mcp_servers:''" "block_form ''mcp_servers:'' = ''mcp_servers:''"
    "\<not> ends_region ''  engram:''" "\<not> ends_region ''    command: engram''" "\<not> sibling ''    command: engram''"
    "is_server_key_line ''  engram:'' (server_key ''engram'')" by code_simp+
  have "trim_space n = CHR ''#'' # trim_right note" by (simp add: n_def trim_hash)
  then have n: "\<not> ends_region n" by (simp add: ends_region_def comment_line_def has_prefix_def)
  then have n': "\<not> sibling n" by (simp add: sibling_def two_space_entry_def n_def)
  have "trim_space k = k" unfolding k_def using assms(3,4)
    by (intro trim_edges) (simp_all add: edge_char_def between_def byte_def)
  moreover obtain c cs where "k = c # cs" "edge_char c" "c \<noteq> CHR ''#''"
    using assms(3-5) by (cases key) (auto simp: k_def)
  ultimately have k: "ends_region k" "k \<noteq> []" "\<not> blank k"
    by (auto simp: ends_region_def blank_def comment_line_def has_prefix_def leading_space_def
        edge_char_def between_def byte_def)
  have args: "plain_args ''engram'' ''engram'' [''mcp'', ''--tools=agent''] fmempty"
    by (simp add: plain_args_def one_line_def)
  have B: "split_on newline (trim_newlines (build_server_block ''engram'' ''engram'' [''mcp'', ''--tools=agent''] fmempty)) =
      [''  engram:'', ''    command: engram'', ''    args:'', ''      - mcp'', ''      - --tools=agent'']"
    unfolding block_lines_read(2) [OF args] by (simp add: server_lines_def server_key_def)
  let ?out = "[''mcp_servers:'', ''  engram:'', ''    command: engram'', ''    args:'', ''      - mcp'',
      ''      - --tools=agent'', [], k]"
  have "upsert_hermes_engram (join_lines ?ls) [] = trim_newlines (join_lines (?out @ [[]])) @ [newline]"
    unfolding upsert_hermes_engram_def upsert_yaml_server_def Let_def lines
    by (simp add: fixed n n' k drop_trailing_blank_def B)
  also have "trim_newlines (join_lines (?out @ [[]])) = join_lines ?out"
    using clean k(2) by (subst trim_newlines_join) (simp_all only: strip_empty_simps(1), simp_all add: strip_empty_last)
  also have "join_lines ?out @ [newline] = join_lines (?out @ [[]])"
    unfolding join_lines_def by (simp only: join_newline list.distinct not_False_eq_True)
  finally show ?thesis by (simp add: n_def k_def)
qed

end
