(* ===== verification/JsonMerge.thy ===== *)
theory JsonMerge
  imports GoStrings "HOL-Library.Finite_Map"
begin

text \<open>
  The JSON merging of filemerge (json_merge.go): comments and trailing commas are stripped, an overlay
  is merged into the user's object, and a nested object may ask to replace instead. The decoder and the
  encoder of \<^verbatim>\<open>encoding/json\<close> are parameters; a number is its text.
\<close>

section \<open>Stripping\<close>

datatype json_scan = InCode | InString bool | InLineComment | InBlockComment

definition in_string_after :: "bool \<Rightarrow> char \<Rightarrow> json_scan" where
  \<comment> \<open>the state after a byte of a string; the flag is a pending escape\<close>
  "in_string_after escaped c =
     (if escaped then InString False
      else if c = CHR 0x5C then InString True
      else if c = CHR 0x22 then InCode else InString False)"

fun strip_json_comments :: "json_scan \<Rightarrow> string \<Rightarrow> string" where
  "strip_json_comments st [] = []"
| "strip_json_comments InLineComment (c # s) =
     (if c = newline then c # strip_json_comments InCode s else strip_json_comments InLineComment s)"
| "strip_json_comments InBlockComment (c # s) =
     (if c = CHR ''*'' \<and> prefix ''/'' s then strip_json_comments InCode (drop 1 s)
      else strip_json_comments InBlockComment s)"
| "strip_json_comments (InString escaped) (c # s) = c # strip_json_comments (in_string_after escaped c) s"
| "strip_json_comments InCode (c # s) =
     (if c = CHR 0x22 then c # strip_json_comments (InString False) s
      else if c = CHR ''/'' \<and> prefix ''/'' s then strip_json_comments InLineComment (drop 1 s)
      else if c = CHR ''/'' \<and> prefix ''*'' s then strip_json_comments InBlockComment (drop 1 s)
      else c # strip_json_comments InCode s)"

definition closes_after_space :: "string \<Rightarrow> bool" where
  "closes_after_space s \<longleftrightarrow>
     (case dropWhile (\<lambda>c. c \<in> set [CHR '' '', CHR 0x09, newline, carriage]) s of [] \<Rightarrow> False
      | c # _ \<Rightarrow> c = CHR ''}'' \<or> c = CHR '']'')"

fun strip_trailing_commas :: "json_scan \<Rightarrow> string \<Rightarrow> string" where
  \<comment> \<open>a zero byte outside strings is dropped too\<close>
  "strip_trailing_commas st [] = []"
| "strip_trailing_commas (InString escaped) (c # s) = c # strip_trailing_commas (in_string_after escaped c) s"
| "strip_trailing_commas st (c # s) =
     (if c = CHR 0x22 then c # strip_trailing_commas (InString False) s
      else if c = CHR '','' \<and> closes_after_space s \<or> c = CHR 0x00 then strip_trailing_commas st s
      else c # strip_trailing_commas st s)"

definition normalize_json :: "string \<Rightarrow> string" where
  "normalize_json raw = strip_trailing_commas InCode (strip_json_comments InCode raw)"

section \<open>Merging\<close>

datatype any_value =
    AnyNull | AnyBool bool | AnyNumber string | AnyText string
  | AnyList "any_value list" | AnyMap "(string, any_value) fmap"

type_synonym any_object = "(string, any_value) fmap"

definition replace_key :: string where "replace_key = ''__replace__''"

fun as_sentinel :: "any_value \<Rightarrow> any_value option" where
  \<comment> \<open>an object whose only key asks for replacement\<close>
  "as_sentinel (AnyMap m) = (if fmdom m = {|replace_key|} then fmlookup m replace_key else None)"
| "as_sentinel _ = None"

definition overlay_keys ::
  "any_object \<Rightarrow> (string, any_value option \<Rightarrow> any_value) fmap \<Rightarrow> any_object \<Rightarrow> any_object" where
  \<comment> \<open>the base, with each key of the overlay replaced or merged\<close>
  "overlay_keys overlay mergers base =
     base ++\<^sub>f fmmap_keys (\<lambda>k v. case as_sentinel v of Some r \<Rightarrow> r
                         | None \<Rightarrow> the (fmlookup mergers k) (fmlookup base k)) overlay"

primrec merge_value :: "any_value \<Rightarrow> any_value option \<Rightarrow> any_value" where
  \<comment> \<open>an overlay value over the base value of its key: two objects are merged, an object without a base is
    merged into an empty one, anything else is taken as it is\<close>
  "merge_value AnyNull = (\<lambda>_. AnyNull)"
| "merge_value (AnyBool b) = (\<lambda>_. AnyBool b)"
| "merge_value (AnyNumber n) = (\<lambda>_. AnyNumber n)"
| "merge_value (AnyText s) = (\<lambda>_. AnyText s)"
| "merge_value (AnyList vs) = (\<lambda>_. AnyList vs)"
| "merge_value (AnyMap overlay) =
     (\<lambda>base. case base of
        None \<Rightarrow> AnyMap (overlay_keys overlay (fmmap merge_value overlay) fmempty)
      | Some v \<Rightarrow>
          (case v of AnyMap m \<Rightarrow> AnyMap (overlay_keys overlay (fmmap merge_value overlay) m)
           | _ \<Rightarrow> AnyMap overlay))"

definition merge_objects :: "any_object \<Rightarrow> any_object \<Rightarrow> any_object" where
  "merge_objects base overlay = overlay_keys overlay (fmmap merge_value overlay) base"

definition unmarshal_object :: "(string \<Rightarrow> any_object option) \<Rightarrow> string \<Rightarrow> any_object option" where
  "unmarshal_object decode raw =
     (if trim_space raw = [] then Some fmempty
      else case decode raw of Some m \<Rightarrow> Some m | None \<Rightarrow> decode (normalize_json raw))"

definition merge_json_objects ::
  "(string \<Rightarrow> any_object option) \<Rightarrow> (any_object \<Rightarrow> string) \<Rightarrow> string \<Rightarrow> string \<Rightarrow> string option" where
  "merge_json_objects decode encode base overlay =
     (let b = (case unmarshal_object decode base of None \<Rightarrow> fmempty | Some m \<Rightarrow> m) in
      case unmarshal_object decode overlay of None \<Rightarrow> None
      | Some m \<Rightarrow> Some (encode (merge_objects b m) @ [newline]))"

section \<open>Paths\<close>

lemma merge_lookup:
  "fmlookup (merge_objects base overlay) k =
     (case fmlookup overlay k of None \<Rightarrow> fmlookup base k
      | Some v \<Rightarrow> Some (case as_sentinel v of Some r \<Rightarrow> r | None \<Rightarrow> merge_value v (fmlookup base k)))"
  by (auto simp: merge_objects_def overlay_keys_def split: option.splits)

lemma merge_value_map:
  "merge_value (AnyMap overlay) base =
     (case base of None \<Rightarrow> AnyMap (merge_objects fmempty overlay)
      | Some v \<Rightarrow> (case v of AnyMap m \<Rightarrow> AnyMap (merge_objects m overlay) | _ \<Rightarrow> AnyMap overlay))"
  by (simp add: merge_objects_def split: option.split any_value.split)

declare merge_value.simps(6) [simp del]

fun value_at :: "string list \<Rightarrow> any_object \<Rightarrow> any_value option" where
  \<comment> \<open>the value at a path of keys\<close>
  "value_at [] m = Some (AnyMap m)"
| "value_at (k # p) m =
     (case fmlookup m k of None \<Rightarrow> None
      | Some v \<Rightarrow> (if p = [] then Some v else case v of AnyMap m' \<Rightarrow> value_at p m' | _ \<Rightarrow> None))"

fun leaves_alone :: "string list \<Rightarrow> any_object \<Rightarrow> bool" where
  \<comment> \<open>an overlay that has no value on the path\<close>
  "leaves_alone [] overlay = False"
| "leaves_alone (k # p) overlay =
     (case fmlookup overlay k of None \<Rightarrow> True
      | Some v \<Rightarrow> as_sentinel v = None \<and> (case v of AnyMap m \<Rightarrow> leaves_alone p m | _ \<Rightarrow> False))"

fun sets :: "string list \<Rightarrow> any_object \<Rightarrow> any_value option" where
  \<comment> \<open>the value an overlay sets on a path: one that is no object, or a replacement\<close>
  "sets [] overlay = None"
| "sets (k # p) overlay =
     (case fmlookup overlay k of None \<Rightarrow> None
      | Some v \<Rightarrow>
          (case as_sentinel v of Some r \<Rightarrow> if p = [] then Some r else None
           | None \<Rightarrow> (case v of AnyMap m \<Rightarrow> sets p m | _ \<Rightarrow> if p = [] then Some v else None)))"

fun open_path :: "string list \<Rightarrow> any_object \<Rightarrow> bool" where
  \<comment> \<open>only objects, or nothing, on the way to the path's end\<close>
  "open_path [] base = True"
| "open_path (k # p) base =
     (p = [] \<or> (case fmlookup base k of None \<Rightarrow> True | Some v \<Rightarrow> (case v of AnyMap m \<Rightarrow> open_path p m | _ \<Rightarrow> False)))"

lemma open_path_empty [simp]: "open_path p fmempty"
  by (cases p) simp_all

lemma value_at_empty: "p \<noteq> [] \<Longrightarrow> value_at p fmempty = None"
  by (cases p) simp_all

lemma alone_absent: "leaves_alone p overlay \<Longrightarrow> value_at p overlay = None"
proof (induction p arbitrary: overlay)
  case (Cons k p)
  show ?case
  proof (cases "fmlookup overlay k")
    case (Some v)
    then obtain m where "v = AnyMap m" "leaves_alone p m" using Cons.prems by (auto split: any_value.splits)
    then show ?thesis using Some Cons.IH by auto
  qed simp
qed simp

lemma merge_keeps: "leaves_alone p overlay \<Longrightarrow> value_at p (merge_objects base overlay) = value_at p base"
proof (induction p arbitrary: overlay base)
  case (Cons k p)
  show ?case
  proof (cases "fmlookup overlay k")
    case None
    then show ?thesis by (simp add: merge_lookup)
  next
    case (Some v)
    then obtain m where v: "v = AnyMap m" "as_sentinel v = None" "leaves_alone p m"
      using Cons.prems by (auto split: any_value.splits)
    then have p: "p \<noteq> []" by auto
    have "fmlookup (merge_objects base overlay) k = Some (merge_value (AnyMap m) (fmlookup base k))"
      using Some v by (simp add: merge_lookup)
    then show ?thesis
      using p alone_absent [OF v(3)] Cons.IH [OF v(3)] value_at_empty [OF p]
      by (auto simp: merge_value_map split: option.split any_value.split)
  qed
qed simp

lemma merge_sets: "sets p overlay = Some v \<Longrightarrow> open_path p base \<Longrightarrow> value_at p (merge_objects base overlay) = Some v"
proof (induction p arbitrary: overlay base)
  case (Cons k p)
  obtain w where w: "fmlookup overlay k = Some w" using Cons.prems(1) by (auto split: option.splits)
  show ?case
  proof (cases "as_sentinel w")
    case (Some r)
    then show ?thesis using w Cons.prems by (auto simp: merge_lookup split: if_splits)
  next
    case None
    show ?thesis
    proof (cases "\<exists>m. w = AnyMap m")
      case True
      then obtain m where m: "w = AnyMap m" by blast
      then have s: "sets p m = Some v" using Cons.prems(1) w None by simp
      then have p: "p \<noteq> []" by auto
      have "fmlookup (merge_objects base overlay) k = Some (merge_value (AnyMap m) (fmlookup base k))"
        using w m None by (simp add: merge_lookup)
      then show ?thesis using p Cons.prems(2) Cons.IH [OF s]
        by (auto simp: merge_value_map split: option.splits any_value.splits)
    next
      case False
      then have "merge_value w b = w" for b by (cases w) auto
      then show ?thesis using w None False Cons.prems(1)
        by (cases w) (auto simp: merge_lookup split: if_splits)
    qed
  qed
qed simp

lemma merge_blocked:
  "sets p overlay = Some v \<Longrightarrow> \<not> open_path p base \<Longrightarrow>
   value_at p (merge_objects base overlay) = value_at p overlay"
proof (induction p arbitrary: overlay base)
  case (Cons k p)
  then have p: "p \<noteq> []" by auto
  obtain w where w: "fmlookup overlay k = Some w" using Cons.prems(1) by (auto split: option.splits)
  have n: "as_sentinel w = None" using Cons.prems(1) w p by (auto split: option.splits if_splits)
  obtain m where m: "w = AnyMap m" using Cons.prems(1) w n p by (auto split: any_value.splits)
  then have s: "sets p m = Some v" using Cons.prems(1) w n by simp
  have l: "fmlookup (merge_objects base overlay) k = Some (merge_value (AnyMap m) (fmlookup base k))"
    using w m n by (simp add: merge_lookup)
  obtain b where b: "fmlookup base k = Some b" using Cons.prems(2) by (auto split: option.splits)
  show ?case
  proof (cases "\<exists>m. b = AnyMap m")
    case True
    then obtain o' where o': "b = AnyMap o'" by blast
    then have "\<not> open_path p o'" using Cons.prems(2) b by simp
    from Cons.IH [OF s this] show ?thesis using p l w m b o' by (simp add: merge_value_map)
  next
    case False
    then have "merge_value (AnyMap m) (fmlookup base k) = AnyMap m"
      using b by (cases b) (simp_all add: merge_value_map)
    then show ?thesis using p l w m by simp
  qed
qed simp

text \<open>C20: Merging an overlay into the user's object keeps the value of every path the overlay does not set.
  A path it sets, with a plain value or a replacement, gets that value where the user's file holds only
  objects, or nothing, on the way there. Where a value that is no object stands in the way, the
  overlay's object is written over it as it is: the path then holds what the overlay holds, which for a
  replacement is the request itself.\<close>

theorem json_merge_by_path:
  assumes "leaves_alone p overlay" "sets q overlay = Some v"
  shows "value_at p (merge_objects base overlay) = value_at p base \<and>
    value_at q (merge_objects base overlay) = (if open_path q base then Some v else value_at q overlay)"
  using merge_keeps [OF assms(1)] merge_sets [OF assms(2)] merge_blocked [OF assms(2)] by simp

lemma json_merge_by_path_witness:
  "let base = fmupd ''theme'' (AnyText ''dark'') fmempty;
       blocked = fmupd ''mcp'' AnyNull base;
       replacement = AnyMap (fmupd replace_key (AnyBool True) fmempty);
       overlay = fmupd ''mcp'' (AnyMap (fmupd ''engram'' replacement fmempty)) fmempty
   in value_at [''theme''] (merge_objects base overlay) = value_at [''theme''] base \<and>
      value_at [''mcp'', ''engram''] (merge_objects base overlay) = Some (AnyBool True) \<and>
      value_at [''mcp'', ''engram''] (merge_objects blocked overlay) = Some replacement"
proof -
  let ?base = "fmupd ''theme'' (AnyText ''dark'') fmempty"
  let ?overlay = "fmupd ''mcp'' (AnyMap (fmupd ''engram'' (AnyMap (fmupd replace_key (AnyBool True) fmempty)) fmempty)) fmempty"
  have "leaves_alone [''theme''] ?overlay" by simp
  moreover have "sets [''mcp'', ''engram''] ?overlay = Some (AnyBool True)" by (simp add: replace_key_def)
  ultimately show ?thesis
    using json_merge_by_path [of "[''theme'']" ?overlay "[''mcp'', ''engram'']" "AnyBool True" ?base]
      json_merge_by_path [of "[''theme'']" ?overlay "[''mcp'', ''engram'']" "AnyBool True" "fmupd ''mcp'' AnyNull ?base"]
    unfolding Let_def by simp
qed

text \<open>Where the user's value is no object, a replacement inside the overlay's object is not carried out: the
  request itself is written to the file.\<close>

theorem replacement_leaks:
  assumes "fmlookup base k = Some old" "\<forall>m. old \<noteq> AnyMap m"
    and "fmlookup overlay k = Some (AnyMap inner)" "as_sentinel (AnyMap inner) = None"
  shows "fmlookup (merge_objects base overlay) k = Some (AnyMap inner)"
proof (cases old)
  case (AnyMap m)
  then show ?thesis using assms(2) by blast
qed (use assms in \<open>simp_all add: merge_lookup merge_value_map del: as_sentinel.simps\<close>)

end
