(* ===== verification/Spec2Isabelle.thy ===== *)
theory Spec2Isabelle
  imports CompactProps StoreProps V1Props PlannerProps PipelineProps SectionProps ReceiptProps RiskProps SddBoundProps Yaml JsonMerge
begin

text \<open>
  A verification library for gentle-ai, a Go program that installs and configures AI coding agents
  and keeps the review authority of a repository: which change was reviewed, what was found, what was
  corrected, and whether the result may be delivered.

  \<^bold>\<open>The program.\<close> A review freezes a snapshot of a change (\<^verbatim>\<open>snapshot.go\<close>), grades its risk
  (\<^verbatim>\<open>risk.go\<close>), runs lenses over it, routes their findings by evidence, allows one bounded
  correction, verifies the result and ends approved, escalated or invalidated. Two generations of
  that lifecycle live in \<^verbatim>\<open>internal/reviewtransaction\<close>: the compact v2 state (\<^verbatim>\<open>compact.go\<close>,
  committed by compare-and-swap in \<^verbatim>\<open>compact_store.go\<close>) and the v1 transaction
  (\<^verbatim>\<open>transaction.go\<close>, persisted as a chain of events by \<^verbatim>\<open>store.go\<close>). A terminal authority
  yields a receipt, and a gate (\<^verbatim>\<open>receipt.go\<close>, \<^verbatim>\<open>gate.go\<close>) lets a delivery through when the
  receipt matches the repository. Spec-driven development keeps a second authority, the ledger of
  the attempts made at a change and of the review bound to it (\<^verbatim>\<open>internal/sddstatus\<close>). Beside them
  stands the installer: a planner that orders components
  (\<^verbatim>\<open>internal/planner\<close>), a pipeline that runs and rolls back steps (\<^verbatim>\<open>internal/pipeline\<close>), and
  the merging of managed sections into the user's files (\<^verbatim>\<open>internal/components/filemerge\<close>).

  \<^bold>\<open>Theories.\<close> Each theory opens with a paragraph that says what it holds.
  \<^item> Foundations: \<open>Prelude\<close> (slices, maps and 64-bit integers of Go, validators as lists of guards),
    \<open>GoText\<close> and \<open>GoStrings\<close> (byte strings), \<open>Sha256\<close>, \<open>Json\<close> (the encoding that is hashed),
    \<open>Canonical\<close> (logical paths and canonical lists).
  \<^item> Shared review data: \<open>ReviewTypes\<close>, \<open>ReviewChecks\<close>, \<open>RecoveryProofs\<close>, \<open>GateContext\<close>, with
    their laws in \<open>ReviewLaws\<close>.
  \<^item> The compact review: \<open>CompactState\<close>, \<open>CompactValidate\<close> and \<open>CompactCorrection\<close> are the state and
    \<^verbatim>\<open>CompactState.Validate\<close>; \<open>CompactOps\<close> holds one function per method of compact.go;
    \<open>CompactStore\<close> the successor check and the commit, which refuses records of an older build;
    \<open>CompactReopen\<close> the reopening of reviewer results (compact_result_reopen.go) and the disposal of a
    preserved one (compact_result_disposition.go), which with the methods are the steps of a review
    (\<open>review_step\<close>). \<open>CompactRouting\<close>,
    \<open>CompactReview\<close>, \<open>ReviewSpec\<close>, \<open>ReviewAccepted\<close>, \<open>CompactMachine\<close>, \<open>CompactSafety\<close>,
    \<open>CompactProgress\<close> and \<open>CompactApproval\<close> prove it correct; the properties are in
    \<open>CompactProps\<close> and \<open>StoreProps\<close>, the concrete review they are tried on in \<open>Samples\<close>.
  \<^item> The v1 transaction: \<open>V1State\<close>, \<open>V1Ops\<close>, \<open>V1Fix\<close> (the methods of transaction.go),
    \<open>V1Validate\<close>, \<open>V1Store\<close> (the successor check of store.go); \<open>V1Machine\<close>,
    \<open>V1Commit\<close>, \<open>V1Laws\<close>, \<open>V1Samples\<close> and \<open>V1Props\<close> for the proofs; \<open>V1Props\<close> also has the checks
    of \<^verbatim>\<open>Store.append\<close> (\<open>append_refusal\<close>).
  \<^item> The contracts of \<open>Prelude\<close>: \<open>paced\<close> (steps that keep an invariant and a scope and use up a rank,
    except as far as a credit pays for it) and \<open>lifecycle\<close> (without credit). \<open>CompactMachine\<close> and
    \<open>V1Machine\<close> interpret the second, \<open>CompactReopen\<close> the first with two steps of credit for each
    reopening; the bounds on runs and the frozen scope rest on their facts.
  \<^item> \<open>Receipt\<close> and \<open>ReceiptProps\<close>: the v1 receipt and the decision of the delivery gate.
  \<^item> \<open>Risk\<close> and \<open>RiskProps\<close>: the whole of risk.go.
  \<^item> The runtime ledger (runtime_ledger.go, review_binding.go): \<open>LedgerTypes\<close> (requests, status, binding),
    \<open>LedgerReplay\<close> (records, their shape, \<^verbatim>\<open>applyRuntimeRecord\<close>, loading the chain) and
    \<open>LedgerOps\<close> (begin, finish, reset, bind and the commit). \<open>LedgerLaws\<close> holds the invariant of a
    replayed status, \<open>LedgerChain\<close> the chain on disk, \<open>LedgerSafety\<close> and \<open>LedgerCalls\<close> what a
    call does, \<open>LedgerLive\<close> when it is accepted, \<open>LedgerProps\<close> the properties.
  \<^item> The authority graph: \<open>Authority\<close> (compact_target_relation.go, recovery edges and
    \<^verbatim>\<open>compactAuthorityLeaves\<close>), \<open>AuthorityOps\<close> (\<^verbatim>\<open>RecoverCompactAuthority\<close>, the import of
    recovered evidence, \<^verbatim>\<open>RetryCompactFinalVerification\<close>). \<open>AuthorityLaws\<close> states the graph's contract
    and proves that the check decides it, \<open>AuthorityGraph\<close> what commits, recoveries and retries do to it,
    \<open>AuthorityProps\<close> the properties.
  \<^item> The status of a change (status.go, verification.go, review_gate.go, review_binding.go), by what
    is read: \<open>SddReport\<close> (lines and sections of a verification report, task lists),
    \<open>SddEvidence\<close> (\<^verbatim>\<open>verifyReportEvidence\<close>: pass, stale, the runs it names),
    \<open>SddGate\<close> (the review gate, native and legacy), \<open>SddBinding\<close> (the authority a binding
    selects and its gate). And by what is decided: \<open>SddStatus\<close> (artifacts, dependencies,
    \<^verbatim>\<open>resolveNext\<close>), \<open>SddRoute\<close> (the overrides of \<^verbatim>\<open>resolveChange\<close>, one function
    each, in the code's order), \<open>SddEngram\<close> (the memory store and the selection of a change).
    \<open>SddReportLaws\<close> reads a report back, \<open>SddLaws\<close> types a routing, orders the phases and
    follows each override, \<open>SddArchive\<close> says what reaches the archive; the concrete change and the
    properties are in \<open>SddProps\<close> and \<open>SddBoundProps\<close>.
  \<^item> The installer's logic: \<open>Planner\<close>, \<open>PlannerLaws\<close>, \<open>PlannerProps\<close>; \<open>Pipeline\<close>,
    \<open>PipelineProps\<close>.
  \<^item> The merging of configuration files (filemerge): \<open>Sections\<close> and \<open>SectionProps\<close> (section.go),
    \<open>Toml\<close> and \<open>TomlLaws\<close> (toml.go, with its scanner and key-path parser), \<open>Yaml\<close> (yaml.go),
    \<open>JsonMerge\<close> (json_merge.go), each with its properties. \<open>GoStrings\<close> has the facts about
    trimming and lines they share.

  \<^bold>\<open>Conventions.\<close> A Go string is a list of bytes; a Go string type with constants is a datatype of
  those constants with a constructor for any other text a persisted record may hold. A slice or map
  that may be nil is an option, since JSON and the code tell nil from empty. An \<^verbatim>\<open>int\<close> is an
  integer and its additions wrap at 64 bits (\<open>go_add\<close>). An operation on a pointer returns the
  updated state and an optional error: where the code changes the state before it fails, so does
  the model. A validator is a list of guards whose first failure is the error. SHA-256 and the JSON
  encoding are defined, not assumed, so identities are the very ones the program computes; proofs
  never assume that a hash is injective.

  \<^bold>\<open>What is a parameter.\<close> Git and the file system are read through arguments: the repository
  evidence and the guard of a commit, the result files of a review with the decoding and renewed
  admission of their envelopes and \<^verbatim>\<open>json.Valid\<close> (\<open>reopen_world\<close>, \<open>dispose_world\<close>), the answers of Git to the risk assessment (\<open>git_view\<close>), what
  the repository and the review store answer while a ledger call runs (\<open>ledger_view\<close>), what
  they answer while a status is resolved (\<open>sdd_env\<close>, \<open>authority_view\<close>) with the JSON decoders of
  receipts, evidence and configuration files, the world that installation steps change. A clock is a text.

  \<^bold>\<open>Bounds.\<close> Recursion that is not structural carries its termination proof: the queue of the sort by
  the queued nodes and open in-degrees, the searches by the text left. The scanners with fuel
  (\<open>valid_utf8\<close>, the JSON string escape, the unquoting of a TOML key) are started with the length of their input, and every
  step consumes a byte. The walks of the ledger over its chain and over recovery predecessors carry the
  code's own limit of 10000 as their fuel, and running out is the error the code returns. The walks
  over the ancestry of an authority end because each step marks a stored lineage as seen.

  \<^bold>\<open>What the lemmas show.\<close> For the compact review: which findings a completion sends to correction and
  when it escalates, stated on its input alone; acceptance of every complete input; what an
  approval guarantees; totality of verification and receipts; the length of a run, by the number of
  reopenings; that commits are compare-and-swap, immutable once finished, and that the successor check
  accepts what the operations produce, so that only the repository or the guard can refuse it. For
  the v1 transaction: the same for its events, its counters and its refuter. For the gate and the
  risk tier: exact characterisations. For the planner: topological order exactly without cycles, the
  closure of a selection. For the ledger: the
  invariant of its status, the refinement of the files by the events, idempotent and exclusive
  commits, an append-only history, the next action taken (a finish of any outcome included), and the two ways to lose it. For the
  authority graph: what its check decides, that recovery and retry replace one leaf, which histories
  keep it readable, and the two ways the store's own operations break it. For the status of a change:
  (in the planning-file store) what the recommendation to archive rests on, that a recommendation
  fits the dependencies it is given with and says why it blocks; which reports pass, that a written report reads back, and two
  places where a status keeps less or more than it means to. For the pipeline: what is
  reported, and that a failed installation is undone. For the
  configuration files: idempotence, removal and locality of a section; managed TOML tables and YAML
  servers can be written again, replaced and read back; a key of a table is set once and nothing else
  changes; what the removal of a tree keeps and when it loses the file; the merge of JSON by paths.

  \<^bold>\<open>Not modelled.\<close> Files, locks, symbolic links and Git subprocesses; the repair tools that move
  authority files; the building of snapshots; for the status of a change, the walk over its directories,
  the rendering of statuses and prompts, and the text of wrapped errors; the terminal
  interface, the command line and the writers for each agent, which are glue around the parts above;
  the decoder and encoder of \<^verbatim>\<open>encoding/json\<close> behind the JSON merge, which are its arguments.
\<close>

end
